(* ===== verification/Idl.thy ===== *)
theory Idl
  imports Prelude "HOL-Library.AList" "HOL-Library.List_Lexorder" "HOL-Library.Char_ord"
begin

text \<open>
  The IDL loader and the Borsh layout decoder, \<open>crates/idl/src/lib.rs\<close>: JSON type descriptors, the
  byte cursor, \<open>TypeRef::parse\<close>, \<open>LoadedIdl::load\<close>, \<open>decode_type\<close>, \<open>decode_instruction\<close> and
  \<open>decode_account\<close>. The hash and text codecs of third-party crates (SHA-256, hex, base58) are the
  fields of \<open>codecs\<close>, an argument of the definitions that call them. A layout may refer to itself,
  so the decoder takes fuel: \<open>None\<close> is a run that has not returned. Error messages are values that
  carry what the message prints.
\<close>

subsection \<open>JSON values and documents\<close>

text \<open>
  \<open>serde_json::Value\<close>; integers are the only numbers the decoder makes, and a number of a document
  that is not an integer is \<open>JFloat\<close>. Objects are association lists with distinct keys.
\<close>

datatype json =
    JNull
  | JBool bool
  | JInt int
  | JFloat string
  | JString string
  | JArray "json list"
  | JObject "(string \<times> json) list"

datatype invalid_reason =
    UnsupportedPrimitive string
  | DefinedNameNotString
  | ArrayShape
  | ArrayArity
  | ArrayLengthNotU64
  | UnsupportedComplex
  | UnsupportedDescriptor json
  | MissingProgramName
  | DiscriminatorLength nat
  | AccountLayoutMissing string
  | AccountLayoutKind string string
  | UnknownDefinedType string
  | UnsupportedKind string string

datatype decode_reason =
    BufferUnderflow
  | InvalidUtf8
  | TrailingBytes nat
  | EnumVariantOutOfBounds nat string

datatype idl_error = IdlIo | IdlJson | Invalid invalid_reason | Decode decode_reason

record idl_field =
  fld_name :: string
  fld_ty :: json

datatype idl_field_entry = Named idl_field | Unnamed json

record idl_variant =
  var_name :: string
  var_fields :: "idl_field_entry list"

record idl_type_layout =
  lay_kind :: string
  lay_fields :: "idl_field_entry list"
  lay_variants :: "idl_variant list"

record idl_type_definition =
  tdef_name :: string
  tdef_ty :: idl_type_layout

record idl_account =
  acc_name :: string
  acc_discriminator :: "u8 list option"
  acc_ty :: "idl_type_layout option"

record idl_account_item =
  item_name :: string
  item_address :: "string option"
  item_pda :: "json option"

record idl_instruction =
  ins_name :: string
  ins_discriminator :: "u8 list option"
  ins_accounts :: "idl_account_item list"
  ins_args :: "idl_field list"

record idl_metadata =
  meta_address :: "string option"
  meta_description :: "string option"
  meta_name :: "string option"
  meta_version :: "string option"
  meta_spec :: "string option"

record idl_document =
  doc_address :: "string option"
  doc_name :: string
  doc_version :: "string option"
  doc_metadata :: "idl_metadata option"
  doc_instructions :: "idl_instruction list"
  doc_accounts :: "idl_account list"
  doc_types :: "idl_type_definition list"

subsection \<open>Type references\<close>

datatype type_ref =
    TBool | TU8 | TU16 | TU32 | TU64 | TU128 | TI64
  | TString | TPublicKey | TBytes
  | TVec type_ref
  | TOption type_ref
  | TArray type_ref nat
  | TDefined string

definition parse_primitive :: "string \<Rightarrow> (idl_error, type_ref) result" where
  "parse_primitive name =
    (if name = ''bool'' then Ok TBool
     else if name = ''u8'' then Ok TU8
     else if name = ''u16'' then Ok TU16
     else if name = ''u32'' then Ok TU32
     else if name = ''u64'' then Ok TU64
     else if name = ''u128'' then Ok TU128
     else if name = ''i64'' then Ok TI64
     else if name = ''string'' then Ok TString
     else if name = ''publicKey'' \<or> name = ''pubkey'' then Ok TPublicKey
     else if name = ''bytes'' then Ok TBytes
     else Err (Invalid (UnsupportedPrimitive name)))"

definition parse_defined :: "json \<Rightarrow> (idl_error, type_ref) result" where
  "parse_defined inner =
    (case inner of
       JString name \<Rightarrow> Ok (TDefined name)
     | JObject defined \<Rightarrow>
         (case map_of defined ''name'' of
            Some (JString name) \<Rightarrow> Ok (TDefined name)
          | _ \<Rightarrow> Err (Invalid DefinedNameNotString))
     | _ \<Rightarrow> Err (Invalid DefinedNameNotString))"

definition as_u64 :: "json \<Rightarrow> nat option" where
  "as_u64 v = (case v of JInt n \<Rightarrow> if 0 \<le> n \<and> n < 2 ^ 64 then Some (nat n) else None | _ \<Rightarrow> None)"

lemma map_of_size [termination_simp]:
  "map_of kvs k = Some v \<Longrightarrow> size v < Suc (size_list (\<lambda>kv. Suc (size (snd kv))) kvs)"
  by (induction kvs) (auto split: if_splits)

lemma map_of_array_size [termination_simp]:
  "map_of kvs k = Some (JArray (v # vs)) \<Longrightarrow>
    size v < Suc (size_list (\<lambda>kv. Suc (size (snd kv))) kvs)"
  by (drule map_of_size) simp

fun parse_type :: "json \<Rightarrow> (idl_error, type_ref) result" where
  "parse_type (JString name) = parse_primitive name"
| "parse_type (JObject kvs) =
    (case map_of kvs ''vec'' of
       Some inner \<Rightarrow> rbind (parse_type inner) (\<lambda>t. Ok (TVec t))
     | None \<Rightarrow>
    (case map_of kvs ''option'' of
       Some inner \<Rightarrow> rbind (parse_type inner) (\<lambda>t. Ok (TOption t))
     | None \<Rightarrow>
    (case map_of kvs ''defined'' of
       Some inner \<Rightarrow> parse_defined inner
     | None \<Rightarrow>
    (case map_of kvs ''array'' of
       Some (JArray [inner, len]) \<Rightarrow>
         rbind (parse_type inner) (\<lambda>t.
           case as_u64 len of
             Some n \<Rightarrow> Ok (TArray t n)
           | None \<Rightarrow> Err (Invalid ArrayLengthNotU64))
     | Some (JArray _) \<Rightarrow> Err (Invalid ArrayArity)
     | Some _ \<Rightarrow> Err (Invalid ArrayShape)
     | None \<Rightarrow> Err (Invalid UnsupportedComplex)))))"
| "parse_type other = Err (Invalid (UnsupportedDescriptor other))"

subsection \<open>The byte cursor\<close>

text \<open>
  Offsets are naturals: a Rust slice is at most \<open>isize::MAX\<close> bytes long, so the
  \<open>saturating_add\<close> of \<open>read_fixed\<close> and the plain sum give the same verdict.
\<close>

record cursor =
  cur_data :: "u8 list"
  cur_offset :: nat

definition new_cursor :: "u8 list \<Rightarrow> cursor" where
  "new_cursor bs = \<lparr>cur_data = bs, cur_offset = 0\<rparr>"

definition read_fixed :: "nat \<Rightarrow> cursor \<Rightarrow> (idl_error, u8 list \<times> cursor) result" where
  "read_fixed len c =
    (let finish = cur_offset c + len in
     if finish > length (cur_data c) then Err (Decode BufferUnderflow)
     else Ok (take len (drop (cur_offset c) (cur_data c)), c\<lparr>cur_offset := finish\<rparr>))"

fun le_val :: "u8 list \<Rightarrow> nat" where
  "le_val [] = 0"
| "le_val (b # bs) = unat b + 256 * le_val bs"

definition from_le_bytes :: "u8 list \<Rightarrow> 'a::len word" where
  "from_le_bytes bs = of_nat (le_val bs)"

definition read_word :: "nat \<Rightarrow> cursor \<Rightarrow> (idl_error, 'a::len word \<times> cursor) result" where
  "read_word width c = rbind (read_fixed width c) (\<lambda>(bs, c'). Ok (from_le_bytes bs, c'))"

definition read_u8 :: "cursor \<Rightarrow> (idl_error, u8 \<times> cursor) result" where
  "read_u8 c = rbind (read_fixed 1 c) (\<lambda>(bs, c'). Ok (hd bs, c'))"

definition read_u16 :: "cursor \<Rightarrow> (idl_error, u16 \<times> cursor) result" where
  "read_u16 = read_word 2"

definition read_u32 :: "cursor \<Rightarrow> (idl_error, u32 \<times> cursor) result" where
  "read_u32 = read_word 4"

definition read_u64 :: "cursor \<Rightarrow> (idl_error, u64 \<times> cursor) result" where
  "read_u64 = read_word 8"

definition read_u128 :: "cursor \<Rightarrow> (idl_error, u128 \<times> cursor) result" where
  "read_u128 = read_word 16"

definition read_i64 :: "cursor \<Rightarrow> (idl_error, 64 word \<times> cursor) result" where
  "read_i64 = read_word 8"

definition read_vec :: "cursor \<Rightarrow> (idl_error, u8 list \<times> cursor) result" where
  "read_vec c = rbind (read_u32 c) (\<lambda>(len, c'). read_fixed (unat len) c')"

text \<open>UTF-8 as \<open>String::from_utf8\<close> checks it: no overlong form, no surrogate, at most U+10FFFF.\<close>

definition is_cont :: "u8 \<Rightarrow> bool" where
  "is_cont b \<longleftrightarrow> 128 \<le> b \<and> b \<le> 191"

fun utf8_valid :: "u8 list \<Rightarrow> bool" where
  "utf8_valid [] = True"
| "utf8_valid (b # bs) =
    (if b \<le> 127 then utf8_valid bs
     else if 194 \<le> b \<and> b \<le> 223 then
       (case bs of c1 # r \<Rightarrow> is_cont c1 \<and> utf8_valid r | _ \<Rightarrow> False)
     else if 224 \<le> b \<and> b \<le> 239 then
       (case bs of c1 # c2 # r \<Rightarrow>
          is_cont c1 \<and> is_cont c2 \<and> (b = 224 \<longrightarrow> 160 \<le> c1) \<and> (b = 237 \<longrightarrow> c1 \<le> 159) \<and>
          utf8_valid r
        | _ \<Rightarrow> False)
     else if 240 \<le> b \<and> b \<le> 244 then
       (case bs of c1 # c2 # c3 # r \<Rightarrow>
          is_cont c1 \<and> is_cont c2 \<and> is_cont c3 \<and> (b = 240 \<longrightarrow> 144 \<le> c1) \<and>
          (b = 244 \<longrightarrow> c1 \<le> 143) \<and> utf8_valid r
        | _ \<Rightarrow> False)
     else False)"

definition bytes_to_string :: "u8 list \<Rightarrow> string" where
  "bytes_to_string bs = map (\<lambda>b. char_of (unat b)) bs"

definition read_string :: "cursor \<Rightarrow> (idl_error, string \<times> cursor) result" where
  "read_string c =
    rbind (read_u32 c) (\<lambda>(len, c').
    rbind (read_fixed (unat len) c') (\<lambda>(bs, c'').
      if utf8_valid bs then Ok (bytes_to_string bs, c'') else Err (Decode InvalidUtf8)))"

definition expect_eof :: "cursor \<Rightarrow> (idl_error, unit) result" where
  "expect_eof c =
    (if cur_offset c = length (cur_data c) then Ok ()
     else Err (Decode (TrailingBytes (length (cur_data c) - cur_offset c))))"

subsection \<open>Decoding a value\<close>

record codecs =
  sha256 :: "u8 list \<Rightarrow> u8 list"
  hex_encode :: "u8 list \<Rightarrow> string"
  bs58_encode :: "u8 list \<Rightarrow> string"

definition normalized_field :: "idl_field_entry \<Rightarrow> nat \<Rightarrow> idl_field" where
  "normalized_field field index =
    (case field of
       Named f \<Rightarrow> f
     | Unnamed ty \<Rightarrow> \<lparr>fld_name = ''field'' @ show_nat index, fld_ty = ty\<rparr>)"

type_synonym defined_types = "string \<rightharpoonup> idl_type_layout"

type_synonym 'a decode_result = "(idl_error, 'a \<times> cursor) result option"

definition dbind ::
  "'a decode_result \<Rightarrow> ('a \<Rightarrow> cursor \<Rightarrow> 'b decode_result) \<Rightarrow> 'b decode_result" where
  "dbind r f =
    (case r of None \<Rightarrow> None | Some (Inl e) \<Rightarrow> Some (Inl e) | Some (Inr (a, c)) \<Rightarrow> f a c)"

abbreviation dreturn :: "'a \<Rightarrow> cursor \<Rightarrow> 'a decode_result" where
  "dreturn a c \<equiv> Some (Inr (a, c))"

text \<open>\<open>for _ in 0..len { out.push(self.decode_type(inner, cursor)?) }\<close>\<close>

fun decode_times ::
  "(cursor \<Rightarrow> 'a decode_result) \<Rightarrow> nat \<Rightarrow> cursor \<Rightarrow> 'a list decode_result" where
  "decode_times d 0 c = dreturn [] c"
| "decode_times d (Suc n) c =
    dbind (d c) (\<lambda>v c1. dbind (decode_times d n c1) (\<lambda>vs c2. dreturn (v # vs) c2))"

text \<open>The loop over the fields of a struct or of an enum variant, from field number \<open>index\<close>.\<close>

fun decode_fields ::
  "(type_ref \<Rightarrow> cursor \<Rightarrow> json decode_result) \<Rightarrow> nat \<Rightarrow> idl_field_entry list \<Rightarrow> cursor \<Rightarrow>
   (string \<times> json) list decode_result" where
  "decode_fields d index [] c = dreturn [] c"
| "decode_fields d index (entry # rest) c =
    (let field = normalized_field entry index in
     case parse_type (fld_ty field) of
       Inl e \<Rightarrow> Some (Inl e)
     | Inr ty \<Rightarrow>
         dbind (d ty c) (\<lambda>v c1.
         dbind (decode_fields d (Suc index) rest c1) (\<lambda>kvs c2.
           dreturn ((fld_name field, v) # kvs) c2)))"

text \<open>\<open>map.insert(name, value)\<close> in order: a later field of the same name replaces the earlier.\<close>

definition object_of :: "(string \<times> json) list \<Rightarrow> (string \<times> json) list" where
  "object_of kvs = fold (\<lambda>(k, v) m. AList.update k v m) kvs []"

definition decode_struct ::
  "(type_ref \<Rightarrow> cursor \<Rightarrow> json decode_result) \<Rightarrow> idl_type_layout \<Rightarrow> cursor \<Rightarrow>
   json decode_result" where
  "decode_struct d layout c =
    dbind (decode_fields d 0 (lay_fields layout) c) (\<lambda>kvs c1. dreturn (JObject (object_of kvs)) c1)"

definition decode_enum ::
  "(type_ref \<Rightarrow> cursor \<Rightarrow> json decode_result) \<Rightarrow> string \<Rightarrow> idl_type_layout \<Rightarrow> cursor \<Rightarrow>
   json decode_result" where
  "decode_enum d name layout c =
    dbind (Some (read_u8 c)) (\<lambda>tag c1.
      if unat tag < length (lay_variants layout) then
        (let variant = lay_variants layout ! unat tag in
         if var_fields variant = [] then dreturn (JString (var_name variant)) c1
         else dbind (decode_fields d 0 (var_fields variant) c1) (\<lambda>kvs c2.
           dreturn (JObject [(''variant'', JString (var_name variant)),
                             (''fields'', JArray (map snd kvs))]) c2))
      else Some (Err (Decode (EnumVariantOutOfBounds (unat tag) name))))"

definition decode_defined ::
  "defined_types \<Rightarrow> (type_ref \<Rightarrow> cursor \<Rightarrow> json decode_result) \<Rightarrow> string \<Rightarrow> cursor \<Rightarrow>
   json decode_result" where
  "decode_defined types d name c =
    (case types name of
       None \<Rightarrow> Some (Err (Invalid (UnknownDefinedType name)))
     | Some layout \<Rightarrow>
         if lay_kind layout = ''struct'' then decode_struct d layout c
         else if lay_kind layout = ''enum'' then decode_enum d name layout c
         else Some (Err (Invalid (UnsupportedKind name (lay_kind layout)))))"

definition decode_step ::
  "codecs \<Rightarrow> defined_types \<Rightarrow> (type_ref \<Rightarrow> cursor \<Rightarrow> json decode_result) \<Rightarrow> type_ref \<Rightarrow> cursor \<Rightarrow>
   json decode_result" where
  "decode_step K types d ty c =
    (case ty of
       TBool \<Rightarrow> dbind (Some (read_u8 c)) (\<lambda>b c'. dreturn (JBool (b \<noteq> 0)) c')
     | TU8 \<Rightarrow> dbind (Some (read_u8 c)) (\<lambda>w c'. dreturn (JInt (uint w)) c')
     | TU16 \<Rightarrow> dbind (Some (read_u16 c)) (\<lambda>w c'. dreturn (JInt (uint w)) c')
     | TU32 \<Rightarrow> dbind (Some (read_u32 c)) (\<lambda>w c'. dreturn (JInt (uint w)) c')
     | TU64 \<Rightarrow> dbind (Some (read_u64 c)) (\<lambda>w c'. dreturn (JInt (uint w)) c')
     | TU128 \<Rightarrow> dbind (Some (read_u128 c)) (\<lambda>w c'. dreturn (JString (show_nat (unat w))) c')
     | TI64 \<Rightarrow> dbind (Some (read_i64 c)) (\<lambda>w c'. dreturn (JInt (sint w)) c')
     | TString \<Rightarrow> dbind (Some (read_string c)) (\<lambda>s c'. dreturn (JString s) c')
     | TPublicKey \<Rightarrow>
         dbind (Some (read_fixed 32 c)) (\<lambda>bs c'. dreturn (JString (bs58_encode K bs)) c')
     | TBytes \<Rightarrow> dbind (Some (read_vec c)) (\<lambda>bs c'. dreturn (JString (hex_encode K bs)) c')
     | TVec inner \<Rightarrow>
         dbind (Some (read_u32 c)) (\<lambda>len c1.
         dbind (decode_times (d inner) (unat len) c1) (\<lambda>vs c2. dreturn (JArray vs) c2))
     | TOption inner \<Rightarrow>
         dbind (Some (read_u8 c)) (\<lambda>tag c1. if tag = 0 then dreturn JNull c1 else d inner c1)
     | TArray inner len \<Rightarrow>
         dbind (decode_times (d inner) len c) (\<lambda>vs c1. dreturn (JArray vs) c1)
     | TDefined name \<Rightarrow> decode_defined types d name c)"

fun decode_type ::
  "nat \<Rightarrow> codecs \<Rightarrow> defined_types \<Rightarrow> type_ref \<Rightarrow> cursor \<Rightarrow> json decode_result" where
  "decode_type 0 K types ty c = None"
| "decode_type (Suc fuel) K types ty c = decode_step K types (decode_type fuel K types) ty c"


subsection \<open>Loading an IDL\<close>

text \<open>
  \<open>LoadedIdl::load\<close> after the file is read and parsed: \<open>raw\<close> is the text of the file and \<open>document\<close>
  what \<open>serde_json\<close> makes of it. A map insertion replaces an earlier entry of the same key.
\<close>

type_synonym discriminator = "u8 list" \<comment> \<open>\<open>[u8; 8]\<close>\<close>

record loaded_instruction =
  li_name :: string
  li_accounts :: "string list"
  li_args :: "(string \<times> type_ref) list"

record loaded_account =
  la_name :: string
  la_fields :: "(string \<times> type_ref) list"

record loaded_idl =
  idl_path :: string
  idl_hash :: string
  idl_doc :: idl_document
  instruction_map :: "discriminator \<rightharpoonup> loaded_instruction"
  account_map :: "discriminator \<rightharpoonup> loaded_account"
  idl_types :: defined_types

definition string_bytes :: "string \<Rightarrow> u8 list" where
  "string_bytes s = map (\<lambda>c. of_nat (of_char c)) s"

definition discriminator_vec_to_array :: "u8 list \<Rightarrow> (idl_error, discriminator) result" where
  "discriminator_vec_to_array value =
    (if length value \<noteq> 8 then Err (Invalid (DiscriminatorLength (length value))) else Ok value)"

definition anchor_discriminator :: "codecs \<Rightarrow> string \<Rightarrow> string \<Rightarrow> discriminator" where
  "anchor_discriminator K namespace name =
    take 8 (sha256 K (string_bytes (namespace @ '':'' @ name)))"

definition discriminator_of ::
  "codecs \<Rightarrow> string \<Rightarrow> string \<Rightarrow> u8 list option \<Rightarrow> (idl_error, discriminator) result" where
  "discriminator_of K namespace name given =
    (case given of
       Some d \<Rightarrow> discriminator_vec_to_array d
     | None \<Rightarrow> Ok (anchor_discriminator K namespace name))"

definition named_document :: "idl_document \<Rightarrow> idl_document" where
  "named_document document =
    (let d1 = (if is_blank (doc_name document)
               then (case Option.bind (doc_metadata document) meta_name of
                       Some n \<Rightarrow> document\<lparr>doc_name := n\<rparr>
                     | None \<Rightarrow> document)
               else document)
     in if doc_version d1 = None
        then d1\<lparr>doc_version := Option.bind (doc_metadata d1) meta_version\<rparr>
        else d1)"

definition load_instruction ::
  "codecs \<Rightarrow> idl_instruction \<Rightarrow> (idl_error, discriminator \<times> loaded_instruction) result" where
  "load_instruction K ins =
    rbind (discriminator_of K ''global'' (ins_name ins) (ins_discriminator ins)) (\<lambda>disc.
    rbind (rmap (\<lambda>f. rbind (parse_type (fld_ty f)) (\<lambda>t. Ok (fld_name f, t))) (ins_args ins))
      (\<lambda>args. Ok (disc, \<lparr>li_name = ins_name ins,
                          li_accounts = map item_name (ins_accounts ins), li_args = args\<rparr>)))"

definition numbered_fields :: "idl_field_entry list \<Rightarrow> idl_field list" where
  "numbered_fields entries = map (\<lambda>(i, e). normalized_field e i) (enumerate 0 entries)"

definition load_account ::
  "codecs \<Rightarrow> defined_types \<Rightarrow> idl_account \<Rightarrow> (idl_error, discriminator \<times> loaded_account) result" where
  "load_account K types account =
    rbind (discriminator_of K ''account'' (acc_name account) (acc_discriminator account)) (\<lambda>disc.
      case (case acc_ty account of Some t \<Rightarrow> Some t | None \<Rightarrow> types (acc_name account)) of
        None \<Rightarrow> Err (Invalid (AccountLayoutMissing (acc_name account)))
      | Some layout \<Rightarrow>
          if lay_kind layout \<noteq> ''struct''
          then Err (Invalid (AccountLayoutKind (acc_name account) (lay_kind layout)))
          else rbind (rmap (\<lambda>f. rbind (parse_type (fld_ty f)) (\<lambda>t. Ok (fld_name f, t)))
                        (numbered_fields (lay_fields layout)))
                 (\<lambda>fs. Ok (disc, \<lparr>la_name = acc_name account, la_fields = fs\<rparr>)))"

definition insert_all :: "('k \<times> 'v) list \<Rightarrow> ('k \<rightharpoonup> 'v)" where
  "insert_all kvs = fold (\<lambda>(k, v) m. m(k \<mapsto> v)) kvs (\<lambda>_. None)"

definition load_idl ::
  "codecs \<Rightarrow> string \<Rightarrow> u8 list \<Rightarrow> idl_document \<Rightarrow> (idl_error, loaded_idl) result" where
  "load_idl K path raw document =
    (let document = named_document document in
     if is_blank (doc_name document) then Err (Invalid MissingProgramName)
     else
       (let types = insert_all (map (\<lambda>t. (tdef_name t, tdef_ty t)) (doc_types document)) in
        rbind (rmap (load_instruction K) (doc_instructions document)) (\<lambda>instructions.
        rbind (rmap (load_account K types) (doc_accounts document)) (\<lambda>accounts.
          Ok \<lparr>idl_path = path, idl_hash = hex_encode K (sha256 K raw), idl_doc = document,
              instruction_map = insert_all instructions, account_map = insert_all accounts,
              idl_types = types\<rparr>))))"

definition program_address :: "loaded_idl \<Rightarrow> string option" where
  "program_address idl =
    (case doc_address (idl_doc idl) of
       Some a \<Rightarrow> Some a
     | None \<Rightarrow> Option.bind (doc_metadata (idl_doc idl)) meta_address)"

definition instruction_names :: "loaded_idl \<Rightarrow> string list" where
  "instruction_names idl = sort (map ins_name (doc_instructions (idl_doc idl)))"

definition account_names :: "loaded_idl \<Rightarrow> string list" where
  "account_names idl = sort (map acc_name (doc_accounts (idl_doc idl)))"

definition instruction_account_names :: "loaded_idl \<Rightarrow> string \<Rightarrow> string list option" where
  "instruction_account_names idl name =
    map_option (\<lambda>ins. map item_name (ins_accounts ins))
      (find (\<lambda>ins. ins_name ins = name) (doc_instructions (idl_doc idl)))"

definition instruction_discriminator_hex :: "codecs \<Rightarrow> loaded_idl \<Rightarrow> string \<Rightarrow> string option" where
  "instruction_discriminator_hex K idl name =
    (let found = find (\<lambda>ins. ins_name ins = name) (doc_instructions (idl_doc idl));
         explicit = Option.bind found (\<lambda>ins.
           case ins_discriminator ins of
             None \<Rightarrow> None
           | Some d \<Rightarrow> (case discriminator_vec_to_array d of Inl _ \<Rightarrow> None | Inr a \<Rightarrow> Some a));
         chosen = (case explicit of
             Some d \<Rightarrow> Some d
           | None \<Rightarrow>
               if list_ex (\<lambda>ins. ins_name ins = name) (doc_instructions (idl_doc idl))
               then Some (anchor_discriminator K ''global'' name) else None)
     in map_option (hex_encode K) chosen)"

definition account_field_names :: "loaded_idl \<Rightarrow> string \<Rightarrow> string list option" where
  "account_field_names idl name =
    (let inline = Option.bind (find (\<lambda>a. acc_name a = name) (doc_accounts (idl_doc idl))) acc_ty;
         layout = (case inline of Some l \<Rightarrow> Some l | None \<Rightarrow> idl_types idl name)
     in map_option (\<lambda>l. map fld_name (numbered_fields (lay_fields l))) layout)"

subsection \<open>Decoding instructions and accounts\<close>

record decoded_instruction =
  di_name :: string
  di_accounts :: "string list"
  di_args :: "string \<rightharpoonup> json"

record decoded_account =
  da_name :: string
  da_fields :: "string \<rightharpoonup> json"

datatype instruction_decode =
    KnownInstruction decoded_instruction
  | UnknownInstruction string nat

datatype account_decode =
    KnownAccount decoded_account
  | UnknownAccount string nat

fun decode_named ::
  "(type_ref \<Rightarrow> cursor \<Rightarrow> json decode_result) \<Rightarrow> (string \<times> type_ref) list \<Rightarrow>
   (string \<rightharpoonup> json) \<Rightarrow> cursor \<Rightarrow> (string \<rightharpoonup> json) decode_result" where
  "decode_named d [] args c = dreturn args c"
| "decode_named d ((name, ty) # rest) args c =
    dbind (d ty c) (\<lambda>v c1. decode_named d rest (args(name \<mapsto> v)) c1)"

definition decode_body ::
  "nat \<Rightarrow> codecs \<Rightarrow> defined_types \<Rightarrow> (string \<times> type_ref) list \<Rightarrow> u8 list \<Rightarrow>
   (idl_error, string \<rightharpoonup> json) result option" where
  "decode_body fuel K types layout body =
    (case decode_named (decode_type fuel K types) layout (\<lambda>_. None) (new_cursor body) of
       None \<Rightarrow> None
     | Some (Inl e) \<Rightarrow> Some (Inl e)
     | Some (Inr (args, c)) \<Rightarrow> Some (rbind (expect_eof c) (\<lambda>_. Ok args)))"

definition decode_instruction ::
  "nat \<Rightarrow> codecs \<Rightarrow> loaded_idl \<Rightarrow> u8 list \<Rightarrow> (idl_error, instruction_decode) result option" where
  "decode_instruction fuel K idl data =
    (if length data < 8 then Some (Ok (UnknownInstruction (hex_encode K data) (length data)))
     else
       (case instruction_map idl (take 8 data) of
          None \<Rightarrow> Some (Ok (UnknownInstruction (hex_encode K (take 8 data)) (length data)))
        | Some layout \<Rightarrow>
            map_option (\<lambda>r. rbind r (\<lambda>args.
                Ok (KnownInstruction \<lparr>di_name = li_name layout, di_accounts = li_accounts layout,
                                      di_args = args\<rparr>)))
              (decode_body fuel K (idl_types idl) (li_args layout) (drop 8 data))))"

definition decode_account ::
  "nat \<Rightarrow> codecs \<Rightarrow> loaded_idl \<Rightarrow> u8 list \<Rightarrow> (idl_error, account_decode) result option" where
  "decode_account fuel K idl data =
    (if length data < 8 then Some (Ok (UnknownAccount (hex_encode K data) (length data)))
     else
       (case account_map idl (take 8 data) of
          None \<Rightarrow> Some (Ok (UnknownAccount (hex_encode K (take 8 data)) (length data)))
        | Some layout \<Rightarrow>
            map_option (\<lambda>r. rbind r (\<lambda>fs.
                Ok (KnownAccount \<lparr>da_name = la_name layout, da_fields = fs\<rparr>)))
              (decode_body fuel K (idl_types idl) (la_fields layout) (drop 8 data))))"

end
