(* ===== verification/Borsh.thy ===== *)
theory Borsh
  imports Idl
begin

text \<open>
  What the layout decoder of theory Idl promises. The grammar \<open>borsh\<close> says which byte
  strings encode a value of a type, independently of the decoder's control flow; the decoder
  accepts exactly the grammar (soundness and completeness), consumes exactly the encoded bytes,
  and returns on every input when the layouts do not refer to themselves.
\<close>

subsection \<open>The byte source interface\<close>

text \<open>
  The decoder's client of the cursor: \<open>fetch n\<close> hands out the next \<open>n\<close> bytes and
  \<open>consumed c bs c'\<close> says that \<open>bs\<close> lie between the positions \<open>c\<close> and \<open>c'\<close>.
\<close>

locale byte_source =
  fixes fetch :: "nat \<Rightarrow> 'c \<Rightarrow> ('e, u8 list \<times> 'c) result"
    and consumed :: "'c \<Rightarrow> u8 list \<Rightarrow> 'c \<Rightarrow> bool"
  assumes fetch_iff: "fetch n c = Inr (bs, c') \<longleftrightarrow> length bs = n \<and> consumed c bs c'"
    and consumed_append: "consumed c (bs @ cs) c'' \<longleftrightarrow>
      (\<exists>c'. consumed c bs c' \<and> consumed c' cs c'')"
begin

lemma consumed_same_length:
  assumes "consumed c bs c1" and "consumed c cs c2" and "length bs = length cs"
  shows "bs = cs \<and> c1 = c2"
proof -
  have "fetch (length bs) c = Inr (bs, c1)" and "fetch (length bs) c = Inr (cs, c2)"
    using assms fetch_iff by auto
  then show ?thesis by simp
qed

lemma consumed_trans: "consumed c bs c1 \<Longrightarrow> consumed c1 cs c2 \<Longrightarrow> consumed c (bs @ cs) c2"
  using consumed_append by blast

lemma fetch_add:
  "fetch m c = Inr (bs, c1) \<Longrightarrow> fetch n c1 = Inr (cs, c2) \<Longrightarrow> fetch (m + n) c = Inr (bs @ cs, c2)"
  by (auto simp: fetch_iff consumed_append)

end

definition cur_ok :: "cursor \<Rightarrow> bool" where
  "cur_ok c \<longleftrightarrow> cur_offset c \<le> length (cur_data c)"

definition reads :: "cursor \<Rightarrow> u8 list \<Rightarrow> cursor \<Rightarrow> bool" where
  "reads c bs c' \<longleftrightarrow>
     c' = c\<lparr>cur_offset := cur_offset c + length bs\<rparr> \<and> cur_ok c' \<and>
     take (length bs) (drop (cur_offset c) (cur_data c)) = bs"

lemma read_fixed_iff: "read_fixed n c = Inr (bs, c') \<longleftrightarrow> length bs = n \<and> reads c bs c'"
  by (auto simp: read_fixed_def reads_def cur_ok_def Let_def)

lemma reads_append: "reads c (bs @ cs) c'' \<longleftrightarrow> (\<exists>c'. reads c bs c' \<and> reads c' cs c'')"
proof
  assume a: "reads c (bs @ cs) c''"
  let ?rest = "drop (cur_offset c) (cur_data c)"
  from a have eq: "take (length bs + length cs) ?rest = bs @ cs"
    and fits: "cur_offset c + (length bs + length cs) \<le> length (cur_data c)"
    by (auto simp: reads_def cur_ok_def)
  have "take (length bs) (take (length bs + length cs) ?rest) = take (length bs) ?rest"
    by (simp add: take_take)
  with eq have front: "take (length bs) ?rest = bs" by simp
  have "drop (length bs) (take (length bs + length cs) ?rest) = cs"
    by (simp add: eq)
  then have tail: "take (length cs) (drop (cur_offset c + length bs) (cur_data c)) = cs"
    by (simp add: drop_take add.commute)
  let ?c' = "c\<lparr>cur_offset := cur_offset c + length bs\<rparr>"
  have "reads c bs ?c'" using front fits by (simp add: reads_def cur_ok_def)
  moreover have "reads ?c' cs c''" using a tail by (auto simp: reads_def add.assoc)
  ultimately show "\<exists>c'. reads c bs c' \<and> reads c' cs c''" by blast
next
  assume "\<exists>c'. reads c bs c' \<and> reads c' cs c''"
  then show "reads c (bs @ cs) c''"
    by (auto simp: reads_def cur_ok_def take_add add.assoc add.commute)
qed

interpretation cursor_source: byte_source read_fixed reads
  by unfold_locales (auto simp: read_fixed_iff reads_append)

lemma reads_Nil [simp]: "reads c [] c' \<longleftrightarrow> c' = c \<and> cur_ok c"
  by (auto simp: reads_def)

lemma reads_ok: "reads c bs c' \<Longrightarrow> cur_ok c'"
  by (auto simp: reads_def)

lemma read_word_iff:
  "read_word n c = Inr (w, c') \<longleftrightarrow> (\<exists>bs. length bs = n \<and> reads c bs c' \<and> w = from_le_bytes bs)"
  by (auto simp: read_word_def rbind_eq_Inr read_fixed_iff split: prod.splits)

lemma read_u8_iff: "read_u8 c = Inr (b, c') \<longleftrightarrow> reads c [b] c'"
proof
  assume "read_u8 c = Inr (b, c')"
  then obtain bs where "length bs = 1" "reads c bs c'" "b = hd bs"
    by (auto simp: read_u8_def rbind_eq_Inr read_fixed_iff)
  then show "reads c [b] c'" by (cases bs) auto
next
  assume "reads c [b] c'"
  then have "read_fixed 1 c = Inr ([b], c')" by (simp add: read_fixed_iff)
  then show "read_u8 c = Inr (b, c')" by (simp add: read_u8_def)
qed

definition len_prefix :: "u8 list \<Rightarrow> nat \<Rightarrow> bool" where
  "len_prefix lb n \<longleftrightarrow> length lb = 4 \<and> unat (from_le_bytes lb :: u32) = n"

lemma read_u32_iff:
  "read_u32 c = Inr (w, c') \<longleftrightarrow> (\<exists>lb. len_prefix lb (unat w) \<and> reads c lb c')"
  by (auto simp: read_u32_def read_word_iff len_prefix_def word_unat_eq_iff)

lemma read_vec_iff:
  "read_vec c = Inr (bs, c') \<longleftrightarrow> (\<exists>lb. len_prefix lb (length bs) \<and> reads c (lb @ bs) c')"
  by (auto simp: read_vec_def rbind_eq_Inr read_u32_iff read_fixed_iff reads_append len_prefix_def
      split: prod.splits) (metis)

lemma read_string_iff:
  "read_string c = Inr (s, c') \<longleftrightarrow>
    (\<exists>lb bs. len_prefix lb (length bs) \<and> reads c (lb @ bs) c' \<and> utf8_valid bs \<and>
       s = bytes_to_string bs)"
proof -
  have "read_string c = rbind (read_vec c)
      (\<lambda>(bs, c'). if utf8_valid bs then Ok (bytes_to_string bs, c') else Err (Decode InvalidUtf8))"
    by (auto simp: read_string_def read_vec_def rbind_def split: sum.splits prod.splits)
  then show ?thesis
    by (auto simp: rbind_eq_Inr read_vec_iff split: if_splits)
qed


subsection \<open>The grammar\<close>

fun field_types ::
  "nat \<Rightarrow> idl_field_entry list \<Rightarrow> (idl_error, (string \<times> type_ref) list) result" where
  "field_types i [] = Inr []"
| "field_types i (e # es) =
    rbind (parse_type (fld_ty (normalized_field e i))) (\<lambda>t.
    rbind (field_types (Suc i) es) (\<lambda>fts. Inr ((fld_name (normalized_field e i), t) # fts)))"

inductive borsh :: "codecs \<Rightarrow> defined_types \<Rightarrow> type_ref \<Rightarrow> json \<Rightarrow> u8 list \<Rightarrow> bool"
  and borsh_list ::
    "codecs \<Rightarrow> defined_types \<Rightarrow> type_ref list \<Rightarrow> json list \<Rightarrow> u8 list \<Rightarrow> bool"
  for K :: codecs and types :: defined_types where
  b_bool: "borsh K types TBool (JBool (b \<noteq> 0)) [b]"
| b_u8: "borsh K types TU8 (JInt (uint b)) [b]"
| b_u16: "length bs = 2 \<Longrightarrow> borsh K types TU16 (JInt (uint (from_le_bytes bs :: u16))) bs"
| b_u32: "length bs = 4 \<Longrightarrow> borsh K types TU32 (JInt (uint (from_le_bytes bs :: u32))) bs"
| b_u64: "length bs = 8 \<Longrightarrow> borsh K types TU64 (JInt (uint (from_le_bytes bs :: u64))) bs"
| b_u128: "length bs = 16 \<Longrightarrow>
    borsh K types TU128 (JString (show_nat (unat (from_le_bytes bs :: u128)))) bs"
| b_i64: "length bs = 8 \<Longrightarrow> borsh K types TI64 (JInt (sint (from_le_bytes bs :: 64 word))) bs"
| b_string: "len_prefix lb (length bs) \<Longrightarrow> utf8_valid bs \<Longrightarrow>
    borsh K types TString (JString (bytes_to_string bs)) (lb @ bs)"
| b_pubkey: "length bs = 32 \<Longrightarrow> borsh K types TPublicKey (JString (bs58_encode K bs)) bs"
| b_bytes: "len_prefix lb (length bs) \<Longrightarrow>
    borsh K types TBytes (JString (hex_encode K bs)) (lb @ bs)"
| b_vec: "len_prefix lb n \<Longrightarrow> borsh_list K types (replicate n ty) vs bs \<Longrightarrow>
    borsh K types (TVec ty) (JArray vs) (lb @ bs)"
| b_none: "borsh K types (TOption ty) JNull [0]"
| b_some: "tag \<noteq> 0 \<Longrightarrow> borsh K types ty v bs \<Longrightarrow> borsh K types (TOption ty) v (tag # bs)"
| b_array: "borsh_list K types (replicate n ty) vs bs \<Longrightarrow>
    borsh K types (TArray ty n) (JArray vs) bs"
| b_struct: "types name = Some layout \<Longrightarrow> lay_kind layout = ''struct'' \<Longrightarrow>
    field_types 0 (lay_fields layout) = Inr fts \<Longrightarrow>
    borsh_list K types (map snd fts) vs bs \<Longrightarrow>
    borsh K types (TDefined name) (JObject (object_of (zip (map fst fts) vs))) bs"
| b_unit_variant: "types name = Some layout \<Longrightarrow> lay_kind layout = ''enum'' \<Longrightarrow>
    unat tag < length (lay_variants layout) \<Longrightarrow> variant = lay_variants layout ! unat tag \<Longrightarrow>
    var_fields variant = [] \<Longrightarrow>
    borsh K types (TDefined name) (JString (var_name variant)) [tag]"
| b_variant: "types name = Some layout \<Longrightarrow> lay_kind layout = ''enum'' \<Longrightarrow>
    unat tag < length (lay_variants layout) \<Longrightarrow> variant = lay_variants layout ! unat tag \<Longrightarrow>
    var_fields variant \<noteq> [] \<Longrightarrow> field_types 0 (var_fields variant) = Inr fts \<Longrightarrow>
    borsh_list K types (map snd fts) vs bs \<Longrightarrow>
    borsh K types (TDefined name)
      (JObject [(''variant'', JString (var_name variant)), (''fields'', JArray vs)]) (tag # bs)"
| b_nil: "borsh_list K types [] [] []"
| b_cons: "borsh K types ty v bs \<Longrightarrow> borsh_list K types tys vs cs \<Longrightarrow>
    borsh_list K types (ty # tys) (v # vs) (bs @ cs)"

lemma borsh_list_length: "borsh_list K types tys vs bs \<Longrightarrow> length vs = length tys"
  by (induction tys arbitrary: vs bs) (auto elim: borsh_list.cases)

subsection \<open>Reading the decoder's combinators\<close>

lemma dbind_eq_Ok:
  "dbind r f = Some (Inr x) \<longleftrightarrow> (\<exists>a c. r = Some (Inr (a, c)) \<and> f a c = Some (Inr x))"
  by (auto simp: dbind_def split: option.splits sum.splits)

lemma dbind_simps [simp]:
  "dbind None f = None" "dbind (Some (Inl e)) f = Some (Inl e)"
  "dbind (Some (Inr (a, c))) f = f a c"
  by (simp_all add: dbind_def)

fun decode_list ::
  "(type_ref \<Rightarrow> cursor \<Rightarrow> json decode_result) \<Rightarrow> type_ref list \<Rightarrow> cursor \<Rightarrow>
   json list decode_result" where
  "decode_list d [] c = dreturn [] c"
| "decode_list d (ty # tys) c =
    dbind (d ty c) (\<lambda>v c1. dbind (decode_list d tys c1) (\<lambda>vs c2. dreturn (v # vs) c2))"

lemma decode_times_list: "decode_times (d ty) n c = decode_list d (replicate n ty) c"
  by (induction n arbitrary: c) simp_all

lemma decode_fields_Ok:
  "decode_fields d i es c = Some (Inr (kvs, c')) \<longleftrightarrow>
    (\<exists>fts vs. field_types i es = Inr fts \<and> decode_list d (map snd fts) c = Some (Inr (vs, c')) \<and>
       kvs = zip (map fst fts) vs)"
proof (induction es arbitrary: i c kvs)
  case Nil
  then show ?case by auto
next
  case (Cons e es)
  show ?case
  proof (cases "parse_type (fld_ty (normalized_field e i))")
    case (Inl err)
    then show ?thesis by (simp add: Let_def)
  next
    case (Inr ty)
    then show ?thesis
      by (auto simp: Let_def dbind_eq_Ok Cons.IH rbind_eq_Inr)
  qed
qed

lemma decode_list_length:
  "decode_list d tys c = Some (Inr (vs, c')) \<Longrightarrow> length vs = length tys"
  by (induction tys arbitrary: c vs) (auto simp: dbind_eq_Ok)

subsection \<open>Soundness\<close>

definition decodes_soundly ::
  "codecs \<Rightarrow> defined_types \<Rightarrow> (type_ref \<Rightarrow> cursor \<Rightarrow> json decode_result) \<Rightarrow> bool" where
  "decodes_soundly K types d \<longleftrightarrow>
    (\<forall>ty c v c'. cur_ok c \<longrightarrow> d ty c = Some (Inr (v, c')) \<longrightarrow>
       (\<exists>bs. borsh K types ty v bs \<and> reads c bs c'))"

lemma decode_list_sound:
  assumes "decodes_soundly K types d" and "cur_ok c"
    and "decode_list d tys c = Some (Inr (vs, c'))"
  shows "\<exists>bs. borsh_list K types tys vs bs \<and> reads c bs c'"
  using assms(2,3)
proof (induction tys arbitrary: c vs)
  case Nil
  then show ?case by (auto intro: borsh_borsh_list.b_nil)
next
  case (Cons ty tys)
  then obtain v c1 ws where v: "d ty c = Some (Inr (v, c1))"
    and ws: "decode_list d tys c1 = Some (Inr (ws, c'))" and vs: "vs = v # ws"
    by (auto simp: dbind_eq_Ok)
  from assms(1) Cons.prems(1) v obtain bs where bs: "borsh K types ty v bs" "reads c bs c1"
    by (meson decodes_soundly_def)
  from Cons.IH [OF reads_ok [OF bs(2)] ws] obtain cs
    where cs: "borsh_list K types tys ws cs" "reads c1 cs c'" by blast
  from bs cs have "borsh_list K types (ty # tys) vs (bs @ cs) \<and> reads c (bs @ cs) c'"
    using vs by (auto intro: borsh_borsh_list.b_cons cursor_source.consumed_trans)
  then show ?case by blast
qed

lemma decode_defined_sound:
  assumes d: "decodes_soundly K types d" and ok: "cur_ok c"
    and run: "decode_defined types d name c = Some (Inr (v, c'))"
  shows "\<exists>bs. borsh K types (TDefined name) v bs \<and> reads c bs c'"
proof -
  from run obtain layout where layout: "types name = Some layout"
    by (auto simp: decode_defined_def split: option.splits)
  consider (struct) "lay_kind layout = ''struct''" "decode_struct d layout c = Some (Inr (v, c'))"
    | (enum) "lay_kind layout = ''enum''" "decode_enum d name layout c = Some (Inr (v, c'))"
    using run layout by (auto simp: decode_defined_def split: if_splits)
  then show ?thesis
  proof cases
    case struct
    then obtain fts vs where fts: "field_types 0 (lay_fields layout) = Inr fts"
      and vs: "decode_list d (map snd fts) c = Some (Inr (vs, c'))"
      and v: "v = JObject (object_of (zip (map fst fts) vs))"
      by (auto simp: decode_struct_def dbind_eq_Ok decode_fields_Ok)
    from decode_list_sound [OF d ok vs] show ?thesis
      using borsh_borsh_list.b_struct [where types = types and name = name, OF layout struct(1) fts] v by blast
  next
    case enum
    then obtain tag c1 where tag: "reads c [tag] c1" "unat tag < length (lay_variants layout)"
      and body: "(let variant = lay_variants layout ! unat tag in
         if var_fields variant = [] then dreturn (JString (var_name variant)) c1
         else dbind (decode_fields d 0 (var_fields variant) c1) (\<lambda>kvs c2.
           dreturn (JObject [(''variant'', JString (var_name variant)),
                             (''fields'', JArray (map snd kvs))]) c2)) = Some (Inr (v, c'))"
      by (auto simp: decode_enum_def dbind_eq_Ok read_u8_iff simp del: Let_def split: if_splits)
    let ?variant = "lay_variants layout ! unat tag"
    show ?thesis
    proof (cases "var_fields ?variant = []")
      case True
      with body have "v = JString (var_name ?variant)" "c' = c1" by (simp_all add: Let_def)
      then show ?thesis
        using borsh_borsh_list.b_unit_variant [where types = types and name = name, OF layout enum(1) tag(2) refl True] tag(1) by blast
    next
      case False
      with body obtain fts vs where fts: "field_types 0 (var_fields ?variant) = Inr fts"
        and vs: "decode_list d (map snd fts) c1 = Some (Inr (vs, c'))"
        and v: "v = JObject [(''variant'', JString (var_name ?variant)),
            (''fields'', JArray (map snd (zip (map fst fts) vs)))]"
        by (auto simp: Let_def dbind_eq_Ok decode_fields_Ok)
      have "map snd (zip (map fst fts) vs) = vs"
        using decode_list_length [OF vs] by (simp add: map_snd_zip)
      moreover obtain bs where "borsh_list K types (map snd fts) vs bs" "reads c1 bs c'"
        using decode_list_sound [OF d reads_ok [OF tag(1)] vs] by blast
      ultimately show ?thesis
        using borsh_borsh_list.b_variant [where types = types and name = name, OF layout enum(1) tag(2) refl False fts] v
          cursor_source.consumed_trans [OF tag(1)] by fastforce
    qed
  qed
qed


lemma decode_step_sound:
  assumes d: "decodes_soundly K types d"
  shows "decodes_soundly K types (decode_step K types d)"
  unfolding decodes_soundly_def
proof (intro allI impI)
  fix ty c v c'
  assume ok: "cur_ok c" and run: "decode_step K types d ty c = Some (Inr (v, c'))"
  show "\<exists>bs. borsh K types ty v bs \<and> reads c bs c'"
  proof (cases ty)
    case (TVec inner)
    with run obtain n c1 vs where len: "read_u32 c = Inr (n, c1)"
      and vs: "decode_list d (replicate (unat n) inner) c1 = Some (Inr (vs, c'))"
      and v: "v = JArray vs"
      by (auto simp: decode_step_def dbind_eq_Ok decode_times_list)
    from len obtain lb where lb: "len_prefix lb (unat n)" "reads c lb c1"
      by (auto simp: read_u32_iff)
    from decode_list_sound [OF d reads_ok [OF lb(2)] vs] obtain bs
      where "borsh_list K types (replicate (unat n) inner) vs bs" "reads c1 bs c'" by blast
    then show ?thesis
      using TVec v lb cursor_source.consumed_trans by (blast intro: borsh_borsh_list.b_vec)
  next
    case (TOption inner)
    with run obtain tag c1 where tag: "reads c [tag] c1"
      and rest: "(if tag = 0 then dreturn JNull c1 else d inner c1) = Some (Inr (v, c'))"
      by (auto simp: decode_step_def dbind_eq_Ok read_u8_iff)
    show ?thesis
    proof (cases "tag = 0")
      case True
      with rest tag TOption show ?thesis by (auto intro: borsh_borsh_list.b_none)
    next
      case False
      with rest have "d inner c1 = Some (Inr (v, c'))" by simp
      with d reads_ok [OF tag] obtain bs where "borsh K types inner v bs" "reads c1 bs c'"
        by (meson decodes_soundly_def)
      with False TOption have "borsh K types ty v ([tag] @ bs)" "reads c ([tag] @ bs) c'"
        using cursor_source.consumed_trans [OF tag] by (auto intro: borsh_borsh_list.b_some)
      then show ?thesis by blast
    qed
  next
    case (TArray inner n)
    with run obtain vs where "decode_list d (replicate n inner) c = Some (Inr (vs, c'))"
      and "v = JArray vs"
      by (auto simp: decode_step_def dbind_eq_Ok decode_times_list)
    with decode_list_sound [OF d ok] TArray show ?thesis
      by (blast intro: borsh_borsh_list.b_array)
  next
    case (TDefined name)
    with decode_defined_sound [OF d ok] run show ?thesis by (simp add: decode_step_def)
  qed (use run in \<open>auto simp: decode_step_def dbind_eq_Ok read_u8_iff read_u16_def read_u32_def
      read_u64_def read_u128_def read_i64_def read_word_iff read_fixed_iff read_vec_iff
      read_string_iff intro: borsh_borsh_list.intros\<close>)
qed

lemma decode_type_sound: "decodes_soundly K types (decode_type n K types)"
proof (induction n)
  case 0
  then show ?case by (simp add: decodes_soundly_def)
next
  case (Suc n)
  then show ?case using decode_step_sound [OF Suc] by (simp add: decodes_soundly_def)
qed


subsection \<open>Completeness\<close>

text \<open>With enough fuel the decoder reads back everything the grammar generates.\<close>

definition decodes :: "codecs \<Rightarrow> defined_types \<Rightarrow> type_ref \<Rightarrow> json \<Rightarrow> u8 list \<Rightarrow> nat \<Rightarrow> bool" where
  "decodes K types ty v bs n \<longleftrightarrow>
    (\<forall>c c'. reads c bs c' \<longrightarrow> decode_type n K types ty c = Some (Inr (v, c')))"

definition decodes_all ::
  "codecs \<Rightarrow> defined_types \<Rightarrow> type_ref list \<Rightarrow> json list \<Rightarrow> u8 list \<Rightarrow> nat \<Rightarrow> bool" where
  "decodes_all K types tys vs bs n \<longleftrightarrow>
    (\<forall>c c'. reads c bs c' \<longrightarrow> decode_list (decode_type n K types) tys c = Some (Inr (vs, c')))"

lemma decodes_Suc:
  assumes "eventually (\<lambda>n. decodes K types ty v bs (Suc n)) sequentially"
  shows "eventually (decodes K types ty v bs) sequentially"
  using assms by (simp add: eventually_sequentially_Suc)

lemma decodes_leaf:
  assumes "\<And>d c c'. reads c bs c' \<Longrightarrow> decode_step K types d ty c = Some (Inr (v, c'))"
  shows "eventually (decodes K types ty v bs) sequentially"
  by (rule decodes_Suc) (simp add: decodes_def assms)

lemma borsh_complete:
  shows "borsh K types ty v bs \<Longrightarrow> eventually (decodes K types ty v bs) sequentially"
    and "borsh_list K types tys vs cs \<Longrightarrow> eventually (decodes_all K types tys vs cs) sequentially"
proof (induction rule: borsh_borsh_list.inducts)
  case (b_string lb bs)
  then show ?case
    by (intro decodes_leaf) (auto simp: decode_step_def dbind_eq_Ok read_string_iff)
next
  case (b_bytes lb bs)
  then show ?case
    by (intro decodes_leaf) (auto simp: decode_step_def dbind_eq_Ok read_vec_iff)
next
  case (b_vec lb n ty vs bs)
  have step: "decodes K types (TVec ty) (JArray vs) (lb @ bs) (Suc m)"
    if "decodes_all K types (replicate n ty) vs bs m" for m
    unfolding decodes_def
  proof (intro allI impI)
    fix c c'
    assume "reads c (lb @ bs) c'"
    then obtain c1 where c1: "reads c lb c1" "reads c1 bs c'" by (auto simp: reads_append)
    with b_vec(1) have "read_u32 c = Inr (of_nat n, c1)"
      by (auto simp: read_u32_iff len_prefix_def)
    moreover have "unat (of_nat n :: u32) = n" using b_vec(1) by (auto simp: len_prefix_def)
    ultimately show "decode_type (Suc m) K types (TVec ty) c = Some (Inr (JArray vs, c'))"
      using that c1(2) by (simp add: decode_step_def decode_times_list decodes_all_def)
  qed
  show ?case by (rule decodes_Suc, rule eventually_mono [OF b_vec(3)], rule step)
next
  case (b_some tag ty v bs)
  have step: "decodes K types (TOption ty) v (tag # bs) (Suc m)" if "decodes K types ty v bs m" for m
    unfolding decodes_def
  proof (intro allI impI)
    fix c c'
    assume "reads c (tag # bs) c'"
    then obtain c1 where "reads c [tag] c1" "reads c1 bs c'"
      using reads_append [of c "[tag]" bs] by auto
    with b_some(1) that show "decode_type (Suc m) K types (TOption ty) c = Some (Inr (v, c'))"
      by (simp add: decode_step_def decodes_def read_u8_iff [symmetric])
  qed
  show ?case by (rule decodes_Suc, rule eventually_mono [OF b_some(3)], rule step)
next
  case (b_array n ty vs bs)
  have step: "decodes K types (TArray ty n) (JArray vs) bs (Suc m)"
    if "decodes_all K types (replicate n ty) vs bs m" for m
    using that by (auto simp: decodes_def decodes_all_def decode_step_def decode_times_list)
  show ?case by (rule decodes_Suc, rule eventually_mono [OF b_array(2)], rule step)
next
  case (b_struct name layout fts vs bs)
  have step: "decodes K types (TDefined name) (JObject (object_of (zip (map fst fts) vs))) bs (Suc m)"
    if "decodes_all K types (map snd fts) vs bs m" for m
    unfolding decodes_def
  proof (intro allI impI)
    fix c c'
    assume "reads c bs c'"
    with that have "decode_fields (decode_type m K types) 0 (lay_fields layout) c =
        Some (Inr (zip (map fst fts) vs, c'))"
      unfolding decode_fields_Ok using b_struct.hyps(2)
      by (intro exI [of _ fts] exI [of _ vs]) (simp add: decodes_all_def)
    then show "decode_type (Suc m) K types (TDefined name) c =
        Some (Inr (JObject (object_of (zip (map fst fts) vs)), c'))"
      using b_struct.IH(1) b_struct.hyps(1) by (simp add: decode_step_def decode_defined_def decode_struct_def)
  qed
  show ?case by (rule decodes_Suc, rule eventually_mono [OF b_struct.IH(3)], rule step)
next
  case (b_unit_variant name layout tag variant)
  then show ?case
    by (intro decodes_leaf)
      (simp add: decode_step_def decode_defined_def decode_enum_def read_u8_iff [symmetric])
next
  case (b_variant name layout tag variant fts vs bs)
  let ?v = "JObject [(''variant'', JString (var_name variant)), (''fields'', JArray vs)]"
  have snd: "map snd (zip (map fst fts) vs) = vs"
    using borsh_list_length [OF b_variant.IH(2)] by (simp add: map_snd_zip)
  have step: "decodes K types (TDefined name) ?v (tag # bs) (Suc m)"
    if "decodes_all K types (map snd fts) vs bs m" for m
    unfolding decodes_def
  proof (intro allI impI)
    fix c c'
    assume "reads c (tag # bs) c'"
    then obtain c1 where c1: "reads c [tag] c1" "reads c1 bs c'"
      using reads_append [of c "[tag]" bs] by auto
    with that have "decode_fields (decode_type m K types) 0 (var_fields variant) c1 =
        Some (Inr (zip (map fst fts) vs, c'))"
      unfolding decode_fields_Ok using b_variant.hyps(5)
      by (intro exI [of _ fts] exI [of _ vs]) (simp add: decodes_all_def)
    then show "decode_type (Suc m) K types (TDefined name) c = Some (Inr (?v, c'))"
      using b_variant.IH(1) b_variant.hyps(1-4) c1(1) snd
      by (simp add: decode_step_def decode_defined_def decode_enum_def read_u8_iff [symmetric])
  qed
  show ?case by (rule decodes_Suc, rule eventually_mono [OF b_variant.IH(3)], rule step)
next
  case b_nil
  then show ?case by (simp add: decodes_all_def)
next
  case (b_cons ty v bs tys vs cs)
  have "decodes_all K types (ty # tys) (v # vs) (bs @ cs) m"
    if "decodes K types ty v bs m" and "decodes_all K types tys vs cs m" for m
    using that by (auto simp: decodes_def decodes_all_def reads_append dbind_eq_Ok)
  then show ?case
    by (rule eventually_elim2 [OF b_cons(2,4)])
qed (rule decodes_leaf, auto simp: decode_step_def dbind_eq_Ok read_u8_iff read_u16_def
   read_u32_def read_u64_def read_u128_def read_i64_def read_word_iff read_fixed_iff)+


subsection \<open>More fuel changes nothing\<close>

definition extends ::
  "(type_ref \<Rightarrow> cursor \<Rightarrow> json decode_result) \<Rightarrow> (type_ref \<Rightarrow> cursor \<Rightarrow> json decode_result) \<Rightarrow> bool" where
  "extends d d' \<longleftrightarrow> (\<forall>ty c r. d ty c = Some r \<longrightarrow> d' ty c = Some r)"

lemma extendsD: "extends d d' \<Longrightarrow> d ty c = Some r \<Longrightarrow> d' ty c = Some r"
  by (simp add: extends_def)

lemma dbind_eq_Some:
  "dbind r f = Some x \<longleftrightarrow>
    (\<exists>e. r = Some (Inl e) \<and> x = Inl e) \<or> (\<exists>a c. r = Some (Inr (a, c)) \<and> f a c = Some x)"
  by (auto simp: dbind_def split: option.splits sum.splits)

lemma decode_list_extends:
  "extends d d' \<Longrightarrow> decode_list d tys c = Some r \<Longrightarrow> decode_list d' tys c = Some r"
proof (induction tys arbitrary: c r)
  case (Cons ty tys)
  then show ?case by (fastforce simp: dbind_eq_Some dest: extendsD)
qed simp

lemma decode_fields_extends:
  "extends d d' \<Longrightarrow> decode_fields d i es c = Some r \<Longrightarrow> decode_fields d' i es c = Some r"
proof (induction es arbitrary: i c r)
  case (Cons e es)
  then show ?case
    by (fastforce simp: dbind_eq_Some Let_def dest: extendsD split: sum.splits)
qed simp

lemma decode_defined_extends:
  assumes "extends d d'" and "decode_defined types d name c = Some r"
  shows "decode_defined types d' name c = Some r"
  using assms(2) decode_fields_extends [OF assms(1)]
  by (fastforce simp: decode_defined_def decode_struct_def decode_enum_def dbind_eq_Some Let_def
      split: option.splits if_splits)

lemma decode_step_extends: "extends d d' \<Longrightarrow> extends (decode_step K types d) (decode_step K types d')"
  unfolding extends_def [of "decode_step K types d"]
proof (intro allI impI)
  fix ty c r
  assume ext: "extends d d'" and run: "decode_step K types d ty c = Some r"
  show "decode_step K types d' ty c = Some r"
  proof (cases ty)
    case (TVec inner)
    with run show ?thesis
      using decode_list_extends [OF ext]
      by (fastforce simp: decode_step_def dbind_eq_Some decode_times_list)
  next
    case (TOption inner)
    with run show ?thesis
      using extendsD [OF ext] by (fastforce simp: decode_step_def dbind_eq_Some split: if_splits)
  next
    case (TArray inner n)
    with run show ?thesis
      using decode_list_extends [OF ext]
      by (fastforce simp: decode_step_def dbind_eq_Some decode_times_list)
  next
    case (TDefined name)
    with run show ?thesis using decode_defined_extends [OF ext] by (simp add: decode_step_def)
  qed (use run in \<open>simp_all add: decode_step_def\<close>)
qed

lemma decode_type_Suc: "extends (decode_type n K types) (decode_type (Suc n) K types)"
proof (induction n)
  case 0
  then show ?case by (simp add: extends_def)
next
  case (Suc n)
  have "decode_type (Suc m) K types = decode_step K types (decode_type m K types)" for m
    by (intro ext) simp
  with decode_step_extends [OF Suc, of K types] show ?case by simp
qed

lemma decode_type_mono: "m \<le> n \<Longrightarrow> extends (decode_type m K types) (decode_type n K types)"
proof (induction rule: dec_induct)
  case base
  then show ?case by (simp add: extends_def)
next
  case (step n)
  then show ?case using decode_type_Suc [of n K types] by (auto simp: extends_def)
qed

subsection \<open>Instruction and account bodies\<close>

definition args_of :: "(string \<times> type_ref) list \<Rightarrow> json list \<Rightarrow> (string \<rightharpoonup> json)" where
  "args_of layout vs = map_of (rev (zip (map fst layout) vs))"

lemma decode_named_list:
  "decode_named d layout m c =
    dbind (decode_list d (map snd layout) c) (\<lambda>vs c'. dreturn (m ++ args_of layout vs) c')"
proof (induction layout arbitrary: m c)
  case Nil
  then show ?case by (simp add: args_of_def)
next
  case (Cons f layout)
  have later: "m(k \<mapsto> v) ++ args_of layout vs = m ++ args_of ((k, t) # layout) (v # vs)" for k v t vs
    by (simp add: args_of_def map_add_assoc [symmetric] map_add_upd_left)
  obtain k t where f: "f = (k, t)" by (cases f)
  show ?case
  proof (cases "d t c")
    case (Some r)
    then show ?thesis
      by (cases r) (auto simp: f Cons.IH later [symmetric] dbind_def simp del: fun_upd_apply
          split: option.splits sum.splits)
  qed (simp add: f)
qed

lemma decode_body_list:
  "decode_body fuel K types layout body =
    (case decode_list (decode_type fuel K types) (map snd layout) (new_cursor body) of
       None \<Rightarrow> None
     | Some (Inl e) \<Rightarrow> Some (Inl e)
     | Some (Inr (vs, c)) \<Rightarrow> Some (rbind (expect_eof c) (\<lambda>_. Ok (args_of layout vs))))"
  by (auto simp: decode_body_def decode_named_list dbind_def split: option.splits sum.splits)

lemma expect_eof_reads:
  "reads (new_cursor body) bs c \<Longrightarrow> expect_eof c =
    (if bs = body then Ok () else Err (Decode (TrailingBytes (length body - length bs))))"
  by (auto simp: reads_def new_cursor_def expect_eof_def cur_ok_def)

lemma new_cursor_ok [simp]: "cur_ok (new_cursor body)"
  by (simp add: cur_ok_def new_cursor_def)

lemma reads_new_cursor: "reads (new_cursor (bs @ xs)) bs \<lparr>cur_data = bs @ xs, cur_offset = length bs\<rparr>"
  by (simp add: reads_def new_cursor_def cur_ok_def)

lemma decode_body_sound:
  assumes "decode_body fuel K types layout body = Some (Ok args)"
  shows "\<exists>vs. borsh_list K types (map snd layout) vs body \<and> args = args_of layout vs"
proof -
  from assms obtain vs c where
    vs: "decode_list (decode_type fuel K types) (map snd layout) (new_cursor body) = Some (Inr (vs, c))"
    and eof: "expect_eof c = Ok ()" and args: "args = args_of layout vs"
    by (auto simp: decode_body_list rbind_eq_Inr split: option.splits sum.splits)
  from decode_list_sound [OF decode_type_sound new_cursor_ok vs] obtain bs
    where "borsh_list K types (map snd layout) vs bs" "reads (new_cursor body) bs c" by blast
  with expect_eof_reads [OF this(2)] eof args show ?thesis by (auto split: if_splits)
qed

lemma decode_body_complete:
  assumes "borsh_list K types (map snd layout) vs bs"
  shows "eventually (\<lambda>fuel. decode_body fuel K types layout (bs @ xs) = Some
    (if xs = [] then Ok (args_of layout vs) else Err (Decode (TrailingBytes (length xs))))) sequentially"
proof (rule eventually_mono [OF borsh_complete(2) [OF assms]])
  fix fuel
  assume "decodes_all K types (map snd layout) vs bs fuel"
  then show "decode_body fuel K types layout (bs @ xs) = Some
    (if xs = [] then Ok (args_of layout vs) else Err (Decode (TrailingBytes (length xs))))"
    using expect_eof_reads [OF reads_new_cursor [of bs xs]] reads_new_cursor [of bs xs]
    by (simp add: decodes_all_def decode_body_list)
qed

lemma decode_body_mono:
  assumes "decode_body m K types layout body = Some r" and "m \<le> n"
  shows "decode_body n K types layout body = Some r"
proof -
  let ?run = "\<lambda>k. decode_list (decode_type k K types) (map snd layout) (new_cursor body)"
  from assms(1) obtain x where x: "?run m = Some x"
    by (auto simp: decode_body_list split: option.splits)
  then have "?run n = Some x" by (rule decode_list_extends [OF decode_type_mono [OF assms(2)]])
  with x assms(1) show ?thesis by (simp add: decode_body_list)
qed

lemma decode_body_agree:
  assumes "decode_body m K types layout body = Some r"
    and "decode_body n K types layout body = Some r'"
  shows "r = r'"
  using decode_body_mono [OF assms(1), of "max m n"] decode_body_mono [OF assms(2), of "max m n"]
  by simp

subsection \<open>Termination\<close>

text \<open>
  A layout set whose definitions refer only downwards in some ranking is decoded on every input;
  a struct whose first field is the struct itself is decoded on none.
\<close>

fun names_in :: "type_ref \<Rightarrow> string list" where
  "names_in (TVec t) = names_in t"
| "names_in (TOption t) = names_in t"
| "names_in (TArray t n) = names_in t"
| "names_in (TDefined name) = [name]"
| "names_in _ = []"

definition layout_entries :: "idl_type_layout \<Rightarrow> idl_field_entry list" where
  "layout_entries layout = lay_fields layout @ concat (map var_fields (lay_variants layout))"

definition entry_type :: "idl_field_entry \<Rightarrow> (idl_error, type_ref) result" where
  "entry_type e = parse_type (fld_ty (normalized_field e 0))"

lemma entry_type_any: "parse_type (fld_ty (normalized_field e i)) = entry_type e"
  by (cases e) (simp_all add: entry_type_def normalized_field_def)

definition ranked :: "(string \<Rightarrow> nat) \<Rightarrow> defined_types \<Rightarrow> bool" where
  "ranked rank types \<longleftrightarrow>
    (\<forall>name layout e t n. types name = Some layout \<longrightarrow> e \<in> set (layout_entries layout) \<longrightarrow>
       entry_type e = Ok t \<longrightarrow> n \<in> set (names_in t) \<longrightarrow> rank n < rank name)"

definition returns_on :: "(type_ref \<Rightarrow> cursor \<Rightarrow> json decode_result) \<Rightarrow> type_ref \<Rightarrow> bool" where
  "returns_on d ty \<longleftrightarrow> (\<forall>c. d ty c \<noteq> None)"

lemma dbind_returns: "r \<noteq> None \<Longrightarrow> (\<And>a c. f a c \<noteq> None) \<Longrightarrow> dbind r f \<noteq> None"
  by (auto simp: dbind_def split: option.splits sum.splits)

lemma decode_list_returns: "\<forall>ty\<in>set tys. returns_on d ty \<Longrightarrow> decode_list d tys c \<noteq> None"
  by (induction tys arbitrary: c) (simp, simp only: decode_list.simps,
      intro dbind_returns, simp_all add: returns_on_def)

lemma decode_times_returns: "returns_on d ty \<Longrightarrow> decode_times (d ty) n c \<noteq> None"
  unfolding decode_times_list by (rule decode_list_returns) auto

lemma decode_fields_returns:
  "\<forall>e\<in>set es. \<forall>t. entry_type e = Ok t \<longrightarrow> returns_on d t \<Longrightarrow> decode_fields d i es c \<noteq> None"
proof (induction es arbitrary: i c)
  case (Cons e es)
  show ?case
  proof (cases "entry_type e")
    case (Inr t)
    have "dbind (d t c) (\<lambda>v c1. dbind (decode_fields d (Suc i) es c1)
        (\<lambda>kvs c2. dreturn ((fld_name (normalized_field e i), v) # kvs) c2)) \<noteq> None"
      using Cons Inr by (intro dbind_returns) (auto simp: returns_on_def)
    with Inr show ?thesis by (simp add: entry_type_any Let_def)
  qed (simp add: entry_type_any Let_def)
qed simp

lemma decode_defined_returns:
  assumes "\<And>layout e t. types name = Some layout \<Longrightarrow> e \<in> set (layout_entries layout) \<Longrightarrow>
    entry_type e = Ok t \<Longrightarrow> returns_on d t"
  shows "decode_defined types d name c \<noteq> None"
proof (cases "types name")
  case (Some layout)
  have "decode_struct d layout c' \<noteq> None" for c'
    unfolding decode_struct_def
    using assms [OF Some] by (intro dbind_returns decode_fields_returns)
      (auto simp: layout_entries_def)
  moreover have "decode_enum d name layout c' \<noteq> None" for c'
  proof -
    have "decode_fields d 0 (var_fields (lay_variants layout ! i)) c1 \<noteq> None"
      if "i < length (lay_variants layout)" for i c1
      by (intro decode_fields_returns ballI allI impI, rule assms [OF Some])
        (auto simp: layout_entries_def intro!: bexI [OF _ nth_mem [OF that]])
    note variant = this
    show ?thesis
      unfolding decode_enum_def Let_def
      by (rule dbind_returns, simp)
        (simp add: dbind_returns variant del: not_None_eq)
  qed
  ultimately show ?thesis by (simp add: decode_defined_def Some)
qed (simp add: decode_defined_def)

lemma decode_step_returns:
  assumes "\<And>t. ty = TVec t \<Longrightarrow> returns_on d t" "\<And>t. ty = TOption t \<Longrightarrow> returns_on d t"
    "\<And>t n. ty = TArray t n \<Longrightarrow> returns_on d t"
    "\<And>name layout e t. ty = TDefined name \<Longrightarrow> types name = Some layout \<Longrightarrow>
       e \<in> set (layout_entries layout) \<Longrightarrow> entry_type e = Ok t \<Longrightarrow> returns_on d t"
  shows "returns_on (decode_step K types d) ty"
  unfolding returns_on_def
proof
  fix c
  show "decode_step K types d ty c \<noteq> None"
  proof (cases ty)
    case (TVec t)
    then show ?thesis
      using decode_times_returns [OF assms(1) [OF TVec]]
      by (simp only: decode_step_def type_ref.simps) (intro dbind_returns; simp)
  next
    case (TOption t)
    then show ?thesis using assms(2) [OF TOption]
      by (simp only: decode_step_def type_ref.simps)
        (intro dbind_returns; auto simp: returns_on_def)
  next
    case (TArray t n)
    then show ?thesis
      using decode_times_returns [OF assms(3) [OF TArray]]
      by (simp only: decode_step_def type_ref.simps) (intro dbind_returns; simp)
  next
    case (TDefined name)
    then show ?thesis
      using decode_defined_returns [of types name d c] assms(4) [OF TDefined]
      by (simp add: decode_step_def)
  qed (simp_all add: decode_step_def dbind_def split: sum.split prod.split)
qed

lemma returns_on_Suc:
  assumes "eventually (\<lambda>n. returns_on (decode_step K types (decode_type n K types)) ty) sequentially"
  shows "eventually (\<lambda>n. returns_on (decode_type n K types) ty) sequentially"
proof -
  from assms have "eventually (\<lambda>n. returns_on (decode_type (Suc n) K types) ty) sequentially"
    by (simp add: returns_on_def)
  then show ?thesis
    using eventually_sequentially_Suc [of "\<lambda>n. returns_on (decode_type n K types) ty"] by blast
qed

lemma decode_type_returns:
  assumes ranked: "ranked rank types" and "\<forall>name\<in>set (names_in ty). rank name < r"
  shows "eventually (\<lambda>n. returns_on (decode_type n K types) ty) sequentially"
  using assms(2)
proof (induction r arbitrary: ty rule: less_induct)
  case (less r)
  from less.prems show ?case
  proof (induction ty)
    case (TVec t)
    then have "eventually (\<lambda>n. returns_on (decode_type n K types) t) sequentially" by simp
    then show ?case
      by (intro returns_on_Suc, elim eventually_mono) (rule decode_step_returns, auto)
  next
    case (TOption t)
    then have "eventually (\<lambda>n. returns_on (decode_type n K types) t) sequentially" by simp
    then show ?case
      by (intro returns_on_Suc, elim eventually_mono) (rule decode_step_returns, auto)
  next
    case (TArray t n)
    then have "eventually (\<lambda>n. returns_on (decode_type n K types) t) sequentially" by simp
    then show ?case
      by (intro returns_on_Suc, elim eventually_mono) (rule decode_step_returns, auto)
  next
    case (TDefined name)
    then have below: "rank name < r" by simp
    let ?es = "case types name of None \<Rightarrow> [] | Some layout \<Rightarrow> layout_entries layout"
    have "eventually (\<lambda>n. \<forall>t. entry_type e = Ok t \<longrightarrow> returns_on (decode_type n K types) t)
        sequentially" if "e \<in> set ?es" for e
    proof (cases "entry_type e")
      case (Inr t)
      from that obtain layout where "types name = Some layout" "e \<in> set (layout_entries layout)"
        by (cases "types name") auto
      with ranked Inr have "\<forall>n\<in>set (names_in t). rank n < rank name"
        by (meson ranked_def)
      with less.IH [OF below] Inr show ?thesis by simp
    qed simp
    then have "eventually (\<lambda>n. \<forall>e\<in>set ?es. \<forall>t. entry_type e = Ok t \<longrightarrow>
        returns_on (decode_type n K types) t) sequentially"
      by (intro eventually_ball_finite [OF finite_set]) blast
    then show ?case
      by (intro returns_on_Suc, elim eventually_mono) (rule decode_step_returns, auto)
  qed (rule returns_on_Suc, rule always_eventually, rule allI, rule decode_step_returns, auto)+
qed

lemma decode_body_returns:
  assumes "ranked rank types"
  shows "eventually (\<lambda>n. \<forall>body. decode_body n K types layout body \<noteq> None) sequentially"
proof -
  have "eventually (\<lambda>n. returns_on (decode_type n K types) ty) sequentially"
    if "ty \<in> set (map snd layout)" for ty
    by (rule decode_type_returns [OF assms, of _ "Suc (Max (rank ` set (names_in ty)))"])
      (auto simp: less_Suc_eq_le)
  then have "eventually (\<lambda>n. \<forall>ty\<in>set (map snd layout). returns_on (decode_type n K types) ty)
      sequentially"
    by (intro eventually_ball_finite) auto
  then show ?thesis
  proof (rule eventually_mono, intro allI)
    fix n body
    assume "\<forall>ty\<in>set (map snd layout). returns_on (decode_type n K types) ty"
    from decode_list_returns [OF this, of "new_cursor body"]
    show "decode_body n K types layout body \<noteq> None"
      by (auto simp: decode_body_list split: sum.splits)
  qed
qed

lemma self_reference_never_returns:
  assumes "types name = Some layout" and "lay_kind layout = ''struct''"
    and "lay_fields layout = e # es" and "entry_type e = Ok (TDefined name)"
  shows "decode_type n K types (TDefined name) c = None"
  using assms
  by (induction n) (simp_all add: decode_step_def decode_defined_def decode_struct_def Let_def
      entry_type_any)

end
