(* ===== verification/Decoder.thy ===== *)
theory Decoder
  imports Borsh
begin

text \<open>
  The decoder registry of \<open>crates/decoder/src/lib.rs\<close> and the contract of the IDL decoder it calls:
  which instructions are known, to what they decode, and when decoding returns. Reading and parsing
  the IDL files is the argument \<open>load\<close>.
\<close>

datatype decoder_error = IdlError idl_error | NoIdlsConfigured

type_synonym decoder_registry = "loaded_idl list"

definition from_config ::
  "(string \<Rightarrow> (idl_error, loaded_idl) result) \<Rightarrow> (string \<Rightarrow> string) \<Rightarrow> string list \<Rightarrow>
   (decoder_error, decoder_registry) result" where
  "from_config load resolve_path idl_paths =
    (if idl_paths = [] then Err NoIdlsConfigured
     else (case rmap (\<lambda>path. load (resolve_path path)) idl_paths of
             Inl e \<Rightarrow> Err (IdlError e)
           | Inr idls \<Rightarrow> Ok idls))"

fun registry_decode ::
  "nat \<Rightarrow> codecs \<Rightarrow> decoder_registry \<Rightarrow> u8 list \<Rightarrow>
   (decoder_error, decoded_instruction option) result option" where
  "registry_decode fuel K [] data = Some (Ok None)"
| "registry_decode fuel K (idl # idls) data =
    (case decode_instruction fuel K idl data of
       None \<Rightarrow> None
     | Some (Inl e) \<Rightarrow> Some (Err (IdlError e))
     | Some (Inr (KnownInstruction decoded)) \<Rightarrow> Some (Ok (Some decoded))
     | Some (Inr (UnknownInstruction _ _)) \<Rightarrow> registry_decode fuel K idls data)"

subsection \<open>Which instructions are known\<close>

definition layout_for :: "loaded_idl \<Rightarrow> u8 list \<Rightarrow> loaded_instruction option" where
  "layout_for idl data = (if length data < 8 then None else instruction_map idl (take 8 data))"

definition built :: "loaded_instruction \<Rightarrow> json list \<Rightarrow> decoded_instruction" where
  "built layout vs = \<lparr>di_name = li_name layout, di_accounts = li_accounts layout,
                     di_args = args_of (li_args layout) vs\<rparr>"

definition encodes :: "codecs \<Rightarrow> loaded_idl \<Rightarrow> loaded_instruction \<Rightarrow> json list \<Rightarrow> u8 list \<Rightarrow> bool" where
  "encodes K idl layout vs body \<longleftrightarrow>
    borsh_list K (idl_types idl) (map snd (li_args layout)) vs body"

lemma decode_unknown:
  assumes "layout_for idl data = None"
  obtains hex where "decode_instruction fuel K idl data = Some (Ok (UnknownInstruction hex (length data)))"
  using assms by (auto simp: layout_for_def decode_instruction_def split: if_splits)

lemma decode_known_layout:
  assumes "layout_for idl data = Some layout"
  shows "decode_instruction fuel K idl data =
    map_option (\<lambda>r. rbind r (\<lambda>args. Ok (KnownInstruction
        \<lparr>di_name = li_name layout, di_accounts = li_accounts layout, di_args = args\<rparr>)))
      (decode_body fuel K (idl_types idl) (li_args layout) (drop 8 data))"
  using assms by (auto simp: layout_for_def decode_instruction_def split: if_splits)

lemma decode_known_sound:
  assumes "decode_instruction fuel K idl data = Some (Ok (KnownInstruction ins))"
  shows "\<exists>layout vs. layout_for idl data = Some layout \<and> encodes K idl layout vs (drop 8 data) \<and>
    ins = built layout vs"
proof (cases "layout_for idl data")
  case None
  then show ?thesis using decode_unknown [OF None, of fuel K] assms by auto
next
  case (Some layout)
  with assms obtain args where
    "decode_body fuel K (idl_types idl) (li_args layout) (drop 8 data) = Some (Ok args)"
    and "ins = \<lparr>di_name = li_name layout, di_accounts = li_accounts layout, di_args = args\<rparr>"
    by (auto simp: decode_known_layout rbind_eq_Inr)
  with decode_body_sound Some show ?thesis by (fastforce simp: encodes_def built_def)
qed

lemma decode_known_complete:
  assumes "layout_for idl (disc @ body) = Some layout" and "length disc = 8"
    and "encodes K idl layout vs body"
  shows "eventually (\<lambda>fuel. decode_instruction fuel K idl ((disc @ body) @ xs) = Some
    (if xs = [] then Ok (KnownInstruction (built layout vs))
     else Err (Decode (TrailingBytes (length xs))))) sequentially"
proof -
  have layout: "layout_for idl ((disc @ body) @ xs) = Some layout"
    using assms(1,2) by (simp add: layout_for_def)
  show ?thesis
    unfolding decode_known_layout [OF layout]
    by (rule eventually_mono [OF decode_body_complete [OF assms(3) [unfolded encodes_def], of xs]])
      (use assms(2) in \<open>auto simp: built_def\<close>)
qed

lemma eventually_some: "eventually P (sequentially :: nat filter) \<Longrightarrow> \<exists>n. P n"
  by (auto simp: eventually_sequentially)

text \<open>
  C8. The IDL decoder accepts exactly the Borsh grammar: an instruction whose first eight bytes name
  a layout of the IDL decodes, for some fuel, to a known instruction if and only if the remaining
  bytes are, all of them, an encoding of its arguments, and then the arguments are the encoded
  values.
\<close>
theorem instruction_decode_exact:
  assumes "layout_for idl data = Some layout"
  shows "(\<exists>fuel. decode_instruction fuel K idl data = Some (Ok (KnownInstruction ins)))
    = (\<exists>vs. encodes K idl layout vs (drop 8 data) \<and> ins = built layout vs)"
proof
  assume "\<exists>fuel. decode_instruction fuel K idl data = Some (Ok (KnownInstruction ins))"
  with decode_known_sound [of _ K idl data ins] assms show
    "\<exists>vs. encodes K idl layout vs (drop 8 data) \<and> ins = built layout vs" by fastforce
next
  assume "\<exists>vs. encodes K idl layout vs (drop 8 data) \<and> ins = built layout vs"
  then obtain vs where vs: "encodes K idl layout vs (drop 8 data)" "ins = built layout vs" by blast
  from assms have "length (take 8 data) = 8" by (auto simp: layout_for_def split: if_splits)
  from eventually_some [OF decode_known_complete [OF _ this vs(1), of "[]"]] vs(2) assms
  show "\<exists>fuel. decode_instruction fuel K idl data = Some (Ok (KnownInstruction ins))" by simp
qed


text \<open>The buy instruction of a bonding-curve program: two 64-bit arguments.\<close>

definition example_codecs :: codecs where
  "example_codecs = \<lparr>sha256 = (\<lambda>_. replicate 32 7), hex_encode = bytes_to_string,
                     bs58_encode = bytes_to_string\<rparr>"

definition buy_discriminator :: discriminator where
  "buy_discriminator = [102, 6, 61, 18, 1, 218, 235, 234]"

definition buy_instruction :: idl_instruction where
  "buy_instruction = \<lparr>ins_name = ''buy'', ins_discriminator = Some buy_discriminator,
     ins_accounts = [\<lparr>item_name = ''mint'', item_address = None, item_pda = None\<rparr>],
     ins_args = [\<lparr>fld_name = ''amount'', fld_ty = JString ''u64''\<rparr>,
                 \<lparr>fld_name = ''max_sol_cost'', fld_ty = JString ''u64''\<rparr>]\<rparr>"

definition example_document :: idl_document where
  "example_document = \<lparr>doc_address = None, doc_name = ''pump'', doc_version = Some ''0.1.0'',
     doc_metadata = None, doc_instructions = [buy_instruction], doc_accounts = [], doc_types = []\<rparr>"

definition buy_layout :: loaded_instruction where
  "buy_layout = \<lparr>li_name = ''buy'', li_accounts = [''mint''],
                 li_args = [(''amount'', TU64), (''max_sol_cost'', TU64)]\<rparr>"

definition example_idl :: loaded_idl where
  "example_idl = \<lparr>idl_path = ''pump.json'', idl_hash = bytes_to_string (replicate 32 7),
     idl_doc = example_document, instruction_map = [buy_discriminator \<mapsto> buy_layout],
     account_map = (\<lambda>_. None), idl_types = (\<lambda>_. None)\<rparr>"

definition buy_body :: "u8 list" where
  "buy_body = [5, 0, 0, 0, 0, 0, 0, 0] @ [7, 1, 0, 0, 0, 0, 0, 0]"

definition buy_data :: "u8 list" where
  "buy_data = buy_discriminator @ buy_body"

lemma load_buy_instruction:
  "load_instruction K buy_instruction = Ok (buy_discriminator, buy_layout)"
  by (simp add: load_instruction_def buy_instruction_def discriminator_of_def
      discriminator_vec_to_array_def buy_discriminator_def buy_layout_def parse_primitive_def)

lemma load_example: "load_idl example_codecs ''pump.json'' [] example_document = Ok example_idl"
  by (simp add: load_idl_def named_document_def example_document_def is_blank_def is_space_def
      load_buy_instruction insert_all_def example_idl_def example_codecs_def)

lemma drop_buy_data: "drop 8 buy_data = buy_body"
  by (simp add: buy_data_def buy_discriminator_def)

lemma buy_data_layout: "layout_for example_idl buy_data = Some buy_layout"
  by (simp add: layout_for_def buy_data_def buy_body_def buy_discriminator_def example_idl_def)

lemma buy_body_encodes: "encodes K example_idl buy_layout [JInt 5, JInt 263] buy_body"
proof -
  have five: "borsh K types TU64 (JInt 5) [5, 0, 0, 0, 0, 0, 0, 0]" for types
    using borsh_borsh_list.b_u64 [of "[5, 0, 0, 0, 0, 0, 0, 0]" K types]
    by (simp add: from_le_bytes_def)
  have cost: "borsh K types TU64 (JInt 263) [7, 1, 0, 0, 0, 0, 0, 0]" for types
    using borsh_borsh_list.b_u64 [of "[7, 1, 0, 0, 0, 0, 0, 0]" K types]
    by (simp add: from_le_bytes_def)
  have "borsh_list K types [TU64, TU64] [JInt 5, JInt 263]
      ([5, 0, 0, 0, 0, 0, 0, 0] @ [7, 1, 0, 0, 0, 0, 0, 0] @ [])" for types
    by (intro borsh_borsh_list.b_cons borsh_borsh_list.b_nil five cost)
  then show ?thesis by (simp add: encodes_def buy_layout_def buy_body_def)
qed

theorem instruction_decode_exact_witness:
  "\<exists>fuel. decode_instruction fuel example_codecs example_idl buy_data =
    Some (Ok (KnownInstruction (built buy_layout [JInt 5, JInt 263])))"
  unfolding instruction_decode_exact [OF buy_data_layout] drop_buy_data
  using buy_body_encodes by blast

text \<open>
  An instruction is decoded whole or refused: when some bytes decode to a known instruction, the
  same bytes with anything appended decode to the error that counts the trailing bytes.
\<close>
theorem trailing_bytes_refused:
  assumes "decode_instruction fuel K idl data = Some (Ok (KnownInstruction ins))" and "xs \<noteq> []"
  shows "\<exists>fuel. decode_instruction fuel K idl (data @ xs) =
    Some (Err (Decode (TrailingBytes (length xs))))"
proof -
  from decode_known_sound [OF assms(1)] obtain layout vs
    where layout: "layout_for idl data = Some layout" "encodes K idl layout vs (drop 8 data)" by blast
  from layout(1) have "length (take 8 data) = 8" by (auto simp: layout_for_def split: if_splits)
  from eventually_some [OF decode_known_complete [OF _ this layout(2), of xs]] layout(1) assms(2)
  show ?thesis by simp
qed

lemma buy_data_decodes:
  "\<exists>fuel. decode_instruction fuel K example_idl buy_data =
    Some (Ok (KnownInstruction (built buy_layout [JInt 5, JInt 263])))"
proof -
  have "length buy_discriminator = 8" by (simp add: buy_discriminator_def)
  from eventually_some [OF decode_known_complete [OF _ this buy_body_encodes, of K "[]"]]
    buy_data_layout
  show ?thesis by (simp add: buy_data_def)
qed

theorem trailing_bytes_refused_witness:
  "\<exists>fuel. decode_instruction fuel example_codecs example_idl (buy_data @ [1, 2]) =
    Some (Err (Decode (TrailingBytes (length [1, 2 :: u8]))))"
proof -
  obtain fuel where "decode_instruction fuel example_codecs example_idl buy_data =
    Some (Ok (KnownInstruction (built buy_layout [JInt 5, JInt 263])))"
    using buy_data_decodes by blast
  from trailing_bytes_refused [OF this, of "[1, 2]"] show ?thesis by blast
qed

subsection \<open>Termination\<close>



text \<open>
  A struct whose first field has the struct's own type is accepted by the loader's type table and
  is then decoded on no input: no amount of fuel returns, whatever the bytes are.
\<close>
theorem self_reference_diverges:
  assumes "types name = Some \<lparr>lay_kind = ''struct'', lay_fields = Named \<lparr>fld_name = f,
      fld_ty = JObject [(''defined'', JString name)]\<rparr> # es, lay_variants = vs\<rparr>"
  shows "decode_type fuel K types (TDefined name) (new_cursor bytes) = None"
proof (rule self_reference_never_returns [where types = types and name = name, OF assms])
  show "entry_type (Named \<lparr>fld_name = f, fld_ty = JObject [(''defined'', JString name)]\<rparr>) =
      Ok (TDefined name)"
    by (simp add: entry_type_def normalized_field_def parse_defined_def)
qed simp_all

theorem self_reference_diverges_witness:
  "decode_type 7 example_codecs
    [''node'' \<mapsto> \<lparr>lay_kind = ''struct'', lay_fields = [Named \<lparr>fld_name = ''next'',
        fld_ty = JObject [(''defined'', JString ''node'')]\<rparr>], lay_variants = []\<rparr>]
    (TDefined ''node'') (new_cursor [1, 2, 3]) = None"
  by (rule self_reference_diverges) simp

subsection \<open>Loading, then decoding\<close>

lemma insert_all_map_of: "insert_all kvs = map_of (rev kvs)"
proof -
  have "fold (\<lambda>(k, v) m. m(k \<mapsto> v)) kvs m = m ++ map_of (rev kvs)" for m :: "'a \<rightharpoonup> 'b"
    by (induction kvs arbitrary: m) (auto simp: map_add_upd_left map_add_assoc [symmetric])
  then show ?thesis by (simp add: insert_all_def)
qed

lemma load_idl_instructions:
  assumes "load_idl K path raw document = Ok idl"
  shows "\<exists>loaded. rmap (load_instruction K) (doc_instructions document) = Ok loaded \<and>
    instruction_map idl = map_of (rev loaded)"
proof -
  have "doc_instructions (named_document document) = doc_instructions document"
    by (simp add: named_document_def Let_def split: option.split)
  with assms show ?thesis
    by (auto simp: load_idl_def Let_def rbind_eq_Inr insert_all_map_of split: if_splits)
qed

lemma discriminator_of_length:
  assumes "\<And>bs. 8 \<le> length (sha256 K bs)" and "discriminator_of K space name given = Ok d"
  shows "length d = 8"
  using assms(2) assms(1)
  by (auto simp: discriminator_of_def discriminator_vec_to_array_def anchor_discriminator_def
      split: option.splits if_splits)

text \<open>
  C37. Loading and decoding round trip: when an IDL with the instruction \<open>ins\<close> loads and no later
  instruction claims its discriminator, then the discriminator followed by an encoding of its
  arguments decodes to the instruction's name, account names and argument values.
\<close>
theorem load_decode_roundtrip:
  assumes "load_idl K path raw document = Ok idl"
    and "doc_instructions document = earlier @ ins # later"
    and "load_instruction K ins = Ok (disc, layout)" and "length disc = 8"
    and "\<forall>other\<in>set later. \<forall>l. load_instruction K other \<noteq> Ok (disc, l)"
    and "encodes K idl layout vs body"
  shows "\<exists>fuel. decode_instruction fuel K idl (disc @ body) =
      Some (Ok (KnownInstruction \<lparr>di_name = ins_name ins,
        di_accounts = map item_name (ins_accounts ins),
        di_args = args_of (li_args layout) vs\<rparr>))"
proof -
  from load_idl_instructions [OF assms(1)] obtain loaded where
    loaded: "list_all2 (\<lambda>x y. load_instruction K x = Inr y) (earlier @ ins # later) loaded"
    and map: "instruction_map idl = map_of (rev loaded)"
    by (auto simp: rmap_eq_Inr assms(2))
  from loaded obtain l1 l2 where l: "loaded = l1 @ (disc, layout) # l2"
    and later: "list_all2 (\<lambda>x y. load_instruction K x = Inr y) later l2"
    using assms(3) by (auto simp: list_all2_append1 list_all2_Cons1)
  have "disc \<notin> fst ` set l2"
  proof
    assume "disc \<in> fst ` set l2"
    then obtain l where "(disc, l) \<in> set l2" by auto
    with later obtain other where "other \<in> set later" "load_instruction K other = Inr (disc, l)"
      by (fastforce simp: list_all2_conv_all_nth in_set_conv_nth)
    with assms(5) show False by auto
  qed
  then have "instruction_map idl disc = Some layout"
    by (simp add: map l map_add_def map_of_eq_None_iff image_def split: option.split)
      (metis fst_conv map_of_SomeD set_rev)
  then have "layout_for idl (disc @ body) = Some layout"
    using assms(4) by (simp add: layout_for_def)
  from eventually_some [OF decode_known_complete [OF this assms(4,6), of "[]"]]
  show ?thesis
    using assms(3) by (auto simp: built_def load_instruction_def rbind_eq_Inr)
qed

theorem load_decode_roundtrip_witness:
  "\<exists>fuel. decode_instruction fuel example_codecs example_idl (buy_discriminator @ buy_body) =
    Some (Ok (KnownInstruction \<lparr>di_name = ins_name buy_instruction,
        di_accounts = map item_name (ins_accounts buy_instruction),
        di_args = args_of (li_args buy_layout) [JInt 5, JInt 263]\<rparr>))"
  by (rule load_decode_roundtrip [OF load_example, of "[]" buy_instruction "[]"])
    (simp_all add: example_document_def load_buy_instruction buy_discriminator_def
      buy_body_encodes)

subsection \<open>The registry\<close>

definition unknown_to :: "loaded_idl list \<Rightarrow> u8 list \<Rightarrow> bool" where
  "unknown_to idls data \<longleftrightarrow> list_all (\<lambda>idl. layout_for idl data = None) idls"

lemma registry_decode_skips:
  "unknown_to early data \<Longrightarrow> registry_decode fuel K (early @ rest) data = registry_decode fuel K rest data"
proof (induction early)
  case (Cons idl early)
  then have "layout_for idl data = None" by (simp add: unknown_to_def)
  then obtain hex where "decode_instruction fuel K idl data =
      Some (Ok (UnknownInstruction hex (length data)))" by (rule decode_unknown)
  with Cons show ?case by (simp add: unknown_to_def)
qed simp

lemma split_unknown:
  obtains "unknown_to idls data"
  | early idl late layout where "idls = early @ idl # late" and "unknown_to early data"
    and "layout_for idl data = Some layout"
proof (cases "unknown_to idls data")
  case False
  then have "\<exists>idl\<in>set idls. layout_for idl data \<noteq> None"
    by (auto simp: unknown_to_def list_all_iff)
  from split_list_first_prop [OF this] that(2) show ?thesis
    by (auto simp: unknown_to_def list_all_iff)
qed (rule that(1))

text \<open>
  The registry answers with the first IDL that knows the discriminator. A decoded instruction
  and a decoding error both come from an IDL that has a layout for the bytes while no earlier IDL has
  one, and the decoded instruction is what the bytes encode in that layout; the answer "unknown"
  means that no IDL of the registry has a layout for them.
\<close>
theorem registry_first_match:
  assumes "registry_decode fuel K idls data = Some r"
  shows "(unknown_to idls data \<and> r = Ok None)
    \<or> (\<exists>early idl late layout. idls = early @ idl # late \<and> unknown_to early data
        \<and> layout_for idl data = Some layout
        \<and> (case r of
             Inl e \<Rightarrow> \<exists>err. e = IdlError err \<and>
               decode_instruction fuel K idl data = Some (Err err)
           | Inr None \<Rightarrow> False
           | Inr (Some ins) \<Rightarrow> \<exists>vs. encodes K idl layout vs (drop 8 data) \<and> ins = built layout vs))"
proof (cases rule: split_unknown [of idls data])
  case 1
  then show ?thesis using assms registry_decode_skips [of idls data fuel K "[]"] by simp
next
  case (2 early idl late layout)
  then have run: "registry_decode fuel K (idl # late) data = Some r"
    using assms registry_decode_skips by simp
  from 2(3) decode_known_layout [OF 2(3), of fuel K] run
  consider err where "decode_instruction fuel K idl data = Some (Err err)" "r = Err (IdlError err)"
    | ins where "decode_instruction fuel K idl data = Some (Ok (KnownInstruction ins))"
        "r = Ok (Some ins)"
    by (auto simp: rbind_def split: option.splits sum.splits instruction_decode.splits)
  then show ?thesis
  proof cases
    case 1
    with 2 show ?thesis by fastforce
  next
    case (2 ins)
    from decode_known_sound [OF 2(1)] \<open>layout_for idl data = Some layout\<close>
    obtain vs where "encodes K idl layout vs (drop 8 data)" "ins = built layout vs" by auto
    with 2 \<open>idls = early @ idl # late\<close> \<open>unknown_to early data\<close> \<open>layout_for idl data = Some layout\<close>
    show ?thesis by fastforce
  qed
qed

theorem registry_first_match_witness:
  "\<exists>early idl late layout. [example_idl] = early @ idl # late \<and> unknown_to early buy_data
    \<and> layout_for idl buy_data = Some layout"
proof -
  obtain fuel where "decode_instruction fuel example_codecs example_idl buy_data =
    Some (Ok (KnownInstruction (built buy_layout [JInt 5, JInt 263])))"
    using buy_data_decodes by blast
  then have "registry_decode fuel example_codecs [example_idl] buy_data =
    Some (Ok (Some (built buy_layout [JInt 5, JInt 263])))" by simp
  from registry_first_match [OF this] show ?thesis by auto
qed

end
