(* ===== verification/Rpc_Budget.thy ===== *)
theory Rpc_Budget
  imports Prelude
begin

text \<open>
  The RPC budget gate, \<open>crates/rpc-budget/src/lib.rs\<close>, and the configuration records it reads
  (\<open>crates/common/src/config.rs\<close>). Every outgoing RPC passes through
  \<open>check_and_record\<close>, which appends one ledger entry per request, accepted or not. The lemmas
  show that the counters are exactly the ledger's accepted cost, that no run of requests exceeds
  the daily and monthly limits or eats into the emergency reserve, and which requests the
  stream-only policy denies.
\<close>

subsection \<open>Configuration\<close>

record rpc_provider_config =
  provider_name :: string
  provider_endpoint :: string
  method_credit_costs :: "string \<rightharpoonup> u64"

record rpc_budget_config =
  daily_credit_limit :: u64
  monthly_credit_limit :: u64
  emergency_reserve :: u64
  deny_when_unknown_live_state :: bool
  per_method_limits :: "string \<rightharpoonup> u64"
  rpc_providers :: "rpc_provider_config list"

record stream_only_config =
  so_enabled :: bool
  fail_on_hot_path_rpc :: bool
  fail_on_unbudgeted_rpc :: bool
  allow_tracking_rpc :: bool
  allow_holder_rpc :: bool
  allow_top_holder_rpc :: bool
  allow_metadata_rpc :: bool
  allow_backfill_rpc :: bool
  allow_reconciliation_rpc :: bool
  allow_confirmation_rpc :: bool
  allow_blockhash_rpc :: bool
  allow_execution_rpc :: bool
  allow_send_rpc :: bool
  allow_emergency_rpc :: bool
  so_rpc_daily_credit_budget :: u64
  so_rpc_monthly_credit_budget :: u64

definition stream_only_default :: stream_only_config where
  "stream_only_default =
    \<lparr>so_enabled = True, fail_on_hot_path_rpc = True, fail_on_unbudgeted_rpc = True,
     allow_tracking_rpc = False, allow_holder_rpc = False, allow_top_holder_rpc = False,
     allow_metadata_rpc = False, allow_backfill_rpc = False, allow_reconciliation_rpc = False,
     allow_confirmation_rpc = False, allow_blockhash_rpc = False, allow_execution_rpc = False,
     allow_send_rpc = False, allow_emergency_rpc = False,
     so_rpc_daily_credit_budget = 0, so_rpc_monthly_credit_budget = 0\<rparr>"

record rpc_config =
  hot_path_enabled :: bool
  rpc_daily_credit_budget :: u64
  rpc_monthly_credit_budget :: u64

subsection \<open>Requests and ledger entries\<close>

datatype rpc_reason =
    ColdStart
  | ProgramConfigValidation
  | ExecutionBlockhash
  | ExecutionSend
  | ExecutionStatusFallback
  | EmergencyReconciliation
  | DevTestFixtures
  | NonProductionVerification

fun allowed_in_live :: "rpc_reason \<Rightarrow> bool" where
  "allowed_in_live ProgramConfigValidation = True"
| "allowed_in_live ExecutionBlockhash = True"
| "allowed_in_live ExecutionSend = True"
| "allowed_in_live ExecutionStatusFallback = True"
| "allowed_in_live EmergencyReconciliation = True"
| "allowed_in_live _ = False"

datatype rpc_call_category =
    MarketData
  | HolderScan
  | TopHolderScan
  | MetadataFetch
  | Backfill
  | Reconciliation
  | Confirmation
  | Blockhash
  | TransactionSend
  | CatTransactionStatus
  | Simulation
  | Emergency
  | DevTest
  | UnknownCategory

datatype rpc_network_kind =
    JsonRpc
  | ERpc
  | HttpMetadata
  | HttpExternal
  | GrpcStream
  | UdpShred
  | InboundMetrics
  | UnknownNetwork

datatype stream_only_policy =
    DenyAllRpc
  | AllowExecutionOnly
  | AllowBlockhashOnly
  | AllowEmergencyOnly
  | PolicyDisabled

record rpc_call_request =
  req_timestamp :: instant
  req_endpoint :: string
  req_method :: string
  req_caller_module :: string
  req_reason :: rpc_reason
  req_category :: rpc_call_category
  req_network_kind :: rpc_network_kind
  req_related_token :: "string option"
  req_related_signature :: "string option"
  estimated_provider_credit_cost :: u64
  actual_provider_credit_cost :: "u64 option"
  req_config_hash :: string
  req_run_id :: string
  req_live_mode :: bool

record rpc_ledger_entry =
  le_request :: rpc_call_request
  le_allowed :: bool
  le_denied :: bool
  budget_remaining :: u64
  denial_reason :: "string option"
  le_stream_only_enabled :: bool
  network_touched :: bool

record rpc_budget_manager =
  rb_config :: rpc_budget_config
  rb_live_enabled :: bool
  rb_stream_only :: stream_only_config
  rb_rpc :: rpc_config
  daily_used :: u64
  monthly_used :: u64
  per_method_used :: "string \<rightharpoonup> u64"
  rb_ledger :: "rpc_ledger_entry list"
  known_budget_state :: bool

datatype rpc_budget_error =
    DailyBudgetExceeded
  | MonthlyBudgetExceeded
  | PerMethodBudgetExceeded string
  | EmergencyReserveBreached
  | ReasonNotAllowed rpc_reason
  | UnknownBudgetState
  | StreamOnlyDenied rpc_call_category string

text \<open>The names the derived \<open>Debug\<close> instances print in denial reasons.\<close>

fun debug_reason :: "rpc_reason \<Rightarrow> string" where
  "debug_reason ColdStart = ''ColdStart''"
| "debug_reason ProgramConfigValidation = ''ProgramConfigValidation''"
| "debug_reason ExecutionBlockhash = ''ExecutionBlockhash''"
| "debug_reason ExecutionSend = ''ExecutionSend''"
| "debug_reason ExecutionStatusFallback = ''ExecutionStatusFallback''"
| "debug_reason EmergencyReconciliation = ''EmergencyReconciliation''"
| "debug_reason DevTestFixtures = ''DevTestFixtures''"
| "debug_reason NonProductionVerification = ''NonProductionVerification''"

fun debug_category :: "rpc_call_category \<Rightarrow> string" where
  "debug_category MarketData = ''MarketData''"
| "debug_category HolderScan = ''HolderScan''"
| "debug_category TopHolderScan = ''TopHolderScan''"
| "debug_category MetadataFetch = ''MetadataFetch''"
| "debug_category Backfill = ''Backfill''"
| "debug_category Reconciliation = ''Reconciliation''"
| "debug_category Confirmation = ''Confirmation''"
| "debug_category Blockhash = ''Blockhash''"
| "debug_category TransactionSend = ''TransactionSend''"
| "debug_category CatTransactionStatus = ''TransactionStatus''"
| "debug_category Simulation = ''Simulation''"
| "debug_category Emergency = ''Emergency''"
| "debug_category DevTest = ''DevTest''"
| "debug_category UnknownCategory = ''Unknown''"

fun debug_policy :: "stream_only_policy \<Rightarrow> string" where
  "debug_policy DenyAllRpc = ''DenyAllRpc''"
| "debug_policy AllowExecutionOnly = ''AllowExecutionOnly''"
| "debug_policy AllowBlockhashOnly = ''AllowBlockhashOnly''"
| "debug_policy AllowEmergencyOnly = ''AllowEmergencyOnly''"
| "debug_policy PolicyDisabled = ''Disabled''"

subsection \<open>Operations\<close>

definition new_budget_manager ::
  "rpc_budget_config \<Rightarrow> bool \<Rightarrow> stream_only_config \<Rightarrow> rpc_config \<Rightarrow> rpc_budget_manager" where
  "new_budget_manager config live_enabled so rpc =
    \<lparr>rb_config = config, rb_live_enabled = live_enabled, rb_stream_only = so, rb_rpc = rpc,
     daily_used = 0, monthly_used = 0, per_method_used = (\<lambda>_. None), rb_ledger = [],
     known_budget_state = True\<rparr>"

definition mark_budget_state_unknown :: "rpc_budget_manager \<Rightarrow> rpc_budget_manager" where
  "mark_budget_state_unknown m = m\<lparr>known_budget_state := False\<rparr>"

fun is_stream_kind :: "rpc_network_kind \<Rightarrow> bool" where
  "is_stream_kind GrpcStream = True"
| "is_stream_kind UdpShred = True"
| "is_stream_kind InboundMetrics = True"
| "is_stream_kind _ = False"

definition stream_only_policy_of :: "stream_only_config \<Rightarrow> stream_only_policy" where
  "stream_only_policy_of so =
    (if \<not> so_enabled so then PolicyDisabled
     else if allow_execution_rpc so \<or> allow_send_rpc so then AllowExecutionOnly
     else if allow_blockhash_rpc so then AllowBlockhashOnly
     else if allow_emergency_rpc so then AllowEmergencyOnly
     else DenyAllRpc)"

fun category_allowed :: "stream_only_config \<Rightarrow> rpc_call_category \<Rightarrow> bool" where
  "category_allowed so MarketData = allow_tracking_rpc so"
| "category_allowed so HolderScan = allow_holder_rpc so"
| "category_allowed so TopHolderScan = allow_top_holder_rpc so"
| "category_allowed so MetadataFetch = allow_metadata_rpc so"
| "category_allowed so Backfill = allow_backfill_rpc so"
| "category_allowed so Reconciliation = allow_reconciliation_rpc so"
| "category_allowed so Confirmation = allow_confirmation_rpc so"
| "category_allowed so CatTransactionStatus = allow_confirmation_rpc so"
| "category_allowed so Blockhash = allow_blockhash_rpc so"
| "category_allowed so TransactionSend = (allow_execution_rpc so \<and> allow_send_rpc so)"
| "category_allowed so Simulation = (allow_execution_rpc so \<and> allow_send_rpc so)"
| "category_allowed so Emergency = allow_emergency_rpc so"
| "category_allowed so DevTest = False"
| "category_allowed so UnknownCategory = (\<not> fail_on_unbudgeted_rpc so)"

definition stream_only_denial_reason ::
  "stream_only_config \<Rightarrow> rpc_call_request \<Rightarrow> string option" where
  "stream_only_denial_reason so request =
    (if \<not> so_enabled so then None
     else if is_stream_kind (req_network_kind request) then None
     else if category_allowed so (req_category request) then None
     else Some (''stream-only policy '' @ debug_policy (stream_only_policy_of so) @
                '' forbids '' @ req_method request @
                '' ('' @ debug_category (req_category request) @ '')''))"

definition remaining_budget :: "rpc_budget_manager \<Rightarrow> u64" where
  "remaining_budget m = sat_sub (daily_credit_limit (rb_config m)) (daily_used m)"

definition denial_entry ::
  "rpc_budget_manager \<Rightarrow> rpc_call_request \<Rightarrow> string \<Rightarrow> rpc_ledger_entry" where
  "denial_entry m request reason =
    \<lparr>le_request = request, le_allowed = False, le_denied = True,
     budget_remaining = remaining_budget m, denial_reason = Some reason,
     le_stream_only_enabled = so_enabled (rb_stream_only m), network_touched = False\<rparr>"

definition allow_entry ::
  "rpc_budget_manager \<Rightarrow> rpc_call_request \<Rightarrow> u64 \<Rightarrow> rpc_ledger_entry" where
  "allow_entry m request remaining =
    \<lparr>le_request = request, le_allowed = True, le_denied = False,
     budget_remaining = remaining, denial_reason = None,
     le_stream_only_enabled = so_enabled (rb_stream_only m), network_touched = False\<rparr>"

definition push_entry :: "rpc_budget_manager \<Rightarrow> rpc_ledger_entry \<Rightarrow> rpc_budget_manager" where
  "push_entry m e = m\<lparr>rb_ledger := rb_ledger m @ [e]\<rparr>"

definition record_denial ::
  "rpc_budget_manager \<Rightarrow> rpc_call_request \<Rightarrow> string \<Rightarrow> rpc_budget_manager" where
  "record_denial m request reason = push_entry m (denial_entry m request reason)"

definition method_used :: "rpc_budget_manager \<Rightarrow> string \<Rightarrow> u64" where
  "method_used m meth = (case per_method_used m meth of None \<Rightarrow> 0 | Some u \<Rightarrow> u)"

definition next_method_total :: "rpc_budget_manager \<Rightarrow> rpc_call_request \<Rightarrow> u64" where
  "next_method_total m request =
    sat_add (method_used m (req_method request)) (estimated_provider_credit_cost request)"

definition method_limit_exceeded :: "rpc_budget_manager \<Rightarrow> rpc_call_request \<Rightarrow> bool" where
  "method_limit_exceeded m request =
    (case per_method_limits (rb_config m) (req_method request) of
       None \<Rightarrow> False
     | Some limit \<Rightarrow> next_method_total m request > limit)"

definition charge :: "rpc_budget_manager \<Rightarrow> rpc_call_request \<Rightarrow> rpc_budget_manager" where
  "charge m request =
    m\<lparr>daily_used := sat_add (daily_used m) (estimated_provider_credit_cost request),
      monthly_used := sat_add (monthly_used m) (estimated_provider_credit_cost request),
      per_method_used :=
        (per_method_used m)(req_method request \<mapsto> next_method_total m request)\<rparr>"

definition msg_unknown_state :: string where
  "msg_unknown_state = ''unknown budget state while live mode is fail-closed''"

definition msg_reason_not_allowed :: "rpc_reason \<Rightarrow> string" where
  "msg_reason_not_allowed reason =
    ''reason '' @ debug_reason reason @ '' is not allowed in live mode''"

definition msg_daily_exceeded :: string where
  "msg_daily_exceeded = ''daily budget exceeded''"

definition msg_monthly_exceeded :: string where
  "msg_monthly_exceeded = ''monthly budget exceeded''"

definition msg_method_exceeded :: "string \<Rightarrow> string" where
  "msg_method_exceeded meth = ''per-method budget exceeded for '' @ meth"

definition msg_reserve_breached :: string where
  "msg_reserve_breached = ''emergency reserve would be breached''"

definition check_and_record ::
  "rpc_budget_manager \<Rightarrow> rpc_call_request \<Rightarrow>
   rpc_budget_manager \<times> (rpc_budget_error, rpc_ledger_entry) result" where
  "check_and_record m request =
    (let cost = estimated_provider_credit_cost request in
     case stream_only_denial_reason (rb_stream_only m) request of
       Some reason \<Rightarrow>
         (record_denial m request reason, Err (StreamOnlyDenied (req_category request) reason))
     | None \<Rightarrow>
         if req_live_mode request \<and> deny_when_unknown_live_state (rb_config m)
              \<and> \<not> known_budget_state m
         then (record_denial m request msg_unknown_state,
               Err UnknownBudgetState)
         else if req_live_mode request \<and> \<not> allowed_in_live (req_reason request)
         then (record_denial m request (msg_reason_not_allowed (req_reason request)),
               Err (ReasonNotAllowed (req_reason request)))
         else if is_stream_kind (req_network_kind request)
         then (let entry = allow_entry m request (remaining_budget m)
               in (push_entry m entry, Ok entry))
         else if sat_add (daily_used m) cost > daily_credit_limit (rb_config m)
         then (record_denial m request msg_daily_exceeded, Err DailyBudgetExceeded)
         else if sat_add (monthly_used m) cost > monthly_credit_limit (rb_config m)
         then (record_denial m request msg_monthly_exceeded, Err MonthlyBudgetExceeded)
         else if method_limit_exceeded m request
         then (record_denial m request (msg_method_exceeded (req_method request)),
               Err (PerMethodBudgetExceeded (req_method request)))
         else (let remaining_after =
                     sat_sub (daily_credit_limit (rb_config m)) (sat_add (daily_used m) cost)
               in if remaining_after < emergency_reserve (rb_config m)
                  then (record_denial m request msg_reserve_breached,
                        Err EmergencyReserveBreached)
                  else (let entry = allow_entry m request remaining_after
                        in (push_entry (charge m request) entry, Ok entry))))"

fun run_requests :: "rpc_budget_manager \<Rightarrow> rpc_call_request list \<Rightarrow> rpc_budget_manager" where
  "run_requests m [] = m"
| "run_requests m (r # rs) = run_requests (fst (check_and_record m r)) rs"

record rpc_budget_summary =
  sum_live_enabled :: bool
  sum_stream_only_enabled :: bool
  sum_stream_only_policy :: stream_only_policy
  sum_daily_used :: u64
  sum_daily_limit :: u64
  sum_monthly_used :: u64
  sum_monthly_limit :: u64
  sum_emergency_reserve :: u64
  ledger_entries :: nat
  allowed_entries :: nat
  denied_entries :: nat
  network_calls_total :: nat
  market_data_rpc_calls_allowed :: bool
  holder_rpc_calls_allowed :: bool
  metadata_fetch_allowed :: bool
  confirmation_rpc_allowed :: bool
  blockhash_rpc_allowed :: bool
  rpc_hot_path_enabled :: bool

definition budget_summary :: "rpc_budget_manager \<Rightarrow> rpc_budget_summary" where
  "budget_summary m =
    \<lparr>sum_live_enabled = rb_live_enabled m,
     sum_stream_only_enabled = so_enabled (rb_stream_only m),
     sum_stream_only_policy = stream_only_policy_of (rb_stream_only m),
     sum_daily_used = daily_used m,
     sum_daily_limit = daily_credit_limit (rb_config m),
     sum_monthly_used = monthly_used m,
     sum_monthly_limit = monthly_credit_limit (rb_config m),
     sum_emergency_reserve = emergency_reserve (rb_config m),
     ledger_entries = length (rb_ledger m),
     allowed_entries = length (filter le_allowed (rb_ledger m)),
     denied_entries = length (filter le_denied (rb_ledger m)),
     network_calls_total =
       length (filter (\<lambda>e. le_allowed e \<and> network_touched e) (rb_ledger m)),
     market_data_rpc_calls_allowed = allow_tracking_rpc (rb_stream_only m),
     holder_rpc_calls_allowed = allow_holder_rpc (rb_stream_only m),
     metadata_fetch_allowed = allow_metadata_rpc (rb_stream_only m),
     confirmation_rpc_allowed = allow_confirmation_rpc (rb_stream_only m),
     blockhash_rpc_allowed = allow_blockhash_rpc (rb_stream_only m),
     rpc_hot_path_enabled = hot_path_enabled (rb_rpc m)\<rparr>"


subsection \<open>What a gated client may rely on\<close>

text \<open>
  The contract between the gate and the code that calls it: each request leaves one entry in the
  log, a refused request costs nothing, spending never shrinks, and an invariant is kept. The
  executor and every sequence of requests rely on these laws only.
\<close>

locale budget_gate =
  fixes gate :: "'m \<Rightarrow> 'r \<Rightarrow> 'm \<times> ('e, 'a) result"
    and log :: "'m \<Rightarrow> 'l list"
    and spent :: "'m \<Rightarrow> nat"
    and gate_inv :: "'m \<Rightarrow> bool"
  assumes gate_logs: "\<exists>e. log (fst (gate m r)) = log m @ [e]"
    and gate_refuses: "snd (gate m r) = Inl e \<Longrightarrow> spent (fst (gate m r)) = spent m"
    and gate_mono: "spent m \<le> spent (fst (gate m r))"
    and gate_keeps: "gate_inv m \<Longrightarrow> gate_inv (fst (gate m r))"
begin

lemma run_keeps: "gate_inv m \<Longrightarrow> gate_inv (fold (\<lambda>r m. fst (gate m r)) rs m)"
  by (induction rs arbitrary: m) (auto intro: gate_keeps)

lemma run_logs: "length (log (fold (\<lambda>r m. fst (gate m r)) rs m)) = length (log m) + length rs"
proof (induction rs arbitrary: m)
  case Nil
  then show ?case by simp
next
  case (Cons r rs)
  obtain e where "log (fst (gate m r)) = log m @ [e]" using gate_logs by blast
  then show ?case by (simp add: Cons.IH)
qed

lemma run_mono: "spent m \<le> spent (fold (\<lambda>r m. fst (gate m r)) rs m)"
proof (induction rs arbitrary: m)
  case Nil
  then show ?case by simp
next
  case (Cons r rs)
  have "spent m \<le> spent (fst (gate m r))" by (rule gate_mono)
  also have "\<dots> \<le> spent (fold (\<lambda>r m. fst (gate m r)) rs (fst (gate m r)))" by (rule Cons.IH)
  finally show ?case by simp
qed

end

subsection \<open>The ledger as the abstract account\<close>

definition metered :: "rpc_ledger_entry \<Rightarrow> bool" where
  "metered e \<longleftrightarrow> le_allowed e \<and> \<not> is_stream_kind (req_network_kind (le_request e))"

definition entry_cost :: "rpc_ledger_entry \<Rightarrow> nat" where
  "entry_cost e = unat (estimated_provider_credit_cost (le_request e))"

definition ledger_cost :: "rpc_ledger_entry list \<Rightarrow> nat" where
  "ledger_cost l = sum_list (map entry_cost (filter metered l))"

definition method_cost :: "string \<Rightarrow> rpc_ledger_entry list \<Rightarrow> nat" where
  "method_cost meth l =
    sum_list (map entry_cost (filter (\<lambda>e. metered e \<and> req_method (le_request e) = meth) l))"

abbreviation u64_max :: nat where "u64_max \<equiv> 2 ^ 64 - 1"

definition counters_agree :: "rpc_budget_manager \<Rightarrow> bool" where
  "counters_agree m \<longleftrightarrow>
     unat (daily_used m) = min (ledger_cost (rb_ledger m)) u64_max \<and>
     unat (monthly_used m) = min (ledger_cost (rb_ledger m)) u64_max \<and>
     (\<forall>meth. unat (method_used m meth) = min (method_cost meth (rb_ledger m)) u64_max)"

definition limits_kept :: "rpc_budget_manager \<Rightarrow> bool" where
  "limits_kept m \<longleftrightarrow>
     (daily_used m = 0 \<or>
      unat (daily_used m) + unat (emergency_reserve (rb_config m))
        \<le> unat (daily_credit_limit (rb_config m))) \<and>
     monthly_used m \<le> monthly_credit_limit (rb_config m) \<and>
     (\<forall>meth limit u. per_method_limits (rb_config m) meth = Some limit \<longrightarrow>
        per_method_used m meth = Some u \<longrightarrow> u \<le> limit)"

definition entry_ok :: "rpc_ledger_entry \<Rightarrow> bool" where
  "entry_ok e \<longleftrightarrow> (le_denied e \<longleftrightarrow> \<not> le_allowed e) \<and> \<not> network_touched e \<and>
     (le_denied e \<longleftrightarrow> denial_reason e \<noteq> None)"

definition budget_inv :: "rpc_budget_manager \<Rightarrow> bool" where
  "budget_inv m \<longleftrightarrow>
     counters_agree m \<and> limits_kept m \<and> (\<forall>e \<in> set (rb_ledger m). entry_ok e)"

lemma ledger_cost_snoc [simp]:
  "ledger_cost (l @ [e]) = ledger_cost l + (if metered e then entry_cost e else 0)"
  by (simp add: ledger_cost_def)

lemma method_cost_snoc [simp]:
  "method_cost meth (l @ [e]) =
     method_cost meth l +
     (if metered e \<and> req_method (le_request e) = meth then entry_cost e else 0)"
  by (simp add: method_cost_def)

lemma ledger_cost_Nil [simp]: "ledger_cost [] = 0" "method_cost meth [] = 0"
  by (simp_all add: ledger_cost_def method_cost_def)

lemma entry_fields [simp]:
  "\<not> metered (denial_entry m r reason)"
  "metered (allow_entry m r c) \<longleftrightarrow> \<not> is_stream_kind (req_network_kind r)"
  "entry_cost (allow_entry m r c) = unat (estimated_provider_credit_cost r)"
  "entry_ok (denial_entry m r reason)" "entry_ok (allow_entry m r c)"
  "le_request (allow_entry m r c) = r" "le_allowed (allow_entry m r c)"
  "le_denied (denial_entry m r reason)" "\<not> le_allowed (denial_entry m r reason)"
  by (simp_all add: metered_def entry_cost_def entry_ok_def denial_entry_def allow_entry_def)

lemma push_entry_fields [simp]:
  "rb_config (push_entry m e) = rb_config m" "rb_ledger (push_entry m e) = rb_ledger m @ [e]"
  "daily_used (push_entry m e) = daily_used m" "monthly_used (push_entry m e) = monthly_used m"
  "per_method_used (push_entry m e) = per_method_used m"
  "rb_stream_only (push_entry m e) = rb_stream_only m"
  "known_budget_state (push_entry m e) = known_budget_state m"
  by (simp_all add: push_entry_def)

lemma charge_fields [simp]:
  "rb_config (charge m r) = rb_config m" "rb_ledger (charge m r) = rb_ledger m"
  "rb_stream_only (charge m r) = rb_stream_only m"
  "known_budget_state (charge m r) = known_budget_state m"
  by (simp_all add: charge_def)

subsection \<open>The three outcomes of a request\<close>

definition affordable :: "rpc_budget_manager \<Rightarrow> rpc_call_request \<Rightarrow> bool" where
  "affordable m r \<longleftrightarrow>
     (let cost = estimated_provider_credit_cost r; day = sat_add (daily_used m) cost in
      unat day + unat (emergency_reserve (rb_config m)) \<le> unat (daily_credit_limit (rb_config m)) \<and>
      sat_add (monthly_used m) cost \<le> monthly_credit_limit (rb_config m) \<and>
      \<not> method_limit_exceeded m r)"

lemma check_and_record_outcome:
  obtains
    (denied) reason err where
      "check_and_record m r = (record_denial m r reason, Err err)"
  | (streamed) e where "is_stream_kind (req_network_kind r)"
      "e = allow_entry m r (remaining_budget m)"
      "check_and_record m r = (push_entry m e, Ok e)"
  | (charged) e c where "\<not> is_stream_kind (req_network_kind r)" "affordable m r"
      "stream_only_denial_reason (rb_stream_only m) r = None"
      "e = allow_entry m r c"
      "check_and_record m r = (push_entry (charge m r) e, Ok e)"
proof -
  let ?c = "estimated_provider_credit_cost r"
  let ?day = "sat_add (daily_used m) ?c"
  let ?limit = "daily_credit_limit (rb_config m)"
  let ?rest = "sat_sub ?limit ?day"
  note unfold = check_and_record_def Let_def
  show thesis
  proof (cases "stream_only_denial_reason (rb_stream_only m) r")
    case (Some reason)
    then show ?thesis by (intro denied) (simp add: unfold)
  next
    case free: None
    show ?thesis
    proof (cases "req_live_mode r \<and> deny_when_unknown_live_state (rb_config m)
        \<and> \<not> known_budget_state m \<or> req_live_mode r \<and> \<not> allowed_in_live (req_reason r)")
      case True
      then have "fst (check_and_record m r) \<in> range (record_denial m r) \<and>
          (\<exists>err. snd (check_and_record m r) = Err err)"
        by (auto simp: unfold free)
      then show ?thesis by (metis denied imageE prod.collapse)
    next
      case live: False
      show ?thesis
      proof (cases "is_stream_kind (req_network_kind r)")
        case True
        with live show ?thesis by (intro streamed) (auto simp: unfold free)
      next
        case metered: False
        note branch = unfold free live metered
        show ?thesis
        proof (cases "?day > ?limit \<or> sat_add (monthly_used m) ?c > monthly_credit_limit (rb_config m)
            \<or> method_limit_exceeded m r \<or> ?rest < emergency_reserve (rb_config m)")
          case True
          with live metered have "fst (check_and_record m r) \<in> range (record_denial m r) \<and>
              (\<exists>err. snd (check_and_record m r) = Err err)"
            by (auto simp: unfold free)
          then show ?thesis by (metis denied imageE prod.collapse)
        next
          case False
          then have "affordable m r"
            by (auto simp: affordable_def Let_def width_simps not_less)
          moreover from False live metered have "check_and_record m r =
              (push_entry (charge m r) (allow_entry m r ?rest), Ok (allow_entry m r ?rest))"
            by (auto simp: unfold free)
          ultimately show ?thesis using metered free charged by blast
        qed
      qed
    qed
  qed
qed

lemma record_denial_fields [simp]:
  "rb_config (record_denial m r s) = rb_config m"
  "rb_ledger (record_denial m r s) = rb_ledger m @ [denial_entry m r s]"
  "daily_used (record_denial m r s) = daily_used m"
  "monthly_used (record_denial m r s) = monthly_used m"
  "per_method_used (record_denial m r s) = per_method_used m"
  "rb_stream_only (record_denial m r s) = rb_stream_only m"
  "known_budget_state (record_denial m r s) = known_budget_state m"
  by (simp_all add: record_denial_def)

lemma min_absorb_add: "min (min a M + c) M = min (a + c) (M :: nat)"
  by simp

lemma charge_counters:
  "unat (daily_used (charge m r)) =
     min (unat (daily_used m) + unat (estimated_provider_credit_cost r)) u64_max"
  "unat (monthly_used (charge m r)) =
     min (unat (monthly_used m) + unat (estimated_provider_credit_cost r)) u64_max"
  "per_method_used (charge m r) =
     (per_method_used m)(req_method r \<mapsto> next_method_total m r)"
  by (simp_all add: charge_def width_simps)

lemma next_method_total_unat:
  "unat (next_method_total m r) =
     min (unat (method_used m (req_method r)) + unat (estimated_provider_credit_cost r)) u64_max"
  by (simp add: next_method_total_def width_simps)

lemma method_used_simps [simp]:
  "method_used (push_entry m e) = method_used m"
  "method_used (charge m r) = (method_used m)(req_method r := next_method_total m r)"
  by (auto simp: method_used_def charge_def fun_eq_iff)


subsection \<open>Every request keeps the account\<close>

lemma counters_agree_charge:
  assumes "counters_agree m" and stream: "\<not> is_stream_kind (req_network_kind r)"
  shows "counters_agree (push_entry (charge m r) (allow_entry m r c))"
  using assms by (auto simp: counters_agree_def charge_counters next_method_total_unat)

lemma counters_agree_free:
  "counters_agree m \<Longrightarrow> \<not> metered e \<Longrightarrow> counters_agree (push_entry m e)"
  by (simp add: counters_agree_def)

lemma limits_kept_charge:
  assumes "limits_kept m" and "affordable m r"
  shows "limits_kept (push_entry (charge m r) e)"
proof -
  have "u \<le> limit"
    if "per_method_limits (rb_config m) meth = Some limit"
      and "per_method_used (charge m r) meth = Some u" for meth limit u
    using that assms
    by (cases "meth = req_method r")
       (auto simp: limits_kept_def affordable_def Let_def charge_def method_limit_exceeded_def
          not_less split: option.splits)
  moreover have "monthly_used (charge m r) \<le> monthly_credit_limit (rb_config m)"
    "unat (daily_used (charge m r)) + unat (emergency_reserve (rb_config m))
       \<le> unat (daily_credit_limit (rb_config m))"
    using assms(2) by (simp_all add: affordable_def Let_def charge_def)
  ultimately show ?thesis by (auto simp: limits_kept_def)
qed

lemma limits_kept_free: "limits_kept m \<Longrightarrow> limits_kept (push_entry m e)"
  by (simp add: limits_kept_def)

lemma check_and_record_inv:
  assumes "budget_inv m"
  shows "budget_inv (fst (check_and_record m r))"
proof (cases m r rule: check_and_record_outcome)
  case (denied reason err)
  with assms show ?thesis
    by (simp add: budget_inv_def record_denial_def counters_agree_free limits_kept_free)
next
  case (streamed e)
  with assms show ?thesis
    by (simp add: budget_inv_def counters_agree_free limits_kept_free)
next
  case (charged e c)
  with assms show ?thesis
    by (simp add: budget_inv_def counters_agree_charge limits_kept_charge)
qed

lemma new_budget_inv: "budget_inv (new_budget_manager config live so rpc)"
  by (simp add: budget_inv_def counters_agree_def limits_kept_def new_budget_manager_def
      method_used_def)

lemma check_and_record_logs:
  "\<exists>e. rb_ledger (fst (check_and_record m r)) = rb_ledger m @ [e] \<and> le_request e = r
      \<and> (is_ok (snd (check_and_record m r)) \<longleftrightarrow> le_allowed e)"
  by (cases m r rule: check_and_record_outcome) (auto simp: denial_entry_def)

lemma check_and_record_refuses:
  assumes "snd (check_and_record m r) = Inl err"
  shows "daily_used (fst (check_and_record m r)) = daily_used m \<and>
    monthly_used (fst (check_and_record m r)) = monthly_used m \<and>
    per_method_used (fst (check_and_record m r)) = per_method_used m"
  using assms by (cases m r rule: check_and_record_outcome) auto

lemma check_and_record_frame:
  "rb_config (fst (check_and_record m r)) = rb_config m"
  "rb_stream_only (fst (check_and_record m r)) = rb_stream_only m"
  "known_budget_state (fst (check_and_record m r)) = known_budget_state m"
  by (cases m r rule: check_and_record_outcome; simp)+

lemma daily_used_mono: "daily_used m \<le> daily_used (fst (check_and_record m r))"
  by (cases m r rule: check_and_record_outcome) (auto simp: charge_def sat_add_mono)

interpretation rpc_gate: budget_gate check_and_record rb_ledger "\<lambda>m. unat (daily_used m)" budget_inv
proof
  fix m r show "\<exists>e. rb_ledger (fst (check_and_record m r)) = rb_ledger m @ [e]"
    using check_and_record_logs by blast
next
  fix m r and e :: rpc_budget_error assume "snd (check_and_record m r) = Inl e"
  then show "unat (daily_used (fst (check_and_record m r))) = unat (daily_used m)"
    using check_and_record_refuses by simp
next
  fix m r show "unat (daily_used m) \<le> unat (daily_used (fst (check_and_record m r)))"
    using daily_used_mono by (simp add: width_simps)
next
  fix m r assume "budget_inv m"
  then show "budget_inv (fst (check_and_record m r))" by (rule check_and_record_inv)
qed

lemma run_requests_fold:
  "run_requests m rs = fold (\<lambda>r m. fst (check_and_record m r)) rs m"
  by (induction rs arbitrary: m) simp_all

lemma run_requests_frame:
  "rb_config (run_requests m rs) = rb_config m"
  "rb_stream_only (run_requests m rs) = rb_stream_only m"
  by (induction rs arbitrary: m) (simp_all add: check_and_record_frame)

subsection \<open>Properties of a run\<close>

text \<open>
  C9. Whatever sequence of requests reaches a fresh manager: the counters equal the (saturated)
  cost of the metered entries of the ledger, in total and per method; a day with spending leaves
  the emergency reserve under the daily limit; the monthly limit and every per-method limit hold;
  every entry is either allowed or denied, carries a reason exactly when denied and never records
  a touched network; and the ledger has one entry per request.
\<close>

theorem budget_run_invariant:
  "budget_inv (run_requests (new_budget_manager config live so rpc) rs) \<and>
   length (rb_ledger (run_requests (new_budget_manager config live so rpc) rs)) = length rs"
  using rpc_gate.run_keeps [OF new_budget_inv, of rs config live so rpc]
    rpc_gate.run_logs [of rs "new_budget_manager config live so rpc"]
  by (simp add: run_requests_fold) (simp add: new_budget_manager_def)

lemma ledger_cost_le_limit:
  assumes "budget_inv m" and "ledger_cost (rb_ledger m) < u64_max"
    and "0 < ledger_cost (rb_ledger m)"
  shows "ledger_cost (rb_ledger m) + unat (emergency_reserve (rb_config m))
      \<le> unat (daily_credit_limit (rb_config m))"
proof -
  from assms have "unat (daily_used m) = ledger_cost (rb_ledger m)"
    by (simp add: budget_inv_def counters_agree_def)
  with assms show ?thesis
    by (auto simp: budget_inv_def limits_kept_def)
qed

text \<open>
  A refused request is free and leaves a trace: no counter moves, and the ledger gains exactly
  one denied entry for that request, whatever the reason of the refusal; an accepted one gains
  exactly one allowed entry.
\<close>

theorem refusal_is_free_and_logged:
  "(\<exists>e. rb_ledger (fst (check_and_record m r)) = rb_ledger m @ [e] \<and> le_request e = r \<and>
      (is_ok (snd (check_and_record m r)) \<longleftrightarrow> le_allowed e)) \<and>
   (is_ok (snd (check_and_record m r)) \<or>
     (daily_used (fst (check_and_record m r)) = daily_used m \<and>
      monthly_used (fst (check_and_record m r)) = monthly_used m \<and>
      per_method_used (fst (check_and_record m r)) = per_method_used m))"
proof (cases "snd (check_and_record m r)")
  case (Inl err)
  then show ?thesis
    using check_and_record_logs [of m r] check_and_record_refuses [OF Inl] by auto
next
  case (Inr e)
  then show ?thesis using check_and_record_logs [of m r] by simp
qed

text \<open>
  With the default stream-only configuration every request on a network other than the
  inbound streams is refused by the stream-only policy, whatever its category, cost and reason.
\<close>

theorem stream_only_default_denies:
  assumes "rb_stream_only m = stream_only_default" and "\<not> is_stream_kind (req_network_kind r)"
  shows "\<exists>reason. snd (check_and_record m r) = Err (StreamOnlyDenied (req_category r) reason)
    \<and> fst (check_and_record m r) = record_denial m r reason"
proof -
  have "\<not> category_allowed stream_only_default (req_category r)"
    by (cases "req_category r") (simp_all add: stream_only_default_def)
  moreover have "so_enabled stream_only_default" by (simp add: stream_only_default_def)
  ultimately show ?thesis
    using assms by (simp add: check_and_record_def Let_def stream_only_denial_reason_def)
qed

definition example_request :: rpc_call_request where
  "example_request =
    \<lparr>req_timestamp = 0, req_endpoint = ''http://127.0.0.1:8899'', req_method = ''getAccountInfo'',
     req_caller_module = ''tests'', req_reason = DevTestFixtures, req_category = MarketData,
     req_network_kind = JsonRpc, req_related_token = None, req_related_signature = None,
     estimated_provider_credit_cost = 1, actual_provider_credit_cost = None,
     req_config_hash = ''abc'', req_run_id = ''dev'', req_live_mode = False\<rparr>"

definition example_config :: rpc_budget_config where
  "example_config =
    \<lparr>daily_credit_limit = 10, monthly_credit_limit = 100, emergency_reserve = 2,
     deny_when_unknown_live_state = True, per_method_limits = (\<lambda>_. None), rpc_providers = []\<rparr>"

theorem stream_only_default_denies_witness:
  "\<exists>reason. snd (check_and_record (new_budget_manager example_config False stream_only_default
      \<lparr>hot_path_enabled = False, rpc_daily_credit_budget = 0, rpc_monthly_credit_budget = 0\<rparr>)
      example_request) = Err (StreamOnlyDenied MarketData reason)"
  using stream_only_default_denies
    [of "new_budget_manager example_config False stream_only_default
      \<lparr>hot_path_enabled = False, rpc_daily_credit_budget = 0, rpc_monthly_credit_budget = 0\<rparr>"
      example_request]
  by (auto simp: new_budget_manager_def example_request_def)

end
