(* ===== verification/Config_Records.thy ===== *)
theory Config_Records
  imports Rpc_Budget
begin

text \<open>
  The configuration sections of \<open>crates/common/src/config.rs\<close> that the validators, the executor and
  the ingest paths read: one record per struct, its \<open>Default\<close> and its \<open>apply_defaults\<close>. \<open>Decimal\<close>
  is the type parameter \<open>'d\<close>, with \<open>dec\<close> for \<open>Decimal::new\<close> (mantissa and scale; \<open>Decimal::from n\<close>
  is scale 0); \<open>f64\<close> is the type parameter \<open>'f\<close>. Every section's \<open>apply_defaults\<close> is idempotent.
\<close>

subsection \<open>Filling in a field\<close>

definition if_zero :: "'a::zero \<Rightarrow> 'a \<Rightarrow> 'a" where
  "if_zero d v = (if v = 0 then d else v)"

definition if_blank :: "string \<Rightarrow> string \<Rightarrow> string" where
  "if_blank d v = (if is_blank v then d else v)"

definition if_empty :: "'a list \<Rightarrow> 'a list \<Rightarrow> 'a list" where
  "if_empty d v = (if v = [] then d else v)"

definition if_nonpos :: "'d::{zero,linorder} \<Rightarrow> 'd \<Rightarrow> 'd" where
  "if_nonpos d v = (if v \<le> 0 then d else v)"

text \<open>The documented behaviour of \<open>Decimal::new\<close> the sections rely on.\<close>

definition decimal_positive :: "(int \<Rightarrow> nat \<Rightarrow> 'd::{zero,linorder}) \<Rightarrow> bool" where
  "decimal_positive dec \<longleftrightarrow> (\<forall>n s. 0 < n \<longrightarrow> 0 < dec n s)"

lemma filled_twice [simp]:
  "if_zero d (if_zero d v) = if_zero d v" "if_blank s (if_blank s t) = if_blank s t"
  "if_empty xs (if_empty xs ys) = if_empty xs ys" "if_nonpos x (if_nonpos x y) = if_nonpos x y"
  by (simp_all add: if_zero_def if_blank_def if_empty_def if_nonpos_def)

lemma if_zero_nonzero [simp]: "d \<noteq> 0 \<Longrightarrow> if_zero d v \<noteq> 0"
  by (simp add: if_zero_def)

lemma if_blank_filled [simp]: "\<not> is_blank d \<Longrightarrow> \<not> is_blank (if_blank d v)"
  by (simp add: if_blank_def)

subsection \<open>Enumerations\<close>

datatype runtime_mode_name =
    ModeFixture
  | ModeReplay
  | ModePaperFromStore
  | ModeLiveDataPaper
  | ModeEdgeCollector
  | ModeResearchWorker
  | ModeAutopilot
  | ModeGuardedLiveDryRun
  | ModeGuardedLiveEnabled

datatype commitment_mode =
    CommitProcessed
  | CommitConfirmed
  | CommitFinalized

datatype shred_decoder_mode =
    DecoderFixture
  | DecoderProduction

subsection \<open>Runtime and edge collector\<close>

record runtime_config =
  rt_mode :: "runtime_mode_name"
  rt_queue_capacity_canonical :: "usize"
  rt_queue_capacity_tentative :: "usize"
  rt_queue_capacity_decisions :: "usize"
  rt_shutdown_drain_timeout_ms :: "u64"
  rt_health_report_interval_ms :: "u64"

definition runtime_config_apply_defaults :: "runtime_config \<Rightarrow> runtime_config" where
  "runtime_config_apply_defaults c = c\<lparr>
     rt_queue_capacity_canonical := if_zero 2048 (rt_queue_capacity_canonical c),
     rt_queue_capacity_tentative := if_zero 1024 (rt_queue_capacity_tentative c),
     rt_queue_capacity_decisions := if_zero 512 (rt_queue_capacity_decisions c),
     rt_shutdown_drain_timeout_ms := if_zero 2000 (rt_shutdown_drain_timeout_ms c),
     rt_health_report_interval_ms := if_zero 1000 (rt_health_report_interval_ms c)\<rparr>"

lemma runtime_config_apply_defaults_twice [simp]:
  "runtime_config_apply_defaults (runtime_config_apply_defaults c) =
    runtime_config_apply_defaults c"
  by (simp add: runtime_config_apply_defaults_def)

record edge_collector_storage_config =
  ecs_segment_dir :: "string"
  ecs_max_open_segments :: "usize"
  ecs_max_local_segment_mb :: "u64"
  ecs_delete_verified_segments_immediately :: "bool"
  ecs_require_r2_verified_before_delete :: "bool"
  ecs_forbid_large_local_exports :: "bool"
  ecs_forbid_feature_snapshot_files :: "bool"
  ecs_forbid_research_reports :: "bool"

definition default_edge_collector_segment_dir :: "string" where
  "default_edge_collector_segment_dir = ''data/edge_segments''"

definition default_edge_collector_max_open_segments :: "usize" where
  "default_edge_collector_max_open_segments = 4"

definition default_edge_collector_max_local_segment_mb :: "u64" where
  "default_edge_collector_max_local_segment_mb = 64"

definition edge_collector_storage_config_default :: edge_collector_storage_config where
  "edge_collector_storage_config_default =
    \<lparr>ecs_segment_dir = default_edge_collector_segment_dir,
     ecs_max_open_segments = default_edge_collector_max_open_segments,
     ecs_max_local_segment_mb = default_edge_collector_max_local_segment_mb,
     ecs_delete_verified_segments_immediately = True,
     ecs_require_r2_verified_before_delete = True, ecs_forbid_large_local_exports = True,
     ecs_forbid_feature_snapshot_files = True, ecs_forbid_research_reports = True\<rparr>"

definition edge_collector_storage_config_apply_defaults :: "edge_collector_storage_config \<Rightarrow> edge_collector_storage_config" where
  "edge_collector_storage_config_apply_defaults c = c\<lparr>
     ecs_segment_dir := if_blank default_edge_collector_segment_dir (ecs_segment_dir c),
     ecs_max_open_segments := if_zero default_edge_collector_max_open_segments (ecs_max_open_segments c),
     ecs_max_local_segment_mb := if_zero default_edge_collector_max_local_segment_mb (ecs_max_local_segment_mb c)\<rparr>"

lemma edge_collector_storage_config_apply_defaults_twice [simp]:
  "edge_collector_storage_config_apply_defaults (edge_collector_storage_config_apply_defaults c) =
    edge_collector_storage_config_apply_defaults c"
  by (simp add: edge_collector_storage_config_apply_defaults_def)

record edge_collector_config =
  ec_enabled :: "bool"
  ec_stream_only_required :: "bool"
  ec_paper_decisions_enabled :: "bool"
  ec_feature_engine_enabled :: "bool"
  ec_risk_engine_enabled :: "bool"
  ec_decision_engine_enabled :: "bool"
  ec_paper_executor_enabled :: "bool"
  ec_research_reports_enabled :: "bool"
  ec_large_exports_enabled :: "bool"
  ec_local_analysis_enabled :: "bool"
  ec_r2_upload_required :: "bool"
  ec_r2_verify_required :: "bool"
  ec_minimal_status_reports :: "bool"
  ec_max_local_runtime_mb :: "u64"
  ec_flush_interval_seconds :: "u64"
  ec_segment_max_size_mb :: "u64"
  ec_segment_max_age_seconds :: "u64"
  ec_keep_local_segments_after_verify :: "bool"
  ec_keep_only_last_open_segment :: "bool"
  ec_allow_rpc_enrichment :: "bool"
  ec_allow_metadata_fetch :: "bool"
  ec_allow_social_fetch :: "bool"
  ec_allow_wallet_history_rpc :: "bool"
  ec_allow_bundle_enrichment_rpc :: "bool"
  ec_storage :: "edge_collector_storage_config"

definition default_edge_collector_max_local_runtime_mb :: "u64" where
  "default_edge_collector_max_local_runtime_mb = 256"

definition default_edge_collector_flush_interval_seconds :: "u64" where
  "default_edge_collector_flush_interval_seconds = 15"

definition default_edge_collector_segment_max_size_mb :: "u64" where
  "default_edge_collector_segment_max_size_mb = 4"

definition default_edge_collector_segment_max_age_seconds :: "u64" where
  "default_edge_collector_segment_max_age_seconds = 30"

definition edge_collector_config_default :: edge_collector_config where
  "edge_collector_config_default =
    \<lparr>ec_enabled = False, ec_stream_only_required = True, ec_paper_decisions_enabled = False,
     ec_feature_engine_enabled = False, ec_risk_engine_enabled = False,
     ec_decision_engine_enabled = False, ec_paper_executor_enabled = False,
     ec_research_reports_enabled = False, ec_large_exports_enabled = False,
     ec_local_analysis_enabled = False, ec_r2_upload_required = True,
     ec_r2_verify_required = True, ec_minimal_status_reports = True,
     ec_max_local_runtime_mb = default_edge_collector_max_local_runtime_mb,
     ec_flush_interval_seconds = default_edge_collector_flush_interval_seconds,
     ec_segment_max_size_mb = default_edge_collector_segment_max_size_mb,
     ec_segment_max_age_seconds = default_edge_collector_segment_max_age_seconds,
     ec_keep_local_segments_after_verify = False, ec_keep_only_last_open_segment = True,
     ec_allow_rpc_enrichment = False, ec_allow_metadata_fetch = False,
     ec_allow_social_fetch = False, ec_allow_wallet_history_rpc = False,
     ec_allow_bundle_enrichment_rpc = False, ec_storage = edge_collector_storage_config_default\<rparr>"

definition edge_collector_config_apply_defaults :: "edge_collector_config \<Rightarrow> edge_collector_config" where
  "edge_collector_config_apply_defaults c = c\<lparr>
     ec_max_local_runtime_mb := if_zero default_edge_collector_max_local_runtime_mb (ec_max_local_runtime_mb c),
     ec_flush_interval_seconds := if_zero default_edge_collector_flush_interval_seconds (ec_flush_interval_seconds c),
     ec_segment_max_size_mb := if_zero default_edge_collector_segment_max_size_mb (ec_segment_max_size_mb c),
     ec_segment_max_age_seconds := if_zero default_edge_collector_segment_max_age_seconds (ec_segment_max_age_seconds c),
     ec_storage := edge_collector_storage_config_apply_defaults (ec_storage c)\<rparr>"

lemma edge_collector_config_apply_defaults_twice [simp]:
  "edge_collector_config_apply_defaults (edge_collector_config_apply_defaults c) =
    edge_collector_config_apply_defaults c"
  by (simp add: edge_collector_config_apply_defaults_def)

subsection \<open>Confirmation and metadata\<close>

record confirmation_config =
  conf_source :: "string"
  conf_allow_rpc_status_fallback :: "bool"

definition default_confirmation_source :: "string" where
  "default_confirmation_source = ''geyser_stream''"

definition confirmation_config_default :: confirmation_config where
  "confirmation_config_default =
    \<lparr>conf_source = default_confirmation_source, conf_allow_rpc_status_fallback = False\<rparr>"

record metadata_config =
  md_fetch_uri :: "bool"
  md_hot_path_fetch_enabled :: "bool"
  md_offline_import_path :: "string"

subsection \<open>Autopilot\<close>

record autopilot_schedule_config =
  aps_startup_smoke :: "bool"
  aps_continuous :: "bool"
  aps_collection_preset :: "string"
  aps_collection_duration_seconds :: "u64"
  aps_checkpoint_interval_seconds :: "u64"
  aps_run_research_cycle_after_collection :: "bool"
  aps_run_backtest_when_ready :: "bool"
  aps_export_after_collection :: "bool"
  aps_export_after_research_cycle :: "bool"

definition default_autopilot_collection_preset :: "string" where
  "default_autopilot_collection_preset = ''medium''"

definition default_autopilot_collection_duration_seconds :: "u64" where
  "default_autopilot_collection_duration_seconds = 1800"

definition default_autopilot_checkpoint_interval_seconds :: "u64" where
  "default_autopilot_checkpoint_interval_seconds = 300"

definition autopilot_schedule_config_default :: autopilot_schedule_config where
  "autopilot_schedule_config_default =
    \<lparr>aps_startup_smoke = True, aps_continuous = True,
     aps_collection_preset = default_autopilot_collection_preset,
     aps_collection_duration_seconds = default_autopilot_collection_duration_seconds,
     aps_checkpoint_interval_seconds = default_autopilot_checkpoint_interval_seconds,
     aps_run_research_cycle_after_collection = True, aps_run_backtest_when_ready = True,
     aps_export_after_collection = True, aps_export_after_research_cycle = True\<rparr>"

definition autopilot_schedule_config_apply_defaults :: "autopilot_schedule_config \<Rightarrow> autopilot_schedule_config" where
  "autopilot_schedule_config_apply_defaults c = c\<lparr>
     aps_collection_preset := if_blank default_autopilot_collection_preset (aps_collection_preset c),
     aps_collection_duration_seconds := if_zero default_autopilot_collection_duration_seconds (aps_collection_duration_seconds c),
     aps_checkpoint_interval_seconds := if_zero default_autopilot_checkpoint_interval_seconds (aps_checkpoint_interval_seconds c)\<rparr>"

lemma autopilot_schedule_config_apply_defaults_twice [simp]:
  "autopilot_schedule_config_apply_defaults (autopilot_schedule_config_apply_defaults c) =
    autopilot_schedule_config_apply_defaults c"
  by (simp add: autopilot_schedule_config_apply_defaults_def)

record autopilot_provider_config =
  app_run_precheck_each_cycle :: "bool"
  app_run_geyser_smoke_each_cycle :: "bool"
  app_run_deshred_smoke_each_cycle :: "bool"
  app_run_stream_smoke_on_startup :: "bool"
  app_smoke_duration_seconds :: "u64"
  app_provider_error_retry_seconds :: "u64"
  app_missing_endpoint_retry_seconds :: "u64"
  app_auth_error_retry_seconds :: "u64"

definition default_autopilot_smoke_duration_seconds :: "u64" where
  "default_autopilot_smoke_duration_seconds = 30"

definition default_autopilot_provider_error_retry_seconds :: "u64" where
  "default_autopilot_provider_error_retry_seconds = 300"

definition default_autopilot_missing_endpoint_retry_seconds :: "u64" where
  "default_autopilot_missing_endpoint_retry_seconds = 600"

definition default_autopilot_auth_error_retry_seconds :: "u64" where
  "default_autopilot_auth_error_retry_seconds = 1800"

definition autopilot_provider_config_default :: autopilot_provider_config where
  "autopilot_provider_config_default =
    \<lparr>app_run_precheck_each_cycle = True, app_run_geyser_smoke_each_cycle = False,
     app_run_deshred_smoke_each_cycle = False, app_run_stream_smoke_on_startup = True,
     app_smoke_duration_seconds = default_autopilot_smoke_duration_seconds,
     app_provider_error_retry_seconds = default_autopilot_provider_error_retry_seconds,
     app_missing_endpoint_retry_seconds = default_autopilot_missing_endpoint_retry_seconds,
     app_auth_error_retry_seconds = default_autopilot_auth_error_retry_seconds\<rparr>"

definition autopilot_provider_config_apply_defaults :: "autopilot_provider_config \<Rightarrow> autopilot_provider_config" where
  "autopilot_provider_config_apply_defaults c = c\<lparr>
     app_smoke_duration_seconds := if_zero default_autopilot_smoke_duration_seconds (app_smoke_duration_seconds c),
     app_provider_error_retry_seconds := if_zero default_autopilot_provider_error_retry_seconds (app_provider_error_retry_seconds c),
     app_missing_endpoint_retry_seconds := if_zero default_autopilot_missing_endpoint_retry_seconds (app_missing_endpoint_retry_seconds c),
     app_auth_error_retry_seconds := if_zero default_autopilot_auth_error_retry_seconds (app_auth_error_retry_seconds c)\<rparr>"

lemma autopilot_provider_config_apply_defaults_twice [simp]:
  "autopilot_provider_config_apply_defaults (autopilot_provider_config_apply_defaults c) =
    autopilot_provider_config_apply_defaults c"
  by (simp add: autopilot_provider_config_apply_defaults_def)

record autopilot_retention_config =
  apr_enabled :: "bool"
  apr_max_total_storage_gb :: "u64"
  apr_max_run_age_days :: "u64"
  apr_keep_last_n_runs :: "usize"
  apr_keep_last_n_backtests :: "usize"
  apr_keep_failed_runs :: "bool"
  apr_keep_provider_smoke_reports :: "bool"
  apr_compress_old_reports :: "bool"
  apr_delete_old_exports :: "bool"

definition default_autopilot_max_total_storage_gb :: "u64" where
  "default_autopilot_max_total_storage_gb = 50"

definition default_autopilot_max_run_age_days :: "u64" where
  "default_autopilot_max_run_age_days = 14"

definition default_autopilot_keep_last_n_runs :: "usize" where
  "default_autopilot_keep_last_n_runs = 100"

definition default_autopilot_keep_last_n_backtests :: "usize" where
  "default_autopilot_keep_last_n_backtests = 50"

definition autopilot_retention_config_default :: autopilot_retention_config where
  "autopilot_retention_config_default =
    \<lparr>apr_enabled = True, apr_max_total_storage_gb = default_autopilot_max_total_storage_gb,
     apr_max_run_age_days = default_autopilot_max_run_age_days,
     apr_keep_last_n_runs = default_autopilot_keep_last_n_runs,
     apr_keep_last_n_backtests = default_autopilot_keep_last_n_backtests,
     apr_keep_failed_runs = True, apr_keep_provider_smoke_reports = True,
     apr_compress_old_reports = False, apr_delete_old_exports = False\<rparr>"

definition autopilot_retention_config_apply_defaults :: "autopilot_retention_config \<Rightarrow> autopilot_retention_config" where
  "autopilot_retention_config_apply_defaults c = c\<lparr>
     apr_max_total_storage_gb := if_zero default_autopilot_max_total_storage_gb (apr_max_total_storage_gb c),
     apr_max_run_age_days := if_zero default_autopilot_max_run_age_days (apr_max_run_age_days c),
     apr_keep_last_n_runs := if_zero default_autopilot_keep_last_n_runs (apr_keep_last_n_runs c),
     apr_keep_last_n_backtests := if_zero default_autopilot_keep_last_n_backtests (apr_keep_last_n_backtests c)\<rparr>"

lemma autopilot_retention_config_apply_defaults_twice [simp]:
  "autopilot_retention_config_apply_defaults (autopilot_retention_config_apply_defaults c) =
    autopilot_retention_config_apply_defaults c"
  by (simp add: autopilot_retention_config_apply_defaults_def)

record autopilot_alerts_config =
  apa_enabled :: "bool"
  apa_write_local_alerts :: "bool"
  apa_alerts_path :: "string"
  apa_webhook_enabled :: "bool"
  apa_webhook_url_env :: "string"
  apa_alert_on_provider_failure :: "bool"
  apa_alert_on_data_gap :: "bool"
  apa_alert_on_rpc_denial :: "bool"
  apa_alert_on_nonzero_rpc_usage :: "bool"
  apa_alert_on_queue_overflow :: "bool"
  apa_alert_on_backtest_ready :: "bool"
  apa_alert_on_autopilot_crash :: "bool"

definition default_autopilot_alerts_path :: "string" where
  "default_autopilot_alerts_path = ''data/autopilot/alerts.jsonl''"

definition autopilot_alerts_config_default :: autopilot_alerts_config where
  "autopilot_alerts_config_default =
    \<lparr>apa_enabled = True, apa_write_local_alerts = True,
     apa_alerts_path = default_autopilot_alerts_path, apa_webhook_enabled = False,
     apa_webhook_url_env = [], apa_alert_on_provider_failure = True,
     apa_alert_on_data_gap = True, apa_alert_on_rpc_denial = True,
     apa_alert_on_nonzero_rpc_usage = True, apa_alert_on_queue_overflow = True,
     apa_alert_on_backtest_ready = True, apa_alert_on_autopilot_crash = True\<rparr>"

definition autopilot_alerts_config_apply_defaults :: "autopilot_alerts_config \<Rightarrow> autopilot_alerts_config" where
  "autopilot_alerts_config_apply_defaults c = c\<lparr>
     apa_alerts_path := if_blank default_autopilot_alerts_path (apa_alerts_path c)\<rparr>"

lemma autopilot_alerts_config_apply_defaults_twice [simp]:
  "autopilot_alerts_config_apply_defaults (autopilot_alerts_config_apply_defaults c) =
    autopilot_alerts_config_apply_defaults c"
  by (simp add: autopilot_alerts_config_apply_defaults_def)

record autopilot_safety_config =
  apx_stop_on_nonzero_rpc_usage :: "bool"
  apx_stop_on_stream_only_failure :: "bool"
  apx_stop_on_live_enabled :: "bool"
  apx_stop_on_signer_config_present :: "bool"
  apx_stop_on_global_data_gap :: "bool"
  apx_stop_on_repeated_provider_failures :: "bool"
  apx_max_provider_failures_before_pause :: "u64"
  apx_max_queue_overflows_before_pause :: "u64"

definition default_autopilot_max_provider_failures_before_pause :: "u64" where
  "default_autopilot_max_provider_failures_before_pause = 10"

definition default_autopilot_max_queue_overflows_before_pause :: "u64" where
  "default_autopilot_max_queue_overflows_before_pause = 3"

definition autopilot_safety_config_default :: autopilot_safety_config where
  "autopilot_safety_config_default =
    \<lparr>apx_stop_on_nonzero_rpc_usage = True, apx_stop_on_stream_only_failure = True,
     apx_stop_on_live_enabled = True, apx_stop_on_signer_config_present = False,
     apx_stop_on_global_data_gap = False, apx_stop_on_repeated_provider_failures = False,
     apx_max_provider_failures_before_pause = default_autopilot_max_provider_failures_before_pause,
     apx_max_queue_overflows_before_pause = default_autopilot_max_queue_overflows_before_pause\<rparr>"

definition autopilot_safety_config_apply_defaults :: "autopilot_safety_config \<Rightarrow> autopilot_safety_config" where
  "autopilot_safety_config_apply_defaults c = c\<lparr>
     apx_max_provider_failures_before_pause := if_zero default_autopilot_max_provider_failures_before_pause (apx_max_provider_failures_before_pause c),
     apx_max_queue_overflows_before_pause := if_zero default_autopilot_max_queue_overflows_before_pause (apx_max_queue_overflows_before_pause c)\<rparr>"

lemma autopilot_safety_config_apply_defaults_twice [simp]:
  "autopilot_safety_config_apply_defaults (autopilot_safety_config_apply_defaults c) =
    autopilot_safety_config_apply_defaults c"
  by (simp add: autopilot_safety_config_apply_defaults_def)

record autopilot_disk_config =
  apd_min_free_mb_before_cycle :: "u64"
  apd_min_free_mb_during_cycle :: "u64"
  apd_check_interval_seconds :: "u64"
  apd_warning_free_mb :: "u64"
  apd_pre_cycle_min_free_mb :: "u64"
  apd_critical_free_mb :: "u64"
  apd_emergency_free_mb :: "u64"
  apd_pause_if_below_min_free :: "bool"
  apd_run_prune_before_cycle :: "bool"
  apd_run_prune_after_verified_upload :: "bool"
  apd_allow_prune_verified_exports :: "bool"
  apd_allow_prune_verified_reports :: "bool"
  apd_allow_prune_verified_raw_events :: "bool"
  apd_keep_minimal_manifest :: "bool"
  apd_keep_rpc_ledger :: "bool"
  apd_keep_calibration :: "bool"
  apd_close_segments_on_warning :: "bool"
  apd_stop_collection_on_critical :: "bool"
  apd_pause_before_os_error :: "bool"
  apd_prune_verified_segments_on_warning :: "bool"
  apd_prune_verified_runs_on_startup :: "bool"
  apd_block_new_cycle_below_warning :: "bool"
  apd_block_new_cycle_below_pre_cycle_min :: "bool"
  apd_allow_cycle_below_warning_if_r2_healthy :: "bool"
  apd_require_no_unuploaded_runs_below_warning :: "bool"
  apd_aggressive_low_disk_mode_below_warning :: "bool"

definition default_autopilot_disk_min_free_mb_before_cycle :: "u64" where
  "default_autopilot_disk_min_free_mb_before_cycle = 1024"

definition default_autopilot_disk_min_free_mb_during_cycle :: "u64" where
  "default_autopilot_disk_min_free_mb_during_cycle = 512"

definition default_autopilot_disk_check_interval_seconds :: "u64" where
  "default_autopilot_disk_check_interval_seconds = 30"

definition default_autopilot_disk_warning_free_mb :: "u64" where
  "default_autopilot_disk_warning_free_mb = 2048"

definition default_autopilot_disk_pre_cycle_min_free_mb :: "u64" where
  "default_autopilot_disk_pre_cycle_min_free_mb = 1536"

definition default_autopilot_disk_critical_free_mb :: "u64" where
  "default_autopilot_disk_critical_free_mb = 1024"

definition default_autopilot_disk_emergency_free_mb :: "u64" where
  "default_autopilot_disk_emergency_free_mb = 512"

definition autopilot_disk_config_default :: autopilot_disk_config where
  "autopilot_disk_config_default =
    \<lparr>apd_min_free_mb_before_cycle = default_autopilot_disk_min_free_mb_before_cycle,
     apd_min_free_mb_during_cycle = default_autopilot_disk_min_free_mb_during_cycle,
     apd_check_interval_seconds = default_autopilot_disk_check_interval_seconds,
     apd_warning_free_mb = default_autopilot_disk_warning_free_mb,
     apd_pre_cycle_min_free_mb = default_autopilot_disk_pre_cycle_min_free_mb,
     apd_critical_free_mb = default_autopilot_disk_critical_free_mb,
     apd_emergency_free_mb = default_autopilot_disk_emergency_free_mb,
     apd_pause_if_below_min_free = True, apd_run_prune_before_cycle = True,
     apd_run_prune_after_verified_upload = True, apd_allow_prune_verified_exports = True,
     apd_allow_prune_verified_reports = False, apd_allow_prune_verified_raw_events = False,
     apd_keep_minimal_manifest = True, apd_keep_rpc_ledger = True, apd_keep_calibration = True,
     apd_close_segments_on_warning = True, apd_stop_collection_on_critical = True,
     apd_pause_before_os_error = True, apd_prune_verified_segments_on_warning = True,
     apd_prune_verified_runs_on_startup = True, apd_block_new_cycle_below_warning = False,
     apd_block_new_cycle_below_pre_cycle_min = True,
     apd_allow_cycle_below_warning_if_r2_healthy = True,
     apd_require_no_unuploaded_runs_below_warning = True,
     apd_aggressive_low_disk_mode_below_warning = True\<rparr>"

definition autopilot_disk_config_apply_defaults :: "autopilot_disk_config \<Rightarrow> autopilot_disk_config" where
  "autopilot_disk_config_apply_defaults c = c\<lparr>
     apd_min_free_mb_before_cycle := if_zero default_autopilot_disk_min_free_mb_before_cycle (apd_min_free_mb_before_cycle c),
     apd_min_free_mb_during_cycle := if_zero default_autopilot_disk_min_free_mb_during_cycle (apd_min_free_mb_during_cycle c),
     apd_check_interval_seconds := if_zero default_autopilot_disk_check_interval_seconds (apd_check_interval_seconds c),
     apd_warning_free_mb := if_zero default_autopilot_disk_warning_free_mb (apd_warning_free_mb c),
     apd_pre_cycle_min_free_mb := if_zero default_autopilot_disk_pre_cycle_min_free_mb (apd_pre_cycle_min_free_mb c),
     apd_critical_free_mb := if_zero default_autopilot_disk_critical_free_mb (apd_critical_free_mb c),
     apd_emergency_free_mb := if_zero default_autopilot_disk_emergency_free_mb (apd_emergency_free_mb c)\<rparr>"

lemma autopilot_disk_config_apply_defaults_twice [simp]:
  "autopilot_disk_config_apply_defaults (autopilot_disk_config_apply_defaults c) =
    autopilot_disk_config_apply_defaults c"
  by (simp add: autopilot_disk_config_apply_defaults_def)

record autopilot_post_cycle_cleanup_config =
  apc_enabled :: "bool"
  apc_target_free_mb_after_cycle :: "u64"
  apc_run_clean_build_artifacts :: "bool"
  apc_prune_verified_exports :: "bool"
  apc_prune_verified_segments :: "bool"
  apc_prune_verified_reports :: "bool"
  apc_stop_if_unable_to_reach_pre_cycle_min :: "bool"
  apc_allow_next_cycle_if_above_pre_cycle_min :: "bool"

definition default_autopilot_post_cycle_cleanup_target_free_mb_after_cycle :: "u64" where
  "default_autopilot_post_cycle_cleanup_target_free_mb_after_cycle = 2048"

definition autopilot_post_cycle_cleanup_config_default :: autopilot_post_cycle_cleanup_config where
  "autopilot_post_cycle_cleanup_config_default =
    \<lparr>apc_enabled = True,
     apc_target_free_mb_after_cycle = default_autopilot_post_cycle_cleanup_target_free_mb_after_cycle,
     apc_run_clean_build_artifacts = True, apc_prune_verified_exports = True,
     apc_prune_verified_segments = True, apc_prune_verified_reports = False,
     apc_stop_if_unable_to_reach_pre_cycle_min = True,
     apc_allow_next_cycle_if_above_pre_cycle_min = True\<rparr>"

definition autopilot_post_cycle_cleanup_config_apply_defaults :: "autopilot_post_cycle_cleanup_config \<Rightarrow> autopilot_post_cycle_cleanup_config" where
  "autopilot_post_cycle_cleanup_config_apply_defaults c = c\<lparr>
     apc_target_free_mb_after_cycle := if_zero default_autopilot_post_cycle_cleanup_target_free_mb_after_cycle (apc_target_free_mb_after_cycle c)\<rparr>"

lemma autopilot_post_cycle_cleanup_config_apply_defaults_twice [simp]:
  "autopilot_post_cycle_cleanup_config_apply_defaults (autopilot_post_cycle_cleanup_config_apply_defaults c) =
    autopilot_post_cycle_cleanup_config_apply_defaults c"
  by (simp add: autopilot_post_cycle_cleanup_config_apply_defaults_def)

record 'd autopilot_backtest_thresholds_config =
  apb_min_duration_seconds :: "u64"
  apb_min_tokens_discovered :: "usize"
  apb_min_complete_lifecycles :: "usize"
  apb_min_feature_snapshots :: "usize"
  apb_min_decisions :: "usize"
  apb_require_stream_only :: "bool"
  apb_require_zero_rpc :: "bool"
  apb_max_global_data_gaps :: "u64"
  apb_min_holder_confidence :: "'d"

definition default_autopilot_backtest_min_duration_seconds :: "u64" where
  "default_autopilot_backtest_min_duration_seconds = 3600"

definition default_autopilot_backtest_min_tokens_discovered :: "usize" where
  "default_autopilot_backtest_min_tokens_discovered = 100"

definition default_autopilot_backtest_min_complete_lifecycles :: "usize" where
  "default_autopilot_backtest_min_complete_lifecycles = 20"

definition default_autopilot_backtest_min_feature_snapshots :: "usize" where
  "default_autopilot_backtest_min_feature_snapshots = 1000"

definition default_autopilot_backtest_min_decisions :: "usize" where
  "default_autopilot_backtest_min_decisions = 10"

definition default_autopilot_backtest_min_holder_confidence :: "(int \<Rightarrow> nat \<Rightarrow> 'd) \<Rightarrow> 'd" where
  "default_autopilot_backtest_min_holder_confidence dec = (dec 5 1)"

definition autopilot_backtest_thresholds_config_default :: "(int \<Rightarrow> nat \<Rightarrow> 'd) \<Rightarrow> 'd autopilot_backtest_thresholds_config" where
  "autopilot_backtest_thresholds_config_default dec =
    \<lparr>apb_min_duration_seconds = default_autopilot_backtest_min_duration_seconds,
     apb_min_tokens_discovered = default_autopilot_backtest_min_tokens_discovered,
     apb_min_complete_lifecycles = default_autopilot_backtest_min_complete_lifecycles,
     apb_min_feature_snapshots = default_autopilot_backtest_min_feature_snapshots,
     apb_min_decisions = default_autopilot_backtest_min_decisions,
     apb_require_stream_only = True, apb_require_zero_rpc = True, apb_max_global_data_gaps = 0,
     apb_min_holder_confidence = (default_autopilot_backtest_min_holder_confidence dec)\<rparr>"

definition autopilot_backtest_thresholds_config_apply_defaults :: "(int \<Rightarrow> nat \<Rightarrow> ('d::{zero,linorder})) \<Rightarrow> 'd autopilot_backtest_thresholds_config \<Rightarrow> 'd autopilot_backtest_thresholds_config" where
  "autopilot_backtest_thresholds_config_apply_defaults dec c = c\<lparr>
     apb_min_duration_seconds := if_zero default_autopilot_backtest_min_duration_seconds (apb_min_duration_seconds c),
     apb_min_tokens_discovered := if_zero default_autopilot_backtest_min_tokens_discovered (apb_min_tokens_discovered c),
     apb_min_complete_lifecycles := if_zero default_autopilot_backtest_min_complete_lifecycles (apb_min_complete_lifecycles c),
     apb_min_feature_snapshots := if_zero default_autopilot_backtest_min_feature_snapshots (apb_min_feature_snapshots c),
     apb_min_decisions := if_zero default_autopilot_backtest_min_decisions (apb_min_decisions c),
     apb_min_holder_confidence := if_nonpos (default_autopilot_backtest_min_holder_confidence dec) (apb_min_holder_confidence c)\<rparr>"

lemma autopilot_backtest_thresholds_config_apply_defaults_twice [simp]:
  assumes "decimal_positive dec"
  shows "autopilot_backtest_thresholds_config_apply_defaults dec (autopilot_backtest_thresholds_config_apply_defaults dec c) =
    autopilot_backtest_thresholds_config_apply_defaults dec c"
  using assms by (simp add: autopilot_backtest_thresholds_config_apply_defaults_def)

record 'd autopilot_config =
  ap_enabled :: "bool"
  ap_mode :: "string"
  ap_stream_only_required :: "bool"
  ap_live_trading_allowed :: "bool"
  ap_dry_run :: "bool"
  ap_allow_mock_when_endpoint_missing :: "bool"
  ap_allow_geyser_only_when_deshred_unsupported :: "bool"
  ap_require_geyser :: "bool"
  ap_require_deshred :: "bool"
  ap_max_parallel_runs :: "usize"
  ap_state_path :: "string"
  ap_lock_path :: "string"
  ap_status_path :: "string"
  ap_report_dir :: "string"
  ap_heartbeat_interval_seconds :: "u64"
  ap_cycle_sleep_seconds :: "u64"
  ap_max_cycle_runtime_seconds :: "u64"
  ap_graceful_shutdown_timeout_seconds :: "u64"
  ap_schedule :: "autopilot_schedule_config"
  ap_provider :: "autopilot_provider_config"
  ap_retention :: "autopilot_retention_config"
  ap_alerts :: "autopilot_alerts_config"
  ap_safety :: "autopilot_safety_config"
  ap_disk :: "autopilot_disk_config"
  ap_post_cycle_cleanup :: "autopilot_post_cycle_cleanup_config"
  ap_backtest_thresholds :: "'d autopilot_backtest_thresholds_config"

definition default_autopilot_mode :: "string" where
  "default_autopilot_mode = ''paper_collection''"

definition default_autopilot_parallel_runs :: "usize" where
  "default_autopilot_parallel_runs = 1"

definition default_autopilot_state_path :: "string" where
  "default_autopilot_state_path = ''data/autopilot/autopilot_state.json''"

definition default_autopilot_lock_path :: "string" where
  "default_autopilot_lock_path = ''data/autopilot/autopilot.lock''"

definition default_autopilot_status_path :: "string" where
  "default_autopilot_status_path = ''data/autopilot/status.json''"

definition default_autopilot_report_dir :: "string" where
  "default_autopilot_report_dir = ''data/reports/autopilot''"

definition default_autopilot_heartbeat_interval_seconds :: "u64" where
  "default_autopilot_heartbeat_interval_seconds = 30"

definition default_autopilot_cycle_sleep_seconds :: "u64" where
  "default_autopilot_cycle_sleep_seconds = 60"

definition default_autopilot_max_cycle_runtime_seconds :: "u64" where
  "default_autopilot_max_cycle_runtime_seconds = 7200"

definition default_autopilot_graceful_shutdown_timeout_seconds :: "u64" where
  "default_autopilot_graceful_shutdown_timeout_seconds = 30"

definition autopilot_config_default :: "(int \<Rightarrow> nat \<Rightarrow> 'd) \<Rightarrow> 'd autopilot_config" where
  "autopilot_config_default dec =
    \<lparr>ap_enabled = False, ap_mode = default_autopilot_mode, ap_stream_only_required = True,
     ap_live_trading_allowed = False, ap_dry_run = True,
     ap_allow_mock_when_endpoint_missing = False,
     ap_allow_geyser_only_when_deshred_unsupported = True, ap_require_geyser = True,
     ap_require_deshred = False, ap_max_parallel_runs = default_autopilot_parallel_runs,
     ap_state_path = default_autopilot_state_path, ap_lock_path = default_autopilot_lock_path,
     ap_status_path = default_autopilot_status_path,
     ap_report_dir = default_autopilot_report_dir,
     ap_heartbeat_interval_seconds = default_autopilot_heartbeat_interval_seconds,
     ap_cycle_sleep_seconds = default_autopilot_cycle_sleep_seconds,
     ap_max_cycle_runtime_seconds = default_autopilot_max_cycle_runtime_seconds,
     ap_graceful_shutdown_timeout_seconds = default_autopilot_graceful_shutdown_timeout_seconds,
     ap_schedule = autopilot_schedule_config_default,
     ap_provider = autopilot_provider_config_default,
     ap_retention = autopilot_retention_config_default,
     ap_alerts = autopilot_alerts_config_default, ap_safety = autopilot_safety_config_default,
     ap_disk = autopilot_disk_config_default,
     ap_post_cycle_cleanup = autopilot_post_cycle_cleanup_config_default,
     ap_backtest_thresholds = (autopilot_backtest_thresholds_config_default dec)\<rparr>"

definition autopilot_config_apply_defaults :: "(int \<Rightarrow> nat \<Rightarrow> ('d::{zero,linorder})) \<Rightarrow> 'd autopilot_config \<Rightarrow> 'd autopilot_config" where
  "autopilot_config_apply_defaults dec c = c\<lparr>
     ap_mode := if_blank default_autopilot_mode (ap_mode c),
     ap_state_path := if_blank default_autopilot_state_path (ap_state_path c),
     ap_lock_path := if_blank default_autopilot_lock_path (ap_lock_path c),
     ap_status_path := if_blank default_autopilot_status_path (ap_status_path c),
     ap_report_dir := if_blank default_autopilot_report_dir (ap_report_dir c),
     ap_heartbeat_interval_seconds := if_zero default_autopilot_heartbeat_interval_seconds (ap_heartbeat_interval_seconds c),
     ap_cycle_sleep_seconds := if_zero default_autopilot_cycle_sleep_seconds (ap_cycle_sleep_seconds c),
     ap_max_cycle_runtime_seconds := if_zero default_autopilot_max_cycle_runtime_seconds (ap_max_cycle_runtime_seconds c),
     ap_graceful_shutdown_timeout_seconds := if_zero default_autopilot_graceful_shutdown_timeout_seconds (ap_graceful_shutdown_timeout_seconds c),
     ap_schedule := autopilot_schedule_config_apply_defaults (ap_schedule c),
     ap_provider := autopilot_provider_config_apply_defaults (ap_provider c),
     ap_retention := autopilot_retention_config_apply_defaults (ap_retention c),
     ap_alerts := autopilot_alerts_config_apply_defaults (ap_alerts c),
     ap_safety := autopilot_safety_config_apply_defaults (ap_safety c),
     ap_disk := autopilot_disk_config_apply_defaults (ap_disk c),
     ap_post_cycle_cleanup := autopilot_post_cycle_cleanup_config_apply_defaults (ap_post_cycle_cleanup c),
     ap_backtest_thresholds := autopilot_backtest_thresholds_config_apply_defaults dec (ap_backtest_thresholds c)\<rparr>"

lemma autopilot_config_apply_defaults_twice [simp]:
  assumes "decimal_positive dec"
  shows "autopilot_config_apply_defaults dec (autopilot_config_apply_defaults dec c) =
    autopilot_config_apply_defaults dec c"
  using assms by (simp add: autopilot_config_apply_defaults_def)

subsection \<open>Object storage\<close>

record r2_buckets_config =
  r2b_datasets_bucket_env :: "string"
  r2b_reports_bucket_env :: "string"
  r2b_calibration_bucket_env :: "string"
  r2b_provider_compat_bucket_env :: "string"
  r2b_create_if_missing :: "bool"
  r2b_allow_bucket_delete :: "bool"
  r2b_allow_bucket_empty :: "bool"
  r2b_allow_object_delete :: "bool"
  r2b_destructive_requires_flag :: "bool"

definition default_r2_datasets_bucket_env :: "string" where
  "default_r2_datasets_bucket_env = ''R2_DATASET_BUCKET''"

definition default_r2_reports_bucket_env :: "string" where
  "default_r2_reports_bucket_env = ''R2_REPORTS_BUCKET''"

definition default_r2_calibration_bucket_env :: "string" where
  "default_r2_calibration_bucket_env = ''R2_CALIBRATION_BUCKET''"

definition default_r2_provider_compat_bucket_env :: "string" where
  "default_r2_provider_compat_bucket_env = ''R2_PROVIDER_COMPAT_BUCKET''"

definition r2_buckets_config_default :: r2_buckets_config where
  "r2_buckets_config_default =
    \<lparr>r2b_datasets_bucket_env = default_r2_datasets_bucket_env,
     r2b_reports_bucket_env = default_r2_reports_bucket_env,
     r2b_calibration_bucket_env = default_r2_calibration_bucket_env,
     r2b_provider_compat_bucket_env = default_r2_provider_compat_bucket_env,
     r2b_create_if_missing = False, r2b_allow_bucket_delete = False,
     r2b_allow_bucket_empty = False, r2b_allow_object_delete = False,
     r2b_destructive_requires_flag = True\<rparr>"

definition r2_buckets_config_apply_defaults :: "r2_buckets_config \<Rightarrow> r2_buckets_config" where
  "r2_buckets_config_apply_defaults c = c\<lparr>
     r2b_datasets_bucket_env := if_blank default_r2_datasets_bucket_env (r2b_datasets_bucket_env c),
     r2b_reports_bucket_env := if_blank default_r2_reports_bucket_env (r2b_reports_bucket_env c),
     r2b_calibration_bucket_env := if_blank default_r2_calibration_bucket_env (r2b_calibration_bucket_env c),
     r2b_provider_compat_bucket_env := if_blank default_r2_provider_compat_bucket_env (r2b_provider_compat_bucket_env c)\<rparr>"

lemma r2_buckets_config_apply_defaults_twice [simp]:
  "r2_buckets_config_apply_defaults (r2_buckets_config_apply_defaults c) =
    r2_buckets_config_apply_defaults c"
  by (simp add: r2_buckets_config_apply_defaults_def)

record r2_paths_config =
  r2p_runs_prefix :: "string"
  r2p_reports_prefix :: "string"
  r2p_exports_prefix :: "string"
  r2p_calibration_prefix :: "string"
  r2p_provider_compat_prefix :: "string"
  r2p_rpc_ledger_prefix :: "string"
  r2p_manifests_prefix :: "string"

definition default_r2_runs_prefix :: "string" where
  "default_r2_runs_prefix = ''runs''"

definition default_r2_reports_prefix :: "string" where
  "default_r2_reports_prefix = ''reports''"

definition default_r2_exports_prefix :: "string" where
  "default_r2_exports_prefix = ''exports''"

definition default_r2_calibration_prefix :: "string" where
  "default_r2_calibration_prefix = ''calibration''"

definition default_r2_provider_compat_prefix :: "string" where
  "default_r2_provider_compat_prefix = ''provider_compatibility''"

definition default_r2_rpc_ledger_prefix :: "string" where
  "default_r2_rpc_ledger_prefix = ''rpc_ledger''"

definition default_r2_manifests_prefix :: "string" where
  "default_r2_manifests_prefix = ''manifests''"

definition r2_paths_config_default :: r2_paths_config where
  "r2_paths_config_default =
    \<lparr>r2p_runs_prefix = default_r2_runs_prefix, r2p_reports_prefix = default_r2_reports_prefix,
     r2p_exports_prefix = default_r2_exports_prefix,
     r2p_calibration_prefix = default_r2_calibration_prefix,
     r2p_provider_compat_prefix = default_r2_provider_compat_prefix,
     r2p_rpc_ledger_prefix = default_r2_rpc_ledger_prefix,
     r2p_manifests_prefix = default_r2_manifests_prefix\<rparr>"

definition r2_paths_config_apply_defaults :: "r2_paths_config \<Rightarrow> r2_paths_config" where
  "r2_paths_config_apply_defaults c = c\<lparr>
     r2p_runs_prefix := if_blank default_r2_runs_prefix (r2p_runs_prefix c),
     r2p_reports_prefix := if_blank default_r2_reports_prefix (r2p_reports_prefix c),
     r2p_exports_prefix := if_blank default_r2_exports_prefix (r2p_exports_prefix c),
     r2p_calibration_prefix := if_blank default_r2_calibration_prefix (r2p_calibration_prefix c),
     r2p_provider_compat_prefix := if_blank default_r2_provider_compat_prefix (r2p_provider_compat_prefix c),
     r2p_rpc_ledger_prefix := if_blank default_r2_rpc_ledger_prefix (r2p_rpc_ledger_prefix c),
     r2p_manifests_prefix := if_blank default_r2_manifests_prefix (r2p_manifests_prefix c)\<rparr>"

lemma r2_paths_config_apply_defaults_twice [simp]:
  "r2_paths_config_apply_defaults (r2_paths_config_apply_defaults c) =
    r2_paths_config_apply_defaults c"
  by (simp add: r2_paths_config_apply_defaults_def)

record r2_retention_config =
  r2r_enabled :: "bool"
  r2r_keep_local_after_upload_hours :: "u64"
  r2r_keep_last_n_local_runs :: "usize"
  r2r_delete_local_exports_after_upload :: "bool"
  r2r_delete_local_reports_after_upload :: "bool"
  r2r_delete_local_raw_events_after_upload :: "bool"
  r2r_max_local_storage_gb :: "u64"

definition default_r2_keep_local_after_upload_hours :: "u64" where
  "default_r2_keep_local_after_upload_hours = 24"

definition default_r2_keep_last_n_local_runs :: "usize" where
  "default_r2_keep_last_n_local_runs = 10"

definition default_r2_max_local_storage_gb :: "u64" where
  "default_r2_max_local_storage_gb = 50"

definition r2_retention_config_default :: r2_retention_config where
  "r2_retention_config_default =
    \<lparr>r2r_enabled = True,
     r2r_keep_local_after_upload_hours = default_r2_keep_local_after_upload_hours,
     r2r_keep_last_n_local_runs = default_r2_keep_last_n_local_runs,
     r2r_delete_local_exports_after_upload = True,
     r2r_delete_local_reports_after_upload = False,
     r2r_delete_local_raw_events_after_upload = False,
     r2r_max_local_storage_gb = default_r2_max_local_storage_gb\<rparr>"

definition r2_retention_config_apply_defaults :: "r2_retention_config \<Rightarrow> r2_retention_config" where
  "r2_retention_config_apply_defaults c = c\<lparr>
     r2r_keep_local_after_upload_hours := if_zero default_r2_keep_local_after_upload_hours (r2r_keep_local_after_upload_hours c),
     r2r_keep_last_n_local_runs := if_zero default_r2_keep_last_n_local_runs (r2r_keep_last_n_local_runs c),
     r2r_max_local_storage_gb := if_zero default_r2_max_local_storage_gb (r2r_max_local_storage_gb c)\<rparr>"

lemma r2_retention_config_apply_defaults_twice [simp]:
  "r2_retention_config_apply_defaults (r2_retention_config_apply_defaults c) =
    r2_retention_config_apply_defaults c"
  by (simp add: r2_retention_config_apply_defaults_def)

record r2_autopilot_config =
  r2a_upload_after_collection :: "bool"
  r2a_upload_after_research_cycle :: "bool"
  r2a_upload_after_exports :: "bool"
  r2a_upload_provider_smoke_reports :: "bool"
  r2a_upload_rpc_ledger :: "bool"
  r2a_upload_calibration :: "bool"
  r2a_upload_artifact_manifest :: "bool"
  r2a_pause_autopilot_on_upload_failure :: "bool"

definition r2_autopilot_config_default :: r2_autopilot_config where
  "r2_autopilot_config_default =
    \<lparr>r2a_upload_after_collection = True, r2a_upload_after_research_cycle = True,
     r2a_upload_after_exports = True, r2a_upload_provider_smoke_reports = True,
     r2a_upload_rpc_ledger = True, r2a_upload_calibration = True,
     r2a_upload_artifact_manifest = True, r2a_pause_autopilot_on_upload_failure = False\<rparr>"

record r2_config =
  r2_enabled :: "bool"
  r2_upload_enabled :: "bool"
  r2_delete_enabled :: "bool"
  r2_dry_run :: "bool"
  r2_account_id_env :: "string"
  r2_endpoint_env :: "string"
  r2_access_key_id_env :: "string"
  r2_secret_access_key_env :: "string"
  r2_managed_prefix :: "string"
  r2_region :: "string"
  r2_force_path_style :: "bool"
  r2_max_concurrent_uploads :: "usize"
  r2_multipart_threshold_mb :: "u64"
  r2_part_size_mb :: "u64"
  r2_upload_timeout_seconds :: "u64"
  r2_verify_after_upload :: "bool"
  r2_verify_checksum :: "bool"
  r2_compress_before_upload :: "bool"
  r2_compression :: "string"
  r2_encryption_mode :: "string"
  r2_fail_collection_if_upload_fails :: "bool"
  r2_prune_local_only_after_verified_upload :: "bool"
  r2_buckets :: "r2_buckets_config"
  r2_paths :: "r2_paths_config"
  r2_retention :: "r2_retention_config"
  r2_autopilot :: "r2_autopilot_config"

definition default_r2_account_id_env :: "string" where
  "default_r2_account_id_env = ''CF_ACCOUNT_ID''"

definition default_r2_endpoint_env :: "string" where
  "default_r2_endpoint_env = ''R2_ENDPOINT''"

definition default_r2_access_key_id_env :: "string" where
  "default_r2_access_key_id_env = ''R2_ACCESS_KEY_ID''"

definition default_r2_secret_access_key_env :: "string" where
  "default_r2_secret_access_key_env = ''R2_SECRET_ACCESS_KEY''"

definition default_r2_managed_prefix :: "string" where
  "default_r2_managed_prefix = ''pump-launch-quant''"

definition default_r2_region :: "string" where
  "default_r2_region = ''auto''"

definition default_r2_max_concurrent_uploads :: "usize" where
  "default_r2_max_concurrent_uploads = 4"

definition default_r2_multipart_threshold_mb :: "u64" where
  "default_r2_multipart_threshold_mb = 64"

definition default_r2_part_size_mb :: "u64" where
  "default_r2_part_size_mb = 16"

definition default_r2_upload_timeout_seconds :: "u64" where
  "default_r2_upload_timeout_seconds = 600"

definition default_r2_compression :: "string" where
  "default_r2_compression = ''zstd''"

definition default_r2_encryption_mode :: "string" where
  "default_r2_encryption_mode = ''none''"

definition r2_config_default :: r2_config where
  "r2_config_default =
    \<lparr>r2_enabled = False, r2_upload_enabled = False, r2_delete_enabled = False,
     r2_dry_run = True, r2_account_id_env = default_r2_account_id_env,
     r2_endpoint_env = default_r2_endpoint_env,
     r2_access_key_id_env = default_r2_access_key_id_env,
     r2_secret_access_key_env = default_r2_secret_access_key_env,
     r2_managed_prefix = default_r2_managed_prefix, r2_region = default_r2_region,
     r2_force_path_style = True, r2_max_concurrent_uploads = default_r2_max_concurrent_uploads,
     r2_multipart_threshold_mb = default_r2_multipart_threshold_mb,
     r2_part_size_mb = default_r2_part_size_mb,
     r2_upload_timeout_seconds = default_r2_upload_timeout_seconds,
     r2_verify_after_upload = True, r2_verify_checksum = True, r2_compress_before_upload = True,
     r2_compression = default_r2_compression, r2_encryption_mode = default_r2_encryption_mode,
     r2_fail_collection_if_upload_fails = False,
     r2_prune_local_only_after_verified_upload = True, r2_buckets = r2_buckets_config_default,
     r2_paths = r2_paths_config_default, r2_retention = r2_retention_config_default,
     r2_autopilot = r2_autopilot_config_default\<rparr>"

definition r2_config_apply_defaults :: "r2_config \<Rightarrow> r2_config" where
  "r2_config_apply_defaults c = c\<lparr>
     r2_account_id_env := if_blank default_r2_account_id_env (r2_account_id_env c),
     r2_endpoint_env := if_blank default_r2_endpoint_env (r2_endpoint_env c),
     r2_access_key_id_env := if_blank default_r2_access_key_id_env (r2_access_key_id_env c),
     r2_secret_access_key_env := if_blank default_r2_secret_access_key_env (r2_secret_access_key_env c),
     r2_managed_prefix := if_blank default_r2_managed_prefix (r2_managed_prefix c),
     r2_region := if_blank default_r2_region (r2_region c),
     r2_max_concurrent_uploads := if_zero default_r2_max_concurrent_uploads (r2_max_concurrent_uploads c),
     r2_multipart_threshold_mb := if_zero default_r2_multipart_threshold_mb (r2_multipart_threshold_mb c),
     r2_part_size_mb := if_zero default_r2_part_size_mb (r2_part_size_mb c),
     r2_upload_timeout_seconds := if_zero default_r2_upload_timeout_seconds (r2_upload_timeout_seconds c),
     r2_compression := if_blank default_r2_compression (r2_compression c),
     r2_encryption_mode := if_blank default_r2_encryption_mode (r2_encryption_mode c),
     r2_buckets := r2_buckets_config_apply_defaults (r2_buckets c),
     r2_paths := r2_paths_config_apply_defaults (r2_paths c),
     r2_retention := r2_retention_config_apply_defaults (r2_retention c)\<rparr>"

lemma r2_config_apply_defaults_twice [simp]:
  "r2_config_apply_defaults (r2_config_apply_defaults c) =
    r2_config_apply_defaults c"
  by (simp add: r2_config_apply_defaults_def)

subsection \<open>Execution\<close>

record 'd execution_config =
  ex_enabled :: "bool"
  ex_live_enabled :: "bool"
  ex_paper_enabled :: "bool"
  ex_dry_run :: "bool"
  ex_use_rpc_send :: "bool"
  ex_use_stream_blockhash_cache :: "bool"
  ex_max_daily_loss_quote :: "'d"
  ex_max_open_positions :: "usize"
  ex_max_position_size_quote :: "'d"
  ex_max_trades_per_minute :: "u64"
  ex_max_fee_quote :: "'d"
  ex_max_slippage_bps :: "u64"

definition execution_config_apply_defaults :: "(int \<Rightarrow> nat \<Rightarrow> ('d::{zero,linorder})) \<Rightarrow> 'd execution_config \<Rightarrow> 'd execution_config" where
  "execution_config_apply_defaults dec c = c\<lparr>
     ex_max_position_size_quote := if_nonpos (dec 1 0) (ex_max_position_size_quote c)\<rparr>"

lemma execution_config_apply_defaults_twice [simp]:
  assumes "decimal_positive dec"
  shows "execution_config_apply_defaults dec (execution_config_apply_defaults dec c) =
    execution_config_apply_defaults dec c"
  using assms by (simp add: execution_config_apply_defaults_def)

record 'd paper_config =
  pa_enabled :: "bool"
  pa_initial_balance_quote :: "'d"
  pa_max_positions :: "usize"
  pa_max_position_size_quote :: "'d"
  pa_max_daily_loss_quote :: "'d"
  pa_close_on_shutdown :: "bool"
  pa_scenario_end_liquidation :: "bool"

definition paper_config_apply_defaults :: "(int \<Rightarrow> nat \<Rightarrow> ('d::{zero,linorder})) \<Rightarrow> 'd paper_config \<Rightarrow> 'd paper_config" where
  "paper_config_apply_defaults dec c = c\<lparr>
     pa_initial_balance_quote := if_nonpos (dec 10000 0) (pa_initial_balance_quote c),
     pa_max_positions := if_zero 3 (pa_max_positions c),
     pa_max_position_size_quote := if_nonpos (dec 1 0) (pa_max_position_size_quote c),
     pa_max_daily_loss_quote := if_nonpos (dec 500 0) (pa_max_daily_loss_quote c)\<rparr>"

lemma paper_config_apply_defaults_twice [simp]:
  assumes "decimal_positive dec"
  shows "paper_config_apply_defaults dec (paper_config_apply_defaults dec c) =
    paper_config_apply_defaults dec c"
  using assms by (simp add: paper_config_apply_defaults_def)

record 'd live_config =
  lv_enabled :: "bool"
  lv_dry_run :: "bool"
  lv_require_explicit_enable :: "bool"
  lv_explicit_send_confirmation :: "bool"
  lv_max_fee_per_transaction_quote :: "'d"
  lv_max_priority_fee_lamports :: "u64"
  lv_max_tip_lamports :: "u64"
  lv_max_slippage_bps :: "u64"
  lv_allow_shred_emergency_exit :: "bool"
  lv_allow_live_exit_on_tentative :: "bool"

definition live_config_apply_defaults :: "(int \<Rightarrow> nat \<Rightarrow> ('d::{zero,linorder})) \<Rightarrow> 'd live_config \<Rightarrow> 'd live_config" where
  "live_config_apply_defaults dec c = c\<lparr>
     lv_max_fee_per_transaction_quote := if_nonpos (dec 25 2) (lv_max_fee_per_transaction_quote c),
     lv_max_slippage_bps := if_zero 300 (lv_max_slippage_bps c)\<rparr>"

lemma live_config_apply_defaults_twice [simp]:
  assumes "decimal_positive dec"
  shows "live_config_apply_defaults dec (live_config_apply_defaults dec c) =
    live_config_apply_defaults dec c"
  using assms by (simp add: live_config_apply_defaults_def)

subsection \<open>Stream sources\<close>

record shred_config =
  sh_enabled :: "bool"
  sh_required :: "bool"
  sh_decoder :: "shred_decoder_mode"
  sh_allow_geyser_only_fallback :: "bool"
  sh_bind_addr :: "string"
  sh_max_packet_size :: "usize"
  sh_dedup_window :: "usize"
  sh_tentative_ttl_ms :: "u64"

definition shred_config_apply_defaults :: "shred_config \<Rightarrow> shred_config" where
  "shred_config_apply_defaults c = c\<lparr>
     sh_max_packet_size := if_zero 1500 (sh_max_packet_size c),
     sh_dedup_window := if_zero 8192 (sh_dedup_window c),
     sh_tentative_ttl_ms := if_zero 4000 (sh_tentative_ttl_ms c)\<rparr>"

lemma shred_config_apply_defaults_twice [simp]:
  "shred_config_apply_defaults (shred_config_apply_defaults c) =
    shred_config_apply_defaults c"
  by (simp add: shred_config_apply_defaults_def)

record deshred_config =
  ds_enabled :: "bool"
  ds_required :: "bool"
  ds_endpoint :: "string"
  ds_endpoint_env :: "string"
  ds_auth_token_env :: "string"
  ds_auth_metadata_key :: "string"
  ds_auth_required :: "bool"
  ds_subscribe_transactions :: "bool"
  ds_program_filters_from_pump_ids :: "bool"
  ds_connect_timeout_ms :: "u64"
  ds_request_timeout_ms :: "u64"
  ds_keepalive_interval_ms :: "u64"
  ds_reconnect_backoff_ms :: "u64"
  ds_max_reconnect_backoff_ms :: "u64"
  ds_max_reconnect_attempts :: "u32"
  ds_fail_if_unsupported :: "bool"
  ds_max_decoded_message_size :: "usize"

definition deshred_config_apply_defaults :: "deshred_config \<Rightarrow> deshred_config" where
  "deshred_config_apply_defaults c = c\<lparr>
     ds_endpoint_env := if_empty ''GEYSER_ENDPOINT'' (ds_endpoint_env c),
     ds_auth_token_env := if_empty ''GEYSER_AUTH_TOKEN'' (ds_auth_token_env c),
     ds_auth_metadata_key := if_empty ''x-token'' (ds_auth_metadata_key c),
     ds_connect_timeout_ms := if_zero 10000 (ds_connect_timeout_ms c),
     ds_request_timeout_ms := if_zero 30000 (ds_request_timeout_ms c),
     ds_keepalive_interval_ms := if_zero 10000 (ds_keepalive_interval_ms c),
     ds_reconnect_backoff_ms := if_zero 1000 (ds_reconnect_backoff_ms c),
     ds_max_reconnect_backoff_ms := if_zero 30000 (ds_max_reconnect_backoff_ms c),
     ds_max_reconnect_attempts := if_zero 10 (ds_max_reconnect_attempts c),
     ds_max_decoded_message_size := if_zero (64 * 1024 * 1024) (ds_max_decoded_message_size c)\<rparr>"

lemma deshred_config_apply_defaults_twice [simp]:
  "deshred_config_apply_defaults (deshred_config_apply_defaults c) =
    deshred_config_apply_defaults c"
  by (simp add: deshred_config_apply_defaults_def)

record 'f geyser_config =
  gy_enabled :: "bool"
  gy_required :: "bool"
  gy_endpoint :: "string"
  gy_endpoint_env :: "string"
  gy_auth_token_env :: "string"
  gy_auth_metadata_key :: "string"
  gy_auth_metadata_value_env :: "string"
  gy_auth_required :: "bool"
  gy_connect_timeout_ms :: "u64"
  gy_request_timeout_ms :: "u64"
  gy_keepalive_interval_ms :: "u64"
  gy_commitment :: "commitment_mode"
  gy_reconnect_backoff_ms :: "u64 list"
  gy_max_reconnect_backoff_ms :: "u64"
  gy_max_reconnect_attempts :: "u32 option"
  gy_subscribe_transactions :: "bool"
  gy_subscribe_accounts :: "bool"
  gy_subscribe_slots :: "bool"
  gy_subscribe_blocks :: "bool"
  gy_subscribe_blocks_meta :: "bool"
  gy_ping_interval_ms :: "u64"
  gy_max_decoded_message_size :: "usize"
  gy_http2_adaptive_window :: "bool"
  gy_initial_stream_window_size_bytes :: "u32 option"
  gy_initial_connection_window_size_bytes :: "u32 option"
  gy_keep_alive_interval_seconds :: "u64 option"
  gy_keep_alive_timeout_seconds :: "u64 option"
  gy_keep_alive_while_idle :: "bool"
  gy_tcp_nodelay :: "bool"
  gy_max_decoding_message_size_bytes :: "usize option"
  gy_accept_compressed :: "string option"
  gy_send_compressed :: "string option"
  gy_geyser_only_allowed :: "bool"
  gy_max_inflight_messages :: "usize"
  gy_material_hunter_partitioning_enabled :: "bool"
  gy_material_hunter_worker_partitions :: "usize"
  gy_material_hunter_partition_queue_capacity :: "usize"
  gy_material_hunter_router_queue_capacity :: "usize"
  gy_material_hunter_artifact_writer_queue_capacity :: "usize"
  gy_material_hunter_partition_batch_size :: "usize"
  gy_material_hunter_partition_soft_queue_threshold_ratio :: "'f"
  gy_material_hunter_partition_hard_queue_threshold_ratio :: "'f"
  gy_material_hunter_worker_lag_warn_ms :: "u64"
  gy_material_hunter_worker_lag_blocker_ms :: "u64"
  gy_material_hunter_active_mint_max_queued_updates_per_mint :: "u64"
  gy_material_hunter_active_mint_max_updates_per_second :: "u64"
  gy_material_hunter_active_mint_max_deep_updates_per_checkpoint :: "u64"
  gy_material_hunter_active_mint_noisy_degrade_enabled :: "bool"
  gy_material_hunter_active_mint_noisy_degrade_reason :: "string"
  gy_material_hunter_active_mint_coalesce_window_ms :: "u64"
  gy_material_hunter_active_mint_delta_flush_interval_ms :: "u64"
  gy_slot_gap_tolerance :: "u64"
  gy_program_filters :: "string list"
  gy_account_filters :: "string list"

end
