(* ===== verification/Config.thy ===== *)
theory Config
  imports Config_Records Complex_Main
begin

text \<open>
  The application configuration of \<open>crates/common/src/config.rs\<close>: merging an override file into the
  base file, \<open>AppConfig::apply_defaults\<close> with its stream-only hardening, and the four validators.
  \<open>app_config\<close> has the sections the validators, the budget gate and the executor read; the other
  sections of \<open>AppConfig\<close> are filled in independently of these. The lemmas show what the hardening
  guarantees, that applying the defaults twice changes nothing more, and exactly when a validator
  passes.
\<close>

subsection \<open>Merging TOML files\<close>

text \<open>
  A \<open>toml::Value\<close> is a table or something else (arrays included, which are replaced whole). A table
  is a finite map; the loop of \<open>merge_toml_value\<close> treats its keys independently.
\<close>

datatype 's toml = Scalar 's | Table "string \<Rightarrow> 's toml option"

primrec merge_toml :: "'s toml \<Rightarrow> 's toml \<Rightarrow> 's toml" where
  "merge_toml (Scalar s) = (\<lambda>base. Scalar s)"
| "merge_toml (Table overlay) = (\<lambda>base.
     case base of
       Scalar _ \<Rightarrow> Table overlay
     | Table entries \<Rightarrow> Table (\<lambda>key.
         case (map_option merge_toml \<circ> overlay) key of
           None \<Rightarrow> entries key
         | Some merge \<Rightarrow>
             (case entries key of None \<Rightarrow> overlay key | Some v \<Rightarrow> Some (merge v))))"

fun toml_get :: "string list \<Rightarrow> 's toml \<Rightarrow> 's toml option" where
  "toml_get [] t = Some t"
| "toml_get (k # ks) (Scalar s) = None"
| "toml_get (k # ks) (Table entries) = Option.bind (entries k) (toml_get ks)"

definition setting :: "string list \<Rightarrow> 's toml \<Rightarrow> 's option" where
  "setting path t = (case toml_get path t of Some (Scalar s) \<Rightarrow> Some s | _ \<Rightarrow> None)"

fun touches :: "string list \<Rightarrow> 's toml \<Rightarrow> bool" where
  "touches path (Scalar s) = True"
| "touches [] (Table entries) = True"
| "touches (k # ks) (Table entries) = (case entries k of None \<Rightarrow> False | Some t \<Rightarrow> touches ks t)"

lemma setting_simps [simp]:
  "setting [] (Scalar s) = Some s" "setting [] (Table e) = None"
  "setting (k # ks) (Scalar s) = None"
  "setting (k # ks) (Table e) = (case e k of None \<Rightarrow> None | Some t \<Rightarrow> setting ks t)"
  by (simp_all add: setting_def split: option.split)

lemma untouched_setting: "\<not> touches path t \<Longrightarrow> setting path t = None"
  by (induction path t rule: touches.induct) (auto split: option.splits)

text \<open>
  The override file wins exactly where it says something: a setting of the merged configuration is
  the override's if the override touches its path, and the base file's otherwise.
\<close>
theorem merge_toml_setting:
  "setting path (merge_toml overlay base) =
    (if touches path overlay then setting path overlay else setting path base)"
proof (induction overlay arbitrary: path base)
  case (Scalar s)
  then show ?case by simp
next
  case (Table overlay)
  show ?case
  proof (cases base)
    case (Scalar s)
    show ?thesis
      by (cases path) (auto simp: Scalar untouched_setting split: option.split)
  next
    case (Table entries)
    show ?thesis
    proof (cases path)
      case (Cons k ks)
      then show ?thesis
        using Table.IH [of "overlay k" _ ks]
        by (auto simp: Table untouched_setting rangeI split: option.split)
    qed (simp add: Table)
  qed
qed

subsection \<open>Text helpers\<close>

definition to_ascii_lowercase :: "char \<Rightarrow> char" where
  "to_ascii_lowercase c =
    (let n = (of_char c :: nat) in if 65 \<le> n \<and> n \<le> 90 then char_of (n + 32) else c)"

definition eq_ignore_ascii_case :: "string \<Rightarrow> string \<Rightarrow> bool" where
  "eq_ignore_ascii_case s t \<longleftrightarrow> map to_ascii_lowercase s = map to_ascii_lowercase t"

definition trim :: "string \<Rightarrow> string" where
  "trim s = rev (dropWhile is_space (rev (dropWhile is_space s)))"

fun join :: "string \<Rightarrow> string list \<Rightarrow> string" where
  "join sep [] = []"
| "join sep [s] = s"
| "join sep (s # t # ts) = s @ sep @ join sep (t # ts)"

datatype quant_error =
    IoError | TomlError | JsonError | TimeError
  | ConfigError string | DecodeError string | BudgetDenied string

subsection \<open>The remaining sections\<close>

definition confirmation_config_apply_defaults :: "confirmation_config \<Rightarrow> confirmation_config" where
  "confirmation_config_apply_defaults c =
    c\<lparr>conf_source := if_blank default_confirmation_source (conf_source c)\<rparr>"

record 'f ingest_config =
  ing_geyser :: "'f geyser_config option"
  ing_shred :: "shred_config option"
  ing_deshred :: "deshred_config option"

definition ingest_config_apply_defaults :: "'f ingest_config \<Rightarrow> 'f ingest_config" where
  "ingest_config_apply_defaults c =
    c\<lparr>ing_deshred := map_option deshred_config_apply_defaults (ing_deshred c)\<rparr>"

definition if_none :: "'a \<Rightarrow> 'a option \<Rightarrow> 'a option" where
  "if_none d v = (case v of None \<Rightarrow> Some d | Some x \<Rightarrow> Some x)"

text \<open>\<open>three_quarters\<close> is the literal \<open>0.75\<close>.\<close>

definition geyser_config_apply_defaults ::
  "'f::{zero,one,ord} \<Rightarrow> 'f geyser_config \<Rightarrow> 'f geyser_config" where
  "geyser_config_apply_defaults three_quarters c0 =
    (let
      c = c0\<lparr>gy_endpoint_env := if_empty ''GEYSER_ENDPOINT'' (gy_endpoint_env c0),
             gy_connect_timeout_ms := if_zero 10000 (gy_connect_timeout_ms c0),
             gy_request_timeout_ms := if_zero 30000 (gy_request_timeout_ms c0),
             gy_keepalive_interval_ms := if_zero 10000 (gy_keepalive_interval_ms c0)\<rparr>;
      c = c\<lparr>gy_keep_alive_interval_seconds :=
               if_none (max (max (gy_keepalive_interval_ms c) 1 div 1000) 1)
                 (gy_keep_alive_interval_seconds c),
             gy_keep_alive_timeout_seconds := if_none 20 (gy_keep_alive_timeout_seconds c),
             gy_reconnect_backoff_ms := if_empty [250, 500, 1000, 2000, 5000] (gy_reconnect_backoff_ms c),
             gy_max_reconnect_backoff_ms := if_zero 30000 (gy_max_reconnect_backoff_ms c),
             gy_max_reconnect_attempts := if_none 10 (gy_max_reconnect_attempts c),
             gy_ping_interval_ms := if_zero 15000 (gy_ping_interval_ms c),
             gy_max_inflight_messages := if_zero 8192 (gy_max_inflight_messages c)\<rparr>;
      c = c\<lparr>gy_material_hunter_worker_partitions :=
               min 16 (if_zero 4 (gy_material_hunter_worker_partitions c)),
             gy_material_hunter_partition_queue_capacity :=
               if_zero 2048 (gy_material_hunter_partition_queue_capacity c),
             gy_material_hunter_router_queue_capacity :=
               if_zero (max (gy_max_inflight_messages c) 8192)
                 (gy_material_hunter_router_queue_capacity c),
             gy_material_hunter_artifact_writer_queue_capacity :=
               if_zero 2048 (gy_material_hunter_artifact_writer_queue_capacity c)\<rparr>;
      c = c\<lparr>gy_material_hunter_partition_batch_size :=
               min (gy_material_hunter_partition_queue_capacity c)
                 (if_zero 256 (gy_material_hunter_partition_batch_size c))\<rparr>;
      soft = gy_material_hunter_partition_soft_queue_threshold_ratio c;
      hard = gy_material_hunter_partition_hard_queue_threshold_ratio c;
      soft = (if soft \<le> 0 then three_quarters else soft);
      hard = (if hard \<le> 0 then 1 else hard);
      c = c\<lparr>gy_material_hunter_partition_soft_queue_threshold_ratio :=
               (if hard \<le> soft then three_quarters else soft),
             gy_material_hunter_partition_hard_queue_threshold_ratio :=
               (if hard \<le> soft then 1 else hard),
             gy_material_hunter_worker_lag_warn_ms :=
               if_zero 5000 (gy_material_hunter_worker_lag_warn_ms c),
             gy_material_hunter_worker_lag_blocker_ms :=
               if_zero 10000 (gy_material_hunter_worker_lag_blocker_ms c),
             gy_material_hunter_active_mint_max_queued_updates_per_mint :=
               min (if_zero 512 (gy_material_hunter_active_mint_max_queued_updates_per_mint c))
                 (max (gy_material_hunter_partition_queue_capacity c) 1),
             gy_material_hunter_active_mint_max_updates_per_second :=
               if_zero 200 (gy_material_hunter_active_mint_max_updates_per_second c),
             gy_material_hunter_active_mint_max_deep_updates_per_checkpoint :=
               if_zero 256 (gy_material_hunter_active_mint_max_deep_updates_per_checkpoint c),
             gy_material_hunter_active_mint_noisy_degrade_reason :=
               if_blank ''noisy_active_mint_backpressure''
                 (gy_material_hunter_active_mint_noisy_degrade_reason c),
             gy_material_hunter_active_mint_coalesce_window_ms :=
               if_zero 250 (gy_material_hunter_active_mint_coalesce_window_ms c),
             gy_material_hunter_active_mint_delta_flush_interval_ms :=
               if_zero 5000 (gy_material_hunter_active_mint_delta_flush_interval_ms c),
             gy_max_decoded_message_size :=
               if_zero (64 * 1024 * 1024) (gy_max_decoded_message_size c)\<rparr>;
      c = c\<lparr>gy_max_decoding_message_size_bytes :=
               if_none (gy_max_decoded_message_size c) (gy_max_decoding_message_size_bytes c)\<rparr>;
      c = (if gy_http2_adaptive_window c
           then c\<lparr>gy_initial_stream_window_size_bytes := None,
                  gy_initial_connection_window_size_bytes := None\<rparr>
           else c\<lparr>gy_initial_stream_window_size_bytes :=
                    if_none (16 * 1024 * 1024) (gy_initial_stream_window_size_bytes c),
                  gy_initial_connection_window_size_bytes :=
                    if_none (32 * 1024 * 1024) (gy_initial_connection_window_size_bytes c)\<rparr>)
     in if gy_auth_metadata_key c = [] \<and> gy_auth_token_env c \<noteq> []
        then c\<lparr>gy_auth_metadata_key := ''x-token''\<rparr> else c)"

record environment_config =
  env_cluster :: string
  env_run_id :: string
  env_strategy_version :: string
  env_schema_version :: u32

definition SCHEMA_VERSION :: u32 where "SCHEMA_VERSION = 2"

record ('d, 'f) app_config =
  cfg_environment :: environment_config
  cfg_runtime :: runtime_config
  cfg_edge_collector :: edge_collector_config
  cfg_ingest :: "'f ingest_config"
  cfg_stream_only :: stream_only_config
  cfg_rpc :: rpc_config
  cfg_confirmation :: confirmation_config
  cfg_metadata :: metadata_config
  cfg_autopilot :: "'d autopilot_config"
  cfg_r2 :: r2_config
  cfg_geyser :: "'f geyser_config"
  cfg_shred :: shred_config
  cfg_execution :: "'d execution_config"
  cfg_paper :: "'d paper_config"
  cfg_live :: "'d live_config"
  cfg_rpc_budget :: rpc_budget_config

definition fill_sections ::
  "(int \<Rightarrow> nat \<Rightarrow> 'd::{zero,linorder}) \<Rightarrow> 'f::{zero,one,ord} \<Rightarrow>
   ('d, 'f) app_config \<Rightarrow> ('d, 'f) app_config" where
  "fill_sections dec three_quarters c = c\<lparr>
     cfg_environment := (cfg_environment c)\<lparr>env_schema_version :=
       if_zero SCHEMA_VERSION (env_schema_version (cfg_environment c))\<rparr>,
     cfg_runtime := runtime_config_apply_defaults (cfg_runtime c),
     cfg_edge_collector := edge_collector_config_apply_defaults (cfg_edge_collector c),
     cfg_ingest := ingest_config_apply_defaults (cfg_ingest c),
     cfg_confirmation := confirmation_config_apply_defaults (cfg_confirmation c),
     cfg_autopilot := autopilot_config_apply_defaults dec (cfg_autopilot c),
     cfg_r2 := r2_config_apply_defaults (cfg_r2 c),
     cfg_geyser := geyser_config_apply_defaults three_quarters (cfg_geyser c),
     cfg_shred := shred_config_apply_defaults (cfg_shred c),
     cfg_execution := execution_config_apply_defaults dec (cfg_execution c),
     cfg_paper := paper_config_apply_defaults dec (cfg_paper c),
     cfg_live := live_config_apply_defaults dec (cfg_live c)\<rparr>"

definition adopt_ingest :: "('d, 'f) app_config \<Rightarrow> ('d, 'f) app_config" where
  "adopt_ingest c =
    (let c1 = (case ing_geyser (cfg_ingest c) of
                 Some geyser \<Rightarrow> c\<lparr>cfg_geyser := geyser\<rparr>
               | None \<Rightarrow> c\<lparr>cfg_ingest := (cfg_ingest c)\<lparr>ing_geyser := Some (cfg_geyser c)\<rparr>\<rparr>)
     in case ing_shred (cfg_ingest c1) of
          Some shred \<Rightarrow> c1\<lparr>cfg_shred := shred\<rparr>
        | None \<Rightarrow> c1\<lparr>cfg_ingest := (cfg_ingest c1)\<lparr>ing_shred := Some (cfg_shred c1)\<rparr>\<rparr>)"

definition sync_execution :: "('d, 'f) app_config \<Rightarrow> ('d, 'f) app_config" where
  "sync_execution c = c\<lparr>cfg_execution := (cfg_execution c)\<lparr>
     ex_paper_enabled := pa_enabled (cfg_paper c),
     ex_live_enabled := lv_enabled (cfg_live c),
     ex_dry_run := lv_dry_run (cfg_live c),
     ex_max_open_positions := pa_max_positions (cfg_paper c),
     ex_max_position_size_quote := pa_max_position_size_quote (cfg_paper c),
     ex_max_daily_loss_quote := pa_max_daily_loss_quote (cfg_paper c),
     ex_max_fee_quote := lv_max_fee_per_transaction_quote (cfg_live c),
     ex_max_slippage_bps := lv_max_slippage_bps (cfg_live c)\<rparr>\<rparr>"

definition harden_stream_only :: "('d, 'f) app_config \<Rightarrow> ('d, 'f) app_config" where
  "harden_stream_only c =
    (if so_enabled (cfg_stream_only c)
     then c\<lparr>cfg_rpc := \<lparr>hot_path_enabled = False,
              rpc_daily_credit_budget = so_rpc_daily_credit_budget (cfg_stream_only c),
              rpc_monthly_credit_budget = so_rpc_monthly_credit_budget (cfg_stream_only c)\<rparr>,
            cfg_execution := (cfg_execution c)\<lparr>ex_use_rpc_send := False\<rparr>,
            cfg_metadata := (cfg_metadata c)\<lparr>md_fetch_uri := False,
              md_hot_path_fetch_enabled := False\<rparr>,
            cfg_confirmation := \<lparr>conf_source = ''geyser_stream'',
              conf_allow_rpc_status_fallback = False\<rparr>\<rparr>
     else c)"

definition app_config_apply_defaults ::
  "(int \<Rightarrow> nat \<Rightarrow> 'd::{zero,linorder}) \<Rightarrow> 'f::{zero,one,ord} \<Rightarrow>
   ('d, 'f) app_config \<Rightarrow> ('d, 'f) app_config" where
  "app_config_apply_defaults dec three_quarters c =
    harden_stream_only (sync_execution (adopt_ingest (fill_sections dec three_quarters c)))"

subsection \<open>Violations\<close>

text \<open>Each check appends its message when it fails; a summary passes when none did.\<close>

definition violations :: "(bool \<times> string) list \<Rightarrow> string list" where
  "violations checks = map snd (filter fst checks)"

definition msg_so_tracking :: string where
  "msg_so_tracking =
    ''stream-only forbids tracking/market-data RPC''"

definition msg_so_holder :: string where
  "msg_so_holder =
    ''stream-only forbids holder RPC''"

definition msg_so_top_holder :: string where
  "msg_so_top_holder =
    ''stream-only forbids top-holder RPC''"

definition msg_so_metadata :: string where
  "msg_so_metadata =
    ''stream-only forbids metadata HTTP/RPC fetches''"

definition msg_so_backfill :: string where
  "msg_so_backfill =
    ''stream-only forbids backfill RPC''"

definition msg_so_reconciliation :: string where
  "msg_so_reconciliation =
    ''stream-only forbids reconciliation RPC''"

definition msg_so_confirmation :: string where
  "msg_so_confirmation =
    ''stream-only requires geyser_stream confirmation with no RPC fallback''"

definition msg_so_blockhash :: string where
  "msg_so_blockhash =
    ''stream-only forbids blockhash RPC''"

definition msg_so_send :: string where
  "msg_so_send =
    ''stream-only forbids execution/send RPC''"

definition msg_so_hot_path :: string where
  "msg_so_hot_path =
    ''stream-only requires rpc.hot_path_enabled=false''"

definition msg_so_rpc_credit :: string where
  "msg_so_rpc_credit =
    ''stream-only requires rpc credit budgets to be zero''"

definition msg_so_rpc_budget :: string where
  "msg_so_rpc_budget =
    ''stream-only requires rpc_budget credit limits to be zero''"

definition msg_so_no_stream :: string where
  "msg_so_no_stream =
    ''stream-only requires geyser, mock, or replay stream availability''"

definition msg_so_blockhash_cache :: string where
  "msg_so_blockhash_cache =
    ''stream-only requires stream blockhash cache when execution is enabled''"

definition msg_ap_parallel :: string where
  "msg_ap_parallel =
    ''autopilot.max_parallel_runs must be >= 1''"

definition msg_ap_live_trading :: string where
  "msg_ap_live_trading =
    ''autopilot may not enable live trading''"

definition msg_ap_needs_stream_only :: string where
  "msg_ap_needs_stream_only =
    ''autopilot requires stream_only.enabled=true''"

definition msg_ap_stream_only_fails :: string where
  "msg_ap_stream_only_fails =
    ''autopilot requires a passing stream-only validation result''"

definition msg_ap_live :: string where
  "msg_ap_live =
    ''autopilot requires live trading to remain disabled''"

definition msg_ap_disk :: string where
  "msg_ap_disk =
    ''autopilot.disk.min_free_mb_before_cycle must be >= min_free_mb_during_cycle''"

definition msg_ap_paths :: string where
  "msg_ap_paths =
    ''autopilot paths must not be empty''"

definition msg_r2_uploads :: string where
  "msg_r2_uploads =
    ''r2.max_concurrent_uploads must be >= 1''"

definition msg_r2_prefix :: string where
  "msg_r2_prefix =
    ''r2.managed_prefix must not be empty''"

definition msg_r2_delete :: string where
  "msg_r2_delete =
    ''r2.delete_enabled=true requires at least one delete/empty/object-delete capability to be explicitly enabled''"

definition msg_ec_needs_stream_only :: string where
  "msg_ec_needs_stream_only =
    ''edge_collector requires stream_only.enabled=true''"

definition msg_ec_stream_only_fails :: string where
  "msg_ec_stream_only_fails =
    ''edge_collector requires a passing stream-only validation result''"

definition msg_ec_live :: string where
  "msg_ec_live =
    ''edge_collector must keep live trading disabled''"

definition msg_ec_heavy :: string where
  "msg_ec_heavy =
    ''edge_collector mode must keep feature/risk/decision/paper/report/export/local-analysis paths disabled''"

definition msg_ec_enrichment :: string where
  "msg_ec_enrichment =
    ''edge_collector mode must keep rpc/api/http enrichment disabled''"

definition msg_ec_upload :: string where
  "msg_ec_upload =
    ''edge_collector requires r2.upload_enabled=true''"

definition msg_ec_verify :: string where
  "msg_ec_verify =
    ''edge_collector verification requires r2.enabled=true''"

definition msg_ec_runtime_mb :: string where
  "msg_ec_runtime_mb =
    ''edge_collector.max_local_runtime_mb must be > 0''"

definition msg_ec_segment_mb :: string where
  "msg_ec_segment_mb =
    ''edge_collector.storage.max_local_segment_mb must be > 0''"

record stream_only_summary =
  sos_stream_only_enabled :: bool
  sos_fail_on_hot_path_rpc :: bool
  sos_fail_on_unbudgeted_rpc :: bool
  sos_market_data_rpc_calls_allowed :: bool
  sos_holder_rpc_calls_allowed :: bool
  sos_top_holder_rpc_calls_allowed :: bool
  sos_metadata_fetch_allowed :: bool
  sos_backfill_rpc_allowed :: bool
  sos_reconciliation_rpc_allowed :: bool
  sos_confirmation_rpc_allowed :: bool
  sos_blockhash_rpc_allowed :: bool
  sos_execution_rpc_allowed :: bool
  sos_send_rpc_allowed :: bool
  sos_emergency_rpc_allowed :: bool
  sos_rpc_hot_path_enabled :: bool
  sos_rpc_daily_credit_budget :: u64
  sos_rpc_monthly_credit_budget :: u64
  sos_rpc_budget_daily_limit :: u64
  sos_rpc_budget_monthly_limit :: u64
  sos_confirmation_source :: string
  sos_live_execution_enabled :: bool
  sos_use_rpc_send :: bool
  sos_use_stream_blockhash_cache :: bool
  sos_metadata_fetch_uri :: bool
  sos_metadata_hot_path_fetch_enabled :: bool
  sos_geyser_available :: bool
  sos_deshred_available :: bool
  sos_replay_available :: bool
  sos_passed :: bool
  sos_violations :: "string list"

definition stream_only_facts :: "('d, 'f) app_config \<Rightarrow> stream_only_summary" where
  "stream_only_facts c =
    (let so = cfg_stream_only c in
     \<lparr>sos_stream_only_enabled = so_enabled so,
      sos_fail_on_hot_path_rpc = fail_on_hot_path_rpc so,
      sos_fail_on_unbudgeted_rpc = fail_on_unbudgeted_rpc so,
      sos_market_data_rpc_calls_allowed = allow_tracking_rpc so,
      sos_holder_rpc_calls_allowed = allow_holder_rpc so,
      sos_top_holder_rpc_calls_allowed = allow_top_holder_rpc so,
      sos_metadata_fetch_allowed = allow_metadata_rpc so,
      sos_backfill_rpc_allowed = allow_backfill_rpc so,
      sos_reconciliation_rpc_allowed = allow_reconciliation_rpc so,
      sos_confirmation_rpc_allowed = allow_confirmation_rpc so,
      sos_blockhash_rpc_allowed = allow_blockhash_rpc so,
      sos_execution_rpc_allowed = allow_execution_rpc so,
      sos_send_rpc_allowed = allow_send_rpc so,
      sos_emergency_rpc_allowed = allow_emergency_rpc so,
      sos_rpc_hot_path_enabled = hot_path_enabled (cfg_rpc c),
      sos_rpc_daily_credit_budget = rpc_daily_credit_budget (cfg_rpc c),
      sos_rpc_monthly_credit_budget = rpc_monthly_credit_budget (cfg_rpc c),
      sos_rpc_budget_daily_limit = daily_credit_limit (cfg_rpc_budget c),
      sos_rpc_budget_monthly_limit = monthly_credit_limit (cfg_rpc_budget c),
      sos_confirmation_source = conf_source (cfg_confirmation c),
      sos_live_execution_enabled = (ex_live_enabled (cfg_execution c) \<or> ex_enabled (cfg_execution c)),
      sos_use_rpc_send = ex_use_rpc_send (cfg_execution c),
      sos_use_stream_blockhash_cache = ex_use_stream_blockhash_cache (cfg_execution c),
      sos_metadata_fetch_uri = md_fetch_uri (cfg_metadata c),
      sos_metadata_hot_path_fetch_enabled = md_hot_path_fetch_enabled (cfg_metadata c),
      sos_geyser_available = (gy_enabled (cfg_geyser c) \<or>
        (case ing_geyser (cfg_ingest c) of None \<Rightarrow> False | Some g \<Rightarrow> gy_enabled g)),
      sos_deshred_available =
        (case ing_deshred (cfg_ingest c) of None \<Rightarrow> False | Some d \<Rightarrow> ds_enabled d),
      sos_replay_available = True, sos_passed = True, sos_violations = []\<rparr>)"

definition stream_only_checks :: "stream_only_summary \<Rightarrow> (bool \<times> string) list" where
  "stream_only_checks s =
    [(sos_market_data_rpc_calls_allowed s, msg_so_tracking),
     (sos_holder_rpc_calls_allowed s, msg_so_holder),
     (sos_top_holder_rpc_calls_allowed s, msg_so_top_holder),
     (sos_metadata_fetch_allowed s \<or> sos_metadata_fetch_uri s \<or>
        sos_metadata_hot_path_fetch_enabled s, msg_so_metadata),
     (sos_backfill_rpc_allowed s, msg_so_backfill),
     (sos_reconciliation_rpc_allowed s, msg_so_reconciliation),
     (sos_confirmation_rpc_allowed s \<or>
        \<not> eq_ignore_ascii_case (sos_confirmation_source s) ''geyser_stream'', msg_so_confirmation),
     (sos_blockhash_rpc_allowed s, msg_so_blockhash),
     (sos_send_rpc_allowed s \<or> sos_execution_rpc_allowed s \<or> sos_use_rpc_send s, msg_so_send),
     (sos_rpc_hot_path_enabled s, msg_so_hot_path),
     (sos_rpc_daily_credit_budget s \<noteq> 0 \<or> sos_rpc_monthly_credit_budget s \<noteq> 0, msg_so_rpc_credit),
     (sos_rpc_budget_daily_limit s \<noteq> 0 \<or> sos_rpc_budget_monthly_limit s \<noteq> 0, msg_so_rpc_budget),
     (\<not> sos_geyser_available s \<and> \<not> sos_replay_available s, msg_so_no_stream),
     (sos_live_execution_enabled s \<and> \<not> sos_use_stream_blockhash_cache s, msg_so_blockhash_cache)]"

definition stream_only_validation_summary :: "('d, 'f) app_config \<Rightarrow> stream_only_summary" where
  "stream_only_validation_summary c =
    (let s = stream_only_facts c;
         vs = (if sos_stream_only_enabled s then violations (stream_only_checks s) else [])
     in s\<lparr>sos_violations := vs, sos_passed := (vs = [])\<rparr>)"

definition validate_stream_only ::
  "('d, 'f) app_config \<Rightarrow> (quant_error, stream_only_summary) result" where
  "validate_stream_only c =
    (let s = stream_only_validation_summary c in
     if sos_passed s then Ok s
     else Err (ConfigError (''stream-only validation failed: '' @ join ''; '' (sos_violations s))))"


subsection \<open>Autopilot, object storage and edge collector\<close>

record autopilot_summary =
  aus_enabled :: bool
  aus_stream_only_required :: bool
  aus_stream_only_enabled :: bool
  aus_live_enabled :: bool
  aus_live_trading_allowed :: bool
  aus_max_parallel_runs :: usize
  aus_disk_min_free_mb_before_cycle :: u64
  aus_disk_min_free_mb_during_cycle :: u64
  aus_state_path :: string
  aus_lock_path :: string
  aus_status_path :: string
  aus_report_dir :: string
  aus_passed :: bool
  aus_violations :: "string list"

definition live_anywhere :: "('d, 'f) app_config \<Rightarrow> bool" where
  "live_anywhere c \<longleftrightarrow> lv_enabled (cfg_live c) \<or> ex_live_enabled (cfg_execution c)"

definition autopilot_validation_summary :: "('d, 'f) app_config \<Rightarrow> autopilot_summary" where
  "autopilot_validation_summary c =
    (let a = cfg_autopilot c;
         s = \<lparr>aus_enabled = ap_enabled a, aus_stream_only_required = ap_stream_only_required a,
              aus_stream_only_enabled = so_enabled (cfg_stream_only c),
              aus_live_enabled = live_anywhere c,
              aus_live_trading_allowed = ap_live_trading_allowed a,
              aus_max_parallel_runs = ap_max_parallel_runs a,
              aus_disk_min_free_mb_before_cycle = apd_min_free_mb_before_cycle (ap_disk a),
              aus_disk_min_free_mb_during_cycle = apd_min_free_mb_during_cycle (ap_disk a),
              aus_state_path = ap_state_path a, aus_lock_path = ap_lock_path a,
              aus_status_path = ap_status_path a, aus_report_dir = ap_report_dir a,
              aus_passed = True, aus_violations = []\<rparr>;
         vs = violations
           [(aus_max_parallel_runs s = 0, msg_ap_parallel),
            (ap_live_trading_allowed a, msg_ap_live_trading),
            (aus_stream_only_required s \<and> \<not> aus_stream_only_enabled s, msg_ap_needs_stream_only),
            (aus_stream_only_required s \<and> \<not> sos_passed (stream_only_validation_summary c),
               msg_ap_stream_only_fails),
            (ap_enabled a \<and> aus_live_enabled s, msg_ap_live),
            (aus_disk_min_free_mb_before_cycle s < aus_disk_min_free_mb_during_cycle s, msg_ap_disk),
            (is_blank (aus_state_path s) \<or> is_blank (aus_lock_path s) \<or>
               is_blank (aus_status_path s) \<or> is_blank (aus_report_dir s), msg_ap_paths)]
     in s\<lparr>aus_violations := vs, aus_passed := (vs = [])\<rparr>)"

definition validate_autopilot ::
  "('d, 'f) app_config \<Rightarrow> (quant_error, autopilot_summary) result" where
  "validate_autopilot c =
    (let s = autopilot_validation_summary c in
     if aus_passed s then Ok s
     else Err (ConfigError (''autopilot validation failed: '' @ join ''; '' (aus_violations s))))"

record r2_summary =
  r2s_enabled :: bool
  r2s_upload_enabled :: bool
  r2s_delete_enabled :: bool
  r2s_dry_run :: bool
  r2s_managed_prefix :: string
  r2s_passed :: bool
  r2s_violations :: "string list"

definition r2_validation_summary :: "('d, 'f) app_config \<Rightarrow> r2_summary" where
  "r2_validation_summary c =
    (let r = cfg_r2 c;
         s = \<lparr>r2s_enabled = r2_enabled r, r2s_upload_enabled = r2_upload_enabled r,
              r2s_delete_enabled = r2_delete_enabled r, r2s_dry_run = r2_dry_run r,
              r2s_managed_prefix = r2_managed_prefix r, r2s_passed = True, r2s_violations = []\<rparr>;
         vs = violations
           [(r2_max_concurrent_uploads r = 0, msg_r2_uploads),
            (is_blank (r2_managed_prefix r), msg_r2_prefix),
            (r2_delete_enabled r \<and> \<not> r2b_allow_bucket_delete (r2_buckets r) \<and>
               \<not> r2b_allow_bucket_empty (r2_buckets r) \<and>
               \<not> r2b_allow_object_delete (r2_buckets r), msg_r2_delete)]
     in s\<lparr>r2s_violations := vs, r2s_passed := (vs = [])\<rparr>)"

definition validate_r2 :: "('d, 'f) app_config \<Rightarrow> (quant_error, r2_summary) result" where
  "validate_r2 c =
    (let s = r2_validation_summary c in
     if r2s_passed s then Ok s
     else Err (ConfigError (''r2 validation failed: '' @ join ''; '' (r2s_violations s))))"

record edge_summary =
  ecv_runtime_mode :: string
  ecv_enabled :: bool
  ecv_stream_only_required :: bool
  ecv_stream_only_enabled :: bool
  ecv_live_enabled :: bool
  ecv_paper_decisions_enabled :: bool
  ecv_feature_engine_enabled :: bool
  ecv_risk_engine_enabled :: bool
  ecv_decision_engine_enabled :: bool
  ecv_paper_executor_enabled :: bool
  ecv_research_reports_enabled :: bool
  ecv_large_exports_enabled :: bool
  ecv_local_analysis_enabled :: bool
  ecv_r2_upload_required :: bool
  ecv_r2_verify_required :: bool
  ecv_r2_enabled :: bool
  ecv_r2_upload_enabled :: bool
  ecv_passed :: bool
  ecv_violations :: "string list"

text \<open>\<open>format!("{:?}", mode).to_lowercase()\<close>\<close>

fun runtime_mode_text :: "runtime_mode_name \<Rightarrow> string" where
  "runtime_mode_text ModeFixture = ''fixture''"
| "runtime_mode_text ModeReplay = ''replay''"
| "runtime_mode_text ModePaperFromStore = ''paperfromstore''"
| "runtime_mode_text ModeLiveDataPaper = ''livedatapaper''"
| "runtime_mode_text ModeEdgeCollector = ''edgecollector''"
| "runtime_mode_text ModeResearchWorker = ''researchworker''"
| "runtime_mode_text ModeAutopilot = ''autopilot''"
| "runtime_mode_text ModeGuardedLiveDryRun = ''guardedlivedryrun''"
| "runtime_mode_text ModeGuardedLiveEnabled = ''guardedliveenabled''"

definition edge_mode_enabled :: "('d, 'f) app_config \<Rightarrow> bool" where
  "edge_mode_enabled c \<longleftrightarrow>
    rt_mode (cfg_runtime c) = ModeEdgeCollector \<or> ec_enabled (cfg_edge_collector c) \<or>
    eq_ignore_ascii_case (trim (ap_mode (cfg_autopilot c))) ''edge_collector''"

definition edge_facts :: "('d, 'f) app_config \<Rightarrow> edge_summary" where
  "edge_facts c =
    (let e = cfg_edge_collector c in
     \<lparr>ecv_runtime_mode = runtime_mode_text (rt_mode (cfg_runtime c)),
      ecv_enabled = edge_mode_enabled c,
      ecv_stream_only_required = ec_stream_only_required e,
      ecv_stream_only_enabled = so_enabled (cfg_stream_only c),
      ecv_live_enabled = live_anywhere c,
      ecv_paper_decisions_enabled = ec_paper_decisions_enabled e,
      ecv_feature_engine_enabled = ec_feature_engine_enabled e,
      ecv_risk_engine_enabled = ec_risk_engine_enabled e,
      ecv_decision_engine_enabled = ec_decision_engine_enabled e,
      ecv_paper_executor_enabled = ec_paper_executor_enabled e,
      ecv_research_reports_enabled = ec_research_reports_enabled e,
      ecv_large_exports_enabled = ec_large_exports_enabled e,
      ecv_local_analysis_enabled = ec_local_analysis_enabled e,
      ecv_r2_upload_required = ec_r2_upload_required e,
      ecv_r2_verify_required = ec_r2_verify_required e,
      ecv_r2_enabled = r2_enabled (cfg_r2 c),
      ecv_r2_upload_enabled = r2_upload_enabled (cfg_r2 c),
      ecv_passed = True, ecv_violations = []\<rparr>)"

definition edge_checks :: "('d, 'f) app_config \<Rightarrow> edge_summary \<Rightarrow> (bool \<times> string) list" where
  "edge_checks c s =
    (let e = cfg_edge_collector c in
     [(ecv_stream_only_required s \<and> \<not> ecv_stream_only_enabled s, msg_ec_needs_stream_only),
      (ecv_stream_only_required s \<and> \<not> sos_passed (stream_only_validation_summary c),
         msg_ec_stream_only_fails),
      (ecv_live_enabled s, msg_ec_live),
      (ecv_paper_decisions_enabled s \<or> ecv_feature_engine_enabled s \<or> ecv_risk_engine_enabled s \<or>
         ecv_decision_engine_enabled s \<or> ecv_paper_executor_enabled s \<or>
         ecv_research_reports_enabled s \<or> ecv_large_exports_enabled s \<or>
         ecv_local_analysis_enabled s, msg_ec_heavy),
      (ec_allow_rpc_enrichment e \<or> ec_allow_metadata_fetch e \<or> ec_allow_social_fetch e \<or>
         ec_allow_wallet_history_rpc e \<or> ec_allow_bundle_enrichment_rpc e, msg_ec_enrichment),
      (ecv_r2_upload_required s \<and> \<not> ecv_r2_upload_enabled s, msg_ec_upload),
      (ecv_r2_verify_required s \<and> \<not> ecv_r2_enabled s, msg_ec_verify),
      (ec_max_local_runtime_mb e = 0, msg_ec_runtime_mb),
      (ecs_max_local_segment_mb (ec_storage e) = 0, msg_ec_segment_mb)])"

definition edge_collector_validation_summary :: "('d, 'f) app_config \<Rightarrow> edge_summary" where
  "edge_collector_validation_summary c =
    (let s = edge_facts c in
     if \<not> ecv_enabled s then s\<lparr>ecv_passed := True\<rparr>
     else (let vs = violations (edge_checks c s)
           in s\<lparr>ecv_violations := vs, ecv_passed := (vs = [])\<rparr>))"

definition validate_edge_mode :: "('d, 'f) app_config \<Rightarrow> (quant_error, edge_summary) result" where
  "validate_edge_mode c =
    (let s = edge_collector_validation_summary c in
     if ecv_passed s then Ok s
     else Err (ConfigError (''edge_collector validation failed: '' @ join ''; '' (ecv_violations s))))"

subsection \<open>What passing means\<close>

lemma violations_Nil_iff: "violations cs = [] \<longleftrightarrow> list_all (\<lambda>c. \<not> fst c) cs"
  by (simp add: violations_def filter_empty_conv list_all_iff)

definition rpc_flags_off :: "stream_only_config \<Rightarrow> bool" where
  "rpc_flags_off so \<longleftrightarrow>
    \<not> allow_tracking_rpc so \<and> \<not> allow_holder_rpc so \<and> \<not> allow_top_holder_rpc so \<and>
    \<not> allow_metadata_rpc so \<and> \<not> allow_backfill_rpc so \<and> \<not> allow_reconciliation_rpc so \<and>
    \<not> allow_confirmation_rpc so \<and> \<not> allow_blockhash_rpc so \<and> \<not> allow_execution_rpc so \<and>
    \<not> allow_send_rpc so"

definition blockhash_ready :: "('d, 'f) app_config \<Rightarrow> bool" where
  "blockhash_ready c \<longleftrightarrow> (ex_live_enabled (cfg_execution c) \<or> ex_enabled (cfg_execution c)
     \<longrightarrow> ex_use_stream_blockhash_cache (cfg_execution c))"

lemma stream_only_passed_iff:
  "sos_passed (stream_only_validation_summary c) \<longleftrightarrow>
    (so_enabled (cfg_stream_only c) \<longrightarrow>
       rpc_flags_off (cfg_stream_only c) \<and>
       \<not> md_fetch_uri (cfg_metadata c) \<and> \<not> md_hot_path_fetch_enabled (cfg_metadata c) \<and>
       eq_ignore_ascii_case (conf_source (cfg_confirmation c)) ''geyser_stream'' \<and>
       \<not> ex_use_rpc_send (cfg_execution c) \<and> \<not> hot_path_enabled (cfg_rpc c) \<and>
       rpc_daily_credit_budget (cfg_rpc c) = 0 \<and> rpc_monthly_credit_budget (cfg_rpc c) = 0 \<and>
       daily_credit_limit (cfg_rpc_budget c) = 0 \<and> monthly_credit_limit (cfg_rpc_budget c) = 0 \<and>
       blockhash_ready c)"
  by (auto simp: stream_only_validation_summary_def Let_def stream_only_facts_def
      stream_only_checks_def violations_Nil_iff rpc_flags_off_def blockhash_ready_def)

lemma validate_stream_only_iff:
  "is_ok (validate_stream_only c) \<longleftrightarrow> sos_passed (stream_only_validation_summary c)"
  by (simp add: validate_stream_only_def Let_def)


subsection \<open>What the defaults guarantee\<close>

lemma adopt_ingest_other [simp]:
  "cfg_environment (adopt_ingest c) = cfg_environment c"
  "cfg_runtime (adopt_ingest c) = cfg_runtime c"
  "cfg_edge_collector (adopt_ingest c) = cfg_edge_collector c"
  "cfg_stream_only (adopt_ingest c) = cfg_stream_only c"
  "cfg_rpc (adopt_ingest c) = cfg_rpc c"
  "cfg_confirmation (adopt_ingest c) = cfg_confirmation c"
  "cfg_metadata (adopt_ingest c) = cfg_metadata c"
  "cfg_autopilot (adopt_ingest c) = cfg_autopilot c"
  "cfg_r2 (adopt_ingest c) = cfg_r2 c"
  "cfg_execution (adopt_ingest c) = cfg_execution c"
  "cfg_paper (adopt_ingest c) = cfg_paper c"
  "cfg_live (adopt_ingest c) = cfg_live c"
  "cfg_rpc_budget (adopt_ingest c) = cfg_rpc_budget c"
  by (simp_all add: adopt_ingest_def Let_def split: option.split)

lemma adopt_ingest_changed [simp]:
  "cfg_geyser (adopt_ingest c) =
    (case ing_geyser (cfg_ingest c) of Some g \<Rightarrow> g | None \<Rightarrow> cfg_geyser c)"
  "cfg_shred (adopt_ingest c) =
    (case ing_shred (cfg_ingest c) of Some s \<Rightarrow> s | None \<Rightarrow> cfg_shred c)"
  "ing_geyser (cfg_ingest (adopt_ingest c)) = Some (cfg_geyser (adopt_ingest c))"
  "ing_shred (cfg_ingest (adopt_ingest c)) = Some (cfg_shred (adopt_ingest c))"
  "ing_deshred (cfg_ingest (adopt_ingest c)) = ing_deshred (cfg_ingest c)"
  by (simp_all add: adopt_ingest_def Let_def split: option.split)

lemma sync_execution_other [simp]:
  "cfg_environment (sync_execution c) = cfg_environment c"
  "cfg_runtime (sync_execution c) = cfg_runtime c"
  "cfg_edge_collector (sync_execution c) = cfg_edge_collector c"
  "cfg_ingest (sync_execution c) = cfg_ingest c"
  "cfg_stream_only (sync_execution c) = cfg_stream_only c"
  "cfg_rpc (sync_execution c) = cfg_rpc c"
  "cfg_confirmation (sync_execution c) = cfg_confirmation c"
  "cfg_metadata (sync_execution c) = cfg_metadata c"
  "cfg_autopilot (sync_execution c) = cfg_autopilot c"
  "cfg_r2 (sync_execution c) = cfg_r2 c"
  "cfg_geyser (sync_execution c) = cfg_geyser c"
  "cfg_shred (sync_execution c) = cfg_shred c"
  "cfg_paper (sync_execution c) = cfg_paper c"
  "cfg_live (sync_execution c) = cfg_live c"
  "cfg_rpc_budget (sync_execution c) = cfg_rpc_budget c"
  by (simp_all add: sync_execution_def)

lemma harden_other [simp]:
  "cfg_environment (harden_stream_only c) = cfg_environment c"
  "cfg_runtime (harden_stream_only c) = cfg_runtime c"
  "cfg_edge_collector (harden_stream_only c) = cfg_edge_collector c"
  "cfg_ingest (harden_stream_only c) = cfg_ingest c"
  "cfg_stream_only (harden_stream_only c) = cfg_stream_only c"
  "cfg_autopilot (harden_stream_only c) = cfg_autopilot c"
  "cfg_r2 (harden_stream_only c) = cfg_r2 c"
  "cfg_geyser (harden_stream_only c) = cfg_geyser c"
  "cfg_shred (harden_stream_only c) = cfg_shred c"
  "cfg_paper (harden_stream_only c) = cfg_paper c"
  "cfg_live (harden_stream_only c) = cfg_live c"
  "cfg_rpc_budget (harden_stream_only c) = cfg_rpc_budget c"
  by (simp_all add: harden_stream_only_def)

lemma fill_sections_other [simp]:
  "cfg_stream_only (fill_sections dec tq c) = cfg_stream_only c"
  "cfg_rpc_budget (fill_sections dec tq c) = cfg_rpc_budget c"
  "cfg_rpc (fill_sections dec tq c) = cfg_rpc c"
  "cfg_metadata (fill_sections dec tq c) = cfg_metadata c"
  by (simp_all add: fill_sections_def)

lemma fill_sections_filled [simp]:
  "cfg_environment (fill_sections dec tq c) = (cfg_environment c)\<lparr>env_schema_version :=
     if_zero SCHEMA_VERSION (env_schema_version (cfg_environment c))\<rparr>"
  "cfg_runtime (fill_sections dec tq c) = runtime_config_apply_defaults (cfg_runtime c)"
  "cfg_edge_collector (fill_sections dec tq c) =
     edge_collector_config_apply_defaults (cfg_edge_collector c)"
  "cfg_ingest (fill_sections dec tq c) = ingest_config_apply_defaults (cfg_ingest c)"
  "cfg_confirmation (fill_sections dec tq c) =
     confirmation_config_apply_defaults (cfg_confirmation c)"
  "cfg_autopilot (fill_sections dec tq c) = autopilot_config_apply_defaults dec (cfg_autopilot c)"
  "cfg_r2 (fill_sections dec tq c) = r2_config_apply_defaults (cfg_r2 c)"
  "cfg_geyser (fill_sections dec tq c) = geyser_config_apply_defaults tq (cfg_geyser c)"
  "cfg_shred (fill_sections dec tq c) = shred_config_apply_defaults (cfg_shred c)"
  "cfg_execution (fill_sections dec tq c) = execution_config_apply_defaults dec (cfg_execution c)"
  "cfg_paper (fill_sections dec tq c) = paper_config_apply_defaults dec (cfg_paper c)"
  "cfg_live (fill_sections dec tq c) = live_config_apply_defaults dec (cfg_live c)"
  by (simp_all add: fill_sections_def)

lemma eq_ignore_ascii_case_refl [simp]: "eq_ignore_ascii_case s s"
  by (simp add: eq_ignore_ascii_case_def)

lemma hardened_simps [simp]:
  assumes "so_enabled (cfg_stream_only c)"
  shows "md_fetch_uri (cfg_metadata (harden_stream_only c)) = False"
    "md_hot_path_fetch_enabled (cfg_metadata (harden_stream_only c)) = False"
    "conf_source (cfg_confirmation (harden_stream_only c)) = ''geyser_stream''"
    "ex_use_rpc_send (cfg_execution (harden_stream_only c)) = False"
    "hot_path_enabled (cfg_rpc (harden_stream_only c)) = False"
    "rpc_daily_credit_budget (cfg_rpc (harden_stream_only c)) =
      so_rpc_daily_credit_budget (cfg_stream_only c)"
    "rpc_monthly_credit_budget (cfg_rpc (harden_stream_only c)) =
      so_rpc_monthly_credit_budget (cfg_stream_only c)"
  using assms by (simp_all add: harden_stream_only_def)

text \<open>
  An edge-collector deployment whose \<open>[ingest.geyser]\<close> section is the one of \<open>config/default.toml\<close>:
  an adaptive HTTP/2 window together with fixed window sizes.
\<close>

definition rat_dec :: "int \<Rightarrow> nat \<Rightarrow> rat" where
  "rat_dec n scale = of_int n / 10 ^ scale"

lemma rat_dec_positive: "decimal_positive rat_dec"
  by (simp add: decimal_positive_def rat_dec_def)

definition example_geyser :: "rat geyser_config" where
  "example_geyser =
    \<lparr>gy_enabled = True, gy_required = True, gy_endpoint = [],
     gy_endpoint_env = ''GEYSER_ENDPOINT'', gy_auth_token_env = [], gy_auth_metadata_key = [],
     gy_auth_metadata_value_env = [], gy_auth_required = False, gy_connect_timeout_ms = 0,
     gy_request_timeout_ms = 0, gy_keepalive_interval_ms = 0, gy_commitment = CommitProcessed,
     gy_reconnect_backoff_ms = [], gy_max_reconnect_backoff_ms = 0,
     gy_max_reconnect_attempts = None, gy_subscribe_transactions = False,
     gy_subscribe_accounts = False, gy_subscribe_slots = False, gy_subscribe_blocks = False,
     gy_subscribe_blocks_meta = False, gy_ping_interval_ms = 0, gy_max_decoded_message_size = 0,
     gy_http2_adaptive_window = True, gy_initial_stream_window_size_bytes = Some 16777216,
     gy_initial_connection_window_size_bytes = Some 33554432,
     gy_keep_alive_interval_seconds = None, gy_keep_alive_timeout_seconds = None,
     gy_keep_alive_while_idle = False, gy_tcp_nodelay = True,
     gy_max_decoding_message_size_bytes = None, gy_accept_compressed = None,
     gy_send_compressed = None, gy_geyser_only_allowed = False, gy_max_inflight_messages = 0,
     gy_material_hunter_partitioning_enabled = False, gy_material_hunter_worker_partitions = 64,
     gy_material_hunter_partition_queue_capacity = 0,
     gy_material_hunter_router_queue_capacity = 0,
     gy_material_hunter_artifact_writer_queue_capacity = 0,
     gy_material_hunter_partition_batch_size = 0,
     gy_material_hunter_partition_soft_queue_threshold_ratio = 0,
     gy_material_hunter_partition_hard_queue_threshold_ratio = 0,
     gy_material_hunter_worker_lag_warn_ms = 0, gy_material_hunter_worker_lag_blocker_ms = 0,
     gy_material_hunter_active_mint_max_queued_updates_per_mint = 0,
     gy_material_hunter_active_mint_max_updates_per_second = 0,
     gy_material_hunter_active_mint_max_deep_updates_per_checkpoint = 0,
     gy_material_hunter_active_mint_noisy_degrade_enabled = False,
     gy_material_hunter_active_mint_noisy_degrade_reason = [],
     gy_material_hunter_active_mint_coalesce_window_ms = 0,
     gy_material_hunter_active_mint_delta_flush_interval_ms = 0, gy_slot_gap_tolerance = 0,
     gy_program_filters = [], gy_account_filters = []\<rparr>"

definition example_shred :: shred_config where
  "example_shred =
    \<lparr>sh_enabled = True, sh_required = False, sh_decoder = DecoderFixture,
     sh_allow_geyser_only_fallback = False, sh_bind_addr = ''0.0.0.0:8001'',
     sh_max_packet_size = 0, sh_dedup_window = 0, sh_tentative_ttl_ms = 0\<rparr>"

definition example_execution :: "rat execution_config" where
  "example_execution =
    \<lparr>ex_enabled = False, ex_live_enabled = False, ex_paper_enabled = True, ex_dry_run = True,
     ex_use_rpc_send = False, ex_use_stream_blockhash_cache = True, ex_max_daily_loss_quote = 0,
     ex_max_open_positions = 0, ex_max_position_size_quote = 0, ex_max_trades_per_minute = 0,
     ex_max_fee_quote = 0, ex_max_slippage_bps = 0\<rparr>"

definition example_paper :: "rat paper_config" where
  "example_paper =
    \<lparr>pa_enabled = True, pa_initial_balance_quote = 0, pa_max_positions = 0,
     pa_max_position_size_quote = 0, pa_max_daily_loss_quote = 0, pa_close_on_shutdown = False,
     pa_scenario_end_liquidation = False\<rparr>"

definition example_live :: "rat live_config" where
  "example_live =
    \<lparr>lv_enabled = False, lv_dry_run = True, lv_require_explicit_enable = True,
     lv_explicit_send_confirmation = False, lv_max_fee_per_transaction_quote = 0,
     lv_max_priority_fee_lamports = 0, lv_max_tip_lamports = 0, lv_max_slippage_bps = 0,
     lv_allow_shred_emergency_exit = False, lv_allow_live_exit_on_tentative = False\<rparr>"

definition example_runtime :: runtime_config where
  "example_runtime =
    \<lparr>rt_mode = ModeEdgeCollector, rt_queue_capacity_canonical = 0,
     rt_queue_capacity_tentative = 0, rt_queue_capacity_decisions = 0,
     rt_shutdown_drain_timeout_ms = 0, rt_health_report_interval_ms = 0\<rparr>"

definition example_app_config :: "(rat, rat) app_config" where
  "example_app_config =
    \<lparr>cfg_environment = \<lparr>env_cluster = ''mainnet-beta'', env_run_id = ''edge-1'',
       env_strategy_version = ''v1'', env_schema_version = 0\<rparr>,
     cfg_runtime = example_runtime,
     cfg_edge_collector = edge_collector_config_default,
     cfg_ingest = \<lparr>ing_geyser = Some example_geyser, ing_shred = None, ing_deshred = None\<rparr>,
     cfg_stream_only = stream_only_default,
     cfg_rpc = \<lparr>hot_path_enabled = True, rpc_daily_credit_budget = 7,
       rpc_monthly_credit_budget = 7\<rparr>,
     cfg_confirmation = \<lparr>conf_source = ''rpc'', conf_allow_rpc_status_fallback = True\<rparr>,
     cfg_metadata = \<lparr>md_fetch_uri = True, md_hot_path_fetch_enabled = True,
       md_offline_import_path = []\<rparr>,
     cfg_autopilot = autopilot_config_default rat_dec,
     cfg_r2 = r2_config_default\<lparr>r2_enabled := True, r2_upload_enabled := True\<rparr>,
     cfg_geyser = example_geyser, cfg_shred = example_shred, cfg_execution = example_execution,
     cfg_paper = example_paper, cfg_live = example_live,
     cfg_rpc_budget = example_config\<lparr>daily_credit_limit := 0, monthly_credit_limit := 0\<rparr>\<rparr>"

lemma example_hardened:
  "rpc_flags_off stream_only_default" "so_enabled stream_only_default"
  "so_rpc_daily_credit_budget stream_only_default = 0"
  "so_rpc_monthly_credit_budget stream_only_default = 0"
  by (simp_all add: rpc_flags_off_def stream_only_default_def)

lemma example_app_config_simps:
  "cfg_stream_only example_app_config = stream_only_default"
  "ing_geyser (cfg_ingest example_app_config) = Some example_geyser"
  "cfg_rpc_budget example_app_config =
     example_config\<lparr>daily_credit_limit := 0, monthly_credit_limit := 0\<rparr>"
  "cfg_execution example_app_config = example_execution"
  "cfg_runtime example_app_config = example_runtime"
  "cfg_edge_collector example_app_config = edge_collector_config_default"
  "cfg_live example_app_config = example_live"
  "cfg_r2 example_app_config = r2_config_default\<lparr>r2_enabled := True, r2_upload_enabled := True\<rparr>"
  by (simp_all add: example_app_config_def)


text \<open>
  Whether a geyser or a deshred stream is configured does not influence stream-only validation:
  replacing both sections leaves the verdict as it was, because replay always counts as available.
\<close>
theorem stream_sources_do_not_matter:
  "is_ok (validate_stream_only (c\<lparr>cfg_geyser := g, cfg_ingest := i\<rparr>)) =
    is_ok (validate_stream_only c)"
  by (simp add: validate_stream_only_iff stream_only_passed_iff blockhash_ready_def)

text \<open>
  The defaults of the geyser section are not applied to the section a file writes as
  \<open>[ingest.geyser]\<close>: the effective geyser configuration is that section as it was read, with its zero
  limits and its contradictory settings.
\<close>
theorem ingest_geyser_misses_defaults:
  assumes "ing_geyser (cfg_ingest c) = Some g"
  shows "cfg_geyser (app_config_apply_defaults dec three_quarters c) = g"
  using assms
  by (simp add: app_config_apply_defaults_def ingest_config_apply_defaults_def)

theorem ingest_geyser_misses_defaults_witness:
  "cfg_geyser (app_config_apply_defaults rat_dec (3 / 4) example_app_config) = example_geyser"
  by (rule ingest_geyser_misses_defaults) (simp add: example_app_config_simps)

lemma nonblank_source [simp]: "if_blank d ''geyser_stream'' = ''geyser_stream''"
  by (simp add: if_blank_def is_blank_def is_space_def)

lemma if_nonpos_twice [simp]:
  "decimal_positive dec \<Longrightarrow> 0 < n \<Longrightarrow> if_nonpos d (if_nonpos (dec n s) x) = if_nonpos (dec n s) x"
  by (auto simp: if_nonpos_def decimal_positive_def not_le dest: leD)

lemma confirmation_config_apply_defaults_twice [simp]:
  "confirmation_config_apply_defaults (confirmation_config_apply_defaults c) =
    confirmation_config_apply_defaults c"
  by (simp add: confirmation_config_apply_defaults_def)

lemma map_option_deshred_twice [simp]:
  "map_option deshred_config_apply_defaults (map_option deshred_config_apply_defaults d) =
    map_option deshred_config_apply_defaults d"
  by (cases d) simp_all

definition effective_geyser where
  "effective_geyser three_quarters c =
    (case ing_geyser (cfg_ingest c) of
       Some g \<Rightarrow> g | None \<Rightarrow> geyser_config_apply_defaults three_quarters (cfg_geyser c))"

definition effective_shred where
  "effective_shred c =
    (case ing_shred (cfg_ingest c) of Some s \<Rightarrow> s | None \<Rightarrow> shred_config_apply_defaults (cfg_shred c))"

lemmas apply_defaults_defs = app_config_apply_defaults_def ingest_config_apply_defaults_def
  effective_geyser_def effective_shred_def

lemma section_after_defaults:
  fixes c :: "('d::{zero,linorder}, 'f::{zero,one,ord}) app_config" and dec tq
  defines "c' \<equiv> app_config_apply_defaults dec tq c"
  shows "cfg_environment c' = (cfg_environment c)\<lparr>env_schema_version :=
      if_zero SCHEMA_VERSION (env_schema_version (cfg_environment c))\<rparr>"
    and "cfg_runtime c' = runtime_config_apply_defaults (cfg_runtime c)"
    and "cfg_edge_collector c' = edge_collector_config_apply_defaults (cfg_edge_collector c)"
    and "cfg_stream_only c' = cfg_stream_only c"
    and "cfg_autopilot c' = autopilot_config_apply_defaults dec (cfg_autopilot c)"
    and "cfg_r2 c' = r2_config_apply_defaults (cfg_r2 c)"
    and "cfg_paper c' = paper_config_apply_defaults dec (cfg_paper c)"
    and "cfg_live c' = live_config_apply_defaults dec (cfg_live c)"
    and "cfg_rpc_budget c' = cfg_rpc_budget c"
    and "cfg_geyser c' = effective_geyser tq c" and "cfg_shred c' = effective_shred c"
    and "cfg_ingest c' = \<lparr>ing_geyser = Some (effective_geyser tq c),
      ing_shred = Some (effective_shred c),
      ing_deshred = map_option deshred_config_apply_defaults (ing_deshred (cfg_ingest c))\<rparr>"
  unfolding c'_def
  by (simp_all add: apply_defaults_defs cong: option.case_cong)

lemma hardened_after_defaults:
  fixes c :: "('d::{zero,linorder}, 'f::{zero,one,ord}) app_config" and dec tq
  defines "c' \<equiv> app_config_apply_defaults dec tq c" and "so \<equiv> cfg_stream_only c"
  shows "cfg_rpc c' = (if so_enabled so then \<lparr>hot_path_enabled = False,
      rpc_daily_credit_budget = so_rpc_daily_credit_budget so,
      rpc_monthly_credit_budget = so_rpc_monthly_credit_budget so\<rparr> else cfg_rpc c)"
    and "cfg_metadata c' = (if so_enabled so then (cfg_metadata c)\<lparr>md_fetch_uri := False,
      md_hot_path_fetch_enabled := False\<rparr> else cfg_metadata c)"
    and "cfg_confirmation c' = (if so_enabled so then \<lparr>conf_source = ''geyser_stream'',
      conf_allow_rpc_status_fallback = False\<rparr>
      else confirmation_config_apply_defaults (cfg_confirmation c))"
  unfolding c'_def so_def
  by (simp_all add: apply_defaults_defs harden_stream_only_def)

definition synced :: "'d paper_config \<Rightarrow> 'd live_config \<Rightarrow> 'd execution_config \<Rightarrow> 'd execution_config"
  where "synced p l e = e\<lparr>ex_paper_enabled := pa_enabled p, ex_live_enabled := lv_enabled l,
     ex_dry_run := lv_dry_run l, ex_max_open_positions := pa_max_positions p,
     ex_max_position_size_quote := pa_max_position_size_quote p,
     ex_max_daily_loss_quote := pa_max_daily_loss_quote p,
     ex_max_fee_quote := lv_max_fee_per_transaction_quote l,
     ex_max_slippage_bps := lv_max_slippage_bps l\<rparr>"

lemma execution_after_defaults:
  fixes c :: "('d::{zero,linorder}, 'f::{zero,one,ord}) app_config"
  shows "cfg_execution (app_config_apply_defaults dec tq c) =
    (let e = synced (paper_config_apply_defaults dec (cfg_paper c))
               (live_config_apply_defaults dec (cfg_live c))
               (execution_config_apply_defaults dec (cfg_execution c))
     in if so_enabled (cfg_stream_only c) then e\<lparr>ex_use_rpc_send := False\<rparr> else e)"
  by (simp add: apply_defaults_defs harden_stream_only_def sync_execution_def synced_def Let_def)

lemma synced_twice [simp]:
  "synced p l (synced p l e) = synced p l e"
  "synced p l ((synced p l e)\<lparr>ex_use_rpc_send := b\<rparr>) = (synced p l e)\<lparr>ex_use_rpc_send := b\<rparr>"
  by (simp_all add: synced_def)

lemma execution_defaults_absorbed:
  assumes "decimal_positive dec"
  shows "execution_config_apply_defaults dec (synced (paper_config_apply_defaults dec p) l e) =
      synced (paper_config_apply_defaults dec p) l e"
    and "execution_config_apply_defaults dec
        ((synced (paper_config_apply_defaults dec p) l e)\<lparr>ex_use_rpc_send := b\<rparr>) =
      (synced (paper_config_apply_defaults dec p) l e)\<lparr>ex_use_rpc_send := b\<rparr>"
  using assms
  by (simp_all add: execution_config_apply_defaults_def paper_config_apply_defaults_def synced_def)

lemma effective_after_defaults [simp]:
  "effective_geyser tq (app_config_apply_defaults dec tq c) = effective_geyser tq c"
  "effective_shred (app_config_apply_defaults dec tq c) = effective_shred c"
  by (simp_all add: effective_geyser_def [of _ "app_config_apply_defaults dec tq c"]
      effective_shred_def [of "app_config_apply_defaults dec tq c"] section_after_defaults)

text \<open>
  Applying the defaults is idempotent: a second application to a configuration, such as the one a
  canonical dump is reloaded from, changes nothing.
\<close>
theorem apply_defaults_idempotent:
  assumes "decimal_positive dec"
  shows "app_config_apply_defaults dec three_quarters (app_config_apply_defaults dec three_quarters c)
    = app_config_apply_defaults dec three_quarters c"
  by (rule app_config.equality)
    (simp_all add: section_after_defaults hardened_after_defaults execution_after_defaults Let_def
      assms execution_defaults_absorbed if_zero_def)

theorem apply_defaults_idempotent_witness:
  "app_config_apply_defaults rat_dec (3 / 4)
      (app_config_apply_defaults rat_dec (3 / 4) example_app_config) =
    app_config_apply_defaults rat_dec (3 / 4) example_app_config"
  by (rule apply_defaults_idempotent [OF rat_dec_positive])

lemma default_managed_prefix_nonblank [simp]: "\<not> is_blank default_r2_managed_prefix"
  by (simp add: default_r2_managed_prefix_def is_blank_def is_space_def)

text \<open>
  After the defaults an object-storage configuration fails validation in one way only: deletion is
  enabled while no kind of deletion is allowed.
\<close>
theorem r2_defaults_leave_delete_check:
  "is_ok (validate_r2 (app_config_apply_defaults dec three_quarters c)) \<longleftrightarrow>
    (if r2_delete_enabled (cfg_r2 c)
     then r2b_allow_bucket_delete (r2_buckets (cfg_r2 c)) \<or> r2b_allow_bucket_empty (r2_buckets (cfg_r2 c))
        \<or> r2b_allow_object_delete (r2_buckets (cfg_r2 c))
     else True)"
  by (simp add: validate_r2_def r2_validation_summary_def Let_def section_after_defaults
      r2_config_apply_defaults_def r2_buckets_config_apply_defaults_def violations_Nil_iff
      default_r2_max_concurrent_uploads_def)

text \<open>
  A configuration that runs the edge collector and passes its validation has live trading off
  everywhere, none of the analysis paths enabled, and, where the section requires it, the stream-only
  mode on and valid and uploading enabled.
\<close>
theorem edge_mode_is_restricted:
  assumes "is_ok (validate_edge_mode c)" and "edge_mode_enabled c"
  defines "e \<equiv> cfg_edge_collector c"
  shows "\<not> lv_enabled (cfg_live c) \<and> \<not> ex_live_enabled (cfg_execution c) \<and>
    \<not> ec_decision_engine_enabled e \<and> \<not> ec_paper_executor_enabled e \<and> \<not> ec_allow_rpc_enrichment e \<and>
    (if ec_stream_only_required e
     then so_enabled (cfg_stream_only c) \<and> is_ok (validate_stream_only c) else True) \<and>
    (if ec_r2_upload_required e then r2_upload_enabled (cfg_r2 c) else True)"
proof -
  have "violations (edge_checks c (edge_facts c)) = []"
    using assms(1,2)
    by (auto simp: validate_edge_mode_def edge_collector_validation_summary_def Let_def edge_facts_def
        split: if_splits)
  then show ?thesis
    by (auto simp: violations_Nil_iff edge_checks_def edge_facts_def Let_def e_def live_anywhere_def
        validate_stream_only_iff)
qed

lemma example_blockhash_ready:
  "blockhash_ready (app_config_apply_defaults rat_dec (3 / 4) example_app_config)"
  by (simp add: blockhash_ready_def execution_after_defaults synced_def Let_def
      execution_config_apply_defaults_def example_app_config_simps example_execution_def)


lemma example_stream_only_passes:
  "sos_passed (stream_only_validation_summary
    (app_config_apply_defaults rat_dec (3 / 4) example_app_config))"
  using example_blockhash_ready
  by (simp add: stream_only_passed_iff section_after_defaults hardened_after_defaults
      example_app_config_simps example_hardened execution_after_defaults Let_def)

lemma example_edge_ok:
  "is_ok (validate_edge_mode (app_config_apply_defaults rat_dec (3 / 4) example_app_config))"
  using example_stream_only_passes
  by (simp add: validate_edge_mode_def edge_collector_validation_summary_def edge_facts_def
      edge_checks_def Let_def violations_Nil_iff section_after_defaults live_anywhere_def
      execution_after_defaults synced_def example_app_config_simps example_hardened
      edge_collector_config_apply_defaults_def edge_collector_config_default_def
      edge_collector_storage_config_apply_defaults_def edge_collector_storage_config_default_def
      default_edge_collector_max_local_runtime_mb_def default_edge_collector_max_local_segment_mb_def
      if_zero_def example_live_def live_config_apply_defaults_def r2_config_apply_defaults_def)

theorem edge_mode_is_restricted_witness:
  "\<not> lv_enabled (cfg_live (app_config_apply_defaults rat_dec (3 / 4) example_app_config))"
  using edge_mode_is_restricted [OF example_edge_ok]
  by (simp add: edge_mode_enabled_def section_after_defaults example_app_config_simps
      runtime_config_apply_defaults_def example_runtime_def)

end
