(* ===== verification/Events.thy ===== *)
theory Events
  imports Prelude
begin

text \<open>
  The shared event schema, \<open>crates/common/src/event.rs\<close> and \<open>reason.rs\<close>: the enums and structs of
  the sources, field by field (each field keeps its name behind a prefix of its struct), the sum of
  payloads, and the accessors of \<open>NormalizedEvent\<close>. \<open>rust_decimal::Decimal\<close> is a third-party type:
  it is the type parameter \<open>'d\<close> throughout, and its operations are the parameters of the
  definitions that use them. \<open>Uuid\<close> is its 128 bits.
\<close>

type_synonym pubkey = string
type_synonym event_id = u128
type_synonym lamports = u64
type_synonym i64 = "64 word" \<comment> \<open>two's complement\<close>

subsection \<open>Enums and structs\<close>

datatype (plugins only: code size) reason_code =
    UnsupportedIdl
  | UnsupportedInstruction
  | UnsupportedQuoteAsset
  | DataGap
  | DataGapActive
  | StaleCurve
  | StaleHolderIndex
  | HighBundleRisk
  | HighRugRisk
  | HighTopHolderRisk
  | HighFakeMomentumRisk
  | HighFeeDrag
  | HighSlippage
  | LiveDisabled
  | ExecutionDisabled
  | KillSwitchActive
  | MalformedDecode
  | DuplicateEventSuppressed
  | UnknownRpcBudgetState
  | TentativeOnly
  | TentativeTimedOut
  | TentativeReverted
  | ShredDecoderUnavailable
  | ShredUnavailable
  | GeyserUnavailable
  | CanonicalQueueOverflow
  | TentativeQueueOverflow
  | PriceCollapse70
  | DevSoldEarly
  | BundleConcentration
  | TopHolderDump
  | NoBuyGap
  | FeeAdjustedEdgeTooLow
  | ProfitOverhangTooHigh
  | FundingGraphSuspicious
  | FeeWarTooExpensive
  | HardDiscarded
  | SoftDiscarded
  | EnterPaper
  | ExitPaper
  | ShredDevSellWarning
  | ShredTopHolderSellWarning
  | ShredBundleExitWarning
  | ShredWhaleDumpWarning
  | ShredSellImpactHigh
  | ShredSameSlotSellCluster
  | ShredExitArmed
  | ShredEmergencyExit
  | ShredFalsePositive
  | ShredSavedLoss
  | ShredSignalStale
  | ShredLowConfidence
  | DeshredPreExecutionSellWarning
  | EarlyIntentSellWarning
  | GeyserProcessedSellConfirmed
  | AccountEffectSellConfirmed
  | RootedSellConfirmed
  | TentativeSellNotSeenWithinTtl
  | TentativeSellDecodeMismatch
  | TentativeSellReorged
  | TentativeSellConfirmedFailed
  | LiveShredExitRejected
  | EarlyIntentSourceUnavailable

datatype event_source =
    ShredTentative
  | DeshredTentative
  | GeyserProcessed
  | GeyserConfirmed
  | GeyserRooted
  | Replay

text \<open>The names \<open>Debug\<close> gives to the sources.\<close>

fun debug_event_source :: "event_source \<Rightarrow> string" where
  "debug_event_source ShredTentative = ''ShredTentative''"
| "debug_event_source DeshredTentative = ''DeshredTentative''"
| "debug_event_source GeyserProcessed = ''GeyserProcessed''"
| "debug_event_source GeyserConfirmed = ''GeyserConfirmed''"
| "debug_event_source GeyserRooted = ''GeyserRooted''"
| "debug_event_source Replay = ''Replay''"

datatype canonicality =
    Tentative
  | Processed
  | Confirmed
  | Rooted
  | Reverted
  | Unknown

datatype token_program_type =
    SplToken
  | Token2022
  | Unknown

datatype quote_asset_type =
    NativeSol
  | WrappedSol
  | Stable
  | Other
  | Unknown

datatype transaction_status =
    Success
  | Failed
  | Unknown

datatype token_terminal_variant =
    Discarded
  | SoftDiscarded
  | HardDiscarded
  | Rugged
  | Dead
  | Migrated
  | TrackingExpired
  | DataGap
  | ManualStop
  | Completed

datatype trade_decision =
    Ignore
  | WatchLight
  | WatchDeep
  | EnterPaper
  | EnterLive
  | Hold
  | ScaleOut
  | Exit
  | EmergencyExit
  | StopTracking

datatype execution_side =
    Buy
  | Sell

datatype gap_severity =
    Low
  | Medium
  | High
  | Critical

datatype data_gap_type =
    SlotGap
  | TransactionStreamGap
  | AccountStreamGap
  | ShredGap
  | ReconnectGap

datatype data_quality_flag =
    PartialShred
  | GeyserGap
  | ShredGap
  | ReorgObserved
  | MissingWriteVersion
  | SourceDisagreement
  | UnsupportedInstruction
  | StaleAccount

datatype early_intent_source =
    RawShred
  | DeshredPreExecution
  | FixtureTentative
  | MockEarlyIntent
  | ReplayTentative

datatype tentative_sell_confirmation_state =
    PendingTentative
  | GeyserProcessedTxSeen
  | AccountEffectsObserved
  | ConfirmedExecuted
  | ConfirmedFailed
  | RootedExecuted
  | NotSeenWithinTtl
  | Reorged
  | DecodeMismatch

datatype tentative_sell_risk_level =
    Info
  | Watch
  | ExitArmed
  | EmergencyExitRecommended
  | EmergencyExitRequired

datatype dangerous_seller_classification =
    Dev
  | DevCluster
  | Top1Holder
  | Top3Holder
  | Top5Holder
  | Top10Holder
  | BundleWallet
  | BundleCluster
  | Whale
  | SmartWalletTakingProfit
  | ToxicSniper
  | SameFunderCluster
  | SameClientFingerprintCluster
  | HighPnlHolder
  | FreeRollingHolder
  | Unknown

datatype tentative_sell_resolution_outcome =
    ConfirmedExecuted
  | AccountEffectsObserved
  | ConfirmedFailed
  | RootedExecuted
  | NotSeenWithinTtl
  | Reorged
  | DecodeMismatch

record raw_event_reference =
  rr_source_id :: "string"
  rr_cursor :: "string option"
  rr_offset :: "u64 option"

record 'd event_meta =
  em_event_id :: "event_id"
  em_source :: "event_source"
  em_canonicality :: "canonicality"
  em_slot :: "u64"
  em_parent_slot :: "u64 option"
  em_block_time :: "instant option"
  em_observed_at_monotonic_ns :: "u64"
  em_received_at_wall_time :: "instant"
  em_signature :: "string option"
  em_transaction_index :: "u32 option"
  em_instruction_index :: "u16 option"
  em_inner_instruction_index :: "u16 option"
  em_account_pubkey :: "pubkey option"
  em_account_write_version :: "u64 option"
  em_source_latency_ms :: "u64 option"
  em_decode_confidence :: "'d"
  em_data_quality_flags :: "data_quality_flag list"
  em_raw_reference :: "raw_event_reference option"
  em_schema_version :: "u32"

record 'd token_created_event =
  tc_mint :: "pubkey"
  tc_token_program :: "token_program_type"
  tc_quote_mint :: "pubkey"
  tc_quote_asset_type :: "quote_asset_type"
  tc_creator_wallet :: "pubkey"
  tc_payer :: "pubkey"
  tc_bonding_curve_account :: "pubkey"
  tc_associated_bonding_curve_account :: "pubkey option"
  tc_metadata_account :: "pubkey option"
  tc_name :: "string"
  tc_symbol :: "string"
  tc_uri :: "string"
  tc_create_instruction_variant :: "string"
  tc_initial_virtual_quote_reserves :: "'d option"
  tc_initial_virtual_token_reserves :: "'d option"
  tc_initial_real_quote_reserves :: "'d option"
  tc_initial_real_token_reserves :: "'d option"
  tc_initial_supply :: "'d option"
  tc_creator_initial_buy :: "'d option"
  tc_same_transaction_buys :: "u32"
  tc_same_slot_buys :: "u32"
  tc_fee_recipients :: "pubkey list"
  tc_raw_account_list :: "pubkey list"
  tc_launch_transaction_fingerprint :: "string option"
  tc_status :: "transaction_status"

record 'd reserve_snapshot =
  rs_virtual_quote_reserves :: "'d"
  rs_virtual_token_reserves :: "'d"
  rs_real_quote_reserves :: "'d"
  rs_real_token_reserves :: "'d"

record 'd pump_buy_event =
  pb_mint :: "pubkey"
  pb_buyer :: "pubkey"
  pb_payer :: "pubkey"
  pb_quote_in :: "'d"
  pb_token_out :: "'d"
  pb_price_before :: "'d option"
  pb_price_after :: "'d option"
  pb_effective_price :: "'d"
  pb_slippage_estimate :: "'d option"
  pb_reserves_before :: "'d reserve_snapshot option"
  pb_reserves_after :: "'d reserve_snapshot option"
  pb_max_quote_cost :: "'d option"
  pb_compute_unit_limit :: "u32 option"
  pb_compute_unit_price :: "u64 option"
  pb_estimated_priority_fee_lamports :: "lamports option"
  pb_estimated_base_fee_lamports :: "lamports option"
  pb_estimated_tip_lamports :: "lamports option"
  pb_is_creator :: "bool"
  pb_is_known_cluster_member :: "bool"
  pb_is_first_buy :: "bool"
  pb_status :: "transaction_status"

record 'd pump_sell_event =
  ps_mint :: "pubkey"
  ps_seller :: "pubkey"
  ps_quote_out :: "'d"
  ps_token_in :: "'d"
  ps_price_before :: "'d option"
  ps_price_after :: "'d option"
  ps_effective_price :: "'d"
  ps_slippage_estimate :: "'d option"
  ps_reserves_before :: "'d reserve_snapshot option"
  ps_reserves_after :: "'d reserve_snapshot option"
  ps_min_quote_output :: "'d option"
  ps_compute_unit_limit :: "u32 option"
  ps_compute_unit_price :: "u64 option"
  ps_estimated_priority_fee_lamports :: "lamports option"
  ps_estimated_base_fee_lamports :: "lamports option"
  ps_estimated_tip_lamports :: "lamports option"
  ps_is_creator :: "bool"
  ps_is_top_holder_pre_sell :: "bool"
  ps_is_known_cluster_member :: "bool"
  ps_status :: "transaction_status"

record 'd bonding_curve_update_event =
  bc_mint :: "pubkey"
  bc_virtual_quote_reserves :: "'d"
  bc_virtual_token_reserves :: "'d"
  bc_real_quote_reserves :: "'d"
  bc_real_token_reserves :: "'d"
  bc_token_decimals :: "u8 option"
  bc_token_total_supply_raw :: "'d option"
  bc_token_total_supply_ui :: "'d option"
  bc_token_total_supply_source :: "string option"
  bc_token_total_supply_confidence :: "string option"
  bc_quote_mint :: "pubkey option"
  bc_creator :: "pubkey option"
  bc_reserve_field_schema :: "string option"
  bc_price_lamports_per_raw_token :: "'d option"
  bc_price_sol_per_token :: "'d option"
  bc_reserve_price_source :: "string option"
  bc_reserve_price_confidence :: "'d option"
  bc_price :: "'d"
  bc_market_cap_quote_1b :: "'d option"
  bc_market_cap_quote_total_supply :: "'d option"
  bc_market_cap_source :: "string option"
  bc_market_cap_confidence :: "'d option"
  bc_market_cap_proxy :: "'d option"
  bc_curve_complete_flag :: "bool option"
  bc_curve_progress_pct :: "'d option"
  bc_curve_progress_source :: "string option"
  bc_curve_progress_confidence :: "'d option"
  bc_curve_completion_pct :: "'d option"
  bc_quote_reserve_delta :: "'d option"
  bc_token_reserve_delta :: "'d option"
  bc_update_reason :: "string"
  bc_caused_by_signature :: "string option"
  bc_account_write_version :: "u64 option"

record 'd holder_balance_update_event =
  hb_mint :: "pubkey"
  hb_owner_wallet :: "pubkey"
  hb_token_account :: "pubkey"
  hb_token_decimals :: "u8 option"
  hb_old_balance :: "'d option"
  hb_new_balance :: "'d"
  hb_delta :: "'d"
  hb_caused_by_signature :: "string option"
  hb_update_reason :: "string"
  hb_confidence :: "'d"

record 'd wallet_funding_event =
  wf_wallet :: "pubkey"
  wf_funder :: "pubkey"
  wf_asset_label :: "string"
  wf_amount :: "'d"
  wf_slot :: "u64"
  wf_signature :: "string"
  wf_relation_to_launch :: "string option"
  wf_near_launch_relation :: "bool"
  wf_funding_graph_edge_id :: "string"

record 'd observed_transaction_event =
  ot_signature_hint :: "string option"
  ot_slot_hint :: "u64 option"
  ot_entry_index :: "u32 option"
  ot_tx_position_estimate :: "u32 option"
  ot_signer :: "string option"
  ot_program_ids :: "string list"
  ot_account_count :: "usize"
  ot_instruction_count :: "usize"
  ot_account_list_hash :: "string option"
  ot_instruction_shape_hash :: "string option"
  ot_compute_unit_limit :: "u32 option"
  ot_compute_unit_price :: "u64 option"
  ot_estimated_priority_fee_lamports :: "lamports option"
  ot_tx_fee_lamports :: "lamports option"
  ot_compute_units_consumed :: "u64 option"
  ot_pre_sol_balances_lamports :: "lamports list"
  ot_post_sol_balances_lamports :: "lamports list"
  ot_failed_transaction :: "bool"
  ot_error_code :: "string option"
  ot_bundle_like_evidence :: "string option"
  ot_raw_packet_hash :: "string"
  ot_first_seen_by_shred_ns :: "u64"
  ot_decode_confidence :: "'d"

record 'd tentative_sell_intent_detected_event =
  si_event_id :: "event_id"
  si_source :: "early_intent_source"
  si_canonicality :: "canonicality"
  si_slot :: "u64 option"
  si_entry_index :: "u32 option"
  si_shred_index :: "u32 option"
  si_tx_position_estimate :: "u32 option"
  si_observed_at_monotonic_ns :: "u64"
  si_received_at_wall_time :: "instant"
  si_signature :: "string option"
  si_mint :: "pubkey"
  si_seller_wallet :: "pubkey"
  si_payer_wallet :: "pubkey option"
  si_token_in_estimate :: "'d"
  si_quote_out_estimate :: "'d"
  si_min_quote_output :: "'d option"
  si_sell_instruction_variant :: "string"
  si_decoded_instruction_confidence :: "'d"
  si_account_decode_confidence :: "'d"
  si_wallet_classification_snapshot :: "string"
  si_seller_balance_before_estimate :: "'d"
  si_seller_holding_pct_estimate :: "'d"
  si_seller_cost_basis_estimate :: "'d"
  si_seller_unrealized_pnl_estimate :: "'d"
  si_estimated_price_before :: "'d"
  si_estimated_price_after :: "'d"
  si_estimated_price_impact_pct :: "'d"
  si_estimated_curve_impact :: "'d"
  si_estimated_top_holder_rank :: "u64 option"
  si_estimated_cluster_id :: "string option"
  si_estimated_cluster_holding_pct :: "'d"
  si_reason_codes :: "reason_code list"
  si_raw_packet_hash :: "string option"
  si_raw_entry_hash :: "string option"
  si_raw_update_hash :: "string option"
  si_matched_canonical_signature :: "string option"
  si_confirmation_state :: "tentative_sell_confirmation_state"
  si_schema_version :: "u32"

record 'd tentative_malicious_sell_warning_event =
  sw_mint :: "pubkey"
  sw_seller_wallet :: "pubkey"
  sw_seller_classification :: "dangerous_seller_classification"
  sw_estimated_sell_impact_pct :: "'d"
  sw_estimated_cluster_sell_impact_pct :: "'d"
  sw_risk_level :: "tentative_sell_risk_level"
  sw_confidence :: "'d"
  sw_reason_codes :: "reason_code list"
  sw_source_latency_advantage_ms :: "i64 option"
  sw_required_latency_advantage_ms :: "i64 option"
  sw_latency_edge_ratio :: "'d"
  sw_exit_can_land_before_estimated_impact :: "bool"
  sw_absorption_health_score :: "'d"
  sw_post_sell_absorption_probability :: "'d"
  sw_emergency_exit_expected_saved_loss :: "'d"
  sw_emergency_exit_expected_opportunity_cost :: "'d"
  sw_emergency_exit_net_benefit :: "'d"
  sw_emergency_exit_net_benefit_confidence :: "'d"
  sw_canonicality :: "canonicality"
  sw_feature_snapshot_hash :: "string"
  sw_risk_snapshot_hash :: "string"
  sw_trigger_event_id :: "event_id"
  sw_schema_version :: "u32"

record 'd shred_emergency_exit_armed_event =
  ea_mint :: "pubkey"
  ea_position_id :: "string"
  ea_trigger_event_id :: "event_id"
  ea_seller_wallet :: "pubkey"
  ea_seller_classification :: "dangerous_seller_classification"
  ea_risk_level :: "tentative_sell_risk_level"
  ea_estimated_impact_pct :: "'d"
  ea_confidence :: "'d"
  ea_planned_exit_size :: "'d"
  ea_planned_exit_reason :: "string"
  ea_source :: "early_intent_source"
  ea_expires_at :: "instant"
  ea_cancel_conditions :: "string list"
  ea_escalation_conditions :: "string list"
  ea_schema_version :: "u32"

record 'd shred_emergency_exit_triggered_event =
  et_mint :: "pubkey"
  et_position_id :: "string"
  et_trigger_event_id :: "event_id"
  et_decision_id :: "string"
  et_seller_wallet :: "pubkey"
  et_seller_classification :: "dangerous_seller_classification"
  et_side :: "execution_side"
  et_exit_size :: "'d"
  et_reason_codes :: "reason_code list"
  et_source :: "early_intent_source"
  et_confidence :: "'d"
  et_live_allowed :: "bool"
  et_paper_allowed :: "bool"
  et_expected_exit_price :: "'d"
  et_expected_fee_adjusted_exit_value :: "'d"
  et_estimated_saved_loss_vs_waiting_for_geyser :: "'d"
  et_schema_version :: "u32"

record 'd shred_sell_intent_resolved_event =
  sr_original_tentative_event_id :: "event_id"
  sr_canonical_signature :: "string option"
  sr_outcome :: "tentative_sell_resolution_outcome"
  sr_observed_canonical_slot :: "u64 option"
  sr_actual_price_impact_pct :: "'d"
  sr_actual_quote_out :: "'d"
  sr_actual_token_in :: "'d"
  sr_actual_loss_saved_if_exited :: "'d"
  sr_false_positive_flag :: "bool"
  sr_missed_exit_flag :: "bool"
  sr_reconciliation_latency_ms :: "i64 option"
  sr_source :: "early_intent_source"
  sr_mint :: "pubkey"
  sr_seller_wallet :: "pubkey"
  sr_seller_classification :: "dangerous_seller_classification"
  sr_confirmation_state :: "tentative_sell_confirmation_state"
  sr_confirmation_method :: "string option"
  sr_schema_version :: "u32"

record token_terminal_event =
  tt_mint :: "pubkey"
  tt_variant :: "token_terminal_variant"
  tt_reason_codes :: "reason_code list"
  tt_details :: "string \<rightharpoonup> string"

record 'd trade_decision_event =
  td_decision_id :: "string"
  td_mint :: "pubkey"
  td_decision :: "trade_decision"
  td_strategy :: "string"
  td_feature_snapshot_hash :: "string"
  td_score_vector :: "string \<rightharpoonup> 'd"
  td_risk_vector :: "string \<rightharpoonup> 'd"
  td_expected_net_edge_quote :: "'d"
  td_expected_net_edge_pct :: "'d"
  td_expected_edge_confidence :: "'d"
  td_reason_codes :: "reason_code list"
  td_config_hash :: "string"
  td_strategy_version :: "string"
  td_data_quality_score :: "'d"
  td_no_lookahead_timestamp :: "instant"

record 'd fill_event =
  fl_mint :: "pubkey"
  fl_side :: "execution_side"
  fl_intended_time :: "instant"
  fl_signal_time :: "instant"
  fl_send_time :: "instant"
  fl_landing_time :: "instant option"
  fl_confirmation_time :: "instant option"
  fl_intended_size :: "'d"
  fl_filled_size :: "'d"
  fl_fill_price :: "'d"
  fl_notional :: "'d"
  fl_fees :: "'d"
  fl_slippage :: "'d"
  fl_price_impact :: "'d"
  fl_failure_reason :: "string option"
  fl_transaction_signature :: "string option"
  fl_confirmation_source :: "string option"
  fl_entry_decision_id :: "string option"
  fl_exit_decision_id :: "string option"
  fl_strategy :: "string option"
  fl_entry_price :: "'d option"
  fl_exit_price :: "'d option"
  fl_gross_pnl_quote :: "'d option"
  fl_net_pnl_quote :: "'d option"
  fl_base_fee_quote :: "'d option"
  fl_priority_fee_quote :: "'d option"
  fl_tip_quote :: "'d option"
  fl_slippage_cost_quote :: "'d option"
  fl_curve_impact_cost_quote :: "'d option"
  fl_latency_cost_quote :: "'d option"
  fl_failed_tx_cost_quote :: "'d option"
  fl_hold_time_ms :: "i64 option"
  fl_max_adverse_excursion :: "'d option"
  fl_max_favorable_excursion :: "'d option"
  fl_exit_reason :: "string option"
  fl_exit_classification :: "string option"
  fl_expected_edge_quote :: "'d option"
  fl_actual_realized_edge_quote :: "'d option"
  fl_edge_forecast_error_quote :: "'d option"
  fl_entry_risk_scores :: "string \<rightharpoonup> 'd"
  fl_exit_risk_scores :: "string \<rightharpoonup> 'd"
  fl_exit_source :: "string option"
  fl_trigger_event_id :: "string option"
  fl_malicious_sell_signature :: "string option"
  fl_malicious_sell_seller :: "string option"
  fl_malicious_sell_classification :: "string option"
  fl_estimated_loss_saved_quote :: "'d option"
  fl_realized_loss_saved_quote :: "'d option"
  fl_false_positive_exit :: "bool"
  fl_opportunity_cost_if_false_positive :: "'d option"
  fl_early_intent_to_geyser_processed_latency_ms :: "i64 option"
  fl_early_intent_to_account_effect_latency_ms :: "i64 option"
  fl_early_intent_to_rooted_latency_ms :: "i64 option"
  fl_exit_latency_ms :: "i64 option"

record data_gap_event =
  dg_gap_type :: "data_gap_type"
  dg_source :: "event_source"
  dg_start_slot :: "u64"
  dg_end_slot :: "u64 option"
  dg_affected_tokens :: "pubkey list"
  dg_severity :: "gap_severity"
  dg_trade_allowed :: "bool"
  dg_recovery_action :: "string"


subsection \<open>Payloads and events\<close>

datatype 'd event_payload =
    TokenCreated "'d token_created_event"
  | PumpBuy "'d pump_buy_event"
  | PumpSell "'d pump_sell_event"
  | BondingCurveUpdate "'d bonding_curve_update_event"
  | HolderBalanceUpdate "'d holder_balance_update_event"
  | WalletFunding "'d wallet_funding_event"
  | ObservedTransaction "'d observed_transaction_event"
  | TentativeSellIntentDetected "'d tentative_sell_intent_detected_event"
  | TentativeMaliciousSellWarning "'d tentative_malicious_sell_warning_event"
  | ShredEmergencyExitArmed "'d shred_emergency_exit_armed_event"
  | ShredEmergencyExitTriggered "'d shred_emergency_exit_triggered_event"
  | ShredSellIntentResolved "'d shred_sell_intent_resolved_event"
  | TokenTerminal token_terminal_event
  | TradeDecision "'d trade_decision_event"
  | SimulatedFill "'d fill_event"
  | LiveFill "'d fill_event"
  | DataGapPayload data_gap_event

record 'd normalized_event =
  ne_meta :: "'d event_meta"
  ne_payload :: "'d event_payload"

definition schema_version :: u32 where
  "schema_version = 2"

text \<open>
  \<open>EventMeta::new\<close>; the fresh identifier of \<open>Uuid::now_v7\<close> and the \<open>Decimal\<close> one are arguments.
\<close>

definition new_event_meta ::
  "event_id \<Rightarrow> 'd \<Rightarrow> event_source \<Rightarrow> canonicality \<Rightarrow> u64 \<Rightarrow> 'd event_meta" where
  "new_event_meta fresh_id dec_one source canonicality slot =
    \<lparr>em_event_id = fresh_id, em_source = source, em_canonicality = canonicality, em_slot = slot,
     em_parent_slot = None, em_block_time = None, em_observed_at_monotonic_ns = 0,
     em_received_at_wall_time = 0, em_signature = None, em_transaction_index = None,
     em_instruction_index = None, em_inner_instruction_index = None, em_account_pubkey = None,
     em_account_write_version = None, em_source_latency_ms = None,
     em_decode_confidence = dec_one, em_data_quality_flags = [], em_raw_reference = None,
     em_schema_version = schema_version\<rparr>"

fun payload_signature :: "'d event_payload \<Rightarrow> string option" where
  "payload_signature (ObservedTransaction e) = ot_signature_hint e"
| "payload_signature (WalletFunding e) = Some (wf_signature e)"
| "payload_signature (TentativeSellIntentDetected e) = si_signature e"
| "payload_signature (ShredSellIntentResolved e) = sr_canonical_signature e"
| "payload_signature _ = None"

definition event_signature :: "'d normalized_event \<Rightarrow> string option" where
  "event_signature e =
    (case em_signature (ne_meta e) of
       Some s \<Rightarrow> Some s
     | None \<Rightarrow> payload_signature (ne_payload e))"

fun payload_mint :: "'d event_payload \<Rightarrow> pubkey option" where
  "payload_mint (TokenCreated e) = Some (tc_mint e)"
| "payload_mint (PumpBuy e) = Some (pb_mint e)"
| "payload_mint (PumpSell e) = Some (ps_mint e)"
| "payload_mint (BondingCurveUpdate e) = Some (bc_mint e)"
| "payload_mint (HolderBalanceUpdate e) = Some (hb_mint e)"
| "payload_mint (TentativeSellIntentDetected e) = Some (si_mint e)"
| "payload_mint (TentativeMaliciousSellWarning e) = Some (sw_mint e)"
| "payload_mint (ShredEmergencyExitArmed e) = Some (ea_mint e)"
| "payload_mint (ShredEmergencyExitTriggered e) = Some (et_mint e)"
| "payload_mint (ShredSellIntentResolved e) = Some (sr_mint e)"
| "payload_mint (TokenTerminal e) = Some (tt_mint e)"
| "payload_mint (TradeDecision e) = Some (td_mint e)"
| "payload_mint (SimulatedFill e) = Some (fl_mint e)"
| "payload_mint (LiveFill e) = Some (fl_mint e)"
| "payload_mint (WalletFunding _) = None"
| "payload_mint (ObservedTransaction _) = None"
| "payload_mint (DataGapPayload _) = None"

definition event_mint :: "'d normalized_event \<Rightarrow> pubkey option" where
  "event_mint e = payload_mint (ne_payload e)"

fun is_stream_payload :: "'d event_payload \<Rightarrow> bool" where
  "is_stream_payload (TokenCreated _) = True"
| "is_stream_payload (PumpBuy _) = True"
| "is_stream_payload (PumpSell _) = True"
| "is_stream_payload (BondingCurveUpdate _) = True"
| "is_stream_payload (HolderBalanceUpdate _) = True"
| "is_stream_payload (WalletFunding _) = True"
| "is_stream_payload (ObservedTransaction _) = True"
| "is_stream_payload _ = False"

fun is_data_gap :: "'d event_payload \<Rightarrow> bool" where
  "is_data_gap (DataGapPayload _) = True"
| "is_data_gap _ = False"

definition is_replay_source_event :: "'d normalized_event \<Rightarrow> bool" where
  "is_replay_source_event e \<longleftrightarrow>
     is_stream_payload (ne_payload e) \<or>
     (is_data_gap (ne_payload e) \<and> em_source (ne_meta e) \<noteq> Replay)"

text \<open>Every event the replay filter keeps is a stream event: it never carries a decision or a fill.\<close>

lemma replay_source_no_fill:
  "is_replay_source_event e \<Longrightarrow> ne_payload e \<noteq> SimulatedFill f \<and> ne_payload e \<noteq> LiveFill f
     \<and> ne_payload e \<noteq> TradeDecision d"
  by (auto simp: is_replay_source_event_def)

end
