(* ===== verification/Dedup.thy ===== *)
theory Dedup
  imports Prelude
begin

text \<open>
  The bounded duplicate filter of \<open>crates/ingest-geyser/src/lib.rs\<close> (\<open>Deduplicator\<close>), for any type of
  key. \<open>key_filter\<close> is what its clients rely on; the window lemmas say which keys it still knows.
\<close>

subsection \<open>The filter interface\<close>

locale key_filter =
  fixes ins :: "'k \<Rightarrow> 's \<Rightarrow> 's \<times> bool"
    and recent :: "'s \<Rightarrow> 'k set"
    and good :: "'s \<Rightarrow> bool"
  assumes accepts_iff: "good s \<Longrightarrow> snd (ins k s) \<longleftrightarrow> k \<notin> recent s"
    and remembers: "good s \<Longrightarrow> k \<in> recent (fst (ins k s))"
    and forgets_only: "good s \<Longrightarrow> recent (fst (ins k s)) \<subseteq> insert k (recent s)"
    and stays_good: "good s \<Longrightarrow> good (fst (ins k s))"
begin

lemma repeat_refused: "good s \<Longrightarrow> \<not> snd (ins k (fst (ins k s)))"
  using accepts_iff [OF stays_good] remembers by blast

definition feed :: "'k list \<Rightarrow> 's \<Rightarrow> 's" where
  "feed ks s = fold (\<lambda>k s. fst (ins k s)) ks s"

lemma feed_good: "good s \<Longrightarrow> good (feed ks s)"
  by (induction ks arbitrary: s) (simp_all add: feed_def stays_good)

lemma feed_recent: "good s \<Longrightarrow> recent (feed ks s) \<subseteq> set ks \<union> recent s"
proof (induction ks arbitrary: s)
  case (Cons k ks)
  then show ?case using Cons.IH [OF stays_good [OF Cons.prems, of k]] forgets_only [OF Cons.prems, of k]
    by (auto simp: feed_def)
qed (simp add: feed_def)

end

subsection \<open>The deduplicator\<close>

text \<open>\<open>HashMap<K, ()>\<close> is the set of its keys.\<close>

record 'k deduplicator =
  dd_seen :: "'k set"
  dd_queue :: "'k list"
  dd_capacity :: nat

definition new_deduplicator :: "nat \<Rightarrow> 'k deduplicator" where
  "new_deduplicator capacity = \<lparr>dd_seen = {}, dd_queue = [], dd_capacity = capacity\<rparr>"

fun evict :: "nat \<Rightarrow> 'k set \<Rightarrow> 'k list \<Rightarrow> 'k set \<times> 'k list" where
  "evict capacity seen [] = (seen, [])"
| "evict capacity seen (k # queue) =
    (if length (k # queue) > capacity then evict capacity (seen - {k}) queue
     else (seen, k # queue))"

definition dedup_insert :: "'k \<Rightarrow> 'k deduplicator \<Rightarrow> 'k deduplicator \<times> bool" where
  "dedup_insert key d =
    (if key \<in> dd_seen d then (d, False)
     else (case evict (dd_capacity d) (insert key (dd_seen d)) (dd_queue d @ [key]) of
             (seen, queue) \<Rightarrow> (d\<lparr>dd_seen := seen, dd_queue := queue\<rparr>, True)))"

definition dedup_inv :: "'k deduplicator \<Rightarrow> bool" where
  "dedup_inv d \<longleftrightarrow> dd_seen d = set (dd_queue d) \<and> distinct (dd_queue d) \<and>
    length (dd_queue d) \<le> dd_capacity d \<and> 0 < dd_capacity d"

definition last_n :: "nat \<Rightarrow> 'a list \<Rightarrow> 'a list" where
  "last_n n xs = drop (length xs - n) xs"

lemma last_n_last_n_snoc: "last_n n (last_n n xs @ [x]) = last_n n (xs @ [x])"
  by (cases "length xs \<le> n") (auto simp: last_n_def Suc_diff_le not_le)

lemma evict_window:
  assumes "distinct queue"
  shows "evict capacity (set queue) queue = (set (last_n capacity queue), last_n capacity queue)"
  using assms
proof (induction queue)
  case (Cons k queue)
  then show ?case by (auto simp: last_n_def Suc_diff_le not_le)
qed (simp add: last_n_def)

lemma dedup_insert_refused: "dedup_inv d \<Longrightarrow> key \<in> set (dd_queue d) \<Longrightarrow> dedup_insert key d = (d, False)"
  by (simp add: dedup_insert_def dedup_inv_def)

lemma dedup_insert_accepted:
  assumes "dedup_inv d" and "key \<notin> set (dd_queue d)"
  defines "q \<equiv> last_n (dd_capacity d) (dd_queue d @ [key])"
  shows "dedup_insert key d = (d\<lparr>dd_seen := set q, dd_queue := q\<rparr>, True)"
proof -
  have "evict (dd_capacity d) (insert key (dd_seen d)) (dd_queue d @ [key]) = (set q, q)"
    using evict_window [of "dd_queue d @ [key]" "dd_capacity d"] assms by (simp add: dedup_inv_def)
  with assms show ?thesis by (simp add: dedup_insert_def dedup_inv_def)
qed

lemma dedup_inv_new: "0 < n \<Longrightarrow> dedup_inv (new_deduplicator n)"
  by (simp add: dedup_inv_def new_deduplicator_def)

lemma last_n_snoc_mem: "0 < n \<Longrightarrow> x \<in> set (last_n n (xs @ [x]))"
  by (simp add: last_n_def Suc_diff_le drop_Cons')

lemma last_n_subset: "set (last_n n xs) \<subseteq> set xs"
  by (simp add: last_n_def set_drop_subset)

lemma last_n_props [simp]: "distinct xs \<Longrightarrow> distinct (last_n n xs)" "length (last_n n xs) \<le> n"
  by (simp_all add: last_n_def distinct_drop)

lemma dedup_inv_insert: "dedup_inv d \<Longrightarrow> dedup_inv (fst (dedup_insert key d))"
proof (cases "key \<in> set (dd_queue d)")
  case False
  moreover assume "dedup_inv d"
  ultimately show ?thesis by (simp add: dedup_insert_accepted) (simp add: dedup_inv_def)
qed (simp add: dedup_insert_refused)

interpretation dedup: key_filter dedup_insert dd_seen dedup_inv
proof unfold_locales
  fix s :: "'a deduplicator" and k :: 'a
  assume inv: "dedup_inv s"
  then have seen: "dd_seen s = set (dd_queue s)" and pos: "0 < dd_capacity s"
    by (simp_all add: dedup_inv_def)
  show "dedup_inv (fst (dedup_insert k s))" by (rule dedup_inv_insert [OF inv])
  show "snd (dedup_insert k s) \<longleftrightarrow> k \<notin> dd_seen s"
    by (cases "k \<in> set (dd_queue s)")
      (simp_all add: inv seen dedup_insert_refused dedup_insert_accepted)
  show "k \<in> dd_seen (fst (dedup_insert k s))"
    by (cases "k \<in> set (dd_queue s)")
      (simp_all add: inv seen pos dedup_insert_refused dedup_insert_accepted last_n_snoc_mem)
  show "dd_seen (fst (dedup_insert k s)) \<subseteq> insert k (dd_seen s)"
    using last_n_subset [of "dd_capacity s" "dd_queue s @ [k]"]
    by (cases "k \<in> set (dd_queue s)")
      (auto simp: inv seen dedup_insert_refused dedup_insert_accepted)
qed

subsection \<open>The window\<close>

fun accepted :: "'k deduplicator \<Rightarrow> 'k list \<Rightarrow> 'k list" where
  "accepted d [] = []"
| "accepted d (k # ks) =
    (case dedup_insert k d of (d', new) \<Rightarrow> (if new then [k] else []) @ accepted d' ks)"

definition spaced :: "nat \<Rightarrow> 'k list \<Rightarrow> bool" where
  "spaced n ks \<longleftrightarrow> (\<forall>i j. i < j \<and> j < length ks \<and> ks ! i = ks ! j \<longrightarrow> n < j - i)"

lemma spaced_snoc:
  assumes "spaced n ks" and "k \<notin> set (last_n n ks)"
  shows "spaced n (ks @ [k])"
  unfolding spaced_def
proof (intro allI impI)
  fix i j
  assume ij: "i < j \<and> j < length (ks @ [k]) \<and> (ks @ [k]) ! i = (ks @ [k]) ! j"
  show "n < j - i"
  proof (cases "j = length ks")
    case True
    with ij have i: "i < length ks" "ks ! i = k" by (auto simp: nth_append)
    show ?thesis
    proof (rule ccontr)
      assume "\<not> n < j - i"
      with True i have "last_n n ks ! (i - (length ks - n)) = k"
        and "i - (length ks - n) < length (last_n n ks)"
        by (auto simp: last_n_def)
      with assms(2) show False using nth_mem by blast
    qed
  next
    case False
    with ij assms(1) show ?thesis by (auto simp: spaced_def nth_append)
  qed
qed

definition window :: "'k deduplicator \<Rightarrow> 'k list \<Rightarrow> bool" where
  "window d past \<longleftrightarrow> dedup_inv d \<and> dd_queue d = last_n (dd_capacity d) past \<and>
    spaced (dd_capacity d) past"

lemma window_new: "0 < n \<Longrightarrow> window (new_deduplicator n) []"
  by (simp add: window_def dedup_inv_new) (simp add: new_deduplicator_def last_n_def spaced_def)

lemma dedup_insert_capacity [simp]: "dd_capacity (fst (dedup_insert k d)) = dd_capacity d"
  by (simp add: dedup_insert_def split: prod.split)

lemma window_insert:
  assumes "window d past"
  shows "window (fst (dedup_insert k d)) (past @ (if snd (dedup_insert k d) then [k] else []))"
proof (cases "k \<in> set (dd_queue d)")
  case True
  with assms show ?thesis by (simp add: window_def dedup_insert_refused)
next
  case False
  with assms have "spaced (dd_capacity d) (past @ [k])" by (simp add: window_def spaced_snoc)
  with assms False dedup_inv_insert [of d k] show ?thesis
    by (simp add: window_def dedup_insert_accepted last_n_last_n_snoc)
qed

lemma window_feed: "window d past \<Longrightarrow> window (dedup.feed ks d) (past @ accepted d ks)"
proof (induction ks arbitrary: d past)
  case (Cons k ks)
  then show ?case
    using Cons.IH [OF window_insert [OF Cons.prems, of k]]
    by (simp add: dedup.feed_def split_def)
qed (simp add: dedup.feed_def)

lemma feed_capacity [simp]: "dd_capacity (dedup.feed ks d) = dd_capacity d"
  by (induction ks arbitrary: d) (simp_all add: dedup.feed_def)

text \<open>
  The filter lets no key through twice within its window: in the sequence of accepted keys, equal
  keys are more than the capacity apart, whatever keys are offered.
\<close>
theorem accepted_keys_spaced:
  assumes "0 < capacity"
  shows "spaced capacity (accepted (new_deduplicator capacity) ks)"
  using window_feed [OF window_new [OF assms], of ks]
  by (simp add: window_def) (simp add: new_deduplicator_def)

theorem accepted_keys_spaced_witness:
  "spaced 2 (accepted (new_deduplicator 2) [1, 2, 1, 3, 1, 2 :: nat])"
  by (rule accepted_keys_spaced) simp

end
