(* ===== verification/Geyser_Ingest.thy ===== *)
theory Geyser_Ingest
  imports Events Config Dedup
begin

text \<open>
  The Geyser ingest service, \<open>crates/ingest-geyser/src/lib.rs\<close>: \<open>process_envelope\<close> with its gap
  detection, duplicate suppression and per-account write versions, and \<open>run_stream\<close>. The transport and
  the conversion of protobuf updates are left out. Each \<open>EventMeta::new\<close> takes a fresh identifier: an
  envelope comes with the two it may need. \<open>PubkeyValue::from_str\<close> and the \<open>Decimal\<close> one are fields of
  \<open>ingest_params\<close>.
\<close>

subsection \<open>Messages\<close>

datatype slot_commitment = SlotProcessed | SlotConfirmed | SlotRooted

record subscription_request =
  sub_commitment :: slot_commitment
  sub_program_filters :: "string list"
  sub_account_filters :: "string list"
  sub_max_inflight_messages :: usize

record slot_update =
  su_slot :: u64
  su_parent :: "u64 option"
  su_status :: slot_commitment
  su_block_time :: "instant option"

record transaction_instruction =
  ti_program_id :: string
  ti_accounts :: "string list"
  ti_data_hex :: string

record transaction_instruction_group =
  tg_index :: u32
  tg_instructions :: "transaction_instruction list"

record transaction_token_balance =
  tb_account_index :: u32
  tb_mint :: string
  tb_owner :: "string option"
  tb_program_id :: "string option"
  tb_amount :: string
  tb_decimals :: u32

record transaction_update =
  tu_slot :: u64
  tu_signature :: string
  tu_transaction_index :: "u32 option"
  tu_succeeded :: bool
  tu_error_code :: "string option"
  tu_account_keys :: "string list"
  tu_instructions :: "transaction_instruction list"
  tu_inner_instructions :: "transaction_instruction_group list"
  tu_pre_balances :: "u64 list"
  tu_post_balances :: "u64 list"
  tu_pre_token_balances :: "transaction_token_balance list"
  tu_post_token_balances :: "transaction_token_balance list"
  tu_loaded_writable_addresses :: "string list"
  tu_loaded_readonly_addresses :: "string list"
  tu_compute_units_consumed :: "u64 option"
  tu_fee_lamports :: u64

record account_update =
  au_slot :: u64
  au_pubkey :: string
  au_owner :: string
  au_lamports :: u64
  au_executable :: bool
  au_write_version :: u64
  au_data_base64 :: string
  au_transaction_signature :: "string option"

record block_update =
  bu_slot :: u64
  bu_transaction_count :: "u64 option"
  bu_block_time :: "instant option"

datatype geyser_message =
    MsgSlot slot_update
  | MsgTransaction transaction_update
  | MsgAccount account_update
  | MsgBlock block_update

record geyser_envelope =
  ge_received_at :: instant
  ge_observed_at_monotonic_ns :: u64
  ge_source_latency_ms :: "u64 option"
  ge_message :: geyser_message

datatype 'd ingest_output =
    OutSlot "'d event_meta" slot_update
  | OutTransaction "'d event_meta" transaction_update
  | OutAccount "'d event_meta" account_update
  | OutBlock "'d event_meta" block_update
  | OutDataGap "'d event_meta" data_gap_event

datatype geyser_ingest_error = Transport string | StreamError string | PublishError string

datatype dedup_key = KeyTransaction u64 string u32 | KeyAccount u64 string u64

subsection \<open>The service\<close>

record stream_health =
  shl_connected :: bool
  shl_reconnect_count :: u64
  shl_last_slot_seen :: "u64 option"
  shl_recent_gap :: "data_gap_event option"

record 'f geyser_service =
  gs_config :: "'f geyser_config"
  gs_health :: stream_health
  gs_dedup :: "dedup_key deduplicator"
  gs_write_versions :: "u64 \<times> string \<rightharpoonup> u64"

record 'd ingest_params =
  ip_dec_one :: 'd
  ip_parse_pubkey :: "string \<Rightarrow> pubkey option"

definition new_geyser_service :: "'f geyser_config \<Rightarrow> 'f geyser_service" where
  "new_geyser_service config =
    \<lparr>gs_config = config,
     gs_health = \<lparr>shl_connected = False, shl_reconnect_count = 0, shl_last_slot_seen = None,
                  shl_recent_gap = None\<rparr>,
     gs_dedup = new_deduplicator (unat (max (gy_max_inflight_messages config) 1)),
     gs_write_versions = (\<lambda>_. None)\<rparr>"

definition subscription_request_of :: "'f geyser_service \<Rightarrow> subscription_request" where
  "subscription_request_of s =
    \<lparr>sub_commitment = (case gy_commitment (gs_config s) of
         CommitProcessed \<Rightarrow> SlotProcessed
       | CommitConfirmed \<Rightarrow> SlotConfirmed
       | CommitFinalized \<Rightarrow> SlotRooted),
     sub_program_filters = gy_program_filters (gs_config s),
     sub_account_filters = gy_account_filters (gs_config s),
     sub_max_inflight_messages = gy_max_inflight_messages (gs_config s)\<rparr>"

definition note_disconnect :: "'f geyser_service \<Rightarrow> 'f geyser_service" where
  "note_disconnect s = s\<lparr>gs_health := (gs_health s)\<lparr>shl_connected := False,
     shl_reconnect_count := sat_add (shl_reconnect_count (gs_health s)) 1\<rparr>\<rparr>"

definition recovery_pause :: string where
  "recovery_pause = ''pause trading until gap is reconciled''"

definition recovery_reconnect :: string where
  "recovery_reconnect = ''reconnect and reconcile slot ancestry''"

definition slot_gap :: "u64 \<Rightarrow> u64 \<Rightarrow> data_gap_event" where
  "slot_gap first final =
    \<lparr>dg_gap_type = data_gap_type.SlotGap, dg_source = GeyserProcessed, dg_start_slot = first,
     dg_end_slot = Some final, dg_affected_tokens = [], dg_severity = gap_severity.High,
     dg_trade_allowed = False, dg_recovery_action = recovery_pause\<rparr>"

definition reconnect_gap :: "u64 \<Rightarrow> u64 \<Rightarrow> data_gap_event" where
  "reconnect_gap first final =
    \<lparr>dg_gap_type = data_gap_type.ReconnectGap, dg_source = GeyserProcessed, dg_start_slot = first,
     dg_end_slot = Some final, dg_affected_tokens = [], dg_severity = gap_severity.Medium,
     dg_trade_allowed = False, dg_recovery_action = recovery_reconnect\<rparr>"

definition detect_gap :: "'f geyser_service \<Rightarrow> u64 \<Rightarrow> u64 option \<Rightarrow> data_gap_event option" where
  "detect_gap s slot parent =
    (case shl_last_slot_seen (gs_health s) of
       None \<Rightarrow> None
     | Some seen \<Rightarrow>
         let tolerated = sat_add seen (gy_slot_gap_tolerance (gs_config s)) in
         if slot > sat_add tolerated 1 then Some (slot_gap (seen + 1) (slot - 1))
         else (case parent of
                 None \<Rightarrow> None
               | Some p \<Rightarrow> if p > tolerated then Some (reconnect_gap (seen + 1) p) else None))"

subsection \<open>Event metadata\<close>

definition stamped :: "geyser_envelope \<Rightarrow> 'd event_meta \<Rightarrow> 'd event_meta" where
  "stamped e meta = meta\<lparr>em_received_at_wall_time := ge_received_at e,
     em_observed_at_monotonic_ns := ge_observed_at_monotonic_ns e,
     em_source_latency_ms := ge_source_latency_ms e\<rparr>"

definition meta_for_slot ::
  "'d ingest_params \<Rightarrow> event_id \<Rightarrow> geyser_envelope \<Rightarrow> slot_update \<Rightarrow> 'd event_meta" where
  "meta_for_slot P fresh e u =
    (let source = (case su_status u of SlotProcessed \<Rightarrow> GeyserProcessed
                     | SlotConfirmed \<Rightarrow> GeyserConfirmed | SlotRooted \<Rightarrow> GeyserRooted);
         canonicality = (case su_status u of SlotProcessed \<Rightarrow> canonicality.Processed
                     | SlotConfirmed \<Rightarrow> canonicality.Confirmed | SlotRooted \<Rightarrow> canonicality.Rooted)
     in stamped e ((new_event_meta fresh (ip_dec_one P) source canonicality (su_slot u))
          \<lparr>em_parent_slot := su_parent u, em_block_time := su_block_time u\<rparr>))"

definition meta_for_tx ::
  "'d ingest_params \<Rightarrow> event_id \<Rightarrow> geyser_envelope \<Rightarrow> transaction_update \<Rightarrow> 'd event_meta" where
  "meta_for_tx P fresh e u =
    stamped e ((new_event_meta fresh (ip_dec_one P) GeyserProcessed canonicality.Processed (tu_slot u))
      \<lparr>em_signature := Some (tu_signature u), em_transaction_index := tu_transaction_index u\<rparr>)"

definition meta_for_account ::
  "'d ingest_params \<Rightarrow> event_id \<Rightarrow> geyser_envelope \<Rightarrow> account_update \<Rightarrow> 'd event_meta" where
  "meta_for_account P fresh e u =
    stamped e ((new_event_meta fresh (ip_dec_one P) GeyserProcessed canonicality.Processed (au_slot u))
      \<lparr>em_account_pubkey := ip_parse_pubkey P (au_pubkey u),
       em_account_write_version := Some (au_write_version u),
       em_signature := au_transaction_signature u\<rparr>)"

definition meta_for_block ::
  "'d ingest_params \<Rightarrow> event_id \<Rightarrow> geyser_envelope \<Rightarrow> block_update \<Rightarrow> 'd event_meta" where
  "meta_for_block P fresh e u =
    stamped e ((new_event_meta fresh (ip_dec_one P) GeyserProcessed canonicality.Processed (bu_slot u))
      \<lparr>em_block_time := bu_block_time u\<rparr>)"

definition meta_for_gap ::
  "'d ingest_params \<Rightarrow> event_id \<Rightarrow> geyser_envelope \<Rightarrow> u64 \<Rightarrow> 'd event_meta" where
  "meta_for_gap P fresh e slot =
    stamped e (new_event_meta fresh (ip_dec_one P) GeyserProcessed canonicality.Unknown slot)"

subsection \<open>Processing\<close>

type_synonym fresh_ids = "event_id \<times> event_id"

definition transaction_key :: "transaction_update \<Rightarrow> dedup_key" where
  "transaction_key u = KeyTransaction (tu_slot u) (tu_signature u)
     (case tu_transaction_index u of None \<Rightarrow> 0 | Some i \<Rightarrow> i)"

definition account_key :: "account_update \<Rightarrow> dedup_key" where
  "account_key u = KeyAccount (au_slot u) (au_pubkey u) (au_write_version u)"

definition process_slot ::
  "'d ingest_params \<Rightarrow> fresh_ids \<Rightarrow> 'f geyser_service \<Rightarrow> geyser_envelope \<Rightarrow> slot_update \<Rightarrow>
   'f geyser_service \<times> 'd ingest_output list" where
  "process_slot P ids s e u =
    (let gap = detect_gap s (su_slot u) (su_parent u);
         health = gs_health s;
         health = (case gap of None \<Rightarrow> health | Some g \<Rightarrow> health\<lparr>shl_recent_gap := Some g\<rparr>);
         gap_outputs = (case gap of None \<Rightarrow> []
            | Some g \<Rightarrow> [OutDataGap (meta_for_gap P (fst ids) e (su_slot u)) g])
     in (s\<lparr>gs_health := health\<lparr>shl_last_slot_seen := Some (su_slot u)\<rparr>\<rparr>,
         gap_outputs @ [OutSlot (meta_for_slot P (snd ids) e u) u]))"

definition process_transaction ::
  "'d ingest_params \<Rightarrow> fresh_ids \<Rightarrow> 'f geyser_service \<Rightarrow> geyser_envelope \<Rightarrow> transaction_update \<Rightarrow>
   'f geyser_service \<times> 'd ingest_output list" where
  "process_transaction P ids s e u =
    (case dedup_insert (transaction_key u) (gs_dedup s) of
       (dedup, new) \<Rightarrow> (s\<lparr>gs_dedup := dedup\<rparr>,
         if new then [OutTransaction (meta_for_tx P (snd ids) e u) u] else []))"

definition process_account ::
  "'d ingest_params \<Rightarrow> fresh_ids \<Rightarrow> 'f geyser_service \<Rightarrow> geyser_envelope \<Rightarrow> account_update \<Rightarrow>
   'f geyser_service \<times> 'd ingest_output list" where
  "process_account P ids s e u =
    (let key = (au_slot u, au_pubkey u);
         is_newer = (case gs_write_versions s key of
                       None \<Rightarrow> True | Some seen \<Rightarrow> au_write_version u > seen)
     in if is_newer
        then (case dedup_insert (account_key u) (gs_dedup s) of
                (dedup, new) \<Rightarrow>
                  (s\<lparr>gs_write_versions := (gs_write_versions s)(key \<mapsto> au_write_version u),
                     gs_dedup := dedup\<rparr>,
                   if new then [OutAccount (meta_for_account P (snd ids) e u) u] else []))
        else (s, []))"

definition process_envelope ::
  "'d ingest_params \<Rightarrow> fresh_ids \<Rightarrow> 'f geyser_service \<Rightarrow> geyser_envelope \<Rightarrow>
   'f geyser_service \<times> 'd ingest_output list" where
  "process_envelope P ids s0 e =
    (let s = s0\<lparr>gs_health := (gs_health s0)\<lparr>shl_connected := True\<rparr>\<rparr> in
     case ge_message e of
       MsgSlot u \<Rightarrow> process_slot P ids s e u
     | MsgTransaction u \<Rightarrow> process_transaction P ids s e u
     | MsgAccount u \<Rightarrow> process_account P ids s e u
     | MsgBlock u \<Rightarrow> (s, [OutBlock (meta_for_block P (snd ids) e u) u]))"

text \<open>\<open>run_stream\<close>: an item or sink error ends the run; the sink's state is \<open>'z\<close>.\<close>

fun feed_sink ::
  "('z \<Rightarrow> 'o \<Rightarrow> ('e, 'z) result) \<Rightarrow> 'z \<Rightarrow> 'o list \<Rightarrow> 'z \<times> ('e, unit) result" where
  "feed_sink sink z [] = (z, Ok ())"
| "feed_sink sink z (out # outs) =
    (case sink z out of Inl err \<Rightarrow> (z, Err err) | Inr z' \<Rightarrow> feed_sink sink z' outs)"

fun run_stream ::
  "'d ingest_params \<Rightarrow> ('z \<Rightarrow> 'd ingest_output \<Rightarrow> (geyser_ingest_error, 'z) result) \<Rightarrow>
   'f geyser_service \<Rightarrow> 'z \<Rightarrow> (geyser_ingest_error, fresh_ids \<times> geyser_envelope) result list \<Rightarrow>
   'f geyser_service \<times> 'z \<times> (geyser_ingest_error, unit) result" where
  "run_stream P sink s z [] = (s, z, Ok ())"
| "run_stream P sink s z (Inl err # items) = (s, z, Err err)"
| "run_stream P sink s z (Inr (ids, e) # items) =
    (case process_envelope P ids s e of
       (s', outs) \<Rightarrow>
         (case feed_sink sink z outs of
            (z', Inl err) \<Rightarrow> (s', z', Err err)
          | (z', Inr _) \<Rightarrow> run_stream P sink s' z' items))"


subsection \<open>Runs\<close>

fun process_all ::
  "'d ingest_params \<Rightarrow> 'f geyser_service \<Rightarrow> (fresh_ids \<times> geyser_envelope) list \<Rightarrow>
   'f geyser_service \<times> 'd ingest_output list" where
  "process_all P s [] = (s, [])"
| "process_all P s ((ids, e) # items) =
    (case process_envelope P ids s e of
       (s1, outs) \<Rightarrow> (case process_all P s1 items of (s2, later) \<Rightarrow> (s2, outs @ later)))"

lemma feed_sink_total:
  "(\<And>z out. sink z out = Ok (f z out)) \<Longrightarrow> feed_sink sink z outs = (foldl f z outs, Ok ())"
  by (induction outs arbitrary: z) simp_all

lemma run_stream_process_all:
  assumes "\<And>z out. sink z out = Ok (f z out)"
  shows "run_stream P sink s z (map Inr items) =
    (case process_all P s items of (s', outs) \<Rightarrow> (s', foldl f z outs, Ok ()))"
  by (induction P s items arbitrary: z rule: process_all.induct)
    (auto simp: feed_sink_total [where sink = sink, OF assms] split: prod.splits)

definition output_keys :: "'d ingest_output list \<Rightarrow> dedup_key list" where
  "output_keys outs = concat (map (\<lambda>out. case out of
     OutTransaction _ u \<Rightarrow> [transaction_key u] | OutAccount _ u \<Rightarrow> [account_key u] | _ \<Rightarrow> []) outs)"

definition output_accounts :: "'d ingest_output list \<Rightarrow> account_update list" where
  "output_accounts outs = concat (map (\<lambda>out. case out of OutAccount _ u \<Rightarrow> [u] | _ \<Rightarrow> []) outs)"

definition input_accounts :: "(fresh_ids \<times> geyser_envelope) list \<Rightarrow> account_update list" where
  "input_accounts items =
    concat (map (\<lambda>(_, e). case ge_message e of MsgAccount u \<Rightarrow> [u] | _ \<Rightarrow> []) items)"

lemma output_simps [simp]:
  "output_keys [] = []" "output_accounts [] = []"
  "output_keys (xs @ ys) = output_keys xs @ output_keys ys"
  "output_accounts (xs @ ys) = output_accounts xs @ output_accounts ys"
  "output_keys [OutSlot m su] = []" "output_accounts [OutSlot m su] = []"
  "output_keys [OutBlock m bu] = []" "output_accounts [OutBlock m bu] = []"
  "output_keys [OutDataGap m g] = []" "output_accounts [OutDataGap m g] = []"
  "output_keys [OutTransaction m tu] = [transaction_key tu]" "output_accounts [OutTransaction m tu] = []"
  "output_keys [OutAccount m u] = [account_key u]" "output_accounts [OutAccount m u] = [u]"
  by (simp_all add: output_keys_def output_accounts_def)

lemma input_accounts_simps [simp]:
  "input_accounts [] = []"
  "input_accounts ((ids, e) # items) =
    (case ge_message e of MsgAccount u \<Rightarrow> [u] | _ \<Rightarrow> []) @ input_accounts items"
  by (simp_all add: input_accounts_def)

definition newer :: "(u64 \<times> string \<rightharpoonup> u64) \<Rightarrow> account_update \<Rightarrow> bool" where
  "newer vs u = (case vs (au_slot u, au_pubkey u) of None \<Rightarrow> True | Some v \<Rightarrow> au_write_version u > v)"

text \<open>What an update of an account does to the write versions and the account outputs.\<close>

definition service_inv :: "'f geyser_service \<Rightarrow> bool" where
  "service_inv s \<longleftrightarrow> dedup_inv (gs_dedup s) \<and>
    (\<forall>slot pubkey v. KeyAccount slot pubkey v \<in> dd_seen (gs_dedup s) \<longrightarrow>
       (\<exists>w. gs_write_versions s (slot, pubkey) = Some w \<and> v \<le> w))"

lemma service_inv_new: "service_inv (new_geyser_service config)"
proof -
  have "0 < unat (max (gy_max_inflight_messages config) 1)"
    by (auto simp: unat_gt_0 max_def)
  then show ?thesis
    by (simp add: service_inv_def new_geyser_service_def dedup_inv_new)
      (simp add: new_deduplicator_def)
qed

lemma newer_not_seen: "service_inv s \<Longrightarrow> newer (gs_write_versions s) u \<Longrightarrow>
    account_key u \<notin> dd_seen (gs_dedup s)"
  by (fastforce simp: service_inv_def newer_def account_key_def)

lemma process_account_newer:
  assumes "service_inv s" and "newer (gs_write_versions s) u"
  shows "process_account P ids s e u =
    (s\<lparr>gs_write_versions := (gs_write_versions s)((au_slot u, au_pubkey u) \<mapsto> au_write_version u),
       gs_dedup := fst (dedup_insert (account_key u) (gs_dedup s))\<rparr>,
     [OutAccount (meta_for_account P (snd ids) e u) u])"
proof -
  have "snd (dedup_insert (account_key u) (gs_dedup s))"
    using newer_not_seen [OF assms] assms(1) by (simp add: dedup.accepts_iff service_inv_def)
  then show ?thesis
    using assms(2) by (auto simp: process_account_def newer_def Let_def split: prod.split)
qed

lemma process_account_stale: "\<not> newer (gs_write_versions s) u \<Longrightarrow> process_account P ids s e u = (s, [])"
  by (auto simp: process_account_def newer_def Let_def split: option.splits)

lemma service_inv_process: "service_inv s \<Longrightarrow> service_inv (fst (process_envelope P ids s e))"
proof -
  assume inv: "service_inv s"
  let ?s = "s\<lparr>gs_health := (gs_health s)\<lparr>shl_connected := True\<rparr>\<rparr>"
  have inv': "service_inv ?s" using inv by (simp add: service_inv_def)
  have dd: "dedup_inv (gs_dedup s)" using inv by (simp add: service_inv_def)
  show ?thesis
  proof (cases "ge_message e")
    case (MsgTransaction u)
    with inv dedup.forgets_only [OF dd, of "transaction_key u"] dedup.stays_good [OF dd]
    show ?thesis
      by (fastforce simp: process_envelope_def process_transaction_def service_inv_def
          transaction_key_def split_def)
  next
    case (MsgAccount u)
    show ?thesis
    proof (cases "newer (gs_write_versions ?s) u")
      case True
      have "KeyAccount slot pubkey v \<in> dd_seen (fst (dedup_insert (account_key u) (gs_dedup s))) \<Longrightarrow>
        \<exists>w. ((gs_write_versions s)((au_slot u, au_pubkey u) \<mapsto> au_write_version u)) (slot, pubkey)
            = Some w \<and> v \<le> w" for slot pubkey v
        using dedup.forgets_only [OF dd, of "account_key u"] inv True
        by (fastforce simp: service_inv_def account_key_def newer_def)
      with True dedup.stays_good [OF dd] MsgAccount show ?thesis
        by (simp add: process_envelope_def process_account_newer [OF inv' True])
          (simp add: service_inv_def)
    qed (use inv' MsgAccount in \<open>simp add: process_envelope_def process_account_stale\<close>)
  qed (use inv in \<open>simp_all add: process_envelope_def process_slot_def service_inv_def Let_def\<close>)
qed


subsection \<open>Accounts\<close>

text \<open>What a consumer of account updates may rely on: the updates that raise an account's version.\<close>

fun fresh_accounts :: "(u64 \<times> string \<rightharpoonup> u64) \<Rightarrow> account_update list \<Rightarrow> account_update list" where
  "fresh_accounts vs [] = []"
| "fresh_accounts vs (u # us) =
    (if newer vs u
     then u # fresh_accounts (vs((au_slot u, au_pubkey u) \<mapsto> au_write_version u)) us
     else fresh_accounts vs us)"

definition message_accounts :: "geyser_envelope \<Rightarrow> account_update list" where
  "message_accounts e = (case ge_message e of MsgAccount u \<Rightarrow> [u] | _ \<Rightarrow> [])"

lemma process_envelope_accounts:
  assumes "service_inv s"
  shows "output_accounts (snd (process_envelope P ids s e)) =
      fresh_accounts (gs_write_versions s) (message_accounts e)"
    and "fresh_accounts (gs_write_versions s) (message_accounts e @ us) =
      output_accounts (snd (process_envelope P ids s e)) @
      fresh_accounts (gs_write_versions (fst (process_envelope P ids s e))) us"
proof -
  let ?s = "s\<lparr>gs_health := (gs_health s)\<lparr>shl_connected := True\<rparr>\<rparr>"
  have inv': "service_inv ?s" using assms by (simp add: service_inv_def)
  have versions: "gs_write_versions ?s = gs_write_versions s" by simp
  have "output_accounts (snd (process_envelope P ids s e)) =
      fresh_accounts (gs_write_versions s) (message_accounts e) \<and>
    fresh_accounts (gs_write_versions s) (message_accounts e @ us) =
      output_accounts (snd (process_envelope P ids s e)) @
      fresh_accounts (gs_write_versions (fst (process_envelope P ids s e))) us"
  proof (cases "ge_message e")
    case (MsgAccount u)
    show ?thesis
    proof (cases "newer (gs_write_versions ?s) u")
      case True
      then show ?thesis
        by (simp add: process_envelope_def MsgAccount message_accounts_def
            process_account_newer [OF inv' True])
    next
      case False
      then show ?thesis
        by (simp add: process_envelope_def MsgAccount message_accounts_def process_account_stale)
    qed
  qed (auto simp: process_envelope_def process_slot_def process_transaction_def message_accounts_def
      Let_def split: prod.splits option.splits)
  then show "output_accounts (snd (process_envelope P ids s e)) =
      fresh_accounts (gs_write_versions s) (message_accounts e)"
    and "fresh_accounts (gs_write_versions s) (message_accounts e @ us) =
      output_accounts (snd (process_envelope P ids s e)) @
      fresh_accounts (gs_write_versions (fst (process_envelope P ids s e))) us" by blast+
qed

lemma process_all_accounts:
  "service_inv s \<Longrightarrow> output_accounts (snd (process_all P s items)) =
    fresh_accounts (gs_write_versions s) (input_accounts items)"
proof (induction P s items rule: process_all.induct)
  case (2 P s ids e items)
  have "output_accounts (snd (process_all P s ((ids, e) # items))) =
      output_accounts (snd (process_envelope P ids s e)) @
      output_accounts (snd (process_all P (fst (process_envelope P ids s e)) items))"
    by (simp add: split_def)
  also have "\<dots> = output_accounts (snd (process_envelope P ids s e)) @
      fresh_accounts (gs_write_versions (fst (process_envelope P ids s e))) (input_accounts items)"
    using "2.IH" [OF prod.collapse service_inv_process [OF "2.prems"]]
    by simp
  also have "\<dots> = fresh_accounts (gs_write_versions s) (message_accounts e @ input_accounts items)"
    by (rule process_envelope_accounts(2) [OF "2.prems", symmetric])
  finally show ?case by (simp add: message_accounts_def)
qed simp

text \<open>
  C27. The duplicate filter never hides an account update: over any run of a new service, the account
  updates published are exactly the received ones whose write version exceeds every earlier version
  of the account in the slot, in order of arrival.
\<close>
theorem account_outputs_exact:
  "output_accounts (snd (process_all P (new_geyser_service config) items)) =
    fresh_accounts (\<lambda>_. None) (input_accounts items)"
  using process_all_accounts [OF service_inv_new, of P config items]
  by (simp add: new_geyser_service_def)

subsection \<open>Duplicates\<close>

lemma process_envelope_window:
  assumes "window (gs_dedup s) past"
  shows "window (gs_dedup (fst (process_envelope P ids s e)))
      (past @ output_keys (snd (process_envelope P ids s e)))"
proof (cases "ge_message e")
  case (MsgTransaction u)
  with window_insert [OF assms, of "transaction_key u"] show ?thesis
    by (auto simp: process_envelope_def process_transaction_def split_def split: if_splits)
next
  case (MsgAccount u)
  with window_insert [OF assms, of "account_key u"] assms show ?thesis
    by (auto simp: process_envelope_def process_account_def split_def Let_def split: if_splits)
qed (use assms in \<open>auto simp: process_envelope_def process_slot_def Let_def split: option.split\<close>)

lemma process_all_window:
  "window (gs_dedup s) past \<Longrightarrow>
    window (gs_dedup (fst (process_all P s items))) (past @ output_keys (snd (process_all P s items)))"
proof (induction P s items arbitrary: past rule: process_all.induct)
  case (2 P s ids e items)
  from "2.IH" [OF prod.collapse process_envelope_window [OF "2.prems"]]
  show ?case by (simp add: split_def)
qed simp

lemma process_envelope_capacity [simp]:
  "dd_capacity (gs_dedup (fst (process_envelope P ids s e))) = dd_capacity (gs_dedup s)"
  by (simp add: process_envelope_def process_slot_def process_transaction_def process_account_def
      Let_def split_def split: geyser_message.split)

lemma process_all_capacity [simp]:
  "dd_capacity (gs_dedup (fst (process_all P s items))) = dd_capacity (gs_dedup s)"
proof (induction P s items rule: process_all.induct)
  case (2 P s ids e items)
  from "2.IH" [OF prod.collapse] show ?case by (simp add: split_def)
qed simp

text \<open>
  Nothing is published twice within the duplicate window: in the keys of the transactions and
  account updates a run publishes, equal keys are further apart than the configured number of
  in-flight messages (at least one).
\<close>
theorem published_keys_spaced:
  "spaced (unat (max (gy_max_inflight_messages config) 1))
    (output_keys (snd (process_all P (new_geyser_service config) items)))"
proof -
  have "0 < unat (max (gy_max_inflight_messages config) 1)" by (auto simp: unat_gt_0 max_def)
  then have "window (gs_dedup (new_geyser_service config)) []"
    by (simp add: new_geyser_service_def window_new)
  from process_all_window [OF this, of P items] show ?thesis
    by (simp add: window_def) (simp add: new_geyser_service_def new_deduplicator_def)
qed

subsection \<open>Growth\<close>

definition account_slot_key :: "account_update \<Rightarrow> u64 \<times> string" where
  "account_slot_key u = (au_slot u, au_pubkey u)"

lemma process_envelope_versions:
  "dom (gs_write_versions (fst (process_envelope P ids s e))) =
    account_slot_key ` set (message_accounts e) \<union> dom (gs_write_versions s)"
  by (auto simp: process_envelope_def process_slot_def process_transaction_def process_account_def
      message_accounts_def account_slot_key_def Let_def split_def
      split: geyser_message.splits option.splits)

lemma process_all_versions:
  "dom (gs_write_versions (fst (process_all P s items))) =
    account_slot_key ` set (input_accounts items) \<union> dom (gs_write_versions s)"
proof (induction P s items rule: process_all.induct)
  case (2 P s ids e items)
  from "2.IH" [OF prod.collapse] show ?case
    by (auto simp: split_def process_envelope_versions message_accounts_def)
qed simp

text \<open>
  The write versions are never forgotten: after any run the service holds one entry for every
  pair of slot and account it has ever been told about, so its memory grows with the stream although
  the duplicate filter beside it is bounded.
\<close>
theorem write_versions_never_forgotten:
  "dom (gs_write_versions (fst (process_all P (new_geyser_service config) items))) =
    account_slot_key ` set (input_accounts items)"
  by (simp add: process_all_versions) (simp add: new_geyser_service_def)


subsection \<open>Gaps\<close>

lemma sat_add_exceeded:
  "sat_add x y < z \<Longrightarrow> unat x + unat y < unat z" for x y z :: "'a::len word"
  using unat_le_max [of z] by (auto simp: width_simps)

text \<open>
  A reported gap is a real range of slots: it starts right after the last slot seen, ends before
  the slot that revealed it (or at that slot's parent), misses more slots than the tolerance allows,
  and forbids trading. None of the slot arithmetic wraps around.
\<close>
theorem gap_is_sound:
  assumes "detect_gap s slot parent = Some g" and "shl_last_slot_seen (gs_health s) = Some seen"
  shows "\<exists>final. dg_end_slot g = Some final \<and> unat (dg_start_slot g) = unat seen + 1 \<and>
    unat seen + unat (gy_slot_gap_tolerance (gs_config s)) < unat final \<and>
    (if dg_gap_type g = data_gap_type.SlotGap then unat final + 1 = unat slot else parent = Some final) \<and>
    \<not> dg_trade_allowed g"
proof -
  let ?t = "gy_slot_gap_tolerance (gs_config s)"
  have succ: "unat (seen + 1) = unat seen + 1" if "unat seen < unat (x :: u64)" for x
    using that unat_le_max [of x] by (simp add: unat_word_ariths)
  show ?thesis
  proof (cases "slot > sat_add (sat_add seen ?t) 1")
    case True
    from sat_add_exceeded [OF True] have "unat (sat_add seen ?t) + 1 < unat slot" by simp
    moreover from this have "unat seen + unat ?t + 1 < unat slot"
      using unat_le_max [of slot] by (auto simp: unat_sat_add)
    ultimately have wide: "unat seen + unat ?t + 1 < unat slot" by blast
    then have "unat (slot - 1) + 1 = unat slot"
      by (metis add.commute add_diff_inverse_nat less_one not_less0 unat_minus_one unat_0
          add_less_same_cancel2 not_less_iff_gr_or_eq)
    with wide True assms succ [of slot] show ?thesis
      by (auto simp: detect_gap_def Let_def slot_gap_def)
  next
    case False
    with assms obtain p where p: "parent = Some p" "sat_add seen ?t < p" "g = reconnect_gap (seen + 1) p"
      by (auto simp: detect_gap_def Let_def split: option.splits if_splits)
    from sat_add_exceeded [OF p(2)] p succ [of p] show ?thesis by (simp add: reconnect_gap_def)
  qed
qed

definition geyser_example :: "rat geyser_service" where
  "geyser_example = (new_geyser_service example_geyser)
     \<lparr>gs_health := \<lparr>shl_connected = True, shl_reconnect_count = 0, shl_last_slot_seen = Some 100,
                   shl_recent_gap = None\<rparr>\<rparr>"

theorem gap_is_sound_witness:
  "\<exists>g final. detect_gap geyser_example 110 None = Some g \<and> dg_end_slot g = Some final \<and>
    unat (dg_start_slot g) = 101 \<and> 100 < unat final"
proof -
  have "detect_gap geyser_example 110 None = Some (slot_gap 101 109)"
    and "shl_last_slot_seen (gs_health geyser_example) = Some 100"
    by (simp_all add: detect_gap_def geyser_example_def new_geyser_service_def example_geyser_def
        sat_add_def)
  from gap_is_sound [OF this] this(1) show ?thesis by auto
qed

text \<open>
  The last slot seen is the last slot received, not the highest: when an older slot arrives, the
  next slot in order is reported as a gap although every slot up to it had been seen.
\<close>
theorem older_slot_causes_false_gap:
  assumes "shl_last_slot_seen (gs_health s) = Some seen" and "su_slot follow = seen + 1"
    and "unat (su_slot old) + unat (gy_slot_gap_tolerance (gs_config s)) < unat seen"
    and "unat seen + 1 < 2 ^ 64"
  shows "\<exists>meta. OutDataGap meta (slot_gap (su_slot old + 1) seen) \<in>
    set (snd (process_slot P ids2 (fst (process_slot P ids1 s e1 old)) e2 follow))"
proof -
  have "unat (seen + 1) = unat seen + 1" using assms(4) by (simp add: unat_word_ariths)
  then have "sat_add (sat_add (su_slot old) (gy_slot_gap_tolerance (gs_config s))) 1 < seen + 1"
    using assms(3) by (simp add: width_simps)
  then show ?thesis
    using assms(2) by (auto simp: process_slot_def Let_def detect_gap_def)
qed

definition example_slot :: "u64 \<Rightarrow> slot_update" where
  "example_slot n = \<lparr>su_slot = n, su_parent = None, su_status = SlotProcessed, su_block_time = None\<rparr>"

theorem older_slot_causes_false_gap_witness:
  "\<exists>meta. OutDataGap meta (slot_gap 51 100) \<in>
    set (snd (process_slot \<lparr>ip_dec_one = 1 :: rat, ip_parse_pubkey = Some\<rparr> (3, 4)
      (fst (process_slot \<lparr>ip_dec_one = 1 :: rat, ip_parse_pubkey = Some\<rparr> (1, 2) geyser_example
        \<lparr>ge_received_at = 0, ge_observed_at_monotonic_ns = 0, ge_source_latency_ms = None,
         ge_message = MsgSlot (example_slot 50)\<rparr> (example_slot 50)))
      \<lparr>ge_received_at = 1, ge_observed_at_monotonic_ns = 1, ge_source_latency_ms = None,
       ge_message = MsgSlot (example_slot 101)\<rparr> (example_slot 101)))"
  using older_slot_causes_false_gap [where s = geyser_example and seen = 100
      and old = "example_slot 50" and follow = "example_slot 101"]
  by (simp add: geyser_example_def new_geyser_service_def example_geyser_def example_slot_def)

end
