(* ===== verification/Shred_Ingest.thy ===== *)
theory Shred_Ingest
  imports Events
begin

text \<open>
  The shred ingest service, \<open>crates/ingest-shred/src/lib.rs\<close>: tentative events from shred packets, and
  the reconciler that matches them with the canonical stream or expires them. The UDP receiver is left
  out. The atomic metric counters are one record of wrapping 64-bit counters; the decoder is the
  argument \<open>decode\<close> (the trait \<open>ShredDecoder\<close>). The conservation lemmas show that every tentative record
  is accounted for exactly once.
\<close>

subsection \<open>Packets and decoding\<close>

datatype shred_decode_error = Fixture string | DependencyUnavailable string | Unsupported string

datatype shred_ingest_error = ShredIo | ShredDecode shred_decode_error | InvalidPacket string

record received_packet =
  rp_data :: "u8 list"
  rp_peer_addr :: string
  rp_received_at :: instant
  rp_observed_at_monotonic_ns :: u64
  rp_packet_hash :: string

datatype 'd decoded_shred_payload =
    ShredTokenCreated "'d token_created_event"
  | ShredPumpBuy "'d pump_buy_event"
  | ShredPumpSell "'d pump_sell_event"
  | ShredGeneric "string option" "string list" usize usize

record 'd decoded_shred_transaction =
  dt_signature :: "string option"
  dt_tx_position_estimate :: "u32 option"
  dt_decode_confidence :: 'd
  dt_payload :: "'d decoded_shred_payload"

record 'd decoded_shred_batch =
  db_slot :: "u64 option"
  db_entry_index :: "u32 option"
  db_partial :: bool
  db_transactions :: "'d decoded_shred_transaction list"

type_synonym 'd shred_decoder =
  "received_packet \<Rightarrow> (shred_decode_error, 'd decoded_shred_batch) result"

definition msg_dependency :: string where
  "msg_dependency = ''real Solana shred decoding is gated behind external ledger/shred dependencies ''
     @ ''that are not compiled into this workspace yet''"

definition production_shred_decoder :: "'d shred_decoder" where
  "production_shred_decoder packet = Err (DependencyUnavailable msg_dependency)"

subsection \<open>Metrics\<close>

record shred_metrics =
  packets_received_total :: u64
  decode_success_total :: u64
  decode_failure_total :: u64
  events_tentative_total :: u64
  reconciliation_success_total :: u64
  reconciliation_failure_total :: u64
  geyser_without_shred_total :: u64
  false_positive_tentative_total :: u64
  missing_later_confirmed_total :: u64
  gap_count :: u64
  packet_drop_count :: u64
  queue_depth :: u64

definition shred_metrics_default :: shred_metrics where
  "shred_metrics_default =
    \<lparr>packets_received_total = 0, decode_success_total = 0, decode_failure_total = 0,
     events_tentative_total = 0, reconciliation_success_total = 0, reconciliation_failure_total = 0,
     geyser_without_shred_total = 0, false_positive_tentative_total = 0,
     missing_later_confirmed_total = 0, gap_count = 0, packet_drop_count = 0, queue_depth = 0\<rparr>"

subsection \<open>The reconciler\<close>

record reconciliation_result =
  rr_signature :: string
  rr_shred_to_geyser_delay_ms :: i64

record tentative_record =
  tr_inserted_at :: instant
  tr_signature :: "string option"
  tr_key :: string

record shred_reconciler =
  sr_ttl :: duration
  sr_records :: "string \<rightharpoonup> tentative_record"
  sr_expired_signatures :: "string set"
  sr_order :: "string list"

definition default_ttl :: duration where "default_ttl = duration_seconds 5"

definition new_shred_reconciler :: "duration \<Rightarrow> shred_reconciler" where
  "new_shred_reconciler ttl =
    \<lparr>sr_ttl = ttl, sr_records = (\<lambda>_. None), sr_expired_signatures = {}, sr_order = []\<rparr>"

fun payload_kind :: "'d event_payload \<Rightarrow> string" where
  "payload_kind (TokenCreated _) = ''token_created''"
| "payload_kind (PumpBuy _) = ''pump_buy''"
| "payload_kind (PumpSell _) = ''pump_sell''"
| "payload_kind (BondingCurveUpdate _) = ''bonding_curve_update''"
| "payload_kind (HolderBalanceUpdate _) = ''holder_balance_update''"
| "payload_kind (WalletFunding _) = ''wallet_funding''"
| "payload_kind (ObservedTransaction _) = ''observed_tx''"
| "payload_kind (TentativeSellIntentDetected _) = ''tentative_sell_intent_detected''"
| "payload_kind (TentativeMaliciousSellWarning _) = ''tentative_sell_warning''"
| "payload_kind (ShredEmergencyExitArmed _) = ''shred_exit_armed''"
| "payload_kind (ShredEmergencyExitTriggered _) = ''shred_exit_triggered''"
| "payload_kind (ShredSellIntentResolved _) = ''shred_sell_resolved''"
| "payload_kind (TokenTerminal _) = ''token_terminal''"
| "payload_kind (TradeDecision _) = ''trade_decision''"
| "payload_kind (SimulatedFill _) = ''sim_fill''"
| "payload_kind (LiveFill _) = ''live_fill''"
| "payload_kind (DataGapPayload _) = ''data_gap''"

definition signature_key :: "string \<Rightarrow> string" where
  "signature_key signature = ''sig:'' @ signature"

definition slot_kind_key :: "u64 \<Rightarrow> string \<Rightarrow> string" where
  "slot_kind_key slot kind = ''slot:'' @ show_nat (unat slot) @ '':kind:'' @ kind"

definition reconciliation_key :: "'d normalized_event \<Rightarrow> string" where
  "reconciliation_key e =
    (case event_signature e of
       Some signature \<Rightarrow> signature_key signature
     | None \<Rightarrow> slot_kind_key (em_slot (ne_meta e)) (payload_kind (ne_payload e)))"

definition record_tentative :: "shred_reconciler \<Rightarrow> 'd normalized_event \<Rightarrow> shred_reconciler" where
  "record_tentative r e =
    (let key = reconciliation_key e;
         entry = \<lparr>tr_inserted_at = em_received_at_wall_time (ne_meta e),
                  tr_signature = event_signature e, tr_key = key\<rparr>
     in r\<lparr>sr_records := (sr_records r)(key \<mapsto> entry), sr_order := sr_order r @ [key]\<rparr>)"

definition reconcile_canonical ::
  "shred_reconciler \<Rightarrow> shred_metrics \<Rightarrow> 'd normalized_event \<Rightarrow>
   shred_reconciler \<times> shred_metrics \<times> reconciliation_result option" where
  "reconcile_canonical r m e =
    (let key = reconciliation_key e in
     case sr_records r key of
       Some entry \<Rightarrow>
         (r\<lparr>sr_records := (sr_records r)(key := None)\<rparr>,
          m\<lparr>reconciliation_success_total := reconciliation_success_total m + 1\<rparr>,
          Some \<lparr>rr_signature = (case tr_signature entry of Some s \<Rightarrow> s | None \<Rightarrow> key),
                rr_shred_to_geyser_delay_ms = word_of_int
                  (whole_milliseconds (em_received_at_wall_time (ne_meta e) - tr_inserted_at entry))\<rparr>)
     | None \<Rightarrow>
         (case event_signature e of
            None \<Rightarrow> (r, m, None)
          | Some signature \<Rightarrow>
              if signature \<in> sr_expired_signatures r
              then (r\<lparr>sr_expired_signatures := sr_expired_signatures r - {signature}\<rparr>,
                    m\<lparr>missing_later_confirmed_total := missing_later_confirmed_total m + 1\<rparr>, None)
              else (r, m\<lparr>geyser_without_shred_total := geyser_without_shred_total m + 1\<rparr>, None)))"

text \<open>The loop of \<open>expire\<close> consumes the order from the front; \<open>order\<close> is what is left of it.\<close>

definition expire_one :: "tentative_record \<Rightarrow> string" where
  "expire_one entry = (case tr_signature entry of Some s \<Rightarrow> s | None \<Rightarrow> tr_key entry)"

fun expire_loop ::
  "instant \<Rightarrow> string list \<Rightarrow> shred_reconciler \<Rightarrow> shred_metrics \<Rightarrow>
   shred_reconciler \<times> shred_metrics \<times> string list" where
  "expire_loop now [] r m = (r\<lparr>sr_order := []\<rparr>, m, [])"
| "expire_loop now (front # order) r m =
    (case sr_records r front of
       None \<Rightarrow> expire_loop now order r m
     | Some entry \<Rightarrow>
         if now - tr_inserted_at entry < sr_ttl r then (r\<lparr>sr_order := front # order\<rparr>, m, [])
         else
           (let r1 = r\<lparr>sr_records := (sr_records r)(front := None),
                       sr_expired_signatures :=
                         (case tr_signature entry of
                            Some s \<Rightarrow> insert s (sr_expired_signatures r)
                          | None \<Rightarrow> sr_expired_signatures r)\<rparr>;
                m1 = m\<lparr>reconciliation_failure_total := reconciliation_failure_total m + 1,
                       false_positive_tentative_total := false_positive_tentative_total m + 1\<rparr>
            in case expire_loop now order r1 m1 of
                 (r2, m2, expired) \<Rightarrow> (r2, m2, expire_one entry # expired)))"

definition expire ::
  "instant \<Rightarrow> shred_reconciler \<Rightarrow> shred_metrics \<Rightarrow> shred_reconciler \<times> shred_metrics \<times> string list"
  where "expire now r m = expire_loop now (sr_order r) r m"

subsection \<open>The service\<close>

record shred_service =
  ss_reconciler :: shred_reconciler
  ss_metrics :: shred_metrics

definition tentative_meta ::
  "event_id \<Rightarrow> 'd \<Rightarrow> received_packet \<Rightarrow> 'd decoded_shred_batch \<Rightarrow> 'd decoded_shred_transaction \<Rightarrow>
   'd event_meta" where
  "tentative_meta fresh dec_one packet batch tx =
    (new_event_meta fresh dec_one ShredTentative canonicality.Tentative
       (case db_slot batch of None \<Rightarrow> 0 | Some slot \<Rightarrow> slot))
     \<lparr>em_received_at_wall_time := rp_received_at packet,
      em_observed_at_monotonic_ns := rp_observed_at_monotonic_ns packet,
      em_source_latency_ms := Some 0,
      em_signature := dt_signature tx,
      em_transaction_index := dt_tx_position_estimate tx,
      em_decode_confidence := dt_decode_confidence tx,
      em_data_quality_flags := (if db_partial batch then [PartialShred] else []),
      em_raw_reference := Some \<lparr>rr_source_id = rp_packet_hash packet,
        rr_cursor = Some (rp_peer_addr packet), rr_offset = map_option ucast (db_entry_index batch)\<rparr>\<rparr>"

definition tentative_payload ::
  "received_packet \<Rightarrow> 'd decoded_shred_batch \<Rightarrow> 'd decoded_shred_transaction \<Rightarrow> 'd event_payload" where
  "tentative_payload packet batch tx =
    (case dt_payload tx of
       ShredTokenCreated e \<Rightarrow> TokenCreated e
     | ShredPumpBuy e \<Rightarrow> PumpBuy e
     | ShredPumpSell e \<Rightarrow> PumpSell e
     | ShredGeneric signature_hint program_ids account_count instruction_count \<Rightarrow>
         ObservedTransaction
           \<lparr>ot_signature_hint = signature_hint, ot_slot_hint = db_slot batch,
            ot_entry_index = db_entry_index batch,
            ot_tx_position_estimate = dt_tx_position_estimate tx, ot_signer = None,
            ot_program_ids = program_ids, ot_account_count = account_count,
            ot_instruction_count = instruction_count, ot_account_list_hash = None,
            ot_instruction_shape_hash = None, ot_compute_unit_limit = None,
            ot_compute_unit_price = None, ot_estimated_priority_fee_lamports = None,
            ot_tx_fee_lamports = None, ot_compute_units_consumed = None,
            ot_pre_sol_balances_lamports = [], ot_post_sol_balances_lamports = [],
            ot_failed_transaction = False, ot_error_code = None, ot_bundle_like_evidence = None,
            ot_raw_packet_hash = rp_packet_hash packet,
            ot_first_seen_by_shred_ns = rp_observed_at_monotonic_ns packet,
            ot_decode_confidence = dt_decode_confidence tx\<rparr>)"

definition tentative_event ::
  "event_id \<Rightarrow> 'd \<Rightarrow> received_packet \<Rightarrow> 'd decoded_shred_batch \<Rightarrow> 'd decoded_shred_transaction \<Rightarrow>
   'd normalized_event" where
  "tentative_event fresh dec_one packet batch tx =
    \<lparr>ne_meta = tentative_meta fresh dec_one packet batch tx,
     ne_payload = tentative_payload packet batch tx\<rparr>"

definition record_event :: "'d normalized_event \<Rightarrow> shred_service \<Rightarrow> shred_service" where
  "record_event e s =
    s\<lparr>ss_reconciler := record_tentative (ss_reconciler s) e,
      ss_metrics := (ss_metrics s)\<lparr>events_tentative_total := events_tentative_total (ss_metrics s) + 1\<rparr>\<rparr>"

text \<open>\<open>fresh i\<close> is the identifier made for the \<open>i\<close>-th transaction of the packet.\<close>

definition process_packet ::
  "'d shred_decoder \<Rightarrow> (nat \<Rightarrow> event_id) \<Rightarrow> 'd \<Rightarrow> shred_service \<Rightarrow> received_packet \<Rightarrow>
   shred_service \<times> (shred_ingest_error, 'd normalized_event list) result" where
  "process_packet decode fresh dec_one s packet =
    (case decode packet of
       Inl err \<Rightarrow>
         (s\<lparr>ss_metrics := (ss_metrics s)\<lparr>decode_failure_total := decode_failure_total (ss_metrics s) + 1\<rparr>\<rparr>,
          Err (ShredDecode err))
     | Inr batch \<Rightarrow>
         (let m = (ss_metrics s)\<lparr>decode_success_total := decode_success_total (ss_metrics s) + 1\<rparr>;
              m = (if db_partial batch then m\<lparr>gap_count := gap_count m + 1\<rparr> else m);
              events = map (\<lambda>(i, tx). tentative_event (fresh i) dec_one packet batch tx)
                         (enumerate 0 (db_transactions batch))
          in (fold record_event events (s\<lparr>ss_metrics := m\<rparr>), Ok events)))"

definition service_reconcile ::
  "shred_service \<Rightarrow> 'd normalized_event \<Rightarrow> shred_service \<times> reconciliation_result option" where
  "service_reconcile s e =
    (case reconcile_canonical (ss_reconciler s) (ss_metrics s) e of
       (r, m, result) \<Rightarrow> (\<lparr>ss_reconciler = r, ss_metrics = m\<rparr>, result))"

definition expire_tentative :: "shred_service \<Rightarrow> instant \<Rightarrow> shred_service \<times> string list" where
  "expire_tentative s now =
    (case expire now (ss_reconciler s) (ss_metrics s) of
       (r, m, expired) \<Rightarrow> (\<lparr>ss_reconciler = r, ss_metrics = m\<rparr>, expired))"


subsection \<open>What every operation keeps\<close>

definition reconciler_inv :: "shred_reconciler \<Rightarrow> bool" where
  "reconciler_inv r \<longleftrightarrow> dom (sr_records r) \<subseteq> set (sr_order r) \<and>
    (\<forall>key entry. sr_records r key = Some entry \<longrightarrow> tr_key entry = key)"

definition pending :: "shred_reconciler \<Rightarrow> nat" where
  "pending r = card (dom (sr_records r))"

lemma reconciler_inv_finite: "reconciler_inv r \<Longrightarrow> finite (dom (sr_records r))"
  by (auto simp: reconciler_inv_def intro: finite_subset)

lemma pending_remove:
  "finite (dom (sr_records r)) \<Longrightarrow> sr_records r key = Some entry \<Longrightarrow>
    pending r = Suc (card (dom ((sr_records r)(key := None))))"
  using card_Suc_Diff1 [of "dom (sr_records r)" key] by (simp add: pending_def domI)

lemma reconciler_inv_record: "reconciler_inv r \<Longrightarrow> reconciler_inv (record_tentative r e)"
  by (auto simp: reconciler_inv_def record_tentative_def Let_def)

lemma pending_record:
  "reconciler_inv r \<Longrightarrow> pending (record_tentative r e) =
    pending r + (if sr_records r (reconciliation_key e) = None then 1 else 0)"
  using reconciler_inv_finite [of r]
  by (auto simp: pending_def record_tentative_def Let_def card_insert_if insert_absorb)

lemma reconcile_cases:
  obtains (matched) entry where "sr_records r (reconciliation_key e) = Some entry"
      and "reconcile_canonical r m e =
        (r\<lparr>sr_records := (sr_records r)(reconciliation_key e := None)\<rparr>,
         m\<lparr>reconciliation_success_total := reconciliation_success_total m + 1\<rparr>,
         snd (snd (reconcile_canonical r m e)))"
      and "snd (snd (reconcile_canonical r m e)) \<noteq> None"
  | (unmatched) sigs m' where "sr_records r (reconciliation_key e) = None"
      and "reconcile_canonical r m e = (r\<lparr>sr_expired_signatures := sigs\<rparr>, m', None)"
      and "reconciliation_success_total m' = reconciliation_success_total m"
      and "reconciliation_failure_total m' = reconciliation_failure_total m"
proof (cases "sr_records r (reconciliation_key e)")
  case (Some entry)
  then show ?thesis by (intro matched) (simp_all add: reconcile_canonical_def Let_def)
next
  case None
  have "reconcile_canonical r m e = (r\<lparr>sr_expired_signatures := sr_expired_signatures
      (fst (reconcile_canonical r m e))\<rparr>, fst (snd (reconcile_canonical r m e)), None)"
    using None by (simp add: reconcile_canonical_def Let_def split: option.split)
  then show ?thesis
    by (rule unmatched [OF None]) (simp_all add: reconcile_canonical_def None Let_def split: option.split)
qed

lemma reconcile_keeps:
  assumes "reconciler_inv r" and "reconcile_canonical r m e = (r', m', result)"
  shows "reconciler_inv r'"
    and "pending r = pending r' + (if result = None then 0 else 1)"
    and "reconciliation_success_total m' =
      reconciliation_success_total m + (if result = None then 0 else 1)"
    and "reconciliation_failure_total m' = reconciliation_failure_total m"
proof -
  have "reconciler_inv r' \<and> pending r = pending r' + (if result = None then 0 else 1) \<and>
    reconciliation_success_total m' =
      reconciliation_success_total m + (if result = None then 0 else 1) \<and>
    reconciliation_failure_total m' = reconciliation_failure_total m"
  proof (cases rule: reconcile_cases [of r e m])
    case (matched entry)
    with assms pending_remove [OF reconciler_inv_finite [OF assms(1)] matched(1)] show ?thesis
      by (auto simp: reconciler_inv_def pending_def)
  next
    case (unmatched sigs m'')
    with assms have "r' = r\<lparr>sr_expired_signatures := sigs\<rparr>" "m' = m''" "result = None" by auto
    with assms(1) unmatched show ?thesis by (simp add: reconciler_inv_def pending_def)
  qed
  then show "reconciler_inv r'"
    and "pending r = pending r' + (if result = None then 0 else 1)"
    and "reconciliation_success_total m' =
      reconciliation_success_total m + (if result = None then 0 else 1)"
    and "reconciliation_failure_total m' = reconciliation_failure_total m" by blast+
qed

lemma expire_loop_keeps:
  assumes "expire_loop now order r m = (r', m', expired)"
    and "reconciler_inv (r\<lparr>sr_order := order\<rparr>)"
  shows "reconciler_inv r' \<and> pending r = pending r' + length expired \<and>
    reconciliation_failure_total m' = reconciliation_failure_total m + of_nat (length expired) \<and>
    reconciliation_success_total m' = reconciliation_success_total m"
  using assms
proof (induction order arbitrary: r m r' m' expired)
  case Nil
  then show ?case by (auto simp: reconciler_inv_def pending_def)
next
  case (Cons front order)
  show ?case
  proof (cases "sr_records r front")
    case None
    with Cons.prems have "reconciler_inv (r\<lparr>sr_order := order\<rparr>)"
      by (auto simp: reconciler_inv_def dom_def)
    with Cons None show ?thesis by simp
  next
    case (Some entry)
    show ?thesis
    proof (cases "now - tr_inserted_at entry < sr_ttl r")
      case True
      with Cons.prems Some show ?thesis by (auto simp: pending_def)
    next
      case False
      define r1 where "r1 = r\<lparr>sr_records := (sr_records r)(front := None),
        sr_expired_signatures := (case tr_signature entry of
            Some s \<Rightarrow> insert s (sr_expired_signatures r) | None \<Rightarrow> sr_expired_signatures r)\<rparr>"
      define m1 where "m1 = m\<lparr>reconciliation_failure_total := reconciliation_failure_total m + 1,
        false_positive_tentative_total := false_positive_tentative_total m + 1\<rparr>"
      obtain r2 m2 rest where rest: "expire_loop now order r1 m1 = (r2, m2, rest)"
        by (metis prod_cases3)
      with Cons.prems(1) Some False have out: "r' = r2" "m' = m2" "expired = expire_one entry # rest"
        by (simp_all add: r1_def m1_def Let_def)
      have fin: "finite (dom (sr_records r))"
        using reconciler_inv_finite [OF Cons.prems(2)] by simp
      have "reconciler_inv (r1\<lparr>sr_order := order\<rparr>)"
        using Cons.prems(2) by (auto simp: reconciler_inv_def r1_def)
      from Cons.IH [OF rest this] pending_remove [OF fin Some] out show ?thesis
        by (simp add: pending_def r1_def m1_def)
    qed
  qed
qed

subsection \<open>Conservation\<close>

datatype 'd shred_op = OpRecord "'d normalized_event" | OpReconcile "'d normalized_event" | OpExpire instant

record shred_tally =
  opened :: nat
  matched :: nat
  expired :: nat

fun shred_step :: "'d shred_op \<Rightarrow> shred_service \<times> shred_tally \<Rightarrow> shred_service \<times> shred_tally" where
  "shred_step (OpRecord e) (s, t) =
    (record_event e s,
     t\<lparr>opened := opened t +
         (if sr_records (ss_reconciler s) (reconciliation_key e) = None then 1 else 0)\<rparr>)"
| "shred_step (OpReconcile e) (s, t) =
    (case service_reconcile s e of
       (s', result) \<Rightarrow> (s', t\<lparr>matched := matched t + (if result = None then 0 else 1)\<rparr>))"
| "shred_step (OpExpire now) (s, t) =
    (case expire_tentative s now of (s', gone) \<Rightarrow> (s', t\<lparr>expired := expired t + length gone\<rparr>))"

definition balanced :: "shred_service \<times> shred_tally \<Rightarrow> bool" where
  "balanced = (\<lambda>(s, t). reconciler_inv (ss_reconciler s) \<and>
     opened t = matched t + expired t + pending (ss_reconciler s) \<and>
     reconciliation_success_total (ss_metrics s) = of_nat (matched t) \<and>
     reconciliation_failure_total (ss_metrics s) = of_nat (expired t))"

lemma balanced_step: "balanced st \<Longrightarrow> balanced (shred_step op st)"
proof (cases st; cases op)
  fix s t e
  assume st: "st = (s, t)" "op = OpRecord e" and bal: "balanced st"
  then show ?thesis
    using reconciler_inv_record [of "ss_reconciler s" e] pending_record [of "ss_reconciler s" e]
    by (simp add: balanced_def record_event_def)
next
  fix s t e
  assume st: "st = (s, t)" "op = OpReconcile e" and bal: "balanced st"
  obtain r m result where run: "reconcile_canonical (ss_reconciler s) (ss_metrics s) e = (r, m, result)"
    by (metis prod_cases3)
  from st bal have "reconciler_inv (ss_reconciler s)" by (simp add: balanced_def)
  from reconcile_keeps [OF this run] st bal run show ?thesis
    by (simp add: balanced_def service_reconcile_def)
next
  fix s t now
  assume st: "st = (s, t)" "op = OpExpire now" and bal: "balanced st"
  obtain r m gone where run: "expire now (ss_reconciler s) (ss_metrics s) = (r, m, gone)"
    by (metis prod_cases3)
  from st bal have "reconciler_inv ((ss_reconciler s)\<lparr>sr_order := sr_order (ss_reconciler s)\<rparr>)"
    by (simp add: balanced_def)
  from expire_loop_keeps [OF run [unfolded expire_def] this] st bal run show ?thesis
    by (simp add: balanced_def expire_tentative_def)
qed

definition new_shred_service :: "duration \<Rightarrow> shred_service" where
  "new_shred_service ttl =
    \<lparr>ss_reconciler = new_shred_reconciler ttl, ss_metrics = shred_metrics_default\<rparr>"

definition empty_tally :: shred_tally where
  "empty_tally = \<lparr>opened = 0, matched = 0, expired = 0\<rparr>"

lemma balanced_new: "balanced (new_shred_service ttl, empty_tally)"
  by (simp add: balanced_def new_shred_service_def empty_tally_def new_shred_reconciler_def
      reconciler_inv_def pending_def shred_metrics_default_def)


text \<open>
  A tentative record is matched at most once: reconciling the same canonical event again finds
  nothing.
\<close>
theorem reconciled_once:
  "snd (service_reconcile (fst (service_reconcile s e)) e) = None"
proof (cases rule: reconcile_cases [of "ss_reconciler s" e "ss_metrics s"])
  case (matched entry)
  have "fst (service_reconcile s e) = \<lparr>ss_reconciler = (ss_reconciler s)
      \<lparr>sr_records := (sr_records (ss_reconciler s))(reconciliation_key e := None)\<rparr>,
    ss_metrics = (ss_metrics s)\<lparr>reconciliation_success_total :=
      reconciliation_success_total (ss_metrics s) + 1\<rparr>\<rparr>"
    unfolding service_reconcile_def by (subst matched(2)) simp
  then show ?thesis
    by (simp add: service_reconcile_def reconcile_canonical_def Let_def split: option.split)
next
  case (unmatched sigs m')
  then have "fst (service_reconcile s e) =
      \<lparr>ss_reconciler = (ss_reconciler s)\<lparr>sr_expired_signatures := sigs\<rparr>, ss_metrics = m'\<rparr>"
    by (simp add: service_reconcile_def)
  with unmatched(1) show ?thesis
    by (simp add: service_reconcile_def reconcile_canonical_def Let_def split: option.split)
qed


subsection \<open>Expiry\<close>

definition stale :: "instant \<Rightarrow> duration \<Rightarrow> tentative_record \<Rightarrow> bool" where
  "stale now ttl entry \<longleftrightarrow> ttl \<le> now - tr_inserted_at entry"

lemma expire_loop_young:
  "expire_loop now order r m = (r', m', gone) \<Longrightarrow> sr_records r key = Some entry \<Longrightarrow>
    \<not> stale now (sr_ttl r) entry \<Longrightarrow> sr_records r' key = Some entry"
proof (induction order arbitrary: r m gone)
  case (Cons front order)
  show ?case
  proof (cases "sr_records r front")
    case None
    with Cons show ?thesis by simp
  next
    case (Some e)
    show ?thesis
    proof (cases "now - tr_inserted_at e < sr_ttl r")
      case True
      with Cons.prems Some show ?thesis by auto
    next
      case False
      with Some Cons.prems(2,3) have "front \<noteq> key" by (auto simp: stale_def)
      define r1 where "r1 = r\<lparr>sr_records := (sr_records r)(front := None),
        sr_expired_signatures := (case tr_signature e of
            Some s \<Rightarrow> insert s (sr_expired_signatures r) | None \<Rightarrow> sr_expired_signatures r)\<rparr>"
      obtain m1 gone1 where "expire_loop now order r1 m1 = (r', m', gone1)"
        using Cons.prems(1) Some False by (auto simp: r1_def Let_def split: prod.splits)
      from Cons.IH [OF this] Cons.prems(2,3) \<open>front \<noteq> key\<close> show ?thesis by (simp add: r1_def)
    qed
  qed
qed auto

lemma expire_loop_all:
  "expire_loop now order r m = (r', m', gone) \<Longrightarrow> dom (sr_records r) \<subseteq> set order \<Longrightarrow>
    (\<And>key entry. sr_records r key = Some entry \<Longrightarrow> stale now (sr_ttl r) entry) \<Longrightarrow>
    sr_records r' = (\<lambda>_. None)"
proof (induction order arbitrary: r m gone)
  case Nil
  then show ?case by (auto simp: fun_eq_iff dom_def)
next
  case (Cons front order)
  show ?case
  proof (cases "sr_records r front")
    case None
    with Cons.prems(2) have "dom (sr_records r) \<subseteq> set order" by (auto simp: dom_def)
    with Cons None show ?thesis by simp
  next
    case (Some e)
    with Cons.prems(3) have old: "\<not> now - tr_inserted_at e < sr_ttl r" by (fastforce simp: stale_def)
    define r1 where "r1 = r\<lparr>sr_records := (sr_records r)(front := None),
        sr_expired_signatures := (case tr_signature e of
            Some s \<Rightarrow> insert s (sr_expired_signatures r) | None \<Rightarrow> sr_expired_signatures r)\<rparr>"
    obtain m1 gone1 where run: "expire_loop now order r1 m1 = (r', m', gone1)"
      using Cons.prems(1) Some old by (auto simp: r1_def Let_def split: prod.splits)
    have "dom (sr_records r1) \<subseteq> set order" using Cons.prems(2) by (auto simp: r1_def)
    moreover have "stale now (sr_ttl r1) entry" if "sr_records r1 key = Some entry" for key entry
      using Cons.prems(3) that by (auto simp: r1_def split: if_splits)
    ultimately show ?thesis by (rule Cons.IH [OF run])
  qed
qed

text \<open>
  Expiry takes only records that have reached their time to live, and once every pending record
  has, it takes all of them: no record of a reachable reconciler is left behind by the queue.
\<close>
theorem expiry_exact:
  assumes "expire now r m = (r', m', gone)" and "reconciler_inv r"
  shows "(\<forall>key entry. sr_records r key = Some entry \<longrightarrow> \<not> stale now (sr_ttl r) entry \<longrightarrow>
      sr_records r' key = Some entry) \<and>
    ((\<forall>key entry. sr_records r key = Some entry \<longrightarrow> stale now (sr_ttl r) entry) \<longrightarrow>
      sr_records r' = (\<lambda>_. None) \<and> length gone = pending r)"
proof -
  note run = assms(1) [unfolded expire_def]
  have "reconciler_inv (r\<lparr>sr_order := sr_order r\<rparr>)" using assms(2) by simp
  from expire_loop_keeps [OF run this] have "pending r = pending r' + length gone" by blast
  then have "length gone = pending r" if "sr_records r' = (\<lambda>_. None)"
    using that by (simp add: pending_def)
  with expire_loop_young [OF run] expire_loop_all [OF run] assms(2) show ?thesis
    by (auto simp: reconciler_inv_def)
qed

definition example_reconciler :: shred_reconciler where
  "example_reconciler = \<lparr>sr_ttl = 5, sr_records = [''sig:a'' \<mapsto>
     \<lparr>tr_inserted_at = 0, tr_signature = Some ''a'', tr_key = ''sig:a''\<rparr>],
     sr_expired_signatures = {}, sr_order = [''sig:a'']\<rparr>"

theorem expiry_exact_witness:
  "sr_records (fst (expire 9 example_reconciler shred_metrics_default)) = (\<lambda>_. None)"
proof -
  obtain r' m' gone where run: "expire 9 example_reconciler shred_metrics_default = (r', m', gone)"
    by (metis prod_cases3)
  have "reconciler_inv example_reconciler"
    by (simp add: reconciler_inv_def example_reconciler_def)
  from expiry_exact [OF run this] run show ?thesis
    by (simp add: example_reconciler_def stale_def)
qed

text \<open>
  A record at the front of the queue that was refreshed holds back everything behind it: when an
  event with the key at the front is recorded again and is still young, expiry releases nothing,
  however old the other records are.
\<close>
theorem refreshed_front_blocks_expiry:
  assumes "sr_order r = reconciliation_key e # later"
    and "now - em_received_at_wall_time (ne_meta e) < sr_ttl r"
  shows "snd (snd (expire now (record_tentative r e) m)) = [] \<and>
    sr_records (fst (expire now (record_tentative r e) m)) = sr_records (record_tentative r e)"
  using assms by (simp add: expire_def record_tentative_def Let_def)

subsection \<open>Packets\<close>

lemma record_event_records:
  "dom (sr_records (ss_reconciler (fold record_event events s))) =
    reconciliation_key ` set events \<union> dom (sr_records (ss_reconciler s))"
  by (induction events arbitrary: s) (auto simp: record_event_def record_tentative_def Let_def)

text \<open>
  Everything a shred packet yields is tentative and pending: each event of an accepted packet is
  marked tentative and from the shred source, and the reconciler holds a record under its key.
\<close>
theorem packet_events_tentative:
  assumes "process_packet decode fresh dec_one s packet = (s', Ok events)"
  shows "\<forall>e\<in>set events. em_canonicality (ne_meta e) = canonicality.Tentative \<and>
    em_source (ne_meta e) = ShredTentative \<and>
    reconciliation_key e \<in> dom (sr_records (ss_reconciler s'))"
proof -
  from assms obtain batch m where
    s': "s' = fold record_event events (s\<lparr>ss_metrics := m\<rparr>)" and
    events: "events = map (\<lambda>(i, tx). tentative_event (fresh i) dec_one packet batch tx)
      (enumerate 0 (db_transactions batch))"
    by (auto simp: process_packet_def Let_def split: sum.splits)
  have "em_canonicality (ne_meta e) = canonicality.Tentative \<and> em_source (ne_meta e) = ShredTentative"
    if "e \<in> set events" for e
    using that by (auto simp: events tentative_event_def tentative_meta_def new_event_meta_def)
  then show ?thesis by (simp add: s' record_event_records)
qed

definition example_packet :: received_packet where
  "example_packet = \<lparr>rp_data = [1], rp_peer_addr = ''127.0.0.1:9'', rp_received_at = 8,
     rp_observed_at_monotonic_ns = 8, rp_packet_hash = ''h''\<rparr>"

definition example_batch :: "nat decoded_shred_batch" where
  "example_batch = \<lparr>db_slot = Some 7, db_entry_index = None, db_partial = False,
     db_transactions = [\<lparr>dt_signature = Some ''a'', dt_tx_position_estimate = None,
       dt_decode_confidence = 1, dt_payload = ShredGeneric None [''pump''] 3 1\<rparr>]\<rparr>"

definition example_event :: "nat normalized_event" where
  "example_event =
    tentative_event 0 1 example_packet example_batch (hd (db_transactions example_batch))"

theorem packet_events_tentative_witness:
  "reconciliation_key example_event \<in> dom (sr_records (ss_reconciler
    (fst (process_packet (\<lambda>_. Ok example_batch) (\<lambda>_. 0) 1 (new_shred_service 5) example_packet))))"
proof -
  obtain s' where "process_packet (\<lambda>_. Ok example_batch) (\<lambda>_. 0) 1 (new_shred_service 5) example_packet
      = (s', Ok [example_event])"
    by (simp add: process_packet_def Let_def example_event_def example_batch_def)
  from packet_events_tentative [OF this] this show ?thesis by simp
qed

theorem refreshed_front_blocks_expiry_witness:
  "snd (snd (expire 9 (record_tentative example_reconciler example_event) shred_metrics_default)) = []"
  using refreshed_front_blocks_expiry [of example_reconciler example_event "[]" 9 shred_metrics_default]
  by (simp add: example_reconciler_def example_event_def tentative_event_def tentative_meta_def
      example_packet_def example_batch_def new_event_meta_def reconciliation_key_def
      event_signature_def signature_key_def)

end
