(* ===== verification/Event_Bus.thy ===== *)
theory Event_Bus
  imports Prelude
begin

text \<open>
  The three-priority event bus of \<open>crates/event-bus/src/lib.rs\<close>. Tokio's bounded channel is third-party
  code: its operations are the record \<open>channel_ops\<close>, an argument of every definition, and
  \<open>fifo_channel\<close> states its documented behaviour, a bounded first-in first-out queue.
\<close>

datatype priority = PriorityHigh | PriorityNormal | PriorityLow

datatype event_bus_error = BusFull | BusClosed

datatype try_send_error = SendFull | SendClosed

record ('q, 't) channel_ops =
  ch_make :: "usize \<Rightarrow> 'q"
  ch_try_send :: "'t \<Rightarrow> 'q \<Rightarrow> (try_send_error, 'q) result"
  ch_try_recv :: "'q \<Rightarrow> ('t \<times> 'q) option"
  ch_len :: "'q \<Rightarrow> usize"

record 'q event_bus =
  bus_high :: 'q
  bus_normal :: 'q
  bus_low :: 'q

definition bounded :: "('q, 't) channel_ops \<Rightarrow> usize \<Rightarrow> 'q event_bus" where
  "bounded C capacity =
    \<lparr>bus_high = ch_make C capacity, bus_normal = ch_make C capacity, bus_low = ch_make C capacity\<rparr>"

definition bus_len :: "('q, 't) channel_ops \<Rightarrow> 'q event_bus \<Rightarrow> usize" where
  "bus_len C b = ch_len C (bus_high b) + ch_len C (bus_normal b) + ch_len C (bus_low b)"

text \<open>
  \<open>recv\<close> polls the channels in order of priority; \<open>None\<close> is a receive that waits: the bus holds a
  sender of each channel, so none is closed while it exists.
\<close>

definition recv :: "('q, 't) channel_ops \<Rightarrow> 'q event_bus \<Rightarrow> ('t \<times> 'q event_bus) option" where
  "recv C b =
    (case ch_try_recv C (bus_high b) of
       Some (item, q) \<Rightarrow> Some (item, b\<lparr>bus_high := q\<rparr>)
     | None \<Rightarrow>
    (case ch_try_recv C (bus_normal b) of
       Some (item, q) \<Rightarrow> Some (item, b\<lparr>bus_normal := q\<rparr>)
     | None \<Rightarrow>
    (case ch_try_recv C (bus_low b) of
       Some (item, q) \<Rightarrow> Some (item, b\<lparr>bus_low := q\<rparr>)
     | None \<Rightarrow> None)))"

fun bus_channel :: "priority \<Rightarrow> 'q event_bus \<Rightarrow> 'q" where
  "bus_channel PriorityHigh b = bus_high b"
| "bus_channel PriorityNormal b = bus_normal b"
| "bus_channel PriorityLow b = bus_low b"

fun set_channel :: "priority \<Rightarrow> 'q \<Rightarrow> 'q event_bus \<Rightarrow> 'q event_bus" where
  "set_channel PriorityHigh q b = b\<lparr>bus_high := q\<rparr>"
| "set_channel PriorityNormal q b = b\<lparr>bus_normal := q\<rparr>"
| "set_channel PriorityLow q b = b\<lparr>bus_low := q\<rparr>"

fun bus_error :: "try_send_error \<Rightarrow> event_bus_error" where
  "bus_error SendClosed = BusClosed"
| "bus_error SendFull = BusFull"

definition try_publish ::
  "('q, 't) channel_ops \<Rightarrow> priority \<Rightarrow> 't \<Rightarrow> 'q event_bus \<Rightarrow> (event_bus_error, 'q event_bus) result" where
  "try_publish C p message b =
    (case ch_try_send C message (bus_channel p b) of
       Inl e \<Rightarrow> Err (bus_error e)
     | Inr q \<Rightarrow> Ok (set_channel p q b))"

subsection \<open>The channel contract\<close>

definition fifo_channel ::
  "('q, 't) channel_ops \<Rightarrow> usize \<Rightarrow> ('q \<Rightarrow> 't list) \<Rightarrow> bool" where
  "fifo_channel C capacity contents \<longleftrightarrow>
    contents (ch_make C capacity) = [] \<and>
    (\<forall>q. ch_try_recv C q = None \<longleftrightarrow> contents q = []) \<and>
    (\<forall>q item q'. ch_try_recv C q = Some (item, q') \<longrightarrow> contents q = item # contents q') \<and>
    (\<forall>q item q'. ch_try_send C item q = Ok q' \<longrightarrow>
       contents q' = contents q @ [item] \<and> length (contents q) < unat capacity)"

text \<open>What an observer of one priority sees of a run: what was accepted and what was delivered.\<close>

datatype 't bus_op = Publish priority 't | Receive

record ('q, 't) bus_trace =
  bt_bus :: "'q event_bus"
  bt_accepted :: "(priority \<times> 't) list"
  bt_delivered :: "(priority \<times> 't) list"

definition next_priority :: "('q \<Rightarrow> 't list) \<Rightarrow> 'q event_bus \<Rightarrow> priority" where
  "next_priority contents b =
    (if contents (bus_high b) \<noteq> [] then PriorityHigh
     else if contents (bus_normal b) \<noteq> [] then PriorityNormal else PriorityLow)"

fun bus_step ::
  "('q, 't) channel_ops \<Rightarrow> ('q \<Rightarrow> 't list) \<Rightarrow> 't bus_op \<Rightarrow> ('q, 't) bus_trace \<Rightarrow> ('q, 't) bus_trace" where
  "bus_step C contents (Publish p item) t =
    (case try_publish C p item (bt_bus t) of
       Inl e \<Rightarrow> t
     | Inr b \<Rightarrow> t\<lparr>bt_bus := b, bt_accepted := bt_accepted t @ [(p, item)]\<rparr>)"
| "bus_step C contents Receive t =
    (case recv C (bt_bus t) of
       None \<Rightarrow> t
     | Some (item, b) \<Rightarrow>
         t\<lparr>bt_bus := b,
           bt_delivered := bt_delivered t @ [(next_priority contents (bt_bus t), item)]\<rparr>)"

definition of_priority :: "priority \<Rightarrow> (priority \<times> 't) list \<Rightarrow> 't list" where
  "of_priority p xs = map snd (filter (\<lambda>x. fst x = p) xs)"

definition trace_ok :: "('q \<Rightarrow> 't list) \<Rightarrow> usize \<Rightarrow> ('q, 't) bus_trace \<Rightarrow> bool" where
  "trace_ok contents capacity t \<longleftrightarrow>
    (\<forall>p. of_priority p (bt_accepted t) =
         of_priority p (bt_delivered t) @ contents (bus_channel p (bt_bus t)) \<and>
       length (contents (bus_channel p (bt_bus t))) \<le> unat capacity)"

lemma of_priority_simps [simp]:
  "of_priority p [] = []"
  "of_priority p (xs @ ys) = of_priority p xs @ of_priority p ys"
  "of_priority p [(q, x)] = (if q = p then [x] else [])"
  by (simp_all add: of_priority_def)

lemma bus_channel_set [simp]:
  "bus_channel p (set_channel q c b) = (if p = q then c else bus_channel p b)"
  by (cases p; cases q) simp_all

lemma recv_cases:
  assumes "fifo_channel C capacity contents" and "recv C b = Some (item, b')"
  defines "p \<equiv> next_priority contents b"
  obtains q where "contents (bus_channel p b) = item # contents q" and "b' = set_channel p q b"
proof -
  have none: "\<And>q. ch_try_recv C q = None \<longleftrightarrow> contents q = []"
    and some: "\<And>q item q'. ch_try_recv C q = Some (item, q') \<Longrightarrow> contents q = item # contents q'"
    using assms(1) by (auto simp: fifo_channel_def)
  show ?thesis
  proof (cases "contents (bus_high b) = []"; cases "contents (bus_normal b) = []")
    assume h: "contents (bus_high b) = []" and n: "contents (bus_normal b) = []"
    with assms(2) obtain q where "ch_try_recv C (bus_low b) = Some (item, q)" "b' = b\<lparr>bus_low := q\<rparr>"
      by (auto simp: recv_def none [symmetric] split: option.splits)
    with h n some that show ?thesis by (fastforce simp: p_def next_priority_def)
  next
    assume h: "contents (bus_high b) = []" and n: "contents (bus_normal b) \<noteq> []"
    with assms(2) obtain q where "ch_try_recv C (bus_normal b) = Some (item, q)" "b' = b\<lparr>bus_normal := q\<rparr>"
      by (auto simp: recv_def none [symmetric] split: option.splits)
    with h n some that show ?thesis by (fastforce simp: p_def next_priority_def)
  next
    assume h: "contents (bus_high b) \<noteq> []"
    with assms(2) obtain q where "ch_try_recv C (bus_high b) = Some (item, q)" "b' = b\<lparr>bus_high := q\<rparr>"
      by (auto simp: recv_def none [symmetric] split: option.splits)
    with h some that show ?thesis by (fastforce simp: p_def next_priority_def)
  next
    assume h: "contents (bus_high b) \<noteq> []"
    with assms(2) obtain q where "ch_try_recv C (bus_high b) = Some (item, q)" "b' = b\<lparr>bus_high := q\<rparr>"
      by (auto simp: recv_def none [symmetric] split: option.splits)
    with h some that show ?thesis by (fastforce simp: p_def next_priority_def)
  qed
qed

lemma bus_step_ok:
  assumes fifo: "fifo_channel C capacity contents" and ok: "trace_ok contents capacity t"
  shows "trace_ok contents capacity (bus_step C contents op t)"
proof (cases op)
  case (Publish p item)
  show ?thesis
  proof (cases "ch_try_send C item (bus_channel p (bt_bus t))")
    case (Inr q)
    with fifo have "contents q = contents (bus_channel p (bt_bus t)) @ [item]"
      and "length (contents (bus_channel p (bt_bus t))) < unat capacity"
      by (auto simp: fifo_channel_def)
    with ok Publish Inr show ?thesis by (auto simp: trace_ok_def try_publish_def)
  qed (use ok Publish in \<open>simp add: try_publish_def\<close>)
next
  case Receive
  show ?thesis
  proof (cases "recv C (bt_bus t)")
    case (Some r)
    then obtain item b where r: "recv C (bt_bus t) = Some (item, b)" by (cases r) auto
    from recv_cases [OF fifo r] obtain q where
      "contents (bus_channel (next_priority contents (bt_bus t)) (bt_bus t)) = item # contents q"
      "b = set_channel (next_priority contents (bt_bus t)) q (bt_bus t)" by blast
    with ok Receive r show ?thesis by (auto simp: trace_ok_def) (metis Suc_leD length_Cons)
  qed (use ok Receive in simp)
qed

text \<open>
  C40. The bus loses, duplicates and reorders nothing within a priority: after any sequence of publishes
  and receives, the messages accepted at a priority are, in order, those delivered followed by those
  still queued, and no queue is longer than its capacity.
\<close>
theorem bus_keeps_order:
  assumes "fifo_channel C capacity contents"
  shows "trace_ok contents capacity (fold (bus_step C contents) ops
    \<lparr>bt_bus = bounded C capacity, bt_accepted = [], bt_delivered = []\<rparr>)"
proof (rule fold_keeps [where P = "trace_ok contents capacity"])
  have "contents (bus_channel p (bounded C capacity)) = []" for p
    using assms by (cases p) (simp_all add: bounded_def fifo_channel_def)
  then show "trace_ok contents capacity
      \<lparr>bt_bus = bounded C capacity, bt_accepted = [], bt_delivered = []\<rparr>"
    by (simp add: trace_ok_def)
qed (rule bus_step_ok [OF assms])

text \<open>
  A receive never overtakes: it delivers a message of a lower priority only when no message of a
  higher priority is queued, and it waits only when nothing is queued at all.
\<close>
theorem recv_respects_priority:
  assumes "fifo_channel C capacity contents"
  shows "(case recv C b of
      None \<Rightarrow> contents (bus_high b) = [] \<and> contents (bus_normal b) = [] \<and> contents (bus_low b) = []
    | Some (item, b') \<Rightarrow>
        (if contents (bus_high b) \<noteq> [] then item = hd (contents (bus_high b))
         else if contents (bus_normal b) \<noteq> [] then item = hd (contents (bus_normal b))
         else item = hd (contents (bus_low b))))"
proof (cases "recv C b")
  case None
  have none: "\<And>q. ch_try_recv C q = None \<longleftrightarrow> contents q = []"
    using assms by (simp add: fifo_channel_def)
  from None have "ch_try_recv C (bus_high b) = None" "ch_try_recv C (bus_normal b) = None"
    "ch_try_recv C (bus_low b) = None"
    by (auto simp: recv_def split: option.splits)
  with None show ?thesis by (simp add: none)
next
  case (Some r)
  then obtain item b' where r: "recv C b = Some (item, b')" by (cases r) auto
  from recv_cases [OF assms r] obtain q where
    "contents (bus_channel (next_priority contents b) b) = item # contents q" by metis
  then have "hd (contents (bus_channel (next_priority contents b) b)) = item" by simp
  then show ?thesis by (simp add: r next_priority_def split: if_split_asm)
qed

subsection \<open>A list-backed channel\<close>

definition list_channel :: "nat \<Rightarrow> ('t list, 't) channel_ops" where
  "list_channel n = \<lparr>ch_make = (\<lambda>capacity. []),
     ch_try_send = (\<lambda>item xs. if length xs < n then Ok (xs @ [item]) else Err SendFull),
     ch_try_recv = (\<lambda>xs. case xs of [] \<Rightarrow> None | x # rest \<Rightarrow> Some (x, rest)),
     ch_len = (\<lambda>xs. of_nat (length xs))\<rparr>"

lemma list_channel_fifo: "fifo_channel (list_channel (unat capacity)) capacity (\<lambda>xs. xs)"
  by (auto simp: fifo_channel_def list_channel_def split: list.splits if_splits)

definition example_ops :: "nat bus_op list" where
  "example_ops = [Publish PriorityLow 1, Publish PriorityHigh 2, Publish PriorityHigh 3,
     Publish PriorityHigh 4, Receive, Receive, Publish PriorityLow 5, Receive]"

definition example_run :: "(nat list, nat) bus_trace" where
  "example_run = fold (bus_step (list_channel 2) (\<lambda>xs. xs)) example_ops
     \<lparr>bt_bus = bounded (list_channel 2) 2, bt_accepted = [], bt_delivered = []\<rparr>"

lemma example_run_value:
  "bt_delivered example_run = [(PriorityHigh, 2), (PriorityHigh, 3), (PriorityLow, 1)]"
  "bus_low (bt_bus example_run) = [5]"
  by code_simp+

theorem bus_keeps_order_witness: "trace_ok (\<lambda>xs. xs) 2 example_run"
  using bus_keeps_order [OF list_channel_fifo, of 2 example_ops] by (simp add: example_run_def)

theorem recv_respects_priority_witness:
  "(case recv (list_channel 2) \<lparr>bus_high = [], bus_normal = [7, 8], bus_low = [9::nat]\<rparr> of
      None \<Rightarrow> False | Some (item, b) \<Rightarrow> item = 7)"
  using recv_respects_priority [OF list_channel_fifo [of 2],
      where b = "\<lparr>bus_high = [], bus_normal = [7, 8], bus_low = [9::nat]\<rparr>"]
  by (simp add: recv_def list_channel_def)

end
