(* ===== verification/Decimal_Math.thy ===== *)
theory Decimal_Math
  imports Prelude
begin

text \<open>
  The unit conversions of \<open>crates/common/src/math.rs\<close>. \<open>rust_decimal::Decimal\<close> is third-party code; the
  accounting of the program is stated over an ordered field \<open>'d\<close>, that is for exact arithmetic: the
  library rounds to 28 significant digits and panics on overflow. A division by zero panics, so a
  conversion that may divide by zero is an \<open>option\<close>, with \<open>None\<close> for the panic.
\<close>

definition decimal_from :: "u64 \<Rightarrow> 'd::linordered_field" where
  "decimal_from n = of_nat (unat n)"

text \<open>\<open>decimal m e\<close> is \<open>Decimal::new(m, e)\<close>, the number with mantissa \<open>m\<close> and \<open>e\<close> decimal places.\<close>

definition decimal :: "int \<Rightarrow> nat \<Rightarrow> 'd::linordered_field" where
  "decimal m e = of_int m / 10 ^ e"

definition clamp :: "'d::linordered_field \<Rightarrow> 'd \<Rightarrow> 'd \<Rightarrow> 'd" where
  "clamp lo hi x = (if x < lo then lo else if hi < x then hi else x)"

definition lamports_per_sol :: u64 where "lamports_per_sol = 1000000000"
definition default_pump_token_decimals :: u8 where "default_pump_token_decimals = 6"
definition pump_total_supply_ui :: u64 where "pump_total_supply_ui = 1000000000"
definition pump_reserved_tokens_ui :: u64 where "pump_reserved_tokens_ui = 206900000"
definition pump_initial_real_token_reserves_ui :: u64 where
  "pump_initial_real_token_reserves_ui = 793100000"

definition lamports_saturating_add :: "u64 \<Rightarrow> u64 \<Rightarrow> u64" where
  "lamports_saturating_add a b = sat_add a b"

definition bps_to_decimal :: "u64 \<Rightarrow> 'd::linordered_field" where
  "bps_to_decimal bps = decimal_from bps / decimal_from 10000"

text \<open>\<open>10u64.pow(n)\<close> wraps in a release build: it is the power modulo \<open>2 ^ 64\<close>.\<close>

definition decimal_pow10 :: "u8 \<Rightarrow> 'd::linordered_field" where
  "decimal_pow10 decimals = decimal_from (10 ^ unat decimals)"

definition raw_tokens_to_ui :: "'d::linordered_field \<Rightarrow> u8 \<Rightarrow> 'd option" where
  "raw_tokens_to_ui raw decimals =
    (if decimal_pow10 decimals = (0::'d) then None else Some (raw / decimal_pow10 decimals))"

definition ui_tokens_to_raw :: "'d::linordered_field \<Rightarrow> u8 \<Rightarrow> 'd" where
  "ui_tokens_to_raw ui decimals = ui * decimal_pow10 decimals"

definition lamports_to_sol :: "'d::linordered_field \<Rightarrow> 'd" where
  "lamports_to_sol lamports = lamports / decimal_from lamports_per_sol"

definition sol_to_lamports :: "'d::linordered_field \<Rightarrow> 'd" where
  "sol_to_lamports sol = sol * decimal_from lamports_per_sol"

definition price_lamports_per_raw_token :: "'d::linordered_field \<Rightarrow> 'd \<Rightarrow> 'd option" where
  "price_lamports_per_raw_token quote_lamports raw_tokens =
    (if quote_lamports > 0 \<and> raw_tokens > 0 then Some (quote_lamports / raw_tokens) else None)"

text \<open>The outer \<open>option\<close> is the panic, the inner one the answer.\<close>

definition price_sol_per_ui_token ::
  "'d::linordered_field \<Rightarrow> 'd \<Rightarrow> u8 \<Rightarrow> 'd option option" where
  "price_sol_per_ui_token quote_lamports raw_tokens decimals =
    (let quote_sol = lamports_to_sol quote_lamports in
     map_option (\<lambda>tokens_ui.
       if quote_sol > 0 \<and> tokens_ui > 0 then Some (quote_sol / tokens_ui) else None)
     (raw_tokens_to_ui raw_tokens decimals))"

definition pump_virtual_reserve_price_sol_per_token ::
  "'d::linordered_field \<Rightarrow> 'd \<Rightarrow> u8 \<Rightarrow> 'd option option" where
  "pump_virtual_reserve_price_sol_per_token virtual_quote_lamports virtual_token_raw decimals =
    price_sol_per_ui_token virtual_quote_lamports virtual_token_raw decimals"

definition pump_market_cap_quote_1b :: "'d::linordered_field \<Rightarrow> 'd" where
  "pump_market_cap_quote_1b price_quote_per_token =
    price_quote_per_token * decimal_from pump_total_supply_ui"

definition pump_market_cap_quote_total_supply :: "'d::linordered_field \<Rightarrow> 'd \<Rightarrow> 'd" where
  "pump_market_cap_quote_total_supply price_quote_per_token curve_economic_supply_ui =
    price_quote_per_token * curve_economic_supply_ui"

definition pump_curve_progress_ui :: "'d::linordered_field \<Rightarrow> 'd option" where
  "pump_curve_progress_ui balance_ui =
    (let reserved = decimal_from pump_reserved_tokens_ui;
         initial = decimal_from pump_initial_real_token_reserves_ui in
     if initial \<le> 0 then None else
     let remaining_above_reserved = max (balance_ui - reserved) 0 in
     Some (clamp 0 (decimal_from 100)
       (decimal_from 100 - remaining_above_reserved * decimal_from 100 / initial)))"

definition pump_curve_progress_raw :: "'d::linordered_field \<Rightarrow> u8 \<Rightarrow> 'd option option" where
  "pump_curve_progress_raw real_token_reserves_raw decimals =
    map_option pump_curve_progress_ui (raw_tokens_to_ui real_token_reserves_raw decimals)"

definition fill_price_to_reserve_ratio :: "'d::linordered_field \<Rightarrow> 'd \<Rightarrow> 'd option" where
  "fill_price_to_reserve_ratio fill_price reserve_price =
    (if fill_price > 0 \<and> reserve_price > 0 then Some (fill_price / reserve_price) else None)"

subsection \<open>Their ranges\<close>

lemma decimal_from_nonneg [simp]: "0 \<le> decimal_from n"
  unfolding decimal_from_def by (rule of_nat_0_le_iff)

lemma decimal_from_zero [simp]: "decimal_from 0 = 0"
  by (simp add: decimal_from_def)

lemma decimal_from_one [simp]: "decimal_from 1 = 1"
  by (simp add: decimal_from_def)

lemma decimal_from_mono: "a \<le> b \<Longrightarrow> decimal_from a \<le> decimal_from b"
  unfolding decimal_from_def word_le_nat_alt by (simp only: of_nat_le_iff)

lemma decimal_from_pos_iff [simp]: "0 < decimal_from n \<longleftrightarrow> n \<noteq> 0"
  unfolding decimal_from_def by (simp only: of_nat_0_less_iff unat_gt_0)

lemma decimal_from_ten_thousand: "decimal_from 10000 = 10000"
  by (simp add: decimal_from_def)

lemma bps_nonneg [simp]: "0 \<le> bps_to_decimal bps"
  by (simp add: bps_to_decimal_def)

lemma clamp_in: "lo \<le> hi \<Longrightarrow> lo \<le> clamp lo hi x \<and> clamp lo hi x \<le> hi"
  by (auto simp: clamp_def)

lemma pow10_small: "unat n \<le> 19 \<Longrightarrow> unat ((10::u64) ^ unat n) = 10 ^ unat n"
proof -
  assume "unat n \<le> 19"
  then have "(10::nat) ^ unat n \<le> 10 ^ 19" by (intro power_increasing) simp_all
  then have less: "(10::nat) ^ unat n < 2 ^ 64" by (rule order_le_less_trans) simp
  have "(10::u64) ^ unat n = of_nat (10 ^ unat n)" by simp
  then have "unat ((10::u64) ^ unat n) = 10 ^ unat n mod 2 ^ 64"
    by (simp only: unat_of_nat) simp
  with less show ?thesis by simp
qed

text \<open>Up to 19 decimals the power is exact; from 64 on it is zero and the conversion panics.\<close>

lemma raw_to_ui_small:
  "unat decimals \<le> 19 \<Longrightarrow> raw_tokens_to_ui raw decimals = Some (raw / 10 ^ unat decimals)"
  by (simp add: raw_tokens_to_ui_def decimal_pow10_def decimal_from_def pow10_small)

lemma pow10_large: "64 \<le> n \<Longrightarrow> (10::u64) ^ n = 0"
proof -
  assume "64 \<le> n"
  then have zero: "(2::u64) ^ n = 0" by (simp add: exp_eq_zero_iff)
  have "(10::u64) ^ n = (2 * 5) ^ n" by simp
  also have "\<dots> = 2 ^ n * 5 ^ n" by (rule power_mult_distrib)
  finally show ?thesis unfolding zero by simp
qed

lemma raw_to_ui_panics: "64 \<le> unat decimals \<Longrightarrow> raw_tokens_to_ui raw decimals = None"
  by (simp add: raw_tokens_to_ui_def decimal_pow10_def pow10_large)

lemma raw_ui_roundtrip:
  "raw_tokens_to_ui raw decimals = Some ui \<Longrightarrow> ui_tokens_to_raw ui decimals = raw"
  by (auto simp: raw_tokens_to_ui_def ui_tokens_to_raw_def split: if_splits)

lemma curve_progress_range:
  "pump_curve_progress_ui b = Some p \<Longrightarrow> 0 \<le> p \<and> p \<le> 100"
  using clamp_in [of 0 "100::'a"]
  by (auto simp: pump_curve_progress_ui_def Let_def decimal_from_def split: if_splits)

end
