(* ===== verification/State_Records.thy ===== *)
theory State_Records
  imports Events Decimal_Math
begin

text \<open>
  The data of \<open>crates/state/src/lib.rs\<close>, field by field, with the defaults the source gives or derives.
  A \<open>HashMap\<close> is an association list with distinct keys: where the code iterates over one, it meets
  the entries in some order, and here it is the order of the list, which is arbitrary. A \<open>HashSet\<close> or
  \<open>BTreeSet\<close> is a set.
\<close>

record ttl_config =
  ttl_discovered_secs :: u64
  ttl_active_light_secs :: u64
  ttl_active_deep_secs :: u64
  ttl_discarded_summary_secs :: u64
  ttl_research_sample_secs :: u64

datatype token_lifecycle =
    LcDiscovered
  | LcFirstPass
  | LcActiveLight
  | LcActiveDeep
  | LcTradeCandidate
  | LcInPosition
  | LcExitPending
  | LcCompleted
  | LcSoftDiscarded
  | LcHardDiscarded
  | LcRugArchive
  | LcMigrated
  | LcDataGap

datatype holder_retention_status =
    HrActive
  | HrReducedPosition
  | HrSold90Pct
  | HrExitedZeroBalance
  | HrUnknown

datatype trade_side =
    TradeBuy
  | TradeSell

record lifecycle_transition =
  lt_mint :: "pubkey"
  lt_from :: "token_lifecycle"
  lt_to :: "token_lifecycle"
  lt_reason :: "string"
  lt_observed_at :: "instant"

record 'd bonding_curve_state =
  cv_virtual_quote_reserves :: "'d"
  cv_virtual_token_reserves :: "'d"
  cv_real_quote_reserves :: "'d"
  cv_real_token_reserves :: "'d"
  cv_token_decimals :: "u8"
  cv_price_lamports_per_raw_token :: "'d option"
  cv_price_sol_per_token :: "'d option"
  cv_reserve_price_source :: "string option"
  cv_reserve_price_confidence :: "'d"
  cv_latest_price :: "'d"
  cv_launch_price :: "'d option"
  cv_market_cap_quote_1b :: "'d option"
  cv_market_cap_quote_total_supply :: "'d option"
  cv_market_cap_source :: "string option"
  cv_market_cap_confidence :: "'d"
  cv_curve_complete_flag :: "bool option"
  cv_curve_progress_pct :: "'d option"
  cv_curve_progress_source :: "string option"
  cv_curve_progress_confidence :: "'d"
  cv_curve_completion_pct :: "'d option"
  cv_market_cap_proxy :: "'d option"
  cv_update_slot :: "u64"
  cv_update_write_version :: "u64"
  cv_last_updated_at :: "instant option"
  cv_account_update_confidence :: "'d"
  cv_quote_asset_type :: "quote_asset_type"

definition default_bonding_curve_state :: "('d::linordered_field) bonding_curve_state" where
  "default_bonding_curve_state = \<lparr>
    cv_virtual_quote_reserves = 0,
    cv_virtual_token_reserves = 0,
    cv_real_quote_reserves = 0,
    cv_real_token_reserves = 0,
    cv_token_decimals = default_pump_token_decimals,
    cv_price_lamports_per_raw_token = None,
    cv_price_sol_per_token = None,
    cv_reserve_price_source = None,
    cv_reserve_price_confidence = 0,
    cv_latest_price = 0,
    cv_launch_price = None,
    cv_market_cap_quote_1b = None,
    cv_market_cap_quote_total_supply = None,
    cv_market_cap_source = None,
    cv_market_cap_confidence = 0,
    cv_curve_complete_flag = None,
    cv_curve_progress_pct = None,
    cv_curve_progress_source = None,
    cv_curve_progress_confidence = 0,
    cv_curve_completion_pct = None,
    cv_market_cap_proxy = None,
    cv_update_slot = 0,
    cv_update_write_version = 0,
    cv_last_updated_at = None,
    cv_account_update_confidence = 0,
    cv_quote_asset_type = quote_asset_type.Unknown\<rparr>"

record 'd cost_basis_position =
  cb_estimated_cost_basis_quote :: "'d"
  cb_estimated_average_entry_price :: "'d"
  cb_estimated_realized_pnl :: "'d"
  cb_estimated_unrealized_pnl :: "'d"
  cb_remaining_position_size :: "'d"
  cb_original_position_size :: "'d"
  cb_original_quote_spent :: "'d"
  cb_position_opened_at :: "instant option"
  cb_last_updated_at :: "instant option"
  cb_has_taken_profit :: "bool"
  cb_has_round_tripped :: "bool"

definition default_cost_basis_position :: "('d::linordered_field) cost_basis_position" where
  "default_cost_basis_position = \<lparr>
    cb_estimated_cost_basis_quote = 0,
    cb_estimated_average_entry_price = 0,
    cb_estimated_realized_pnl = 0,
    cb_estimated_unrealized_pnl = 0,
    cb_remaining_position_size = 0,
    cb_original_position_size = 0,
    cb_original_quote_spent = 0,
    cb_position_opened_at = None,
    cb_last_updated_at = None,
    cb_has_taken_profit = False,
    cb_has_round_tripped = False\<rparr>"

record 'd holder_balance =
  ho_balance :: "'d"
  ho_ui_balance_sum :: "'d"
  ho_account_count :: "usize"
  ho_excluded_reason :: "string option"
  ho_last_updated_at :: "instant option"
  ho_first_seen_at :: "instant option"
  ho_last_trade_at :: "instant option"
  ho_cost_basis :: "'d cost_basis_position"
  ho_wallet_sell_through_pct :: "'d"
  ho_wallet_sold_90pct_flag :: "bool"
  ho_holder_retention_status :: "holder_retention_status"

definition default_holder_balance :: "('d::linordered_field) holder_balance" where
  "default_holder_balance = \<lparr>
    ho_balance = 0,
    ho_ui_balance_sum = 0,
    ho_account_count = 0,
    ho_excluded_reason = None,
    ho_last_updated_at = None,
    ho_first_seen_at = None,
    ho_last_trade_at = None,
    ho_cost_basis = default_cost_basis_position,
    ho_wallet_sell_through_pct = 0,
    ho_wallet_sold_90pct_flag = False,
    ho_holder_retention_status = HrUnknown\<rparr>"

record 'd token_account_state =
  ta_mint :: "pubkey"
  ta_token_account :: "pubkey"
  ta_owner :: "pubkey"
  ta_raw_balance :: "'d"
  ta_ui_balance :: "'d"
  ta_decimals :: "u8"
  ta_last_slot :: "u64"
  ta_last_sequence :: "u64 option"
  ta_source :: "event_source"

record holder_update_counters =
  hc_holder_updates_seen :: "u64"
  hc_holder_updates_applied :: "u64"
  hc_holder_updates_deduped :: "u64"
  hc_holder_owner_changes :: "u64"
  hc_holder_missing_owner_mapping :: "u64"
  hc_holder_fallback_trade_updates_used :: "u64"

definition default_holder_update_counters :: "holder_update_counters" where
  "default_holder_update_counters = \<lparr>
    hc_holder_updates_seen = 0,
    hc_holder_updates_applied = 0,
    hc_holder_updates_deduped = 0,
    hc_holder_owner_changes = 0,
    hc_holder_missing_owner_mapping = 0,
    hc_holder_fallback_trade_updates_used = 0\<rparr>"

record 'd holder_distribution_snapshot =
  hd_owner :: "pubkey"
  hd_balance :: "'d"
  hd_pct_supply_proxy :: "'d"

record 'd holder_state =
  hs_token_accounts :: "(string \<times> 'd token_account_state) list"
  hs_token_account_to_owner :: "(string \<times> pubkey) list"
  hs_token_account_balances :: "(string \<times> 'd) list"
  hs_owner_balances :: "(string \<times> 'd holder_balance) list"
  hs_applied_holder_update_keys :: "string set"
  hs_counters :: "holder_update_counters"
  hs_nonzero_holder_count :: "usize"
  hs_top_holders :: "'d holder_distribution_snapshot list"
  hs_gini :: "'d"
  hs_hhi :: "'d"
  hs_paperhand_90pct_wallet_count :: "usize"
  hs_exited_holder_count_zero_balance :: "usize"
  hs_net_holder_change :: "i64"
  hs_holder_churn_rate :: "'d"
  hs_holder_stickiness :: "'d"
  hs_holder_count_history :: "(instant \<times> usize) list"
  hs_last_updated_at :: "instant option"

definition default_holder_state :: "('d::linordered_field) holder_state" where
  "default_holder_state = \<lparr>
    hs_token_accounts = [],
    hs_token_account_to_owner = [],
    hs_token_account_balances = [],
    hs_owner_balances = [],
    hs_applied_holder_update_keys = {},
    hs_counters = default_holder_update_counters,
    hs_nonzero_holder_count = 0,
    hs_top_holders = [],
    hs_gini = 0,
    hs_hhi = 0,
    hs_paperhand_90pct_wallet_count = 0,
    hs_exited_holder_count_zero_balance = 0,
    hs_net_holder_change = 0,
    hs_holder_churn_rate = 0,
    hs_holder_stickiness = 0,
    hs_holder_count_history = [],
    hs_last_updated_at = None\<rparr>"

record 'd developer_state =
  dv_creator_initial_holding :: "'d"
  dv_creator_net_tokens :: "'d"
  dv_creator_net_quote_flow :: "'d"
  dv_creator_first_sell_time :: "instant option"
  dv_creator_sell_percentage :: "'d"
  dv_creator_current_rank :: "usize option"
  dv_related_cluster_id :: "string option"

definition default_developer_state :: "('d::linordered_field) developer_state" where
  "default_developer_state = \<lparr>
    dv_creator_initial_holding = 0,
    dv_creator_net_tokens = 0,
    dv_creator_net_quote_flow = 0,
    dv_creator_first_sell_time = None,
    dv_creator_sell_percentage = 0,
    dv_creator_current_rank = None,
    dv_related_cluster_id = None\<rparr>"

record 'd wallet_summary =
  ws_wallet :: "string"
  ws_first_seen :: "instant option"
  ws_last_seen :: "instant option"
  ws_tokens_bought :: "(string \<times> 'd) list"
  ws_tokens_sold :: "(string \<times> 'd) list"
  ws_launches_participated :: "u64"
  ws_creator_launches :: "u64"
  ws_realized_pnl_estimate :: "'d"
  ws_unrealized_pnl_estimate :: "'d"
  ws_rug_exposure :: "u64"
  ws_average_entry_delay_ms :: "i64 option"
  ws_average_hold_duration_ms :: "i64 option"
  ws_alpha_score :: "'d"
  ws_toxicity_score :: "'d"
  ws_cluster_id :: "string option"

definition default_wallet_summary :: "('d::linordered_field) wallet_summary" where
  "default_wallet_summary = \<lparr>
    ws_wallet = [],
    ws_first_seen = None,
    ws_last_seen = None,
    ws_tokens_bought = [],
    ws_tokens_sold = [],
    ws_launches_participated = 0,
    ws_creator_launches = 0,
    ws_realized_pnl_estimate = 0,
    ws_unrealized_pnl_estimate = 0,
    ws_rug_exposure = 0,
    ws_average_entry_delay_ms = None,
    ws_average_hold_duration_ms = None,
    ws_alpha_score = 0,
    ws_toxicity_score = 0,
    ws_cluster_id = None\<rparr>"

record 'd funding_edge =
  fe_wallet :: "string"
  fe_funder :: "string"
  fe_amount :: "'d"
  fe_last_seen :: "instant"
  fe_count :: "u64"

record 'd funding_graph =
  fg_edges :: "((string \<times> string) \<times> 'd funding_edge) list"
  fg_funder_to_wallets :: "(string \<times> string set) list"

definition default_funding_graph :: "('d::linordered_field) funding_graph" where
  "default_funding_graph = \<lparr>
    fg_edges = [],
    fg_funder_to_wallets = []\<rparr>"

record 'd cluster_evidence_summary =
  ce_same_funder_edges :: "u64"
  ce_same_payer_edges :: "u64"
  ce_shared_creator_edges :: "u64"
  ce_confidence :: "'d"

definition default_cluster_evidence_summary :: "('d::linordered_field) cluster_evidence_summary" where
  "default_cluster_evidence_summary = \<lparr>
    ce_same_funder_edges = 0,
    ce_same_payer_edges = 0,
    ce_shared_creator_edges = 0,
    ce_confidence = 0\<rparr>"

record 'd cluster_index =
  ci_edges :: "((string \<times> string) \<times> 'd cluster_evidence_summary) list"
  ci_wallet_neighbors :: "(string \<times> string set) list"
  ci_same_funder_wallets :: "string set"

definition default_cluster_index :: "('d::linordered_field) cluster_index" where
  "default_cluster_index = \<lparr>
    ci_edges = [],
    ci_wallet_neighbors = [],
    ci_same_funder_wallets = {}\<rparr>"

record 'd trade_observation =
  to_timestamp :: "instant"
  to_slot :: "u64"
  to_signature :: "string option"
  to_side :: "trade_side"
  to_wallet :: "string"
  to_quote :: "'d"
  to_tokens :: "'d"
  to_price :: "'d"
  to_compute_unit_limit :: "u32 option"
  to_compute_unit_price :: "u64 option"
  to_priority_fee_lamports :: "u64 option"
  to_base_fee_lamports :: "u64 option"
  to_account_count :: "usize option"
  to_instruction_count :: "usize option"
  to_program_count :: "usize option"
  to_client_fingerprint :: "string option"
  to_is_creator :: "bool"
  to_is_top_holder_pre_sell :: "bool"
  to_is_tentative :: "bool"

record 'd observed_transaction_summary =
  os_signature :: "string"
  os_slot_hint :: "u64 option"
  os_entry_index :: "u32 option"
  os_tx_position_estimate :: "u32 option"
  os_program_ids :: "string list"
  os_account_count :: "usize"
  os_instruction_count :: "usize"
  os_raw_packet_hash :: "string"
  os_first_seen_by_shred_ns :: "u64"
  os_decode_confidence :: "'d"

record 'd token_trade_stats =
  tr_buy_count :: "u64"
  tr_sell_count :: "u64"
  tr_unique_buyers :: "string set"
  tr_unique_sellers :: "string set"
  tr_buy_volume_quote :: "'d"
  tr_sell_volume_quote :: "'d"
  tr_latest_price :: "'d"
  tr_all_time_high :: "'d"
  tr_all_time_low :: "'d"
  tr_last_buy_at :: "instant option"
  tr_last_sell_at :: "instant option"
  tr_longest_no_buy_gap_ms :: "i64"
  tr_first_large_sell_at :: "instant option"
  tr_price_history :: "(instant \<times> 'd) list"
  tr_trade_history :: "'d trade_observation list"

definition default_token_trade_stats :: "('d::linordered_field) token_trade_stats" where
  "default_token_trade_stats = \<lparr>
    tr_buy_count = 0,
    tr_sell_count = 0,
    tr_unique_buyers = {},
    tr_unique_sellers = {},
    tr_buy_volume_quote = 0,
    tr_sell_volume_quote = 0,
    tr_latest_price = 0,
    tr_all_time_high = 0,
    tr_all_time_low = 0,
    tr_last_buy_at = None,
    tr_last_sell_at = None,
    tr_longest_no_buy_gap_ms = 0,
    tr_first_large_sell_at = None,
    tr_price_history = [],
    tr_trade_history = []\<rparr>"

record 'd threat_wallet_entry =
  th_wallet :: "string"
  th_classification :: "dangerous_seller_classification"
  th_balance :: "'d"
  th_holding_pct :: "'d"
  th_estimated_full_exit_impact_pct :: "'d"
  th_estimated_partial_exit_25_pct :: "'d"
  th_estimated_partial_exit_50_pct :: "'d"
  th_estimated_partial_exit_100_pct :: "'d"
  th_cost_basis_quote :: "'d"
  th_unrealized_pnl_quote :: "'d"
  th_free_roll :: "bool"
  th_last_sell_time :: "instant option"
  th_historical_rug_association :: "u64"
  th_cluster_id :: "string option"
  th_cluster_holding_pct :: "'d"

record 'd exit_threat_index =
  xt_dangerous_wallets :: "'d threat_wallet_entry list"
  xt_warn_threshold_impact_pct :: "'d"
  xt_arm_exit_threshold_impact_pct :: "'d"
  xt_trigger_exit_threshold_impact_pct :: "'d"
  xt_emergency_exit_threshold_impact_pct :: "'d"
  xt_dangerous_seller_precomputed_impact_score :: "'d"
  xt_exit_threat_index_score :: "'d"
  xt_minimum_dangerous_sell_size_to_trigger_emergency :: "'d"
  xt_current_distance_to_stop_pct :: "'d"
  xt_current_distance_to_trailing_stop_pct :: "'d"
  xt_current_distance_to_launch_floor_pct :: "'d"
  xt_current_distance_to_vwap_pct :: "'d"
  xt_current_distance_to_cost_basis_support_pct :: "'d"
  xt_combined_our_exit_plus_dangerous_sell_impact_pct :: "'d"
  xt_max_safe_wait_time_ms :: "u64"
  xt_required_early_intent_lead_time_ms :: "u64"
  xt_updated_at :: "instant option"

definition default_exit_threat_index :: "('d::linordered_field) exit_threat_index" where
  "default_exit_threat_index = \<lparr>
    xt_dangerous_wallets = [],
    xt_warn_threshold_impact_pct = 8,
    xt_arm_exit_threshold_impact_pct = 15,
    xt_trigger_exit_threshold_impact_pct = 25,
    xt_emergency_exit_threshold_impact_pct = 35,
    xt_dangerous_seller_precomputed_impact_score = 0,
    xt_exit_threat_index_score = 0,
    xt_minimum_dangerous_sell_size_to_trigger_emergency = 0,
    xt_current_distance_to_stop_pct = 0,
    xt_current_distance_to_trailing_stop_pct = 0,
    xt_current_distance_to_launch_floor_pct = 0,
    xt_current_distance_to_vwap_pct = 0,
    xt_current_distance_to_cost_basis_support_pct = 0,
    xt_combined_our_exit_plus_dangerous_sell_impact_pct = 0,
    xt_max_safe_wait_time_ms = 0,
    xt_required_early_intent_lead_time_ms = 0,
    xt_updated_at = None\<rparr>"

record 'd tentative_sell_tracking =
  tk_event_id :: "string"
  tk_source :: "early_intent_source"
  tk_signature :: "string option"
  tk_seller_wallet :: "string"
  tk_seller_classification :: "dangerous_seller_classification"
  tk_confirmation_state :: "tentative_sell_confirmation_state"
  tk_warning_level :: "tentative_sell_risk_level"
  tk_confidence :: "'d"
  tk_estimated_impact_pct :: "'d"
  tk_estimated_cluster_impact_pct :: "'d"
  tk_warning_price :: "'d"
  tk_observed_at :: "instant"
  tk_expires_at :: "instant option"
  tk_matched_canonical_signature :: "string option"
  tk_false_positive_flag :: "bool"
  tk_missed_exit_flag :: "bool"
  tk_paper_exit_triggered :: "bool"
  tk_saved_loss_quote :: "'d"
  tk_opportunity_cost_quote :: "'d"
  tk_confirmation_method :: "string option"
  tk_reconciliation_latency_ms :: "i64 option"

record 'd shred_defense_state =
  sd_exit_threat_index :: "'d exit_threat_index"
  sd_pending_tentative_sells :: "(string \<times> 'd tentative_sell_tracking) list"
  sd_last_warning_level :: "tentative_sell_risk_level option"
  sd_last_warning_reason_codes :: "reason_code list"
  sd_active_warning_event_id :: "string option"
  sd_active_armed_exit_event_id :: "string option"
  sd_active_triggered_exit_event_id :: "string option"
  sd_active_dangerous_seller :: "string option"
  sd_active_seller_classification :: "dangerous_seller_classification option"
  sd_tentative_sell_count_window :: "u64"
  sd_tentative_sell_volume_quote_window :: "'d"
  sd_tentative_sell_from_dev_count :: "u64"
  sd_tentative_sell_from_top_holder_count :: "u64"
  sd_tentative_sell_from_bundle_count :: "u64"
  sd_tentative_sell_from_whale_count :: "u64"
  sd_tentative_sell_same_slot_cluster_count :: "u64"
  sd_tentative_sell_impact_max_pct :: "'d"
  sd_tentative_sell_impact_sum_pct :: "'d"
  sd_tentative_sell_confidence_max :: "'d"
  sd_tentative_sell_confidence_mean :: "'d"
  sd_shred_emergency_exit_triggered_flag :: "bool"
  sd_shred_exit_armed_flag :: "bool"
  sd_shred_signal_stale_flag :: "bool"
  sd_shred_saved_loss_estimate :: "'d"
  sd_shred_saved_loss_realized :: "'d"
  sd_shred_exit_opportunity_cost :: "'d"
  sd_early_intent_latency_advantage_ms :: "i64 option"
  sd_required_latency_advantage_ms :: "i64 option"
  sd_latency_edge_ratio :: "'d"
  sd_exit_can_land_before_estimated_impact :: "bool"
  sd_absorption_health_score :: "'d"
  sd_post_sell_absorption_probability :: "'d"
  sd_emergency_exit_expected_saved_loss :: "'d"
  sd_emergency_exit_expected_opportunity_cost :: "'d"
  sd_emergency_exit_net_benefit :: "'d"
  sd_emergency_exit_net_benefit_confidence :: "'d"
  sd_shred_to_geyser_processed_ms :: "i64 option"
  sd_shred_to_account_effect_confirmation_ms :: "i64 option"
  sd_shred_to_rooted_confirmation_ms :: "i64 option"
  sd_tentative_sell_false_positive_total :: "u64"
  sd_tentative_sell_confirmed_total :: "u64"
  sd_tentative_sell_failed_total :: "u64"
  sd_tentative_sell_not_seen_total :: "u64"
  sd_tentative_sell_reorged_total :: "u64"
  sd_tentative_sell_decode_mismatch_total :: "u64"
  sd_malicious_sell_intent_score :: "'d"
  sd_preconfirmation_exit_confidence :: "'d"
  sd_last_confirmation_level :: "tentative_sell_confirmation_state option"
  sd_last_resolution_outcome :: "tentative_sell_resolution_outcome option"

definition default_shred_defense_state :: "('d::linordered_field) shred_defense_state" where
  "default_shred_defense_state = \<lparr>
    sd_exit_threat_index = default_exit_threat_index,
    sd_pending_tentative_sells = [],
    sd_last_warning_level = None,
    sd_last_warning_reason_codes = [],
    sd_active_warning_event_id = None,
    sd_active_armed_exit_event_id = None,
    sd_active_triggered_exit_event_id = None,
    sd_active_dangerous_seller = None,
    sd_active_seller_classification = None,
    sd_tentative_sell_count_window = 0,
    sd_tentative_sell_volume_quote_window = 0,
    sd_tentative_sell_from_dev_count = 0,
    sd_tentative_sell_from_top_holder_count = 0,
    sd_tentative_sell_from_bundle_count = 0,
    sd_tentative_sell_from_whale_count = 0,
    sd_tentative_sell_same_slot_cluster_count = 0,
    sd_tentative_sell_impact_max_pct = 0,
    sd_tentative_sell_impact_sum_pct = 0,
    sd_tentative_sell_confidence_max = 0,
    sd_tentative_sell_confidence_mean = 0,
    sd_shred_emergency_exit_triggered_flag = False,
    sd_shred_exit_armed_flag = False,
    sd_shred_signal_stale_flag = False,
    sd_shred_saved_loss_estimate = 0,
    sd_shred_saved_loss_realized = 0,
    sd_shred_exit_opportunity_cost = 0,
    sd_early_intent_latency_advantage_ms = None,
    sd_required_latency_advantage_ms = None,
    sd_latency_edge_ratio = 0,
    sd_exit_can_land_before_estimated_impact = False,
    sd_absorption_health_score = 0,
    sd_post_sell_absorption_probability = 0,
    sd_emergency_exit_expected_saved_loss = 0,
    sd_emergency_exit_expected_opportunity_cost = 0,
    sd_emergency_exit_net_benefit = 0,
    sd_emergency_exit_net_benefit_confidence = 0,
    sd_shred_to_geyser_processed_ms = None,
    sd_shred_to_account_effect_confirmation_ms = None,
    sd_shred_to_rooted_confirmation_ms = None,
    sd_tentative_sell_false_positive_total = 0,
    sd_tentative_sell_confirmed_total = 0,
    sd_tentative_sell_failed_total = 0,
    sd_tentative_sell_not_seen_total = 0,
    sd_tentative_sell_reorged_total = 0,
    sd_tentative_sell_decode_mismatch_total = 0,
    sd_malicious_sell_intent_score = 0,
    sd_preconfirmation_exit_confidence = 0,
    sd_last_confirmation_level = None,
    sd_last_resolution_outcome = None\<rparr>"

record 'd token_state =
  tok_mint :: "pubkey"
  tok_token_program :: "token_program_type"
  tok_quote_mint :: "pubkey option"
  tok_quote_asset_type :: "quote_asset_type"
  tok_creator :: "pubkey option"
  tok_payer :: "pubkey option"
  tok_bonding_curve :: "pubkey option"
  tok_associated_bonding_curve :: "pubkey option"
  tok_metadata :: "pubkey option"
  tok_name :: "string"
  tok_symbol :: "string"
  tok_uri :: "string"
  tok_create_instruction_variant :: "string"
  tok_launch_transaction_fingerprint :: "string option"
  tok_launch_same_transaction_buys :: "u32"
  tok_launch_same_slot_buys :: "u32"
  tok_lifecycle :: "token_lifecycle"
  tok_launch_slot :: "u64 option"
  tok_launch_time :: "instant option"
  tok_first_seen_source :: "event_source"
  tok_latest_price :: "'d"
  tok_reserve_state :: "'d bonding_curve_state"
  tok_holder_state :: "'d holder_state"
  tok_developer_state :: "'d developer_state"
  tok_trade_stats :: "'d token_trade_stats"
  tok_risk_summary :: "(string \<times> 'd) list"
  tok_feature_summary :: "(string \<times> 'd) list"
  tok_shred_defense :: "'d shred_defense_state"
  tok_approximate_memory_bytes :: "usize"
  tok_expires_at :: "instant option"
  tok_tentative_signatures :: "string set"
  tok_canonical_signatures :: "string set"
  tok_tentative_only :: "bool"
  tok_data_quality_flags :: "string set"

record 'd compact_token_summary =
  cs_mint :: "string"
  cs_lifecycle :: "token_lifecycle"
  cs_latest_price :: "'d"
  cs_holder_count :: "usize"
  cs_top1_holder_pct :: "'d"
  cs_creator_sold_pct :: "'d"
  cs_canonical_trade_count :: "u64"
  cs_reason_codes :: "reason_code list"

record 'd state_snapshot =
  ss_tokens :: "(string \<times> 'd token_state) list"
  ss_wallets :: "(string \<times> 'd wallet_summary) list"
  ss_funding_graph :: "'d funding_graph"
  ss_cluster_index :: "'d cluster_index"
  ss_discarded_summaries :: "(string \<times> 'd compact_token_summary) list"

record 'd state_engine =
  se_ttl :: "ttl_config"
  se_tokens :: "(string \<times> 'd token_state) list"
  se_wallets :: "(string \<times> 'd wallet_summary) list"
  se_funding_graph :: "'d funding_graph"
  se_cluster_index :: "'d cluster_index"
  se_discarded_summaries :: "(string \<times> 'd compact_token_summary) list"
  se_tentative_signatures :: "(string \<times> string) list"
  se_observed_transactions :: "(string \<times> 'd observed_transaction_summary) list"

definition new_token_state :: "pubkey \<Rightarrow> event_source \<Rightarrow> ('d::linordered_field) token_state" where
  "new_token_state mint source = \<lparr>
    tok_mint = mint,
    tok_token_program = token_program_type.Unknown,
    tok_quote_mint = None,
    tok_quote_asset_type = quote_asset_type.Unknown,
    tok_creator = None,
    tok_payer = None,
    tok_bonding_curve = None,
    tok_associated_bonding_curve = None,
    tok_metadata = None,
    tok_name = [],
    tok_symbol = [],
    tok_uri = [],
    tok_create_instruction_variant = [],
    tok_launch_transaction_fingerprint = None,
    tok_launch_same_transaction_buys = 0,
    tok_launch_same_slot_buys = 0,
    tok_lifecycle = LcDiscovered,
    tok_launch_slot = None,
    tok_launch_time = None,
    tok_first_seen_source = source,
    tok_latest_price = 0,
    tok_reserve_state = default_bonding_curve_state,
    tok_holder_state = default_holder_state,
    tok_developer_state = default_developer_state,
    tok_trade_stats = default_token_trade_stats,
    tok_risk_summary = [],
    tok_feature_summary = [],
    tok_shred_defense = default_shred_defense_state,
    tok_approximate_memory_bytes = 0,
    tok_expires_at = None,
    tok_tentative_signatures = {},
    tok_canonical_signatures = {},
    tok_tentative_only = (source = ShredTentative \<or> source = DeshredTentative),
    tok_data_quality_flags = {}\<rparr>"

definition new_state_engine :: "ttl_config \<Rightarrow> ('d::linordered_field) state_engine" where
  "new_state_engine ttl = \<lparr>
    se_ttl = ttl,
    se_tokens = [],
    se_wallets = [],
    se_funding_graph = default_funding_graph,
    se_cluster_index = default_cluster_index,
    se_discarded_summaries = [],
    se_tentative_signatures = [],
    se_observed_transactions = []\<rparr>"

end
