(* ===== verification/Feature_Snapshot.thy ===== *)
theory Feature_Snapshot
  imports State_Records
begin

text \<open>
  The feature values of \<open>crates/features/src/lib.rs\<close> that the strategies and the simulator read: a datum
  is a number, a text or a flag, and only numbers and flags read as decimals.
\<close>

datatype feature_status = Available | Missing | Unavailable

datatype 'd feature_datum = Numeric 'd | FeatureText string | FeatureBoolean bool

fun datum_as_decimal :: "('d::linordered_field) feature_datum \<Rightarrow> 'd option" where
  "datum_as_decimal (Numeric value) = Some value"
| "datum_as_decimal (FeatureBoolean value) = Some (if value then 1 else 0)"
| "datum_as_decimal (FeatureText _) = None"

record 'd feature_value =
  fv_feature_id :: string
  fv_status :: feature_status
  fv_value :: "'d feature_datum option"
  fv_confidence :: 'd
  fv_missing_data_penalty :: 'd
  fv_source_confidence :: 'd
  fv_notes :: "string option"

definition feature_available ::
  "string \<Rightarrow> 'd feature_datum \<Rightarrow> 'd \<Rightarrow> ('d::linordered_field) feature_value" where
  "feature_available feature_id value confidence =
    \<lparr>fv_feature_id = feature_id, fv_status = Available, fv_value = Some value,
     fv_confidence = confidence, fv_missing_data_penalty = 0, fv_source_confidence = confidence,
     fv_notes = None\<rparr>"

definition feature_missing :: "string \<Rightarrow> string \<Rightarrow> ('d::linordered_field) feature_value" where
  "feature_missing feature_id notes =
    \<lparr>fv_feature_id = feature_id, fv_status = Missing, fv_value = None,
     fv_confidence = 0, fv_missing_data_penalty = 1, fv_source_confidence = 0,
     fv_notes = Some notes\<rparr>"

definition feature_unavailable :: "string \<Rightarrow> string \<Rightarrow> ('d::linordered_field) feature_value" where
  "feature_unavailable feature_id notes =
    \<lparr>fv_feature_id = feature_id, fv_status = Unavailable, fv_value = None,
     fv_confidence = 0, fv_missing_data_penalty = 1, fv_source_confidence = 0,
     fv_notes = Some notes\<rparr>"

definition as_decimal :: "('d::linordered_field) feature_value \<Rightarrow> 'd option" where
  "as_decimal v = Option.bind (fv_value v) datum_as_decimal"

record 'd feature_snapshot =
  fs_mint :: pubkey
  fs_lifecycle :: token_lifecycle
  fs_observed_at :: instant
  fs_values :: "string \<rightharpoonup> 'd feature_value"
  fs_vector_hash :: string
  fs_available_count :: usize
  fs_missing_count :: usize
  fs_unavailable_count :: usize

definition feature_decimal :: "('d::linordered_field) feature_snapshot \<Rightarrow> string \<Rightarrow> 'd option" where
  "feature_decimal s feature_id = Option.bind (fs_values s feature_id) as_decimal"

lemma feature_readings [simp]:
  "as_decimal (feature_available i (Numeric x) c) = Some x"
  "as_decimal (feature_missing i n) = None"
  "as_decimal (feature_unavailable i n) = None"
  by (simp_all add: as_decimal_def feature_available_def feature_missing_def feature_unavailable_def)

end
