(* ===== verification/Sim.thy ===== *)
theory Sim
  imports Complex_Main Feature_Snapshot
begin

text \<open>
  The order simulator of \<open>crates/sim/src/lib.rs\<close>: the fee model, a simulated order, the round trip of a
  position, the backtest over positions, the labels of a token and the no-lookahead check of a replay.
\<close>

record fee_parameters =
  base_fee_lamports_per_signature :: u64
  compute_unit_limit :: u32
  compute_unit_price_micro_lamports :: u64
  tip_lamports :: u64
  ata_rent_lamports :: u64
  creator_fee_bps :: u64
  protocol_fee_bps :: u64
  lp_fee_bps :: u64
  buy_slippage_bps :: u64
  sell_slippage_bps :: u64
  failed_transaction_fee_lamports :: u64

definition default_fee_parameters :: fee_parameters where
  "default_fee_parameters =
    \<lparr>base_fee_lamports_per_signature = 5000, compute_unit_limit = 300000,
     compute_unit_price_micro_lamports = 50000, tip_lamports = 0, ata_rent_lamports = 0,
     creator_fee_bps = 30, protocol_fee_bps = 95, lp_fee_bps = 0, buy_slippage_bps = 100,
     sell_slippage_bps = 100, failed_transaction_fee_lamports = 5000\<rparr>"

record 'd fee_breakdown =
  base_fee_quote :: 'd
  priority_fee_quote :: 'd
  tip_quote :: 'd
  ata_rent_quote :: 'd
  creator_fee_quote :: 'd
  protocol_fee_quote :: 'd
  lp_fee_quote :: 'd
  failed_transaction_fee_quote :: 'd
  total_quote :: 'd

record 'd order_request =
  or_mint :: pubkey
  or_side :: execution_side
  or_intended_time :: instant
  or_signal_time :: instant
  or_size_quote :: 'd
  or_size_tokens :: "'d option"
  or_reference_price :: 'd
  or_liquidity_quote_depth :: 'd
  or_max_slippage_bps :: u64
  or_latency :: duration
  or_force_fail :: bool

record 'd order_result =
  res_fill :: "'d fill_event"
  res_net_quote_pnl :: 'd
  res_fees :: "'d fee_breakdown"
  res_impacted_price :: 'd
  res_failed :: bool

record 'd position_intent =
  pi_mint :: pubkey
  pi_entry_time :: instant
  pi_exit_time :: instant
  pi_size_quote :: 'd
  pi_entry_price :: 'd
  pi_exit_price :: 'd
  pi_liquidity_quote_depth :: 'd

record 'd backtest_summary =
  total_pnl :: 'd
  net_pnl :: 'd
  fee_drag :: 'd
  slippage_drag :: 'd
  failed_transaction_drag :: 'd
  hit_rate :: 'd
  trade_count :: u64

subsection \<open>Fees\<close>

definition lamports_to_quote :: "u64 \<Rightarrow> 'd::linordered_field" where
  "lamports_to_quote lamports = decimal_from lamports / decimal_from 1000000000"

text \<open>The product wraps in a release build; \<open>div_ceil\<close> rounds up.\<close>

definition priority_fee_lamports :: "fee_parameters \<Rightarrow> u64" where
  "priority_fee_lamports p =
    (let numerator = (ucast (compute_unit_limit p) :: u64) * compute_unit_price_micro_lamports p in
     numerator div 1000000 + (if numerator mod 1000000 > 0 then 1 else 0))"

definition fee_breakdown_of ::
  "fee_parameters \<Rightarrow> 'd::linordered_field \<Rightarrow> bool \<Rightarrow> bool \<Rightarrow> 'd fee_breakdown" where
  "fee_breakdown_of p notional_quote include_ata failed =
    (let base = lamports_to_quote (base_fee_lamports_per_signature p);
         priority = lamports_to_quote (priority_fee_lamports p);
         tip = lamports_to_quote (tip_lamports p);
         ata = (if include_ata then lamports_to_quote (ata_rent_lamports p) else 0);
         creator_fee = notional_quote * decimal_from (creator_fee_bps p) / decimal_from 10000;
         protocol_fee = notional_quote * decimal_from (protocol_fee_bps p) / decimal_from 10000;
         lp_fee = notional_quote * decimal_from (lp_fee_bps p) / decimal_from 10000;
         failed_fee =
           (if failed then lamports_to_quote (failed_transaction_fee_lamports p) else 0);
         total = base + priority + tip + ata + creator_fee + protocol_fee + lp_fee + failed_fee in
     \<lparr>base_fee_quote = base, priority_fee_quote = priority, tip_quote = tip, ata_rent_quote = ata,
      creator_fee_quote = creator_fee, protocol_fee_quote = protocol_fee, lp_fee_quote = lp_fee,
      failed_transaction_fee_quote = failed_fee, total_quote = total\<rparr>)"

subsection \<open>A simulated order\<close>

definition clamp_nonnegative :: "'d::linordered_field \<Rightarrow> 'd" where
  "clamp_nonnegative value = max value 0"

definition reference_notional :: "('d::linordered_field) order_request \<Rightarrow> 'd" where
  "reference_notional r =
    (case or_side r of
       Buy \<Rightarrow> or_size_quote r
     | Sell \<Rightarrow> (case or_size_tokens r of
         Some tokens \<Rightarrow> tokens * or_reference_price r | None \<Rightarrow> or_size_quote r))"

definition impact_pct :: "('d::linordered_field) order_request \<Rightarrow> 'd" where
  "impact_pct r =
    (if or_liquidity_quote_depth r > 0
     then clamp_nonnegative (reference_notional r / or_liquidity_quote_depth r) else 1)"

definition slippage_pct :: "fee_parameters \<Rightarrow> ('d::linordered_field) order_request \<Rightarrow> 'd" where
  "slippage_pct p r =
    (let configured = (case or_side r of Buy \<Rightarrow> buy_slippage_bps p | Sell \<Rightarrow> sell_slippage_bps p) in
     decimal_from (min configured (or_max_slippage_bps r)) / decimal_from 10000)"

definition impacted_price :: "fee_parameters \<Rightarrow> ('d::linordered_field) order_request \<Rightarrow> 'd" where
  "impacted_price p r =
    (let impact_multiplier = 1 + impact_pct r + slippage_pct p r in
     case or_side r of
       Buy \<Rightarrow> or_reference_price r * impact_multiplier
     | Sell \<Rightarrow> or_reference_price r / impact_multiplier)"

definition order_notional :: "fee_parameters \<Rightarrow> ('d::linordered_field) order_request \<Rightarrow> 'd" where
  "order_notional p r =
    (case or_side r of
       Buy \<Rightarrow> or_size_quote r
     | Sell \<Rightarrow> (case or_size_tokens r of
         Some tokens \<Rightarrow> tokens * impacted_price p r | None \<Rightarrow> or_size_quote r))"

definition filled_size :: "fee_parameters \<Rightarrow> ('d::linordered_field) order_request \<Rightarrow> 'd" where
  "filled_size p r =
    (if or_force_fail r \<or> impacted_price p r \<le> 0 then 0
     else if or_side r = Sell then
       (case or_size_tokens r of
          Some tokens \<Rightarrow> tokens | None \<Rightarrow> order_notional p r / impacted_price p r)
     else or_size_quote r / impacted_price p r)"

definition forced_failure :: string where "forced_failure = ''forced_failure''"
definition simulation_source :: string where "simulation_source = ''simulation''"

definition milliseconds :: "int \<Rightarrow> duration" where
  "milliseconds ms = ms * 1000000"

definition order_fill ::
  "fee_parameters \<Rightarrow> ('d::linordered_field) order_request \<Rightarrow> 'd fee_breakdown \<Rightarrow> 'd fill_event" where
  "order_fill p r fees =
    (let landed = or_signal_time r + or_latency r; notional = order_notional p r in
     \<lparr>fl_mint = or_mint r, fl_side = or_side r, fl_intended_time = or_intended_time r,
      fl_signal_time = or_signal_time r, fl_send_time = or_signal_time r,
      fl_landing_time = Some landed, fl_confirmation_time = Some (landed + milliseconds 400),
      fl_intended_size = (case or_size_tokens r of Some t \<Rightarrow> t | None \<Rightarrow> or_size_quote r),
      fl_filled_size = filled_size p r, fl_fill_price = impacted_price p r,
      fl_notional = notional, fl_fees = total_quote fees, fl_slippage = slippage_pct p r,
      fl_price_impact = impact_pct r,
      fl_failure_reason = (if or_force_fail r then Some forced_failure else None),
      fl_transaction_signature = None, fl_confirmation_source = Some simulation_source,
      fl_entry_decision_id = None, fl_exit_decision_id = None, fl_strategy = None,
      fl_entry_price = None, fl_exit_price = None, fl_gross_pnl_quote = None,
      fl_net_pnl_quote = None, fl_base_fee_quote = Some (base_fee_quote fees),
      fl_priority_fee_quote = Some (priority_fee_quote fees), fl_tip_quote = Some (tip_quote fees),
      fl_slippage_cost_quote = Some (slippage_pct p r * notional),
      fl_curve_impact_cost_quote = Some (impact_pct r * notional), fl_latency_cost_quote = Some 0,
      fl_failed_tx_cost_quote = Some (failed_transaction_fee_quote fees), fl_hold_time_ms = None,
      fl_max_adverse_excursion = None, fl_max_favorable_excursion = None, fl_exit_reason = None,
      fl_exit_classification = None, fl_expected_edge_quote = None,
      fl_actual_realized_edge_quote = None, fl_edge_forecast_error_quote = None,
      fl_entry_risk_scores = Map.empty, fl_exit_risk_scores = Map.empty, fl_exit_source = None,
      fl_trigger_event_id = None, fl_malicious_sell_signature = None,
      fl_malicious_sell_seller = None, fl_malicious_sell_classification = None,
      fl_estimated_loss_saved_quote = None, fl_realized_loss_saved_quote = None,
      fl_false_positive_exit = False, fl_opportunity_cost_if_false_positive = None,
      fl_early_intent_to_geyser_processed_latency_ms = None,
      fl_early_intent_to_account_effect_latency_ms = None,
      fl_early_intent_to_rooted_latency_ms = None, fl_exit_latency_ms = None\<rparr>)"

definition simulate_order ::
  "fee_parameters \<Rightarrow> ('d::linordered_field) order_request \<Rightarrow> 'd order_result" where
  "simulate_order p r =
    (let fees = fee_breakdown_of p (order_notional p r) False (or_force_fail r) in
     \<lparr>res_fill = order_fill p r fees, res_net_quote_pnl = - total_quote fees, res_fees = fees,
      res_impacted_price = impacted_price p r, res_failed = or_force_fail r\<rparr>)"

subsection \<open>Round trips and backtests\<close>

definition round_trip_buy :: "fee_parameters \<Rightarrow> ('d::linordered_field) position_intent \<Rightarrow> 'd order_request" where
  "round_trip_buy p i =
    \<lparr>or_mint = pi_mint i, or_side = Buy, or_intended_time = pi_entry_time i,
     or_signal_time = pi_entry_time i, or_size_quote = pi_size_quote i, or_size_tokens = None,
     or_reference_price = pi_entry_price i,
     or_liquidity_quote_depth = pi_liquidity_quote_depth i,
     or_max_slippage_bps = buy_slippage_bps p, or_latency = milliseconds 150,
     or_force_fail = False\<rparr>"

definition round_trip_sell ::
  "fee_parameters \<Rightarrow> ('d::linordered_field) position_intent \<Rightarrow> 'd order_result \<Rightarrow> 'd order_request" where
  "round_trip_sell p i buy =
    \<lparr>or_mint = pi_mint i, or_side = Sell, or_intended_time = pi_exit_time i,
     or_signal_time = pi_exit_time i,
     or_size_quote = fl_filled_size (res_fill buy) * pi_exit_price i,
     or_size_tokens = Some (fl_filled_size (res_fill buy)),
     or_reference_price = pi_exit_price i,
     or_liquidity_quote_depth = pi_liquidity_quote_depth i,
     or_max_slippage_bps = sell_slippage_bps p, or_latency = milliseconds 150,
     or_force_fail = False\<rparr>"

definition simulate_round_trip ::
  "fee_parameters \<Rightarrow> ('d::linordered_field) position_intent \<Rightarrow>
   'd order_result \<times> 'd order_result \<times> 'd" where
  "simulate_round_trip p i =
    (let buy = simulate_order p (round_trip_buy p i);
         sell = simulate_order p (round_trip_sell p i buy);
         proceeds = fl_filled_size (res_fill sell) * fl_fill_price (res_fill sell);
         cost = pi_size_quote i;
         net = proceeds - cost - total_quote (res_fees buy) - total_quote (res_fees sell) in
     (buy, sell, net))"

definition empty_summary :: "('d::linordered_field) backtest_summary" where
  "empty_summary = \<lparr>total_pnl = 0, net_pnl = 0, fee_drag = 0, slippage_drag = 0,
     failed_transaction_drag = 0, hit_rate = 0, trade_count = 0\<rparr>"

fun backtest_step ::
  "fee_parameters \<Rightarrow> ('d::linordered_field) position_intent \<Rightarrow>
   'd backtest_summary \<times> u64 \<Rightarrow> 'd backtest_summary \<times> u64" where
  "backtest_step p i (s, wins) =
    (let (buy, sell, pnl) = simulate_round_trip p i in
     (s\<lparr>total_pnl := total_pnl s
          + (fl_filled_size (res_fill sell) * fl_fill_price (res_fill sell) - pi_size_quote i),
        net_pnl := net_pnl s + pnl,
        fee_drag := fee_drag s + (total_quote (res_fees buy) + total_quote (res_fees sell)),
        slippage_drag := slippage_drag s
          + (fl_slippage (res_fill buy) * fl_notional (res_fill buy)
             + fl_slippage (res_fill sell) * fl_notional (res_fill sell)),
        failed_transaction_drag := failed_transaction_drag s
          + (failed_transaction_fee_quote (res_fees buy)
             + failed_transaction_fee_quote (res_fees sell)),
        trade_count := trade_count s + 1\<rparr>,
      if pnl > 0 then wins + 1 else wins))"

definition backtest_positions ::
  "fee_parameters \<Rightarrow> ('d::linordered_field) position_intent list \<Rightarrow> 'd backtest_summary" where
  "backtest_positions p intents =
    (let (s, wins) = fold (backtest_step p) intents (empty_summary, 0) in
     if trade_count s > 0
     then s\<lparr>hit_rate := decimal_from wins / decimal_from (trade_count s)\<rparr> else s)"

subsection \<open>The order of a replay\<close>

datatype sim_error = NoLookaheadViolation usize

record 'd replay_event =
  re_observed_at :: instant
  re_event :: "'d normalized_event"

text \<open>The loop over \<open>events.windows(2).enumerate()\<close>; \<open>index\<close> counts the windows passed.\<close>

fun lookahead_from :: "usize \<Rightarrow> 'd replay_event list \<Rightarrow> (sim_error, unit) result" where
  "lookahead_from index (a # b # rest) =
    (if re_observed_at a > re_observed_at b then Err (NoLookaheadViolation (index + 1))
     else lookahead_from (index + 1) (b # rest))"
| "lookahead_from index [a] = Ok ()"
| "lookahead_from index [] = Ok ()"

definition validate_no_lookahead :: "'d replay_event list \<Rightarrow> (sim_error, unit) result" where
  "validate_no_lookahead events = lookahead_from 0 events"

subsection \<open>Prices are never better than the reference\<close>

lemma impact_pct_nonneg [simp]: "0 \<le> impact_pct r"
  by (simp add: impact_pct_def clamp_nonnegative_def)

lemma slippage_pct_nonneg [simp]: "0 \<le> slippage_pct p r"
  by (simp add: slippage_pct_def Let_def)

lemma slippage_pct_le_max: "slippage_pct p r \<le> decimal_from (or_max_slippage_bps r) / 10000"
  unfolding slippage_pct_def Let_def decimal_from_ten_thousand
  by (rule divide_right_mono [OF decimal_from_mono]) simp_all

definition price_multiplier :: "fee_parameters \<Rightarrow> ('d::linordered_field) order_request \<Rightarrow> 'd" where
  "price_multiplier p r = 1 + impact_pct r + slippage_pct p r"

lemma price_multiplier_ge_1: "1 \<le> price_multiplier p r"
  by (simp add: price_multiplier_def)

lemma price_multiplier_le:
  "price_multiplier p r \<le> 1 + impact_pct r + decimal_from (or_max_slippage_bps r) / 10000"
  unfolding price_multiplier_def by (rule add_left_mono [OF slippage_pct_le_max])

lemma impacted_price_buy: "or_side r = Buy \<Longrightarrow> impacted_price p r = or_reference_price r * price_multiplier p r"
  by (simp add: impacted_price_def price_multiplier_def)

lemma impacted_price_sell: "or_side r = Sell \<Longrightarrow> impacted_price p r = or_reference_price r / price_multiplier p r"
  by (simp add: impacted_price_def price_multiplier_def)

lemma impacted_price_nonneg: "0 \<le> or_reference_price r \<Longrightarrow> 0 \<le> impacted_price p r"
  using price_multiplier_ge_1 [of p r]
  by (cases "or_side r") (simp_all add: impacted_price_buy impacted_price_sell)

lemma impacted_price_pos: "0 < or_reference_price r \<Longrightarrow> 0 < impacted_price p r"
  using price_multiplier_ge_1 [of p r]
  by (cases "or_side r") (simp_all add: impacted_price_buy impacted_price_sell)

lemma simulate_order_simps [simp]:
  "fl_fill_price (res_fill (simulate_order p r)) = impacted_price p r"
  "fl_filled_size (res_fill (simulate_order p r)) = filled_size p r"
  "fl_slippage (res_fill (simulate_order p r)) = slippage_pct p r"
  "fl_notional (res_fill (simulate_order p r)) = order_notional p r"
  "res_fees (simulate_order p r) = fee_breakdown_of p (order_notional p r) False (or_force_fail r)"
  "res_failed (simulate_order p r) = or_force_fail r"
  "res_net_quote_pnl (simulate_order p r) =
     - total_quote (fee_breakdown_of p (order_notional p r) False (or_force_fail r))"
  "fl_fees (res_fill (simulate_order p r)) =
     total_quote (fee_breakdown_of p (order_notional p r) False (or_force_fail r))"
  "fl_latency_cost_quote (res_fill (simulate_order p r)) = Some 0"
  by (simp_all add: simulate_order_def order_fill_def Let_def)

text \<open>
  A simulated order is never filled at a better price than the reference: a buy pays at least it, a
  sell gets at most it, and neither is further away than the price impact and the slippage limit of the
  request allow.
\<close>
theorem order_never_improves:
  fixes r :: "('d::linordered_field) order_request" and p :: fee_parameters
  assumes "0 \<le> or_reference_price r"
  defines "price \<equiv> fl_fill_price (res_fill (simulate_order p r))"
    and "worst \<equiv> 1 + impact_pct r + decimal_from (or_max_slippage_bps r) / 10000"
  shows "case or_side r of
      Buy \<Rightarrow> or_reference_price r \<le> price \<and> price \<le> or_reference_price r * worst
    | Sell \<Rightarrow> price \<le> or_reference_price r \<and> or_reference_price r \<le> price * worst"
proof (cases "or_side r")
  case Buy
  then have "price = or_reference_price r * price_multiplier p r"
    by (simp add: price_def impacted_price_buy)
  with assms(1) show ?thesis
    using mult_left_mono [OF price_multiplier_ge_1 assms(1), of p r]
      mult_left_mono [OF price_multiplier_le assms(1), of p r]
    by (simp add: Buy worst_def)
next
  case Sell
  have pos: "0 < price_multiplier p r" using price_multiplier_ge_1 [of p r] by simp
  have price: "price = or_reference_price r / price_multiplier p r"
    using Sell by (simp add: price_def impacted_price_sell)
  then have "0 \<le> price" using pos assms(1) by simp
  moreover have "price * price_multiplier p r = or_reference_price r"
    using pos price by simp
  ultimately show ?thesis
    using mult_left_mono [OF price_multiplier_ge_1, of price p r]
      mult_left_mono [OF price_multiplier_le, of price p r]
    by (simp add: Sell worst_def)
qed

subsection \<open>Fees\<close>

lemma lamports_to_quote_nonneg [simp]: "0 \<le> lamports_to_quote n"
  by (simp add: lamports_to_quote_def)

lemma total_quote_sum:
  "total_quote (fee_breakdown_of p n ata failed) =
    (let b = fee_breakdown_of p n ata failed in
     base_fee_quote b + priority_fee_quote b + tip_quote b + ata_rent_quote b + creator_fee_quote b
     + protocol_fee_quote b + lp_fee_quote b + failed_transaction_fee_quote b)"
  by (simp add: fee_breakdown_of_def Let_def)

lemma fees_nonneg: "0 \<le> n \<Longrightarrow> 0 \<le> total_quote (fee_breakdown_of p n ata failed)"
  by (simp add: fee_breakdown_of_def Let_def)

lemma failed_fee_zero [simp]: "failed_transaction_fee_quote (fee_breakdown_of p n ata False) = 0"
  by (simp add: fee_breakdown_of_def Let_def)

subsection \<open>Round trips\<close>

lemma divide_gt_one: "0 < x \<Longrightarrow> 1 < m \<Longrightarrow> x / m < x" for x m :: "'d::linordered_field"
  by (simp add: divide_less_eq)

lemma impact_pct_pos:
  assumes "or_side r = Buy" "0 < or_size_quote r"
  shows "0 < impact_pct r"
  using assms by (simp add: impact_pct_def clamp_nonnegative_def reference_notional_def)

lemma round_trip_value:
  fixes i :: "('d::linordered_field) position_intent" and p :: fee_parameters
  assumes "0 < pi_size_quote i" "0 < pi_entry_price i" "0 < pi_exit_price i"
  defines "b \<equiv> round_trip_buy p i"
  defines "s \<equiv> round_trip_sell p i (simulate_order p b)"
  shows "filled_size p s * impacted_price p s =
      pi_size_quote i * pi_exit_price i / (pi_entry_price i * price_multiplier p b * price_multiplier p s)"
    and "1 < price_multiplier p b" and "0 \<le> order_notional p s" and "order_notional p b = pi_size_quote i"
proof -
  have sides: "or_side b = Buy" "or_side s = Sell" by (simp_all add: b_def s_def round_trip_buy_def round_trip_sell_def)
  have refs: "or_reference_price b = pi_entry_price i" "or_reference_price s = pi_exit_price i"
    by (simp_all add: b_def s_def round_trip_buy_def round_trip_sell_def)
  have b: "or_force_fail b = False" "or_size_quote b = pi_size_quote i"
    by (simp_all add: b_def round_trip_buy_def)
  have price: "0 < impacted_price p b" "0 < impacted_price p s"
    using assms(2,3) by (simp_all add: impacted_price_pos refs)
  have bought: "filled_size p b = pi_size_quote i / impacted_price p b"
    using price sides b by (simp add: filled_size_def)
  have s: "or_force_fail s = False" "or_size_tokens s = Some (filled_size p b)"
    by (simp_all add: s_def round_trip_sell_def)
  have sold: "filled_size p s = filled_size p b" using price sides s by (simp add: filled_size_def)
  show "filled_size p s * impacted_price p s =
      pi_size_quote i * pi_exit_price i / (pi_entry_price i * price_multiplier p b * price_multiplier p s)"
    by (simp add: sold bought impacted_price_buy impacted_price_sell sides refs)
  show "1 < price_multiplier p b"
    using add_pos_nonneg [OF impact_pct_pos [of b] slippage_pct_nonneg [of p b]] assms(1) sides b
    by (simp add: price_multiplier_def)
  show "0 \<le> order_notional p s"
    using price assms(1) by (simp add: order_notional_def sides s bought)
  show "order_notional p b = pi_size_quote i" by (simp add: order_notional_def sides b)
qed

text \<open>
  A simulated position never does as well as its price move: for positive prices and size, the net
  result of a round trip is below the size times the relative move from entry to exit. In particular a
  position whose price does not rise loses.
\<close>
theorem round_trip_below_price_move:
  assumes "0 < pi_size_quote i" "0 < pi_entry_price i" "0 < pi_exit_price i"
  shows "snd (snd (simulate_round_trip p i)) < pi_size_quote i * (pi_exit_price i / pi_entry_price i - 1)"
proof -
  let ?b = "round_trip_buy p i"
  let ?s = "round_trip_sell p i (simulate_order p ?b)"
  note v = round_trip_value [OF assms, of p]
  let ?m = "price_multiplier p ?b * price_multiplier p ?s"
  have "1 < price_multiplier p ?b * 1" using v(2) by simp
  also have "\<dots> \<le> ?m" using v(2) by (intro mult_left_mono price_multiplier_ge_1) simp
  finally have m: "1 < ?m" .
  have pos: "0 < pi_size_quote i * pi_exit_price i / pi_entry_price i" using assms by simp
  have "filled_size p ?s * impacted_price p ?s = pi_size_quote i * pi_exit_price i / pi_entry_price i / ?m"
    by (simp add: v(1) mult.assoc)
  also have "\<dots> < pi_size_quote i * pi_exit_price i / pi_entry_price i"
    by (rule divide_gt_one [OF pos m])
  finally have "filled_size p ?s * impacted_price p ?s < pi_size_quote i * (pi_exit_price i / pi_entry_price i)"
    by simp
  moreover have "0 \<le> total_quote (fee_breakdown_of p (order_notional p ?b) False False)"
    "0 \<le> total_quote (fee_breakdown_of p (order_notional p ?s) False False)"
    using v assms by (simp_all add: fees_nonneg)
  moreover have "or_force_fail ?b = False" "or_force_fail ?s = False"
    by (simp_all add: round_trip_buy_def round_trip_sell_def)
  ultimately show ?thesis by (simp add: simulate_round_trip_def Let_def right_diff_distrib)
qed

subsection \<open>Backtests\<close>

definition round_trip_wins :: "fee_parameters \<Rightarrow> ('d::linordered_field) position_intent \<Rightarrow> bool" where
  "round_trip_wins p i \<longleftrightarrow> snd (snd (simulate_round_trip p i)) > 0"

lemma round_trip_never_fails:
  "simulate_round_trip p i = (b, s, n) \<Longrightarrow>
    failed_transaction_fee_quote (res_fees b) = 0 \<and> failed_transaction_fee_quote (res_fees s) = 0 \<and>
    n = fl_filled_size (res_fill s) * fl_fill_price (res_fill s) - pi_size_quote i
        - (total_quote (res_fees b) + total_quote (res_fees s))"
  by (auto simp: simulate_round_trip_def Let_def round_trip_buy_def round_trip_sell_def)

lemma backtest_fold:
  assumes "fold (backtest_step p) xs (empty_summary, 0) = (s, wins)"
  shows "net_pnl s = total_pnl s - fee_drag s \<and> failed_transaction_drag s = 0 \<and> hit_rate s = 0 \<and>
    trade_count s = of_nat (length xs) \<and> wins = of_nat (length (filter (round_trip_wins p) xs))"
  using assms
proof (induction xs arbitrary: s wins rule: rev_induct)
  case Nil
  then show ?case by (auto simp: empty_summary_def)
next
  case (snoc i xs)
  obtain s0 w0 where prev: "fold (backtest_step p) xs (empty_summary, 0) = (s0, w0)" by fastforce
  obtain b sell n where trip: "simulate_round_trip p i = (b, sell, n)" by (cases "simulate_round_trip p i") auto
  note IH = snoc.IH [OF prev]
  have net: "net_pnl s = total_pnl s - fee_drag s" and "failed_transaction_drag s = 0" "hit_rate s = 0"
    "trade_count s = of_nat (length (xs @ [i]))" 
    using snoc.prems IH round_trip_never_fails [OF trip] by (auto simp: prev trip)
  moreover have "round_trip_wins p i \<longleftrightarrow> n > 0" by (simp add: round_trip_wins_def trip)
  then have "wins = of_nat (length (filter (round_trip_wins p) (xs @ [i])))"
    using snoc.prems IH by (auto simp: prev trip)
  ultimately show ?case by blast
qed

text \<open>
  The books of a backtest balance: its net result is the gross result less the fees, no failed
  transaction is ever charged, and over fewer than \<open>2 ^ 64\<close> positions the hit rate is the share of the
  positions that end with a profit.
\<close>
theorem backtest_books_balance:
  fixes intents :: "('d::linordered_field) position_intent list" and p :: fee_parameters
  assumes "length intents < 2 ^ 64"
  defines "s \<equiv> backtest_positions p intents"
  shows "net_pnl s = total_pnl s - fee_drag s \<and> failed_transaction_drag s = 0 \<and>
    trade_count s = of_nat (length intents) \<and> 0 \<le> hit_rate s \<and> hit_rate s \<le> 1 \<and>
    hit_rate s * of_nat (length intents) = of_nat (length (filter (round_trip_wins p) intents))"
proof -
  obtain s0 w where f: "fold (backtest_step p) intents (empty_summary, 0) = (s0, w)" by fastforce
  note b = backtest_fold [OF f]
  let ?n = "length intents" and ?w = "length (filter (round_trip_wins p) intents)"
  have le: "?w \<le> ?n" by (rule length_filter_le)
  then have w64: "?w < 2 ^ 64" using assms(1) by (rule order_le_less_trans)
  have n: "decimal_from (trade_count s0) = (of_nat ?n :: 'd)" and w: "decimal_from w = (of_nat ?w :: 'd)"
    using b assms(1) w64 by (simp_all add: decimal_from_def unat_of_nat)
  show ?thesis
  proof (cases "intents = []")
    case True
    with f have "s0 = empty_summary" by simp
    with True show ?thesis by (simp add: s_def backtest_positions_def f empty_summary_def)
  next
    case False
    then have pos: "0 < trade_count s0" and "0 < ?n"
      using b assms(1) by (auto simp: word_gt_0 word_of_nat_eq_0_iff dest: nat_dvd_not_less)
    then have "s = s0\<lparr>hit_rate := of_nat ?w / of_nat ?n\<rparr>"
      by (simp add: s_def backtest_positions_def f n w)
    with b le \<open>0 < ?n\<close> show ?thesis by simp
  qed
qed

subsection \<open>The order check\<close>

definition observed_times :: "'d replay_event list \<Rightarrow> instant list" where
  "observed_times events = map re_observed_at events"

lemma lookahead_ok: "lookahead_from k es = Ok () \<longleftrightarrow> sorted (observed_times es)"
  by (induction k es rule: lookahead_from.induct)
    (auto simp: observed_times_def split: if_splits)

lemma lookahead_err:
  "lookahead_from k es = Err (NoLookaheadViolation i) \<Longrightarrow>
    \<exists>n. i = k + of_nat n \<and> 0 < n \<and> n < length es \<and> sorted (observed_times (take n es)) \<and>
        observed_times es ! n < observed_times es ! (n - 1)"
proof (induction k es rule: lookahead_from.induct)
  case (1 k a b rest)
  show ?case
  proof (cases "re_observed_at b < re_observed_at a")
    case True
    with 1 show ?thesis by (intro exI [of _ 1]) (auto simp: observed_times_def)
  next
    case False
    with 1 obtain n where n: "i = k + 1 + of_nat n" "0 < n" "n < length (b # rest)"
      "sorted (observed_times (take n (b # rest)))"
      "observed_times (b # rest) ! n < observed_times (b # rest) ! (n - 1)"
      by auto
    from n(2) obtain m where m: "n = Suc m" by (cases n) auto
    from n False have "sorted (observed_times (take (Suc n) (a # b # rest)))"
      by (simp add: m observed_times_def) (auto intro: order_trans)
    with n show ?thesis
      by (intro exI [of _ "Suc n"]) (auto simp: observed_times_def m)
  qed
qed simp_all

text \<open>
  The no-lookahead check accepts exactly the replays whose events are in the order of their
  observation, and otherwise names the first event that is observed before its predecessor.
\<close>
theorem no_lookahead_exact:
  "case validate_no_lookahead es of
     Inr _ \<Rightarrow> sorted (observed_times es)
   | Inl (NoLookaheadViolation i) \<Rightarrow>
       (\<exists>n. i = of_nat n \<and> 0 < n \<and> n < length es \<and> sorted (observed_times (take n es)) \<and>
            observed_times es ! n < observed_times es ! (n - 1))"
proof (cases "validate_no_lookahead es")
  case (Inr u)
  then have "sorted (observed_times es)"
    using lookahead_ok [of 0 es] by (simp add: validate_no_lookahead_def)
  with Inr show ?thesis by simp
next
  case (Inl e)
  then obtain i where "e = NoLookaheadViolation i" "lookahead_from 0 es = Err (NoLookaheadViolation i)"
    by (cases e) (simp add: validate_no_lookahead_def)
  with Inl lookahead_err [of 0 es i] show ?thesis by simp
qed

subsection \<open>Labels\<close>

definition liquidity_depth :: "('d::linordered_field) token_state \<Rightarrow> 'd" where
  "liquidity_depth token =
    (let depth = cv_real_quote_reserves (tok_reserve_state token)
                 + cv_virtual_quote_reserves (tok_reserve_state token) in
     if depth > 0 then depth else decimal_from 100)"

abbreviation price_history :: "'d token_state \<Rightarrow> (instant \<times> 'd) list" where
  "price_history token \<equiv> tr_price_history (tok_trade_stats token)"

fun list_max :: "('d::linorder) list \<Rightarrow> 'd option" where
  "list_max [] = None"
| "list_max (x # xs) = Some (fold max xs x)"

fun list_min :: "('d::linorder) list \<Rightarrow> 'd option" where
  "list_min [] = None"
| "list_min (x # xs) = Some (fold min xs x)"

definition first_price :: "'d token_state \<Rightarrow> 'd option" where
  "first_price token = (case price_history token of [] \<Rightarrow> None | (_, price) # _ \<Rightarrow> Some price)"

definition last_price_time :: "'d token_state \<Rightarrow> instant option" where
  "last_price_time token =
    (if price_history token = [] then None else Some (fst (List.last (price_history token))))"

definition max_price :: "('d::linordered_field) token_state \<Rightarrow> 'd option" where
  "max_price token = list_max (map snd (price_history token))"

definition prices_until :: "('d::linordered_field) token_state \<Rightarrow> instant \<Rightarrow> 'd list" where
  "prices_until token stop = map snd (filter (\<lambda>(time, _). time \<le> stop) (price_history token))"

definition window_extreme_return :: "('d::linordered_field) token_state \<Rightarrow> duration \<Rightarrow> 'd option" where
  "window_extreme_return token window =
    Option.bind (tok_launch_time token) (\<lambda>launch_time.
    Option.bind (first_price token) (\<lambda>start_price.
    Option.bind (list_max (prices_until token (launch_time + window))) (\<lambda>highest.
    if start_price > 0 then Some ((highest - start_price) / start_price) else None)))"

definition window_extreme_drawdown :: "('d::linordered_field) token_state \<Rightarrow> duration \<Rightarrow> 'd option" where
  "window_extreme_drawdown token window =
    Option.bind (tok_launch_time token) (\<lambda>launch_time.
    Option.bind (first_price token) (\<lambda>start_price.
    Option.bind (list_min (prices_until token (launch_time + window))) (\<lambda>lowest.
    if start_price > 0 then Some ((start_price - lowest) / start_price) else None)))"

text \<open>\<open>as i64\<close> of a millisecond count keeps its low 64 bits.\<close>

definition millis_i64 :: "duration \<Rightarrow> i64" where
  "millis_i64 d = word_of_int (whole_milliseconds d)"

definition time_to_return :: "('d::linordered_field) token_state \<Rightarrow> 'd \<Rightarrow> i64 option" where
  "time_to_return token threshold =
    Option.bind (tok_launch_time token) (\<lambda>launch_time.
    Option.bind (first_price token) (\<lambda>launch_price.
    map_option (\<lambda>(time, _). millis_i64 (time - launch_time))
      (find (\<lambda>(_, price). launch_price > 0 \<and> (price - launch_price) / launch_price \<ge> threshold)
        (price_history token))))"

definition time_to_drawdown :: "('d::linordered_field) token_state \<Rightarrow> 'd \<Rightarrow> i64 option" where
  "time_to_drawdown token threshold =
    Option.bind (tok_launch_time token) (\<lambda>launch_time.
    Option.bind (first_price token) (\<lambda>launch_price.
    map_option (\<lambda>(time, _). millis_i64 (time - launch_time))
      (find (\<lambda>(_, price). launch_price > 0 \<and> (launch_price - price) / launch_price \<ge> threshold)
        (price_history token))))"

record 'd token_labels =
  lb_mint :: pubkey
  lb_max_return_30s :: 'd
  lb_max_return_1m :: 'd
  lb_max_return_5m :: 'd
  lb_max_drawdown_30s :: 'd
  lb_max_drawdown_1m :: 'd
  lb_max_drawdown_5m :: 'd
  lb_time_to_20pct_profit_ms :: "i64 option"
  lb_time_to_50pct_drawdown_ms :: "i64 option"
  lb_time_to_dev_sell_ms :: "i64 option"
  lb_time_to_no_buy_gap_ms :: "i64 option"
  lb_strategy_realistic_pnl :: 'd
  lb_strategy_oracle_pnl :: 'd
  lb_oracle_minus_realistic_gap :: 'd
  lb_opportunity_duration_ms :: i64
  lb_opportunity_half_life_ms :: i64
  lb_was_scalpable :: bool
  lb_was_rug :: bool
  lb_profitable_after_fees_flag :: bool
  lb_profitable_after_slippage_flag :: bool
  lb_profitable_after_realistic_size_flag :: bool

definition rug_score_feature :: string where "rug_score_feature = ''rug_probability_score''"
definition price_drop_feature :: string where
  "price_drop_feature = ''price_drop_70pct_from_launch_within_5m''"

definition value_or_zero :: "('d::linordered_field) option \<Rightarrow> 'd" where
  "value_or_zero x = (case x of Some v \<Rightarrow> v | None \<Rightarrow> 0)"

definition label_intent ::
  "('d::linordered_field) token_state \<Rightarrow> 'd \<Rightarrow> 'd \<Rightarrow> 'd \<Rightarrow> 'd position_intent" where
  "label_intent token size_quote entry_price exit_price =
    \<lparr>pi_mint = tok_mint token,
     pi_entry_time = (case tok_launch_time token of Some t \<Rightarrow> t | None \<Rightarrow> 0),
     pi_exit_time = (case last_price_time token of Some t \<Rightarrow> t | None \<Rightarrow> 0),
     pi_size_quote = size_quote, pi_entry_price = entry_price, pi_exit_price = exit_price,
     pi_liquidity_quote_depth = liquidity_depth token\<rparr>"

definition realistic_pnl :: "fee_parameters \<Rightarrow> ('d::linordered_field) token_state \<Rightarrow> 'd \<Rightarrow> 'd" where
  "realistic_pnl p token size_quote =
    (case (first_price token, max_price token) of
       (Some entry_price, Some exit_price) \<Rightarrow>
         snd (snd (simulate_round_trip p (label_intent token size_quote entry_price exit_price)))
     | _ \<Rightarrow> 0)"

definition observed_duration :: "'d token_state \<Rightarrow> duration option" where
  "observed_duration token =
    (case (tok_launch_time token, last_price_time token) of
       (Some launch, Some stop) \<Rightarrow> Some (stop - launch) | _ \<Rightarrow> None)"

definition generate_labels ::
  "fee_parameters \<Rightarrow> ('d::linordered_field) token_state \<Rightarrow> 'd feature_snapshot \<Rightarrow> 'd \<Rightarrow> 'd token_labels" where
  "generate_labels p token features size_quote =
    (let max_return_1m = value_or_zero (window_extreme_return token (duration_seconds 60));
         oracle_pnl = max_return_1m * size_quote;
         realistic = realistic_pnl p token size_quote in
     \<lparr>lb_mint = tok_mint token,
      lb_max_return_30s = value_or_zero (window_extreme_return token (duration_seconds 30)),
      lb_max_return_1m = max_return_1m,
      lb_max_return_5m = value_or_zero (window_extreme_return token (duration_seconds 300)),
      lb_max_drawdown_30s = value_or_zero (window_extreme_drawdown token (duration_seconds 30)),
      lb_max_drawdown_1m = value_or_zero (window_extreme_drawdown token (duration_seconds 60)),
      lb_max_drawdown_5m = value_or_zero (window_extreme_drawdown token (duration_seconds 300)),
      lb_time_to_20pct_profit_ms = time_to_return token (decimal 2 1),
      lb_time_to_50pct_drawdown_ms = time_to_drawdown token (decimal 5 1),
      lb_time_to_dev_sell_ms =
        (case (dv_creator_first_sell_time (tok_developer_state token), tok_launch_time token) of
           (Some sell_time, Some launch) \<Rightarrow> Some (millis_i64 (sell_time - launch)) | _ \<Rightarrow> None),
      lb_time_to_no_buy_gap_ms = Some (tr_longest_no_buy_gap_ms (tok_trade_stats token)),
      lb_strategy_realistic_pnl = realistic,
      lb_strategy_oracle_pnl = oracle_pnl,
      lb_oracle_minus_realistic_gap = oracle_pnl - realistic,
      lb_opportunity_duration_ms =
        (case observed_duration token of Some d \<Rightarrow> millis_i64 d | None \<Rightarrow> 0),
      lb_opportunity_half_life_ms =
        (case observed_duration token of
           Some d \<Rightarrow> word_of_int (sgn (whole_milliseconds d) * (\<bar>whole_milliseconds d\<bar> div 2))
         | None \<Rightarrow> 0),
      lb_was_scalpable = (max_return_1m > decimal 10 2),
      lb_was_rug =
        (value_or_zero (feature_decimal features rug_score_feature) \<ge> decimal 8 1 \<or>
         value_or_zero (feature_decimal features price_drop_feature) > 0),
      lb_profitable_after_fees_flag = (realistic > 0),
      lb_profitable_after_slippage_flag = (realistic > 0),
      lb_profitable_after_realistic_size_flag = (realistic > 0)\<rparr>)"

lemma fold_max_ge: "(x::'d::linorder) \<le> fold max xs x"
  by (induction xs arbitrary: x) (auto intro: order_trans [OF max.cobounded2])

lemma first_le_max:
  "first_price token = Some a \<Longrightarrow> max_price token = Some b \<Longrightarrow> a \<le> b"
  by (auto simp: first_price_def max_price_def fold_max_ge split: list.splits)

text \<open>
  A token labelled profitable really rose: for a positive size and positive prices the label implies
  that some later price is above the first one, and the labelled result is below what an exit at the
  highest price would give without costs.
\<close>
theorem profitable_label_sound:
  assumes "first_price token = Some a" "max_price token = Some b" "0 < a" "0 < amount"
    and "lb_profitable_after_fees_flag (generate_labels p token features amount)"
  shows "a < b \<and> lb_strategy_realistic_pnl (generate_labels p token features amount) < amount * (b / a - 1)"
proof -
  have "a \<le> b" using assms first_le_max by blast
  have less: "realistic_pnl p token amount < amount * (b / a - 1)"
    using round_trip_below_price_move [of "label_intent token amount a b" p] assms \<open>a \<le> b\<close>
    by (simp add: realistic_pnl_def label_intent_def)
  from assms(5) have "0 < realistic_pnl p token amount" by (simp add: generate_labels_def Let_def)
  from this less have "0 < amount * (b / a - 1)" by (rule order_less_trans)
  with assms have "a < b" by (simp add: zero_less_mult_iff less_divide_eq)
  with less show ?thesis by (simp add: generate_labels_def Let_def)
qed

subsection \<open>Witnesses\<close>

definition example_order :: "rat order_request" where
  "example_order = \<lparr>or_mint = [], or_side = Buy, or_intended_time = 0, or_signal_time = 0,
     or_size_quote = 10, or_size_tokens = None, or_reference_price = 1 / 10,
     or_liquidity_quote_depth = 20, or_max_slippage_bps = 150, or_latency = 0,
     or_force_fail = False\<rparr>"

theorem order_never_improves_witness:
  "1 / 10 \<le> fl_fill_price (res_fill (simulate_order default_fee_parameters example_order))"
  using order_never_improves [of example_order default_fee_parameters]
  by (simp add: example_order_def)

definition example_intent :: "rat position_intent" where
  "example_intent = \<lparr>pi_mint = [], pi_entry_time = 0, pi_exit_time = 0, pi_size_quote = 10,
     pi_entry_price = 1 / 10, pi_exit_price = 1 / 10, pi_liquidity_quote_depth = 100\<rparr>"

theorem round_trip_below_price_move_witness:
  "snd (snd (simulate_round_trip default_fee_parameters example_intent)) < 0"
  using round_trip_below_price_move [of example_intent default_fee_parameters]
  by (simp add: example_intent_def)

theorem backtest_books_balance_witness:
  "hit_rate (backtest_positions default_fee_parameters [example_intent]) \<le> 1"
  using backtest_books_balance [of "[example_intent]" default_fee_parameters] by simp

definition example_token :: "rat token_state" where
  "example_token = (new_token_state [] Replay)
     \<lparr>tok_launch_time := Some 0,
      tok_trade_stats := default_token_trade_stats\<lparr>tr_price_history := [(0, 1 / 10), (1, 1)]\<rparr>,
      tok_reserve_state := default_bonding_curve_state\<lparr>cv_real_quote_reserves := 1000\<rparr>\<rparr>"

definition example_features :: "rat feature_snapshot" where
  "example_features = \<lparr>fs_mint = [], fs_lifecycle = LcDiscovered, fs_observed_at = 0,
     fs_values = Map.empty, fs_vector_hash = [], fs_available_count = 0, fs_missing_count = 0,
     fs_unavailable_count = 0\<rparr>"

lemma example_prices:
  "first_price example_token = Some (1 / 10)" "max_price example_token = Some 1"
  "label_intent example_token 10 (1 / 10) 1 =
    \<lparr>pi_mint = [], pi_entry_time = 0, pi_exit_time = 1, pi_size_quote = 10,
     pi_entry_price = 1 / 10, pi_exit_price = 1, pi_liquidity_quote_depth = 1000\<rparr>"
  by (simp_all add: first_price_def max_price_def label_intent_def last_price_time_def
      liquidity_depth_def example_token_def new_token_state_def default_bonding_curve_state_def)

lemma default_fees: "fee_breakdown_of default_fee_parameters n ata False =
    (\<lparr>base_fee_quote = 5 / 1000000, priority_fee_quote = 15 / 1000000, tip_quote = 0,
      ata_rent_quote = 0, creator_fee_quote = n * 30 / 10000, protocol_fee_quote = n * 95 / 10000,
      lp_fee_quote = 0, failed_transaction_fee_quote = 0,
      total_quote = 20 / 1000000 + n * 125 / 10000\<rparr> :: rat fee_breakdown)"
  by (simp add: fee_breakdown_of_def default_fee_parameters_def lamports_to_quote_def
      priority_fee_lamports_def decimal_from_def)

lemma default_slippage:
  "buy_slippage_bps default_fee_parameters = 100" "sell_slippage_bps default_fee_parameters = 100"
  by (simp_all add: default_fee_parameters_def)

lemma example_realistic: "realistic_pnl default_fee_parameters example_token 10 > 0"
  by (simp add: realistic_pnl_def example_prices simulate_round_trip_def round_trip_buy_def
      round_trip_sell_def default_fees filled_size_def impacted_price_def impact_pct_def
      clamp_nonnegative_def slippage_pct_def order_notional_def reference_notional_def
      default_slippage decimal_from_def)

theorem profitable_label_sound_witness:
  "lb_strategy_realistic_pnl
     (generate_labels default_fee_parameters example_token example_features 10) < 90"
proof -
  have "lb_profitable_after_fees_flag
    (generate_labels default_fee_parameters example_token example_features 10)"
    using example_realistic by (simp add: generate_labels_def Let_def)
  then show ?thesis
    using profitable_label_sound [OF example_prices(1,2), of 10 default_fee_parameters example_features]
    by simp
qed

end
