(* ===== verification/Decision_Records.thy ===== *)
theory Decision_Records
  imports Events
begin

text \<open>
  What the decision engine hands to the executors (\<open>crates/decision/src/lib.rs\<close>): the outcome of an
  evaluation with its edge forecast and scores, and the context of an open position.
\<close>

datatype strategy_kind =
    LaunchMomentumScalp
  | HolderGrowthContinuation
  | SellAbsorptionBounce
  | SmartCapitalRotation
  | OrganicSlowGrind
  | DefensiveNoTrade

record 'd composite_score =
  sc_raw_score :: 'd
  sc_regime_adjusted_score :: 'd
  sc_confidence :: 'd
  sc_missing_data_penalty :: 'd
  sc_top_positive_components :: "string list"
  sc_top_negative_components :: "string list"
  sc_reason_codes :: "reason_code list"
  sc_recommended_action_influence :: 'd

record 'd expected_edge =
  xe_expected_price_move_pct :: 'd
  xe_expected_exit_price :: 'd
  xe_expected_hold_time_ms :: u64
  xe_expected_fee_drag_quote :: 'd
  xe_expected_slippage_drag_quote :: 'd
  xe_expected_latency_drag_quote :: 'd
  xe_expected_curve_impact_quote :: 'd
  xe_expected_exit_impact_quote :: 'd
  xe_expected_failed_tx_cost_quote :: 'd
  xe_minimum_required_move_pct :: 'd
  xe_expected_net_edge_quote :: 'd
  xe_expected_net_edge_pct :: 'd
  xe_confidence :: 'd
  xe_reason_codes :: "reason_code list"

record 'd decision_outcome =
  do_decision_event :: "'d trade_decision_event"
  do_strategy :: strategy_kind
  do_position_size_quote :: 'd
  do_expected_edge :: "'d expected_edge"
  do_composite_scores :: "string \<rightharpoonup> 'd composite_score"
  do_diagnostics :: "string list"

record 'd open_position_context =
  op_strategy :: strategy_kind
  op_entry_time :: instant
  op_entry_price :: 'd
  op_size_quote :: 'd
  op_size_tokens :: 'd
  op_entry_fees_paid :: 'd
  op_max_adverse_excursion :: 'd
  op_max_favorable_excursion :: 'd
  op_expected_edge_quote :: 'd

end
