(* ===== verification/Executor.thy ===== *)
theory Executor
  imports Sim Decision_Records Rpc_Budget Config_Records "HOL-Library.AList"
begin

text \<open>
  The executors of \<open>crates/executor/src/lib.rs\<close>: the paper executor with its positions and ledger, the
  cache of streamed blockhashes, and the live executor's submission. A signer and the parser of
  \<open>Decimal\<close> are third-party code and arguments of the definitions; \<open>parse::<i64>\<close> and \<open>parse::<bool>\<close> are
  the standard library's.
\<close>

subsection \<open>The texts the executors compare and write\<close>

definition exit_by_shred :: string where "exit_by_shred = ''exit_by=shred_emergency_exit''"
definition exit_by_account_effect :: string where "exit_by_account_effect = ''exit_by=account_effect_confirmed_exit''"
definition exit_by_geyser :: string where "exit_by_geyser = ''exit_by=geyser_processed_sell_confirmed''"
definition exit_by_rooted :: string where "exit_by_rooted = ''exit_by=rooted_sell_confirmed''"
definition exit_by_trailing_stop :: string where "exit_by_trailing_stop = ''exit_by=trailing_stop''"
definition exit_by_stop_loss :: string where "exit_by_stop_loss = ''exit_by=stop_loss''"
definition exit_by_take_profit :: string where "exit_by_take_profit = ''exit_by=take_profit''"
definition shred_emergency_exit :: string where "shred_emergency_exit = ''ShredEmergencyExit''"
definition deshred_emergency_exit :: string where "deshred_emergency_exit = ''DeshredEmergencyExit''"
definition account_effect_confirmed_exit :: string where "account_effect_confirmed_exit = ''AccountEffectConfirmedExit''"
definition geyser_processed_exit :: string where "geyser_processed_exit = ''GeyserProcessedExit''"
definition rooted_confirmed_exit :: string where "rooted_confirmed_exit = ''RootedConfirmedExit''"
definition strategy_trailing_stop :: string where "strategy_trailing_stop = ''StrategyTrailingStop''"
definition strategy_stop_loss :: string where "strategy_stop_loss = ''StrategyStopLoss''"
definition strategy_take_profit :: string where "strategy_take_profit = ''StrategyTakeProfit''"
definition strategy_exit :: string where "strategy_exit = ''StrategyExit''"
definition scenario_end_source :: string where "scenario_end_source = ''ScenarioEnd''"
definition scenario_end_class :: string where "scenario_end_class = ''scenario_end''"
definition class_emergency :: string where "class_emergency = ''emergency''"
definition class_normal :: string where "class_normal = ''normal''"
definition key_exit_by :: string where "key_exit_by = ''exit_by=''"
definition key_expected_exit_price :: string where "key_expected_exit_price = ''expected_exit_price=''"
definition key_trigger_event_id :: string where "key_trigger_event_id = ''trigger_event_id=''"
definition key_sell_signature :: string where "key_sell_signature = ''malicious_sell_signature=''"
definition key_sell_seller :: string where "key_sell_seller = ''malicious_sell_seller=''"
definition key_sell_classification :: string where "key_sell_classification = ''malicious_sell_classification=''"
definition key_saved_loss :: string where "key_saved_loss = ''estimated_saved_loss_quote=''"
definition key_realized_saved :: string where "key_realized_saved = ''realized_loss_saved_quote=''"
definition key_false_positive :: string where "key_false_positive = ''false_positive_exit=''"
definition key_opportunity_cost :: string where "key_opportunity_cost = ''opportunity_cost_if_false_positive=''"
definition key_latency_processed :: string where "key_latency_processed = ''early_intent_to_geyser_processed_latency_ms=''"
definition key_latency_account :: string where "key_latency_account = ''early_intent_to_account_effect_latency_ms=''"
definition key_latency_rooted :: string where "key_latency_rooted = ''early_intent_to_rooted_latency_ms=''"
definition word_true :: string where "word_true = ''true''"
definition word_false :: string where "word_false = ''false''"
definition configured_rpc :: string where "configured_rpc = ''configured-rpc''"
definition send_transaction :: string where "send_transaction = ''sendTransaction''"
definition executor_module :: string where "executor_module = ''executor''"
definition dry_run_guard :: string where "dry_run_guard = ''dry_run_guard''"
definition submitted_by :: string where "submitted_by = ''submitted_by_''"
definition name_momentum :: string where "name_momentum = ''LaunchMomentumScalp''"
definition name_holder_growth :: string where "name_holder_growth = ''HolderGrowthContinuation''"
definition name_absorption :: string where "name_absorption = ''SellAbsorptionBounce''"
definition name_rotation :: string where "name_rotation = ''SmartCapitalRotation''"
definition name_slow_grind :: string where "name_slow_grind = ''OrganicSlowGrind''"

subsection \<open>Diagnostics\<close>

fun strip_prefix :: "string \<Rightarrow> string \<Rightarrow> string option" where
  "strip_prefix [] s = Some s"
| "strip_prefix (p # ps) [] = None"
| "strip_prefix (p # ps) (c # cs) = (if p = c then strip_prefix ps cs else None)"

definition starts_with :: "string \<Rightarrow> string \<Rightarrow> bool" where
  "starts_with s p \<longleftrightarrow> strip_prefix p s \<noteq> None"

fun find_map :: "('a \<Rightarrow> 'b option) \<Rightarrow> 'a list \<Rightarrow> 'b option" where
  "find_map f [] = None"
| "find_map f (x # xs) = (case f x of Some y \<Rightarrow> Some y | None \<Rightarrow> find_map f xs)"

definition parse_digits :: "string \<Rightarrow> nat option" where
  "parse_digits s = (if s \<noteq> [] \<and> list_all is_digit s then Some (read_nat s) else None)"

definition parse_i64 :: "string \<Rightarrow> i64 option" where
  "parse_i64 s =
    (case s of
       [] \<Rightarrow> None
     | c # rest \<Rightarrow>
         if c = CHR ''-''
         then Option.bind (parse_digits rest) (\<lambda>n. if n \<le> 2 ^ 63 then Some (- of_nat n) else None)
         else Option.bind (parse_digits (if c = CHR ''+'' then rest else s))
                (\<lambda>n. if n < 2 ^ 63 then Some (of_nat n) else None))"

definition parse_bool :: "string \<Rightarrow> bool option" where
  "parse_bool s = (if s = word_true then Some True else if s = word_false then Some False else None)"

definition diagnostic_value :: "string list \<Rightarrow> string \<Rightarrow> string option" where
  "diagnostic_value diagnostics key = find_map (strip_prefix key) diagnostics"

definition diagnostic_decimal ::
  "(string \<Rightarrow> 'd option) \<Rightarrow> string list \<Rightarrow> string \<Rightarrow> 'd option" where
  "diagnostic_decimal parse_decimal diagnostics key =
    Option.bind (diagnostic_value diagnostics key) parse_decimal"

definition diagnostic_i64 :: "string list \<Rightarrow> string \<Rightarrow> i64 option" where
  "diagnostic_i64 diagnostics key = Option.bind (diagnostic_value diagnostics key) parse_i64"

definition diagnostic_bool :: "string list \<Rightarrow> string \<Rightarrow> bool" where
  "diagnostic_bool diagnostics key =
    (case Option.bind (diagnostic_value diagnostics key) parse_bool of
       Some b \<Rightarrow> b | None \<Rightarrow> False)"

definition exit_source_label :: "string list \<Rightarrow> string" where
  "exit_source_label diagnostics =
    (if list_ex (\<lambda>v. v = exit_by_shred) diagnostics then shred_emergency_exit
     else if list_ex (\<lambda>v. v = exit_by_account_effect) diagnostics then account_effect_confirmed_exit
     else if list_ex (\<lambda>v. v = exit_by_geyser) diagnostics then geyser_processed_exit
     else if list_ex (\<lambda>v. v = exit_by_rooted) diagnostics then rooted_confirmed_exit
     else if list_ex (\<lambda>v. starts_with v exit_by_trailing_stop) diagnostics then strategy_trailing_stop
     else if list_ex (\<lambda>v. starts_with v exit_by_stop_loss) diagnostics then strategy_stop_loss
     else if list_ex (\<lambda>v. starts_with v exit_by_take_profit) diagnostics then strategy_take_profit
     else strategy_exit)"

definition parse_strategy :: "string \<Rightarrow> strategy_kind" where
  "parse_strategy v =
    (if v = name_momentum then LaunchMomentumScalp
     else if v = name_holder_growth then HolderGrowthContinuation
     else if v = name_absorption then SellAbsorptionBounce
     else if v = name_rotation then SmartCapitalRotation
     else if v = name_slow_grind then OrganicSlowGrind
     else DefensiveNoTrade)"

subsection \<open>The paper executor\<close>

record 'd paper_position =
  pp_mint :: string
  pp_side :: execution_side
  pp_entry_time :: instant
  pp_entry_price :: 'd
  pp_size_quote :: 'd
  pp_size_tokens :: 'd
  pp_fees_paid :: 'd
  pp_current_value :: 'd
  pp_unrealized_pnl :: 'd
  pp_realized_pnl :: 'd
  pp_max_adverse_excursion :: 'd
  pp_max_favorable_excursion :: 'd
  pp_strategy :: string
  pp_entry_decision_id :: string
  pp_expected_edge_quote :: 'd
  pp_entry_risk_scores :: "string \<rightharpoonup> 'd"
  pp_entry_reason_codes :: "reason_code list"
  pp_exit_reason_codes :: "reason_code list"

record 'd paper_ledger =
  pl_fills :: "'d fill_event list"
  pl_closed_pnl :: 'd
  pl_fee_drag :: 'd
  pl_slippage_drag :: 'd
  pl_latency_drag :: 'd

text \<open>The simulator is its fee parameters; the positions are keyed by mint.\<close>

record 'd paper_executor =
  pe_simulator :: fee_parameters
  pe_positions :: "(string \<times> 'd paper_position) list"
  pe_ledger :: "'d paper_ledger"

definition new_paper_executor :: "fee_parameters \<Rightarrow> ('d::linordered_field) paper_executor" where
  "new_paper_executor simulator =
    \<lparr>pe_simulator = simulator, pe_positions = [],
     pe_ledger = \<lparr>pl_fills = [], pl_closed_pnl = 0, pl_fee_drag = 0, pl_slippage_drag = 0,
       pl_latency_drag = 0\<rparr>\<rparr>"

definition position_context ::
  "('d::linordered_field) paper_executor \<Rightarrow> string \<Rightarrow> 'd open_position_context option" where
  "position_context e mint = map_option (\<lambda>p.
    \<lparr>op_strategy = parse_strategy (pp_strategy p), op_entry_time = pp_entry_time p,
     op_entry_price = pp_entry_price p, op_size_quote = pp_size_quote p,
     op_size_tokens = pp_size_tokens p, op_entry_fees_paid = pp_fees_paid p,
     op_max_adverse_excursion = pp_max_adverse_excursion p,
     op_max_favorable_excursion = pp_max_favorable_excursion p,
     op_expected_edge_quote = pp_expected_edge_quote p\<rparr>) (map_of (pe_positions e) mint)"

definition merge_ledger ::
  "'d fill_event list \<Rightarrow> 'd \<Rightarrow> ('d::linordered_field) paper_executor \<Rightarrow> 'd paper_executor" where
  "merge_ledger fills closed_pnl e = e\<lparr>pe_ledger := (pe_ledger e)
    \<lparr>pl_fills := pl_fills (pe_ledger e) @ fills,
     pl_closed_pnl := pl_closed_pnl (pe_ledger e) + closed_pnl\<rparr>\<rparr>"

definition entry_request ::
  "fee_parameters \<Rightarrow> ('d::linordered_field) decision_outcome \<Rightarrow> 'd token_state \<Rightarrow> instant \<Rightarrow> bool \<Rightarrow>
   'd order_request" where
  "entry_request sim decision token observed_at force_fail =
    \<lparr>or_mint = tok_mint token, or_side = Buy, or_intended_time = observed_at,
     or_signal_time = observed_at, or_size_quote = do_position_size_quote decision,
     or_size_tokens = None, or_reference_price = max (tok_latest_price token) (decimal 1 9),
     or_liquidity_quote_depth = liquidity_depth token,
     or_max_slippage_bps = buy_slippage_bps sim, or_latency = milliseconds 150,
     or_force_fail = force_fail\<rparr>"

definition opened_position ::
  "('d::linordered_field) decision_outcome \<Rightarrow> 'd token_state \<Rightarrow> instant \<Rightarrow> 'd order_result \<Rightarrow>
   'd paper_position" where
  "opened_position decision token observed_at result =
    \<lparr>pp_mint = tok_mint token, pp_side = Buy, pp_entry_time = observed_at,
     pp_entry_price = fl_fill_price (res_fill result),
     pp_size_quote = do_position_size_quote decision,
     pp_size_tokens = fl_filled_size (res_fill result),
     pp_fees_paid = total_quote (res_fees result),
     pp_current_value = do_position_size_quote decision, pp_unrealized_pnl = 0,
     pp_realized_pnl = 0, pp_max_adverse_excursion = 0, pp_max_favorable_excursion = 0,
     pp_strategy = td_strategy (do_decision_event decision),
     pp_entry_decision_id = td_decision_id (do_decision_event decision),
     pp_expected_edge_quote = xe_expected_net_edge_quote (do_expected_edge decision),
     pp_entry_risk_scores = td_risk_vector (do_decision_event decision),
     pp_entry_reason_codes = td_reason_codes (do_decision_event decision),
     pp_exit_reason_codes = []\<rparr>"

definition charge_order ::
  "'d order_result \<Rightarrow> 'd \<Rightarrow> ('d::linordered_field) paper_ledger \<Rightarrow> 'd paper_ledger" where
  "charge_order result size_quote l = l
    \<lparr>pl_fee_drag := pl_fee_drag l + total_quote (res_fees result),
     pl_slippage_drag := pl_slippage_drag l + fl_slippage (res_fill result) * size_quote\<rparr>"

definition charge_latency :: "'d order_result \<Rightarrow> ('d::linordered_field) paper_ledger \<Rightarrow> 'd paper_ledger" where
  "charge_latency result l = l\<lparr>pl_latency_drag :=
     pl_latency_drag l + value_or_zero (fl_latency_cost_quote (res_fill result))\<rparr>"

definition enter_paper ::
  "('d::linordered_field) decision_outcome \<Rightarrow> 'd token_state \<Rightarrow> instant \<Rightarrow> bool \<Rightarrow>
   'd paper_executor \<Rightarrow> 'd paper_executor \<times> 'd fill_event option" where
  "enter_paper decision token observed_at force_fail e =
    (if map_of (pe_positions e) (tok_mint token) \<noteq> None \<or> do_position_size_quote decision \<le> 0
     then (e, None) else
     let result = simulate_order (pe_simulator e)
                    (entry_request (pe_simulator e) decision token observed_at force_fail);
         ledger = charge_latency result
                    (charge_order result (do_position_size_quote decision) (pe_ledger e));
         event = do_decision_event decision;
         fill = (res_fill result)
           \<lparr>fl_entry_decision_id := Some (td_decision_id event),
            fl_strategy := Some (td_strategy event),
            fl_entry_price := Some (fl_fill_price (res_fill result)),
            fl_expected_edge_quote := Some (xe_expected_net_edge_quote (do_expected_edge decision)),
            fl_entry_risk_scores := td_risk_vector event\<rparr> in
     if res_failed result
     then
       let fill = fill\<lparr>fl_net_pnl_quote := Some (res_net_quote_pnl result),
                       fl_gross_pnl_quote := Some (- total_quote (res_fees result))\<rparr> in
       (e\<lparr>pe_ledger := ledger\<lparr>pl_closed_pnl := pl_closed_pnl ledger + res_net_quote_pnl result,
          pl_fills := pl_fills ledger @ [fill]\<rparr>\<rparr>, Some fill)
     else
       (e\<lparr>pe_positions := AList.update (tok_mint token)
            (opened_position decision token observed_at result) (pe_positions e),
          pe_ledger := ledger\<lparr>pl_fills := pl_fills ledger @ [fill]\<rparr>\<rparr>, Some fill))"

definition reference_exit_price ::
  "(string \<Rightarrow> 'd option) \<Rightarrow> ('d::linordered_field) decision_outcome \<Rightarrow> 'd token_state \<Rightarrow> 'd" where
  "reference_exit_price parse_decimal decision token =
    (let exit_source = exit_source_label (do_diagnostics decision) in
     if exit_source = shred_emergency_exit \<or> exit_source = deshred_emergency_exit
     then (case diagnostic_decimal parse_decimal (do_diagnostics decision) key_expected_exit_price of
             Some v \<Rightarrow> if v > 0 then v else tok_latest_price token
           | None \<Rightarrow> tok_latest_price token)
     else tok_latest_price token)"

definition exit_request ::
  "fee_parameters \<Rightarrow> ('d::linordered_field) paper_position \<Rightarrow> 'd token_state \<Rightarrow> 'd \<Rightarrow> instant \<Rightarrow> bool \<Rightarrow>
   'd order_request" where
  "exit_request sim position token reference observed_at force_fail =
    \<lparr>or_mint = tok_mint token, or_side = Sell, or_intended_time = observed_at,
     or_signal_time = observed_at, or_size_quote = pp_size_tokens position * reference,
     or_size_tokens = Some (pp_size_tokens position),
     or_reference_price = max reference (decimal 1 9),
     or_liquidity_quote_depth = liquidity_depth token,
     or_max_slippage_bps = sell_slippage_bps sim, or_latency = milliseconds 150,
     or_force_fail = force_fail\<rparr>"

text \<open>What closing a position yields, gross and after the fees of both orders.\<close>

definition gross_pnl :: "('d::linordered_field) paper_position \<Rightarrow> 'd order_result \<Rightarrow> 'd" where
  "gross_pnl position result =
    fl_filled_size (res_fill result) * fl_fill_price (res_fill result) - pp_size_quote position"

definition realized_pnl :: "('d::linordered_field) paper_position \<Rightarrow> 'd order_result \<Rightarrow> 'd" where
  "realized_pnl position result =
    gross_pnl position result - pp_fees_paid position - total_quote (res_fees result)"

text \<open>The part of a closing fill that exits and liquidations write alike.\<close>

definition closing_fill ::
  "('d::linordered_field) paper_position \<Rightarrow> instant \<Rightarrow> 'd order_result \<Rightarrow> 'd fill_event" where
  "closing_fill position observed_at result =
    (let realized = realized_pnl position result in
     (res_fill result)
      \<lparr>fl_entry_decision_id := Some (pp_entry_decision_id position),
       fl_strategy := Some (pp_strategy position),
       fl_entry_price := Some (pp_entry_price position),
       fl_exit_price := Some (fl_fill_price (res_fill result)),
       fl_gross_pnl_quote := Some (gross_pnl position result),
       fl_net_pnl_quote := Some realized,
       fl_hold_time_ms := Some (millis_i64 (observed_at - pp_entry_time position)),
       fl_max_adverse_excursion := Some (pp_max_adverse_excursion position),
       fl_max_favorable_excursion := Some (pp_max_favorable_excursion position),
       fl_expected_edge_quote := Some (pp_expected_edge_quote position),
       fl_actual_realized_edge_quote := Some realized,
       fl_edge_forecast_error_quote := Some (realized - pp_expected_edge_quote position),
       fl_entry_risk_scores := pp_entry_risk_scores position\<rparr>)"

definition exit_fill ::
  "(string \<Rightarrow> 'd option) \<Rightarrow> ('d::linordered_field) decision_outcome \<Rightarrow> 'd paper_position \<Rightarrow> instant \<Rightarrow>
   'd order_result \<Rightarrow> 'd fill_event" where
  "exit_fill parse_decimal decision position observed_at result =
    (let diagnostics = do_diagnostics decision; event = do_decision_event decision in
     (closing_fill position observed_at result)
      \<lparr>fl_exit_decision_id := Some (td_decision_id event),
       fl_exit_reason := find (\<lambda>v. starts_with v key_exit_by) diagnostics,
       fl_exit_classification :=
         Some (if td_decision event = EmergencyExit then class_emergency else class_normal),
       fl_exit_risk_scores := td_risk_vector event,
       fl_exit_source := Some (exit_source_label diagnostics),
       fl_trigger_event_id := diagnostic_value diagnostics key_trigger_event_id,
       fl_malicious_sell_signature := diagnostic_value diagnostics key_sell_signature,
       fl_malicious_sell_seller := diagnostic_value diagnostics key_sell_seller,
       fl_malicious_sell_classification := diagnostic_value diagnostics key_sell_classification,
       fl_estimated_loss_saved_quote := diagnostic_decimal parse_decimal diagnostics key_saved_loss,
       fl_realized_loss_saved_quote :=
         diagnostic_decimal parse_decimal diagnostics key_realized_saved,
       fl_false_positive_exit := diagnostic_bool diagnostics key_false_positive,
       fl_opportunity_cost_if_false_positive :=
         diagnostic_decimal parse_decimal diagnostics key_opportunity_cost,
       fl_early_intent_to_geyser_processed_latency_ms :=
         diagnostic_i64 diagnostics key_latency_processed,
       fl_early_intent_to_account_effect_latency_ms :=
         diagnostic_i64 diagnostics key_latency_account,
       fl_early_intent_to_rooted_latency_ms := diagnostic_i64 diagnostics key_latency_rooted,
       fl_exit_latency_ms := Some 150\<rparr>)"

definition exit_paper ::
  "(string \<Rightarrow> 'd option) \<Rightarrow> ('d::linordered_field) decision_outcome \<Rightarrow> 'd token_state \<Rightarrow> instant \<Rightarrow>
   bool \<Rightarrow> 'd paper_executor \<Rightarrow> 'd paper_executor \<times> 'd fill_event option" where
  "exit_paper parse_decimal decision token observed_at force_fail e =
    (case map_of (pe_positions e) (tok_mint token) of
       None \<Rightarrow> (e, None)
     | Some position \<Rightarrow>
         (let result = simulate_order (pe_simulator e)
                (exit_request (pe_simulator e) position token
                   (reference_exit_price parse_decimal decision token) observed_at force_fail);
              ledger = charge_order result (pp_size_quote position) (pe_ledger e);
              fill = exit_fill parse_decimal decision position observed_at result in
          (e\<lparr>pe_positions := AList.delete (tok_mint token) (pe_positions e),
             pe_ledger := ledger
               \<lparr>pl_closed_pnl := pl_closed_pnl ledger + realized_pnl position result,
                pl_fills := pl_fills ledger @ [fill]\<rparr>\<rparr>, Some fill)))"

definition mark_position :: "('d::linordered_field) token_state \<Rightarrow> 'd paper_position \<Rightarrow> 'd paper_position" where
  "mark_position token p =
    (let current_value = pp_size_tokens p * tok_latest_price token;
         pnl = current_value - pp_size_quote p - pp_fees_paid p in
     p\<lparr>pp_current_value := current_value, pp_unrealized_pnl := pnl,
       pp_max_favorable_excursion := max (pp_max_favorable_excursion p) pnl,
       pp_max_adverse_excursion := min (pp_max_adverse_excursion p) pnl\<rparr>)"

definition hold_paper ::
  "('d::linordered_field) token_state \<Rightarrow> 'd paper_executor \<Rightarrow> 'd paper_executor \<times> 'd fill_event option" where
  "hold_paper token e =
    (case map_of (pe_positions e) (tok_mint token) of
       None \<Rightarrow> (e, None)
     | Some p \<Rightarrow>
         (e\<lparr>pe_positions := AList.update (tok_mint token) (mark_position token p) (pe_positions e)\<rparr>,
          None))"

definition handle_decision ::
  "(string \<Rightarrow> 'd option) \<Rightarrow> ('d::linordered_field) decision_outcome \<Rightarrow> 'd token_state \<Rightarrow> instant \<Rightarrow>
   bool \<Rightarrow> 'd paper_executor \<Rightarrow> 'd paper_executor \<times> 'd fill_event option" where
  "handle_decision parse_decimal decision token observed_at force_fail e =
    (case td_decision (do_decision_event decision) of
       EnterPaper \<Rightarrow> enter_paper decision token observed_at force_fail e
     | Exit \<Rightarrow> exit_paper parse_decimal decision token observed_at force_fail e
     | EmergencyExit \<Rightarrow> exit_paper parse_decimal decision token observed_at force_fail e
     | Hold \<Rightarrow> hold_paper token e
     | _ \<Rightarrow> (e, None))"

text \<open>
  One round of the loop of \<open>liquidate_all\<close>: the position is removed first, and a position whose token
  the snapshot does not hold is skipped.
\<close>

definition liquidate_one ::
  "(string \<times> 'd token_state) list \<Rightarrow> instant \<Rightarrow> string \<Rightarrow> string \<Rightarrow>
   ('d::linordered_field) paper_executor \<times> 'd fill_event list \<Rightarrow>
   'd paper_executor \<times> 'd fill_event list" where
  "liquidate_one tokens observed_at reason mint = (\<lambda>(e, fills).
    case map_of (pe_positions e) mint of
      None \<Rightarrow> (e, fills)
    | Some position \<Rightarrow>
        (let e = e\<lparr>pe_positions := AList.delete mint (pe_positions e)\<rparr> in
         case map_of tokens mint of
           None \<Rightarrow> (e, fills)
         | Some token \<Rightarrow>
             (let result = simulate_order (pe_simulator e)
                    (exit_request (pe_simulator e) position token (tok_latest_price token)
                       observed_at False);
                  ledger = charge_latency result
                    (charge_order result (pp_size_quote position) (pe_ledger e));
                  fill = (closing_fill position observed_at result)
                    \<lparr>fl_confirmation_source :=
                       (case fl_confirmation_source (res_fill result) of
                          Some source \<Rightarrow> Some source | None \<Rightarrow> Some reason),
                     fl_exit_reason := Some reason,
                     fl_exit_classification := Some scenario_end_class,
                     fl_exit_source := Some scenario_end_source\<rparr> in
              (e\<lparr>pe_ledger := ledger
                 \<lparr>pl_closed_pnl := pl_closed_pnl ledger + realized_pnl position result,
                  pl_fills := pl_fills ledger @ [fill]\<rparr>\<rparr>, fills @ [fill]))))"

definition liquidate_all ::
  "(string \<times> 'd token_state) list \<Rightarrow> instant \<Rightarrow> string \<Rightarrow>
   ('d::linordered_field) paper_executor \<Rightarrow> 'd paper_executor \<times> 'd fill_event list" where
  "liquidate_all tokens observed_at reason e =
    fold (liquidate_one tokens observed_at reason) (map fst (pe_positions e)) (e, [])"

subsection \<open>Streamed blockhashes\<close>

record 'd blockhash_snapshot =
  bh_latest_blockhash :: string
  bh_slot :: u64
  bh_block_height :: "u64 option"
  bh_parent_blockhash :: "string option"
  bh_observed_at :: instant
  bh_source :: string
  bh_confidence :: 'd
  bh_expiry_estimate_slot :: "u64 option"
  bh_stale :: bool

record blockhash_cache_config =
  bc_max_staleness_ms :: i64
  bc_ttl_slots :: u64

definition default_blockhash_cache_config :: blockhash_cache_config where
  "default_blockhash_cache_config = \<lparr>bc_max_staleness_ms = 30000, bc_ttl_slots = 150\<rparr>"

datatype blockhash_error =
    StreamBlockhashUnavailable
  | StreamBlockhashStale
  | BlockhashRpcForbiddenStreamOnly

text \<open>The cache is its \<open>latest\<close> snapshot.\<close>

type_synonym 'd blockhash_cache = "'d blockhash_snapshot option"

definition blockhash_update ::
  "string \<Rightarrow> u64 \<Rightarrow> u64 option \<Rightarrow> string option \<Rightarrow> instant \<Rightarrow> string \<Rightarrow> 'd \<Rightarrow> u64 \<Rightarrow>
   'd blockhash_cache \<Rightarrow> 'd blockhash_cache" where
  "blockhash_update latest slot height parent observed_at source confidence ttl_slots cache =
    Some \<lparr>bh_latest_blockhash = latest, bh_slot = slot, bh_block_height = height,
      bh_parent_blockhash = parent, bh_observed_at = observed_at, bh_source = source,
      bh_confidence = confidence, bh_expiry_estimate_slot = Some (sat_add slot ttl_slots),
      bh_stale = False\<rparr>"

definition resolve_for_execution ::
  "instant \<Rightarrow> u64 option \<Rightarrow> blockhash_cache_config \<Rightarrow> 'd blockhash_cache \<Rightarrow>
   (blockhash_error, 'd blockhash_snapshot) result" where
  "resolve_for_execution now current_slot config cache =
    (case cache of
       None \<Rightarrow> Err StreamBlockhashUnavailable
     | Some snapshot \<Rightarrow>
         (let age_ms = whole_milliseconds (now - bh_observed_at snapshot) in
          if age_ms > sint (bc_max_staleness_ms config) \<or>
             (case (current_slot, bh_expiry_estimate_slot snapshot) of
                (Some slot, Some expiry) \<Rightarrow> slot > expiry | _ \<Rightarrow> False)
          then Err StreamBlockhashStale else Ok snapshot))"

subsection \<open>Live submission\<close>

datatype live_execution_error =
    LiveDisabled
  | KillSwitchActive
  | StaleSignal
  | NotExecutable
  | MaxFeeExceeded
  | RpcBudgetDenied rpc_budget_error

record signer =
  sg_public_key :: string
  sg_sign_message :: "string \<Rightarrow> (live_execution_error, u8 list) result"

record 'd live_execution_result =
  lr_sent :: bool
  lr_dry_run :: bool
  lr_reason :: string
  lr_estimated_fee_quote :: 'd

record 'd live_executor =
  le_execution :: "'d execution_config"
  le_simulator :: fee_parameters
  le_signer :: signer
  le_rpc_budget :: rpc_budget_manager
  le_dry_run :: bool
  le_kill_switch :: bool

definition new_live_executor ::
  "'d execution_config \<Rightarrow> fee_parameters \<Rightarrow> signer \<Rightarrow> rpc_budget_manager \<Rightarrow> bool \<Rightarrow> 'd live_executor" where
  "new_live_executor execution simulator signer rpc_budget dry_run =
    \<lparr>le_execution = execution, le_simulator = simulator, le_signer = signer,
     le_rpc_budget = rpc_budget, le_dry_run = dry_run, le_kill_switch = False\<rparr>"

definition set_kill_switch :: "bool \<Rightarrow> 'd live_executor \<Rightarrow> 'd live_executor" where
  "set_kill_switch active e = e\<lparr>le_kill_switch := active\<rparr>"

definition send_request :: "string \<Rightarrow> string \<Rightarrow> string \<Rightarrow> instant \<Rightarrow> rpc_call_request" where
  "send_request mint config_hash run_id now =
    \<lparr>req_timestamp = now, req_endpoint = configured_rpc, req_method = send_transaction,
     req_caller_module = executor_module, req_reason = ExecutionSend,
     req_category = TransactionSend, req_network_kind = JsonRpc, req_related_token = Some mint,
     req_related_signature = None, estimated_provider_credit_cost = 1,
     actual_provider_credit_cost = None, req_config_hash = config_hash, req_run_id = run_id,
     req_live_mode = True\<rparr>"

definition estimated_fee :: "('d::linordered_field) live_executor \<Rightarrow> 'd decision_outcome \<Rightarrow> 'd" where
  "estimated_fee e decision =
    total_quote (fee_breakdown_of (le_simulator e) (do_position_size_quote decision) False False)"

definition submit ::
  "('d::linordered_field) decision_outcome \<Rightarrow> 'd token_state \<Rightarrow> string \<Rightarrow> string \<Rightarrow> instant \<Rightarrow>
   'd live_executor \<Rightarrow>
   'd live_executor \<times> (live_execution_error, 'd live_execution_result) result" where
  "submit decision token config_hash run_id now e =
    (if \<not> ex_live_enabled (le_execution e) then (e, Err LiveDisabled)
     else if le_kill_switch e then (e, Err KillSwitchActive)
     else if td_decision (do_decision_event decision) \<notin> {EnterLive, EnterPaper}
     then (e, Err NotExecutable)
     else if now - td_no_lookahead_timestamp (do_decision_event decision) > duration_seconds 3
     then (e, Err StaleSignal)
     else if estimated_fee e decision > ex_max_fee_quote (le_execution e)
     then (e, Err MaxFeeExceeded)
     else case sg_sign_message (le_signer e) (tok_mint token) of
       Inl err \<Rightarrow> (e, Err err)
     | Inr _ \<Rightarrow>
         (case check_and_record (le_rpc_budget e)
                 (send_request (tok_mint token) config_hash run_id now) of
            (budget, Inl err) \<Rightarrow> (e\<lparr>le_rpc_budget := budget\<rparr>, Err (RpcBudgetDenied err))
          | (budget, Inr _) \<Rightarrow>
              (e\<lparr>le_rpc_budget := budget\<rparr>,
               Ok \<lparr>lr_sent = (\<not> le_dry_run e), lr_dry_run = le_dry_run e,
                   lr_reason = (if le_dry_run e then dry_run_guard
                                else submitted_by @ sg_public_key (le_signer e)),
                   lr_estimated_fee_quote = estimated_fee e decision\<rparr>)))"

subsection \<open>The books of the paper executor\<close>

definition fill_net :: "('d::linordered_field) fill_event \<Rightarrow> 'd" where
  "fill_net fill = value_or_zero (fl_net_pnl_quote fill)"

definition ledger_balances :: "('d::linordered_field) paper_ledger \<Rightarrow> bool" where
  "ledger_balances l \<longleftrightarrow>
    pl_closed_pnl l = sum_list (map fill_net (pl_fills l)) \<and>
    pl_fee_drag l = sum_list (map fl_fees (pl_fills l)) \<and> pl_latency_drag l = 0"

definition position_ok :: "string \<Rightarrow> ('d::linordered_field) paper_position \<Rightarrow> bool" where
  "position_ok mint p \<longleftrightarrow>
    pp_mint p = mint \<and> 0 < pp_size_quote p \<and> 0 < pp_size_tokens p \<and> 0 \<le> pp_fees_paid p \<and>
    pp_max_adverse_excursion p \<le> 0 \<and> 0 \<le> pp_max_favorable_excursion p"

definition paper_inv :: "('d::linordered_field) paper_executor \<Rightarrow> bool" where
  "paper_inv e \<longleftrightarrow> ledger_balances (pe_ledger e) \<and> distinct (map fst (pe_positions e)) \<and>
    (\<forall>mint p. map_of (pe_positions e) mint = Some p \<longrightarrow> position_ok mint p)"

datatype 'd paper_op =
    Decide "'d decision_outcome" "'d token_state" instant bool
  | Liquidate "(string \<times> 'd token_state) list" instant string

fun paper_step ::
  "(string \<Rightarrow> 'd option) \<Rightarrow> ('d::linordered_field) paper_op \<Rightarrow> 'd paper_executor \<Rightarrow> 'd paper_executor" where
  "paper_step parse_decimal (Decide decision token now force_fail) e =
    fst (handle_decision parse_decimal decision token now force_fail e)"
| "paper_step parse_decimal (Liquidate tokens now reason) e = fst (liquidate_all tokens now reason e)"

lemma decimal_pos: "0 < m \<Longrightarrow> 0 < (decimal m n :: 'd::linordered_field)"
  by (simp add: decimal_def)

lemma ledger_extend:
  assumes "ledger_balances l" "pl_closed_pnl l' = pl_closed_pnl l + fill_net fill"
    "pl_fee_drag l' = pl_fee_drag l + fl_fees fill" "pl_fills l' = pl_fills l @ [fill]"
    "pl_latency_drag l' = 0"
  shows "ledger_balances l'"
  using assms by (simp add: ledger_balances_def)

lemma charge_simps [simp]:
  "pl_closed_pnl (charge_order r q l) = pl_closed_pnl l"
  "pl_fills (charge_order r q l) = pl_fills l"
  "pl_latency_drag (charge_order r q l) = pl_latency_drag l"
  "pl_fee_drag (charge_order r q l) = pl_fee_drag l + total_quote (res_fees r)"
  "pl_closed_pnl (charge_latency r l) = pl_closed_pnl l"
  "pl_fills (charge_latency r l) = pl_fills l"
  "pl_fee_drag (charge_latency r l) = pl_fee_drag l"
  "pl_latency_drag (charge_latency r l) =
     pl_latency_drag l + value_or_zero (fl_latency_cost_quote (res_fill r))"
  by (simp_all add: charge_order_def charge_latency_def)

lemma value_or_zero_simps [simp]: "value_or_zero (Some x) = x" "value_or_zero None = 0"
  by (simp_all add: value_or_zero_def)

lemma closing_fill_simps [simp]:
  "fl_fees (closing_fill p now (simulate_order sim r)) =
     total_quote (res_fees (simulate_order sim r))"
  "fl_net_pnl_quote (closing_fill p now result) = Some (realized_pnl p result)"
  by (simp_all add: closing_fill_def Let_def)

lemma exit_fill_simps [simp]:
  "fl_fees (exit_fill pd d p now (simulate_order sim r)) =
     total_quote (res_fees (simulate_order sim r))"
  "fl_net_pnl_quote (exit_fill pd d p now result) = Some (realized_pnl p result)"
  by (simp_all add: exit_fill_def Let_def del: simulate_order_simps)

lemma ledger_closed:
  assumes "ledger_balances l"
  shows "ledger_balances ((charge_order (simulate_order sim r) q l)
    \<lparr>pl_closed_pnl := pl_closed_pnl l + realized_pnl p (simulate_order sim r),
     pl_fills := pl_fills l @ [exit_fill pd d p now (simulate_order sim r)]\<rparr>)"
  by (rule ledger_extend [OF assms, where fill = "exit_fill pd d p now (simulate_order sim r)"])
    (use assms in \<open>simp_all add: fill_net_def ledger_balances_def del: simulate_order_simps\<close>)

definition positions_ok :: "(string \<times> ('d::linordered_field) paper_position) list \<Rightarrow> bool" where
  "positions_ok ps \<longleftrightarrow> distinct (map fst ps) \<and> (\<forall>mint p. map_of ps mint = Some p \<longrightarrow> position_ok mint p)"

lemma paper_inv_iff: "paper_inv e \<longleftrightarrow> ledger_balances (pe_ledger e) \<and> positions_ok (pe_positions e)"
  by (simp add: paper_inv_def positions_ok_def)

lemma positions_delete: "positions_ok ps \<Longrightarrow> positions_ok (AList.delete k ps)"
  by (simp add: positions_ok_def delete_conv' distinct_delete)

lemma positions_update:
  "positions_ok ps \<Longrightarrow> position_ok k p \<Longrightarrow> positions_ok (AList.update k p ps)"
  by (simp add: positions_ok_def update_conv' distinct_update)

lemma positions_lookup: "positions_ok ps \<Longrightarrow> map_of ps k = Some p \<Longrightarrow> position_ok k p"
  by (simp add: positions_ok_def)

lemma opened_position_ok:
  assumes "0 < do_position_size_quote d"
  shows "position_ok (tok_mint token)
    (opened_position d token now (simulate_order sim (entry_request sim d token now False)))"
proof -
  let ?r = "entry_request sim d token now False"
  have "0 < or_reference_price ?r"
    by (simp add: entry_request_def less_max_iff_disj decimal_pos)
  then have price: "0 < impacted_price sim ?r" by (rule impacted_price_pos)
  have "or_side ?r = Buy" "or_size_quote ?r = do_position_size_quote d" "\<not> or_force_fail ?r"
    by (simp_all add: entry_request_def)
  with price assms show ?thesis
    by (simp add: position_ok_def opened_position_def filled_size_def order_notional_def fees_nonneg)
qed

lemma enter_paper_inv: "paper_inv e \<Longrightarrow> paper_inv (fst (enter_paper d token now failing e))"
proof -
  assume inv: "paper_inv e"
  let ?r = "simulate_order (pe_simulator e) (entry_request (pe_simulator e) d token now failing)"
  show ?thesis
  proof (cases "map_of (pe_positions e) (tok_mint token) \<noteq> None \<or> do_position_size_quote d \<le> 0")
    case True
    with inv show ?thesis by (simp add: enter_paper_def)
  next
    case go: False
    show ?thesis
    proof (cases failing)
      case True
      then have "res_failed ?r" by (simp add: entry_request_def)
      with inv go show ?thesis
        by (simp add: enter_paper_def Let_def paper_inv_iff ledger_balances_def fill_net_def True entry_request_def)
    next
      case False
      then have "\<not> res_failed ?r" by (simp add: entry_request_def)
      moreover have "fl_net_pnl_quote (res_fill ?r) = None"
        by (simp add: simulate_order_def order_fill_def Let_def)
      moreover have "positions_ok (AList.update (tok_mint token) (opened_position d token now ?r) (pe_positions e))"
        using inv go opened_position_ok [of d token now "pe_simulator e"]
        by (intro positions_update) (simp_all add: paper_inv_iff False)
      ultimately show ?thesis using inv go
        by (simp add: enter_paper_def Let_def paper_inv_iff ledger_balances_def fill_net_def False)
    qed
  qed
qed

lemma exit_paper_inv: "paper_inv e \<Longrightarrow> paper_inv (fst (exit_paper pd d token now failing e))"
  by (auto simp: exit_paper_def Let_def paper_inv_iff positions_delete ledger_closed
      simp del: simulate_order_simps split: option.splits)

lemma hold_paper_inv: "paper_inv e \<Longrightarrow> paper_inv (fst (hold_paper token e))"
proof (cases "map_of (pe_positions e) (tok_mint token)")
  case (Some p)
  assume inv: "paper_inv e"
  then have "position_ok (tok_mint token) p" using Some positions_lookup by (auto simp: paper_inv_iff)
  then have "position_ok (tok_mint token) (mark_position token p)"
    by (simp add: position_ok_def mark_position_def Let_def min.coboundedI1 max.coboundedI1)
  with inv show ?thesis by (simp add: hold_paper_def Some paper_inv_iff positions_update)
qed (simp add: hold_paper_def)

lemma handle_decision_inv: "paper_inv e \<Longrightarrow> paper_inv (fst (handle_decision pd d token now failing e))"
  by (cases "td_decision (do_decision_event d)")
    (simp_all add: handle_decision_def enter_paper_inv exit_paper_inv hold_paper_inv)

lemma liquidate_one_inv:
  assumes "paper_inv (fst s)"
  shows "paper_inv (fst (liquidate_one tokens now reason mint s))"
proof (cases s)
  case (Pair e fills)
  show ?thesis
  proof (cases "map_of (pe_positions e) mint")
    case (Some p)
    show ?thesis
    proof (cases "map_of tokens mint")
      case None
      with assms Some Pair show ?thesis by (simp add: liquidate_one_def paper_inv_iff positions_delete)
    next
      case token: (Some token)
      with assms Some Pair show ?thesis
        by (simp add: liquidate_one_def Let_def paper_inv_iff positions_delete ledger_balances_def
            fill_net_def)
    qed
  qed (use assms Pair in \<open>simp add: liquidate_one_def\<close>)
qed

lemma paper_step_inv: "paper_inv e \<Longrightarrow> paper_inv (paper_step pd op e)"
proof (cases op)
  case (Liquidate tokens now reason)
  assume "paper_inv e"
  then have "paper_inv (fst (fold (liquidate_one tokens now reason) (map fst (pe_positions e)) (e, [])))"
    by (intro fold_keeps [where P = "\<lambda>s. paper_inv (fst s)"]) (simp_all add: liquidate_one_inv)
  then show ?thesis by (simp add: Liquidate liquidate_all_def)
qed (simp add: handle_decision_inv)

text \<open>
  The books of the paper executor balance: after any sequence of decisions, failed or not, and
  liquidations, the closed result is the sum of the net results of the recorded fills, the fee drag is
  the sum of their fees, and each mint has at most one open position, which holds a positive size of
  tokens bought for a positive amount.
\<close>
theorem paper_books_balance:
  "paper_inv (fold (paper_step parse_decimal) ops (new_paper_executor simulator))"
proof (rule fold_keeps [where P = paper_inv])
  show "paper_inv (new_paper_executor simulator)"
    by (simp add: new_paper_executor_def paper_inv_def ledger_balances_def)
qed (rule paper_step_inv)

subsection \<open>Closing a position\<close>

lemma sell_price_le_reference:
  "or_side r = Sell \<Longrightarrow> 0 \<le> or_reference_price r \<Longrightarrow> impacted_price sim r \<le> or_reference_price r"
  using price_multiplier_ge_1 [of sim r] mult_left_mono [of 1 "price_multiplier sim r" "or_reference_price r"]
  by (simp add: impacted_price_sell divide_le_eq)

lemma exit_result:
  fixes reference :: "'d::linordered_field"
  assumes "position_ok mint p"
  defines "price \<equiv> max reference (decimal 1 9)"
  shows "realized_pnl p (simulate_order sim (exit_request sim p token reference now failing)) \<le>
      (if failing then 0 else pp_size_tokens p * price) - pp_size_quote p - pp_fees_paid p"
proof -
  let ?r = "exit_request sim p token reference now failing"
  have r: "or_side ?r = Sell" "or_reference_price ?r = price" "or_size_tokens ?r = Some (pp_size_tokens p)"
    "or_force_fail ?r = failing"
    by (simp_all add: exit_request_def price_def)
  have "0 < price" by (simp add: price_def less_max_iff_disj decimal_pos)
  then have p0: "0 < impacted_price sim ?r" using impacted_price_pos [of ?r sim] r by simp
  have le: "impacted_price sim ?r \<le> price"
    using sell_price_le_reference [of ?r sim] r \<open>0 < price\<close> by simp
  have tokens: "0 < pp_size_tokens p" using assms(1) by (simp add: position_ok_def)
  have notional: "0 \<le> order_notional sim ?r" using p0 tokens r by (simp add: order_notional_def)
  have "filled_size sim ?r = (if failing then 0 else pp_size_tokens p)"
    unfolding filled_size_def r using p0 by simp
  then have "filled_size sim ?r * impacted_price sim ?r \<le> (if failing then 0 else pp_size_tokens p * price)"
    using le tokens by (cases failing) simp_all
  with fees_nonneg [OF notional, of sim False failing] show ?thesis
    by (simp add: realized_pnl_def gross_pnl_def r)
qed

definition example_event :: "trade_decision \<Rightarrow> rat trade_decision_event" where
  "example_event decision = \<lparr>td_decision_id = [], td_mint = [], td_decision = decision,
     td_strategy = [], td_feature_snapshot_hash = [], td_score_vector = Map.empty,
     td_risk_vector = Map.empty, td_expected_net_edge_quote = 0, td_expected_net_edge_pct = 0,
     td_expected_edge_confidence = 0, td_reason_codes = [], td_config_hash = [],
     td_strategy_version = [], td_data_quality_score = 1, td_no_lookahead_timestamp = 0\<rparr>"

definition example_decision :: "trade_decision \<Rightarrow> rat decision_outcome" where
  "example_decision decision = \<lparr>do_decision_event = example_event decision,
     do_strategy = DefensiveNoTrade, do_position_size_quote = 10,
     do_expected_edge = \<lparr>xe_expected_price_move_pct = 0, xe_expected_exit_price = 0,
       xe_expected_hold_time_ms = 0, xe_expected_fee_drag_quote = 0,
       xe_expected_slippage_drag_quote = 0, xe_expected_latency_drag_quote = 0,
       xe_expected_curve_impact_quote = 0, xe_expected_exit_impact_quote = 0,
       xe_expected_failed_tx_cost_quote = 0, xe_minimum_required_move_pct = 0,
       xe_expected_net_edge_quote = 0, xe_expected_net_edge_pct = 0, xe_confidence = 0,
       xe_reason_codes = []\<rparr>,
     do_composite_scores = Map.empty, do_diagnostics = []\<rparr>"

definition example_position :: "rat paper_position" where
  "example_position = \<lparr>pp_mint = [], pp_side = Buy, pp_entry_time = 0, pp_entry_price = 1 / 10,
     pp_size_quote = 10, pp_size_tokens = 100, pp_fees_paid = 1 / 10, pp_current_value = 10,
     pp_unrealized_pnl = 0, pp_realized_pnl = 0, pp_max_adverse_excursion = 0,
     pp_max_favorable_excursion = 0, pp_strategy = [], pp_entry_decision_id = [],
     pp_expected_edge_quote = 0, pp_entry_risk_scores = Map.empty, pp_entry_reason_codes = [],
     pp_exit_reason_codes = []\<rparr>"

definition example_paper :: "rat paper_executor" where
  "example_paper = (new_paper_executor default_fee_parameters)
     \<lparr>pe_positions := [([], example_position)]\<rparr>"

lemma example_paper_inv: "paper_inv example_paper"
  by (simp add: example_paper_def paper_inv_def ledger_balances_def new_paper_executor_def
      position_ok_def example_position_def)

text \<open>
  An exit never realizes more than the mark: closing an open position removes it and no other, and
  its net result is at most the tokens valued at the exit reference price (at least \<open>10^-9\<close>) less what
  was paid for them and the entry fees.
\<close>
theorem exit_below_mark:
  assumes "paper_inv e" and "map_of (pe_positions e) (tok_mint token) = Some p"
    and "td_decision (do_decision_event d) \<in> {Exit, EmergencyExit}"
    and "handle_decision pd d token now False e = (e', fill)"
  shows "map_of (pe_positions e') = (map_of (pe_positions e))(tok_mint token := None) \<and>
    pl_closed_pnl (pe_ledger e') - pl_closed_pnl (pe_ledger e) \<le>
      pp_size_tokens p * max (reference_exit_price pd d token) (decimal 1 9)
      - pp_size_quote p - pp_fees_paid p"
proof -
  have "position_ok (tok_mint token) p"
    using assms(1,2) positions_lookup by (auto simp: paper_inv_iff)
  note le = exit_result [OF this, of "pe_simulator e" token "reference_exit_price pd d token" now False]
  from assms(3,4) have "exit_paper pd d token now False e = (e', fill)"
    by (auto simp: handle_decision_def)
  with assms(2) le show ?thesis
    by (auto simp: exit_paper_def Let_def delete_conv' simp del: simulate_order_simps)
qed

text \<open>
  A failed exit still closes the position: when the simulated sell fails, the position is gone from
  the executor, nothing of it is sold, and its whole cost is booked as a loss with the fees on top.
\<close>
theorem failed_exit_writes_off:
  assumes "paper_inv e" and "map_of (pe_positions e) (tok_mint token) = Some p"
    and "td_decision (do_decision_event d) \<in> {Exit, EmergencyExit}"
    and "handle_decision pd d token now True e = (e', Some fill)"
  shows "map_of (pe_positions e') (tok_mint token) = None \<and> fl_filled_size fill = 0 \<and>
    fl_net_pnl_quote fill = Some (- pp_size_quote p - pp_fees_paid p - fl_fees fill) \<and>
    pl_closed_pnl (pe_ledger e') = pl_closed_pnl (pe_ledger e) + fill_net fill"
proof -
  let ?r = "exit_request (pe_simulator e) p token (reference_exit_price pd d token) now True"
  have r: "or_force_fail ?r = True" by (simp add: exit_request_def)
  then have filled: "filled_size (pe_simulator e) ?r = 0" by (simp add: filled_size_def)
  from assms(3,4) have "exit_paper pd d token now True e = (e', Some fill)"
    by (auto simp: handle_decision_def)
  with assms(2) have e': "e' = e\<lparr>pe_positions := AList.delete (tok_mint token) (pe_positions e),
      pe_ledger := (charge_order (simulate_order (pe_simulator e) ?r) (pp_size_quote p) (pe_ledger e))
        \<lparr>pl_closed_pnl := pl_closed_pnl (pe_ledger e) + realized_pnl p (simulate_order (pe_simulator e) ?r),
         pl_fills := pl_fills (pe_ledger e) @ [fill]\<rparr>\<rparr>"
    and fill: "fill = exit_fill pd d p now (simulate_order (pe_simulator e) ?r)"
    by (auto simp: exit_paper_def Let_def simp del: simulate_order_simps)
  have "fl_filled_size fill = 0"
    by (simp add: fill exit_fill_def closing_fill_def Let_def filled)
  then show ?thesis
    by (simp add: e' fill fill_net_def delete_conv' realized_pnl_def gross_pnl_def filled r)
qed

definition example_exit_token :: "rat token_state" where
  "example_exit_token = (new_token_state [] Replay)\<lparr>tok_latest_price := 1 / 10\<rparr>"

lemma example_exit:
  "map_of (pe_positions example_paper) (tok_mint example_exit_token) = Some example_position"
  "td_decision (do_decision_event (example_decision d)) = d"
  "reference_exit_price (\<lambda>_. None) (example_decision d) example_exit_token = 1 / 10"
  by (simp_all add: example_paper_def example_exit_token_def new_token_state_def
      example_decision_def example_event_def reference_exit_price_def Let_def
      diagnostic_decimal_def diagnostic_value_def)

lemma example_position_simps [simp]:
  "pp_size_quote example_position = 10" "pp_size_tokens example_position = 100"
  "pp_fees_paid example_position = 1 / 10"
  by (simp_all add: example_position_def)

theorem exit_below_mark_witness:
  "pl_closed_pnl (pe_ledger (fst (handle_decision (\<lambda>_. None) (example_decision Exit)
     example_exit_token 0 False example_paper))) \<le> - (1 / 10)"
proof -
  obtain e fill where run: "handle_decision (\<lambda>_. None) (example_decision Exit) example_exit_token 0 False
      example_paper = (e, fill)" by fastforce
  have "pl_closed_pnl (pe_ledger example_paper) = 0"
    by (simp add: example_paper_def new_paper_executor_def)
  with exit_below_mark [OF example_paper_inv example_exit(1) _ run]
  show ?thesis by (simp add: example_exit run decimal_def)
qed

theorem failed_exit_writes_off_witness:
  "(case handle_decision (\<lambda>_. None) (example_decision EmergencyExit) example_exit_token 0 True
      example_paper of
      (e, Some fill) \<Rightarrow> pe_positions e = [] \<and> fl_net_pnl_quote fill = Some (- 101 / 10 - fl_fees fill)
    | (e, None) \<Rightarrow> False)"
proof -
  obtain e fill where run: "handle_decision (\<lambda>_. None) (example_decision EmergencyExit)
      example_exit_token 0 True example_paper = (e, Some fill)"
    by (simp add: handle_decision_def example_exit exit_paper_def Let_def)
  then have "pe_positions e = []"
    by (auto simp: handle_decision_def example_exit exit_paper_def Let_def example_paper_def
        example_exit_token_def new_token_state_def)
  with failed_exit_writes_off [OF example_paper_inv example_exit(1) _ run]
  show ?thesis by (simp add: example_exit run)
qed

subsection \<open>Liquidation\<close>

lemma liquidate_one_positions:
  "pe_positions (fst (liquidate_one tokens now reason mint s)) =
    AList.delete mint (pe_positions (fst s))"
  by (cases s) (auto simp: liquidate_one_def Let_def delete_id map_of_eq_None_iff
      split: option.splits)

lemma liquidate_one_fills:
  "length (snd (liquidate_one tokens now reason mint s)) = length (snd s) +
    (if map_of (pe_positions (fst s)) mint \<noteq> None \<and> map_of tokens mint \<noteq> None then 1 else 0)"
  by (cases s) (auto simp: liquidate_one_def Let_def split: option.splits)

lemma liquidate_fold_positions:
  "map_of (pe_positions (fst (fold (liquidate_one tokens now reason) mints s))) =
    (map_of (pe_positions (fst s))) |` (- set mints)"
proof (induction mints arbitrary: s)
  case (Cons m mints)
  show ?case
    by (simp add: Cons liquidate_one_positions delete_conv')
      (auto simp: restrict_map_def fun_eq_iff)
qed (simp add: restrict_map_def fun_eq_iff)

lemma liquidate_fold_fills:
  assumes "distinct mints" and "\<And>m. m \<in> set mints \<Longrightarrow> map_of (pe_positions (fst s)) m \<noteq> None"
  shows "length (snd (fold (liquidate_one tokens now reason) mints s)) =
    length (snd s) + length (filter (\<lambda>m. map_of tokens m \<noteq> None) mints)"
  using assms
proof (induction mints arbitrary: s)
  case (Cons m mints)
  let ?s = "liquidate_one tokens now reason m s"
  have "map_of (pe_positions (fst ?s)) k \<noteq> None" if "k \<in> set mints" for k
    using Cons.prems that by (auto simp: liquidate_one_positions delete_conv')
  with Cons have "length (snd (fold (liquidate_one tokens now reason) mints ?s)) =
      length (snd ?s) + length (filter (\<lambda>m. map_of tokens m \<noteq> None) mints)" by simp
  with Cons.prems(2) [of m] show ?case by (simp add: liquidate_one_fills)
qed simp

text \<open>
  The liquidation at the end of a scenario closes everything but books only what it can price: no
  position stays open, and there is one fill for each position whose token the snapshot holds. The
  other positions disappear without a fill, and so without a loss.
\<close>
theorem liquidation_skips_unknown_tokens:
  assumes "paper_inv e" and "liquidate_all tokens now reason e = (e', fills)"
  shows "pe_positions e' = [] \<and>
    length fills = length (filter (\<lambda>(mint, p). map_of tokens mint \<noteq> None) (pe_positions e))"
proof -
  let ?mints = "map fst (pe_positions e)"
  have d: "distinct ?mints" using assms(1) by (simp add: paper_inv_def)
  have f: "fold (liquidate_one tokens now reason) ?mints (e, []) = (e', fills)"
    using assms(2) by (simp add: liquidate_all_def)
  have "map_of (pe_positions e') = Map.empty"
    using liquidate_fold_positions [of tokens now reason ?mints "(e, [])"]
    by (auto simp: f restrict_map_def fun_eq_iff dest: map_of_SomeD) (metis map_of_eq_None_iff set_map)
  moreover have "length fills = length (filter (\<lambda>m. map_of tokens m \<noteq> None) ?mints)"
    using liquidate_fold_fills [OF d, of "(e, [])" tokens now reason] f
    by (simp add: map_of_eq_None_iff)
  ultimately show ?thesis by (simp add: filter_map comp_def case_prod_unfold)
qed

theorem liquidation_skips_unknown_tokens_witness:
  "pl_closed_pnl (pe_ledger (fst (liquidate_all [] 0 [] example_paper))) = 0 \<and>
   pe_positions (fst (liquidate_all [] 0 [] example_paper)) = []"
proof -
  obtain e fills where run: "liquidate_all [] 0 [] example_paper = (e, fills)" by fastforce
  then have "pl_closed_pnl (pe_ledger e) = 0"
    by (auto simp: liquidate_all_def liquidate_one_def example_paper_def new_paper_executor_def)
  with liquidation_skips_unknown_tokens [OF example_paper_inv run] show ?thesis by (simp add: run)
qed

subsection \<open>Blockhashes and submissions\<close>

text \<open>
  A cached blockhash is used exactly while it is fresh: after an update the cache resolves to that
  blockhash if and only if it is no older than the staleness limit and the current slot has not passed
  the slot of the blockhash plus its time to live, a sum that saturates.
\<close>
theorem blockhash_fresh_iff:
  "resolve_for_execution now (Some cur) config
     (blockhash_update h slot height parent observed source confidence ttl cache) = Ok snapshot \<longleftrightarrow>
   Some snapshot = blockhash_update h slot height parent observed source confidence ttl cache \<and>
   whole_milliseconds (now - observed) \<le> sint (bc_max_staleness_ms config) \<and>
   unat cur \<le> min (unat slot + unat ttl) (2 ^ 64 - 1)"
  by (auto simp: resolve_for_execution_def blockhash_update_def Let_def not_less width_simps
      split: if_splits)

text \<open>
  A live submission goes through exactly when every guard passes: live execution enabled, kill
  switch off, an entry decision, a signal at most three seconds old, a fee within the limit, a
  signature, and a budget that grants the send; and only in the last step is anything charged.
\<close>
theorem submit_guards:
  "is_ok (snd (submit d token config_hash run_id now e)) =
    (ex_live_enabled (le_execution e) \<and> \<not> le_kill_switch e \<and>
     td_decision (do_decision_event d) \<in> {EnterLive, EnterPaper} \<and>
     now - td_no_lookahead_timestamp (do_decision_event d) \<le> duration_seconds 3 \<and>
     estimated_fee e d \<le> ex_max_fee_quote (le_execution e) \<and>
     is_ok (sg_sign_message (le_signer e) (tok_mint token)) \<and>
     is_ok (snd (check_and_record (le_rpc_budget e)
       (send_request (tok_mint token) config_hash run_id now)))) \<and>
   le_rpc_budget (fst (submit d token config_hash run_id now e)) \<in>
     {le_rpc_budget e, fst (check_and_record (le_rpc_budget e)
       (send_request (tok_mint token) config_hash run_id now))}"
proof (rule conjI)
  let ?call = "check_and_record (le_rpc_budget e) (send_request (tok_mint token) config_hash run_id now)"
  show "is_ok (snd (submit d token config_hash run_id now e)) =
    (ex_live_enabled (le_execution e) \<and> \<not> le_kill_switch e \<and>
     td_decision (do_decision_event d) \<in> {EnterLive, EnterPaper} \<and>
     now - td_no_lookahead_timestamp (do_decision_event d) \<le> duration_seconds 3 \<and>
     estimated_fee e d \<le> ex_max_fee_quote (le_execution e) \<and>
     is_ok (sg_sign_message (le_signer e) (tok_mint token)) \<and> is_ok (snd ?call))"
    by (cases "sg_sign_message (le_signer e) (tok_mint token)"; cases ?call; cases "snd ?call")
      (simp_all del: insert_iff add: submit_def not_less not_le)
  show "le_rpc_budget (fst (submit d token config_hash run_id now e)) \<in> {le_rpc_budget e, fst ?call}"
    by (cases "sg_sign_message (le_signer e) (tok_mint token)"; cases ?call; cases "snd ?call")
      (simp_all add: submit_def)
qed

end
