(* ===== verification/Curve_State.thy ===== *)
theory Curve_State
  imports Complex_Main State_Records "HOL-Library.Multiset"
begin

text \<open>
  The bonding curve of a token, \<open>BondingCurveState\<close> in \<open>crates/state/src/lib.rs\<close>. Account updates are
  applied in the order of slot and write version; an older one is refused. The result is \<open>None\<close> where a
  conversion divides by zero and the code panics.
\<close>

definition or_else :: "'a option \<Rightarrow> 'a option option \<Rightarrow> 'a option option" where
  "or_else x alternative = (case x of Some v \<Rightarrow> Some (Some v) | None \<Rightarrow> alternative)"

definition unwrap_or :: "'a \<Rightarrow> 'a option \<Rightarrow> 'a" where
  "unwrap_or d x = (case x of Some v \<Rightarrow> v | None \<Rightarrow> d)"

definition first_some :: "'a option \<Rightarrow> 'a option \<Rightarrow> 'a option" where
  "first_some x y = (case x of Some v \<Rightarrow> Some v | None \<Rightarrow> y)"

definition one_if_some :: "'a option \<Rightarrow> 'd::linordered_field" where
  "one_if_some x = (if x = None then 0 else 1)"

definition src_virtual_reserves :: string where "src_virtual_reserves = ''virtual_reserves''"
definition src_economic_supply :: string where
  "src_economic_supply = ''price_times_curve_economic_supply''"
definition src_minus_reserved :: string where
  "src_minus_reserved = ''real_token_reserves_ui_minus_reserved''"

definition update_version :: "'d bonding_curve_update_event \<Rightarrow> u64" where
  "update_version u = unwrap_or 0 (bc_account_write_version u)"

definition is_stale :: "'d bonding_curve_update_event \<Rightarrow> u64 \<Rightarrow> 'd bonding_curve_state \<Rightarrow> bool" where
  "is_stale u slot s \<longleftrightarrow>
    slot < cv_update_slot s \<or>
    (slot = cv_update_slot s \<and> update_version u < cv_update_write_version s)"

text \<open>The part of \<open>apply_update\<close> after the version check.\<close>

definition apply_curve ::
  "('d::linordered_field) bonding_curve_update_event \<Rightarrow> u64 \<Rightarrow> 'd bonding_curve_state \<Rightarrow>
   'd bonding_curve_state option" where
  "apply_curve u slot s =
    (let decimals = unwrap_or default_pump_token_decimals (bc_token_decimals u);
         vq = bc_virtual_quote_reserves u; vt = bc_virtual_token_reserves u in
     Option.bind
       (or_else (bc_price_sol_per_token u) (pump_virtual_reserve_price_sol_per_token vq vt decimals))
       (\<lambda>price_sol.
     Option.bind
       (or_else (bc_curve_progress_pct u)
          (pump_curve_progress_raw (bc_real_token_reserves u) decimals))
       (\<lambda>progress.
     let latest = unwrap_or (bc_price u) price_sol;
         cap_1b = first_some (bc_market_cap_quote_1b u) (map_option pump_market_cap_quote_1b price_sol)
     in Some (s
       \<lparr>cv_virtual_quote_reserves := vq, cv_virtual_token_reserves := vt,
        cv_real_quote_reserves := bc_real_quote_reserves u,
        cv_real_token_reserves := bc_real_token_reserves u,
        cv_token_decimals := decimals,
        cv_price_lamports_per_raw_token :=
          first_some (bc_price_lamports_per_raw_token u) (price_lamports_per_raw_token vq vt),
        cv_price_sol_per_token := price_sol,
        cv_reserve_price_source :=
          first_some (bc_reserve_price_source u) (Some src_virtual_reserves),
        cv_reserve_price_confidence :=
          unwrap_or (one_if_some price_sol) (bc_reserve_price_confidence u),
        cv_latest_price := latest,
        cv_launch_price := first_some (cv_launch_price s) (Some latest),
        cv_market_cap_quote_1b := cap_1b,
        cv_market_cap_quote_total_supply :=
          first_some (bc_market_cap_quote_total_supply u)
            (map_option (\<lambda>price. pump_market_cap_quote_total_supply price
               (decimal_from pump_total_supply_ui)) price_sol),
        cv_market_cap_source := first_some (bc_market_cap_source u) (Some src_economic_supply),
        cv_market_cap_confidence := unwrap_or (one_if_some cap_1b) (bc_market_cap_confidence u),
        cv_curve_complete_flag := bc_curve_complete_flag u,
        cv_curve_progress_pct := progress,
        cv_curve_progress_source :=
          first_some (bc_curve_progress_source u) (Some src_minus_reserved),
        cv_curve_progress_confidence :=
          unwrap_or (one_if_some progress) (bc_curve_progress_confidence u),
        cv_curve_completion_pct := first_some progress (bc_curve_completion_pct u),
        cv_market_cap_proxy := bc_market_cap_proxy u,
        cv_update_slot := slot,
        cv_update_write_version := update_version u\<rparr>))))"

definition apply_update ::
  "('d::linordered_field) bonding_curve_update_event \<Rightarrow> u64 \<Rightarrow> 'd bonding_curve_state \<Rightarrow>
   ('d bonding_curve_state \<times> bool) option" where
  "apply_update u slot s =
    (if is_stale u slot s then Some (s, False)
     else map_option (\<lambda>s'. (s', True)) (apply_curve u slot s))"

definition staleness_ms :: "instant \<Rightarrow> 'd bonding_curve_state \<Rightarrow> i64 option" where
  "staleness_ms now s =
    map_option (\<lambda>updated_at. word_of_int (whole_milliseconds (now - updated_at)))
      (cv_last_updated_at s)"

subsection \<open>Runs of updates\<close>

type_synonym 'd curve_message = "u64 \<times> 'd bonding_curve_update_event"

fun run_updates ::
  "('d::linordered_field) curve_message list \<Rightarrow> 'd bonding_curve_state \<Rightarrow> 'd bonding_curve_state option" where
  "run_updates [] s = Some s"
| "run_updates ((slot, u) # ms) s =
    Option.bind (apply_update u slot s) (\<lambda>(s', _). run_updates ms s')"

definition message_version :: "'d curve_message \<Rightarrow> nat \<times> nat" where
  "message_version m = (unat (fst m), unat (update_version (snd m)))"

definition state_version :: "'d bonding_curve_state \<Rightarrow> nat \<times> nat" where
  "state_version s = (unat (cv_update_slot s), unat (cv_update_write_version s))"

text \<open>The lexicographic order of slot and write version.\<close>

definition version_le :: "nat \<times> nat \<Rightarrow> nat \<times> nat \<Rightarrow> bool" where
  "version_le a b \<longleftrightarrow> fst a < fst b \<or> (fst a = fst b \<and> snd a \<le> snd b)"

text \<open>
  What a state says apart from the launch price, the first price accepted, and the fields updates do
  not touch.
\<close>

definition curve_view :: "'d bonding_curve_state \<Rightarrow> 'd bonding_curve_state" where
  "curve_view s = s\<lparr>cv_launch_price := None\<rparr>"

lemma version_le_refl [simp]: "version_le a a"
  by (simp add: version_le_def)

lemma version_le_trans: "version_le a b \<Longrightarrow> version_le b c \<Longrightarrow> version_le a c"
  by (auto simp: version_le_def)

lemma version_le_linear: "version_le a b \<or> version_le b a"
  by (auto simp: version_le_def)

lemma version_le_antisym: "version_le a b \<Longrightarrow> version_le b a \<Longrightarrow> a = b"
  by (auto simp: version_le_def prod_eq_iff)

lemma is_stale_iff: "is_stale u slot s \<longleftrightarrow> \<not> version_le (state_version s) (message_version (slot, u))"
  unfolding is_stale_def version_le_def state_version_def message_version_def
  by (auto simp: word_less_nat_alt word_unat_eq_iff)

text \<open>What an accepted update reads of the state: the launch price and the fields it leaves alone.\<close>

definition curve_frame :: "'d bonding_curve_state \<Rightarrow> instant option \<times> 'd \<times> quote_asset_type" where
  "curve_frame s = (cv_last_updated_at s, cv_account_update_confidence s, cv_quote_asset_type s)"

lemma bind_eq_SomeD: "Option.bind x f = Some y \<Longrightarrow> \<exists>a. x = Some a \<and> f a = Some y"
  by (cases x) auto

lemma apply_curve_version:
  "apply_curve u slot s = Some s' \<Longrightarrow> state_version s' = message_version (slot, u)"
  by (auto simp: apply_curve_def Let_def state_version_def message_version_def dest!: bind_eq_SomeD)

lemma apply_curve_frame: "apply_curve u slot s = Some s' \<Longrightarrow> curve_frame s' = curve_frame s"
  by (auto simp: apply_curve_def Let_def curve_frame_def dest!: bind_eq_SomeD)

lemma apply_curve_view:
  "apply_curve u slot s = Some s' \<Longrightarrow> curve_frame s = curve_frame t \<Longrightarrow>
    \<exists>t'. apply_curve u slot t = Some t' \<and> curve_view t' = curve_view s'"
  by (cases s; cases t)
    (auto simp: apply_curve_def Let_def curve_frame_def curve_view_def dest!: bind_eq_SomeD)

definition newer :: "'d curve_message \<Rightarrow> 'd curve_message \<Rightarrow> 'd curve_message" where
  "newer m acc = (if version_le (message_version acc) (message_version m) then m else acc)"

text \<open>The state shows the update \<open>m\<close>, as far as updates determine it.\<close>

definition shows_update ::
  "('d::linordered_field) curve_message \<Rightarrow> 'd bonding_curve_state \<Rightarrow> bool" where
  "shows_update m s \<longleftrightarrow>
    state_version s = message_version m \<and>
    (\<exists>t. apply_curve (snd m) (fst m) default_bonding_curve_state = Some t \<and>
         curve_view s = curve_view t) \<and>
    curve_frame s = curve_frame default_bonding_curve_state"

lemma shows_update_apply:
  assumes "apply_curve u slot s = Some s'" and "curve_frame s = curve_frame default_bonding_curve_state"
  shows "shows_update (slot, u) s'"
  using apply_curve_view [OF assms] apply_curve_frame [OF assms(1)] apply_curve_version [OF assms(1)] assms(2)
  by (auto simp: shows_update_def)

lemma run_shows:
  assumes "shows_update m s" and "run_updates ms s = Some s'"
  shows "shows_update (fold newer ms m) s'"
  using assms
proof (induction ms arbitrary: m s)
  case (Cons x ms)
  obtain slot u where x: "x = (slot, u)" by (cases x)
  show ?case
  proof (cases "is_stale u slot s")
    case True
    with Cons.prems have "newer x m = m"
      by (simp add: newer_def is_stale_iff x shows_update_def)
    with Cons True show ?thesis by (simp add: x apply_update_def)
  next
    case False
    with Cons.prems have newer: "newer x m = x"
      by (simp add: newer_def is_stale_iff x shows_update_def)
    from Cons.prems(2) False obtain t where t: "apply_curve u slot s = Some t" "run_updates ms t = Some s'"
      by (auto simp: x apply_update_def dest!: bind_eq_SomeD)
    have "shows_update x t"
      using shows_update_apply [OF t(1)] Cons.prems(1) by (simp add: shows_update_def x)
    with Cons.IH t(2) newer show ?thesis by simp
  qed
qed simp

lemma run_from_default:
  assumes "run_updates (m # ms) default_bonding_curve_state = Some s"
  shows "shows_update (fold newer ms m) s"
proof -
  obtain slot u where m: "m = (slot, u)" by (cases m)
  have "\<not> is_stale u slot default_bonding_curve_state"
    by (simp add: is_stale_def default_bonding_curve_state_def)
  with assms obtain t where t: "apply_curve u slot default_bonding_curve_state = Some t"
    "run_updates ms t = Some s"
    by (auto simp: m apply_update_def dest!: bind_eq_SomeD)
  then show ?thesis using shows_update_apply [OF t(1) refl] run_shows by (simp add: m)
qed

lemma newest_in: "fold newer ms m \<in> insert m (set ms)"
  by (induction ms arbitrary: m) (auto simp: newer_def)

lemma newest_max:
  "x \<in> insert m (set ms) \<Longrightarrow> version_le (message_version x) (message_version (fold newer ms m))"
proof (induction ms arbitrary: x m)
  case (Cons y ms)
  let ?v = "\<lambda>z. version_le (message_version z) (message_version (fold newer (y # ms) m))"
  have rest: "?v z" if "z \<in> set ms" for z
    using Cons.IH that by simp
  have v: "?v (newer y m)" by (simp add: Cons.IH)
  have le: "version_le (message_version m) (message_version (newer y m))"
    "version_le (message_version y) (message_version (newer y m))"
    using version_le_linear [of "message_version m" "message_version y"] by (auto simp: newer_def)
  have "?v m" "?v y" using version_le_trans [OF le(1) v] version_le_trans [OF le(2) v] .
  with rest Cons.prems show ?case by (simp only: set_simps insert_iff) blast
qed simp


subsection \<open>Ranges\<close>

lemma apply_curve_computed:
  assumes "apply_curve u slot s = Some s'"
    and "bc_curve_progress_pct u = None" and "bc_price_sol_per_token u = None"
  obtains decimals where
    "pump_curve_progress_raw (bc_real_token_reserves u) decimals = Some (cv_curve_progress_pct s')"
    "price_sol_per_ui_token (bc_virtual_quote_reserves u) (bc_virtual_token_reserves u) decimals =
       Some (cv_price_sol_per_token s')"
  using assms that [of "unwrap_or default_pump_token_decimals (bc_token_decimals u)"]
  by (auto simp: apply_curve_def Let_def or_else_def pump_virtual_reserve_price_sol_per_token_def
      dest!: bind_eq_SomeD)

lemma progress_some: "pump_curve_progress_raw r d = Some p \<Longrightarrow> \<exists>x. p = Some x \<and> 0 \<le> x \<and> x \<le> 100"
  using curve_progress_range
  by (fastforce simp: pump_curve_progress_raw_def pump_curve_progress_ui_def Let_def
      decimal_from_def pump_initial_real_token_reserves_ui_def)

lemma price_positive: "price_sol_per_ui_token q t d = Some (Some p) \<Longrightarrow> 0 < p"
  by (auto simp: price_sol_per_ui_token_def Let_def split: if_splits)

text \<open>
  A curve progress the update does not carry is computed into the range from 0 to 100, and a price it
  does not carry is positive whenever there is one.
\<close>
theorem computed_curve_values_in_range:
  assumes "apply_curve u slot s = Some s'"
    and "bc_curve_progress_pct u = None" and "bc_price_sol_per_token u = None"
  shows "(case cv_curve_progress_pct s' of Some p \<Rightarrow> 0 \<le> p \<and> p \<le> 100 | None \<Rightarrow> False) \<and>
    (case cv_price_sol_per_token s' of Some p \<Rightarrow> 0 < p | None \<Rightarrow> True)"
proof -
  obtain d where d: "pump_curve_progress_raw (bc_real_token_reserves u) d = Some (cv_curve_progress_pct s')"
    "price_sol_per_ui_token (bc_virtual_quote_reserves u) (bc_virtual_token_reserves u) d =
       Some (cv_price_sol_per_token s')"
    by (rule apply_curve_computed [OF assms])
  from progress_some [OF d(1)] obtain p where "cv_curve_progress_pct s' = Some p" "0 \<le> p" "p \<le> 100"
    by blast
  moreover have "0 < q" if "cv_price_sol_per_token s' = Some q" for q
    using d(2) that price_positive by auto
  ultimately show ?thesis by (simp split: option.split)
qed

definition update_decimals :: "'d bonding_curve_update_event \<Rightarrow> u8" where
  "update_decimals u = unwrap_or default_pump_token_decimals (bc_token_decimals u)"

lemma apply_curve_total:
  assumes "unat (update_decimals u) \<le> 19"
  shows "\<exists>s'. apply_curve u slot s = Some s'"
  using assms
  by (auto simp: apply_curve_def Let_def or_else_def pump_curve_progress_raw_def
      pump_virtual_reserve_price_sol_per_token_def price_sol_per_ui_token_def raw_to_ui_small
      update_decimals_def split: option.splits)

lemma apply_update_total: "unat (update_decimals u) \<le> 19 \<Longrightarrow> \<exists>r. apply_update u slot s = Some r"
  using apply_curve_total [of u slot s] by (auto simp: apply_update_def)

lemma run_updates_total:
  "(\<And>m. m \<in> set ms \<Longrightarrow> unat (update_decimals (snd m)) \<le> 19) \<Longrightarrow> \<exists>s'. run_updates ms s = Some s'"
proof (induction ms arbitrary: s)
  case (Cons m ms)
  obtain slot u where m: "m = (slot, u)" by (cases m)
  from Cons.prems [of m] obtain t b where "apply_update u slot s = Some (t, b)"
    using apply_update_total [of u slot s] by (auto simp: m)
  with Cons show ?case by (simp add: m)
qed simp

text \<open>
  How many decimals a message claims decides whether it can stop the program: up to 19 every run of
  updates goes through, and from 64 on a message that leaves the price to be computed panics, because
  the power of ten has wrapped to zero and the reserves are divided by it.
\<close>
theorem curve_panic_decimals:
  "(if list_all (\<lambda>m. unat (update_decimals (snd m)) \<le> 19) ms then run_updates ms s \<noteq> None else True) \<and>
   (if 64 \<le> unat (update_decimals u) \<and> bc_price_sol_per_token u = None \<and> \<not> is_stale u slot s
    then apply_update u slot s = None else True)"
proof (intro conjI)
  show "if list_all (\<lambda>m. unat (update_decimals (snd m)) \<le> 19) ms then run_updates ms s \<noteq> None else True"
    using run_updates_total [of ms s] by (auto simp: list_all_iff)
  show "if 64 \<le> unat (update_decimals u) \<and> bc_price_sol_per_token u = None \<and> \<not> is_stale u slot s
      then apply_update u slot s = None else True"
    by (simp add: apply_update_def apply_curve_def Let_def or_else_def update_decimals_def
        pump_virtual_reserve_price_sol_per_token_def price_sol_per_ui_token_def raw_to_ui_panics)
qed

subsection \<open>Witnesses\<close>

definition example_update :: "u64 \<Rightarrow> rat \<Rightarrow> rat bonding_curve_update_event" where
  "example_update version price = \<lparr>bc_mint = [], bc_virtual_quote_reserves = 30 * price,
     bc_virtual_token_reserves = 1000, bc_real_quote_reserves = 0,
     bc_real_token_reserves = 793100000000000, bc_token_decimals = None,
     bc_token_total_supply_raw = None, bc_token_total_supply_ui = None,
     bc_token_total_supply_source = None, bc_token_total_supply_confidence = None,
     bc_quote_mint = None, bc_creator = None, bc_reserve_field_schema = None,
     bc_price_lamports_per_raw_token = None, bc_price_sol_per_token = None,
     bc_reserve_price_source = None, bc_reserve_price_confidence = None, bc_price = price,
     bc_market_cap_quote_1b = None, bc_market_cap_quote_total_supply = None,
     bc_market_cap_source = None, bc_market_cap_confidence = None, bc_market_cap_proxy = None,
     bc_curve_complete_flag = None, bc_curve_progress_pct = None, bc_curve_progress_source = None,
     bc_curve_progress_confidence = None, bc_curve_completion_pct = None,
     bc_quote_reserve_delta = None, bc_token_reserve_delta = None, bc_update_reason = [],
     bc_caused_by_signature = None, bc_account_write_version = Some version\<rparr>"

lemma example_update_decimals: "unat (update_decimals (example_update v p)) \<le> 19"
  by (simp add: update_decimals_def example_update_def unwrap_or_def default_pump_token_decimals_def)

definition example_messages :: "rat curve_message list" where
  "example_messages = [(5, example_update 1 2), (5, example_update 2 3), (4, example_update 9 1)]"

lemma example_messages_run: "\<exists>s'. run_updates example_messages s = Some s'"
  "\<exists>s'. run_updates (rev example_messages) s = Some s'"
  by (rule run_updates_total; auto simp: example_messages_def example_update_decimals)+

lemma example_messages_versions:
  "map message_version example_messages = [(5, 1), (5, 2), (4, 9)]"
  by (simp add: example_messages_def message_version_def update_version_def example_update_def unwrap_or_def)


theorem computed_curve_values_in_range_witness:
  "cv_curve_progress_pct (the (apply_curve (example_update 1 2) 5 default_bonding_curve_state)) \<noteq> None"
proof -
  obtain s where s: "apply_curve (example_update 1 2) 5 default_bonding_curve_state = Some s"
    using apply_curve_total [OF example_update_decimals] by blast
  have "bc_curve_progress_pct (example_update 1 2) = None"
    "bc_price_sol_per_token (example_update 1 2) = None" by (simp_all add: example_update_def)
  from computed_curve_values_in_range [OF s this] s show ?thesis by (auto split: option.splits)
qed

end
