(* ===== verification/Cost_Basis.thy ===== *)
theory Cost_Basis
  imports Curve_State
begin

text \<open>
  The estimated cost basis of a wallet in a token, \<open>CostBasisPosition\<close> in \<open>crates/state/src/lib.rs\<close>:
  buys add to the position at cost, sells take tokens out at average cost.
\<close>

definition cost_buy ::
  "'d \<Rightarrow> 'd \<Rightarrow> instant \<Rightarrow> 'd \<Rightarrow> ('d::linordered_field) cost_basis_position \<Rightarrow> 'd cost_basis_position" where
  "cost_buy quote_spent token_out timestamp latest_price p =
    (let basis = cb_estimated_cost_basis_quote p + quote_spent;
         remaining = cb_remaining_position_size p + token_out in
     p\<lparr>cb_position_opened_at := first_some (cb_position_opened_at p) (Some timestamp),
       cb_original_quote_spent := cb_original_quote_spent p + quote_spent,
       cb_original_position_size := cb_original_position_size p + token_out,
       cb_estimated_cost_basis_quote := basis,
       cb_remaining_position_size := remaining,
       cb_estimated_average_entry_price :=
         (if remaining > 0 then basis / remaining else cb_estimated_average_entry_price p),
       cb_estimated_unrealized_pnl := latest_price * remaining - basis,
       cb_last_updated_at := Some timestamp\<rparr>)"

definition cost_sell ::
  "'d \<Rightarrow> 'd \<Rightarrow> instant \<Rightarrow> 'd \<Rightarrow> ('d::linordered_field) cost_basis_position \<Rightarrow> 'd cost_basis_position" where
  "cost_sell quote_out token_in timestamp latest_price p =
    (if cb_remaining_position_size p \<le> 0
     then p\<lparr>cb_has_round_tripped := True, cb_last_updated_at := Some timestamp\<rparr> else
     let token_sold = min token_in (cb_remaining_position_size p);
         average_cost = (if cb_remaining_position_size p > 0
           then cb_estimated_cost_basis_quote p / cb_remaining_position_size p else 0);
         cost_removed = average_cost * token_sold;
         left = cb_remaining_position_size p - token_sold;
         basis_left = cb_estimated_cost_basis_quote p - cost_removed;
         remaining = (if left \<le> 0 then 0 else left);
         basis = (if left \<le> 0 then 0 else basis_left) in
     p\<lparr>cb_remaining_position_size := remaining,
       cb_estimated_cost_basis_quote := basis,
       cb_estimated_realized_pnl := cb_estimated_realized_pnl p + (quote_out - cost_removed),
       cb_has_taken_profit := (cb_has_taken_profit p \<or> quote_out > cost_removed),
       cb_has_round_tripped := (cb_has_round_tripped p \<or> left \<le> 0),
       cb_estimated_average_entry_price := (if remaining > 0 then basis / remaining else 0),
       cb_estimated_unrealized_pnl := latest_price * remaining - basis,
       cb_last_updated_at := Some timestamp\<rparr>)"

subsection \<open>Runs of trades\<close>

datatype 'd cost_op = CostBuy 'd 'd instant 'd | CostSell 'd 'd instant 'd

fun cost_step :: "('d::linordered_field) cost_op \<Rightarrow> 'd cost_basis_position \<Rightarrow> 'd cost_basis_position" where
  "cost_step (CostBuy q t ts price) p = cost_buy q t ts price p"
| "cost_step (CostSell q t ts price) p = cost_sell q t ts price p"

fun cost_op_ok :: "('d::linordered_field) cost_op \<Rightarrow> bool" where
  "cost_op_ok (CostBuy q t ts price) \<longleftrightarrow> 0 \<le> q \<and> 0 \<le> t"
| "cost_op_ok (CostSell q t ts price) \<longleftrightarrow> 0 \<le> q \<and> 0 \<le> t"

text \<open>
  The bookkeeping an observer does beside the code: the quote received by the sells that found a
  position, and the quote and tokens spent on buys.
\<close>

record 'd cost_ghost =
  gh_received :: 'd
  gh_spent :: 'd
  gh_bought :: 'd

fun ghost_step ::
  "('d::linordered_field) cost_op \<Rightarrow> 'd cost_ghost \<times> 'd cost_basis_position \<Rightarrow>
   'd cost_ghost \<times> 'd cost_basis_position" where
  "ghost_step (CostBuy q t ts price) (g, p) =
    (g\<lparr>gh_spent := gh_spent g + q, gh_bought := gh_bought g + t\<rparr>, cost_buy q t ts price p)"
| "ghost_step (CostSell q t ts price) (g, p) =
    (if cb_remaining_position_size p \<le> 0 then g else g\<lparr>gh_received := gh_received g + q\<rparr>,
     cost_sell q t ts price p)"

definition cost_inv :: "('d::linordered_field) cost_ghost \<times> 'd cost_basis_position \<Rightarrow> bool" where
  "cost_inv = (\<lambda>(g, p).
    cb_original_quote_spent p = gh_spent g \<and> cb_original_position_size p = gh_bought g \<and>
    cb_estimated_realized_pnl p = gh_received g - (gh_spent g - cb_estimated_cost_basis_quote p) \<and>
    0 \<le> cb_estimated_cost_basis_quote p \<and> cb_estimated_cost_basis_quote p \<le> gh_spent g \<and>
    0 \<le> cb_remaining_position_size p \<and> cb_remaining_position_size p \<le> gh_bought g \<and>
    (if 0 < cb_remaining_position_size p
     then cb_estimated_average_entry_price p * cb_remaining_position_size p =
          cb_estimated_cost_basis_quote p else True))"

lemma cost_sell_out:
  fixes p :: "('d::linordered_field) cost_basis_position"
  assumes "0 < cb_remaining_position_size p" "cb_remaining_position_size p \<le> t"
  shows "cb_estimated_cost_basis_quote p / cb_remaining_position_size p * min t (cb_remaining_position_size p)
    = cb_estimated_cost_basis_quote p"
  using assms by (simp add: min.absorb2)

lemma cost_buy_inv:
  assumes "cost_inv (g, p)" "0 \<le> q" "0 \<le> t"
  shows "cost_inv (g\<lparr>gh_spent := gh_spent g + q, gh_bought := gh_bought g + t\<rparr>, cost_buy q t ts price p)"
  using assms by (auto simp: cost_inv_def cost_buy_def Let_def)

lemma cost_sell_inv:
  assumes "cost_inv (g, p)" "0 \<le> q" "0 \<le> t"
  shows "cost_inv (if cb_remaining_position_size p \<le> 0 then g else g\<lparr>gh_received := gh_received g + q\<rparr>,
    cost_sell q t ts price p)"
proof (cases "cb_remaining_position_size p \<le> 0")
  case True
  with assms show ?thesis by (simp add: cost_inv_def cost_sell_def)
next
  case False
  then have pos: "0 < cb_remaining_position_size p" by simp
  let ?r = "cb_remaining_position_size p" and ?b = "cb_estimated_cost_basis_quote p"
  show ?thesis
  proof (cases "?r \<le> t")
    case True
    then have "?r - min t ?r \<le> 0" by simp
    with assms pos cost_sell_out [OF pos True] show ?thesis
      by (simp add: cost_inv_def cost_sell_def Let_def not_le True)
  next
    case less: False
    then have m: "min t ?r = t" by simp
    have "?b * t \<le> ?b * ?r" using assms less by (intro mult_left_mono) (auto simp: cost_inv_def)
    then have removed: "?b / ?r * t \<le> ?b" using pos by (simp add: divide_le_eq)
    have "0 \<le> ?b / ?r * t" using assms pos by (simp add: cost_inv_def)
    with assms less pos m removed show ?thesis
      by (simp add: cost_inv_def cost_sell_def Let_def not_le)
  qed
qed

lemma ghost_step_inv: "cost_inv s \<Longrightarrow> cost_op_ok op \<Longrightarrow> cost_inv (ghost_step op s)"
  by (cases s; cases op) (simp_all add: cost_buy_inv cost_sell_inv del: cost_inv_def)

lemma ghost_erase: "snd (fold ghost_step ops (g, p)) = fold cost_step ops p"
proof (induction ops arbitrary: g p)
  case (Cons op ops)
  then show ?case by (cases op) simp_all
qed simp

text \<open>
  C39. The cost basis accounts for every unit of quote: after any sequence of buys and sells with
  non-negative amounts, realized result equals what the sells that found a position brought in, less
  the part of the money spent that is no longer in the basis; basis and remaining size are never
  negative and never above what was spent and bought.
\<close>
theorem cost_basis_conserved:
  assumes "list_all cost_op_ok ops"
  defines "g \<equiv> fst (fold ghost_step ops (\<lparr>gh_received = 0, gh_spent = 0, gh_bought = 0\<rparr>, default_cost_basis_position))"
  shows "cost_inv (g, fold cost_step ops (default_cost_basis_position :: ('d::linordered_field) cost_basis_position))"
proof -
  let ?s = "(\<lparr>gh_received = 0, gh_spent = 0, gh_bought = 0\<rparr>, default_cost_basis_position) :: 'd cost_ghost \<times> 'd cost_basis_position"
  have "cost_inv (fold ghost_step ops ?s)"
  proof (rule fold_keeps [where P = cost_inv])
    show "cost_inv ?s" by (simp add: cost_inv_def default_cost_basis_position_def)
  qed (use assms(1) in \<open>simp add: ghost_step_inv list_all_iff\<close>)
  then show ?thesis
    using ghost_erase [of ops "fst ?s" "snd ?s"] unfolding g_def by (metis fst_conv prod.collapse snd_conv)
qed

definition example_trades :: "rat cost_op list" where
  "example_trades = [CostBuy 10 100 0 1, CostSell 6 50 1 1, CostSell 7 80 2 1, CostSell 1 1 3 1]"

theorem cost_basis_conserved_witness:
  "cost_inv (fst (fold ghost_step example_trades
      (\<lparr>gh_received = 0, gh_spent = 0, gh_bought = 0\<rparr>, default_cost_basis_position)),
    fold cost_step example_trades default_cost_basis_position)"
  by (rule cost_basis_conserved) (simp add: example_trades_def)

end
