(* ===== verification/Holder_State.thy ===== *)
theory Holder_State
  imports Cost_Basis "HOL-Library.AList"
begin

text \<open>
  The holders of a token, \<open>HolderState\<close> in \<open>crates/state/src/lib.rs\<close>: balance updates of token accounts,
  the owners' balances rebuilt from the accounts, and the distribution computed from them. \<open>None\<close> is the
  panic of a conversion with too many decimals. The rendering of a \<open>Decimal\<close> is third-party code and an
  argument.
\<close>

subsection \<open>Distribution\<close>

definition max_holder_history :: nat where "max_holder_history = 256"

definition count_usize :: "'a list \<Rightarrow> usize" where
  "count_usize xs = of_nat (length xs)"

definition weighted_sum :: "('d::linordered_field) list \<Rightarrow> 'd" where
  "weighted_sum xs = sum_list (map (\<lambda>(index, balance). decimal_from (of_nat (index + 1)) * balance)
     (enumerate 0 xs))"

definition compute_gini :: "('d::linordered_field) list \<Rightarrow> 'd" where
  "compute_gini balances =
    (if balances = [] then 0 else
     let sorted_balances = sort balances;
         n = decimal_from (count_usize balances);
         total = sum_list sorted_balances in
     if total \<le> 0 then 0
     else 2 * weighted_sum sorted_balances / (n * total) - (n + 1) / n)"

definition compute_hhi :: "('d::linordered_field) list \<Rightarrow> 'd" where
  "compute_hhi balances =
    (let total = sum_list balances in
     if total \<le> 0 then 0
     else sum_list (map (\<lambda>balance. balance / total * (balance / total)) balances))"

definition refresh_holder_behaviour :: "('d::linordered_field) holder_balance \<Rightarrow> 'd holder_balance" where
  "refresh_holder_behaviour h =
    (let cb = ho_cost_basis h;
         through = (if cb_original_position_size cb > 0
           then clamp 0 1 (max (cb_original_position_size cb - cb_remaining_position_size cb) 0
                           / cb_original_position_size cb)
           else 0);
         sold90 = (through \<ge> decimal 90 2) in
     h\<lparr>ho_wallet_sell_through_pct := through, ho_wallet_sold_90pct_flag := sold90,
       ho_holder_retention_status :=
         (if ho_balance h \<le> 0 then HrExitedZeroBalance
          else if sold90 then HrSold90Pct
          else if through > 0 then HrReducedPosition
          else HrActive)\<rparr>)"

definition sorted_holders :: "(string \<times> ('d::linordered_field) holder_balance) list \<Rightarrow> (string \<times> 'd) list" where
  "sorted_holders obs =
    sort_key (\<lambda>x. - snd x)
      (map (\<lambda>(owner, h). (owner, ho_balance h)) (filter (\<lambda>(owner, h). ho_balance h > 0) obs))"

definition recompute_with_previous ::
  "instant \<Rightarrow> usize \<Rightarrow> ('d::linordered_field) holder_state \<Rightarrow> 'd holder_state" where
  "recompute_with_previous observed_at previous s =
    (let obs = hs_owner_balances s;
         nonzero = count_usize (filter (\<lambda>(owner, h). ho_balance h > 0) obs);
         total = sum_list (map (\<lambda>(owner, h). ho_balance h) obs);
         balances = sorted_holders obs;
         exited = sat_sub previous nonzero;
         churn = (if previous > 0 then decimal_from exited / decimal_from previous else 0);
         history = hs_holder_count_history s @ [(observed_at, nonzero)] in
     s\<lparr>hs_nonzero_holder_count := nonzero,
       hs_top_holders := map (\<lambda>(owner, balance).
         \<lparr>hd_owner = owner, hd_balance = balance,
          hd_pct_supply_proxy = (if total > 0 then balance / total else 0)\<rparr>) (take 20 balances),
       hs_gini := compute_gini (map snd balances),
       hs_hhi := compute_hhi (map snd balances),
       hs_paperhand_90pct_wallet_count :=
         count_usize (filter (\<lambda>(owner, h). ho_wallet_sold_90pct_flag h) obs),
       hs_exited_holder_count_zero_balance := exited,
       hs_net_holder_change := nonzero - previous,
       hs_holder_churn_rate := churn,
       hs_holder_stickiness := clamp 0 1 (1 - churn),
       hs_holder_count_history := drop (length history - max_holder_history) history\<rparr>)"

definition recompute_distribution :: "instant \<Rightarrow> ('d::linordered_field) holder_state \<Rightarrow> 'd holder_state" where
  "recompute_distribution observed_at s =
    recompute_with_previous observed_at (hs_nonzero_holder_count s) s"

definition top_holder_pct :: "nat \<Rightarrow> ('d::linordered_field) holder_state \<Rightarrow> 'd" where
  "top_holder_pct rank s = sum_list (map hd_pct_supply_proxy (take rank (hs_top_holders s)))"

definition observed_holder_supply :: "('d::linordered_field) holder_state \<Rightarrow> 'd" where
  "observed_holder_supply s = sum_list (map (\<lambda>(owner, h). max (ho_balance h) 0) (hs_owner_balances s))"

definition counted_holders ::
  "string set \<Rightarrow> ('d::linordered_field) holder_state \<Rightarrow> (string \<times> 'd holder_balance) list" where
  "counted_holders excluded s =
    filter (\<lambda>(owner, h). ho_balance h > 0 \<and> owner \<notin> excluded) (hs_owner_balances s)"

definition holder_count_excluding :: "string set \<Rightarrow> ('d::linordered_field) holder_state \<Rightarrow> usize" where
  "holder_count_excluding excluded s = count_usize (counted_holders excluded s)"

definition top_pct_with_denominator ::
  "nat \<Rightarrow> 'd \<Rightarrow> string set \<Rightarrow> ('d::linordered_field) holder_state \<Rightarrow> 'd" where
  "top_pct_with_denominator rank denominator excluded s =
    (if denominator \<le> 0 then 0
     else fold (\<lambda>v acc. acc + v)
       (take rank (sort_key uminus (map (\<lambda>(owner, h). ho_balance h) (counted_holders excluded s)))) 0
       / denominator)"

definition missing_owner_mapping_count :: "'d holder_state \<Rightarrow> usize" where
  "missing_owner_mapping_count s = count_usize
    (filter (\<lambda>(account, b). map_of (hs_token_account_to_owner s) account = None)
      (hs_token_account_balances s))"

subsection \<open>Rebuilding the owners' balances\<close>

fun foldo :: "('a \<Rightarrow> 's \<Rightarrow> 's option) \<Rightarrow> 'a list \<Rightarrow> 's \<Rightarrow> 's option" where
  "foldo f [] s = Some s"
| "foldo f (x # xs) s = Option.bind (f x s) (foldo f xs)"

definition fresh_holder :: "('d::linordered_field) holder_balance option \<Rightarrow> 'd holder_balance" where
  "fresh_holder old = default_holder_balance
    \<lparr>ho_first_seen_at := Option.bind old ho_first_seen_at,
     ho_last_trade_at := Option.bind old ho_last_trade_at,
     ho_cost_basis := unwrap_or default_cost_basis_position (map_option ho_cost_basis old),
     ho_excluded_reason := Option.bind old ho_excluded_reason\<rparr>"

definition rebuild_account ::
  "instant \<Rightarrow> u8 \<Rightarrow> (string \<times> ('d::linordered_field) holder_balance) list \<Rightarrow>
   string \<times> 'd token_account_state \<Rightarrow> (string \<times> 'd holder_balance) list \<Rightarrow>
   (string \<times> 'd holder_balance) list option" where
  "rebuild_account observed_at decimals olds = (\<lambda>(key, account) rebuilt.
    if ta_raw_balance account > 0 then
      let entry = unwrap_or (fresh_holder (map_of olds (ta_owner account)))
                    (map_of rebuilt (ta_owner account));
          first_seen = first_some (ho_first_seen_at entry)
            (first_some (map_option (\<lambda>_. observed_at) (ta_last_sequence account)) (Some observed_at)) in
      map_option (\<lambda>ui.
        AList.update (ta_owner account)
          (entry\<lparr>ho_first_seen_at := first_seen,
             ho_balance := ho_balance entry + ta_raw_balance account,
             ho_ui_balance_sum := ho_ui_balance_sum entry + ui,
             ho_account_count := ho_account_count entry + 1,
             ho_last_updated_at := Some observed_at\<rparr>) rebuilt)
        (if ta_ui_balance account > 0 then Some (ta_ui_balance account)
         else raw_tokens_to_ui (ta_raw_balance account) decimals)
    else Some rebuilt)"

definition carry_over ::
  "string \<times> ('d::linordered_field) holder_balance \<Rightarrow> (string \<times> 'd holder_balance) list \<Rightarrow>
   (string \<times> 'd holder_balance) list" where
  "carry_over = (\<lambda>(owner, old) rebuilt.
    case map_of rebuilt owner of
      None \<Rightarrow> rebuilt
    | Some h \<Rightarrow> AList.update owner
        (h\<lparr>ho_first_seen_at := first_some (ho_first_seen_at h) (ho_first_seen_at old),
           ho_last_trade_at := first_some (ho_last_trade_at h) (ho_last_trade_at old),
           ho_cost_basis :=
             (if cb_original_position_size (ho_cost_basis h) \<le> 0
              then ho_cost_basis old else ho_cost_basis h),
           ho_wallet_sell_through_pct := ho_wallet_sell_through_pct old,
           ho_wallet_sold_90pct_flag := ho_wallet_sold_90pct_flag old,
           ho_holder_retention_status := ho_holder_retention_status old\<rparr>) rebuilt)"

definition rebuild_owner_balances ::
  "instant \<Rightarrow> u8 \<Rightarrow> ('d::linordered_field) holder_state \<Rightarrow> 'd holder_state option" where
  "rebuild_owner_balances observed_at decimals s =
    map_option (\<lambda>rebuilt.
      recompute_with_previous observed_at (hs_nonzero_holder_count s)
        (s\<lparr>hs_owner_balances :=
          map (\<lambda>(owner, h). (owner, refresh_holder_behaviour h))
            (fold carry_over (hs_owner_balances s) rebuilt)\<rparr>))
      (foldo (rebuild_account observed_at decimals (hs_owner_balances s)) (hs_token_accounts s) [])"

subsection \<open>Updates\<close>

definition apply_owner_delta ::
  "pubkey \<Rightarrow> 'd \<Rightarrow> u8 \<Rightarrow> instant \<Rightarrow> ('d::linordered_field) holder_state \<Rightarrow> 'd holder_state option" where
  "apply_owner_delta owner delta_raw decimals observed_at s =
    (if delta_raw = 0 \<and> map_of (hs_owner_balances s) owner \<noteq> None then Some s else
     let entry = unwrap_or default_holder_balance (map_of (hs_owner_balances s) owner);
         balance = ho_balance entry + delta_raw;
         accounts = count_usize (filter (\<lambda>(key, account). ta_owner account = owner \<and>
           ta_raw_balance account > 0) (hs_token_accounts s)) in
     map_option (\<lambda>ui. s\<lparr>hs_owner_balances :=
       (if balance \<le> 0 then AList.delete owner (hs_owner_balances s)
        else AList.update owner
          (entry\<lparr>ho_first_seen_at := first_some (ho_first_seen_at entry) (Some observed_at),
             ho_balance := balance, ho_ui_balance_sum := ui,
             ho_last_updated_at := Some observed_at, ho_last_trade_at := Some observed_at,
             ho_account_count := accounts + (if delta_raw > 0 then 1 else 0)\<rparr>)
          (hs_owner_balances s))\<rparr>)
       (raw_tokens_to_ui (max balance 0) decimals))"

definition holder_update_dedupe_key ::
  "('d \<Rightarrow> string) \<Rightarrow> 'd holder_balance_update_event \<Rightarrow> 'd normalized_event \<Rightarrow> string" where
  "holder_update_dedupe_key show_decimal update event =
    (let meta = ne_meta event; bar = [CHR ''|''] in
     hb_mint update @ bar @ hb_token_account update @ bar @ hb_owner_wallet update @ bar @
     show_nat (unat (em_slot meta)) @ bar @ unwrap_or [] (em_signature meta) @ bar @
     unwrap_or [] (map_option (\<lambda>v. show_nat (unat v)) (em_transaction_index meta)) @ bar @
     unwrap_or [] (map_option (\<lambda>v. show_nat (unat v)) (em_account_write_version meta)) @ bar @
     show_decimal (hb_new_balance update))"

definition token_account_after ::
  "('d::linordered_field) holder_balance_update_event \<Rightarrow> 'd normalized_event \<Rightarrow> u8 \<Rightarrow> 'd \<Rightarrow>
   'd token_account_state" where
  "token_account_after update event decimals ui =
    (let meta = ne_meta event in
     \<lparr>ta_mint = hb_mint update, ta_token_account = hb_token_account update,
      ta_owner = hb_owner_wallet update, ta_raw_balance = max (hb_new_balance update) 0,
      ta_ui_balance = ui, ta_decimals = decimals, ta_last_slot = em_slot meta,
      ta_last_sequence = first_some (em_account_write_version meta)
        (map_option ucast (em_transaction_index meta)),
      ta_source = em_source meta\<rparr>)"

text \<open>The owner of the account before the update, and its balance.\<close>

definition previous_owner :: "'d holder_state \<Rightarrow> string \<Rightarrow> pubkey option" where
  "previous_owner s key = first_some (map_option ta_owner (map_of (hs_token_accounts s) key))
    (map_of (hs_token_account_to_owner s) key)"

definition previous_balance :: "('d::linordered_field) holder_state \<Rightarrow> string \<Rightarrow> 'd" where
  "previous_balance s key = unwrap_or 0
    (first_some (map_option ta_raw_balance (map_of (hs_token_accounts s) key))
      (map_of (hs_token_account_balances s) key))"

definition move_owner_balance ::
  "string \<Rightarrow> pubkey \<Rightarrow> 'd \<Rightarrow> u8 \<Rightarrow> instant \<Rightarrow> ('d::linordered_field) holder_state \<Rightarrow> 'd holder_state option" where
  "move_owner_balance key new_owner new_balance decimals observed_at s =
    (case previous_owner s key of
       Some owner \<Rightarrow>
         if owner \<noteq> new_owner
         then Option.bind
           (apply_owner_delta owner (- previous_balance s key) decimals observed_at
             (s\<lparr>hs_counters := (hs_counters s)
                \<lparr>hc_holder_owner_changes := hc_holder_owner_changes (hs_counters s) + 1\<rparr>\<rparr>))
           (apply_owner_delta new_owner new_balance decimals observed_at)
         else apply_owner_delta owner (new_balance - previous_balance s key) decimals observed_at s
     | None \<Rightarrow> apply_owner_delta new_owner new_balance decimals observed_at s)"

definition store_account ::
  "('d::linordered_field) holder_balance_update_event \<Rightarrow> 'd token_account_state \<Rightarrow>
   'd holder_state \<Rightarrow> 'd holder_state" where
  "store_account update account s =
    (let key = hb_token_account update; balance = ta_raw_balance account in
     s\<lparr>hs_token_account_to_owner :=
         AList.update key (hb_owner_wallet update) (hs_token_account_to_owner s),
       hs_token_account_balances :=
         (if balance \<le> 0 then AList.delete key (hs_token_account_balances s)
          else AList.update key balance (hs_token_account_balances s)),
       hs_token_accounts :=
         (if balance \<le> 0 then AList.delete key (hs_token_accounts s)
          else AList.update key account (hs_token_accounts s))\<rparr>)"

definition apply_balance_update ::
  "('d \<Rightarrow> string) \<Rightarrow> ('d::linordered_field) holder_balance_update_event \<Rightarrow> 'd normalized_event \<Rightarrow> u8 \<Rightarrow>
   'd holder_state \<Rightarrow> 'd holder_state option" where
  "apply_balance_update show_decimal update event decimals s =
    (let observed_at = em_received_at_wall_time (ne_meta event);
         key = holder_update_dedupe_key show_decimal update event;
         c = hs_counters s;
         c1 = c\<lparr>hc_holder_updates_seen := hc_holder_updates_seen c + 1\<rparr> in
     if key \<in> hs_applied_holder_update_keys s
     then Some (s\<lparr>hs_counters := c1\<lparr>hc_holder_updates_deduped := hc_holder_updates_deduped c1 + 1\<rparr>\<rparr>)
     else
       let s = s\<lparr>hs_counters := c1,
                 hs_applied_holder_update_keys := insert key (hs_applied_holder_update_keys s)\<rparr>;
           new_balance = max (hb_new_balance update) 0 in
       Option.bind (move_owner_balance (hb_token_account update) (hb_owner_wallet update) new_balance
                      decimals observed_at s) (\<lambda>s.
       Option.bind (raw_tokens_to_ui new_balance decimals) (\<lambda>ui.
       let s = store_account update (token_account_after update event decimals ui) s;
           s = s\<lparr>hs_counters := (hs_counters s)
                   \<lparr>hc_holder_updates_applied := hc_holder_updates_applied (hs_counters s) + 1\<rparr>,
                 hs_last_updated_at := Some observed_at\<rparr> in
       rebuild_owner_balances observed_at decimals s)))"

definition apply_trade_cost_basis ::
  "pubkey \<Rightarrow> bool \<Rightarrow> 'd \<Rightarrow> 'd \<Rightarrow> instant \<Rightarrow> 'd \<Rightarrow> ('d::linordered_field) holder_state \<Rightarrow> 'd holder_state" where
  "apply_trade_cost_basis owner is_buy quote tokens observed_at latest_price s =
    (let entry = unwrap_or default_holder_balance (map_of (hs_owner_balances s) owner);
         cb = (if is_buy then cost_buy quote tokens observed_at latest_price (ho_cost_basis entry)
               else cost_sell quote tokens observed_at latest_price (ho_cost_basis entry)) in
     s\<lparr>hs_owner_balances := AList.update owner
        (refresh_holder_behaviour
          (entry\<lparr>ho_first_seen_at := first_some (ho_first_seen_at entry) (Some observed_at),
             ho_last_trade_at := Some observed_at, ho_cost_basis := cb\<rparr>))
        (hs_owner_balances s)\<rparr>)"

subsection \<open>Self-checks\<close>

definition viol_supply :: string where
  "viol_supply = ''observed_owner_supply_raw_exceeds_total_supply: observed=''"
definition viol_excluding :: string where
  "viol_excluding = ''observed_owner_supply_excluding_curve_raw_exceeds_total_supply: observed=''"
definition viol_total :: string where "viol_total = '' total=''"
definition viol_owner :: string where "viol_owner = ''negative_owner_balance: owner=''"
definition viol_account :: string where
  "viol_account = ''negative_token_account_balance: token_account=''"
definition viol_balance :: string where "viol_balance = '' balance=''"
definition viol_top :: string where "viol_top = ''top_holder_pct_observed_exceeds_one: value=''"
definition viol_top_total :: string where "viol_top_total = ''top_holder_pct_total_supply_exceeds_one''"

definition holder_invariant_violations ::
  "('d \<Rightarrow> string) \<Rightarrow> 'd \<Rightarrow> string set \<Rightarrow> ('d::linordered_field) holder_state \<Rightarrow> string list" where
  "holder_invariant_violations show_decimal total_supply_raw excluded s =
    (let tolerance = decimal 1 6;
         observed = observed_holder_supply s;
         excluding = sum_list (map (\<lambda>(owner, h). max (ho_balance h) 0) (counted_holders excluded s)) in
     (if observed > total_supply_raw + tolerance
      then [viol_supply @ show_decimal observed @ viol_total @ show_decimal total_supply_raw] else []) @
     (if excluding > total_supply_raw + tolerance
      then [viol_excluding @ show_decimal excluding @ viol_total @ show_decimal total_supply_raw]
      else []) @
     map (\<lambda>(owner, h). viol_owner @ owner @ viol_balance @ show_decimal (ho_balance h))
       (filter (\<lambda>(owner, h). ho_balance h < 0) (hs_owner_balances s)) @
     map (\<lambda>(account, balance). viol_account @ account @ viol_balance @ show_decimal balance)
       (filter (\<lambda>(account, balance). balance < 0) (hs_token_account_balances s)) @
     (if top_holder_pct 1 s > 1 + tolerance
      then [viol_top @ show_decimal (top_holder_pct 1 s)] else []) @
     (if top_pct_with_denominator 1 total_supply_raw excluded s > 1 + tolerance
      then [viol_top_total] else []))"

subsection \<open>Balances of owners and of accounts\<close>

definition balance_of :: "(string \<times> ('d::linordered_field) holder_balance) list \<Rightarrow> string \<Rightarrow> 'd" where
  "balance_of obs owner = (case map_of obs owner of Some h \<Rightarrow> ho_balance h | None \<Rightarrow> 0)"

definition owned_by :: "string \<Rightarrow> string \<times> ('d::linordered_field) token_account_state \<Rightarrow> 'd" where
  "owned_by owner = (\<lambda>(key, account). if ta_owner account = owner then ta_raw_balance account else 0)"

definition account_total :: "(string \<times> ('d::linordered_field) token_account_state) list \<Rightarrow> string \<Rightarrow> 'd" where
  "account_total accounts owner = sum_list (map (owned_by owner) accounts)"

lemma balance_of_update [simp]:
  "balance_of (AList.update k h obs) o' = (if o' = k then ho_balance h else balance_of obs o')"
  by (simp add: balance_of_def update_conv')

lemma default_holder_balance_zero [simp]: "ho_balance default_holder_balance = 0"
  by (simp add: default_holder_balance_def)

lemma fresh_holder_zero [simp]: "ho_balance (fresh_holder old) = 0"
  by (simp add: fresh_holder_def)

lemma unwrap_balance [simp]:
  "ho_balance d = 0 \<Longrightarrow> ho_balance (unwrap_or d (map_of obs k)) = balance_of obs k"
  by (simp add: unwrap_or_def balance_of_def split: option.splits)

lemma refresh_balance [simp]: "ho_balance (refresh_holder_behaviour h) = ho_balance h"
  by (simp add: refresh_holder_behaviour_def Let_def)

lemma sum_list_update:
  fixes f :: "'k \<times> 'v \<Rightarrow> 'd::linordered_field"
  shows "sum_list (map f (AList.update k v al)) =
    sum_list (map f al) + f (k, v) - (case map_of al k of Some w \<Rightarrow> f (k, w) | None \<Rightarrow> 0)"
  by (induction al) (auto split: option.splits)

definition obs_sum :: "(string \<times> ('d::linordered_field) holder_balance) list \<Rightarrow> 'd" where
  "obs_sum obs = sum_list (map (\<lambda>(owner, h). ho_balance h) obs)"

lemma obs_sum_update:
  "obs_sum (AList.update k h obs) = obs_sum obs + ho_balance h - balance_of obs k"
  by (simp add: obs_sum_def sum_list_update balance_of_def split: option.splits)

lemma rebuild_account_step:
  assumes "rebuild_account now decimals olds (key, account) r = Some r'" and "0 < ta_raw_balance account"
  shows "balance_of r' o' = balance_of r o' + owned_by o' (key, account)"
    and "obs_sum r' = obs_sum r + ta_raw_balance account"
    and "distinct (map fst r) \<Longrightarrow> distinct (map fst r')"
  using assms
  by (auto simp: rebuild_account_def Let_def owned_by_def obs_sum_update distinct_update split: if_splits)

lemma rebuild_accounts:
  assumes "foldo (rebuild_account now decimals olds) accounts r = Some r'"
    and "\<forall>(key, account) \<in> set accounts. 0 < ta_raw_balance account"
  shows "balance_of r' o' = balance_of r o' + account_total accounts o' \<and>
    obs_sum r' = obs_sum r + sum_list (map (\<lambda>(key, account). ta_raw_balance account) accounts) \<and>
    (distinct (map fst r) \<longrightarrow> distinct (map fst r'))"
  using assms
proof (induction accounts arbitrary: r)
  case (Cons ka accounts)
  obtain key account where ka: "ka = (key, account)" by (cases ka)
  from Cons.prems(1) obtain r1 where r1: "rebuild_account now decimals olds (key, account) r = Some r1"
    "foldo (rebuild_account now decimals olds) accounts r1 = Some r'"
    by (auto simp: ka dest!: bind_eq_SomeD)
  from Cons.prems(2) have pos: "0 < ta_raw_balance account" by (simp add: ka)
  from Cons.IH [OF r1(2)] Cons.prems(2) rebuild_account_step [OF r1(1) pos]
  show ?case by (simp add: account_total_def ka add.assoc)
qed (simp add: account_total_def)

lemma carry_over_balance [simp]: "balance_of (carry_over x r) o' = balance_of r o'"
  by (cases x) (auto simp: carry_over_def balance_of_def update_conv' split: option.splits)

lemma carry_over_sum [simp]: "obs_sum (carry_over x r) = obs_sum r"
  by (cases x) (auto simp: carry_over_def obs_sum_update balance_of_def split: option.splits)

lemma carry_over_distinct: "distinct (map fst r) \<Longrightarrow> distinct (map fst (carry_over x r))"
  by (cases x) (auto simp: carry_over_def distinct_update split: option.splits)

lemma carry_over_fold:
  "balance_of (fold carry_over xs r) o' = balance_of r o' \<and> obs_sum (fold carry_over xs r) = obs_sum r \<and>
    (distinct (map fst r) \<longrightarrow> distinct (map fst (fold carry_over xs r)))"
  by (induction xs arbitrary: r) (auto simp: carry_over_distinct)

lemma balance_of_map [simp]:
  "(\<And>h. ho_balance (f h) = ho_balance h) \<Longrightarrow>
    balance_of (map (\<lambda>(owner, h). (owner, f h)) obs) o' = balance_of obs o'"
  by (induction obs) (auto simp: balance_of_def)

lemma obs_sum_map [simp]:
  "(\<And>h. ho_balance (f h) = ho_balance h) \<Longrightarrow> obs_sum (map (\<lambda>(owner, h). (owner, f h)) obs) = obs_sum obs"
  by (induction obs) (auto simp: obs_sum_def)

lemma fst_comp_map [simp]: "fst \<circ> (\<lambda>(owner, h). (owner, f h)) = fst"
  by (auto simp: fun_eq_iff)

lemma recompute_keeps [simp]:
  "hs_owner_balances (recompute_with_previous now previous s) = hs_owner_balances s"
  "hs_token_accounts (recompute_with_previous now previous s) = hs_token_accounts s"
  "hs_applied_holder_update_keys (recompute_with_previous now previous s) = hs_applied_holder_update_keys s"
  "hs_counters (recompute_with_previous now previous s) = hs_counters s"
  by (simp_all add: recompute_with_previous_def Let_def)

definition accounts_ok :: "(string \<times> ('d::linordered_field) token_account_state) list \<Rightarrow> bool" where
  "accounts_ok accounts \<longleftrightarrow> distinct (map fst accounts) \<and>
    (\<forall>(key, account) \<in> set accounts. 0 < ta_raw_balance account)"

definition balances_ok :: "('d::linordered_field) holder_state \<Rightarrow> bool" where
  "balances_ok s \<longleftrightarrow> accounts_ok (hs_token_accounts s) \<and> distinct (map fst (hs_owner_balances s)) \<and>
    (\<forall>owner. balance_of (hs_owner_balances s) owner = account_total (hs_token_accounts s) owner) \<and>
    obs_sum (hs_owner_balances s) =
      sum_list (map (\<lambda>(key, account). ta_raw_balance account) (hs_token_accounts s))"

lemma rebuild_balances_ok:
  assumes "rebuild_owner_balances now decimals s = Some s'" and "accounts_ok (hs_token_accounts s)"
  shows "balances_ok s'"
proof -
  from assms(1) obtain r where
    r: "foldo (rebuild_account now decimals (hs_owner_balances s)) (hs_token_accounts s) [] = Some r"
    and s': "s' = recompute_with_previous now (hs_nonzero_holder_count s)
        (s\<lparr>hs_owner_balances := map (\<lambda>(owner, h). (owner, refresh_holder_behaviour h))
            (fold carry_over (hs_owner_balances s) r)\<rparr>)"
    by (auto simp: rebuild_owner_balances_def)
  have "balance_of r o' = account_total (hs_token_accounts s) o' \<and>
      obs_sum r = sum_list (map (\<lambda>(key, account). ta_raw_balance account) (hs_token_accounts s)) \<and>
      distinct (map fst r)" for o'
    using rebuild_accounts [OF r, of o'] assms(2)
    by (simp add: accounts_ok_def balance_of_def obs_sum_def)
  with assms(2) carry_over_fold [of "hs_owner_balances s" r] show ?thesis
    by (simp add: s' balances_ok_def)
qed

lemma set_update_subset: "set (AList.update k v al) \<subseteq> insert (k, v) (set al)"
  by (induction al) auto

lemma set_delete_subset: "set (AList.delete k al) \<subseteq> set al"
  by (induction al) auto

lemma accounts_ok_update: "accounts_ok al \<Longrightarrow> 0 < ta_raw_balance a \<Longrightarrow> accounts_ok (AList.update k a al)"
  using set_update_subset [of k a al] by (auto simp: accounts_ok_def distinct_update)

lemma accounts_ok_delete: "accounts_ok al \<Longrightarrow> accounts_ok (AList.delete k al)"
  using set_delete_subset [of k al] by (auto simp: accounts_ok_def distinct_delete)

lemma apply_owner_delta_keeps:
  assumes "apply_owner_delta owner delta decimals now s = Some s'"
  shows "hs_token_accounts s' = hs_token_accounts s"
    and "hs_applied_holder_update_keys s' = hs_applied_holder_update_keys s"
    and "hs_nonzero_holder_count s' = hs_nonzero_holder_count s"
    and "hs_counters s' = hs_counters s"
  using assms by (auto simp: apply_owner_delta_def Let_def split: if_splits)

lemma move_owner_balance_keeps:
  assumes "move_owner_balance key owner balance decimals now s = Some s'"
  shows "hs_token_accounts s' = hs_token_accounts s \<and>
    hs_applied_holder_update_keys s' = hs_applied_holder_update_keys s"
  using assms
  by (auto simp: move_owner_balance_def apply_owner_delta_keeps dest!: bind_eq_SomeD
      split: option.splits if_splits)

lemma store_account_ok:
  "accounts_ok (hs_token_accounts s) \<Longrightarrow> accounts_ok (hs_token_accounts (store_account u a s))"
  by (simp add: store_account_def Let_def accounts_ok_update accounts_ok_delete)

text \<open>An accepted update: what it stores, and the state it rebuilds from.\<close>

lemma apply_balance_update_cases:
  assumes "apply_balance_update sd u e decimals s = Some s'"
  obtains (duplicate) "holder_update_dedupe_key sd u e \<in> hs_applied_holder_update_keys s"
      "s' = s\<lparr>hs_counters := (hs_counters s)
        \<lparr>hc_holder_updates_seen := hc_holder_updates_seen (hs_counters s) + 1,
         hc_holder_updates_deduped := hc_holder_updates_deduped (hs_counters s) + 1\<rparr>\<rparr>"
    | (applied) t ui where "holder_update_dedupe_key sd u e \<notin> hs_applied_holder_update_keys s"
      "hs_token_accounts t =
        hs_token_accounts (store_account u (token_account_after u e decimals ui) s)"
      "hs_applied_holder_update_keys t =
        insert (holder_update_dedupe_key sd u e) (hs_applied_holder_update_keys s)"
      "rebuild_owner_balances (em_received_at_wall_time (ne_meta e)) decimals t = Some s'"
proof (cases "holder_update_dedupe_key sd u e \<in> hs_applied_holder_update_keys s")
  case True
  with assms duplicate show ?thesis by (simp add: apply_balance_update_def Let_def)
next
  case False
  let ?now = "em_received_at_wall_time (ne_meta e)"
  let ?s0 = "s\<lparr>hs_counters := (hs_counters s)\<lparr>hc_holder_updates_seen :=
      hc_holder_updates_seen (hs_counters s) + 1\<rparr>,
    hs_applied_holder_update_keys :=
      insert (holder_update_dedupe_key sd u e) (hs_applied_holder_update_keys s)\<rparr>"
  from assms False obtain m ui where
    m: "move_owner_balance (hb_token_account u) (hb_owner_wallet u) (max (hb_new_balance u) 0) decimals ?now ?s0 = Some m"
    and r: "rebuild_owner_balances ?now decimals
      ((store_account u (token_account_after u e decimals ui) m)
        \<lparr>hs_counters := (hs_counters (store_account u (token_account_after u e decimals ui) m))
          \<lparr>hc_holder_updates_applied :=
             hc_holder_updates_applied (hs_counters (store_account u (token_account_after u e decimals ui) m)) + 1\<rparr>,
         hs_last_updated_at := Some ?now\<rparr>) = Some s'"
    by (auto simp: apply_balance_update_def Let_def dest!: bind_eq_SomeD)
  show ?thesis
    by (rule applied [where ui = ui, OF False _ _ r])
      (use move_owner_balance_keeps [OF m] in \<open>simp_all add: store_account_def Let_def\<close>)
qed

lemma apply_balance_update_ok:
  assumes "apply_balance_update sd u e decimals s = Some s'" and "balances_ok s"
  shows "balances_ok s'"
  using assms(1)
proof (cases rule: apply_balance_update_cases)
  case duplicate
  with assms(2) show ?thesis by (simp add: balances_ok_def)
next
  case (applied t ui)
  have "accounts_ok (hs_token_accounts t)"
    using assms(2) store_account_ok [of s u "token_account_after u e decimals ui"]
    by (simp add: applied(2) balances_ok_def)
  with applied(4) show ?thesis by (rule rebuild_balances_ok)
qed

lemma trade_cost_ok: "balances_ok s \<Longrightarrow> balances_ok (apply_trade_cost_basis owner b q t now price s)"
  by (auto simp: apply_trade_cost_basis_def Let_def balances_ok_def obs_sum_update distinct_update)

subsection \<open>The distribution\<close>

definition distribution_ok :: "('d::linordered_field) holder_state \<Rightarrow> bool" where
  "distribution_ok s \<longleftrightarrow>
    sorted_wrt (\<ge>) (map hd_balance (hs_top_holders s)) \<and> length (hs_top_holders s) \<le> 20 \<and>
    list_all (\<lambda>h. 0 \<le> hd_pct_supply_proxy h) (hs_top_holders s) \<and>
    sum_list (map hd_pct_supply_proxy (hs_top_holders s)) \<le> 1 \<and>
    0 \<le> hs_hhi s \<and> hs_hhi s \<le> 1 \<and> 0 \<le> hs_holder_stickiness s \<and> hs_holder_stickiness s \<le> 1 \<and>
    length (hs_holder_count_history s) \<le> max_holder_history"

lemma sum_list_divide: "sum_list (map (\<lambda>x. f x / c) xs) = sum_list (map f xs) / c"
  for c :: "'d::linordered_field"
  by (induction xs) (simp_all add: add_divide_distrib)

lemma sum_list_sort_key: "sum_list (map f (sort_key k xs)) = sum_list (map f xs)"
  for f :: "'a \<Rightarrow> 'd::linordered_field"
  by (metis mset_map mset_sort sum_mset_sum_list)

lemma sum_list_take_le:
  "(\<And>x. x \<in> set xs \<Longrightarrow> 0 \<le> x) \<Longrightarrow> sum_list (take n xs) \<le> sum_list xs"
  for xs :: "('d::linordered_field) list"
proof -
  assume pos: "\<And>x. x \<in> set xs \<Longrightarrow> 0 \<le> x"
  have "sum_list xs = sum_list (take n xs) + sum_list (drop n xs)"
    by (metis append_take_drop_id sum_list_append)
  moreover have "0 \<le> sum_list (drop n xs)" using pos by (intro sum_list_nonneg) (auto dest: in_set_dropD)
  ultimately show ?thesis by simp
qed

lemma positive_sum:
  "\<forall>(owner, h) \<in> set obs. 0 \<le> ho_balance h \<Longrightarrow>
    sum_list (map (\<lambda>(owner, h). ho_balance h) (filter (\<lambda>(owner, h). ho_balance h > 0) obs)) = obs_sum obs"
  by (induction obs) (auto simp: obs_sum_def)

lemma sorted_holders_sum:
  "\<forall>(owner, h) \<in> set obs. 0 \<le> ho_balance h \<Longrightarrow> sum_list (map snd (sorted_holders obs)) = obs_sum obs"
  unfolding sorted_holders_def sum_list_sort_key
  by (simp add: positive_sum [symmetric] case_prod_unfold comp_def)

lemma sorted_holders_pos: "x \<in> set (map snd (sorted_holders obs)) \<Longrightarrow> 0 < x"
  by (auto simp: sorted_holders_def)

lemma sorted_holders_desc: "sorted_wrt (\<ge>) (map snd (sorted_holders obs))"
proof -
  have "sorted (map (\<lambda>x. - snd x) (sorted_holders obs))"
    unfolding sorted_holders_def by (rule sorted_sort_key)
  then show ?thesis by (simp add: sorted_wrt_map)
qed

lemma hhi_range:
  assumes "\<And>x. x \<in> set bs \<Longrightarrow> 0 < x"
  shows "0 \<le> compute_hhi bs \<and> compute_hhi bs \<le> 1"
proof (cases "sum_list bs \<le> 0")
  case False
  then have T: "0 < sum_list bs" by simp
  have share: "0 \<le> b / sum_list bs \<and> b / sum_list bs \<le> 1" if "b \<in> set bs" for b
    using that assms T member_le_sum_list [of b bs] by (simp add: less_imp_le divide_le_eq)
  have "sum_list (map (\<lambda>b. b / sum_list bs * (b / sum_list bs)) bs) \<le> sum_list (map (\<lambda>b. b / sum_list bs) bs)"
    using share by (intro sum_list_mono) (metis mult_left_le mult.commute)
  also have "\<dots> = 1" using T by (simp add: sum_list_divide)
  finally have "compute_hhi bs \<le> 1" using T by (simp add: compute_hhi_def Let_def not_le)
  moreover have "0 \<le> compute_hhi bs" using share T
    by (auto simp: compute_hhi_def Let_def intro!: sum_list_nonneg)
  ultimately show ?thesis by blast
qed (simp add: compute_hhi_def Let_def)

lemma recompute_distribution_ok:
  assumes nonneg: "\<forall>(owner, h) \<in> set (hs_owner_balances s). 0 \<le> ho_balance h"
  shows "distribution_ok (recompute_with_previous now previous s)"
proof -
  let ?b = "sorted_holders (hs_owner_balances s)" and ?t = "obs_sum (hs_owner_balances s)"
  let ?top = "hs_top_holders (recompute_with_previous now previous s)"
  have t: "0 \<le> ?t" using nonneg by (auto simp: obs_sum_def intro!: sum_list_nonneg)
  have top: "?top = map (\<lambda>(owner, balance). \<lparr>hd_owner = owner, hd_balance = balance,
      hd_pct_supply_proxy = (if ?t > 0 then balance / ?t else 0)\<rparr>) (take 20 ?b)"
    unfolding obs_sum_def by (simp add: recompute_with_previous_def Let_def)
  have bal: "map hd_balance ?top = take 20 (map snd ?b)"
    by (simp add: top take_map comp_def case_prod_unfold)
  have pct: "map hd_pct_supply_proxy ?top = map (\<lambda>b. if ?t > 0 then b / ?t else 0) (take 20 (map snd ?b))"
    by (simp add: top take_map comp_def case_prod_unfold)
  have pos: "0 < x" if "x \<in> set (take 20 (map snd ?b))" for x
    using that sorted_holders_pos in_set_takeD by fast
  have sum: "sum_list (map hd_pct_supply_proxy ?top) \<le> 1"
  proof (cases "?t > 0")
    case True
    have "sum_list (take 20 (map snd ?b)) \<le> ?t"
      using sum_list_take_le [of "map snd ?b" 20] sorted_holders_pos [of _ "hs_owner_balances s"]
      by (simp only: sorted_holders_sum [OF nonneg]) (meson less_imp_le)
    with True show ?thesis unfolding pct by (simp add: sum_list_divide [where f = "\<lambda>x. x", simplified] divide_le_eq)
  qed (simp add: pct)
  have "0 \<le> x" if "x \<in> set (map hd_pct_supply_proxy ?top)" for x
    using that t pos unfolding pct by (auto intro: divide_nonneg_nonneg less_imp_le)
  then have "list_all (\<lambda>h. 0 \<le> hd_pct_supply_proxy h) ?top" by (simp add: list_all_iff)
  moreover have "sorted_wrt (\<ge>) (map hd_balance ?top)"
    unfolding bal using sorted_holders_desc by (rule sorted_wrt_take)
  moreover have "length ?top \<le> 20" by (simp add: top)
  moreover have "hs_hhi (recompute_with_previous now previous s) = compute_hhi (map snd ?b)"
    by (simp add: recompute_with_previous_def Let_def)
  moreover have "length (hs_holder_count_history (recompute_with_previous now previous s)) \<le> max_holder_history"
    by (simp add: recompute_with_previous_def Let_def)
  moreover have "0 \<le> hs_holder_stickiness (recompute_with_previous now previous s) \<and>
      hs_holder_stickiness (recompute_with_previous now previous s) \<le> 1"
    by (simp add: recompute_with_previous_def Let_def clamp_in)
  ultimately show ?thesis
    using sum hhi_range [of "map snd ?b"] sorted_holders_pos by (auto simp: distribution_ok_def)
qed

lemma account_total_nonneg: "accounts_ok accounts \<Longrightarrow> 0 \<le> account_total accounts owner"
  by (fastforce simp: account_total_def accounts_ok_def owned_by_def intro!: sum_list_nonneg)

lemma balances_nonneg:
  assumes "balances_ok s"
  shows "\<forall>(owner, h) \<in> set (hs_owner_balances s). 0 \<le> ho_balance h"
proof clarify
  fix owner h assume "(owner, h) \<in> set (hs_owner_balances s)"
  then have "balance_of (hs_owner_balances s) owner = ho_balance h"
    using assms by (simp add: balances_ok_def balance_of_def)
  with assms show "0 \<le> ho_balance h"
    using account_total_nonneg [of "hs_token_accounts s" owner] by (simp add: balances_ok_def)
qed

lemma rebuild_distribution_ok:
  assumes "rebuild_owner_balances now decimals s = Some s'" and "accounts_ok (hs_token_accounts s)"
  shows "distribution_ok s'"
proof -
  from assms(1) obtain t where t: "s' = recompute_with_previous now (hs_nonzero_holder_count s) t"
    by (auto simp: rebuild_owner_balances_def)
  with rebuild_balances_ok [OF assms] have "\<forall>(owner, h) \<in> set (hs_owner_balances t). 0 \<le> ho_balance h"
    using balances_nonneg [of s'] by (simp add: t)
  then show ?thesis unfolding t by (rule recompute_distribution_ok)
qed

datatype 'd holder_op =
    BalanceUpdate "'d holder_balance_update_event" "'d normalized_event" u8
  | TradeCost pubkey bool 'd 'd instant 'd

fun holder_step ::
  "('d \<Rightarrow> string) \<Rightarrow> ('d::linordered_field) holder_op \<Rightarrow> 'd holder_state \<Rightarrow> 'd holder_state option" where
  "holder_step sd (BalanceUpdate u e decimals) s = apply_balance_update sd u e decimals s"
| "holder_step sd (TradeCost owner b q t now price) s =
    Some (apply_trade_cost_basis owner b q t now price s)"

lemma holder_step_ok:
  assumes "holder_step sd op s = Some s'" and "balances_ok s" "distribution_ok s"
  shows "balances_ok s' \<and> distribution_ok s'"
proof (cases op)
  case (BalanceUpdate u e decimals)
  with assms(1) have run: "apply_balance_update sd u e decimals s = Some s'" by simp
  then show ?thesis
  proof (cases rule: apply_balance_update_cases)
    case duplicate
    with assms show ?thesis by (simp add: balances_ok_def distribution_ok_def)
  next
    case (applied t ui)
    have "accounts_ok (hs_token_accounts t)"
      using assms(2) store_account_ok [of s u "token_account_after u e decimals ui"]
      by (simp add: applied(2) balances_ok_def)
    with applied(4) rebuild_balances_ok rebuild_distribution_ok show ?thesis by blast
  qed
next
  case (TradeCost owner b q t now price)
  have "distribution_ok (apply_trade_cost_basis owner b q t now price s)"
    using assms(3) by (simp add: distribution_ok_def apply_trade_cost_basis_def Let_def)
  with assms TradeCost trade_cost_ok [OF assms(2)] show ?thesis by auto
qed

lemma foldo_keeps:
  assumes "foldo f xs s = Some s'" and "P s"
    and "\<And>x s s'. f x s = Some s' \<Longrightarrow> P s \<Longrightarrow> P s'"
  shows "P s'"
  using assms(1,2)
proof (induction xs arbitrary: s)
  case (Cons x xs)
  then obtain t where "f x s = Some t" "foldo f xs t = Some s'" by (auto dest!: bind_eq_SomeD)
  with Cons assms(3) show ?case by blast
qed simp

lemma default_holder_ok: "balances_ok default_holder_state" "distribution_ok default_holder_state"
  by (simp_all add: balances_ok_def accounts_ok_def default_holder_state_def balance_of_def
      account_total_def obs_sum_def distribution_ok_def)

lemma holder_run_ok:
  assumes "foldo (holder_step sd) ops default_holder_state = Some s"
  shows "balances_ok s \<and> distribution_ok s"
proof (rule foldo_keeps [where P = "\<lambda>s. balances_ok s \<and> distribution_ok s", OF assms])
  show "balances_ok default_holder_state \<and> distribution_ok default_holder_state"
    using default_holder_ok by blast
qed (use holder_step_ok in blast)

text \<open>
  C21. The holders of a token are what its accounts say: after any sequence of balance updates and trades
  that does not panic, every owner's balance is the sum of the accounts it owns, all of them positive,
  and the balances add up to the supply in the accounts.
\<close>
theorem holder_balances_exact:
  assumes "foldo (holder_step show_decimal) ops default_holder_state = Some s"
  shows "balances_ok s"
  using holder_run_ok [OF assms] by blast

text \<open>
  The holder distribution is a distribution: at all times the top holders are at most 20, in
  descending order of balance, with non-negative shares of a sum of at most one; the concentration index
  and the stickiness lie between zero and one, and the history keeps at most 256 entries.
\<close>
theorem holder_distribution_bounds:
  assumes "foldo (holder_step show_decimal) ops default_holder_state = Some s"
  shows "distribution_ok s"
  using holder_run_ok [OF assms] by blast

lemma rebuild_keeps_keys:
  "rebuild_owner_balances now decimals s = Some s' \<Longrightarrow>
    hs_applied_holder_update_keys s' = hs_applied_holder_update_keys s \<and>
    hs_token_accounts s' = hs_token_accounts s"
  by (auto simp: rebuild_owner_balances_def)

text \<open>
  A balance update is applied once: delivering the same update again changes nothing but the counters
  of updates seen and deduplicated.
\<close>
theorem balance_update_idempotent:
  assumes "apply_balance_update show_decimal u e decimals s = Some s'"
  shows "apply_balance_update show_decimal u e decimals s' = Some (s'\<lparr>hs_counters := (hs_counters s')
      \<lparr>hc_holder_updates_seen := hc_holder_updates_seen (hs_counters s') + 1,
       hc_holder_updates_deduped := hc_holder_updates_deduped (hs_counters s') + 1\<rparr>\<rparr>)"
proof -
  have "holder_update_dedupe_key show_decimal u e \<in> hs_applied_holder_update_keys s'"
    using assms
  proof (cases rule: apply_balance_update_cases)
    case (applied t ui)
    then show ?thesis using rebuild_keeps_keys [OF applied(4)] by simp
  qed simp
  then show ?thesis by (simp add: apply_balance_update_def Let_def)
qed

lemma applied_account:
  assumes "apply_balance_update sd u e decimals s = Some s'"
    and "holder_update_dedupe_key sd u e \<notin> hs_applied_holder_update_keys s" and "0 < hb_new_balance u"
  obtains ui where "hs_token_accounts s' =
    AList.update (hb_token_account u) (token_account_after u e decimals ui) (hs_token_accounts s)"
  using assms(1)
proof (cases rule: apply_balance_update_cases)
  case duplicate
  with assms(2) show ?thesis by simp
next
  case (applied t ui)
  then show ?thesis
    using rebuild_keeps_keys [OF applied(4)] assms(3)
    by (intro that [of ui]) (simp add: store_account_def Let_def token_account_after_def)
qed

text \<open>
  An older balance overwrites a newer one: an update of an account from an earlier slot than the one
  the account was last seen in, arriving late, is applied like any other, although the slot of the
  account is recorded beside its balance.
\<close>
theorem late_balance_update_wins:
  assumes "apply_balance_update show_decimal u e decimals s = Some s'"
    and "holder_update_dedupe_key show_decimal u e \<notin> hs_applied_holder_update_keys s"
    and "map_of (hs_token_accounts s) (hb_token_account u) = Some a"
    and "em_slot (ne_meta e) < ta_last_slot a" and "0 < hb_new_balance u"
  shows "\<exists>a'. map_of (hs_token_accounts s') (hb_token_account u) = Some a' \<and>
    ta_raw_balance a' = hb_new_balance u \<and> ta_last_slot a' < ta_last_slot a"
proof -
  obtain ui where "hs_token_accounts s' =
      AList.update (hb_token_account u) (token_account_after u e decimals ui) (hs_token_accounts s)"
    by (rule applied_account [OF assms(1,2,5)])
  with assms(4,5) show ?thesis by (simp add: update_conv' token_account_after_def Let_def)
qed

subsection \<open>Witnesses\<close>

lemma apply_owner_delta_total:
  "unat decimals \<le> 19 \<Longrightarrow> \<exists>s'. apply_owner_delta owner delta decimals now s = Some s'"
  by (simp add: apply_owner_delta_def Let_def raw_to_ui_small)

lemma rebuild_total:
  assumes "unat decimals \<le> 19"
  shows "\<exists>s'. rebuild_owner_balances now decimals s = Some s'"
proof -
  have "\<exists>r'. foldo (rebuild_account now decimals olds) accounts r = Some r'" for olds accounts r
    by (induction accounts arbitrary: r)
      (simp_all add: rebuild_account_def Let_def raw_to_ui_small [OF assms] case_prod_unfold)
  then obtain r where
    "foldo (rebuild_account now decimals (hs_owner_balances s)) (hs_token_accounts s) [] = Some r" by blast
  then show ?thesis by (simp add: rebuild_owner_balances_def)
qed

lemma bind_total:
  "\<exists>a. x = Some a \<Longrightarrow> (\<And>a. \<exists>b. f a = Some b) \<Longrightarrow> \<exists>b. Option.bind x f = Some b"
  by auto

lemma move_owner_balance_total:
  assumes "unat decimals \<le> 19"
  shows "\<exists>s'. move_owner_balance key owner balance decimals now s = Some s'"
proof (cases "previous_owner s key")
  case None
  then show ?thesis by (simp add: move_owner_balance_def apply_owner_delta_total [OF assms])
next
  case (Some o')
  show ?thesis unfolding move_owner_balance_def Some option.case
    by (cases "o' \<noteq> owner")
      (simp_all only: if_True if_False not_True_eq_False simp_thms,
        (rule bind_total apply_owner_delta_total [OF assms])+)
qed

lemma apply_balance_update_total:
  assumes "unat decimals \<le> 19"
  shows "\<exists>s'. apply_balance_update sd u e decimals s = Some s'"
proof (cases "holder_update_dedupe_key sd u e \<in> hs_applied_holder_update_keys s")
  case False
  show ?thesis
    unfolding apply_balance_update_def Let_def if_not_P [OF False] raw_to_ui_small [OF assms]
    by (rule bind_total [OF move_owner_balance_total [OF assms]], simp only: bind.bind_lunit)
      (rule rebuild_total [OF assms])
qed (simp add: apply_balance_update_def Let_def)

definition example_balance :: "rat \<Rightarrow> rat holder_balance_update_event" where
  "example_balance balance = \<lparr>hb_mint = [], hb_owner_wallet = [CHR ''o''],
     hb_token_account = [CHR ''a''], hb_token_decimals = None, hb_old_balance = None,
     hb_new_balance = balance, hb_delta = 0, hb_caused_by_signature = None,
     hb_update_reason = [], hb_confidence = 1\<rparr>"

definition example_balance_event :: "u64 \<Rightarrow> rat \<Rightarrow> rat normalized_event" where
  "example_balance_event slot balance = \<lparr>ne_meta = \<lparr>em_event_id = 0, em_source = GeyserProcessed,
     em_canonicality = Processed, em_slot = slot, em_parent_slot = None, em_block_time = None,
     em_observed_at_monotonic_ns = 0, em_received_at_wall_time = 0, em_signature = None,
     em_transaction_index = None, em_instruction_index = None, em_inner_instruction_index = None,
     em_account_pubkey = None, em_account_write_version = None, em_source_latency_ms = None,
     em_decode_confidence = 1, em_data_quality_flags = [], em_raw_reference = None,
     em_schema_version = 2\<rparr>, ne_payload = HolderBalanceUpdate (example_balance balance)\<rparr>"

definition example_holder_ops :: "rat holder_op list" where
  "example_holder_ops =
    [BalanceUpdate (example_balance 10) (example_balance_event 5 10) 6,
     TradeCost [CHR ''o''] True 3 10 0 1]"

lemma example_holder_run: "\<exists>s. foldo (holder_step (\<lambda>_. [])) example_holder_ops default_holder_state = Some s"
  unfolding example_holder_ops_def foldo.simps holder_step.simps
  by (rule bind_total, rule apply_balance_update_total) simp_all

definition example_holder_state :: "rat holder_state" where
  "example_holder_state = the (foldo (holder_step (\<lambda>_. [])) example_holder_ops default_holder_state)"

lemma example_holder_some:
  "foldo (holder_step (\<lambda>_. [])) example_holder_ops default_holder_state = Some example_holder_state"
  using example_holder_run by (auto simp: example_holder_state_def)

theorem holder_balances_exact_witness: "balances_ok example_holder_state"
  using holder_balances_exact [OF example_holder_some] .

theorem holder_distribution_bounds_witness: "distribution_ok example_holder_state"
  using holder_distribution_bounds [OF example_holder_some] .

definition example_first :: "rat holder_state" where
  "example_first = the (apply_balance_update (\<lambda>_. []) (example_balance 10)
     (example_balance_event 5 10) 6 default_holder_state)"

lemma example_first_some:
  "apply_balance_update (\<lambda>_. []) (example_balance 10) (example_balance_event 5 10) 6
     default_holder_state = Some example_first"
  using apply_balance_update_total [of 6 "\<lambda>_. []" "example_balance 10" "example_balance_event 5 10"
      default_holder_state]
  by (auto simp: example_first_def)

theorem balance_update_idempotent_witness:
  "apply_balance_update (\<lambda>_. []) (example_balance 10) (example_balance_event 5 10) 6 example_first =
    Some (example_first\<lparr>hs_counters := (hs_counters example_first)
      \<lparr>hc_holder_updates_seen := hc_holder_updates_seen (hs_counters example_first) + 1,
       hc_holder_updates_deduped := hc_holder_updates_deduped (hs_counters example_first) + 1\<rparr>\<rparr>)"
  by (rule balance_update_idempotent [OF example_first_some])

lemma example_keys:
  "holder_update_dedupe_key (\<lambda>_. []) (example_balance 7) (example_balance_event 3 7) \<noteq>
   holder_update_dedupe_key (\<lambda>_. []) (example_balance 10) (example_balance_event 5 10)"
  by (simp add: holder_update_dedupe_key_def example_balance_def example_balance_event_def
      unwrap_or_def Let_def show_nat.simps)

lemma example_first_keys:
  "hs_applied_holder_update_keys example_first =
    {holder_update_dedupe_key (\<lambda>_. []) (example_balance 10) (example_balance_event 5 10)}"
  using example_first_some
proof (cases rule: apply_balance_update_cases)
  case (applied t ui)
  then show ?thesis using rebuild_keeps_keys [OF applied(4)] by (simp add: default_holder_state_def)
qed (simp add: default_holder_state_def)

theorem late_balance_update_wins_witness:
  "\<exists>s a. apply_balance_update (\<lambda>_. []) (example_balance 7) (example_balance_event 3 7) 6
      example_first = Some s \<and>
    map_of (hs_token_accounts s) [CHR ''a''] = Some a \<and> ta_raw_balance a = 7"
proof -
  obtain ui where "hs_token_accounts example_first = AList.update [CHR ''a'']
      (token_account_after (example_balance 10) (example_balance_event 5 10) 6 ui) []"
    by (rule applied_account [OF example_first_some])
      (simp_all add: default_holder_state_def example_balance_def)
  then obtain a where a: "map_of (hs_token_accounts example_first)
      (hb_token_account (example_balance 7)) = Some a" "ta_last_slot a = 5"
    by (simp add: token_account_after_def example_balance_def example_balance_event_def)
  obtain s where s: "apply_balance_update (\<lambda>_. []) (example_balance 7) (example_balance_event 3 7) 6
      example_first = Some s"
    using apply_balance_update_total [of 6 "\<lambda>_. []" "example_balance 7" "example_balance_event 3 7"
        example_first] by auto
  have "holder_update_dedupe_key (\<lambda>_. []) (example_balance 7) (example_balance_event 3 7) \<notin>
      hs_applied_holder_update_keys example_first"
    using example_keys by (simp add: example_first_keys)
  from late_balance_update_wins [OF s this a(1)] a(2) s show ?thesis
    by (auto simp: example_balance_def example_balance_event_def)
qed

end
