(* ===== verification/Wallet_Graph.thy ===== *)
theory Wallet_Graph
  imports Curve_State "HOL-Library.AList" "HOL-Library.Char_ord" "HOL-Library.List_Lexorder"
begin

text \<open>
  The wallet graphs of \<open>crates/state/src/lib.rs\<close>: \<open>FundingGraph\<close> (who funded whom) and \<open>ClusterIndex\<close>
  (wallets linked by a common funder or payer, with an index of neighbours beside the edges). Strings are
  ordered by their bytes, as \<open>str\<close> is. SHA-256 is third-party code: the hexadecimal digest is an argument.
\<close>

subsection \<open>Funding\<close>

definition funding_apply ::
  "('d::linordered_field) wallet_funding_event \<Rightarrow> instant \<Rightarrow> 'd funding_graph \<Rightarrow>
   'd funding_graph \<times> (string \<times> string) list" where
  "funding_apply event observed_at g =
    (let funder = wf_funder event; wallet = wf_wallet event;
         edge = unwrap_or \<lparr>fe_wallet = wallet, fe_funder = funder, fe_amount = 0, fe_last_seen = 0,
                   fe_count = 0\<rparr> (map_of (fg_edges g) (funder, wallet));
         edge = edge\<lparr>fe_amount := fe_amount edge + wf_amount event, fe_last_seen := observed_at,
                   fe_count := fe_count edge + 1\<rparr>;
         wallets = unwrap_or {} (map_of (fg_funder_to_wallets g) funder) in
     (g\<lparr>fg_edges := AList.update (funder, wallet) edge (fg_edges g),
        fg_funder_to_wallets := AList.update funder (insert wallet wallets) (fg_funder_to_wallets g)\<rparr>,
      map (\<lambda>w. (w, wallet)) (sorted_list_of_set (wallets - {wallet}))))"

definition wallets_for_funder :: "'d funding_graph \<Rightarrow> string \<Rightarrow> string set" where
  "wallets_for_funder g funder = unwrap_or {} (map_of (fg_funder_to_wallets g) funder)"

subsection \<open>Clusters\<close>

definition normalize_pair :: "string \<Rightarrow> string \<Rightarrow> string \<times> string" where
  "normalize_pair left right = (if left \<le> right then (left, right) else (right, left))"

definition add_neighbor :: "string \<Rightarrow> string \<Rightarrow> (string \<times> string set) list \<Rightarrow> (string \<times> string set) list" where
  "add_neighbor w n m = AList.update w (insert n (unwrap_or {} (map_of m w))) m"

definition record_neighbors :: "string \<Rightarrow> string \<Rightarrow> 'd cluster_index \<Rightarrow> 'd cluster_index" where
  "record_neighbors left right c =
    (if left = right then c
     else c\<lparr>ci_wallet_neighbors :=
       add_neighbor right left (add_neighbor left right (ci_wallet_neighbors c))\<rparr>)"

definition edge_evidence ::
  "string \<Rightarrow> string \<Rightarrow> ('d::linordered_field) cluster_index \<Rightarrow> 'd cluster_evidence_summary" where
  "edge_evidence left right c =
    unwrap_or default_cluster_evidence_summary (map_of (ci_edges c) (normalize_pair left right))"

definition record_same_funder :: "string \<Rightarrow> string \<Rightarrow> ('d::linordered_field) cluster_index \<Rightarrow> 'd cluster_index" where
  "record_same_funder left right c =
    (let entry = edge_evidence left right c;
         entry = entry\<lparr>ce_same_funder_edges := ce_same_funder_edges entry + 1,
                       ce_confidence := ce_confidence entry + decimal 10 2\<rparr>;
         c = record_neighbors left right
               (c\<lparr>ci_edges := AList.update (normalize_pair left right) entry (ci_edges c)\<rparr>) in
     c\<lparr>ci_same_funder_wallets := insert right (insert left (ci_same_funder_wallets c))\<rparr>)"

definition record_same_payer :: "string \<Rightarrow> string \<Rightarrow> ('d::linordered_field) cluster_index \<Rightarrow> 'd cluster_index" where
  "record_same_payer left right c =
    (let entry = edge_evidence left right c;
         entry = entry\<lparr>ce_same_payer_edges := ce_same_payer_edges entry + 1,
                       ce_confidence := ce_confidence entry + decimal 15 2\<rparr> in
     record_neighbors left right
       (c\<lparr>ci_edges := AList.update (normalize_pair left right) entry (ci_edges c)\<rparr>))"

text \<open>
  The wallets on the other side of the edges of a wallet, as the scan of \<open>cluster_id_for\<close> and
  \<open>related_wallets\<close> collects them when the wallet is not in the index of neighbours.
\<close>

definition scanned_neighbors :: "string \<Rightarrow> ('d::linordered_field) cluster_index \<Rightarrow> string list" where
  "scanned_neighbors wallet c =
    List.map_filter (\<lambda>((a, b), evidence).
      if ce_confidence evidence \<le> 0 then None
      else if a = wallet then Some b
      else if b = wallet then Some a
      else None) (ci_edges c)"

definition related_wallets :: "string \<Rightarrow> ('d::linordered_field) cluster_index \<Rightarrow> string set" where
  "related_wallets wallet c = insert wallet
    (case map_of (ci_wallet_neighbors c) wallet of
       Some neighbors \<Rightarrow> neighbors
     | None \<Rightarrow> set (scanned_neighbors wallet c))"

definition join_members :: "string list \<Rightarrow> string" where
  "join_members members = concat (map (\<lambda>(i, m). if i = 0 then m else CHR ''|'' # m) (enumerate 0 members))"

definition cluster_prefix :: string where "cluster_prefix = ''cluster-''"

definition cluster_id_for :: "(string \<Rightarrow> string) \<Rightarrow> string \<Rightarrow> ('d::linordered_field) cluster_index \<Rightarrow> string option" where
  "cluster_id_for sha256_hex wallet c =
    (let members = wallet # (case map_of (ci_wallet_neighbors c) wallet of
                       Some neighbors \<Rightarrow> sorted_list_of_set neighbors
                     | None \<Rightarrow> scanned_neighbors wallet c);
         members = remdups_adj (sort members) in
     if length members > 1
     then Some (take 20 (cluster_prefix @ sha256_hex (join_members members))) else None)"

definition wallet_has_same_funder_cluster :: "string \<Rightarrow> ('d::linordered_field) cluster_index \<Rightarrow> bool" where
  "wallet_has_same_funder_cluster wallet c =
    (if ci_same_funder_wallets c \<noteq> {} then wallet \<in> ci_same_funder_wallets c
     else list_ex (\<lambda>((a, b), evidence).
       (a = wallet \<or> b = wallet) \<and> unat (ce_same_funder_edges evidence) > 0) (ci_edges c))"

subsection \<open>The index of neighbours agrees with the edges\<close>

text \<open>The two ways the engine links wallets, always two different ones.\<close>

datatype link = SameFunder string string | SamePayer string string

fun record_link :: "link \<Rightarrow> ('d::linordered_field) cluster_index \<Rightarrow> 'd cluster_index" where
  "record_link (SameFunder a b) c = record_same_funder a b c"
| "record_link (SamePayer a b) c = record_same_payer a b c"

fun link_ends :: "link \<Rightarrow> string \<times> string" where
  "link_ends (SameFunder a b) = (a, b)"
| "link_ends (SamePayer a b) = (a, b)"

fun is_same_funder :: "link \<Rightarrow> bool" where
  "is_same_funder (SameFunder _ _) = True"
| "is_same_funder (SamePayer _ _) = False"

definition proper_link :: "link \<Rightarrow> bool" where
  "proper_link l \<longleftrightarrow> fst (link_ends l) \<noteq> snd (link_ends l)"

definition linked :: "link list \<Rightarrow> string \<Rightarrow> string set" where
  "linked ls w = {n. \<exists>l \<in> set ls. link_ends l = (w, n) \<or> link_ends l = (n, w)}"

definition neighbors_of :: "'d cluster_index \<Rightarrow> string \<Rightarrow> string set" where
  "neighbors_of c w = unwrap_or {} (map_of (ci_wallet_neighbors c) w)"

lemma unwrap_or_simps [simp]: "unwrap_or d None = d" "unwrap_or d (Some v) = v"
  by (simp_all add: unwrap_or_def)

definition index_ok :: "link list \<Rightarrow> ('d::linordered_field) cluster_index \<Rightarrow> bool" where
  "index_ok ls c \<longleftrightarrow>
     distinct (map fst (ci_edges c)) \<and>
     fst ` set (ci_edges c) = (\<lambda>l. normalize_pair (fst (link_ends l)) (snd (link_ends l))) ` set ls \<and>
     list_all (\<lambda>(k, e). ce_confidence e > 0) (ci_edges c) \<and>
     (\<forall>w. neighbors_of c w = linked ls w) \<and>
     (\<forall>w. map_of (ci_wallet_neighbors c) w \<noteq> Some {}) \<and>
     ci_same_funder_wallets c =
       \<Union> ((\<lambda>l. {fst (link_ends l), snd (link_ends l)}) ` {l \<in> set ls. is_same_funder l})"

lemma default_index_ok: "index_ok [] default_cluster_index"
  by (simp add: index_ok_def default_cluster_index_def neighbors_of_def linked_def)

lemma add_neighbor_map:
  "map_of (add_neighbor w n m) = (map_of m)(w \<mapsto> insert n (unwrap_or {} (map_of m w)))"
  by (simp add: add_neighbor_def update_conv')

lemma record_neighbors_simps [simp]:
  "ci_edges (record_neighbors a b c) = ci_edges c"
  "ci_same_funder_wallets (record_neighbors a b c) = ci_same_funder_wallets c"
  by (simp_all add: record_neighbors_def)

lemma neighbors_of_record:
  assumes "a \<noteq> b"
  shows "neighbors_of (record_neighbors a b c) w =
    neighbors_of c w \<union> (if w = a then {b} else if w = b then {a} else {})"
  using assms by (auto simp: neighbors_of_def record_neighbors_def add_neighbor_map)

lemma neighbors_nonempty_record:
  assumes "\<And>w. map_of (ci_wallet_neighbors c) w \<noteq> Some {}"
  shows "map_of (ci_wallet_neighbors (record_neighbors a b c)) w \<noteq> Some {}"
  using assms by (auto simp: record_neighbors_def add_neighbor_map)

lemma linked_snoc:
  "linked (ls @ [l]) w = linked ls w \<union>
    (if w = fst (link_ends l) then {snd (link_ends l)} else {}) \<union>
    (if w = snd (link_ends l) then {fst (link_ends l)} else {})"
  by (cases "link_ends l") (auto simp: linked_def)

lemma edge_evidence_confidence:
  assumes "list_all (\<lambda>(k, e). ce_confidence e > 0) (ci_edges c)"
  shows "ce_confidence (edge_evidence a b c) \<ge> 0"
proof (cases "map_of (ci_edges c) (normalize_pair a b)")
  case None
  then show ?thesis by (simp add: edge_evidence_def default_cluster_evidence_summary_def)
next
  case (Some e)
  then have "(normalize_pair a b, e) \<in> set (ci_edges c)" by (rule map_of_SomeD)
  with assms have "ce_confidence e > 0" by (auto simp: list_all_iff)
  with Some show ?thesis by (simp add: edge_evidence_def)
qed

lemma set_update_values:
  assumes "list_all (\<lambda>(k, e). P e) m" "P v"
  shows "list_all (\<lambda>(k, e). P e) (AList.update k v m)"
  using assms by (induction m) auto

lemma record_link_shape:
  fixes c :: "('d::linordered_field) cluster_index"
  assumes ends: "link_ends l = (a, b)" and conf: "ce_confidence (edge_evidence a b c) \<ge> 0"
  obtains e where "ce_confidence e > 0"
    "ci_edges (record_link l c) = AList.update (normalize_pair a b) e (ci_edges c)"
    "ci_wallet_neighbors (record_link l c) = ci_wallet_neighbors (record_neighbors a b c)"
    "ci_same_funder_wallets (record_link l c) =
       ci_same_funder_wallets c \<union> (if is_same_funder l then {a, b} else {})"
proof (cases l)
  case (SameFunder a' b')
  let ?e = "edge_evidence a b c"
  have "ce_confidence ?e + decimal 10 2 > 0"
    using conf by (simp add: decimal_def add_nonneg_pos)
  with SameFunder ends show ?thesis
    by (intro that [of "?e\<lparr>ce_same_funder_edges := ce_same_funder_edges ?e + 1,
        ce_confidence := ce_confidence ?e + decimal 10 2\<rparr>"])
      (auto simp: record_same_funder_def Let_def record_neighbors_def)
next
  case (SamePayer a' b')
  let ?e = "edge_evidence a b c"
  have "ce_confidence ?e + decimal 15 2 > 0"
    using conf by (simp add: decimal_def add_nonneg_pos)
  with SamePayer ends show ?thesis
    by (intro that [of "?e\<lparr>ce_same_payer_edges := ce_same_payer_edges ?e + 1,
        ce_confidence := ce_confidence ?e + decimal 15 2\<rparr>"])
      (auto simp: record_same_payer_def Let_def record_neighbors_def)
qed

lemma record_link_ok:
  assumes ok: "index_ok ls (c :: ('d::linordered_field) cluster_index)" and proper: "proper_link l"
  shows "index_ok (ls @ [l]) (record_link l c)"
proof -
  obtain a b where ends: "link_ends l = (a, b)" "a \<noteq> b"
    using proper by (cases "link_ends l") (auto simp: proper_link_def)
  have conf: "ce_confidence (edge_evidence a b c) \<ge> 0"
    using ok edge_evidence_confidence [of c] by (simp add: index_ok_def)
  obtain e where e: "ce_confidence e > 0"
      "ci_edges (record_link l c) = AList.update (normalize_pair a b) e (ci_edges c)"
    and nbs: "ci_wallet_neighbors (record_link l c) = ci_wallet_neighbors (record_neighbors a b c)"
    and sf: "ci_same_funder_wallets (record_link l c) =
       ci_same_funder_wallets c \<union> (if is_same_funder l then {a, b} else {})"
    using record_link_shape [OF ends(1) conf] by blast
  have nb: "neighbors_of (record_link l c) w = linked (ls @ [l]) w" for w
    using nbs ok neighbors_of_record [OF ends(2), of c w] ends
    by (auto simp: neighbors_of_def index_ok_def linked_snoc)
  have ne: "map_of (ci_wallet_neighbors (record_link l c)) w \<noteq> Some {}" for w
    using nbs ok neighbors_nonempty_record [of c a b w] by (simp add: index_ok_def)
  have keys: "fst ` set (ci_edges (record_link l c)) =
      insert (normalize_pair a b) (fst ` set (ci_edges c))"
    unfolding e(2) by (simp add: dom_map_of_conv_image_fst [symmetric] update_conv' del: map_upd_nonempty)
  have vals: "list_all (\<lambda>(k, e). ce_confidence e > 0) (ci_edges (record_link l c))"
    unfolding e(2) using ok e(1)
    by (intro set_update_values [where P = "\<lambda>e. ce_confidence e > 0"]) (simp_all add: index_ok_def)
  have dist: "distinct (map fst (ci_edges (record_link l c)))"
    unfolding e(2) using ok by (simp add: index_ok_def distinct_update)
  show ?thesis
    unfolding index_ok_def using dist keys vals nb ne sf ok ends
    by (auto simp: index_ok_def)
qed

lemma record_links_ok:
  "list_all proper_link ls \<Longrightarrow> index_ok ls (fold record_link ls default_cluster_index)"
  by (induction ls rule: rev_induct) (simp_all add: default_index_ok record_link_ok)

lemma in_map_filter: "y \<in> set (List.map_filter f xs) \<longleftrightarrow> (\<exists>x \<in> set xs. f x = Some y)"
  by (induction xs) (auto split: option.splits)

lemma scanned_iff:
  assumes "list_all (\<lambda>(k, e). ce_confidence e > 0) (ci_edges c)"
  shows "n \<in> set (scanned_neighbors w c) \<longleftrightarrow>
    (w, n) \<in> fst ` set (ci_edges c) \<or> (n \<noteq> w \<and> (n, w) \<in> fst ` set (ci_edges c))"
  (is "?l \<longleftrightarrow> ?r")
proof
  assume ?l
  then obtain k e where ke: "(k, e) \<in> set (ci_edges c)"
      "(case (k, e) of ((a, b), evidence) \<Rightarrow>
        if ce_confidence evidence \<le> 0 then None
        else if a = w then Some b else if b = w then Some a else None) = Some n"
    by (auto simp: scanned_neighbors_def in_map_filter)
  moreover from ke(1) have "k \<in> fst ` set (ci_edges c)" by force
  ultimately show ?r by (cases k) (auto split: if_splits)
next
  assume ?r
  then obtain k e where "(k, e) \<in> set (ci_edges c)" "k = (w, n) \<or> (n \<noteq> w \<and> k = (n, w))" by auto
  with assms show ?l
    unfolding scanned_neighbors_def in_map_filter
    by (intro bexI [of _ "(k, e)"]) (auto simp: list_all_iff not_le)
qed

lemma pair_linked:
  assumes "list_all proper_link ls"
  shows "((w, n) \<in> (\<lambda>l. normalize_pair (fst (link_ends l)) (snd (link_ends l))) ` set ls \<or>
      n \<noteq> w \<and> (n, w) \<in> (\<lambda>l. normalize_pair (fst (link_ends l)) (snd (link_ends l))) ` set ls) \<longleftrightarrow>
    n \<in> linked ls w" (is "?l \<longleftrightarrow> ?r")
proof
  assume ?l
  then obtain l where "l \<in> set ls" "normalize_pair (fst (link_ends l)) (snd (link_ends l)) \<in> {(w, n), (n, w)}"
    by force
  then show ?r
    by (cases "link_ends l") (auto simp: linked_def normalize_pair_def split: if_splits)
next
  assume ?r
  then obtain l where l: "l \<in> set ls" "link_ends l = (w, n) \<or> link_ends l = (n, w)"
    by (auto simp: linked_def)
  with assms have "proper_link l" by (simp add: list_all_iff)
  with l have "n \<noteq> w" by (auto simp: proper_link_def)
  moreover from l have "normalize_pair (fst (link_ends l)) (snd (link_ends l)) \<in> {(w, n), (n, w)}"
    by (auto simp: normalize_pair_def)
  ultimately show ?l using l(1) by force
qed

lemma scanned_linked:
  assumes ok: "index_ok ls c" and proper: "list_all proper_link ls"
  shows "set (scanned_neighbors w c) = linked ls w"
proof -
  from ok have edges: "list_all (\<lambda>(k, e). ce_confidence e > 0) (ci_edges c)"
    "fst ` set (ci_edges c) = (\<lambda>l. normalize_pair (fst (link_ends l)) (snd (link_ends l))) ` set ls"
    by (simp_all add: index_ok_def)
  have "n \<in> set (scanned_neighbors w c) \<longleftrightarrow> n \<in> linked ls w" for n
    using scanned_iff [OF edges(1), of n w] pair_linked [OF proper, of w n] unfolding edges(2)
    by (rule trans)
  then show ?thesis by (rule set_eqI)
qed


lemma sorted_distinct_adj: "sorted xs \<Longrightarrow> distinct_adj xs \<Longrightarrow> distinct xs"
  for xs :: "'a::linorder list"
proof (induction xs)
  case (Cons x xs)
  show ?case
  proof (cases xs)
    case (Cons y ys)
    with Cons.prems have "x < y" by (auto simp: less_le)
    moreover have "\<forall>z \<in> set xs. y \<le> z" using Cons Cons.prems by auto
    ultimately have "x \<notin> set xs" by force
    with Cons.IH Cons.prems show ?thesis by (auto simp: distinct_adj_Cons)
  qed simp
qed simp

lemma remdups_adj_sort: "remdups_adj (sort xs) = sorted_list_of_set (set xs)"
proof (rule sorted_distinct_set_unique)
  show "distinct (remdups_adj (sort xs))"
    by (rule sorted_distinct_adj) simp_all
qed simp_all

lemma linked_finite [simp]: "finite (linked ls w)"
proof (rule finite_subset)
  show "linked ls w \<subseteq> fst ` link_ends ` set ls \<union> snd ` link_ends ` set ls"
    by (force simp: linked_def)
qed simp

definition cluster_of :: "(string \<Rightarrow> string) \<Rightarrow> string set \<Rightarrow> string option" where
  "cluster_of sha256_hex members =
    (if card members > 1
     then Some (take 20 (cluster_prefix @ sha256_hex (join_members (sorted_list_of_set members))))
     else None)"

text \<open>The index of neighbours answers as the scan does, whether or not it holds the wallet.\<close>

lemma neighbors_answer:
  assumes ok: "index_ok ls c" and proper: "list_all proper_link ls"
  shows "(case map_of (ci_wallet_neighbors c) w of Some neighbors \<Rightarrow> neighbors
          | None \<Rightarrow> set (scanned_neighbors w c)) = linked ls w"
proof (cases "map_of (ci_wallet_neighbors c) w")
  case None
  with scanned_linked [OF ok proper] show ?thesis by simp
next
  case (Some neighbors)
  then have "neighbors_of c w = neighbors" by (simp add: neighbors_of_def)
  with ok Some show ?thesis by (auto simp: index_ok_def)
qed

lemma related_wallets_linked:
  assumes "index_ok ls c" "list_all proper_link ls"
  shows "related_wallets w c = insert w (linked ls w)"
  using neighbors_answer [OF assms, of w] by (simp add: related_wallets_def)

lemma cluster_id_linked:
  assumes ok: "index_ok ls c" and proper: "list_all proper_link ls"
  shows "cluster_id_for sha w c = cluster_of sha (insert w (linked ls w))"
proof -
  let ?ns = "case map_of (ci_wallet_neighbors c) w of
      Some neighbors \<Rightarrow> sorted_list_of_set neighbors | None \<Rightarrow> scanned_neighbors w c"
  have fin: "finite neighbors" if "map_of (ci_wallet_neighbors c) w = Some neighbors" for neighbors
    using neighbors_answer [OF ok proper, of w] that linked_finite [of ls w] by simp
  have "set ?ns = linked ls w"
    using neighbors_answer [OF ok proper, of w] fin by (simp split: option.splits)
  then have "remdups_adj (sort (w # ?ns)) = sorted_list_of_set (insert w (linked ls w))"
    unfolding remdups_adj_sort by simp
  then show ?thesis
    by (simp only: cluster_id_for_def cluster_of_def Let_def length_sorted_list_of_set)
qed

lemma index_dropped_ok:
  assumes ok: "index_ok ls c" and proper: "list_all proper_link ls"
  shows "related_wallets w (c\<lparr>ci_wallet_neighbors := []\<rparr>) = insert w (linked ls w)"
    and "cluster_id_for sha w (c\<lparr>ci_wallet_neighbors := []\<rparr>) = cluster_of sha (insert w (linked ls w))"
proof -
  let ?c = "c\<lparr>ci_wallet_neighbors := []\<rparr>"
  have scan: "scanned_neighbors w ?c = scanned_neighbors w c" by (simp add: scanned_neighbors_def)
  show "related_wallets w ?c = insert w (linked ls w)"
    using scanned_linked [OF ok proper, of w] by (simp add: related_wallets_def scan)
  have "remdups_adj (sort (w # scanned_neighbors w c)) = sorted_list_of_set (insert w (linked ls w))"
    unfolding remdups_adj_sort using scanned_linked [OF ok proper, of w] by simp
  moreover have "(case map_of (ci_wallet_neighbors ?c) w of
      Some neighbors \<Rightarrow> sorted_list_of_set neighbors | None \<Rightarrow> scanned_neighbors w ?c) =
      scanned_neighbors w c" by (simp add: scan)
  ultimately show "cluster_id_for sha w ?c = cluster_of sha (insert w (linked ls w))"
    by (simp only: cluster_id_for_def cluster_of_def Let_def length_sorted_list_of_set)
qed

text \<open>
  Clusters are read from an index of neighbours that is kept beside the edges. After any sequence of links
  between different wallets the two agree: the wallets related to a wallet are itself and those it is
  linked with, the relation is symmetric, the cluster identifier depends on exactly that set, and a
  snapshot restored without the index (the source defaults it to empty) gives the same answers by the
  scan of the edges. The set of wallets with a common funder is the set of the ends of such links.
\<close>

theorem neighbor_index_equals_edges:
  fixes ls :: "link list"
  assumes "list_all proper_link ls"
  shows "let c = fold record_link ls (default_cluster_index :: ('d::linordered_field) cluster_index) in
    (\<forall>w. related_wallets w c = insert w (linked ls w)) \<and>
    (\<forall>w v. v \<in> related_wallets w c \<longleftrightarrow> w \<in> related_wallets v c) \<and>
    (\<forall>w sha. cluster_id_for sha w c = cluster_of sha (related_wallets w c)) \<and>
    (\<forall>w sha. related_wallets w (c\<lparr>ci_wallet_neighbors := []\<rparr>) = related_wallets w c \<and>
       cluster_id_for sha w (c\<lparr>ci_wallet_neighbors := []\<rparr>) = cluster_id_for sha w c) \<and>
    ci_same_funder_wallets c =
      \<Union> ((\<lambda>l. {fst (link_ends l), snd (link_ends l)}) ` {l \<in> set ls. is_same_funder l})"
proof -
  let ?c = "fold record_link ls (default_cluster_index :: 'd cluster_index)"
  have ok: "index_ok ls ?c" by (rule record_links_ok [OF assms])
  note facts = related_wallets_linked [OF ok assms] cluster_id_linked [OF ok assms]
    index_dropped_ok [OF ok assms]
  have sym: "v \<in> linked ls w \<longleftrightarrow> w \<in> linked ls v" for v w by (auto simp: linked_def)
  show ?thesis using ok by (auto simp: Let_def facts sym index_ok_def)
qed

definition example_links :: "link list" where
  "example_links = [SamePayer ''a'' ''b'', SamePayer ''a'' ''c'']"

lemma example_links_proper: "list_all proper_link example_links"
  by (simp add: example_links_def proper_link_def)

theorem neighbor_index_equals_edges_witness:
  "related_wallets ''b'' (fold record_link example_links
     (default_cluster_index :: rat cluster_index)) = {''a'', ''b''}"
  using neighbor_index_equals_edges [OF example_links_proper, where 'd = rat]
  by (auto simp: Let_def linked_def example_links_def)

text \<open>
  A cluster identifier names the neighbourhood of one wallet, not a connected group: when a creator has two
  payers, the identifiers of the creator and of a payer it is linked with differ (unless the digests
  collide on 12 digits). The comparison of identifiers in \<open>classify_wallet\<close> then does not see the payer
  as part of the creator's cluster.
\<close>

theorem linked_wallets_get_different_ids:
  assumes "take 12 (sha ''a|b|c'') \<noteq> take 12 (sha ''a|b'')"
  shows "let c = fold record_link example_links (default_cluster_index :: ('d::linordered_field) cluster_index) in
    ''b'' \<in> related_wallets ''a'' c \<and> cluster_id_for sha ''a'' c \<noteq> cluster_id_for sha ''b'' c"
proof -
  let ?c = "fold record_link example_links (default_cluster_index :: 'd cluster_index)"
  have ok: "index_ok example_links ?c" by (rule record_links_ok [OF example_links_proper])
  have la: "insert ''a'' (linked example_links ''a'') = {''a'', ''b'', ''c''}"
   and lb: "insert ''b'' (linked example_links ''b'') = {''a'', ''b''}"
    by (auto simp: linked_def example_links_def)
  have sa: "sorted_list_of_set {''a'', ''b'', ''c''} = [''a'', ''b'', ''c'']"
   and sb: "sorted_list_of_set {''a'', ''b''} = [''a'', ''b'']"
    by (simp_all add: sorted_list_of_set_insert less_char_def)
  have "cluster_of sha {''a'', ''b'', ''c''} \<noteq> cluster_of sha {''a'', ''b''}"
    using assms unfolding cluster_of_def sa sb by (simp add: join_members_def cluster_prefix_def)
  then show ?thesis
    unfolding Let_def related_wallets_linked [OF ok example_links_proper]
      cluster_id_linked [OF ok example_links_proper] la lb by simp
qed

definition example_sha :: "string \<Rightarrow> string" where
  "example_sha s = (if s = ''a|b'' then ''0'' else ''1'')"

theorem linked_wallets_get_different_ids_witness:
  "let c = fold record_link example_links (default_cluster_index :: rat cluster_index) in
    cluster_id_for example_sha ''a'' c \<noteq> cluster_id_for example_sha ''b'' c"
  using linked_wallets_get_different_ids [of example_sha, where 'd = rat]
  by (simp add: Let_def example_sha_def)

end
