(* ===== verification/Trade_Stats.thy ===== *)
theory Trade_Stats
  imports Complex_Main State_Records
begin

text \<open>
  The trade statistics of a token, \<open>TokenTradeStats\<close> in \<open>crates/state/src/lib.rs\<close>: counters, volumes,
  price extremes and two bounded histories, updated once per trade.
\<close>

definition max_price_history :: nat where "max_price_history = 512"
definition max_trade_history :: nat where "max_trade_history = 512"

text \<open>\<open>while len > MAX { pop_front() }\<close> after a push at the back.\<close>

definition keep_last :: "nat \<Rightarrow> 'a list \<Rightarrow> 'a list" where
  "keep_last n xs = drop (length xs - n) xs"

definition count_buy :: "('d::linordered_field) trade_observation \<Rightarrow> 'd token_trade_stats \<Rightarrow> 'd token_trade_stats" where
  "count_buy ob s = s
    \<lparr>tr_buy_count := tr_buy_count s + 1,
     tr_unique_buyers := insert (to_wallet ob) (tr_unique_buyers s),
     tr_buy_volume_quote := tr_buy_volume_quote s + to_quote ob,
     tr_longest_no_buy_gap_ms :=
       (case tr_last_buy_at s of
          None \<Rightarrow> tr_longest_no_buy_gap_ms s
        | Some last_buy \<Rightarrow>
            let gap = word_of_int (whole_milliseconds (to_timestamp ob - last_buy)) in
            if sint gap > sint (tr_longest_no_buy_gap_ms s) then gap else tr_longest_no_buy_gap_ms s),
     tr_last_buy_at := Some (to_timestamp ob)\<rparr>"

definition count_sell :: "('d::linordered_field) trade_observation \<Rightarrow> 'd token_trade_stats \<Rightarrow> 'd token_trade_stats" where
  "count_sell ob s = s
    \<lparr>tr_sell_count := tr_sell_count s + 1,
     tr_unique_sellers := insert (to_wallet ob) (tr_unique_sellers s),
     tr_sell_volume_quote := tr_sell_volume_quote s + to_quote ob,
     tr_last_sell_at := Some (to_timestamp ob),
     tr_first_large_sell_at :=
       (if to_quote ob \<ge> decimal_from 5 \<and> tr_first_large_sell_at s = None
        then Some (to_timestamp ob) else tr_first_large_sell_at s)\<rparr>"

definition record_trade :: "('d::linordered_field) trade_observation \<Rightarrow> 'd token_trade_stats \<Rightarrow> 'd token_trade_stats" where
  "record_trade ob s =
    (let s = s
       \<lparr>tr_latest_price := to_price ob,
        tr_all_time_high :=
          (if tr_all_time_high s < to_price ob \<or> tr_all_time_high s = 0 then to_price ob
           else tr_all_time_high s),
        tr_all_time_low :=
          (if tr_all_time_low s > to_price ob \<or> tr_all_time_low s = 0 then to_price ob
           else tr_all_time_low s),
        tr_price_history :=
          keep_last max_price_history (tr_price_history s @ [(to_timestamp ob, to_price ob)]),
        tr_trade_history := keep_last max_trade_history (tr_trade_history s @ [ob])\<rparr> in
     case to_side ob of TradeBuy \<Rightarrow> count_buy ob s | TradeSell \<Rightarrow> count_sell ob s)"

definition record_trades :: "('d::linordered_field) trade_observation list \<Rightarrow> 'd token_trade_stats \<Rightarrow> 'd token_trade_stats" where
  "record_trades obs s = fold record_trade obs s"

subsection \<open>The statistics of a run of trades\<close>

definition on_side :: "trade_side \<Rightarrow> 'd trade_observation list \<Rightarrow> 'd trade_observation list" where
  "on_side side obs = filter (\<lambda>ob. to_side ob = side) obs"

lemma on_side_simps [simp]:
  "on_side side [] = []"
  "on_side side (obs @ [ob]) = on_side side obs @ (if to_side ob = side then [ob] else [])"
  by (simp_all add: on_side_def)

lemma keep_last_snoc:
  "keep_last n (keep_last n xs @ [x]) = keep_last n (xs @ [x])"
  by (cases "n \<le> length xs") (auto simp: keep_last_def Suc_diff_le)

lemma keep_last_length: "length (keep_last n xs) = min n (length xs)"
  by (auto simp: keep_last_def)

lemma keep_last_nil [simp]: "keep_last n [] = []"
  by (simp add: keep_last_def)

lemmas trade_defs = record_trade_def count_buy_def count_sell_def Let_def

lemma record_trade_counts [simp]:
  "tr_buy_count (record_trade ob s) = tr_buy_count s + (if to_side ob = TradeBuy then 1 else 0)"
  "tr_sell_count (record_trade ob s) = tr_sell_count s + (if to_side ob = TradeSell then 1 else 0)"
  "tr_unique_buyers (record_trade ob s) =
     (if to_side ob = TradeBuy then insert (to_wallet ob) else id) (tr_unique_buyers s)"
  "tr_unique_sellers (record_trade ob s) =
     (if to_side ob = TradeSell then insert (to_wallet ob) else id) (tr_unique_sellers s)"
  "tr_buy_volume_quote (record_trade ob s) =
     tr_buy_volume_quote s + (if to_side ob = TradeBuy then to_quote ob else 0)"
  "tr_sell_volume_quote (record_trade ob s) =
     tr_sell_volume_quote s + (if to_side ob = TradeSell then to_quote ob else 0)"
  by (cases "to_side ob"; simp add: trade_defs)+

lemma record_trade_history [simp]:
  "tr_latest_price (record_trade ob s) = to_price ob"
  "tr_price_history (record_trade ob s) =
     keep_last max_price_history (tr_price_history s @ [(to_timestamp ob, to_price ob)])"
  "tr_trade_history (record_trade ob s) = keep_last max_trade_history (tr_trade_history s @ [ob])"
  by (cases "to_side ob"; simp add: trade_defs)+

lemma record_trade_extremes:
  "tr_all_time_high (record_trade ob s) =
     (if tr_all_time_high s < to_price ob \<or> tr_all_time_high s = 0 then to_price ob
      else tr_all_time_high s)"
  "tr_all_time_low (record_trade ob s) =
     (if tr_all_time_low s > to_price ob \<or> tr_all_time_low s = 0 then to_price ob
      else tr_all_time_low s)"
  by (cases "to_side ob"; simp add: trade_defs)+

lemma record_trades_simps [simp]:
  "record_trades [] s = s"
  "record_trades [ob] s = record_trade ob s"
  "record_trades (obs @ [ob]) s = record_trade ob (record_trades obs s)"
  by (simp_all add: record_trades_def)

definition stats_of_run :: "('d::linordered_field) trade_observation list \<Rightarrow> 'd token_trade_stats \<Rightarrow> bool" where
  "stats_of_run obs s \<longleftrightarrow>
     tr_buy_count s = of_nat (length (on_side TradeBuy obs)) \<and>
     tr_sell_count s = of_nat (length (on_side TradeSell obs)) \<and>
     tr_unique_buyers s = to_wallet ` set (on_side TradeBuy obs) \<and>
     tr_unique_sellers s = to_wallet ` set (on_side TradeSell obs) \<and>
     tr_buy_volume_quote s = sum_list (map to_quote (on_side TradeBuy obs)) \<and>
     tr_sell_volume_quote s = sum_list (map to_quote (on_side TradeSell obs)) \<and>
     tr_price_history s =
       keep_last max_price_history (map (\<lambda>ob. (to_timestamp ob, to_price ob)) obs) \<and>
     tr_trade_history s = keep_last max_trade_history obs"

lemma run_trades: "stats_of_run obs (record_trades obs default_token_trade_stats)"
proof (induction obs rule: rev_induct)
  case Nil
  show ?case by (simp add: stats_of_run_def default_token_trade_stats_def)
next
  case (snoc ob obs)
  then show ?case
    by (cases "to_side ob") (auto simp: stats_of_run_def keep_last_snoc)
qed

definition positive_prices :: "('d::linordered_field) trade_observation list \<Rightarrow> bool" where
  "positive_prices obs = list_all (\<lambda>ob. to_price ob > 0) obs"

lemma run_extremes:
  assumes "positive_prices obs"
  shows "tr_all_time_high (record_trades obs default_token_trade_stats) =
           (if obs = [] then 0 else Max (to_price ` set obs)) \<and>
         tr_all_time_low (record_trades obs default_token_trade_stats) =
           (if obs = [] then 0 else Min (to_price ` set obs))"
  using assms
proof (induction obs rule: rev_induct)
  case Nil
  show ?case by (simp add: default_token_trade_stats_def)
next
  case (snoc ob obs)
  let ?s = "record_trades obs default_token_trade_stats"
  from snoc.prems have pos: "positive_prices obs" "to_price ob > 0"
    by (simp_all add: positive_prices_def)
  note IH = snoc.IH [OF pos(1)]
  show ?case
  proof (cases "obs = []")
    case True
    with IH show ?thesis by (simp add: record_trade_extremes)
  next
    case False
    have fin: "finite (to_price ` set obs)" "to_price ` set obs \<noteq> {}" using False by simp_all
    have "Max (to_price ` set obs) \<in> to_price ` set obs" using fin by (rule Max_in)
    moreover have "Min (to_price ` set obs) \<in> to_price ` set obs" using fin by (rule Min_in)
    moreover have "\<And>p. p \<in> to_price ` set obs \<Longrightarrow> p > 0"
      using pos(1) by (auto simp: positive_prices_def list_all_iff)
    ultimately have nz: "Max (to_price ` set obs) \<noteq> 0" "Min (to_price ` set obs) \<noteq> 0" by force+
    obtain hi lo where ext: "hi = Max (to_price ` set obs)" "lo = Min (to_price ` set obs)" by blast
    have "Max (to_price ` set (obs @ [ob])) = max (to_price ob) hi"
        "Min (to_price ` set (obs @ [ob])) = min (to_price ob) lo"
      unfolding ext using fin by simp_all
    moreover have "tr_all_time_high ?s = hi" "tr_all_time_low ?s = lo"
      using IH False by (simp_all add: ext)
    moreover have "hi \<noteq> 0" "lo \<noteq> 0" using nz by (simp_all add: ext)
    ultimately show ?thesis
      unfolding record_trades_simps record_trade_extremes by (simp add: max_def min_def)
  qed
qed


definition example_trade :: "trade_side \<Rightarrow> rat \<Rightarrow> rat trade_observation" where
  "example_trade side price = \<lparr>to_timestamp = 0, to_slot = 1, to_signature = None, to_side = side,
     to_wallet = ''w'', to_quote = 2, to_tokens = 1, to_price = price,
     to_compute_unit_limit = None, to_compute_unit_price = None, to_priority_fee_lamports = None,
     to_base_fee_lamports = None, to_account_count = None, to_instruction_count = None,
     to_program_count = None, to_client_fingerprint = None, to_is_creator = False,
     to_is_top_holder_pre_sell = False, to_is_tentative = False\<rparr>"

lemma example_trades_positive:
  "positive_prices [example_trade TradeBuy 3, example_trade TradeSell 1]"
  by (simp add: positive_prices_def example_trade_def)


end
