(* ===== verification/Exit_Threat.thy ===== *)
theory Exit_Threat
  imports Holder_State Wallet_Graph Trade_Stats
begin

text \<open>
  What the state engine derives for a token from its holders, its trades and the clusters: the exit threat
  index (the wallets whose sale would hurt most, with thresholds and distances), their classification, and
  the developer's rank and sold share. From \<open>crates/state/src/lib.rs\<close>.
\<close>

definition clamp01_decimal :: "'d::linordered_field \<Rightarrow> 'd" where
  "clamp01_decimal value = min (max value 0) 1"

definition average_decimal :: "'d::linordered_field \<Rightarrow> 'd \<Rightarrow> u64 \<Rightarrow> 'd" where
  "average_decimal current_average next_value n =
    (if unat n \<le> 1 then next_value
     else (current_average * decimal_from (n - 1) + next_value) / decimal_from n)"

definition exit_impact_pct :: "'d::linordered_field \<Rightarrow> 'd \<Rightarrow> 'd \<Rightarrow> 'd" where
  "exit_impact_pct balance total_supply_proxy liquidity_depth =
    (if balance \<le> 0 \<or> total_supply_proxy \<le> 0 then 0 else
     let supply_share = balance / total_supply_proxy;
         reserve_share = (balance * decimal 5 1) / max liquidity_depth 1 in
     clamp01_decimal (supply_share * decimal_from 70 + reserve_share * decimal_from 30)
       * decimal_from 100)"

definition classify_wallet ::
  "(string \<Rightarrow> string) \<Rightarrow> ('d::linordered_field) token_state \<Rightarrow> 'd cluster_index \<Rightarrow> string \<Rightarrow> nat \<Rightarrow> 'd \<Rightarrow>
   string option \<Rightarrow> dangerous_seller_classification" where
  "classify_wallet sha256_hex token ci wallet top_holder_index pct_supply_proxy creator_cluster =
    (let same_funder_cluster = wallet_has_same_funder_cluster wallet ci in
     if tok_creator token = Some wallet then Dev
     else if cluster_id_for sha256_hex wallet ci \<noteq> None \<and>
             cluster_id_for sha256_hex wallet ci = creator_cluster then DevCluster
     else if same_funder_cluster \<and> top_holder_index \<le> 9 then BundleCluster
     else if same_funder_cluster then SameFunderCluster
     else if top_holder_index = 0 then Top1Holder
     else if top_holder_index \<le> 2 then Top3Holder
     else if top_holder_index \<le> 4 then Top5Holder
     else if top_holder_index \<le> 9 then Top10Holder
     else if pct_supply_proxy \<ge> decimal 15 2 then Whale
     else dangerous_seller_classification.Unknown)"

definition parse_seller_classification :: "string \<Rightarrow> dangerous_seller_classification" where
  "parse_seller_classification value =
    (if value = ''dev'' then Dev
     else if value = ''dev_cluster'' then DevCluster
     else if value = ''top1_holder'' then Top1Holder
     else if value = ''top3_holder'' then Top3Holder
     else if value = ''top5_holder'' then Top5Holder
     else if value = ''top10_holder'' then Top10Holder
     else if value = ''bundle_wallet'' then BundleWallet
     else if value = ''bundle_cluster'' then BundleCluster
     else if value = ''whale'' then Whale
     else if value = ''same_funder_cluster'' then SameFunderCluster
     else if value = ''same_client_fingerprint_cluster'' then SameClientFingerprintCluster
     else if value = ''high_pnl_holder'' then HighPnlHolder
     else if value = ''free_rolling_holder'' then FreeRollingHolder
     else dangerous_seller_classification.Unknown)"

definition last_sell_of :: "string \<Rightarrow> 'd token_state \<Rightarrow> instant option" where
  "last_sell_of wallet token = map_option to_timestamp
     (find (\<lambda>trade. to_wallet trade = wallet \<and> to_side trade = TradeSell)
       (rev (tr_trade_history (tok_trade_stats token))))"

definition threat_supply :: "('d::linordered_field) token_state \<Rightarrow> 'd" where
  "threat_supply token =
    sum_list (map (\<lambda>(owner, h). max (ho_balance h) 0) (hs_owner_balances (tok_holder_state token)))"

definition threat_depth :: "('d::linordered_field) token_state \<Rightarrow> 'd" where
  "threat_depth token = max (cv_real_quote_reserves (tok_reserve_state token) +
     cv_virtual_quote_reserves (tok_reserve_state token)) (decimal_from 1)"

definition threat_launch_price :: "('d::linordered_field) token_state \<Rightarrow> 'd" where
  "threat_launch_price token = unwrap_or (max (tok_latest_price token) 1)
     (cv_launch_price (tok_reserve_state token))"

definition threat_price :: "('d::linordered_field) token_state \<Rightarrow> 'd" where
  "threat_price token = max (max (tok_latest_price token) (threat_launch_price token)) (decimal 1 9)"

text \<open>The entry of the holder at a place of the list of top holders; a holder without balance is skipped.\<close>

definition threat_entry ::
  "(string \<Rightarrow> string) \<Rightarrow> ('d::linordered_field) token_state \<Rightarrow> 'd cluster_index \<Rightarrow>
   nat \<times> 'd holder_distribution_snapshot \<Rightarrow> 'd threat_wallet_entry option" where
  "threat_entry sha256_hex token ci = (\<lambda>(index, holder).
    let owner = hd_owner holder; supply = threat_supply token; depth = threat_depth token in
    map_option (\<lambda>balance_state.
      let balance = max (ho_balance balance_state) 0;
          cost_basis = max (cb_estimated_cost_basis_quote (ho_cost_basis balance_state)) 0 in
      \<lparr>th_wallet = owner,
       th_classification = classify_wallet sha256_hex token ci owner index
         (hd_pct_supply_proxy holder) (dv_related_cluster_id (tok_developer_state token)),
       th_balance = balance,
       th_holding_pct = hd_pct_supply_proxy holder,
       th_estimated_full_exit_impact_pct = exit_impact_pct balance supply depth,
       th_estimated_partial_exit_25_pct = exit_impact_pct (balance * decimal 25 2) supply depth,
       th_estimated_partial_exit_50_pct = exit_impact_pct (balance * decimal 50 2) supply depth,
       th_estimated_partial_exit_100_pct = exit_impact_pct balance supply depth,
       th_cost_basis_quote = cost_basis,
       th_unrealized_pnl_quote = threat_price token * balance - cost_basis,
       th_free_roll = (cb_estimated_realized_pnl (ho_cost_basis balance_state) >
         cb_original_quote_spent (ho_cost_basis balance_state) / decimal_from 2),
       th_last_sell_time = last_sell_of owner token,
       th_historical_rug_association = 0,
       th_cluster_id = cluster_id_for sha256_hex owner ci,
       th_cluster_holding_pct = hd_pct_supply_proxy holder\<rparr>)
    (map_of (hs_owner_balances (tok_holder_state token)) owner))"

definition threat_entries ::
  "(string \<Rightarrow> string) \<Rightarrow> ('d::linordered_field) token_state \<Rightarrow> 'd cluster_index \<Rightarrow>
   'd threat_wallet_entry list" where
  "threat_entries sha256_hex token ci =
    take 16 (sort_key (\<lambda>entry. - th_estimated_full_exit_impact_pct entry)
      (List.map_filter (threat_entry sha256_hex token ci)
        (enumerate 0 (take 10 (hs_top_holders (tok_holder_state token))))))"

definition max_impact :: "('d::linordered_field) threat_wallet_entry list \<Rightarrow> 'd" where
  "max_impact entries = (case map th_estimated_full_exit_impact_pct entries of
     [] \<Rightarrow> 0 | x # xs \<Rightarrow> fold max xs x)"

definition latest_vwap :: "('d::linordered_field) token_state \<Rightarrow> 'd" where
  "latest_vwap token =
    (let recent = take 12 (rev (tr_trade_history (tok_trade_stats token))) in
     if tr_trade_history (tok_trade_stats token) = [] then threat_price token
     else sum_list (map to_price recent) / decimal_from (count_usize recent))"

definition cost_basis_support :: "('d::linordered_field) token_state \<Rightarrow> 'd" where
  "cost_basis_support token =
    (let owners = hs_owner_balances (tok_holder_state token) in
     if owners = [] then threat_price token
     else sum_list (map (\<lambda>(owner, h). cb_estimated_average_entry_price (ho_cost_basis h))
            (filter (\<lambda>(owner, h). cb_remaining_position_size (ho_cost_basis h) > 0) owners))
          / decimal_from (count_usize owners))"

definition refresh_exit_threat_index ::
  "(string \<Rightarrow> string) \<Rightarrow> 'd cluster_index \<Rightarrow> instant \<Rightarrow> ('d::linordered_field) token_state \<Rightarrow> 'd token_state" where
  "refresh_exit_threat_index sha256_hex ci observed_at token =
    (let entries = threat_entries sha256_hex token ci; worst = max_impact entries;
         price = threat_price token; launch_price = threat_launch_price token;
         high = tr_all_time_high (tok_trade_stats token) in
     token\<lparr>tok_shred_defense := (tok_shred_defense token)\<lparr>sd_exit_threat_index :=
      \<lparr>xt_dangerous_wallets = entries,
       xt_warn_threshold_impact_pct = decimal_from 8,
       xt_arm_exit_threshold_impact_pct = decimal_from 15,
       xt_trigger_exit_threshold_impact_pct = decimal_from 25,
       xt_emergency_exit_threshold_impact_pct = decimal_from 35,
       xt_dangerous_seller_precomputed_impact_score = clamp01_decimal (worst / decimal_from 100),
       xt_exit_threat_index_score = clamp01_decimal (worst / decimal_from 100),
       xt_minimum_dangerous_sell_size_to_trigger_emergency = threat_supply token * decimal 25 2,
       xt_current_distance_to_stop_pct = max (price - launch_price) 0 / max price 1,
       xt_current_distance_to_trailing_stop_pct = max (high - price) 0 / max high 1,
       xt_current_distance_to_launch_floor_pct = max (price - launch_price) 0 / max price 1,
       xt_current_distance_to_vwap_pct = \<bar>price - latest_vwap token\<bar> / max price 1,
       xt_current_distance_to_cost_basis_support_pct =
         \<bar>price - cost_basis_support token\<bar> / max price 1,
       xt_combined_our_exit_plus_dangerous_sell_impact_pct = worst * decimal 12 2,
       xt_max_safe_wait_time_ms = (if worst \<ge> decimal_from 25 then 250 else 750),
       xt_required_early_intent_lead_time_ms = (if worst \<ge> decimal_from 25 then 120 else 350),
       xt_updated_at = Some observed_at\<rparr>\<rparr>\<rparr>)"

subsection \<open>Derived data of a token\<close>

definition creator_rank :: "'d token_state \<Rightarrow> usize option" where
  "creator_rank token = Option.bind (tok_creator token) (\<lambda>creator.
     map_option (\<lambda>(index, holder). of_nat (index + 1))
       (find (\<lambda>(index, holder). hd_owner holder = creator)
         (enumerate 0 (hs_top_holders (tok_holder_state token)))))"

definition recalc_developer_rank :: "'d token_state \<Rightarrow> 'd token_state" where
  "recalc_developer_rank token = token\<lparr>tok_developer_state :=
     (tok_developer_state token)\<lparr>dv_creator_current_rank := creator_rank token\<rparr>\<rparr>"

definition creator_sold_share :: "('d::linordered_field) developer_state \<Rightarrow> 'd" where
  "creator_sold_share dev =
    (if dv_creator_initial_holding dev > 0
     then (dv_creator_initial_holding dev - max (dv_creator_net_tokens dev) 0)
       / dv_creator_initial_holding dev
     else 0)"

definition refresh_token_cluster_derived ::
  "(string \<Rightarrow> string) \<Rightarrow> 'd cluster_index \<Rightarrow> ('d::linordered_field) token_state \<Rightarrow> 'd token_state" where
  "refresh_token_cluster_derived sha256_hex ci token =
    (let token = (case tok_creator token of
           None \<Rightarrow> token
         | Some creator \<Rightarrow> token\<lparr>tok_developer_state := (tok_developer_state token)
             \<lparr>dv_related_cluster_id := cluster_id_for sha256_hex creator ci\<rparr>\<rparr>);
         token = recalc_developer_rank token in
     token\<lparr>tok_developer_state := (tok_developer_state token)
       \<lparr>dv_creator_sell_percentage := creator_sold_share (tok_developer_state token)\<rparr>\<rparr>)"

definition update_memory_bytes :: "'d token_state \<Rightarrow> 'd token_state" where
  "update_memory_bytes token = token\<lparr>tok_approximate_memory_bytes := 512
     + count_usize (hs_owner_balances (tok_holder_state token)) * 192
     + count_usize (hs_token_account_to_owner (tok_holder_state token)) * 96
     + count_usize (tr_trade_history (tok_trade_stats token)) * 112
     + count_usize (tr_price_history (tok_trade_stats token)) * 48
     + of_nat (card (tok_tentative_signatures token)) * 72
     + of_nat (card (tok_canonical_signatures token)) * 72
     + count_usize (sd_pending_tentative_sells (tok_shred_defense token)) * 192
     + count_usize (xt_dangerous_wallets (sd_exit_threat_index (tok_shred_defense token))) * 160\<rparr>"

definition token_touches_any_wallet :: "'d token_state \<Rightarrow> string set \<Rightarrow> bool" where
  "token_touches_any_wallet token wallets \<longleftrightarrow>
    (case tok_creator token of Some w \<Rightarrow> w \<in> wallets | None \<Rightarrow> False) \<or>
    (case tok_payer token of Some w \<Rightarrow> w \<in> wallets | None \<Rightarrow> False) \<or>
    list_ex (\<lambda>holder. hd_owner holder \<in> wallets) (take 10 (hs_top_holders (tok_holder_state token))) \<or>
    list_ex (\<lambda>(wallet, h). wallet \<in> wallets) (hs_owner_balances (tok_holder_state token))"

subsection \<open>The threat index is ordered and in range\<close>

lemma clamp01_range [simp]: "0 \<le> clamp01_decimal x" "clamp01_decimal x \<le> 1"
  by (simp_all add: clamp01_decimal_def)

lemma clamp01_mono: "x \<le> y \<Longrightarrow> clamp01_decimal x \<le> clamp01_decimal y"
  by (auto simp: clamp01_decimal_def min_def max_def)

lemma decimal_from_100: "decimal_from 100 = 100"
  by (simp add: decimal_from_def)

lemma exit_impact_range: "0 \<le> exit_impact_pct b t l \<and> exit_impact_pct b t l \<le> 100"
  by (simp add: exit_impact_pct_def Let_def decimal_from_100)

lemma exit_impact_mono:
  assumes "b \<le> b'"
  shows "exit_impact_pct b t l \<le> exit_impact_pct b' t l"
proof (cases "b \<le> 0 \<or> t \<le> 0")
  case True
  then have "exit_impact_pct b t l = 0" by (auto simp: exit_impact_pct_def)
  with exit_impact_range [of b' t l] show ?thesis by simp
next
  case False
  have "b / t * decimal_from 70 + b * decimal 5 1 / max l 1 * decimal_from 30 \<le>
      b' / t * decimal_from 70 + b' * decimal 5 1 / max l 1 * decimal_from 30"
    using assms False
    by (intro add_mono mult_right_mono divide_right_mono) (auto simp: decimal_def le_max_iff_disj)
  with False assms show ?thesis
    by (auto simp: exit_impact_pct_def Let_def intro!: mult_right_mono clamp01_mono)
qed

lemma sorted_wrt_take: "sorted_wrt P xs \<Longrightarrow> sorted_wrt P (take n xs)"
  by (metis append_take_drop_id sorted_wrt_append)

definition descending :: "('d::linordered_field) list \<Rightarrow> bool" where
  "descending xs = sorted_wrt (\<ge>) xs"

lemma sort_key_descending:
  fixes f :: "'a \<Rightarrow> 'd::linordered_field"
  shows "descending (map f (sort_key (\<lambda>x. - f x) xs))"
proof -
  have "sorted (map (\<lambda>x. - f x) (sort_key (\<lambda>x. - f x) xs))" by (rule sorted_sort_key)
  then show ?thesis by (simp add: descending_def sorted_wrt_map)
qed

lemma fold_max_descending: "\<forall>y \<in> set xs. y \<le> x \<Longrightarrow> fold max xs x = x"
  by (induction xs) (auto simp: max_def)

definition threat_index_ok :: "('d::linordered_field) exit_threat_index \<Rightarrow> bool" where
  "threat_index_ok x \<longleftrightarrow>
     length (xt_dangerous_wallets x) \<le> 10 \<and>
     descending (map th_estimated_full_exit_impact_pct (xt_dangerous_wallets x)) \<and>
     list_all (\<lambda>e. 0 \<le> th_balance e \<and> 0 \<le> th_estimated_partial_exit_25_pct e \<and>
         th_estimated_partial_exit_25_pct e \<le> th_estimated_partial_exit_50_pct e \<and>
         th_estimated_partial_exit_50_pct e \<le> th_estimated_full_exit_impact_pct e \<and>
         th_estimated_full_exit_impact_pct e \<le> 100) (xt_dangerous_wallets x) \<and>
     0 \<le> xt_exit_threat_index_score x \<and> xt_exit_threat_index_score x \<le> 1 \<and>
     (case xt_dangerous_wallets x of
        [] \<Rightarrow> xt_exit_threat_index_score x = 0
      | e # es \<Rightarrow> xt_exit_threat_index_score x = th_estimated_full_exit_impact_pct e / 100) \<and>
     0 \<le> xt_current_distance_to_stop_pct x \<and>
     0 \<le> xt_current_distance_to_trailing_stop_pct x \<and>
     0 \<le> xt_current_distance_to_vwap_pct x \<and>
     (unat (xt_max_safe_wait_time_ms x) = 250 \<longleftrightarrow>
        list_ex (\<lambda>e. th_estimated_full_exit_impact_pct e \<ge> 25) (xt_dangerous_wallets x))"

lemma threat_entry_ok:
  assumes "threat_entry sha token ci ih = Some e"
  shows "0 \<le> th_balance e \<and> 0 \<le> th_estimated_partial_exit_25_pct e \<and>
    th_estimated_partial_exit_25_pct e \<le> th_estimated_partial_exit_50_pct e \<and>
    th_estimated_partial_exit_50_pct e \<le> th_estimated_full_exit_impact_pct e \<and>
    th_estimated_full_exit_impact_pct e \<le> 100"
proof -
  have h: "0 \<le> th_balance e"
    "th_estimated_partial_exit_25_pct e =
       exit_impact_pct (th_balance e * decimal 25 2) (threat_supply token) (threat_depth token)"
    "th_estimated_partial_exit_50_pct e =
       exit_impact_pct (th_balance e * decimal 50 2) (threat_supply token) (threat_depth token)"
    "th_estimated_full_exit_impact_pct e =
       exit_impact_pct (th_balance e) (threat_supply token) (threat_depth token)"
    using assms by (cases ih; auto simp: threat_entry_def Let_def)+
  have "th_balance e * decimal 25 2 \<le> th_balance e * decimal 50 2"
    "th_balance e * decimal 50 2 \<le> th_balance e * 1"
    using h(1) by (simp_all add: decimal_def mult_left_le)
  then show ?thesis
    unfolding h(2-4) using h(1) exit_impact_range exit_impact_mono by auto
qed

lemma in_threat_entries:
  "e \<in> set (threat_entries sha token ci) \<Longrightarrow> \<exists>ih. threat_entry sha token ci ih = Some e"
  unfolding threat_entries_def
  by (drule in_set_takeD) (auto simp: in_map_filter)

lemma map_filter_length: "length (List.map_filter f xs) \<le> length xs"
  by (induction xs) (auto split: option.splits)

lemma max_impact_descending:
  assumes "descending (map th_estimated_full_exit_impact_pct (e # es))"
  shows "max_impact (e # es) = th_estimated_full_exit_impact_pct e"
  using assms by (auto simp: max_impact_def descending_def intro!: fold_max_descending)

lemma threat_entries_descending:
  "descending (map th_estimated_full_exit_impact_pct (threat_entries sha token ci))"
  unfolding threat_entries_def take_map [symmetric] descending_def
  by (rule sorted_wrt_take) (rule sort_key_descending [unfolded descending_def])

lemma score_range:
  "0 \<le> i \<Longrightarrow> i \<le> 100 \<Longrightarrow> clamp01_decimal (i / 100) = i / (100 :: 'd::linordered_field)"
  by (simp add: clamp01_decimal_def)

lemma refresh_threat_fields:
  "sd_exit_threat_index (tok_shred_defense (refresh_exit_threat_index sha ci now token)) = x \<Longrightarrow>
   xt_dangerous_wallets x = threat_entries sha token ci \<and>
   xt_exit_threat_index_score x = clamp01_decimal (max_impact (threat_entries sha token ci) / 100) \<and>
   0 \<le> xt_current_distance_to_stop_pct x \<and>
   0 \<le> xt_current_distance_to_trailing_stop_pct x \<and>
   0 \<le> xt_current_distance_to_vwap_pct x \<and>
   (unat (xt_max_safe_wait_time_ms x) = 250 \<longleftrightarrow> max_impact (threat_entries sha token ci) \<ge> 25)"
  by (auto simp: refresh_exit_threat_index_def Let_def decimal_from_def split: if_splits)

lemma threat_entries_length: "length (threat_entries sha token ci) \<le> 10"
proof -
  have "length (threat_entries sha token ci) \<le>
      length (enumerate 0 (take 10 (hs_top_holders (tok_holder_state token))))"
    unfolding threat_entries_def length_take length_sort
    by (rule order_trans [OF min.cobounded1 map_filter_length])
  then show ?thesis by simp
qed

text \<open>
  The exit threat index of a token, whatever its state: at most ten wallets, the most dangerous first; for
  each, selling a quarter, a half and all of a balance has increasing impact between 0 and 100 per cent;
  the score is the impact of the first wallet on the scale from 0 to 1 (0 when there is none), the
  distances are not negative, and the short waiting time is used exactly when some wallet can move the
  price by a quarter.
\<close>

theorem exit_threat_index_ordered:
  "threat_index_ok (sd_exit_threat_index (tok_shred_defense
     (refresh_exit_threat_index sha256_hex ci observed_at (token :: ('d::linordered_field) token_state))))"
proof -
  let ?es = "threat_entries sha256_hex token ci"
  let ?x = "sd_exit_threat_index (tok_shred_defense (refresh_exit_threat_index sha256_hex ci observed_at token))"
  have fields: "xt_dangerous_wallets ?x = ?es"
      "xt_exit_threat_index_score ?x = clamp01_decimal (max_impact ?es / 100)"
      "0 \<le> xt_current_distance_to_stop_pct ?x" "0 \<le> xt_current_distance_to_trailing_stop_pct ?x"
      "0 \<le> xt_current_distance_to_vwap_pct ?x"
      "unat (xt_max_safe_wait_time_ms ?x) = 250 \<longleftrightarrow> max_impact ?es \<ge> 25"
    using refresh_threat_fields [of sha256_hex ci observed_at token ?x] by simp_all
  have each: "\<And>e. e \<in> set ?es \<Longrightarrow> 0 \<le> th_balance e \<and> 0 \<le> th_estimated_partial_exit_25_pct e \<and>
      th_estimated_partial_exit_25_pct e \<le> th_estimated_partial_exit_50_pct e \<and>
      th_estimated_partial_exit_50_pct e \<le> th_estimated_full_exit_impact_pct e \<and>
      th_estimated_full_exit_impact_pct e \<le> 100"
    using in_threat_entries threat_entry_ok by blast
  have first: "(case ?es of [] \<Rightarrow> max_impact ?es = 0
      | e # es \<Rightarrow> max_impact ?es = th_estimated_full_exit_impact_pct e)"
    using threat_entries_descending [of sha256_hex token ci] max_impact_descending
    by (auto simp: max_impact_def split: list.splits)
  have wait: "max_impact ?es \<ge> 25 \<longleftrightarrow> list_ex (\<lambda>e. th_estimated_full_exit_impact_pct e \<ge> 25) ?es"
    using threat_entries_descending [of sha256_hex token ci] first
    by (cases ?es) (auto simp: list_ex_iff descending_def)
  have score: "0 \<le> clamp01_decimal (max_impact ?es / 100)" "clamp01_decimal (max_impact ?es / 100) \<le> 1"
    by simp_all
  have shown: "(case ?es of [] \<Rightarrow> clamp01_decimal (max_impact ?es / 100) = 0
      | e # es \<Rightarrow> clamp01_decimal (max_impact ?es / 100) = th_estimated_full_exit_impact_pct e / 100)"
  proof (cases ?es)
    case Nil
    with first show ?thesis by (simp add: clamp01_decimal_def)
  next
    case (Cons e es)
    with each [of e] have "0 \<le> th_estimated_full_exit_impact_pct e" "th_estimated_full_exit_impact_pct e \<le> 100"
      by auto
    with first Cons show ?thesis by (simp add: score_range)
  qed
  show ?thesis
    unfolding threat_index_ok_def fields(1,2)
    using fields(3-6) threat_entries_descending threat_entries_length each score shown wait
    by (auto simp: list_all_iff)
qed

text \<open>
  The impact estimate saturates: its two shares are fractions weighted by 70 and 30, the sum is clamped to
  1 and only then multiplied by 100. A wallet with a seventieth of the observed supply (1.43 per cent)
  is already rated at the full 100 per cent, above the emergency threshold of 35.
\<close>

theorem exit_impact_saturates:
  fixes balance total depth :: "'d::linordered_field"
  assumes "0 < total" "total \<le> 70 * balance"
  shows "exit_impact_pct balance total depth = 100"
proof -
  have b: "0 < balance" using assms by linarith
  have "1 \<le> balance / total * 70" using assms by (simp add: field_simps)
  moreover have "0 \<le> balance * decimal 5 1 / max depth 1 * 30"
    using b by (auto simp: decimal_def le_max_iff_disj intro!: mult_nonneg_nonneg divide_nonneg_nonneg)
  ultimately have "1 \<le> balance / total * 70 + balance * decimal 5 1 / max depth 1 * 30" by linarith
  then show ?thesis
    using b assms(1) by (simp add: exit_impact_pct_def Let_def clamp01_decimal_def decimal_from_def)
qed

theorem exit_impact_saturates_witness:
  "exit_impact_pct (15 :: rat) 1000 1000000 = 100"
  using exit_impact_saturates [of "1000 :: rat" 15 1000000] by simp

end
