(* ===== verification/Token_Handlers.thy ===== *)
theory Token_Handlers
  imports Exit_Threat
begin

text \<open>
  The handlers of \<open>StateEngine::apply_event\<close> (\<open>crates/state/src/lib.rs\<close>), one per kind of event, over the
  engine's tables. \<open>None\<close> is the panic of a token conversion. The digest, the rendering of identifiers and
  the rendering of decimals are third-party code and come in a record of functions.
\<close>

record 'd text_env =
  tx_sha256_hex :: "string \<Rightarrow> string"
  tx_show_uuid :: "event_id \<Rightarrow> string"
  tx_show_decimal :: "'d \<Rightarrow> string"

subsection \<open>Lifecycle\<close>

definition ttl_for_config :: "ttl_config \<Rightarrow> token_lifecycle \<Rightarrow> duration" where
  "ttl_for_config ttl lifecycle = duration_seconds (sint (case lifecycle of
      LcDiscovered \<Rightarrow> ttl_discovered_secs ttl
    | LcFirstPass \<Rightarrow> ttl_active_light_secs ttl
    | LcActiveLight \<Rightarrow> ttl_active_light_secs ttl
    | LcActiveDeep \<Rightarrow> ttl_active_deep_secs ttl
    | LcTradeCandidate \<Rightarrow> ttl_active_deep_secs ttl
    | LcInPosition \<Rightarrow> ttl_active_deep_secs ttl
    | LcExitPending \<Rightarrow> ttl_active_deep_secs ttl
    | LcSoftDiscarded \<Rightarrow> ttl_discarded_summary_secs ttl
    | LcHardDiscarded \<Rightarrow> ttl_discarded_summary_secs ttl
    | LcRugArchive \<Rightarrow> ttl_research_sample_secs ttl
    | LcCompleted \<Rightarrow> ttl_discarded_summary_secs ttl
    | LcMigrated \<Rightarrow> ttl_discarded_summary_secs ttl
    | LcDataGap \<Rightarrow> ttl_discarded_summary_secs ttl))"

definition transition_token ::
  "token_lifecycle \<Rightarrow> string \<Rightarrow> instant \<Rightarrow> duration \<Rightarrow> 'd token_state \<Rightarrow>
   'd token_state \<times> lifecycle_transition option" where
  "transition_token target reason observed_at ttl token =
    (if tok_lifecycle token = target then (token, None)
     else (token\<lparr>tok_lifecycle := target, tok_expires_at := Some (observed_at + ttl)\<rparr>,
       Some \<lparr>lt_mint = tok_mint token, lt_from = tok_lifecycle token, lt_to = target,
             lt_reason = reason, lt_observed_at = observed_at\<rparr>))"

subsection \<open>Access to the tables\<close>

definition entry_token :: "pubkey \<Rightarrow> event_source \<Rightarrow> ('d::linordered_field) state_engine \<Rightarrow> 'd token_state" where
  "entry_token mint source s = unwrap_or (new_token_state mint source) (map_of (se_tokens s) mint)"

definition put_token :: "pubkey \<Rightarrow> 'd token_state \<Rightarrow> 'd state_engine \<Rightarrow> 'd state_engine" where
  "put_token mint token s = s\<lparr>se_tokens := AList.update mint token (se_tokens s)\<rparr>"

definition touch_wallet ::
  "string \<Rightarrow> instant \<Rightarrow> ('d wallet_summary \<Rightarrow> 'd wallet_summary) \<Rightarrow>
   ('d::linordered_field) state_engine \<Rightarrow> 'd state_engine" where
  "touch_wallet wallet timestamp f s =
    (let entry = unwrap_or (default_wallet_summary\<lparr>ws_wallet := wallet\<rparr>) (map_of (se_wallets s) wallet);
         entry = entry\<lparr>ws_first_seen := first_some (ws_first_seen entry) (Some timestamp),
                       ws_last_seen := Some timestamp\<rparr> in
     s\<lparr>se_wallets := AList.update wallet (f entry) (se_wallets s)\<rparr>)"

definition is_tentative :: "'d normalized_event \<Rightarrow> bool" where
  "is_tentative event \<longleftrightarrow> em_canonicality (ne_meta event) = Tentative"

text \<open>The signature of an event is filed under its token, and under the engine while it is tentative.\<close>

definition note_signature ::
  "'d normalized_event \<Rightarrow> 'd token_state \<times> 'd state_engine \<Rightarrow> 'd token_state \<times> 'd state_engine" where
  "note_signature event = (\<lambda>(token, s).
    case event_signature event of
      None \<Rightarrow> (token, s)
    | Some signature \<Rightarrow>
        if is_tentative event
        then (token\<lparr>tok_tentative_signatures := insert signature (tok_tentative_signatures token)\<rparr>,
              s\<lparr>se_tentative_signatures :=
                  AList.update signature (tok_mint token) (se_tentative_signatures s)\<rparr>)
        else (token\<lparr>tok_canonical_signatures := insert signature (tok_canonical_signatures token),
                    tok_tentative_signatures := tok_tentative_signatures token - {signature},
                    tok_tentative_only := False\<rparr>,
              s\<lparr>se_tentative_signatures := AList.delete signature (se_tentative_signatures s)\<rparr>))"

definition add_amount :: "string \<Rightarrow> 'd \<Rightarrow> (string \<times> 'd::linordered_field) list \<Rightarrow> (string \<times> 'd) list" where
  "add_amount k amount m = AList.update k (unwrap_or 0 (map_of m k) + amount) m"

subsection \<open>Creation and trades\<close>

definition created_token ::
  "'d token_created_event \<Rightarrow> 'd normalized_event \<Rightarrow> ('d::linordered_field) token_state \<Rightarrow> 'd token_state" where
  "created_token payload event token = token
    \<lparr>tok_token_program := tc_token_program payload,
     tok_quote_mint := Some (tc_quote_mint payload),
     tok_quote_asset_type := tc_quote_asset_type payload,
     tok_creator := Some (tc_creator_wallet payload),
     tok_payer := Some (tc_payer payload),
     tok_bonding_curve := Some (tc_bonding_curve_account payload),
     tok_associated_bonding_curve := tc_associated_bonding_curve_account payload,
     tok_metadata := tc_metadata_account payload,
     tok_name := tc_name payload,
     tok_symbol := tc_symbol payload,
     tok_uri := tc_uri payload,
     tok_create_instruction_variant := tc_create_instruction_variant payload,
     tok_launch_transaction_fingerprint := tc_launch_transaction_fingerprint payload,
     tok_launch_same_transaction_buys := tc_same_transaction_buys payload,
     tok_launch_same_slot_buys := tc_same_slot_buys payload,
     tok_launch_slot := first_some (tok_launch_slot token) (Some (em_slot (ne_meta event))),
     tok_launch_time := first_some (tok_launch_time token) (Some (em_received_at_wall_time (ne_meta event))),
     tok_reserve_state := (tok_reserve_state token)
       \<lparr>cv_quote_asset_type := tc_quote_asset_type payload,
        cv_launch_price := first_some (cv_launch_price (tok_reserve_state token)) (Some 0)\<rparr>\<rparr>"

definition renew_expiry :: "ttl_config \<Rightarrow> 'd normalized_event \<Rightarrow> 'd token_state \<Rightarrow> 'd token_state" where
  "renew_expiry ttl event token = token\<lparr>tok_expires_at :=
     Some (em_received_at_wall_time (ne_meta event) + ttl_for_config ttl (tok_lifecycle token))\<rparr>"

definition apply_token_created ::
  "'d token_created_event \<Rightarrow> 'd normalized_event \<Rightarrow> ('d::linordered_field) state_engine \<Rightarrow> 'd state_engine" where
  "apply_token_created payload event s =
    (let mint = tc_mint payload; creator = tc_creator_wallet payload;
         token = entry_token mint (em_source (ne_meta event)) s;
         token = renew_expiry (se_ttl s) event (created_token payload event token);
         (token, s) = note_signature event (token, s);
         s = put_token mint (update_memory_bytes token) s;
         s = touch_wallet creator (em_received_at_wall_time (ne_meta event))
               (\<lambda>w. w\<lparr>ws_creator_launches := ws_creator_launches w + 1\<rparr>) s in
     if creator \<noteq> tc_payer payload
     then s\<lparr>se_cluster_index := record_same_payer creator (tc_payer payload) (se_cluster_index s)\<rparr>
     else s)"

definition fp_cul :: string where "fp_cul = ''cul:''"
definition fp_cup :: string where "fp_cup = ''|cup:''"
definition fp_acct :: string where "fp_acct = ''|acct:''"
definition fp_ix :: string where "fp_ix = ''|ix:''"
definition fp_pgm :: string where "fp_pgm = ''|pgm:''"

definition trade_client_fingerprint ::
  "u32 option \<Rightarrow> u64 option \<Rightarrow> 'd observed_transaction_summary option \<Rightarrow> string option" where
  "trade_client_fingerprint limit price tx_shape =
    (if limit = None \<and> price = None \<and> tx_shape = None then None
     else Some (fp_cul @ show_nat (unat (unwrap_or 0 limit)) @ fp_cup @ show_nat (unat (unwrap_or 0 price))
       @ fp_acct @ show_nat (unat (unwrap_or 0 (map_option os_account_count tx_shape)))
       @ fp_ix @ show_nat (unat (unwrap_or 0 (map_option os_instruction_count tx_shape)))
       @ fp_pgm @ show_nat (length (unwrap_or [] (map_option os_program_ids tx_shape)))))"

definition shape_of_event ::
  "'d normalized_event \<Rightarrow> 'd state_engine \<Rightarrow> 'd observed_transaction_summary option" where
  "shape_of_event event s = Option.bind (event_signature event) (map_of (se_observed_transactions s))"

definition known_decimals :: "pubkey \<Rightarrow> 'd state_engine \<Rightarrow> u8" where
  "known_decimals mint s = unwrap_or default_pump_token_decimals
     (map_option (\<lambda>token. cv_token_decimals (tok_reserve_state token)) (map_of (se_tokens s) mint))"

definition buy_observation ::
  "'d pump_buy_event \<Rightarrow> 'd normalized_event \<Rightarrow> 'd observed_transaction_summary option \<Rightarrow> 'd \<Rightarrow>
   ('d::linordered_field) token_state \<Rightarrow> 'd trade_observation" where
  "buy_observation payload event tx_shape price token =
    \<lparr>to_timestamp = em_received_at_wall_time (ne_meta event),
     to_slot = em_slot (ne_meta event),
     to_signature = event_signature event,
     to_side = TradeBuy,
     to_wallet = pb_buyer payload,
     to_quote = pb_quote_in payload,
     to_tokens = pb_token_out payload,
     to_price = price,
     to_compute_unit_limit = pb_compute_unit_limit payload,
     to_compute_unit_price = pb_compute_unit_price payload,
     to_priority_fee_lamports = pb_estimated_priority_fee_lamports payload,
     to_base_fee_lamports = pb_estimated_base_fee_lamports payload,
     to_account_count = map_option os_account_count tx_shape,
     to_instruction_count = map_option os_instruction_count tx_shape,
     to_program_count = map_option (\<lambda>shape. count_usize (os_program_ids shape)) tx_shape,
     to_client_fingerprint =
       trade_client_fingerprint (pb_compute_unit_limit payload) (pb_compute_unit_price payload) tx_shape,
     to_is_creator = (pb_is_creator payload \<or> tok_creator token = Some (pb_buyer payload)),
     to_is_top_holder_pre_sell = False,
     to_is_tentative = is_tentative event\<rparr>"

definition sell_observation ::
  "'d pump_sell_event \<Rightarrow> 'd normalized_event \<Rightarrow> 'd observed_transaction_summary option \<Rightarrow> 'd \<Rightarrow>
   ('d::linordered_field) token_state \<Rightarrow> 'd trade_observation" where
  "sell_observation payload event tx_shape price token =
    \<lparr>to_timestamp = em_received_at_wall_time (ne_meta event),
     to_slot = em_slot (ne_meta event),
     to_signature = event_signature event,
     to_side = TradeSell,
     to_wallet = ps_seller payload,
     to_quote = ps_quote_out payload,
     to_tokens = ps_token_in payload,
     to_price = price,
     to_compute_unit_limit = ps_compute_unit_limit payload,
     to_compute_unit_price = ps_compute_unit_price payload,
     to_priority_fee_lamports = ps_estimated_priority_fee_lamports payload,
     to_base_fee_lamports = ps_estimated_base_fee_lamports payload,
     to_account_count = map_option os_account_count tx_shape,
     to_instruction_count = map_option os_instruction_count tx_shape,
     to_program_count = map_option (\<lambda>shape. count_usize (os_program_ids shape)) tx_shape,
     to_client_fingerprint =
       trade_client_fingerprint (ps_compute_unit_limit payload) (ps_compute_unit_price payload) tx_shape,
     to_is_creator = (ps_is_creator payload \<or> tok_creator token = Some (ps_seller payload)),
     to_is_top_holder_pre_sell = ps_is_top_holder_pre_sell payload,
     to_is_tentative = is_tentative event\<rparr>"

definition creator_bought :: "'d \<Rightarrow> 'd \<Rightarrow> ('d::linordered_field) developer_state \<Rightarrow> 'd developer_state" where
  "creator_bought quote_in token_out dev = dev
    \<lparr>dv_creator_initial_holding := max (dv_creator_initial_holding dev) (dv_creator_net_tokens dev + token_out),
     dv_creator_net_tokens := dv_creator_net_tokens dev + token_out,
     dv_creator_net_quote_flow := dv_creator_net_quote_flow dev - quote_in\<rparr>"

definition creator_sold :: "'d \<Rightarrow> 'd \<Rightarrow> instant \<Rightarrow> ('d::linordered_field) developer_state \<Rightarrow> 'd developer_state" where
  "creator_sold quote_out token_in observed_at dev = dev
    \<lparr>dv_creator_first_sell_time := first_some (dv_creator_first_sell_time dev) (Some observed_at),
     dv_creator_initial_holding := max (dv_creator_initial_holding dev) (dv_creator_net_tokens dev),
     dv_creator_net_tokens := dv_creator_net_tokens dev - token_in,
     dv_creator_net_quote_flow := dv_creator_net_quote_flow dev + quote_out\<rparr>"

definition bought_token ::
  "'d pump_buy_event \<Rightarrow> 'd normalized_event \<Rightarrow> 'd observed_transaction_summary option \<Rightarrow> 'd \<Rightarrow>
   ('d::linordered_field) token_state \<Rightarrow> 'd token_state" where
  "bought_token payload event tx_shape price token = token
    \<lparr>tok_latest_price := price,
     tok_trade_stats :=
       record_trade (buy_observation payload event tx_shape price token) (tok_trade_stats token),
     tok_holder_state := apply_trade_cost_basis (pb_buyer payload) True (pb_quote_in payload)
       (pb_token_out payload) (em_received_at_wall_time (ne_meta event)) price (tok_holder_state token),
     tok_developer_state :=
       (if pb_is_creator payload \<or> tok_creator token = Some (pb_buyer payload)
        then creator_bought (pb_quote_in payload) (pb_token_out payload) (tok_developer_state token)
        else tok_developer_state token)\<rparr>"

definition sold_token ::
  "'d pump_sell_event \<Rightarrow> 'd normalized_event \<Rightarrow> 'd observed_transaction_summary option \<Rightarrow> 'd \<Rightarrow>
   ('d::linordered_field) token_state \<Rightarrow> 'd token_state" where
  "sold_token payload event tx_shape price token = token
    \<lparr>tok_latest_price := price,
     tok_trade_stats :=
       record_trade (sell_observation payload event tx_shape price token) (tok_trade_stats token),
     tok_holder_state := apply_trade_cost_basis (ps_seller payload) False (ps_quote_out payload)
       (ps_token_in payload) (em_received_at_wall_time (ne_meta event)) price (tok_holder_state token),
     tok_developer_state :=
       (if ps_is_creator payload \<or> tok_creator token = Some (ps_seller payload)
        then creator_sold (ps_quote_out payload) (ps_token_in payload)
               (em_received_at_wall_time (ne_meta event)) (tok_developer_state token)
        else tok_developer_state token)\<rparr>"

definition apply_buy ::
  "'d pump_buy_event \<Rightarrow> 'd normalized_event \<Rightarrow> ('d::linordered_field) state_engine \<Rightarrow> 'd state_engine option" where
  "apply_buy payload event s =
    (let mint = pb_mint payload; tx_shape = shape_of_event event s in
     map_option (\<lambda>computed.
       let price = unwrap_or (pb_effective_price payload) computed;
           (token, s') = note_signature event (entry_token mint (em_source (ne_meta event)) s, s);
           token = renew_expiry (se_ttl s) event (bought_token payload event tx_shape price token);
           s' = put_token mint (update_memory_bytes token) s' in
       touch_wallet (pb_buyer payload) (em_received_at_wall_time (ne_meta event))
         (\<lambda>w. w\<lparr>ws_tokens_bought := add_amount mint (pb_token_out payload) (ws_tokens_bought w)\<rparr>) s')
     (price_sol_per_ui_token (pb_quote_in payload) (pb_token_out payload) (known_decimals mint s)))"

definition apply_sell ::
  "'d pump_sell_event \<Rightarrow> 'd normalized_event \<Rightarrow> ('d::linordered_field) state_engine \<Rightarrow> 'd state_engine option" where
  "apply_sell payload event s =
    (let mint = ps_mint payload; tx_shape = shape_of_event event s in
     map_option (\<lambda>computed.
       let price = unwrap_or (ps_effective_price payload) computed;
           (token, s') = note_signature event (entry_token mint (em_source (ne_meta event)) s, s);
           token = renew_expiry (se_ttl s) event (sold_token payload event tx_shape price token);
           s' = put_token mint (update_memory_bytes token) s' in
       touch_wallet (ps_seller payload) (em_received_at_wall_time (ne_meta event))
         (\<lambda>w. w\<lparr>ws_tokens_sold := add_amount mint (ps_token_in payload) (ws_tokens_sold w)\<rparr>) s')
     (price_sol_per_ui_token (ps_quote_out payload) (ps_token_in payload) (known_decimals mint s)))"

subsection \<open>Account updates, funding and observed transactions\<close>

definition apply_curve_update ::
  "'d bonding_curve_update_event \<Rightarrow> 'd normalized_event \<Rightarrow> ('d::linordered_field) state_engine \<Rightarrow>
   'd state_engine option" where
  "apply_curve_update payload event s =
    (let mint = bc_mint payload; token = entry_token mint (em_source (ne_meta event)) s in
     map_option (\<lambda>(curve, applied).
       if applied
       then put_token mint (update_memory_bytes (token
              \<lparr>tok_reserve_state := curve
                 \<lparr>cv_last_updated_at := Some (em_received_at_wall_time (ne_meta event))\<rparr>,
               tok_latest_price := bc_price payload\<rparr>)) s
       else put_token mint token s)
     (apply_update payload (em_slot (ne_meta event)) (tok_reserve_state token)))"

definition apply_holder_update ::
  "'d text_env \<Rightarrow> 'd holder_balance_update_event \<Rightarrow> 'd normalized_event \<Rightarrow>
   ('d::linordered_field) state_engine \<Rightarrow> 'd state_engine option" where
  "apply_holder_update env payload event s =
    (let mint = hb_mint payload; token = entry_token mint (em_source (ne_meta event)) s in
     map_option (\<lambda>holders.
       let token = token\<lparr>tok_holder_state := holders\<rparr>;
           token = (if tok_creator token = Some (hb_owner_wallet payload)
             then token\<lparr>tok_developer_state := (tok_developer_state token)
                 \<lparr>dv_creator_net_tokens := hb_new_balance payload,
                  dv_creator_initial_holding :=
                    max (dv_creator_initial_holding (tok_developer_state token)) (hb_new_balance payload)\<rparr>\<rparr>
             else token) in
       touch_wallet (hb_owner_wallet payload) (em_received_at_wall_time (ne_meta event)) (\<lambda>w. w)
         (put_token mint (update_memory_bytes (recalc_developer_rank token)) s))
     (apply_balance_update (tx_show_decimal env) payload event
        (unwrap_or (cv_token_decimals (tok_reserve_state token)) (hb_token_decimals payload))
        (tok_holder_state token)))"

definition apply_funding ::
  "'d wallet_funding_event \<Rightarrow> 'd normalized_event \<Rightarrow> ('d::linordered_field) state_engine \<Rightarrow> 'd state_engine" where
  "apply_funding payload event s =
    (let observed_at = em_received_at_wall_time (ne_meta event);
         (graph, related) = funding_apply payload observed_at (se_funding_graph s);
         s = s\<lparr>se_funding_graph := graph,
               se_cluster_index :=
                 fold (\<lambda>(left, right). record_same_funder left right) related (se_cluster_index s)\<rparr> in
     touch_wallet (wf_funder payload) observed_at (\<lambda>w. w)
       (touch_wallet (wf_wallet payload) observed_at (\<lambda>w. w) s))"

definition apply_observed_transaction ::
  "'d observed_transaction_event \<Rightarrow> 'd normalized_event \<Rightarrow> 'd state_engine \<Rightarrow> 'd state_engine" where
  "apply_observed_transaction payload event s =
    (case event_signature event of
       None \<Rightarrow> s
     | Some signature \<Rightarrow> s\<lparr>se_observed_transactions := AList.update signature
         \<lparr>os_signature = signature, os_slot_hint = ot_slot_hint payload,
          os_entry_index = ot_entry_index payload,
          os_tx_position_estimate = ot_tx_position_estimate payload,
          os_program_ids = ot_program_ids payload, os_account_count = ot_account_count payload,
          os_instruction_count = ot_instruction_count payload,
          os_raw_packet_hash = ot_raw_packet_hash payload,
          os_first_seen_by_shred_ns = ot_first_seen_by_shred_ns payload,
          os_decode_confidence = ot_decode_confidence payload\<rparr> (se_observed_transactions s)\<rparr>)"

end
