(* ===== verification/Token_Engine.thy ===== *)
theory Token_Engine
  imports Token_Handlers
begin

text \<open>
  The state engine of \<open>crates/state/src/lib.rs\<close>: the handlers of the shred-exit events and of terminal
  events, the derived indices, the lifecycle transitions, and \<open>apply_event\<close> and \<open>expire_tokens\<close>, which put
  the handlers together. Every handler returns \<open>Ok\<close>; \<open>None\<close> is the panic of a token conversion.
\<close>

subsection \<open>Tentative sells\<close>

definition default_tentative_sell_tracking :: "('d::linordered_field) tentative_sell_tracking" where
  "default_tentative_sell_tracking = \<lparr>
    tk_event_id = [],
    tk_source = FixtureTentative,
    tk_signature = None,
    tk_seller_wallet = [],
    tk_seller_classification = dangerous_seller_classification.Unknown,
    tk_confirmation_state = PendingTentative,
    tk_warning_level = Info,
    tk_confidence = 0,
    tk_estimated_impact_pct = 0,
    tk_estimated_cluster_impact_pct = 0,
    tk_warning_price = 0,
    tk_observed_at = 0,
    tk_expires_at = None,
    tk_matched_canonical_signature = None,
    tk_false_positive_flag = False,
    tk_missed_exit_flag = False,
    tk_paper_exit_triggered = False,
    tk_saved_loss_quote = 0,
    tk_opportunity_cost_quote = 0,
    tk_confirmation_method = None,
    tk_reconciliation_latency_ms = None\<rparr>"

definition intent_tracking ::
  "'d text_env \<Rightarrow> 'd tentative_sell_intent_detected_event \<Rightarrow> ('d::linordered_field) tentative_sell_tracking" where
  "intent_tracking env payload = default_tentative_sell_tracking
    \<lparr>tk_event_id := tx_show_uuid env (si_event_id payload),
     tk_source := si_source payload,
     tk_signature := si_signature payload,
     tk_seller_wallet := si_seller_wallet payload,
     tk_seller_classification := parse_seller_classification (si_wallet_classification_snapshot payload),
     tk_confirmation_state := si_confirmation_state payload,
     tk_confidence := min (si_decoded_instruction_confidence payload) (si_account_decode_confidence payload),
     tk_estimated_impact_pct := si_estimated_price_impact_pct payload,
     tk_estimated_cluster_impact_pct := si_estimated_cluster_holding_pct payload,
     tk_warning_price := si_estimated_price_before payload,
     tk_observed_at := si_received_at_wall_time payload,
     tk_expires_at := Some (si_received_at_wall_time payload + 5000 * 1000000),
     tk_matched_canonical_signature := si_matched_canonical_signature payload\<rparr>"

text \<open>The handlers below change one token's shred defence only.\<close>

definition with_defense ::
  "pubkey \<Rightarrow> 'd normalized_event \<Rightarrow> ('d shred_defense_state \<Rightarrow> 'd shred_defense_state) \<Rightarrow>
   ('d::linordered_field) state_engine \<Rightarrow> 'd state_engine" where
  "with_defense mint event f s =
    (let token = entry_token mint (em_source (ne_meta event)) s in
     put_token mint
       (update_memory_bytes (token\<lparr>tok_shred_defense := f (tok_shred_defense token)\<rparr>)) s)"

definition record_sell_intent ::
  "'d text_env \<Rightarrow> 'd tentative_sell_intent_detected_event \<Rightarrow>
   ('d::linordered_field) shred_defense_state \<Rightarrow> 'd shred_defense_state" where
  "record_sell_intent env payload d =
    (let tracking = intent_tracking env payload;
         seen = sat_add (sd_tentative_sell_count_window d) 1;
         confidence = max (sd_tentative_sell_confidence_max d) (si_decoded_instruction_confidence payload) in
     d\<lparr>sd_pending_tentative_sells :=
         AList.update (tk_event_id tracking) tracking (sd_pending_tentative_sells d),
       sd_tentative_sell_count_window := seen,
       sd_tentative_sell_volume_quote_window :=
         sd_tentative_sell_volume_quote_window d + si_quote_out_estimate payload,
       sd_tentative_sell_impact_max_pct :=
         max (sd_tentative_sell_impact_max_pct d) (si_estimated_price_impact_pct payload),
       sd_tentative_sell_impact_sum_pct :=
         sd_tentative_sell_impact_sum_pct d + si_estimated_price_impact_pct payload,
       sd_tentative_sell_confidence_max := confidence,
       sd_tentative_sell_confidence_mean := average_decimal (sd_tentative_sell_confidence_mean d)
         (si_decoded_instruction_confidence payload) seen,
       sd_preconfirmation_exit_confidence := confidence,
       sd_last_confirmation_level := Some (si_confirmation_state payload)\<rparr>)"

definition count_seller_class ::
  "dangerous_seller_classification \<Rightarrow> 'd shred_defense_state \<Rightarrow> 'd shred_defense_state" where
  "count_seller_class c d =
    (case c of
       Dev \<Rightarrow> d\<lparr>sd_tentative_sell_from_dev_count := sd_tentative_sell_from_dev_count d + 1\<rparr>
     | DevCluster \<Rightarrow> d\<lparr>sd_tentative_sell_from_dev_count := sd_tentative_sell_from_dev_count d + 1\<rparr>
     | Top1Holder \<Rightarrow>
         d\<lparr>sd_tentative_sell_from_top_holder_count := sd_tentative_sell_from_top_holder_count d + 1\<rparr>
     | Top3Holder \<Rightarrow>
         d\<lparr>sd_tentative_sell_from_top_holder_count := sd_tentative_sell_from_top_holder_count d + 1\<rparr>
     | Top5Holder \<Rightarrow>
         d\<lparr>sd_tentative_sell_from_top_holder_count := sd_tentative_sell_from_top_holder_count d + 1\<rparr>
     | Top10Holder \<Rightarrow>
         d\<lparr>sd_tentative_sell_from_top_holder_count := sd_tentative_sell_from_top_holder_count d + 1\<rparr>
     | BundleWallet \<Rightarrow>
         d\<lparr>sd_tentative_sell_from_bundle_count := sd_tentative_sell_from_bundle_count d + 1\<rparr>
     | BundleCluster \<Rightarrow>
         d\<lparr>sd_tentative_sell_from_bundle_count := sd_tentative_sell_from_bundle_count d + 1\<rparr>
     | Whale \<Rightarrow> d\<lparr>sd_tentative_sell_from_whale_count := sd_tentative_sell_from_whale_count d + 1\<rparr>
     | _ \<Rightarrow> d)"

definition record_sell_warning ::
  "'d text_env \<Rightarrow> 'd tentative_malicious_sell_warning_event \<Rightarrow>
   ('d::linordered_field) shred_defense_state \<Rightarrow> 'd shred_defense_state" where
  "record_sell_warning env payload d =
    (let d = d
       \<lparr>sd_last_warning_level := Some (sw_risk_level payload),
        sd_last_warning_reason_codes := sw_reason_codes payload,
        sd_active_warning_event_id := Some (tx_show_uuid env (sw_trigger_event_id payload)),
        sd_active_dangerous_seller := Some (sw_seller_wallet payload),
        sd_active_seller_classification := Some (sw_seller_classification payload),
        sd_malicious_sell_intent_score := clamp01_decimal
          (sw_estimated_sell_impact_pct payload / decimal_from 100 + sw_confidence payload / decimal_from 2),
        sd_preconfirmation_exit_confidence := sw_confidence payload,
        sd_early_intent_latency_advantage_ms := sw_source_latency_advantage_ms payload,
        sd_required_latency_advantage_ms := sw_required_latency_advantage_ms payload,
        sd_latency_edge_ratio := sw_latency_edge_ratio payload,
        sd_exit_can_land_before_estimated_impact := sw_exit_can_land_before_estimated_impact payload,
        sd_absorption_health_score := sw_absorption_health_score payload,
        sd_post_sell_absorption_probability := sw_post_sell_absorption_probability payload,
        sd_emergency_exit_expected_saved_loss := sw_emergency_exit_expected_saved_loss payload,
        sd_emergency_exit_expected_opportunity_cost := sw_emergency_exit_expected_opportunity_cost payload,
        sd_emergency_exit_net_benefit := sw_emergency_exit_net_benefit payload,
        sd_emergency_exit_net_benefit_confidence := sw_emergency_exit_net_benefit_confidence payload,
        sd_shred_signal_stale_flag := \<not> sw_exit_can_land_before_estimated_impact payload\<rparr>;
         d = count_seller_class (sw_seller_classification payload) d in
     if ShredSameSlotSellCluster \<in> set (sw_reason_codes payload)
     then d\<lparr>sd_tentative_sell_same_slot_cluster_count := sd_tentative_sell_same_slot_cluster_count d + 1\<rparr>
     else d)"

definition record_exit_armed ::
  "'d text_env \<Rightarrow> 'd shred_emergency_exit_armed_event \<Rightarrow> 'd shred_defense_state \<Rightarrow> 'd shred_defense_state" where
  "record_exit_armed env payload d = d
    \<lparr>sd_shred_exit_armed_flag := True,
     sd_active_armed_exit_event_id := Some (tx_show_uuid env (ea_trigger_event_id payload)),
     sd_active_dangerous_seller := Some (ea_seller_wallet payload),
     sd_active_seller_classification := Some (ea_seller_classification payload),
     sd_last_warning_level := Some (ea_risk_level payload)\<rparr>"

definition record_exit_triggered ::
  "'d text_env \<Rightarrow> 'd shred_emergency_exit_triggered_event \<Rightarrow> 'd shred_defense_state \<Rightarrow> 'd shred_defense_state" where
  "record_exit_triggered env payload d =
    (let key = tx_show_uuid env (et_trigger_event_id payload) in
     d\<lparr>sd_shred_emergency_exit_triggered_flag := True,
       sd_active_triggered_exit_event_id := Some key,
       sd_active_dangerous_seller := Some (et_seller_wallet payload),
       sd_active_seller_classification := Some (et_seller_classification payload),
       sd_shred_saved_loss_estimate := et_estimated_saved_loss_vs_waiting_for_geyser payload,
       sd_pending_tentative_sells :=
         (case map_of (sd_pending_tentative_sells d) key of
            None \<Rightarrow> sd_pending_tentative_sells d
          | Some tracking \<Rightarrow> AList.update key
              (tracking\<lparr>tk_paper_exit_triggered := et_paper_allowed payload,
                 tk_warning_level := EmergencyExitRequired\<rparr>) (sd_pending_tentative_sells d))\<rparr>)"

definition resolved_tracking ::
  "'d shred_sell_intent_resolved_event \<Rightarrow> ('d::linordered_field) tentative_sell_tracking \<Rightarrow>
   'd tentative_sell_tracking" where
  "resolved_tracking payload tracking = tracking
    \<lparr>tk_confirmation_state := sr_confirmation_state payload,
     tk_matched_canonical_signature := sr_canonical_signature payload,
     tk_reconciliation_latency_ms := sr_reconciliation_latency_ms payload,
     tk_saved_loss_quote := sr_actual_loss_saved_if_exited payload,
     tk_false_positive_flag := sr_false_positive_flag payload,
     tk_missed_exit_flag := sr_missed_exit_flag payload,
     tk_confirmation_method := sr_confirmation_method payload,
     tk_opportunity_cost_quote :=
       (if sr_false_positive_flag payload then \<bar>sr_actual_loss_saved_if_exited payload\<bar> else 0)\<rparr>"

definition count_outcome ::
  "'d shred_sell_intent_resolved_event \<Rightarrow> ('d::linordered_field) shred_defense_state \<Rightarrow>
   'd shred_defense_state" where
  "count_outcome payload d =
    (case sr_outcome payload of
       tentative_sell_resolution_outcome.ConfirmedExecuted \<Rightarrow>
         d\<lparr>sd_tentative_sell_confirmed_total := sd_tentative_sell_confirmed_total d + 1,
           sd_shred_saved_loss_realized :=
             sd_shred_saved_loss_realized d + sr_actual_loss_saved_if_exited payload,
           sd_shred_to_geyser_processed_ms := sr_reconciliation_latency_ms payload\<rparr>
     | tentative_sell_resolution_outcome.AccountEffectsObserved \<Rightarrow>
         d\<lparr>sd_tentative_sell_confirmed_total := sd_tentative_sell_confirmed_total d + 1,
           sd_shred_to_account_effect_confirmation_ms := sr_reconciliation_latency_ms payload\<rparr>
     | tentative_sell_resolution_outcome.ConfirmedFailed \<Rightarrow>
         d\<lparr>sd_tentative_sell_failed_total := sd_tentative_sell_failed_total d + 1\<rparr>
     | tentative_sell_resolution_outcome.RootedExecuted \<Rightarrow>
         d\<lparr>sd_tentative_sell_confirmed_total := sd_tentative_sell_confirmed_total d + 1,
           sd_shred_to_rooted_confirmation_ms := sr_reconciliation_latency_ms payload\<rparr>
     | tentative_sell_resolution_outcome.NotSeenWithinTtl \<Rightarrow>
         d\<lparr>sd_tentative_sell_not_seen_total := sd_tentative_sell_not_seen_total d + 1\<rparr>
     | tentative_sell_resolution_outcome.Reorged \<Rightarrow>
         d\<lparr>sd_tentative_sell_reorged_total := sd_tentative_sell_reorged_total d + 1\<rparr>
     | tentative_sell_resolution_outcome.DecodeMismatch \<Rightarrow>
         d\<lparr>sd_tentative_sell_decode_mismatch_total := sd_tentative_sell_decode_mismatch_total d + 1\<rparr>)"

definition clear_active_sell :: "('d::linordered_field) shred_defense_state \<Rightarrow> 'd shred_defense_state" where
  "clear_active_sell d = d
    \<lparr>sd_shred_exit_armed_flag := False,
     sd_active_armed_exit_event_id := None,
     sd_active_warning_event_id := None,
     sd_active_triggered_exit_event_id := None,
     sd_active_dangerous_seller := None,
     sd_active_seller_classification := None,
     sd_early_intent_latency_advantage_ms := None,
     sd_required_latency_advantage_ms := None,
     sd_latency_edge_ratio := 0,
     sd_exit_can_land_before_estimated_impact := False,
     sd_absorption_health_score := 0,
     sd_post_sell_absorption_probability := 0,
     sd_emergency_exit_expected_saved_loss := 0,
     sd_emergency_exit_expected_opportunity_cost := 0,
     sd_emergency_exit_net_benefit := 0,
     sd_emergency_exit_net_benefit_confidence := 0\<rparr>"

definition record_sell_resolved ::
  "'d text_env \<Rightarrow> 'd shred_sell_intent_resolved_event \<Rightarrow>
   ('d::linordered_field) shred_defense_state \<Rightarrow> 'd shred_defense_state" where
  "record_sell_resolved env payload d =
    (let key = tx_show_uuid env (sr_original_tentative_event_id payload);
         tracking = resolved_tracking payload
           (unwrap_or default_tentative_sell_tracking (map_of (sd_pending_tentative_sells d) key));
         d = d\<lparr>sd_pending_tentative_sells := AList.delete key (sd_pending_tentative_sells d),
               sd_last_confirmation_level := Some (sr_confirmation_state payload),
               sd_last_resolution_outcome := Some (sr_outcome payload)\<rparr>;
         d = count_outcome payload d;
         d = (if sr_false_positive_flag payload
              then d\<lparr>sd_tentative_sell_false_positive_total := sd_tentative_sell_false_positive_total d + 1,
                     sd_shred_exit_opportunity_cost :=
                       sd_shred_exit_opportunity_cost d + tk_opportunity_cost_quote tracking\<rparr>
              else d) in
     clear_active_sell d)"

definition apply_tentative_sell_intent ::
  "'d text_env \<Rightarrow> 'd tentative_sell_intent_detected_event \<Rightarrow> 'd normalized_event \<Rightarrow>
   ('d::linordered_field) state_engine \<Rightarrow> 'd state_engine" where
  "apply_tentative_sell_intent env payload event =
    with_defense (si_mint payload) event (record_sell_intent env payload)"

definition apply_tentative_sell_warning ::
  "'d text_env \<Rightarrow> 'd tentative_malicious_sell_warning_event \<Rightarrow> 'd normalized_event \<Rightarrow>
   ('d::linordered_field) state_engine \<Rightarrow> 'd state_engine" where
  "apply_tentative_sell_warning env payload event =
    with_defense (sw_mint payload) event (record_sell_warning env payload)"

definition apply_shred_exit_armed ::
  "'d text_env \<Rightarrow> 'd shred_emergency_exit_armed_event \<Rightarrow> 'd normalized_event \<Rightarrow>
   ('d::linordered_field) state_engine \<Rightarrow> 'd state_engine" where
  "apply_shred_exit_armed env payload event =
    with_defense (ea_mint payload) event (record_exit_armed env payload)"

definition apply_shred_exit_triggered ::
  "'d text_env \<Rightarrow> 'd shred_emergency_exit_triggered_event \<Rightarrow> 'd normalized_event \<Rightarrow>
   ('d::linordered_field) state_engine \<Rightarrow> 'd state_engine" where
  "apply_shred_exit_triggered env payload event =
    with_defense (et_mint payload) event (record_exit_triggered env payload)"

definition apply_shred_sell_resolved ::
  "'d text_env \<Rightarrow> 'd shred_sell_intent_resolved_event \<Rightarrow> 'd normalized_event \<Rightarrow>
   ('d::linordered_field) state_engine \<Rightarrow> 'd state_engine" where
  "apply_shred_sell_resolved env payload event =
    with_defense (sr_mint payload) event (record_sell_resolved env payload)"

subsection \<open>Terminal events and data gaps\<close>

definition terminal_lifecycle :: "token_terminal_variant \<Rightarrow> token_lifecycle" where
  "terminal_lifecycle variant =
    (case variant of
       Discarded \<Rightarrow> LcSoftDiscarded
     | token_terminal_variant.SoftDiscarded \<Rightarrow> LcSoftDiscarded
     | token_terminal_variant.HardDiscarded \<Rightarrow> LcHardDiscarded
     | Rugged \<Rightarrow> LcRugArchive
     | Dead \<Rightarrow> LcCompleted
     | Migrated \<Rightarrow> LcMigrated
     | TrackingExpired \<Rightarrow> LcCompleted
     | token_terminal_variant.DataGap \<Rightarrow> LcDataGap
     | ManualStop \<Rightarrow> LcCompleted
     | Completed \<Rightarrow> LcCompleted)"

definition terminal_variant_label :: "token_terminal_variant \<Rightarrow> string" where
  "terminal_variant_label variant =
    (case variant of
       Discarded \<Rightarrow> ''discarded''
     | token_terminal_variant.SoftDiscarded \<Rightarrow> ''soft_discarded''
     | token_terminal_variant.HardDiscarded \<Rightarrow> ''hard_discarded''
     | Rugged \<Rightarrow> ''rugged''
     | Dead \<Rightarrow> ''dead''
     | Migrated \<Rightarrow> ''migrated''
     | TrackingExpired \<Rightarrow> ''tracking_expired''
     | token_terminal_variant.DataGap \<Rightarrow> ''data_gap''
     | ManualStop \<Rightarrow> ''manual_stop''
     | Completed \<Rightarrow> ''completed'')"

definition compact_summary :: "reason_code list \<Rightarrow> ('d::linordered_field) token_state \<Rightarrow> 'd compact_token_summary" where
  "compact_summary reasons token =
    \<lparr>cs_mint = tok_mint token,
     cs_lifecycle = tok_lifecycle token,
     cs_latest_price = tok_latest_price token,
     cs_holder_count = hs_nonzero_holder_count (tok_holder_state token),
     cs_top1_holder_pct = top_holder_pct 1 (tok_holder_state token),
     cs_creator_sold_pct = dv_creator_sell_percentage (tok_developer_state token),
     cs_canonical_trade_count =
       tr_buy_count (tok_trade_stats token) + tr_sell_count (tok_trade_stats token),
     cs_reason_codes = reasons\<rparr>"

definition apply_terminal ::
  "token_terminal_event \<Rightarrow> 'd normalized_event \<Rightarrow> ('d::linordered_field) state_engine \<Rightarrow> 'd state_engine" where
  "apply_terminal payload event s =
    (case map_of (se_tokens s) (tt_mint payload) of
       None \<Rightarrow> s
     | Some token \<Rightarrow>
         let target = terminal_lifecycle (tt_variant payload);
             token = fst (transition_token target (terminal_variant_label (tt_variant payload))
               (em_received_at_wall_time (ne_meta event)) (ttl_for_config (se_ttl s) target) token);
             s = put_token (tt_mint payload) token s in
         s\<lparr>se_discarded_summaries := AList.update (tok_mint token)
             (compact_summary (tt_reason_codes payload) token) (se_discarded_summaries s)\<rparr>)"

definition gap_flag :: string where "gap_flag = ''data_gap''"

definition gap_token :: "'d normalized_event \<Rightarrow> pubkey \<Rightarrow> 'd state_engine \<Rightarrow> 'd state_engine" where
  "gap_token event mint s =
    (case map_of (se_tokens s) mint of
       None \<Rightarrow> s
     | Some token \<Rightarrow>
         put_token mint (fst (transition_token LcDataGap gap_flag (em_received_at_wall_time (ne_meta event))
           (ttl_for_config (se_ttl s) LcDataGap)
           (token\<lparr>tok_data_quality_flags := insert gap_flag (tok_data_quality_flags token)\<rparr>))) s)"

definition apply_data_gap :: "data_gap_event \<Rightarrow> 'd normalized_event \<Rightarrow> 'd state_engine \<Rightarrow> 'd state_engine" where
  "apply_data_gap payload event s = fold (gap_token event) (dg_affected_tokens payload) s"

subsection \<open>Derived indices\<close>

definition cluster_affected_wallets :: "'d normalized_event \<Rightarrow> ('d::linordered_field) state_engine \<Rightarrow> string set option" where
  "cluster_affected_wallets event s =
    map_option (\<lambda>wallets. \<Union> ((\<lambda>wallet. related_wallets wallet (se_cluster_index s)) ` wallets))
      (case ne_payload event of
         TokenCreated payload \<Rightarrow> Some {tc_creator_wallet payload, tc_payer payload}
       | WalletFunding payload \<Rightarrow>
           Some (insert (wf_wallet payload) (wallets_for_funder (se_funding_graph s) (wf_funder payload)))
       | _ \<Rightarrow> None)"

definition update_tokens :: "('d token_state \<Rightarrow> 'd token_state) \<Rightarrow> 'd state_engine \<Rightarrow> 'd state_engine" where
  "update_tokens f s = s\<lparr>se_tokens := map (\<lambda>(mint, token). (mint, f token)) (se_tokens s)\<rparr>"

definition refresh_clusters_for_wallets ::
  "'d text_env \<Rightarrow> string set \<Rightarrow> instant \<Rightarrow> ('d::linordered_field) state_engine \<Rightarrow> 'd state_engine" where
  "refresh_clusters_for_wallets env affected observed_at s =
    (if affected = {} then s else
     let s = s\<lparr>se_wallets := map (\<lambda>(wallet, summary).
           (wallet, if wallet \<in> affected
             then summary\<lparr>ws_cluster_id := cluster_id_for (tx_sha256_hex env) wallet (se_cluster_index s)\<rparr>
             else summary)) (se_wallets s)\<rparr> in
     update_tokens (\<lambda>token.
       if token_touches_any_wallet token affected
       then refresh_exit_threat_index (tx_sha256_hex env) (se_cluster_index s) observed_at
              (refresh_token_cluster_derived (tx_sha256_hex env) (se_cluster_index s) token)
       else token) s)"

text \<open>Two full refreshes that nothing calls.\<close>

definition refresh_clusters :: "'d text_env \<Rightarrow> ('d::linordered_field) state_engine \<Rightarrow> 'd state_engine" where
  "refresh_clusters env s =
    update_tokens (refresh_token_cluster_derived (tx_sha256_hex env) (se_cluster_index s))
      (s\<lparr>se_wallets := map (\<lambda>(k, w). (k, w\<lparr>ws_cluster_id :=
          cluster_id_for (tx_sha256_hex env) (ws_wallet w) (se_cluster_index s)\<rparr>)) (se_wallets s)\<rparr>)"

definition refresh_exit_threat_indices ::
  "'d text_env \<Rightarrow> instant \<Rightarrow> ('d::linordered_field) state_engine \<Rightarrow> 'd state_engine" where
  "refresh_exit_threat_indices env observed_at s =
    update_tokens (refresh_exit_threat_index (tx_sha256_hex env) (se_cluster_index s) observed_at) s"

fun event_updates_exit_threat_inputs :: "'d event_payload \<Rightarrow> bool" where
  "event_updates_exit_threat_inputs (TokenCreated _) = True"
| "event_updates_exit_threat_inputs (PumpBuy _) = True"
| "event_updates_exit_threat_inputs (PumpSell _) = True"
| "event_updates_exit_threat_inputs (BondingCurveUpdate _) = True"
| "event_updates_exit_threat_inputs (HolderBalanceUpdate _) = True"
| "event_updates_exit_threat_inputs (TokenTerminal _) = True"
| "event_updates_exit_threat_inputs (DataGapPayload _) = True"
| "event_updates_exit_threat_inputs _ = False"

definition refresh_token_indices ::
  "'d text_env \<Rightarrow> 'd normalized_event \<Rightarrow> 'd cluster_index \<Rightarrow> ('d::linordered_field) token_state \<Rightarrow> 'd token_state" where
  "refresh_token_indices env event ci token =
    (let token = refresh_token_cluster_derived (tx_sha256_hex env) ci token in
     if event_updates_exit_threat_inputs (ne_payload event)
     then refresh_exit_threat_index (tx_sha256_hex env) ci (em_received_at_wall_time (ne_meta event)) token
     else token)"

definition refresh_derived_indices_for_event ::
  "'d text_env \<Rightarrow> 'd normalized_event \<Rightarrow> ('d::linordered_field) state_engine \<Rightarrow> 'd state_engine" where
  "refresh_derived_indices_for_event env event s =
    (case cluster_affected_wallets event s of
       Some wallets \<Rightarrow> refresh_clusters_for_wallets env wallets (em_received_at_wall_time (ne_meta event)) s
     | None \<Rightarrow>
         (case event_mint event of
            None \<Rightarrow> s
          | Some mint \<Rightarrow>
              (case map_of (se_tokens s) mint of
                 None \<Rightarrow> s
               | Some token \<Rightarrow>
                   put_token mint (refresh_token_indices env event (se_cluster_index s) token) s)))"

subsection \<open>Transitions\<close>

definition trade_total :: "'d token_state \<Rightarrow> u64" where
  "trade_total token = tr_buy_count (tok_trade_stats token) + tr_sell_count (tok_trade_stats token)"

definition activity_target :: "'d token_state \<Rightarrow> token_lifecycle" where
  "activity_target token =
    (let holders = unat (hs_nonzero_holder_count (tok_holder_state token)); trades = unat (trade_total token) in
     if tok_lifecycle token = LcDataGap then LcDataGap
     else if trades \<ge> 4 \<or> holders \<ge> 4 \<or> card (tr_unique_buyers (tok_trade_stats token)) \<ge> 3 then LcActiveDeep
     else if trades \<ge> 2 \<or> holders \<ge> 2 then LcActiveLight
     else if trades \<ge> 1 then LcFirstPass
     else LcDiscovered)"

definition is_terminal_lifecycle :: "token_lifecycle \<Rightarrow> bool" where
  "is_terminal_lifecycle lifecycle \<longleftrightarrow>
     lifecycle \<in> {LcSoftDiscarded, LcHardDiscarded, LcRugArchive, LcMigrated, LcCompleted}"

definition activity_reason :: string where "activity_reason = ''activity_threshold''"

definition recompute_token ::
  "ttl_config \<Rightarrow> 'd normalized_event \<Rightarrow> 'd token_state \<Rightarrow> 'd token_state \<times> lifecycle_transition list" where
  "recompute_token ttl event token =
    (let target = activity_target token; now = em_received_at_wall_time (ne_meta event);
         (token, transitions) =
           (if tok_lifecycle token \<noteq> target \<and> \<not> is_terminal_lifecycle (tok_lifecycle token)
            then (case transition_token target activity_reason now (ttl_for_config ttl target) token of
                    (token, Some t) \<Rightarrow> (token, [t]) | (token, None) \<Rightarrow> (token, []))
            else (token, [])) in
     (update_memory_bytes (renew_expiry ttl event token), transitions))"

definition recompute_transitions ::
  "'d normalized_event \<Rightarrow> 'd state_engine \<Rightarrow> 'd state_engine \<times> lifecycle_transition list" where
  "recompute_transitions event s =
    (case event_mint event of
       None \<Rightarrow> (s, [])
     | Some mint \<Rightarrow>
         (case map_of (se_tokens s) mint of
            None \<Rightarrow> (s, [])
          | Some token \<Rightarrow>
              let (token, transitions) = recompute_token (se_ttl s) event token in
              (put_token mint token s, transitions)))"

subsection \<open>Events and expiry\<close>

definition dispatch_event ::
  "'d text_env \<Rightarrow> 'd normalized_event \<Rightarrow> ('d::linordered_field) state_engine \<Rightarrow> 'd state_engine option" where
  "dispatch_event env event s =
    (case ne_payload event of
       TokenCreated payload \<Rightarrow> Some (apply_token_created payload event s)
     | PumpBuy payload \<Rightarrow> apply_buy payload event s
     | PumpSell payload \<Rightarrow> (if is_tentative event then Some s else apply_sell payload event s)
     | BondingCurveUpdate payload \<Rightarrow> apply_curve_update payload event s
     | HolderBalanceUpdate payload \<Rightarrow> apply_holder_update env payload event s
     | WalletFunding payload \<Rightarrow> Some (apply_funding payload event s)
     | ObservedTransaction payload \<Rightarrow> Some (apply_observed_transaction payload event s)
     | TentativeSellIntentDetected payload \<Rightarrow> Some (apply_tentative_sell_intent env payload event s)
     | TentativeMaliciousSellWarning payload \<Rightarrow> Some (apply_tentative_sell_warning env payload event s)
     | ShredEmergencyExitArmed payload \<Rightarrow> Some (apply_shred_exit_armed env payload event s)
     | ShredEmergencyExitTriggered payload \<Rightarrow> Some (apply_shred_exit_triggered env payload event s)
     | ShredSellIntentResolved payload \<Rightarrow> Some (apply_shred_sell_resolved env payload event s)
     | TokenTerminal payload \<Rightarrow> Some (apply_terminal payload event s)
     | DataGapPayload payload \<Rightarrow> Some (apply_data_gap payload event s)
     | TradeDecision _ \<Rightarrow> Some s
     | SimulatedFill _ \<Rightarrow> Some s
     | LiveFill _ \<Rightarrow> Some s)"

definition apply_event ::
  "'d text_env \<Rightarrow> 'd normalized_event \<Rightarrow> ('d::linordered_field) state_engine \<Rightarrow>
   ('d state_engine \<times> lifecycle_transition list) option" where
  "apply_event env event s =
    (if em_canonicality (ne_meta event) = Reverted
     then Some (case event_signature event of
         None \<Rightarrow> (s, [])
       | Some signature \<Rightarrow>
           (s\<lparr>se_tentative_signatures := AList.delete signature (se_tentative_signatures s)\<rparr>, []))
     else map_option (\<lambda>s'. recompute_transitions event (refresh_derived_indices_for_event env event s'))
       (dispatch_event env event s))"

definition expired_at :: "instant \<Rightarrow> 'd token_state \<Rightarrow> bool" where
  "expired_at now token \<longleftrightarrow> (case tok_expires_at token of None \<Rightarrow> False | Some expires_at \<Rightarrow> expires_at \<le> now)"

definition expire_token ::
  "string \<Rightarrow> ('d::linordered_field) state_engine \<times> 'd compact_token_summary list \<Rightarrow>
   'd state_engine \<times> 'd compact_token_summary list" where
  "expire_token mint = (\<lambda>(s, summaries).
    case map_of (se_tokens s) mint of
      None \<Rightarrow> (s, summaries)
    | Some token \<Rightarrow>
        let summary = compact_summary [reason_code.SoftDiscarded] token in
        (s\<lparr>se_tokens := AList.delete mint (se_tokens s),
           se_discarded_summaries := AList.update (cs_mint summary) summary (se_discarded_summaries s)\<rparr>,
         summaries @ [summary]))"

definition expire_tokens ::
  "instant \<Rightarrow> ('d::linordered_field) state_engine \<Rightarrow> 'd state_engine \<times> 'd compact_token_summary list" where
  "expire_tokens now s =
    (let expired = map fst (filter (\<lambda>(mint, token). expired_at now token) (se_tokens s)) in
     fold expire_token expired (s, []))"

definition rugged_token_count :: "'d state_engine \<Rightarrow> usize" where
  "rugged_token_count s =
    count_usize (filter (\<lambda>(mint, token). tok_lifecycle token = LcRugArchive) (se_tokens s))"

definition engine_snapshot :: "'d state_engine \<Rightarrow> 'd state_snapshot" where
  "engine_snapshot s =
    \<lparr>ss_tokens = se_tokens s, ss_wallets = se_wallets s, ss_funding_graph = se_funding_graph s,
     ss_cluster_index = se_cluster_index s, ss_discarded_summaries = se_discarded_summaries s\<rparr>"

end
