(* ===== verification/Engine_Steps.thy ===== *)
theory Engine_Steps
  imports Token_Engine
begin

text \<open>
  What one event does to the table of tokens. Each handler enters at most one token and changes it by a
  function of that token alone (\<open>token_handler\<close>); what follows in \<open>apply_event\<close> changes derived data and the
  lifecycle. The locales turn a law of these token steps into a law of runs of the engine.
\<close>

subsection \<open>The token part of a handler\<close>

definition sign_token :: "'d normalized_event \<Rightarrow> 'd token_state \<Rightarrow> 'd token_state" where
  "sign_token event token =
    (case event_signature event of
       None \<Rightarrow> token
     | Some signature \<Rightarrow>
         if is_tentative event
         then token\<lparr>tok_tentative_signatures := insert signature (tok_tentative_signatures token)\<rparr>
         else token\<lparr>tok_canonical_signatures := insert signature (tok_canonical_signatures token),
                    tok_tentative_signatures := tok_tentative_signatures token - {signature},
                    tok_tentative_only := False\<rparr>)"

definition holders_updated ::
  "'d holder_balance_update_event \<Rightarrow> 'd holder_state \<Rightarrow> ('d::linordered_field) token_state \<Rightarrow> 'd token_state" where
  "holders_updated payload holders token =
    (let token = token\<lparr>tok_holder_state := holders\<rparr> in
     recalc_developer_rank (if tok_creator token = Some (hb_owner_wallet payload)
       then token\<lparr>tok_developer_state := (tok_developer_state token)
           \<lparr>dv_creator_net_tokens := hb_new_balance payload,
            dv_creator_initial_holding :=
              max (dv_creator_initial_holding (tok_developer_state token)) (hb_new_balance payload)\<rparr>\<rparr>
       else token))"

definition curve_updated ::
  "'d bonding_curve_update_event \<Rightarrow> 'd normalized_event \<Rightarrow> 'd bonding_curve_state \<Rightarrow> 'd token_state \<Rightarrow> 'd token_state" where
  "curve_updated payload event curve token = token
    \<lparr>tok_reserve_state := curve
       \<lparr>cv_last_updated_at := Some (em_received_at_wall_time (ne_meta event))\<rparr>,
     tok_latest_price := bc_price payload\<rparr>"

definition defense_updated ::
  "('d shred_defense_state \<Rightarrow> 'd shred_defense_state) \<Rightarrow> 'd token_state \<Rightarrow> 'd token_state" where
  "defense_updated f token = token\<lparr>tok_shred_defense := f (tok_shred_defense token)\<rparr>"

definition token_handler ::
  "'d text_env \<Rightarrow> ttl_config \<Rightarrow> 'd normalized_event \<Rightarrow> 'd observed_transaction_summary option \<Rightarrow>
   ('d::linordered_field) token_state \<Rightarrow> 'd token_state option" where
  "token_handler env ttl event shape token =
    (case ne_payload event of
       TokenCreated payload \<Rightarrow> Some (update_memory_bytes (sign_token event
         (renew_expiry ttl event (created_token payload event token))))
     | PumpBuy payload \<Rightarrow> map_option (\<lambda>computed. update_memory_bytes (renew_expiry ttl event
         (bought_token payload event shape (unwrap_or (pb_effective_price payload) computed)
           (sign_token event token))))
         (price_sol_per_ui_token (pb_quote_in payload) (pb_token_out payload)
           (cv_token_decimals (tok_reserve_state token)))
     | PumpSell payload \<Rightarrow> map_option (\<lambda>computed. update_memory_bytes (renew_expiry ttl event
         (sold_token payload event shape (unwrap_or (ps_effective_price payload) computed)
           (sign_token event token))))
         (price_sol_per_ui_token (ps_quote_out payload) (ps_token_in payload)
           (cv_token_decimals (tok_reserve_state token)))
     | BondingCurveUpdate payload \<Rightarrow> map_option (\<lambda>(curve, applied).
         if applied then update_memory_bytes (curve_updated payload event curve token) else token)
         (apply_update payload (em_slot (ne_meta event)) (tok_reserve_state token))
     | HolderBalanceUpdate payload \<Rightarrow> map_option (\<lambda>holders.
         update_memory_bytes (holders_updated payload holders token))
         (apply_balance_update (tx_show_decimal env) payload event
           (unwrap_or (cv_token_decimals (tok_reserve_state token)) (hb_token_decimals payload))
           (tok_holder_state token))
     | TentativeSellIntentDetected payload \<Rightarrow>
         Some (update_memory_bytes (defense_updated (record_sell_intent env payload) token))
     | TentativeMaliciousSellWarning payload \<Rightarrow>
         Some (update_memory_bytes (defense_updated (record_sell_warning env payload) token))
     | ShredEmergencyExitArmed payload \<Rightarrow>
         Some (update_memory_bytes (defense_updated (record_exit_armed env payload) token))
     | ShredEmergencyExitTriggered payload \<Rightarrow>
         Some (update_memory_bytes (defense_updated (record_exit_triggered env payload) token))
     | ShredSellIntentResolved payload \<Rightarrow>
         Some (update_memory_bytes (defense_updated (record_sell_resolved env payload) token))
     | _ \<Rightarrow> Some token)"

text \<open>The token an event enters, created when it is not tracked.\<close>

definition entered_mint :: "'d normalized_event \<Rightarrow> pubkey option" where
  "entered_mint event =
    (case ne_payload event of
       PumpSell payload \<Rightarrow> if is_tentative event then None else Some (ps_mint payload)
     | TokenTerminal _ \<Rightarrow> None
     | TradeDecision _ \<Rightarrow> None
     | SimulatedFill _ \<Rightarrow> None
     | LiveFill _ \<Rightarrow> None
     | payload \<Rightarrow> payload_mint payload)"

lemma note_signature_token [simp]: "fst (note_signature event (token, s)) = sign_token event token"
  by (simp add: note_signature_def sign_token_def split: option.splits)

lemma note_signature_tables [simp]:
  "se_tokens (snd (note_signature event (token, s))) = se_tokens s"
  "se_ttl (snd (note_signature event (token, s))) = se_ttl s"
  "se_cluster_index (snd (note_signature event (token, s))) = se_cluster_index s"
  by (simp_all add: note_signature_def split: option.splits)

lemma touch_wallet_tables [simp]:
  "se_tokens (touch_wallet w now f s) = se_tokens s"
  "se_ttl (touch_wallet w now f s) = se_ttl s"
  "se_cluster_index (touch_wallet w now f s) = se_cluster_index s"
  by (simp_all add: touch_wallet_def Let_def)

lemma put_token_tables [simp]:
  "se_tokens (put_token mint token s) = AList.update mint token (se_tokens s)"
  "se_ttl (put_token mint token s) = se_ttl s"
  "se_cluster_index (put_token mint token s) = se_cluster_index s"
  by (simp_all add: put_token_def)

lemma known_decimals_entry:
  "known_decimals mint s = cv_token_decimals (tok_reserve_state (entry_token mint source s))"
  by (simp add: known_decimals_def entry_token_def new_token_state_def default_bonding_curve_state_def
      split: option.splits) (simp add: unwrap_or_def split: option.splits)

lemma with_defense_tables [simp]:
  "se_tokens (with_defense mint event f s) = AList.update mint
     (update_memory_bytes (defense_updated f (entry_token mint (em_source (ne_meta event)) s))) (se_tokens s)"
  "se_ttl (with_defense mint event f s) = se_ttl s"
  by (simp_all add: with_defense_def Let_def defense_updated_def)

lemmas shred_handler_defs = apply_tentative_sell_intent_def apply_tentative_sell_warning_def
  apply_shred_exit_armed_def apply_shred_exit_triggered_def apply_shred_sell_resolved_def

lemma apply_holder_update_unfold:
  "apply_holder_update env payload event s =
    map_option (\<lambda>holders.
      touch_wallet (hb_owner_wallet payload) (em_received_at_wall_time (ne_meta event)) (\<lambda>w. w)
        (put_token (hb_mint payload) (update_memory_bytes
           (holders_updated payload holders (entry_token (hb_mint payload) (em_source (ne_meta event)) s))) s))
    (apply_balance_update (tx_show_decimal env) payload event
      (unwrap_or (cv_token_decimals (tok_reserve_state
         (entry_token (hb_mint payload) (em_source (ne_meta event)) s))) (hb_token_decimals payload))
      (tok_holder_state (entry_token (hb_mint payload) (em_source (ne_meta event)) s)))"
  unfolding apply_holder_update_def holders_updated_def Let_def by (rule refl)

lemma apply_curve_update_unfold:
  "apply_curve_update payload event s =
    map_option (\<lambda>(curve, applied).
      if applied
      then put_token (bc_mint payload) (update_memory_bytes (curve_updated payload event curve
             (entry_token (bc_mint payload) (em_source (ne_meta event)) s))) s
      else put_token (bc_mint payload) (entry_token (bc_mint payload) (em_source (ne_meta event)) s) s)
    (apply_update payload (em_slot (ne_meta event))
      (tok_reserve_state (entry_token (bc_mint payload) (em_source (ne_meta event)) s)))"
  unfolding apply_curve_update_def curve_updated_def Let_def by (rule refl)

text \<open>Every handler, read as a step of the table of tokens.\<close>

lemma dispatch_entered:
  assumes "dispatch_event env event s = Some s'" and "entered_mint event = Some mint"
  obtains token where
    "token_handler env (se_ttl s) event (shape_of_event event s)
       (entry_token mint (em_source (ne_meta event)) s) = Some token"
    "se_tokens s' = AList.update mint token (se_tokens s)" "se_ttl s' = se_ttl s"
proof (cases "ne_payload event")
  case (TokenCreated p)
  with assms show ?thesis
    by (intro that) (auto simp: dispatch_event_def token_handler_def entered_mint_def
        apply_token_created_def Let_def case_prod_beta)
next
  case (PumpBuy p)
  with assms obtain computed where
    "price_sol_per_ui_token (pb_quote_in p) (pb_token_out p) (known_decimals mint s) = Some computed"
    by (auto simp: dispatch_event_def apply_buy_def entered_mint_def)
  with PumpBuy assms show ?thesis
    by (intro that) (auto simp: dispatch_event_def token_handler_def entered_mint_def
        apply_buy_def Let_def case_prod_beta known_decimals_entry [where source = "em_source (ne_meta event)"])
next
  case (PumpSell p)
  with assms obtain computed where
    "price_sol_per_ui_token (ps_quote_out p) (ps_token_in p) (known_decimals mint s) = Some computed"
    by (auto simp: dispatch_event_def apply_sell_def entered_mint_def split: if_splits)
  with PumpSell assms show ?thesis
    by (intro that) (auto simp: dispatch_event_def token_handler_def entered_mint_def
        apply_sell_def Let_def case_prod_beta known_decimals_entry [where source = "em_source (ne_meta event)"]
        split: if_splits)
next
  case (BondingCurveUpdate p)
  let ?token = "entry_token mint (em_source (ne_meta event)) s"
  from BondingCurveUpdate assms(2) have mint: "bc_mint p = mint" by (simp add: entered_mint_def)
  from BondingCurveUpdate assms(1) obtain curve applied where curve:
    "apply_update p (em_slot (ne_meta event)) (tok_reserve_state ?token) = Some (curve, applied)"
    and s': "s' = put_token mint
        (if applied then update_memory_bytes (curve_updated p event curve ?token) else ?token) s"
    by (auto simp: dispatch_event_def apply_curve_update_unfold mint)
  show ?thesis
    by (rule that) (simp_all add: token_handler_def BondingCurveUpdate curve s')
next
  case (HolderBalanceUpdate p)
  let ?token = "entry_token mint (em_source (ne_meta event)) s"
  from HolderBalanceUpdate assms(2) have mint: "hb_mint p = mint" by (simp add: entered_mint_def)
  from HolderBalanceUpdate assms(1) obtain holders where holders:
    "apply_balance_update (tx_show_decimal env) p event
       (unwrap_or (cv_token_decimals (tok_reserve_state ?token)) (hb_token_decimals p))
       (tok_holder_state ?token) = Some holders"
    and s': "s' = touch_wallet (hb_owner_wallet p) (em_received_at_wall_time (ne_meta event)) (\<lambda>w. w)
        (put_token mint (update_memory_bytes (holders_updated p holders ?token)) s)"
    by (auto simp: dispatch_event_def apply_holder_update_unfold mint)
  show ?thesis
    by (rule that) (simp_all add: token_handler_def HolderBalanceUpdate holders s')
qed (use assms in \<open>auto simp: dispatch_event_def token_handler_def entered_mint_def shred_handler_defs
      intro!: that\<close>)


definition ended_token ::
  "token_terminal_event \<Rightarrow> 'd normalized_event \<Rightarrow> ttl_config \<Rightarrow> 'd token_state \<Rightarrow> 'd token_state" where
  "ended_token payload event ttl token =
    (let target = terminal_lifecycle (tt_variant payload) in
     fst (transition_token target (terminal_variant_label (tt_variant payload))
       (em_received_at_wall_time (ne_meta event)) (ttl_for_config ttl target) token))"

definition gapped_token :: "'d normalized_event \<Rightarrow> ttl_config \<Rightarrow> 'd token_state \<Rightarrow> 'd token_state" where
  "gapped_token event ttl token =
    fst (transition_token LcDataGap gap_flag (em_received_at_wall_time (ne_meta event))
      (ttl_for_config ttl LcDataGap)
      (token\<lparr>tok_data_quality_flags := insert gap_flag (tok_data_quality_flags token)\<rparr>))"

lemma apply_terminal_tokens:
  "se_tokens (apply_terminal p event s) =
    (case map_of (se_tokens s) (tt_mint p) of
       None \<Rightarrow> se_tokens s
     | Some token \<Rightarrow> AList.update (tt_mint p) (ended_token p event (se_ttl s) token) (se_tokens s))"
  "se_ttl (apply_terminal p event s) = se_ttl s"
  by (simp_all add: apply_terminal_def ended_token_def Let_def split: option.splits)

lemma gap_token_tokens:
  "map_of (se_tokens (gap_token event mint s)) m =
    (if m = mint then map_option (gapped_token event (se_ttl s)) (map_of (se_tokens s) m)
     else map_of (se_tokens s) m)"
  "se_ttl (gap_token event mint s) = se_ttl s"
  by (simp_all add: gap_token_def gapped_token_def update_conv' split: option.splits)

subsection \<open>Token steps\<close>

inductive token_step :: "'d text_env \<Rightarrow> ('d::linordered_field) token_state \<Rightarrow> 'd token_state \<Rightarrow> bool"
  for env :: "'d text_env" where
  handled: "token_handler env ttl event shape t = Some t' \<Longrightarrow> token_step env t t'"
| clustered: "token_step env t (refresh_token_cluster_derived (tx_sha256_hex env) ci t)"
| threatened: "token_step env t (refresh_exit_threat_index (tx_sha256_hex env) ci now t)"
| moved: "token_step env t (t\<lparr>tok_lifecycle := l, tok_expires_at := e\<rparr>)"
| flagged: "token_step env t (t\<lparr>tok_data_quality_flags := flags\<rparr>)"
| sized: "token_step env t (update_memory_bytes t)"

abbreviation token_steps :: "'d text_env \<Rightarrow> ('d::linordered_field) token_state \<Rightarrow> 'd token_state \<Rightarrow> bool" where
  "token_steps env \<equiv> (token_step env)\<^sup>*\<^sup>*"

lemma transition_steps: "token_steps env t (fst (transition_token l reason now ttl t))"
  by (auto simp: transition_token_def intro: token_step.moved)

lemma renew_steps: "token_steps env t (renew_expiry ttl event t)"
proof -
  have "renew_expiry ttl event t = t\<lparr>tok_lifecycle := tok_lifecycle t, tok_expires_at :=
      Some (em_received_at_wall_time (ne_meta event) + ttl_for_config ttl (tok_lifecycle t))\<rparr>"
    by (simp add: renew_expiry_def)
  then show ?thesis using token_step.moved [of env t] by (metis r_into_rtranclp)
qed

lemma ended_steps: "token_steps env t (ended_token p event ttl t)"
  by (simp add: ended_token_def Let_def transition_steps)

lemma gapped_steps: "token_steps env t (gapped_token event ttl t)"
  unfolding gapped_token_def by (rule converse_rtranclp_into_rtranclp [OF token_step.flagged transition_steps])

lemma indices_steps: "token_steps env t (refresh_token_indices env event ci t)"
  by (auto simp: refresh_token_indices_def Let_def
      intro: token_step.clustered rtranclp.rtrancl_into_rtrancl [OF r_into_rtranclp] token_step.threatened)

lemma cluster_threat_steps:
  "token_steps env t (refresh_exit_threat_index (tx_sha256_hex env) ci now
     (refresh_token_cluster_derived (tx_sha256_hex env) ci' t))"
  by (rule rtranclp.rtrancl_into_rtrancl [OF r_into_rtranclp]) (rule token_step.clustered token_step.threatened)+

definition moves :: "'d token_state \<Rightarrow> bool" where
  "moves t \<longleftrightarrow> tok_lifecycle t \<noteq> activity_target t \<and> \<not> is_terminal_lifecycle (tok_lifecycle t)"

lemma recompute_token_moves:
  "recompute_token ttl event t =
    (if moves t
     then (update_memory_bytes (renew_expiry ttl event (t\<lparr>tok_lifecycle := activity_target t,
             tok_expires_at := Some (em_received_at_wall_time (ne_meta event) +
               ttl_for_config ttl (activity_target t))\<rparr>)),
           [\<lparr>lt_mint = tok_mint t, lt_from = tok_lifecycle t, lt_to = activity_target t,
             lt_reason = activity_reason, lt_observed_at = em_received_at_wall_time (ne_meta event)\<rparr>])
     else (update_memory_bytes (renew_expiry ttl event t), []))"
  by (simp add: recompute_token_def transition_token_def moves_def Let_def)

lemma recompute_steps: "token_steps env t (fst (recompute_token ttl event t))"
proof -
  have sized: "token_steps env t u \<Longrightarrow> token_steps env t (update_memory_bytes (renew_expiry ttl event u))" for u
    by (erule rtranclp_trans) (rule rtranclp.rtrancl_into_rtrancl [OF renew_steps token_step.sized])
  show ?thesis
    unfolding recompute_token_moves
    by (auto intro!: sized token_step.moved)
qed

subsection \<open>Steps of the table\<close>

definition mint_steps :: "'d text_env \<Rightarrow> ('d::linordered_field) state_engine \<Rightarrow> 'd state_engine \<Rightarrow> pubkey \<Rightarrow> bool" where
  "mint_steps env s s' m \<longleftrightarrow>
     (case map_of (se_tokens s) m of
        Some t \<Rightarrow> \<exists>t'. map_of (se_tokens s') m = Some t' \<and> token_steps env t t'
      | None \<Rightarrow> (case map_of (se_tokens s') m of
          Some t' \<Rightarrow> \<exists>source. token_steps env (new_token_state m source) t'
        | None \<Rightarrow> True))"

definition table_steps :: "'d text_env \<Rightarrow> ('d::linordered_field) state_engine \<Rightarrow> 'd state_engine \<Rightarrow> bool" where
  "table_steps env s s' \<longleftrightarrow>
     (distinct (map fst (se_tokens s)) \<longrightarrow> distinct (map fst (se_tokens s'))) \<and>
     (\<forall>m. mint_steps env s s' m)"

lemmas table_steps_defs = table_steps_def mint_steps_def

lemma table_steps_refl [simp]: "table_steps env s s"
  by (auto simp: table_steps_defs split: option.splits)

lemma table_steps_tokens:
  "se_tokens s' = se_tokens s \<Longrightarrow> table_steps env s s'"
  by (auto simp: table_steps_defs split: option.splits)

lemma mint_steps_trans:
  assumes "mint_steps env s t m" "mint_steps env t u m"
  shows "mint_steps env s u m"
proof (cases "map_of (se_tokens s) m")
  case None
  with assms show ?thesis
    unfolding mint_steps_def
    by (cases "map_of (se_tokens t) m"; cases "map_of (se_tokens u) m")
      (auto dest: rtranclp_trans [of "token_step env"])
next
  case (Some x)
  with assms obtain y where "map_of (se_tokens t) m = Some y" "token_steps env x y"
    by (auto simp: mint_steps_def)
  with assms Some show ?thesis by (auto simp: mint_steps_def intro: rtranclp_trans)
qed

lemma table_steps_trans:
  "table_steps env s t \<Longrightarrow> table_steps env t u \<Longrightarrow> table_steps env s u"
  unfolding table_steps_def using mint_steps_trans by blast

lemma table_steps_update:
  assumes "token_steps env (entry_token mint source s) t"
    and "se_tokens s' = AList.update mint t (se_tokens s)"
  shows "table_steps env s s'"
  using assms
  by (auto simp: table_steps_defs entry_token_def unwrap_or_def update_conv' distinct_update split: option.splits)

lemma table_steps_put:
  assumes "map_of (se_tokens s) mint = Some t" and "token_steps env t t'"
    and "se_tokens s' = AList.update mint t' (se_tokens s)"
  shows "table_steps env s s'"
  using assms by (auto simp: table_steps_defs update_conv' distinct_update split: option.splits)

lemma table_steps_map:
  assumes "\<And>t. token_steps env t (f t)" and "se_tokens s' = map (\<lambda>(m, t). (m, f t)) (se_tokens s)"
  shows "table_steps env s s'"
proof -
  have "map_of (se_tokens s') m = map_option f (map_of (se_tokens s) m)" for m
    unfolding assms(2) by (simp add: map_of_map)
  moreover have "map fst (se_tokens s') = map fst (se_tokens s)"
    unfolding assms(2) by (simp add: case_prod_beta comp_def)
  ultimately show ?thesis using assms(1) by (auto simp: table_steps_defs split: option.splits)
qed

lemma data_gap_steps:
  "table_steps env s (fold (gap_token event) ms s) \<and> se_ttl (fold (gap_token event) ms s) = se_ttl s"
proof (rule fold_keeps)
  fix m and u :: "'a state_engine"
  assume IH: "table_steps env s u \<and> se_ttl u = se_ttl s"
  have "table_steps env u (gap_token event m u)"
    by (auto simp: gap_token_def gapped_token_def [symmetric] intro: table_steps_put [OF _ gapped_steps]
        split: option.splits)
  with IH show "table_steps env s (gap_token event m u) \<and> se_ttl (gap_token event m u) = se_ttl s"
    by (auto simp: gap_token_tokens intro: table_steps_trans)
qed simp

lemma dispatch_steps:
  assumes run: "dispatch_event env event s = Some s'"
  shows "table_steps env s s' \<and> se_ttl s' = se_ttl s"
proof (cases "entered_mint event")
  case (Some mint)
  from run Some obtain token where
    token: "token_handler env (se_ttl s) event (shape_of_event event s)
       (entry_token mint (em_source (ne_meta event)) s) = Some token"
      "se_tokens s' = AList.update mint token (se_tokens s)" "se_ttl s' = se_ttl s"
    by (rule dispatch_entered)
  then show ?thesis using token_step.handled [OF token(1)] by (auto intro: table_steps_update)
next
  case None
  show ?thesis
  proof (cases "ne_payload event")
    case (TokenTerminal p)
    with run have s': "s' = apply_terminal p event s" by (simp add: dispatch_event_def)
    have "table_steps env s s'"
      unfolding s'
      by (cases "map_of (se_tokens s) (tt_mint p)")
        (auto simp: apply_terminal_tokens intro: table_steps_tokens table_steps_put [OF _ ended_steps])
    then show ?thesis by (simp add: s' apply_terminal_tokens)
  next
    case (DataGapPayload p)
    with run data_gap_steps show ?thesis by (auto simp: dispatch_event_def apply_data_gap_def)
  next
    case (WalletFunding p)
    with run show ?thesis
      by (auto simp: dispatch_event_def apply_funding_def Let_def case_prod_beta intro: table_steps_tokens)
  next
    case (ObservedTransaction p)
    with run show ?thesis
      by (auto simp: dispatch_event_def apply_observed_transaction_def intro!: table_steps_tokens
          split: option.splits)
  qed (use run None in \<open>auto simp: dispatch_event_def entered_mint_def split: if_splits\<close>)
qed

lemma refresh_steps:
  "table_steps env s (refresh_derived_indices_for_event env event s) \<and>
   se_ttl (refresh_derived_indices_for_event env event s) = se_ttl s"
proof (cases "cluster_affected_wallets event s")
  case (Some wallets)
  let ?f = "\<lambda>token. if token_touches_any_wallet token wallets
       then refresh_exit_threat_index (tx_sha256_hex env) (se_cluster_index s)
              (em_received_at_wall_time (ne_meta event))
              (refresh_token_cluster_derived (tx_sha256_hex env) (se_cluster_index s) token)
       else token"
  have "table_steps env s (refresh_derived_indices_for_event env event s)"
  proof (cases "wallets = {}")
    case True
    with Some show ?thesis
      by (simp add: refresh_derived_indices_for_event_def refresh_clusters_for_wallets_def)
  next
    case False
    with Some show ?thesis
      by (intro table_steps_map [where f = ?f])
        (auto simp: refresh_derived_indices_for_event_def refresh_clusters_for_wallets_def Let_def
          update_tokens_def cluster_threat_steps)
  qed
  with Some show ?thesis
    by (simp add: refresh_derived_indices_for_event_def refresh_clusters_for_wallets_def Let_def update_tokens_def)
next
  case None
  then show ?thesis
    by (auto simp: refresh_derived_indices_for_event_def
        intro: table_steps_put [OF _ indices_steps] split: option.splits)
qed

lemma recompute_table_steps:
  "table_steps env s (fst (recompute_transitions event s)) \<and>
   se_ttl (fst (recompute_transitions event s)) = se_ttl s"
  by (auto simp: recompute_transitions_def case_prod_beta Let_def
      intro: table_steps_put [OF _ recompute_steps] split: option.splits)

text \<open>An event steps every tracked token, loses none, and steps the one it creates from a new state.\<close>

lemma event_steps:
  assumes "apply_event env event s = Some (s', ts)"
  shows "table_steps env s s' \<and> se_ttl s' = se_ttl s"
proof (cases "em_canonicality (ne_meta event) = Reverted")
  case True
  with assms show ?thesis by (auto simp: apply_event_def intro!: table_steps_tokens split: option.splits)
next
  case False
  with assms obtain d where d: "dispatch_event env event s = Some d"
    "s' = fst (recompute_transitions event (refresh_derived_indices_for_event env event d))"
    by (auto simp: apply_event_def dest: sym)
  show ?thesis
    unfolding d(2)
    using dispatch_steps [OF d(1)] refresh_steps [of env d event]
      recompute_table_steps [of env "refresh_derived_indices_for_event env event d" event]
    by (auto intro: table_steps_trans)
qed

end
