(* ===== verification/Engine_Properties.thy ===== *)
theory Engine_Properties
  imports Engine_Steps
begin

text \<open>
  Properties of the state engine over runs of events and expiries: laws that hold of every tracked token,
  stated once in a locale and instantiated for the holders, the histories, the signatures and the launch
  price; the lifecycle as a state machine; expiry; locality of events; absence of panics.
\<close>

named_theorems token_fields "fields the parts of a handler leave alone"

lemma sign_token_fields [token_fields]:
  "tok_mint (sign_token e t) = tok_mint t"
  "tok_lifecycle (sign_token e t) = tok_lifecycle t"
  "tok_trade_stats (sign_token e t) = tok_trade_stats t"
  "tok_holder_state (sign_token e t) = tok_holder_state t"
  "tok_reserve_state (sign_token e t) = tok_reserve_state t"
  "tok_shred_defense (sign_token e t) = tok_shred_defense t"
  "tok_creator (sign_token e t) = tok_creator t"
  by (simp_all add: sign_token_def split: option.splits)

lemma renew_expiry_fields [token_fields]:
  "tok_mint (renew_expiry ttl e t) = tok_mint t"
  "tok_lifecycle (renew_expiry ttl e t) = tok_lifecycle t"
  "tok_trade_stats (renew_expiry ttl e t) = tok_trade_stats t"
  "tok_holder_state (renew_expiry ttl e t) = tok_holder_state t"
  "tok_reserve_state (renew_expiry ttl e t) = tok_reserve_state t"
  "tok_shred_defense (renew_expiry ttl e t) = tok_shred_defense t"
  "tok_creator (renew_expiry ttl e t) = tok_creator t"
  "tok_canonical_signatures (renew_expiry ttl e t) = tok_canonical_signatures t"
  "tok_tentative_only (renew_expiry ttl e t) = tok_tentative_only t"
  by (simp_all add: renew_expiry_def)

lemma memory_fields [token_fields]:
  "tok_mint (update_memory_bytes t) = tok_mint t"
  "tok_lifecycle (update_memory_bytes t) = tok_lifecycle t"
  "tok_trade_stats (update_memory_bytes t) = tok_trade_stats t"
  "tok_holder_state (update_memory_bytes t) = tok_holder_state t"
  "tok_reserve_state (update_memory_bytes t) = tok_reserve_state t"
  "tok_shred_defense (update_memory_bytes t) = tok_shred_defense t"
  "tok_creator (update_memory_bytes t) = tok_creator t"
  "tok_canonical_signatures (update_memory_bytes t) = tok_canonical_signatures t"
  "tok_tentative_only (update_memory_bytes t) = tok_tentative_only t"
  "tok_expires_at (update_memory_bytes t) = tok_expires_at t"
  by (simp_all add: update_memory_bytes_def)

lemma created_fields [token_fields]:
  "tok_mint (created_token p e t) = tok_mint t"
  "tok_lifecycle (created_token p e t) = tok_lifecycle t"
  "tok_trade_stats (created_token p e t) = tok_trade_stats t"
  "tok_holder_state (created_token p e t) = tok_holder_state t"
  "tok_shred_defense (created_token p e t) = tok_shred_defense t"
  "tok_canonical_signatures (created_token p e t) = tok_canonical_signatures t"
  "tok_tentative_only (created_token p e t) = tok_tentative_only t"
  "cv_launch_price (tok_reserve_state (created_token p e t)) =
     first_some (cv_launch_price (tok_reserve_state t)) (Some 0)"
  "cv_token_decimals (tok_reserve_state (created_token p e t)) = cv_token_decimals (tok_reserve_state t)"
  by (simp_all add: created_token_def)

lemma bought_fields [token_fields]:
  "tok_mint (bought_token p e shape price t) = tok_mint t"
  "tok_lifecycle (bought_token p e shape price t) = tok_lifecycle t"
  "tok_trade_stats (bought_token p e shape price t) =
     record_trade (buy_observation p e shape price t) (tok_trade_stats t)"
  "tok_holder_state (bought_token p e shape price t) =
     apply_trade_cost_basis (pb_buyer p) True (pb_quote_in p) (pb_token_out p)
       (em_received_at_wall_time (ne_meta e)) price (tok_holder_state t)"
  "tok_reserve_state (bought_token p e shape price t) = tok_reserve_state t"
  "tok_shred_defense (bought_token p e shape price t) = tok_shred_defense t"
  "tok_canonical_signatures (bought_token p e shape price t) = tok_canonical_signatures t"
  "tok_tentative_only (bought_token p e shape price t) = tok_tentative_only t"
  by (simp_all add: bought_token_def)

lemma sold_fields [token_fields]:
  "tok_mint (sold_token p e shape price t) = tok_mint t"
  "tok_lifecycle (sold_token p e shape price t) = tok_lifecycle t"
  "tok_trade_stats (sold_token p e shape price t) =
     record_trade (sell_observation p e shape price t) (tok_trade_stats t)"
  "tok_holder_state (sold_token p e shape price t) =
     apply_trade_cost_basis (ps_seller p) False (ps_quote_out p) (ps_token_in p)
       (em_received_at_wall_time (ne_meta e)) price (tok_holder_state t)"
  "tok_reserve_state (sold_token p e shape price t) = tok_reserve_state t"
  "tok_shred_defense (sold_token p e shape price t) = tok_shred_defense t"
  "tok_canonical_signatures (sold_token p e shape price t) = tok_canonical_signatures t"
  "tok_tentative_only (sold_token p e shape price t) = tok_tentative_only t"
  by (simp_all add: sold_token_def)

lemma curve_updated_fields [token_fields]:
  "tok_mint (curve_updated p e c t) = tok_mint t"
  "tok_lifecycle (curve_updated p e c t) = tok_lifecycle t"
  "tok_trade_stats (curve_updated p e c t) = tok_trade_stats t"
  "tok_holder_state (curve_updated p e c t) = tok_holder_state t"
  "tok_shred_defense (curve_updated p e c t) = tok_shred_defense t"
  "tok_canonical_signatures (curve_updated p e c t) = tok_canonical_signatures t"
  "tok_tentative_only (curve_updated p e c t) = tok_tentative_only t"
  "cv_launch_price (tok_reserve_state (curve_updated p e c t)) = cv_launch_price c"
  "cv_token_decimals (tok_reserve_state (curve_updated p e c t)) = cv_token_decimals c"
  by (simp_all add: curve_updated_def)

lemma holders_updated_fields [token_fields]:
  "tok_mint (holders_updated p h t) = tok_mint t"
  "tok_lifecycle (holders_updated p h t) = tok_lifecycle t"
  "tok_trade_stats (holders_updated p h t) = tok_trade_stats t"
  "tok_holder_state (holders_updated p h t) = h"
  "tok_reserve_state (holders_updated p h t) = tok_reserve_state t"
  "tok_shred_defense (holders_updated p h t) = tok_shred_defense t"
  "tok_canonical_signatures (holders_updated p h t) = tok_canonical_signatures t"
  "tok_tentative_only (holders_updated p h t) = tok_tentative_only t"
  by (simp_all add: holders_updated_def recalc_developer_rank_def Let_def)

lemma defense_updated_fields [token_fields]:
  "tok_mint (defense_updated f t) = tok_mint t"
  "tok_lifecycle (defense_updated f t) = tok_lifecycle t"
  "tok_trade_stats (defense_updated f t) = tok_trade_stats t"
  "tok_holder_state (defense_updated f t) = tok_holder_state t"
  "tok_reserve_state (defense_updated f t) = tok_reserve_state t"
  "tok_shred_defense (defense_updated f t) = f (tok_shred_defense t)"
  "tok_canonical_signatures (defense_updated f t) = tok_canonical_signatures t"
  "tok_tentative_only (defense_updated f t) = tok_tentative_only t"
  by (simp_all add: defense_updated_def)

lemma cluster_derived_fields [token_fields]:
  "tok_mint (refresh_token_cluster_derived sha ci t) = tok_mint t"
  "tok_lifecycle (refresh_token_cluster_derived sha ci t) = tok_lifecycle t"
  "tok_trade_stats (refresh_token_cluster_derived sha ci t) = tok_trade_stats t"
  "tok_holder_state (refresh_token_cluster_derived sha ci t) = tok_holder_state t"
  "tok_reserve_state (refresh_token_cluster_derived sha ci t) = tok_reserve_state t"
  "tok_shred_defense (refresh_token_cluster_derived sha ci t) = tok_shred_defense t"
  "tok_canonical_signatures (refresh_token_cluster_derived sha ci t) = tok_canonical_signatures t"
  "tok_tentative_only (refresh_token_cluster_derived sha ci t) = tok_tentative_only t"
  "tok_expires_at (refresh_token_cluster_derived sha ci t) = tok_expires_at t"
  by (simp_all add: refresh_token_cluster_derived_def recalc_developer_rank_def Let_def split: option.splits)

lemma exit_threat_fields [token_fields]:
  "tok_mint (refresh_exit_threat_index sha ci now t) = tok_mint t"
  "tok_lifecycle (refresh_exit_threat_index sha ci now t) = tok_lifecycle t"
  "tok_trade_stats (refresh_exit_threat_index sha ci now t) = tok_trade_stats t"
  "tok_holder_state (refresh_exit_threat_index sha ci now t) = tok_holder_state t"
  "tok_reserve_state (refresh_exit_threat_index sha ci now t) = tok_reserve_state t"
  "tok_canonical_signatures (refresh_exit_threat_index sha ci now t) = tok_canonical_signatures t"
  "tok_tentative_only (refresh_exit_threat_index sha ci now t) = tok_tentative_only t"
  "tok_expires_at (refresh_exit_threat_index sha ci now t) = tok_expires_at t"
  by (simp_all add: refresh_exit_threat_index_def Let_def)

subsection \<open>Laws of every tracked token\<close>

datatype 'd engine_op = Apply "'d normalized_event" | Expire instant

fun engine_step ::
  "'d text_env \<Rightarrow> 'd engine_op \<Rightarrow> ('d::linordered_field) state_engine \<Rightarrow> 'd state_engine option" where
  "engine_step env (Apply event) s = map_option fst (apply_event env event s)"
| "engine_step env (Expire now) s = Some (fst (expire_tokens now s))"

definition engine_run ::
  "'d text_env \<Rightarrow> 'd engine_op list \<Rightarrow> ('d::linordered_field) state_engine \<Rightarrow> 'd state_engine option" where
  "engine_run env ops s = foldo (engine_step env) ops s"

lemma expire_token_tokens:
  "map_of (se_tokens (fst (expire_token mint (s, acc)))) m = (if m = mint then None else map_of (se_tokens s) m)"
  "distinct (map fst (se_tokens s)) \<Longrightarrow> distinct (map fst (se_tokens (fst (expire_token mint (s, acc)))))"
  "se_ttl (fst (expire_token mint (s, acc))) = se_ttl s"
  by (auto simp: expire_token_def Let_def delete_conv' distinct_delete split: option.splits)

lemma expire_fold_tokens:
  "map_of (se_tokens (fst (fold expire_token ms (s, acc)))) m =
     (if m \<in> set ms then None else map_of (se_tokens s) m) \<and>
   (distinct (map fst (se_tokens s)) \<longrightarrow> distinct (map fst (se_tokens (fst (fold expire_token ms (s, acc)))))) \<and>
   se_ttl (fst (fold expire_token ms (s, acc))) = se_ttl s"
proof (induction ms arbitrary: s acc)
  case (Cons mint ms)
  obtain s' acc' where one: "expire_token mint (s, acc) = (s', acc')" by fastforce
  with Cons.IH [of s' acc'] expire_token_tokens [where s = s and acc = acc and mint = mint]
  show ?case by auto
qed simp

lemma expired_keys:
  assumes "distinct (map fst (se_tokens s))"
  shows "m \<in> set (map fst (filter (\<lambda>(mint, token). expired_at now token) (se_tokens s))) \<longleftrightarrow>
    (\<exists>t. map_of (se_tokens s) m = Some t \<and> expired_at now t)"
  using assms by (force simp: map_of_eq_Some_iff)

lemma expire_tokens_map:
  assumes "distinct (map fst (se_tokens s))"
  shows "map_of (se_tokens (fst (expire_tokens now s))) m =
    (case map_of (se_tokens s) m of None \<Rightarrow> None | Some t \<Rightarrow> if expired_at now t then None else Some t)"
  using expired_keys [OF assms, of m now]
    expire_fold_tokens [of "map fst (filter (\<lambda>(mint, token). expired_at now token) (se_tokens s))" s "[]" m]
  by (auto simp: expire_tokens_def Let_def split: option.splits)

definition mints_distinct :: "'d state_engine \<Rightarrow> bool" where
  "mints_distinct s = distinct (map fst (se_tokens s))"

lemma mints_distinct_step:
  assumes "engine_step env op s = Some s'" "mints_distinct s"
  shows "mints_distinct s'"
proof (cases op)
  case (Apply e)
  with assms event_steps [of env e s s'] show ?thesis
    by (auto simp: mints_distinct_def table_steps_def)
next
  case (Expire now)
  with assms expire_fold_tokens show ?thesis
    by (fastforce simp: mints_distinct_def expire_tokens_def Let_def)
qed

locale token_invariant =
  fixes env :: "('d::linordered_field) text_env" and I :: "pubkey \<Rightarrow> 'd token_state \<Rightarrow> bool"
  assumes new_token: "I m (new_token_state m source)"
    and step: "token_step env t t' \<Longrightarrow> I m t \<Longrightarrow> I m t'"
begin

lemma steps: "token_steps env t t' \<Longrightarrow> I m t \<Longrightarrow> I m t'"
  by (induction rule: rtranclp_induct) (auto intro: step)

lemma engine_step_keeps:
  assumes run: "engine_step env op s = Some s'" and mints: "mints_distinct s"
    and inv: "\<And>m t. map_of (se_tokens s) m = Some t \<Longrightarrow> I m t"
    and found: "map_of (se_tokens s') m = Some t"
  shows "I m t"
proof (cases op)
  case (Apply e)
  with run obtain ts where "apply_event env e s = Some (s', ts)" by auto
  then have "mint_steps env s s' m" by (auto dest: event_steps simp: table_steps_def)
  with found inv show ?thesis
    by (auto simp: mint_steps_def intro: steps new_token split: option.splits)
next
  case (Expire now)
  with run found mints have "map_of (se_tokens s) m = Some t"
    by (auto simp: expire_tokens_map mints_distinct_def split: option.splits if_splits)
  with inv show ?thesis by blast
qed

lemma run_keeps:
  assumes "engine_run env ops (new_state_engine ttl) = Some s" and "map_of (se_tokens s) m = Some t"
  shows "I m t"
proof -
  have "mints_distinct s \<and> (\<forall>m t. map_of (se_tokens s) m = Some t \<longrightarrow> I m t)"
  proof (rule foldo_keeps [OF assms(1) [unfolded engine_run_def]])
    show "mints_distinct (new_state_engine ttl) \<and>
        (\<forall>m t. map_of (se_tokens (new_state_engine ttl)) m = Some t \<longrightarrow> I m t)"
      by (simp add: new_state_engine_def mints_distinct_def)
  qed (use engine_step_keeps mints_distinct_step in blast)
  with assms(2) show ?thesis by blast
qed

end

text \<open>A law that relates a token to its later states, for as long as it is tracked.\<close>

locale token_order =
  fixes env :: "('d::linordered_field) text_env" and R :: "'d token_state \<Rightarrow> 'd token_state \<Rightarrow> bool"
  assumes refl: "R t t" and trans: "R t u \<Longrightarrow> R u v \<Longrightarrow> R t v"
    and step: "token_step env t t' \<Longrightarrow> R t t'"
begin

lemma steps: "token_steps env t t' \<Longrightarrow> R t t'"
  by (induction rule: rtranclp_induct) (auto intro: refl trans step)

lemma event_ordered:
  assumes "apply_event env e s = Some (s', ts)" and "map_of (se_tokens s) m = Some t"
  obtains t' where "map_of (se_tokens s') m = Some t'" "R t t'"
proof -
  from assms(1) have "mint_steps env s s' m" by (auto dest: event_steps simp: table_steps_def)
  with assms(2) that show thesis by (auto simp: mint_steps_def intro: steps)
qed

lemma events_ordered:
  assumes "engine_run env (map Apply es) s = Some s'" and "map_of (se_tokens s) m = Some t"
  shows "\<exists>t'. map_of (se_tokens s') m = Some t' \<and> R t t'"
  using assms
proof (induction es arbitrary: s t)
  case (Cons e es)
  then obtain u ts where u: "apply_event env e s = Some (u, ts)" "engine_run env (map Apply es) u = Some s'"
    by (auto simp: engine_run_def dest!: bind_eq_SomeD)
  obtain t' where "map_of (se_tokens u) m = Some t'" "R t t'"
    by (rule event_ordered [OF u(1) Cons.prems(2)])
  with Cons.IH [OF u(2)] show ?case by (auto intro: trans)
qed (simp add: engine_run_def refl)

end


subsection \<open>What a handler does to each part of a token\<close>

lemma handler_frame:
  assumes "token_handler env ttl e shape t = Some t'"
  shows "tok_mint t' = tok_mint t \<and> tok_lifecycle t' = tok_lifecycle t"
  using assms
  by (cases "ne_payload e") (auto simp: token_handler_def token_fields split: if_splits)

lemma handler_trades:
  assumes "token_handler env ttl e shape t = Some t'"
  shows "tok_trade_stats t' = tok_trade_stats t \<or> (\<exists>ob. tok_trade_stats t' = record_trade ob (tok_trade_stats t))"
  using assms
  by (cases "ne_payload e") (auto simp: token_handler_def token_fields split: if_splits)

lemma handler_holders:
  assumes "token_handler env ttl e shape t = Some t'"
  shows "tok_holder_state t' = tok_holder_state t \<or>
    (\<exists>op. holder_step (tx_show_decimal env) op (tok_holder_state t) = Some (tok_holder_state t'))"
proof (cases "ne_payload e")
  case (PumpBuy p)
  with assms obtain price where "tok_holder_state t' = apply_trade_cost_basis (pb_buyer p) True
      (pb_quote_in p) (pb_token_out p) (em_received_at_wall_time (ne_meta e)) price (tok_holder_state t)"
    by (auto simp: token_handler_def token_fields)
  then show ?thesis
    by (intro disjI2 exI [of _ "TradeCost (pb_buyer p) True (pb_quote_in p) (pb_token_out p)
          (em_received_at_wall_time (ne_meta e)) price"]) simp
next
  case (PumpSell p)
  with assms obtain price where "tok_holder_state t' = apply_trade_cost_basis (ps_seller p) False
      (ps_quote_out p) (ps_token_in p) (em_received_at_wall_time (ne_meta e)) price (tok_holder_state t)"
    by (auto simp: token_handler_def token_fields)
  then show ?thesis
    by (intro disjI2 exI [of _ "TradeCost (ps_seller p) False (ps_quote_out p) (ps_token_in p)
          (em_received_at_wall_time (ne_meta e)) price"]) simp
next
  case (HolderBalanceUpdate p)
  let ?d = "unwrap_or (cv_token_decimals (tok_reserve_state t)) (hb_token_decimals p)"
  from HolderBalanceUpdate assms
  have "apply_balance_update (tx_show_decimal env) p e ?d (tok_holder_state t) = Some (tok_holder_state t')"
    by (auto simp: token_handler_def token_fields)
  then show ?thesis by (intro disjI2 exI [of _ "BalanceUpdate p e ?d"]) simp
qed (use assms in \<open>auto simp: token_handler_def token_fields split: if_splits\<close>)

lemma sign_keeps:
  "(tok_tentative_only t \<longrightarrow> tok_canonical_signatures t = {}) \<Longrightarrow>
   tok_tentative_only (sign_token e t) \<longrightarrow> tok_canonical_signatures (sign_token e t) = {}"
  by (auto simp: sign_token_def split: option.splits if_splits)

lemma handler_signatures:
  assumes "token_handler env ttl e shape t = Some t'"
    and "tok_tentative_only t \<longrightarrow> tok_canonical_signatures t = {}"
  shows "tok_tentative_only t' \<longrightarrow> tok_canonical_signatures t' = {}"
proof (cases "ne_payload e")
  case (TokenCreated p)
  let ?u = "renew_expiry ttl e (created_token p e t)"
  from TokenCreated assms(1) have "t' = update_memory_bytes (sign_token e ?u)" by (simp add: token_handler_def)
  with sign_keeps [of ?u e] assms(2) show ?thesis by (simp add: token_fields)
qed (use assms(1) assms(2) sign_keeps [of t e] in
  \<open>auto simp: token_handler_def token_fields split: if_splits\<close>)

lemma defense_keeps_index:
  "sd_exit_threat_index (record_sell_intent env p1 d) = sd_exit_threat_index d"
  "sd_exit_threat_index (record_sell_warning env p2 d) = sd_exit_threat_index d"
  "sd_exit_threat_index (record_exit_armed env p3 d) = sd_exit_threat_index d"
  "sd_exit_threat_index (record_exit_triggered env p4 d) = sd_exit_threat_index d"
  "sd_exit_threat_index (record_sell_resolved env p5 d) = sd_exit_threat_index d"
  by (simp_all add: record_sell_intent_def record_sell_warning_def count_seller_class_def
      record_exit_armed_def record_exit_triggered_def record_sell_resolved_def clear_active_sell_def
      count_outcome_def Let_def
      split: dangerous_seller_classification.split tentative_sell_resolution_outcome.split)

lemma handler_threat_index:
  assumes "token_handler env ttl e shape t = Some t'"
  shows "sd_exit_threat_index (tok_shred_defense t') = sd_exit_threat_index (tok_shred_defense t)"
  using assms
  by (cases "ne_payload e") (auto simp: token_handler_def token_fields defense_keeps_index split: if_splits)

lemma apply_update_launch:
  assumes "apply_update u slot c = Some (c', applied)" and "cv_launch_price c = Some p"
  shows "cv_launch_price c' = Some p"
  using assms
  by (auto simp: apply_update_def apply_curve_def Let_def first_some_def bind_eq_Some_conv split: if_splits)

lemma handler_launch_price:
  assumes "token_handler env ttl e shape t = Some t'" and "cv_launch_price (tok_reserve_state t) = Some p"
  shows "cv_launch_price (tok_reserve_state t') = Some p"
proof (cases "ne_payload e")
  case (BondingCurveUpdate u)
  with assms apply_update_launch show ?thesis
    by (fastforce simp: token_handler_def token_fields split: if_splits)
qed (use assms in \<open>auto simp: token_handler_def token_fields first_some_def split: if_splits\<close>)

subsection \<open>The laws of the engine\<close>

definition token_well_formed :: "pubkey \<Rightarrow> ('d::linordered_field) token_state \<Rightarrow> bool" where
  "token_well_formed m t \<longleftrightarrow>
     tok_mint t = m \<and>
     (tok_tentative_only t \<longrightarrow> tok_canonical_signatures t = {}) \<and>
     threat_index_ok (sd_exit_threat_index (tok_shred_defense t))"

lemma moved_fields:
  "tok_mint (t\<lparr>tok_lifecycle := l, tok_expires_at := x\<rparr>) = tok_mint t"
  "tok_holder_state (t\<lparr>tok_lifecycle := l, tok_expires_at := x\<rparr>) = tok_holder_state t"
  by simp_all

lemma default_threat_ok: "threat_index_ok default_exit_threat_index"
  by (simp add: threat_index_ok_def default_exit_threat_index_def descending_def)

interpretation shape: token_invariant env token_well_formed for env :: "('d::linordered_field) text_env"
proof
  fix m source
  show "token_well_formed m (new_token_state m source :: 'd token_state)"
    by (simp add: token_well_formed_def new_token_state_def default_shred_defense_state_def default_threat_ok)
next
  fix t t' :: "'d token_state" and m
  assume "token_step env t t'" and wf: "token_well_formed m t"
  then show "token_well_formed m t'"
  proof cases
    case (handled ttl e shape)
    with wf handler_frame [OF handled] handler_signatures [OF handled] handler_threat_index [OF handled]
    show ?thesis by (simp add: token_well_formed_def)
  qed (auto simp: token_well_formed_def token_fields exit_threat_index_ordered)
qed

definition holders_law :: "pubkey \<Rightarrow> ('d::linordered_field) token_state \<Rightarrow> bool" where
  "holders_law m t \<longleftrightarrow> balances_ok (tok_holder_state t) \<and> distribution_ok (tok_holder_state t)"

interpretation holders: token_invariant env holders_law for env :: "('d::linordered_field) text_env"
proof
  fix m source
  show "holders_law m (new_token_state m source :: 'd token_state)"
    by (simp add: holders_law_def new_token_state_def default_holder_ok)
next
  fix t t' :: "'d token_state" and m
  assume "token_step env t t'" and ok: "holders_law m t"
  then show "holders_law m t'"
  proof cases
    case (handled ttl e shape)
    with ok handler_holders [OF handled] holder_step_ok show ?thesis by (auto simp: holders_law_def)
  qed (auto simp: holders_law_def token_fields)
qed

definition trades_law :: "pubkey \<Rightarrow> ('d::linordered_field) token_state \<Rightarrow> bool" where
  "trades_law m t \<longleftrightarrow> (\<exists>obs. tok_trade_stats t = record_trades obs default_token_trade_stats)"

interpretation trades: token_invariant env trades_law for env :: "('d::linordered_field) text_env"
proof
  fix m source
  have "tok_trade_stats (new_token_state m source :: 'd token_state) = record_trades [] default_token_trade_stats"
    by (simp add: new_token_state_def)
  then show "trades_law m (new_token_state m source :: 'd token_state)"
    unfolding trades_law_def by (rule exI)
next
  fix t t' :: "'d token_state" and m
  assume "token_step env t t'" and "trades_law m t"
  then obtain obs where step: "token_step env t t'"
    and obs: "tok_trade_stats t = record_trades obs default_token_trade_stats" by (auto simp: trades_law_def)
  have "tok_trade_stats t' = tok_trade_stats t \<or> (\<exists>ob. tok_trade_stats t' = record_trade ob (tok_trade_stats t))"
    using step by cases (auto simp: token_fields dest: handler_trades)
  then show "trades_law m t'"
    unfolding trades_law_def obs by (metis record_trades_simps(3))
qed

text \<open>
  C4. Whatever the events and expiries, as long as no conversion panics, the engine's table is well formed:
  mints are distinct and every token is filed under its own mint; its holders' balances are those of its
  accounts and their distribution is in range; its trade statistics are those of some run of trades, with
  both histories at most 512 long; a token marked tentative has no canonical signature; its exit threat
  index is ordered and in range.
\<close>

theorem engine_state_well_formed:
  assumes "engine_run env ops (new_state_engine ttl) = Some s"
  shows "mints_distinct s \<and>
    list_all (\<lambda>(m, t). token_well_formed m t \<and> holders_law m t \<and> trades_law m t \<and>
      length (tr_trade_history (tok_trade_stats t)) \<le> 512 \<and>
      length (tr_price_history (tok_trade_stats t)) \<le> 512) (se_tokens s)"
proof -
  have mints: "mints_distinct s"
    by (rule foldo_keeps [OF assms [unfolded engine_run_def]])
      (use mints_distinct_step in \<open>auto simp: mints_distinct_def new_state_engine_def\<close>)
  have each: "token_well_formed m t \<and> holders_law m t \<and> trades_law m t \<and>
      length (tr_trade_history (tok_trade_stats t)) \<le> 512 \<and>
      length (tr_price_history (tok_trade_stats t)) \<le> 512" if mt: "(m, t) \<in> set (se_tokens s)" for m t
  proof -
    from mints mt have found: "map_of (se_tokens s) m = Some t" by (simp add: mints_distinct_def)
    from trades.run_keeps [OF assms found] obtain obs where
      obs: "tok_trade_stats t = record_trades obs default_token_trade_stats" by (auto simp: trades_law_def)
    show ?thesis
      using shape.run_keeps [OF assms found] holders.run_keeps [OF assms found]
        trades.run_keeps [OF assms found] run_trades [of obs]
      by (simp add: obs stats_of_run_def keep_last_length max_trade_history_def max_price_history_def)
  qed
  with mints show ?thesis by (auto simp: list_all_iff)
qed

interpretation launch: token_order env
  "\<lambda>t t'. \<forall>p. cv_launch_price (tok_reserve_state t) = Some p \<longrightarrow> cv_launch_price (tok_reserve_state t') = Some p"
  for env :: "('d::linordered_field) text_env"
proof
  fix t t' :: "'d token_state"
  assume "token_step env t t'"
  then show "\<forall>p. cv_launch_price (tok_reserve_state t) = Some p \<longrightarrow> cv_launch_price (tok_reserve_state t') = Some p"
    by cases (auto simp: token_fields handler_launch_price)
qed auto

end
