(* ===== verification/Engine_Lifecycle.thy ===== *)
theory Engine_Lifecycle
  imports Engine_Properties
begin

text \<open>
  The lifecycle of tracked tokens as a state machine that the engine refines, the transitions the engine
  reports, expiry, and the locality of events.
\<close>

definition lifecycle_of :: "'d state_engine \<Rightarrow> pubkey \<Rightarrow> token_lifecycle option" where
  "lifecycle_of s m = map_option tok_lifecycle (map_of (se_tokens s) m)"

definition activity_stages :: "token_lifecycle set" where
  "activity_stages = {LcDiscovered, LcFirstPass, LcActiveLight, LcActiveDeep}"

definition is_ended :: "token_lifecycle \<Rightarrow> bool" where
  "is_ended l \<longleftrightarrow> is_terminal_lifecycle l \<or> l = LcDataGap"

text \<open>The machine: what an event may do to the lifecycle of one token.\<close>

inductive life_step :: "'d event_payload \<Rightarrow> pubkey \<Rightarrow> token_lifecycle option \<Rightarrow> token_lifecycle option \<Rightarrow> bool"
  for p :: "'d event_payload" and m :: pubkey where
  stays: "life_step p m x x"
| discovered: "payload_mint p = Some m \<Longrightarrow> l \<in> activity_stages \<Longrightarrow> life_step p m None (Some l)"
| active: "payload_mint p = Some m \<Longrightarrow> \<not> is_ended l \<Longrightarrow> l' \<in> activity_stages \<Longrightarrow>
    life_step p m (Some l) (Some l')"
| ended: "p = TokenTerminal e \<Longrightarrow> tt_mint e = m \<Longrightarrow>
    life_step p m (Some l) (Some (terminal_lifecycle (tt_variant e)))"
| gap: "p = DataGapPayload g \<Longrightarrow> m \<in> set (dg_affected_tokens g) \<Longrightarrow> life_step p m (Some l) (Some LcDataGap)"

inductive_cases life_step_tracked: "life_step p m (Some l) x"
inductive_simps life_step_untracked: "life_step p m None x"

lemma discovered_stage: "LcDiscovered \<in> activity_stages"
  by (simp add: activity_stages_def)

lemma terminal_lifecycle_ended: "is_ended (terminal_lifecycle v)"
  by (cases v) (simp_all add: terminal_lifecycle_def is_ended_def is_terminal_lifecycle_def)

lemma moves_stages: "moves t \<Longrightarrow> \<not> is_ended (tok_lifecycle t) \<and> activity_target t \<in> activity_stages"
  by (auto simp: moves_def is_ended_def activity_target_def activity_stages_def Let_def)

subsection \<open>The lifecycle through the parts of an event\<close>

lemma lifecycle_put:
  "lifecycle_of (put_token mint t s) m = (if m = mint then Some (tok_lifecycle t) else lifecycle_of s m)"
  by (simp add: lifecycle_of_def update_conv')

lemma lifecycle_tokens: "se_tokens s' = se_tokens s \<Longrightarrow> lifecycle_of s' = lifecycle_of s"
  by (simp add: lifecycle_of_def fun_eq_iff)

lemma entry_lifecycle:
  "tok_lifecycle (entry_token m source s) = unwrap_or LcDiscovered (lifecycle_of s m)"
  by (simp add: entry_token_def lifecycle_of_def new_token_state_def unwrap_or_def split: option.splits)

definition dispatched_lifecycle ::
  "'d normalized_event \<Rightarrow> pubkey \<Rightarrow> token_lifecycle option \<Rightarrow> token_lifecycle option" where
  "dispatched_lifecycle event m x =
    (case ne_payload event of
       TokenTerminal p \<Rightarrow> if tt_mint p = m then map_option (\<lambda>_. terminal_lifecycle (tt_variant p)) x else x
     | DataGapPayload g \<Rightarrow> if m \<in> set (dg_affected_tokens g) then map_option (\<lambda>_. LcDataGap) x else x
     | _ \<Rightarrow> if entered_mint event = Some m then Some (unwrap_or LcDiscovered x) else x)"

lemma transition_lifecycle [simp]:
  "tok_lifecycle (fst (transition_token l reason now ttl t)) = l"
  by (simp add: transition_token_def)

lemma gap_fold_lifecycle:
  "lifecycle_of (fold (gap_token event) ms s) m =
    (if m \<in> set ms then map_option (\<lambda>_. LcDataGap) (lifecycle_of s m) else lifecycle_of s m)"
proof (induction ms arbitrary: s)
  case (Cons mint ms)
  have "lifecycle_of (gap_token event mint s) m =
      (if m = mint then map_option (\<lambda>_. LcDataGap) (lifecycle_of s m) else lifecycle_of s m)"
    by (simp add: lifecycle_of_def gap_token_tokens gapped_token_def option.map_comp comp_def)
  with Cons.IH [of "gap_token event mint s"] show ?case by (auto simp: option.map_comp comp_def)
qed simp

lemma dispatch_lifecycle:
  assumes run: "dispatch_event env event s = Some s'"
  shows "lifecycle_of s' m = dispatched_lifecycle event m (lifecycle_of s m)"
proof (cases "entered_mint event")
  case (Some mint)
  from run Some obtain token where token: "token_handler env (se_ttl s) event (shape_of_event event s)
       (entry_token mint (em_source (ne_meta event)) s) = Some token"
      "se_tokens s' = AList.update mint token (se_tokens s)"
    by (rule dispatch_entered)
  have "tok_lifecycle token = unwrap_or LcDiscovered (lifecycle_of s mint)"
    using handler_frame [OF token(1)] by (simp add: entry_lifecycle)
  then have "lifecycle_of s' m =
      (if entered_mint event = Some m then Some (unwrap_or LcDiscovered (lifecycle_of s m)) else lifecycle_of s m)"
    using Some token(2) by (auto simp: lifecycle_of_def update_conv')
  with Some show ?thesis
    by (cases "ne_payload event") (auto simp: dispatched_lifecycle_def entered_mint_def)
next
  case None
  show ?thesis
  proof (cases "ne_payload event")
    case (TokenTerminal p)
    with run show ?thesis
      by (auto simp: dispatch_event_def dispatched_lifecycle_def lifecycle_of_def apply_terminal_tokens
          ended_token_def update_conv' Let_def split: option.splits)
  next
    case (DataGapPayload p)
    with run show ?thesis
      by (auto simp: dispatch_event_def dispatched_lifecycle_def apply_data_gap_def gap_fold_lifecycle)
  next
    case (WalletFunding p)
    with run None show ?thesis
      by (auto simp: dispatch_event_def dispatched_lifecycle_def apply_funding_def Let_def case_prod_beta
          lifecycle_of_def)
  next
    case (ObservedTransaction p)
    with run None show ?thesis
      by (auto simp: dispatch_event_def dispatched_lifecycle_def apply_observed_transaction_def
          lifecycle_of_def split: option.splits)
  qed (use run None in \<open>auto simp: dispatch_event_def dispatched_lifecycle_def entered_mint_def split: if_splits\<close>)
qed

lemma update_tokens_lookup:
  "map_of (se_tokens (update_tokens f s)) m = map_option f (map_of (se_tokens s) m)"
  by (simp add: update_tokens_def map_of_map)

text \<open>
  A token without the data derived from clusters and holders: the developer's cluster, rank and sold share
  and the exit threat index.
\<close>

definition core_of :: "('d::linordered_field) token_state \<Rightarrow> 'd token_state" where
  "core_of t = t
     \<lparr>tok_developer_state := (tok_developer_state t)
        \<lparr>dv_related_cluster_id := None, dv_creator_current_rank := None, dv_creator_sell_percentage := 0\<rparr>,
      tok_shred_defense := (tok_shred_defense t)\<lparr>sd_exit_threat_index := default_exit_threat_index\<rparr>\<rparr>"

lemma core_refresh [simp]:
  "core_of (refresh_token_cluster_derived sha ci t) = core_of t"
  "core_of (refresh_exit_threat_index sha ci now t) = core_of t"
  by (simp_all add: core_of_def refresh_token_cluster_derived_def refresh_exit_threat_index_def
      recalc_developer_rank_def Let_def split: option.splits)

lemma core_indices [simp]: "core_of (refresh_token_indices env e ci t) = core_of t"
  by (simp add: refresh_token_indices_def Let_def)

lemma core_fields: "core_of t = core_of t' \<Longrightarrow> tok_lifecycle t = tok_lifecycle t'"
  by (drule arg_cong [of _ _ tok_lifecycle]) (simp add: core_of_def)

lemma refresh_core:
  "map_option core_of (map_of (se_tokens (refresh_derived_indices_for_event env event s)) m) =
   map_option core_of (map_of (se_tokens s) m)"
proof (cases "cluster_affected_wallets event s")
  case (Some wallets)
  then show ?thesis
    by (auto simp: refresh_derived_indices_for_event_def refresh_clusters_for_wallets_def Let_def
        update_tokens_lookup option.map_comp comp_def intro!: option.map_cong0)
next
  case None
  then show ?thesis
    by (auto simp: refresh_derived_indices_for_event_def update_conv' split: option.splits)
qed

lemma refresh_lifecycle:
  "lifecycle_of (refresh_derived_indices_for_event env event s) m = lifecycle_of s m"
proof -
  have life: "lifecycle_of u m = map_option tok_lifecycle (map_option core_of (map_of (se_tokens u) m))"
    for u :: "'a state_engine"
    by (simp add: lifecycle_of_def option.map_comp comp_def core_of_def)
  show ?thesis unfolding life refresh_core by (rule HOL.refl)
qed

lemma recompute_lifecycle:
  "lifecycle_of (fst (recompute_transitions event s)) m =
    (if event_mint event = Some m
     then map_option (\<lambda>t. if moves t then activity_target t else tok_lifecycle t) (map_of (se_tokens s) m)
     else lifecycle_of s m)"
  by (auto simp: recompute_transitions_def case_prod_beta recompute_token_moves lifecycle_put token_fields
      lifecycle_of_def update_conv' split: option.splits)

lemma event_lifecycle:
  assumes run: "apply_event env event s = Some (s', ts)" and live: "em_canonicality (ne_meta event) \<noteq> Reverted"
  obtains u where "lifecycle_of u = (\<lambda>m. dispatched_lifecycle event m (lifecycle_of s m))"
    "(s', ts) = recompute_transitions event u" "table_steps env s u"
proof -
  from run live obtain d where d: "dispatch_event env event s = Some d"
    "(s', ts) = recompute_transitions event (refresh_derived_indices_for_event env event d)"
    by (auto simp: apply_event_def dest: sym)
  have steps: "table_steps env s (refresh_derived_indices_for_event env event d)"
    using dispatch_steps [OF d(1)] refresh_steps by (auto intro: table_steps_trans)
  show thesis
    by (rule that [OF _ d(2) steps]) (simp add: fun_eq_iff refresh_lifecycle dispatch_lifecycle [OF d(1)])
qed

lemma entered_payload_mint: "entered_mint event = Some m \<Longrightarrow> payload_mint (ne_payload event) = Some m"
  by (auto simp: entered_mint_def split: event_payload.splits if_splits)

lemma dispatched_steps:
  "dispatched_lifecycle event m x = Some l \<Longrightarrow>
    (x = Some l \<or>
     (x = None \<and> l = LcDiscovered \<and> payload_mint (ne_payload event) = Some m) \<or>
     (x \<noteq> None \<and> (\<exists>p. ne_payload event = TokenTerminal p \<and> tt_mint p = m \<and>
        l = terminal_lifecycle (tt_variant p))) \<or>
     (x \<noteq> None \<and> (\<exists>g. ne_payload event = DataGapPayload g \<and> m \<in> set (dg_affected_tokens g) \<and> l = LcDataGap)))"
  by (cases x; cases "ne_payload event")
    (auto simp: dispatched_lifecycle_def unwrap_or_def dest: entered_payload_mint split: if_splits)

lemma dispatched_None: "dispatched_lifecycle event m x = None \<Longrightarrow> x = None"
  by (cases "ne_payload event") (auto simp: dispatched_lifecycle_def split: if_splits)

lemma lifecycle_step:
  assumes "apply_event env event s = Some (s', ts)"
  shows "life_step (ne_payload event) m (lifecycle_of s m) (lifecycle_of s' m)"
proof (cases "em_canonicality (ne_meta event) = Reverted")
  case True
  with assms have "lifecycle_of s' = lifecycle_of s"
    by (intro lifecycle_tokens) (auto simp: apply_event_def split: option.splits)
  then show ?thesis by (simp add: stays)
next
  case False
  obtain u where u: "lifecycle_of u = (\<lambda>m. dispatched_lifecycle event m (lifecycle_of s m))"
    "(s', ts) = recompute_transitions event u" "table_steps env s u"
    by (rule event_lifecycle [OF assms False])
  from u(2) have s': "s' = fst (recompute_transitions event u)" by (metis fst_conv)
  show ?thesis
  proof (cases "\<exists>t. event_mint event = Some m \<and> map_of (se_tokens u) m = Some t \<and> moves t")
    case True
    then obtain t where t: "event_mint event = Some m" "map_of (se_tokens u) m = Some t" "moves t" by blast
    from t have after: "lifecycle_of s' m = Some (activity_target t)"
      by (simp add: s' recompute_lifecycle)
    from t(2) have mid: "dispatched_lifecycle event m (lifecycle_of s m) = Some (tok_lifecycle t)"
      using fun_cong [OF u(1), of m] by (simp add: lifecycle_of_def)
    from dispatched_steps [OF mid] moves_stages [OF t(3)] t(1) after show ?thesis
      by (auto simp: event_mint_def terminal_lifecycle_ended is_ended_def [of LcDataGap]
          intro: life_step.active life_step.discovered)
  next
    case False
    then have after: "lifecycle_of s' m = dispatched_lifecycle event m (lifecycle_of s m)"
    proof -
      have "map_option (\<lambda>t. if moves t then activity_target t else tok_lifecycle t) (map_of (se_tokens u) m) =
          map_option tok_lifecycle (map_of (se_tokens u) m)" if "event_mint event = Some m"
        using False that by (cases "map_of (se_tokens u) m") auto
      then have "lifecycle_of s' m = lifecycle_of u m"
        unfolding s' recompute_lifecycle by (simp add: lifecycle_of_def)
      then show ?thesis unfolding u(1) .
    qed
    show ?thesis
    proof (cases "dispatched_lifecycle event m (lifecycle_of s m)")
      case None
      with after dispatched_None [OF None] show ?thesis by (simp add: stays)
    next
      case (Some l)
      from dispatched_steps [OF Some] after Some show ?thesis
        by (auto intro: life_step.stays life_step.ended life_step.gap
            life_step.discovered [OF _ discovered_stage])
    qed
  qed
qed

text \<open>
  C5. The engine refines the lifecycle machine: whatever an event does, for every mint the stage before and
  after are related by a step of the machine. A token is created in an activity stage by an event that
  names it; from a stage that is not ended such an event moves it among the activity stages; a terminal
  event or a data gap that names it moves it to its ended stage; everything else leaves it alone, and no
  event removes it.
\<close>

theorem lifecycle_refines_machine:
  assumes "apply_event env event s = Some (s', ts)"
  shows "life_step (ne_payload event) m (lifecycle_of s m) (lifecycle_of s' m)"
  using assms by (rule lifecycle_step)

subsection \<open>Ended tokens\<close>

text \<open>An event that may end the token: a terminal event or a data gap that names it.\<close>

definition ends :: "pubkey \<Rightarrow> 'd normalized_event \<Rightarrow> bool" where
  "ends m event \<longleftrightarrow>
    (case ne_payload event of
       TokenTerminal p \<Rightarrow> tt_mint p = m
     | DataGapPayload g \<Rightarrow> m \<in> set (dg_affected_tokens g)
     | _ \<Rightarrow> False)"

lemma ended_step_stays:
  assumes "life_step (ne_payload event) m (Some l) x" and "is_ended l" and "\<not> ends m event"
  shows "x = Some l"
  using assms by (auto elim!: life_step_tracked simp: ends_def)

text \<open>
  An ended token stays ended: once a token is discarded, rugged, migrated, completed or cut off by a data
  gap, no sequence of events moves it to another stage, unless one of them is a terminal event or a data
  gap that names it. Trades, holders and tentative sells never bring it back.
\<close>

theorem ended_tokens_stay_ended:
  assumes "engine_run env (map Apply events) s = Some s'"
    and "lifecycle_of s m = Some l" and "is_ended l" and "list_all (\<lambda>event. \<not> ends m event) events"
  shows "lifecycle_of s' m = Some l"
  using assms
proof (induction events arbitrary: s)
  case (Cons event events)
  then obtain u ts where u: "apply_event env event s = Some (u, ts)" "engine_run env (map Apply events) u = Some s'"
    by (auto simp: engine_run_def dest!: bind_eq_SomeD)
  have "life_step (ne_payload event) m (Some l) (lifecycle_of u m)"
    using lifecycle_step [OF u(1), of m] Cons.prems(2) by simp
  with Cons.prems have "lifecycle_of u m = Some l" by (auto dest: ended_step_stays)
  with Cons.IH [OF u(2)] Cons.prems show ?case by simp
qed (simp add: engine_run_def)

text \<open>
  But one ended stage gives way to another: a data gap that names a token moves it to \<open>DataGap\<close> whatever it
  was, so a token archived as a rug leaves the archive (and \<open>rugged_token_count\<close>).
\<close>

theorem data_gap_overwrites_rug:
  assumes "apply_event env event s = Some (s', ts)" and "em_canonicality (ne_meta event) \<noteq> Reverted"
    and "ne_payload event = DataGapPayload g" and "m \<in> set (dg_affected_tokens g)"
    and "lifecycle_of s m = Some LcRugArchive"
  shows "lifecycle_of s' m = Some LcDataGap"
proof -
  obtain u where u: "lifecycle_of u = (\<lambda>m. dispatched_lifecycle event m (lifecycle_of s m))"
    "(s', ts) = recompute_transitions event u" "table_steps env s u"
    by (rule event_lifecycle [OF assms(1,2)])
  from assms(3) u(2) have "s' = u" by (simp add: recompute_transitions_def event_mint_def)
  with u(1) assms show ?thesis by (simp add: dispatched_lifecycle_def)
qed

subsection \<open>Reported transitions\<close>

definition expected_transitions ::
  "pubkey \<Rightarrow> instant \<Rightarrow> token_lifecycle option \<Rightarrow> token_lifecycle option \<Rightarrow> lifecycle_transition list" where
  "expected_transitions m now before after =
    (case after of
       None \<Rightarrow> []
     | Some l' \<Rightarrow>
         let l = unwrap_or LcDiscovered before in
         if l = l' then []
         else [\<lparr>lt_mint = m, lt_from = l, lt_to = l', lt_reason = activity_reason, lt_observed_at = now\<rparr>])"

lemma moves_target: "moves t \<Longrightarrow> tok_lifecycle t \<noteq> activity_target t"
  by (simp add: moves_def)

lemma recompute_reports:
  assumes "event_mint event = Some m" and "\<And>t. map_of (se_tokens u) m = Some t \<Longrightarrow> tok_mint t = m"
    and "(s', ts) = recompute_transitions event u"
  shows "ts = expected_transitions m (em_received_at_wall_time (ne_meta event)) (lifecycle_of u m) (lifecycle_of s' m)"
  using assms
  by (auto simp: recompute_transitions_def case_prod_beta recompute_token_moves lifecycle_of_def update_conv'
      expected_transitions_def unwrap_or_def token_fields Let_def moves_target split: option.splits)

end
