(* ===== verification/Engine_Events.thy ===== *)
theory Engine_Events
  imports Engine_Lifecycle
begin

text \<open>
  Properties of single events of the engine: the transitions it reports, expiry, locality, the launch
  price, the shred defence, the clusters, and the absence of panics.
\<close>

subsection \<open>Reported transitions\<close>

lemma reachable_mint:
  assumes "engine_run env ops (new_state_engine ttl) = Some s" and "table_steps env s u"
    and "map_of (se_tokens u) m = Some t"
  shows "tok_mint t = m"
proof -
  have at: "mint_steps env s u m" using assms(2) by (simp add: table_steps_def)
  have "token_well_formed m t"
  proof (cases "map_of (se_tokens s) m")
    case None
    with at assms(3) obtain source where "token_steps env (new_token_state m source) t"
      by (auto simp: mint_steps_def)
    then show ?thesis by (rule shape.steps) (rule shape.new_token)
  next
    case (Some t0)
    with at assms(3) have "token_steps env t0 t" by (auto simp: mint_steps_def)
    then show ?thesis by (rule shape.steps) (rule shape.run_keeps [OF assms(1) Some])
  qed
  then show ?thesis by (simp add: token_well_formed_def)
qed

lemma dispatched_unended:
  assumes "\<not> ends m event" and "event_mint event = Some m"
  shows "unwrap_or LcDiscovered (dispatched_lifecycle event m x) = unwrap_or LcDiscovered x"
  using assms by (cases "ne_payload event"; cases x) (auto simp: dispatched_lifecycle_def ends_def)

lemma dispatched_ended:
  assumes "ends m event" and "dispatched_lifecycle event m x = Some l"
  shows "is_ended l"
  using assms
  by (cases x; cases "ne_payload event")
    (auto simp: dispatched_lifecycle_def ends_def terminal_lifecycle_ended is_ended_def [of LcDataGap])

text \<open>
  The transitions \<open>apply_event\<close> returns are exact for the activity stages: for the event's own mint it
  reports one transition, from the stage before (or \<open>Discovered\<close>, for a new token) to the stage after,
  exactly when they differ. The moves of terminal events are not reported at all.
\<close>

theorem reported_transitions_exact:
  assumes reach: "engine_run env ops (new_state_engine ttl) = Some s"
    and run: "apply_event env event s = Some (s', ts)"
    and live: "em_canonicality (ne_meta event) \<noteq> Reverted" and mint: "event_mint event = Some m"
  shows "ts = (if ends m event then []
    else expected_transitions m (em_received_at_wall_time (ne_meta event)) (lifecycle_of s m) (lifecycle_of s' m))"
proof -
  obtain u where u: "lifecycle_of u = (\<lambda>m. dispatched_lifecycle event m (lifecycle_of s m))"
    "(s', ts) = recompute_transitions event u" "table_steps env s u"
    by (rule event_lifecycle [OF run live])
  have life: "lifecycle_of u m = dispatched_lifecycle event m (lifecycle_of s m)" using u(1) by simp
  show ?thesis
  proof (cases "ends m event")
    case True
    have "\<not> moves t" if "map_of (se_tokens u) m = Some t" for t
    proof -
      from that life have "dispatched_lifecycle event m (lifecycle_of s m) = Some (tok_lifecycle t)"
        by (simp add: lifecycle_of_def)
      then have "is_ended (tok_lifecycle t)" by (rule dispatched_ended [OF True])
      with moves_stages show ?thesis by blast
    qed
    with u(2) mint True show ?thesis
      by (auto simp: recompute_transitions_def case_prod_beta recompute_token_moves split: option.splits)
  next
    case False
    have "ts = expected_transitions m (em_received_at_wall_time (ne_meta event)) (lifecycle_of u m) (lifecycle_of s' m)"
      by (rule recompute_reports [OF mint _ u(2)]) (rule reachable_mint [OF reach u(3)])
    with False dispatched_unended [OF False mint] show ?thesis
      by (cases "lifecycle_of s' m") (simp_all add: expected_transitions_def life)
  qed
qed

subsection \<open>Expiry\<close>

definition expiry_summary :: "('d::linordered_field) token_state \<Rightarrow> 'd compact_token_summary" where
  "expiry_summary t = compact_summary [reason_code.SoftDiscarded] t"

lemma expiry_summary_mint [simp]: "cs_mint (expiry_summary t) = tok_mint t"
  by (simp add: expiry_summary_def compact_summary_def)

lemma map_of_delete_other: "k \<noteq> m \<Longrightarrow> map_of (AList.delete m xs) k = map_of xs k"
  by (simp add: delete_conv')

lemma filter_delete: "filter (\<lambda>(k, v). P k) (AList.delete m xs) = filter (\<lambda>(k, v). k \<noteq> m \<and> P k) xs"
  by (auto simp: AList.delete_eq filter_filter case_prod_beta intro: filter_cong)

lemma expire_fold_exact:
  assumes "distinct ms" and "set ms \<subseteq> dom (map_of (se_tokens s))"
    and "\<And>m t. map_of (se_tokens s) m = Some t \<Longrightarrow> tok_mint t = m"
  shows "se_tokens (fst (fold expire_token ms (s, acc))) = filter (\<lambda>(m, t). m \<notin> set ms) (se_tokens s) \<and>
    snd (fold expire_token ms (s, acc)) = acc @ map (\<lambda>m. expiry_summary (the (map_of (se_tokens s) m))) ms \<and>
    (\<forall>k. map_of (se_discarded_summaries (fst (fold expire_token ms (s, acc)))) k =
      (if k \<in> set ms then Some (expiry_summary (the (map_of (se_tokens s) k)))
       else map_of (se_discarded_summaries s) k))"
  using assms
proof (induction ms arbitrary: s acc)
  case (Cons m ms)
  from Cons.prems(2) obtain t where found: "map_of (se_tokens s) m = Some t" by auto
  note t = found Cons.prems(3) [OF found]
  let ?s = "s\<lparr>se_tokens := AList.delete m (se_tokens s),
      se_discarded_summaries := AList.update m (expiry_summary t) (se_discarded_summaries s)\<rparr>"
  have one: "expire_token m (s, acc) = (?s, acc @ [expiry_summary t])"
    using t by (simp add: expire_token_def Let_def expiry_summary_def compact_summary_def)
  have lookup: "map_of (AList.delete m (se_tokens s)) k = (if k = m then None else map_of (se_tokens s) k)" for k
    by (simp add: delete_conv')
  from Cons.prems have "set ms \<subseteq> dom (map_of (se_tokens ?s))" "distinct ms" "m \<notin> set ms"
    by (auto simp: delete_conv')
  moreover have "\<And>k t. map_of (se_tokens ?s) k = Some t \<Longrightarrow> tok_mint t = k"
    using Cons.prems(3) by (auto simp: lookup split: if_splits)
  ultimately have IH: "se_tokens (fst (fold expire_token ms (?s, acc @ [expiry_summary t]))) =
      filter (\<lambda>(m, t). m \<notin> set ms) (se_tokens ?s)"
    "snd (fold expire_token ms (?s, acc @ [expiry_summary t])) = (acc @ [expiry_summary t]) @
      map (\<lambda>m. expiry_summary (the (map_of (se_tokens ?s) m))) ms"
    "\<And>k. map_of (se_discarded_summaries (fst (fold expire_token ms (?s, acc @ [expiry_summary t])))) k =
      (if k \<in> set ms then Some (expiry_summary (the (map_of (se_tokens ?s) k)))
       else map_of (se_discarded_summaries ?s) k)"
    using Cons.IH [of ?s "acc @ [expiry_summary t]"] by blast+
  have tokens: "filter (\<lambda>(k, t). k \<notin> set ms) (se_tokens ?s) = filter (\<lambda>(k, t). k \<notin> set (m # ms)) (se_tokens s)"
    using filter_delete [of "\<lambda>k. k \<notin> set ms" m "se_tokens s"] by simp
  have summaries: "map (\<lambda>k. expiry_summary (the (map_of (se_tokens ?s) k))) ms =
      map (\<lambda>k. expiry_summary (the (map_of (se_tokens s) k))) ms"
    using \<open>m \<notin> set ms\<close> by (intro map_cong) (auto simp: lookup)
  show ?case
    unfolding fold_simps one IH(1,2) tokens summaries
    using IH(3) t \<open>m \<notin> set ms\<close> by (auto simp: lookup update_conv')
qed simp

text \<open>
  Expiry is exact: it removes the tokens whose time has passed and no other, keeps the rest in order,
  returns one summary per removed token, and files each summary under the token's mint.
\<close>

theorem token_expiry_exact:
  assumes reach: "engine_run env ops (new_state_engine ttl) = Some s"
  shows "let (s', summaries) = expire_tokens now s in
    se_tokens s' = filter (\<lambda>(m, t). \<not> expired_at now t) (se_tokens s) \<and>
    summaries = map (\<lambda>(m, t). expiry_summary t) (filter (\<lambda>(m, t). expired_at now t) (se_tokens s)) \<and>
    list_all (\<lambda>x. map_of (se_discarded_summaries s') (cs_mint x) = Some x) summaries"
proof -
  let ?gone = "filter (\<lambda>(m, t). expired_at now t) (se_tokens s)"
  have mints: "mints_distinct s"
    by (rule foldo_keeps [OF reach [unfolded engine_run_def]])
      (use mints_distinct_step in \<open>auto simp: mints_distinct_def new_state_engine_def\<close>)
  then have found: "\<And>m t. (m, t) \<in> set (se_tokens s) \<Longrightarrow> map_of (se_tokens s) m = Some t"
    by (simp add: mints_distinct_def)
  have mint: "\<And>m t. map_of (se_tokens s) m = Some t \<Longrightarrow> tok_mint t = m"
    by (rule reachable_mint [OF reach table_steps_refl])
  have dist: "distinct (map fst ?gone)"
    using mints by (simp add: mints_distinct_def distinct_map_filter)
  have sub: "set (map fst ?gone) \<subseteq> dom (map_of (se_tokens s))" by (force dest: found)
  note fold = expire_fold_exact [OF dist sub mint, of "[]"]
  have kept: "filter (\<lambda>(m, t). m \<notin> set (map fst ?gone)) (se_tokens s) =
      filter (\<lambda>(m, t). \<not> expired_at now t) (se_tokens s)"
    using mints unfolding mints_distinct_def
    by (intro filter_cong [OF HOL.refl]) (auto simp del: set_map set_filter simp: expired_keys found dest: eq_key_imp_eq_value)
  have gone: "map (\<lambda>m. expiry_summary (the (map_of (se_tokens s) m))) (map fst ?gone) =
      map (\<lambda>(m, t). expiry_summary t) ?gone"
    unfolding map_map by (rule map_cong [OF HOL.refl]) (auto simp: found)
  have disc: "map_of (se_discarded_summaries (fst (expire_tokens now s))) k =
      (if k \<in> set (map fst ?gone) then Some (expiry_summary (the (map_of (se_tokens s) k)))
       else map_of (se_discarded_summaries s) k)" for k
    using fold unfolding expire_tokens_def Let_def by blast
  have filed: "map_of (se_discarded_summaries (fst (expire_tokens now s))) (cs_mint x) = Some x"
    if "x \<in> set (map (\<lambda>(m, t). expiry_summary t) ?gone)" for x
  proof -
    from that obtain m t where mt: "(m, t) \<in> set ?gone" "x = expiry_summary t" by auto
    then have "(m, t) \<in> set (se_tokens s)" by simp
    from found [OF this] mint [OF found [OF this]] mt have
      at: "map_of (se_tokens s) m = Some t" "cs_mint x = m" by simp_all
    from mt(1) have "m \<in> set (map fst ?gone)" by force
    then show ?thesis unfolding disc at(2) using at(1) mt(2) by simp
  qed
  show ?thesis
    using fold filed unfolding kept gone
    by (simp add: expire_tokens_def case_prod_unfold Let_def list_all_iff)
qed

lemma recompute_expiry:
  assumes "(s', ts) = recompute_transitions event u" and "event_mint event = Some m"
    and "map_of (se_tokens s') m = Some t"
  shows "tok_expires_at t = Some (em_received_at_wall_time (ne_meta event) + ttl_for_config (se_ttl u) (tok_lifecycle t))"
  using assms
  by (auto simp: recompute_transitions_def case_prod_beta recompute_token_moves update_conv' renew_expiry_def
      token_fields split: option.splits if_splits)

text \<open>
  A token that is still receiving events is not expired: after an event that names a tracked token, no
  expiry before the time of the event plus the time to live of the token's stage removes it.
\<close>

theorem active_tokens_are_kept:
  assumes run: "apply_event env event s = Some (s', ts)"
    and live: "em_canonicality (ne_meta event) \<noteq> Reverted" and mint: "event_mint event = Some m"
    and distinct: "mints_distinct s" and found: "map_of (se_tokens s') m = Some t"
    and early: "now < em_received_at_wall_time (ne_meta event) + ttl_for_config (se_ttl s) (tok_lifecycle t)"
  shows "map_of (se_tokens (fst (expire_tokens now s'))) m = Some t"
proof -
  from run live obtain d where d: "dispatch_event env event s = Some d"
    "(s', ts) = recompute_transitions event (refresh_derived_indices_for_event env event d)"
    by (auto simp: apply_event_def dest: sym)
  have "se_ttl (refresh_derived_indices_for_event env event d) = se_ttl s"
    using refresh_steps [of env d event] dispatch_steps [OF d(1)] by simp
  with recompute_expiry [OF d(2) mint found] early have "\<not> expired_at now t" by (simp add: expired_at_def)
  moreover have "mints_distinct s'"
    using mints_distinct_step [of env "Apply event" s s'] run distinct by simp
  ultimately show ?thesis using found by (simp add: expire_tokens_map mints_distinct_def)
qed


subsection \<open>Locality\<close>

lemma dispatch_other:
  assumes run: "dispatch_event env event s = Some s'"
    and other: "payload_mint (ne_payload event) \<noteq> Some m" "\<not> ends m event"
  shows "map_of (se_tokens s') m = map_of (se_tokens s) m"
proof (cases "entered_mint event")
  case (Some mint)
  from run Some obtain token where "se_tokens s' = AList.update mint token (se_tokens s)"
    by (rule dispatch_entered)
  moreover have "mint \<noteq> m" using entered_payload_mint [OF Some] other(1) by blast
  ultimately show ?thesis by (simp add: update_conv')
next
  case None
  show ?thesis
  proof (cases "ne_payload event")
    case (TokenTerminal p)
    with run other show ?thesis
      by (auto simp: dispatch_event_def apply_terminal_tokens ends_def update_conv' split: option.splits)
  next
    case (DataGapPayload g)
    have "map_of (se_tokens (fold (gap_token event) ms u)) m = map_of (se_tokens u) m" if "m \<notin> set ms" for ms u
      using that by (induction ms arbitrary: u) (simp_all add: gap_token_tokens)
    with DataGapPayload run other show ?thesis
      by (auto simp: dispatch_event_def apply_data_gap_def ends_def)
  next
    case (WalletFunding p)
    with run show ?thesis by (auto simp: dispatch_event_def apply_funding_def Let_def case_prod_beta)
  next
    case (ObservedTransaction p)
    with run show ?thesis
      by (auto simp: dispatch_event_def apply_observed_transaction_def split: option.splits)
  qed (use run None in \<open>auto simp: dispatch_event_def entered_mint_def split: if_splits\<close>)
qed

text \<open>
  C30. Events are local: an event that neither names a token nor cuts it off by a gap leaves its whole state
  alone, but for the data derived from wallet clusters. Creations and fundings of other wallets reach a
  token only through those.
\<close>

theorem events_are_local:
  assumes run: "apply_event env event s = Some (s', ts)"
    and other: "event_mint event \<noteq> Some m" and unended: "\<not> ends m event"
  shows "map_option core_of (map_of (se_tokens s') m) = map_option core_of (map_of (se_tokens s) m)"
proof (cases "em_canonicality (ne_meta event) = Reverted")
  case True
  with run show ?thesis by (auto simp: apply_event_def split: option.splits)
next
  case False
  with run obtain d where d: "dispatch_event env event s = Some d"
    "(s', ts) = recompute_transitions event (refresh_derived_indices_for_event env event d)"
    by (auto simp: apply_event_def dest: sym)
  have "map_of (se_tokens s') m = map_of (se_tokens (refresh_derived_indices_for_event env event d)) m"
    using d(2) other by (auto simp: recompute_transitions_def case_prod_beta update_conv' split: option.splits)
  moreover have "map_of (se_tokens d) m = map_of (se_tokens s) m"
    by (rule dispatch_other [OF d(1) _ unended]) (use other in \<open>simp add: event_mint_def\<close>)
  ultimately show ?thesis using refresh_core [of env event d m] by simp
qed

subsection \<open>The launch price\<close>

lemma created_launch_price:
  assumes run: "apply_event env event s = Some (s', ts)"
    and live: "em_canonicality (ne_meta event) \<noteq> Reverted"
    and created: "ne_payload event = TokenCreated p" and fresh: "map_of (se_tokens s) (tc_mint p) = None"
  obtains t where "map_of (se_tokens s') (tc_mint p) = Some t" "cv_launch_price (tok_reserve_state t) = Some 0"
proof -
  from run live obtain d where d: "dispatch_event env event s = Some d"
    "(s', ts) = recompute_transitions event (refresh_derived_indices_for_event env event d)"
    by (auto simp: apply_event_def dest: sym)
  have entered: "entered_mint event = Some (tc_mint p)" by (simp add: entered_mint_def created)
  from d(1) entered obtain t where t: "token_handler env (se_ttl s) event (shape_of_event event s)
       (entry_token (tc_mint p) (em_source (ne_meta event)) s) = Some t"
      "se_tokens d = AList.update (tc_mint p) t (se_tokens s)"
    by (rule dispatch_entered)
  have "cv_launch_price (tok_reserve_state t) = Some 0"
    using t(1) fresh by (auto simp: token_handler_def created token_fields entry_token_def unwrap_or_def
        new_token_state_def default_bonding_curve_state_def first_some_def)
  moreover have "table_steps env d s'"
    using d(2) refresh_steps [of env d event] recompute_table_steps
    by (metis fst_conv table_steps_trans)
  then have "mint_steps env d s' (tc_mint p)" by (simp add: table_steps_def)
  then obtain t' where "map_of (se_tokens s') (tc_mint p) = Some t'" "token_steps env t t'"
    using t(2) by (auto simp: mint_steps_def update_conv')
  ultimately show thesis using launch.steps that by blast
qed

text \<open>
  A token whose creation is seen never gets a launch price: its creation fills the price with zero, and the
  first curve update, which should set it, only fills an empty one. The price stays zero in every later
  run, so the distances to the launch price are always taken from zero.
\<close>

theorem launch_price_stays_zero:
  assumes "apply_event env event s = Some (s1, ts)"
    and "em_canonicality (ne_meta event) \<noteq> Reverted"
    and "ne_payload event = TokenCreated p" and "map_of (se_tokens s) (tc_mint p) = None"
    and "engine_run env (map Apply events) s1 = Some s2"
  shows "\<exists>t. map_of (se_tokens s2) (tc_mint p) = Some t \<and> cv_launch_price (tok_reserve_state t) = Some 0"
proof -
  obtain t where "map_of (se_tokens s1) (tc_mint p) = Some t" "cv_launch_price (tok_reserve_state t) = Some 0"
    by (rule created_launch_price [OF assms(1-4)])
  with launch.events_ordered [OF assms(5)] show ?thesis by blast
qed

subsection \<open>The shred defence\<close>

text \<open>
  Resolving a tentative sell disarms the exit of the token, whichever sell had armed it: the flag and the
  active identifiers are cleared even when other tentative sells are pending, and stay pending.
\<close>

theorem resolution_disarms_any_exit:
  fixes d :: "('d::linordered_field) shred_defense_state"
  assumes "tx_show_uuid env (sr_original_tentative_event_id p) \<noteq> other"
    and "map_of (sd_pending_tentative_sells d) other = Some tracking"
    and "sd_active_armed_exit_event_id d = Some other"
  shows "let d' = record_sell_resolved env p d in
    \<not> sd_shred_exit_armed_flag d' \<and> sd_active_armed_exit_event_id d' = None \<and>
    map_of (sd_pending_tentative_sells d') other = Some tracking"
proof -
  have outcome: "sd_pending_tentative_sells (count_outcome p x) = sd_pending_tentative_sells x"
    for x :: "'d shred_defense_state"
    by (simp add: count_outcome_def split: tentative_sell_resolution_outcome.split)
  show ?thesis
    using assms by (simp add: record_sell_resolved_def clear_active_sell_def Let_def outcome delete_conv')
qed

end
