(* ===== verification/Engine_Runs.thy ===== *)
theory Engine_Runs
  imports Engine_Events
begin

text \<open>
  Two properties of whole runs of the engine: it never panics on token decimals that occur, and its cluster
  index stays consistent; then the witnesses of the engine's properties on concrete runs.
\<close>

subsection \<open>No panics\<close>

definition small_decimals :: "u8 option \<Rightarrow> bool" where
  "small_decimals d = (case d of None \<Rightarrow> True | Some n \<Rightarrow> unat n \<le> 19)"

definition event_decimals_ok :: "'d normalized_event \<Rightarrow> bool" where
  "event_decimals_ok event =
    (case ne_payload event of
       BondingCurveUpdate p \<Rightarrow> small_decimals (bc_token_decimals p)
     | HolderBalanceUpdate p \<Rightarrow> small_decimals (hb_token_decimals p)
     | _ \<Rightarrow> True)"

fun op_decimals_ok :: "'d engine_op \<Rightarrow> bool" where
  "op_decimals_ok (Apply event) = event_decimals_ok event"
| "op_decimals_ok (Expire now) = True"

definition decimals_small :: "'d token_state \<Rightarrow> bool" where
  "decimals_small t \<longleftrightarrow> unat (cv_token_decimals (tok_reserve_state t)) \<le> 19"

definition table_decimals_small :: "'d state_engine \<Rightarrow> bool" where
  "table_decimals_small s \<longleftrightarrow> (\<forall>m t. map_of (se_tokens s) m = Some t \<longrightarrow> decimals_small t)"

lemma new_decimals_small: "decimals_small (new_token_state m source :: ('d::linordered_field) token_state)"
  by (simp add: decimals_small_def new_token_state_def default_bonding_curve_state_def
      default_pump_token_decimals_def)

lemma entry_decimals_small: "table_decimals_small s \<Longrightarrow> decimals_small (entry_token m source s)"
  by (auto simp: table_decimals_small_def entry_token_def unwrap_or_def new_decimals_small split: option.splits)

lemma price_total: "unat d \<le> 19 \<Longrightarrow> \<exists>r. price_sol_per_ui_token q t d = Some r"
  by (simp add: price_sol_per_ui_token_def Let_def raw_to_ui_small)

lemma apply_update_decimals:
  assumes "apply_update u slot c = Some (c', applied)"
  shows "cv_token_decimals c' = cv_token_decimals c \<or> cv_token_decimals c' = update_decimals u"
  using assms
  by (auto simp: apply_update_def apply_curve_def Let_def update_decimals_def bind_eq_Some_conv split: if_splits)

lemma small_update_decimals: "small_decimals (bc_token_decimals u) \<Longrightarrow> unat (update_decimals u) \<le> 19"
  by (auto simp: small_decimals_def update_decimals_def unwrap_or_def default_pump_token_decimals_def
      split: option.splits)

lemma token_handler_total:
  assumes small: "decimals_small t" and event: "event_decimals_ok event"
  shows "\<exists>t'. token_handler env ttl event shape t = Some t'"
proof -
  have price: "\<exists>r. price_sol_per_ui_token q n (cv_token_decimals (tok_reserve_state t)) = Some r" for q n
    using small by (simp add: decimals_small_def price_total)
  have curve: "\<exists>r. apply_update u slot (tok_reserve_state t) = Some r" if "ne_payload event = BondingCurveUpdate u"
    for u slot
    using that event by (intro apply_update_total) (simp add: event_decimals_ok_def small_update_decimals)
  have holders: "\<exists>h. apply_balance_update (tx_show_decimal env) p event
      (unwrap_or (cv_token_decimals (tok_reserve_state t)) (hb_token_decimals p)) (tok_holder_state t) = Some h"
    if "ne_payload event = HolderBalanceUpdate p" for p
    using that event small
    by (intro apply_balance_update_total)
      (auto simp: event_decimals_ok_def small_decimals_def decimals_small_def unwrap_or_def split: option.splits)
  show ?thesis
  proof (cases "ne_payload event")
    case (PumpBuy p)
    with price [of "pb_quote_in p" "pb_token_out p"] show ?thesis by (auto simp: token_handler_def)
  next
    case (PumpSell p)
    with price [of "ps_quote_out p" "ps_token_in p"] show ?thesis by (auto simp: token_handler_def)
  next
    case (BondingCurveUpdate u)
    with curve [OF BondingCurveUpdate, of "em_slot (ne_meta event)"] show ?thesis
      by (auto simp: token_handler_def)
  next
    case (HolderBalanceUpdate p)
    with holders [OF HolderBalanceUpdate] show ?thesis by (auto simp: token_handler_def)
  qed (simp_all add: token_handler_def)
qed

lemma token_handler_small:
  assumes "token_handler env ttl event shape t = Some t'" and small: "decimals_small t"
    and event: "event_decimals_ok event"
  shows "decimals_small t'"
proof (cases "ne_payload event")
  case (BondingCurveUpdate u)
  from BondingCurveUpdate event have u: "unat (update_decimals u) \<le> 19"
    by (simp add: event_decimals_ok_def small_update_decimals)
  from BondingCurveUpdate assms(1) obtain c applied where
    c: "apply_update u (em_slot (ne_meta event)) (tok_reserve_state t) = Some (c, applied)"
      "t' = (if applied then update_memory_bytes (curve_updated u event c t) else t)"
    by (auto simp: token_handler_def)
  from apply_update_decimals [OF c(1)] small u show ?thesis
    by (auto simp: c(2) decimals_small_def token_fields)
qed (use assms in \<open>auto simp: token_handler_def token_fields decimals_small_def split: if_splits\<close>)

lemma sell_decides:
  "dispatch_event env event s = None \<Longrightarrow> entered_mint event = None \<Longrightarrow> False"
  by (auto simp: dispatch_event_def entered_mint_def split: event_payload.splits if_splits)

lemma gapped_decimals: "decimals_small (gapped_token event ttl t) = decimals_small t"
  by (simp add: gapped_token_def transition_token_def decimals_small_def)

lemma gap_decimals:
  assumes "table_decimals_small s"
  shows "table_decimals_small (gap_token event m s)"
  unfolding table_decimals_small_def
proof (intro allI impI)
  fix k t
  assume "map_of (se_tokens (gap_token event m s)) k = Some t"
  then obtain t0 where "map_of (se_tokens s) k = Some t0" "t = t0 \<or> t = gapped_token event (se_ttl s) t0"
    unfolding gap_token_tokens by (auto split: if_splits)
  with assms show "decimals_small t" by (auto simp: table_decimals_small_def gapped_decimals)
qed

lemma pair_of_fst: "\<exists>b. p = (fst p, b)"
  by (rule exI [of _ "snd p"]) simp

lemma terminal_decimals: "table_decimals_small s \<Longrightarrow> table_decimals_small (apply_terminal p event s)"
  by (auto simp: table_decimals_small_def apply_terminal_tokens update_conv' ended_token_def
      transition_token_def decimals_small_def Let_def split: option.splits if_splits)

lemma same_tokens_decimals: "se_tokens s' = se_tokens s \<Longrightarrow> table_decimals_small s' = table_decimals_small s"
  by (simp add: table_decimals_small_def)

text \<open>Where the handler of a token answers, so does the engine's.\<close>

lemma dispatch_total:
  assumes small: "table_decimals_small s" and event: "event_decimals_ok event"
  shows "\<exists>s'. dispatch_event env event s = Some s'"
proof (cases "entered_mint event")
  case None
  then show ?thesis using sell_decides by (cases "dispatch_event env event s") blast+
next
  case (Some m)
  obtain t' where "token_handler env (se_ttl s) event (shape_of_event event s)
      (entry_token m (em_source (ne_meta event)) s) = Some t'"
    using token_handler_total [OF entry_decimals_small [OF small] event] by blast
  with Some show ?thesis
    by (cases "ne_payload event")
      (auto simp: dispatch_event_def token_handler_def entered_mint_def apply_buy_def apply_sell_def
        apply_curve_update_unfold apply_holder_update_unfold Let_def
        known_decimals_entry [where source = "em_source (ne_meta event)"] split: if_splits)
qed

lemma dispatch_decimals:
  assumes run: "dispatch_event env event s = Some s'" and small: "table_decimals_small s"
    and event: "event_decimals_ok event"
  shows "table_decimals_small s'"
proof (cases "entered_mint event")
  case None
  show ?thesis
  proof (cases "ne_payload event")
    case (TokenTerminal p)
    with run small terminal_decimals show ?thesis by (auto simp: dispatch_event_def)
  next
    case (DataGapPayload g)
    with run fold_keeps [where P = table_decimals_small, OF small gap_decimals] show ?thesis
      by (auto simp: dispatch_event_def apply_data_gap_def)
  next
    case (WalletFunding p)
    with run small show ?thesis
      by (auto simp: dispatch_event_def apply_funding_def Let_def case_prod_beta table_decimals_small_def)
  next
    case (ObservedTransaction p)
    with run small show ?thesis
      by (auto simp: dispatch_event_def apply_observed_transaction_def table_decimals_small_def split: option.splits)
  qed (use run small None in \<open>auto simp: dispatch_event_def entered_mint_def split: if_splits\<close>)
next
  case (Some m)
  from run Some obtain u where u: "token_handler env (se_ttl s) event (shape_of_event event s)
       (entry_token m (em_source (ne_meta event)) s) = Some u"
      "se_tokens s' = AList.update m u (se_tokens s)"
    by (rule dispatch_entered)
  with token_handler_small [OF u(1) entry_decimals_small [OF small] event] small show ?thesis
    by (auto simp: table_decimals_small_def update_conv')
qed

lemma core_decimals: "core_of t = core_of t' \<Longrightarrow> decimals_small t = decimals_small t'"
  by (drule arg_cong [of _ _ tok_reserve_state]) (simp add: core_of_def decimals_small_def)

lemma refresh_decimals:
  assumes "table_decimals_small s"
  shows "table_decimals_small (refresh_derived_indices_for_event env event s)"
  unfolding table_decimals_small_def
proof (intro allI impI)
  fix m t
  assume "map_of (se_tokens (refresh_derived_indices_for_event env event s)) m = Some t"
  with refresh_core [of env event s m] obtain t0 where "map_of (se_tokens s) m = Some t0" "core_of t0 = core_of t"
    by (cases "map_of (se_tokens s) m") auto
  with assms core_decimals [of t0 t] show "decimals_small t" by (auto simp: table_decimals_small_def)
qed

lemma recompute_decimals:
  "table_decimals_small s \<Longrightarrow> table_decimals_small (fst (recompute_transitions event s))"
  by (auto simp: table_decimals_small_def recompute_transitions_def case_prod_beta recompute_token_moves
      update_conv' decimals_small_def token_fields split: option.splits if_splits)

lemma engine_step_total:
  assumes small: "table_decimals_small s" and mints: "mints_distinct s" and op: "op_decimals_ok op"
  obtains s' where "engine_step env op s = Some s'" "table_decimals_small s'"
proof (cases op)
  case (Expire now)
  have "table_decimals_small (fst (expire_tokens now s))"
    using small mints
    by (auto simp: table_decimals_small_def mints_distinct_def expire_tokens_map split: option.splits if_splits)
  with Expire show ?thesis by (intro that) simp_all
next
  case (Apply event)
  from Apply op have event: "event_decimals_ok event" by simp
  obtain d where d: "dispatch_event env event s = Some d"
    using dispatch_total [OF small event] by blast
  have d': "table_decimals_small (fst (recompute_transitions event (refresh_derived_indices_for_event env event d)))"
    by (rule recompute_decimals [OF refresh_decimals [OF dispatch_decimals [OF d small event]]])
  let ?dropped = "case event_signature event of None \<Rightarrow> s
      | Some signature \<Rightarrow> s\<lparr>se_tentative_signatures := AList.delete signature (se_tentative_signatures s)\<rparr>"
  have "table_decimals_small ?dropped"
    using small by (auto simp: table_decimals_small_def split: option.splits)
  moreover have "engine_step env op s = Some (if em_canonicality (ne_meta event) = Reverted then ?dropped
      else fst (recompute_transitions event (refresh_derived_indices_for_event env event d)))"
    by (simp add: Apply apply_event_def d pair_of_fst split: option.splits)
  ultimately show ?thesis
    using d' by (cases "em_canonicality (ne_meta event) = Reverted") (simp_all add: that)
qed



subsection \<open>The cluster index of a run\<close>

definition clusters_linked :: "('d::linordered_field) cluster_index \<Rightarrow> bool" where
  "clusters_linked c \<longleftrightarrow> (\<exists>ls. list_all proper_link ls \<and> index_ok ls c)"

lemma linked_link:
  assumes "clusters_linked c" and "proper_link l"
  shows "clusters_linked (record_link l c)"
proof -
  from assms(1) obtain ls where "list_all proper_link ls" "index_ok ls c" by (auto simp: clusters_linked_def)
  with assms(2) have "list_all proper_link (ls @ [l])" "index_ok (ls @ [l]) (record_link l c)"
    by (simp_all add: record_link_ok)
  then show ?thesis unfolding clusters_linked_def by blast
qed

lemma linked_payer: "clusters_linked c \<Longrightarrow> a \<noteq> b \<Longrightarrow> clusters_linked (record_same_payer a b c)"
  using linked_link [of c "SamePayer a b"] by (simp add: proper_link_def)

lemma linked_funder: "clusters_linked c \<Longrightarrow> a \<noteq> b \<Longrightarrow> clusters_linked (record_same_funder a b c)"
  using linked_link [of c "SameFunder a b"] by (simp add: proper_link_def)

lemma in_sorted_list_of_set: "x \<in> set (sorted_list_of_set A) \<Longrightarrow> x \<in> A"
  by (cases "finite A") simp_all

lemma funding_pairs: "(a, b) \<in> set (snd (funding_apply p now g)) \<Longrightarrow> a \<noteq> b"
  by (auto simp: funding_apply_def Let_def dest: in_sorted_list_of_set)

lemma funding_linked:
  assumes "clusters_linked c"
  shows "clusters_linked (fold (\<lambda>(left, right). record_same_funder left right) (snd (funding_apply p now g)) c)"
  by (rule fold_keeps [where P = clusters_linked, OF assms]) (auto intro: linked_funder dest: funding_pairs)

lemma handler_clusters [simp]:
  "se_cluster_index (with_defense m e f s) = se_cluster_index s"
  "se_cluster_index (apply_terminal p e s) = se_cluster_index s"
  "se_cluster_index (gap_token e m s) = se_cluster_index s"
  "se_cluster_index (refresh_derived_indices_for_event env e s) = se_cluster_index s"
  "se_cluster_index (fst (recompute_transitions e s)) = se_cluster_index s"
  "se_cluster_index (apply_observed_transaction q e s) = se_cluster_index s"
  by (simp_all add: with_defense_def apply_terminal_def gap_token_def recompute_transitions_def
      refresh_derived_indices_for_event_def refresh_clusters_for_wallets_def update_tokens_def
      apply_observed_transaction_def case_prod_beta Let_def split: option.splits)

lemma gap_fold_clusters:
  "se_cluster_index (fold (gap_token e) ms (s :: ('d::linordered_field) state_engine)) = se_cluster_index s"
  by (induction ms arbitrary: s) simp_all

lemma expire_clusters: "se_cluster_index (fst (fold expire_token ms (s, acc))) = se_cluster_index s"
proof (induction ms arbitrary: s acc)
  case (Cons m ms)
  obtain s' acc' where one: "expire_token m (s, acc) = (s', acc')" by fastforce
  then have "se_cluster_index s' = se_cluster_index s"
    by (auto simp: expire_token_def Let_def split: option.splits)
  with one Cons show ?case by simp
qed simp

lemma dispatch_clusters:
  assumes run: "dispatch_event env event s = Some s'" and linked: "clusters_linked (se_cluster_index s)"
  shows "clusters_linked (se_cluster_index s')"
proof (cases "ne_payload event")
  case (TokenCreated p)
  with run have s': "s' = apply_token_created p event s" by (simp add: dispatch_event_def)
  have "se_cluster_index s' = (if tc_creator_wallet p \<noteq> tc_payer p
      then record_same_payer (tc_creator_wallet p) (tc_payer p) (se_cluster_index s) else se_cluster_index s)"
    by (simp add: s' apply_token_created_def Let_def case_prod_beta)
  with linked show ?thesis by (simp add: linked_payer)
next
  case (PumpBuy p)
  with run linked show ?thesis
    by (auto simp: dispatch_event_def apply_buy_def Let_def case_prod_beta)
next
  case (PumpSell p)
  with run linked show ?thesis
    by (auto simp: dispatch_event_def apply_sell_def Let_def case_prod_beta split: if_splits)
next
  case (BondingCurveUpdate p)
  with run linked show ?thesis
    by (auto simp: dispatch_event_def apply_curve_update_unfold split: if_splits)
next
  case (HolderBalanceUpdate p)
  with run linked show ?thesis by (auto simp: dispatch_event_def apply_holder_update_unfold)
next
  case (WalletFunding p)
  with run have s': "s' = apply_funding p event s" by (simp add: dispatch_event_def)
  have "se_cluster_index s' = fold (\<lambda>(left, right). record_same_funder left right)
      (snd (funding_apply p (em_received_at_wall_time (ne_meta event)) (se_funding_graph s))) (se_cluster_index s)"
    by (simp add: s' apply_funding_def Let_def case_prod_beta)
  with funding_linked [OF linked] show ?thesis by simp
next
  case (DataGapPayload g)
  with run linked show ?thesis by (auto simp: dispatch_event_def apply_data_gap_def gap_fold_clusters)
qed (use run linked in \<open>auto simp: dispatch_event_def shred_handler_defs\<close>)

lemma engine_step_clusters:
  assumes "engine_step env op s = Some s'" and "clusters_linked (se_cluster_index s)"
  shows "clusters_linked (se_cluster_index s')"
proof (cases op)
  case (Expire now)
  with assms show ?thesis by (auto simp: expire_tokens_def Let_def expire_clusters)
next
  case (Apply event)
  then obtain ts where run: "apply_event env event s = Some (s', ts)" using assms(1) by auto
  show ?thesis
  proof (cases "em_canonicality (ne_meta event) = Reverted")
    case True
    with run assms(2) show ?thesis by (auto simp: apply_event_def split: option.splits)
  next
    case False
    with run obtain d where d: "dispatch_event env event s = Some d"
      "s' = fst (recompute_transitions event (refresh_derived_indices_for_event env event d))"
      by (auto simp: apply_event_def dest: arg_cong [of _ _ fst])
    from dispatch_clusters [OF d(1) assms(2)] show ?thesis by (simp add: d(2))
  qed
qed

text \<open>
  C31. In every state the engine reaches, the wallet clusters are consistent: being related is symmetric, the
  cluster identifier of a wallet is a function of the wallets related to it, and both are the same when the
  state is restored from a snapshot that lacks the index of neighbours.
\<close>

theorem engine_clusters_consistent:
  assumes "engine_run env ops (new_state_engine ttl) = Some s"
  shows "(v \<in> related_wallets w (se_cluster_index s)) = (w \<in> related_wallets v (se_cluster_index s)) \<and>
    cluster_id_for sha w (se_cluster_index s) = cluster_of sha (related_wallets w (se_cluster_index s)) \<and>
    related_wallets w ((se_cluster_index s)\<lparr>ci_wallet_neighbors := []\<rparr>) = related_wallets w (se_cluster_index s) \<and>
    cluster_id_for sha w ((se_cluster_index s)\<lparr>ci_wallet_neighbors := []\<rparr>) = cluster_id_for sha w (se_cluster_index s)"
proof -
  have start: "clusters_linked (se_cluster_index (new_state_engine ttl :: 'a state_engine))"
    using default_index_ok by (auto simp: new_state_engine_def clusters_linked_def intro: exI [of _ "[]"])
  have "clusters_linked (se_cluster_index s)"
    by (rule foldo_keeps [OF assms [unfolded engine_run_def], where P = "\<lambda>s. clusters_linked (se_cluster_index s)"])
      (rule start, rule engine_step_clusters)
  then obtain ls where ls: "list_all proper_link ls" "index_ok ls (se_cluster_index s)"
    by (auto simp: clusters_linked_def)
  note facts = related_wallets_linked [OF ls(2,1)] cluster_id_linked [OF ls(2,1)] index_dropped_ok [OF ls(2,1)]
  have sym: "v \<in> linked ls w \<longleftrightarrow> w \<in> linked ls v" by (auto simp: linked_def)
  show ?thesis unfolding facts using sym by auto
qed


subsection \<open>Witnesses\<close>

definition example_env :: "rat text_env" where
  "example_env = \<lparr>tx_sha256_hex = id, tx_show_uuid = (\<lambda>_. ''u''), tx_show_decimal = (\<lambda>_. [])\<rparr>"

definition example_ttl :: ttl_config where
  "example_ttl = \<lparr>ttl_discovered_secs = 60, ttl_active_light_secs = 300, ttl_active_deep_secs = 900,
     ttl_discarded_summary_secs = 600, ttl_research_sample_secs = 3600\<rparr>"

definition example_meta :: "rat event_meta" where
  "example_meta = (new_event_meta 0 1 GeyserProcessed Processed 7)\<lparr>em_received_at_wall_time := 1000\<rparr>"

definition example_mint :: string where "example_mint = ''m''"

definition example_created :: "rat token_created_event" where
  "example_created = \<lparr>tc_mint = example_mint, tc_token_program = SplToken, tc_quote_mint = ''q'',
     tc_quote_asset_type = WrappedSol, tc_creator_wallet = ''c'', tc_payer = ''p'',
     tc_bonding_curve_account = ''b'', tc_associated_bonding_curve_account = None, tc_metadata_account = None,
     tc_name = [], tc_symbol = [], tc_uri = [], tc_create_instruction_variant = [],
     tc_initial_virtual_quote_reserves = None, tc_initial_virtual_token_reserves = None,
     tc_initial_real_quote_reserves = None, tc_initial_real_token_reserves = None, tc_initial_supply = None,
     tc_creator_initial_buy = None, tc_same_transaction_buys = 0, tc_same_slot_buys = 0,
     tc_fee_recipients = [], tc_raw_account_list = [], tc_launch_transaction_fingerprint = None,
     tc_status = Success\<rparr>"

definition example_creation :: "rat normalized_event" where
  "example_creation = \<lparr>ne_meta = example_meta, ne_payload = TokenCreated example_created\<rparr>"

definition example_gap :: "string \<Rightarrow> rat normalized_event" where
  "example_gap mint = \<lparr>ne_meta = example_meta, ne_payload = DataGapPayload
     \<lparr>dg_gap_type = SlotGap, dg_source = GeyserProcessed, dg_start_slot = 1, dg_end_slot = None,
      dg_affected_tokens = [mint], dg_severity = High, dg_trade_allowed = False, dg_recovery_action = []\<rparr>\<rparr>"

lemma example_live: "em_canonicality (ne_meta example_creation) \<noteq> Reverted"
  by (simp add: example_creation_def example_meta_def new_event_meta_def)

lemma example_creation_mint: "event_mint example_creation = Some example_mint"
  by (simp add: example_creation_def example_created_def event_mint_def)

lemma example_creation_payload: "ne_payload example_creation = TokenCreated example_created"
  by (simp add: example_creation_def)

lemma example_creation_runs:
  obtains s ts where "apply_event example_env example_creation (new_state_engine example_ttl) = Some (s, ts)"
    "engine_run example_env [Apply example_creation] (new_state_engine example_ttl) = Some s"
proof -
  obtain s ts where run: "apply_event example_env example_creation (new_state_engine example_ttl) = Some (s, ts)"
    using example_live by (simp add: apply_event_def dispatch_event_def example_creation_payload) (metis surj_pair)
  show thesis by (rule that [OF run]) (simp add: engine_run_def run)
qed

lemma example_gap_runs: "\<exists>s' ts. apply_event example_env (example_gap mint) s = Some (s', ts)"
  by (simp add: apply_event_def dispatch_event_def example_gap_def example_meta_def new_event_meta_def)

lemma example_gap_live: "em_canonicality (ne_meta (example_gap mint)) \<noteq> Reverted"
  by (simp add: example_gap_def example_meta_def new_event_meta_def)

theorem engine_state_well_formed_witness:
  "\<exists>s. engine_run example_env [Apply example_creation] (new_state_engine example_ttl) = Some s \<and> mints_distinct s"
  using engine_state_well_formed example_creation_runs by metis

theorem lifecycle_refines_machine_witness:
  "\<exists>s ts. apply_event example_env example_creation (new_state_engine example_ttl) = Some (s, ts) \<and>
    life_step (ne_payload example_creation) example_mint None (lifecycle_of s example_mint)"
proof -
  obtain s ts where run: "apply_event example_env example_creation (new_state_engine example_ttl) = Some (s, ts)"
    using example_creation_runs by metis
  have "lifecycle_of (new_state_engine example_ttl :: rat state_engine) example_mint = None"
    by (simp add: lifecycle_of_def new_state_engine_def)
  with lifecycle_refines_machine [OF run, of example_mint] run show ?thesis by metis
qed

definition rugged_engine :: "rat state_engine" where
  "rugged_engine = (new_state_engine example_ttl)\<lparr>se_tokens :=
     [(example_mint, (new_token_state example_mint GeyserProcessed)\<lparr>tok_lifecycle := LcRugArchive\<rparr>)]\<rparr>"

lemma rugged_lifecycle: "lifecycle_of rugged_engine example_mint = Some LcRugArchive"
  by (simp add: rugged_engine_def lifecycle_of_def)

theorem ended_tokens_stay_ended_witness:
  "\<exists>s'. engine_run example_env (map Apply [example_gap ''other'', example_creation]) rugged_engine = Some s' \<and>
    lifecycle_of s' example_mint = Some LcRugArchive"
proof -
  obtain u ts where u: "apply_event example_env (example_gap ''other'') rugged_engine = Some (u, ts)"
    using example_gap_runs by blast
  obtain s' ts' where s': "apply_event example_env example_creation u = Some (s', ts')"
    using example_live by (simp add: apply_event_def dispatch_event_def example_creation_payload) (metis surj_pair)
  have run: "engine_run example_env (map Apply [example_gap ''other'', example_creation]) rugged_engine = Some s'"
    by (simp add: engine_run_def u s')
  have "list_all (\<lambda>event. \<not> ends example_mint event) [example_gap ''other'', example_creation]"
    by (simp add: ends_def example_gap_def example_creation_payload example_mint_def)
  from ended_tokens_stay_ended [OF run rugged_lifecycle _ this] run show ?thesis
    by (simp add: is_ended_def is_terminal_lifecycle_def)
qed

theorem data_gap_overwrites_rug_witness:
  "\<exists>s' ts. apply_event example_env (example_gap example_mint) rugged_engine = Some (s', ts) \<and>
    lifecycle_of s' example_mint = Some LcDataGap"
proof -
  obtain s' ts where run: "apply_event example_env (example_gap example_mint) rugged_engine = Some (s', ts)"
    using example_gap_runs by blast
  from data_gap_overwrites_rug [OF run example_gap_live _ _ rugged_lifecycle] run show ?thesis
    by (auto simp: example_gap_def)
qed

theorem reported_transitions_exact_witness:
  "\<exists>s ts. apply_event example_env example_creation (new_state_engine example_ttl) = Some (s, ts) \<and>
    ts = expected_transitions example_mint 1000 None (lifecycle_of s example_mint)"
proof -
  obtain s ts where run: "apply_event example_env example_creation (new_state_engine example_ttl) = Some (s, ts)"
    using example_creation_runs by metis
  have start: "engine_run example_env [] (new_state_engine example_ttl) = Some (new_state_engine example_ttl)"
    by (simp add: engine_run_def)
  have "\<not> ends example_mint example_creation" by (simp add: ends_def example_creation_payload)
  with reported_transitions_exact [OF start run example_live example_creation_mint] run show ?thesis
    by (simp add: lifecycle_of_def new_state_engine_def example_creation_def example_meta_def)
qed

theorem token_expiry_exact_witness:
  "\<exists>s. engine_run example_env [Apply example_creation] (new_state_engine example_ttl) = Some s \<and>
    se_tokens (fst (expire_tokens 2000 s)) = filter (\<lambda>(m, t). \<not> expired_at 2000 t) (se_tokens s)"
proof -
  obtain s where run: "engine_run example_env [Apply example_creation] (new_state_engine example_ttl) = Some s"
    using example_creation_runs by metis
  from token_expiry_exact [OF run, of 2000] run show ?thesis by (auto simp: case_prod_beta Let_def)
qed

theorem active_tokens_are_kept_witness:
  "\<exists>s ts t now. apply_event example_env example_creation (new_state_engine example_ttl) = Some (s, ts) \<and>
    map_of (se_tokens (fst (expire_tokens now s))) example_mint = Some t"
proof -
  obtain s ts where run: "apply_event example_env example_creation (new_state_engine example_ttl) = Some (s, ts)"
    using example_creation_runs by metis
  have empty: "map_of (se_tokens (new_state_engine example_ttl :: rat state_engine)) m = None" for m
    by (simp add: new_state_engine_def)
  obtain t where t: "map_of (se_tokens s) (tc_mint example_created) = Some t"
    by (rule created_launch_price [OF run example_live example_creation_payload empty])
  have mint: "event_mint example_creation = Some (tc_mint example_created)"
    by (simp add: event_mint_def example_creation_payload)
  have distinct: "mints_distinct (new_state_engine example_ttl :: rat state_engine)"
    by (simp add: mints_distinct_def new_state_engine_def)
  let ?deadline = "em_received_at_wall_time (ne_meta example_creation) +
      ttl_for_config (se_ttl (new_state_engine example_ttl :: rat state_engine)) (tok_lifecycle t)"
  have "map_of (se_tokens (fst (expire_tokens (?deadline - 1) s))) (tc_mint example_created) = Some t"
    by (rule active_tokens_are_kept [OF run example_live mint distinct t]) simp
  with run show ?thesis by (auto simp: example_created_def)
qed

theorem events_are_local_witness:
  "\<exists>s' ts. apply_event example_env example_creation rugged_engine = Some (s', ts) \<and>
    map_of (se_tokens s') ''other'' = None"
proof -
  obtain s' ts where run: "apply_event example_env example_creation rugged_engine = Some (s', ts)"
    using example_live by (simp add: apply_event_def dispatch_event_def example_creation_payload) (metis surj_pair)
  have "map_option core_of (map_of (se_tokens s') ''other'') = map_option core_of (map_of (se_tokens rugged_engine) ''other'')"
    by (rule events_are_local [OF run])
      (simp_all add: example_creation_mint example_mint_def ends_def example_creation_payload)
  with run show ?thesis by (simp add: rugged_engine_def example_mint_def)
qed

theorem launch_price_stays_zero_witness:
  "\<exists>s t. engine_run example_env [Apply example_creation, Apply (example_gap ''other'')]
      (new_state_engine example_ttl) = Some s \<and>
    map_of (se_tokens s) example_mint = Some t \<and> cv_launch_price (tok_reserve_state t) = Some 0"
proof -
  obtain s1 ts where run: "apply_event example_env example_creation (new_state_engine example_ttl) = Some (s1, ts)"
    using example_creation_runs by metis
  obtain s2 ts2 where gap: "apply_event example_env (example_gap ''other'') s1 = Some (s2, ts2)"
    using example_gap_runs by blast
  have two: "engine_run example_env (map Apply [example_gap ''other'']) s1 = Some s2"
    by (simp add: engine_run_def gap)
  have empty: "map_of (se_tokens (new_state_engine example_ttl :: rat state_engine)) (tc_mint example_created) = None"
    by (simp add: new_state_engine_def)
  from launch_price_stays_zero [OF run example_live example_creation_payload empty two] run gap show ?thesis
    by (simp add: engine_run_def example_created_def)
qed


theorem engine_clusters_consistent_witness:
  "\<exists>s. engine_run example_env [Apply example_creation] (new_state_engine example_ttl) = Some s \<and>
    (''c'' \<in> related_wallets ''p'' (se_cluster_index s)) = (''p'' \<in> related_wallets ''c'' (se_cluster_index s))"
proof -
  obtain s where run: "engine_run example_env [Apply example_creation] (new_state_engine example_ttl) = Some s"
    using example_creation_runs by metis
  from engine_clusters_consistent [OF run, of "''c''" "''p''"] run show ?thesis by blast
qed


definition example_resolved :: "rat shred_sell_intent_resolved_event" where
  "example_resolved = \<lparr>sr_original_tentative_event_id = 1, sr_canonical_signature = None,
     sr_outcome = tentative_sell_resolution_outcome.NotSeenWithinTtl, sr_observed_canonical_slot = None,
     sr_actual_price_impact_pct = 0, sr_actual_quote_out = 0, sr_actual_token_in = 0,
     sr_actual_loss_saved_if_exited = 0, sr_false_positive_flag = False, sr_missed_exit_flag = False,
     sr_reconciliation_latency_ms = None, sr_source = RawShred, sr_mint = example_mint,
     sr_seller_wallet = [], sr_seller_classification = Dev,
     sr_confirmation_state = tentative_sell_confirmation_state.NotSeenWithinTtl,
     sr_confirmation_method = None, sr_schema_version = 2\<rparr>"

definition armed_defense :: "rat shred_defense_state" where
  "armed_defense = default_shred_defense_state
     \<lparr>sd_pending_tentative_sells := [(''v'', default_tentative_sell_tracking)],
      sd_shred_exit_armed_flag := True, sd_active_armed_exit_event_id := Some ''v''\<rparr>"

theorem resolution_disarms_any_exit_witness:
  "sd_shred_exit_armed_flag armed_defense \<and>
   \<not> sd_shred_exit_armed_flag (record_sell_resolved example_env example_resolved armed_defense)"
  using resolution_disarms_any_exit [of example_env example_resolved "''v''" armed_defense
      default_tentative_sell_tracking]
  by (simp add: example_env_def armed_defense_def Let_def)

end
