(* ===== verification/Strategy_Config.thy ===== *)
theory Strategy_Config
  imports Decimal_Math Config_Records
begin

text \<open>
  The sections of \<open>crates/common/src/config.rs\<close> that the decision engine and the tentative sell manager read: the
  edge requirements, the profile of each strategy, the thresholds, the early intent and the shred exit settings, with
  the values they take where the file sets none.
\<close>

record 'd edge_config =
  eg_min_expected_net_edge_quote :: 'd
  eg_min_expected_net_edge_pct :: 'd
  eg_min_edge_confidence :: 'd
  eg_fee_safety_margin_multiplier :: 'd
  eg_latency_safety_margin_multiplier :: 'd
  eg_allow_watch_without_trade :: bool

definition positive_or :: "'d::linordered_field \<Rightarrow> 'd \<Rightarrow> 'd" where
  "positive_or fallback value = (if value \<le> 0 then fallback else value)"

definition edge_config_apply_defaults :: "('d::linordered_field) edge_config \<Rightarrow> 'd edge_config" where
  "edge_config_apply_defaults c = c\<lparr>
    eg_min_expected_net_edge_quote := positive_or (decimal 2 2) (eg_min_expected_net_edge_quote c),
    eg_min_expected_net_edge_pct := positive_or (decimal 10 2) (eg_min_expected_net_edge_pct c),
    eg_min_edge_confidence := positive_or (decimal 35 2) (eg_min_edge_confidence c),
    eg_fee_safety_margin_multiplier := positive_or (decimal 12 1) (eg_fee_safety_margin_multiplier c),
    eg_latency_safety_margin_multiplier := positive_or (decimal 12 1) (eg_latency_safety_margin_multiplier c)\<rparr>"

record 'd strategy_profile_config =
  sp_take_profit_pct :: 'd
  sp_trailing_stop_pct :: 'd
  sp_stop_loss_pct :: 'd
  sp_max_hold_ms :: u64

definition strategy_profile_apply_defaults_with ::
  "'d \<Rightarrow> 'd \<Rightarrow> 'd \<Rightarrow> u64 \<Rightarrow> ('d::linordered_field) strategy_profile_config \<Rightarrow> 'd strategy_profile_config" where
  "strategy_profile_apply_defaults_with take_profit trailing_stop stop_loss max_hold c = c\<lparr>
    sp_take_profit_pct := positive_or take_profit (sp_take_profit_pct c),
    sp_trailing_stop_pct := positive_or trailing_stop (sp_trailing_stop_pct c),
    sp_stop_loss_pct := positive_or stop_loss (sp_stop_loss_pct c),
    sp_max_hold_ms := (if sp_max_hold_ms c = 0 then max_hold else sp_max_hold_ms c)\<rparr>"

text \<open>Whether a strategy leaves on a shred warning; its defaults are set by the parser only.\<close>

record strategy_exit_on_shred_config =
  es_launch_momentum :: bool
  es_holder_growth :: bool
  es_absorption_bounce :: bool
  es_smart_rotation :: bool
  es_organic_slow_grind :: bool

record 'd strategy_thresholds =
  th_min_fee_adjusted_edge_bps :: u64
  th_min_data_quality_score :: 'd
  th_max_bundle_risk :: 'd
  th_max_rug_risk :: 'd
  th_max_fake_momentum_risk :: 'd
  th_min_holder_growth :: 'd
  th_min_trade_eligibility_score :: 'd
  th_min_holder_stickiness_score :: 'd
  th_min_momentum_authenticity_score :: 'd
  th_max_profit_overhang_score :: 'd
  th_launch_momentum :: "'d strategy_profile_config"
  th_holder_growth :: "'d strategy_profile_config"
  th_absorption_bounce :: "'d strategy_profile_config"
  th_smart_rotation :: "'d strategy_profile_config"
  th_organic_slow_grind :: "'d strategy_profile_config"
  th_exit_on_shred :: strategy_exit_on_shred_config

definition strategy_thresholds_apply_defaults ::
  "('d::linordered_field) strategy_thresholds \<Rightarrow> 'd strategy_thresholds" where
  "strategy_thresholds_apply_defaults c = c\<lparr>
    th_min_trade_eligibility_score := positive_or (decimal 60 2) (th_min_trade_eligibility_score c),
    th_min_holder_stickiness_score := positive_or (decimal 25 2) (th_min_holder_stickiness_score c),
    th_min_momentum_authenticity_score := positive_or (decimal 40 2) (th_min_momentum_authenticity_score c),
    th_max_profit_overhang_score := positive_or (decimal 70 2) (th_max_profit_overhang_score c),
    th_launch_momentum := strategy_profile_apply_defaults_with (decimal 18 2) (decimal 8 2) (decimal 9 2)
      20000 (th_launch_momentum c),
    th_holder_growth := strategy_profile_apply_defaults_with (decimal 28 2) (decimal 12 2) (decimal 12 2)
      90000 (th_holder_growth c),
    th_absorption_bounce := strategy_profile_apply_defaults_with (decimal 14 2) (decimal 7 2) (decimal 8 2)
      35000 (th_absorption_bounce c),
    th_smart_rotation := strategy_profile_apply_defaults_with (decimal 20 2) (decimal 10 2) (decimal 10 2)
      60000 (th_smart_rotation c),
    th_organic_slow_grind := strategy_profile_apply_defaults_with (decimal 24 2) (decimal 10 2) (decimal 11 2)
      120000 (th_organic_slow_grind c)\<rparr>"

subsection \<open>Early intent and shred exits\<close>

text \<open>\<open>EarlyIntentConfig\<close> without the sections for the mock source and for the precedence of sources.\<close>

record 'd early_intent_config =
  ei_enabled :: bool
  ei_sources :: "string list"
  ei_prefer_deshred_when_available :: bool
  ei_allow_raw_shred_fixture_in_dev :: bool
  ei_allow_production_raw_shred :: bool
  ei_require_early_intent_for_live_shred_exit :: bool
  ei_max_tentative_event_age_ms :: u64
  ei_deduplicate_sources :: bool
  ei_dedup_amount_tolerance_pct :: 'd
  ei_dedup_slot_tolerance :: u64

datatype shred_exit_confirmation_level =
    SeTentative
  | SeGeyserProcessedTxSeen
  | SeAccountEffectsObserved
  | SeConfirmedExecuted
  | SeRootedExecuted

record 'd shred_exit_calibration_config =
  cc_enabled :: bool
  cc_paper_only :: bool
  cc_path :: string
  cc_min_samples_before_adapt :: u64
  cc_max_threshold_adjustment_per_hour :: 'd
  cc_false_positive_rate_limit :: 'd
  cc_missed_sell_rate_limit :: 'd
  cc_persist_calibration :: bool
  cc_max_live_threshold_adjustment :: 'd

definition calibration_config_apply_defaults ::
  "('d::linordered_field) shred_exit_calibration_config \<Rightarrow> 'd shred_exit_calibration_config" where
  "calibration_config_apply_defaults c = c\<lparr>
    cc_path := (if cc_path c = [] then ''data/calibration/shred_exit_calibration.json'' else cc_path c),
    cc_min_samples_before_adapt := (if cc_min_samples_before_adapt c = 0 then 50 else cc_min_samples_before_adapt c),
    cc_max_threshold_adjustment_per_hour := positive_or (decimal 5 2) (cc_max_threshold_adjustment_per_hour c),
    cc_false_positive_rate_limit := positive_or (decimal 10 2) (cc_false_positive_rate_limit c),
    cc_missed_sell_rate_limit := positive_or (decimal 5 2) (cc_missed_sell_rate_limit c)\<rparr>"

record 'd shred_exit_config =
  sx_enabled :: bool
  sx_paper_enabled :: bool
  sx_live_enabled :: bool
  sx_min_decode_confidence_warn :: 'd
  sx_min_decode_confidence_arm :: 'd
  sx_min_decode_confidence_paper_exit :: 'd
  sx_min_decode_confidence_live_exit :: 'd
  sx_warn_impact_pct :: 'd
  sx_arm_impact_pct :: 'd
  sx_paper_exit_impact_pct :: 'd
  sx_live_exit_impact_pct :: 'd
  sx_min_expected_saved_loss_quote :: 'd
  sx_min_emergency_exit_net_benefit_quote :: 'd
  sx_min_latency_edge_ratio :: 'd
  sx_allow_arm_when_net_benefit_negative :: bool
  sx_allow_emergency_when_net_benefit_negative :: bool
  sx_absorption_downgrade_enabled :: bool
  sx_absorption_downgrade_threshold :: 'd
  sx_dev_sell_exit_threshold_pct :: 'd
  sx_top_holder_exit_threshold_pct :: 'd
  sx_bundle_cluster_exit_threshold_pct :: 'd
  sx_same_slot_multi_sell_escalation :: bool
  sx_max_tentative_event_age_ms :: u64
  sx_tentative_reconciliation_ttl_ms :: u64
  sx_false_positive_penalty_enabled :: bool
  sx_tighten_stop_on_arm :: bool
  sx_prebuild_live_exit_on_arm :: bool
  sx_allow_paper_exit_on_tentative :: bool
  sx_allow_live_exit_on_tentative :: bool
  sx_required_confirmation_level_for_live_exit :: shred_exit_confirmation_level
  sx_prefer_account_effect_confirmation :: bool
  sx_calibration :: "'d shred_exit_calibration_config"

definition shred_exit_config_apply_defaults ::
  "('d::linordered_field) shred_exit_config \<Rightarrow> 'd shred_exit_config" where
  "shred_exit_config_apply_defaults c = c\<lparr>
    sx_min_decode_confidence_warn := positive_or (decimal 55 2) (sx_min_decode_confidence_warn c),
    sx_min_decode_confidence_arm := positive_or (decimal 70 2) (sx_min_decode_confidence_arm c),
    sx_min_decode_confidence_paper_exit := positive_or (decimal 82 2) (sx_min_decode_confidence_paper_exit c),
    sx_min_decode_confidence_live_exit := positive_or (decimal 95 2) (sx_min_decode_confidence_live_exit c),
    sx_warn_impact_pct := positive_or (decimal_from 8) (sx_warn_impact_pct c),
    sx_arm_impact_pct := positive_or (decimal_from 15) (sx_arm_impact_pct c),
    sx_paper_exit_impact_pct := positive_or (decimal_from 25) (sx_paper_exit_impact_pct c),
    sx_live_exit_impact_pct := positive_or (decimal_from 35) (sx_live_exit_impact_pct c),
    sx_min_expected_saved_loss_quote := positive_or (decimal 2 2) (sx_min_expected_saved_loss_quote c),
    sx_min_emergency_exit_net_benefit_quote := positive_or (decimal 1 2) (sx_min_emergency_exit_net_benefit_quote c),
    sx_min_latency_edge_ratio := positive_or (decimal 11 1) (sx_min_latency_edge_ratio c),
    sx_absorption_downgrade_threshold := positive_or (decimal 75 2) (sx_absorption_downgrade_threshold c),
    sx_dev_sell_exit_threshold_pct := positive_or (decimal_from 5) (sx_dev_sell_exit_threshold_pct c),
    sx_top_holder_exit_threshold_pct := positive_or (decimal_from 10) (sx_top_holder_exit_threshold_pct c),
    sx_bundle_cluster_exit_threshold_pct := positive_or (decimal_from 12) (sx_bundle_cluster_exit_threshold_pct c),
    sx_max_tentative_event_age_ms := (if sx_max_tentative_event_age_ms c = 0 then 750
      else sx_max_tentative_event_age_ms c),
    sx_tentative_reconciliation_ttl_ms := (if sx_tentative_reconciliation_ttl_ms c = 0 then 5000
      else sx_tentative_reconciliation_ttl_ms c),
    sx_calibration := calibration_config_apply_defaults (sx_calibration c)\<rparr>"

subsection \<open>Usable profiles\<close>

text \<open>After the defaults every bound of a profile is positive.\<close>

definition profile_usable :: "('d::linordered_field) strategy_profile_config \<Rightarrow> bool" where
  "profile_usable p \<longleftrightarrow> 0 < sp_take_profit_pct p \<and> 0 < sp_trailing_stop_pct p \<and> 0 < sp_stop_loss_pct p \<and>
     0 < sp_max_hold_ms p"

lemma positive_or_pos: "0 < fallback \<Longrightarrow> 0 < positive_or fallback value"
  by (simp add: positive_or_def)

lemma profile_usable_defaults:
  "0 < t \<Longrightarrow> 0 < u \<Longrightarrow> 0 < s \<Longrightarrow> 0 < m \<Longrightarrow> profile_usable (strategy_profile_apply_defaults_with t u s m p)"
  by (simp add: profile_usable_def strategy_profile_apply_defaults_with_def positive_or_pos word_neq_0_conv)

lemma thresholds_usable:
  "list_all (\<lambda>profile. profile_usable (profile (strategy_thresholds_apply_defaults c)))
     [th_launch_momentum, th_holder_growth, th_absorption_bounce, th_smart_rotation, th_organic_slow_grind]"
  by (simp add: strategy_thresholds_apply_defaults_def profile_usable_defaults decimal_def)

end
