(* ===== verification/Reason_Order.thy ===== *)
theory Reason_Order
  imports Events
begin

text \<open>
  \<open>ReasonCode\<close> derives its order from the order of its declaration (\<open>crates/common/src/reason.rs\<close>); the risk
  and decision engines collect reasons in a \<open>BTreeMap\<close> and list them in that order.
\<close>

fun reason_index :: "reason_code \<Rightarrow> nat" where
  "reason_index reason_code.UnsupportedIdl = 0"
| "reason_index reason_code.UnsupportedInstruction = 1"
| "reason_index reason_code.UnsupportedQuoteAsset = 2"
| "reason_index reason_code.DataGap = 3"
| "reason_index reason_code.DataGapActive = 4"
| "reason_index reason_code.StaleCurve = 5"
| "reason_index reason_code.StaleHolderIndex = 6"
| "reason_index reason_code.HighBundleRisk = 7"
| "reason_index reason_code.HighRugRisk = 8"
| "reason_index reason_code.HighTopHolderRisk = 9"
| "reason_index reason_code.HighFakeMomentumRisk = 10"
| "reason_index reason_code.HighFeeDrag = 11"
| "reason_index reason_code.HighSlippage = 12"
| "reason_index reason_code.LiveDisabled = 13"
| "reason_index reason_code.ExecutionDisabled = 14"
| "reason_index reason_code.KillSwitchActive = 15"
| "reason_index reason_code.MalformedDecode = 16"
| "reason_index reason_code.DuplicateEventSuppressed = 17"
| "reason_index reason_code.UnknownRpcBudgetState = 18"
| "reason_index reason_code.TentativeOnly = 19"
| "reason_index reason_code.TentativeTimedOut = 20"
| "reason_index reason_code.TentativeReverted = 21"
| "reason_index reason_code.ShredDecoderUnavailable = 22"
| "reason_index reason_code.ShredUnavailable = 23"
| "reason_index reason_code.GeyserUnavailable = 24"
| "reason_index reason_code.CanonicalQueueOverflow = 25"
| "reason_index reason_code.TentativeQueueOverflow = 26"
| "reason_index reason_code.PriceCollapse70 = 27"
| "reason_index reason_code.DevSoldEarly = 28"
| "reason_index reason_code.BundleConcentration = 29"
| "reason_index reason_code.TopHolderDump = 30"
| "reason_index reason_code.NoBuyGap = 31"
| "reason_index reason_code.FeeAdjustedEdgeTooLow = 32"
| "reason_index reason_code.ProfitOverhangTooHigh = 33"
| "reason_index reason_code.FundingGraphSuspicious = 34"
| "reason_index reason_code.FeeWarTooExpensive = 35"
| "reason_index reason_code.HardDiscarded = 36"
| "reason_index reason_code.SoftDiscarded = 37"
| "reason_index reason_code.EnterPaper = 38"
| "reason_index reason_code.ExitPaper = 39"
| "reason_index reason_code.ShredDevSellWarning = 40"
| "reason_index reason_code.ShredTopHolderSellWarning = 41"
| "reason_index reason_code.ShredBundleExitWarning = 42"
| "reason_index reason_code.ShredWhaleDumpWarning = 43"
| "reason_index reason_code.ShredSellImpactHigh = 44"
| "reason_index reason_code.ShredSameSlotSellCluster = 45"
| "reason_index reason_code.ShredExitArmed = 46"
| "reason_index reason_code.ShredEmergencyExit = 47"
| "reason_index reason_code.ShredFalsePositive = 48"
| "reason_index reason_code.ShredSavedLoss = 49"
| "reason_index reason_code.ShredSignalStale = 50"
| "reason_index reason_code.ShredLowConfidence = 51"
| "reason_index reason_code.DeshredPreExecutionSellWarning = 52"
| "reason_index reason_code.EarlyIntentSellWarning = 53"
| "reason_index reason_code.GeyserProcessedSellConfirmed = 54"
| "reason_index reason_code.AccountEffectSellConfirmed = 55"
| "reason_index reason_code.RootedSellConfirmed = 56"
| "reason_index reason_code.TentativeSellNotSeenWithinTtl = 57"
| "reason_index reason_code.TentativeSellDecodeMismatch = 58"
| "reason_index reason_code.TentativeSellReorged = 59"
| "reason_index reason_code.TentativeSellConfirmedFailed = 60"
| "reason_index reason_code.LiveShredExitRejected = 61"
| "reason_index reason_code.EarlyIntentSourceUnavailable = 62"

definition all_reasons :: "reason_code list" where
  "all_reasons = [
    reason_code.UnsupportedIdl,
    reason_code.UnsupportedInstruction,
    reason_code.UnsupportedQuoteAsset,
    reason_code.DataGap,
    reason_code.DataGapActive,
    reason_code.StaleCurve,
    reason_code.StaleHolderIndex,
    reason_code.HighBundleRisk,
    reason_code.HighRugRisk,
    reason_code.HighTopHolderRisk,
    reason_code.HighFakeMomentumRisk,
    reason_code.HighFeeDrag,
    reason_code.HighSlippage,
    reason_code.LiveDisabled,
    reason_code.ExecutionDisabled,
    reason_code.KillSwitchActive,
    reason_code.MalformedDecode,
    reason_code.DuplicateEventSuppressed,
    reason_code.UnknownRpcBudgetState,
    reason_code.TentativeOnly,
    reason_code.TentativeTimedOut,
    reason_code.TentativeReverted,
    reason_code.ShredDecoderUnavailable,
    reason_code.ShredUnavailable,
    reason_code.GeyserUnavailable,
    reason_code.CanonicalQueueOverflow,
    reason_code.TentativeQueueOverflow,
    reason_code.PriceCollapse70,
    reason_code.DevSoldEarly,
    reason_code.BundleConcentration,
    reason_code.TopHolderDump,
    reason_code.NoBuyGap,
    reason_code.FeeAdjustedEdgeTooLow,
    reason_code.ProfitOverhangTooHigh,
    reason_code.FundingGraphSuspicious,
    reason_code.FeeWarTooExpensive,
    reason_code.HardDiscarded,
    reason_code.SoftDiscarded,
    reason_code.EnterPaper,
    reason_code.ExitPaper,
    reason_code.ShredDevSellWarning,
    reason_code.ShredTopHolderSellWarning,
    reason_code.ShredBundleExitWarning,
    reason_code.ShredWhaleDumpWarning,
    reason_code.ShredSellImpactHigh,
    reason_code.ShredSameSlotSellCluster,
    reason_code.ShredExitArmed,
    reason_code.ShredEmergencyExit,
    reason_code.ShredFalsePositive,
    reason_code.ShredSavedLoss,
    reason_code.ShredSignalStale,
    reason_code.ShredLowConfidence,
    reason_code.DeshredPreExecutionSellWarning,
    reason_code.EarlyIntentSellWarning,
    reason_code.GeyserProcessedSellConfirmed,
    reason_code.AccountEffectSellConfirmed,
    reason_code.RootedSellConfirmed,
    reason_code.TentativeSellNotSeenWithinTtl,
    reason_code.TentativeSellDecodeMismatch,
    reason_code.TentativeSellReorged,
    reason_code.TentativeSellConfirmedFailed,
    reason_code.LiveShredExitRejected,
    reason_code.EarlyIntentSourceUnavailable]"

lemma all_reasons_nth: "all_reasons ! reason_index r = r"
  by (cases r) (simp_all add: all_reasons_def)

lemma reason_index_inj: "reason_index r = reason_index r' \<longleftrightarrow> r = r'"
  by (metis all_reasons_nth)

instantiation reason_code :: linorder
begin

definition less_eq_reason_code :: "reason_code \<Rightarrow> reason_code \<Rightarrow> bool" where
  "less_eq_reason_code r r' \<longleftrightarrow> reason_index r \<le> reason_index r'"

definition less_reason_code :: "reason_code \<Rightarrow> reason_code \<Rightarrow> bool" where
  "less_reason_code r r' \<longleftrightarrow> reason_index r < reason_index r'"

instance
  by standard (auto simp: less_eq_reason_code_def less_reason_code_def reason_index_inj)

end

text \<open>The keys of a \<open>BTreeMap\<close> filled with reasons.\<close>

definition reason_list :: "reason_code list \<Rightarrow> reason_code list" where
  "reason_list reasons = sorted_list_of_set (set reasons)"

lemma reason_list_props [simp]:
  "set (reason_list rs) = set rs" "sorted (reason_list rs)" "distinct (reason_list rs)"
  by (simp_all add: reason_list_def)

end
