(* ===== verification/Risk.thy ===== *)
theory Risk
  imports Complex_Main Feature_Snapshot Reason_Order Curve_State
begin

text \<open>
  The risk engine of \<open>crates/risk/src/lib.rs\<close>: six scores over the feature snapshot of a token, each a clamped
  weighted average with its reasons, and the discard policy that reads them. Rendering a \<open>Decimal\<close> with four
  places is third-party code and an argument.
\<close>

subsection \<open>Records\<close>

datatype risk_severity = SeverityLow | SeverityMedium | SeverityHigh | SeverityCritical

datatype lifecycle_action =
    KeepWatching
  | EscalateDeepTracking
  | ActSoftDiscard
  | ActHardDiscard
  | ActRugArchive
  | ActDataGapStop

datatype discard_policy_decision =
    PolicyKeep
  | PolicySoftDiscard
  | PolicyHardDiscard
  | PolicyRugArchive
  | PolicyResearchSample
  | PolicyDataGapStop

record 'd risk_score =
  rk_name :: string
  rk_score :: 'd
  rk_confidence :: 'd
  rk_severity :: risk_severity
  rk_reason_codes :: "reason_code list"
  rk_positive_evidence :: "string list"
  rk_negative_evidence :: "string list"
  rk_missing_data_penalty :: 'd
  rk_recommended_lifecycle_action :: lifecycle_action

record 'd risk_assessment =
  ra_mint :: string
  ra_observed_at :: instant
  ra_rug :: "'d risk_score"
  ra_bundle :: "'d risk_score"
  ra_dev :: "'d risk_score"
  ra_top_holder :: "'d risk_score"
  ra_fake_momentum :: "'d risk_score"
  ra_data_quality :: "'d risk_score"
  ra_discard_policy :: discard_policy_decision
  ra_overall_score :: 'd
  ra_overall_confidence :: 'd
  ra_reason_codes :: "reason_code list"

record 'd compact_risk_summary =
  cr_mint :: string
  cr_discard_policy :: discard_policy_decision
  cr_overall_score :: 'd
  cr_reason_codes :: "reason_code list"

record 'd risk_engine =
  re_hard_discard_rug_threshold :: 'd
  re_soft_discard_bundle_threshold :: 'd
  re_top_holder_threshold :: 'd
  re_fake_momentum_threshold :: 'd
  re_min_data_quality :: 'd

definition default_risk_engine :: "('d::linordered_field) risk_engine" where
  "default_risk_engine =
    \<lparr>re_hard_discard_rug_threshold = decimal 85 2, re_soft_discard_bundle_threshold = decimal 75 2,
     re_top_holder_threshold = decimal 75 2, re_fake_momentum_threshold = decimal 70 2,
     re_min_data_quality = decimal 50 2\<rparr>"

subsection \<open>Reading features and averaging\<close>

definition feature_or_zero :: "('d::linordered_field) feature_snapshot \<Rightarrow> string \<Rightarrow> 'd" where
  "feature_or_zero features feature_id = unwrap_or 0 (feature_decimal features feature_id)"

definition clamp01 :: "'d::linordered_field \<Rightarrow> 'd" where
  "clamp01 value = min (max value 0) 1"

definition weighted_average :: "('d \<times> 'd::linordered_field) list \<Rightarrow> 'd" where
  "weighted_average weighted =
    (let (weighted_sum, total_weight) =
           fold (\<lambda>(value, weight) (s, t). (s + value * weight, t + weight)) weighted (0, 0) in
     if total_weight > 0 then weighted_sum / total_weight else 0)"

definition normalize_count :: "'d::linordered_field \<Rightarrow> u64 \<Rightarrow> 'd" where
  "normalize_count value cap = clamp01 (value / decimal_from (if unat cap < 1 then 1 else cap))"

definition severity :: "'d::linordered_field \<Rightarrow> risk_severity" where
  "severity score =
    (if score \<ge> decimal 85 2 then SeverityCritical
     else if score \<ge> decimal 65 2 then SeverityHigh
     else if score \<ge> decimal 35 2 then SeverityMedium
     else SeverityLow)"

definition missing_penalty :: "('d::linordered_field) feature_snapshot \<Rightarrow> string list \<Rightarrow> 'd" where
  "missing_penalty features feature_ids =
    (let missing = filter (\<lambda>feature_id.
           (case fs_values features feature_id of None \<Rightarrow> True | Some v \<Rightarrow> fv_status v \<noteq> Available)) feature_ids in
     if feature_ids = [] then 0
     else decimal_from (of_nat (length missing)) / decimal_from (of_nat (length feature_ids)))"

subsection \<open>The six scores\<close>

text \<open>Each score keeps its inputs apart, so that its average and its reasons can be read on their own.\<close>

definition ath_collapse :: "('d::linordered_field) feature_snapshot \<Rightarrow> 'd" where
  "ath_collapse f = clamp01 ((feature_or_zero f ''drawdown_from_ath_pct'' - decimal 70 2) / decimal 30 2)"

definition launch_collapse :: "('d::linordered_field) feature_snapshot \<Rightarrow> 'd" where
  "launch_collapse f = feature_or_zero f ''price_drop_70pct_from_launch_within_5m''"

definition dev_sold :: "('d::linordered_field) feature_snapshot \<Rightarrow> bool" where
  "dev_sold f \<longleftrightarrow> feature_or_zero f ''dev_sold_pct'' > 0 \<or> feature_or_zero f ''dev_sold_flag'' > 0"

definition shred_pressure :: "('d::linordered_field) feature_snapshot \<Rightarrow> bool" where
  "shred_pressure f \<longleftrightarrow> feature_or_zero f ''shred_sell_warning_level'' \<ge> decimal 3 0 \<or>
     feature_or_zero f ''shred_emergency_exit_triggered_flag'' > 0"

definition rug_inputs :: "('d::linordered_field) feature_snapshot \<Rightarrow> ('d \<times> 'd) list" where
  "rug_inputs f =
    [(feature_or_zero f ''rug_probability_score'', decimal 35 2),
     (max (feature_or_zero f ''dev_sold_pct'') (feature_or_zero f ''dev_sold_flag''), decimal 20 2),
     (max (launch_collapse f) (ath_collapse f), decimal 20 2),
     (feature_or_zero f ''holder_growth_stalled'', decimal 8 2),
     (feature_or_zero f ''sells_dominate_after_launch'', decimal 7 2),
     (feature_or_zero f ''concentration_risk_score'', decimal 5 2),
     (1 - feature_or_zero f ''data_quality_score'', decimal 5 2),
     (feature_or_zero f ''malicious_sell_intent_score'', decimal 8 2),
     (max (feature_or_zero f ''shred_emergency_exit_triggered_flag'')
        (feature_or_zero f ''shred_sell_warning_level'' / decimal 40 1), decimal 10 2)]"

definition rug_reasons :: "('d::linordered_field) feature_snapshot \<Rightarrow> 'd \<Rightarrow> reason_code list" where
  "rug_reasons f score =
    (if dev_sold f then [DevSoldEarly] else []) @
    (if launch_collapse f > 0 \<or> ath_collapse f \<ge> decimal 5 1 then [PriceCollapse70] else []) @
    (if feature_or_zero f ''no_buys_for_x_seconds'' > 0 then [NoBuyGap] else []) @
    (if shred_pressure f then [ShredSellImpactHigh] else []) @
    (if score \<ge> decimal 7 1 then [HighRugRisk] else [])"

definition rug_risk :: "('d \<Rightarrow> string) \<Rightarrow> ('d::linordered_field) feature_snapshot \<Rightarrow> 'd risk_score" where
  "rug_risk show4 f =
    (let score = clamp01 (weighted_average (rug_inputs f)) in
     \<lparr>rk_name = ''rug'', rk_score = score,
      rk_confidence = max (feature_or_zero f ''rug_confidence'') (decimal 5 1),
      rk_severity = severity score,
      rk_reason_codes = reason_list (rug_reasons f score),
      rk_positive_evidence = (if dev_sold f then [] else [''developer has not sold'']),
      rk_negative_evidence =
        (if dev_sold f then [''developer sold '' @ show4 (feature_or_zero f ''dev_sold_pct'')] else []) @
        (if launch_collapse f > 0 \<or> ath_collapse f \<ge> decimal 5 1
         then [''price dropped more than 70% from launch inside first 5m''] else []) @
        (if feature_or_zero f ''no_buys_for_x_seconds'' > 0
         then [''buy flow disappeared after launch''] else []) @
        (if shred_pressure f then [''preconfirmation malicious sell pressure is elevated''] else []),
      rk_missing_data_penalty = missing_penalty f [''rug_probability_score'', ''dev_sold_pct''],
      rk_recommended_lifecycle_action =
        (if launch_collapse f > 0 \<or> ath_collapse f \<ge> decimal 5 1 \<or> score \<ge> decimal 9 1 then ActHardDiscard
         else if score \<ge> decimal 75 2 then ActRugArchive
         else if score \<ge> decimal 60 2 then ActSoftDiscard
         else KeepWatching)\<rparr>)"

definition bundle_inputs :: "('d::linordered_field) feature_snapshot \<Rightarrow> ('d \<times> 'd) list" where
  "bundle_inputs f =
    [(feature_or_zero f ''bundle_risk_score'', decimal 50 2),
     (normalize_count (feature_or_zero f ''same_slot_multi_buy_count'') 8, decimal 15 2),
     (normalize_count (feature_or_zero f ''first_n_buys_identical_amount_count'') 8, decimal 15 2),
     (normalize_count (feature_or_zero f ''first_n_buys_same_funder_count'') 8, decimal 10 2),
     (feature_or_zero f ''bundle_wallets_top_holder_pct'', decimal 10 2),
     (normalize_count (feature_or_zero f ''tentative_sell_from_bundle_count'') 4, decimal 15 2),
     (feature_or_zero f ''shred_sell_warning_level'' / decimal 40 1, decimal 10 2)]"

definition bundle_risk :: "('d::linordered_field) feature_snapshot \<Rightarrow> 'd risk_score" where
  "bundle_risk f =
    (let score = clamp01 (weighted_average (bundle_inputs f));
         same_funder = feature_or_zero f ''first_n_buys_same_funder_count'' > 0;
         shred_bundle = feature_or_zero f ''tentative_sell_from_bundle_count'' > 0 in
     \<lparr>rk_name = ''bundle'', rk_score = score,
      rk_confidence = max (feature_or_zero f ''bundle_confidence'') (decimal 5 1),
      rk_severity = severity score,
      rk_reason_codes = reason_list (
        (if same_funder then [BundleConcentration] else []) @
        (if shred_bundle then [ShredBundleExitWarning] else []) @
        (if score \<ge> decimal 40 2 then [HighBundleRisk] else [])),
      rk_positive_evidence = [],
      rk_negative_evidence =
        (if same_funder then [''first buyers share funding sources''] else []) @
        (if shred_bundle then [''bundle cluster showed tentative exit pressure''] else []),
      rk_missing_data_penalty = missing_penalty f [''bundle_risk_score''],
      rk_recommended_lifecycle_action =
        (if score \<ge> decimal 85 2 then ActHardDiscard
         else if score \<ge> decimal 70 2 then ActSoftDiscard
         else KeepWatching)\<rparr>)"

definition dev_inputs :: "('d::linordered_field) token_state \<Rightarrow> 'd feature_snapshot \<Rightarrow> ('d \<times> 'd) list" where
  "dev_inputs token f =
    [(max (feature_or_zero f ''dev_sold_pct'') (feature_or_zero f ''dev_sold_flag''), decimal 40 2),
     (feature_or_zero f ''creator_is_top1_holder'', decimal 15 2),
     (feature_or_zero f ''creator_retained_supply_pct'', decimal 15 2),
     (normalize_count (feature_or_zero f ''creator_launches_last_1h'') 5, decimal 10 2),
     (feature_or_zero f ''creator_reuses_same_payer'', decimal 10 2),
     (feature_or_zero f ''creator_launching_spam_wave_flag'', decimal 10 2),
     (if dv_related_cluster_id (tok_developer_state token) \<noteq> None then decimal 1 1 else 0, decimal 10 2),
     (normalize_count (feature_or_zero f ''tentative_sell_from_dev_count'') 3, decimal 20 2),
     (feature_or_zero f ''shred_sell_warning_level'' / decimal 40 1, decimal 10 2)]"

definition dev_risk :: "('d::linordered_field) token_state \<Rightarrow> 'd feature_snapshot \<Rightarrow> 'd risk_score" where
  "dev_risk token f =
    (let score = clamp01 (weighted_average (dev_inputs token f));
         tentative = feature_or_zero f ''tentative_sell_from_dev_count'' > 0 in
     \<lparr>rk_name = ''dev'', rk_score = score, rk_confidence = decimal 75 2, rk_severity = severity score,
      rk_reason_codes = reason_list (
        (if dev_sold f then [DevSoldEarly] else []) @
        (if tentative then [ShredDevSellWarning] else [])),
      rk_positive_evidence =
        (if feature_or_zero f ''dev_sold_pct'' = 0 \<and> feature_or_zero f ''dev_sold_flag'' = 0
         then [''creator patience remains intact''] else []),
      rk_negative_evidence =
        (if dev_sold f then [''creator is distributing tokens''] else []) @
        (if tentative then [''creator sell intent appeared before canonical confirmation''] else []),
      rk_missing_data_penalty = missing_penalty f [''dev_sold_pct''],
      rk_recommended_lifecycle_action = (if score \<ge> decimal 75 2 then ActSoftDiscard else KeepWatching)\<rparr>)"

definition top_holder_inputs :: "('d::linordered_field) feature_snapshot \<Rightarrow> ('d \<times> 'd) list" where
  "top_holder_inputs f =
    [(feature_or_zero f ''concentration_risk_score'', decimal 30 2),
     (feature_or_zero f ''profit_overhang_score'', decimal 20 2),
     (feature_or_zero f ''free_roll_dump_risk_score'', decimal 15 2),
     (feature_or_zero f ''top_holders_same_funder_pct'', decimal 10 2),
     (feature_or_zero f ''top_holders_same_client_fingerprint_pct'', decimal 10 2),
     (feature_or_zero f ''price_up_top_holders_selling'', decimal 10 2),
     (feature_or_zero f ''top1_holder_pct'', decimal 5 2),
     (normalize_count (feature_or_zero f ''tentative_sell_from_top_holder_count'') 4, decimal 15 2)]"

definition top_holder_risk :: "('d \<Rightarrow> string) \<Rightarrow> ('d::linordered_field) feature_snapshot \<Rightarrow> 'd risk_score" where
  "top_holder_risk show4 f =
    (let score = clamp01 (weighted_average (top_holder_inputs f));
         top1 = feature_or_zero f ''top1_holder_pct'' in
     \<lparr>rk_name = ''top_holder'', rk_score = score, rk_confidence = decimal 8 1, rk_severity = severity score,
      rk_reason_codes = reason_list (
        (if feature_or_zero f ''one_wallet_controls_market_flag'' > 0 \<or>
            feature_or_zero f ''price_up_top_holders_selling'' > 0 \<or> top1 \<ge> decimal 55 2
         then [TopHolderDump] else []) @
        (if feature_or_zero f ''tentative_sell_from_top_holder_count'' > 0
         then [ShredTopHolderSellWarning] else []) @
        (if score \<ge> decimal 7 1 then [HighTopHolderRisk] else [])),
      rk_positive_evidence =
        (if score < decimal 35 2 then [''top holders are not showing coordinated exit pressure''] else []),
      rk_negative_evidence =
        [''top1 '' @ show4 top1 @ '' top5 '' @ show4 (feature_or_zero f ''top5_holder_pct''),
         ''profit_overhang '' @ show4 (feature_or_zero f ''profit_overhang_score'')],
      rk_missing_data_penalty =
        missing_penalty f [''top1_holder_pct'', ''profit_overhang_score'', ''free_roll_dump_risk_score''],
      rk_recommended_lifecycle_action = (if score \<ge> decimal 8 1 then ActSoftDiscard else KeepWatching)\<rparr>)"

definition concentration_extreme :: "('d::linordered_field) feature_snapshot \<Rightarrow> 'd" where
  "concentration_extreme f = clamp01 ((feature_or_zero f ''top1_holder_pct'' - decimal 65 2) / decimal 35 2)"

definition fake_momentum_inputs :: "('d::linordered_field) feature_snapshot \<Rightarrow> ('d \<times> 'd) list" where
  "fake_momentum_inputs f =
    [(feature_or_zero f ''vertical_move_without_holder_growth'', decimal 18 2),
     (feature_or_zero f ''vertical_move_without_unique_buyers'', decimal 15 2),
     (feature_or_zero f ''price_up_no_retail_breadth'', decimal 15 2),
     (feature_or_zero f ''price_up_top_holders_selling'', decimal 15 2),
     (feature_or_zero f ''price_up_bundle_selling'', decimal 10 2),
     (feature_or_zero f ''price_up_dev_selling'', decimal 10 2),
     (feature_or_zero f ''price_up_only_one_or_two_large_buys'', decimal 7 2),
     (feature_or_zero f ''price_up_buy_size_concentration_high'', decimal 5 2),
     (feature_or_zero f ''exit_liquidity_trap_score'', decimal 8 2),
     (concentration_extreme f, decimal 7 2),
     (feature_or_zero f ''dev_sold_flag'', decimal 5 2),
     (1 - feature_or_zero f ''momentum_authenticity_score'', decimal 7 2),
     (feature_or_zero f ''rug_probability_score'' / decimal_from 2, decimal 5 2),
     (feature_or_zero f ''shred_sell_warning_level'' / decimal 40 1, decimal 6 2)]"

definition absorption_inputs :: "('d::linordered_field) feature_snapshot \<Rightarrow> ('d \<times> 'd) list" where
  "absorption_inputs f =
    [(feature_or_zero f ''absorption_success_score'', decimal 20 2),
     (feature_or_zero f ''holder_stickiness_score'', decimal 12 2)]"

definition momentum_is_fake :: "('d::linordered_field) feature_snapshot \<Rightarrow> bool" where
  "momentum_is_fake f \<longleftrightarrow>
     feature_or_zero f ''vertical_move_without_holder_growth'' > 0 \<or>
     feature_or_zero f ''vertical_move_without_unique_buyers'' > 0 \<or>
     feature_or_zero f ''price_up_no_retail_breadth'' > 0 \<or>
     feature_or_zero f ''price_up_top_holders_selling'' > 0 \<or>
     feature_or_zero f ''price_up_bundle_selling'' > 0 \<or>
     feature_or_zero f ''price_up_dev_selling'' > 0 \<or>
     feature_or_zero f ''price_up_buy_size_concentration_high'' > 0 \<or>
     (concentration_extreme f > 0 \<and> feature_or_zero f ''dev_sold_flag'' > 0)"

definition fake_momentum_risk :: "('d::linordered_field) feature_snapshot \<Rightarrow> 'd risk_score" where
  "fake_momentum_risk f =
    (let score = clamp01 (weighted_average (fake_momentum_inputs f) - weighted_average (absorption_inputs f)) in
     \<lparr>rk_name = ''fake_momentum'', rk_score = score, rk_confidence = decimal 7 1, rk_severity = severity score,
      rk_reason_codes = reason_list (if momentum_is_fake f then [HighFakeMomentumRisk] else []),
      rk_positive_evidence =
        (if score < decimal 3 1 then [''price strength is confirmed by breadth or absorption''] else []),
      rk_negative_evidence = [''price action lacks enough supporting breadth or authenticity''],
      rk_missing_data_penalty =
        missing_penalty f [''vertical_move_without_holder_growth'', ''momentum_authenticity_score''],
      rk_recommended_lifecycle_action = (if score \<ge> decimal 8 1 then ActSoftDiscard else KeepWatching)\<rparr>)"

definition explicit_gap :: "('d::linordered_field) feature_snapshot \<Rightarrow> 'd" where
  "explicit_gap f = max (max (max (max (feature_or_zero f ''account_update_gap_flag'')
     (feature_or_zero f ''transaction_stream_gap_flag'')) (feature_or_zero f ''slot_status_gap_flag''))
     (feature_or_zero f ''source_disagreement_flag'')) (feature_or_zero f ''shred_signal_stale_flag'')"

definition data_quality_inputs :: "('d::linordered_field) feature_snapshot \<Rightarrow> ('d \<times> 'd) list" where
  "data_quality_inputs f =
    [(1 - feature_or_zero f ''data_quality_score'', decimal 60 2),
     (normalize_count (feature_or_zero f ''critical_feature_missing_count'') 5, decimal 25 2),
     (feature_or_zero f ''source_disagreement_flag'', decimal 15 2),
     (feature_or_zero f ''shred_signal_stale_flag'', decimal 10 2)]"

definition data_quality_risk :: "'d risk_engine \<Rightarrow> ('d::linordered_field) feature_snapshot \<Rightarrow> 'd risk_score" where
  "data_quality_risk eng f =
    (let score = clamp01 (weighted_average (data_quality_inputs f));
         trade_allowed = feature_or_zero f ''trade_allowed_data_quality_flag'';
         quality = feature_or_zero f ''data_quality_score'' in
     \<lparr>rk_name = ''data_quality'', rk_score = score, rk_confidence = decimal 9 1, rk_severity = severity score,
      rk_reason_codes = reason_list (if trade_allowed = 0 \<and> explicit_gap f > 0 then [DataGapActive] else []),
      rk_positive_evidence =
        (if trade_allowed > 0 then [''data quality is good enough for decision support''] else []),
      rk_negative_evidence =
        (if trade_allowed = 0 \<and> explicit_gap f > 0
         then [''critical feature completeness or source confidence too low'']
         else if trade_allowed = 0
         then [''feature completeness is still building; keep watching but do not force a terminal data-gap state yet'']
         else []),
      rk_missing_data_penalty =
        missing_penalty f [''data_quality_score'', ''critical_feature_missing_count''],
      rk_recommended_lifecycle_action =
        (if explicit_gap f > 0 \<and> (quality < re_min_data_quality eng \<or> trade_allowed = 0)
         then ActDataGapStop else KeepWatching)\<rparr>)"

subsection \<open>The policy and the assessment\<close>

definition discard_policy ::
  "('d::linordered_field) risk_engine \<Rightarrow> 'd risk_score \<Rightarrow> 'd risk_score \<Rightarrow> 'd risk_score \<Rightarrow> 'd risk_score \<Rightarrow>
   'd risk_score \<Rightarrow> 'd risk_score \<Rightarrow> discard_policy_decision" where
  "discard_policy eng rug bundle dev top_holder fake_momentum data_quality =
    (if rk_recommended_lifecycle_action data_quality = ActDataGapStop then PolicyDataGapStop
     else if rk_score rug \<ge> re_hard_discard_rug_threshold eng \<or> PriceCollapse70 \<in> set (rk_reason_codes rug)
     then (if rk_score dev \<ge> decimal 6 1 then PolicyRugArchive else PolicyHardDiscard)
     else if DevSoldEarly \<in> set (rk_reason_codes dev) \<and>
       (rk_score top_holder \<ge> decimal 30 2 \<or> rk_score fake_momentum \<ge> decimal 40 2 \<or> rk_score rug \<ge> decimal 25 2)
     then PolicySoftDiscard
     else if rk_score bundle \<ge> re_soft_discard_bundle_threshold eng \<or>
       rk_score top_holder \<ge> re_top_holder_threshold eng \<or>
       rk_score fake_momentum \<ge> re_fake_momentum_threshold eng
     then PolicySoftDiscard
     else if rk_score rug \<ge> decimal 60 2 \<or> rk_score dev \<ge> decimal 65 2 then PolicyResearchSample
     else PolicyKeep)"

definition policy_reasons :: "discard_policy_decision \<Rightarrow> reason_code list" where
  "policy_reasons policy =
    (case policy of
       PolicySoftDiscard \<Rightarrow> [reason_code.SoftDiscarded]
     | PolicyHardDiscard \<Rightarrow> [reason_code.HardDiscarded]
     | PolicyDataGapStop \<Rightarrow> [DataGapActive]
     | _ \<Rightarrow> [])"

definition risk_weighted :: "'d \<Rightarrow> 'd \<Rightarrow> 'd \<Rightarrow> 'd \<Rightarrow> 'd \<Rightarrow> ('d::linordered_field) \<Rightarrow> ('d \<times> 'd) list" where
  "risk_weighted rug bundle dev top_holder fake_momentum data_quality =
    [(rug, decimal 30 2), (bundle, decimal 15 2), (dev, decimal 15 2), (top_holder, decimal 15 2),
     (fake_momentum, decimal 15 2), (data_quality, decimal 10 2)]"

definition evaluate_risk ::
  "('d \<Rightarrow> string) \<Rightarrow> ('d::linordered_field) risk_engine \<Rightarrow> 'd token_state \<Rightarrow> 'd feature_snapshot \<Rightarrow>
   instant \<Rightarrow> 'd risk_assessment" where
  "evaluate_risk show4 eng token f observed_at =
    (let rug = rug_risk show4 f; bundle = bundle_risk f; dev = dev_risk token f;
         top_holder = top_holder_risk show4 f; fake_momentum = fake_momentum_risk f;
         data_quality = data_quality_risk eng f;
         policy = discard_policy eng rug bundle dev top_holder fake_momentum data_quality in
     \<lparr>ra_mint = tok_mint token, ra_observed_at = observed_at, ra_rug = rug, ra_bundle = bundle, ra_dev = dev,
      ra_top_holder = top_holder, ra_fake_momentum = fake_momentum, ra_data_quality = data_quality,
      ra_discard_policy = policy,
      ra_overall_score = clamp01 (weighted_average (risk_weighted (rk_score rug) (rk_score bundle)
        (rk_score dev) (rk_score top_holder) (rk_score fake_momentum) (rk_score data_quality))),
      ra_overall_confidence = weighted_average (risk_weighted (rk_confidence rug) (rk_confidence bundle)
        (rk_confidence dev) (rk_confidence top_holder) (rk_confidence fake_momentum) (rk_confidence data_quality)),
      ra_reason_codes = reason_list (rk_reason_codes rug @ rk_reason_codes bundle @ rk_reason_codes dev @
        rk_reason_codes top_holder @ rk_reason_codes fake_momentum @ rk_reason_codes data_quality @
        policy_reasons policy)\<rparr>)"

definition compact_risk :: "'d risk_assessment \<Rightarrow> 'd compact_risk_summary" where
  "compact_risk a = \<lparr>cr_mint = ra_mint a, cr_discard_policy = ra_discard_policy a,
     cr_overall_score = ra_overall_score a, cr_reason_codes = ra_reason_codes a\<rparr>"

subsection \<open>Averages\<close>

lemma fold_weighted:
  "fold (\<lambda>(value, weight) (s, t). (s + value * weight, t + weight)) ws (s, t) =
    (s + sum_list (map (\<lambda>(v, w). v * w) ws), t + sum_list (map snd ws :: ('d::linordered_field) list))"
  by (induction ws arbitrary: s t) (auto simp: algebra_simps)

lemma weighted_average_eq:
  "weighted_average ws =
    (if 0 < sum_list (map snd ws)
     then sum_list (map (\<lambda>(v, w). v * w) ws) / (sum_list (map snd ws) :: 'd::linordered_field) else 0)"
  by (simp add: weighted_average_def fold_weighted)

lemma weighted_sum_between:
  fixes ws :: "('d \<times> 'd::linordered_field) list"
  assumes "list_all (\<lambda>(v, w). lo \<le> v \<and> v \<le> hi \<and> 0 \<le> w) ws"
  shows "lo * sum_list (map snd ws) \<le> sum_list (map (\<lambda>(v, w). v * w) ws)"
    and "sum_list (map (\<lambda>(v, w). v * w) ws) \<le> hi * sum_list (map snd ws)"
  using assms by (induction ws) (auto simp: distrib_left intro!: add_mono mult_right_mono)

text \<open>An average with weights that are not negative lies between the bounds of its values.\<close>

lemma weighted_average_between:
  fixes ws :: "('d \<times> 'd::linordered_field) list"
  assumes "list_all (\<lambda>(v, w). lo \<le> v \<and> v \<le> hi \<and> 0 \<le> w) ws" "0 < sum_list (map snd ws)"
  shows "lo \<le> weighted_average ws \<and> weighted_average ws \<le> hi"
  using weighted_sum_between [OF assms(1)] assms(2)
  by (auto simp: weighted_average_eq pos_le_divide_eq pos_divide_le_eq)

lemma clamp01_bounds [simp]: "0 \<le> clamp01 x" "clamp01 x \<le> 1"
  by (simp_all add: clamp01_def)

lemma clamp01_id: "0 \<le> x \<Longrightarrow> x \<le> 1 \<Longrightarrow> clamp01 x = x"
  by (simp add: clamp01_def)

lemma ath_collapse_half: "decimal 5 1 \<le> ath_collapse f \<longleftrightarrow> decimal 85 2 \<le> feature_or_zero f ''drawdown_from_ath_pct''"
  by (auto simp: ath_collapse_def clamp01_def decimal_def le_max_iff_disj min_le_iff_disj field_simps)

subsection \<open>Bounds\<close>

lemma risk_scores_clamped:
  "\<exists>x. rk_score (rug_risk show4 f) = clamp01 x" "\<exists>x. rk_score (bundle_risk f) = clamp01 x"
  "\<exists>x. rk_score (dev_risk token f) = clamp01 x" "\<exists>x. rk_score (top_holder_risk show4 f) = clamp01 x"
  "\<exists>x. rk_score (fake_momentum_risk f) = clamp01 x" "\<exists>x. rk_score (data_quality_risk eng f) = clamp01 x"
  by (auto simp: rug_risk_def bundle_risk_def dev_risk_def top_holder_risk_def fake_momentum_risk_def
      data_quality_risk_def Let_def)

lemma risk_scores_bounds [simp]:
  "0 \<le> rk_score (rug_risk show4 f)" "rk_score (rug_risk show4 f) \<le> 1"
  "0 \<le> rk_score (bundle_risk f)" "rk_score (bundle_risk f) \<le> 1"
  "0 \<le> rk_score (dev_risk token f)" "rk_score (dev_risk token f) \<le> 1"
  "0 \<le> rk_score (top_holder_risk show4 f)" "rk_score (top_holder_risk show4 f) \<le> 1"
  "0 \<le> rk_score (fake_momentum_risk f)" "rk_score (fake_momentum_risk f) \<le> 1"
  "0 \<le> rk_score (data_quality_risk eng f)" "rk_score (data_quality_risk eng f) \<le> 1"
  by (metis risk_scores_clamped clamp01_bounds)+

definition component_scores :: "'d risk_assessment \<Rightarrow> 'd list" where
  "component_scores a = map rk_score
     [ra_rug a, ra_bundle a, ra_dev a, ra_top_holder a, ra_fake_momentum a, ra_data_quality a]"

lemma component_scores_evaluate:
  "component_scores (evaluate_risk show4 eng token f t) =
     [rk_score (rug_risk show4 f), rk_score (bundle_risk f), rk_score (dev_risk token f),
      rk_score (top_holder_risk show4 f), rk_score (fake_momentum_risk f), rk_score (data_quality_risk eng f)]"
  by (simp add: component_scores_def evaluate_risk_def Let_def)

text \<open>
  Every score is between zero and one, and the overall score lies between the lowest and the highest of the
  six it averages.
\<close>

theorem risk_scores_bounded:
  fixes f :: "('d::linordered_field) feature_snapshot"
  shows "list_all (\<lambda>s. 0 \<le> s \<and> s \<le> 1) (component_scores (evaluate_risk show4 eng token f t)) \<and>
    Min (set (component_scores (evaluate_risk show4 eng token f t)))
      \<le> ra_overall_score (evaluate_risk show4 eng token f t) \<and>
    ra_overall_score (evaluate_risk show4 eng token f t)
      \<le> Max (set (component_scores (evaluate_risk show4 eng token f t)))"
proof -
  let ?a = "evaluate_risk show4 eng token f t"
  let ?S = "set (component_scores ?a)"
  define ws where "ws = risk_weighted (rk_score (ra_rug ?a)) (rk_score (ra_bundle ?a)) (rk_score (ra_dev ?a))
    (rk_score (ra_top_holder ?a)) (rk_score (ra_fake_momentum ?a)) (rk_score (ra_data_quality ?a))"
  have all: "list_all (\<lambda>s. 0 \<le> s \<and> s \<le> 1) (component_scores ?a)"
    by (simp add: component_scores_evaluate)
  have fin: "finite ?S" "?S \<noteq> {}" by (simp_all add: component_scores_def)
  have "list_all (\<lambda>(v, w). Min ?S \<le> v \<and> v \<le> Max ?S \<and> 0 \<le> w) ws"
    using fin by (auto simp: ws_def risk_weighted_def component_scores_def decimal_def simp del: Min_insert Max_insert
        intro!: Min_le Max_ge)
  moreover have "0 < sum_list (map snd ws)"
    by (simp add: ws_def risk_weighted_def decimal_def)
  ultimately have avg: "Min ?S \<le> weighted_average ws" "weighted_average ws \<le> Max ?S"
    using weighted_average_between by blast+
  have "Min ?S \<in> ?S" "Max ?S \<in> ?S" using fin by auto
  hence "0 \<le> Min ?S" "Max ?S \<le> 1" using all by (auto simp: list_all_iff)
  hence "clamp01 (weighted_average ws) = weighted_average ws" using avg by (intro clamp01_id) auto
  hence "ra_overall_score ?a = weighted_average ws" by (simp add: ws_def evaluate_risk_def Let_def)
  thus ?thesis using all avg by simp
qed

subsection \<open>The policy\<close>

text \<open>What the discard policy follows from, read off the features.\<close>

definition data_gap_evidence :: "'d risk_engine \<Rightarrow> ('d::linordered_field) feature_snapshot \<Rightarrow> bool" where
  "data_gap_evidence eng f \<longleftrightarrow> 0 < explicit_gap f \<and>
     (feature_or_zero f ''data_quality_score'' < re_min_data_quality eng \<or>
      feature_or_zero f ''trade_allowed_data_quality_flag'' = 0)"

lemma gap_action: "rk_recommended_lifecycle_action (data_quality_risk eng f) = ActDataGapStop \<longleftrightarrow> data_gap_evidence eng f"
  by (simp add: data_quality_risk_def data_gap_evidence_def Let_def)

lemma collapse_reason:
  "PriceCollapse70 \<in> set (rk_reason_codes (rug_risk show4 f)) \<longleftrightarrow>
     0 < launch_collapse f \<or> decimal 85 2 \<le> feature_or_zero f ''drawdown_from_ath_pct''"
  by (auto simp: rug_risk_def rug_reasons_def Let_def ath_collapse_half simp del: One_nat_def)

lemma evaluate_policy:
  "ra_discard_policy (evaluate_risk show4 eng token f t) =
     discard_policy eng (rug_risk show4 f) (bundle_risk f) (dev_risk token f) (top_holder_risk show4 f)
       (fake_momentum_risk f) (data_quality_risk eng f)"
  by (simp add: evaluate_risk_def Let_def)

lemma terminal_policy_gap:
  "ra_discard_policy (evaluate_risk show4 eng token f t) = PolicyDataGapStop \<longleftrightarrow> data_gap_evidence eng f"
  by (simp add: evaluate_policy discard_policy_def gap_action)

text \<open>
  A token is stopped for a data gap exactly when an explicit gap is flagged and the data quality is low or trading
  not allowed. Otherwise it is discarded for good (archived when the developer score is at least 0.6) exactly when
  the rug score reaches its threshold, the launch collapse is flagged, or the price is at least 85% below its
  highest: the 70% of the reason's name and message is not the threshold of the last case.
\<close>

theorem terminal_policy_exact:
  fixes f :: "('d::linordered_field) feature_snapshot"
  shows "(ra_discard_policy (evaluate_risk show4 eng token f t) = PolicyDataGapStop \<longleftrightarrow> data_gap_evidence eng f) \<and>
    (ra_discard_policy (evaluate_risk show4 eng token f t) \<in> {PolicyHardDiscard, PolicyRugArchive} \<longleftrightarrow>
       \<not> data_gap_evidence eng f \<and>
       (re_hard_discard_rug_threshold eng \<le> rk_score (rug_risk show4 f) \<or> 0 < launch_collapse f \<or>
        decimal 85 2 \<le> feature_or_zero f ''drawdown_from_ath_pct'')) \<and>
    (ra_discard_policy (evaluate_risk show4 eng token f t) \<in> {PolicyHardDiscard, PolicyRugArchive} \<and>
       decimal 6 1 \<le> rk_score (dev_risk token f) \<longleftrightarrow>
     ra_discard_policy (evaluate_risk show4 eng token f t) = PolicyRugArchive)"
  by (simp add: evaluate_policy discard_policy_def gap_action collapse_reason)

text \<open>
  The reasons of an assessment are listed in the order of their declaration, each once, and the reasons of the
  policy's own decisions appear exactly when the policy takes them.
\<close>

theorem policy_reasons_exact:
  fixes f :: "('d::linordered_field) feature_snapshot"
  shows "sorted (ra_reason_codes (evaluate_risk show4 eng token f t)) \<and>
    distinct (ra_reason_codes (evaluate_risk show4 eng token f t)) \<and>
    (reason_code.SoftDiscarded \<in> set (ra_reason_codes (evaluate_risk show4 eng token f t)) \<longleftrightarrow>
       ra_discard_policy (evaluate_risk show4 eng token f t) = PolicySoftDiscard) \<and>
    (reason_code.HardDiscarded \<in> set (ra_reason_codes (evaluate_risk show4 eng token f t)) \<longleftrightarrow>
       ra_discard_policy (evaluate_risk show4 eng token f t) = PolicyHardDiscard) \<and>
    (DataGapActive \<in> set (ra_reason_codes (evaluate_risk show4 eng token f t)) \<longleftrightarrow>
       ra_discard_policy (evaluate_risk show4 eng token f t) = PolicyDataGapStop)"
proof -
  let ?p = "ra_discard_policy (evaluate_risk show4 eng token f t)"
  have codes: "ra_reason_codes (evaluate_risk show4 eng token f t) =
    reason_list (rk_reason_codes (rug_risk show4 f) @ rk_reason_codes (bundle_risk f) @
      rk_reason_codes (dev_risk token f) @ rk_reason_codes (top_holder_risk show4 f) @
      rk_reason_codes (fake_momentum_risk f) @ rk_reason_codes (data_quality_risk eng f) @ policy_reasons ?p)"
    by (simp add: evaluate_risk_def Let_def)
  have scores: "r \<notin> set (rk_reason_codes (rug_risk show4 f))" "r \<notin> set (rk_reason_codes (bundle_risk f))"
    "r \<notin> set (rk_reason_codes (dev_risk token f))" "r \<notin> set (rk_reason_codes (top_holder_risk show4 f))"
    "r \<notin> set (rk_reason_codes (fake_momentum_risk f))"
    if "r \<in> {reason_code.SoftDiscarded, reason_code.HardDiscarded, DataGapActive}" for r
    using that by (auto simp: rug_risk_def rug_reasons_def bundle_risk_def dev_risk_def top_holder_risk_def
        fake_momentum_risk_def Let_def)
  have gap: "set (rk_reason_codes (data_quality_risk eng f)) \<subseteq> {DataGapActive}"
    "DataGapActive \<in> set (rk_reason_codes (data_quality_risk eng f)) \<Longrightarrow> ?p = PolicyDataGapStop"
    by (auto simp: data_quality_risk_def data_gap_evidence_def terminal_policy_gap Let_def split: if_splits)
  have own: "r \<in> set (policy_reasons ?p) \<longleftrightarrow> r = reason_code.SoftDiscarded \<and> ?p = PolicySoftDiscard \<or>
      r = reason_code.HardDiscarded \<and> ?p = PolicyHardDiscard \<or> r = DataGapActive \<and> ?p = PolicyDataGapStop" for r
    by (auto simp: policy_reasons_def split: discard_policy_decision.splits)
  have gap_only: "r \<notin> set (rk_reason_codes (data_quality_risk eng f))" if "r \<noteq> DataGapActive" for r
    using gap(1) that by blast
  have soft: "reason_code.SoftDiscarded \<in> set (ra_reason_codes (evaluate_risk show4 eng token f t)) \<longleftrightarrow>
      ?p = PolicySoftDiscard"
    unfolding codes using scores [of reason_code.SoftDiscarded] gap_only [of reason_code.SoftDiscarded]
    by (simp add: own)
  have hard: "reason_code.HardDiscarded \<in> set (ra_reason_codes (evaluate_risk show4 eng token f t)) \<longleftrightarrow>
      ?p = PolicyHardDiscard"
    unfolding codes using scores [of reason_code.HardDiscarded] gap_only [of reason_code.HardDiscarded]
    by (simp add: own)
  have stop: "DataGapActive \<in> set (ra_reason_codes (evaluate_risk show4 eng token f t)) \<longleftrightarrow>
      ?p = PolicyDataGapStop"
    unfolding codes using scores [of DataGapActive] gap(2) by (simp add: own) blast
  show ?thesis
    unfolding soft hard stop by (simp add: codes)
qed

text \<open>
  Absorption is averaged on its own before it is subtracted, so its weights of 0.20 and 0.12 count as one: a token
  with full absorption and stickiness scores zero for fake momentum although the reason for it is reported.
\<close>

theorem absorption_cancels_fake_momentum:
  fixes f :: "('d::linordered_field) feature_snapshot"
  assumes "list_all (\<lambda>(value, _). 0 \<le> value \<and> value \<le> 1) (fake_momentum_inputs f)"
    and "feature_or_zero f ''absorption_success_score'' = 1" "feature_or_zero f ''holder_stickiness_score'' = 1"
    and "momentum_is_fake f"
  shows "rk_score (fake_momentum_risk f) = 0 \<and>
    HighFakeMomentumRisk \<in> set (rk_reason_codes (fake_momentum_risk f))"
proof -
  have "weighted_average (absorption_inputs f) = 1"
    by (simp add: weighted_average_eq absorption_inputs_def assms decimal_def)
  moreover have "weighted_average (fake_momentum_inputs f) \<le> 1"
  proof -
    have "list_all (\<lambda>(v, w). 0 \<le> v \<and> v \<le> 1 \<and> 0 \<le> w) (fake_momentum_inputs f)"
      using assms(1) by (simp add: fake_momentum_inputs_def decimal_def)
    moreover have "0 < sum_list (map snd (fake_momentum_inputs f))"
      by (simp add: fake_momentum_inputs_def decimal_def)
    ultimately show ?thesis using weighted_average_between by blast
  qed
  ultimately show ?thesis using assms(4)
    by (simp add: fake_momentum_risk_def Let_def clamp01_def)
qed

definition numeric_features :: "(string \<times> 'd) list \<Rightarrow> ('d::linordered_field) feature_snapshot" where
  "numeric_features xs =
    \<lparr>fs_mint = ''mint'', fs_lifecycle = LcActiveDeep, fs_observed_at = 0,
     fs_values = map_of (map (\<lambda>(i, x). (i, feature_available i (Numeric x) 1)) xs),
     fs_vector_hash = [], fs_available_count = 0, fs_missing_count = 0, fs_unavailable_count = 0\<rparr>"

lemma numeric_features_value [simp]:
  "feature_or_zero (numeric_features xs) i = unwrap_or 0 (map_of xs i)"
proof -
  have "map_of (map (\<lambda>(i, x). (i, feature_available i (Numeric x) 1)) xs) i =
      map_option (\<lambda>x. feature_available i (Numeric x) 1) (map_of xs i)"
    by (induction xs) auto
  then show ?thesis
    by (cases "map_of xs i") (simp_all add: feature_or_zero_def feature_decimal_def numeric_features_def unwrap_or_def)
qed

definition absorbed_features :: "rat feature_snapshot" where
  "absorbed_features = numeric_features
    [(''price_up_dev_selling'', 1), (''price_up_top_holders_selling'', 1), (''absorption_success_score'', 1),
     (''holder_stickiness_score'', 1)]"

theorem absorption_cancels_fake_momentum_witness:
  "rk_score (fake_momentum_risk absorbed_features) = 0 \<and>
   HighFakeMomentumRisk \<in> set (rk_reason_codes (fake_momentum_risk absorbed_features))"
  by (rule absorption_cancels_fake_momentum)
    (simp_all add: absorbed_features_def fake_momentum_inputs_def momentum_is_fake_def concentration_extreme_def
      unwrap_or_def clamp01_def decimal_def decimal_from_def)

end
