(* ===== verification/Decision.thy ===== *)
theory Decision
  imports Complex_Main Sim Decision_Records Strategy_Config Risk
begin

text \<open>
  The decision engine of \<open>crates/decision/src/lib.rs\<close>: the composite scores of a token, the choice of a
  strategy, the forecast of the executable edge, the size of a position and the decision itself, with its reasons
  and diagnostics. \<open>weighted_average\<close> and \<open>clamp01\<close> are copied in that crate from the risk engine and shared
  here. Rendering a \<open>Decimal\<close> and drawing an event id are third-party code and arguments.
\<close>

record 'd decision_engine =
  de_thresholds :: "'d strategy_thresholds"
  de_edge :: "'d edge_config"
  de_execution :: "'d execution_config"
  de_simulator :: fee_parameters
  de_kill_switch :: bool

definition new_decision_engine ::
  "'d strategy_thresholds \<Rightarrow> 'd edge_config \<Rightarrow> 'd execution_config \<Rightarrow> fee_parameters \<Rightarrow> 'd decision_engine" where
  "new_decision_engine thresholds edge execution simulator =
    \<lparr>de_thresholds = thresholds, de_edge = edge, de_execution = execution, de_simulator = simulator,
     de_kill_switch = False\<rparr>"

definition set_decision_kill_switch :: "bool \<Rightarrow> 'd decision_engine \<Rightarrow> 'd decision_engine" where
  "set_decision_kill_switch active eng = eng\<lparr>de_kill_switch := active\<rparr>"

subsection \<open>Composite scores\<close>

definition composite ::
  "'d \<Rightarrow> string list \<Rightarrow> string list \<Rightarrow> 'd \<Rightarrow> reason_code list \<Rightarrow> ('d::linordered_field) composite_score" where
  "composite raw positive negative penalty reasons =
    (let adjusted = clamp01 (raw - penalty / decimal_from 2) in
     \<lparr>sc_raw_score = clamp01 raw, sc_regime_adjusted_score = adjusted, sc_confidence = clamp01 (1 - penalty),
      sc_missing_data_penalty = clamp01 penalty, sc_top_positive_components = positive,
      sc_top_negative_components = negative, sc_reason_codes = reasons,
      sc_recommended_action_influence = adjusted\<rparr>)"

definition momentum_score :: "('d::linordered_field) feature_snapshot \<Rightarrow> 'd risk_assessment \<Rightarrow> 'd composite_score" where
  "momentum_score f risk = composite
    (weighted_average
      [(feature_or_zero f ''return_pct_30s'', decimal 45 2),
       (feature_or_zero f ''organic_flow_score'', decimal 35 2),
       (feature_or_zero f ''token_relative_strength_score'', decimal 20 2)])
    [''short-term return'', ''organic flow''] [''drawdown'']
    (rk_score (ra_fake_momentum risk) / decimal_from 2) []"

definition holder_quality_score ::
  "('d::linordered_field) feature_snapshot \<Rightarrow> 'd risk_assessment \<Rightarrow> 'd composite_score" where
  "holder_quality_score f risk = composite
    (weighted_average
      [(feature_or_zero f ''sustained_holder_growth_score'', decimal 5 1),
       (1 - feature_or_zero f ''concentration_risk_score'', decimal 3 1),
       (1 - feature_or_zero f ''holder_balance_hhi'', decimal 2 1)])
    [''holder growth''] [''concentration''] (rk_score (ra_top_holder risk) / decimal_from 2) []"

definition reference_price :: "('d::linordered_field) token_state \<Rightarrow> 'd" where
  "reference_price token = max (tok_latest_price token) (decimal 1 9)"

definition reserve_depth :: "('d::linordered_field) token_state \<Rightarrow> 'd" where
  "reserve_depth token = cv_real_quote_reserves (tok_reserve_state token) +
     cv_virtual_quote_reserves (tok_reserve_state token)"

definition traded_volume :: "('d::linordered_field) token_state \<Rightarrow> 'd" where
  "traded_volume token = tr_buy_volume_quote (tok_trade_stats token) + tr_sell_volume_quote (tok_trade_stats token)"

definition fee_edge_intent ::
  "'d decision_engine \<Rightarrow> ('d::linordered_field) token_state \<Rightarrow> 'd feature_snapshot \<Rightarrow> 'd position_intent" where
  "fee_edge_intent eng token f =
    \<lparr>pi_mint = tok_mint token, pi_entry_time = unwrap_or 0 (tok_launch_time token),
     pi_exit_time = unwrap_or 0 (last_price_time token),
     pi_size_quote = ex_max_daily_loss_quote (de_execution eng) / decimal_from 20,
     pi_entry_price = reference_price token,
     pi_exit_price = reference_price token * (1 + max (feature_or_zero f ''return_pct_30s'') 0),
     pi_liquidity_quote_depth = (if reserve_depth token > 0 then reserve_depth token else decimal_from 100)\<rparr>"

definition fee_adjusted_edge ::
  "'d decision_engine \<Rightarrow> ('d::linordered_field) token_state \<Rightarrow> 'd feature_snapshot \<Rightarrow> 'd" where
  "fee_adjusted_edge eng token f =
    (let intent = fee_edge_intent eng token f;
         (_, _, net) = simulate_round_trip (de_simulator eng) intent in
     if pi_size_quote intent > 0 then clamp01 ((net / pi_size_quote intent + 1) / decimal_from 2) else 0)"

definition fee_adjusted_edge_score ::
  "'d decision_engine \<Rightarrow> ('d::linordered_field) token_state \<Rightarrow> 'd feature_snapshot \<Rightarrow> 'd risk_assessment \<Rightarrow>
   'd composite_score" where
  "fee_adjusted_edge_score eng token f risk = composite (fee_adjusted_edge eng token f)
    [''round-trip after fees''] [''fee drag and impact''] (rk_score (ra_bundle risk) / decimal_from 3)
    [FeeAdjustedEdgeTooLow]"

definition plain_score :: "('d::linordered_field) feature_snapshot \<Rightarrow> string \<Rightarrow> string list \<Rightarrow> string list \<Rightarrow> 'd composite_score" where
  "plain_score f feature_id positive negative = composite (feature_or_zero f feature_id) positive negative 0 []"

definition profit_overhang_score ::
  "('d::linordered_field) feature_snapshot \<Rightarrow> 'd risk_assessment \<Rightarrow> 'd composite_score" where
  "profit_overhang_score f risk = composite (1 - feature_or_zero f ''profit_overhang_score'')
    [''low profit overhang''] [''profit pressure''] (rk_score (ra_top_holder risk) / decimal_from 3)
    [ProfitOverhangTooHigh]"

definition momentum_authenticity_score ::
  "('d::linordered_field) feature_snapshot \<Rightarrow> 'd risk_assessment \<Rightarrow> 'd composite_score" where
  "momentum_authenticity_score f risk = composite (feature_or_zero f ''momentum_authenticity_score'')
    [''authentic momentum''] [''fake momentum''] (rk_score (ra_fake_momentum risk) / decimal_from 3) []"

definition anti_rug_score :: "('d::linordered_field) feature_snapshot \<Rightarrow> 'd risk_assessment \<Rightarrow> 'd composite_score" where
  "anti_rug_score f risk = composite
    (weighted_average
      [(feature_or_zero f ''organic_survival_score'', decimal 7 1), (1 - rk_score (ra_rug risk), decimal 3 1)])
    [''survival score''] [''rug risk''] (rk_score (ra_rug risk) / decimal_from 2) []"

text \<open>The twelve factors of the eligibility of a trade, each with its name and its weight.\<close>

definition factor_scores ::
  "'d decision_engine \<Rightarrow> ('d::linordered_field) token_state \<Rightarrow> 'd feature_snapshot \<Rightarrow> 'd risk_assessment \<Rightarrow>
   (string \<times> 'd composite_score \<times> 'd) list" where
  "factor_scores eng token f risk =
    [(''MomentumScore'', momentum_score f risk, decimal 20 2),
     (''HolderQualityScore'', holder_quality_score f risk, decimal 20 2),
     (''FeeAdjustedEdgeScore'', fee_adjusted_edge_score eng token f risk, decimal 20 2),
     (''LiquidityDepthScore'', plain_score f ''quote_asset_specific_depth_score'' [''curve depth''] [], decimal 10 2),
     (''LatencyViabilityScore'',
      plain_score f ''latency_adjusted_trade_eligibility'' [''precomputed latency viability''] [], decimal 5 2),
     (''RelativeStrengthScore'', plain_score f ''token_relative_strength_score'' [''cohort rank''] [], decimal 10 2),
     (''HolderStickinessScore'',
      plain_score f ''holder_stickiness_score'' [''holder stickiness''] [''paper hands''], decimal 10 2),
     (''AbsorptionStrengthScore'',
      plain_score f ''absorption_success_score'' [''sell absorption''] [''failed absorption''], decimal 5 2),
     (''SmartCapitalRotationScore'',
      plain_score f ''smart_capital_rotation_score'' [''capital rotation''] [''rotation decay''], decimal 5 2),
     (''ProfitOverhangRiskScore'', profit_overhang_score f risk, decimal 5 2),
     (''MomentumAuthenticityScore'', momentum_authenticity_score f risk, decimal 5 2),
     (''AntiRugSurvivalScore'', anti_rug_score f risk, decimal 5 2)]"

definition trade_eligibility_score ::
  "'d decision_engine \<Rightarrow> ('d::linordered_field) token_state \<Rightarrow> 'd feature_snapshot \<Rightarrow> 'd risk_assessment \<Rightarrow>
   'd composite_score" where
  "trade_eligibility_score eng token f risk = composite
    (weighted_average (map (\<lambda>(_, s, weight). (sc_regime_adjusted_score s, weight)) (factor_scores eng token f risk)))
    [''multi-factor eligibility''] [''risk penalties'']
    (weighted_average
      [(rk_score (ra_rug risk), decimal 35 2), (rk_score (ra_bundle risk), decimal 20 2),
       (rk_score (ra_top_holder risk), decimal 15 2), (rk_score (ra_fake_momentum risk), decimal 15 2),
       (rk_score (ra_data_quality risk), decimal 15 2)])
    [FeeAdjustedEdgeTooLow]"

definition composite_scores ::
  "'d decision_engine \<Rightarrow> ('d::linordered_field) token_state \<Rightarrow> 'd feature_snapshot \<Rightarrow> 'd risk_assessment \<Rightarrow>
   string \<rightharpoonup> 'd composite_score" where
  "composite_scores eng token f risk =
    (map_of (map (\<lambda>(name, s, _). (name, s)) (factor_scores eng token f risk)))
      (''TradeEligibilityScore'' \<mapsto> trade_eligibility_score eng token f risk)"

subsection \<open>Strategies\<close>

definition flagged_fake :: "'d risk_assessment \<Rightarrow> bool" where
  "flagged_fake risk \<longleftrightarrow> HighFakeMomentumRisk \<in> set (ra_reason_codes risk) \<or>
     HighFakeMomentumRisk \<in> set (rk_reason_codes (ra_fake_momentum risk))"

definition adjusted_of :: "(string \<rightharpoonup> ('d::linordered_field) composite_score) \<Rightarrow> string \<Rightarrow> 'd" where
  "adjusted_of scores name = unwrap_or 0 (map_option sc_regime_adjusted_score (scores name))"

definition select_strategy ::
  "('d::linordered_field) feature_snapshot \<Rightarrow> 'd risk_assessment \<Rightarrow> (string \<rightharpoonup> 'd composite_score) \<Rightarrow>
   strategy_kind" where
  "select_strategy f risk scores =
    (let momentum = adjusted_of scores ''MomentumScore'';
         holder_quality = adjusted_of scores ''HolderQualityScore'';
         rotation = feature_or_zero f ''smart_capital_rotation_score'';
         absorption = feature_or_zero f ''absorption_success_score'';
         organic = feature_or_zero f ''organic_survival_score'';
         stickiness = feature_or_zero f ''holder_stickiness_score'';
         authenticity = feature_or_zero f ''momentum_authenticity_score'';
         relative_strength = feature_or_zero f ''token_relative_strength_score'' in
     if rk_score (ra_rug risk) \<ge> decimal 7 1 \<or> rk_score (ra_data_quality risk) \<ge> decimal 75 2
     then DefensiveNoTrade
     else if holder_quality \<ge> decimal 36 2 \<and> stickiness \<ge> decimal 22 2 \<and> organic \<ge> decimal 30 2 \<and>
       relative_strength \<ge> decimal 45 2 \<and> rk_score (ra_fake_momentum risk) < decimal 30 2 \<and> \<not> flagged_fake risk
     then HolderGrowthContinuation
     else if momentum \<ge> decimal 48 2 \<and> authenticity \<ge> decimal 45 2 \<and>
       rk_score (ra_fake_momentum risk) < decimal 30 2 \<and> \<not> flagged_fake risk
     then LaunchMomentumScalp
     else if absorption \<ge> decimal 22 2 \<and> stickiness \<ge> decimal 15 2 \<and> rk_score (ra_bundle risk) < decimal 65 2 \<and>
       rk_score (ra_top_holder risk) < decimal 75 2 \<and> rk_score (ra_fake_momentum risk) < decimal 60 2
     then SellAbsorptionBounce
     else if rotation \<ge> decimal 12 2 \<and> momentum \<ge> decimal 15 2 then SmartCapitalRotation
     else if organic \<ge> decimal 30 2 \<and> holder_quality \<ge> decimal 25 2 \<and> rk_score (ra_bundle risk) < decimal 60 2
     then OrganicSlowGrind
     else DefensiveNoTrade)"

definition strategy_profile :: "'d decision_engine \<Rightarrow> strategy_kind \<Rightarrow> 'd strategy_profile_config" where
  "strategy_profile eng strategy =
    (let thresholds = de_thresholds eng in
     case strategy of
       LaunchMomentumScalp \<Rightarrow> th_launch_momentum thresholds
     | HolderGrowthContinuation \<Rightarrow> th_holder_growth thresholds
     | SellAbsorptionBounce \<Rightarrow> th_absorption_bounce thresholds
     | SmartCapitalRotation \<Rightarrow> th_smart_rotation thresholds
     | OrganicSlowGrind \<Rightarrow> th_organic_slow_grind thresholds
     | DefensiveNoTrade \<Rightarrow> th_organic_slow_grind thresholds)"

definition exit_signal_for_strategy ::
  "'d decision_engine \<Rightarrow> strategy_kind \<Rightarrow> ('d::linordered_field) feature_snapshot \<Rightarrow> 'd risk_assessment \<Rightarrow> bool" where
  "exit_signal_for_strategy eng strategy f risk =
    (case strategy of
       LaunchMomentumScalp \<Rightarrow>
         feature_or_zero f ''momentum_authenticity_score'' < decimal 15 2 \<or> feature_or_zero f ''return_pct_30s'' < 0
     | HolderGrowthContinuation \<Rightarrow>
         feature_or_zero f ''holder_stickiness_score'' < th_min_holder_stickiness_score (de_thresholds eng) \<or>
         feature_or_zero f ''profit_overhang_score'' > th_max_profit_overhang_score (de_thresholds eng) \<or>
         rk_score (ra_top_holder risk) > decimal 55 2
     | SellAbsorptionBounce \<Rightarrow>
         feature_or_zero f ''absorption_success_score'' < decimal 12 2 \<or>
         rk_score (ra_fake_momentum risk) > decimal 55 2
     | SmartCapitalRotation \<Rightarrow>
         feature_or_zero f ''smart_capital_rotation_score'' < decimal 10 2 \<or>
         feature_or_zero f ''token_relative_strength_score'' < decimal 15 2
     | OrganicSlowGrind \<Rightarrow>
         feature_or_zero f ''organic_survival_score'' < decimal 25 2 \<or> rk_score (ra_bundle risk) > decimal 60 2
     | DefensiveNoTrade \<Rightarrow> True)"

subsection \<open>The size of a position and the edge of a trade\<close>

definition sizing_depth :: "('d::linordered_field) token_state \<Rightarrow> 'd" where
  "sizing_depth token =
    (if reserve_depth token > 0 then reserve_depth token else traded_volume token + decimal_from 25)"

definition position_size_quote ::
  "'d decision_engine \<Rightarrow> 'd \<Rightarrow> ('d::linordered_field) token_state \<Rightarrow> 'd risk_assessment \<Rightarrow> 'd" where
  "position_size_quote eng eligibility token risk =
    (let daily_loss = ex_max_daily_loss_quote (de_execution eng);
         base = daily_loss / decimal_from 10;
         liquidity_factor = clamp01 (sizing_depth token / decimal_from 500);
         risk_factor = clamp01 (1 - weighted_average
           [(rk_score (ra_rug risk), decimal 4 1), (rk_score (ra_bundle risk), decimal 2 1),
            (rk_score (ra_top_holder risk), decimal 2 1), (rk_score (ra_fake_momentum risk), decimal 2 1)]) in
     min (min (base * eligibility * liquidity_factor * risk_factor) (daily_loss / decimal_from 2))
       (max (ex_max_position_size_quote (de_execution eng)) 0))"

definition qualitative_inputs ::
  "strategy_kind \<Rightarrow> ('d::linordered_field) feature_snapshot \<Rightarrow> 'd risk_assessment \<Rightarrow> ('d \<times> 'd) list" where
  "qualitative_inputs strategy f risk =
    (case strategy of
       LaunchMomentumScalp \<Rightarrow>
         [(max (feature_or_zero f ''return_pct_30s'') 0, decimal 25 2),
          (feature_or_zero f ''token_relative_strength_score'', decimal 20 2),
          (feature_or_zero f ''momentum_authenticity_score'', decimal 30 2),
          (feature_or_zero f ''organic_flow_score'', decimal 25 2)]
     | HolderGrowthContinuation \<Rightarrow>
         [(feature_or_zero f ''sustained_holder_growth_score'', decimal 30 2),
          (feature_or_zero f ''holder_stickiness_score'', decimal 30 2),
          (feature_or_zero f ''token_relative_strength_score'', decimal 20 2),
          (feature_or_zero f ''organic_survival_score'', decimal 20 2)]
     | SellAbsorptionBounce \<Rightarrow>
         [(feature_or_zero f ''absorption_success_score'', decimal 40 2),
          (feature_or_zero f ''momentum_authenticity_score'', decimal 25 2),
          (feature_or_zero f ''holder_stickiness_score'', decimal 20 2),
          (feature_or_zero f ''organic_flow_score'', decimal 15 2)]
     | SmartCapitalRotation \<Rightarrow>
         [(feature_or_zero f ''smart_capital_rotation_score'', decimal 35 2),
          (feature_or_zero f ''token_relative_strength_score'', decimal 25 2),
          (feature_or_zero f ''holder_stickiness_score'', decimal 20 2),
          (feature_or_zero f ''momentum_authenticity_score'', decimal 20 2)]
     | OrganicSlowGrind \<Rightarrow>
         [(feature_or_zero f ''organic_survival_score'', decimal 35 2),
          (feature_or_zero f ''holder_stickiness_score'', decimal 25 2),
          (feature_or_zero f ''sustained_holder_growth_score'', decimal 20 2),
          (1 - rk_score (ra_bundle risk), decimal 20 2)]
     | DefensiveNoTrade \<Rightarrow> [])"

definition edge_risk_penalty :: "('d::linordered_field) feature_snapshot \<Rightarrow> 'd risk_assessment \<Rightarrow> 'd" where
  "edge_risk_penalty f risk = weighted_average
    [(rk_score (ra_rug risk), decimal 30 2), (rk_score (ra_bundle risk), decimal 15 2),
     (rk_score (ra_top_holder risk), decimal 15 2), (rk_score (ra_fake_momentum risk), decimal 20 2),
     (feature_or_zero f ''profit_overhang_score'', decimal 10 2), (feature_or_zero f ''fee_war_score'', decimal 10 2)]"

definition expected_move ::
  "'d decision_engine \<Rightarrow> ('d::linordered_field) feature_snapshot \<Rightarrow> 'd risk_assessment \<Rightarrow> strategy_kind \<Rightarrow> 'd" where
  "expected_move eng f risk strategy =
    clamp01 (sp_take_profit_pct (strategy_profile eng strategy) *
      clamp01 (weighted_average (qualitative_inputs strategy f risk)) *
      clamp01 (1 - edge_risk_penalty f risk / decimal_from 2))"

definition edge_intent ::
  "'d decision_engine \<Rightarrow> ('d::linordered_field) token_state \<Rightarrow> 'd feature_snapshot \<Rightarrow> 'd risk_assessment \<Rightarrow>
   strategy_kind \<Rightarrow> 'd position_intent" where
  "edge_intent eng token f risk strategy =
    \<lparr>pi_mint = tok_mint token, pi_entry_time = unwrap_or 0 (tok_launch_time token),
     pi_exit_time = unwrap_or 0 (last_price_time token) +
       milliseconds (sint (sp_max_hold_ms (strategy_profile eng strategy))),
     pi_size_quote = max (min (ex_max_position_size_quote (de_execution eng))
       (ex_max_daily_loss_quote (de_execution eng) / decimal_from 10)) (decimal 25 2),
     pi_entry_price = reference_price token,
     pi_exit_price = reference_price token * (1 + expected_move eng f risk strategy),
     pi_liquidity_quote_depth =
       (if reserve_depth token > 0 then reserve_depth token else traded_volume token + decimal_from 50)\<rparr>"

definition expected_executable_edge ::
  "'d decision_engine \<Rightarrow> ('d::linordered_field) token_state \<Rightarrow> 'd feature_snapshot \<Rightarrow> 'd risk_assessment \<Rightarrow>
   strategy_kind \<Rightarrow> 'd expected_edge" where
  "expected_executable_edge eng token f risk strategy =
    (let profile = strategy_profile eng strategy;
         edge = de_edge eng;
         confidence = clamp01 (weighted_average
           [(weighted_average (qualitative_inputs strategy f risk), decimal 60 2),
            (1 - edge_risk_penalty f risk, decimal 20 2),
            (unwrap_or (decimal 50 2) (feature_decimal f ''data_quality_score''), decimal 20 2)]);
         intent = edge_intent eng token f risk strategy;
         size = pi_size_quote intent;
         (buy, sell, simulator_net) = simulate_round_trip (de_simulator eng) intent;
         fee_drag = total_quote (res_fees buy) + total_quote (res_fees sell);
         slippage_drag = size * (fl_slippage (res_fill buy) + fl_slippage (res_fill sell));
         curve_impact = size * (fl_price_impact (res_fill buy) + fl_price_impact (res_fill sell));
         latency_drag = size *
           (1 - unwrap_or (decimal 50 2) (feature_decimal f ''latency_adjusted_trade_eligibility'')) * decimal 10 2 *
           eg_latency_safety_margin_multiplier edge;
         failed_tx_cost = failed_transaction_fee_quote (res_fees buy) * weighted_average
           [(feature_or_zero f ''fee_war_score'', decimal 60 2), (rk_score (ra_data_quality risk), decimal 40 2)];
         cost_buffer = (fee_drag + slippage_drag + curve_impact) * max (eg_fee_safety_margin_multiplier edge - 1) 0;
         minimum_move = (if size > 0
           then (fee_drag + slippage_drag + curve_impact + latency_drag + failed_tx_cost) / size else 1);
         net_quote = simulator_net - cost_buffer - latency_drag - failed_tx_cost;
         net_pct = (if size > 0 then net_quote / size else 0) in
     \<lparr>xe_expected_price_move_pct = expected_move eng f risk strategy,
      xe_expected_exit_price = pi_exit_price intent, xe_expected_hold_time_ms = sp_max_hold_ms profile,
      xe_expected_fee_drag_quote = fee_drag, xe_expected_slippage_drag_quote = slippage_drag,
      xe_expected_latency_drag_quote = latency_drag, xe_expected_curve_impact_quote = curve_impact,
      xe_expected_exit_impact_quote = curve_impact / decimal_from 2,
      xe_expected_failed_tx_cost_quote = failed_tx_cost, xe_minimum_required_move_pct = minimum_move,
      xe_expected_net_edge_quote = net_quote, xe_expected_net_edge_pct = net_pct, xe_confidence = confidence,
      xe_reason_codes =
        (if net_quote \<le> eg_min_expected_net_edge_quote edge then [FeeAdjustedEdgeTooLow] else []) @
        (if net_pct \<le> eg_min_expected_net_edge_pct edge then [FeeAdjustedEdgeTooLow] else []) @
        (if feature_or_zero f ''fee_war_score'' \<ge> decimal 60 2 then [FeeWarTooExpensive] else [])\<rparr>)"

subsection \<open>The decision\<close>

text \<open>\<open>terminal_decision\<close> and \<open>terminal_or_emergency\<close> are the same function.\<close>

definition terminal_or_emergency :: "'d token_state \<Rightarrow> trade_decision" where
  "terminal_or_emergency token = (if tok_lifecycle token = LcInPosition then EmergencyExit else StopTracking)"

fun debug_strategy :: "strategy_kind \<Rightarrow> string" where
  "debug_strategy LaunchMomentumScalp = ''LaunchMomentumScalp''"
| "debug_strategy HolderGrowthContinuation = ''HolderGrowthContinuation''"
| "debug_strategy SellAbsorptionBounce = ''SellAbsorptionBounce''"
| "debug_strategy SmartCapitalRotation = ''SmartCapitalRotation''"
| "debug_strategy OrganicSlowGrind = ''OrganicSlowGrind''"
| "debug_strategy DefensiveNoTrade = ''DefensiveNoTrade''"

fun debug_warning_level :: "tentative_sell_risk_level option \<Rightarrow> string" where
  "debug_warning_level None = ''None''"
| "debug_warning_level (Some Info) = ''Some(Info)''"
| "debug_warning_level (Some Watch) = ''Some(Watch)''"
| "debug_warning_level (Some ExitArmed) = ''Some(ExitArmed)''"
| "debug_warning_level (Some EmergencyExitRecommended) = ''Some(EmergencyExitRecommended)''"
| "debug_warning_level (Some EmergencyExitRequired) = ''Some(EmergencyExitRequired)''"

definition show_bool :: "bool \<Rightarrow> string" where
  "show_bool b = (if b then ''true'' else ''false'')"

definition current_return_pct :: "('d::linordered_field) token_state \<Rightarrow> 'd open_position_context \<Rightarrow> 'd" where
  "current_return_pct token pos =
    (let current_pnl = op_size_tokens pos * tok_latest_price token - op_size_quote pos - op_entry_fees_paid pos in
     if op_size_quote pos > 0 then current_pnl / op_size_quote pos else 0)"

definition trailing_floor ::
  "('d::linordered_field) strategy_profile_config \<Rightarrow> 'd open_position_context \<Rightarrow> 'd" where
  "trailing_floor profile pos =
    (if op_size_quote pos > 0 then op_max_favorable_excursion pos / op_size_quote pos - sp_trailing_stop_pct profile
     else - sp_trailing_stop_pct profile)"

definition held_ms :: "instant \<Rightarrow> 'd open_position_context \<Rightarrow> u64" where
  "held_ms observed_at pos = word_of_int (max (whole_milliseconds (observed_at - op_entry_time pos)) 0)"

definition effective_max_hold_ms :: "('d::linordered_field) token_state \<Rightarrow> 'd strategy_profile_config \<Rightarrow> u64" where
  "effective_max_hold_ms token profile =
    (if sd_shred_exit_armed_flag (tok_shred_defense token) then sp_max_hold_ms profile div 2
     else sp_max_hold_ms profile)"

type_synonym verdict = "trade_decision \<times> reason_code list \<times> string list"

definition position_verdict ::
  "('d \<Rightarrow> string) \<Rightarrow> ('d::linordered_field) decision_engine \<Rightarrow> 'd token_state \<Rightarrow> 'd feature_snapshot \<Rightarrow>
   'd risk_assessment \<Rightarrow> strategy_kind \<Rightarrow> instant \<Rightarrow> 'd open_position_context \<Rightarrow> verdict" where
  "position_verdict show_dec eng token f risk strategy observed_at pos =
    (let current = current_return_pct token pos;
         profile = strategy_profile eng strategy;
         max_hold = effective_max_hold_ms token profile;
         held = held_ms observed_at pos;
         floor_pct = trailing_floor profile pos in
     if sd_shred_emergency_exit_triggered_flag (tok_shred_defense token)
     then (EmergencyExit, [ShredEmergencyExit], [''exit_by=shred_emergency_exit''])
     else if sd_shred_exit_armed_flag (tok_shred_defense token)
     then (Hold, [ShredExitArmed],
       [''armed_by=shred_exit_armed'', ''effective_max_hold_ms='' @ show_nat (unat max_hold)])
     else if rk_score (ra_rug risk) \<ge> decimal 75 2 \<or> rk_score (ra_fake_momentum risk) \<ge> decimal 75 2 \<or>
       rk_score (ra_bundle risk) \<ge> decimal 80 2
     then (EmergencyExit, [], [''exit_by=emergency_risk''])
     else if current \<ge> sp_take_profit_pct profile
     then (Exit, [], [''exit_by=take_profit value='' @ show_dec current @ '' threshold='' @
       show_dec (sp_take_profit_pct profile)])
     else if current \<le> - sp_stop_loss_pct profile
     then (Exit, [], [''exit_by=stop_loss value='' @ show_dec current @ '' threshold=-'' @
       show_dec (sp_stop_loss_pct profile)])
     else if op_max_favorable_excursion pos > 0 \<and> current \<le> floor_pct
     then (Exit, [], [''exit_by=trailing_stop value='' @ show_dec current @ '' threshold='' @ show_dec floor_pct])
     else if held \<ge> max_hold
     then (Exit, [], [''exit_by=max_hold held_ms='' @ show_nat (unat held) @ '' threshold='' @
       show_nat (unat max_hold)])
     else if exit_signal_for_strategy eng strategy f risk
     then (Exit, [], [''exit_by=strategy_decay strategy='' @ debug_strategy strategy])
     else (Hold, [], []))"

definition shred_entry_block :: "'d token_state \<Rightarrow> bool" where
  "shred_entry_block token \<longleftrightarrow>
     (case sd_last_warning_level (tok_shred_defense token) of
        Some ExitArmed \<Rightarrow> True
      | Some EmergencyExitRecommended \<Rightarrow> True
      | Some EmergencyExitRequired \<Rightarrow> True
      | _ \<Rightarrow> False)"

definition shred_low_confidence :: "('d::linordered_field) token_state \<Rightarrow> bool" where
  "shred_low_confidence token \<longleftrightarrow> sd_preconfirmation_exit_confidence (tok_shred_defense token) < decimal 55 2"

definition breadth_ready :: "'d token_state \<Rightarrow> bool" where
  "breadth_ready token \<longleftrightarrow> card (tr_unique_buyers (tok_trade_stats token)) \<ge> 3 \<or>
     hs_nonzero_holder_count (tok_holder_state token) \<ge> 3"

definition bundle_entry_limit :: "('d::linordered_field) decision_engine \<Rightarrow> 'd" where
  "bundle_entry_limit eng = max (th_max_bundle_risk (de_thresholds eng) - decimal 10 2) (decimal 30 2)"

definition bundle_concentrated :: "'d risk_assessment \<Rightarrow> bool" where
  "bundle_concentrated risk \<longleftrightarrow> BundleConcentration \<in> set (rk_reason_codes (ra_bundle risk)) \<or>
     HighBundleRisk \<in> set (rk_reason_codes (ra_bundle risk))"

definition edge_ready :: "('d::linordered_field) decision_engine \<Rightarrow> 'd expected_edge \<Rightarrow> bool" where
  "edge_ready eng edge \<longleftrightarrow>
     xe_expected_net_edge_quote edge > eg_min_expected_net_edge_quote (de_edge eng) \<and>
     xe_expected_net_edge_pct edge > eg_min_expected_net_edge_pct (de_edge eng) \<and>
     xe_confidence edge \<ge> eg_min_edge_confidence (de_edge eng)"

definition watch_threshold :: "('d::linordered_field) decision_engine \<Rightarrow> 'd" where
  "watch_threshold eng = max (th_min_trade_eligibility_score (de_thresholds eng) / decimal_from 2) (decimal 15 2)"

text \<open>The guard of the first arm of the match, for every strategy but \<open>DefensiveNoTrade\<close>.\<close>

definition entry_guard ::
  "('d::linordered_field) decision_engine \<Rightarrow> 'd token_state \<Rightarrow> 'd feature_snapshot \<Rightarrow> 'd risk_assessment \<Rightarrow>
   'd expected_edge \<Rightarrow> 'd \<Rightarrow> bool" where
  "entry_guard eng token f risk edge eligibility \<longleftrightarrow>
     eligibility \<ge> th_min_trade_eligibility_score (de_thresholds eng) \<and> breadth_ready token \<and>
     rk_score (ra_bundle risk) < bundle_entry_limit eng \<and> \<not> bundle_concentrated risk \<and> \<not> flagged_fake risk \<and>
     (\<not> shred_entry_block token \<or> shred_low_confidence token) \<and>
     feature_or_zero f ''holder_stickiness_score'' \<ge> th_min_holder_stickiness_score (de_thresholds eng) \<and>
     feature_or_zero f ''momentum_authenticity_score'' \<ge> th_min_momentum_authenticity_score (de_thresholds eng) \<and>
     feature_or_zero f ''profit_overhang_score'' \<le> th_max_profit_overhang_score (de_thresholds eng) \<and>
     edge_ready eng edge"

definition entry_decision ::
  "('d::linordered_field) decision_engine \<Rightarrow> 'd token_state \<Rightarrow> 'd feature_snapshot \<Rightarrow> 'd risk_assessment \<Rightarrow>
   'd expected_edge \<Rightarrow> 'd \<Rightarrow> strategy_kind \<Rightarrow> trade_decision" where
  "entry_decision eng token f risk edge eligibility strategy =
    (if strategy \<noteq> DefensiveNoTrade \<and> entry_guard eng token f risk edge eligibility
     then (if ex_paper_enabled (de_execution eng) then EnterPaper else WatchDeep)
     else if strategy = DefensiveNoTrade then WatchLight
     else if eligibility \<ge> watch_threshold eng \<and> eg_allow_watch_without_trade (de_edge eng) then WatchDeep
     else WatchLight)"

definition entry_diagnostics ::
  "('d \<Rightarrow> string) \<Rightarrow> ('d::linordered_field) decision_engine \<Rightarrow> 'd token_state \<Rightarrow> 'd feature_snapshot \<Rightarrow>
   'd risk_assessment \<Rightarrow> 'd expected_edge \<Rightarrow> 'd \<Rightarrow> string" where
  "entry_diagnostics show_dec eng token f risk edge eligibility =
    ''eligibility='' @ show_dec eligibility @
    '' enter_threshold='' @ show_dec (th_min_trade_eligibility_score (de_thresholds eng)) @
    '' watch_threshold='' @ show_dec (watch_threshold eng) @
    '' breadth_ready='' @ show_bool (breadth_ready token) @
    '' bundle_score='' @ show_dec (rk_score (ra_bundle risk)) @
    '' bundle_entry_limit='' @ show_dec (bundle_entry_limit eng) @
    '' bundle_concentrated='' @ show_bool (bundle_concentrated risk) @
    '' fake_momentum_flagged='' @ show_bool (flagged_fake risk) @
    '' holder_stickiness='' @ show_dec (feature_or_zero f ''holder_stickiness_score'') @
    '' min_holder_stickiness='' @ show_dec (th_min_holder_stickiness_score (de_thresholds eng)) @
    '' authenticity='' @ show_dec (feature_or_zero f ''momentum_authenticity_score'') @
    '' min_authenticity='' @ show_dec (th_min_momentum_authenticity_score (de_thresholds eng)) @
    '' profit_overhang='' @ show_dec (feature_or_zero f ''profit_overhang_score'') @
    '' max_profit_overhang='' @ show_dec (th_max_profit_overhang_score (de_thresholds eng)) @
    '' expected_edge_quote='' @ show_dec (xe_expected_net_edge_quote edge) @
    '' min_edge_quote='' @ show_dec (eg_min_expected_net_edge_quote (de_edge eng)) @
    '' expected_edge_pct='' @ show_dec (xe_expected_net_edge_pct edge) @
    '' min_edge_pct='' @ show_dec (eg_min_expected_net_edge_pct (de_edge eng)) @
    '' edge_confidence='' @ show_dec (xe_confidence edge) @
    '' min_edge_confidence='' @ show_dec (eg_min_edge_confidence (de_edge eng))"

definition entry_verdict ::
  "('d \<Rightarrow> string) \<Rightarrow> ('d::linordered_field) decision_engine \<Rightarrow> 'd token_state \<Rightarrow> 'd feature_snapshot \<Rightarrow>
   'd risk_assessment \<Rightarrow> 'd expected_edge \<Rightarrow> 'd \<Rightarrow> strategy_kind \<Rightarrow> verdict" where
  "entry_verdict show_dec eng token f risk edge eligibility strategy =
    (let blocked = shred_entry_block token \<and> \<not> shred_low_confidence token in
     (entry_decision eng token f risk edge eligibility strategy,
      (if blocked then EarlyIntentSellWarning #
         (if sd_active_seller_classification (tok_shred_defense token) \<noteq> None then [ShredExitArmed] else [])
       else []),
      (if blocked then [''blocked_by=early_intent warning_level='' @
         debug_warning_level (sd_last_warning_level (tok_shred_defense token)) @ '' confidence='' @
         show_dec (sd_preconfirmation_exit_confidence (tok_shred_defense token))] else []) @
      [entry_diagnostics show_dec eng token f risk edge eligibility]))"

definition lifecycle_over :: "token_lifecycle \<Rightarrow> bool" where
  "lifecycle_over l \<longleftrightarrow> l \<in> {LcExitPending, LcCompleted, LcSoftDiscarded, LcHardDiscarded, LcRugArchive, LcMigrated,
     LcDataGap}"

definition fee_edge_limit :: "('d::linordered_field) decision_engine \<Rightarrow> 'd" where
  "fee_edge_limit eng = decimal_from (th_min_fee_adjusted_edge_bps (de_thresholds eng)) / decimal_from 10000"

definition risk_exceeded :: "('d::linordered_field) decision_engine \<Rightarrow> 'd risk_assessment \<Rightarrow> bool" where
  "risk_exceeded eng risk \<longleftrightarrow>
     rk_score (ra_rug risk) \<ge> th_max_rug_risk (de_thresholds eng) \<or>
     rk_score (ra_bundle risk) \<ge> th_max_bundle_risk (de_thresholds eng) \<or>
     rk_score (ra_fake_momentum risk) \<ge> th_max_fake_momentum_risk (de_thresholds eng)"

definition data_gap_stop :: "'d risk_assessment \<Rightarrow> bool" where
  "data_gap_stop risk \<longleftrightarrow> rk_recommended_lifecycle_action (ra_data_quality risk) = ActDataGapStop \<or>
     ra_discard_policy risk = PolicyDataGapStop"

definition decision_verdict ::
  "('d \<Rightarrow> string) \<Rightarrow> ('d::linordered_field) decision_engine \<Rightarrow> 'd token_state \<Rightarrow> 'd feature_snapshot \<Rightarrow>
   'd risk_assessment \<Rightarrow> 'd open_position_context option \<Rightarrow> 'd expected_edge \<Rightarrow> 'd \<Rightarrow> 'd \<Rightarrow> strategy_kind \<Rightarrow>
   instant \<Rightarrow> verdict" where
  "decision_verdict show_dec eng token f risk position edge eligibility fee_edge strategy observed_at =
    (let thresholds = de_thresholds eng; quality = feature_or_zero f ''data_quality_score'' in
     if de_kill_switch eng then (terminal_or_emergency token, [KillSwitchActive], [''blocked_by=kill_switch''])
     else if data_gap_stop risk then (terminal_or_emergency token, [DataGapActive], [''blocked_by=data_gap''])
     else if risk_exceeded eng risk then
       (terminal_or_emergency token,
        (if rk_score (ra_rug risk) \<ge> th_max_rug_risk thresholds then [HighRugRisk] else []) @
        (if rk_score (ra_bundle risk) \<ge> th_max_bundle_risk thresholds then [HighBundleRisk] else []) @
        (if rk_score (ra_fake_momentum risk) \<ge> th_max_fake_momentum_risk thresholds
         then [HighFakeMomentumRisk] else []),
        [''blocked_by=risk rug='' @ show_dec (rk_score (ra_rug risk)) @
         '' bundle='' @ show_dec (rk_score (ra_bundle risk)) @
         '' fake='' @ show_dec (rk_score (ra_fake_momentum risk)) @
         '' thresholds='' @ show_dec (th_max_rug_risk thresholds) @ ''/'' @
         show_dec (th_max_bundle_risk thresholds) @ ''/'' @ show_dec (th_max_fake_momentum_risk thresholds)])
     else if quality < th_min_data_quality_score thresholds then
       (WatchLight, [DataGapActive],
        [''blocked_by=data_quality value='' @ show_dec quality @ '' threshold='' @
         show_dec (th_min_data_quality_score thresholds)])
     else if fee_edge < fee_edge_limit eng then
       ((if position \<noteq> None then Exit else WatchDeep), [FeeAdjustedEdgeTooLow],
        [''blocked_by=fee_edge value='' @ show_dec fee_edge @ '' threshold='' @ show_dec (fee_edge_limit eng)])
     else (case position of
         Some pos \<Rightarrow> position_verdict show_dec eng token f risk strategy observed_at pos
       | None \<Rightarrow>
           if lifecycle_over (tok_lifecycle token) then (StopTracking, [], [])
           else entry_verdict show_dec eng token f risk edge eligibility strategy))"

definition decision_reasons ::
  "('d::linordered_field) decision_engine \<Rightarrow> 'd risk_assessment \<Rightarrow> verdict \<Rightarrow> reason_code list" where
  "decision_reasons eng risk = (\<lambda>(decision, reasons, _). reason_list (
    reasons @
    (if decision = EnterPaper then [reason_code.EnterPaper] else []) @
    (if decision = Exit \<or> decision = EmergencyExit then [ExitPaper] else []) @
    (if ex_live_enabled (de_execution eng) then [] else [LiveDisabled]) @
    ra_reason_codes risk))"

definition score_vector_of ::
  "(string \<rightharpoonup> ('d::linordered_field) composite_score) \<Rightarrow> 'd expected_edge \<Rightarrow> string \<rightharpoonup> 'd" where
  "score_vector_of scores edge =
    (map_option sc_raw_score \<circ> scores)
      (''expected_net_edge_quote'' \<mapsto> xe_expected_net_edge_quote edge,
       ''expected_net_edge_pct'' \<mapsto> xe_expected_net_edge_pct edge)"

definition risk_vector_of :: "'d risk_assessment \<Rightarrow> string \<rightharpoonup> 'd" where
  "risk_vector_of risk = map_of
    [(''rug'', rk_score (ra_rug risk)), (''bundle'', rk_score (ra_bundle risk)), (''dev'', rk_score (ra_dev risk)),
     (''top_holder'', rk_score (ra_top_holder risk)), (''fake_momentum'', rk_score (ra_fake_momentum risk)),
     (''data_quality'', rk_score (ra_data_quality risk))]"

definition evaluate_decision ::
  "('d \<Rightarrow> string) \<Rightarrow> ('d::linordered_field) decision_engine \<Rightarrow> 'd token_state \<Rightarrow> 'd feature_snapshot \<Rightarrow>
   'd risk_assessment \<Rightarrow> 'd open_position_context option \<Rightarrow> string \<Rightarrow> string \<Rightarrow> string \<Rightarrow> instant \<Rightarrow>
   'd decision_outcome" where
  "evaluate_decision show_dec eng token f risk position decision_id config_hash strategy_version observed_at =
    (let scores = composite_scores eng token f risk;
         eligibility = adjusted_of scores ''TradeEligibilityScore'';
         fee_edge = unwrap_or 0 (map_option sc_raw_score (scores ''FeeAdjustedEdgeScore''));
         strategy = (case position of None \<Rightarrow> select_strategy f risk scores | Some pos \<Rightarrow> op_strategy pos);
         edge = expected_executable_edge eng token f risk strategy;
         verdict = decision_verdict show_dec eng token f risk position edge eligibility fee_edge strategy observed_at in
     \<lparr>do_decision_event =
        \<lparr>td_decision_id = decision_id, td_mint = tok_mint token, td_decision = fst verdict,
         td_strategy = debug_strategy strategy, td_feature_snapshot_hash = fs_vector_hash f,
         td_score_vector = score_vector_of scores edge, td_risk_vector = risk_vector_of risk,
         td_expected_net_edge_quote = xe_expected_net_edge_quote edge,
         td_expected_net_edge_pct = xe_expected_net_edge_pct edge,
         td_expected_edge_confidence = xe_confidence edge,
         td_reason_codes = decision_reasons eng risk verdict, td_config_hash = config_hash,
         td_strategy_version = strategy_version,
         td_data_quality_score = feature_or_zero f ''data_quality_score'',
         td_no_lookahead_timestamp = observed_at\<rparr>,
      do_strategy = strategy, do_position_size_quote = position_size_quote eng eligibility token risk,
      do_expected_edge = edge, do_composite_scores = scores, do_diagnostics = snd (snd verdict)\<rparr>)"

end
