(* ===== verification/Decision_Properties.thy ===== *)
theory Decision_Properties
  imports Decision
begin

text \<open>
  What the decision engine promises: when it enters a position, when it holds one, how large a position is, and
  what its reasons say. The gates that come before every other branch are collected in \<open>gates_open\<close>.
\<close>

lemma clamp01_less: "c \<le> 1 \<Longrightarrow> clamp01 x < c \<longleftrightarrow> (0 < c \<and> x < c)" for x :: "'d::linordered_field"
  by (auto simp: clamp01_def min_def max_def)

lemma composite_bounds [simp]:
  "0 \<le> sc_raw_score (composite raw pos neg penalty rs)" "sc_raw_score (composite raw pos neg penalty rs) \<le> 1"
  "0 \<le> sc_regime_adjusted_score (composite raw pos neg penalty rs)"
  "sc_regime_adjusted_score (composite raw pos neg penalty rs) \<le> 1"
  by (simp_all add: composite_def Let_def)

lemma raw_score_composite [simp]: "sc_raw_score (composite raw pos neg penalty rs) = clamp01 raw"
  by (simp add: composite_def Let_def)

subsection \<open>The quantities an evaluation reads\<close>

definition eligibility_of ::
  "'d decision_engine \<Rightarrow> ('d::linordered_field) token_state \<Rightarrow> 'd feature_snapshot \<Rightarrow> 'd risk_assessment \<Rightarrow> 'd" where
  "eligibility_of eng token f risk = sc_regime_adjusted_score (trade_eligibility_score eng token f risk)"

definition strategy_of ::
  "'d decision_engine \<Rightarrow> ('d::linordered_field) token_state \<Rightarrow> 'd feature_snapshot \<Rightarrow> 'd risk_assessment \<Rightarrow>
   'd open_position_context option \<Rightarrow> strategy_kind" where
  "strategy_of eng token f risk position = (case position of
     None \<Rightarrow> select_strategy f risk (composite_scores eng token f risk) | Some pos \<Rightarrow> op_strategy pos)"

lemma eligibility_bounds: "0 \<le> eligibility_of eng token f risk" "eligibility_of eng token f risk \<le> 1"
  by (simp_all add: eligibility_of_def trade_eligibility_score_def)

lemma adjusted_eligibility:
  "adjusted_of (composite_scores eng token f risk) ''TradeEligibilityScore'' = eligibility_of eng token f risk"
  by (simp add: adjusted_of_def composite_scores_def eligibility_of_def unwrap_or_def)

lemma fee_edge_raw:
  "unwrap_or 0 (map_option sc_raw_score (composite_scores eng token f risk ''FeeAdjustedEdgeScore'')) =
    clamp01 (fee_adjusted_edge eng token f)"
  by (simp add: composite_scores_def factor_scores_def fee_adjusted_edge_score_def unwrap_or_def)

lemma fee_edge_clamped: "clamp01 (fee_adjusted_edge eng token f) = fee_adjusted_edge eng token f"
  by (simp add: fee_adjusted_edge_def Let_def case_prod_beta clamp01_id)

definition gates_open ::
  "'d decision_engine \<Rightarrow> ('d::linordered_field) token_state \<Rightarrow> 'd feature_snapshot \<Rightarrow> 'd risk_assessment \<Rightarrow> bool" where
  "gates_open eng token f risk \<longleftrightarrow> \<not> de_kill_switch eng \<and> \<not> data_gap_stop risk \<and> \<not> risk_exceeded eng risk \<and>
     th_min_data_quality_score (de_thresholds eng) \<le> feature_or_zero f ''data_quality_score'' \<and>
     fee_edge_limit eng \<le> fee_adjusted_edge eng token f"

lemma evaluate_verdict:
  "td_decision (do_decision_event (evaluate_decision show_dec eng token f risk position i h v t)) =
    fst (decision_verdict show_dec eng token f risk position
      (expected_executable_edge eng token f risk (strategy_of eng token f risk position))
      (eligibility_of eng token f risk) (fee_adjusted_edge eng token f) (strategy_of eng token f risk position) t)"
  by (simp add: evaluate_decision_def Let_def strategy_of_def adjusted_eligibility fee_edge_raw fee_edge_clamped)

lemma evaluate_size:
  "do_position_size_quote (evaluate_decision show_dec eng token f risk position i h v t) =
    position_size_quote eng (eligibility_of eng token f risk) token risk"
  by (simp add: evaluate_decision_def Let_def adjusted_eligibility)

lemma terminal_decisions:
  "terminal_or_emergency token \<noteq> trade_decision.EnterPaper" "terminal_or_emergency token \<noteq> Hold"
  "tok_lifecycle token \<noteq> LcInPosition \<Longrightarrow> terminal_or_emergency token = StopTracking"
  by (simp_all add: terminal_or_emergency_def)

lemma verdict_open:
  "gates_open eng token f risk \<Longrightarrow>
   decision_verdict show_dec eng token f risk position edge eligibility (fee_adjusted_edge eng token f) strategy t =
    (case position of
       Some pos \<Rightarrow> position_verdict show_dec eng token f risk strategy t pos
     | None \<Rightarrow> if lifecycle_over (tok_lifecycle token) then (StopTracking, [], [])
         else entry_verdict show_dec eng token f risk edge eligibility strategy)"
  by (simp add: gates_open_def decision_verdict_def Let_def not_less [symmetric])

lemma verdict_closed:
  "\<not> gates_open eng token f risk \<Longrightarrow>
   fst (decision_verdict show_dec eng token f risk position edge eligibility (fee_adjusted_edge eng token f) strategy t)
     \<in> {terminal_or_emergency token, WatchLight} \<union> (if position = None then {WatchDeep} else {Exit})"
  by (auto simp: gates_open_def decision_verdict_def Let_def not_le)

subsection \<open>Entering\<close>

lemma position_never_enters:
  "fst (position_verdict show_dec eng token f risk strategy t pos) \<in> {EmergencyExit, Hold, Exit}"
  by (simp add: position_verdict_def Let_def)

lemma position_not_entering: "fst (position_verdict show_dec eng token f risk strategy t pos) \<noteq> trade_decision.EnterPaper"
  using position_never_enters [of show_dec eng token f risk strategy t pos] by auto

lemma verdict_closed_neq:
  assumes "\<not> gates_open eng token f risk"
  shows "fst (decision_verdict show_dec eng token f risk position edge eligibility (fee_adjusted_edge eng token f)
      strategy t) \<noteq> trade_decision.EnterPaper"
    and "fst (decision_verdict show_dec eng token f risk position edge eligibility (fee_adjusted_edge eng token f)
      strategy t) \<noteq> Hold"
  using verdict_closed [OF assms, of show_dec position edge eligibility strategy t] terminal_decisions(1,2) [of token]
  by (auto split: if_splits)

lemma entry_verdict_enters:
  "fst (entry_verdict show_dec eng token f risk edge eligibility strategy) = trade_decision.EnterPaper \<longleftrightarrow>
    strategy \<noteq> DefensiveNoTrade \<and> entry_guard eng token f risk edge eligibility \<and> ex_paper_enabled (de_execution eng)"
  by (simp add: entry_verdict_def entry_decision_def Let_def)


subsection \<open>Holding\<close>

definition exit_condition ::
  "'d decision_engine \<Rightarrow> ('d::linordered_field) token_state \<Rightarrow> 'd feature_snapshot \<Rightarrow> 'd risk_assessment \<Rightarrow> instant \<Rightarrow>
   'd open_position_context \<Rightarrow> bool" where
  "exit_condition eng token f risk t pos \<longleftrightarrow>
    (let current = current_return_pct token pos; profile = strategy_profile eng (op_strategy pos) in
     decimal 75 2 \<le> rk_score (ra_rug risk) \<or> decimal 75 2 \<le> rk_score (ra_fake_momentum risk) \<or>
     decimal 80 2 \<le> rk_score (ra_bundle risk) \<or>
     sp_take_profit_pct profile \<le> current \<or> current \<le> - sp_stop_loss_pct profile \<or>
     (0 < op_max_favorable_excursion pos \<and> current \<le> trailing_floor profile pos) \<or>
     sp_max_hold_ms profile \<le> held_ms t pos \<or> exit_signal_for_strategy eng (op_strategy pos) f risk)"

lemma position_holds:
  "fst (position_verdict show_dec eng token f risk (op_strategy pos) t pos) = Hold \<longleftrightarrow>
    \<not> sd_shred_emergency_exit_triggered_flag (tok_shred_defense token) \<and>
    (sd_shred_exit_armed_flag (tok_shred_defense token) \<or> \<not> exit_condition eng token f risk t pos)"
  by (auto simp: position_verdict_def exit_condition_def effective_max_hold_ms_def Let_def not_le)


subsection \<open>Gates that leave a position open\<close>

definition unmanaged ::
  "'d decision_engine \<Rightarrow> ('d::linordered_field) feature_snapshot \<Rightarrow> 'd risk_assessment \<Rightarrow> bool" where
  "unmanaged eng f risk \<longleftrightarrow> de_kill_switch eng \<or> data_gap_stop risk \<or> risk_exceeded eng risk \<or>
     feature_or_zero f ''data_quality_score'' < th_min_data_quality_score (de_thresholds eng)"

lemma unmanaged_decision:
  assumes "unmanaged eng f risk" and "tok_lifecycle token \<noteq> LcInPosition"
  shows "td_decision (do_decision_event (evaluate_decision show_dec eng token f risk position i h v t))
    \<in> {StopTracking, WatchLight}"
  using assms by (auto simp: evaluate_verdict decision_verdict_def unmanaged_def terminal_decisions Let_def)

subsection \<open>The fee gate\<close>

text \<open>
  The fee gate compares half of one plus the net return with the configured basis points. For a limit below one half
  it therefore lets losing round trips through: the gate closes only when the net result is below (2 * limit - 1)
  times the size, a loss of 98.4% for the default of 80 basis points.
\<close>

theorem fee_edge_gate_exact:
  fixes eng :: "('d::linordered_field) decision_engine"
  assumes "0 < ex_max_daily_loss_quote (de_execution eng)" and "0 < fee_edge_limit eng" "fee_edge_limit eng \<le> 1"
  shows "fee_adjusted_edge eng token f < fee_edge_limit eng \<longleftrightarrow>
    snd (snd (simulate_round_trip (de_simulator eng) (fee_edge_intent eng token f)))
      < (2 * fee_edge_limit eng - 1) * pi_size_quote (fee_edge_intent eng token f)"
proof -
  define size where "size = pi_size_quote (fee_edge_intent eng token f)"
  define net where "net = snd (snd (simulate_round_trip (de_simulator eng) (fee_edge_intent eng token f)))"
  have pos: "0 < size" using assms(1) by (simp add: size_def fee_edge_intent_def decimal_from_def)
  have "fee_adjusted_edge eng token f = clamp01 ((net / size + 1) / 2)"
    using pos by (simp add: fee_adjusted_edge_def size_def net_def case_prod_beta Let_def decimal_from_def)
  moreover have "(net / size + 1) / 2 < fee_edge_limit eng \<longleftrightarrow> net < (2 * fee_edge_limit eng - 1) * size"
    using pos by (simp add: field_simps)
  ultimately show ?thesis
    using assms(2,3) by (simp add: clamp01_less size_def net_def)
qed

subsection \<open>The size of a position\<close>

lemma product_of_shares:
  fixes b :: "'d::linordered_field"
  assumes "0 \<le> b" "0 \<le> x" "x \<le> 1" "0 \<le> y" "y \<le> 1" "0 \<le> z" "z \<le> 1"
  shows "0 \<le> b * x * y * z \<and> b * x * y * z \<le> b"
proof -
  have "x * y \<le> 1" "0 \<le> x * y" using assms mult_le_one by auto
  then have "x * y * z \<le> 1" "0 \<le> x * y * z" using assms mult_le_one by auto
  then show ?thesis using assms(1) mult_left_mono [of "x * y * z" 1 b] by (simp add: mult.assoc)
qed

text \<open>
  The size of a position is never negative and never exceeds a tenth of the daily loss limit or the maximal position
  size; a token without any liquidity gets none.
\<close>

theorem position_size_bounded:
  fixes eng :: "('d::linordered_field) decision_engine"
  assumes "0 \<le> ex_max_daily_loss_quote (de_execution eng)"
  shows "(let size = do_position_size_quote (evaluate_decision show_dec eng token f risk position i h v t) in
     0 \<le> size \<and> size \<le> ex_max_daily_loss_quote (de_execution eng) / 10 \<and>
     size \<le> max (ex_max_position_size_quote (de_execution eng)) 0 \<and>
     (if sizing_depth token \<le> 0 then size = 0 else True))"
proof -
  define loss where "loss = ex_max_daily_loss_quote (de_execution eng)"
  define liq where "liq = clamp01 (sizing_depth token / decimal_from 500)"
  define r where "r = clamp01 (1 - weighted_average
    [(rk_score (ra_rug risk), decimal 4 1), (rk_score (ra_bundle risk), decimal 2 1),
     (rk_score (ra_top_holder risk), decimal 2 1), (rk_score (ra_fake_momentum risk), decimal 2 1)])"
  have size: "do_position_size_quote (evaluate_decision show_dec eng token f risk position i h v t) =
      min (min (loss / decimal_from 10 * eligibility_of eng token f risk * liq * r) (loss / decimal_from 2))
        (max (ex_max_position_size_quote (de_execution eng)) 0)"
    unfolding evaluate_size position_size_quote_def Let_def loss_def liq_def r_def by (rule HOL.refl)
  have pos: "0 \<le> loss" using assms by (simp add: loss_def)
  then have share: "0 \<le> loss / decimal_from 10 * eligibility_of eng token f risk * liq * r \<and>
      loss / decimal_from 10 * eligibility_of eng token f risk * liq * r \<le> loss / decimal_from 10"
    by (intro product_of_shares) (simp_all add: eligibility_bounds liq_def r_def decimal_from_def)
  have none: "liq = 0" if "sizing_depth token \<le> 0"
    using that by (simp add: liq_def clamp01_def decimal_from_def divide_nonpos_pos)
  have ten: "loss / decimal_from 10 = loss / 10" "loss / decimal_from 2 = loss / 2"
    by (simp_all add: decimal_from_def)
  show ?thesis
    using pos share unfolding size Let_def loss_def [symmetric] ten
    by (auto simp: none min_le_iff_disj le_max_iff_disj)
qed

subsection \<open>Reasons\<close>

lemma branch_reasons_plain:
  assumes "r \<in> {reason_code.EnterPaper, ExitPaper}"
  shows "r \<notin> set (fst (snd (position_verdict show_dec eng token f risk strategy t pos)))"
    and "r \<notin> set (fst (snd (entry_verdict show_dec eng token f risk edge eligibility strategy)))"
  using assms unfolding position_verdict_def entry_verdict_def Let_def by (elim insertE emptyE; simp)+

lemma verdict_reasons_plain:
  assumes "r \<in> {reason_code.EnterPaper, ExitPaper}"
  shows "r \<notin> set (fst (snd (decision_verdict show_dec eng token f risk position edge eligibility fee_edge strategy t)))"
proof -
  have own: "r \<noteq> KillSwitchActive" "r \<noteq> DataGapActive" "r \<noteq> HighRugRisk" "r \<noteq> HighBundleRisk"
    "r \<noteq> HighFakeMomentumRisk" "r \<noteq> FeeAdjustedEdgeTooLow"
    using assms by auto
  show ?thesis
    by (cases position) (simp_all add: decision_verdict_def Let_def own branch_reasons_plain [OF assms])
qed

lemma risk_reasons_plain:
  assumes "r \<in> {reason_code.EnterPaper, ExitPaper}"
  shows "r \<notin> set (ra_reason_codes (evaluate_risk show4 reng token f t))"
proof -
  have scores: "r \<notin> set (rk_reason_codes (rug_risk show4 f))" "r \<notin> set (rk_reason_codes (bundle_risk f))"
    "r \<notin> set (rk_reason_codes (dev_risk token f))" "r \<notin> set (rk_reason_codes (top_holder_risk show4 f))"
    "r \<notin> set (rk_reason_codes (fake_momentum_risk f))" "r \<notin> set (rk_reason_codes (data_quality_risk reng f))"
    using assms unfolding rug_risk_def rug_reasons_def bundle_risk_def dev_risk_def top_holder_risk_def
      fake_momentum_risk_def data_quality_risk_def Let_def by (elim insertE emptyE; simp)+
  have "r \<notin> set (policy_reasons p)" for p
    using assms by (cases p) (auto simp: policy_reasons_def)
  with scores show ?thesis by (simp add: evaluate_risk_def Let_def)
qed

text \<open>
  On an assessment of the risk engine the reasons of a decision are listed in their order, each once; entering is
  among them exactly when the decision enters, leaving exactly when it leaves, and that live trading is off exactly
  when it is.
\<close>

theorem decision_reasons_exact:
  fixes f :: "('d::linordered_field) feature_snapshot"
  shows "(let event = do_decision_event (evaluate_decision show_dec eng token f (evaluate_risk show4 reng token f t)
        position i h v t) in
     sorted (td_reason_codes event) \<and> distinct (td_reason_codes event) \<and>
     (reason_code.EnterPaper \<in> set (td_reason_codes event) \<longleftrightarrow> td_decision event = trade_decision.EnterPaper) \<and>
     (ExitPaper \<in> set (td_reason_codes event) \<longleftrightarrow> td_decision event \<in> {Exit, EmergencyExit}))"
proof -
  define risk where "risk = evaluate_risk show4 reng token f t"
  obtain decision reasons diagnostics where verdict:
    "decision_verdict show_dec eng token f risk position
      (expected_executable_edge eng token f risk (strategy_of eng token f risk position))
      (eligibility_of eng token f risk) (fee_adjusted_edge eng token f) (strategy_of eng token f risk position) t =
     (decision, reasons, diagnostics)"
    by (cases "decision_verdict show_dec eng token f risk position
      (expected_executable_edge eng token f risk (strategy_of eng token f risk position))
      (eligibility_of eng token f risk) (fee_adjusted_edge eng token f) (strategy_of eng token f risk position) t")
  have codes: "td_reason_codes (do_decision_event (evaluate_decision show_dec eng token f risk position i h v t)) =
      decision_reasons eng risk (decision, reasons, diagnostics)"
    using verdict by (simp add: evaluate_decision_def Let_def strategy_of_def adjusted_eligibility fee_edge_raw
        fee_edge_clamped)
  have decision: "td_decision (do_decision_event (evaluate_decision show_dec eng token f risk position i h v t)) = decision"
    by (simp add: evaluate_verdict verdict)
  have "r \<notin> set reasons" if "r \<in> {reason_code.EnterPaper, ExitPaper}" for r
    using verdict_reasons_plain [OF that, of show_dec eng token f risk position
      "expected_executable_edge eng token f risk (strategy_of eng token f risk position)"
      "eligibility_of eng token f risk" "fee_adjusted_edge eng token f" "strategy_of eng token f risk position" t]
    by (simp add: verdict)
  moreover have "r \<notin> set (ra_reason_codes risk)" if "r \<in> {reason_code.EnterPaper, ExitPaper}" for r
    unfolding risk_def using that by (rule risk_reasons_plain)
  ultimately show ?thesis
    unfolding risk_def [symmetric] Let_def codes decision by (auto simp: decision_reasons_def)
qed

subsection \<open>A concrete engine\<close>

definition example_profile :: "rat strategy_profile_config" where
  "example_profile = \<lparr>sp_take_profit_pct = decimal 18 2, sp_trailing_stop_pct = decimal 8 2,
     sp_stop_loss_pct = decimal 9 2, sp_max_hold_ms = 20000\<rparr>"

definition example_decision_engine :: "rat decision_engine" where
  "example_decision_engine =
    \<lparr>de_thresholds = \<lparr>th_min_fee_adjusted_edge_bps = 80, th_min_data_quality_score = decimal 4 1,
       th_max_bundle_risk = decimal 9 1, th_max_rug_risk = decimal 9 1, th_max_fake_momentum_risk = decimal 9 1,
       th_min_holder_growth = 0, th_min_trade_eligibility_score = decimal 5 1,
       th_min_holder_stickiness_score = decimal 2 1, th_min_momentum_authenticity_score = decimal 2 1,
       th_max_profit_overhang_score = decimal 9 1, th_launch_momentum = example_profile,
       th_holder_growth = example_profile, th_absorption_bounce = example_profile,
       th_smart_rotation = example_profile, th_organic_slow_grind = example_profile,
       th_exit_on_shred = \<lparr>es_launch_momentum = True, es_holder_growth = True, es_absorption_bounce = True,
         es_smart_rotation = True, es_organic_slow_grind = True\<rparr>\<rparr>,
     de_edge = \<lparr>eg_min_expected_net_edge_quote = 0, eg_min_expected_net_edge_pct = 0, eg_min_edge_confidence = 0,
       eg_fee_safety_margin_multiplier = 1, eg_latency_safety_margin_multiplier = 1,
       eg_allow_watch_without_trade = True\<rparr>,
     de_execution = \<lparr>ex_enabled = False, ex_live_enabled = False, ex_paper_enabled = True, ex_dry_run = True,
       ex_use_rpc_send = False, ex_use_stream_blockhash_cache = True, ex_max_daily_loss_quote = 100,
       ex_max_open_positions = 2, ex_max_position_size_quote = 25, ex_max_trades_per_minute = 10,
       ex_max_fee_quote = 1, ex_max_slippage_bps = 150\<rparr>,
     de_simulator = default_fee_parameters, de_kill_switch = False\<rparr>"

definition calm_features :: "rat feature_snapshot" where
  "calm_features = numeric_features [(''data_quality_score'', 1)]"

theorem fee_edge_gate_exact_witness:
  "fee_adjusted_edge example_decision_engine example_token calm_features < fee_edge_limit example_decision_engine \<longleftrightarrow>
    snd (snd (simulate_round_trip (de_simulator example_decision_engine)
      (fee_edge_intent example_decision_engine example_token calm_features)))
      < (2 * fee_edge_limit example_decision_engine - 1) *
        pi_size_quote (fee_edge_intent example_decision_engine example_token calm_features)"
  by (rule fee_edge_gate_exact)
    (simp_all add: example_decision_engine_def fee_edge_limit_def decimal_from_def)

theorem position_size_bounded_witness:
  "(let size = do_position_size_quote (evaluate_decision (\<lambda>_. []) example_decision_engine example_token calm_features
       (evaluate_risk (\<lambda>_. []) default_risk_engine example_token calm_features 0) None [] [] [] 0) in
     0 \<le> size \<and> size \<le> ex_max_daily_loss_quote (de_execution example_decision_engine) / 10 \<and>
     size \<le> max (ex_max_position_size_quote (de_execution example_decision_engine)) 0 \<and>
     (if sizing_depth example_token \<le> 0 then size = 0 else True))"
  by (rule position_size_bounded) (simp add: example_decision_engine_def)

end
