(* ===== verification/Shred_Exit_Records.thy ===== *)
theory Shred_Exit_Records
  imports Decision Executor Token_Handlers
begin

text \<open>
  The data of \<open>crates/runtime/src/shred_exit.rs\<close>: the metrics and the calibration of the tentative sell manager, the
  pending tentative sells, and the names that \<open>Debug\<close> gives to the enums it renders. Hash maps that are iterated are
  association lists, so that their order is any order. The digest behind \<open>EventId::from_seed\<close> is third-party code.
\<close>

record 'd shred_env = "'d text_env" +
  tx_id_from_seed :: "string \<Rightarrow> event_id"

subsection \<open>Names\<close>

fun debug_early_intent_source :: "early_intent_source \<Rightarrow> string" where
  "debug_early_intent_source RawShred = ''RawShred''"
| "debug_early_intent_source DeshredPreExecution = ''DeshredPreExecution''"
| "debug_early_intent_source FixtureTentative = ''FixtureTentative''"
| "debug_early_intent_source MockEarlyIntent = ''MockEarlyIntent''"
| "debug_early_intent_source ReplayTentative = ''ReplayTentative''"

fun debug_classification :: "dangerous_seller_classification \<Rightarrow> string" where
  "debug_classification Dev = ''Dev''"
| "debug_classification DevCluster = ''DevCluster''"
| "debug_classification Top1Holder = ''Top1Holder''"
| "debug_classification Top3Holder = ''Top3Holder''"
| "debug_classification Top5Holder = ''Top5Holder''"
| "debug_classification Top10Holder = ''Top10Holder''"
| "debug_classification BundleWallet = ''BundleWallet''"
| "debug_classification BundleCluster = ''BundleCluster''"
| "debug_classification Whale = ''Whale''"
| "debug_classification SmartWalletTakingProfit = ''SmartWalletTakingProfit''"
| "debug_classification ToxicSniper = ''ToxicSniper''"
| "debug_classification SameFunderCluster = ''SameFunderCluster''"
| "debug_classification SameClientFingerprintCluster = ''SameClientFingerprintCluster''"
| "debug_classification HighPnlHolder = ''HighPnlHolder''"
| "debug_classification FreeRollingHolder = ''FreeRollingHolder''"
| "debug_classification dangerous_seller_classification.Unknown = ''Unknown''"

definition source_label :: "early_intent_source \<Rightarrow> string" where
  "source_label source = to_lowercase (debug_early_intent_source source)"

fun payload_label :: "'d event_payload \<Rightarrow> string" where
  "payload_label (TokenCreated _) = ''token_created''"
| "payload_label (PumpBuy _) = ''pump_buy''"
| "payload_label (PumpSell _) = ''pump_sell''"
| "payload_label (BondingCurveUpdate _) = ''bonding_curve_update''"
| "payload_label (HolderBalanceUpdate _) = ''holder_balance_update''"
| "payload_label (WalletFunding _) = ''wallet_funding''"
| "payload_label (ObservedTransaction _) = ''observed_transaction''"
| "payload_label (TokenTerminal _) = ''token_terminal''"
| "payload_label (TradeDecision _) = ''trade_decision''"
| "payload_label (SimulatedFill _) = ''simulated_fill''"
| "payload_label (LiveFill _) = ''live_fill''"
| "payload_label (DataGapPayload _) = ''data_gap''"
| "payload_label (TentativeSellIntentDetected _) = ''tentative_sell_intent_detected''"
| "payload_label (TentativeMaliciousSellWarning _) = ''tentative_malicious_sell_warning''"
| "payload_label (ShredEmergencyExitArmed _) = ''shred_emergency_exit_armed''"
| "payload_label (ShredEmergencyExitTriggered _) = ''shred_emergency_exit_triggered''"
| "payload_label (ShredSellIntentResolved _) = ''shred_sell_intent_resolved''"

definition bar_sep :: string where "bar_sep = ''|''"

definition clone_with_payload ::
  "('d, 'z) shred_env_scheme \<Rightarrow> 'd normalized_event \<Rightarrow> 'd event_payload \<Rightarrow> 'd normalized_event" where
  "clone_with_payload env event payload =
    (let meta = ne_meta event;
         seed = ''derived-event|'' @ tx_show_uuid env (em_event_id meta) @ bar_sep @ payload_label payload @ bar_sep @
           debug_event_source (em_source meta) @ bar_sep @ show_nat (unat (em_slot meta)) in
     \<lparr>ne_meta = meta\<lparr>em_event_id := tx_id_from_seed env seed\<rparr>, ne_payload = payload\<rparr>)"

definition show_int :: "int \<Rightarrow> string" where
  "show_int i = (if i < 0 then CHR ''-'' # show_nat (nat (- i)) else show_nat (nat i))"

subsection \<open>Metrics\<close>

record 'd shred_exit_metrics =
  sm_tentative_sell_total :: u64
  sm_malicious_sell_warning_total :: u64
  sm_emergency_exits_armed_total :: u64
  sm_emergency_exits_triggered_total :: u64
  sm_emergency_exits_rejected_total :: u64
  sm_confirmed_executed_total :: u64
  sm_confirmed_failed_total :: u64
  sm_not_seen_within_ttl_total :: u64
  sm_reorged_total :: u64
  sm_decode_mismatch_total :: u64
  sm_account_effect_confirmed_total :: u64
  sm_false_positive_exit_total :: u64
  sm_saved_loss_quote_total :: 'd
  sm_opportunity_cost_quote_total :: 'd

definition default_shred_exit_metrics :: "('d::linordered_field) shred_exit_metrics" where
  "default_shred_exit_metrics =
    \<lparr>sm_tentative_sell_total = 0, sm_malicious_sell_warning_total = 0, sm_emergency_exits_armed_total = 0,
     sm_emergency_exits_triggered_total = 0, sm_emergency_exits_rejected_total = 0,
     sm_confirmed_executed_total = 0, sm_confirmed_failed_total = 0, sm_not_seen_within_ttl_total = 0,
     sm_reorged_total = 0, sm_decode_mismatch_total = 0, sm_account_effect_confirmed_total = 0,
     sm_false_positive_exit_total = 0, sm_saved_loss_quote_total = 0, sm_opportunity_cost_quote_total = 0\<rparr>"

record 'd source_metrics =
  sc_tentative_sell_total :: u64
  sc_malicious_sell_warning_total :: u64
  sc_emergency_exits_armed_total :: u64
  sc_emergency_exits_triggered_total :: u64
  sc_confirmed_executed_total :: u64
  sc_confirmed_failed_total :: u64
  sc_not_seen_within_ttl_total :: u64
  sc_reorged_total :: u64
  sc_decode_mismatch_total :: u64
  sc_account_effect_confirmed_total :: u64
  sc_false_positive_exit_total :: u64
  sc_saved_loss_quote_total :: 'd
  sc_opportunity_cost_quote_total :: 'd
  sc_deduplicated_total :: u64

definition default_source_metrics :: "('d::linordered_field) source_metrics" where
  "default_source_metrics =
    \<lparr>sc_tentative_sell_total = 0, sc_malicious_sell_warning_total = 0, sc_emergency_exits_armed_total = 0,
     sc_emergency_exits_triggered_total = 0, sc_confirmed_executed_total = 0, sc_confirmed_failed_total = 0,
     sc_not_seen_within_ttl_total = 0, sc_reorged_total = 0, sc_decode_mismatch_total = 0,
     sc_account_effect_confirmed_total = 0, sc_false_positive_exit_total = 0, sc_saved_loss_quote_total = 0,
     sc_opportunity_cost_quote_total = 0, sc_deduplicated_total = 0\<rparr>"

text \<open>\<open>entry(key).or_default()\<close> followed by an update.\<close>

definition with_source ::
  "string \<Rightarrow> ('d source_metrics \<Rightarrow> 'd source_metrics) \<Rightarrow> (string \<rightharpoonup> ('d::linordered_field) source_metrics) \<Rightarrow>
   (string \<rightharpoonup> 'd source_metrics)" where
  "with_source key f m = m(key \<mapsto> f (unwrap_or default_source_metrics (m key)))"

subsection \<open>Calibration\<close>

record 'd calibration_summary =
  cs_current_paper_exit_impact_pct :: 'd
  cs_current_paper_confidence_threshold :: 'd
  cs_false_positive_rate :: 'd
  cs_missed_sell_rate :: 'd
  cs_true_positive_rate :: 'd
  cs_adaptations :: "string list"
  cs_persisted_path :: "string option"
  cs_persisted_version_hash :: "string option"

record 'd calibration_bucket =
  kb_sample_count :: u64
  kb_confirmed_executed_count :: u64
  kb_confirmed_failed_count :: u64
  kb_account_effect_confirmed_count :: u64
  kb_not_seen_count :: u64
  kb_reorg_count :: u64
  kb_decode_mismatch_count :: u64
  kb_false_positive_count :: u64
  kb_true_positive_count :: u64
  kb_emergency_exit_count :: u64
  kb_false_exit_count :: u64
  kb_missed_exit_count :: u64
  kb_saved_loss_total :: 'd
  kb_saved_loss_mean :: 'd
  kb_opportunity_cost_total :: 'd
  kb_opportunity_cost_mean :: 'd
  kb_false_positive_rate :: 'd
  kb_true_positive_rate :: 'd
  kb_precision :: 'd
  kb_recall :: 'd
  kb_average_early_to_geyser_processed_ms :: 'd
  kb_average_early_to_account_effect_ms :: 'd
  kb_average_exit_latency_ms :: 'd
  kb_threshold_adjustment :: 'd
  kb_last_updated_at :: "instant option"
  kb_schema_version :: u32

definition default_calibration_bucket :: "('d::linordered_field) calibration_bucket" where
  "default_calibration_bucket =
    \<lparr>kb_sample_count = 0, kb_confirmed_executed_count = 0, kb_confirmed_failed_count = 0,
     kb_account_effect_confirmed_count = 0, kb_not_seen_count = 0, kb_reorg_count = 0,
     kb_decode_mismatch_count = 0, kb_false_positive_count = 0, kb_true_positive_count = 0,
     kb_emergency_exit_count = 0, kb_false_exit_count = 0, kb_missed_exit_count = 0, kb_saved_loss_total = 0,
     kb_saved_loss_mean = 0, kb_opportunity_cost_total = 0, kb_opportunity_cost_mean = 0,
     kb_false_positive_rate = 0, kb_true_positive_rate = 0, kb_precision = 0, kb_recall = 0,
     kb_average_early_to_geyser_processed_ms = 0, kb_average_early_to_account_effect_ms = 0,
     kb_average_exit_latency_ms = 0, kb_threshold_adjustment = 0, kb_last_updated_at = None,
     kb_schema_version = 0\<rparr>"

record 'd persisted_calibration =
  pc_schema_version :: u32
  pc_current_paper_exit_impact_pct :: 'd
  pc_current_paper_confidence_threshold :: 'd
  pc_threshold_adjustment :: 'd
  pc_buckets :: "(string \<times> 'd calibration_bucket) list"
  pc_last_updated_at :: "instant option"

record 'd calibration_observation =
  ob_key :: string
  ob_source :: early_intent_source
  ob_seller_classification :: dangerous_seller_classification
  ob_confirmation_method :: "string option"
  ob_confidence_bucket :: string
  ob_impact_bucket :: string
  ob_outcome :: tentative_sell_resolution_outcome
  ob_emergency_exit :: bool
  ob_false_positive :: bool
  ob_saved_loss_quote :: 'd
  ob_opportunity_cost_quote :: 'd
  ob_early_to_geyser_processed_ms :: "i64 option"
  ob_early_to_account_effect_ms :: "i64 option"
  ob_exit_latency_ms :: "i64 option"
  ob_strategy :: "string option"
  ob_latency_advantage_ms :: "i64 option"
  ob_required_latency_advantage_ms :: "i64 option"
  ob_latency_edge_ratio :: 'd
  ob_net_benefit_quote :: 'd
  ob_absorption_health_score :: 'd

subsection \<open>Pending sells and the manager\<close>

record 'd pending_sell_context =
  pd_intent :: "'d tentative_sell_intent_detected_event"
  pd_warning :: "'d tentative_malicious_sell_warning_event"
  pd_armed :: "'d shred_emergency_exit_armed_event option"
  pd_triggered :: "'d shred_emergency_exit_triggered_event option"
  pd_position_size_tokens :: 'd
  pd_position_size_quote :: 'd
  pd_position_strategy :: "string option"
  pd_warning_price :: 'd
  pd_latency_advantage_ms :: i64
  pd_required_latency_advantage_ms :: i64
  pd_latency_edge_ratio :: 'd
  pd_net_benefit_quote :: 'd
  pd_absorption_health_score :: 'd
  pd_expires_at :: instant

record 'd tentative_sell_manager =
  tm_early_intent :: "'d early_intent_config"
  tm_shred_exit :: "'d shred_exit_config"
  tm_pending :: "(string \<times> 'd pending_sell_context) list"
  tm_metrics :: "'d shred_exit_metrics"
  tm_source_metrics :: "string \<rightharpoonup> 'd source_metrics"
  tm_calibration :: "'d calibration_summary"
  tm_loaded_persisted :: "'d persisted_calibration"
  tm_observations :: "'d calibration_observation list"
  tm_dedup_pairs :: "string \<rightharpoonup> u64"

definition persisted_hash :: "'d persisted_calibration \<Rightarrow> string" where
  "persisted_hash p =
    show_nat (unat (pc_schema_version p)) @ '':'' @ show_nat (length (pc_buckets p)) @ '':'' @
    (case pc_last_updated_at p of Some time \<Rightarrow> show_int time | None \<Rightarrow> ''none'')"

text \<open>
  \<open>TentativeSellManager::new\<close>; the path of the calibration file and what reading it gives are arguments.
\<close>

definition new_tentative_sell_manager ::
  "string \<Rightarrow> ('d::linordered_field) persisted_calibration option \<Rightarrow> 'd early_intent_config \<Rightarrow> 'd shred_exit_config \<Rightarrow>
   'd tentative_sell_manager" where
  "new_tentative_sell_manager path loaded early_intent shred_exit =
    (let impact = sx_paper_exit_impact_pct shred_exit;
         threshold = sx_min_decode_confidence_paper_exit shred_exit;
         fresh = \<lparr>pc_schema_version = schema_version, pc_current_paper_exit_impact_pct = impact,
           pc_current_paper_confidence_threshold = threshold, pc_threshold_adjustment = 0, pc_buckets = [],
           pc_last_updated_at = None\<rparr> in
     \<lparr>tm_early_intent = early_intent, tm_shred_exit = shred_exit, tm_pending = [],
      tm_metrics = default_shred_exit_metrics, tm_source_metrics = Map.empty,
      tm_calibration =
        \<lparr>cs_current_paper_exit_impact_pct = (case loaded of
           Some p \<Rightarrow> if pc_current_paper_exit_impact_pct p > 0 then pc_current_paper_exit_impact_pct p else impact
         | None \<Rightarrow> impact),
         cs_current_paper_confidence_threshold = (case loaded of
           Some p \<Rightarrow> if pc_current_paper_confidence_threshold p > 0 then pc_current_paper_confidence_threshold p
             else threshold
         | None \<Rightarrow> threshold),
         cs_false_positive_rate = 0, cs_missed_sell_rate = 0, cs_true_positive_rate = 0, cs_adaptations = [],
         cs_persisted_path = Some path, cs_persisted_version_hash = map_option persisted_hash loaded\<rparr>,
      tm_loaded_persisted = (case loaded of Some p \<Rightarrow> p | None \<Rightarrow> fresh), tm_observations = [],
      tm_dedup_pairs = Map.empty\<rparr>)"

end
