(* ===== verification/Shred_Exit.thy ===== *)
theory Shred_Exit
  imports Shred_Exit_Records
begin

text \<open>
  The tentative sell manager of \<open>crates/runtime/src/shred_exit.rs\<close>: how a sell seen before its confirmation is
  rated, when it arms or triggers an emergency exit, how a later event or the clock resolves it, and how the outcomes
  move the exit threshold. Each \<open>let\<close> of \<open>detect_tentative_sell\<close> that another step reads is a definition.
\<close>

subsection \<open>Rating a sell\<close>

definition infer_early_intent_source :: "'d event_meta \<Rightarrow> early_intent_source" where
  "infer_early_intent_source meta =
    (case em_source meta of
       Replay \<Rightarrow> ReplayTentative
     | DeshredTentative \<Rightarrow> DeshredPreExecution
     | ShredTentative \<Rightarrow>
         (let source_id = (case em_raw_reference meta of Some r \<Rightarrow> rr_source_id r | None \<Rightarrow> []) in
          if starts_with source_id ''mock'' then MockEarlyIntent
          else if starts_with source_id ''fixture'' then FixtureTentative
          else RawShred)
     | _ \<Rightarrow> FixtureTentative)"

definition find_threat_entry :: "'d token_state \<Rightarrow> string \<Rightarrow> 'd threat_wallet_entry option" where
  "find_threat_entry token seller =
    find (\<lambda>entry. th_wallet entry = seller) (xt_dangerous_wallets (sd_exit_threat_index (tok_shred_defense token)))"

definition top_holder_rank :: "'d token_state \<Rightarrow> string \<Rightarrow> usize option" where
  "top_holder_rank token seller =
    (case dropWhile (\<lambda>(_, h). hd_owner h \<noteq> seller) (enumerate 1 (hs_top_holders (tok_holder_state token))) of
       [] \<Rightarrow> None | (rank, _) # _ \<Rightarrow> Some (of_nat rank))"

definition classify_without_index :: "'d token_state \<Rightarrow> 'd pump_sell_event \<Rightarrow> dangerous_seller_classification" where
  "classify_without_index token payload =
    (if tok_creator token = Some (ps_seller payload) \<or> ps_is_creator payload then Dev
     else if ps_is_top_holder_pre_sell payload then Top3Holder
     else dangerous_seller_classification.Unknown)"

definition seller_class :: "'d token_state \<Rightarrow> 'd pump_sell_event \<Rightarrow> dangerous_seller_classification" where
  "seller_class token payload =
    (case find_threat_entry token (ps_seller payload) of
       Some entry \<Rightarrow> th_classification entry | None \<Rightarrow> classify_without_index token payload)"

definition is_catastrophic_classification :: "dangerous_seller_classification \<Rightarrow> bool" where
  "is_catastrophic_classification c \<longleftrightarrow>
     c \<in> {Dev, DevCluster, Top1Holder, Top3Holder, BundleWallet, BundleCluster, SameFunderCluster}"

definition apply_partial_penalty :: "('d::linordered_field) event_meta \<Rightarrow> 'd" where
  "apply_partial_penalty meta =
    (if PartialShred \<in> set (em_data_quality_flags meta)
     then max (em_decode_confidence meta - decimal 25 2) 0 else em_decode_confidence meta)"

definition account_confidence_for_sell :: "('d::linordered_field) token_state \<Rightarrow> 'd pump_sell_event \<Rightarrow> 'd" where
  "account_confidence_for_sell token payload =
    (if ps_is_creator payload \<or> tok_creator token = Some (ps_seller payload) then decimal 92 2
     else if ps_is_top_holder_pre_sell payload \<or> top_holder_rank token (ps_seller payload) \<noteq> None then decimal 85 2
     else case find_threat_entry token (ps_seller payload) of
       Some entry \<Rightarrow> if th_balance entry > 0 then decimal 85 2 else decimal 60 2
     | None \<Rightarrow> if ps_token_in payload > 0 \<and> ps_quote_out payload > 0 then decimal 60 2 else decimal 55 2)"

definition price_impact_pct :: "'d::linordered_field \<Rightarrow> 'd \<Rightarrow> 'd" where
  "price_impact_pct before after = (if before \<le> 0 then 0 else \<bar>(before - after) / before\<bar> * decimal_from 100)"

definition fallback_impact_pct :: "('d::linordered_field) token_state \<Rightarrow> 'd pump_sell_event \<Rightarrow> 'd" where
  "fallback_impact_pct token payload =
    (let depth = max (reserve_depth token) (decimal_from 1);
         quote = max (ps_quote_out payload) (ps_token_in payload * tok_latest_price token) in
     max (min (quote / depth) 1 * decimal_from 100) 0)"

definition decoded_impact_pct :: "('d::linordered_field) pump_sell_event \<Rightarrow> 'd" where
  "decoded_impact_pct payload =
    (case (ps_price_before payload, ps_price_after payload) of
       (Some before, Some after) \<Rightarrow> price_impact_pct before after | _ \<Rightarrow> 0)"

definition seller_balance :: "('d::linordered_field) token_state \<Rightarrow> 'd pump_sell_event \<Rightarrow> 'd" where
  "seller_balance token payload =
    (case find_threat_entry token (ps_seller payload) of
       Some entry \<Rightarrow> th_balance entry | None \<Rightarrow> ps_token_in payload)"

definition estimated_impact_pct :: "('d::linordered_field) token_state \<Rightarrow> 'd pump_sell_event \<Rightarrow> 'd" where
  "estimated_impact_pct token payload =
    (case find_threat_entry token (ps_seller payload) of
       Some entry \<Rightarrow>
         (if seller_balance token payload > 0
          then max (th_estimated_full_exit_impact_pct entry * min (ps_token_in payload / seller_balance token payload) 1)
            (decoded_impact_pct payload)
          else max (th_estimated_full_exit_impact_pct entry) (decoded_impact_pct payload))
     | None \<Rightarrow> max (fallback_impact_pct token payload) (decoded_impact_pct payload))"

definition same_slot_existing ::
  "'d tentative_sell_manager \<Rightarrow> pubkey \<Rightarrow> u64 \<Rightarrow> 'd pending_sell_context list" where
  "same_slot_existing mgr mint slot =
    filter (\<lambda>p. si_mint (pd_intent p) = mint \<and> si_slot (pd_intent p) = Some slot) (map snd (tm_pending mgr))"

definition effective_impact_pct ::
  "('d::linordered_field) tentative_sell_manager \<Rightarrow> 'd token_state \<Rightarrow> u64 \<Rightarrow> 'd pump_sell_event \<Rightarrow> 'd" where
  "effective_impact_pct mgr token slot payload =
    min (estimated_impact_pct token payload +
      sum_list (map (\<lambda>p. si_estimated_price_impact_pct (pd_intent p)) (same_slot_existing mgr (ps_mint payload) slot)))
      (decimal_from 100)"

definition cluster_impact_pct :: "('d::linordered_field) token_state \<Rightarrow> 'd pump_sell_event \<Rightarrow> 'd" where
  "cluster_impact_pct token payload =
    (case find_threat_entry token (ps_seller payload) of
       Some entry \<Rightarrow> th_cluster_holding_pct entry * decimal_from 100 | None \<Rightarrow> 0)"

definition latency_advantage_ms :: "'d event_meta \<Rightarrow> u64" where
  "latency_advantage_ms meta = unwrap_or 0 (em_source_latency_ms meta)"

definition required_latency_ms :: "'d token_state \<Rightarrow> u64" where
  "required_latency_ms token =
    max (xt_required_early_intent_lead_time_ms (sd_exit_threat_index (tok_shred_defense token))) 1"

definition latency_edge :: "('d::linordered_field) event_meta \<Rightarrow> 'd token_state \<Rightarrow> 'd" where
  "latency_edge meta token = decimal_from (latency_advantage_ms meta) / decimal_from (required_latency_ms token)"

subsection \<open>What an emergency exit would save\<close>

definition absorption_of :: "('d::linordered_field) feature_snapshot \<Rightarrow> 'd" where
  "absorption_of f = feature_or_zero f ''absorption_success_score''"

definition post_sell_absorption :: "('d::linordered_field) feature_snapshot \<Rightarrow> 'd" where
  "post_sell_absorption f =
    clamp01 (absorption_of f + feature_or_zero f ''holder_stickiness_score'' / decimal_from 3 +
      feature_or_zero f ''holder_growth_rate'' / decimal_from 4)"

definition position_quote :: "('d::linordered_field) open_position_context option \<Rightarrow> 'd" where
  "position_quote position = (case position of Some pos \<Rightarrow> op_size_quote pos | None \<Rightarrow> 0)"

definition saved_loss_estimate ::
  "('d::linordered_field) shred_exit_config \<Rightarrow> bool \<Rightarrow> 'd \<Rightarrow> 'd \<Rightarrow> 'd \<Rightarrow> 'd \<Rightarrow> 'd" where
  "saved_loss_estimate cfg catastrophic position_size impact edge absorption =
    (let severity_multiplier = max (min (impact / decimal_from 100) 1) 0;
         preservation =
           (if \<not> catastrophic \<and> sx_absorption_downgrade_enabled cfg
            then min (max (1 - absorption) (decimal 10 2)) 1 else 1) in
     if position_size > 0
     then position_size * (impact / decimal_from 100) * max (min edge 1) 0 * severity_multiplier * preservation
     else 0)"

definition absorption_downgrade :: "('d::linordered_field) shred_exit_config \<Rightarrow> bool \<Rightarrow> 'd \<Rightarrow> bool" where
  "absorption_downgrade cfg catastrophic absorption \<longleftrightarrow> \<not> catastrophic \<and> sx_absorption_downgrade_enabled cfg \<and>
     absorption \<ge> sx_absorption_downgrade_threshold cfg"

definition opportunity_cost_estimate ::
  "('d::linordered_field) tentative_sell_manager \<Rightarrow> bool \<Rightarrow> 'd \<Rightarrow> 'd \<Rightarrow> 'd" where
  "opportunity_cost_estimate mgr catastrophic position_size absorption =
    (let penalty = (if absorption_downgrade (tm_shred_exit mgr) catastrophic absorption
           then position_size * absorption * decimal 20 2 else 0) in
     if position_size > 0
     then position_size * (cs_current_paper_exit_impact_pct (tm_calibration mgr) / decimal_from 100) + penalty
     else 0)"

definition class_threshold ::
  "('d::linordered_field) shred_exit_config \<Rightarrow> dangerous_seller_classification \<Rightarrow> 'd" where
  "class_threshold cfg c =
    (case c of
       Dev \<Rightarrow> sx_dev_sell_exit_threshold_pct cfg
     | DevCluster \<Rightarrow> sx_dev_sell_exit_threshold_pct cfg
     | Top1Holder \<Rightarrow> sx_top_holder_exit_threshold_pct cfg
     | Top3Holder \<Rightarrow> sx_top_holder_exit_threshold_pct cfg
     | Top5Holder \<Rightarrow> sx_top_holder_exit_threshold_pct cfg
     | Top10Holder \<Rightarrow> sx_top_holder_exit_threshold_pct cfg
     | BundleWallet \<Rightarrow> sx_bundle_cluster_exit_threshold_pct cfg
     | BundleCluster \<Rightarrow> sx_bundle_cluster_exit_threshold_pct cfg
     | Whale \<Rightarrow> sx_arm_impact_pct cfg
     | _ \<Rightarrow> sx_warn_impact_pct cfg)"

definition determine_warning_level ::
  "dangerous_seller_classification \<Rightarrow> 'd \<Rightarrow> 'd \<Rightarrow> 'd \<Rightarrow> ('d::linordered_field) shred_exit_config \<Rightarrow>
   tentative_sell_risk_level" where
  "determine_warning_level c impact confidence calibrated cfg =
    (let threshold = class_threshold cfg c in
     if confidence < sx_min_decode_confidence_warn cfg then Info
     else if confidence \<ge> sx_min_decode_confidence_paper_exit cfg \<and> impact \<ge> max calibrated threshold
     then EmergencyExitRequired
     else if confidence \<ge> sx_min_decode_confidence_arm cfg \<and> impact \<ge> max (sx_arm_impact_pct cfg) threshold
     then ExitArmed
     else if impact \<ge> min (sx_warn_impact_pct cfg) threshold then Watch
     else Info)"

definition is_emergency_level :: "tentative_sell_risk_level \<Rightarrow> bool" where
  "is_emergency_level l \<longleftrightarrow> l = EmergencyExitRecommended \<or> l = EmergencyExitRequired"

definition is_arming_level :: "tentative_sell_risk_level \<Rightarrow> bool" where
  "is_arming_level l \<longleftrightarrow> l = ExitArmed \<or> is_emergency_level l"

definition warning_reason_codes ::
  "dangerous_seller_classification \<Rightarrow> tentative_sell_risk_level \<Rightarrow> early_intent_source \<Rightarrow> 'd::linordered_field \<Rightarrow>
   reason_code list" where
  "warning_reason_codes c level source confidence =
    [if source = DeshredPreExecution then DeshredPreExecutionSellWarning else EarlyIntentSellWarning] @
    (if c \<in> {Dev, DevCluster} then [ShredDevSellWarning]
     else if c \<in> {Top1Holder, Top3Holder, Top5Holder, Top10Holder} then [ShredTopHolderSellWarning]
     else if c \<in> {BundleWallet, BundleCluster} then [ShredBundleExitWarning]
     else if c = Whale then [ShredWhaleDumpWarning]
     else []) @
    (if is_arming_level level then [ShredExitArmed] else []) @
    (if confidence < decimal 55 2 then [ShredLowConfidence] else [])"

subsection \<open>The rating of a sell\<close>

text \<open>The local variables of \<open>detect_tentative_sell\<close> that its events and its counters read.\<close>

record 'd sell_rating =
  sg_source :: early_intent_source
  sg_class :: dangerous_seller_classification
  sg_decode_confidence :: 'd
  sg_account_confidence :: 'd
  sg_impact :: 'd
  sg_edge :: 'd
  sg_edge_sufficient :: bool
  sg_saved_loss :: 'd
  sg_opportunity_cost :: 'd
  sg_net_positive :: bool
  sg_net_confidence :: 'd
  sg_level :: tentative_sell_risk_level
  sg_reasons :: "reason_code list"

definition rated_confidence :: "('d::linordered_field) sell_rating \<Rightarrow> 'd" where
  "rated_confidence r = min (sg_decode_confidence r) (sg_account_confidence r)"

definition rate_sell ::
  "('d::linordered_field) tentative_sell_manager \<Rightarrow> 'd event_meta \<Rightarrow> 'd token_state \<Rightarrow> 'd feature_snapshot \<Rightarrow>
   'd pump_sell_event \<Rightarrow> 'd open_position_context option \<Rightarrow> 'd sell_rating" where
  "rate_sell mgr meta token f payload position =
    (let cfg = tm_shred_exit mgr;
         source = infer_early_intent_source meta;
         c = seller_class token payload;
         decode = apply_partial_penalty meta;
         account = account_confidence_for_sell token payload;
         impact = effective_impact_pct mgr token (em_slot meta) payload;
         catastrophic = is_catastrophic_classification c;
         edge = latency_edge meta token;
         sufficient = edge \<ge> sx_min_latency_edge_ratio cfg;
         absorption = absorption_of f;
         saved = saved_loss_estimate cfg catastrophic (position_quote position) impact edge absorption;
         opportunity = opportunity_cost_estimate mgr catastrophic (position_quote position) absorption;
         net_positive = saved \<ge> sx_min_expected_saved_loss_quote cfg \<and>
           saved - opportunity \<ge> sx_min_emergency_exit_net_benefit_quote cfg;
         level = determine_warning_level c impact (min decode account)
           (cs_current_paper_exit_impact_pct (tm_calibration mgr)) cfg;
         downgraded = is_emergency_level level \<and>
           (absorption_downgrade cfg catastrophic absorption \<or> (\<not> catastrophic \<and> \<not> sufficient) \<or>
            (position \<noteq> None \<and> \<not> net_positive));
         level' = (if downgraded then (if sx_allow_arm_when_net_benefit_negative cfg then ExitArmed else Watch)
           else level);
         reasons = warning_reason_codes c level' source decode @
           (if sx_same_slot_multi_sell_escalation cfg \<and>
               same_slot_existing mgr (ps_mint payload) (em_slot meta) \<noteq> []
            then [ShredSameSlotSellCluster] else []) @
           (if sufficient then [] else [ShredSignalStale]) in
     \<lparr>sg_source = source, sg_class = c, sg_decode_confidence = decode, sg_account_confidence = account,
      sg_impact = impact, sg_edge = edge, sg_edge_sufficient = sufficient, sg_saved_loss = saved,
      sg_opportunity_cost = opportunity, sg_net_positive = net_positive,
      sg_net_confidence = clamp01 (min decode account * max (min edge 1) 0 *
        (1 - post_sell_absorption f / decimal_from 2)),
      sg_level = level', sg_reasons = reasons\<rparr>)"

definition trigger_id ::
  "('d, 'z) shred_env_scheme \<Rightarrow> 'd event_meta \<Rightarrow> 'd pump_sell_event \<Rightarrow> event_id" where
  "trigger_id env meta payload = tx_id_from_seed env
    (''tentative-trigger|'' @ tx_show_uuid env (em_event_id meta) @ bar_sep @ ps_mint payload @ bar_sep @
     ps_seller payload @ bar_sep @ show_nat (unat (em_slot meta)) @ bar_sep @
     show_nat (unat (unwrap_or 0 (em_transaction_index meta))))"

definition clamp_i64 :: "u64 \<Rightarrow> i64" where
  "clamp_i64 x = min x 9223372036854775807"

subsection \<open>The events of a sell\<close>

definition seller_cost :: "('d::linordered_field) token_state \<Rightarrow> 'd pump_sell_event \<Rightarrow> 'd cost_basis_position option" where
  "seller_cost token payload =
    map_option ho_cost_basis (map_of (hs_owner_balances (tok_holder_state token)) (ps_seller payload))"

definition sell_intent ::
  "('d, 'z) shred_env_scheme \<Rightarrow> ('d::linordered_field) normalized_event \<Rightarrow> 'd token_state \<Rightarrow> 'd pump_sell_event \<Rightarrow>
   'd sell_rating \<Rightarrow> 'd tentative_sell_intent_detected_event" where
  "sell_intent env event token payload r =
    (let meta = ne_meta event; entry = find_threat_entry token (ps_seller payload); signature = event_signature event in
     \<lparr>si_event_id = trigger_id env meta payload, si_source = sg_source r, si_canonicality = Tentative,
      si_slot = Some (em_slot meta), si_entry_index = em_transaction_index meta,
      si_shred_index = Option.bind (em_raw_reference meta) (\<lambda>reference. map_option ucast (rr_offset reference)),
      si_tx_position_estimate = em_transaction_index meta,
      si_observed_at_monotonic_ns = em_observed_at_monotonic_ns meta,
      si_received_at_wall_time = em_received_at_wall_time meta, si_signature = signature,
      si_mint = ps_mint payload, si_seller_wallet = ps_seller payload, si_payer_wallet = None,
      si_token_in_estimate = ps_token_in payload, si_quote_out_estimate = ps_quote_out payload,
      si_min_quote_output = ps_min_quote_output payload, si_sell_instruction_variant = ''sell'',
      si_decoded_instruction_confidence = sg_decode_confidence r,
      si_account_decode_confidence = sg_account_confidence r,
      si_wallet_classification_snapshot = to_lowercase (debug_classification (sg_class r)),
      si_seller_balance_before_estimate = seller_balance token payload,
      si_seller_holding_pct_estimate = (case entry of Some e \<Rightarrow> th_holding_pct e | None \<Rightarrow> 0),
      si_seller_cost_basis_estimate = (case seller_cost token payload of
         Some c \<Rightarrow> cb_estimated_cost_basis_quote c | None \<Rightarrow> 0),
      si_seller_unrealized_pnl_estimate = (case seller_cost token payload of
         Some c \<Rightarrow> cb_estimated_unrealized_pnl c | None \<Rightarrow> 0),
      si_estimated_price_before = unwrap_or (tok_latest_price token) (ps_price_before payload),
      si_estimated_price_after = (case ps_price_after payload of
         Some price \<Rightarrow> price
       | None \<Rightarrow> tok_latest_price token * max (1 - sg_impact r / decimal_from 100) 0),
      si_estimated_price_impact_pct = sg_impact r, si_estimated_curve_impact = sg_impact r / decimal_from 100,
      si_estimated_top_holder_rank = top_holder_rank token (ps_seller payload),
      si_estimated_cluster_id = Option.bind entry th_cluster_id,
      si_estimated_cluster_holding_pct = cluster_impact_pct token payload / decimal_from 100,
      si_reason_codes = sg_reasons r, si_raw_packet_hash = map_option rr_source_id (em_raw_reference meta),
      si_raw_entry_hash = Option.bind (em_raw_reference meta) rr_cursor,
      si_raw_update_hash = map_option (\<lambda>s. ''tentative:'' @ s) signature,
      si_matched_canonical_signature = None, si_confirmation_state = PendingTentative,
      si_schema_version = schema_version\<rparr>)"

definition sell_warning ::
  "('d, 'z) shred_env_scheme \<Rightarrow> ('d::linordered_field) event_meta \<Rightarrow> 'd token_state \<Rightarrow> 'd feature_snapshot \<Rightarrow>
   'd risk_assessment \<Rightarrow> 'd pump_sell_event \<Rightarrow> 'd sell_rating \<Rightarrow> 'd tentative_malicious_sell_warning_event" where
  "sell_warning env meta token f risk payload r =
    \<lparr>sw_mint = ps_mint payload, sw_seller_wallet = ps_seller payload, sw_seller_classification = sg_class r,
     sw_estimated_sell_impact_pct = sg_impact r,
     sw_estimated_cluster_sell_impact_pct = cluster_impact_pct token payload, sw_risk_level = sg_level r,
     sw_confidence = rated_confidence r, sw_reason_codes = sg_reasons r,
     sw_source_latency_advantage_ms = Some (clamp_i64 (latency_advantage_ms meta)),
     sw_required_latency_advantage_ms = Some (clamp_i64 (required_latency_ms token)),
     sw_latency_edge_ratio = sg_edge r, sw_exit_can_land_before_estimated_impact = sg_edge_sufficient r,
     sw_absorption_health_score = absorption_of f, sw_post_sell_absorption_probability = post_sell_absorption f,
     sw_emergency_exit_expected_saved_loss = sg_saved_loss r,
     sw_emergency_exit_expected_opportunity_cost = sg_opportunity_cost r,
     sw_emergency_exit_net_benefit = sg_saved_loss r - sg_opportunity_cost r,
     sw_emergency_exit_net_benefit_confidence = sg_net_confidence r, sw_canonicality = Tentative,
     sw_feature_snapshot_hash = fs_vector_hash f,
     sw_risk_snapshot_hash = ''risk:'' @ ra_mint risk @ '':'' @ show_int (ra_observed_at risk),
     sw_trigger_event_id = trigger_id env meta payload, sw_schema_version = schema_version\<rparr>"

definition pending_deadline :: "'d tentative_sell_manager \<Rightarrow> instant \<Rightarrow> instant" where
  "pending_deadline mgr wall_time =
    wall_time + milliseconds (sint (sx_tentative_reconciliation_ttl_ms (tm_shred_exit mgr)))"

definition armed_exit ::
  "('d, 'z) shred_env_scheme \<Rightarrow> ('d::linordered_field) tentative_sell_manager \<Rightarrow> 'd event_meta \<Rightarrow>
   'd pump_sell_event \<Rightarrow> 'd sell_rating \<Rightarrow> 'd open_position_context option \<Rightarrow>
   'd shred_emergency_exit_armed_event option" where
  "armed_exit env mgr meta payload r position =
    (case position of
       Some pos \<Rightarrow>
         (if is_arming_level (sg_level r) then Some
            \<lparr>ea_mint = ps_mint payload, ea_position_id = ps_mint payload,
             ea_trigger_event_id = trigger_id env meta payload, ea_seller_wallet = ps_seller payload,
             ea_seller_classification = sg_class r, ea_risk_level = sg_level r,
             ea_estimated_impact_pct = sg_impact r, ea_confidence = rated_confidence r,
             ea_planned_exit_size = op_size_tokens pos, ea_planned_exit_reason = ''tentative_sell_risk'',
             ea_source = sg_source r, ea_expires_at = pending_deadline mgr (em_received_at_wall_time meta),
             ea_cancel_conditions = [''tentative_resolved_false_positive''],
             ea_escalation_conditions = [''canonical_confirmation''], ea_schema_version = schema_version\<rparr>
          else None)
     | None \<Rightarrow> None)"

definition triggers_exit ::
  "('d::linordered_field) tentative_sell_manager \<Rightarrow> 'd sell_rating \<Rightarrow> bool" where
  "triggers_exit mgr r \<longleftrightarrow>
     sx_paper_enabled (tm_shred_exit mgr) \<and> sx_allow_paper_exit_on_tentative (tm_shred_exit mgr) \<and>
     rated_confidence r \<ge> cs_current_paper_confidence_threshold (tm_calibration mgr) \<and>
     sg_impact r \<ge> cs_current_paper_exit_impact_pct (tm_calibration mgr) \<and>
     (sg_net_positive r \<or> sx_allow_emergency_when_net_benefit_negative (tm_shred_exit mgr)) \<and>
     is_emergency_level (sg_level r)"

definition triggered_exit ::
  "('d, 'z) shred_env_scheme \<Rightarrow> ('d::linordered_field) tentative_sell_manager \<Rightarrow> 'd event_meta \<Rightarrow> 'd token_state \<Rightarrow>
   'd pump_sell_event \<Rightarrow> 'd sell_rating \<Rightarrow> 'd open_position_context option \<Rightarrow>
   'd shred_emergency_exit_triggered_event option" where
  "triggered_exit env mgr meta token payload r position =
    (case position of
       Some pos \<Rightarrow>
         (if triggers_exit mgr r then
            let price = unwrap_or (tok_latest_price token) (ps_price_before payload) in Some
            \<lparr>et_mint = ps_mint payload, et_position_id = ps_mint payload,
             et_trigger_event_id = trigger_id env meta payload,
             et_decision_id = tx_show_uuid env (trigger_id env meta payload),
             et_seller_wallet = ps_seller payload, et_seller_classification = sg_class r, et_side = Sell,
             et_exit_size = op_size_tokens pos, et_reason_codes = sg_reasons r, et_source = sg_source r,
             et_confidence = rated_confidence r, et_live_allowed = False, et_paper_allowed = True,
             et_expected_exit_price = price,
             et_expected_fee_adjusted_exit_value = op_size_tokens pos * price,
             et_estimated_saved_loss_vs_waiting_for_geyser = sg_saved_loss r, et_schema_version = schema_version\<rparr>
          else None)
     | None \<Rightarrow> None)"

subsection \<open>Duplicate sources\<close>

definition u64_abs_diff :: "u64 \<Rightarrow> u64 \<Rightarrow> u64" where
  "u64_abs_diff a b = (if a \<ge> b then a - b else b - a)"

definition pending_matches_duplicate_source ::
  "'d pending_sell_context \<Rightarrow> ('d::linordered_field) tentative_sell_intent_detected_event \<Rightarrow> 'd \<Rightarrow> u64 \<Rightarrow> bool" where
  "pending_matches_duplicate_source pending intent amount_tolerance_pct slot_tolerance =
    (let other = pd_intent pending in
     if si_mint other \<noteq> si_mint intent then False
     else case (si_signature other, si_signature intent) of
       (Some left, Some right) \<Rightarrow> left = right
     | _ \<Rightarrow>
       (if si_raw_update_hash other \<noteq> None \<and> si_raw_update_hash other = si_raw_update_hash intent then True
        else if si_seller_wallet other \<noteq> si_seller_wallet intent then False
        else if u64_abs_diff (unwrap_or 0 (si_slot other)) (unwrap_or 0 (si_slot intent)) > slot_tolerance then False
        else
          (let delta = \<bar>si_token_in_estimate other - si_token_in_estimate intent\<bar>;
               baseline = max (max (si_token_in_estimate other) (si_token_in_estimate intent)) 1 in
           delta \<le> baseline * (amount_tolerance_pct / decimal_from 100))))"

definition duplicate_primary_source ::
  "('d::linordered_field) tentative_sell_manager \<Rightarrow> 'd tentative_sell_intent_detected_event \<Rightarrow>
   early_intent_source option" where
  "duplicate_primary_source mgr intent =
    (if ei_deduplicate_sources (tm_early_intent mgr)
     then map_option (\<lambda>p. si_source (pd_intent p))
       (find (\<lambda>p. pending_matches_duplicate_source p intent
          (ei_dedup_amount_tolerance_pct (tm_early_intent mgr)) (ei_dedup_slot_tolerance (tm_early_intent mgr)))
         (map snd (tm_pending mgr)))
     else None)"

subsection \<open>Detection\<close>

definition count_duplicate ::
  "early_intent_source \<Rightarrow> early_intent_source \<Rightarrow> ('d::linordered_field) tentative_sell_manager \<Rightarrow>
   'd tentative_sell_manager" where
  "count_duplicate primary source mgr =
    (let pair = source_label primary @ bar_sep @ source_label source in
     mgr\<lparr>tm_source_metrics := with_source (source_label source)
           (\<lambda>m. m\<lparr>sc_deduplicated_total := sat_add (sc_deduplicated_total m) 1\<rparr>) (tm_source_metrics mgr),
         tm_dedup_pairs := (tm_dedup_pairs mgr)(pair \<mapsto> unwrap_or 0 (tm_dedup_pairs mgr pair) + 1)\<rparr>)"

definition count_tentative_source ::
  "early_intent_source \<Rightarrow> ('d::linordered_field) tentative_sell_manager \<Rightarrow> 'd tentative_sell_manager" where
  "count_tentative_source source mgr = mgr\<lparr>tm_source_metrics := with_source (source_label source)
     (\<lambda>m. m\<lparr>sc_tentative_sell_total := sat_add (sc_tentative_sell_total m) 1\<rparr>) (tm_source_metrics mgr)\<rparr>"

definition count_if :: "bool \<Rightarrow> u64 \<Rightarrow> u64" where
  "count_if b n = (if b then sat_add n 1 else n)"

definition count_warning ::
  "early_intent_source \<Rightarrow> bool \<Rightarrow> bool \<Rightarrow> ('d::linordered_field) tentative_sell_manager \<Rightarrow> 'd tentative_sell_manager" where
  "count_warning source armed triggered mgr =
    mgr\<lparr>tm_metrics := (tm_metrics mgr)
          \<lparr>sm_tentative_sell_total := sat_add (sm_tentative_sell_total (tm_metrics mgr)) 1,
           sm_malicious_sell_warning_total := sat_add (sm_malicious_sell_warning_total (tm_metrics mgr)) 1,
           sm_emergency_exits_armed_total := count_if armed (sm_emergency_exits_armed_total (tm_metrics mgr)),
           sm_emergency_exits_triggered_total :=
             count_if triggered (sm_emergency_exits_triggered_total (tm_metrics mgr))\<rparr>,
        tm_source_metrics := with_source (source_label source)
          (\<lambda>m. m\<lparr>sc_malicious_sell_warning_total := sat_add (sc_malicious_sell_warning_total m) 1,
                 sc_emergency_exits_armed_total := count_if armed (sc_emergency_exits_armed_total m),
                 sc_emergency_exits_triggered_total := count_if triggered (sc_emergency_exits_triggered_total m)\<rparr>)
          (tm_source_metrics mgr)\<rparr>"

definition pending_context ::
  "('d::linordered_field) tentative_sell_manager \<Rightarrow> 'd event_meta \<Rightarrow> 'd token_state \<Rightarrow> 'd feature_snapshot \<Rightarrow>
   'd pump_sell_event \<Rightarrow> 'd sell_rating \<Rightarrow> 'd open_position_context option \<Rightarrow>
   'd tentative_sell_intent_detected_event \<Rightarrow> 'd tentative_malicious_sell_warning_event \<Rightarrow>
   'd shred_emergency_exit_armed_event option \<Rightarrow> 'd shred_emergency_exit_triggered_event option \<Rightarrow>
   'd pending_sell_context" where
  "pending_context mgr meta token f payload r position intent warning armed triggered =
    \<lparr>pd_intent = intent, pd_warning = warning, pd_armed = armed, pd_triggered = triggered,
     pd_position_size_tokens = (case position of Some pos \<Rightarrow> op_size_tokens pos | None \<Rightarrow> 0),
     pd_position_size_quote = position_quote position,
     pd_position_strategy = map_option (\<lambda>pos. to_lowercase (debug_strategy (op_strategy pos))) position,
     pd_warning_price = unwrap_or (tok_latest_price token) (ps_price_before payload),
     pd_latency_advantage_ms = clamp_i64 (latency_advantage_ms meta),
     pd_required_latency_advantage_ms = clamp_i64 (required_latency_ms token), pd_latency_edge_ratio = sg_edge r,
     pd_net_benefit_quote = sg_saved_loss r - sg_opportunity_cost r, pd_absorption_health_score = absorption_of f,
     pd_expires_at = pending_deadline mgr (em_received_at_wall_time meta)\<rparr>"

definition detect_sell ::
  "('d, 'z) shred_env_scheme \<Rightarrow> ('d::linordered_field) normalized_event \<Rightarrow> 'd token_state \<Rightarrow> 'd feature_snapshot \<Rightarrow>
   'd risk_assessment \<Rightarrow> 'd open_position_context option \<Rightarrow> 'd pump_sell_event \<Rightarrow> 'd tentative_sell_manager \<Rightarrow>
   'd tentative_sell_manager \<times> 'd normalized_event list" where
  "detect_sell env event token f risk position payload mgr =
    (let meta = ne_meta event;
         r = rate_sell mgr meta token f payload position;
         intent = sell_intent env event token payload r;
         warning = sell_warning env meta token f risk payload r;
         mgr = count_tentative_source (sg_source r) mgr in
     case duplicate_primary_source mgr intent of
       Some primary \<Rightarrow>
         (count_duplicate primary (sg_source r) mgr,
          [clone_with_payload env event (TentativeSellIntentDetected intent)])
     | None \<Rightarrow>
         (let armed = armed_exit env mgr meta payload r position;
              triggered = triggered_exit env mgr meta token payload r position;
              mgr = count_warning (sg_source r) (armed \<noteq> None) (triggered \<noteq> None) mgr in
          (mgr\<lparr>tm_pending := AList.update (tx_show_uuid env (si_event_id intent))
             (pending_context mgr meta token f payload r position intent warning armed triggered) (tm_pending mgr)\<rparr>,
           [clone_with_payload env event (TentativeSellIntentDetected intent),
            clone_with_payload env event (TentativeMaliciousSellWarning warning)] @
           (case armed of Some a \<Rightarrow> [clone_with_payload env event (ShredEmergencyExitArmed a)] | None \<Rightarrow> []) @
           (case triggered of Some t \<Rightarrow> [clone_with_payload env event (ShredEmergencyExitTriggered t)] | None \<Rightarrow> []))))"

definition detect_tentative_sell ::
  "('d, 'z) shred_env_scheme \<Rightarrow> ('d::linordered_field) normalized_event \<Rightarrow> 'd token_state \<Rightarrow> 'd feature_snapshot \<Rightarrow>
   'd risk_assessment \<Rightarrow> 'd open_position_context option \<Rightarrow> 'd tentative_sell_manager \<Rightarrow>
   'd tentative_sell_manager \<times> 'd normalized_event list" where
  "detect_tentative_sell env event token f risk position mgr =
    (case ne_payload event of
       PumpSell payload \<Rightarrow>
         (if em_canonicality (ne_meta event) \<noteq> Tentative \<or> \<not> ei_enabled (tm_early_intent mgr) then (mgr, [])
          else detect_sell env event token f risk position payload mgr)
     | _ \<Rightarrow> (mgr, []))"

subsection \<open>Resolution\<close>

definition latency_ms :: "instant \<Rightarrow> instant \<Rightarrow> i64" where
  "latency_ms now seen = word_of_int (whole_milliseconds (now - seen))"

text \<open>The fields every resolution shares; the amounts, the flags and the method are set by each case.\<close>

definition resolution ::
  "'d pending_sell_context \<Rightarrow> tentative_sell_resolution_outcome \<Rightarrow> tentative_sell_confirmation_state \<Rightarrow> bool \<Rightarrow>
   string option \<Rightarrow> instant \<Rightarrow> string option \<Rightarrow> u64 option \<Rightarrow> 'd \<Rightarrow> 'd \<Rightarrow> 'd \<Rightarrow> ('d::linordered_field) \<Rightarrow>
   'd shred_sell_intent_resolved_event" where
  "resolution pending outcome state false_positive confirmation now canonical slot impact quote_out token_in saved =
    (let intent = pd_intent pending in
     \<lparr>sr_original_tentative_event_id = si_event_id intent, sr_canonical_signature = canonical, sr_outcome = outcome,
      sr_observed_canonical_slot = slot, sr_actual_price_impact_pct = impact, sr_actual_quote_out = quote_out,
      sr_actual_token_in = token_in, sr_actual_loss_saved_if_exited = saved,
      sr_false_positive_flag = false_positive, sr_missed_exit_flag = False,
      sr_reconciliation_latency_ms = Some (latency_ms now (si_received_at_wall_time intent)),
      sr_source = si_source intent, sr_mint = si_mint intent, sr_seller_wallet = si_seller_wallet intent,
      sr_seller_classification = sw_seller_classification (pd_warning pending), sr_confirmation_state = state,
      sr_confirmation_method = confirmation, sr_schema_version = schema_version\<rparr>)"

definition signature_matches :: "string option \<Rightarrow> string option \<Rightarrow> bool" where
  "signature_matches actual expected =
    (case (actual, expected) of
       (Some a, Some e) \<Rightarrow> a = e
     | (_, None) \<Rightarrow> True
     | (None, Some _) \<Rightarrow> False)"

definition sell_confirmed ::
  "('d::linordered_field) pending_sell_context \<Rightarrow> 'd normalized_event \<Rightarrow> 'd token_state option \<Rightarrow>
   'd pump_sell_event \<Rightarrow> 'd shred_sell_intent_resolved_event" where
  "sell_confirmed pending event token payload =
    (let failed = ps_status payload = Failed;
         price_after = (case ps_price_after payload of
           Some price \<Rightarrow> price
         | None \<Rightarrow> (case token of Some t \<Rightarrow> tok_latest_price t | None \<Rightarrow> pd_warning_price pending));
         saved = (if pd_triggered pending \<noteq> None \<and> pd_warning_price pending > price_after
           then (pd_warning_price pending - price_after) * pd_position_size_tokens pending else 0) in
     resolution pending
       (if failed then tentative_sell_resolution_outcome.ConfirmedFailed
        else tentative_sell_resolution_outcome.ConfirmedExecuted)
       (if failed then tentative_sell_confirmation_state.ConfirmedFailed
        else tentative_sell_confirmation_state.ConfirmedExecuted)
       failed (Some ''signature'') (em_received_at_wall_time (ne_meta event)) (event_signature event)
       (Some (em_slot (ne_meta event)))
       (price_impact_pct (unwrap_or (pd_warning_price pending) (ps_price_before payload)) price_after)
       (ps_quote_out payload) (ps_token_in payload) saved)"

definition reconcile_pending_against_event ::
  "('d::linordered_field) pending_sell_context \<Rightarrow> 'd normalized_event \<Rightarrow> 'd token_state option \<Rightarrow>
   'd shred_sell_intent_resolved_event option" where
  "reconcile_pending_against_event pending event token =
    (let intent = pd_intent pending; meta = ne_meta event; now = em_received_at_wall_time meta in
     if em_canonicality meta = Reverted \<and> event_signature event = si_signature intent then
       Some (resolution pending tentative_sell_resolution_outcome.Reorged tentative_sell_confirmation_state.Reorged
         True (Some ''reorg'') now (event_signature event) (Some (em_slot meta)) 0 0 0 0)
     else case ne_payload event of
       PumpSell payload \<Rightarrow>
         (if ps_mint payload = si_mint intent \<and> ps_seller payload = si_seller_wallet intent then
            (if signature_matches (event_signature event) (si_signature intent)
             then Some (sell_confirmed pending event token payload)
             else Some (resolution pending tentative_sell_resolution_outcome.DecodeMismatch
               tentative_sell_confirmation_state.DecodeMismatch True (Some ''fingerprint'') now
               (event_signature event) (Some (em_slot meta))
               (price_impact_pct (unwrap_or (pd_warning_price pending) (ps_price_before payload))
                 (unwrap_or (pd_warning_price pending) (ps_price_after payload)))
               (ps_quote_out payload) (ps_token_in payload) 0))
          else None)
     | HolderBalanceUpdate payload \<Rightarrow>
         (if hb_mint payload = si_mint intent \<and> hb_owner_wallet payload = si_seller_wallet intent \<and>
             hb_delta payload < 0
          then Some (resolution pending tentative_sell_resolution_outcome.AccountEffectsObserved
            tentative_sell_confirmation_state.AccountEffectsObserved False (Some ''account_effect'') now
            (hb_caused_by_signature payload) (Some (em_slot meta)) 0 0 \<bar>hb_delta payload\<bar> 0)
          else None)
     | _ \<Rightarrow> None)"

subsection \<open>Outcomes and calibration\<close>

definition count_resolution ::
  "tentative_sell_resolution_outcome \<Rightarrow> 'd \<Rightarrow> bool \<Rightarrow> ('d::linordered_field) shred_exit_metrics \<Rightarrow>
   'd shred_exit_metrics" where
  "count_resolution outcome saved false_positive m =
    (let m = (case outcome of
         tentative_sell_resolution_outcome.ConfirmedExecuted \<Rightarrow>
           m\<lparr>sm_confirmed_executed_total := sat_add (sm_confirmed_executed_total m) 1,
             sm_saved_loss_quote_total := sm_saved_loss_quote_total m + saved\<rparr>
       | tentative_sell_resolution_outcome.AccountEffectsObserved \<Rightarrow>
           m\<lparr>sm_account_effect_confirmed_total := sat_add (sm_account_effect_confirmed_total m) 1\<rparr>
       | tentative_sell_resolution_outcome.ConfirmedFailed \<Rightarrow>
           m\<lparr>sm_confirmed_failed_total := sat_add (sm_confirmed_failed_total m) 1\<rparr>
       | tentative_sell_resolution_outcome.RootedExecuted \<Rightarrow>
           m\<lparr>sm_confirmed_executed_total := sat_add (sm_confirmed_executed_total m) 1\<rparr>
       | tentative_sell_resolution_outcome.NotSeenWithinTtl \<Rightarrow>
           m\<lparr>sm_not_seen_within_ttl_total := sat_add (sm_not_seen_within_ttl_total m) 1\<rparr>
       | tentative_sell_resolution_outcome.Reorged \<Rightarrow>
           m\<lparr>sm_reorged_total := sat_add (sm_reorged_total m) 1\<rparr>
       | tentative_sell_resolution_outcome.DecodeMismatch \<Rightarrow>
           m\<lparr>sm_decode_mismatch_total := sat_add (sm_decode_mismatch_total m) 1\<rparr>) in
     m\<lparr>sm_false_positive_exit_total := count_if false_positive (sm_false_positive_exit_total m)\<rparr>)"

definition count_source_resolution ::
  "tentative_sell_resolution_outcome \<Rightarrow> 'd \<Rightarrow> bool \<Rightarrow> ('d::linordered_field) source_metrics \<Rightarrow>
   'd source_metrics" where
  "count_source_resolution outcome saved false_positive m =
    (let m = (case outcome of
         tentative_sell_resolution_outcome.ConfirmedExecuted \<Rightarrow>
           m\<lparr>sc_confirmed_executed_total := sat_add (sc_confirmed_executed_total m) 1,
             sc_saved_loss_quote_total := sc_saved_loss_quote_total m + saved\<rparr>
       | tentative_sell_resolution_outcome.AccountEffectsObserved \<Rightarrow>
           m\<lparr>sc_account_effect_confirmed_total := sat_add (sc_account_effect_confirmed_total m) 1\<rparr>
       | tentative_sell_resolution_outcome.ConfirmedFailed \<Rightarrow>
           m\<lparr>sc_confirmed_failed_total := sat_add (sc_confirmed_failed_total m) 1\<rparr>
       | tentative_sell_resolution_outcome.RootedExecuted \<Rightarrow>
           m\<lparr>sc_confirmed_executed_total := sat_add (sc_confirmed_executed_total m) 1\<rparr>
       | tentative_sell_resolution_outcome.NotSeenWithinTtl \<Rightarrow>
           m\<lparr>sc_not_seen_within_ttl_total := sat_add (sc_not_seen_within_ttl_total m) 1\<rparr>
       | tentative_sell_resolution_outcome.Reorged \<Rightarrow>
           m\<lparr>sc_reorged_total := sat_add (sc_reorged_total m) 1\<rparr>
       | tentative_sell_resolution_outcome.DecodeMismatch \<Rightarrow>
           m\<lparr>sc_decode_mismatch_total := sat_add (sc_decode_mismatch_total m) 1\<rparr>) in
     m\<lparr>sc_false_positive_exit_total := count_if false_positive (sc_false_positive_exit_total m),
       sc_opportunity_cost_quote_total :=
         (if saved < 0 then sc_opportunity_cost_quote_total m + max (- saved) 0
          else sc_opportunity_cost_quote_total m)\<rparr>)"

definition decimal_bucket :: "('d \<Rightarrow> string) \<Rightarrow> 'd::linordered_field \<Rightarrow> 'd list \<Rightarrow> string" where
  "decimal_bucket show_dec value thresholds =
    (case find (\<lambda>(lower, upper). value < upper) (zip (0 # thresholds) thresholds) of
       Some (lower, upper) \<Rightarrow> show_dec lower @ ''-'' @ show_dec upper
     | None \<Rightarrow> show_dec (List.last (0 # thresholds)) @ ''+'')"

definition build_calibration_observation ::
  "('d \<Rightarrow> string) \<Rightarrow> ('d::linordered_field) pending_sell_context \<Rightarrow> 'd shred_sell_intent_resolved_event \<Rightarrow>
   'd calibration_observation" where
  "build_calibration_observation show_dec pending resolved =
    (let confidence = decimal_bucket show_dec (sw_confidence (pd_warning pending))
           [decimal 55 2, decimal 70 2, decimal 82 2, decimal 95 2];
         impact = decimal_bucket show_dec (si_estimated_price_impact_pct (pd_intent pending))
           [decimal_from 8, decimal_from 15, decimal_from 25, decimal_from 35];
         source = si_source (pd_intent pending); c = sw_seller_classification (pd_warning pending);
         outcome = sr_outcome resolved; saved = sr_actual_loss_saved_if_exited resolved in
     \<lparr>ob_key = ''source='' @ debug_early_intent_source source @ ''|seller='' @ debug_classification c @
        ''|confidence='' @ confidence @ ''|impact='' @ impact @
        ''|confirmation='' @ unwrap_or ''none'' (sr_confirmation_method resolved) @
        ''|strategy='' @ unwrap_or ''none'' (pd_position_strategy pending),
      ob_source = source, ob_seller_classification = c, ob_confirmation_method = sr_confirmation_method resolved,
      ob_confidence_bucket = confidence, ob_impact_bucket = impact, ob_outcome = outcome,
      ob_emergency_exit = pd_triggered pending \<noteq> None, ob_false_positive = sr_false_positive_flag resolved,
      ob_saved_loss_quote = max saved 0, ob_opportunity_cost_quote = max (- saved) 0,
      ob_early_to_geyser_processed_ms =
        (if outcome \<in> {tentative_sell_resolution_outcome.ConfirmedExecuted,
            tentative_sell_resolution_outcome.ConfirmedFailed, tentative_sell_resolution_outcome.RootedExecuted}
         then Some (unwrap_or 0 (sr_reconciliation_latency_ms resolved)) else None),
      ob_early_to_account_effect_ms =
        (if outcome = tentative_sell_resolution_outcome.AccountEffectsObserved
         then Some (unwrap_or 0 (sr_reconciliation_latency_ms resolved)) else None),
      ob_exit_latency_ms = (if pd_triggered pending \<noteq> None then Some 0 else None),
      ob_strategy = pd_position_strategy pending, ob_latency_advantage_ms = Some (pd_latency_advantage_ms pending),
      ob_required_latency_advantage_ms = Some (pd_required_latency_advantage_ms pending),
      ob_latency_edge_ratio = pd_latency_edge_ratio pending, ob_net_benefit_quote = pd_net_benefit_quote pending,
      ob_absorption_health_score = pd_absorption_health_score pending\<rparr>)"

definition recompute_calibration ::
  "('d \<Rightarrow> string) \<Rightarrow> ('d::linordered_field) tentative_sell_manager \<Rightarrow> 'd tentative_sell_manager" where
  "recompute_calibration show_dec mgr =
    (let m = tm_metrics mgr; cfg = sx_calibration (tm_shred_exit mgr); c = tm_calibration mgr;
         positive = decimal_from (max (sm_confirmed_executed_total m) 1);
         false_positive = decimal_from (sm_false_positive_exit_total m);
         seen = decimal_from (max (sm_tentative_sell_total m) 1);
         c = c\<lparr>cs_false_positive_rate := false_positive / seen, cs_true_positive_rate := positive / seen,
               cs_missed_sell_rate := decimal_from (sm_not_seen_within_ttl_total m) / seen\<rparr>;
         impact = cs_current_paper_exit_impact_pct c; step = cc_max_threshold_adjustment_per_hour cfg in
     mgr\<lparr>tm_calibration :=
       (if cc_enabled cfg \<and> cc_paper_only cfg \<and> sm_tentative_sell_total m \<ge> cc_min_samples_before_adapt cfg then
          (if cs_false_positive_rate c > cc_false_positive_rate_limit cfg then
             let raised = min (impact + step) (decimal_from 95) in
             c\<lparr>cs_current_paper_exit_impact_pct := raised,
               cs_adaptations := cs_adaptations c @ [''raised_paper_exit_impact_to='' @ show_dec raised]\<rparr>
           else if cs_missed_sell_rate c > cc_missed_sell_rate_limit cfg then
             let lowered = max (impact - step) (sx_warn_impact_pct (tm_shred_exit mgr)) in
             c\<lparr>cs_current_paper_exit_impact_pct := lowered,
               cs_adaptations := cs_adaptations c @ [''lowered_paper_exit_impact_to='' @ show_dec lowered]\<rparr>
           else c)
        else c)\<rparr>)"

definition record_resolution ::
  "('d \<Rightarrow> string) \<Rightarrow> ('d::linordered_field) shred_sell_intent_resolved_event \<Rightarrow> 'd pending_sell_context \<Rightarrow>
   'd tentative_sell_manager \<Rightarrow> 'd tentative_sell_manager" where
  "record_resolution show_dec resolved pending mgr =
    (let outcome = sr_outcome resolved; saved = sr_actual_loss_saved_if_exited resolved;
         false_positive = sr_false_positive_flag resolved in
     recompute_calibration show_dec
       (mgr\<lparr>tm_metrics := count_resolution outcome saved false_positive (tm_metrics mgr),
            tm_source_metrics := with_source (source_label (sr_source resolved))
              (count_source_resolution outcome saved false_positive) (tm_source_metrics mgr),
            tm_observations := tm_observations mgr @ [build_calibration_observation show_dec pending resolved]\<rparr>))"

subsection \<open>Reconciliation and expiry\<close>

definition reconcile_key ::
  "('d, 'z) shred_env_scheme \<Rightarrow> ('d::linordered_field) normalized_event \<Rightarrow> 'd token_state option \<Rightarrow> string \<Rightarrow>
   'd tentative_sell_manager \<times> 'd normalized_event list \<Rightarrow> 'd tentative_sell_manager \<times> 'd normalized_event list" where
  "reconcile_key env event token key = (\<lambda>(mgr, matched).
    case map_of (tm_pending mgr) key of
      None \<Rightarrow> (mgr, matched)
    | Some pending \<Rightarrow>
        (case reconcile_pending_against_event pending event token of
           None \<Rightarrow> (mgr, matched)
         | Some resolved \<Rightarrow>
             (record_resolution (tx_show_decimal env) resolved pending
                (mgr\<lparr>tm_pending := AList.delete key (tm_pending mgr)\<rparr>),
              matched @ [clone_with_payload env event (ShredSellIntentResolved resolved)])))"

definition reconcile_sells ::
  "('d, 'z) shred_env_scheme \<Rightarrow> ('d::linordered_field) normalized_event \<Rightarrow> 'd token_state option \<Rightarrow>
   'd tentative_sell_manager \<Rightarrow> 'd tentative_sell_manager \<times> 'd normalized_event list" where
  "reconcile_sells env event token mgr =
    (case event_mint event of
       None \<Rightarrow> (mgr, [])
     | Some mint \<Rightarrow>
         fold (reconcile_key env event token)
           (map fst (filter (\<lambda>(_, p). si_mint (pd_intent p) = mint) (tm_pending mgr))) (mgr, []))"

definition has_pending :: "'d tentative_sell_manager \<Rightarrow> bool" where
  "has_pending mgr \<longleftrightarrow> tm_pending mgr \<noteq> []"

definition expired_resolution ::
  "'d state_snapshot \<Rightarrow> instant \<Rightarrow> ('d::linordered_field) pending_sell_context \<Rightarrow> 'd \<times> 'd shred_sell_intent_resolved_event" where
  "expired_resolution snapshot now pending =
    (let latest = (case map_of (ss_tokens snapshot) (si_mint (pd_intent pending)) of
           Some token \<Rightarrow> tok_latest_price token | None \<Rightarrow> pd_warning_price pending);
         opportunity = (if pd_triggered pending \<noteq> None \<and> latest > pd_warning_price pending
           then (latest - pd_warning_price pending) * pd_position_size_tokens pending else 0) in
     (opportunity,
      resolution pending tentative_sell_resolution_outcome.NotSeenWithinTtl
        tentative_sell_confirmation_state.NotSeenWithinTtl True None now None None 0 0 0 (- opportunity)))"

text \<open>One round of \<open>expire\<close>; the fresh identifier of the rebuilt event is replaced by \<open>clone_with_payload\<close>.\<close>

definition expire_key ::
  "('d, 'z) shred_env_scheme \<Rightarrow> event_id \<Rightarrow> instant \<Rightarrow> 'd state_snapshot \<Rightarrow> string \<Rightarrow>
   ('d::linordered_field) tentative_sell_manager \<times> 'd normalized_event list \<Rightarrow>
   'd tentative_sell_manager \<times> 'd normalized_event list" where
  "expire_key env fresh_id now snapshot key = (\<lambda>(mgr, expired).
    case map_of (tm_pending mgr) key of
      None \<Rightarrow> (mgr, expired)
    | Some pending \<Rightarrow>
        (let (opportunity, resolved) = expired_resolution snapshot now pending;
             mgr = mgr\<lparr>tm_pending := AList.delete key (tm_pending mgr),
               tm_metrics := (tm_metrics mgr)\<lparr>sm_opportunity_cost_quote_total :=
                 sm_opportunity_cost_quote_total (tm_metrics mgr) + opportunity\<rparr>\<rparr>;
             base = \<lparr>ne_meta = new_event_meta fresh_id 1 Replay Processed (unwrap_or 0 (si_slot (pd_intent pending))),
               ne_payload = TentativeSellIntentDetected (pd_intent pending)\<rparr>;
             event = clone_with_payload env base (ShredSellIntentResolved resolved) in
         (record_resolution (tx_show_decimal env) resolved pending mgr,
          expired @ [event\<lparr>ne_meta := (ne_meta event)\<lparr>em_received_at_wall_time := now\<rparr>\<rparr>])))"

definition expire_sells ::
  "('d, 'z) shred_env_scheme \<Rightarrow> event_id \<Rightarrow> instant \<Rightarrow> 'd state_snapshot \<Rightarrow>
   ('d::linordered_field) tentative_sell_manager \<Rightarrow> 'd tentative_sell_manager \<times> 'd normalized_event list" where
  "expire_sells env fresh_id now snapshot mgr =
    fold (expire_key env fresh_id now snapshot)
      (map fst (filter (\<lambda>(_, p). pd_expires_at p \<le> now) (tm_pending mgr))) (mgr, [])"

end
