(* ===== verification/Runtime_Records.thy ===== *)
theory Runtime_Records
  imports Feature_Snapshot State_Records
begin

text \<open>
  The data of the supervisor (\<open>crates/runtime/src/lib.rs\<close>) and of the records it stores
  (\<open>crates/storage/src/lib.rs\<close>), field by field.
\<close>

datatype runtime_mode =
    RtFixture
  | RtReplay
  | RtPaperFromStore
  | RtLiveDataPaper
  | RtEdgeCollector
  | RtResearchWorker
  | RtAutopilot
  | RtGuardedLiveDryRun
  | RtGuardedLiveEnabled

record runtime_safety =
  rs_trade_allowed :: "bool"
  rs_paper_allowed :: "bool"
  rs_live_allowed :: "bool"
  rs_data_quality_allowed :: "bool"
  rs_rpc_budget_allowed :: "bool"
  rs_max_loss_allowed :: "bool"
  rs_stale_data_allowed :: "bool"
  rs_reason_codes :: "reason_code list"

datatype runtime_audit_kind =
    RuntimeStarted
  | RuntimeStopped
  | IngestStarted
  | IngestStopped
  | StorageWarning
  | StorageLimitReached
  | DataGapStarted
  | DataGapRecovered
  | QueueOverflow
  | KillSwitchActivated
  | KillSwitchCleared
  | PaperDecision
  | PaperFill
  | LiveOrderRejected
  | RpcBudgetDenied
  | ConfigLoaded
  | IdlLoaded

record runtime_audit_event =
  rv_at :: "instant"
  rv_kind :: "runtime_audit_kind"
  rv_run_id :: "string"
  rv_details :: "string \<rightharpoonup> string"
  rv_reason_codes :: "reason_code list"

datatype data_gap_scope =
    ScopeGlobal
  | ScopeSource
  | ScopeSlotRange
  | ScopeToken
  | ScopeRun
  | ScopeScenario

record scoped_data_gap =
  rg_scope :: "data_gap_scope"
  rg_source :: "event_source"
  rg_start_slot :: "u64"
  rg_end_slot :: "u64 option"
  rg_severity :: "gap_severity"
  rg_active :: "bool"
  rg_trade_blocking :: "bool"
  rg_affected_token :: "string option"
  rg_run_id :: "string"
  rg_scenario_id :: "string option"
  rg_reason_codes :: "reason_code list"
  rg_recovery_action :: "string"

record 'd runtime_health =
  rh_early_intent_enabled :: "bool"
  rh_early_intent_sources_active :: "string list"
  rh_stream_only_enabled :: "bool"
  rh_stream_only_passed :: "bool"
  rh_rpc_network_calls_total :: "u64"
  rh_rpc_credits_used_total :: "u64"
  rh_rpc_denials_total :: "u64"
  rh_market_data_rpc_calls_allowed :: "bool"
  rh_holder_rpc_calls_allowed :: "bool"
  rh_metadata_fetch_allowed :: "bool"
  rh_confirmation_rpc_allowed :: "bool"
  rh_blockhash_rpc_allowed :: "bool"
  rh_geyser_connected :: "bool"
  rh_geyser_endpoint_configured :: "bool"
  rh_geyser_auth_configured :: "bool"
  rh_geyser_last_event_time :: "instant option"
  rh_geyser_reconnect_count :: "u64"
  rh_geyser_gap_count :: "u64"
  rh_geyser_events_received :: "u64"
  rh_deshred_supported :: "bool"
  rh_deshred_connected :: "bool"
  rh_deshred_provider_status :: "string"
  rh_deshred_endpoint_configured :: "bool"
  rh_deshred_auth_configured :: "bool"
  rh_deshred_events_received :: "u64"
  rh_deshred_transactions_decoded :: "u64"
  rh_deshred_decode_errors :: "u64"
  rh_deshred_reconnect_count :: "u64"
  rh_deshred_unsupported_count :: "u64"
  rh_deshred_tentative_sells_total :: "u64"
  rh_deshred_malicious_warnings_total :: "u64"
  rh_deshred_emergency_exits_armed_total :: "u64"
  rh_deshred_emergency_exits_triggered_total :: "u64"
  rh_deshred_confirmed_executed_total :: "u64"
  rh_deshred_false_positive_total :: "u64"
  rh_deshred_saved_loss_quote_total :: "'d"
  rh_deshred_opportunity_cost_quote_total :: "'d"
  rh_raw_shred_connected :: "bool"
  rh_raw_shred_supported :: "bool"
  rh_raw_shred_tentative_sells_total :: "u64"
  rh_mock_early_intent_active :: "bool"
  rh_mock_early_intent_tentative_sells_total :: "u64"
  rh_fixture_early_intent_tentative_sells_total :: "u64"
  rh_replay_early_intent_tentative_sells_total :: "u64"
  rh_source_dedup_count :: "u64"
  rh_early_intent_dedup_pairs :: "string \<rightharpoonup> u64"
  rh_shred_connected :: "bool"
  rh_storage_healthy :: "bool"
  rh_rpc_budget_healthy :: "bool"
  rh_event_queue_depth :: "usize"
  rh_tentative_queue_depth :: "usize"
  rh_canonical_queue_depth :: "usize"
  rh_active_tokens :: "usize"
  rh_active_positions :: "usize"
  rh_data_gap_active :: "bool"
  rh_data_gap_scope :: "string option"
  rh_kill_switch_active :: "bool"
  rh_paper_pnl :: "'d"
  rh_realized_pnl :: "'d"
  rh_fee_drag :: "'d"
  rh_slippage_drag :: "'d"
  rh_latency_drag :: "'d"
  rh_events_processed :: "u64"
  rh_canonical_events_dropped :: "u64"
  rh_skipped_feature_snapshot_count :: "u64"
  rh_discarded_tokens :: "usize"
  rh_rugged_tokens :: "usize"
  rh_last_event_time :: "instant option"
  rh_last_decision_time :: "instant option"
  rh_last_persist_time :: "instant option"
  rh_runtime_uptime_ms :: "u64"
  rh_mode :: "runtime_mode"
  rh_live_source_mode :: "string"
  rh_shred_tentative_sells_total :: "u64"
  rh_shred_malicious_sell_warnings_total :: "u64"
  rh_shred_emergency_exits_armed_total :: "u64"
  rh_shred_emergency_exits_triggered_total :: "u64"
  rh_shred_confirmed_executed_total :: "u64"
  rh_shred_confirmed_failed_total :: "u64"
  rh_shred_not_seen_within_ttl_total :: "u64"
  rh_shred_reorged_total :: "u64"
  rh_shred_decode_mismatch_total :: "u64"
  rh_shred_account_effect_confirmed_total :: "u64"
  rh_shred_sell_false_positive_total :: "u64"
  rh_shred_saved_loss_quote_total :: "'d"
  rh_shred_opportunity_cost_quote_total :: "'d"

record edge_slot_record =
  es_run_id :: "string"
  es_source :: "event_source"
  es_slot :: "u64"
  es_parent_slot :: "u64 option"
  es_event_time :: "instant"
  es_canonicality :: "canonicality"
  es_data_gap_active :: "bool"
  es_stream_only_passed :: "bool"

record edge_event_record =
  ee_run_id :: "string"
  ee_sequence_number :: "u64"
  ee_source :: "event_source"
  ee_slot :: "u64"
  ee_event_time :: "instant"
  ee_signature :: "string option"
  ee_mint :: "string option"
  ee_event_type :: "string"
  ee_program_id :: "string option"
  ee_instruction_discriminator :: "string option"
  ee_decoded_fields :: "string"
  ee_account_keys :: "string list"
  ee_token_balance_deltas :: "string list"
  ee_transaction_status :: "string option"
  ee_compute_budget :: "string \<rightharpoonup> string"
  ee_raw_update_hash :: "string option"
  ee_canonicality :: "canonicality"
  ee_data_gap_flags :: "string list"
  ee_stream_only_passed :: "bool"

datatype dataset_kind =
    RawEventLog
  | NormalizedEventLog
  | TokenSummary
  | TokenFeatureSnapshots
  | RiskSnapshots
  | WalletSummary
  | TradeDecisions
  | SimulatedFills
  | LiveFills
  | BacktestRuns
  | RuntimeAuditLog
  | RunMetadata

text \<open>
  What a \<open>StoredRecord\<close> of the pipeline carries as its typed payload, and the envelope with its builder
  methods.
\<close>

datatype 'd stored_payload =
    StoredEvent "'d normalized_event"
  | StoredDecision "'d trade_decision_event"
  | StoredFill "'d fill_event"
  | StoredAudit runtime_audit_event
  | StoredFeatures "'d feature_snapshot"
  | StoredSummary "'d compact_token_summary"

record 'd stored_record =
  st_schema_version :: u32
  st_config_hash :: string
  st_idl_hash :: string
  st_strategy_version :: "string option"
  st_run_id :: "string option"
  st_scenario_id :: "string option"
  st_runtime_sequence_number :: "u64 option"
  st_source_event_id :: "string option"
  st_trigger_event_id :: "string option"
  st_calibration_snapshot_hash :: "string option"
  st_deterministic_replay_hash :: "string option"
  st_replay_equivalence_group_id :: "string option"
  st_source :: string
  st_canonicality :: string
  st_no_lookahead_timestamp :: "instant option"
  st_dataset :: dataset_kind
  st_record :: "'d stored_payload"

definition new_stored_record ::
  "dataset_kind \<Rightarrow> string \<Rightarrow> string \<Rightarrow> string option \<Rightarrow> string \<Rightarrow> string \<Rightarrow> instant option \<Rightarrow>
   'd stored_payload \<Rightarrow> 'd stored_record" where
  "new_stored_record dataset config_hash idl_hash strategy_version source canonicality no_lookahead payload =
    \<lparr>st_schema_version = 2, st_config_hash = config_hash, st_idl_hash = idl_hash,
     st_strategy_version = strategy_version, st_run_id = None, st_scenario_id = None,
     st_runtime_sequence_number = None, st_source_event_id = None, st_trigger_event_id = None,
     st_calibration_snapshot_hash = None, st_deterministic_replay_hash = None,
     st_replay_equivalence_group_id = None, st_source = source, st_canonicality = canonicality,
     st_no_lookahead_timestamp = no_lookahead, st_dataset = dataset, st_record = payload\<rparr>"

definition with_run_id :: "string \<Rightarrow> 'd stored_record \<Rightarrow> 'd stored_record" where
  "with_run_id run_id r = r\<lparr>st_run_id := Some run_id\<rparr>"

definition with_scenario_id :: "string \<Rightarrow> 'd stored_record \<Rightarrow> 'd stored_record" where
  "with_scenario_id scenario_id r = r\<lparr>st_scenario_id := Some scenario_id\<rparr>"

definition with_runtime_sequence_number :: "u64 \<Rightarrow> 'd stored_record \<Rightarrow> 'd stored_record" where
  "with_runtime_sequence_number sequence r = r\<lparr>st_runtime_sequence_number := Some sequence\<rparr>"

definition with_calibration_snapshot_hash :: "string option \<Rightarrow> 'd stored_record \<Rightarrow> 'd stored_record" where
  "with_calibration_snapshot_hash hash r = r\<lparr>st_calibration_snapshot_hash := hash\<rparr>"

end
