(* ===== verification/Runtime_Safety.thy ===== *)
theory Runtime_Safety
  imports Runtime_Records Decision_Records
begin

text \<open>
  The trading block of the supervisor (\<open>crates/runtime/src/lib.rs\<close>): data gaps with a scope, when they are
  opened and closed, and what they allow. The functions here are the parts of \<open>update_data_gap_state\<close>,
  \<open>token_trade_allowed\<close> and \<open>recompute_safety\<close> that work on the list of gaps and the safety flags.
\<close>

subsection \<open>Gaps of an event\<close>

text \<open>\<open>str::contains\<close>.\<close>

fun starts_text :: "string \<Rightarrow> string \<Rightarrow> bool" where
  "starts_text [] _ = True"
| "starts_text (_ # _) [] = False"
| "starts_text (p # ps) (c # cs) = (p = c \<and> starts_text ps cs)"

fun contains_text :: "string \<Rightarrow> string \<Rightarrow> bool" where
  "contains_text p [] = (p = [])"
| "contains_text p (c # cs) = (starts_text p (c # cs) \<or> contains_text p cs)"

definition gap_recovery :: "data_gap_event \<Rightarrow> bool" where
  "gap_recovery payload \<longleftrightarrow> dg_trade_allowed payload \<or> contains_text ''recover'' (dg_recovery_action payload) \<or>
    contains_text ''resume'' (dg_recovery_action payload)"

definition scoped_gap ::
  "data_gap_event \<Rightarrow> string \<Rightarrow> string option \<Rightarrow> data_gap_scope \<Rightarrow> string option \<Rightarrow> scoped_data_gap" where
  "scoped_gap payload run_id scenario_id scope token =
    \<lparr>rg_scope = scope, rg_source = dg_source payload, rg_start_slot = dg_start_slot payload,
     rg_end_slot = dg_end_slot payload, rg_severity = dg_severity payload, rg_active = (\<not> gap_recovery payload),
     rg_trade_blocking = (\<not> dg_trade_allowed payload), rg_affected_token = token, rg_run_id = run_id,
     rg_scenario_id = scenario_id, rg_reason_codes = [DataGapActive],
     rg_recovery_action = dg_recovery_action payload\<rparr>"

definition gap_scope :: "data_gap_event \<Rightarrow> string option \<Rightarrow> data_gap_scope" where
  "gap_scope payload scenario_id =
    (if contains_text ''enter_data_gap_mode'' (dg_recovery_action payload) then ScopeGlobal
     else if scenario_id \<noteq> None then ScopeScenario
     else ScopeSource)"

definition scoped_gaps_from_event ::
  "data_gap_event \<Rightarrow> string \<Rightarrow> string option \<Rightarrow> scoped_data_gap list" where
  "scoped_gaps_from_event payload run_id scenario_id =
    (if dg_affected_tokens payload \<noteq> []
     then map (\<lambda>mint. scoped_gap payload run_id scenario_id ScopeToken (Some mint)) (dg_affected_tokens payload)
     else [scoped_gap payload run_id scenario_id (gap_scope payload scenario_id) None])"

text \<open>The gap that a full canonical queue enters.\<close>

definition synthetic_gap :: "u64 \<Rightarrow> event_source \<Rightarrow> data_gap_event" where
  "synthetic_gap slot source =
    \<lparr>dg_gap_type = TransactionStreamGap, dg_source = source, dg_start_slot = slot, dg_end_slot = Some slot,
     dg_affected_tokens = [], dg_severity = gap_severity.High, dg_trade_allowed = False,
     dg_recovery_action = ''enter_data_gap_mode''\<rparr>"

subsection \<open>The list of open gaps\<close>

text \<open>One round of the loop of \<open>update_data_gap_state\<close>.\<close>

definition same_gap :: "scoped_data_gap \<Rightarrow> scoped_data_gap \<Rightarrow> bool" where
  "same_gap existing gap \<longleftrightarrow> rg_scope existing = rg_scope gap \<and> rg_source existing = rg_source gap \<and>
    rg_affected_token existing = rg_affected_token gap \<and> rg_scenario_id existing = rg_scenario_id gap"

definition note_gap :: "scoped_data_gap \<Rightarrow> scoped_data_gap list \<Rightarrow> scoped_data_gap list" where
  "note_gap gap gaps =
    (if rg_active gap then gaps @ [gap] else filter (\<lambda>existing. \<not> same_gap existing gap) gaps)"

definition global_block :: "scoped_data_gap list \<Rightarrow> bool" where
  "global_block gaps \<longleftrightarrow>
    list_ex (\<lambda>gap. rg_active gap \<and> rg_trade_blocking gap \<and> rg_scope gap \<noteq> ScopeToken) gaps"

definition token_block :: "string \<Rightarrow> scoped_data_gap list \<Rightarrow> bool" where
  "token_block mint gaps \<longleftrightarrow>
    list_ex (\<lambda>gap. rg_active gap \<and> rg_trade_blocking gap \<and> rg_scope gap = ScopeToken \<and>
      rg_affected_token gap = Some mint) gaps"

definition gate_safety :: "bool \<Rightarrow> scoped_data_gap list \<Rightarrow> runtime_safety \<Rightarrow> runtime_safety" where
  "gate_safety live_enabled gaps s =
    (let blocked = global_block gaps; kept = filter (\<lambda>reason. reason \<noteq> DataGapActive) (rs_reason_codes s) in
     s\<lparr>rs_trade_allowed := \<not> live_enabled \<and> \<not> blocked, rs_data_quality_allowed := \<not> blocked,
       rs_reason_codes := (if blocked then kept @ [DataGapActive] else kept)\<rparr>)"

definition trade_allowed :: "scoped_data_gap list \<Rightarrow> runtime_safety \<Rightarrow> string \<Rightarrow> bool \<times> reason_code list" where
  "trade_allowed gaps s mint =
    (if global_block gaps then (False, [DataGapActive])
     else if token_block mint gaps then (False, [DataGapActive])
     else (rs_trade_allowed s, rs_reason_codes s))"

definition parse_gap_scope :: "string \<Rightarrow> data_gap_scope" where
  "parse_gap_scope text =
    (if text = ''Global'' then ScopeGlobal
     else if text = ''Source'' then ScopeSource
     else if text = ''SlotRange'' then ScopeSlotRange
     else if text = ''Token'' then ScopeToken
     else if text = ''Run'' then ScopeRun
     else if text = ''Scenario'' then ScopeScenario
     else ScopeSource)"

fun debug_gap_scope :: "data_gap_scope \<Rightarrow> string" where
  "debug_gap_scope ScopeGlobal = ''Global''"
| "debug_gap_scope ScopeSource = ''Source''"
| "debug_gap_scope ScopeSlotRange = ''SlotRange''"
| "debug_gap_scope ScopeToken = ''Token''"
| "debug_gap_scope ScopeRun = ''Run''"
| "debug_gap_scope ScopeScenario = ''Scenario''"

subsection \<open>Which gaps are open\<close>

definition closes :: "scoped_data_gap \<Rightarrow> scoped_data_gap \<Rightarrow> bool" where
  "closes gap later \<longleftrightarrow> \<not> rg_active later \<and> same_gap gap later"

lemma note_gap_set:
  "x \<in> set (note_gap gap gaps) \<longleftrightarrow> (x = gap \<and> rg_active gap) \<or> (x \<in> set gaps \<and> \<not> closes x gap)"
  by (auto simp: note_gap_def closes_def)

text \<open>
  The list of open gaps is what the history of gaps says: a gap is on it exactly when it was opened and none of the
  later ones is a recovery of the same scope, source, token and scenario. A recovery closes every earlier gap of
  that kind, however often it was opened, and no other.
\<close>

theorem open_gaps_exact:
  "gap \<in> set (fold note_gap history []) \<longleftrightarrow>
    (\<exists>earlier later. history = earlier @ gap # later \<and> rg_active gap \<and> list_all (\<lambda>g. \<not> closes gap g) later)"
proof (induction history rule: rev_induct)
  case (snoc g gs)
  have "(\<exists>earlier later. gs @ [g] = earlier @ gap # later \<and> rg_active gap \<and> list_all (\<lambda>g. \<not> closes gap g) later) \<longleftrightarrow>
    (gap = g \<and> rg_active g) \<or>
    ((\<exists>earlier later. gs = earlier @ gap # later \<and> rg_active gap \<and> list_all (\<lambda>g. \<not> closes gap g) later) \<and> \<not> closes gap g)"
    (is "?L \<longleftrightarrow> ?R")
  proof
    assume ?L
    then obtain earlier later where h: "gs @ [g] = earlier @ gap # later" "rg_active gap" "list_all (\<lambda>g. \<not> closes gap g) later"
      by blast
    then show ?R by (cases later rule: rev_cases) auto
  next
    assume ?R
    then show ?L
    proof (elim disjE conjE exE)
      assume "gap = g" "rg_active g"
      then show ?L by (intro exI [of _ gs] exI [of _ "[]"]) simp
    next
      fix earlier later
      assume "\<not> closes gap g" "gs = earlier @ gap # later" "rg_active gap" "list_all (\<lambda>g. \<not> closes gap g) later"
      then show ?L by (intro exI [of _ earlier] exI [of _ "later @ [g]"]) simp
    qed
  qed
  then show ?case by (simp add: note_gap_set snoc)
qed simp

definition blocks :: "string \<Rightarrow> scoped_data_gap \<Rightarrow> bool" where
  "blocks mint gap \<longleftrightarrow> rg_active gap \<and> rg_trade_blocking gap \<and>
    (rg_scope gap = ScopeToken \<longrightarrow> rg_affected_token gap = Some mint)"

text \<open>
  C20. Trading in a token is refused exactly while a blocking gap of its own or one that is not of a single token is
  open, or the safety flag is down; the flag itself is up exactly when live trading is off and no gap of the
  second kind is open.
\<close>

theorem trade_gate_exact:
  "fst (trade_allowed gaps (gate_safety live_enabled gaps s) mint) \<longleftrightarrow>
    \<not> live_enabled \<and>
    list_all (\<lambda>gap. \<not> blocks mint gap) gaps"
  by (auto simp: blocks_def trade_allowed_def gate_safety_def Let_def global_block_def token_block_def list_ex_iff list_all_iff)

end
