(* ===== verification/Edge_Records.thy ===== *)
theory Edge_Records
  imports Runtime_Records Shred_Exit_Records
begin

text \<open>
  What the edge collector writes for an event (\<open>event_type_label\<close> to \<open>edge_event_record\<close> of
  \<open>crates/runtime/src/lib.rs\<close>). Rendering a payload as JSON and a decimal as text are arguments.
\<close>

fun event_type_label :: "'d event_payload \<Rightarrow> string" where
  "event_type_label (TokenCreated _) = ''token_created''"
| "event_type_label (PumpBuy _) = ''pump_buy''"
| "event_type_label (PumpSell _) = ''pump_sell''"
| "event_type_label (BondingCurveUpdate _) = ''bonding_curve_update''"
| "event_type_label (HolderBalanceUpdate _) = ''holder_balance_update''"
| "event_type_label (WalletFunding _) = ''wallet_funding''"
| "event_type_label (ObservedTransaction _) = ''observed_transaction''"
| "event_type_label (DataGapPayload _) = ''data_gap''"
| "event_type_label (TentativeSellIntentDetected _) = ''tentative_sell_intent''"
| "event_type_label (TentativeMaliciousSellWarning _) = ''tentative_malicious_sell_warning''"
| "event_type_label (ShredEmergencyExitArmed _) = ''shred_emergency_exit_armed''"
| "event_type_label (ShredEmergencyExitTriggered _) = ''shred_emergency_exit_triggered''"
| "event_type_label (ShredSellIntentResolved _) = ''shred_sell_intent_resolved''"
| "event_type_label (TokenTerminal _) = ''token_terminal''"
| "event_type_label (TradeDecision _) = ''trade_decision''"
| "event_type_label (SimulatedFill _) = ''simulated_fill''"
| "event_type_label (LiveFill _) = ''live_fill''"

fun edge_account_keys :: "'d event_payload \<Rightarrow> string list" where
  "edge_account_keys (TokenCreated e) = tc_raw_account_list e"
| "edge_account_keys (HolderBalanceUpdate e) = [hb_owner_wallet e, hb_token_account e]"
| "edge_account_keys (BondingCurveUpdate e) = [bc_mint e]"
| "edge_account_keys (ObservedTransaction e) = ot_program_ids e"
| "edge_account_keys _ = []"

fun edge_token_balance_deltas :: "('d \<Rightarrow> string) \<Rightarrow> ('d::linordered_field) event_payload \<Rightarrow> string list" where
  "edge_token_balance_deltas show_dec (HolderBalanceUpdate e) =
    [hb_owner_wallet e @ '':'' @ show_dec (unwrap_or 0 (hb_old_balance e)) @ ''->'' @ show_dec (hb_new_balance e) @
     '' (delta='' @ show_dec (hb_delta e) @ '')'']"
| "edge_token_balance_deltas show_dec (PumpBuy e) =
    [''buyer='' @ pb_buyer e @ '' quote_in='' @ show_dec (pb_quote_in e) @ '' token_out='' @ show_dec (pb_token_out e)]"
| "edge_token_balance_deltas show_dec (PumpSell e) =
    [''seller='' @ ps_seller e @ '' token_in='' @ show_dec (ps_token_in e) @ '' quote_out='' @ show_dec (ps_quote_out e)]"
| "edge_token_balance_deltas _ _ = []"

fun debug_transaction_status :: "transaction_status \<Rightarrow> string" where
  "debug_transaction_status Success = ''Success''"
| "debug_transaction_status Failed = ''Failed''"
| "debug_transaction_status transaction_status.Unknown = ''Unknown''"

fun edge_transaction_status :: "'d event_payload \<Rightarrow> string option" where
  "edge_transaction_status (PumpBuy e) = Some (to_lowercase (debug_transaction_status (pb_status e)))"
| "edge_transaction_status (PumpSell e) = Some (to_lowercase (debug_transaction_status (ps_status e)))"
| "edge_transaction_status _ = None"

text \<open>Each \<open>if let Some(value)\<close> inserts one entry.\<close>

definition insert_some ::
  "string \<Rightarrow> 'a::len word option \<Rightarrow> (string \<rightharpoonup> string) \<Rightarrow> (string \<rightharpoonup> string)" where
  "insert_some key x m = (case x of None \<Rightarrow> m | Some value \<Rightarrow> m(key \<mapsto> show_nat (unat value)))"

definition trade_compute_budget ::
  "u32 option \<Rightarrow> u64 option \<Rightarrow> lamports option \<Rightarrow> lamports option \<Rightarrow> lamports option \<Rightarrow> (string \<rightharpoonup> string)" where
  "trade_compute_budget limit price priority base tip =
    insert_some ''estimated_tip_lamports'' tip
      (insert_some ''estimated_base_fee_lamports'' base
        (insert_some ''estimated_priority_fee_lamports'' priority
          (insert_some ''compute_unit_price'' price
            (insert_some ''compute_unit_limit'' limit Map.empty))))"

fun edge_compute_budget :: "'d event_payload \<Rightarrow> (string \<rightharpoonup> string)" where
  "edge_compute_budget (PumpBuy e) = trade_compute_budget (pb_compute_unit_limit e) (pb_compute_unit_price e)
    (pb_estimated_priority_fee_lamports e) (pb_estimated_base_fee_lamports e) (pb_estimated_tip_lamports e)"
| "edge_compute_budget (PumpSell e) = trade_compute_budget (ps_compute_unit_limit e) (ps_compute_unit_price e)
    (ps_estimated_priority_fee_lamports e) (ps_estimated_base_fee_lamports e) (ps_estimated_tip_lamports e)"
| "edge_compute_budget (ObservedTransaction e) =
    insert_some ''compute_units_consumed'' (ot_compute_units_consumed e)
      (insert_some ''tx_fee_lamports'' (ot_tx_fee_lamports e)
        (insert_some ''estimated_priority_fee_lamports'' (ot_estimated_priority_fee_lamports e)
          (insert_some ''compute_unit_price'' (ot_compute_unit_price e)
            (insert_some ''compute_unit_limit'' (ot_compute_unit_limit e) Map.empty))))"
| "edge_compute_budget _ = Map.empty"

fun debug_quality_flag :: "data_quality_flag \<Rightarrow> string" where
  "debug_quality_flag PartialShred = ''PartialShred''"
| "debug_quality_flag GeyserGap = ''GeyserGap''"
| "debug_quality_flag data_quality_flag.ShredGap = ''ShredGap''"
| "debug_quality_flag ReorgObserved = ''ReorgObserved''"
| "debug_quality_flag MissingWriteVersion = ''MissingWriteVersion''"
| "debug_quality_flag SourceDisagreement = ''SourceDisagreement''"
| "debug_quality_flag data_quality_flag.UnsupportedInstruction = ''UnsupportedInstruction''"
| "debug_quality_flag StaleAccount = ''StaleAccount''"

fun edge_program_id :: "'d event_payload \<Rightarrow> string option" where
  "edge_program_id (ObservedTransaction e) = (case ot_program_ids e of [] \<Rightarrow> None | p # _ \<Rightarrow> Some p)"
| "edge_program_id _ = None"

text \<open>The segment stream an event's edge record goes to.\<close>

fun edge_stream :: "'d event_payload \<Rightarrow> string" where
  "edge_stream (ObservedTransaction _) = ''edge_transactions''"
| "edge_stream (HolderBalanceUpdate _) = ''edge_accounts''"
| "edge_stream (BondingCurveUpdate _) = ''edge_accounts''"
| "edge_stream (DataGapPayload _) = ''edge_data_gaps''"
| "edge_stream _ = ''edge_events''"

end
