(* ===== verification/Supervisor.thy ===== *)
theory Supervisor
  imports Runtime_Safety Edge_Records Shred_Exit Shred_Ingest Event_Bus Config Decision Engine_Steps Executor
begin

text \<open>
  The supervisor (\<open>Supervisor\<close> of \<open>crates/runtime/src/lib.rs\<close>): the state that one run of the pipeline
  threads through all components, what it writes, its health report, the publication of events and the data
  gaps. The decimals, the clock, fresh identifiers, the storage engine and the segment manager (whether they
  accept a record, given what they hold) and the feature engine are fields of the environment. The clock and
  the fresh identifiers are indexed by the number of records written so far.
\<close>

subsection \<open>Outcomes\<close>

text \<open>
  A step of the supervisor returns, returns early with an error (with what it had changed by then), or panics.
\<close>

datatype 's outcome = Done 's | Aborted 's | Panicked

fun and_then :: "'s outcome \<Rightarrow> ('s \<Rightarrow> 's outcome) \<Rightarrow> 's outcome" where
  "and_then (Done s) f = f s"
| "and_then (Aborted s) f = Aborted s"
| "and_then Panicked f = Panicked"

fun each :: "('a \<Rightarrow> 's \<Rightarrow> 's outcome) \<Rightarrow> 'a list \<Rightarrow> 's \<Rightarrow> 's outcome" where
  "each f [] s = Done s"
| "each f (x # xs) s = and_then (f x s) (each f xs)"

subsection \<open>State\<close>

record feature_pressure_config =
  fp_enabled :: bool
  fp_min_snapshot_interval_ms_normal :: u64
  fp_min_snapshot_interval_ms_disk_warning :: u64
  fp_min_snapshot_interval_ms_upload_backlog :: u64
  fp_always_snapshot_on_trade :: bool
  fp_always_snapshot_on_decision :: bool
  fp_always_snapshot_on_enter_exit :: bool
  fp_skip_low_value_watch_snapshots_under_pressure :: bool

text \<open>What the segment manager is given: typed records and the two kinds of the edge collector.\<close>

datatype 'd segment_record =
    SegmentStored "'d stored_record"
  | SegmentEdge edge_event_record
  | SegmentSlot edge_slot_record

record ('d, 'q) runtime_env = "'d shred_env" +
  re_features :: "'d state_engine \<Rightarrow> 'd token_state \<Rightarrow> instant \<Rightarrow> 'd feature_snapshot"
  re_show4 :: "'d \<Rightarrow> string"
  re_parse_decimal :: "string \<Rightarrow> 'd option"
  re_payload_json :: "'d event_payload \<Rightarrow> string"
  re_now :: "u64 \<Rightarrow> instant"
  re_fresh_id :: "u64 \<Rightarrow> event_id"
  re_monotonic_ns :: "u64 \<Rightarrow> u64"
  re_storage_accepts :: "'d stored_record list \<Rightarrow> 'd stored_record \<Rightarrow> bool"
  re_segments_accept :: "(string \<times> 'd segment_record) list \<Rightarrow> string \<times> 'd segment_record \<Rightarrow> bool"
  re_upload_backlog :: "(string \<times> 'd segment_record) list \<Rightarrow> bool"
  re_disk_warning :: "(string \<times> 'd segment_record) list \<Rightarrow> bool"
  re_channel :: "('q, 'd normalized_event) channel_ops"

record ('d, 'f, 'q) supervisor =
  su_config :: "('d, 'f) app_config"
  su_feature_pressure :: feature_pressure_config
  su_config_hash :: string
  su_idl_hash :: string
  su_mode :: runtime_mode
  su_rpc_budget :: rpc_budget_manager
  su_canonical_bus :: "'q event_bus"
  su_tentative_bus :: "'q event_bus"
  su_state_engine :: "'d state_engine"
  su_risk_engine :: "'d risk_engine"
  su_decision_engine :: "'d decision_engine"
  su_paper_executor :: "'d paper_executor"
  su_shred_service :: "shred_service option"
  su_tentative_sell_manager :: "'d tentative_sell_manager"
  su_health :: "'d runtime_health"
  su_safety :: runtime_safety
  su_decisions_by_type :: "string \<rightharpoonup> u64"
  su_decisions :: "'d trade_decision_event list"
  su_decision_outcomes :: "'d decision_outcome list"
  su_latest_features :: "string \<rightharpoonup> 'd feature_snapshot"
  su_latest_risk :: "string \<rightharpoonup> 'd risk_assessment"
  su_last_feature_snapshot_at_by_mint :: "string \<rightharpoonup> instant"
  su_last_edge_slot_recorded :: "u64 option"
  su_active_data_gaps :: "scoped_data_gap list"
  su_aggregated_snapshot :: "'d state_snapshot option"
  su_audits :: "runtime_audit_event list"
  su_source_run_id :: "string option"
  su_current_scenario_id :: "string option"
  su_persist_normalized_events :: bool
  su_liquidate_on_finalize :: bool
  su_storage :: "'d stored_record list"
  su_segments :: "(string \<times> 'd segment_record) list option"
  su_record_sequence :: u64
  su_calibration_snapshot_hash :: "string option"
  su_started_at :: instant
  su_counters :: "string \<rightharpoonup> u64"
  su_emitted_snapshots :: "string set"
  su_seen_mints :: "string set"

definition text_env_of :: "('d, 'q) runtime_env \<Rightarrow> 'd text_env" where
  "text_env_of env = text_env.truncate env"

definition now_of :: "('d, 'q) runtime_env \<Rightarrow> ('d, 'f, 'q) supervisor \<Rightarrow> instant" where
  "now_of env s = re_now env (su_record_sequence s)"

definition run_id_of :: "('d, 'f, 'q) supervisor \<Rightarrow> string" where
  "run_id_of s = env_run_id (cfg_environment (su_config s))"

definition edge_collector_mode :: "('d, 'f, 'q) supervisor \<Rightarrow> bool" where
  "edge_collector_mode s \<longleftrightarrow> su_mode s = RtEdgeCollector"

definition current_snapshot :: "('d, 'f, 'q) supervisor \<Rightarrow> 'd state_snapshot" where
  "current_snapshot s = (case su_aggregated_snapshot s of
     Some snapshot \<Rightarrow> snapshot | None \<Rightarrow> engine_snapshot (su_state_engine s))"

text \<open>The counters of the replay profile; the timings beside them are left out.\<close>

definition profile_inc :: "string \<Rightarrow> u64 \<Rightarrow> ('d, 'f, 'q) supervisor \<Rightarrow> ('d, 'f, 'q) supervisor" where
  "profile_inc counter amount s =
    s\<lparr>su_counters := (su_counters s)(counter \<mapsto> unwrap_or 0 (su_counters s counter) + amount)\<rparr>"

definition profile_set_max :: "string \<Rightarrow> u64 \<Rightarrow> ('d, 'f, 'q) supervisor \<Rightarrow> ('d, 'f, 'q) supervisor" where
  "profile_set_max counter x s =
    s\<lparr>su_counters := (su_counters s)(counter \<mapsto> max (unwrap_or 0 (su_counters s counter)) x)\<rparr>"

subsection \<open>Records\<close>

definition tag_record ::
  "'d stored_record \<Rightarrow> ('d, 'f, 'q) supervisor \<Rightarrow> 'd stored_record \<times> ('d, 'f, 'q) supervisor" where
  "tag_record r s =
    (let sequence = sat_add (su_record_sequence s) 1;
         r = with_calibration_snapshot_hash (su_calibration_snapshot_hash s)
               (with_runtime_sequence_number sequence (with_run_id (run_id_of s) r));
         r = (case su_current_scenario_id s of Some scenario_id \<Rightarrow> with_scenario_id scenario_id r | None \<Rightarrow> r) in
     (r, s\<lparr>su_record_sequence := sequence\<rparr>))"

definition new_record ::
  "dataset_kind \<Rightarrow> string \<Rightarrow> string \<Rightarrow> instant option \<Rightarrow> 'd stored_payload \<Rightarrow> ('d, 'f, 'q) supervisor \<Rightarrow>
   'd stored_record \<times> ('d, 'f, 'q) supervisor" where
  "new_record dataset source canonicality no_lookahead payload s =
    tag_record (new_stored_record dataset (su_config_hash s) (su_idl_hash s)
      (Some (env_strategy_version (cfg_environment (su_config s)))) source canonicality no_lookahead payload) s"

definition append_storage ::
  "('d, 'q) runtime_env \<Rightarrow> 'd stored_record \<Rightarrow> ('d, 'f, 'q) supervisor \<Rightarrow> ('d, 'f, 'q) supervisor outcome" where
  "append_storage env r s =
    (if re_storage_accepts env (su_storage s) r then Done (s\<lparr>su_storage := su_storage s @ [r]\<rparr>) else Aborted s)"

definition append_segment ::
  "('d, 'q) runtime_env \<Rightarrow> string \<Rightarrow> 'd segment_record \<Rightarrow> ('d, 'f, 'q) supervisor \<Rightarrow>
   ('d, 'f, 'q) supervisor outcome" where
  "append_segment env stream r s =
    (case su_segments s of
       None \<Rightarrow> Done s
     | Some entries \<Rightarrow>
         (if re_segments_accept env entries (stream, r) then Done (s\<lparr>su_segments := Some (entries @ [(stream, r)])\<rparr>)
          else Aborted s))"

definition write_record ::
  "('d, 'q) runtime_env \<Rightarrow> string list \<Rightarrow> 'd stored_record \<Rightarrow> ('d, 'f, 'q) supervisor \<Rightarrow>
   ('d, 'f, 'q) supervisor outcome" where
  "write_record env streams r s =
    and_then (append_storage env r s) (each (\<lambda>stream. append_segment env stream (SegmentStored r)) streams)"

definition audit ::
  "('d, 'q) runtime_env \<Rightarrow> runtime_audit_kind \<Rightarrow> (string \<rightharpoonup> string) \<Rightarrow> reason_code list \<Rightarrow>
   ('d, 'f, 'q) supervisor \<Rightarrow> ('d, 'f, 'q) supervisor outcome" where
  "audit env kind details reasons s =
    (let event = \<lparr>rv_at = now_of env s, rv_kind = kind, rv_run_id = run_id_of s, rv_details = details,
                  rv_reason_codes = reasons\<rparr>;
         (r, s) = new_record RuntimeAuditLog ''runtime'' ''audit'' (Some (rv_at event)) (StoredAudit event) s in
     and_then (write_record env [''runtime_audit''] r s) (\<lambda>s. Done (s\<lparr>su_audits := su_audits s @ [event]\<rparr>)))"

fun debug_canonicality :: "canonicality \<Rightarrow> string" where
  "debug_canonicality Tentative = ''Tentative''"
| "debug_canonicality Processed = ''Processed''"
| "debug_canonicality Confirmed = ''Confirmed''"
| "debug_canonicality Rooted = ''Rooted''"
| "debug_canonicality Reverted = ''Reverted''"
| "debug_canonicality canonicality.Unknown = ''Unknown''"

definition event_record ::
  "'d normalized_event \<Rightarrow> ('d, 'f, 'q) supervisor \<Rightarrow> 'd stored_record \<times> ('d, 'f, 'q) supervisor" where
  "event_record event =
    new_record NormalizedEventLog (to_lowercase (debug_event_source (em_source (ne_meta event))))
      (to_lowercase (debug_canonicality (em_canonicality (ne_meta event))))
      (Some (em_received_at_wall_time (ne_meta event))) (StoredEvent event)"

end
