(* ===== verification/Supervisor_Health.thy ===== *)
theory Supervisor_Health
  imports Supervisor
begin

text \<open>
  The health report of the supervisor, the readiness answer built on it, the data gap state, and the
  publication of events on the two buses (\<open>refresh_health\<close>, \<open>ready_state\<close>, \<open>update_data_gap_state\<close>,
  \<open>publish_canonical\<close>, \<open>publish_tentative\<close>, \<open>persist_edge_stream_records\<close> of \<open>crates/runtime/src/lib.rs\<close>).
\<close>

subsection \<open>Health\<close>

text \<open>
  The labels of the early-intent sources in the order of the \<open>BTreeMap\<close> they key; every key of the source
  metrics is one of them, and every duplicate pair joins two of them.
\<close>

definition source_labels :: "string list" where
  "source_labels = [''deshredpreexecution'', ''fixturetentative'', ''mockearlyintent'', ''rawshred'', ''replaytentative'']"

definition dedup_pair_labels :: "string list" where
  "dedup_pair_labels = concat (map (\<lambda>a. map (\<lambda>b. a @ bar_sep @ b) source_labels) source_labels)"

definition sources_active :: "(string \<rightharpoonup> ('d::linordered_field) source_metrics) \<Rightarrow> string list" where
  "sources_active m = filter (\<lambda>label. case m label of Some c \<Rightarrow> sc_tentative_sell_total c > 0 | None \<Rightarrow> False) source_labels"

definition dedup_total :: "(string \<rightharpoonup> u64) \<Rightarrow> u64" where
  "dedup_total pairs = sum_list (map (\<lambda>pair. unwrap_or 0 (pairs pair)) dedup_pair_labels)"

text \<open>The numbers of tokens the report shows: those of the merged snapshot where there is one.\<close>

definition token_counts :: "('d, 'f, 'q) supervisor \<Rightarrow> usize \<times> usize \<times> usize" where
  "token_counts s =
    (case su_aggregated_snapshot s of
       Some snapshot \<Rightarrow>
         (count_usize (ss_tokens snapshot), count_usize (ss_discarded_summaries snapshot),
          count_usize (filter (\<lambda>(mint, token). tok_lifecycle token = LcRugArchive) (ss_tokens snapshot)))
     | None \<Rightarrow>
         (count_usize (se_tokens (su_state_engine s)), count_usize (se_discarded_summaries (su_state_engine s)),
          rugged_token_count (su_state_engine s)))"

definition open_scope :: "scoped_data_gap list \<Rightarrow> string option" where
  "open_scope gaps = map_option (\<lambda>gap. debug_gap_scope (rg_scope gap))
    (find (\<lambda>gap. rg_active gap \<and> rg_trade_blocking gap) gaps)"

definition uptime_ms :: "instant \<Rightarrow> instant \<Rightarrow> u64" where
  "uptime_ms now started_at = word_of_int (max 0 (whole_milliseconds (now - started_at)))"

definition books_health :: "('d, 'f, 'q) supervisor \<Rightarrow> 'd runtime_health \<Rightarrow> 'd runtime_health" where
  "books_health s h =
    (let ledger = pe_ledger (su_paper_executor s) in
     h\<lparr>rh_active_positions := count_usize (pe_positions (su_paper_executor s)),
       rh_paper_pnl := pl_closed_pnl ledger, rh_realized_pnl := pl_closed_pnl ledger, rh_fee_drag := pl_fee_drag ledger,
       rh_slippage_drag := pl_slippage_drag ledger, rh_latency_drag := pl_latency_drag ledger\<rparr>)"

definition budget_health :: "('d, 'f, 'q) supervisor \<Rightarrow> 'd runtime_health \<Rightarrow> 'd runtime_health" where
  "budget_health s h =
    (let budget = budget_summary (su_rpc_budget s); stream_only = stream_only_validation_summary (su_config s) in
     h\<lparr>rh_rpc_budget_healthy := sum_daily_used budget \<le> sum_daily_limit budget,
       rh_stream_only_enabled := sos_stream_only_enabled stream_only, rh_stream_only_passed := sos_passed stream_only,
       rh_rpc_network_calls_total := of_nat (network_calls_total budget),
       rh_rpc_credits_used_total := sum_daily_used budget, rh_rpc_denials_total := of_nat (denied_entries budget),
       rh_market_data_rpc_calls_allowed := rpc_budget_summary.market_data_rpc_calls_allowed budget,
       rh_holder_rpc_calls_allowed := rpc_budget_summary.holder_rpc_calls_allowed budget,
       rh_metadata_fetch_allowed := rpc_budget_summary.metadata_fetch_allowed budget,
       rh_confirmation_rpc_allowed := rpc_budget_summary.confirmation_rpc_allowed budget,
       rh_blockhash_rpc_allowed := rpc_budget_summary.blockhash_rpc_allowed budget\<rparr>)"

definition label_total ::
  "('d source_metrics \<Rightarrow> 'a) \<Rightarrow> 'a \<Rightarrow> (string \<rightharpoonup> 'd source_metrics) \<Rightarrow> string \<Rightarrow> 'a" where
  "label_total field zero m label = (case m label of Some c \<Rightarrow> field c | None \<Rightarrow> zero)"

definition source_health ::
  "('d::linordered_field) tentative_sell_manager \<Rightarrow> 'd runtime_health \<Rightarrow> 'd runtime_health" where
  "source_health mgr h =
    (let m = tm_source_metrics mgr; deshred = ''deshredpreexecution'' in
     h\<lparr>rh_deshred_tentative_sells_total := label_total sc_tentative_sell_total 0 m deshred,
       rh_deshred_malicious_warnings_total := label_total sc_malicious_sell_warning_total 0 m deshred,
       rh_deshred_emergency_exits_armed_total := label_total sc_emergency_exits_armed_total 0 m deshred,
       rh_deshred_emergency_exits_triggered_total := label_total sc_emergency_exits_triggered_total 0 m deshred,
       rh_deshred_confirmed_executed_total := label_total sc_confirmed_executed_total 0 m deshred,
       rh_deshred_false_positive_total := label_total sc_false_positive_exit_total 0 m deshred,
       rh_deshred_saved_loss_quote_total := label_total sc_saved_loss_quote_total 0 m deshred,
       rh_deshred_opportunity_cost_quote_total := label_total sc_opportunity_cost_quote_total 0 m deshred,
       rh_raw_shred_tentative_sells_total := label_total sc_tentative_sell_total 0 m ''rawshred'',
       rh_mock_early_intent_tentative_sells_total := label_total sc_tentative_sell_total 0 m ''mockearlyintent'',
       rh_fixture_early_intent_tentative_sells_total := label_total sc_tentative_sell_total 0 m ''fixturetentative'',
       rh_replay_early_intent_tentative_sells_total := label_total sc_tentative_sell_total 0 m ''replaytentative'',
       rh_early_intent_dedup_pairs := tm_dedup_pairs mgr, rh_source_dedup_count := dedup_total (tm_dedup_pairs mgr),
       rh_early_intent_sources_active := sources_active m\<rparr>)"

definition shred_health ::
  "('d::linordered_field) tentative_sell_manager \<Rightarrow> 'd runtime_health \<Rightarrow> 'd runtime_health" where
  "shred_health mgr h =
    (let m = tm_metrics mgr in
     h\<lparr>rh_shred_tentative_sells_total := sm_tentative_sell_total m,
       rh_shred_malicious_sell_warnings_total := sm_malicious_sell_warning_total m,
       rh_shred_emergency_exits_armed_total := sm_emergency_exits_armed_total m,
       rh_shred_emergency_exits_triggered_total := sm_emergency_exits_triggered_total m,
       rh_shred_confirmed_executed_total := sm_confirmed_executed_total m,
       rh_shred_confirmed_failed_total := sm_confirmed_failed_total m,
       rh_shred_not_seen_within_ttl_total := sm_not_seen_within_ttl_total m, rh_shred_reorged_total := sm_reorged_total m,
       rh_shred_decode_mismatch_total := sm_decode_mismatch_total m,
       rh_shred_account_effect_confirmed_total := sm_account_effect_confirmed_total m,
       rh_shred_sell_false_positive_total := sm_false_positive_exit_total m,
       rh_shred_saved_loss_quote_total := sm_saved_loss_quote_total m,
       rh_shred_opportunity_cost_quote_total := sm_opportunity_cost_quote_total m\<rparr>)"

definition refresh_health ::
  "('d::linordered_field, 'q) runtime_env \<Rightarrow> ('d, 'f, 'q) supervisor \<Rightarrow> ('d, 'f, 'q) supervisor" where
  "refresh_health env s =
    (let (active, discarded, rugged) = token_counts s; mgr = su_tentative_sell_manager s;
         h = budget_health s (books_health s (su_health s));
         h = h\<lparr>rh_active_tokens := active, rh_discarded_tokens := discarded, rh_rugged_tokens := rugged,
           rh_data_gap_active := list_ex rg_active (su_active_data_gaps s),
           rh_data_gap_scope := open_scope (su_active_data_gaps s),
           rh_runtime_uptime_ms := uptime_ms (now_of env s) (su_started_at s),
           rh_early_intent_enabled := ei_enabled (tm_early_intent mgr)\<rparr>;
         h = source_health mgr h in
     s\<lparr>su_health := (if su_aggregated_snapshot s = None then shred_health mgr h else h)\<rparr>)"

definition ready_state :: "'d runtime_health \<Rightarrow> runtime_safety \<Rightarrow> bool \<times> string list" where
  "ready_state h safety =
    (let reasons =
       (if rh_storage_healthy h then [] else [''storage_unhealthy'']) @
       (if rh_rpc_budget_healthy h then [] else [''rpc_budget_unhealthy'']) @
       (if rh_kill_switch_active h then [''kill_switch_active''] else []) @
       (if rh_mode h = RtLiveDataPaper \<and> \<not> rh_geyser_connected h then [''geyser_unhealthy''] else []) @
       (if rh_data_gap_active h \<and> rh_data_gap_scope h = Some ''Global'' then [''global_data_gap''] else []) @
       (if \<not> rs_trade_allowed safety \<and> rh_data_gap_scope h = Some ''Global'' then [''global_trade_block''] else [])
     in (reasons = [], reasons))"

subsection \<open>Data gaps\<close>

definition recompute_safety ::
  "('d::linordered_field, 'q) runtime_env \<Rightarrow> ('d, 'f, 'q) supervisor \<Rightarrow> ('d, 'f, 'q) supervisor" where
  "recompute_safety env s = refresh_health env
    (s\<lparr>su_safety := gate_safety (lv_enabled (cfg_live (su_config s))) (su_active_data_gaps s) (su_safety s)\<rparr>)"

definition update_gap ::
  "('d::linordered_field, 'q) runtime_env \<Rightarrow> scoped_data_gap \<Rightarrow> ('d, 'f, 'q) supervisor \<Rightarrow>
   ('d, 'f, 'q) supervisor outcome" where
  "update_gap env gap s =
    (if rg_active gap then
       and_then (audit env DataGapStarted
           [''scope'' \<mapsto> debug_gap_scope (rg_scope gap), ''token'' \<mapsto> unwrap_or ''_none'' (rg_affected_token gap)]
           (rg_reason_codes gap) s)
         (\<lambda>s. Done (s\<lparr>su_active_data_gaps := note_gap gap (su_active_data_gaps s)\<rparr>))
     else
       audit env DataGapRecovered [''scope'' \<mapsto> debug_gap_scope (rg_scope gap)] (rg_reason_codes gap)
         (s\<lparr>su_active_data_gaps := note_gap gap (su_active_data_gaps s)\<rparr>))"

definition update_data_gap_state ::
  "('d::linordered_field, 'q) runtime_env \<Rightarrow> data_gap_event \<Rightarrow> ('d, 'f, 'q) supervisor \<Rightarrow>
   ('d, 'f, 'q) supervisor outcome" where
  "update_data_gap_state env payload s =
    and_then (each (update_gap env) (scoped_gaps_from_event payload (run_id_of s) (su_current_scenario_id s)) s)
      (\<lambda>s. Done (recompute_safety env s))"

definition token_trade_allowed :: "string \<Rightarrow> ('d, 'f, 'q) supervisor \<Rightarrow> bool \<times> reason_code list" where
  "token_trade_allowed mint s = trade_allowed (su_active_data_gaps s) (su_safety s) mint"

subsection \<open>Publication\<close>

text \<open>\<open>StateEngine::apply_event\<close> on the supervisor's engine.\<close>

definition engine_apply ::
  "('d::linordered_field, 'q) runtime_env \<Rightarrow> 'd normalized_event \<Rightarrow> ('d, 'f, 'q) supervisor \<Rightarrow>
   ('d, 'f, 'q) supervisor outcome" where
  "engine_apply env event s =
    (case apply_event (text_env_of env) event (su_state_engine s) of
       None \<Rightarrow> Panicked
     | Some (engine, _) \<Rightarrow> Done (s\<lparr>su_state_engine := engine\<rparr>))"

definition synthetic_gap_event ::
  "('d::linordered_field, 'q) runtime_env \<Rightarrow> ('d, 'f, 'q) supervisor \<Rightarrow> u64 \<Rightarrow> event_source \<Rightarrow> 'd normalized_event" where
  "synthetic_gap_event env s slot source =
    \<lparr>ne_meta = new_event_meta (re_fresh_id env (su_record_sequence s)) 1 source Processed slot,
     ne_payload = DataGapPayload (synthetic_gap slot source)\<rparr>"

definition overflow_gap ::
  "('d::linordered_field, 'q) runtime_env \<Rightarrow> 'd normalized_event \<Rightarrow> ('d, 'f, 'q) supervisor \<Rightarrow>
   ('d, 'f, 'q) supervisor outcome" where
  "overflow_gap env gap s =
    and_then (engine_apply env gap s)
      (\<lambda>s. and_then (case ne_payload gap of DataGapPayload payload \<Rightarrow> update_data_gap_state env payload s | _ \<Rightarrow> Panicked)
        (\<lambda>s. if su_persist_normalized_events s
             then (let (r, s) = new_record NormalizedEventLog ''runtime'' ''processed''
                      (Some (em_received_at_wall_time (ne_meta gap))) (StoredEvent gap) s in append_storage env r s)
             else Done s))"

definition publish_canonical ::
  "('d::linordered_field, 'q) runtime_env \<Rightarrow> 'd normalized_event \<Rightarrow> ('d, 'f, 'q) supervisor \<Rightarrow>
   ('d, 'f, 'q) supervisor outcome" where
  "publish_canonical env event s =
    (case try_publish (re_channel env) PriorityHigh event (su_canonical_bus s) of
       Inr bus \<Rightarrow> Done (s\<lparr>su_canonical_bus := bus\<rparr>)
     | Inl BusFull \<Rightarrow>
         (let s = s\<lparr>su_health := (su_health s)
                \<lparr>rh_canonical_events_dropped := sat_add (rh_canonical_events_dropped (su_health s)) 1\<rparr>\<rparr> in
          and_then (audit env QueueOverflow [''queue'' \<mapsto> ''canonical''] [CanonicalQueueOverflow] s)
            (\<lambda>s. overflow_gap env (synthetic_gap_event env s (em_slot (ne_meta event)) GeyserProcessed) s))
     | Inl BusClosed \<Rightarrow> Aborted s)"

definition publish_tentative ::
  "('d::linordered_field, 'q) runtime_env \<Rightarrow> 'd normalized_event \<Rightarrow> ('d, 'f, 'q) supervisor \<Rightarrow>
   ('d, 'f, 'q) supervisor outcome" where
  "publish_tentative env event s =
    (case try_publish (re_channel env) PriorityLow event (su_tentative_bus s) of
       Inr bus \<Rightarrow> Done (s\<lparr>su_tentative_bus := bus\<rparr>)
     | Inl BusFull \<Rightarrow> audit env QueueOverflow [''queue'' \<mapsto> ''tentative''] [TentativeQueueOverflow] s
     | Inl BusClosed \<Rightarrow> Aborted s)"

subsection \<open>The edge collector's records\<close>

definition edge_event_record_of ::
  "('d::linordered_field, 'q) runtime_env \<Rightarrow> 'd normalized_event \<Rightarrow> ('d, 'f, 'q) supervisor \<Rightarrow> edge_event_record" where
  "edge_event_record_of env event s =
    (let meta = ne_meta event; payload = ne_payload event in
     \<lparr>ee_run_id = run_id_of s, ee_sequence_number = sat_add (su_record_sequence s) 1, ee_source = em_source meta,
      ee_slot = em_slot meta, ee_event_time = em_received_at_wall_time meta, ee_signature = event_signature event,
      ee_mint = event_mint event, ee_event_type = event_type_label payload, ee_program_id = edge_program_id payload,
      ee_instruction_discriminator = Some (event_type_label payload),
      ee_decoded_fields = re_payload_json env payload, ee_account_keys = edge_account_keys payload,
      ee_token_balance_deltas = edge_token_balance_deltas (tx_show_decimal env) payload,
      ee_transaction_status = edge_transaction_status payload, ee_compute_budget = edge_compute_budget payload,
      ee_raw_update_hash = map_option rr_source_id (em_raw_reference meta), ee_canonicality = em_canonicality meta,
      ee_data_gap_flags = map (\<lambda>flag. to_lowercase (debug_quality_flag flag)) (em_data_quality_flags meta),
      ee_stream_only_passed = rh_stream_only_passed (su_health s)\<rparr>)"

definition edge_slot_record_of :: "'d normalized_event \<Rightarrow> ('d, 'f, 'q) supervisor \<Rightarrow> edge_slot_record" where
  "edge_slot_record_of event s =
    (let meta = ne_meta event in
     \<lparr>es_run_id = run_id_of s, es_source = em_source meta, es_slot = em_slot meta, es_parent_slot = em_parent_slot meta,
      es_event_time = em_received_at_wall_time meta, es_canonicality = em_canonicality meta,
      es_data_gap_active = rh_data_gap_active (su_health s),
      es_stream_only_passed = rh_stream_only_passed (su_health s)\<rparr>)"

definition persist_edge_stream_records ::
  "('d::linordered_field, 'q) runtime_env \<Rightarrow> 'd normalized_event \<Rightarrow> ('d, 'f, 'q) supervisor \<Rightarrow>
   ('d, 'f, 'q) supervisor outcome" where
  "persist_edge_stream_records env event s =
    (let (r, s) = event_record event s; edge = edge_event_record_of env event s; slot = edge_slot_record_of event s;
         emit_slot = (su_last_edge_slot_recorded s \<noteq> Some (em_slot (ne_meta event))) in
     if su_segments s = None then Done s
     else and_then (append_segment env ''normalized_events'' (SegmentStored r) s)
       (\<lambda>s. and_then (append_segment env ''source_events'' (SegmentStored r) s)
         (\<lambda>s. and_then (append_segment env (edge_stream (ne_payload event)) (SegmentEdge edge) s)
           (\<lambda>s. and_then
             (if emit_slot then and_then (append_segment env ''edge_slots'' (SegmentSlot slot) s)
                (\<lambda>s. Done (s\<lparr>su_last_edge_slot_recorded := Some (em_slot (ne_meta event))\<rparr>)) else Done s)
             (\<lambda>s. Done (s\<lparr>su_health := (su_health s)\<lparr>rh_last_persist_time := Some (now_of env s)\<rparr>\<rparr>))))))"

end
