(* ===== verification/Pipeline.thy ===== *)
theory Pipeline
  imports Supervisor_Health
begin

text \<open>
  One event through the pipeline (\<open>handle_event\<close> of \<open>crates/runtime/src/lib.rs\<close>): intake, the token state, the
  features and the risk of the token it names, the tentative sells, the decision with its annotations and the
  trading block, the paper executor, the feature snapshot; and the drain loop with the end of a run.
\<close>

subsection \<open>Intake\<close>

definition is_geyser :: "event_source \<Rightarrow> bool" where
  "is_geyser source \<longleftrightarrow> source \<in> {GeyserProcessed, GeyserConfirmed, GeyserRooted}"

definition real_reference :: "'d event_meta \<Rightarrow> bool" where
  "real_reference meta = (case em_raw_reference meta of
     Some r \<Rightarrow> \<not> starts_with (rr_source_id r) ''mock'' \<and> \<not> starts_with (rr_source_id r) ''fixture'' | None \<Rightarrow> True)"

fun is_observed :: "'d event_payload \<Rightarrow> bool" where
  "is_observed (ObservedTransaction _) = True"
| "is_observed _ = False"

fun is_sell :: "'d event_payload \<Rightarrow> bool" where
  "is_sell (PumpSell _) = True"
| "is_sell _ = False"

fun is_gap :: "'d event_payload \<Rightarrow> bool" where
  "is_gap (DataGapPayload _) = True"
| "is_gap _ = False"

definition count_event ::
  "('d::linordered_field, 'q) runtime_env \<Rightarrow> 'd normalized_event \<Rightarrow> ('d, 'f, 'q) supervisor \<Rightarrow>
   ('d, 'f, 'q) supervisor" where
  "count_event env event s =
    (let meta = ne_meta event; source = em_source meta; h = su_health s;
         canonical = bus_len (re_channel env) (su_canonical_bus s);
         tentative = bus_len (re_channel env) (su_tentative_bus s);
         h = h\<lparr>rh_events_processed := sat_add (rh_events_processed h) 1,
           rh_last_event_time := Some (em_received_at_wall_time meta), rh_canonical_queue_depth := canonical,
           rh_tentative_queue_depth := tentative, rh_event_queue_depth := canonical + tentative,
           rh_geyser_connected := rh_geyser_connected h \<or> is_geyser source,
           rh_deshred_connected := rh_deshred_connected h \<or> source = DeshredTentative,
           rh_shred_connected := rh_shred_connected h \<or> source = ShredTentative,
           rh_raw_shred_connected := rh_raw_shred_connected h \<or> source = ShredTentative \<and> real_reference meta\<rparr>;
         h = (if is_geyser source
              then h\<lparr>rh_geyser_events_received := sat_add (rh_geyser_events_received h) 1,
                     rh_geyser_last_event_time := Some (em_received_at_wall_time meta)\<rparr> else h);
         h = (if source = DeshredTentative
              then h\<lparr>rh_deshred_events_received := sat_add (rh_deshred_events_received h) 1,
                     rh_deshred_provider_status := ''connected''\<rparr> else h);
         h = (if source = DeshredTentative \<and> is_observed (ne_payload event)
              then h\<lparr>rh_deshred_transactions_decoded := sat_add (rh_deshred_transactions_decoded h) 1\<rparr> else h) in
     s\<lparr>su_health := h\<rparr>)"

definition persist_event ::
  "('d::linordered_field, 'q) runtime_env \<Rightarrow> 'd normalized_event \<Rightarrow> ('d, 'f, 'q) supervisor \<Rightarrow>
   ('d, 'f, 'q) supervisor outcome" where
  "persist_event env event s =
    (if edge_collector_mode s then persist_edge_stream_records env event s
     else if su_persist_normalized_events s then
       (let (r, s) = event_record event s in
        and_then (write_record env [''normalized_events'', ''source_events''] r s)
          (\<lambda>s. Done (s\<lparr>su_health := (su_health s)\<lparr>rh_last_persist_time := Some (now_of env s)\<rparr>\<rparr>)))
     else Done s)"

definition reconcile_shreds ::
  "'d normalized_event \<Rightarrow> bool \<Rightarrow> ('d, 'f, 'q) supervisor \<Rightarrow> ('d, 'f, 'q) supervisor" where
  "reconcile_shreds event tentative s =
    (if tentative then s
     else s\<lparr>su_shred_service := map_option (\<lambda>service. fst (service_reconcile service event)) (su_shred_service s)\<rparr>)"

definition note_data_gap ::
  "('d::linordered_field, 'q) runtime_env \<Rightarrow> 'd normalized_event \<Rightarrow> bool \<Rightarrow> ('d, 'f, 'q) supervisor \<Rightarrow>
   ('d, 'f, 'q) supervisor outcome" where
  "note_data_gap env event tentative s =
    (case ne_payload event of
       DataGapPayload payload \<Rightarrow>
         update_data_gap_state env payload
           (if tentative then s
            else s\<lparr>su_health := (su_health s)\<lparr>rh_geyser_gap_count := sat_add (rh_geyser_gap_count (su_health s)) 1\<rparr>\<rparr>)
     | _ \<Rightarrow> Done s)"

definition intake ::
  "('d::linordered_field, 'q) runtime_env \<Rightarrow> 'd normalized_event \<Rightarrow> bool \<Rightarrow> ('d, 'f, 'q) supervisor \<Rightarrow>
   ('d, 'f, 'q) supervisor outcome" where
  "intake env event tentative s =
    and_then (persist_event env event (count_event env event s))
      (\<lambda>s. and_then (engine_apply env event (reconcile_shreds event tentative s))
        (\<lambda>s. note_data_gap env event tentative (profile_inc ''token_dirty_set_update'' 1 s)))"

subsection \<open>Derived events\<close>

definition apply_derived_runtime_event ::
  "('d::linordered_field, 'q) runtime_env \<Rightarrow> 'd normalized_event \<Rightarrow> ('d, 'f, 'q) supervisor \<Rightarrow>
   ('d, 'f, 'q) supervisor outcome" where
  "apply_derived_runtime_event env event s =
    and_then (engine_apply env event s)
      (\<lambda>s. and_then (case ne_payload event of
             DataGapPayload payload \<Rightarrow> update_data_gap_state env payload s | _ \<Rightarrow> Done s)
        (\<lambda>s. if su_persist_normalized_events s
             then (let (r, s) = event_record event s in
               write_record env [''normalized_events'', ''source_events''] r s)
             else Done s))"

text \<open>The events the tentative sell manager derives from an event.\<close>

definition derive_sells ::
  "('d::linordered_field, 'q) runtime_env \<Rightarrow> 'd normalized_event \<Rightarrow> bool \<Rightarrow> string \<Rightarrow> 'd token_state \<Rightarrow>
   'd feature_snapshot \<Rightarrow> 'd risk_assessment \<Rightarrow> ('d, 'f, 'q) supervisor \<Rightarrow>
   'd tentative_sell_manager \<times> 'd normalized_event list" where
  "derive_sells env event tentative mint token f risk s =
    (let mgr = su_tentative_sell_manager s in
     if tentative \<and> is_sell (ne_payload event)
     then detect_tentative_sell env event token f risk (position_context (su_paper_executor s) mint) mgr
     else if \<not> tentative
     then reconcile_sells env event (map_of (se_tokens (su_state_engine s)) mint) mgr
     else (mgr, []))"

definition expire_pending ::
  "('d::linordered_field, 'q) runtime_env \<Rightarrow> instant \<Rightarrow> ('d, 'f, 'q) supervisor \<Rightarrow>
   ('d, 'f, 'q) supervisor \<times> 'd normalized_event list" where
  "expire_pending env now s =
    (if has_pending (su_tentative_sell_manager s)
     then (let (mgr, expired) = expire_sells env (re_fresh_id env (su_record_sequence s)) now
             (engine_snapshot (su_state_engine s)) (su_tentative_sell_manager s) in
           (profile_inc ''full_state_scans'' 1 (s\<lparr>su_tentative_sell_manager := mgr\<rparr>), expired))
     else (s, []))"

subsection \<open>The decision\<close>

text \<open>\<open>unix_timestamp_nanos\<close> is the instant itself.\<close>

fun debug_trade_decision :: "trade_decision \<Rightarrow> string" where
  "debug_trade_decision trade_decision.Ignore = ''Ignore''"
| "debug_trade_decision WatchLight = ''WatchLight''"
| "debug_trade_decision WatchDeep = ''WatchDeep''"
| "debug_trade_decision EnterPaper = ''EnterPaper''"
| "debug_trade_decision EnterLive = ''EnterLive''"
| "debug_trade_decision Hold = ''Hold''"
| "debug_trade_decision ScaleOut = ''ScaleOut''"
| "debug_trade_decision Exit = ''Exit''"
| "debug_trade_decision EmergencyExit = ''EmergencyExit''"
| "debug_trade_decision StopTracking = ''StopTracking''"

definition on_decision ::
  "('d trade_decision_event \<Rightarrow> 'd trade_decision_event) \<Rightarrow> 'd decision_outcome \<Rightarrow> 'd decision_outcome" where
  "on_decision f d = d\<lparr>do_decision_event := f (do_decision_event d)\<rparr>"

definition add_reasons :: "reason_code list \<Rightarrow> 'd decision_outcome \<Rightarrow> 'd decision_outcome" where
  "add_reasons reasons = on_decision (\<lambda>e. e\<lparr>td_reason_codes := td_reason_codes e @ reasons\<rparr>)"

definition add_diagnostics :: "string list \<Rightarrow> 'd decision_outcome \<Rightarrow> 'd decision_outcome" where
  "add_diagnostics lines d = d\<lparr>do_diagnostics := do_diagnostics d @ lines\<rparr>"

definition decide_as :: "trade_decision \<Rightarrow> 'd decision_outcome \<Rightarrow> 'd decision_outcome" where
  "decide_as decision = on_decision (\<lambda>e. e\<lparr>td_decision := decision\<rparr>)"

text \<open>A tentative event does not open a position.\<close>

definition hold_back_tentative :: "bool \<Rightarrow> 'd decision_outcome \<Rightarrow> 'd decision_outcome" where
  "hold_back_tentative tentative d =
    (if tentative \<and> td_decision (do_decision_event d) \<in> {EnterPaper, EnterLive}
     then add_reasons [TentativeOnly] (decide_as WatchDeep d) else d)"

definition optional_line :: "string \<Rightarrow> ('a \<Rightarrow> string) \<Rightarrow> 'a option \<Rightarrow> string list" where
  "optional_line key show x = (case x of Some y \<Rightarrow> [key @ show y] | None \<Rightarrow> [])"

definition shred_exit_diagnostics :: "('d \<Rightarrow> string) \<Rightarrow> ('d::linordered_field) token_state \<Rightarrow> string list" where
  "shred_exit_diagnostics show_dec token =
    (let sd = tok_shred_defense token;
         tracking = (case sd_pending_tentative_sells sd of [] \<Rightarrow> None | (_, t) # _ \<Rightarrow> Some t);
         show_ms = (\<lambda>x. show_int (sint x)) in
     optional_line ''trigger_event_id='' id (sd_active_triggered_exit_event_id sd) @
     optional_line ''malicious_sell_seller='' id (sd_active_dangerous_seller sd) @
     optional_line ''malicious_sell_classification='' (\<lambda>c. to_lowercase (debug_classification c))
       (sd_active_seller_classification sd) @
     [''expected_exit_price='' @ show_dec (case tracking of Some t \<Rightarrow> tk_warning_price t | None \<Rightarrow> tok_latest_price token),
      ''estimated_saved_loss_quote='' @ show_dec (sd_shred_saved_loss_estimate sd),
      ''realized_loss_saved_quote='' @ show_dec (sd_shred_saved_loss_realized sd),
      ''opportunity_cost_if_false_positive='' @ show_dec (sd_shred_exit_opportunity_cost sd)] @
     optional_line ''early_intent_to_geyser_processed_latency_ms='' show_ms (sd_shred_to_geyser_processed_ms sd) @
     optional_line ''early_intent_to_account_effect_latency_ms='' show_ms
       (sd_shred_to_account_effect_confirmation_ms sd) @
     optional_line ''early_intent_to_rooted_latency_ms='' show_ms (sd_shred_to_rooted_confirmation_ms sd) @
     optional_line ''malicious_sell_signature='' id (Option.bind tracking tk_signature) @
     [''exit_by=shred_emergency_exit''])"

definition apply_shred_defense_annotations ::
  "('d \<Rightarrow> string) \<Rightarrow> ('d::linordered_field) token_state \<Rightarrow> 'd decision_outcome \<Rightarrow> 'd decision_outcome" where
  "apply_shred_defense_annotations show_dec token d =
    (let sd = tok_shred_defense token;
         d = (if sd_shred_emergency_exit_triggered_flag sd
              then add_diagnostics (shred_exit_diagnostics show_dec token)
                (add_reasons [reason_code.ShredEmergencyExit] d)
              else if sd_shred_exit_armed_flag sd then add_reasons [ShredExitArmed] d
              else if sd_last_warning_level sd \<noteq> None then add_reasons [EarlyIntentSellWarning] d
              else d) in
     if sd_shred_signal_stale_flag sd then add_reasons [ShredSignalStale] d else d)"

definition apply_runtime_safety_for_token ::
  "'d token_state \<Rightarrow> ('d, 'f, 'q) supervisor \<Rightarrow> 'd decision_outcome \<Rightarrow> 'd decision_outcome" where
  "apply_runtime_safety_for_token token s d =
    (let (allowed, reasons) = token_trade_allowed (tok_mint token) s in
     if allowed then d
     else decide_as (if tok_lifecycle token = LcInPosition then EmergencyExit else StopTracking) (add_reasons reasons d))"

definition deterministic_decision_id ::
  "('d::linordered_field, 'q) runtime_env \<Rightarrow> 'd normalized_event \<Rightarrow> 'd trade_decision_event \<Rightarrow>
   ('d, 'f, 'q) supervisor \<Rightarrow> string" where
  "deterministic_decision_id env event e s =
    tx_show_uuid env (tx_id_from_seed env
      (''decision:'' @ unwrap_or (run_id_of s) (su_source_run_id s) @ '':'' @
       unwrap_or ''_all'' (su_current_scenario_id s) @ '':'' @ tx_show_uuid env (em_event_id (ne_meta event)) @ '':'' @
       debug_trade_decision (td_decision e) @ '':'' @ td_strategy e @ '':'' @ td_feature_snapshot_hash e @ '':'' @
       show_int (td_no_lookahead_timestamp e)))"

definition final_decision ::
  "('d::linordered_field, 'q) runtime_env \<Rightarrow> 'd normalized_event \<Rightarrow> bool \<Rightarrow> string \<Rightarrow> 'd token_state \<Rightarrow>
   'd feature_snapshot \<Rightarrow> 'd risk_assessment \<Rightarrow> ('d, 'f, 'q) supervisor \<Rightarrow> 'd decision_outcome" where
  "final_decision env event tentative mint token f risk s =
    (let d = evaluate_decision (tx_show_decimal env) (su_decision_engine s) token f risk
           (position_context (su_paper_executor s) mint) [] (su_config_hash s)
           (env_strategy_version (cfg_environment (su_config s))) (em_received_at_wall_time (ne_meta event));
         d = apply_runtime_safety_for_token token s
           (apply_shred_defense_annotations (tx_show_decimal env) token (hold_back_tentative tentative d)) in
     on_decision (\<lambda>e. e\<lparr>td_decision_id := deterministic_decision_id env event e s\<rparr>) d)"

subsection \<open>Risk terminals\<close>

definition risk_terminal_variant :: "'d risk_assessment \<Rightarrow> token_terminal_variant option" where
  "risk_terminal_variant risk = (case ra_discard_policy risk of
     PolicySoftDiscard \<Rightarrow> Some token_terminal_variant.SoftDiscarded
   | PolicyHardDiscard \<Rightarrow> Some token_terminal_variant.HardDiscarded
   | PolicyRugArchive \<Rightarrow> Some Rugged
   | PolicyDataGapStop \<Rightarrow> Some token_terminal_variant.DataGap
   | PolicyKeep \<Rightarrow> None
   | PolicyResearchSample \<Rightarrow> None)"

definition risk_terminal_event ::
  "('d::linordered_field, 'q) runtime_env \<Rightarrow> string \<Rightarrow> token_terminal_variant \<Rightarrow> 'd risk_assessment \<Rightarrow> instant \<Rightarrow>
   ('d, 'f, 'q) supervisor \<Rightarrow> 'd normalized_event" where
  "risk_terminal_event env mint variant risk observed_at s =
    \<lparr>ne_meta = (new_event_meta (re_fresh_id env (su_record_sequence s)) 1 Replay Processed 0)
       \<lparr>em_block_time := Some observed_at,
        em_observed_at_monotonic_ns := re_monotonic_ns env (su_record_sequence s),
        em_received_at_wall_time := observed_at\<rparr>,
     ne_payload = TokenTerminal \<lparr>tt_mint = mint, tt_variant = variant, tt_reason_codes = ra_reason_codes risk,
       tt_details = Map.empty\<rparr>\<rparr>"

definition apply_risk_terminal ::
  "('d::linordered_field, 'q) runtime_env \<Rightarrow> string \<Rightarrow> token_terminal_variant \<Rightarrow> 'd risk_assessment \<Rightarrow> instant \<Rightarrow>
   ('d, 'f, 'q) supervisor \<Rightarrow> ('d, 'f, 'q) supervisor outcome" where
  "apply_risk_terminal env mint variant risk observed_at s =
    (let event = risk_terminal_event env mint variant risk observed_at s in
     and_then (engine_apply env event s)
       (\<lambda>s. if su_persist_normalized_events s
            then (let (r, s) = new_record NormalizedEventLog ''risk_engine'' ''processed'' (Some observed_at)
                    (StoredEvent event) s in append_storage env r s)
            else Done s))"

subsection \<open>Feature snapshots\<close>

definition snapshot_pressure_ms ::
  "('d::linordered_field, 'q) runtime_env \<Rightarrow> ('d, 'f, 'q) supervisor \<Rightarrow> u64 option" where
  "snapshot_pressure_ms env s =
    (let c = su_feature_pressure s in
     if \<not> fp_enabled c then None
     else case su_segments s of
       None \<Rightarrow> None
     | Some entries \<Rightarrow>
         (if re_upload_backlog env entries then Some (max (fp_min_snapshot_interval_ms_upload_backlog c) 1)
          else if re_disk_warning env entries then Some (max (fp_min_snapshot_interval_ms_disk_warning c) 1)
          else None))"

definition always_snapshot :: "feature_pressure_config \<Rightarrow> 'd event_payload \<Rightarrow> trade_decision \<Rightarrow> bool \<Rightarrow> bool" where
  "always_snapshot c payload decision fill_emitted \<longleftrightarrow>
    is_gap payload \<or> fill_emitted \<and> fp_always_snapshot_on_trade c \<or>
    fp_always_snapshot_on_enter_exit c \<and> decision \<in> {EnterPaper, EnterLive, Exit, EmergencyExit, ScaleOut} \<or>
    fp_always_snapshot_on_decision c \<and> decision \<notin> {WatchLight, WatchDeep}"

text \<open>Whether a snapshot is skipped: only under pressure, and counted.\<close>

definition skip_snapshot ::
  "('d::linordered_field, 'q) runtime_env \<Rightarrow> string \<Rightarrow> 'd event_payload \<Rightarrow> trade_decision \<Rightarrow> bool \<Rightarrow> instant \<Rightarrow>
   ('d, 'f, 'q) supervisor \<Rightarrow> bool" where
  "skip_snapshot env mint payload decision fill_emitted now s =
    (let c = su_feature_pressure s in
     case snapshot_pressure_ms env s of
       None \<Rightarrow> False
     | Some interval \<Rightarrow>
         \<not> always_snapshot c payload decision fill_emitted \<and>
         fp_skip_low_value_watch_snapshots_under_pressure c \<and> decision \<in> {WatchLight, WatchDeep} \<and>
         (case su_last_feature_snapshot_at_by_mint s mint of
            None \<Rightarrow> False
          | Some last_at \<Rightarrow> (word_of_int (max 0 (whole_milliseconds (now - last_at))) :: u64) < interval))"

definition feature_snapshot_identity :: "'d stored_record \<Rightarrow> 'd feature_snapshot \<Rightarrow> ('d, 'f, 'q) supervisor \<Rightarrow> string" where
  "feature_snapshot_identity r f s =
    unwrap_or (run_id_of s) (su_source_run_id s) @ bar_sep @ unwrap_or [] (st_run_id r) @ bar_sep @ fs_mint f @
    bar_sep @ show_int (fs_observed_at f) @ bar_sep @ fs_vector_hash f"

definition write_snapshot ::
  "('d::linordered_field, 'q) runtime_env \<Rightarrow> 'd stored_record \<Rightarrow> ('d, 'f, 'q) supervisor \<Rightarrow>
   ('d, 'f, 'q) supervisor outcome" where
  "write_snapshot env r s =
    and_then (if su_segments s = None then append_storage env r s
              else append_segment env ''feature_snapshots'' (SegmentStored r) s)
      (\<lambda>s. Done (profile_inc ''rows_written'' 1 (profile_inc ''feature_snapshots_emitted'' 1 s)))"

definition persist_snapshot ::
  "('d::linordered_field, 'q) runtime_env \<Rightarrow> 'd normalized_event \<Rightarrow> string \<Rightarrow> 'd feature_snapshot \<Rightarrow>
   trade_decision \<Rightarrow> bool \<Rightarrow> ('d, 'f, 'q) supervisor \<Rightarrow> ('d, 'f, 'q) supervisor outcome" where
  "persist_snapshot env event mint f decision fill_emitted s =
    (let now = em_received_at_wall_time (ne_meta event) in
     if skip_snapshot env mint (ne_payload event) decision fill_emitted now s
     then Done (s\<lparr>su_health := (su_health s)
       \<lparr>rh_skipped_feature_snapshot_count := sat_add (rh_skipped_feature_snapshot_count (su_health s)) 1\<rparr>\<rparr>)
     else
       (let (r, s) = new_record TokenFeatureSnapshots ''feature_engine''
              (to_lowercase (debug_canonicality (em_canonicality (ne_meta event)))) (Some now) (StoredFeatures f) s;
            identity = feature_snapshot_identity r f s;
            duplicate = identity \<in> su_emitted_snapshots s;
            s = s\<lparr>su_emitted_snapshots := insert identity (su_emitted_snapshots s)\<rparr> in
        and_then (if duplicate then Done (profile_inc ''duplicate_feature_snapshots_suppressed'' 1 s)
                  else write_snapshot env r s)
          (\<lambda>s. Done (s\<lparr>su_last_feature_snapshot_at_by_mint :=
             (su_last_feature_snapshot_at_by_mint s)(mint \<mapsto> now)\<rparr>))))"

subsection \<open>Decision, execution, one event\<close>

definition record_decision ::
  "('d::linordered_field, 'q) runtime_env \<Rightarrow> 'd normalized_event \<Rightarrow> string \<Rightarrow> 'd decision_outcome \<Rightarrow>
   ('d, 'f, 'q) supervisor \<Rightarrow> ('d, 'f, 'q) supervisor outcome" where
  "record_decision env event mint d s =
    (let e = do_decision_event d; label = debug_trade_decision (td_decision e);
         s = s\<lparr>su_decisions_by_type := (su_decisions_by_type s)(label \<mapsto> unwrap_or 0 (su_decisions_by_type s label) + 1),
               su_health := (su_health s)\<lparr>rh_last_decision_time := Some (em_received_at_wall_time (ne_meta event))\<rparr>\<rparr> in
     and_then (audit env PaperDecision [''mint'' \<mapsto> mint, ''decision'' \<mapsto> label] (td_reason_codes e) s)
       (\<lambda>s. let (r, s) = new_record TradeDecisions ''decision_engine''
              (to_lowercase (debug_canonicality (em_canonicality (ne_meta event))))
              (Some (em_received_at_wall_time (ne_meta event))) (StoredDecision e) s in
         and_then (write_record env [''decisions''] r s)
           (\<lambda>s. Done (profile_inc ''rows_written'' 1 s
              \<lparr>su_decisions := su_decisions s @ [e], su_decision_outcomes := su_decision_outcomes s @ [d]\<rparr>))))"

definition force_fail_for_token :: "'d token_state \<Rightarrow> bool" where
  "force_fail_for_token token \<longleftrightarrow> to_lowercase (tok_symbol token) = ''fl''"

definition execute_paper ::
  "('d::linordered_field, 'q) runtime_env \<Rightarrow> 'd normalized_event \<Rightarrow> 'd decision_outcome \<Rightarrow> 'd token_state \<Rightarrow>
   ('d, 'f, 'q) supervisor \<Rightarrow> 'd paper_executor \<times> 'd fill_event option" where
  "execute_paper env event d token s =
    (if rs_paper_allowed (su_safety s)
     then handle_decision (re_parse_decimal env) d token (em_received_at_wall_time (ne_meta event))
       (force_fail_for_token token) (su_paper_executor s)
     else (su_paper_executor s, None))"

definition record_fill ::
  "('d::linordered_field, 'q) runtime_env \<Rightarrow> 'd normalized_event \<Rightarrow> 'd fill_event option \<Rightarrow> ('d, 'f, 'q) supervisor \<Rightarrow>
   ('d, 'f, 'q) supervisor outcome" where
  "record_fill env event fill s =
    (case fill of
       None \<Rightarrow> Done s
     | Some fill \<Rightarrow>
         and_then (audit env PaperFill [''mint'' \<mapsto> fl_mint fill] [] s)
           (\<lambda>s. let (r, s) = new_record SimulatedFills ''paper_executor''
                  (to_lowercase (debug_canonicality (em_canonicality (ne_meta event))))
                  (Some (em_received_at_wall_time (ne_meta event))) (StoredFill fill) s in
             and_then (write_record env [''fills''] r s) (\<lambda>s. Done (profile_inc ''rows_written'' 1 s))))"

definition trade_token ::
  "('d::linordered_field, 'q) runtime_env \<Rightarrow> 'd normalized_event \<Rightarrow> bool \<Rightarrow> string \<Rightarrow> 'd feature_snapshot \<Rightarrow>
   'd risk_assessment \<Rightarrow> 'd token_state \<Rightarrow> ('d, 'f, 'q) supervisor \<Rightarrow> ('d, 'f, 'q) supervisor outcome" where
  "trade_token env event tentative mint f risk token s =
    (let d = final_decision env event tentative mint token f risk s in
     and_then (record_decision env event mint d (profile_inc ''decision_compute_calls'' 1 s))
       (\<lambda>s. let (executor, fill) = execute_paper env event d token s in
         and_then (record_fill env event fill (s\<lparr>su_paper_executor := executor\<rparr>))
           (\<lambda>s. and_then (persist_snapshot env event mint f (td_decision (do_decision_event d)) (fill \<noteq> None) s)
             (\<lambda>s. Done (refresh_health env s)))))"

definition token_of :: "string \<Rightarrow> ('d, 'f, 'q) supervisor \<Rightarrow> 'd token_state option" where
  "token_of mint s = map_of (se_tokens (su_state_engine s)) mint"

text \<open>The event ends with a fresh health report where the token is gone.\<close>

definition with_token ::
  "('d::linordered_field, 'q) runtime_env \<Rightarrow> string \<Rightarrow>
   ('d token_state \<Rightarrow> ('d, 'f, 'q) supervisor \<Rightarrow> ('d, 'f, 'q) supervisor outcome) \<Rightarrow>
   ('d, 'f, 'q) supervisor \<Rightarrow> ('d, 'f, 'q) supervisor outcome" where
  "with_token env mint f s =
    (case token_of mint s of None \<Rightarrow> Done (refresh_health env s) | Some token \<Rightarrow> f token s)"

definition decide_token ::
  "('d::linordered_field, 'q) runtime_env \<Rightarrow> 'd normalized_event \<Rightarrow> bool \<Rightarrow> string \<Rightarrow> 'd feature_snapshot \<Rightarrow>
   'd risk_assessment \<Rightarrow> 'd token_state \<Rightarrow> ('d, 'f, 'q) supervisor \<Rightarrow> ('d, 'f, 'q) supervisor outcome" where
  "decide_token env event tentative mint f risk token s =
    (let s = s\<lparr>su_latest_features := (su_latest_features s)(mint \<mapsto> f),
              su_latest_risk := (su_latest_risk s)(mint \<mapsto> risk)\<rparr> in
     case (if tentative then None else risk_terminal_variant risk) of
       None \<Rightarrow> trade_token env event tentative mint f risk token s
     | Some variant \<Rightarrow>
         and_then (apply_risk_terminal env mint variant risk (em_received_at_wall_time (ne_meta event)) s)
           (with_token env mint (trade_token env event tentative mint f risk)))"

definition count_assessment :: "('d, 'f, 'q) supervisor \<Rightarrow> ('d, 'f, 'q) supervisor" where
  "count_assessment s = profile_inc ''risk_compute_calls'' 1 (profile_inc ''holder_index_recompute_count'' 1
    (profile_inc ''cohort_recompute_count'' 1 (profile_inc ''feature_compute_calls'' 1 s)))"

definition assess ::
  "('d::linordered_field, 'q) runtime_env \<Rightarrow> 'd normalized_event \<Rightarrow> 'd token_state \<Rightarrow> ('d, 'f, 'q) supervisor \<Rightarrow>
   'd feature_snapshot \<times> 'd risk_assessment" where
  "assess env event token s =
    (let now = em_received_at_wall_time (ne_meta event); f = re_features env (su_state_engine s) token now in
     (f, evaluate_risk (re_show4 env) (su_risk_engine s) token f now))"

text \<open>Features and risk are computed again when the tentative sells changed the token.\<close>

definition evaluate_token ::
  "('d::linordered_field, 'q) runtime_env \<Rightarrow> 'd normalized_event \<Rightarrow> bool \<Rightarrow> string \<Rightarrow> 'd token_state \<Rightarrow>
   ('d, 'f, 'q) supervisor \<Rightarrow> ('d, 'f, 'q) supervisor outcome" where
  "evaluate_token env event tentative mint token s =
    (let (f, risk) = assess env event token s; s = count_assessment s;
         (mgr, derived) = derive_sells env event tentative mint token f risk s in
     and_then (each (apply_derived_runtime_event env) derived (s\<lparr>su_tentative_sell_manager := mgr\<rparr>))
       (\<lambda>s. let (s, expired) = expire_pending env (em_received_at_wall_time (ne_meta event)) s in
         and_then (each (apply_derived_runtime_event env) expired s)
           (\<lambda>s. if derived = [] \<and> expired = [] then decide_token env event tentative mint f risk token s
                else with_token env mint (\<lambda>token s. let (f, risk) = assess env event token s in
                  decide_token env event tentative mint f risk token (count_assessment s)) s)))"

definition note_mint :: "string \<Rightarrow> ('d, 'f, 'q) supervisor \<Rightarrow> ('d, 'f, 'q) supervisor" where
  "note_mint mint s =
    (let s = s\<lparr>su_seen_mints := insert mint (su_seen_mints s)\<rparr> in
     profile_set_max ''active_tokens'' (count_usize (se_tokens (su_state_engine s)))
       (profile_set_max ''unique_mints_seen'' (of_nat (card (su_seen_mints s))) s))"

definition handle_event ::
  "('d::linordered_field, 'q) runtime_env \<Rightarrow> 'd normalized_event \<Rightarrow> bool \<Rightarrow> ('d, 'f, 'q) supervisor \<Rightarrow>
   ('d, 'f, 'q) supervisor outcome" where
  "handle_event env event tentative s =
    and_then (intake env event tentative s)
      (\<lambda>s. if edge_collector_mode s then Done (refresh_health env s)
           else case event_mint event of
             None \<Rightarrow> Done (refresh_health env s)
           | Some mint \<Rightarrow> with_token env mint (evaluate_token env event tentative mint) (note_mint mint s))"

subsection \<open>Draining the buses\<close>

definition expire_shreds ::
  "('d::linordered_field, 'q) runtime_env \<Rightarrow> ('d, 'f, 'q) supervisor \<Rightarrow> ('d, 'f, 'q) supervisor outcome" where
  "expire_shreds env s =
    (case su_shred_service s of
       None \<Rightarrow> Done s
     | Some service \<Rightarrow>
         (let (service, expired) = expire_tentative service (now_of env s);
              s = s\<lparr>su_shred_service := Some service\<rparr> in
          if expired = [] then Done s
          else audit env QueueOverflow [''expired_tentative'' \<mapsto> show_nat (length expired)] [TentativeTimedOut] s))"

text \<open>
  The loop of \<open>drain_pipeline\<close>: the canonical bus is polled first, then the tentative one, until both are
  empty. The first argument bounds the number of rounds; \<open>None\<close> says it was too small.
\<close>

fun drain_pipeline ::
  "nat \<Rightarrow> ('d::linordered_field, 'q) runtime_env \<Rightarrow> ('d, 'f, 'q) supervisor \<Rightarrow>
   ('d, 'f, 'q) supervisor outcome option" where
  "drain_pipeline 0 env s = None"
| "drain_pipeline (Suc n) env s =
    (case recv (re_channel env) (su_canonical_bus s) of
       Some (event, bus) \<Rightarrow>
         (case handle_event env event False (s\<lparr>su_canonical_bus := bus\<rparr>) of
            Done s \<Rightarrow> drain_pipeline n env s | stopped \<Rightarrow> Some stopped)
     | None \<Rightarrow>
         (case recv (re_channel env) (su_tentative_bus s) of
            Some (event, bus) \<Rightarrow>
              (case handle_event env event True (s\<lparr>su_tentative_bus := bus\<rparr>) of
                 Done s \<Rightarrow> drain_pipeline n env s | stopped \<Rightarrow> Some stopped)
          | None \<Rightarrow> Some (expire_shreds env s)))"

end
