(* ===== verification/Pipeline_Invariants.thy ===== *)
theory Pipeline_Invariants
  imports Pipeline
begin

text \<open>
  What an event through the pipeline keeps. The locale \<open>pipeline_invariant\<close> is the interface between the
  pipeline and an invariant: the invariant reads only the core of the state, and every call the pipeline makes
  on a component keeps it. Its client lemma follows the code of \<open>handle_event\<close> once for all invariants.
\<close>

subsection \<open>Outcomes\<close>

text \<open>\<open>P\<close> holds of the state an outcome leaves behind; the first argument says whether a panic is allowed.\<close>

definition all_outcomes :: "bool \<Rightarrow> ('s \<Rightarrow> bool) \<Rightarrow> 's outcome \<Rightarrow> bool" where
  "all_outcomes q P r = (case r of Done s \<Rightarrow> P s | Aborted s \<Rightarrow> P s | Panicked \<Rightarrow> q)"

lemma all_outcomes_simps [simp]:
  "all_outcomes q P (Done s) = P s" "all_outcomes q P (Aborted s) = P s" "all_outcomes q P Panicked = q"
  by (simp_all add: all_outcomes_def)

lemma all_outcomes_and_then:
  assumes "all_outcomes q P r" and "\<And>s. P s \<Longrightarrow> all_outcomes q P (f s)"
  shows "all_outcomes q P (and_then r f)"
  using assms by (cases r) auto

lemma all_outcomes_each:
  assumes "P s" and "\<And>x s. x \<in> set xs \<Longrightarrow> P s \<Longrightarrow> all_outcomes q P (f x s)"
  shows "all_outcomes q P (each f xs s)"
  using assms
proof (induction xs arbitrary: s)
  case (Cons x xs)
  show ?case by (auto intro!: all_outcomes_and_then Cons)
qed simp

lemma and_then_Done: "and_then r f = Done t \<longleftrightarrow> (\<exists>s. r = Done s \<and> f s = Done t)"
  by (cases r) auto

lemma and_then_assoc: "and_then (and_then r f) g = and_then r (\<lambda>s. and_then (f s) g)"
  by (cases r) auto

subsection \<open>The core of the state\<close>

text \<open>What a record, a counter or a report leaves alone.\<close>

record ('d, 'f, 'q) supervisor_core =
  co_config :: "('d, 'f) app_config"
  co_mode :: runtime_mode
  co_rpc_budget :: rpc_budget_manager
  co_canonical_bus :: "'q event_bus"
  co_tentative_bus :: "'q event_bus"
  co_state_engine :: "'d state_engine"
  co_decision_engine :: "'d decision_engine"
  co_paper_executor :: "'d paper_executor"
  co_shred_service :: "shred_service option"
  co_tentative_sell_manager :: "'d tentative_sell_manager"
  co_safety :: runtime_safety
  co_decisions :: "'d trade_decision_event list"
  co_decision_outcomes :: "'d decision_outcome list"
  co_active_data_gaps :: "scoped_data_gap list"

definition core :: "('d, 'f, 'q) supervisor \<Rightarrow> ('d, 'f, 'q) supervisor_core" where
  "core s = \<lparr>co_config = su_config s, co_mode = su_mode s, co_rpc_budget = su_rpc_budget s,
     co_canonical_bus = su_canonical_bus s, co_tentative_bus = su_tentative_bus s,
     co_state_engine = su_state_engine s, co_decision_engine = su_decision_engine s,
     co_paper_executor = su_paper_executor s, co_shred_service = su_shred_service s,
     co_tentative_sell_manager = su_tentative_sell_manager s, co_safety = su_safety s,
     co_decisions = su_decisions s, co_decision_outcomes = su_decision_outcomes s,
     co_active_data_gaps = su_active_data_gaps s\<rparr>"

named_theorems core_simps "operations that keep the core"

lemma core_updates [core_simps, simp]:
  "core (s\<lparr>su_health := h\<rparr>) = core s" "core (s\<lparr>su_storage := x1\<rparr>) = core s" "core (s\<lparr>su_segments := x2\<rparr>) = core s"
  "core (s\<lparr>su_record_sequence := x3\<rparr>) = core s" "core (s\<lparr>su_audits := x4\<rparr>) = core s"
  "core (s\<lparr>su_counters := x5\<rparr>) = core s" "core (s\<lparr>su_emitted_snapshots := x6\<rparr>) = core s"
  "core (s\<lparr>su_seen_mints := x7\<rparr>) = core s" "core (s\<lparr>su_last_feature_snapshot_at_by_mint := x8\<rparr>) = core s"
  "core (s\<lparr>su_last_edge_slot_recorded := x9\<rparr>) = core s" "core (s\<lparr>su_decisions_by_type := y1\<rparr>) = core s"
  "core (s\<lparr>su_latest_features := y2\<rparr>) = core s" "core (s\<lparr>su_latest_risk := y3\<rparr>) = core s"
  by (simp_all add: core_def)

lemma core_bookkeeping [core_simps, simp]:
  "core (profile_inc counter amount s) = core s" "core (profile_set_max counter x s) = core s"
  "core (snd (tag_record r s)) = core s" "core (snd (new_record dataset source canon time payload s)) = core s"
  "core (snd (event_record event s)) = core s" "core (refresh_health env s) = core s"
  "core (count_event env event s) = core s" "core (note_mint mint s) = core s" "core (count_assessment s) = core s"
  by (simp_all add: profile_inc_def profile_set_max_def tag_record_def new_record_def event_record_def Let_def
      refresh_health_def count_event_def note_mint_def count_assessment_def split: prod.splits)

definition keeps_core :: "('d, 'f, 'q) supervisor \<Rightarrow> ('d, 'f, 'q) supervisor outcome \<Rightarrow> bool" where
  "keeps_core s r \<longleftrightarrow> all_outcomes False (\<lambda>s'. core s' = core s) r"

lemma keeps_core_Done [simp]: "keeps_core s (Done s') \<longleftrightarrow> core s' = core s"
  by (simp add: keeps_core_def)

lemma keeps_core_and_then:
  "keeps_core s r \<Longrightarrow> (\<And>s'. core s' = core s \<Longrightarrow> keeps_core s' (f s')) \<Longrightarrow> keeps_core s (and_then r f)"
  by (cases r) (auto simp: keeps_core_def)

lemma keeps_core_start: "core s = core t \<Longrightarrow> keeps_core s r \<longleftrightarrow> keeps_core t r"
  by (simp add: keeps_core_def)

lemma keeps_core_each:
  assumes "\<And>x s. keeps_core s (f x s)" shows "keeps_core s (each f xs s)"
proof (induction xs arbitrary: s)
  case (Cons x xs)
  show ?case by (auto intro!: keeps_core_and_then assms Cons)
qed simp

lemma keeps_core_append [core_simps]:
  "keeps_core s (append_storage env r s)" "keeps_core s (append_segment env stream g s)"
  by (auto simp: append_storage_def append_segment_def keeps_core_def split: option.splits)

lemma keeps_core_write [core_simps]: "keeps_core s (write_record env streams r s)"
  unfolding write_record_def by (intro keeps_core_and_then keeps_core_append keeps_core_each)

text \<open>A step that first draws a record.\<close>

lemma keeps_core_new_record:
  fixes s :: "('d::linordered_field, 'f, 'q) supervisor"
  assumes "\<And>r s'. core s' = core s \<Longrightarrow> keeps_core s' (f r s')"
  shows "keeps_core s (case new_record dataset source canon time payload s of (r, s') \<Rightarrow> f r s')"
proof (cases "new_record dataset source canon time payload s")
  case (Pair r s')
  then have "core s' = core s" by (metis core_bookkeeping(4) snd_conv)
  with assms [of s' r] Pair show ?thesis by (simp add: keeps_core_start [of s s'])
qed

lemma keeps_core_audit [core_simps]: "keeps_core (s :: ('d::linordered_field, 'f, 'q) supervisor) (audit env kind details reasons s)"
  unfolding audit_def Let_def
  by (rule keeps_core_new_record) (auto intro!: keeps_core_and_then core_simps)

lemma keeps_core_edge [core_simps]: "keeps_core s (persist_edge_stream_records env event s)"
  unfolding persist_edge_stream_records_def Let_def event_record_def
  by (rule keeps_core_new_record)
    (auto intro!: keeps_core_and_then core_simps)

lemma keeps_core_persist [core_simps]: "keeps_core s (persist_event env event s)"
  unfolding persist_event_def Let_def event_record_def
  by (auto intro!: keeps_core_new_record keeps_core_and_then core_simps)

lemma keeps_core_snapshot [core_simps]: "keeps_core s (persist_snapshot env event mint f decision fill_emitted s)"
proof -
  have written: "keeps_core t (write_snapshot env r u)" if "core u = core t" for r t u
    unfolding write_snapshot_def keeps_core_start [OF that [symmetric]]
    by (intro keeps_core_and_then) (auto intro: core_simps)
  show ?thesis
    unfolding persist_snapshot_def Let_def
    by (auto intro!: keeps_core_new_record keeps_core_and_then written core_simps)
qed

lemma keeps_core_fill [core_simps]: "keeps_core s (record_fill env event fill s)"
  unfolding record_fill_def Let_def
  by (auto intro!: keeps_core_new_record keeps_core_and_then core_simps split: option.splits)

text \<open>Where a decision is recorded, the core gains it and nothing else.\<close>

definition with_decision :: "'d decision_outcome \<Rightarrow> ('d, 'f, 'q) supervisor \<Rightarrow> ('d, 'f, 'q) supervisor" where
  "with_decision d s = s\<lparr>su_decisions := su_decisions s @ [do_decision_event d],
     su_decision_outcomes := su_decision_outcomes s @ [d]\<rparr>"

lemma core_components:
  assumes "core s = core t"
  shows "su_state_engine s = su_state_engine t" "su_paper_executor s = su_paper_executor t" "su_safety s = su_safety t"
    "su_active_data_gaps s = su_active_data_gaps t" "su_decisions s = su_decisions t"
    "su_decision_outcomes s = su_decision_outcomes t" "su_canonical_bus s = su_canonical_bus t"
    "su_tentative_bus s = su_tentative_bus t" "su_config s = su_config t" "su_mode s = su_mode t"
    "su_tentative_sell_manager s = su_tentative_sell_manager t" "su_decision_engine s = su_decision_engine t"
  using assms by (simp_all add: core_def)

lemma core_with_decision: "core s = core t \<Longrightarrow> core (with_decision d s) = core (with_decision d t)"
  by (simp add: core_def with_decision_def)

lemma record_decision_core:
  fixes s :: "('d::linordered_field, 'f, 'q) supervisor"
  shows "case record_decision env event mint d s of
     Done t \<Rightarrow> core t = core (with_decision d s) | Aborted t \<Rightarrow> core t = core s | Panicked \<Rightarrow> False"
proof -
  define u where "u = s\<lparr>su_decisions_by_type := (su_decisions_by_type s)
      (debug_trade_decision (td_decision (do_decision_event d)) \<mapsto>
        unwrap_or 0 (su_decisions_by_type s (debug_trade_decision (td_decision (do_decision_event d)))) + 1),
    su_health := (su_health s)\<lparr>rh_last_decision_time := Some (em_received_at_wall_time (ne_meta event))\<rparr>\<rparr>"
  have u: "core u = core s" by (simp add: u_def)
  define a where "a = audit env PaperDecision [''mint'' \<mapsto> mint,
      ''decision'' \<mapsto> debug_trade_decision (td_decision (do_decision_event d))]
    (td_reason_codes (do_decision_event d)) u"
  have a: "keeps_core u a" unfolding a_def by (rule core_simps)
  define push where "push = (\<lambda>t :: ('d, 'f, 'q) supervisor. Done (with_decision d (profile_inc ''rows_written'' 1 t)))"
  define rest where "rest = (\<lambda>t :: ('d, 'f, 'q) supervisor. case new_record TradeDecisions ''decision_engine''
      (to_lowercase (debug_canonicality (em_canonicality (ne_meta event))))
      (Some (em_received_at_wall_time (ne_meta event))) (StoredDecision (do_decision_event d)) t of
    (r, t') \<Rightarrow> write_record env [''decisions''] r t')"
  have rest: "keeps_core t (rest t)" for t
    unfolding rest_def by (intro keeps_core_new_record core_simps)
  have whole: "record_decision env event mint d s = and_then a (\<lambda>t. and_then (rest t) push)"
    by (simp add: record_decision_def Let_def a_def u_def rest_def push_def with_decision_def
        profile_inc_def case_prod_unfold)
  have "keeps_core u (and_then a rest)" by (rule keeps_core_and_then [OF a rest])
  then have "all_outcomes False (\<lambda>t. core t = core s) (and_then a rest)" by (simp add: keeps_core_def u)
  then show ?thesis
    unfolding whole and_then_assoc [symmetric] push_def
    by (cases "and_then a rest") (auto intro: core_with_decision simp: core_with_decision [of "profile_inc _ _ _"])
qed

lemma execute_paper_core:
  assumes "core s = core t"
  shows "execute_paper env event d token s = execute_paper env event d token t"
  by (simp add: execute_paper_def core_components [OF assms])

lemma execute_paper_decided [simp]: "execute_paper env event d token (with_decision d' s) = execute_paper env event d token s"
  by (simp add: execute_paper_def with_decision_def)

lemma token_of_core:
  assumes "core s = core t"
  shows "token_of mint s = token_of mint t"
  by (simp add: token_of_def core_components [OF assms])

subsection \<open>The interface\<close>

locale pipeline_invariant =
  fixes env :: "('d::linordered_field, 'q) runtime_env"
    and inv :: "('d, 'f, 'q) supervisor \<Rightarrow> bool"
    and admits :: "'d normalized_event \<Rightarrow> bool"
    and flag :: "bool \<Rightarrow> bool"
    and may_panic :: bool
  assumes reads_core: "core s = core t \<Longrightarrow> inv s \<Longrightarrow> inv t"
    and engine: "inv s \<Longrightarrow> admits event \<Longrightarrow> apply_event (text_env_of env) event (su_state_engine s) = Some (e, ts) \<Longrightarrow>
      inv (s\<lparr>su_state_engine := e\<rparr>)"
    and panics: "inv s \<Longrightarrow> admits event \<Longrightarrow> apply_event (text_env_of env) event (su_state_engine s) = None \<Longrightarrow> may_panic"
    and gaps: "inv s \<Longrightarrow> admits event \<Longrightarrow> ne_payload event = DataGapPayload payload \<Longrightarrow>
      gap \<in> set (scoped_gaps_from_event payload run_id scenario_id) \<Longrightarrow>
      inv (s\<lparr>su_active_data_gaps := note_gap gap (su_active_data_gaps s)\<rparr>)"
    and safety: "inv s \<Longrightarrow> inv (s\<lparr>su_safety :=
      gate_safety (lv_enabled (cfg_live (su_config s))) (su_active_data_gaps s) (su_safety s)\<rparr>)"
    and shreds: "inv s \<Longrightarrow> inv (s\<lparr>su_shred_service := service\<rparr>)"
    and derives: "inv s \<Longrightarrow> admits event \<Longrightarrow> flag tentative \<Longrightarrow> derive_sells env event tentative mint token f risk s = (mgr, derived) \<Longrightarrow>
      inv (s\<lparr>su_tentative_sell_manager := mgr\<rparr>) \<and> list_all admits derived"
    and expires: "inv s \<Longrightarrow>
      expire_sells env fresh_id now (engine_snapshot (su_state_engine s)) (su_tentative_sell_manager s) = (mgr, lapsed) \<Longrightarrow>
      inv (s\<lparr>su_tentative_sell_manager := mgr\<rparr>) \<and> list_all admits lapsed"
    and terminals: "admits (risk_terminal_event env mint variant risk observed_at (s :: ('d, 'f, 'q) supervisor))"
    and trades: "inv s \<Longrightarrow> flag tentative \<Longrightarrow> token_of mint s = Some token \<Longrightarrow> d = final_decision env event tentative mint token f risk s \<Longrightarrow>
      inv (with_decision d s) \<and> inv ((with_decision d s)\<lparr>su_paper_executor := fst (execute_paper env event d token s)\<rparr>)"
begin

lemma frame: "inv s \<Longrightarrow> keeps_core s r \<Longrightarrow> all_outcomes may_panic inv r"
  by (cases r) (auto simp: keeps_core_def intro: reads_core)

lemma moved: "inv s \<Longrightarrow> core t = core s \<Longrightarrow> inv t"
  by (rule reads_core [of s t]) simp_all

lemma engine_keeps: "inv s \<Longrightarrow> admits event \<Longrightarrow> all_outcomes may_panic inv (engine_apply env event s)"
  by (auto simp: engine_apply_def intro: engine panics split: option.splits)

lemma gap_keeps:
  assumes "inv s" and "admits event" and "ne_payload event = DataGapPayload payload"
    and "gap \<in> set (scoped_gaps_from_event payload run_id scenario_id)"
  shows "all_outcomes may_panic inv (update_gap env gap s)"
proof (cases "rg_active gap")
  case True
  have "all_outcomes may_panic inv (audit env kind details reasons s)" for kind details reasons
    by (rule frame [OF assms(1)]) (rule core_simps)
  with True show ?thesis
    by (auto simp: update_gap_def intro!: all_outcomes_and_then gaps [OF _ assms(2-4)])
next
  case False
  have "inv (s\<lparr>su_active_data_gaps := note_gap gap (su_active_data_gaps s)\<rparr>)" by (rule gaps [OF assms])
  then show ?thesis using False by (auto simp: update_gap_def intro: frame core_simps)
qed

lemma refresh_keeps: "inv s \<Longrightarrow> inv (refresh_health env s)"
  by (rule reads_core [of s]) simp_all

lemma gap_state_keeps:
  assumes "inv s" and "admits event" and "ne_payload event = DataGapPayload payload"
  shows "all_outcomes may_panic inv (update_data_gap_state env payload s)"
  unfolding update_data_gap_state_def
  by (rule all_outcomes_and_then [OF all_outcomes_each [OF assms(1) gap_keeps [OF _ assms(2,3)]]])
    (auto simp: recompute_safety_def intro: refresh_keeps safety)

lemma record_keeps:
  assumes "inv s" and "\<And>r t. core t = core s \<Longrightarrow> inv t \<Longrightarrow> all_outcomes may_panic inv (f r t)"
  shows "all_outcomes may_panic inv (case new_record dataset source canon time payload s of (r, t) \<Rightarrow> f r t)"
proof (cases "new_record dataset source canon time payload s")
  case (Pair r t)
  then have t: "core t = core s" by (metis core_bookkeeping(4) snd_conv)
  then have "all_outcomes may_panic inv (f r t)" by (intro assms(2) moved [OF assms(1)])
  then show ?thesis by (simp add: Pair)
qed

lemma intake_keeps:
  assumes "inv s" and "admits event"
  shows "all_outcomes may_panic inv (intake env event tentative s)"
proof -
  have start: "inv (count_event env event s)" by (rule reads_core [OF _ assms(1)]) simp
  have shredded: "inv (reconcile_shreds event tentative t)" if "inv t" for t
    using that by (auto simp: reconcile_shreds_def intro: shreds)
  have noted: "all_outcomes may_panic inv (note_data_gap env event tentative t)" if "inv t" for t
  proof (cases "ne_payload event")
    case (DataGapPayload payload)
    have "inv (t\<lparr>su_health := h\<rparr>)" for h by (rule reads_core [OF _ that]) simp
    with that show ?thesis
      by (auto simp: note_data_gap_def DataGapPayload intro: gap_state_keeps [OF _ assms(2) DataGapPayload])
  qed (use that in \<open>simp_all add: note_data_gap_def\<close>)
  show ?thesis
    unfolding intake_def
    by (intro all_outcomes_and_then frame [OF start] core_simps engine_keeps shredded assms(2) noted)
      (auto intro: moved)
qed

lemma derived_keeps:
  assumes "inv s" and "admits event"
  shows "all_outcomes may_panic inv (apply_derived_runtime_event env event s)"
proof -
  have gap: "all_outcomes may_panic inv (case ne_payload event of DataGapPayload payload \<Rightarrow> update_data_gap_state env payload t | _ \<Rightarrow> Done t)"
    if "inv t" for t
    using that by (cases "ne_payload event") (auto intro: gap_state_keeps [OF _ assms(2)])
  have write_back: "all_outcomes may_panic inv (if su_persist_normalized_events t then
      let (r, t) = event_record event t in write_record env streams r t else Done t)" if "inv t" for t streams
    using that by (auto simp: event_record_def Let_def intro!: record_keeps intro: frame core_simps)
  show ?thesis
    unfolding apply_derived_runtime_event_def
    by (intro all_outcomes_and_then engine_keeps assms gap write_back)
qed

lemma expire_keeps:
  assumes "inv s" and "expire_pending env now s = (t, lapsed)"
  shows "inv t" and "list_all admits lapsed"
proof -
  obtain mgr lapsed' where e: "expire_sells env (re_fresh_id env (su_record_sequence s)) now
      (engine_snapshot (su_state_engine s)) (su_tentative_sell_manager s) = (mgr, lapsed')" by (rule prod.exhaust)
  from expires [OF assms(1) e] have "inv (s\<lparr>su_tentative_sell_manager := mgr\<rparr>)" "list_all admits lapsed'"
    by simp_all
  then have "inv t \<and> list_all admits lapsed"
    using assms by (auto simp: expire_pending_def e split: if_splits intro: moved)
  then show "inv t" and "list_all admits lapsed" by simp_all
qed

lemma trade_keeps:
  assumes "inv s" and "flag tentative" and "token_of mint s = Some token"
  shows "all_outcomes may_panic inv (trade_token env event tentative mint f risk token s)"
proof -
  define d where "d = final_decision env event tentative mint token f risk s"
  note kept = trades [OF assms d_def]
  let ?start = "profile_inc ''decision_compute_calls'' 1 s"
  have start: "core ?start = core s" by simp
  have finish: "all_outcomes may_panic inv (and_then (record_fill env event fill t)
      (\<lambda>t. and_then (persist_snapshot env event mint f decision emitted t) (\<lambda>t. Done (refresh_health env t))))"
    if "inv t" for t fill decision emitted
    using that by (intro all_outcomes_and_then) (auto intro: frame core_simps refresh_keeps)
  show ?thesis
  proof (cases "record_decision env event mint d ?start")
    case (Done t)
    with record_decision_core [of d ?start env event mint] have t: "core t = core (with_decision d s)"
      using core_with_decision [OF start] by simp
    obtain executor fill where step: "execute_paper env event d token t = (executor, fill)" by (rule prod.exhaust)
    have "execute_paper env event d token s = (executor, fill)"
      using execute_paper_core [OF t, of env event d token] step by simp
    with kept have "inv ((with_decision d s)\<lparr>su_paper_executor := executor\<rparr>)" by simp
    moreover have "core (t\<lparr>su_paper_executor := executor\<rparr>) = core ((with_decision d s)\<lparr>su_paper_executor := executor\<rparr>)"
      using t by (simp add: core_def)
    ultimately have "inv (t\<lparr>su_paper_executor := executor\<rparr>)" by (rule moved)
    with finish show ?thesis by (simp add: trade_token_def Let_def d_def [symmetric] Done step)
  next
    case (Aborted t)
    with record_decision_core [of d ?start env event mint] start have "core t = core s" by simp
    then show ?thesis by (simp add: trade_token_def Let_def d_def [symmetric] Aborted moved [OF assms(1)])
  next
    case Panicked
    with record_decision_core [of d ?start env event mint] show ?thesis by simp
  qed
qed

lemma with_token_keeps:
  assumes "inv s" and "\<And>token. token_of mint s = Some token \<Longrightarrow> all_outcomes may_panic inv (f token s)"
  shows "all_outcomes may_panic inv (with_token env mint f s)"
  using assms by (auto simp: with_token_def intro: refresh_keeps split: option.splits)

lemma terminal_keeps:
  assumes "inv s"
  shows "all_outcomes may_panic inv (apply_risk_terminal env mint variant risk observed_at s)"
proof -
  have stored: "all_outcomes may_panic inv (if su_persist_normalized_events t
      then let (r, t) = new_record dataset source canon time payload t in append_storage env r t else Done t)"
    if "inv t" for t dataset source canon time payload
    using that by (auto simp: Let_def intro!: record_keeps intro: frame core_simps)
  show ?thesis
    unfolding apply_risk_terminal_def Let_def
    by (intro all_outcomes_and_then engine_keeps assms terminals stored [unfolded Let_def])
qed

lemma decide_keeps:
  assumes "inv s" and "flag tentative" and "token_of mint s = Some token"
  shows "all_outcomes may_panic inv (decide_token env event tentative mint f risk token s)"
proof -
  define t where "t = s\<lparr>su_latest_features := (su_latest_features s)(mint \<mapsto> f),
    su_latest_risk := (su_latest_risk s)(mint \<mapsto> risk)\<rparr>"
  have core: "core t = core s" by (simp add: t_def)
  have t: "inv t" "token_of mint t = Some token"
    using moved [OF assms(1) core] token_of_core [OF core] assms(3) by simp_all
  show ?thesis
    unfolding decide_token_def Let_def t_def [symmetric]
    using assms(2)
    by (auto intro!: trade_keeps t assms(2) all_outcomes_and_then terminal_keeps with_token_keeps split: option.splits)
qed

lemma evaluate_keeps:
  assumes "inv s" and "admits event" and "flag tentative" and "token_of mint s = Some token"
  shows "all_outcomes may_panic inv (evaluate_token env event tentative mint token s)"
proof -
  obtain f risk where a: "assess env event token s = (f, risk)" by (rule prod.exhaust)
  define u where "u = count_assessment s"
  have u: "inv u" by (rule moved [OF assms(1)]) (simp add: u_def)
  obtain mgr derived where m: "derive_sells env event tentative mint token f risk u = (mgr, derived)"
    by (rule prod.exhaust)
  from derives [OF u assms(2,3) m] have mgr: "inv (u\<lparr>su_tentative_sell_manager := mgr\<rparr>)" "list_all admits derived"
    by simp_all
  have apply_all: "all_outcomes may_panic inv (each (apply_derived_runtime_event env) events t)"
    if "inv t" "list_all admits events" for t events
    using that by (intro all_outcomes_each) (auto simp: list_all_iff intro: derived_keeps)
  have token: "token_of mint t = Some token" if "t = u\<lparr>su_tentative_sell_manager := mgr\<rparr>" for t
    using assms(4) by (simp add: that u_def token_of_def count_assessment_def profile_inc_def)
  have decide_again: "all_outcomes may_panic inv (with_token env mint (\<lambda>token s. let (f, risk) = assess env event token s in
      decide_token env event tentative mint f risk token (count_assessment s)) t)" if "inv t" for t
    using that
    by (intro with_token_keeps) (auto simp: Let_def intro!: decide_keeps assms(3) moved [OF that] split: prod.splits
        simp: token_of_core [of "count_assessment t" t])
  show ?thesis
  proof (cases "derived")
    case Nil
    then have start: "each (apply_derived_runtime_event env) derived (u\<lparr>su_tentative_sell_manager := mgr\<rparr>) =
      Done (u\<lparr>su_tentative_sell_manager := mgr\<rparr>)" by simp
    obtain t lapsed where e: "expire_pending env (em_received_at_wall_time (ne_meta event))
      (u\<lparr>su_tentative_sell_manager := mgr\<rparr>) = (t, lapsed)" by (rule prod.exhaust)
    from expire_keeps [OF mgr(1) e] have t: "inv t" "list_all admits lapsed" by simp_all
    have "token_of mint t = Some token"
      using e token [OF HOL.refl]
      by (auto simp: expire_pending_def token_of_def profile_inc_def split: if_splits prod.splits)
    then have same: "all_outcomes may_panic inv (decide_token env event tentative mint f risk token t)"
      by (intro decide_keeps t assms(3))
    have "all_outcomes may_panic inv (and_then (each (apply_derived_runtime_event env) lapsed t) (\<lambda>t.
        if lapsed = [] then decide_token env event tentative mint f risk token t
        else with_token env mint (\<lambda>token s. let (f, risk) = assess env event token s in
          decide_token env event tentative mint f risk token (count_assessment s)) t))"
    proof (cases "lapsed = []")
      case False
      then show ?thesis using apply_all [OF t] decide_again by (intro all_outcomes_and_then) auto
    qed (use same in simp)
    then show ?thesis
      by (simp add: evaluate_token_def a u_def [symmetric] m start e Nil Let_def)
  next
    case (Cons event' events)
    have "all_outcomes may_panic inv (case expire_pending env now t of (t, lapsed) \<Rightarrow>
        and_then (each (apply_derived_runtime_event env) lapsed t)
          (with_token env mint (\<lambda>token s. let (f, risk) = assess env event token s in
             decide_token env event tentative mint f risk token (count_assessment s))))" if "inv t" for t now
      using expire_keeps [OF that] by (auto split: prod.splits intro!: all_outcomes_and_then apply_all decide_again [unfolded Let_def] simp: Let_def)
    then show ?thesis
      using apply_all [OF mgr] Cons
      by (auto simp: evaluate_token_def a u_def [symmetric] m Let_def simp del: each.simps intro!: all_outcomes_and_then)
  qed
qed

theorem handle_event_keeps:
  assumes "inv s" and "admits event" and "flag tentative"
  shows "all_outcomes may_panic inv (handle_event env event tentative s)"
proof -
  have noted: "inv (note_mint mint t)" if "inv t" for mint t by (rule moved [OF that]) simp
  have "all_outcomes may_panic inv (if edge_collector_mode t then Done (refresh_health env t)
      else case event_mint event of None \<Rightarrow> Done (refresh_health env t)
        | Some mint \<Rightarrow> with_token env mint (evaluate_token env event tentative mint) (note_mint mint t))"
    if "inv t" for t
    using that by (auto intro: refresh_keeps intro!: with_token_keeps noted evaluate_keeps assms(2,3) split: option.splits)
  then show ?thesis
    unfolding handle_event_def by (intro all_outcomes_and_then intake_keeps assms(1,2))
qed

end

subsection \<open>Runs\<close>

text \<open>
  What drives the supervisor: events are published on one of its buses and handled from one (\<open>True\<close>: the
  tentative one). A run stops at the first error or panic.
\<close>

datatype 'd supervisor_op = Publish "'d normalized_event" bool | Handle "'d normalized_event" bool

fun op_event :: "'d supervisor_op \<Rightarrow> 'd normalized_event" where
  "op_event (Publish event tentative) = event"
| "op_event (Handle event tentative) = event"

fun op_tentative :: "'d supervisor_op \<Rightarrow> bool" where
  "op_tentative (Publish event tentative) = tentative"
| "op_tentative (Handle event tentative) = tentative"

fun supervisor_step ::
  "('d::linordered_field, 'q) runtime_env \<Rightarrow> 'd supervisor_op \<Rightarrow> ('d, 'f, 'q) supervisor \<Rightarrow>
   ('d, 'f, 'q) supervisor outcome" where
  "supervisor_step env (Publish event tentative) s =
    (if tentative then publish_tentative env event s else publish_canonical env event s)"
| "supervisor_step env (Handle event tentative) s = handle_event env event tentative s"

definition supervisor_run ::
  "('d::linordered_field, 'q) runtime_env \<Rightarrow> 'd supervisor_op list \<Rightarrow> ('d, 'f, 'q) supervisor \<Rightarrow>
   ('d, 'f, 'q) supervisor outcome" where
  "supervisor_run env ops s = each (supervisor_step env) ops s"

locale supervisor_invariant = pipeline_invariant env inv admits flag may_panic
  for env :: "('d::linordered_field, 'q) runtime_env" and inv :: "('d, 'f, 'q) supervisor \<Rightarrow> bool"
    and admits flag may_panic +
  assumes buses: "inv s \<Longrightarrow> inv (s\<lparr>su_canonical_bus := bus\<rparr>)" "inv s \<Longrightarrow> inv (s\<lparr>su_tentative_bus := bus\<rparr>)"
    and overflow: "admits (synthetic_gap_event env (s :: ('d, 'f, 'q) supervisor) slot GeyserProcessed)"
begin

lemma publish_canonical_keeps:
  assumes "inv s"
  shows "all_outcomes may_panic inv (publish_canonical env event s)"
proof -
  have dropped: "inv (s\<lparr>su_health := h\<rparr>)" for h by (rule moved [OF assms]) simp
  have audited: "all_outcomes may_panic inv (audit env kind details reasons t)" if "inv t" for kind details reasons t
    using that by (rule frame) (rule core_simps)
  have gap: "all_outcomes may_panic inv (overflow_gap env (synthetic_gap_event env u slot GeyserProcessed) t)"
    if "inv t" for t and u :: "('d, 'f, 'q) supervisor" and slot
  proof -
    let ?e = "synthetic_gap_event env u slot GeyserProcessed"
    have e: "ne_payload ?e = DataGapPayload (synthetic_gap slot GeyserProcessed)" by (simp add: synthetic_gap_event_def)
    have stored: "all_outcomes may_panic inv (if su_persist_normalized_events t
        then let (r, t) = new_record dataset source canon time payload t in append_storage env r t else Done t)"
      if "inv t" for t dataset source canon time payload
      using that by (auto simp: Let_def intro!: record_keeps intro: frame core_simps)
    show ?thesis
      unfolding overflow_gap_def e event_payload.case
      by (intro all_outcomes_and_then engine_keeps that overflow gap_state_keeps [OF _ overflow e] stored)
  qed
  show ?thesis
    by (auto simp: publish_canonical_def Let_def assms
        intro: buses intro!: all_outcomes_and_then audited dropped gap split: sum.splits event_bus_error.splits)
qed

lemma publish_tentative_keeps:
  assumes "inv s"
  shows "all_outcomes may_panic inv (publish_tentative env event s)"
  using assms
  by (auto simp: publish_tentative_def intro: buses frame core_simps split: sum.splits event_bus_error.splits)

lemma step_keeps:
  assumes "inv s" and "admits (op_event op)" and "flag (op_tentative op)"
  shows "all_outcomes may_panic inv (supervisor_step env op s)"
  using assms by (cases op) (auto intro: publish_canonical_keeps publish_tentative_keeps handle_event_keeps)

theorem run_keeps:
  assumes "inv s" and "list_all (\<lambda>op. admits (op_event op) \<and> flag (op_tentative op)) ops"
  shows "all_outcomes may_panic inv (supervisor_run env ops s)"
  unfolding supervisor_run_def
  using assms by (intro all_outcomes_each) (auto simp: list_all_iff intro: step_keeps)

end

end
