(* ===== verification/Pipeline_Properties.thy ===== *)
theory Pipeline_Properties
  imports Pipeline_Invariants Decision_Properties Engine_Runs
begin

text \<open>
  What holds along every run of the supervisor: the invariants that rest on \<open>supervisor_invariant\<close>, each an
  interpretation of that interface on the model's own components.
\<close>

subsection \<open>What the pipeline decides\<close>

lemma on_decision_fields [simp]:
  "do_decision_event (on_decision g d) = g (do_decision_event d)"
  by (simp add: on_decision_def)

lemma annotated_decision [simp]:
  "td_decision (do_decision_event (apply_shred_defense_annotations show_dec token d)) = td_decision (do_decision_event d)"
  by (simp add: apply_shred_defense_annotations_def add_reasons_def add_diagnostics_def Let_def)

lemma td_decision_add_reasons [simp]:
  "td_decision (do_decision_event (add_reasons reasons d)) = td_decision (do_decision_event d)"
  "td_decision (do_decision_event (decide_as decision d)) = decision"
  by (simp_all add: add_reasons_def decide_as_def)

lemma held_back_decision:
  "td_decision (do_decision_event (hold_back_tentative tentative d)) =
    (if tentative \<and> td_decision (do_decision_event d) \<in> {EnterPaper, EnterLive} then WatchDeep
     else td_decision (do_decision_event d))"
  by (auto simp: hold_back_tentative_def)

definition engine_decision ::
  "('d::linordered_field, 'q) runtime_env \<Rightarrow> 'd normalized_event \<Rightarrow> string \<Rightarrow> 'd token_state \<Rightarrow>
   'd feature_snapshot \<Rightarrow> 'd risk_assessment \<Rightarrow> ('d, 'f, 'q) supervisor \<Rightarrow> trade_decision" where
  "engine_decision env event mint token f risk s = td_decision (do_decision_event
    (evaluate_decision (tx_show_decimal env) (su_decision_engine s) token f risk
      (position_context (su_paper_executor s) mint) [] (su_config_hash s)
      (env_strategy_version (cfg_environment (su_config s))) (em_received_at_wall_time (ne_meta event))))"

text \<open>The decision that is recorded and executed, in terms of the one the decision engine made.\<close>

lemma final_decision_kind:
  "td_decision (do_decision_event (final_decision env event tentative mint token f risk s)) =
    (if \<not> fst (token_trade_allowed (tok_mint token) s)
     then (if tok_lifecycle token = LcInPosition then EmergencyExit else StopTracking)
     else if tentative \<and> engine_decision env event mint token f risk s \<in> {EnterPaper, EnterLive} then WatchDeep
     else engine_decision env event mint token f risk s)"
  by (auto simp: final_decision_def Let_def apply_runtime_safety_for_token_def held_back_decision
      engine_decision_def case_prod_unfold)

lemma with_decision_fields [simp]:
  "su_active_data_gaps (with_decision d s) = su_active_data_gaps s"
  "su_state_engine (with_decision d s) = su_state_engine s"
  "su_decision_engine (with_decision d s) = su_decision_engine s"
  "su_paper_executor (with_decision d s) = su_paper_executor s"
  "su_decisions (with_decision d s) = su_decisions s @ [do_decision_event d]"
  "su_decision_outcomes (with_decision d s) = su_decision_outcomes s @ [d]"
  by (simp_all add: with_decision_def)

lemma idle_decision:
  assumes "td_decision (do_decision_event d) \<in> {trade_decision.Ignore, WatchLight, WatchDeep, EnterLive, ScaleOut, StopTracking}"
  shows "execute_paper env event d token s = (su_paper_executor s, None)"
  using assms by (auto simp: execute_paper_def handle_decision_def)

subsection \<open>No token is ever in position\<close>

definition no_position_stage :: "'d state_engine \<Rightarrow> bool" where
  "no_position_stage e \<longleftrightarrow> (\<forall>m. lifecycle_of e m \<noteq> Some LcInPosition)"

lemma not_position_stages: "LcInPosition \<notin> activity_stages" "\<not> is_ended LcInPosition"
  by (simp_all add: activity_stages_def is_ended_def is_terminal_lifecycle_def)

lemma life_step_position: "life_step p m x y \<Longrightarrow> x \<noteq> Some LcInPosition \<Longrightarrow> y \<noteq> Some LcInPosition"
  by (cases rule: life_step.cases) (auto simp: not_position_stages dest: arg_cong [of _ _ is_ended] simp: terminal_lifecycle_ended)

lemma no_position_step:
  assumes "no_position_stage e" and "apply_event env event e = Some (e', ts)"
  shows "no_position_stage e'"
  using assms life_step_position [OF lifecycle_step [OF assms(2)]] by (auto simp: no_position_stage_def)

lemma no_position_token:
  "no_position_stage (su_state_engine s) \<Longrightarrow> token_of mint s = Some token \<Longrightarrow> tok_lifecycle token \<noteq> LcInPosition"
  by (auto simp: no_position_stage_def lifecycle_of_def token_of_def split: option.splits)

lemma no_position_start: "no_position_stage (new_state_engine ttl)"
  by (simp add: no_position_stage_def lifecycle_of_def new_state_engine_def)

subsection \<open>Derived events\<close>

fun sell_payload :: "'d event_payload \<Rightarrow> bool" where
  "sell_payload (TentativeSellIntentDetected _) = True"
| "sell_payload (TentativeMaliciousSellWarning _) = True"
| "sell_payload (ShredEmergencyExitArmed _) = True"
| "sell_payload (ShredEmergencyExitTriggered _) = True"
| "sell_payload (ShredSellIntentResolved _) = True"
| "sell_payload _ = False"

definition sell_events :: "'d normalized_event list \<Rightarrow> bool" where
  "sell_events events = list_all (\<lambda>event. sell_payload (ne_payload event)) events"

lemma sell_events_simps [simp]:
  "sell_events []" "sell_events (xs @ ys) \<longleftrightarrow> sell_events xs \<and> sell_events ys"
  "sell_events (x # xs) \<longleftrightarrow> sell_payload (ne_payload x) \<and> sell_events xs"
  by (simp_all add: sell_events_def)

lemma clone_payload [simp]: "ne_payload (clone_with_payload env event payload) = payload"
  by (simp add: clone_with_payload_def Let_def)

lemma detect_sell_events: "sell_events (snd (detect_tentative_sell env event token f risk position mgr))"
  by (auto simp: detect_tentative_sell_def detect_sell_def Let_def split: event_payload.splits option.splits)

lemma reconcile_sell_events: "sell_events (snd (reconcile_sells env event token mgr))"
proof -
  have "sell_events (snd (fold (reconcile_key env event token) keys (mgr, [])))" for keys
    by (rule fold_keeps [where P = "\<lambda>x. sell_events (snd x)"]) (auto simp: reconcile_key_def split: option.splits)
  then show ?thesis by (simp add: reconcile_sells_def split: option.splits)
qed

lemma expire_sell_events: "sell_events (snd (expire_sells env fresh_id now snapshot mgr))"
proof -
  have "sell_events (snd (fold (expire_key env fresh_id now snapshot) keys (mgr, [])))" for keys
    by (rule fold_keeps [where P = "\<lambda>x. sell_events (snd x)"])
      (auto simp: expire_key_def Let_def case_prod_unfold split: option.splits)
  then show ?thesis by (simp add: expire_sells_def)
qed

lemma derive_sell_events:
  assumes "derive_sells env event tentative mint token f risk s = (mgr, derived)"
  shows "sell_events derived"
proof -
  have "sell_events (snd (derive_sells env event tentative mint token f risk s))"
    by (simp add: derive_sells_def Let_def detect_sell_events reconcile_sell_events)
  with assms show ?thesis by simp
qed

lemma sell_events_all: "sell_events events \<Longrightarrow> (\<And>event. sell_payload (ne_payload event) \<Longrightarrow> P event) \<Longrightarrow> list_all P events"
  by (auto simp: sell_events_def list_all_iff)

subsection \<open>Trading while a gap is open\<close>

definition global_gap :: "scoped_data_gap list \<Rightarrow> bool" where
  "global_gap gaps \<longleftrightarrow> list_ex (\<lambda>gap. rg_active gap \<and> rg_trade_blocking gap \<and> rg_scope gap = ScopeGlobal) gaps"

text \<open>The only events that close a global gap.\<close>

definition reopens :: "'d normalized_event \<Rightarrow> bool" where
  "reopens event \<longleftrightarrow> (case ne_payload event of
     DataGapPayload payload \<Rightarrow> gap_recovery payload \<and> contains_text ''enter_data_gap_mode'' (dg_recovery_action payload)
   | _ \<Rightarrow> False)"

lemma global_gap_blocks: "global_gap (su_active_data_gaps s) \<Longrightarrow> \<not> fst (token_trade_allowed mint s)"
  by (auto simp: global_gap_def token_trade_allowed_def trade_allowed_def global_block_def list_ex_iff)

lemma note_gap_global:
  assumes "global_gap gaps" and "\<not> reopens event" and "ne_payload event = DataGapPayload payload"
    and "gap \<in> set (scoped_gaps_from_event payload run_id scenario_id)"
  shows "global_gap (note_gap gap gaps)"
proof (cases "rg_active gap")
  case False
  from assms(4) False have "rg_scope gap \<noteq> ScopeGlobal"
    using assms(2,3)
    by (auto simp: scoped_gaps_from_event_def scoped_gap_def gap_scope_def reopens_def split: if_splits)
  with assms(1) False show ?thesis
    by (auto simp: global_gap_def note_gap_def list_ex_iff same_gap_def)
qed (use assms(1) in \<open>auto simp: global_gap_def note_gap_def\<close>)

lemma sell_not_reopening: "sell_payload (ne_payload event) \<Longrightarrow> \<not> reopens event"
  by (cases "ne_payload event") (simp_all add: reopens_def)

lemma pipeline_events_not_reopening:
  "\<not> reopens (risk_terminal_event env mint variant risk observed_at s)"
  "\<not> reopens (synthetic_gap_event env s slot source)"
  by (simp_all add: reopens_def risk_terminal_event_def synthetic_gap_event_def synthetic_gap_def gap_recovery_def)

text \<open>
  The paper books stand still, and every decision since the \<open>n\<close>-th is one of some that do not trade.
\<close>

definition standing_still ::
  "trade_decision set \<Rightarrow> nat \<Rightarrow> 'd paper_executor \<Rightarrow> ('d, 'f, 'q) supervisor \<Rightarrow> bool" where
  "standing_still idle n books s \<longleftrightarrow> su_paper_executor s = books \<and> n \<le> length (su_decisions s) \<and>
    list_all (\<lambda>e. td_decision e \<in> idle) (drop n (su_decisions s))"

lemma standing_still_start: "standing_still idle (length (su_decisions s)) (su_paper_executor s) s"
  by (simp add: standing_still_def)

lemma standing_still_decides:
  assumes "standing_still idle n books s" and "td_decision (do_decision_event d) \<in> idle"
    and "idle \<subseteq> {StopTracking, WatchLight}"
  shows "standing_still idle n books (with_decision d s)"
    and "standing_still idle n books ((with_decision d s)\<lparr>su_paper_executor := fst (execute_paper env event d token s)\<rparr>)"
proof -
  have "execute_paper env event d token s = (su_paper_executor s, None)"
    using assms(2,3) by (intro idle_decision) auto
  with assms show "standing_still idle n books (with_decision d s)"
    and "standing_still idle n books ((with_decision d s)\<lparr>su_paper_executor := fst (execute_paper env event d token s)\<rparr>)"
    by (simp_all add: standing_still_def with_decision_def)
qed

interpretation blocked: supervisor_invariant env
  "\<lambda>s. global_gap (su_active_data_gaps s) \<and> no_position_stage (su_state_engine s) \<and> standing_still {StopTracking} n books s"
  "\<lambda>event. \<not> reopens event" "\<lambda>_. True" True for env :: "('d::linordered_field, 'q) runtime_env" and n books
proof (unfold_locales, goal_cases)
  case (1 s t) then show ?case by (simp add: standing_still_def core_def)
next
  case (2 s event e ts) then show ?case by (auto simp: standing_still_def intro: no_position_step)
next
  case (4 s event payload gap run_id scenario_id)
  then show ?case by (auto simp: standing_still_def intro: note_gap_global)
next
  case (7 s event tentative mint token f risk mgr derived)
  then show ?case
    by (auto simp: standing_still_def dest!: derive_sell_events elim!: sell_events_all sell_not_reopening)
next
  case (8 s fresh_id now mgr lapsed) 
  then show ?case
    using expire_sell_events [of env fresh_id now "engine_snapshot (su_state_engine s)" "su_tentative_sell_manager s"]
    by (auto simp: standing_still_def elim!: sell_events_all sell_not_reopening)
next
  case (10 s tentative mint token d event f risk)
  then have "td_decision (do_decision_event d) = StopTracking"
    using global_gap_blocks [of s] no_position_token [of s mint token] by (simp add: final_decision_kind)
  with 10 have "standing_still {StopTracking} n books (with_decision d s)"
    "standing_still {StopTracking} n books ((with_decision d s)\<lparr>su_paper_executor := fst (execute_paper env event d token s)\<rparr>)"
    by (simp_all add: standing_still_decides)
  with 10 show ?case by simp
qed (auto simp: standing_still_def pipeline_events_not_reopening)

lemma audit_core: "audit env kind details reasons s = Done t \<Longrightarrow> core t = core (s :: ('d::linordered_field, 'f, 'q) supervisor)"
  using keeps_core_audit [of s env kind details reasons] by simp

lemma stored_core:
  fixes s :: "('d::linordered_field, 'f, 'q) supervisor"
  assumes "(if b then let (r, s) = new_record dataset source canon time payload s in append_storage env r s else Done s) = Done t"
  shows "core t = core s"
proof -
  have "keeps_core s (if b then let (r, s) = new_record dataset source canon time payload s in append_storage env r s
      else Done s)"
    by (auto simp: Let_def intro!: keeps_core_new_record core_simps)
  with assms show ?thesis by simp
qed

lemma overflow_opens_gap:
  fixes s :: "('d::linordered_field, 'f, 'q) supervisor"
  assumes full: "try_publish (re_channel env) PriorityHigh event (su_canonical_bus s) = Inl BusFull"
    and run: "publish_canonical env event s = Done t"
  shows "global_gap (su_active_data_gaps t)"
proof -
  let ?dropped = "s\<lparr>su_health := (su_health s)\<lparr>rh_canonical_events_dropped := sat_add (rh_canonical_events_dropped (su_health s)) 1\<rparr>\<rparr>"
  from full run obtain a where a: "audit env QueueOverflow [''queue'' \<mapsto> ''canonical''] [CanonicalQueueOverflow] ?dropped = Done a"
    and rest: "overflow_gap env (synthetic_gap_event env a (em_slot (ne_meta event)) GeyserProcessed) a = Done t"
    by (auto simp: publish_canonical_def Let_def and_then_Done)
  define payload where "payload = synthetic_gap (em_slot (ne_meta event)) GeyserProcessed"
  from rest obtain b c where b: "engine_apply env (synthetic_gap_event env a (em_slot (ne_meta event)) GeyserProcessed) a = Done b"
    and c: "update_data_gap_state env payload b = Done c" and t: "core t = core c"
    by (auto simp: overflow_gap_def and_then_Done synthetic_gap_event_def payload_def dest!: stored_core)
  have gaps: "scoped_gaps_from_event payload run_id scenario_id = [scoped_gap payload run_id scenario_id ScopeGlobal None]"
    and active: "rg_active (scoped_gap payload run_id scenario_id ScopeGlobal None)" for run_id scenario_id
    by (simp_all add: scoped_gaps_from_event_def payload_def synthetic_gap_def gap_scope_def scoped_gap_def gap_recovery_def)
  define gap where "gap = scoped_gap payload (run_id_of b) (su_current_scenario_id b) ScopeGlobal None"
  from c obtain d where d: "c = recompute_safety env (d\<lparr>su_active_data_gaps := note_gap gap (su_active_data_gaps d)\<rparr>)"
    by (auto simp: update_data_gap_state_def gaps and_then_Done update_gap_def active gap_def)
  have "su_active_data_gaps c = note_gap gap (su_active_data_gaps d)"
    by (simp add: d recompute_safety_def core_components(4) [OF core_bookkeeping(6)])
  moreover have "global_gap (note_gap gap gaps)" for gaps
    using active [of "run_id_of b" "su_current_scenario_id b"]
    by (simp add: global_gap_def note_gap_def gap_def) (simp add: scoped_gap_def payload_def synthetic_gap_def)
  ultimately show ?thesis using core_components(4) [OF t] by simp
qed

text \<open>Publishing alone: no event is handled, so no decision is made.\<close>

interpretation publishing: supervisor_invariant env
  "\<lambda>s. no_position_stage (su_state_engine s) \<and> su_paper_executor s = books \<and> su_decisions s = decisions"
  "\<lambda>_. True" "\<lambda>_. False" True for env :: "('d::linordered_field, 'q) runtime_env" and books decisions
proof (unfold_locales, goal_cases)
  case (1 s t) then show ?case by (simp add: core_def)
qed (auto intro: no_position_step simp: list_all_iff)

text \<open>
  C1. A full canonical queue stops trading for good: it opens a gap of global scope, and no recovery the sources
  report closes one, because such an event carries \<open>recover\<close> or \<open>resume\<close> but not \<open>enter_data_gap_mode\<close> and so
  has another scope. From then on, however the run goes on, every decision is \<open>StopTracking\<close> and the paper books
  stand still: no position is entered, marked or closed.
\<close>

theorem overflow_stops_trading:
  assumes "try_publish (re_channel env) PriorityHigh event (su_canonical_bus s) = Inl BusFull"
    and "no_position_stage (su_state_engine s)"
    and "list_all (\<lambda>op. \<not> reopens (op_event op)) ops"
  shows "all_outcomes True (\<lambda>t. su_paper_executor t = su_paper_executor s \<and>
      list_all (\<lambda>e. td_decision e = StopTracking) (drop (length (su_decisions s)) (su_decisions t)))
    (and_then (publish_canonical env event s) (supervisor_run env ops))"
proof -
  let ?n = "length (su_decisions s)" and ?books = "su_paper_executor s"
  have published: "all_outcomes True (\<lambda>t. no_position_stage (su_state_engine t) \<and> su_paper_executor t = ?books \<and>
      su_decisions t = su_decisions s) (publish_canonical env event s)"
    using assms(2) by (intro publishing.publish_canonical_keeps) simp
  have runs: "all_outcomes True (\<lambda>t. su_paper_executor t = ?books \<and>
      list_all (\<lambda>e. td_decision e = StopTracking) (drop ?n (su_decisions t))) (supervisor_run env ops t)"
    if "publish_canonical env event s = Done t" for t
  proof -
    have "global_gap (su_active_data_gaps t) \<and> no_position_stage (su_state_engine t) \<and> standing_still {StopTracking} ?n ?books t"
      using overflow_opens_gap [OF assms(1) that] published that by (simp add: standing_still_def)
    then have "all_outcomes True (\<lambda>t. global_gap (su_active_data_gaps t) \<and> no_position_stage (su_state_engine t) \<and>
        standing_still {StopTracking} ?n ?books t) (supervisor_run env ops t)"
      using assms(3) by (intro blocked.run_keeps) simp_all
    then show ?thesis by (cases "supervisor_run env ops t") (simp_all add: standing_still_def)
  qed
  with published show ?thesis by (cases "publish_canonical env event s") simp_all
qed

subsection \<open>The kill switch\<close>

interpretation killed: supervisor_invariant env
  "\<lambda>s. de_kill_switch (su_decision_engine s) \<and> no_position_stage (su_state_engine s) \<and>
    standing_still {StopTracking, WatchLight} n books s"
  "\<lambda>_. True" "\<lambda>_. True" True for env :: "('d::linordered_field, 'q) runtime_env" and n books
proof (unfold_locales, goal_cases)
  case (1 s t) then show ?case by (simp add: standing_still_def core_def)
next
  case (2 s event e ts) then show ?case by (auto simp: standing_still_def intro: no_position_step)
next
  case (10 s tentative mint token d event f risk)
  then have "tok_lifecycle token \<noteq> LcInPosition" by (auto dest: no_position_token)
  moreover have "unmanaged (su_decision_engine s) f risk" using 10 by (simp add: unmanaged_def)
  ultimately have "engine_decision env event mint token f risk s \<in> {StopTracking, WatchLight}"
    unfolding engine_decision_def by (rule unmanaged_decision [rotated])
  with \<open>tok_lifecycle token \<noteq> LcInPosition\<close> 10
  have "td_decision (do_decision_event d) \<in> {StopTracking, WatchLight}" by (auto simp: final_decision_kind)
  with 10 have "standing_still {StopTracking, WatchLight} n books (with_decision d s)"
    "standing_still {StopTracking, WatchLight} n books
      ((with_decision d s)\<lparr>su_paper_executor := fst (execute_paper env event d token s)\<rparr>)"
    by (auto intro!: standing_still_decides)
  with 10 show ?case by simp
qed (auto simp: standing_still_def list_all_iff)


subsection \<open>Tentative events\<close>

definition position_mints :: "'d paper_executor \<Rightarrow> string set" where
  "position_mints e = fst ` set (pe_positions e)"

lemma handle_decision_mints:
  assumes "td_decision (do_decision_event d) \<noteq> EnterPaper"
  shows "position_mints (fst (handle_decision pd d token now failing e)) \<subseteq> position_mints e"
  using assms
  by (cases "td_decision (do_decision_event d)")
    (auto simp: handle_decision_def exit_paper_def hold_paper_def Let_def position_mints_def update_conv' delete_conv'
      simp flip: dom_map_of_conv_image_fst split: option.splits if_splits)

lemma execute_paper_mints:
  assumes "td_decision (do_decision_event d) \<notin> {EnterPaper, EnterLive}"
  shows "position_mints (fst (execute_paper env event d token s)) \<subseteq> position_mints (su_paper_executor s)"
  using assms by (auto simp: execute_paper_def dest: handle_decision_mints [THEN subsetD, rotated])

lemma tentative_kind:
  "td_decision (do_decision_event (final_decision env event True mint token f risk s)) \<notin> {EnterPaper, EnterLive}"
  by (auto simp: final_decision_kind)

interpretation tentative_only: supervisor_invariant env
  "\<lambda>s. position_mints (su_paper_executor s) \<subseteq> mints \<and> n \<le> length (su_decisions s) \<and>
    list_all (\<lambda>e. td_decision e \<notin> {EnterPaper, EnterLive}) (drop n (su_decisions s))"
  "\<lambda>_. True" "\<lambda>tentative. tentative" True for env :: "('d::linordered_field, 'q) runtime_env" and n mints
proof (unfold_locales, goal_cases)
  case (1 s t) then show ?case by (simp add: core_def)
next
  case (10 s tentative mint token d event f risk)
  then have d: "d = final_decision env event True mint token f risk s" by simp
  have "td_decision (do_decision_event d) \<notin> {EnterPaper, EnterLive}" unfolding d by (rule tentative_kind)
  with 10 execute_paper_mints [of d env event token s] show ?case by auto
qed (auto simp: list_all_iff)

text \<open>
  C2. Tentative events open nothing: whatever tentative events are handled, no decision made on them enters a
  position, and every open position was open before.
\<close>

theorem tentative_events_open_nothing:
  assumes "list_all op_tentative ops"
  shows "all_outcomes True (\<lambda>t. position_mints (su_paper_executor t) \<subseteq> position_mints (su_paper_executor s) \<and>
      list_all (\<lambda>e. td_decision e \<notin> {EnterPaper, EnterLive}) (drop (length (su_decisions s)) (su_decisions t)))
    (supervisor_run env ops s)"
proof -
  have "all_outcomes True (\<lambda>t. position_mints (su_paper_executor t) \<subseteq> position_mints (su_paper_executor s) \<and>
      length (su_decisions s) \<le> length (su_decisions t) \<and>
      list_all (\<lambda>e. td_decision e \<notin> {EnterPaper, EnterLive}) (drop (length (su_decisions s)) (su_decisions t)))
    (supervisor_run env ops s)"
    using assms by (intro tentative_only.run_keeps) (auto simp: list_all_iff)
  then show ?thesis by (cases "supervisor_run env ops s") simp_all
qed

subsection \<open>Books and reports\<close>

interpretation books: supervisor_invariant env
  "\<lambda>s. paper_inv (su_paper_executor s) \<and> su_decisions s = map do_decision_event (su_decision_outcomes s)"
  "\<lambda>_. True" "\<lambda>_. True" True for env :: "('d::linordered_field, 'q) runtime_env"
proof (unfold_locales, goal_cases)
  case (1 s t) then show ?case by (auto simp: core_def)
next
  case (10 s tentative mint token d event f risk)
  then show ?case by (auto simp: execute_paper_def handle_decision_inv)
qed (auto simp: list_all_iff)

text \<open>
  C18. Along every run the paper books balance: the closed result is the sum over the recorded fills, every mint has
  at most one position, and every position has a positive size; and the reported decisions are those of the
  recorded outcomes, in order.
\<close>

theorem pipeline_books_balance:
  assumes "paper_inv (su_paper_executor s)" and "su_decisions s = map do_decision_event (su_decision_outcomes s)"
  shows "all_outcomes True (\<lambda>t. paper_inv (su_paper_executor t) \<and>
      su_decisions t = map do_decision_event (su_decision_outcomes t)) (supervisor_run env ops s)"
  using assms by (intro books.run_keeps) (simp_all add: list_all_iff)

subsection \<open>The engine inside the pipeline\<close>

lemma foldo_append: "foldo f (xs @ ys) s = Option.bind (foldo f xs s) (foldo f ys)"
  by (induction xs arbitrary: s) (auto split: bind_splits)

interpretation engine: supervisor_invariant env
  "\<lambda>s. \<exists>events. engine_run (text_env_of env) (map Apply events) start = Some (su_state_engine s)"
  "\<lambda>_. True" "\<lambda>_. True" True for env :: "('d::linordered_field, 'q) runtime_env" and start
proof (unfold_locales, goal_cases)
  case (1 s t) then show ?case by (auto simp: core_def)
next
  case (2 s event e ts)
  then obtain events where "engine_run (text_env_of env) (map Apply events) start = Some (su_state_engine s)" by blast
  with 2 have "engine_run (text_env_of env) (map Apply (events @ [event])) start = Some e"
    by (simp add: engine_run_def foldo_append)
  then show ?case by (auto intro: exI [of _ "events @ [event]"])
qed (auto simp: list_all_iff)


subsection \<open>Panics\<close>

lemma sell_decimals_ok: "sell_payload (ne_payload event) \<Longrightarrow> event_decimals_ok event"
  by (cases "ne_payload event") (simp_all add: event_decimals_ok_def)

lemma pipeline_events_decimals_ok:
  "event_decimals_ok (risk_terminal_event env mint variant risk observed_at s)"
  "event_decimals_ok (synthetic_gap_event env s slot source)"
  by (simp_all add: event_decimals_ok_def risk_terminal_event_def synthetic_gap_event_def)

definition engine_safe :: "'d state_engine \<Rightarrow> bool" where
  "engine_safe e \<longleftrightarrow> table_decimals_small e \<and> mints_distinct e"

lemma engine_safe_step:
  assumes "engine_safe e" and "event_decimals_ok event"
  obtains e' ts where "apply_event env event e = Some (e', ts)" "engine_safe e'"
proof -
  obtain e' where e': "engine_step env (Apply event) e = Some e'" "table_decimals_small e'"
    using engine_step_total [of e "Apply event" env] assms by (auto simp: engine_safe_def)
  with mints_distinct_step [OF e'(1)] assms have "engine_safe e'" by (simp add: engine_safe_def)
  with e'(1) that show thesis by auto
qed

interpretation safe: supervisor_invariant env "\<lambda>s. engine_safe (su_state_engine s)" event_decimals_ok "\<lambda>_. True" False
  for env :: "('d::linordered_field, 'q) runtime_env"
proof (unfold_locales, goal_cases)
  case (1 s t) then show ?case by (simp add: core_def)
next
  case (2 s event e ts)
  then show ?case by (auto elim: engine_safe_step [of "su_state_engine s" event "text_env_of env"])
next
  case (3 s event)
  then show ?case by (auto elim: engine_safe_step [of "su_state_engine s" event "text_env_of env"])
next
  case (7 s event tentative mint token f risk mgr derived)
  then show ?case by (auto dest!: derive_sell_events elim!: sell_events_all sell_decimals_ok)
next
  case (8 s fresh_id now mgr lapsed)
  then show ?case
    using expire_sell_events [of env fresh_id now "engine_snapshot (su_state_engine s)" "su_tentative_sell_manager s"]
    by (auto elim!: sell_events_all sell_decimals_ok)
qed (auto simp: pipeline_events_decimals_ok)

text \<open>
  The pipeline does not panic while the events carry at most 19 decimals: every run returns or stops with an
  error, and leaves the token table in the same condition.
\<close>

theorem pipeline_never_panics:
  assumes "engine_safe (su_state_engine s)" and "list_all (\<lambda>op. event_decimals_ok (op_event op)) ops"
  shows "all_outcomes False (\<lambda>t. engine_safe (su_state_engine t)) (supervisor_run env ops s)"
  using assms by (intro safe.run_keeps) simp_all

subsection \<open>Draining the buses\<close>

definition queued :: "('q \<Rightarrow> 't list) \<Rightarrow> 'q event_bus \<Rightarrow> nat" where
  "queued contents b = length (contents (bus_high b)) + length (contents (bus_normal b)) + length (contents (bus_low b))"

lemma recv_queued:
  assumes "fifo_channel C capacity contents" and "recv C b = Some (message, b')"
  shows "queued contents b = Suc (queued contents b')"
  using assms by (auto simp: fifo_channel_def recv_def queued_def split: option.splits)

lemma recv_empty:
  assumes "fifo_channel C capacity contents" and "recv C b = None"
  shows "queued contents b = 0"
  using assms by (auto simp: fifo_channel_def recv_def queued_def split: option.splits prod.splits)

text \<open>Handling an event leaves both buses alone.\<close>

interpretation bus_frame: pipeline_invariant env
  "\<lambda>s. su_canonical_bus s = canonical \<and> su_tentative_bus s = tentative" "\<lambda>_. True" "\<lambda>_. True" True
  for env :: "('d::linordered_field, 'q) runtime_env" and canonical tentative
proof (unfold_locales, goal_cases)
  case (1 s t) then show ?case by (simp add: core_def)
qed (auto simp: with_decision_def list_all_iff)

lemma handle_event_buses:
  assumes "handle_event env event tentative s = Done t"
  shows "su_canonical_bus t = su_canonical_bus s" and "su_tentative_bus t = su_tentative_bus s"
proof -
  have "all_outcomes True (\<lambda>u. su_canonical_bus u = su_canonical_bus s \<and> su_tentative_bus u = su_tentative_bus s)
    (handle_event env event tentative s)" by (rule bus_frame.handle_event_keeps) simp_all
  with assms show "su_canonical_bus t = su_canonical_bus s" and "su_tentative_bus t = su_tentative_bus s" by simp_all
qed

lemma expire_shreds_buses:
  fixes s :: "('d::linordered_field, 'f, 'q) supervisor"
  assumes "expire_shreds env s = Done t"
  shows "su_canonical_bus t = su_canonical_bus s" and "su_tentative_bus t = su_tentative_bus s"
  using assms
  by (auto simp: expire_shreds_def Let_def dest!: audit_core dest: core_components(7,8) split: option.splits prod.splits if_splits)

definition drained :: "('q \<Rightarrow> 'd normalized_event list) \<Rightarrow> ('d, 'f, 'q) supervisor outcome \<Rightarrow> bool" where
  "drained contents r = (case r of
     Done t \<Rightarrow> queued contents (su_canonical_bus t) + queued contents (su_tentative_bus t) = 0 | _ \<Rightarrow> True)"

lemma drained_simps [simp]:
  "drained contents (Done t) \<longleftrightarrow> queued contents (su_canonical_bus t) + queued contents (su_tentative_bus t) = 0"
  "drained contents (Aborted t)" "drained contents Panicked"
  by (simp_all add: drained_def)


end
