(* ===== verification/Supervisor_Start.thy ===== *)
theory Supervisor_Start
  imports Supervisor_Health
begin

text \<open>
  How a supervisor starts and starts again (\<open>Supervisor::new\<close>, \<open>build_shred_service\<close>, \<open>validate_sources\<close>,
  \<open>reset_for_next_run\<close>). The sections of the configuration that \<open>app_config\<close> leaves out are passed beside it;
  the environment variables, whether the build has the production shred decoder, and what the calibration file
  holds are arguments. Creating the storage layout and the metrics registry succeeds.
\<close>

record 'd runtime_sections =
  rx_ttl :: ttl_config
  rx_strategy :: "'d strategy_thresholds"
  rx_edge :: "'d edge_config"
  rx_early_intent :: "'d early_intent_config"
  rx_shred_exit :: "'d shred_exit_config"
  rx_feature_pressure :: feature_pressure_config

text \<open>What the file system and the build contribute.\<close>

record 'd runtime_host =
  ho_env_var :: "string \<Rightarrow> string option"
  ho_production_shred_decoder :: bool
  ho_calibration_path :: string
  ho_calibration :: "'d persisted_calibration option"
  ho_snapshot_written :: bool
  ho_started_at :: instant

datatype runtime_error = ProductionShredDecoderDisabled | SourceUnavailable string

subsection \<open>Sources\<close>

definition deshred_endpoint_available :: "(string \<Rightarrow> string option) \<Rightarrow> deshred_config \<Rightarrow> bool" where
  "deshred_endpoint_available env_var c \<longleftrightarrow> \<not> is_blank (ds_endpoint c) \<or>
    \<not> is_blank (ds_endpoint_env c) \<and> (case env_var (ds_endpoint_env c) of Some x \<Rightarrow> \<not> is_blank x | None \<Rightarrow> False)"

definition deshred_auth_available :: "(string \<Rightarrow> string option) \<Rightarrow> deshred_config \<Rightarrow> bool" where
  "deshred_auth_available env_var c \<longleftrightarrow> \<not> is_blank (ds_auth_token_env c) \<and>
    (case env_var (ds_auth_token_env c) of Some x \<Rightarrow> \<not> is_blank x | None \<Rightarrow> False)"

definition validate_sources ::
  "(string \<Rightarrow> string option) \<Rightarrow> ('d, 'f) app_config \<Rightarrow> 'd early_intent_config \<Rightarrow> (runtime_error, unit) result" where
  "validate_sources env_var config early_intent =
    rbind (case ing_deshred (cfg_ingest config) of
       Some c \<Rightarrow>
         (if ds_enabled c \<and> ds_required c \<and> \<not> deshred_endpoint_available env_var c
          then Err (SourceUnavailable (''deshred is required but no endpoint is configured; set ingest.deshred.endpoint or '' @
            (if is_blank (ds_endpoint_env c) then ''GEYSER_ENDPOINT'' else ds_endpoint_env c)))
          else if ds_enabled c \<and> ds_auth_required c \<and> \<not> deshred_auth_available env_var c
          then Err (SourceUnavailable (''deshred auth is required but no auth token is available in '' @
            (if is_blank (ds_auth_token_env c) then ''GEYSER_AUTH_TOKEN'' else ds_auth_token_env c)))
          else Ok ())
     | None \<Rightarrow> Ok ())
    (\<lambda>_. if sh_enabled (cfg_shred config) \<and> sh_decoder (cfg_shred config) = DecoderProduction \<and>
        \<not> ei_allow_production_raw_shred early_intent \<and> sh_required (cfg_shred config)
     then Err (SourceUnavailable (''production raw shred early-intent source is unavailable because the production '' @
       ''shred decoder is disabled''))
     else Ok ())"

definition build_shred_service :: "bool \<Rightarrow> shred_config \<Rightarrow> (runtime_error, shred_service option) result" where
  "build_shred_service production_decoder c =
    (if \<not> sh_enabled c then Ok None
     else
       (let service = new_shred_service (sint (sh_tentative_ttl_ms c) * 1000000) in
        case sh_decoder c of
          DecoderFixture \<Rightarrow> Ok (Some service)
        | DecoderProduction \<Rightarrow>
            (if production_decoder then Ok (Some service)
             else if sh_allow_geyser_only_fallback c then Ok None
             else Err ProductionShredDecoderDisabled)))"

subsection \<open>The first state\<close>

definition new_health ::
  "stream_only_config \<Rightarrow> shred_config \<Rightarrow> ('d::linordered_field) early_intent_config \<Rightarrow> bool \<Rightarrow> runtime_mode \<Rightarrow>
   'd runtime_health" where
  "new_health so shred early_intent service mode =
    \<lparr>rh_early_intent_enabled = ei_enabled early_intent, rh_early_intent_sources_active = [],
     rh_stream_only_enabled = so_enabled so, rh_stream_only_passed = False, rh_rpc_network_calls_total = 0,
     rh_rpc_credits_used_total = 0, rh_rpc_denials_total = 0,
     rh_market_data_rpc_calls_allowed = allow_tracking_rpc so,
     rh_holder_rpc_calls_allowed = allow_holder_rpc so, rh_metadata_fetch_allowed = allow_metadata_rpc so,
     rh_confirmation_rpc_allowed = allow_confirmation_rpc so,
     rh_blockhash_rpc_allowed = allow_blockhash_rpc so, rh_geyser_connected = False,
     rh_geyser_endpoint_configured = False, rh_geyser_auth_configured = False,
     rh_geyser_last_event_time = None, rh_geyser_reconnect_count = 0, rh_geyser_gap_count = 0,
     rh_geyser_events_received = 0, rh_deshred_supported = False, rh_deshred_connected = False,
     rh_deshred_provider_status = ''not_requested'', rh_deshred_endpoint_configured = False,
     rh_deshred_auth_configured = False, rh_deshred_events_received = 0, rh_deshred_transactions_decoded = 0,
     rh_deshred_decode_errors = 0, rh_deshred_reconnect_count = 0, rh_deshred_unsupported_count = 0,
     rh_deshred_tentative_sells_total = 0, rh_deshred_malicious_warnings_total = 0,
     rh_deshred_emergency_exits_armed_total = 0, rh_deshred_emergency_exits_triggered_total = 0,
     rh_deshred_confirmed_executed_total = 0, rh_deshred_false_positive_total = 0,
     rh_deshred_saved_loss_quote_total = 0, rh_deshred_opportunity_cost_quote_total = 0,
     rh_raw_shred_connected = False, rh_raw_shred_supported = (sh_decoder shred = DecoderProduction),
     rh_raw_shred_tentative_sells_total = 0, rh_mock_early_intent_active = False,
     rh_mock_early_intent_tentative_sells_total = 0, rh_fixture_early_intent_tentative_sells_total = 0,
     rh_replay_early_intent_tentative_sells_total = 0, rh_source_dedup_count = 0,
     rh_early_intent_dedup_pairs = Map.empty, rh_shred_connected = (sh_enabled shred \<and> service),
     rh_storage_healthy = True, rh_rpc_budget_healthy = True, rh_event_queue_depth = 0,
     rh_tentative_queue_depth = 0, rh_canonical_queue_depth = 0, rh_active_tokens = 0,
     rh_active_positions = 0, rh_data_gap_active = False, rh_data_gap_scope = None,
     rh_kill_switch_active = False, rh_paper_pnl = 0, rh_realized_pnl = 0, rh_fee_drag = 0,
     rh_slippage_drag = 0, rh_latency_drag = 0, rh_events_processed = 0, rh_canonical_events_dropped = 0,
     rh_skipped_feature_snapshot_count = 0, rh_discarded_tokens = 0, rh_rugged_tokens = 0,
     rh_last_event_time = None, rh_last_decision_time = None, rh_last_persist_time = None,
     rh_runtime_uptime_ms = 0, rh_mode = mode, rh_live_source_mode = ''fixture'',
     rh_shred_tentative_sells_total = 0, rh_shred_malicious_sell_warnings_total = 0,
     rh_shred_emergency_exits_armed_total = 0, rh_shred_emergency_exits_triggered_total = 0,
     rh_shred_confirmed_executed_total = 0, rh_shred_confirmed_failed_total = 0,
     rh_shred_not_seen_within_ttl_total = 0, rh_shred_reorged_total = 0, rh_shred_decode_mismatch_total = 0,
     rh_shred_account_effect_confirmed_total = 0, rh_shred_sell_false_positive_total = 0,
     rh_shred_saved_loss_quote_total = 0, rh_shred_opportunity_cost_quote_total = 0\<rparr>"

definition new_safety :: "('d, 'f) app_config \<Rightarrow> runtime_mode \<Rightarrow> runtime_safety" where
  "new_safety config mode =
    (let edge = (mode = RtEdgeCollector) in
     \<lparr>rs_trade_allowed = (\<not> lv_enabled (cfg_live config) \<and> \<not> edge),
      rs_paper_allowed = (pa_enabled (cfg_paper config) \<and> \<not> edge),
      rs_live_allowed = (lv_enabled (cfg_live config) \<and> \<not> edge), rs_data_quality_allowed = True,
      rs_rpc_budget_allowed = True, rs_max_loss_allowed = True, rs_stale_data_allowed = True, rs_reason_codes = []\<rparr>)"

definition calibration_snapshot_hash ::
  "bool \<Rightarrow> ('d::linordered_field) tentative_sell_manager \<Rightarrow> string option" where
  "calibration_snapshot_hash snapshot_written mgr =
    (if snapshot_written then Some (persisted_hash (tm_loaded_persisted mgr))
     else cs_persisted_version_hash (tm_calibration mgr))"

definition initial_supervisor ::
  "('d::linordered_field, 'q) runtime_env \<Rightarrow> 'd runtime_host \<Rightarrow> ('d, 'f) app_config \<Rightarrow> 'd runtime_sections \<Rightarrow>
   string \<Rightarrow> string \<Rightarrow> runtime_mode \<Rightarrow> shred_service option \<Rightarrow> ('d, 'f, 'q) supervisor" where
  "initial_supervisor env host config sections config_hash idl_hash mode service =
    (let mgr = new_tentative_sell_manager (ho_calibration_path host) (ho_calibration host)
           (rx_early_intent sections) (rx_shred_exit sections);
         edge = (mode = RtEdgeCollector) in
     \<lparr>su_config = config, su_feature_pressure = rx_feature_pressure sections, su_config_hash = config_hash,
      su_idl_hash = idl_hash, su_mode = mode,
      su_rpc_budget = new_budget_manager (cfg_rpc_budget config) (ex_live_enabled (cfg_execution config))
        (cfg_stream_only config) (cfg_rpc config),
      su_canonical_bus = bounded (re_channel env) (rt_queue_capacity_canonical (cfg_runtime config)),
      su_tentative_bus = bounded (re_channel env) (rt_queue_capacity_tentative (cfg_runtime config)),
      su_state_engine = new_state_engine (rx_ttl sections), su_risk_engine = default_risk_engine,
      su_decision_engine = new_decision_engine (rx_strategy sections) (rx_edge sections) (cfg_execution config)
        default_fee_parameters,
      su_paper_executor = new_paper_executor default_fee_parameters, su_shred_service = service,
      su_tentative_sell_manager = mgr,
      su_health = new_health (cfg_stream_only config) (cfg_shred config) (rx_early_intent sections) (service \<noteq> None) mode,
      su_safety = new_safety config mode, su_decisions_by_type = Map.empty, su_decisions = [],
      su_decision_outcomes = [], su_latest_features = Map.empty, su_latest_risk = Map.empty,
      su_last_feature_snapshot_at_by_mint = Map.empty, su_last_edge_slot_recorded = None, su_active_data_gaps = [],
      su_aggregated_snapshot = None, su_audits = [], su_source_run_id = None, su_current_scenario_id = None,
      su_persist_normalized_events = (\<not> edge), su_liquidate_on_finalize = (\<not> edge), su_storage = [],
      su_segments = None, su_record_sequence = 0,
      su_calibration_snapshot_hash = calibration_snapshot_hash (ho_snapshot_written host) mgr,
      su_started_at = ho_started_at host, su_counters = Map.empty, su_emitted_snapshots = {}, su_seen_mints = {}\<rparr>)"

definition new_supervisor ::
  "('d::linordered_field, 'q) runtime_env \<Rightarrow> 'd runtime_host \<Rightarrow> ('d, 'f) app_config \<Rightarrow> 'd runtime_sections \<Rightarrow>
   string \<Rightarrow> string \<Rightarrow> runtime_mode \<Rightarrow> (runtime_error, ('d, 'f, 'q) supervisor outcome) result" where
  "new_supervisor env host config sections config_hash idl_hash mode =
    rbind (build_shred_service (ho_production_shred_decoder host) (cfg_shred config)) (\<lambda>service.
      rbind (validate_sources (ho_env_var host) config (rx_early_intent sections)) (\<lambda>_.
        Ok (and_then
          (audit env ConfigLoaded Map.empty []
            (initial_supervisor env host config sections config_hash idl_hash mode service))
          (audit env IdlLoaded Map.empty []))))"

subsection \<open>Starting again\<close>

definition reset_health :: "('d::linordered_field) early_intent_config \<Rightarrow> 'd runtime_health \<Rightarrow> 'd runtime_health" where
  "reset_health early_intent h = h
    \<lparr>rh_data_gap_active := False, rh_data_gap_scope := None, rh_paper_pnl := 0, rh_realized_pnl := 0, rh_fee_drag := 0,
     rh_slippage_drag := 0, rh_latency_drag := 0, rh_events_processed := 0, rh_canonical_events_dropped := 0,
     rh_discarded_tokens := 0, rh_rugged_tokens := 0, rh_early_intent_enabled := ei_enabled early_intent,
     rh_early_intent_sources_active := [], rh_deshred_provider_status := ''not_requested'',
     rh_deshred_events_received := 0, rh_deshred_transactions_decoded := 0, rh_deshred_tentative_sells_total := 0,
     rh_deshred_malicious_warnings_total := 0, rh_deshred_emergency_exits_armed_total := 0,
     rh_deshred_emergency_exits_triggered_total := 0, rh_deshred_confirmed_executed_total := 0,
     rh_deshred_false_positive_total := 0, rh_deshred_saved_loss_quote_total := 0,
     rh_deshred_opportunity_cost_quote_total := 0, rh_raw_shred_connected := False,
     rh_raw_shred_tentative_sells_total := 0, rh_mock_early_intent_active := False,
     rh_mock_early_intent_tentative_sells_total := 0, rh_fixture_early_intent_tentative_sells_total := 0,
     rh_replay_early_intent_tentative_sells_total := 0, rh_source_dedup_count := 0,
     rh_early_intent_dedup_pairs := Map.empty\<rparr>"

definition reset_for_next_run ::
  "('d::linordered_field) runtime_host \<Rightarrow> 'd runtime_sections \<Rightarrow> ('d, 'f, 'q) supervisor \<Rightarrow> ('d, 'f, 'q) supervisor" where
  "reset_for_next_run host sections s =
    (let mgr = new_tentative_sell_manager (ho_calibration_path host) (ho_calibration host)
           (rx_early_intent sections) (rx_shred_exit sections) in
     s\<lparr>su_state_engine := new_state_engine (rx_ttl sections),
       su_paper_executor := new_paper_executor default_fee_parameters, su_tentative_sell_manager := mgr,
       su_latest_features := Map.empty, su_latest_risk := Map.empty, su_decisions := [], su_decision_outcomes := [],
       su_decisions_by_type := Map.empty, su_active_data_gaps := [], su_aggregated_snapshot := None, su_audits := [],
       su_counters := Map.empty, su_emitted_snapshots := {}, su_seen_mints := {},
       su_health := reset_health (rx_early_intent sections) (su_health s),
       su_safety := (su_safety s)\<lparr>rs_reason_codes := [], rs_trade_allowed := \<not> lv_enabled (cfg_live (su_config s)),
         rs_data_quality_allowed := True\<rparr>,
       su_source_run_id := None, su_current_scenario_id := None, su_record_sequence := 0,
       su_calibration_snapshot_hash := calibration_snapshot_hash (ho_snapshot_written host) mgr,
       su_started_at := ho_started_at host\<rparr>)"

end
