(* ===== verification/Pipeline_Examples.thy ===== *)
theory Pipeline_Examples
  imports Pipeline_Properties Supervisor_Start
begin

text \<open>
  A concrete supervisor, as it starts from the example configurations of the components, and the theorems of
  the pipeline applied to it.
\<close>

definition example_early_intent :: "rat early_intent_config" where
  "example_early_intent = \<lparr>ei_enabled = True, ei_sources = [], ei_prefer_deshred_when_available = True,
     ei_allow_raw_shred_fixture_in_dev = True, ei_allow_production_raw_shred = False,
     ei_require_early_intent_for_live_shred_exit = True, ei_max_tentative_event_age_ms = 1500,
     ei_deduplicate_sources = True, ei_dedup_amount_tolerance_pct = 5, ei_dedup_slot_tolerance = 1\<rparr>"

definition example_shred_exit :: "rat shred_exit_config" where
  "example_shred_exit = \<lparr>sx_enabled = True, sx_paper_enabled = True, sx_live_enabled = False,
     sx_min_decode_confidence_warn = decimal 5 1, sx_min_decode_confidence_arm = decimal 7 1,
     sx_min_decode_confidence_paper_exit = decimal 8 1, sx_min_decode_confidence_live_exit = decimal 95 2,
     sx_warn_impact_pct = 8, sx_arm_impact_pct = 15, sx_paper_exit_impact_pct = 25, sx_live_exit_impact_pct = 40,
     sx_min_expected_saved_loss_quote = 0, sx_min_emergency_exit_net_benefit_quote = 0, sx_min_latency_edge_ratio = 1,
     sx_allow_arm_when_net_benefit_negative = False, sx_allow_emergency_when_net_benefit_negative = False,
     sx_absorption_downgrade_enabled = True, sx_absorption_downgrade_threshold = decimal 7 1,
     sx_dev_sell_exit_threshold_pct = 10, sx_top_holder_exit_threshold_pct = 20,
     sx_bundle_cluster_exit_threshold_pct = 20, sx_same_slot_multi_sell_escalation = True,
     sx_max_tentative_event_age_ms = 1500, sx_tentative_reconciliation_ttl_ms = 4000,
     sx_false_positive_penalty_enabled = True, sx_tighten_stop_on_arm = True, sx_prebuild_live_exit_on_arm = False,
     sx_allow_paper_exit_on_tentative = True, sx_allow_live_exit_on_tentative = False,
     sx_required_confirmation_level_for_live_exit = SeConfirmedExecuted, sx_prefer_account_effect_confirmation = True,
     sx_calibration = \<lparr>cc_enabled = True, cc_paper_only = True, cc_path = ''calibration.json'',
       cc_min_samples_before_adapt = 50, cc_max_threshold_adjustment_per_hour = decimal 5 2,
       cc_false_positive_rate_limit = decimal 10 2, cc_missed_sell_rate_limit = decimal 5 2,
       cc_persist_calibration = True, cc_max_live_threshold_adjustment = 0\<rparr>\<rparr>"

definition example_sections :: "rat runtime_sections" where
  "example_sections = \<lparr>rx_ttl = example_ttl, rx_strategy = de_thresholds example_decision_engine,
     rx_edge = de_edge example_decision_engine, rx_early_intent = example_early_intent,
     rx_shred_exit = example_shred_exit,
     rx_feature_pressure = \<lparr>fp_enabled = True, fp_min_snapshot_interval_ms_normal = 0,
       fp_min_snapshot_interval_ms_disk_warning = 5000, fp_min_snapshot_interval_ms_upload_backlog = 15000,
       fp_always_snapshot_on_trade = True, fp_always_snapshot_on_decision = True,
       fp_always_snapshot_on_enter_exit = True, fp_skip_low_value_watch_snapshots_under_pressure = True\<rparr>\<rparr>"

definition example_host :: "rat runtime_host" where
  "example_host = \<lparr>ho_env_var = (\<lambda>_. None), ho_production_shred_decoder = False,
     ho_calibration_path = ''calibration.json'', ho_calibration = None, ho_snapshot_written = True, ho_started_at = 0\<rparr>"

text \<open>The queues hold \<open>n\<close> events for each priority; storage accepts every record.\<close>

definition example_runtime_env :: "nat \<Rightarrow> (rat, rat normalized_event list) runtime_env" where
  "example_runtime_env n = \<lparr>tx_sha256_hex = id, tx_show_uuid = (\<lambda>_. ''u''), tx_show_decimal = (\<lambda>_. []),
     tx_id_from_seed = (\<lambda>_. 0), re_features = (\<lambda>_ _ _. calm_features), re_show4 = (\<lambda>_. []),
     re_parse_decimal = (\<lambda>_. None), re_payload_json = (\<lambda>_. []), re_now = (\<lambda>_. 0), re_fresh_id = (\<lambda>_. 0),
     re_monotonic_ns = (\<lambda>_. 0), re_storage_accepts = (\<lambda>_ _. True), re_segments_accept = (\<lambda>_ _. True),
     re_upload_backlog = (\<lambda>_. False), re_disk_warning = (\<lambda>_. False), re_channel = list_channel n\<rparr>"

definition example_runtime_config :: "nat \<Rightarrow> (rat, rat) app_config" where
  "example_runtime_config n = example_app_config\<lparr>cfg_runtime := example_runtime\<lparr>rt_mode := ModeReplay,
     rt_queue_capacity_canonical := of_nat n, rt_queue_capacity_tentative := of_nat n\<rparr>\<rparr>"

definition example_supervisor :: "nat \<Rightarrow> (rat, rat, rat normalized_event list) supervisor" where
  "example_supervisor n = initial_supervisor (example_runtime_env n) example_host (example_runtime_config n)
     example_sections ''config'' ''idl'' RtReplay (Some (new_shred_service 0))"

lemma example_supervisor_fields [simp]:
  "su_state_engine (example_supervisor n) = new_state_engine example_ttl"
  "su_paper_executor (example_supervisor n) = new_paper_executor default_fee_parameters"
  "su_decisions (example_supervisor n) = []" "su_decision_outcomes (example_supervisor n) = []"
  "su_canonical_bus (example_supervisor n) = \<lparr>bus_high = [], bus_normal = [], bus_low = []\<rparr>"
  "su_tentative_bus (example_supervisor n) = \<lparr>bus_high = [], bus_normal = [], bus_low = []\<rparr>"
  "su_segments (example_supervisor n) = None" "re_channel (example_runtime_env n) = list_channel n"
  by (simp_all add: example_supervisor_def initial_supervisor_def Let_def example_sections_def bounded_def
      example_runtime_env_def list_channel_def)

lemma audited:
  fixes s :: "(rat, rat, rat normalized_event list) supervisor"
  assumes "su_segments s = None"
  obtains t where "audit (example_runtime_env n) kind details reasons s = Done t" "core t = core s" "su_segments t = None"
  using assms
  by (simp add: audit_def new_record_def tag_record_def write_record_def append_storage_def append_segment_def Let_def
      example_runtime_env_def split: option.splits)

lemma audited_start:
  fixes s :: "(rat, rat, rat normalized_event list) supervisor"
  assumes "su_segments s = None"
  shows "\<exists>t. and_then (audit (example_runtime_env n) ConfigLoaded Map.empty [] s)
    (audit (example_runtime_env n) IdlLoaded Map.empty []) = Done t \<and> core t = core s"
proof -
  obtain u where u: "audit (example_runtime_env n) ConfigLoaded Map.empty [] s = Done u" "core u = core s" "su_segments u = None"
    using assms by (rule audited)
  from u(3) obtain t where "audit (example_runtime_env n) IdlLoaded Map.empty [] u = Done t" "core t = core u"
    by (rule audited)
  with u show ?thesis by simp
qed

text \<open>The start itself succeeds.\<close>

lemma example_sources:
  "build_shred_service (ho_production_shred_decoder example_host) (cfg_shred (example_runtime_config n)) = Ok (Some (new_shred_service 0))"
  "validate_sources (ho_env_var example_host) (example_runtime_config n) (rx_early_intent example_sections) = Ok ()"
  by (simp_all add: build_shred_service_def validate_sources_def example_runtime_config_def example_app_config_def
      example_shred_def example_host_def example_sections_def)

theorem example_supervisor_starts:
  "\<exists>s. new_supervisor (example_runtime_env n) example_host (example_runtime_config n) example_sections
      ''config'' ''idl'' RtReplay = Ok (Done s) \<and> core s = core (example_supervisor n)"
  using audited_start [of "example_supervisor n" n] example_sources [of n]
  by (simp add: new_supervisor_def example_supervisor_def [symmetric])

theorem overflow_stops_trading_witness:
  "all_outcomes True (\<lambda>t. su_paper_executor t = new_paper_executor default_fee_parameters \<and>
      list_all (\<lambda>e. td_decision e = StopTracking) (su_decisions t))
    (and_then (publish_canonical (example_runtime_env 0) example_creation (example_supervisor 0))
      (supervisor_run (example_runtime_env 0) [Handle example_creation False]))"
  using overflow_stops_trading [of "example_runtime_env 0" example_creation "example_supervisor 0" "[Handle example_creation False]"]
  by (simp add: try_publish_def list_channel_def no_position_start reopens_def example_creation_def)


theorem tentative_events_open_nothing_witness:
  "all_outcomes True (\<lambda>t. position_mints (su_paper_executor t) \<subseteq> {} \<and>
      list_all (\<lambda>e. td_decision e \<notin> {EnterPaper, EnterLive}) (su_decisions t))
    (supervisor_run (example_runtime_env 1) [Handle example_creation True] (example_supervisor 1))"
  using tentative_events_open_nothing [of "[Handle example_creation True]" "example_supervisor 1" "example_runtime_env 1"]
  by (simp add: position_mints_def new_paper_executor_def)

theorem pipeline_books_balance_witness:
  "all_outcomes True (\<lambda>t. paper_inv (su_paper_executor t) \<and> su_decisions t = map do_decision_event (su_decision_outcomes t))
    (supervisor_run (example_runtime_env 1) [Handle example_creation False] (example_supervisor 1))"
  by (rule pipeline_books_balance)
    (simp_all add: paper_inv_def new_paper_executor_def ledger_balances_def)

theorem pipeline_never_panics_witness:
  "all_outcomes False (\<lambda>t. engine_safe (su_state_engine t))
    (supervisor_run (example_runtime_env 1) [Handle example_creation False] (example_supervisor 1))"
  by (rule pipeline_never_panics)
    (simp_all add: engine_safe_def table_decimals_small_def mints_distinct_def new_state_engine_def
      event_decimals_ok_def example_creation_def)


end
