(* ===== verification/Feature_Math.thy ===== *)
theory Feature_Math
  imports Feature_Snapshot Wallet_Graph Holder_State
begin

text \<open>
  The state view, the setters and the statistics that the feature families of \<open>crates/features/src/lib.rs\<close> share.
  A \<open>compute_\<dots>\<close> function of the source sets features one after the other in a map that holds the registered
  features; here it is the list of its settings, and a setting of a feature that is not registered has no effect.
\<close>

subsection \<open>The state view\<close>

record 'd feature_view =
  fx_tokens :: "(string \<times> 'd token_state) list"
  fx_wallets :: "(string \<times> 'd wallet_summary) list"
  fx_funding_graph :: "'d funding_graph"
  fx_cluster_index :: "'d cluster_index"

definition snapshot_view :: "'d state_snapshot \<Rightarrow> 'd feature_view" where
  "snapshot_view s = \<lparr>fx_tokens = ss_tokens s, fx_wallets = ss_wallets s,
     fx_funding_graph = ss_funding_graph s, fx_cluster_index = ss_cluster_index s\<rparr>"

definition engine_view :: "'d state_engine \<Rightarrow> 'd feature_view" where
  "engine_view s = \<lparr>fx_tokens = se_tokens s, fx_wallets = se_wallets s,
     fx_funding_graph = se_funding_graph s, fx_cluster_index = se_cluster_index s\<rparr>"

definition viewed_tokens :: "'d feature_view \<Rightarrow> 'd token_state list" where
  "viewed_tokens view = map snd (fx_tokens view)"

definition viewed_wallets :: "'d feature_view \<Rightarrow> 'd wallet_summary list" where
  "viewed_wallets view = map snd (fx_wallets view)"

definition viewed_edges :: "'d feature_view \<Rightarrow> 'd funding_edge list" where
  "viewed_edges view = map snd (fg_edges (fx_funding_graph view))"

text \<open>Digests and the rendering of decimals, also after rounding to four places and after \<open>normalize\<close>.\<close>

record 'd feature_env =
  fx_sha256_hex :: "string \<Rightarrow> string"
  fx_show_decimal :: "'d \<Rightarrow> string"
  fx_show_rounded4 :: "'d \<Rightarrow> string"
  fx_show_normalized :: "'d \<Rightarrow> string"

subsection \<open>Settings\<close>

type_synonym 'd feature_values = "(string \<times> 'd feature_value) list"

definition set_numeric :: "string \<Rightarrow> 'd \<Rightarrow> 'd \<Rightarrow> ('d::linordered_field) feature_values" where
  "set_numeric feature_id value confidence = [(feature_id, feature_available feature_id (Numeric value) confidence)]"

definition set_bool :: "string \<Rightarrow> bool \<Rightarrow> 'd \<Rightarrow> ('d::linordered_field) feature_values" where
  "set_bool feature_id value confidence =
    [(feature_id, feature_available feature_id (FeatureBoolean value) confidence)]"

definition set_text :: "string \<Rightarrow> string \<Rightarrow> 'd \<Rightarrow> ('d::linordered_field) feature_values" where
  "set_text feature_id value confidence =
    [(feature_id, feature_available feature_id (FeatureText value) confidence)]"

definition set_unavailable :: "string \<Rightarrow> string \<Rightarrow> ('d::linordered_field) feature_values" where
  "set_unavailable feature_id notes = [(feature_id, feature_unavailable feature_id notes)]"

definition when_some :: "'a option \<Rightarrow> ('a \<Rightarrow> 'd feature_values) \<Rightarrow> 'd feature_values" where
  "when_some x f = (case x of None \<Rightarrow> [] | Some a \<Rightarrow> f a)"

definition put_feature :: "string \<times> 'd feature_value \<Rightarrow> 'd feature_values \<Rightarrow> 'd feature_values" where
  "put_feature setting values = map (\<lambda>(k, old). (k, if k = fst setting then snd setting else old)) values"

definition apply_settings :: "'d feature_values \<Rightarrow> 'd feature_values \<Rightarrow> 'd feature_values" where
  "apply_settings settings values = fold put_feature settings values"

definition read_feature :: "string \<Rightarrow> ('d::linordered_field) feature_values \<Rightarrow> 'd" where
  "read_feature feature_id values = unwrap_or 0 (Option.bind (map_of values feature_id) as_decimal)"

subsection \<open>Numbers\<close>

definition decimal_count :: "nat \<Rightarrow> 'd::linordered_field" where
  "decimal_count n = decimal_from (of_nat n)"

definition whole_seconds :: "duration \<Rightarrow> int" where
  "whole_seconds d = sgn d * (\<bar>d\<bar> div 1000000000)"

text \<open>\<open>Decimal::from(d.whole_milliseconds().max(0) as u64)\<close> and the same for seconds.\<close>

definition elapsed_ms :: "duration \<Rightarrow> 'd::linordered_field" where
  "elapsed_ms d = decimal_from (word_of_int (max (whole_milliseconds d) 0))"

definition elapsed_seconds :: "duration \<Rightarrow> 'd::linordered_field" where
  "elapsed_seconds d = decimal_from (word_of_int (max (whole_seconds d) 0))"

definition decimal_signed :: "i64 \<Rightarrow> 'd::linordered_field" where
  "decimal_signed n = of_int (sint n)"

definition window_5s :: duration where "window_5s = duration_seconds 5"
definition window_15s :: duration where "window_15s = duration_seconds 15"
definition window_30s :: duration where "window_30s = duration_seconds 30"
definition window_1m :: duration where "window_1m = duration_seconds 60"
definition window_5m :: duration where "window_5m = duration_seconds 300"

definition clamp_unit :: "'d::linordered_field \<Rightarrow> 'd" where
  "clamp_unit value = min (max value 0) 1"

definition weighted_mean :: "('d \<times> 'd::linordered_field) list \<Rightarrow> 'd" where
  "weighted_mean components =
    (let total_weight = sum_list (map snd components) in
     if total_weight \<le> 0 then 0
     else sum_list (map (\<lambda>(value, weight). value * weight) components) / total_weight)"

definition ratio :: "nat \<Rightarrow> nat \<Rightarrow> 'd::linordered_field" where
  "ratio numerator denominator =
    (if denominator = 0 then 0 else decimal_count numerator / decimal_count denominator)"

definition average_decimal_of :: "('d::linordered_field) list \<Rightarrow> 'd option" where
  "average_decimal_of values = (if values = [] then None else Some (sum_list values / decimal_count (length values)))"

definition percentile_decimal :: "('d::linordered_field) list \<Rightarrow> nat \<Rightarrow> 'd option" where
  "percentile_decimal values percentile =
    (if values = [] then None else Some (sort values ! ((length values - 1) * percentile div 100)))"

definition median_decimal :: "('d::linordered_field) list \<Rightarrow> 'd option" where
  "median_decimal values = percentile_decimal values 50"

definition max_decimal :: "('d::linordered_field) list \<Rightarrow> 'd option" where
  "max_decimal values = (case values of [] \<Rightarrow> None | x # xs \<Rightarrow> Some (foldl max x xs))"

definition bucket_decimal :: "'d::linordered_field \<Rightarrow> u64 list \<Rightarrow> 'd" where
  "bucket_decimal value buckets = decimal_count (length (filter (\<lambda>threshold. decimal_from threshold \<le> value) buckets))"

subsection \<open>Counting texts\<close>

definition count_by :: "string list \<Rightarrow> (string \<times> nat) list" where
  "count_by values = fold (\<lambda>v counts. AList.update v (unwrap_or 0 (map_of counts v) + 1) counts) values []"

definition max_count :: "(string \<times> nat) list \<Rightarrow> nat" where
  "max_count counts = fold max (map snd counts) 0"

definition dominant_share :: "string list \<Rightarrow> 'd::linordered_field" where
  "dominant_share values =
    (let counts = count_by values; total = sum_list (map snd counts) in
     if total = 0 then 0 else decimal_count (max_count counts) / decimal_count total)"

fun split_after :: "string \<Rightarrow> string \<Rightarrow> string option" where
  "split_after pattern [] = (if pattern = [] then Some [] else None)"
| "split_after pattern (c # rest) =
    (if take (length pattern) (c # rest) = pattern then Some (drop (length pattern) (c # rest))
     else split_after pattern rest)"

definition parse_uri_scheme :: "string \<Rightarrow> string" where
  "parse_uri_scheme uri =
    (if CHR '':'' \<in> set uri then to_lowercase (takeWhile (\<lambda>c. c \<noteq> CHR '':'') uri) else ''unknown'')"

definition uri_host :: "string \<Rightarrow> string option" where
  "uri_host uri =
    (case split_after ''://'' uri of
       None \<Rightarrow> None
     | Some rest \<Rightarrow>
         (let host = takeWhile (\<lambda>c. c \<noteq> CHR ''/'') rest in if host = [] then None else Some host))"

definition unique_char_ratio :: "string \<Rightarrow> 'd::linordered_field" where
  "unique_char_ratio value =
    (if value = [] then 0 else decimal_count (length (remdups value)) / decimal_count (length value))"

definition suspicious_unicode_ratio :: "string \<Rightarrow> 'd::linordered_field" where
  "suspicious_unicode_ratio value =
    (if value = [] then 0
     else decimal_count (length (filter (\<lambda>c. (of_char c :: nat) \<ge> 128) value)) / decimal_count (length value))"

subsection \<open>Prices and trades in a window\<close>

definition token_trades :: "'d token_state \<Rightarrow> 'd trade_observation list" where
  "token_trades token = tr_trade_history (tok_trade_stats token)"

definition token_prices :: "'d token_state \<Rightarrow> (instant \<times> 'd) list" where
  "token_prices token = tr_price_history (tok_trade_stats token)"

definition is_buy :: "'d trade_observation \<Rightarrow> bool" where "is_buy trade \<longleftrightarrow> to_side trade = TradeBuy"
definition is_sell :: "'d trade_observation \<Rightarrow> bool" where "is_sell trade \<longleftrightarrow> to_side trade = TradeSell"

definition first_in_window :: "(instant \<times> 'a) list \<Rightarrow> instant \<Rightarrow> duration \<Rightarrow> (instant \<times> 'a) option" where
  "first_in_window history observed_at window = List.find (\<lambda>(time, _). observed_at - window \<le> time) history"

definition window_return :: "('d::linordered_field) token_state \<Rightarrow> instant \<Rightarrow> duration \<Rightarrow> 'd option" where
  "window_return token observed_at window =
    (case first_in_window (token_prices token) observed_at window of
       None \<Rightarrow> None
     | Some (_, first) \<Rightarrow> if first \<le> 0 then None else Some ((tok_latest_price token - first) / first))"

definition window_volatility :: "('d::linordered_field) token_state \<Rightarrow> instant \<Rightarrow> duration \<Rightarrow> 'd option" where
  "window_volatility token observed_at window =
    (let points = map snd (filter (\<lambda>(time, _). observed_at - window \<le> time) (token_prices token));
         moves = filter (\<lambda>(previous, _). 0 < previous) (zip points (tl points)) in
     if length points < 2 \<or> moves = [] then None
     else Some (sum_list (map (\<lambda>(previous, current). \<bar>(current - previous) / previous\<bar>) moves)
       / decimal_count (length moves)))"

definition window_velocity :: "('d::linordered_field) token_state \<Rightarrow> instant \<Rightarrow> duration \<Rightarrow> 'd option" where
  "window_velocity token observed_at window =
    (case first_in_window (token_prices token) observed_at window of
       None \<Rightarrow> None
     | Some (time, first) \<Rightarrow>
         if 0 < whole_milliseconds (observed_at - time)
         then Some ((tok_latest_price token - first) / elapsed_ms (observed_at - time)) else None)"

definition time_of_ath :: "('d::linordered_field) token_state \<Rightarrow> instant option" where
  "time_of_ath token =
    map_option fst (List.find (\<lambda>(_, price). price = tr_all_time_high (tok_trade_stats token)) (token_prices token))"

definition count_new_aths :: "('d::linordered_field) token_state \<Rightarrow> nat" where
  "count_new_aths token =
    snd (fold (\<lambda>(_, price) (current, found). if current < price then (price, found + 1) else (current, found))
      (token_prices token) (0, 0))"

definition holder_growth_rate_window ::
  "('d::linordered_field) token_state \<Rightarrow> instant \<Rightarrow> duration \<Rightarrow> 'd option" where
  "holder_growth_rate_window token observed_at window =
    (case first_in_window (hs_holder_count_history (tok_holder_state token)) observed_at window of
       None \<Rightarrow> None
     | Some (time, holders) \<Rightarrow>
         if 0 < whole_seconds (observed_at - time)
         then Some ((decimal_from (hs_nonzero_holder_count (tok_holder_state token)) - decimal_from holders)
           / elapsed_seconds (observed_at - time))
         else None)"

definition holder_growth_rate :: "('d::linordered_field) token_state \<Rightarrow> instant \<Rightarrow> 'd option" where
  "holder_growth_rate token observed_at = holder_growth_rate_window token observed_at window_30s"

definition holder_count_at_window :: "'d token_state \<Rightarrow> instant \<Rightarrow> duration \<Rightarrow> usize option" where
  "holder_count_at_window token observed_at window =
    map_option snd (first_in_window (hs_holder_count_history (tok_holder_state token)) observed_at window)"

definition window_buy_volume :: "('d::linordered_field) token_state \<Rightarrow> instant \<Rightarrow> duration \<Rightarrow> 'd" where
  "window_buy_volume token observed_at window =
    sum_list (map to_quote
      (filter (\<lambda>trade. is_buy trade \<and> observed_at - window \<le> to_timestamp trade) (token_trades token)))"

definition window_net_flow :: "('d::linordered_field) token_state \<Rightarrow> instant \<Rightarrow> duration \<Rightarrow> 'd" where
  "window_net_flow token observed_at window =
    sum_list (map (\<lambda>trade. case to_side trade of TradeBuy \<Rightarrow> to_quote trade | TradeSell \<Rightarrow> - to_quote trade)
      (filter (\<lambda>trade. observed_at - window \<le> to_timestamp trade) (token_trades token)))"

definition unique_buyers_within :: "'d token_state \<Rightarrow> instant \<Rightarrow> duration \<Rightarrow> nat" where
  "unique_buyers_within token observed_at window =
    length (remdups (map to_wallet
      (filter (\<lambda>trade. is_buy trade \<and> observed_at - window \<le> to_timestamp trade) (token_trades token))))"

definition first_buys :: "nat \<Rightarrow> 'd token_state \<Rightarrow> 'd trade_observation list" where
  "first_buys n token = take n (filter is_buy (token_trades token))"

definition minimum_move_to_cover_fees :: "('d::linordered_field) token_state \<Rightarrow> 'd" where
  "minimum_move_to_cover_fees token =
    (let notional = sum_list (map to_quote (token_trades token));
         total_fees = sum_list (map (\<lambda>trade. decimal_from
           (unwrap_or 0 (to_priority_fee_lamports trade) + unwrap_or 0 (to_base_fee_lamports trade)))
           (token_trades token)) in
     if 0 < notional then total_fees / decimal_from 1000000000 / notional else 0)"

definition buyer_retention :: "('d::linordered_field) token_state \<Rightarrow> nat \<Rightarrow> 'd" where
  "buyer_retention token n =
    (let first = remdups (take n (map to_wallet (filter is_buy (token_trades token)))) in
     if first = [] then 0
     else ratio (length (filter (\<lambda>wallet.
        case map_of (hs_owner_balances (tok_holder_state token)) wallet of
          Some holder \<Rightarrow> 0 < ho_balance holder | None \<Rightarrow> False) first)) (length first))"

definition first_trade_times :: "('d trade_observation \<Rightarrow> bool) \<Rightarrow> 'd trade_observation list \<Rightarrow> (string \<times> instant) list" where
  "first_trade_times side trades =
    fold (\<lambda>trade times. if map_of times (to_wallet trade) = None
                        then times @ [(to_wallet trade, to_timestamp trade)] else times) (filter side trades) []"

definition first_sell_durations :: "('d::linordered_field) token_state \<Rightarrow> 'd list" where
  "first_sell_durations token =
    List.map_filter (\<lambda>(wallet, buy_time).
        map_option (\<lambda>sell_time. elapsed_seconds (sell_time - buy_time))
          (map_of (first_trade_times is_sell (token_trades token)) wallet))
      (first_trade_times is_buy (token_trades token))"

subsection \<open>Cohorts\<close>

definition same_time_cohort ::
  "'d token_state \<Rightarrow> 'd feature_view \<Rightarrow> instant \<Rightarrow> duration \<Rightarrow> 'd token_state list" where
  "same_time_cohort token view observed_at window =
    (case tok_launch_time token of
       None \<Rightarrow> [token]
     | Some launch_time \<Rightarrow>
         filter (\<lambda>other. case tok_launch_time other of
             None \<Rightarrow> False
           | Some other_launch \<Rightarrow>
               other_launch \<le> observed_at \<and> \<bar>whole_seconds (other_launch - launch_time)\<bar> \<le> whole_seconds window)
           (viewed_tokens view))"

text \<open>Ties keep the order of the cohort, which is that of the token table.\<close>

definition descending_rank :: "'d token_state \<Rightarrow> 'd token_state list \<Rightarrow> ('d token_state \<Rightarrow> 'd::linordered_field) \<Rightarrow> nat" where
  "descending_rank token cohort metric =
    (let mints = map fst (sort_key (\<lambda>x. - snd x) (map (\<lambda>other. (tok_mint other, metric other)) cohort)) in
     if tok_mint token \<in> set mints then length (takeWhile (\<lambda>mint. mint \<noteq> tok_mint token) mints) + 1
     else length cohort)"

definition percentile_against ::
  "'d token_state list \<Rightarrow> 'd \<Rightarrow> ('d token_state \<Rightarrow> 'd::linordered_field) \<Rightarrow> 'd" where
  "percentile_against cohort current metric =
    (if cohort = [] then 0
     else decimal_count (length (filter (\<lambda>other. metric other \<le> current) cohort)) / decimal_count (length cohort))"

subsection \<open>Funding\<close>

text \<open>\<open>max_by_key\<close> takes the last of several greatest edges.\<close>

definition latest_funder_for_wallet :: "'d feature_view \<Rightarrow> string \<Rightarrow> 'd funding_edge option" where
  "latest_funder_for_wallet view wallet =
    fold (\<lambda>edge best. case best of
        None \<Rightarrow> Some edge
      | Some other \<Rightarrow> if fe_last_seen other \<le> fe_last_seen edge then Some edge else best)
      (filter (\<lambda>edge. fe_wallet edge = wallet) (viewed_edges view)) None"

definition wallet_funders :: "'d feature_view \<Rightarrow> string list \<Rightarrow> string list" where
  "wallet_funders view wallets =
    List.map_filter (\<lambda>wallet. map_option fe_funder (latest_funder_for_wallet view wallet)) wallets"

definition overlap_count :: "string list \<Rightarrow> string option \<Rightarrow> nat" where
  "overlap_count values target =
    (case target of None \<Rightarrow> 0 | Some t \<Rightarrow> length (filter (\<lambda>value. value = t) values))"

definition identical_amounts :: "'d feature_env \<Rightarrow> 'd trade_observation list \<Rightarrow> nat" where
  "identical_amounts env buys = max_count (count_by (map (\<lambda>trade. fx_show_rounded4 env (to_quote trade)) buys))"

definition repeated_amount_pattern ::
  "'d feature_env \<Rightarrow> 'd feature_view \<Rightarrow> string option \<Rightarrow> 'd::linordered_field" where
  "repeated_amount_pattern env view funder =
    dominant_share (map (\<lambda>edge. fx_show_rounded4 env (fe_amount edge))
      (filter (\<lambda>edge. case funder of None \<Rightarrow> True | Some candidate \<Rightarrow> candidate = fe_funder edge)
        (viewed_edges view)))"

definition shares_funder :: "'d feature_view \<Rightarrow> string \<Rightarrow> string \<Rightarrow> bool" where
  "shares_funder view left right \<longleftrightarrow>
    list_ex (\<lambda>edge. fe_wallet edge = left \<and>
      list_ex (\<lambda>other. fe_wallet other = right \<and> fe_funder other = fe_funder edge) (viewed_edges view))
      (viewed_edges view)"

fun same_funder_pair_count :: "'d feature_view \<Rightarrow> string list \<Rightarrow> nat" where
  "same_funder_pair_count view [] = 0"
| "same_funder_pair_count view (left # rest) =
    length (filter (shares_funder view left) rest) + same_funder_pair_count view rest"

end
