(* ===== verification/Metric_Engine.thy ===== *)
theory Metric_Engine
  imports Decimal_Math
begin

text \<open>
  The metric engine of \<open>crates/features/src/metric_engine.rs\<close>: values with their unit, their source and how far they
  are to be trusted. A conversion of raw amounts panics for 64 and more decimals, which is the outer \<open>None\<close>.
\<close>

datatype 'd metric_datum = MetricNumeric 'd | MetricText string | MetricBoolean bool

datatype metric_confidence = Verified | ConfidenceScored | MetricUnavailable | FailedInvariant

datatype metric_parity_status =
    ParityNotChecked | ParityPassed | ParityFailed | ParityUnavailable | ParityConfidenceScored

record 'd metric_value =
  mv_metric_name :: string
  mv_metric_family :: string
  mv_value :: "'d metric_datum option"
  mv_unit :: string
  mv_source_artifact :: string
  mv_source_event_ids :: "string list"
  mv_formula_version :: string
  mv_metric_version :: string
  mv_confidence :: metric_confidence
  mv_confidence_reason :: "string option"
  mv_unavailable_reason :: "string option"
  mv_parity_status :: metric_parity_status
  mv_required_for_backtest :: bool
  mv_required_for_tuning :: bool

fun parity_of :: "metric_confidence \<Rightarrow> metric_parity_status" where
  "parity_of Verified = ParityPassed"
| "parity_of ConfidenceScored = ParityConfidenceScored"
| "parity_of MetricUnavailable = ParityUnavailable"
| "parity_of FailedInvariant = ParityFailed"

definition numeric_metric ::
  "string \<Rightarrow> string \<Rightarrow> 'd \<Rightarrow> string \<Rightarrow> string \<Rightarrow> metric_confidence \<Rightarrow> string option \<Rightarrow> bool \<Rightarrow> bool \<Rightarrow>
   'd metric_value" where
  "numeric_metric metric_name metric_family value unit source_artifact confidence confidence_reason
     required_for_backtest required_for_tuning =
    \<lparr>mv_metric_name = metric_name, mv_metric_family = metric_family, mv_value = Some (MetricNumeric value),
     mv_unit = unit, mv_source_artifact = source_artifact, mv_source_event_ids = [],
     mv_formula_version = ''pumpfun_canonical_math_v2'', mv_metric_version = ''phase80_metric_engine_v1'',
     mv_confidence = confidence, mv_confidence_reason = confidence_reason, mv_unavailable_reason = None,
     mv_parity_status = parity_of confidence, mv_required_for_backtest = required_for_backtest,
     mv_required_for_tuning = required_for_tuning\<rparr>"

definition unavailable_metric ::
  "string \<Rightarrow> string \<Rightarrow> string \<Rightarrow> string \<Rightarrow> string \<Rightarrow> bool \<Rightarrow> bool \<Rightarrow> 'd metric_value" where
  "unavailable_metric metric_name metric_family unit source_artifact reason required_for_backtest required_for_tuning =
    \<lparr>mv_metric_name = metric_name, mv_metric_family = metric_family, mv_value = None,
     mv_unit = unit, mv_source_artifact = source_artifact, mv_source_event_ids = [],
     mv_formula_version = ''pumpfun_canonical_math_v2'', mv_metric_version = ''phase80_metric_engine_v1'',
     mv_confidence = MetricUnavailable, mv_confidence_reason = None, mv_unavailable_reason = Some reason,
     mv_parity_status = ParityUnavailable, mv_required_for_backtest = required_for_backtest,
     mv_required_for_tuning = required_for_tuning\<rparr>"

fun metric_decimal :: "'d metric_value \<Rightarrow> 'd option" where
  "metric_decimal metric = (case mv_value metric of Some (MetricNumeric value) \<Rightarrow> Some value | _ \<Rightarrow> None)"

definition reserve_price_metric :: "'d \<Rightarrow> 'd \<Rightarrow> u8 \<Rightarrow> ('d::linordered_field) metric_value option" where
  "reserve_price_metric virtual_quote_lamports virtual_token_raw decimals =
    map_option (\<lambda>price. case price of
        Some price \<Rightarrow>
          numeric_metric ''price_sol_per_token'' ''reserve-implied price'' price ''SOL/token''
            ''normalized_events.bonding_curve_update'' Verified
            (Some ''computed from matching virtual SOL/token reserve pair'') True True
      | None \<Rightarrow>
          unavailable_metric ''price_sol_per_token'' ''reserve-implied price'' ''SOL/token''
            ''normalized_events.bonding_curve_update'' ''missing or zero virtual reserve denominator'' True True)
      (pump_virtual_reserve_price_sol_per_token virtual_quote_lamports virtual_token_raw decimals)"

definition market_cap_metrics :: "'d option \<Rightarrow> ('d::linordered_field) metric_value \<times> 'd metric_value" where
  "market_cap_metrics price =
    (case price of
       Some price \<Rightarrow>
         (numeric_metric ''market_cap_quote_1b'' ''market cap'' (pump_market_cap_quote_1b price) ''SOL''
            ''metric_engine.price_sol_per_token'' Verified (Some ''price * 1B Pump.fun convention'') True True,
          numeric_metric ''market_cap_quote_total_supply'' ''market cap''
            (pump_market_cap_quote_total_supply price (decimal_from pump_total_supply_ui)) ''SOL''
            ''metric_engine.price_sol_per_token'' Verified
            (Some (''price * Pump.fun curve-economic supply denominator; RPC mint supply is diagnostic-only '' @
               ''when it diverges'')) True True)
     | None \<Rightarrow>
         (unavailable_metric ''market_cap_quote_1b'' ''market cap'' ''SOL'' ''metric_engine.price_sol_per_token''
            ''price unavailable'' True True,
          unavailable_metric ''market_cap_quote_total_supply'' ''market cap'' ''SOL''
            ''metric_engine.price_sol_per_token'' ''price unavailable'' True True))"

definition curve_progress_metric :: "'d option \<Rightarrow> u8 \<Rightarrow> ('d::linordered_field) metric_value option" where
  "curve_progress_metric real_token_reserves_raw decimals =
    map_option (\<lambda>progress. case progress of
        Some progress \<Rightarrow>
          numeric_metric ''curve_progress_pct'' ''curve progress'' progress ''percent''
            ''normalized_events.bonding_curve_update.real_token_reserves'' Verified
            (Some ''real token reserves converted to UI before reserved-supply formula'') True True
      | None \<Rightarrow>
          unavailable_metric ''curve_progress_pct'' ''curve progress'' ''percent''
            ''normalized_events.bonding_curve_update.real_token_reserves''
            ''missing curve-state snapshot or invalid token decimals'' True True)
      (case real_token_reserves_raw of None \<Rightarrow> Some None | Some raw \<Rightarrow> pump_curve_progress_raw raw decimals)"

subsection \<open>Developer holdings\<close>

definition dev_balance_metric :: "'d \<Rightarrow> string \<Rightarrow> metric_confidence \<Rightarrow> string \<Rightarrow> 'd metric_value" where
  "dev_balance_metric value source_artifact confidence reason =
    numeric_metric ''dev_balance'' ''dev holdings'' value ''tokens'' source_artifact confidence (Some reason) True True"

definition dev_total_unavailable :: "string \<Rightarrow> string \<Rightarrow> 'd metric_value" where
  "dev_total_unavailable source_artifact reason =
    unavailable_metric ''dev_holding_pct_total_supply'' ''dev holdings'' ''ratio'' source_artifact reason True True"

definition dev_circulating_unavailable :: "string \<Rightarrow> string \<Rightarrow> 'd metric_value" where
  "dev_circulating_unavailable source_artifact reason =
    unavailable_metric ''dev_holding_pct_circulating'' ''dev holdings'' ''ratio'' source_artifact reason False True"

definition dev_circulating_metric :: "'d \<Rightarrow> 'd \<Rightarrow> string \<Rightarrow> ('d::linordered_field) metric_value" where
  "dev_circulating_metric dev_balance_raw total_supply_raw source_artifact =
    (let circulating_supply_raw = max (total_supply_raw - dev_balance_raw) 0 in
     if 0 < circulating_supply_raw
     then numeric_metric ''dev_holding_pct_circulating'' ''dev holdings'' (dev_balance_raw / circulating_supply_raw)
       ''ratio'' source_artifact ConfidenceScored
       (Some (''uses canonical total supply minus creator balance; circulating denominator is a '' @ ''convention'')) False True
     else dev_circulating_unavailable source_artifact ''circulating denominator is zero'')"

definition dev_holding_metrics ::
  "'d option \<Rightarrow> u8 \<Rightarrow> string \<Rightarrow>
   (('d::linordered_field) metric_value \<times> 'd metric_value \<times> 'd metric_value) option" where
  "dev_holding_metrics dev_balance_raw decimals source_artifact =
    (case map_option (\<lambda>value. max value 0) dev_balance_raw of
       None \<Rightarrow> Some
         (unavailable_metric ''dev_balance'' ''dev holdings'' ''tokens'' source_artifact
            ''creator wallet holder balance unavailable'' True True,
          dev_total_unavailable source_artifact ''creator wallet holder balance unavailable'',
          dev_circulating_unavailable source_artifact ''creator wallet holder balance unavailable'')
     | Some raw \<Rightarrow>
         (let total_supply_raw = ui_tokens_to_raw (decimal_from pump_total_supply_ui) decimals in
          map_option (\<lambda>dev_balance_ui.
            if total_supply_raw \<le> 0 \<or> total_supply_raw < raw
            then (dev_balance_metric dev_balance_ui source_artifact FailedInvariant
                    ''creator balance exceeds canonical Pump.fun supply'',
                  dev_total_unavailable source_artifact ''creator balance exceeds canonical Pump.fun supply'',
                  dev_circulating_unavailable source_artifact ''creator balance exceeds canonical Pump.fun supply'')
            else (dev_balance_metric dev_balance_ui source_artifact Verified
                    ''owner-summed holder balance for creator wallet'',
                  numeric_metric ''dev_holding_pct_total_supply'' ''dev holdings'' (raw / total_supply_raw) ''ratio''
                    source_artifact Verified (Some ''creator raw balance / canonical raw total supply'') True True,
                  dev_circulating_metric raw total_supply_raw source_artifact))
          (raw_tokens_to_ui raw decimals)))"

end
