(* ===== verification/Token_Features.thy ===== *)
theory Token_Features
  imports Feature_Math Metric_Engine
begin

text \<open>
  The features of a token itself: its launch identity, its creator, what the creator holds, and the bonding curve
  (\<open>compute_launch_identity\<close>, \<open>compute_creator_features\<close>, \<open>compute_dev_holdings\<close>, \<open>compute_curve_features\<close>
  of \<open>crates/features/src/lib.rs\<close>).
\<close>

fun debug_quote_asset_type :: "quote_asset_type \<Rightarrow> string" where
  "debug_quote_asset_type NativeSol = ''NativeSol''"
| "debug_quote_asset_type WrappedSol = ''WrappedSol''"
| "debug_quote_asset_type Stable = ''Stable''"
| "debug_quote_asset_type Other = ''Other''"
| "debug_quote_asset_type quote_asset_type.Unknown = ''Unknown''"

fun debug_token_program :: "token_program_type \<Rightarrow> string" where
  "debug_token_program SplToken = ''SplToken''"
| "debug_token_program Token2022 = ''Token2022''"
| "debug_token_program token_program_type.Unknown = ''Unknown''"

subsection \<open>Launch identity\<close>

text \<open>How many other tokens carry the same text, when it is not empty.\<close>

definition duplicates_seen :: "('d token_state \<Rightarrow> string) \<Rightarrow> 'd token_state \<Rightarrow> 'd feature_view \<Rightarrow> 'e::linordered_field" where
  "duplicates_seen text token view = decimal_count (length (filter
     (\<lambda>other. tok_mint other \<noteq> tok_mint token \<and> text other \<noteq> [] \<and> text other = text token) (viewed_tokens view)))"

definition launch_identity_features ::
  "('d::linordered_field) token_state \<Rightarrow> 'd feature_view \<Rightarrow> instant \<Rightarrow> 'd feature_values" where
  "launch_identity_features token view observed_at =
    when_some (tok_launch_slot token) (\<lambda>slot. set_numeric ''launch_slot'' (decimal_from slot) 1) @
    when_some (tok_launch_time token)
      (\<lambda>launch. set_numeric ''time_since_launch_ms'' (elapsed_ms (observed_at - launch)) 1) @
    set_text ''mint'' (tok_mint token) 1 @
    when_some (tok_quote_mint token) (\<lambda>quote. set_text ''quote_mint'' quote 1) @
    set_text ''quote_asset_type'' (to_lowercase (debug_quote_asset_type (tok_quote_asset_type token))) 1 @
    when_some (tok_creator token) (\<lambda>creator. set_text ''creator_wallet'' creator 1) @
    when_some (tok_payer token) (\<lambda>payer. set_text ''payer_wallet'' payer 1) @
    when_some (tok_bonding_curve token) (\<lambda>curve. set_text ''bonding_curve_pubkey'' curve 1) @
    when_some (tok_associated_bonding_curve token)
      (\<lambda>curve. set_text ''associated_bonding_curve_pubkey'' curve 1) @
    when_some (tok_metadata token) (\<lambda>metadata. set_text ''metadata_pubkey'' metadata 1) @
    set_text ''token_program_type'' (to_lowercase (debug_token_program (tok_token_program token))) 1 @
    set_text ''create_instruction_variant'' (tok_create_instruction_variant token) 1 @
    set_numeric ''name_length'' (decimal_count (length (tok_name token))) 1 @
    set_numeric ''symbol_length'' (decimal_count (length (tok_symbol token))) 1 @
    set_numeric ''uri_length'' (decimal_count (length (tok_uri token))) 1 @
    set_bool ''has_empty_name'' (tok_name token = []) 1 @
    set_bool ''has_empty_symbol'' (tok_symbol token = []) 1 @
    set_bool ''has_empty_uri'' (tok_uri token = []) 1 @
    set_numeric ''name_entropy'' (unique_char_ratio (tok_name token)) (decimal 8 1) @
    set_numeric ''symbol_entropy'' (unique_char_ratio (tok_symbol token)) (decimal 8 1) @
    set_numeric ''uri_entropy'' (unique_char_ratio (tok_uri token)) (decimal 8 1) @
    set_numeric ''suspicious_unicode_score''
      (max (max (suspicious_unicode_ratio (tok_name token)) (suspicious_unicode_ratio (tok_symbol token)))
         (suspicious_unicode_ratio (tok_uri token))) (decimal 8 1) @
    set_numeric ''duplicate_name_seen_historically'' (duplicates_seen tok_name token view) (decimal 9 1) @
    set_numeric ''duplicate_symbol_seen_historically'' (duplicates_seen tok_symbol token view) (decimal 9 1) @
    set_numeric ''duplicate_uri_seen_historically'' (duplicates_seen tok_uri token view) (decimal 9 1) @
    set_text ''uri_scheme'' (parse_uri_scheme (tok_uri token)) (decimal 8 1) @
    set_numeric ''launch_same_tx_buy_count'' (decimal_count (unat (tok_launch_same_transaction_buys token))) 1 @
    set_numeric ''launch_same_slot_buy_count'' (decimal_count (unat (tok_launch_same_slot_buys token))) 1 @
    set_text ''first_seen_source'' (to_lowercase (debug_event_source (tok_first_seen_source token))) 1 @
    when_some (tok_launch_transaction_fingerprint token)
      (\<lambda>fingerprint. set_text ''launch_tx_client_fingerprint'' fingerprint (decimal 9 1))"

subsection \<open>Creator\<close>

definition creator_tokens :: "pubkey \<Rightarrow> 'd feature_view \<Rightarrow> 'd token_state list" where
  "creator_tokens creator view = filter (\<lambda>other. tok_creator other = Some creator) (viewed_tokens view)"

definition launches_last_hour :: "pubkey \<Rightarrow> 'd feature_view \<Rightarrow> instant \<Rightarrow> nat" where
  "launches_last_hour creator view observed_at = length (filter
     (\<lambda>other. case tok_launch_time other of
        None \<Rightarrow> False | Some launch \<Rightarrow> observed_at - duration_seconds 3600 \<le> launch) (creator_tokens creator view))"

definition creator_features ::
  "'d feature_env \<Rightarrow> ('d::linordered_field) token_state \<Rightarrow> 'd feature_view \<Rightarrow> instant \<Rightarrow> 'd feature_values" where
  "creator_features env token view observed_at = when_some (tok_creator token) (\<lambda>creator.
    when_some (map_of (fx_wallets view) creator) (\<lambda>wallet.
      when_some (ws_first_seen wallet)
        (\<lambda>first_seen. set_numeric ''creator_age_in_local_index'' (elapsed_seconds (observed_at - first_seen)) (decimal 9 1)) @
      set_numeric ''creator_total_launches_seen'' (decimal_from (ws_creator_launches wallet)) (decimal 9 1)) @
    set_numeric ''creator_launches_last_1h'' (decimal_count (launches_last_hour creator view observed_at)) (decimal 9 1) @
    when_some (cluster_id_for (fx_sha256_hex env) creator (fx_cluster_index view))
      (\<lambda>cluster. set_text ''creator_cluster_id'' cluster (decimal 8 1)) @
    set_bool ''creator_reuses_same_payer''
      (list_ex (\<lambda>other. tok_mint other \<noteq> tok_mint token \<and> tok_payer other = tok_payer token)
        (creator_tokens creator view)) (decimal 8 1) @
    set_bool ''creator_reuses_same_metadata_domain''
      (case uri_host (tok_uri token) of
         None \<Rightarrow> False
       | Some domain \<Rightarrow> list_ex (\<lambda>other. tok_mint other \<noteq> tok_mint token \<and> uri_host (tok_uri other) = Some domain)
           (viewed_tokens view)) (decimal 8 1) @
    set_bool ''creator_launching_spam_wave_flag'' (3 \<le> launches_last_hour creator view observed_at) (decimal 8 1))"

subsection \<open>Developer holdings\<close>

definition holder_balance_of_creator :: "('d::linordered_field) token_state \<Rightarrow> 'd option" where
  "holder_balance_of_creator token =
    Option.bind (tok_creator token) (\<lambda>creator.
      map_option (\<lambda>holder. max (ho_balance holder) 0)
        (map_of (hs_owner_balances (tok_holder_state token)) creator))"

definition dev_balance_raw :: "('d::linordered_field) token_state \<Rightarrow> 'd" where
  "dev_balance_raw token = (case holder_balance_of_creator token of
     Some balance \<Rightarrow> balance | None \<Rightarrow> max (dv_creator_net_tokens (tok_developer_state token)) 0)"

definition dev_metric_features ::
  "bool \<Rightarrow> ('d::linordered_field) metric_value \<times> 'd metric_value \<times> 'd metric_value \<Rightarrow> 'd feature_values" where
  "dev_metric_features from_holders = (\<lambda>(balance, share, circulating).
    (case metric_decimal balance of
       Some value \<Rightarrow> set_numeric ''dev_balance'' value
         (if from_holders \<and> mv_confidence balance = Verified then 1 else decimal 45 2)
     | None \<Rightarrow> set_unavailable ''dev_balance'' (unwrap_or ''dev balance unavailable'' (mv_unavailable_reason balance))) @
    (case metric_decimal share of
       Some value \<Rightarrow>
         (let confidence = (if from_holders \<and> mv_confidence share = Verified then 1 else decimal 45 2) in
          set_numeric ''dev_holding_pct_total_supply'' value confidence @
          set_numeric ''dev_holding_pct_curve_economic_supply'' value confidence @
          set_text ''token_supply_selected_for_holder_pct'' ''token_supply_curve_economic_or_protocol_constant'' 1 @
          set_numeric ''creator_ownership_pct'' value confidence)
     | None \<Rightarrow>
         (let reason = unwrap_or ''dev total-supply denominator unavailable'' (mv_unavailable_reason share) in
          set_unavailable ''dev_holding_pct_total_supply'' reason @
          set_unavailable ''dev_holding_pct_curve_economic_supply'' reason @
          set_unavailable ''token_supply_selected_for_holder_pct'' reason @
          set_unavailable ''creator_ownership_pct'' reason)) @
    (case metric_decimal circulating of
       Some value \<Rightarrow> set_numeric ''dev_holding_pct_circulating'' value (if from_holders then decimal 8 1 else decimal 35 2)
     | None \<Rightarrow> set_unavailable ''dev_holding_pct_circulating''
         (unwrap_or ''dev circulating denominator unavailable'' (mv_unavailable_reason circulating))))"

definition retained_supply_features ::
  "bool \<Rightarrow> 'd \<Rightarrow> ('d::linordered_field) metric_value \<Rightarrow> 'd feature_values" where
  "retained_supply_features from_holders initial_ui balance =
    (if 0 < initial_ui
     then (case metric_decimal balance of
         Some value \<Rightarrow> set_numeric ''creator_retained_supply_pct'' (clamp_unit (value / initial_ui))
           (if from_holders then 1 else decimal 45 2)
       | None \<Rightarrow> set_unavailable ''creator_retained_supply_pct''
           ''dev balance unavailable for retained-supply calculation'')
     else [])"

definition after_launch :: "'d token_state \<Rightarrow> instant \<Rightarrow> duration \<Rightarrow> bool" where
  "after_launch token observed_at threshold \<longleftrightarrow>
    (case tok_launch_time token of None \<Rightarrow> False | Some launch \<Rightarrow> launch + threshold \<le> observed_at)"

definition creator_flow_features :: "('d::linordered_field) token_state \<Rightarrow> instant \<Rightarrow> 'd feature_values" where
  "creator_flow_features token observed_at =
    (let dev = tok_developer_state token in
     concat (map (\<lambda>(feature_id, threshold).
         if after_launch token observed_at threshold then set_numeric feature_id (dv_creator_net_tokens dev) 1 else [])
       [(''creator_net_tokens_after_10s'', duration_seconds 10), (''creator_net_tokens_after_30s'', duration_seconds 30),
        (''creator_net_tokens_after_1m'', duration_seconds 60), (''creator_net_tokens_after_5m'', duration_seconds 300)]) @
     concat (map (\<lambda>(feature_id, threshold).
         if after_launch token observed_at threshold then set_numeric feature_id (dv_creator_net_quote_flow dev) 1 else [])
       [(''creator_net_quote_flow_after_10s'', duration_seconds 10),
        (''creator_net_quote_flow_after_30s'', duration_seconds 30),
        (''creator_net_quote_flow_after_1m'', duration_seconds 60),
        (''creator_net_quote_flow_after_5m'', duration_seconds 300)]))"

definition creator_rank_features :: "usize option \<Rightarrow> ('d::linordered_field) feature_values" where
  "creator_rank_features current_rank = (case current_rank of
     Some rank \<Rightarrow>
       set_numeric ''creator_balance_rank'' (decimal_from rank) 1 @
       set_bool ''creator_is_top1_holder'' (rank \<le> 1) 1 @ set_bool ''creator_is_top3_holder'' (rank \<le> 3) 1 @
       set_bool ''creator_is_top5_holder'' (rank \<le> 5) 1 @ set_bool ''creator_is_top10_holder'' (rank \<le> 10) 1
   | None \<Rightarrow>
       set_bool ''creator_is_top1_holder'' False (decimal 8 1) @ set_bool ''creator_is_top3_holder'' False (decimal 8 1) @
       set_bool ''creator_is_top5_holder'' False (decimal 8 1) @
       set_bool ''creator_is_top10_holder'' False (decimal 8 1))"

text \<open>\<open>None\<close> is the panic of a conversion of raw amounts.\<close>

definition dev_holding_features ::
  "('d::linordered_field) token_state \<Rightarrow> instant \<Rightarrow> 'd feature_values option" where
  "dev_holding_features token observed_at =
    (let dev = tok_developer_state token; decimals = cv_token_decimals (tok_reserve_state token);
         from_holders = (holder_balance_of_creator token \<noteq> None) in
     Option.bind (dev_holding_metrics (Some (dev_balance_raw token)) decimals
         (if from_holders then ''holder_state.owner_balance'' else ''developer_state.creator_net_tokens_fallback''))
       (\<lambda>metrics. map_option (\<lambda>initial_ui.
           set_numeric ''creator_initial_token_balance'' initial_ui 1 @
           dev_metric_features from_holders metrics @
           retained_supply_features from_holders initial_ui (fst metrics) @
           creator_flow_features token observed_at @
           set_bool ''creator_has_sold'' (dv_creator_first_sell_time dev \<noteq> None) 1 @
           when_some (dv_creator_first_sell_time dev) (\<lambda>first_sell.
             when_some (tok_launch_time token) (\<lambda>launch.
               set_numeric ''creator_first_sell_time_ms'' (elapsed_ms (first_sell - launch)) 1)) @
           set_numeric ''creator_dump_velocity'' (dv_creator_sell_percentage dev) (decimal 9 1) @
           creator_rank_features (dv_creator_current_rank dev))
         (raw_tokens_to_ui (dv_creator_initial_holding dev) decimals)))"

subsection \<open>Bonding curve\<close>

definition launch_price_features :: "('d::linordered_field) token_state \<Rightarrow> 'd feature_values" where
  "launch_price_features token = when_some (cv_launch_price (tok_reserve_state token)) (\<lambda>launch_price.
     set_numeric ''price_launch'' launch_price 1 @
     (if 0 < launch_price
      then set_numeric ''price_change_from_launch_pct'' ((tok_latest_price token - launch_price) / launch_price) (decimal 9 1)
      else []))"

definition market_cap_features :: "('d::linordered_field) bonding_curve_state \<Rightarrow> 'd feature_values" where
  "market_cap_features curve =
    when_some (cv_market_cap_quote_1b curve)
      (\<lambda>cap. set_numeric ''market_cap_quote_1b'' cap (cv_market_cap_confidence curve)) @
    (case cv_market_cap_quote_total_supply curve of
       Some cap \<Rightarrow> set_numeric ''market_cap_quote_total_supply'' cap (cv_market_cap_confidence curve)
     | None \<Rightarrow> when_some (cv_price_sol_per_token curve) (\<lambda>price.
         set_numeric ''market_cap_quote_total_supply'' (price * decimal_from pump_total_supply_ui)
           (max (cv_market_cap_confidence curve) (decimal 8 1))))"

definition curve_progress_features :: "('d::linordered_field) bonding_curve_state \<Rightarrow> 'd feature_values" where
  "curve_progress_features curve =
    when_some (cv_curve_complete_flag curve) (\<lambda>complete. set_bool ''curve_complete_flag'' complete 1) @
    (case cv_curve_progress_pct curve of
       Some progress \<Rightarrow>
         set_numeric ''curve_progress_pct'' progress (cv_curve_progress_confidence curve) @
         set_numeric ''curve_completion_pct'' progress (cv_curve_progress_confidence curve)
     | None \<Rightarrow> when_some (cv_curve_completion_pct curve)
         (\<lambda>completion. set_numeric ''curve_completion_pct'' completion (decimal 4 1))) @
    set_numeric ''curve_progress_confidence'' (cv_curve_progress_confidence curve) 1"

definition depth_score :: "('d::linordered_field) bonding_curve_state \<Rightarrow> 'd" where
  "depth_score curve =
    clamp_unit ((cv_real_quote_reserves curve + cv_virtual_quote_reserves curve) / decimal_from 100)"

definition curve_features :: "('d::linordered_field) token_state \<Rightarrow> instant \<Rightarrow> 'd feature_values" where
  "curve_features token observed_at =
    (let curve = tok_reserve_state token in
     set_numeric ''virtual_quote_reserves'' (cv_virtual_quote_reserves curve) 1 @
     set_numeric ''virtual_token_reserves'' (cv_virtual_token_reserves curve) 1 @
     set_numeric ''real_quote_reserves'' (cv_real_quote_reserves curve) 1 @
     set_numeric ''real_token_reserves'' (cv_real_token_reserves curve) 1 @
     set_numeric ''token_decimals'' (decimal_count (unat (cv_token_decimals curve))) 1 @
     when_some (cv_price_lamports_per_raw_token curve)
       (\<lambda>price. set_numeric ''price_lamports_per_raw_token'' price 1) @
     when_some (cv_price_sol_per_token curve)
       (\<lambda>price. set_numeric ''price_sol_per_token'' price (cv_reserve_price_confidence curve)) @
     set_numeric ''reserve_price_confidence'' (cv_reserve_price_confidence curve) 1 @
     set_numeric ''price_current'' (unwrap_or (tok_latest_price token) (cv_price_sol_per_token curve))
       (max (cv_reserve_price_confidence curve) (decimal 5 1)) @
     launch_price_features token @ market_cap_features curve @
     set_numeric ''token_supply_curve_economic_ui'' (decimal_from pump_total_supply_ui) 1 @
     set_numeric ''token_supply_protocol_constant_ui'' (decimal_from pump_total_supply_ui) 1 @
     set_text ''token_supply_selected_for_market_cap'' ''token_supply_curve_economic_or_protocol_constant'' 1 @
     set_text ''token_supply_selected_for_curve_progress'' ''bonding_curve_real_reserves_and_curve_economic_supply'' 1 @
     set_text ''supply_denominator_policy_version'' ''phase102.supply_denominator.v1'' 1 @
     set_numeric ''market_cap_confidence'' (cv_market_cap_confidence curve) 1 @
     curve_progress_features curve @
     when_some (staleness_ms observed_at curve)
       (\<lambda>staleness. set_numeric ''curve_staleness_ms'' (decimal_from (word_of_int (max (sint staleness) 0))) (decimal 9 1)) @
     set_numeric ''quote_asset_specific_depth_score'' (depth_score curve) (decimal 8 1) @
     set_numeric ''quote_asset_specific_curve_health''
       (clamp_unit (depth_score curve * (1 - top_holder_pct 1 (tok_holder_state token)) *
          (1 - dv_creator_sell_percentage (tok_developer_state token)))) (decimal 8 1))"

end
