(* ===== verification/Market_Features.thy ===== *)
theory Market_Features
  imports Feature_Math
begin

text \<open>
  The features of the trades of a token: its price path, its trade flow, the fingerprints of the transactions, the
  fees that were paid and the execution conditions (\<open>compute_price_path_features\<close>,
  \<open>compute_trade_flow_features\<close>, \<open>compute_transaction_fingerprint_features\<close>, \<open>compute_fee_competition_features\<close>,
  \<open>compute_execution_features\<close>). A family that reads features takes the values that were set before it.
\<close>

subsection \<open>Price path\<close>

definition positive_launch_price :: "('d::linordered_field) token_state \<Rightarrow> 'd option" where
  "positive_launch_price token =
    (case cv_launch_price (tok_reserve_state token) of
       Some price \<Rightarrow> if 0 < price then Some price else None | None \<Rightarrow> None)"

definition drawdown_features :: "('d::linordered_field) token_state \<Rightarrow> 'd feature_values" where
  "drawdown_features token =
    (let high = tr_all_time_high (tok_trade_stats token) in
     (if 0 < high then set_numeric ''drawdown_from_ath_pct'' ((high - tok_latest_price token) / high) (decimal 9 1)
      else []) @
     when_some (positive_launch_price token) (\<lambda>launch_price.
       set_numeric ''drawdown_from_launch_pct'' (max (launch_price - tok_latest_price token) 0 / launch_price)
         (decimal 9 1)))"

definition time_below_launch :: "('d::linordered_field) token_state \<Rightarrow> 'd" where
  "time_below_launch token = (case positive_launch_price token of
     None \<Rightarrow> 0
   | Some launch_price \<Rightarrow>
       decimal_count (length (filter (\<lambda>(_, price). price < launch_price) (token_prices token)))
         / decimal_count (length (token_prices token)))"

definition price_path_features :: "('d::linordered_field) token_state \<Rightarrow> instant \<Rightarrow> 'd feature_values" where
  "price_path_features token observed_at =
    (let stats = tok_trade_stats token in
     set_numeric ''price_high'' (tr_all_time_high stats) 1 @
     set_numeric ''price_low'' (tr_all_time_low stats) 1 @
     drawdown_features token @
     concat (map (\<lambda>(feature_id, window). when_some (window_return token observed_at window)
         (\<lambda>move. set_numeric feature_id move (decimal 9 1)))
       [(''return_pct_30s'', window_30s), (''return_pct_1m'', window_1m), (''return_pct_5m'', window_5m)]) @
     concat (map (\<lambda>(feature_id, window). when_some (window_volatility token observed_at window)
         (\<lambda>volatility. set_numeric feature_id volatility (decimal 7 1)))
       [(''realized_volatility_30s'', window_30s), (''realized_volatility_1m'', window_1m)]) @
     when_some (window_velocity token observed_at window_30s)
       (\<lambda>velocity. set_numeric ''price_velocity_30s'' velocity (decimal 8 1)) @
     when_some (tok_launch_time token) (\<lambda>launch. when_some (time_of_ath token)
       (\<lambda>ath. set_numeric ''time_to_ath_ms'' (elapsed_ms (ath - launch)) (decimal 8 1))) @
     (if token_prices token \<noteq> []
      then set_numeric ''time_below_launch_price_pct'' (time_below_launch token) (decimal 8 1) else []) @
     set_numeric ''new_ath_frequency'' (decimal_count (count_new_aths token)) (decimal 7 1) @
     (if 0 < tr_all_time_high stats \<and> tr_last_sell_at stats \<noteq> None
      then set_numeric ''post_ath_selloff_velocity'' (max (tr_all_time_high stats - tok_latest_price token) 0) (decimal 7 1)
      else []))"

subsection \<open>Trade flow\<close>

definition quotes_of :: "('d trade_observation \<Rightarrow> bool) \<Rightarrow> 'd token_state \<Rightarrow> 'd list" where
  "quotes_of side token = map to_quote (filter side (token_trades token))"

definition trade_size_features :: "('d::linordered_field) token_state \<Rightarrow> 'd feature_values" where
  "trade_size_features token =
    (let buys = quotes_of is_buy token; sells = quotes_of is_sell token in
     when_some (max_decimal buys) (\<lambda>v. set_numeric ''largest_buy_quote'' v (decimal 8 1)) @
     when_some (max_decimal sells) (\<lambda>v. set_numeric ''largest_sell_quote'' v (decimal 8 1)) @
     when_some (median_decimal buys) (\<lambda>v. set_numeric ''median_buy_size_quote'' v (decimal 8 1)) @
     when_some (median_decimal sells) (\<lambda>v. set_numeric ''median_sell_size_quote'' v (decimal 8 1)) @
     when_some (percentile_decimal buys 90) (\<lambda>v. set_numeric ''p90_buy_size_quote'' v (decimal 8 1)) @
     when_some (percentile_decimal sells 90) (\<lambda>v. set_numeric ''p90_sell_size_quote'' v (decimal 8 1)))"

definition organic_score :: "('d::linordered_field) token_state \<Rightarrow> 'd" where
  "organic_score token =
    (let stats = tok_trade_stats token;
         breadth = (if 0 < tr_buy_count stats
                    then decimal_count (card (tr_unique_buyers stats)) / decimal_from (tr_buy_count stats) else 0) in
     clamp_unit (breadth * clamp_unit (1 - top_holder_pct 5 (tok_holder_state token))))"

definition trade_flow_features :: "('d::linordered_field) token_state \<Rightarrow> 'd feature_values" where
  "trade_flow_features token =
    (let stats = tok_trade_stats token; first_ten = take 10 (token_trades token) in
     set_numeric ''buy_count'' (decimal_from (tr_buy_count stats)) 1 @
     set_numeric ''sell_count'' (decimal_from (tr_sell_count stats)) 1 @
     set_numeric ''trade_count'' (decimal_from (tr_buy_count stats + tr_sell_count stats)) 1 @
     set_numeric ''unique_buyers'' (decimal_count (card (tr_unique_buyers stats))) 1 @
     set_numeric ''unique_sellers'' (decimal_count (card (tr_unique_sellers stats))) 1 @
     set_numeric ''buy_volume_quote'' (tr_buy_volume_quote stats) 1 @
     set_numeric ''sell_volume_quote'' (tr_sell_volume_quote stats) 1 @
     set_numeric ''net_flow_quote'' (tr_buy_volume_quote stats - tr_sell_volume_quote stats) 1 @
     (if 0 < tr_sell_count stats
      then set_numeric ''buy_sell_count_ratio'' (decimal_from (tr_buy_count stats) / decimal_from (tr_sell_count stats))
        (decimal 9 1) else []) @
     (if 0 < tr_sell_volume_quote stats
      then set_numeric ''buy_sell_volume_ratio'' (tr_buy_volume_quote stats / tr_sell_volume_quote stats) (decimal 9 1)
      else []) @
     trade_size_features token @
     (if first_ten \<noteq> []
      then set_numeric ''first_10_trades_buy_ratio''
        (decimal_count (length (filter is_buy first_ten)) / decimal_count (length first_ten)) (decimal 8 1) else []) @
     set_numeric ''no_buy_gap_longest_ms''
       (decimal_from (word_of_int (max (sint (tr_longest_no_buy_gap_ms stats)) 0))) (decimal 9 1) @
     set_numeric ''organic_flow_score'' (organic_score token) (decimal 8 1) @
     set_numeric ''toxic_flow_score''
       (clamp_unit (1 - organic_score token + dv_creator_sell_percentage (tok_developer_state token))) (decimal 8 1))"

subsection \<open>Transaction fingerprints\<close>

definition compute_profiles :: "'d trade_observation list \<Rightarrow> string list" where
  "compute_profiles trades = List.map_filter (\<lambda>trade.
     case (to_compute_unit_limit trade, to_compute_unit_price trade) of
       (Some limit, Some price) \<Rightarrow> Some (show_nat (unat limit) @ '':'' @ show_nat (unat price))
     | _ \<Rightarrow> None) trades"

definition duplicates_of :: "string list \<Rightarrow> 'd::linordered_field" where
  "duplicates_of values = decimal_count (max_count (count_by values) - 1)"

definition compute_budget_features :: "('d::linordered_field) list \<Rightarrow> 'd list \<Rightarrow> 'd feature_values" where
  "compute_budget_features limits prices =
    set_bool ''compute_budget_instruction_present'' (limits \<noteq> [] \<or> prices \<noteq> []) (decimal 8 1) @
    when_some (median_decimal limits) (\<lambda>v. set_numeric ''compute_unit_limit'' v (decimal 8 1) @
      set_numeric ''compute_unit_limit_bucket'' (bucket_decimal v [100000, 200000, 400000]) (decimal 7 1)) @
    when_some (median_decimal prices) (\<lambda>v. set_numeric ''compute_unit_price'' v (decimal 8 1) @
      set_numeric ''compute_unit_price_bucket'' (bucket_decimal v [1000, 5000, 10000]) (decimal 7 1))"

definition fingerprints_of :: "'d trade_observation list \<Rightarrow> string list" where
  "fingerprints_of trades = List.map_filter to_client_fingerprint trades"

definition fingerprint_features ::
  "'d feature_env \<Rightarrow> ('d::linordered_field) token_state \<Rightarrow> 'd feature_values" where
  "fingerprint_features env token =
    (let trades = token_trades token;
         limits = map (\<lambda>v. decimal_count (unat v)) (List.map_filter to_compute_unit_limit trades);
         prices = map decimal_from (List.map_filter to_compute_unit_price trades);
         account_counts = map decimal_from (List.map_filter to_account_count trades);
         instruction_counts = map decimal_from (List.map_filter to_instruction_count trades);
         first_buyers = first_buys 8 token;
         fingerprints = count_by (fingerprints_of trades);
         fingerprint_total = sum_list (map snd fingerprints);
         share = (if 0 < fingerprint_total
                  then decimal_count (max_count fingerprints) / decimal_count fingerprint_total else 0);
         top_wallets = map hd_owner (take 5 (hs_top_holders (tok_holder_state token))) in
     when_some (median_decimal account_counts) (\<lambda>v. set_numeric ''tx_account_count'' v (decimal 8 1)) @
     when_some (median_decimal instruction_counts) (\<lambda>v. set_numeric ''tx_instruction_count'' v (decimal 8 1) @
       set_numeric ''tx_inner_instruction_count'' 0 (decimal 3 1)) @
     compute_budget_features limits prices @
     set_numeric ''duplicate_compute_profile_count'' (duplicates_of (compute_profiles trades)) (decimal 7 1) @
     set_numeric ''duplicate_compute_profile_among_first_buyers''
       (duplicates_of (compute_profiles first_buyers)) (decimal 7 1) @
     set_numeric ''duplicate_instruction_sequence_count''
       (duplicates_of (map (fx_show_decimal env) instruction_counts)) (decimal 6 1) @
     set_numeric ''duplicate_account_pattern_count''
       (duplicates_of (map (fx_show_decimal env) account_counts)) (decimal 6 1) @
     set_numeric ''identical_client_fingerprint_score'' share (decimal 7 1) @
     set_numeric ''first_buyers_same_client_fingerprint_pct''
       (dominant_share (fingerprints_of first_buyers)) (decimal 7 1) @
     set_numeric ''top_holders_same_client_fingerprint_pct''
       (dominant_share (fingerprints_of (filter (\<lambda>trade. to_wallet trade \<in> set top_wallets) trades))) (decimal 7 1) @
     set_numeric ''bot_family_dominance_score'' share (decimal 7 1) @
     set_numeric ''bot_family_diversity_score''
       (if 0 < fingerprint_total then decimal_count (length fingerprints) / decimal_count fingerprint_total else 0)
       (decimal 7 1))"

subsection \<open>Fee competition\<close>

definition priority_fees_of :: "'d trade_observation list \<Rightarrow> ('d::linordered_field) list" where
  "priority_fees_of trades = map decimal_from (List.map_filter to_priority_fee_lamports trades)"

definition fee_spike :: "('d::linordered_field) list \<Rightarrow> bool" where
  "fee_spike fees = (case (percentile_decimal fees 90, median_decimal fees) of
     (Some p90, Some median) \<Rightarrow> 0 < median \<and> 2 \<le> p90 / median | _ \<Rightarrow> False)"

text \<open>\<open>fee_war_score\<close> reads the ninetieth percentile that this family sets just before.\<close>

definition observed_fee_features :: "('d::linordered_field) token_state \<Rightarrow> 'd feature_values" where
  "observed_fee_features token =
    (let fees = priority_fees_of (token_trades token) in
     when_some (median_decimal fees) (\<lambda>v. set_numeric ''launch_priority_fee_median'' v (decimal 8 1) @
       set_numeric ''our_required_priority_fee_estimate'' v (decimal 7 1)) @
     when_some (percentile_decimal fees 90) (\<lambda>v. set_numeric ''launch_priority_fee_p90'' v (decimal 8 1)) @
     when_some (median_decimal (priority_fees_of (filter is_buy (token_trades token))))
       (\<lambda>v. set_numeric ''pump_buy_priority_fee_median'' v (decimal 8 1)) @
     when_some (median_decimal (priority_fees_of (filter is_sell (token_trades token))))
       (\<lambda>v. set_numeric ''pump_sell_priority_fee_median'' v (decimal 8 1)) @
     when_some (median_decimal (priority_fees_of (first_buys 8 token)))
       (\<lambda>v. set_numeric ''first_buyers_priority_fee_median'' v (decimal 8 1)) @
     set_bool ''priority_fee_spike_near_launch'' (fee_spike fees) (decimal 7 1))"

definition fee_war_features :: "('d::linordered_field) token_state \<Rightarrow> 'd feature_values \<Rightarrow> 'd feature_values" where
  "fee_war_features token values =
    (let fee_war = clamp_unit (read_feature ''launch_priority_fee_p90'' values / decimal_from 10000);
         min_move = minimum_move_to_cover_fees token;
         edge_minus_fee = read_feature ''return_pct_30s'' values - min_move in
     set_numeric ''fee_war_score'' fee_war (decimal 7 1) @
     set_numeric ''minimum_move_to_cover_observed_fees'' min_move (decimal 7 1) @
     set_numeric ''edge_minus_fee_war_cost'' edge_minus_fee (decimal 7 1) @
     set_bool ''high_fee_low_edge_warning'' (decimal 5 1 \<le> fee_war \<and> edge_minus_fee \<le> 0) (decimal 7 1))"

subsection \<open>Execution\<close>

definition execution_features ::
  "('d::linordered_field) token_state \<Rightarrow> 'd feature_values \<Rightarrow> 'd feature_values" where
  "execution_features token values =
    (let stats = tok_trade_stats token in
     set_bool ''token_signal_available_before_geyser_flag''
       (tok_first_seen_source token \<in> {ShredTentative, DeshredTentative}) (decimal 9 1) @
     set_numeric ''slot_id'' (decimal_from (unwrap_or 0 (tok_launch_slot token))) 1 @
     set_numeric ''competition_intensity_score''
       (clamp_unit (decimal_from (tr_buy_count stats + tr_sell_count stats) / decimal_from 50)) (decimal 7 1) @
     set_numeric ''counterfactual_buy_after_100ms_pnl''
       (if token_prices token = [] then 0 else tok_latest_price token - snd (last (token_prices token))) (decimal 5 1) @
     set_numeric ''latency_adjusted_trade_eligibility''
       (clamp_unit (read_feature ''organic_flow_score'' values - read_feature ''rug_probability_score'' values))
       (decimal 6 1))"

end
