(* ===== verification/Holder_Features.thy ===== *)
theory Holder_Features
  imports Token_Features Market_Features
begin

text \<open>
  The features of the holders of a token: their number and the distribution of the supply, the largest of them,
  what they paid, and how long they stay (\<open>compute_holder_features\<close>, \<open>compute_top_holder_features\<close>,
  \<open>compute_cost_basis_features\<close>, \<open>compute_holder_lifecycle_features\<close>).
\<close>

subsection \<open>Counts and supply\<close>

definition curve_accounts :: "'d token_state \<Rightarrow> string set" where
  "curve_accounts token = set_option (tok_bonding_curve token) \<union> set_option (tok_associated_bonding_curve token)"

definition curve_and_dev_accounts :: "'d token_state \<Rightarrow> string set" where
  "curve_and_dev_accounts token = curve_accounts token \<union> set_option (tok_creator token)"

definition denominator_reliable :: "('d::linordered_field) token_state \<Rightarrow> bool" where
  "denominator_reliable token \<longleftrightarrow> tok_bonding_curve token \<noteq> None \<or> tok_associated_bonding_curve token \<noteq> None \<or>
    0 < cv_account_update_confidence (tok_reserve_state token) \<or> cv_price_sol_per_token (tok_reserve_state token) \<noteq> None"

definition holder_count_features :: "('d::linordered_field) token_state \<Rightarrow> 'd feature_values" where
  "holder_count_features token =
    (let s = tok_holder_state token; counters = hs_counters s; nonzero = decimal_from (hs_nonzero_holder_count s) in
     set_numeric ''holder_count_current'' nonzero 1 @
     set_numeric ''holders_with_nonzero_balance'' nonzero 1 @
     set_numeric ''holder_count_owner_wallets'' nonzero 1 @
     set_numeric ''holder_updates_seen'' (decimal_from (hc_holder_updates_seen counters)) 1 @
     set_numeric ''holder_updates_applied'' (decimal_from (hc_holder_updates_applied counters)) 1 @
     set_numeric ''holder_updates_deduped'' (decimal_from (hc_holder_updates_deduped counters)) 1 @
     set_numeric ''holder_owner_changes'' (decimal_from (hc_holder_owner_changes counters)) 1 @
     set_numeric ''holder_missing_owner_mapping'' (decimal_from (hc_holder_missing_owner_mapping counters)) 1 @
     set_numeric ''holder_fallback_trade_updates_used''
       (decimal_from (hc_holder_fallback_trade_updates_used counters)) 1 @
     set_numeric ''holder_count_excluding_curve''
       (decimal_from (holder_count_excluding (curve_accounts token) s)) (decimal 9 1) @
     set_numeric ''holder_count_excluding_curve_and_dev''
       (decimal_from (holder_count_excluding (curve_and_dev_accounts token) s)) (decimal 9 1))"

definition holder_supply_features :: "bool \<Rightarrow> bool \<Rightarrow> 'd \<Rightarrow> 'd \<Rightarrow> ('d::linordered_field) feature_values" where
  "holder_supply_features reliable invariant_ok observed_supply circulating_supply =
    (if reliable \<and> invariant_ok
     then set_numeric ''observed_holder_supply'' observed_supply (decimal 9 1) @
       set_numeric ''circulating_holder_supply'' circulating_supply (decimal 8 1)
     else if reliable
     then set_unavailable ''observed_holder_supply''
         ''holder supply invariant failed; likely transient same-transaction balance group'' @
       set_numeric ''circulating_holder_supply'' circulating_supply (decimal 5 1)
     else set_unavailable ''observed_holder_supply''
         ''holder denominator requires token decimals plus Pump curve/create context'' @
       set_unavailable ''circulating_holder_supply'' ''circulating holder supply requires Pump curve/create context'')"

definition holder_growth_features :: "('d::linordered_field) token_state \<Rightarrow> instant \<Rightarrow> 'd feature_values" where
  "holder_growth_features token observed_at = when_some (holder_growth_rate token observed_at) (\<lambda>growth.
     set_numeric ''holder_growth_rate'' growth (decimal 8 1) @
     set_numeric ''sustained_holder_growth_score'' (clamp_unit growth) (decimal 8 1))"

definition positive_balances :: "('d::linordered_field) holder_state \<Rightarrow> 'd list" where
  "positive_balances s = filter (\<lambda>balance. 0 < balance) (map (\<lambda>(_, holder). ho_balance holder) (hs_owner_balances s))"

definition holder_balance_features :: "('d::linordered_field) holder_state \<Rightarrow> 'd feature_values" where
  "holder_balance_features s =
    (let balances = positive_balances s in
     when_some (average_decimal_of balances) (\<lambda>v. set_numeric ''average_holder_balance'' v (decimal 9 1)) @
     when_some (median_decimal balances) (\<lambda>v. set_numeric ''median_holder_balance'' v (decimal 9 1)) @
     when_some (percentile_decimal balances 90) (\<lambda>v. set_numeric ''p90_holder_balance'' v (decimal 9 1)) @
     set_numeric ''holder_balance_gini'' (hs_gini s) 1 @
     set_numeric ''holder_balance_hhi'' (hs_hhi s) 1 @
     set_numeric ''top1_holder_pct'' (top_holder_pct 1 s) 1 @
     set_numeric ''top1_holder_pct_observed'' (top_holder_pct 1 s) 1)"

definition top1_supply_features :: "bool \<Rightarrow> bool \<Rightarrow> 'd \<Rightarrow> 'd \<Rightarrow> ('d::linordered_field) feature_values" where
  "top1_supply_features reliable invariant_ok top1_total top1_circulating =
    (if reliable \<and> invariant_ok
     then set_numeric ''top1_holder_pct_total_supply'' top1_total (decimal 8 1) @
       set_numeric ''top1_holder_pct_curve_economic_supply'' top1_total (decimal 8 1) @
       set_text ''token_supply_selected_for_holder_pct'' ''token_supply_curve_economic_or_protocol_constant'' 1 @
       (if top1_circulating \<le> 1 + decimal 1 6
        then set_numeric ''top1_holder_pct_circulating'' top1_circulating (decimal 7 1)
        else set_unavailable ''top1_holder_pct_circulating'' ''top-holder circulating denominator invariant failed'')
     else if reliable
     then set_unavailable ''top1_holder_pct_total_supply'' ''top-holder total-supply denominator invariant failed'' @
       set_unavailable ''top1_holder_pct_curve_economic_supply''
         ''top-holder curve-economic denominator invariant failed'' @
       set_unavailable ''top1_holder_pct_circulating'' ''top-holder circulating denominator invariant failed''
     else set_unavailable ''top1_holder_pct_total_supply''
         ''top-holder total-supply denominator requires Pump curve/create context'' @
       set_unavailable ''top1_holder_pct_curve_economic_supply''
         ''top-holder curve-economic denominator requires Pump curve/create context'' @
       set_unavailable ''top1_holder_pct_circulating''
         ''top-holder circulating denominator requires Pump curve/create context'')"

definition top_share_features :: "bool \<Rightarrow> ('d::linordered_field) holder_state \<Rightarrow> 'd feature_values" where
  "top_share_features reliable s =
    set_numeric ''top3_holder_pct'' (top_holder_pct 3 s) 1 @
    set_numeric ''top5_holder_pct'' (top_holder_pct 5 s) 1 @
    set_numeric ''top10_holder_pct'' (top_holder_pct 10 s) 1 @
    set_numeric ''top20_holder_pct'' (top_holder_pct 20 s) 1 @
    set_numeric ''holder_metric_confidence''
      (if \<not> reliable then decimal 3 1 else if missing_owner_mapping_count s = 0 then decimal 9 1 else decimal 5 1) 1 @
    set_numeric ''missing_owner_mapping_count'' (decimal_from (missing_owner_mapping_count s)) 1 @
    set_numeric ''holder_distribution_improvement_score''
      (clamp_unit (1 - top_holder_pct 5 s + max (hs_gini s) 0) / decimal_from 2) (decimal 7 1)"

text \<open>\<open>None\<close> is the panic of a conversion of raw amounts.\<close>

definition holder_features :: "('d::linordered_field) token_state \<Rightarrow> instant \<Rightarrow> 'd feature_values option" where
  "holder_features token observed_at =
    (let s = tok_holder_state token; decimals = cv_token_decimals (tok_reserve_state token);
         reliable = denominator_reliable token; total_supply = decimal_from pump_total_supply_ui;
         total_supply_raw = ui_tokens_to_raw total_supply decimals; dev_raw = dev_balance_raw token in
     Option.bind (raw_tokens_to_ui (observed_holder_supply s) decimals) (\<lambda>observed_supply_ui.
       map_option (\<lambda>dev_balance_ui.
         let circulating_supply = max (total_supply - dev_balance_ui) 0;
             circulating_supply_raw = max (total_supply_raw - dev_raw) 0;
             invariant_ok = (observed_supply_ui \<le> total_supply + decimal 1 6) in
         holder_count_features token @
         holder_supply_features reliable invariant_ok observed_supply_ui circulating_supply @
         holder_growth_features token observed_at @
         holder_balance_features s @
         top1_supply_features reliable invariant_ok
           (top_pct_with_denominator 1 total_supply_raw (curve_accounts token) s)
           (top_pct_with_denominator 1 circulating_supply_raw (curve_accounts token) s) @
         top_share_features reliable s)
       (raw_tokens_to_ui dev_raw decimals)))"

subsection \<open>The largest holders\<close>

definition whales :: "('d::linordered_field) holder_state \<Rightarrow> 'd holder_distribution_snapshot list" where
  "whales s = filter (\<lambda>holder. decimal 1 1 \<le> hd_pct_supply_proxy holder) (hs_top_holders s)"

definition concentration_risk :: "('d::linordered_field) token_state \<Rightarrow> 'd" where
  "concentration_risk token =
    (let s = tok_holder_state token;
         holder_count = decimal_from (if unat (hs_nonzero_holder_count s) < 1 then 1 else hs_nonzero_holder_count s);
         diversity = clamp_unit (holder_count / decimal_from 5);
         top1_excess = clamp_unit ((top_holder_pct 1 s - decimal 30 2) / decimal 40 2);
         top5_excess = clamp_unit ((top_holder_pct 5 s - decimal 75 2) / decimal 25 2) in
     clamp_unit (weighted_mean [(top1_excess, decimal 45 2), (top5_excess * diversity, decimal 30 2),
       (dv_creator_sell_percentage (tok_developer_state token), decimal 15 2), (hs_gini s, decimal 10 2)]))"

definition top_holder_features :: "('d::linordered_field) token_state \<Rightarrow> 'd feature_values" where
  "top_holder_features token =
    (let s = tok_holder_state token in
     set_numeric ''whale_count'' (decimal_count (length (whales s))) (decimal 8 1) @
     set_numeric ''whale_holding_pct'' (sum_list (map hd_pct_supply_proxy (whales s))) (decimal 8 1) @
     set_bool ''top1_is_creator''
       (case (hs_top_holders s, tok_creator token) of
          (holder # _, Some creator) \<Rightarrow> hd_owner holder = creator | _ \<Rightarrow> False) (decimal 8 1) @
     set_numeric ''concentration_risk_score'' (concentration_risk token) (decimal 8 1) @
     set_bool ''one_wallet_controls_market_flag'' (decimal 55 2 \<le> top_holder_pct 1 s) (decimal 9 1))"

subsection \<open>Cost basis\<close>

definition holders_of :: "'d token_state \<Rightarrow> 'd holder_balance list" where
  "holders_of token = map snd (hs_owner_balances (tok_holder_state token))"

definition supply_where :: "('d holder_balance \<Rightarrow> bool) \<Rightarrow> ('d::linordered_field) token_state \<Rightarrow> 'd" where
  "supply_where P token = sum_list (map (\<lambda>holder. max (ho_balance holder) 0) (filter P (holders_of token)))"

definition unrealized_of :: "'d holder_balance \<Rightarrow> 'd" where
  "unrealized_of holder = cb_estimated_unrealized_pnl (ho_cost_basis holder)"

definition supply_profit_features :: "('d::linordered_field) token_state \<Rightarrow> 'd feature_values" where
  "supply_profit_features token =
    (let all_supply = supply_where (\<lambda>_. True) token in
     if 0 < all_supply
     then set_numeric ''unrealized_profit_supply_pct''
         (supply_where (\<lambda>holder. 0 < unrealized_of holder) token / all_supply) (decimal 8 1) @
       set_numeric ''underwater_supply_pct''
         (supply_where (\<lambda>holder. unrealized_of holder < 0) token / all_supply) (decimal 8 1) @
       set_numeric ''breakeven_supply_pct''
         (supply_where (\<lambda>holder. \<bar>unrealized_of holder\<bar> \<le> decimal 1 4) token / all_supply) (decimal 8 1) @
       set_numeric ''free_rolling_supply_pct''
         (supply_where (\<lambda>holder. cb_has_taken_profit (ho_cost_basis holder)) token / all_supply) (decimal 8 1)
     else [])"

definition cost_basis_features :: "('d::linordered_field) token_state \<Rightarrow> 'd feature_values" where
  "cost_basis_features token =
    (let unrealized = map unrealized_of (holders_of token);
         top_unrealized = map unrealized_of (List.map_filter
           (\<lambda>holder. map_of (hs_owner_balances (tok_holder_state token)) (hd_owner holder))
           (hs_top_holders (tok_holder_state token)));
         realized = map (\<lambda>holder. cb_estimated_realized_pnl (ho_cost_basis holder)) (holders_of token);
         total_realized_abs = sum_list (map abs realized) in
     when_some (average_decimal_of unrealized) (\<lambda>v. set_numeric ''holder_unrealized_pnl_mean'' v (decimal 8 1)) @
     when_some (median_decimal unrealized) (\<lambda>v. set_numeric ''holder_unrealized_pnl_median'' v (decimal 8 1)) @
     when_some (percentile_decimal unrealized 90) (\<lambda>v. set_numeric ''holder_unrealized_pnl_p90'' v (decimal 8 1)) @
     supply_profit_features token @
     set_numeric ''top5_unrealized_pnl'' (sum_list (take 5 top_unrealized)) (decimal 8 1) @
     set_numeric ''top10_unrealized_pnl'' (sum_list (take 10 top_unrealized)) (decimal 8 1) @
     (if 0 < total_realized_abs
      then set_numeric ''realized_profit_taking_rate''
        (sum_list (map (\<lambda>pnl. max pnl 0) realized) / total_realized_abs) (decimal 8 1) else []))"

text \<open>The second part reads the shares that the first one and the holder features have set.\<close>

definition overhang_features ::
  "('d::linordered_field) token_state \<Rightarrow> 'd feature_values \<Rightarrow> 'd feature_values" where
  "overhang_features token values =
    set_numeric ''profit_overhang_score''
      (clamp_unit (weighted_mean
        [(read_feature ''unrealized_profit_supply_pct'' values, decimal 35 2),
         (read_feature ''free_rolling_supply_pct'' values, decimal 35 2),
         (clamp_unit ((read_feature ''top1_holder_pct'' values - decimal 45 2) / decimal 55 2), decimal 15 2),
         (clamp_unit ((read_feature ''top5_holder_pct'' values - decimal 80 2) / decimal 20 2), decimal 15 2)]))
      (decimal 8 1) @
    set_numeric ''underwater_capitulation_risk''
      (clamp_unit (read_feature ''underwater_supply_pct'' values +
         read_feature ''sell_volume_quote'' values / decimal_from 100)) (decimal 7 1) @
    set_numeric ''free_roll_dump_risk_score''
      (clamp_unit (read_feature ''free_rolling_supply_pct'' values +
         read_feature ''top5_holder_pct'' values / decimal_from 2)) (decimal 8 1) @
    set_numeric ''holders_taking_initials_out_count''
      (decimal_count (length (filter (\<lambda>holder. cb_has_taken_profit (ho_cost_basis holder)) (holders_of token))))
      (decimal 8 1) @
    set_numeric ''holders_fully_exiting_count''
      (decimal_count (length (filter (\<lambda>holder. cb_has_round_tripped (ho_cost_basis holder)) (holders_of token))))
      (decimal 8 1)"

subsection \<open>How long holders stay\<close>

definition holders_aged :: "(duration \<Rightarrow> bool) \<Rightarrow> 'd token_state \<Rightarrow> instant \<Rightarrow> nat" where
  "holders_aged P token observed_at = length (filter
     (\<lambda>holder. case ho_first_seen_at holder of None \<Rightarrow> False | Some time \<Rightarrow> P (observed_at - time)) (holders_of token))"

definition holder_age_features :: "('d::linordered_field) token_state \<Rightarrow> instant \<Rightarrow> 'd feature_values" where
  "holder_age_features token observed_at =
    (let ages = List.map_filter (\<lambda>holder. map_option (\<lambda>time. elapsed_seconds (observed_at - time))
           (ho_first_seen_at holder)) (holders_of token);
         total_balance = supply_where (\<lambda>_. True) token;
         weighted = sum_list (List.map_filter (\<lambda>holder. map_option
           (\<lambda>time. elapsed_seconds (observed_at - time) * max (ho_balance holder) 0) (ho_first_seen_at holder))
           (holders_of token)) in
     when_some (average_decimal_of ages) (\<lambda>v. set_numeric ''holder_age_mean'' v (decimal 8 1)) @
     when_some (median_decimal ages) (\<lambda>v. set_numeric ''holder_age_median'' v (decimal 8 1)) @
     (if 0 < total_balance
      then set_numeric ''holder_age_weighted_by_balance'' (weighted / total_balance) (decimal 8 1) else []))"

definition survival_ratio :: "('d::linordered_field) token_state \<Rightarrow> instant \<Rightarrow> duration \<Rightarrow> 'd" where
  "survival_ratio token observed_at window =
    (let recent = holders_aged (\<lambda>age. age \<le> window) token observed_at;
         survived = holders_aged (\<lambda>age. window \<le> age) token observed_at in
     ratio survived (max recent survived))"

definition exited_wallets :: "('d::linordered_field) token_state \<Rightarrow> 'd feature_view \<Rightarrow> nat" where
  "exited_wallets token view = length (filter
     (\<lambda>wallet. 0 < unwrap_or 0 (map_of (ws_tokens_sold wallet) (tok_mint token))) (viewed_wallets view))"

text \<open>The retention of the first twenty buyers is read back from the value this family sets.\<close>

definition holder_lifecycle_features ::
  "('d::linordered_field) token_state \<Rightarrow> 'd feature_view \<Rightarrow> instant \<Rightarrow> 'd feature_values" where
  "holder_lifecycle_features token view observed_at =
    (let sell_durations = first_sell_durations token in
     holder_age_features token observed_at @
     set_numeric ''new_holder_survival_30s'' (survival_ratio token observed_at window_30s) (decimal 7 1) @
     set_numeric ''new_holder_survival_1m'' (survival_ratio token observed_at window_1m) (decimal 7 1) @
     set_numeric ''first_10_buyers_retention'' (buyer_retention token 10) (decimal 8 1) @
     set_numeric ''first_20_buyers_retention'' (buyer_retention token 20) (decimal 8 1) @
     when_some (average_decimal_of sell_durations)
       (\<lambda>v. set_numeric ''average_time_to_first_sell_by_holder'' v (decimal 8 1)))"

definition stickiness_features ::
  "('d::linordered_field) token_state \<Rightarrow> 'd feature_view \<Rightarrow> instant \<Rightarrow> 'd feature_values \<Rightarrow> 'd feature_values" where
  "stickiness_features token view observed_at values =
    (let launch_age = (case tok_launch_time token of
           None \<Rightarrow> 0 | Some launch \<Rightarrow> elapsed_seconds (observed_at - launch));
         retention = read_feature ''first_20_buyers_retention'' values;
         stickiness = clamp_unit (weighted_mean [(retention, decimal 5 1),
           (read_feature ''new_holder_survival_30s'' values, decimal 25 2),
           (1 - hs_hhi (tok_holder_state token), decimal 25 2)]);
         replaced = holders_aged (\<lambda>age. age \<le> window_30s) token observed_at;
         exited = exited_wallets token view in
     set_numeric ''holder_half_life'' (launch_age * (1 - retention)) (decimal 6 1) @
     set_numeric ''holder_decay_rate'' (1 - retention) (decimal 7 1) @
     set_numeric ''holder_stickiness_score'' stickiness (decimal 8 1) @
     set_numeric ''holder_paper_hands_score'' (1 - stickiness) (decimal 8 1) @
     set_numeric ''healthy_churn_score'' (clamp_unit (ratio replaced (max exited 1))) (decimal 7 1) @
     set_numeric ''unhealthy_churn_score'' (clamp_unit (ratio exited (max replaced 1))) (decimal 7 1) @
     set_numeric ''new_holders_replacing_old_holders_score''
       (clamp_unit (ratio replaced (max (unat (hs_nonzero_holder_count (tok_holder_state token))) 1))) (decimal 7 1))"

end
