(* ===== verification/Cohort_Features.thy ===== *)
theory Cohort_Features
  imports Holder_Features
begin

text \<open>
  The features that compare a token with others or look at its surroundings: bundles, rug signs, the cohort of the
  same launch time, the rotation of capital, and the funding graph (\<open>compute_bundle_features\<close>,
  \<open>compute_rug_features\<close>, \<open>compute_cohort_features\<close>, \<open>compute_rotation_features\<close>,
  \<open>compute_funding_graph_features\<close>).
\<close>

subsection \<open>Bundles\<close>

definition same_window_count :: "'d trade_observation list \<Rightarrow> nat" where
  "same_window_count buys = (case buys of
     [] \<Rightarrow> 0
   | first # _ \<Rightarrow> length (filter
       (\<lambda>trade. \<bar>whole_milliseconds (to_timestamp trade - to_timestamp first)\<bar> \<le> 500) buys))"

definition bundle_top_pct :: "('d::linordered_field) token_state \<Rightarrow> 'd" where
  "bundle_top_pct token = sum_list (map hd_pct_supply_proxy (filter
     (\<lambda>holder. hd_owner holder \<in> set (map to_wallet (first_buys 8 token))) (hs_top_holders (tok_holder_state token))))"

definition bundle_risk_value :: "'d feature_env \<Rightarrow> ('d::linordered_field) token_state \<Rightarrow> 'd" where
  "bundle_risk_value env token =
    clamp_unit (decimal_count (same_window_count (first_buys 8 token)) / decimal_from 8 +
      decimal_count (identical_amounts env (first_buys 8 token)) / decimal_from 8 + bundle_top_pct token)
    / decimal_from 3"

definition bundle_features ::
  "'d feature_env \<Rightarrow> ('d::linordered_field) token_state \<Rightarrow> 'd feature_view \<Rightarrow> 'd feature_values" where
  "bundle_features env token view =
    (let buys = first_buys 8 token in
     set_numeric ''same_slot_multi_buy_count'' (decimal_count (same_window_count buys)) (decimal 7 1) @
     set_numeric ''first_n_buys_identical_amount_count'' (decimal_count (identical_amounts env buys)) (decimal 7 1) @
     set_numeric ''first_n_buys_same_funder_count''
       (decimal_count (same_funder_pair_count view (map to_wallet buys))) (decimal 8 1) @
     set_numeric ''bundle_wallets_top_holder_pct'' (bundle_top_pct token) (decimal 7 1) @
     set_numeric ''bundle_risk_score'' (bundle_risk_value env token) (decimal 7 1) @
     set_numeric ''bundle_confidence'' (clamp_unit (decimal_count (length buys) / decimal_from 8)) (decimal 9 1))"

subsection \<open>Rug signs\<close>

definition within_5m :: "'d token_state \<Rightarrow> instant \<Rightarrow> bool" where
  "within_5m token observed_at \<longleftrightarrow>
    (case tok_launch_time token of None \<Rightarrow> False | Some launch \<Rightarrow> observed_at \<le> launch + window_5m)"

definition no_recent_buys :: "'d token_state \<Rightarrow> instant \<Rightarrow> bool" where
  "no_recent_buys token observed_at \<longleftrightarrow>
    (case tr_last_buy_at (tok_trade_stats token) of
       None \<Rightarrow> True | Some last_buy \<Rightarrow> duration_seconds 20 \<le> observed_at - last_buy)"

definition launch_collapsed :: "('d::linordered_field) token_state \<Rightarrow> instant \<Rightarrow> 'd feature_values \<Rightarrow> bool" where
  "launch_collapsed token observed_at values \<longleftrightarrow>
    within_5m token observed_at \<and> decimal 7 1 \<le> read_feature ''drawdown_from_launch_pct'' values"

definition history_confidence :: "('d::linordered_field) token_state \<Rightarrow> 'd" where
  "history_confidence token = clamp_unit (decimal_count (min (length (token_trades token)) 20) / decimal_from 20)"

definition rug_features ::
  "('d::linordered_field) token_state \<Rightarrow> instant \<Rightarrow> 'd feature_values \<Rightarrow> 'd feature_values" where
  "rug_features token observed_at values =
    (let dev = tok_developer_state token; stats = tok_trade_stats token in
     set_bool ''dev_sold_flag'' (dv_creator_first_sell_time dev \<noteq> None) 1 @
     set_numeric ''dev_sold_pct'' (dv_creator_sell_percentage dev) 1 @
     set_bool ''price_drop_50pct_from_ath''
       (decimal 5 1 \<le> read_feature ''drawdown_from_ath_pct'' values) (decimal 9 1) @
     set_bool ''price_drop_70pct_from_launch_within_5m'' (launch_collapsed token observed_at values) (decimal 9 1) @
     set_bool ''holder_growth_stalled''
       (case holder_growth_rate token observed_at of None \<Rightarrow> False | Some growth \<Rightarrow> growth \<le> 0) (decimal 7 1) @
     set_bool ''sells_dominate_after_launch''
       (tr_buy_volume_quote stats < tr_sell_volume_quote stats) (decimal 8 1) @
     set_bool ''no_buys_for_x_seconds'' (no_recent_buys token observed_at) (decimal 8 1) @
     set_numeric ''rug_probability_score''
       (clamp_unit (dv_creator_sell_percentage dev + (if no_recent_buys token observed_at then decimal 3 1 else 0) +
          (if launch_collapsed token observed_at values then decimal 6 1 else 0) +
          (if decimal 35 2 \<le> top_holder_pct 1 (tok_holder_state token) then decimal 2 1 else 0))) (decimal 8 1) @
     set_numeric ''rug_confidence'' (history_confidence token) (decimal 9 1))"

subsection \<open>Cohort\<close>

definition is_active_stage :: "token_lifecycle \<Rightarrow> bool" where
  "is_active_stage l \<longleftrightarrow> l \<in> {LcActiveLight, LcActiveDeep, LcTradeCandidate, LcInPosition, LcExitPending}"

definition stage_share :: "(token_lifecycle \<Rightarrow> bool) \<Rightarrow> 'd token_state list \<Rightarrow> 'e::linordered_field" where
  "stage_share P cohort =
    decimal_count (length (filter (\<lambda>other. P (tok_lifecycle other)) cohort)) / decimal_count (length cohort)"

definition relative_strength :: "nat \<Rightarrow> nat list \<Rightarrow> 'd::linordered_field" where
  "relative_strength cohort_size ranks =
    (if cohort_size \<le> 1 then 1
     else 1 - decimal_count (sum_list (map (\<lambda>rank. rank - 1) ranks))
       / max (decimal_count ((cohort_size - 1) * 4)) 1)"

definition cohort_rank_features ::
  "('d::linordered_field) token_state \<Rightarrow> 'd token_state list \<Rightarrow> instant \<Rightarrow> 'd feature_values" where
  "cohort_rank_features token cohort observed_at =
    (let buy_rank = descending_rank token cohort (\<lambda>other. window_buy_volume other observed_at window_30s);
         net_flow_rank = descending_rank token cohort (\<lambda>other. window_net_flow other observed_at window_30s);
         holder_rank = descending_rank token cohort (\<lambda>other. unwrap_or 0 (holder_growth_rate other observed_at));
         price_rank = descending_rank token cohort (\<lambda>other. unwrap_or 0 (window_return other observed_at window_30s));
         strength = clamp_unit (relative_strength (length cohort) [buy_rank, net_flow_rank, holder_rank, price_rank]) in
     set_numeric ''token_rank_by_buy_volume_30s'' (decimal_count buy_rank) (decimal 8 1) @
     set_numeric ''token_rank_by_net_flow_30s'' (decimal_count net_flow_rank) (decimal 8 1) @
     set_numeric ''token_rank_by_holder_growth_30s'' (decimal_count holder_rank) (decimal 8 1) @
     set_numeric ''token_rank_by_price_return_30s'' (decimal_count price_rank) (decimal 8 1) @
     set_numeric ''token_relative_strength_score'' strength (decimal 8 1) @
     set_numeric ''token_relative_weakness_score'' (1 - strength) (decimal 8 1) @
     set_bool ''token_is_cohort_leader_flag'' (buy_rank = 1 \<and> price_rank \<le> 2) (decimal 8 1) @
     set_bool ''token_is_cohort_laggard_flag''
       (buy_rank = length cohort \<and> price_rank = length cohort) (decimal 8 1))"

definition cohort_share_features ::
  "('d::linordered_field) token_state \<Rightarrow> 'd token_state list \<Rightarrow> instant \<Rightarrow> 'd feature_values" where
  "cohort_share_features token cohort observed_at =
    (let volumes = map (\<lambda>other. window_buy_volume other observed_at window_30s) cohort;
         ours = window_buy_volume token observed_at window_30s;
         all_buyers = sum_list (map (\<lambda>other. card (tr_unique_buyers (tok_trade_stats other))) cohort) in
     (if 0 < sum_list volumes
      then set_numeric ''cohort_attention_share'' (ours / sum_list volumes) (decimal 8 1) else []) @
     set_numeric ''best_launch_in_cohort_distance''
       (max (unwrap_or 0 (max_decimal volumes) - ours) 0) (decimal 8 1) @
     (if 0 < sum_list volumes
      then set_numeric ''this_token_share_of_all_launch_buy_volume'' (ours / sum_list volumes) (decimal 8 1) else []) @
     (if 0 < all_buyers
      then set_numeric ''this_token_share_of_all_unique_buyers''
        (decimal_count (card (tr_unique_buyers (tok_trade_stats token))) / decimal_count all_buyers) (decimal 8 1)
      else []))"

definition cohort_percentile_features ::
  "('d::linordered_field) token_state \<Rightarrow> 'd token_state list \<Rightarrow> instant \<Rightarrow> 'd feature_values" where
  "cohort_percentile_features token cohort observed_at =
    concat (map (\<lambda>(feature_id, metric). set_numeric feature_id (percentile_against cohort (metric token) metric) (decimal 8 1))
      [(''token_percentile_buy_volume_30s'', \<lambda>other. window_buy_volume other observed_at window_30s),
       (''token_percentile_net_flow_30s'', \<lambda>other. window_net_flow other observed_at window_30s),
       (''token_percentile_holder_growth_1m'',
          \<lambda>other. unwrap_or 0 (holder_growth_rate_window other observed_at window_1m)),
       (''token_percentile_price_return_1m'', \<lambda>other. unwrap_or 0 (window_return other observed_at window_1m))])"

definition rank_velocity_features ::
  "('d::linordered_field) token_state \<Rightarrow> 'd feature_view \<Rightarrow> instant \<Rightarrow> 'd feature_values" where
  "rank_velocity_features token view observed_at =
    (let rank = (\<lambda>window. descending_rank token (same_time_cohort token view observed_at window)
           (\<lambda>other. window_buy_volume other observed_at window));
         velocity = decimal_count (rank window_15s) - decimal_count (rank window_5s) in
     set_numeric ''token_improving_rank_velocity'' (clamp_unit (max (- velocity) 0)) (decimal 7 1) @
     set_numeric ''token_losing_rank_velocity'' (clamp_unit (max velocity 0)) (decimal 7 1))"

definition cohort_features ::
  "('d::linordered_field) token_state \<Rightarrow> 'd feature_view \<Rightarrow> instant \<Rightarrow> 'd feature_values" where
  "cohort_features token view observed_at =
    (let cohort = same_time_cohort token view observed_at window_30s in
     set_numeric ''cohort_launch_count'' (decimal_count (length cohort)) (decimal 8 1) @
     set_numeric ''cohort_active_count''
       (decimal_count (length (filter (\<lambda>other. is_active_stage (tok_lifecycle other)) cohort))) (decimal 8 1) @
     (if cohort = [] then []
      else
        set_numeric ''cohort_discard_rate'' (stage_share (\<lambda>l. l = LcSoftDiscarded \<or> l = LcHardDiscarded) cohort)
          (decimal 8 1) @
        set_numeric ''cohort_rug_rate'' (stage_share (\<lambda>l. l = LcRugArchive) cohort) (decimal 8 1) @
        cohort_rank_features token cohort observed_at @ cohort_share_features token cohort observed_at @
        cohort_percentile_features token cohort observed_at @ rank_velocity_features token view observed_at))"

subsection \<open>Capital rotation\<close>

definition sold_elsewhere :: "pubkey \<Rightarrow> ('d::linordered_field) wallet_summary \<Rightarrow> 'd" where
  "sold_elsewhere mint wallet =
    sum_list (map snd (filter (\<lambda>(other, _). other \<noteq> mint) (ws_tokens_sold wallet)))"

definition rotating_wallets :: "('d::linordered_field) token_state \<Rightarrow> 'd feature_view \<Rightarrow> 'd wallet_summary list" where
  "rotating_wallets token view = filter
     (\<lambda>wallet. map_of (ws_tokens_bought wallet) (tok_mint token) \<noteq> None \<and> 0 < sold_elsewhere (tok_mint token) wallet)
     (viewed_wallets view)"

definition rotation_features ::
  "('d::linordered_field) token_state \<Rightarrow> 'd feature_view \<Rightarrow> 'd feature_values" where
  "rotation_features token view =
    (let rotating = rotating_wallets token view;
         notional = sum_list (map (sold_elsewhere (tok_mint token)) rotating) in
     set_numeric ''wallets_sold_other_token_then_bought_this_count'' (decimal_count (length rotating)) (decimal 7 1) @
     set_numeric ''net_capital_rotated_into_this_from_other_launches'' notional (decimal 7 1) @
     set_numeric ''smart_capital_rotation_score''
       (clamp_unit (decimal_count (length rotating) / decimal_count (max (length (viewed_wallets view)) 1))) (decimal 7 1) @
     set_bool ''this_token_becoming_primary_capital_destination_flag''
       (rotating \<noteq> [] \<and> tr_sell_volume_quote (tok_trade_stats token) < notional) (decimal 7 1))"

subsection \<open>Funding graph\<close>

definition edge_age_features ::
  "string \<Rightarrow> ('d::linordered_field) token_state \<Rightarrow> 'd funding_edge option \<Rightarrow> 'd feature_values" where
  "edge_age_features feature_id token funder = when_some funder (\<lambda>edge. when_some (tok_launch_time token) (\<lambda>launch.
     set_numeric feature_id (decimal_from (word_of_int \<bar>whole_seconds (launch - fe_last_seen edge)\<bar>)) (decimal 7 1)))"

definition funded_by :: "'d feature_view \<Rightarrow> string \<Rightarrow> 'd token_state \<Rightarrow> bool" where
  "funded_by view funder other \<longleftrightarrow>
    (case Option.bind (tok_creator other) (latest_funder_for_wallet view) of
       None \<Rightarrow> False | Some edge \<Rightarrow> fe_funder edge = funder)"

definition funding_burst :: "'d token_state \<Rightarrow> 'd feature_view \<Rightarrow> nat" where
  "funding_burst token view = length (filter (\<lambda>edge. case tok_launch_time token of
       None \<Rightarrow> False
     | Some launch \<Rightarrow> fe_last_seen edge \<le> launch \<and> launch - fe_last_seen edge \<le> window_5m) (viewed_edges view))"

definition funded_just_before :: "'d token_state \<Rightarrow> 'd feature_view \<Rightarrow> instant \<Rightarrow> nat" where
  "funded_just_before token view observed_at = length (filter (\<lambda>trade.
      case latest_funder_for_wallet view (to_wallet trade) of
        None \<Rightarrow> False | Some edge \<Rightarrow> observed_at - fe_last_seen edge \<le> window_1m) (first_buys 8 token))"

text \<open>The product of the wallet count with itself wraps in \<open>usize\<close>, and the division panics when it is zero.\<close>

definition funding_density :: "'d feature_view \<Rightarrow> ('d::linordered_field) option" where
  "funding_density view =
    (let wallet_count = (of_nat (max (length (viewed_wallets view)) 1) :: usize) in
     if wallet_count * wallet_count = 0 then None
     else Some (decimal_count (length (viewed_edges view)) / decimal_from (wallet_count * wallet_count)))"

definition funding_features ::
  "'d feature_env \<Rightarrow> ('d::linordered_field) token_state \<Rightarrow> 'd feature_view \<Rightarrow> instant \<Rightarrow> 'd feature_values option" where
  "funding_features env token view observed_at =
    (let creator_funder = Option.bind (tok_creator token) (latest_funder_for_wallet view);
         buyers = map to_wallet (first_buys 8 token);
         top_holders = map hd_owner (take 5 (hs_top_holders (tok_holder_state token)));
         first_funders = wallet_funders view buyers in
     map_option (\<lambda>density.
       when_some creator_funder (\<lambda>edge. set_text ''creator_recent_funder'' (fe_funder edge) (decimal 8 1)) @
       edge_age_features ''funder_to_creator_edge_age'' token creator_funder @
       set_numeric ''buyer_recent_funder_overlap_count''
         (decimal_count (overlap_count first_funders (map_option fe_funder creator_funder))) (decimal 7 1) @
       set_numeric ''first_buyers_same_funder_pct'' (dominant_share first_funders) (decimal 7 1) @
       set_numeric ''top_holders_same_funder_pct'' (dominant_share (wallet_funders view top_holders)) (decimal 7 1) @
       (if first_funders = [] then []
        else (case buyers of
            [] \<Rightarrow> []
          | buyer # _ \<Rightarrow> edge_age_features ''funder_to_buyer_edge_age'' token (latest_funder_for_wallet view buyer))) @
       when_some creator_funder (\<lambda>edge. set_numeric ''funder_to_multiple_launches_count''
         (decimal_count (length (filter (funded_by view (fe_funder edge)) (viewed_tokens view)))) (decimal 7 1)) @
       set_numeric ''same_funder_same_amount_pattern''
         (repeated_amount_pattern env view (map_option fe_funder creator_funder)) (decimal 6 1) @
       set_numeric ''funding_burst_before_launch'' (decimal_count (funding_burst token view)) (decimal 7 1) @
       set_numeric ''wallets_funded_just_before_buy_count''
         (decimal_count (funded_just_before token view observed_at)) (decimal 7 1) @
       set_numeric ''fresh_wallets_funded_by_known_factory''
         (case creator_funder of
            None \<Rightarrow> 0
          | Some funder \<Rightarrow> decimal_count (length (filter (\<lambda>edge. fe_funder edge = fe_funder funder) (viewed_edges view))))
         (decimal 6 1) @
       set_numeric ''funding_graph_density'' (clamp_unit (density * decimal_from 10)) (decimal 7 1))
     (funding_density view))"

definition funding_suspicion_features :: "('d::linordered_field) feature_values \<Rightarrow> 'd feature_values" where
  "funding_suspicion_features values =
    (let suspicion = clamp_unit (read_feature ''first_buyers_same_funder_pct'' values +
           read_feature ''top_holders_same_funder_pct'' values + read_feature ''funding_graph_density'' values)
           / decimal_from 3 in
     set_numeric ''funding_graph_suspicion_score'' suspicion (decimal 7 1) @
     set_numeric ''funding_graph_quality_score'' (1 - suspicion) (decimal 7 1))"

end
