(* ===== verification/Survival_Features.thy ===== *)
theory Survival_Features
  imports Cohort_Features
begin

text \<open>
  The features that weigh a token's move against what its holders do, those of the tentative sells, and the quality
  of the data (\<open>compute_survival_features\<close>, \<open>compute_shred_exit_defense_features\<close>,
  \<open>finalize_data_quality_features\<close>).
\<close>

subsection \<open>Absorption of large sells\<close>

definition large_sells :: "('d::linordered_field) token_state \<Rightarrow> 'd trade_observation list" where
  "large_sells token = filter (\<lambda>trade. is_sell trade \<and> 5 \<le> to_quote trade) (token_trades token)"

definition buys_after :: "'d trade_observation \<Rightarrow> 'd token_state \<Rightarrow> 'd trade_observation list" where
  "buys_after first token = filter (\<lambda>trade. is_buy trade \<and> to_timestamp first < to_timestamp trade) (token_trades token)"

definition recovery_features ::
  "'d trade_observation \<Rightarrow> ('d::linordered_field) trade_observation list \<Rightarrow> 'd feature_values" where
  "recovery_features first buys = when_some (List.find (\<lambda>trade. to_price first \<le> to_price trade) buys) (\<lambda>trade.
     set_numeric ''recovery_after_large_sell_ms'' (elapsed_ms (to_timestamp trade - to_timestamp first)) (decimal 8 1) @
     (if 0 < to_price first
      then set_numeric ''recovery_after_large_sell_pct''
        (clamp_unit (max (to_price trade - to_price first) 0 / to_price first)) (decimal 7 1) else []))"

definition after_large_sell_features :: "('d::linordered_field) token_state \<Rightarrow> 'd feature_values" where
  "after_large_sell_features token = (case large_sells token of
     [] \<Rightarrow> []
   | first # _ \<Rightarrow>
       (let buys = buys_after first token in
        set_numeric ''buyers_after_large_sell_count'' (decimal_count (length buys)) (decimal 8 1) @
        set_numeric ''unique_buyers_after_large_sell''
          (decimal_count (length (remdups (map to_wallet buys)))) (decimal 8 1) @
        set_numeric ''buy_volume_after_large_sell'' (sum_list (map to_quote buys)) (decimal 8 1) @
        set_numeric ''holder_count_after_large_sell''
          (decimal_from (hs_nonzero_holder_count (tok_holder_state token))) (decimal 8 1) @
        (if 0 < tr_all_time_high (tok_trade_stats token)
         then set_numeric ''price_impact_of_large_sells''
           (clamp_unit (\<bar>to_price first - tok_latest_price token\<bar> / tr_all_time_high (tok_trade_stats token))) (decimal 7 1)
         else []) @
        recovery_features first buys))"

definition absorption :: "('d::linordered_field) token_state \<Rightarrow> 'd" where
  "absorption token = (case large_sells token of
     [] \<Rightarrow> 0
   | first # _ \<Rightarrow>
       clamp_unit (decimal_count (length (remdups (map to_wallet (buys_after first token)))) / decimal_from 5))"

definition absorption_features :: "('d::linordered_field) token_state \<Rightarrow> 'd feature_values" where
  "absorption_features token =
    set_numeric ''large_sell_count'' (decimal_count (length (large_sells token))) (decimal 8 1) @
    set_numeric ''large_sell_total_quote'' (sum_list (map to_quote (large_sells token))) (decimal 8 1) @
    after_large_sell_features token @
    set_numeric ''absorption_success_score'' (absorption token) (decimal 7 1) @
    set_numeric ''absorption_failure_score'' (1 - absorption token) (decimal 7 1) @
    set_numeric ''repeated_absorption_count'' (decimal_count (length (large_sells token) - 1)) (decimal 6 1) @
    set_numeric ''distribution_into_buyers_score''
      (clamp_unit (top_holder_pct 3 (tok_holder_state token) * decimal_from 2 / decimal_from 3)) (decimal 7 1)"

subsection \<open>Moves of the price\<close>

definition sells_by :: "string list \<Rightarrow> 'd token_state \<Rightarrow> nat" where
  "sells_by wallets token = length (filter (\<lambda>trade. is_sell trade \<and> to_wallet trade \<in> set wallets) (token_trades token))"

definition top_holder_sells :: "'d token_state \<Rightarrow> nat" where
  "top_holder_sells token = sells_by (map hd_owner (take 5 (hs_top_holders (tok_holder_state token)))) token"

definition bundle_sells :: "'d token_state \<Rightarrow> nat" where
  "bundle_sells token = sells_by (map to_wallet (first_buys 8 token)) token"

definition unique_buyer_count :: "'d token_state \<Rightarrow> nat" where
  "unique_buyer_count token = card (tr_unique_buyers (tok_trade_stats token))"

definition vertical_move_features ::
  "('d::linordered_field) token_state \<Rightarrow> 'd feature_values \<Rightarrow> 'd feature_values" where
  "vertical_move_features token values =
    (let recent_return = read_feature ''return_pct_30s'' values;
         few_buyers = (unique_buyer_count token \<le> 2) in
     set_bool ''vertical_move_without_holder_growth''
       (decimal 5 1 \<le> recent_return \<and> read_feature ''holder_growth_rate'' values \<le> 0 \<and> few_buyers \<and>
        hs_nonzero_holder_count (tok_holder_state token) \<le> 2) (decimal 7 1) @
     set_bool ''vertical_move_without_unique_buyers'' (decimal 5 1 \<le> recent_return \<and> few_buyers) (decimal 7 1) @
     set_bool ''price_up_no_retail_breadth''
       (0 < recent_return \<and> few_buyers \<and> 2 \<le> tr_buy_count (tok_trade_stats token)) (decimal 7 1))"

definition selling_into_strength_features ::
  "('d::linordered_field) token_state \<Rightarrow> instant \<Rightarrow> 'd feature_values \<Rightarrow> 'd feature_values" where
  "selling_into_strength_features token observed_at values =
    (let recent_return = read_feature ''return_pct_30s'' values; holders = hs_nonzero_holder_count (tok_holder_state token) in
     set_bool ''price_up_top_holders_selling'' (0 < recent_return \<and> 0 < top_holder_sells token) (decimal 7 1) @
     set_bool ''price_up_bundle_selling'' (0 < recent_return \<and> 0 < bundle_sells token) (decimal 7 1) @
     set_bool ''price_up_dev_selling''
       (0 < recent_return \<and> dv_creator_first_sell_time (tok_developer_state token) \<noteq> None) (decimal 7 1) @
     set_bool ''price_up_unique_buyers_down''
       (0 < recent_return \<and> unique_buyers_within token observed_at window_5s < unique_buyers_within token observed_at window_30s)
       (decimal 6 1) @
     set_bool ''price_up_holder_count_down''
       (0 < recent_return \<and> holders < unwrap_or holders (holder_count_at_window token observed_at window_1m)) (decimal 6 1))"

definition large_buy_count :: "('d::linordered_field) token_state \<Rightarrow> nat" where
  "large_buy_count token = length (filter (\<lambda>trade. is_buy trade \<and> 5 \<le> to_quote trade) (token_trades token))"

definition buy_concentration_features ::
  "('d::linordered_field) token_state \<Rightarrow> 'd feature_values \<Rightarrow> 'd feature_values" where
  "buy_concentration_features token values =
    (let recent_return = read_feature ''return_pct_30s'' values;
         largest_buy = read_feature ''largest_buy_quote'' values; buy_volume = read_feature ''buy_volume_quote'' values in
     set_bool ''price_up_buy_size_concentration_high''
       (0 < buy_volume \<and> decimal 6 1 \<le> largest_buy / buy_volume) (decimal 7 1) @
     set_bool ''price_up_only_one_or_two_large_buys''
       (0 < recent_return \<and> 1 \<le> large_buy_count token \<and> large_buy_count token \<le> 2 \<and>
        0 < buy_volume \<and> decimal 55 2 \<le> largest_buy / buy_volume \<and> unique_buyer_count token \<le> 2) (decimal 7 1) @
     set_bool ''price_flat_volume_high_distribution_warning''
       (\<bar>recent_return\<bar> \<le> decimal 5 2 \<and> 10 \<le> buy_volume + read_feature ''sell_volume_quote'' values \<and>
        0 < top_holder_sells token) (decimal 7 1))"

definition survival_features ::
  "('d::linordered_field) token_state \<Rightarrow> instant \<Rightarrow> 'd feature_values \<Rightarrow> 'd feature_values" where
  "survival_features token observed_at values =
    absorption_features token @ vertical_move_features token values @
    selling_into_strength_features token observed_at values @ buy_concentration_features token values"

subsection \<open>Authenticity and survival\<close>

text \<open>These read the flags that \<open>survival_features\<close> has set.\<close>

definition authenticity :: "('d::linordered_field) token_state \<Rightarrow> 'd feature_values \<Rightarrow> 'd" where
  "authenticity token values =
    clamp_unit (weighted_mean
      [(read_feature ''organic_flow_score'' values, decimal 35 2),
       (max (read_feature ''holder_growth_rate'' values) 0, decimal 25 2),
       (clamp_unit (decimal_count (unique_buyer_count token) / decimal_from 6), decimal 15 2),
       (1 - weighted_mean
          [(read_feature ''price_up_no_retail_breadth'' values, decimal 35 2),
           (read_feature ''price_up_only_one_or_two_large_buys'' values, decimal 35 2),
           (read_feature ''price_up_top_holders_selling'' values, decimal 15 2),
           (read_feature ''price_up_bundle_selling'' values, decimal 15 2)], decimal 25 2)]
      - dv_creator_sell_percentage (tok_developer_state token))"

definition survival_score :: "('d::linordered_field) token_state \<Rightarrow> 'd feature_values \<Rightarrow> 'd" where
  "survival_score token values =
    clamp_unit (authenticity token values + absorption token + (1 - top_holder_pct 5 (tok_holder_state token)) +
      (if 0 \<le> read_feature ''return_pct_30s'' values then decimal 2 1 else 0)) / decimal_from 3"

definition authenticity_features ::
  "('d::linordered_field) token_state \<Rightarrow> 'd feature_values \<Rightarrow> 'd feature_values" where
  "authenticity_features token values =
    set_numeric ''momentum_authenticity_score'' (authenticity token values) (decimal 7 1) @
    set_numeric ''exit_liquidity_trap_score''
      (clamp_unit (read_feature ''price_up_top_holders_selling'' values + read_feature ''price_up_bundle_selling'' values +
         read_feature ''price_up_only_one_or_two_large_buys'' values) / decimal_from 3) (decimal 7 1) @
    set_bool ''dev_not_selling_while_price_up''
      (dv_creator_first_sell_time (tok_developer_state token) = None \<and> 0 \<le> read_feature ''return_pct_30s'' values)
      (decimal 8 1) @
    set_numeric ''organic_survival_score'' (survival_score token values) (decimal 8 1) @
    set_numeric ''anti_rug_confidence_score'' (history_confidence token) (decimal 8 1)"

subsection \<open>Tentative sells\<close>

fun warning_level_value :: "tentative_sell_risk_level option \<Rightarrow> nat" where
  "warning_level_value None = 0"
| "warning_level_value (Some Info) = 0"
| "warning_level_value (Some Watch) = 1"
| "warning_level_value (Some ExitArmed) = 2"
| "warning_level_value (Some EmergencyExitRecommended) = 3"
| "warning_level_value (Some EmergencyExitRequired) = 4"

definition false_positive_rate :: "('d::linordered_field) shred_defense_state \<Rightarrow> 'd" where
  "false_positive_rate d =
    (if sd_tentative_sell_count_window d = 0 then 0
     else decimal_from (sd_tentative_sell_false_positive_total d) / decimal_from (sd_tentative_sell_count_window d))"

definition latency_used :: "('d::linordered_field) shred_defense_state \<Rightarrow> 'd" where
  "latency_used d = decimal_signed (unwrap_or 0 (first_some (sd_shred_to_geyser_processed_ms d)
     (first_some (sd_shred_to_account_effect_confirmation_ms d) (sd_shred_to_rooted_confirmation_ms d))))"

definition sell_window_features :: "('d::linordered_field) shred_defense_state \<Rightarrow> 'd feature_values" where
  "sell_window_features d =
    set_numeric ''tentative_sell_count_window'' (decimal_from (sd_tentative_sell_count_window d)) (decimal 9 1) @
    set_numeric ''tentative_sell_volume_quote_window'' (sd_tentative_sell_volume_quote_window d) (decimal 85 2) @
    set_numeric ''tentative_sell_from_dev_count'' (decimal_from (sd_tentative_sell_from_dev_count d)) (decimal 9 1) @
    set_numeric ''tentative_sell_from_top_holder_count''
      (decimal_from (sd_tentative_sell_from_top_holder_count d)) (decimal 9 1) @
    set_numeric ''tentative_sell_from_bundle_count''
      (decimal_from (sd_tentative_sell_from_bundle_count d)) (decimal 9 1) @
    set_numeric ''tentative_sell_from_whale_count'' (decimal_from (sd_tentative_sell_from_whale_count d)) (decimal 9 1) @
    set_numeric ''tentative_sell_same_slot_cluster_count''
      (decimal_from (sd_tentative_sell_same_slot_cluster_count d)) (decimal 8 1) @
    set_numeric ''tentative_sell_impact_max_pct'' (sd_tentative_sell_impact_max_pct d) (decimal 85 2) @
    set_numeric ''tentative_sell_impact_sum_pct'' (sd_tentative_sell_impact_sum_pct d) (decimal 85 2) @
    set_numeric ''tentative_sell_confidence_max'' (sd_tentative_sell_confidence_max d) (decimal 9 1) @
    set_numeric ''tentative_sell_confidence_mean'' (sd_tentative_sell_confidence_mean d) (decimal 9 1) @
    set_numeric ''shred_sell_warning_level'' (decimal_count (warning_level_value (sd_last_warning_level d))) (decimal 85 2) @
    set_bool ''shred_exit_armed_flag'' (sd_shred_exit_armed_flag d) (decimal 9 1) @
    set_bool ''shred_emergency_exit_triggered_flag'' (sd_shred_emergency_exit_triggered_flag d) (decimal 9 1)"

definition sell_latency_features :: "('d::linordered_field) shred_defense_state \<Rightarrow> 'd feature_values" where
  "sell_latency_features d =
    set_numeric ''shred_to_geyser_processed_ms''
      (decimal_signed (unwrap_or 0 (sd_shred_to_geyser_processed_ms d))) (decimal 75 2) @
    set_numeric ''shred_to_account_effect_confirmation_ms''
      (decimal_signed (unwrap_or 0 (sd_shred_to_account_effect_confirmation_ms d))) (decimal 75 2) @
    set_numeric ''shred_to_rooted_confirmation_ms''
      (decimal_signed (unwrap_or 0 (sd_shred_to_rooted_confirmation_ms d))) (decimal 75 2) @
    set_numeric ''shred_sell_false_positive_rate_wallet'' (false_positive_rate d) (decimal 7 1) @
    set_numeric ''shred_sell_false_positive_rate_source'' (false_positive_rate d) (decimal 7 1) @
    set_numeric ''shred_sell_saved_loss_estimate'' (sd_shred_saved_loss_estimate d) (decimal 8 1) @
    set_numeric ''shred_sell_saved_loss_realized'' (sd_shred_saved_loss_realized d) (decimal 8 1) @
    set_numeric ''shred_exit_opportunity_cost'' (sd_shred_exit_opportunity_cost d) (decimal 8 1) @
    set_bool ''shred_signal_stale_flag'' (sd_shred_signal_stale_flag d) (decimal 85 2) @
    set_numeric ''shred_exit_latency_budget_ms''
      (decimal_from (xt_required_early_intent_lead_time_ms (sd_exit_threat_index d))) (decimal 8 1) @
    set_numeric ''shred_exit_latency_used_ms'' (latency_used d) (decimal 8 1) @
    set_numeric ''shred_exit_edge_score''
      (max (sd_shred_saved_loss_estimate d + sd_shred_saved_loss_realized d - sd_shred_exit_opportunity_cost d) 0)
      (decimal 8 1)"

definition exit_benefit_features :: "('d::linordered_field) shred_defense_state \<Rightarrow> 'd feature_values" where
  "exit_benefit_features d =
    set_numeric ''early_intent_latency_advantage_ms''
      (decimal_signed (unwrap_or 0 (sd_early_intent_latency_advantage_ms d))) (decimal 85 2) @
    set_numeric ''required_latency_advantage_ms''
      (decimal_signed (unwrap_or 0 (sd_required_latency_advantage_ms d))) (decimal 8 1) @
    set_numeric ''latency_edge_ratio'' (sd_latency_edge_ratio d) (decimal 8 1) @
    set_bool ''exit_can_land_before_estimated_impact'' (sd_exit_can_land_before_estimated_impact d) (decimal 8 1) @
    set_numeric ''absorption_health_score'' (sd_absorption_health_score d) (decimal 75 2) @
    set_numeric ''post_sell_absorption_probability'' (sd_post_sell_absorption_probability d) (decimal 75 2) @
    set_numeric ''emergency_exit_expected_saved_loss'' (sd_emergency_exit_expected_saved_loss d) (decimal 8 1) @
    set_numeric ''emergency_exit_expected_opportunity_cost''
      (sd_emergency_exit_expected_opportunity_cost d) (decimal 8 1) @
    set_numeric ''emergency_exit_net_benefit'' (sd_emergency_exit_net_benefit d) (decimal 8 1) @
    set_numeric ''emergency_exit_net_benefit_confidence'' (sd_emergency_exit_net_benefit_confidence d) (decimal 8 1) @
    set_numeric ''malicious_sell_intent_score'' (sd_malicious_sell_intent_score d) (decimal 85 2) @
    set_numeric ''preconfirmation_exit_confidence'' (sd_preconfirmation_exit_confidence d) (decimal 85 2) @
    set_numeric ''dangerous_seller_precomputed_impact_score''
      (xt_dangerous_seller_precomputed_impact_score (sd_exit_threat_index d)) (decimal 8 1) @
    set_numeric ''exit_threat_index_score'' (xt_exit_threat_index_score (sd_exit_threat_index d)) (decimal 8 1)"

definition shred_defense_features :: "('d::linordered_field) token_state \<Rightarrow> 'd feature_values" where
  "shred_defense_features token =
    (let d = tok_shred_defense token in sell_window_features d @ sell_latency_features d @ exit_benefit_features d)"

subsection \<open>Data quality\<close>

definition with_status :: "(feature_status \<Rightarrow> bool) \<Rightarrow> 'd feature_values \<Rightarrow> nat" where
  "with_status P values = length (filter (\<lambda>(_, v). P (fv_status v)) values)"

definition critical_features :: "string list" where
  "critical_features = [''price_current'', ''buy_volume_quote'', ''holder_count_current'', ''bundle_risk_score'',
     ''rug_probability_score'']"

definition critical_missing :: "'d feature_values \<Rightarrow> nat" where
  "critical_missing values = length (filter
     (\<lambda>(feature_id, v). fv_status v \<noteq> Available \<and> feature_id \<in> set critical_features) values)"

definition connection_features :: "('d::linordered_field) token_state \<Rightarrow> 'd feature_values" where
  "connection_features token =
    set_bool ''geyser_connected_flag'' True 1 @
    set_bool ''shred_connected_flag'' (tok_first_seen_source token \<in> {ShredTentative, DeshredTentative}) (decimal 8 1) @
    set_bool ''source_disagreement_flag''
      (''data_gap'' \<in> tok_data_quality_flags token \<or> tok_tentative_only token) (decimal 8 1)"

definition completeness_features :: "('d::linordered_field) feature_values \<Rightarrow> 'd feature_values" where
  "completeness_features values =
    (let available = with_status (\<lambda>st. st = Available) values; implemented = with_status (\<lambda>st. st \<noteq> Unavailable) values in
     if 0 < implemented
     then set_numeric ''feature_completeness_pct'' (decimal_count available / decimal_count implemented) (decimal 9 1)
     else [])"

definition data_quality :: "('d::linordered_field) token_state \<Rightarrow> nat \<Rightarrow> 'd feature_values \<Rightarrow> 'd" where
  "data_quality token critical values =
    clamp_unit (read_feature ''feature_completeness_pct'' values - decimal_count critical / decimal_from 10 -
      (if tok_tentative_only token then decimal 2 1 else 0) -
      (if ''data_gap'' \<in> tok_data_quality_flags token then decimal 5 1 else 0))"

definition finalize_data_quality ::
  "('d::linordered_field) token_state \<Rightarrow> 'd feature_values \<Rightarrow> 'd feature_values" where
  "finalize_data_quality token values =
    (let values = apply_settings (connection_features token) values;
         critical = critical_missing values;
         values = apply_settings (set_numeric ''critical_feature_missing_count'' (decimal_count critical) 1) values;
         values = apply_settings (completeness_features values) values;
         quality = data_quality token critical values in
     apply_settings
       (set_numeric ''data_quality_score'' quality (decimal 9 1) @
        set_bool ''trade_allowed_data_quality_flag''
          (decimal 5 1 \<le> quality \<and> ''data_gap'' \<notin> tok_data_quality_flags token) (decimal 9 1)) values)"

end
