(* ===== verification/Feature_Registry.thy ===== *)
theory Feature_Registry
  imports Feature_Snapshot "HOL-Library.Char_ord" "HOL-Library.List_Lexorder"
begin

text \<open>
  The registry of features (\<open>FeatureRegistry\<close> of \<open>crates/features/src/lib.rs\<close>): descriptors by feature, in a
  \<open>BTreeMap\<close>, that is an association list in the order of its keys. The core groups are computed, the placeholder
  groups are registered as unavailable.
\<close>

record feature_descriptor =
  fd_feature_id :: string
  fd_name :: string
  fd_category :: string
  fd_description :: string
  fd_data_dependencies :: "string list"
  fd_window_or_anchor :: string
  fd_update_cost :: string
  fd_memory_cost :: string
  fd_live_available :: bool
  fd_replay_available :: bool
  fd_no_lookahead_safe :: bool
  fd_missing_data_behavior :: string
  fd_normalization_method :: string
  fd_regime_conditioning_method :: string
  fd_version :: u32
  fd_enabled_by_default :: bool
  fd_computation_budget_class :: string
  fd_default_status :: feature_status

type_synonym feature_registry = "(string \<times> feature_descriptor) list"

fun tree_insert :: "('k::linorder) \<Rightarrow> 'v \<Rightarrow> ('k \<times> 'v) list \<Rightarrow> ('k \<times> 'v) list" where
  "tree_insert k v [] = [(k, v)]"
| "tree_insert k v ((k', v') # rest) =
    (if k = k' then (k, v) # rest
     else if k < k' then (k, v) # (k', v') # rest else (k', v') # tree_insert k v rest)"

definition register_descriptor :: "feature_descriptor \<Rightarrow> feature_registry \<Rightarrow> feature_registry" where
  "register_descriptor descriptor registry = tree_insert (fd_feature_id descriptor) descriptor registry"

definition core_descriptor :: "string \<Rightarrow> string list \<Rightarrow> string \<Rightarrow> string \<Rightarrow> feature_descriptor" where
  "core_descriptor category dependencies window feature_id =
    \<lparr>fd_feature_id = feature_id, fd_name = feature_id, fd_category = category, fd_description = feature_id,
     fd_data_dependencies = dependencies, fd_window_or_anchor = window, fd_update_cost = ''streaming'',
     fd_memory_cost = ''bounded'', fd_live_available = True, fd_replay_available = True, fd_no_lookahead_safe = True,
     fd_missing_data_behavior = ''mark_missing'', fd_normalization_method = ''direct_or_ranked'',
     fd_regime_conditioning_method = ''external_regime_snapshot'', fd_version = 1, fd_enabled_by_default = True,
     fd_computation_budget_class = ''core'', fd_default_status = Missing\<rparr>"

definition placeholder_descriptor :: "string \<Rightarrow> string \<Rightarrow> feature_descriptor" where
  "placeholder_descriptor category feature_id =
    \<lparr>fd_feature_id = feature_id, fd_name = feature_id, fd_category = category,
     fd_description = ''Registered for future implementation; currently guarded as unavailable.'',
     fd_data_dependencies = [''state_snapshot''], fd_window_or_anchor = ''varies'', fd_update_cost = ''not_computed'',
     fd_memory_cost = ''minimal'', fd_live_available = False, fd_replay_available = False, fd_no_lookahead_safe = True,
     fd_missing_data_behavior = ''mark_unavailable'', fd_normalization_method = ''n/a'',
     fd_regime_conditioning_method = ''n/a'', fd_version = 1, fd_enabled_by_default = False,
     fd_computation_budget_class = ''deferred'', fd_default_status = Unavailable\<rparr>"

subsection \<open>The core groups\<close>

definition core_launch_identity :: "string list" where
  "core_launch_identity =
    [''launch_slot'', ''time_since_launch_ms'', ''mint'', ''quote_mint'', ''quote_asset_type'', ''creator_wallet'',
     ''payer_wallet'', ''bonding_curve_pubkey'', ''associated_bonding_curve_pubkey'', ''metadata_pubkey'',
     ''token_program_type'', ''create_instruction_variant'', ''name_length'', ''symbol_length'', ''uri_length'',
     ''has_empty_name'', ''has_empty_symbol'', ''has_empty_uri'', ''duplicate_name_seen_historically'',
     ''duplicate_symbol_seen_historically'', ''duplicate_uri_seen_historically'', ''name_entropy'',
     ''symbol_entropy'', ''uri_entropy'', ''suspicious_unicode_score'', ''uri_scheme'',
     ''launch_same_tx_buy_count'', ''launch_same_slot_buy_count'', ''first_seen_source'',
     ''launch_tx_client_fingerprint'']"

definition core_creator :: "string list" where
  "core_creator =
    [''creator_age_in_local_index'', ''creator_total_launches_seen'', ''creator_launches_last_1h'',
     ''creator_cluster_id'', ''creator_reuses_same_payer'', ''creator_reuses_same_metadata_domain'',
     ''creator_launching_spam_wave_flag'']"

definition core_dev_holdings :: "string list" where
  "core_dev_holdings =
    [''creator_initial_token_balance'', ''creator_retained_supply_pct'', ''creator_net_tokens_after_10s'',
     ''creator_net_tokens_after_30s'', ''creator_net_tokens_after_1m'', ''creator_net_tokens_after_5m'',
     ''creator_net_quote_flow_after_10s'', ''creator_net_quote_flow_after_30s'',
     ''creator_net_quote_flow_after_1m'', ''creator_net_quote_flow_after_5m'', ''creator_has_sold'',
     ''creator_first_sell_time_ms'', ''creator_dump_velocity'', ''creator_balance_rank'',
     ''creator_is_top1_holder'', ''creator_is_top3_holder'', ''creator_is_top5_holder'',
     ''creator_is_top10_holder'', ''dev_balance'', ''creator_ownership_pct'', ''dev_holding_pct_total_supply'',
     ''dev_holding_pct_curve_economic_supply'', ''token_supply_selected_for_holder_pct'',
     ''dev_holding_pct_circulating'']"

definition core_curve :: "string list" where
  "core_curve =
    [''virtual_quote_reserves'', ''virtual_token_reserves'', ''real_quote_reserves'', ''real_token_reserves'',
     ''token_decimals'', ''price_lamports_per_raw_token'', ''price_sol_per_token'', ''reserve_price_confidence'',
     ''price_current'', ''price_launch'', ''price_change_from_launch_pct'', ''market_cap_quote_1b'',
     ''market_cap_quote_total_supply'', ''token_supply_curve_economic_ui'', ''token_supply_protocol_constant_ui'',
     ''token_supply_selected_for_market_cap'', ''token_supply_selected_for_curve_progress'',
     ''supply_denominator_policy_version'', ''market_cap_confidence'', ''curve_complete_flag'',
     ''curve_progress_pct'', ''curve_progress_confidence'', ''curve_completion_pct'', ''curve_staleness_ms'',
     ''quote_asset_specific_depth_score'', ''quote_asset_specific_curve_health'']"

definition core_price_path :: "string list" where
  "core_price_path =
    [''return_pct_30s'', ''return_pct_1m'', ''return_pct_5m'', ''price_high'', ''price_low'',
     ''drawdown_from_ath_pct'', ''drawdown_from_launch_pct'', ''realized_volatility_30s'',
     ''realized_volatility_1m'', ''price_velocity_30s'', ''time_to_ath_ms'', ''time_below_launch_price_pct'',
     ''new_ath_frequency'', ''post_ath_selloff_velocity'']"

definition core_trade_flow :: "string list" where
  "core_trade_flow =
    [''buy_count'', ''sell_count'', ''trade_count'', ''unique_buyers'', ''unique_sellers'', ''buy_volume_quote'',
     ''sell_volume_quote'', ''net_flow_quote'', ''buy_sell_count_ratio'', ''buy_sell_volume_ratio'',
     ''largest_buy_quote'', ''largest_sell_quote'', ''median_buy_size_quote'', ''median_sell_size_quote'',
     ''p90_buy_size_quote'', ''p90_sell_size_quote'', ''first_10_trades_buy_ratio'', ''no_buy_gap_longest_ms'',
     ''organic_flow_score'', ''toxic_flow_score'']"

definition core_holders :: "string list" where
  "core_holders =
    [''holder_count_current'', ''holder_count_owner_wallets'', ''holder_count_excluding_curve'',
     ''holder_count_excluding_curve_and_dev'', ''observed_holder_supply'', ''circulating_holder_supply'',
     ''holder_growth_rate'', ''holders_with_nonzero_balance'', ''average_holder_balance'',
     ''median_holder_balance'', ''p90_holder_balance'', ''holder_balance_gini'', ''holder_balance_hhi'',
     ''top1_holder_pct'', ''top1_holder_pct_observed'', ''top1_holder_pct_total_supply'',
     ''top1_holder_pct_curve_economic_supply'', ''top1_holder_pct_circulating'', ''top3_holder_pct'',
     ''top5_holder_pct'', ''top10_holder_pct'', ''top20_holder_pct'', ''holder_distribution_improvement_score'',
     ''sustained_holder_growth_score'', ''holder_metric_confidence'', ''missing_owner_mapping_count'',
     ''holder_updates_seen'', ''holder_updates_applied'', ''holder_updates_deduped'', ''holder_owner_changes'',
     ''holder_missing_owner_mapping'', ''holder_fallback_trade_updates_used'']"

definition core_top_holders :: "string list" where
  "core_top_holders =
    [''whale_count'', ''whale_holding_pct'', ''top1_is_creator'', ''concentration_risk_score'',
     ''one_wallet_controls_market_flag'']"

definition core_bundle :: "string list" where
  "core_bundle =
    [''same_slot_multi_buy_count'', ''first_n_buys_identical_amount_count'', ''first_n_buys_same_funder_count'',
     ''bundle_wallets_top_holder_pct'', ''bundle_risk_score'', ''bundle_confidence'']"

definition core_rug :: "string list" where
  "core_rug =
    [''dev_sold_flag'', ''dev_sold_pct'', ''price_drop_50pct_from_ath'',
     ''price_drop_70pct_from_launch_within_5m'', ''holder_growth_stalled'', ''sells_dominate_after_launch'',
     ''no_buys_for_x_seconds'', ''rug_probability_score'', ''rug_confidence'']"

definition core_cohort :: "string list" where
  "core_cohort =
    [''cohort_launch_count'', ''cohort_active_count'', ''cohort_discard_rate'', ''cohort_rug_rate'',
     ''token_rank_by_buy_volume_30s'', ''token_rank_by_net_flow_30s'', ''token_rank_by_holder_growth_30s'',
     ''token_rank_by_price_return_30s'', ''token_percentile_buy_volume_30s'', ''token_percentile_net_flow_30s'',
     ''token_percentile_holder_growth_1m'', ''token_percentile_price_return_1m'',
     ''token_relative_strength_score'', ''token_relative_weakness_score'', ''cohort_attention_share'',
     ''this_token_share_of_all_launch_buy_volume'', ''this_token_share_of_all_unique_buyers'',
     ''token_is_cohort_leader_flag'', ''token_is_cohort_laggard_flag'', ''token_improving_rank_velocity'',
     ''token_losing_rank_velocity'', ''best_launch_in_cohort_distance'']"

definition core_capital_rotation :: "string list" where
  "core_capital_rotation =
    [''wallets_sold_other_token_then_bought_this_count'', ''net_capital_rotated_into_this_from_other_launches'',
     ''smart_capital_rotation_score'', ''this_token_becoming_primary_capital_destination_flag'']"

definition core_cost_basis :: "string list" where
  "core_cost_basis =
    [''holder_unrealized_pnl_mean'', ''holder_unrealized_pnl_median'', ''holder_unrealized_pnl_p90'',
     ''unrealized_profit_supply_pct'', ''underwater_supply_pct'', ''breakeven_supply_pct'',
     ''free_rolling_supply_pct'', ''top5_unrealized_pnl'', ''top10_unrealized_pnl'', ''profit_overhang_score'',
     ''underwater_capitulation_risk'', ''free_roll_dump_risk_score'', ''realized_profit_taking_rate'',
     ''holders_taking_initials_out_count'', ''holders_fully_exiting_count'']"

definition core_survival :: "string list" where
  "core_survival =
    [''large_sell_count'', ''large_sell_total_quote'', ''price_impact_of_large_sells'',
     ''recovery_after_large_sell_ms'', ''recovery_after_large_sell_pct'', ''buyers_after_large_sell_count'',
     ''unique_buyers_after_large_sell'', ''buy_volume_after_large_sell'', ''holder_count_after_large_sell'',
     ''absorption_success_score'', ''absorption_failure_score'', ''repeated_absorption_count'',
     ''distribution_into_buyers_score'', ''price_flat_volume_high_distribution_warning'',
     ''vertical_move_without_holder_growth'', ''vertical_move_without_unique_buyers'',
     ''price_up_top_holders_selling'', ''price_up_bundle_selling'', ''price_up_dev_selling'',
     ''price_up_unique_buyers_down'', ''price_up_holder_count_down'', ''price_up_buy_size_concentration_high'',
     ''price_up_only_one_or_two_large_buys'', ''price_up_no_retail_breadth'', ''momentum_authenticity_score'',
     ''exit_liquidity_trap_score'', ''dev_not_selling_while_price_up'', ''organic_survival_score'',
     ''anti_rug_confidence_score'']"

definition core_holder_lifecycle :: "string list" where
  "core_holder_lifecycle =
    [''holder_age_mean'', ''holder_age_median'', ''holder_age_weighted_by_balance'', ''new_holder_survival_30s'',
     ''new_holder_survival_1m'', ''first_10_buyers_retention'', ''first_20_buyers_retention'',
     ''average_time_to_first_sell_by_holder'', ''holder_half_life'', ''holder_decay_rate'',
     ''holder_stickiness_score'', ''holder_paper_hands_score'', ''healthy_churn_score'', ''unhealthy_churn_score'',
     ''new_holders_replacing_old_holders_score'']"

definition core_transaction_fingerprint :: "string list" where
  "core_transaction_fingerprint =
    [''tx_account_count'', ''tx_instruction_count'', ''tx_inner_instruction_count'',
     ''compute_budget_instruction_present'', ''compute_unit_limit'', ''compute_unit_price'',
     ''compute_unit_limit_bucket'', ''compute_unit_price_bucket'', ''duplicate_compute_profile_count'',
     ''duplicate_compute_profile_among_first_buyers'', ''duplicate_instruction_sequence_count'',
     ''duplicate_account_pattern_count'', ''identical_client_fingerprint_score'',
     ''first_buyers_same_client_fingerprint_pct'', ''top_holders_same_client_fingerprint_pct'',
     ''bot_family_dominance_score'', ''bot_family_diversity_score'']"

definition core_funding_graph :: "string list" where
  "core_funding_graph =
    [''creator_recent_funder'', ''buyer_recent_funder_overlap_count'', ''top_holders_same_funder_pct'',
     ''first_buyers_same_funder_pct'', ''funder_to_creator_edge_age'', ''funder_to_buyer_edge_age'',
     ''funder_to_multiple_launches_count'', ''same_funder_same_amount_pattern'', ''funding_burst_before_launch'',
     ''wallets_funded_just_before_buy_count'', ''fresh_wallets_funded_by_known_factory'',
     ''funding_graph_density'', ''funding_graph_suspicion_score'', ''funding_graph_quality_score'']"

definition core_fee_competition :: "string list" where
  "core_fee_competition =
    [''launch_priority_fee_median'', ''launch_priority_fee_p90'', ''pump_buy_priority_fee_median'',
     ''pump_sell_priority_fee_median'', ''first_buyers_priority_fee_median'', ''priority_fee_spike_near_launch'',
     ''our_required_priority_fee_estimate'', ''fee_war_score'', ''edge_minus_fee_war_cost'',
     ''high_fee_low_edge_warning'', ''minimum_move_to_cover_observed_fees'']"

definition core_execution :: "string list" where
  "core_execution =
    [''first_seen_by_shred_ns'', ''shred_lead_time_ms'', ''token_signal_available_before_geyser_flag'',
     ''slot_id'', ''launch_priority_fee_median'', ''competition_intensity_score'',
     ''counterfactual_buy_after_100ms_pnl'', ''latency_adjusted_trade_eligibility'']"

definition core_data_quality :: "string list" where
  "core_data_quality =
    [''geyser_connected_flag'', ''shred_connected_flag'', ''feature_completeness_pct'',
     ''critical_feature_missing_count'', ''source_disagreement_flag'', ''data_quality_score'',
     ''trade_allowed_data_quality_flag'']"

definition core_shred_exit_defense :: "string list" where
  "core_shred_exit_defense =
    [''tentative_sell_count_window'', ''tentative_sell_volume_quote_window'', ''tentative_sell_from_dev_count'',
     ''tentative_sell_from_top_holder_count'', ''tentative_sell_from_bundle_count'',
     ''tentative_sell_from_whale_count'', ''tentative_sell_same_slot_cluster_count'',
     ''tentative_sell_impact_max_pct'', ''tentative_sell_impact_sum_pct'', ''tentative_sell_confidence_max'',
     ''tentative_sell_confidence_mean'', ''shred_sell_warning_level'', ''shred_exit_armed_flag'',
     ''shred_emergency_exit_triggered_flag'', ''shred_to_geyser_processed_ms'',
     ''shred_to_account_effect_confirmation_ms'', ''shred_to_rooted_confirmation_ms'',
     ''shred_sell_false_positive_rate_wallet'', ''shred_sell_false_positive_rate_source'',
     ''shred_sell_saved_loss_estimate'', ''shred_sell_saved_loss_realized'', ''shred_exit_opportunity_cost'',
     ''shred_signal_stale_flag'', ''shred_exit_latency_budget_ms'', ''shred_exit_latency_used_ms'',
     ''shred_exit_edge_score'', ''malicious_sell_intent_score'', ''preconfirmation_exit_confidence'',
     ''dangerous_seller_precomputed_impact_score'', ''exit_threat_index_score'']"

definition core_groups :: "(string \<times> string list \<times> string list \<times> string) list" where
  "core_groups =
    [(''launch_identity'', core_launch_identity, [''token_state''], ''launch_to_now''),
     (''creator'', core_creator, [''wallet_index'', ''token_state''], ''launch_to_now''),
     (''dev_holdings'', core_dev_holdings, [''developer_state'', ''holder_state''], ''launch_to_now''),
     (''curve'', core_curve, [''bonding_curve_state''], ''launch_to_now''),
     (''price_path'', core_price_path, [''trade_history''], ''windowed''),
     (''trade_flow'', core_trade_flow, [''trade_history''], ''launch_to_now''),
     (''holders'', core_holders, [''holder_state''], ''launch_to_now''),
     (''top_holders'', core_top_holders, [''holder_state'', ''developer_state''], ''launch_to_now''),
     (''bundle'', core_bundle, [''trade_history'', ''funding_graph'', ''cluster_index''], ''launch_to_now''),
     (''rug'', core_rug, [''developer_state'', ''trade_history'', ''holder_state''], ''launch_to_now''),
     (''cohort'', core_cohort, [''state_snapshot''], ''same_30s_cohort''),
     (''capital_rotation'', core_capital_rotation, [''wallet_index''], ''launch_to_now''),
     (''cost_basis'', core_cost_basis, [''holder_state''], ''launch_to_now''),
     (''survival'', core_survival, [''trade_history'', ''holder_state'', ''developer_state''], ''launch_to_now''),
     (''holder_lifecycle'', core_holder_lifecycle, [''holder_state'', ''trade_history''], ''launch_to_now''),
     (''transaction_fingerprint'', core_transaction_fingerprint, [''trade_history'', ''observed_transactions''], ''launch_to_now''),
     (''funding_graph'', core_funding_graph, [''funding_graph'', ''wallet_index''], ''launch_to_now''),
     (''fee_competition'', core_fee_competition, [''trade_history''], ''launch_to_now''),
     (''execution'', core_execution, [''event_meta'', ''trade_history''], ''launch_to_now''),
     (''data_quality'', core_data_quality, [''token_state''], ''launch_to_now''),
     (''shred_exit_defense'', core_shred_exit_defense, [''shred_defense_state''], ''launch_to_now'')]"

subsection \<open>The placeholder groups\<close>

definition placeholder_groups :: "(string \<times> string list) list" where
  "placeholder_groups =
    [(''wallet_embeddings'',
       [''wallet_behavior_vector'', ''wallet_risk_vector'', ''wallet_alpha_vector'', ''wallet_toxicity_vector'',
        ''buyer_cohort_similarity_to_past_winners'']),
     (''factories_and_fingerprints'',
       [''creator_launch_factory_score'', ''same_launch_instruction_shape_score'',
        ''same_compute_budget_pattern_score'', ''client_fingerprint_cluster_id'',
        ''client_fingerprint_historical_win_rate'']),
     (''event_grammar'',
       [''first_10_event_sequence'', ''event_bigram_counts'', ''event_sequence_similarity_to_winners'',
        ''motif_id'', ''motif_historical_expected_pnl'']),
     (''path_similarity'',
       [''price_path_shape_id'', ''combined_multivariate_path_similarity'',
        ''dynamic_time_warp_distance_price_to_winner_templates'', ''higher_low_accumulation_score'']),
     (''hazard_and_anomaly'',
       [''hazard_rug_next_10s'', ''survival_probability_30s'', ''expected_safe_hold_time'',
        ''anomaly_score_positive'', ''anomaly_requires_deep_tracking_flag''])]"

definition register_core_group ::
  "string \<times> string list \<times> string list \<times> string \<Rightarrow> feature_registry \<Rightarrow> feature_registry" where
  "register_core_group = (\<lambda>(category, feature_ids, dependencies, window).
    fold (\<lambda>feature_id. register_descriptor (core_descriptor category dependencies window feature_id)) feature_ids)"

definition register_placeholder_group :: "string \<times> string list \<Rightarrow> feature_registry \<Rightarrow> feature_registry" where
  "register_placeholder_group = (\<lambda>(category, feature_ids).
    fold (\<lambda>feature_id. register_descriptor (placeholder_descriptor category feature_id)) feature_ids)"

definition default_registry :: feature_registry where
  "default_registry = fold register_placeholder_group placeholder_groups (fold register_core_group core_groups [])"
subsection \<open>What is registered\<close>

lemma tree_insert_lookup [simp]: "map_of (tree_insert k v t) = (map_of t)(k \<mapsto> v)"
  by (induction t) (auto simp: fun_eq_iff)

lemma tree_insert_keys [simp]: "fst ` set (tree_insert k v t) = insert k (fst ` set t)"
proof (induction t)
  case (Cons x t)
  then show ?case by (cases x) (simp add: insert_commute)
qed simp

lemma tree_insert_member: "x \<in> set (tree_insert k v t) \<Longrightarrow> fst x = k \<or> (\<exists>y \<in> set t. fst x = fst y)"
  using tree_insert_keys [of k v t] by (metis image_iff insert_iff)

lemma tree_insert_sorted: "sorted_wrt (<) (map fst t) \<Longrightarrow> sorted_wrt (<) (map fst (tree_insert k v t))"
proof (induction t)
  case (Cons x t)
  then show ?case by (cases x) (auto dest!: tree_insert_member)
qed simp

definition core_feature_ids :: "string list" where
  "core_feature_ids = concat (map (\<lambda>(_, feature_ids, _). feature_ids) core_groups)"

definition placeholder_ids :: "string list" where
  "placeholder_ids = concat (map snd placeholder_groups)"

definition default_statuses :: "feature_registry \<Rightarrow> string \<Rightarrow> feature_status option" where
  "default_statuses registry k = map_option fd_default_status (map_of registry k)"

lemma register_status [simp]:
  "default_statuses (register_descriptor d registry) = (default_statuses registry)(fd_feature_id d \<mapsto> fd_default_status d)"
  by (auto simp: default_statuses_def register_descriptor_def fun_eq_iff)

lemma register_sorted:
  "sorted_wrt (<) (map fst registry) \<Longrightarrow> sorted_wrt (<) (map fst (register_descriptor d registry))"
  unfolding register_descriptor_def by (rule tree_insert_sorted)

lemma fold_register_status:
  assumes "\<And>k. fd_feature_id (f k) = k" "\<And>k. fd_default_status (f k) = st"
  shows "default_statuses (fold (\<lambda>k. register_descriptor (f k)) ks registry) j =
    (if j \<in> set ks then Some st else default_statuses registry j)"
  by (induction ks arbitrary: registry) (auto simp: assms)

lemma fold_register_sorted:
  "sorted_wrt (<) (map fst registry) \<Longrightarrow>
   sorted_wrt (<) (map fst (fold (\<lambda>k. register_descriptor (f k)) ks registry))"
  by (induction ks arbitrary: registry) (simp_all add: register_sorted)

lemma core_groups_status:
  "default_statuses (fold register_core_group groups registry) j =
    (if j \<in> set (concat (map (\<lambda>(_, feature_ids, _). feature_ids) groups)) then Some Missing
     else default_statuses registry j)"
  by (induction groups arbitrary: registry)
    (auto simp: register_core_group_def fold_register_status core_descriptor_def)

lemma placeholder_groups_status:
  "default_statuses (fold register_placeholder_group groups registry) j =
    (if j \<in> set (concat (map snd groups)) then Some Unavailable else default_statuses registry j)"
  by (induction groups arbitrary: registry)
    (auto simp: register_placeholder_group_def fold_register_status placeholder_descriptor_def)

lemma default_registry_status:
  "default_statuses default_registry j =
    (if j \<in> set placeholder_ids then Some Unavailable
     else if j \<in> set core_feature_ids then Some Missing else None)"
  unfolding default_registry_def placeholder_groups_status core_groups_status placeholder_ids_def core_feature_ids_def
  by (simp add: default_statuses_def del: set_concat)

lemma core_groups_sorted:
  "sorted_wrt (<) (map fst registry) \<Longrightarrow> sorted_wrt (<) (map fst (fold register_core_group groups registry))"
  by (induction groups arbitrary: registry) (auto simp: register_core_group_def fold_register_sorted)

lemma placeholder_groups_sorted:
  "sorted_wrt (<) (map fst registry) \<Longrightarrow>
   sorted_wrt (<) (map fst (fold register_placeholder_group groups registry))"
  by (induction groups arbitrary: registry) (auto simp: register_placeholder_group_def fold_register_sorted)

lemma default_registry_sorted: "sorted_wrt (<) (map fst default_registry)"
  unfolding default_registry_def by (rule placeholder_groups_sorted [OF core_groups_sorted]) simp

end
