(* ===== verification/Feature_Engine.thy ===== *)
theory Feature_Engine
  imports Survival_Features Feature_Registry
begin

text \<open>
  \<open>FeatureEngine::compute_snapshot\<close>: every registered feature starts as missing or unavailable, the families set
  what they compute one after the other, and the result is counted and hashed. A conversion of raw amounts with 64
  or more decimals panics, which is \<open>None\<close>; the timings are left out.
\<close>

definition initial_value :: "string \<times> feature_descriptor \<Rightarrow> string \<times> ('d::linordered_field) feature_value" where
  "initial_value = (\<lambda>(feature_id, descriptor). (feature_id,
     case fd_default_status descriptor of
       Unavailable \<Rightarrow> feature_unavailable feature_id ''feature family not implemented yet''
     | _ \<Rightarrow> feature_missing feature_id ''not yet computed''))"

definition initial_values :: "feature_registry \<Rightarrow> ('d::linordered_field) feature_values" where
  "initial_values registry = map initial_value registry"

text \<open>The families up to the one that reads the launch drawdown, and those after it.\<close>

definition early_values ::
  "'d feature_env \<Rightarrow> ('d::linordered_field) token_state \<Rightarrow> 'd feature_view \<Rightarrow> instant \<Rightarrow> 'd feature_values \<Rightarrow>
   'd feature_values \<Rightarrow> 'd feature_values \<Rightarrow> 'd feature_values" where
  "early_values env token view observed_at dev holders values =
    apply_settings (launch_identity_features token view observed_at @ creator_features env token view observed_at @
      dev @ curve_features token observed_at @ price_path_features token observed_at @ trade_flow_features token @
      holders @ top_holder_features token @ bundle_features env token view) values"

definition middle_values ::
  "('d::linordered_field) token_state \<Rightarrow> 'd feature_view \<Rightarrow> instant \<Rightarrow> 'd feature_values \<Rightarrow> 'd feature_values" where
  "middle_values token view observed_at values =
    (let values = apply_settings (rug_features token observed_at values) values;
         values = apply_settings (cohort_features token view observed_at @ rotation_features token view @
           cost_basis_features token) values;
         values = apply_settings (overhang_features token values) values;
         values = apply_settings (survival_features token observed_at values) values in
     apply_settings (authenticity_features token values) values)"

definition late_values ::
  "'d feature_env \<Rightarrow> ('d::linordered_field) token_state \<Rightarrow> 'd feature_view \<Rightarrow> instant \<Rightarrow> 'd feature_values \<Rightarrow>
   'd feature_values \<Rightarrow> 'd feature_values" where
  "late_values env token view observed_at funding values =
    (let values = apply_settings (execution_features token values) values;
         values = apply_settings (holder_lifecycle_features token view observed_at) values;
         values = apply_settings (stickiness_features token view observed_at values) values;
         values = apply_settings (fingerprint_features env token @ funding) values;
         values = apply_settings (funding_suspicion_features values) values;
         values = apply_settings (observed_fee_features token) values;
         values = apply_settings (fee_war_features token values) values;
         values = apply_settings (shred_defense_features token) values in
     finalize_data_quality token values)"

definition compute_values ::
  "'d feature_env \<Rightarrow> feature_registry \<Rightarrow> ('d::linordered_field) token_state \<Rightarrow> 'd feature_view \<Rightarrow> instant \<Rightarrow>
   'd feature_values option" where
  "compute_values env registry token view observed_at =
    Option.bind (dev_holding_features token observed_at) (\<lambda>dev.
      Option.bind (holder_features token observed_at) (\<lambda>holders.
        map_option (\<lambda>funding.
          late_values env token view observed_at funding
            (middle_values token view observed_at
              (early_values env token view observed_at dev holders (initial_values registry))))
          (funding_features env token view observed_at)))"

subsection \<open>The hash\<close>

fun debug_feature_status :: "feature_status \<Rightarrow> string" where
  "debug_feature_status Available = ''Available''"
| "debug_feature_status Missing = ''Missing''"
| "debug_feature_status Unavailable = ''Unavailable''"

definition hashed_value :: "'d feature_env \<Rightarrow> 'd feature_value \<Rightarrow> string" where
  "hashed_value env v = (case fv_value v of
     None \<Rightarrow> []
   | Some (Numeric x) \<Rightarrow> fx_show_normalized env x
   | Some (FeatureText s) \<Rightarrow> s
   | Some (FeatureBoolean b) \<Rightarrow> [char_of (if b then 1 else 0 :: nat)])"

definition hashed_text :: "'d feature_env \<Rightarrow> 'd feature_values \<Rightarrow> string" where
  "hashed_text env values =
    concat (map (\<lambda>(feature_id, v). feature_id @ debug_feature_status (fv_status v) @ hashed_value env v) values)"

definition snapshot_of_values ::
  "'d feature_env \<Rightarrow> ('d::linordered_field) token_state \<Rightarrow> instant \<Rightarrow> 'd feature_values \<Rightarrow> 'd feature_snapshot" where
  "snapshot_of_values env token observed_at values =
    \<lparr>fs_mint = tok_mint token, fs_lifecycle = tok_lifecycle token, fs_observed_at = observed_at,
     fs_values = map_of values, fs_vector_hash = fx_sha256_hex env (hashed_text env values),
     fs_available_count = of_nat (with_status (\<lambda>st. st = Available) values),
     fs_missing_count = of_nat (with_status (\<lambda>st. st = Missing) values),
     fs_unavailable_count = of_nat (with_status (\<lambda>st. st = Unavailable) values)\<rparr>"

definition compute_snapshot ::
  "'d feature_env \<Rightarrow> feature_registry \<Rightarrow> ('d::linordered_field) token_state \<Rightarrow> 'd feature_view \<Rightarrow> instant \<Rightarrow>
   'd feature_snapshot option" where
  "compute_snapshot env registry token view observed_at =
    map_option (snapshot_of_values env token observed_at) (compute_values env registry token view observed_at)"

end
