(* ===== verification/Feature_Lookup.thy ===== *)
theory Feature_Lookup
  imports Feature_Engine
begin

text \<open>
  What a feature holds after a list of settings: the last setting of its name, when it is registered. \<open>leaves ks\<close>
  says that settings set none of the features \<open>ks\<close>; a family is unfolded once for all the features that the
  properties follow through the computation of a snapshot.
\<close>

subsection \<open>Looking up\<close>

lemma put_feature_lookup:
  "map_of (put_feature s vs) k = (if k = fst s then map_option (\<lambda>_. snd s) (map_of vs k) else map_of vs k)"
  by (induction vs) (auto simp: put_feature_def)

lemma put_feature_keys [simp]: "map fst (put_feature s vs) = map fst vs"
  by (auto simp: put_feature_def)

lemma apply_settings_keys [simp]: "map fst (apply_settings settings vs) = map fst vs"
  unfolding apply_settings_def by (induction settings arbitrary: vs) simp_all

lemma apply_settings_append [simp]:
  "apply_settings (xs @ ys) vs = apply_settings ys (apply_settings xs vs)"
  by (simp add: apply_settings_def)

lemma apply_settings_Nil [simp]: "apply_settings [] vs = vs"
  by (simp add: apply_settings_def)

lemma apply_settings_dom: "map_of (apply_settings settings vs) k = None \<longleftrightarrow> map_of vs k = None"
  by (simp add: map_of_eq_None_iff flip: set_map)

subsection \<open>Telling names apart\<close>

text \<open>These compare two texts up to their first difference only, also when they are simplified.\<close>

fun same_text :: "string \<Rightarrow> string \<Rightarrow> bool" where
  "same_text [] [] \<longleftrightarrow> True"
| "same_text (c # cs) (d # ds) \<longleftrightarrow> (if c = d then same_text cs ds else False)"
| "same_text _ _ \<longleftrightarrow> False"

fun absent :: "string \<Rightarrow> string list \<Rightarrow> bool" where
  "absent k [] \<longleftrightarrow> True"
| "absent k (j # js) \<longleftrightarrow> (if same_text k j then False else absent k js)"

text \<open>They are told from their constructors alone, so simplification need not look into the texts.\<close>

lemma texts_cong [cong]: "same_text k j = same_text k j" "absent k js = absent k js"
  by (rule refl)+

lemma same_text_iff: "same_text k j \<longleftrightarrow> k = j"
  by (induction k j rule: same_text.induct) simp_all

lemma absent_iff: "absent k js \<longleftrightarrow> k \<notin> set js"
  by (induction js) (simp_all add: same_text_iff)

subsection \<open>Settings that leave features alone\<close>

definition leaves :: "string list \<Rightarrow> 'd feature_values \<Rightarrow> bool" where
  "leaves keys settings \<longleftrightarrow> list_all (\<lambda>s. fst s \<notin> set keys) settings"

lemma leaves_simps [simp]:
  "leaves ks []" "leaves ks (s @ t) \<longleftrightarrow> leaves ks s \<and> leaves ks t"
  "leaves ks (set_numeric i x c) \<longleftrightarrow> absent i ks" "leaves ks (set_bool i b c) \<longleftrightarrow> absent i ks"
  "leaves ks (set_text i v c) \<longleftrightarrow> absent i ks" "leaves ks (set_unavailable i n) \<longleftrightarrow> absent i ks"
  "leaves ks (if p then s else t) \<longleftrightarrow> (p \<longrightarrow> leaves ks s) \<and> (\<not> p \<longrightarrow> leaves ks t)"
  "leaves ks (case_option s f opt) \<longleftrightarrow> (opt = None \<longrightarrow> leaves ks s) \<and> (\<forall>a. opt = Some a \<longrightarrow> leaves ks (f a))"
  "leaves ks (case_list s g xs) \<longleftrightarrow> (xs = [] \<longrightarrow> leaves ks s) \<and> (\<forall>a as. xs = a # as \<longrightarrow> leaves ks (g a as))"
  by (auto simp: absent_iff leaves_def set_numeric_def set_bool_def set_text_def set_unavailable_def split: option.splits list.splits)

lemma leaves_when_some [simp]: "leaves ks (when_some x f) \<longleftrightarrow> (\<forall>a. x = Some a \<longrightarrow> leaves ks (f a))"
  by (auto simp: when_some_def)

lemma leaves_lookup:
  assumes "leaves ks settings" "k \<in> set ks"
  shows "map_of (apply_settings settings vs) k = map_of vs k"
  using assms(1)
proof (induction settings arbitrary: vs)
  case (Cons s settings)
  then have "k \<noteq> fst s" "leaves ks settings" using assms(2) by (auto simp: leaves_def)
  then show ?case using Cons.IH by (simp add: apply_settings_def put_feature_lookup)
qed simp

lemma leaves_subset: "leaves ks settings \<Longrightarrow> set js \<subseteq> set ks \<Longrightarrow> leaves js settings"
  by (auto simp: leaves_def list_all_iff)

text \<open>A registered feature that is set, and not set again afterwards.\<close>

lemma set_lookup [simp]:
  "map_of (apply_settings (set_numeric i x c) vs) k =
    (if k = i then map_option (\<lambda>_. feature_available i (Numeric x) c) (map_of vs k) else map_of vs k)"
  "map_of (apply_settings (set_bool i b c) vs) k =
    (if k = i then map_option (\<lambda>_. feature_available i (FeatureBoolean b) c) (map_of vs k) else map_of vs k)"
  "map_of (apply_settings (set_text i v c) vs) k =
    (if k = i then map_option (\<lambda>_. feature_available i (FeatureText v) c) (map_of vs k) else map_of vs k)"
  "map_of (apply_settings (set_unavailable i n) vs) k =
    (if k = i then map_option (\<lambda>_. feature_unavailable i n) (map_of vs k) else map_of vs k)"
  by (simp_all add: apply_settings_def set_numeric_def set_bool_def set_text_def set_unavailable_def put_feature_lookup)

lemma bool_reading [simp]: "as_decimal (feature_available i (FeatureBoolean b) c) = Some (if b then 1 else 0)"
  by (simp add: as_decimal_def feature_available_def)

lemma read_leaves:
  "leaves ks settings \<Longrightarrow> k \<in> set ks \<Longrightarrow> read_feature k (apply_settings settings vs) = read_feature k vs"
  by (simp add: read_feature_def leaves_lookup)

subsection \<open>The features that are followed\<close>

definition followed :: "string list" where
  "followed = [''drawdown_from_launch_pct'', ''price_drop_70pct_from_launch_within_5m'', ''rug_probability_score'',
     ''bundle_risk_score'', ''bundle_wallets_top_holder_pct'', ''shred_sell_warning_level'', ''shred_signal_stale_flag'',
     ''data_quality_score'', ''trade_allowed_data_quality_flag'', ''source_disagreement_flag'',
     ''organic_survival_score'', ''exit_liquidity_trap_score'', ''funding_graph_suspicion_score'']"

lemmas absent_followed = arg_cong [OF followed_def, of "absent k" for k]

lemma leaves_launch_identity: "leaves followed (launch_identity_features token view t)"
  by (simp add: launch_identity_features_def absent_followed)

lemma leaves_creator: "leaves followed (creator_features env token view t)"
  by (simp add: creator_features_def absent_followed)

lemma leaves_dev: "dev_holding_features token t = Some s \<Longrightarrow> leaves followed s"
  by (auto simp: dev_holding_features_def Let_def dev_metric_features_def retained_supply_features_def
      creator_flow_features_def creator_rank_features_def absent_followed bind_eq_Some_conv)

lemma leaves_curve: "leaves followed (curve_features token t)"
  by (simp add: curve_features_def Let_def launch_price_features_def market_cap_features_def
      curve_progress_features_def absent_followed)

lemma leaves_trade_flow: "leaves followed (trade_flow_features token)"
  by (simp add: trade_flow_features_def trade_size_features_def Let_def absent_followed)

lemma leaves_holder: "holder_features token t = Some s \<Longrightarrow> leaves followed s"
  by (auto simp: holder_features_def Let_def holder_count_features_def holder_supply_features_def
      holder_growth_features_def holder_balance_features_def top1_supply_features_def top_share_features_def
      absent_followed bind_eq_Some_conv)

lemma leaves_top_holder: "leaves followed (top_holder_features token)"
  by (simp add: top_holder_features_def Let_def absent_followed)

lemma leaves_cohort: "leaves followed (cohort_features token view t)"
  by (simp add: cohort_features_def Let_def cohort_rank_features_def cohort_share_features_def
      cohort_percentile_features_def rank_velocity_features_def absent_followed)

lemma leaves_rotation: "leaves followed (rotation_features token view)"
  by (simp add: rotation_features_def Let_def absent_followed)

lemma leaves_cost_basis: "leaves followed (cost_basis_features token)" "leaves followed (overhang_features token vs)"
  by (simp_all add: cost_basis_features_def supply_profit_features_def overhang_features_def Let_def absent_followed)

lemma leaves_survival: "leaves followed (survival_features token t vs)"
  by (simp add: survival_features_def absorption_features_def after_large_sell_features_def recovery_features_def
      vertical_move_features_def selling_into_strength_features_def buy_concentration_features_def Let_def absent_followed)

lemma leaves_execution: "leaves followed (execution_features token vs)"
  by (simp add: execution_features_def Let_def absent_followed)

lemma leaves_lifecycle: "leaves followed (holder_lifecycle_features token view t)"
  by (simp add: holder_lifecycle_features_def holder_age_features_def Let_def absent_followed)

lemma leaves_stickiness: "leaves followed (stickiness_features token view t vs)"
  by (simp add: stickiness_features_def Let_def absent_followed)

lemma leaves_fingerprint: "leaves followed (fingerprint_features env token)"
  by (simp add: fingerprint_features_def compute_budget_features_def Let_def absent_followed)

lemma leaves_funding: "funding_features env token view t = Some s \<Longrightarrow> leaves followed s"
  by (auto simp: funding_features_def Let_def edge_age_features_def absent_followed)

lemma leaves_fees: "leaves followed (observed_fee_features token)" "leaves followed (fee_war_features token vs)"
  by (simp_all add: observed_fee_features_def fee_war_features_def Let_def absent_followed)

lemmas leaves_families = leaves_launch_identity leaves_creator leaves_curve leaves_trade_flow leaves_top_holder
  leaves_cohort leaves_rotation leaves_cost_basis leaves_survival leaves_execution leaves_lifecycle leaves_stickiness
  leaves_fingerprint leaves_fees

end
