(* ===== verification/Feature_Properties.thy ===== *)
theory Feature_Properties
  imports Feature_Lookup Risk
begin

text \<open>
  What the snapshots of the feature engine show: which features a
  snapshot has, when its computation panics, and the features that the verdicts of \<open>Feature_Verdicts\<close> rest on.
\<close>

subsection \<open>The stages of the computation\<close>

definition reads :: "('d::linordered_field) feature_snapshot \<Rightarrow> 'd feature_values \<Rightarrow> bool" where
  "reads f vs \<longleftrightarrow> fs_values f = map_of vs"

lemma feature_or_zero_reads: "reads f vs \<Longrightarrow> feature_or_zero f k = read_feature k vs"
  by (simp add: reads_def feature_or_zero_def read_feature_def feature_decimal_def)

lemma compute_snapshotE:
  assumes "compute_snapshot env registry token view t = Some f"
  obtains dev holders funding where
    "dev_holding_features token t = Some dev" "holder_features token t = Some holders"
    "funding_features env token view t = Some funding"
    "f = snapshot_of_values env token t (late_values env token view t funding
       (middle_values token view t (early_values env token view t dev holders (initial_values registry))))"
  using assms by (auto simp: compute_snapshot_def compute_values_def bind_eq_Some_conv)

lemma snapshot_reads: "reads (snapshot_of_values env token t vs) vs"
  by (simp add: reads_def snapshot_of_values_def)

lemma early_keys [simp]: "map fst (early_values env token view t dev holders vs) = map fst vs"
  by (simp add: early_values_def)

lemma middle_keys [simp]: "map fst (middle_values token view t vs) = map fst vs"
  by (simp add: middle_values_def Let_def)

lemma finalize_keys [simp]: "map fst (finalize_data_quality token vs) = map fst vs"
  by (simp add: finalize_data_quality_def Let_def)

lemma late_keys [simp]: "map fst (late_values env token view t funding vs) = map fst vs"
  by (simp add: late_values_def Let_def)

lemma initial_keys [simp]: "map fst (initial_values registry) = map fst registry"
  by (simp add: initial_values_def initial_value_def case_prod_beta)

lemma snapshot_values:
  assumes "compute_snapshot env registry token view t = Some f"
  obtains vs where "map fst vs = map fst registry" "f = snapshot_of_values env token t vs"
proof -
  obtain dev holders funding where "f = snapshot_of_values env token t (late_values env token view t funding
      (middle_values token view t (early_values env token view t dev holders (initial_values registry))))"
    using assms by (rule compute_snapshotE)
  then show thesis by (rule that [rotated]) simp
qed

subsection \<open>The features of a snapshot\<close>

lemma status_partition:
  "with_status (\<lambda>st. st = Available) vs + with_status (\<lambda>st. st = Missing) vs +
    with_status (\<lambda>st. st = Unavailable) vs = length vs"
proof (induction vs)
  case (Cons v vs)
  then show ?case by (cases v; cases "fv_status (snd v)") (auto simp: with_status_def)
qed (simp add: with_status_def)

lemma keys_domain: "map fst vs = map fst ws \<Longrightarrow> dom (map_of vs) = dom (map_of ws)"
  by (simp add: dom_map_of_conv_image_fst flip: set_map)

lemma registry_domain: "dom (map_of default_registry) = set core_feature_ids \<union> set placeholder_ids"
proof -
  have "k \<in> dom (map_of default_registry) \<longleftrightarrow> k \<in> set core_feature_ids \<union> set placeholder_ids" for k
  proof -
    have "k \<in> dom (map_of default_registry) \<longleftrightarrow> default_statuses default_registry k \<noteq> None"
      by (auto simp: default_statuses_def)
    then show ?thesis by (simp add: default_registry_status)
  qed
  then show ?thesis by blast
qed

lemma followed_core: "set followed \<subseteq> set core_feature_ids"
proof -
  have "list_all (\<lambda>k. \<not> list_all (absent k) [core_price_path, core_rug, core_bundle, core_shred_exit_defense,
      core_data_quality, core_survival, core_funding_graph]) followed"
    unfolding followed_def core_price_path_def core_rug_def core_bundle_def core_shred_exit_defense_def
      core_data_quality_def core_survival_def core_funding_graph_def by simp
  then show ?thesis by (auto simp: list_all_iff absent_iff core_feature_ids_def core_groups_def)
qed

lemma followed_registered:
  assumes "map fst vs = map fst default_registry" "k \<in> set followed"
  shows "\<exists>v. map_of vs k = Some v"
proof -
  have "k \<in> dom (map_of vs)"
    using keys_domain [OF assms(1)] registry_domain followed_core assms(2) by blast
  then show ?thesis by blast
qed

text \<open>The flags that only the risk engine names, and the figures of the tentative sells that have no descriptor.\<close>

definition unregistered_features :: "string list" where
  "unregistered_features =
    [''account_update_gap_flag'', ''transaction_stream_gap_flag'', ''slot_status_gap_flag'',
     ''early_intent_latency_advantage_ms'', ''required_latency_advantage_ms'', ''latency_edge_ratio'',
     ''exit_can_land_before_estimated_impact'', ''absorption_health_score'', ''post_sell_absorption_probability'',
     ''emergency_exit_expected_saved_loss'', ''emergency_exit_expected_opportunity_cost'',
     ''emergency_exit_net_benefit'', ''emergency_exit_net_benefit_confidence'']"

lemma unregistered: "list_all (\<lambda>k. k \<notin> set core_feature_ids \<and> k \<notin> set placeholder_ids) unregistered_features"
proof -
  have "list_all (\<lambda>k. list_all (\<lambda>(_, feature_ids, _). absent k feature_ids) core_groups) unregistered_features"
    unfolding unregistered_features_def core_groups_def core_launch_identity_def core_creator_def core_dev_holdings_def core_curve_def core_price_path_def
        core_trade_flow_def core_holders_def core_top_holders_def core_bundle_def core_rug_def core_cohort_def
        core_capital_rotation_def core_cost_basis_def core_survival_def core_holder_lifecycle_def
        core_transaction_fingerprint_def core_funding_graph_def core_fee_competition_def core_execution_def
        core_data_quality_def core_shred_exit_defense_def
    by simp
  moreover have "list_all (\<lambda>k. list_all (\<lambda>(_, feature_ids). absent k feature_ids) placeholder_groups) unregistered_features"
    unfolding unregistered_features_def placeholder_groups_def by simp
  ultimately show ?thesis
    by (fastforce simp: list_all_iff absent_iff core_feature_ids_def placeholder_ids_def case_prod_beta)
qed

text \<open>
  C15. A snapshot of the default registry holds exactly the features of the core groups and the placeholder groups,
  whatever the families set, and its three counts add up to their number. So nothing is ever known of the three gap
  flags that the risk engine asks for, nor of the ten latency, absorption and benefit figures that the family of the
  tentative sells sets without their being registered.
\<close>

theorem snapshot_has_the_registered_features:
  assumes "compute_snapshot env default_registry token view t = Some f"
  shows "dom (fs_values f) = set core_feature_ids \<union> set placeholder_ids \<and>
    fs_available_count f + fs_missing_count f + fs_unavailable_count f = of_nat (length default_registry) \<and>
    list_all (\<lambda>k. feature_decimal f k = None) unregistered_features"
proof -
  obtain vs where vs: "map fst vs = map fst default_registry" "f = snapshot_of_values env token t vs"
    using assms by (rule snapshot_values)
  have dom: "dom (fs_values f) = set core_feature_ids \<union> set placeholder_ids"
    using vs keys_domain [OF vs(1)] registry_domain by (simp add: snapshot_of_values_def)
  have "fs_available_count f + fs_missing_count f + fs_unavailable_count f = of_nat (length default_registry)"
    using vs(2) arg_cong [OF vs(1), of length] status_partition [of vs]
    by (simp add: snapshot_of_values_def flip: of_nat_add)
  moreover have "feature_decimal f k = None" if "k \<in> set unregistered_features" for k
  proof -
    have "k \<notin> dom (fs_values f)" using that unregistered dom by (auto simp: list_all_iff)
    then show ?thesis by (simp add: feature_decimal_def domIff)
  qed
  ultimately show ?thesis using dom by (simp add: list_all_iff)
qed

subsection \<open>When the computation panics\<close>

lemma pow10_zero_iff: "decimal_pow10 d = (0 :: 'd::linordered_field) \<longleftrightarrow> 64 \<le> unat d"
proof -
  have "(10::u64) ^ unat d = 0 \<longleftrightarrow> 64 \<le> unat d"
  proof
    assume zero: "(10::u64) ^ unat d = 0"
    have "(of_nat (10 ^ unat d) :: u64) = 0" using zero by simp
    then have "2 ^ 64 dvd (10 ^ unat d :: nat)" by (simp add: word_of_nat_eq_0_iff del: of_nat_power)
    then have "2 ^ 64 dvd (2 ^ unat d * 5 ^ unat d :: nat)" by (simp flip: power_mult_distrib)
    moreover have "coprime (2 ^ 64) (5 ^ unat d :: nat)"
      by (simp only: coprime_power_left_iff coprime_power_right_iff) simp
    ultimately have "(2 ^ 64 :: nat) dvd 2 ^ unat d" by (metis coprime_dvd_mult_left_iff)
    then show "64 \<le> unat d" by (rule power_dvd_imp_le) simp
  qed (rule pow10_large)
  then show ?thesis by (simp add: decimal_pow10_def decimal_from_def unsigned_eq_0_iff)
qed

lemma raw_to_ui_none: "raw_tokens_to_ui raw d = (None :: 'd::linordered_field option) \<longleftrightarrow> 64 \<le> unat d"
  using pow10_zero_iff [where 'd = 'd, of d] by (simp add: raw_tokens_to_ui_def)

lemma dev_holding_none:
  "dev_holding_features token t = None \<longleftrightarrow> 64 \<le> unat (cv_token_decimals (tok_reserve_state token))"
  by (auto simp: dev_holding_features_def dev_holding_metrics_def Let_def bind_eq_None_conv raw_to_ui_none
      split: option.splits)

lemma holder_none:
  "holder_features token t = None \<longleftrightarrow> 64 \<le> unat (cv_token_decimals (tok_reserve_state token))"
  by (auto simp: holder_features_def Let_def bind_eq_None_conv raw_to_ui_none)

lemma funding_none:
  "funding_features env token view t = None \<longleftrightarrow>
     (of_nat (max (length (viewed_wallets view)) 1) * of_nat (max (length (viewed_wallets view)) 1) :: usize) = 0"
  by (auto simp: funding_features_def funding_density_def Let_def)

lemma compute_values_none:
  "compute_values env registry token view t = None \<longleftrightarrow>
     64 \<le> unat (cv_token_decimals (tok_reserve_state token)) \<or>
     (of_nat (max (length (viewed_wallets view)) 1) * of_nat (max (length (viewed_wallets view)) 1) :: usize) = 0"
  by (simp add: compute_values_def bind_eq_None_conv dev_holding_none holder_none funding_none)

lemma snapshot_computed:
  assumes "unat (cv_token_decimals (tok_reserve_state token)) \<le> 19" "viewed_wallets view = []"
  obtains f where "compute_snapshot env registry token view t = Some f"
proof -
  have "compute_values env registry token view t \<noteq> None" using assms by (simp add: compute_values_none)
  then show thesis using that by (auto simp: compute_snapshot_def)
qed


subsection \<open>Following a feature to the end\<close>

definition bundle_keys :: "string list" where
  "bundle_keys = [''bundle_risk_score'', ''bundle_wallets_top_holder_pct'']"

definition rug_keys :: "string list" where
  "rug_keys = [''price_drop_70pct_from_launch_within_5m'', ''rug_probability_score'']"

definition survival_keys :: "string list" where
  "survival_keys = [''organic_survival_score'', ''exit_liquidity_trap_score'']"

definition sell_keys :: "string list" where
  "sell_keys = [''shred_sell_warning_level'', ''shred_signal_stale_flag'']"

lemmas key_lists = arg_cong [OF bundle_keys_def, of "absent k" for k] arg_cong [OF rug_keys_def, of "absent k" for k]
  arg_cong [OF survival_keys_def, of "absent k" for k] arg_cong [OF sell_keys_def, of "absent k" for k]

lemma followed_keys: "set bundle_keys \<union> set rug_keys \<union> set survival_keys \<union> set sell_keys \<subseteq> set followed"
  by (auto simp: bundle_keys_def rug_keys_def survival_keys_def sell_keys_def followed_def)

lemma leaves_bundle: "leaves [''drawdown_from_launch_pct''] (bundle_features env token view)"
  by (simp add: bundle_features_def Let_def)

lemma leaves_rug: "leaves bundle_keys (rug_features token t vs)"
  by (simp add: rug_features_def Let_def key_lists)

lemma leaves_authenticity: "leaves bundle_keys (authenticity_features token vs)" "leaves rug_keys (authenticity_features token vs)"
  by (simp_all add: authenticity_features_def key_lists)

lemma leaves_suspicion:
  "leaves bundle_keys (funding_suspicion_features vs)" "leaves rug_keys (funding_suspicion_features vs)"
  "leaves survival_keys (funding_suspicion_features vs)"
  by (simp_all add: funding_suspicion_features_def Let_def key_lists)

lemma leaves_shred:
  "leaves bundle_keys (shred_defense_features token)" "leaves rug_keys (shred_defense_features token)"
  "leaves survival_keys (shred_defense_features token)"
  by (simp_all add: shred_defense_features_def sell_window_features_def sell_latency_features_def
      exit_benefit_features_def Let_def key_lists)

lemma finalize_structure:
  obtains quality critical ws where "finalize_data_quality token vs = apply_settings
      (set_numeric ''data_quality_score'' quality (decimal 9 1) @
       set_bool ''trade_allowed_data_quality_flag''
         (decimal 5 1 \<le> quality \<and> ''data_gap'' \<notin> tok_data_quality_flags token) (decimal 9 1))
      (apply_settings (completeness_features ws)
        (apply_settings (set_numeric ''critical_feature_missing_count'' critical 1)
          (apply_settings (connection_features token) vs)))"
  unfolding finalize_data_quality_def Let_def by blast

lemma leaves_connection:
  "leaves bundle_keys (connection_features token)" "leaves rug_keys (connection_features token)"
  "leaves survival_keys (connection_features token)" "leaves sell_keys (connection_features token)"
  by (simp_all add: connection_features_def key_lists)

lemma leaves_completeness:
  "leaves bundle_keys (completeness_features vs)" "leaves rug_keys (completeness_features vs)"
  "leaves survival_keys (completeness_features vs)" "leaves sell_keys (completeness_features vs)"
  "leaves [''source_disagreement_flag''] (completeness_features vs)"
  by (simp_all add: completeness_features_def key_lists Let_def)

lemma leaves_quality_settings:
  "list_all (\<lambda>ks. leaves ks (set_numeric ''critical_feature_missing_count'' x c) \<and>
      leaves ks (set_numeric ''data_quality_score'' q c' @ set_bool ''trade_allowed_data_quality_flag'' b c'))
    [bundle_keys, rug_keys, survival_keys, sell_keys]"
  by (simp add: key_lists)

lemma finalize_keeps:
  fixes vs :: "('d::linordered_field) feature_values"
  assumes "ks \<in> {bundle_keys, rug_keys, survival_keys, sell_keys}" "k \<in> set ks"
  shows "map_of (finalize_data_quality token vs) k = map_of vs k"
proof -
  obtain quality critical ws where fin: "finalize_data_quality token vs = apply_settings
      (set_numeric ''data_quality_score'' quality (decimal 9 1) @
       set_bool ''trade_allowed_data_quality_flag''
         (decimal 5 1 \<le> quality \<and> ''data_gap'' \<notin> tok_data_quality_flags token) (decimal 9 1))
      (apply_settings (completeness_features ws)
        (apply_settings (set_numeric ''critical_feature_missing_count'' critical 1)
          (apply_settings (connection_features token) vs)))"
    by (rule finalize_structure)
  have "leaves ks (connection_features token)" "leaves ks (completeness_features ws)"
    using assms(1) leaves_connection leaves_completeness by auto
  moreover have "leaves ks (set_numeric ''critical_feature_missing_count'' x c) \<and>
      leaves ks (set_numeric ''data_quality_score'' q c' @ set_bool ''trade_allowed_data_quality_flag'' b c')"
    for x c q c' :: 'd and b
    using assms(1) leaves_quality_settings [of x c q c' b] by (elim insertE emptyE) (simp_all only: list.pred_inject)
  ultimately show ?thesis unfolding fin using assms(2)
    by (simp only: leaves_lookup [where ks = ks])
qed

lemma late_keeps:
  assumes "leaves followed funding" and k: "k \<in> set bundle_keys \<or> k \<in> set rug_keys \<or> k \<in> set survival_keys"
  shows "map_of (late_values env token view t funding vs) k = map_of vs k"
proof -
  have f: "k \<in> set followed" using k followed_keys by blast
  have "map_of (finalize_data_quality token ws) k = map_of ws k" for ws
    using finalize_keeps k by blast
  moreover have "map_of (apply_settings (shred_defense_features token) ws) k = map_of ws k"
    "map_of (apply_settings (funding_suspicion_features us) ws) k = map_of ws k" for us ws
    using k by (elim disjE; simp add: leaves_lookup [OF leaves_shred(1)] leaves_lookup [OF leaves_shred(2)]
      leaves_lookup [OF leaves_shred(3)] leaves_lookup [OF leaves_suspicion(1)]
      leaves_lookup [OF leaves_suspicion(2)] leaves_lookup [OF leaves_suspicion(3)])+
  ultimately show ?thesis
    by (simp add: late_values_def Let_def leaves_lookup [OF _ f] leaves_families assms(1))
qed

lemma middle_keeps:
  assumes "k \<in> set bundle_keys"
  shows "map_of (middle_values token view t vs) k = map_of vs k"
proof -
  have f: "k \<in> set followed" using assms followed_keys by blast
  show ?thesis
    by (simp add: middle_values_def Let_def leaves_lookup [OF _ f] leaves_families
        leaves_lookup [OF leaves_rug assms] leaves_lookup [OF leaves_authenticity(1) assms])
qed

lemma middle_rug:
  assumes "k \<in> set rug_keys"
  shows "map_of (middle_values token view t vs) k = map_of (apply_settings (rug_features token t vs) vs) k"
proof -
  have f: "k \<in> set followed" using assms followed_keys by blast
  show ?thesis
    by (simp add: middle_values_def Let_def leaves_lookup [OF _ f] leaves_families
        leaves_lookup [OF leaves_authenticity(2) assms])
qed

subsection \<open>The values the risk engine reads\<close>

lemma known_followed:
  assumes "map fst vs = map fst default_registry"
  shows "list_all (\<lambda>k. \<exists>v. map_of vs k = Some v) followed"
  using followed_registered [OF assms] by (simp add: list_all_iff)

lemmas known_features = known_followed [unfolded followed_def list.pred_inject]

lemma bundle_readings:
  assumes "map fst vs = map fst default_registry"
  shows "read_feature ''bundle_risk_score'' (apply_settings (bundle_features env token view) vs) =
      bundle_risk_value env token"
    "read_feature ''bundle_wallets_top_holder_pct'' (apply_settings (bundle_features env token view) vs) =
      bundle_top_pct token"
  using known_features [OF assms] by (auto simp: bundle_features_def Let_def read_feature_def)

lemma rug_readings:
  assumes "map fst vs = map fst default_registry"
  shows "read_feature ''price_drop_70pct_from_launch_within_5m'' (apply_settings (rug_features token t us) vs) =
      (if launch_collapsed token t us then 1 else 0)"
  using known_features [OF assms] by (auto simp: rug_features_def Let_def read_feature_def)

lemma sell_readings:
  fixes vs :: "('d::linordered_field) feature_values"
  assumes "map fst vs = map fst default_registry"
  shows "read_feature ''shred_sell_warning_level'' (apply_settings (shred_defense_features token) vs) =
      decimal_count (warning_level_value (sd_last_warning_level (tok_shred_defense token)))"
    "read_feature ''shred_signal_stale_flag'' (apply_settings (shred_defense_features token) vs) =
      (if sd_shred_signal_stale_flag (tok_shred_defense token) then 1 else 0)"
proof -
  have benefit: "leaves sell_keys (exit_benefit_features d)" for d :: "'d shred_defense_state"
    by (simp add: exit_benefit_features_def key_lists)
  have k: "''shred_sell_warning_level'' \<in> set sell_keys" "''shred_signal_stale_flag'' \<in> set sell_keys"
    by (simp_all add: sell_keys_def)
  have latency: "leaves [''shred_sell_warning_level''] (sell_latency_features d)" for d :: "'d shred_defense_state"
    by (simp add: sell_latency_features_def)
  show "read_feature ''shred_sell_warning_level'' (apply_settings (shred_defense_features token) vs) =
      decimal_count (warning_level_value (sd_last_warning_level (tok_shred_defense token)))"
    using known_features [OF assms]
    by (auto simp: shred_defense_features_def Let_def leaves_lookup [OF benefit k(1)] leaves_lookup [OF latency]
        sell_window_features_def read_feature_def)
  show "read_feature ''shred_signal_stale_flag'' (apply_settings (shred_defense_features token) vs) =
      (if sd_shred_signal_stale_flag (tok_shred_defense token) then 1 else 0)"
    using known_features [of "apply_settings (sell_window_features (tok_shred_defense token)) vs"] assms
    by (auto simp: shred_defense_features_def Let_def leaves_lookup [OF benefit k(2)] sell_latency_features_def read_feature_def)
qed

lemma quality_readings:
  assumes "map fst vs = map fst default_registry"
  shows "read_feature ''source_disagreement_flag'' (finalize_data_quality token vs) =
      (if ''data_gap'' \<in> tok_data_quality_flags token \<or> tok_tentative_only token then 1 else 0)"
    "read_feature ''trade_allowed_data_quality_flag'' (finalize_data_quality token vs) =
      (if decimal 5 1 \<le> read_feature ''data_quality_score'' (finalize_data_quality token vs) \<and>
          ''data_gap'' \<notin> tok_data_quality_flags token then 1 else 0)"
proof -
  obtain quality critical ws where fin: "finalize_data_quality token vs = apply_settings
      (set_numeric ''data_quality_score'' quality (decimal 9 1) @
       set_bool ''trade_allowed_data_quality_flag''
         (decimal 5 1 \<le> quality \<and> ''data_gap'' \<notin> tok_data_quality_flags token) (decimal 9 1))
      (apply_settings (completeness_features ws)
        (apply_settings (set_numeric ''critical_feature_missing_count'' critical 1)
          (apply_settings (connection_features token) vs)))"
    by (rule finalize_structure)
  show "read_feature ''source_disagreement_flag'' (finalize_data_quality token vs) =
      (if ''data_gap'' \<in> tok_data_quality_flags token \<or> tok_tentative_only token then 1 else 0)"
    using known_features [OF assms] unfolding fin
    by (auto simp: read_feature_def leaves_lookup [OF leaves_completeness(5)] connection_features_def)
  show "read_feature ''trade_allowed_data_quality_flag'' (finalize_data_quality token vs) =
      (if decimal 5 1 \<le> read_feature ''data_quality_score'' (finalize_data_quality token vs) \<and>
          ''data_gap'' \<notin> tok_data_quality_flags token then 1 else 0)"
    using known_features [of "apply_settings (completeness_features ws)
        (apply_settings (set_numeric ''critical_feature_missing_count'' critical 1)
          (apply_settings (connection_features token) vs))"] assms unfolding fin
    by (auto simp: read_feature_def)
qed

lemma drawdown_setting:
  assumes "map_of vs ''drawdown_from_launch_pct'' = Some v"
  shows "map_of (apply_settings (price_path_features token t) vs) ''drawdown_from_launch_pct'' =
    (case positive_launch_price token of None \<Rightarrow> Some v
     | Some p \<Rightarrow> Some (feature_available ''drawdown_from_launch_pct''
         (Numeric (max (p - tok_latest_price token) 0 / p)) (decimal 9 1)))"
proof -
  let ?k = "[''drawdown_from_launch_pct'']"
  have "\<exists>xs ys. price_path_features token t = xs @ drawdown_features token @ ys \<and> leaves ?k xs \<and> leaves ?k ys"
    unfolding price_path_features_def Let_def
    apply (rule exI [of _ "set_numeric ''price_high'' (tr_all_time_high (tok_trade_stats token)) 1 @
       set_numeric ''price_low'' (tr_all_time_low (tok_trade_stats token)) 1"])
    apply (intro exI conjI)
      apply (simp only: append_assoc)
     apply simp_all
    done
  then obtain xs ys where split: "price_path_features token t = xs @ drawdown_features token @ ys"
    "leaves ?k xs" "leaves ?k ys" by blast
  show ?thesis
    using assms by (simp add: split(1) leaves_lookup [OF split(2)] leaves_lookup [OF split(3)] drawdown_features_def
        Let_def when_some_def split: option.splits)
qed

lemma early_drawdown:
  assumes "leaves followed dev" "leaves followed holders"
    "map_of vs ''drawdown_from_launch_pct'' = Some v" "as_decimal v = None"
  shows "read_feature ''drawdown_from_launch_pct'' (early_values env token view t dev holders vs) =
    (case positive_launch_price token of None \<Rightarrow> 0 | Some p \<Rightarrow> max (p - tok_latest_price token) 0 / p)"
proof -
  have f: "''drawdown_from_launch_pct'' \<in> set followed" by (simp add: followed_def)
  have "map_of (early_values env token view t dev holders vs) ''drawdown_from_launch_pct'' =
    map_of (apply_settings (price_path_features token t) (apply_settings (launch_identity_features token view t @
      creator_features env token view t @ dev @ curve_features token t) vs)) ''drawdown_from_launch_pct''"
    by (simp add: early_values_def leaves_lookup [OF leaves_bundle] leaves_lookup [OF _ f] leaves_families assms)
  also have "\<dots> = (case positive_launch_price token of None \<Rightarrow> Some v
     | Some p \<Rightarrow> Some (feature_available ''drawdown_from_launch_pct''
         (Numeric (max (p - tok_latest_price token) 0 / p)) (decimal 9 1)))"
    by (rule drawdown_setting) (simp add: leaves_lookup [OF _ f] leaves_families assms)
  finally show ?thesis using assms(4) by (simp add: read_feature_def split: option.splits)
qed

lemma initial_reads_nothing:
  assumes "map_of (initial_values registry) k = Some v"
  shows "as_decimal v = None"
proof -
  have "(k, v) \<in> set (initial_values registry)" using assms by (rule map_of_SomeD)
  then show ?thesis by (auto simp: initial_values_def initial_value_def split: feature_status.splits)
qed

lemma collapse_threshold:
  fixes p :: "'d::linordered_field"
  assumes "0 < p"
  shows "decimal 7 1 \<le> max (p - latest) 0 / p \<longleftrightarrow> latest \<le> decimal 3 1 * p"
  using assms by (auto simp: decimal_def max_def field_simps)

text \<open>The readings of a snapshot that the verdicts below rest on, as functions of the token.\<close>

lemma snapshot_readings:
  fixes token :: "('d::linordered_field) token_state"
  assumes "compute_snapshot env default_registry token view t = Some f"
  shows "feature_or_zero f ''bundle_risk_score'' = bundle_risk_value env token"
    "feature_or_zero f ''bundle_wallets_top_holder_pct'' = bundle_top_pct token"
    "launch_collapse f = (if within_5m token t \<and> (case positive_launch_price token of
       None \<Rightarrow> False | Some p \<Rightarrow> tok_latest_price token \<le> decimal 3 1 * p) then 1 else 0)"
    "feature_or_zero f ''shred_sell_warning_level'' =
      decimal_count (warning_level_value (sd_last_warning_level (tok_shred_defense token)))"
    "feature_or_zero f ''shred_signal_stale_flag'' = (if sd_shred_signal_stale_flag (tok_shred_defense token) then 1 else 0)"
    "feature_or_zero f ''source_disagreement_flag'' =
      (if ''data_gap'' \<in> tok_data_quality_flags token \<or> tok_tentative_only token then 1 else 0)"
    "feature_or_zero f ''trade_allowed_data_quality_flag'' =
      (if decimal 5 1 \<le> feature_or_zero f ''data_quality_score'' \<and> ''data_gap'' \<notin> tok_data_quality_flags token
       then 1 else 0)"
proof -
  obtain dev holders funding where parts: "dev_holding_features token t = Some dev"
    "holder_features token t = Some holders" "funding_features env token view t = Some funding"
    and f: "f = snapshot_of_values env token t (late_values env token view t funding
      (middle_values token view t (early_values env token view t dev holders (initial_values default_registry))))"
    using assms by (rule compute_snapshotE)
  define I :: "'d feature_values" where "I = initial_values default_registry"
  define E where "E = early_values env token view t dev holders I"
  define M where "M = middle_values token view t E"
  define L where "L = late_values env token view t funding M"
  have keys: "map fst I = map fst default_registry" "map fst E = map fst default_registry"
    "map fst M = map fst default_registry" "map fst L = map fst default_registry"
    by (simp_all add: I_def E_def M_def L_def)
  have reading: "feature_or_zero f k = read_feature k L" for k
    using f by (simp add: feature_or_zero_reads [OF snapshot_reads] L_def M_def E_def I_def)
  have quiet: "leaves followed dev" "leaves followed holders" "leaves followed funding"
    using parts leaves_dev leaves_holder leaves_funding by blast+
  have late: "read_feature k L = read_feature k M" if "k \<in> set bundle_keys \<or> k \<in> set rug_keys" for k
    unfolding L_def read_feature_def using late_keeps [OF quiet(3)] that by metis
  have from_early: "read_feature k L = read_feature k E" if "k \<in> set bundle_keys" for k
    using late [of k] that by (simp add: M_def read_feature_def middle_keeps [OF that])
  obtain W where E: "E = apply_settings (bundle_features env token view) W" "map fst W = map fst default_registry"
    using keys(1) by (simp add: E_def early_values_def)
  show "feature_or_zero f ''bundle_risk_score'' = bundle_risk_value env token"
    "feature_or_zero f ''bundle_wallets_top_holder_pct'' = bundle_top_pct token"
    unfolding reading using from_early bundle_readings [OF E(2)] by (simp_all add: bundle_keys_def E(1))
  obtain v where v: "map_of I ''drawdown_from_launch_pct'' = Some v" using known_features [OF keys(1)] by blast
  have drawdown: "read_feature ''drawdown_from_launch_pct'' E =
    (case positive_launch_price token of None \<Rightarrow> 0 | Some p \<Rightarrow> max (p - tok_latest_price token) 0 / p)"
    unfolding E_def using quiet(1,2) v initial_reads_nothing [OF v [unfolded I_def]] by (rule early_drawdown)
  have "launch_collapse f = (if launch_collapsed token t E then 1 else 0)"
    unfolding launch_collapse_def reading using late middle_rug [of _ token view t E] rug_readings [OF keys(2)]
    by (simp add: rug_keys_def M_def read_feature_def)
  also have "launch_collapsed token t E \<longleftrightarrow> within_5m token t \<and> (case positive_launch_price token of
       None \<Rightarrow> False | Some p \<Rightarrow> tok_latest_price token \<le> decimal 3 1 * p)"
  proof (cases "positive_launch_price token")
    case None
    then show ?thesis by (simp add: launch_collapsed_def drawdown) (simp add: decimal_def)
  next
    case (Some p)
    then have "0 < p" by (auto simp: positive_launch_price_def split: option.splits if_splits)
    then show ?thesis using Some collapse_threshold [of p "tok_latest_price token"] by (simp add: launch_collapsed_def drawdown)
  qed
  finally show "launch_collapse f = (if within_5m token t \<and> (case positive_launch_price token of
       None \<Rightarrow> False | Some p \<Rightarrow> tok_latest_price token \<le> decimal 3 1 * p) then 1 else 0)" .
  obtain V where L: "L = finalize_data_quality token (apply_settings (shred_defense_features token) V)"
    "map fst V = map fst default_registry"
    using keys(3) by (simp add: L_def late_values_def Let_def)
  have listed: "sell_keys \<in> {bundle_keys, rug_keys, survival_keys, sell_keys}" by simp
  have sell: "read_feature k L = read_feature k (apply_settings (shred_defense_features token) V)" if "k \<in> set sell_keys" for k
    unfolding L(1) read_feature_def by (simp add: finalize_keeps [OF listed that])
  show "feature_or_zero f ''shred_sell_warning_level'' =
      decimal_count (warning_level_value (sd_last_warning_level (tok_shred_defense token)))"
    "feature_or_zero f ''shred_signal_stale_flag'' = (if sd_shred_signal_stale_flag (tok_shred_defense token) then 1 else 0)"
    unfolding reading using sell sell_readings [OF L(2)] by (simp_all add: sell_keys_def)
  have keysV: "map fst (apply_settings (shred_defense_features token) V) = map fst default_registry" using L(2) by simp
  show "feature_or_zero f ''source_disagreement_flag'' =
      (if ''data_gap'' \<in> tok_data_quality_flags token \<or> tok_tentative_only token then 1 else 0)"
    "feature_or_zero f ''trade_allowed_data_quality_flag'' =
      (if decimal 5 1 \<le> feature_or_zero f ''data_quality_score'' \<and> ''data_gap'' \<notin> tok_data_quality_flags token
       then 1 else 0)"
    unfolding reading L(1) by (rule quality_readings [OF keysV])+
qed

end
