(* ===== verification/Feature_Verdicts.thy ===== *)
theory Feature_Verdicts
  imports Feature_Properties Engine_Runs
begin

text \<open>
  What the risk engine concludes from the snapshots of the feature engine, read off the token itself: when it stops
  for a data gap, when it sees the launch collapse, and what its bundle score can reach.
\<close>

subsection \<open>What the risk engine concludes\<close>

lemma unregistered_reading:
  assumes "compute_snapshot env default_registry token view t = Some f" "k \<in> set unregistered_features"
  shows "feature_or_zero f k = 0"
proof -
  obtain vs where vs: "map fst vs = map fst default_registry" "f = snapshot_of_values env token t vs"
    using assms(1) by (rule snapshot_values)
  have "k \<notin> dom (map_of vs)"
    using keys_domain [OF vs(1)] registry_domain unregistered assms(2) by (auto simp: list_all_iff)
  then show ?thesis using vs(2) by (simp add: feature_or_zero_def feature_decimal_def snapshot_of_values_def domIff)
qed

lemma snapshot_gap:
  assumes "compute_snapshot env default_registry token view t = Some f"
  shows "explicit_gap f = (if ''data_gap'' \<in> tok_data_quality_flags token \<or> tok_tentative_only token \<or>
      sd_shred_signal_stale_flag (tok_shred_defense token) then 1 else 0)"
proof -
  have "feature_or_zero f ''account_update_gap_flag'' = 0" "feature_or_zero f ''transaction_stream_gap_flag'' = 0"
    "feature_or_zero f ''slot_status_gap_flag'' = 0"
    by (rule unregistered_reading [OF assms]; simp add: unregistered_features_def)+
  then show ?thesis using snapshot_readings(5,6) [OF assms] by (simp add: explicit_gap_def)
qed

text \<open>
  C11. On the snapshot computed for it, the risk engine stops a token for a data gap exactly when the token carries the
  flag \<open>data_gap\<close>, whatever the thresholds; or when it is only known from tentative events or its shred signal is
  stale, and its data quality is below the engine's minimum or below one half. The three stream gaps that the risk
  engine names play no part.
\<close>

theorem data_gap_stop_exact:
  assumes "compute_snapshot env default_registry token view t = Some f"
  shows "ra_discard_policy (evaluate_risk show4 eng token f now) = PolicyDataGapStop \<longleftrightarrow>
    (if ''data_gap'' \<in> tok_data_quality_flags token then True
     else (tok_tentative_only token \<or> sd_shred_signal_stale_flag (tok_shred_defense token)) \<and>
       feature_or_zero f ''data_quality_score'' < max (re_min_data_quality eng) (decimal 5 1))"
  unfolding terminal_policy_gap data_gap_evidence_def snapshot_gap [OF assms] snapshot_readings(7) [OF assms]
  by (auto simp: less_max_iff_disj not_le simp del: One_nat_def)

text \<open>
  C13. The launch collapse that ends a token is flagged on its snapshot exactly within five minutes of the launch and
  when the price is at most three tenths of a positive launch price. A token without a positive launch price, as
  every token has whose creation is seen, is never flagged.
\<close>

theorem launch_collapse_exact:
  assumes "compute_snapshot env default_registry token view t = Some f"
  shows "0 < launch_collapse f \<longleftrightarrow>
    (case (tok_launch_time token, cv_launch_price (tok_reserve_state token)) of
       (Some launch, Some p) \<Rightarrow>
         t \<le> launch + duration_seconds 300 \<and> 0 < p \<and> tok_latest_price token \<le> decimal 3 1 * p
     | _ \<Rightarrow> False)"
  unfolding snapshot_readings(3) [OF assms]
  by (auto simp: within_5m_def window_5m_def positive_launch_price_def split: option.splits simp del: One_nat_def)

subsection \<open>The bundle score\<close>

lemma clamp_unit_range: "0 \<le> clamp_unit x" "clamp_unit x \<le> (1 :: 'd::linordered_field)"
  by (simp_all add: clamp_unit_def)

lemma third: "decimal_from 3 = (3 :: 'd::linordered_field)"
  by (simp add: decimal_from_def)

lemma bundle_risk_third: "bundle_risk_value env token \<le> 1 / (3 :: 'd::linordered_field)"
  by (simp add: bundle_risk_value_def third clamp_unit_range divide_right_mono)

lemma sum_filter_le:
  fixes f :: "'a \<Rightarrow> 'd::linordered_field"
  assumes "list_all (\<lambda>x. 0 \<le> f x) xs"
  shows "sum_list (map f (filter P xs)) \<le> sum_list (map f xs)"
  using assms by (induction xs) (auto intro: add_mono order_trans)

lemma bundle_top_share:
  assumes "distribution_ok (tok_holder_state token)"
  shows "bundle_top_pct token \<le> (1 :: 'd::linordered_field)"
  using assms sum_filter_le [of hd_pct_supply_proxy "hs_top_holders (tok_holder_state token)"]
  by (auto simp: distribution_ok_def bundle_top_pct_def intro: order_trans)

lemma warning_level_le_4: "decimal_count (warning_level_value level) \<le> (4 :: 'd::linordered_field)"
  by (cases level rule: warning_level_value.cases) (simp_all add: decimal_count_def decimal_from_def)

lemma bundle_score_bound:
  fixes f :: "('d::linordered_field) feature_snapshot"
  assumes "feature_or_zero f ''bundle_risk_score'' \<le> 1 / 3" "feature_or_zero f ''bundle_wallets_top_holder_pct'' \<le> 1"
    "feature_or_zero f ''shred_sell_warning_level'' \<le> 4"
  shows "rk_score (bundle_risk f) \<le> 11 / 15"
proof -
  have count: "normalize_count x n \<le> 1" for x :: 'd and n by (simp add: normalize_count_def)
  have "weighted_average (bundle_inputs f) \<le> 11 / 15"
    using assms count [of "feature_or_zero f ''same_slot_multi_buy_count''" 8]
      count [of "feature_or_zero f ''first_n_buys_identical_amount_count''" 8]
      count [of "feature_or_zero f ''first_n_buys_same_funder_count''" 8]
      count [of "feature_or_zero f ''tentative_sell_from_bundle_count''" 4]
    by (simp add: weighted_average_eq bundle_inputs_def decimal_def field_simps)
  then show ?thesis by (simp add: bundle_risk_def Let_def clamp01_def)
qed

text \<open>
  C12. For every token of every run of the state engine the bundle score of its own snapshot is at most 11/15: the
  feature \<open>bundle_risk_score\<close>, half of its weight, is limited to one before it is divided by three. So with the
  default thresholds a bundle alone never discards a token (0.75), and the bundle score never recommends to discard
  one for good (0.85), however concentrated the first buys are.
\<close>

theorem bundles_never_discard:
  assumes "engine_run env ops (new_state_engine ttl) = Some s" "map_of (se_tokens s) m = Some token"
    and "compute_snapshot fenv default_registry token view t = Some f"
  shows "rk_score (bundle_risk f) \<le> 11 / 15 \<and>
    rk_score (bundle_risk f) < re_soft_discard_bundle_threshold default_risk_engine \<and>
    rk_recommended_lifecycle_action (bundle_risk f) \<in> {KeepWatching, ActSoftDiscard}"
proof -
  have "distribution_ok (tok_holder_state token)"
    using holders.run_keeps [OF assms(1,2)] by (simp add: holders_law_def)
  then have "rk_score (bundle_risk f) \<le> 11 / 15"
    by (intro bundle_score_bound; unfold snapshot_readings [OF assms(3)];
        intro bundle_risk_third bundle_top_share warning_level_le_4)
  moreover have "11 / 15 < (decimal 75 2 :: 'a)" "11 / 15 < (decimal 85 2 :: 'a)" by (simp_all add: decimal_def)
  ultimately show ?thesis
    by (auto simp: default_risk_engine_def bundle_risk_def Let_def not_le intro: le_less_trans)
qed

subsection \<open>On a concrete token\<close>

definition example_feature_env :: "rat feature_env" where
  "example_feature_env = \<lparr>fx_sha256_hex = id, fx_show_decimal = (\<lambda>_. []), fx_show_rounded4 = (\<lambda>_. []),
     fx_show_normalized = (\<lambda>_. [])\<rparr>"

definition example_view :: "rat feature_view" where
  "example_view = engine_view (new_state_engine example_ttl)"

definition gapped_example :: "rat token_state" where
  "gapped_example = (new_token_state example_mint GeyserProcessed)\<lparr>tok_data_quality_flags := {''data_gap''}\<rparr>"

lemma example_wallets: "viewed_wallets example_view = []"
  by (simp add: example_view_def engine_view_def viewed_wallets_def new_state_engine_def)

lemma gapped_example_computed:
  obtains f where "compute_snapshot example_feature_env default_registry gapped_example example_view t = Some f"
proof -
  have "unat (cv_token_decimals (tok_reserve_state gapped_example)) \<le> 19"
    using new_decimals_small [of example_mint GeyserProcessed, where 'd = rat]
    by (simp add: gapped_example_def decimals_small_def)
  then show thesis using example_wallets that by (rule snapshot_computed)
qed

theorem snapshot_has_the_registered_features_witness:
  "\<exists>f. compute_snapshot example_feature_env default_registry gapped_example example_view 0 = Some f \<and>
    feature_decimal f ''account_update_gap_flag'' = None"
proof -
  obtain f where f: "compute_snapshot example_feature_env default_registry gapped_example example_view 0 = Some f"
    by (rule gapped_example_computed)
  from snapshot_has_the_registered_features [OF f] f show ?thesis by (auto simp: unregistered_features_def)
qed

theorem data_gap_stop_exact_witness:
  "\<exists>f. compute_snapshot example_feature_env default_registry gapped_example example_view 0 = Some f \<and>
    ra_discard_policy (evaluate_risk (\<lambda>_. []) default_risk_engine gapped_example f 0) = PolicyDataGapStop"
proof -
  obtain f where f: "compute_snapshot example_feature_env default_registry gapped_example example_view 0 = Some f"
    by (rule gapped_example_computed)
  from data_gap_stop_exact [OF f, of "\<lambda>_. []" default_risk_engine 0] f show ?thesis by (simp add: gapped_example_def)
qed

theorem launch_collapse_exact_witness:
  "\<exists>f. compute_snapshot example_feature_env default_registry gapped_example example_view 0 = Some f \<and>
    \<not> 0 < launch_collapse f"
proof -
  obtain f where f: "compute_snapshot example_feature_env default_registry gapped_example example_view 0 = Some f"
    by (rule gapped_example_computed)
  from launch_collapse_exact [OF f] f show ?thesis by (simp add: gapped_example_def new_token_state_def)
qed

theorem bundles_never_discard_witness:
  "\<exists>s token f. engine_run example_env [Apply example_creation] (new_state_engine example_ttl) = Some s \<and>
    map_of (se_tokens s) (tc_mint example_created) = Some token \<and>
    compute_snapshot example_feature_env default_registry token example_view 0 = Some f \<and>
    rk_score (bundle_risk f) \<le> 11 / 15"
proof -
  have start: "table_decimals_small (new_state_engine example_ttl :: rat state_engine)"
    "mints_distinct (new_state_engine example_ttl :: rat state_engine)" "op_decimals_ok (Apply example_creation)"
    by (simp_all add: table_decimals_small_def mints_distinct_def new_state_engine_def event_decimals_ok_def
        example_creation_payload)
  obtain s where s: "engine_step example_env (Apply example_creation) (new_state_engine example_ttl) = Some s"
    "table_decimals_small s"
    using start by (rule engine_step_total)
  then obtain ts where applied: "apply_event example_env example_creation (new_state_engine example_ttl) = Some (s, ts)"
    by auto
  have empty: "map_of (se_tokens (new_state_engine example_ttl :: rat state_engine)) m = None" for m
    by (simp add: new_state_engine_def)
  obtain token where token: "map_of (se_tokens s) (tc_mint example_created) = Some token"
    by (rule created_launch_price [OF applied example_live example_creation_payload empty])
  then have "unat (cv_token_decimals (tok_reserve_state token)) \<le> 19"
    using s(2) by (auto simp: table_decimals_small_def decimals_small_def)
  then obtain f where f: "compute_snapshot example_feature_env default_registry token example_view 0 = Some f"
    using example_wallets by (rule snapshot_computed)
  have run: "engine_run example_env [Apply example_creation] (new_state_engine example_ttl) = Some s"
    using applied by (simp add: engine_run_def)
  from bundles_never_discard [OF run token f] run token f show ?thesis by blast
qed

end
