(* ===== verification/Diagnostic_Risk.thy ===== *)
theory Diagnostic_Risk
  imports Feature_Math
begin

text \<open>
  The diagnostic risk report of \<open>crates/features/src/risk_engine.rs\<close>: eleven rows of evidence, each with a score or a
  reason why there is none, their averages and a classification. A division by a threshold that is zero panics,
  which is \<open>None\<close>.
\<close>

datatype risk_source = StreamSource | BoundedRpc | MetadataHttp | ProviderApi | RawShredSource | DeshredSource

datatype risk_time_role = PreEntryFeature | DecisionTimeFeature | PostEventLabel | EnrichmentLateFeature

definition pre_entry_safe :: "risk_time_role \<Rightarrow> bool" where
  "pre_entry_safe role \<longleftrightarrow> role \<in> {PreEntryFeature, DecisionTimeFeature}"

datatype diagnostic_risk_classification =
    LowRiskObserved
  | ElevatedStreamRisk
  | ElevatedEnrichmentRisk
  | BundleLikeStreamSignal
  | ProviderConfirmedBundle
  | FundingClusterSuspected
  | InconclusiveMissingEnrichment
  | ProviderConfirmationRequired
  | UnsupportedRisk

record 'd risk_evidence =
  ev_risk_id :: string
  ev_risk_family :: string
  ev_source :: risk_source
  ev_time_role :: risk_time_role
  ev_score :: "'d option"
  ev_confidence :: 'd
  ev_unavailable_reason :: "string option"
  ev_evidence :: "string list"

definition clamp_score :: "'d::linordered_field \<Rightarrow> 'd" where
  "clamp_score value = min (max value 0) 1"

definition average_score :: "('d::linordered_field) list \<Rightarrow> 'd" where
  "average_score scores = (if scores = [] then 0 else sum_list scores / decimal_count (length scores))"

definition evidence_available ::
  "string \<Rightarrow> string \<Rightarrow> risk_source \<Rightarrow> risk_time_role \<Rightarrow> 'd \<Rightarrow> 'd \<Rightarrow> string list \<Rightarrow> ('d::linordered_field) risk_evidence" where
  "evidence_available risk_id risk_family source role score confidence evidence =
    \<lparr>ev_risk_id = risk_id, ev_risk_family = risk_family, ev_source = source, ev_time_role = role,
     ev_score = Some (clamp_score score), ev_confidence = clamp_score confidence, ev_unavailable_reason = None,
     ev_evidence = evidence\<rparr>"

definition evidence_unavailable ::
  "string \<Rightarrow> string \<Rightarrow> risk_source \<Rightarrow> risk_time_role \<Rightarrow> string \<Rightarrow> ('d::linordered_field) risk_evidence" where
  "evidence_unavailable risk_id risk_family source role reason =
    \<lparr>ev_risk_id = risk_id, ev_risk_family = risk_family, ev_source = source, ev_time_role = role,
     ev_score = None, ev_confidence = 0, ev_unavailable_reason = Some reason, ev_evidence = []\<rparr>"

record 'd risk_snapshot_input =
  ri_mint :: string
  ri_holder_count :: "'d option"
  ri_top_holder_pct :: "'d option"
  ri_dev_holding_pct :: "'d option"
  ri_paperhand_90pct_count :: "'d option"
  ri_holder_churn_rate :: "'d option"
  ri_buy_count :: "'d option"
  ri_sell_count :: "'d option"
  ri_unique_buyers :: "'d option"
  ri_same_slot_tx_count :: "'d option"
  ri_same_instruction_shape_count :: "'d option"
  ri_same_account_list_hash_count :: "'d option"
  ri_same_signer_cluster_count :: "'d option"
  ri_priority_fee_cluster_count :: "'d option"
  ri_fake_momentum_stream_proxy :: "bool option"
  ri_sell_absorption_stream_proxy :: "bool option"
  ri_metadata_uri_present :: "bool option"
  ri_metadata_fetch_success :: "bool option"
  ri_social_count :: "'d option"
  ri_one_hop_funder_candidate_count :: "'d option"
  ri_rpc_supply_matches_curve_supply :: "bool option"
  ri_rpc_supply_mismatch_ratio :: "'d option"
  ri_supply_denominator_source :: "string option"
  ri_data_gap_active :: "bool option"
  ri_stream_gap_active :: "bool option"
  ri_post_migration_supported :: "bool option"

record 'd risk_snapshot_output =
  ro_mint :: string
  ro_risk_score_total :: 'd
  ro_risk_score_stream_only :: 'd
  ro_risk_score_enrichment :: 'd
  ro_risk_classification :: diagnostic_risk_classification
  ro_denominator_source_for_market_cap :: string
  ro_denominator_source_for_holder_pct :: string
  ro_rpc_supply_diagnostic_only :: bool
  ro_supply_semantics_status :: string
  ro_supply_mismatch_ratio :: "'d option"
  ro_supply_denominator_policy_version :: string
  ro_risk_evidence_count :: usize
  ro_risk_confidence :: 'd
  ro_unavailable_risk_families :: "string list"
  ro_blocking_data_quality_reasons :: "string list"
  ro_pre_entry_safe_features :: "string list"
  ro_post_event_only_labels :: "string list"
  ro_evidence :: "'d risk_evidence list"

record 'd diagnostic_risk_engine =
  dg_high_concentration_pct :: 'd
  dg_high_same_slot_count :: 'd
  dg_low_unique_buyer_ratio :: 'd

definition default_diagnostic_risk_engine :: "('d::linordered_field) diagnostic_risk_engine" where
  "default_diagnostic_risk_engine =
    \<lparr>dg_high_concentration_pct = decimal 80 2, dg_high_same_slot_count = 2, dg_low_unique_buyer_ratio = decimal 50 2\<rparr>"

definition shown_flag :: "bool \<Rightarrow> string" where
  "shown_flag b = (if b then ''true'' else ''false'')"

subsection \<open>The rows of evidence\<close>

text \<open>\<open>show\<close> renders a decimal.\<close>

definition checked_div :: "'d::linordered_field \<Rightarrow> 'd \<Rightarrow> 'd option" where
  "checked_div x y = (if y = 0 then None else Some (x / y))"

definition decision_row ::
  "string \<Rightarrow> 'd \<Rightarrow> 'd \<Rightarrow> string list \<Rightarrow> ('d::linordered_field) risk_evidence" where
  "decision_row risk_id = evidence_available risk_id risk_id StreamSource DecisionTimeFeature"

definition missing_row :: "string \<Rightarrow> string \<Rightarrow> ('d::linordered_field) risk_evidence" where
  "missing_row risk_id = evidence_unavailable risk_id risk_id StreamSource DecisionTimeFeature"

definition holder_concentration_row ::
  "('d \<Rightarrow> string) \<Rightarrow> ('d::linordered_field) diagnostic_risk_engine \<Rightarrow> 'd risk_snapshot_input \<Rightarrow> 'd risk_evidence option" where
  "holder_concentration_row show eng input = (case ri_top_holder_pct input of
     Some share \<Rightarrow> map_option
       (\<lambda>score. decision_row ''holder_concentration_risk'' score 1 [''top_holder_pct='' @ show share])
       (checked_div share (dg_high_concentration_pct eng))
   | None \<Rightarrow> Some (missing_row ''holder_concentration_risk'' ''missing_stream_holder_snapshot''))"

definition dev_exit_row ::
  "('d \<Rightarrow> string) \<Rightarrow> ('d::linordered_field) risk_snapshot_input \<Rightarrow> 'd risk_evidence" where
  "dev_exit_row show input = (case ri_dev_holding_pct input of
     Some value \<Rightarrow> decision_row ''dev_exit_risk'' (if value \<le> decimal 1 2 then decimal 25 2 else decimal 5 2) 1
       [''dev_holding_pct='' @ show value]
   | None \<Rightarrow> missing_row ''dev_exit_risk'' ''missing_stream_dev_holder_state'')"

definition holder_churn_row ::
  "('d \<Rightarrow> string) \<Rightarrow> ('d::linordered_field) risk_snapshot_input \<Rightarrow> 'd risk_evidence" where
  "holder_churn_row show input = (case ri_holder_churn_rate input of
     Some churn \<Rightarrow> decision_row ''holder_churn_risk'' churn (decimal 8 1) [''holder_churn_rate='' @ show churn]
   | None \<Rightarrow> (case ri_paperhand_90pct_count input of
       Some n \<Rightarrow> decision_row ''paperhand_90pct_risk'' (n / 10) (decimal 7 1) [''paperhand_90pct_count='' @ show n]
     | None \<Rightarrow> missing_row ''holder_churn_risk'' ''holder_churn_not_in_canary_artifact''))"

definition bundle_like_row ::
  "('d \<Rightarrow> string) \<Rightarrow> ('d::linordered_field) diagnostic_risk_engine \<Rightarrow> 'd risk_snapshot_input \<Rightarrow> 'd risk_evidence option" where
  "bundle_like_row show eng input =
    (let same_slot = unwrap_or 0 (ri_same_slot_tx_count input) in
     map_option (\<lambda>slots. evidence_available ''same_slot_bundle_like_risk'' ''bundle_like_risk'' StreamSource
         DecisionTimeFeature
         ((slots + unwrap_or 0 (ri_same_instruction_shape_count input) / 3 +
           unwrap_or 0 (ri_same_account_list_hash_count input) / 3 +
           unwrap_or 0 (ri_same_signer_cluster_count input) / 3 +
           unwrap_or 0 (ri_priority_fee_cluster_count input) / 3) / 5) (decimal 8 1)
         [''same_slot_tx_count='' @ show same_slot, ''provider_confirmed_bundle=false''])
       (checked_div same_slot (dg_high_same_slot_count eng)))"

definition fake_momentum_row ::
  "('d \<Rightarrow> string) \<Rightarrow> ('d::linordered_field) diagnostic_risk_engine \<Rightarrow> 'd risk_snapshot_input \<Rightarrow> 'd risk_evidence option" where
  "fake_momentum_row show eng input =
    (let missing = missing_row ''fake_momentum_risk'' ''requires_unique_buyer_and_holder_context'' in
     case ri_fake_momentum_stream_proxy input of
       Some flag \<Rightarrow> Some (decision_row ''fake_momentum_risk'' (if flag then decimal 70 2 else decimal 5 2) (decimal 8 1)
         [''fake_momentum_stream_proxy='' @ shown_flag flag])
     | None \<Rightarrow> (case (ri_buy_count input, ri_unique_buyers input) of
         (Some buys, Some unique) \<Rightarrow>
           if 0 < buys
           then map_option (\<lambda>score. decision_row ''fake_momentum_risk'' (clamp_score score) (decimal 7 1)
               [''buy_count='' @ show buys, ''unique_buyers='' @ show unique])
             (checked_div (dg_low_unique_buyer_ratio eng - unique / buys) (dg_low_unique_buyer_ratio eng))
           else Some missing
       | _ \<Rightarrow> Some missing))"

definition sell_absorption_row :: "('d::linordered_field) risk_snapshot_input \<Rightarrow> 'd risk_evidence" where
  "sell_absorption_row input = (case ri_sell_absorption_stream_proxy input of
     Some flag \<Rightarrow> decision_row ''sell_absorption_failure_risk'' (if flag then decimal 15 2 else decimal 55 2) (decimal 7 1)
       [''sell_absorption_stream_proxy='' @ shown_flag flag]
   | None \<Rightarrow> missing_row ''sell_absorption_failure_risk'' ''missing_sell_absorption_context'')"

definition metadata_social_row ::
  "('d \<Rightarrow> string) \<Rightarrow> ('d::linordered_field) risk_snapshot_input \<Rightarrow> 'd risk_evidence" where
  "metadata_social_row show input =
    (if ri_metadata_uri_present input = Some False
     then evidence_available ''metadata_social_absence_risk'' ''metadata_social_risk'' StreamSource DecisionTimeFeature
       (decimal 50 2) (decimal 7 1) [''metadata_uri_present=false'']
     else (case ri_metadata_fetch_success input of
       Some success \<Rightarrow>
         (let social_count = unwrap_or 0 (ri_social_count input) in
          evidence_available ''metadata_social_absence_risk'' ''metadata_social_risk'' MetadataHttp EnrichmentLateFeature
            (if success \<and> 0 < social_count then decimal 5 2 else decimal 35 2) (decimal 7 1)
            [''metadata_fetch_success='' @ shown_flag success, ''social_count='' @ show social_count])
     | None \<Rightarrow> evidence_unavailable ''metadata_social_absence_risk'' ''metadata_social_risk'' MetadataHttp
         EnrichmentLateFeature ''metadata_http_not_run''))"

definition funding_row ::
  "('d \<Rightarrow> string) \<Rightarrow> ('d::linordered_field) risk_snapshot_input \<Rightarrow> 'd risk_evidence" where
  "funding_row show input = (case ri_one_hop_funder_candidate_count input of
     Some n \<Rightarrow> evidence_available ''common_funder_risk'' ''funding_common_funder_risk'' BoundedRpc EnrichmentLateFeature
       (n / 3) (decimal 45 2) [''one_hop_funder_candidate_count='' @ show n, ''bounded_one_hop_only=true'']
   | None \<Rightarrow> evidence_unavailable ''common_funder_risk'' ''funding_common_funder_risk'' BoundedRpc EnrichmentLateFeature
       ''bounded_funding_graph_not_run'')"

definition supply_semantics_row :: "('d::linordered_field) risk_snapshot_input \<Rightarrow> 'd risk_evidence" where
  "supply_semantics_row input =
    (let denominator = ''canonical_denominator='' @ unwrap_or ''curve_economic_supply'' (ri_supply_denominator_source input);
         row = evidence_available ''supply_semantics_risk'' ''supply_semantics_risk'' BoundedRpc EnrichmentLateFeature in
     case ri_rpc_supply_matches_curve_supply input of
       Some True \<Rightarrow> row (decimal 5 2) (decimal 8 1) [''rpc_supply_matches_curve_supply=true'', denominator]
     | Some False \<Rightarrow> row (unwrap_or 1 (ri_rpc_supply_mismatch_ratio input)) (decimal 9 1)
         [''rpc_supply_matches_curve_supply=false'', ''rpc_mint_supply_not_canonical_for_pumpfun_denominator'', denominator]
     | None \<Rightarrow> evidence_unavailable ''supply_semantics_risk'' ''supply_semantics_risk'' BoundedRpc EnrichmentLateFeature
         ''rpc_supply_semantics_not_checked'')"

definition gap_active :: "'d risk_snapshot_input \<Rightarrow> bool" where
  "gap_active input \<longleftrightarrow> unwrap_or False (ri_data_gap_active input) \<or> unwrap_or False (ri_stream_gap_active input)"

definition data_quality_row :: "('d::linordered_field) risk_snapshot_input \<Rightarrow> 'd risk_evidence" where
  "data_quality_row input = decision_row ''data_quality_risk'' (if gap_active input then 1 else 0) 1
     [''data_or_stream_gap_active='' @ shown_flag (gap_active input)]"

definition post_migration_row :: "('d::linordered_field) risk_snapshot_input \<Rightarrow> 'd risk_evidence" where
  "post_migration_row input = (case ri_post_migration_supported input of
     Some True \<Rightarrow> decision_row ''post_migration_unknown_risk'' 0 (decimal 6 1) [''post_migration_supported=true'']
   | Some False \<Rightarrow> decision_row ''post_migration_unknown_risk'' (decimal 30 2) (decimal 5 1)
       [''post_migration_supported=false'']
   | None \<Rightarrow> missing_row ''post_migration_unknown_risk'' ''migration_not_observed_or_not_applicable'')"

subsection \<open>The report\<close>

definition evidence_rows ::
  "('d \<Rightarrow> string) \<Rightarrow> ('d::linordered_field) diagnostic_risk_engine \<Rightarrow> 'd risk_snapshot_input \<Rightarrow>
   'd risk_evidence list option" where
  "evidence_rows show eng input =
    Option.bind (holder_concentration_row show eng input) (\<lambda>concentration.
      Option.bind (bundle_like_row show eng input) (\<lambda>bundle_like.
        map_option (\<lambda>fake_momentum.
          [concentration, dev_exit_row show input, holder_churn_row show input, bundle_like, fake_momentum,
           sell_absorption_row input, metadata_social_row show input, funding_row show input,
           supply_semantics_row input, data_quality_row input, post_migration_row input])
          (fake_momentum_row show eng input)))"

definition scores_from :: "(risk_source \<Rightarrow> bool) \<Rightarrow> 'd risk_evidence list \<Rightarrow> 'd list" where
  "scores_from P rows = List.map_filter ev_score (filter (\<lambda>row. P (ev_source row)) rows)"

definition contains_text :: "string \<Rightarrow> string \<Rightarrow> bool" where
  "contains_text pattern s \<longleftrightarrow> split_after pattern s \<noteq> None"

definition blocking_reasons :: "'d risk_evidence list \<Rightarrow> string list" where
  "blocking_reasons rows = filter (\<lambda>reason. contains_text ''data_gap'' reason \<or> contains_text ''stream_gap'' reason)
     (List.map_filter ev_unavailable_reason rows)"

definition classify_rows :: "('d::linordered_field) risk_evidence list \<Rightarrow> diagnostic_risk_classification" where
  "classify_rows rows =
    (if list_ex (\<lambda>row. ev_risk_id row = ''provider_confirmation_required'' \<and>
          ''provider_confirmed_bundle'' \<in> set (ev_evidence row)) rows
     then ProviderConfirmedBundle
     else if list_ex (\<lambda>row. contains_text ''bundle_like'' (ev_risk_id row) \<and>
          decimal 35 2 < unwrap_or 0 (ev_score row)) rows
     then BundleLikeStreamSignal
     else if list_ex (\<lambda>score. decimal 35 2 < score) (scores_from (\<lambda>s. s = BoundedRpc \<or> s = MetadataHttp) rows)
     then ElevatedEnrichmentRisk
     else if decimal 35 2 < average_score (scores_from (\<lambda>s. s = StreamSource) rows) then ElevatedStreamRisk
     else if scores_from (\<lambda>_. True) rows = [] then InconclusiveMissingEnrichment
     else LowRiskObserved)"

definition evaluate_rows ::
  "('d::linordered_field) risk_snapshot_input \<Rightarrow> 'd risk_evidence list \<Rightarrow> 'd risk_snapshot_output" where
  "evaluate_rows input rows =
    (let available = filter (\<lambda>row. ev_score row \<noteq> None) rows in
     \<lparr>ro_mint = ri_mint input,
      ro_risk_score_total = average_score (scores_from (\<lambda>_. True) rows),
      ro_risk_score_stream_only = average_score (scores_from (\<lambda>s. s = StreamSource) rows),
      ro_risk_score_enrichment = average_score (scores_from (\<lambda>s. s = BoundedRpc \<or> s = MetadataHttp) rows),
      ro_risk_classification = classify_rows rows,
      ro_denominator_source_for_market_cap = ''curve_economic_supply_or_protocol_constant'',
      ro_denominator_source_for_holder_pct = unwrap_or ''curve_economic_supply'' (ri_supply_denominator_source input),
      ro_rpc_supply_diagnostic_only = True,
      ro_supply_semantics_status = (case ri_rpc_supply_matches_curve_supply input of
          Some True \<Rightarrow> ''rpc_mint_supply_matches_curve_economic_supply''
        | Some False \<Rightarrow> ''rpc_mint_supply_diagnostic_only_mismatch''
        | None \<Rightarrow> ''rpc_supply_semantics_not_checked''),
      ro_supply_mismatch_ratio = ri_rpc_supply_mismatch_ratio input,
      ro_supply_denominator_policy_version = ''phase102.supply_denominator.v1'',
      ro_risk_evidence_count = of_nat (length available),
      ro_risk_confidence = average_score (map ev_confidence available),
      ro_unavailable_risk_families = map ev_risk_family (filter (\<lambda>row. ev_score row = None) rows),
      ro_blocking_data_quality_reasons = blocking_reasons rows,
      ro_pre_entry_safe_features = map ev_risk_id (filter (\<lambda>row. pre_entry_safe (ev_time_role row)) rows),
      ro_post_event_only_labels = map ev_risk_id (filter (\<lambda>row. ev_time_role row = PostEventLabel) rows),
      ro_evidence = rows\<rparr>)"

definition evaluate_diagnostic ::
  "('d \<Rightarrow> string) \<Rightarrow> ('d::linordered_field) diagnostic_risk_engine \<Rightarrow> 'd risk_snapshot_input \<Rightarrow>
   'd risk_snapshot_output option" where
  "evaluate_diagnostic show eng input = map_option (evaluate_rows input) (evidence_rows show eng input)"

text \<open>The identifiers of the rows that leak, when there are any.\<close>

definition validate_no_leak :: "'d risk_evidence list \<Rightarrow> string list + unit" where
  "validate_no_leak rows =
    (let leaked = map ev_risk_id (filter
           (\<lambda>row. ev_time_role row = PostEventLabel \<and> pre_entry_safe (ev_time_role row)) rows) in
     if leaked = [] then Inr () else Inl leaked)"

subsection \<open>What a report can say\<close>

lemma clamp_score_range [simp]: "0 \<le> clamp_score x" "clamp_score x \<le> (1 :: 'd::linordered_field)"
  by (simp_all add: clamp_score_def)

lemma average_between:
  fixes scores :: "('d::linordered_field) list"
  assumes "list_all (\<lambda>x. 0 \<le> x \<and> x \<le> 1) scores" "length scores < 2 ^ 64"
  shows "0 \<le> average_score scores \<and> average_score scores \<le> 1"
proof -
  have "0 \<le> sum_list scores \<and> sum_list scores \<le> of_nat (length scores)"
    using assms(1) by (induction scores) (auto intro: add_mono)
  moreover have "decimal_count (length scores) = (of_nat (length scores) :: 'd)"
    using assms(2) by (simp add: decimal_count_def decimal_from_def unsigned_of_nat take_bit_nat_eq_self)
  ultimately show ?thesis by (auto simp: average_score_def divide_le_eq)
qed

text \<open>Whatever the input is, a row has a bounded score or one of the listed reasons, and never the role of a label.\<close>

definition row_ok :: "('d::linordered_field) risk_evidence \<Rightarrow> bool" where
  "row_ok row \<longleftrightarrow> ev_time_role row \<in> {DecisionTimeFeature, EnrichmentLateFeature} \<and>
    ev_risk_id row \<noteq> ''provider_confirmation_required'' \<and>
    (case ev_score row of None \<Rightarrow> True | Some x \<Rightarrow> 0 \<le> x \<and> x \<le> 1) \<and>
    0 \<le> ev_confidence row \<and> ev_confidence row \<le> 1 \<and>
    (case ev_unavailable_reason row of None \<Rightarrow> True
     | Some reason \<Rightarrow> \<not> contains_text ''data_gap'' reason \<and> \<not> contains_text ''stream_gap'' reason)"

text \<open>The reasons that a row can give.\<close>

definition row_reasons :: "string list" where
  "row_reasons = [''missing_stream_holder_snapshot'', ''missing_stream_dev_holder_state'',
    ''holder_churn_not_in_canary_artifact'', ''requires_unique_buyer_and_holder_context'',
    ''missing_sell_absorption_context'', ''metadata_http_not_run'', ''bounded_funding_graph_not_run'',
    ''rpc_supply_semantics_not_checked'', ''migration_not_observed_or_not_applicable'']"

lemma row_reasons_never_block:
  "list_all (\<lambda>reason. \<not> contains_text ''data_gap'' reason \<and> \<not> contains_text ''stream_gap'' reason) row_reasons"
  by code_simp

lemma available_ok:
  assumes "role \<in> {DecisionTimeFeature, EnrichmentLateFeature}" "risk_id \<noteq> ''provider_confirmation_required''"
  shows "row_ok (evidence_available risk_id family source role score confidence evidence)"
  using assms by (simp add: row_ok_def evidence_available_def)

lemma unavailable_ok:
  assumes "role \<in> {DecisionTimeFeature, EnrichmentLateFeature}" "risk_id \<noteq> ''provider_confirmation_required''"
    "reason \<in> set row_reasons"
  shows "row_ok (evidence_unavailable risk_id family source role reason)"
  using assms row_reasons_never_block by (simp add: row_ok_def evidence_unavailable_def list_all_iff)

lemmas row_forms = decision_row_def missing_row_def

lemma rows_ok:
  assumes "evidence_rows show eng input = Some rows"
  shows "list_all row_ok rows \<and> length rows = 11 \<and> rows ! 9 = data_quality_row input"
proof -
  have reasons: "set row_reasons = {''missing_stream_holder_snapshot'', ''missing_stream_dev_holder_state'',
    ''holder_churn_not_in_canary_artifact'', ''requires_unique_buyer_and_holder_context'',
    ''missing_sell_absorption_context'', ''metadata_http_not_run'', ''bounded_funding_graph_not_run'',
    ''rpc_supply_semantics_not_checked'', ''migration_not_observed_or_not_applicable''}"
    by (simp add: row_reasons_def)
  note row_intros = available_ok unavailable_ok
  have concentration: "row_ok row" if "holder_concentration_row show eng input = Some row" for row
    using that by (auto simp: holder_concentration_row_def row_forms reasons intro!: row_intros split: option.splits)
  have bundled: "row_ok row" if "bundle_like_row show eng input = Some row" for row
    using that by (auto simp: bundle_like_row_def Let_def intro!: row_intros)
  have momentum: "row_ok row" if "fake_momentum_row show eng input = Some row" for row
    using that by (auto simp: fake_momentum_row_def row_forms Let_def reasons intro!: row_intros split: option.splits if_splits)
  have "row_ok (dev_exit_row show input)" "row_ok (holder_churn_row show input)" "row_ok (sell_absorption_row input)"
    by (auto simp: dev_exit_row_def holder_churn_row_def sell_absorption_row_def row_forms reasons
        intro!: row_intros split: option.split)
  moreover have "row_ok (metadata_social_row show input)" "row_ok (funding_row show input)"
    by (auto simp: metadata_social_row_def funding_row_def reasons Let_def intro!: row_intros split: option.split)
  moreover have "row_ok (supply_semantics_row input)" "row_ok (data_quality_row input)" "row_ok (post_migration_row input)"
    by (auto simp: supply_semantics_row_def data_quality_row_def post_migration_row_def row_forms reasons Let_def
        intro!: row_intros split: option.split bool.split)
  ultimately show ?thesis
    using assms concentration bundled momentum by (auto simp: evidence_rows_def bind_eq_Some_conv)
qed

lemma scores_within:
  assumes "list_all row_ok rows"
  shows "list_all (\<lambda>x. 0 \<le> x \<and> x \<le> 1) (scores_from P rows)" "length (scores_from P rows) \<le> length rows"
  using assms by (induction rows) (auto simp: scores_from_def List.map_filter_simps row_ok_def split: option.splits)

lemma confidences_within:
  assumes "list_all row_ok rows"
  shows "list_all (\<lambda>x. 0 \<le> x \<and> x \<le> 1) (map ev_confidence (filter P rows))"
  using assms by (induction rows) (auto simp: row_ok_def)

lemma blocking_reasons_empty:
  assumes "list_all row_ok rows"
  shows "blocking_reasons rows = []"
  using assms
  by (induction rows) (auto simp: blocking_reasons_def List.map_filter_simps row_ok_def split: option.splits)

lemma no_leak_ever: "validate_no_leak rows = Inr ()"
proof -
  have "filter (\<lambda>row. ev_time_role row = PostEventLabel \<and> pre_entry_safe (ev_time_role row)) rows = []"
    by (auto simp: filter_empty_conv pre_entry_safe_def)
  then show ?thesis by (simp add: validate_no_leak_def)
qed

lemma checked_div_None [simp]: "checked_div x y = None \<longleftrightarrow> y = 0"
  by (simp add: checked_div_def)

text \<open>The thresholds that the evaluation divides by.\<close>

definition divides_by_zero :: "('d::linordered_field) diagnostic_risk_engine \<Rightarrow> 'd risk_snapshot_input \<Rightarrow> bool" where
  "divides_by_zero eng input \<longleftrightarrow>
    (ri_top_holder_pct input \<noteq> None \<and> dg_high_concentration_pct eng = 0) \<or> dg_high_same_slot_count eng = 0 \<or>
    (ri_fake_momentum_stream_proxy input = None \<and> ri_unique_buyers input \<noteq> None \<and>
     0 < unwrap_or 0 (ri_buy_count input) \<and> dg_low_unique_buyer_ratio eng = 0)"

lemma evaluate_panics_exactly:
  "evaluate_diagnostic show eng input = None \<longleftrightarrow> divides_by_zero eng input"
proof -
  have "holder_concentration_row show eng input = None \<longleftrightarrow> ri_top_holder_pct input \<noteq> None \<and> dg_high_concentration_pct eng = 0"
    by (simp add: holder_concentration_row_def split: option.split)
  moreover have "bundle_like_row show eng input = None \<longleftrightarrow> dg_high_same_slot_count eng = 0"
    by (simp add: bundle_like_row_def Let_def)
  moreover have "fake_momentum_row show eng input = None \<longleftrightarrow>
      ri_fake_momentum_stream_proxy input = None \<and> ri_unique_buyers input \<noteq> None \<and>
      0 < unwrap_or 0 (ri_buy_count input) \<and> dg_low_unique_buyer_ratio eng = 0"
    by (auto simp: fake_momentum_row_def Let_def unwrap_or_def split: option.split)
  ultimately show ?thesis
    by (auto simp: evaluate_diagnostic_def evidence_rows_def divides_by_zero_def bind_eq_None_conv)
qed

definition unit_range :: "'d::linordered_field \<Rightarrow> bool" where
  "unit_range x \<longleftrightarrow> 0 \<le> x \<and> x \<le> 1"

lemma report_facts:
  fixes eng :: "('d::linordered_field) diagnostic_risk_engine" and report :: "'d risk_snapshot_output"
  assumes "evaluate_diagnostic show eng input = Some report"
  shows "unit_range (ro_risk_score_total report)" "unit_range (ro_risk_score_stream_only report)"
    "unit_range (ro_risk_score_enrichment report)" "unit_range (ro_risk_confidence report)"
    "ro_blocking_data_quality_reasons report = []" "ro_post_event_only_labels report = []"
    "ro_risk_classification report \<in> {LowRiskObserved, ElevatedStreamRisk, ElevatedEnrichmentRisk, BundleLikeStreamSignal}"
proof -
  obtain rows where rows: "evidence_rows show eng input = Some rows" and report: "report = evaluate_rows input rows"
    using assms by (auto simp: evaluate_diagnostic_def)
  have ok: "list_all row_ok rows" and eleven: "length rows = 11" and nine: "rows ! 9 = data_quality_row input"
    using rows_ok [OF rows] by simp_all
  have short: "length xs < 2 ^ 64" if "length xs \<le> length rows" for xs :: "'d list"
    using that eleven by simp
  have averages: "unit_range (average_score (scores_from P rows))" for P
    unfolding unit_range_def by (rule average_between [OF scores_within(1) [OF ok] short [OF scores_within(2) [OF ok]]])
  have confidences: "unit_range (average_score (map ev_confidence (filter P rows)))" for P
    unfolding unit_range_def
    by (rule average_between [OF confidences_within [OF ok] short]) simp
  show "unit_range (ro_risk_score_total report)" "unit_range (ro_risk_score_stream_only report)"
    "unit_range (ro_risk_score_enrichment report)" "unit_range (ro_risk_confidence report)"
    using averages confidences by (simp_all add: report evaluate_rows_def Let_def)
  show "ro_blocking_data_quality_reasons report = []"
    by (simp add: report evaluate_rows_def Let_def blocking_reasons_empty [OF ok])
  show "ro_post_event_only_labels report = []"
    using ok by (auto simp: report evaluate_rows_def Let_def filter_empty_conv list_all_iff row_ok_def)
  have "data_quality_row input \<in> set rows"
    using eleven nine nth_mem [of 9 rows] by simp
  then have "scores_from (\<lambda>_. True) rows \<noteq> []"
    by (force simp: scores_from_def map_filter_def filter_empty_conv data_quality_row_def row_forms evidence_available_def)
  moreover have "\<not> list_ex (\<lambda>row. ev_risk_id row = ''provider_confirmation_required'' \<and>
      ''provider_confirmed_bundle'' \<in> set (ev_evidence row)) rows"
    using ok by (auto simp: list_ex_iff list_all_iff row_ok_def)
  ultimately show "ro_risk_classification report \<in>
      {LowRiskObserved, ElevatedStreamRisk, ElevatedEnrichmentRisk, BundleLikeStreamSignal}"
    by (simp add: report evaluate_rows_def Let_def classify_rows_def)
qed

text \<open>
  C29. The scores and the confidence of a report are between zero and one, it never names a blocking reason (not even
  while a gap is active, which is a row with a score) nor a label, and only four of the nine classes are reached.
\<close>

theorem diagnostic_report:
  fixes eng :: "('d::linordered_field) diagnostic_risk_engine" and report :: "'d risk_snapshot_output"
  assumes "evaluate_diagnostic show eng input = Some report"
  shows "unit_range (ro_risk_score_total report) \<and> unit_range (ro_risk_score_stream_only report) \<and>
    unit_range (ro_risk_score_enrichment report) \<and> unit_range (ro_risk_confidence report) \<and>
    ro_blocking_data_quality_reasons report = [] \<and> ro_post_event_only_labels report = [] \<and>
    ro_risk_classification report \<in> {LowRiskObserved, ElevatedStreamRisk, ElevatedEnrichmentRisk, BundleLikeStreamSignal}"
  by (intro conjI report_facts [OF assms])

theorem diagnostic_report_witness:
  "\<exists>report. evaluate_diagnostic (\<lambda>_. []) (default_diagnostic_risk_engine :: rat diagnostic_risk_engine)
      \<lparr>ri_mint = ''mint'', ri_holder_count = None, ri_top_holder_pct = Some 1, ri_dev_holding_pct = None,
       ri_paperhand_90pct_count = None, ri_holder_churn_rate = None, ri_buy_count = Some 4, ri_sell_count = None,
       ri_unique_buyers = Some 1, ri_same_slot_tx_count = Some 3, ri_same_instruction_shape_count = None,
       ri_same_account_list_hash_count = None, ri_same_signer_cluster_count = None,
       ri_priority_fee_cluster_count = None, ri_fake_momentum_stream_proxy = None,
       ri_sell_absorption_stream_proxy = None, ri_metadata_uri_present = None, ri_metadata_fetch_success = None,
       ri_social_count = None, ri_one_hop_funder_candidate_count = None, ri_rpc_supply_matches_curve_supply = None,
       ri_rpc_supply_mismatch_ratio = None, ri_supply_denominator_source = None, ri_data_gap_active = Some True,
       ri_stream_gap_active = None, ri_post_migration_supported = None\<rparr> = Some report \<and>
    ro_blocking_data_quality_reasons report = [] \<and> unit_range (ro_risk_score_total report)"
  (is "\<exists>report. evaluate_diagnostic ?show ?eng ?input = Some report \<and> _")
proof -
  have "evaluate_diagnostic ?show ?eng ?input \<noteq> None"
    unfolding evaluate_panics_exactly by (simp add: divides_by_zero_def default_diagnostic_risk_engine_def decimal_def)
  then obtain report where "evaluate_diagnostic ?show ?eng ?input = Some report" by blast
  from diagnostic_report [OF this] this show ?thesis by blast
qed

end
