(* ===== verification/Event_Normalizer.thy ===== *)
theory Event_Normalizer
  imports Geyser_Ingest Decoder Curve_State
begin

text \<open>
  \<open>GeyserEventNormalizer\<close> of \<open>crates/runtime/src/live_source.rs\<close>: a transaction becomes the observed transaction, the
  events of its decoded instructions, the balance changes of its token accounts and the funding of a wallet; an account
  update of a bonding curve becomes a curve update, at once when its mint is known, otherwise when its creation is seen.
  Decoding takes fuel, so \<open>None\<close> is a run that has not returned.
\<close>

definition system_program_id :: string where
  "system_program_id = ''11111111111111111111111111111111''"

definition compute_budget_program_id :: string where
  "compute_budget_program_id = ''ComputeBudget111111111111111111111111111111''"

definition wsol_mint :: string where
  "wsol_mint = ''So11111111111111111111111111111111111111112''"

text \<open>The codecs, \<open>Decimal::from_str\<close> and the fuel of the decoder.\<close>

record 'd normalizer_env =
  nv_fuel :: nat
  nv_codecs :: codecs
  nv_hex_decode :: "string \<Rightarrow> u8 list option"
  nv_base64_decode :: "string \<Rightarrow> u8 list option"
  nv_parse_decimal :: "string \<Rightarrow> 'd option"
  nv_sha256_hex :: "u8 list \<Rightarrow> string"

record 'd pending_curve_update =
  pu_meta :: "'d event_meta"
  pu_curve_pubkey :: string
  pu_virtual_quote :: 'd
  pu_virtual_token :: 'd
  pu_real_quote :: 'd
  pu_real_token :: 'd
  pu_token_total_supply_raw :: "'d option"
  pu_creator :: "pubkey option"
  pu_quote_mint :: "pubkey option"
  pu_reserve_field_schema :: string
  pu_complete :: bool
  pu_transaction_signature :: "string option"
  pu_write_version :: u64

record 'd event_normalizer =
  en_idls :: "loaded_idl list"
  en_curve_to_mint :: "string \<rightharpoonup> string"
  en_mint_to_creator :: "string \<rightharpoonup> string"
  en_seen_buy_mints :: "string set"
  en_pending_curve_updates :: "string \<rightharpoonup> 'd pending_curve_update list"

definition normalizer_from_loaded ::
  "(string \<Rightarrow> (idl_error, loaded_idl) result) \<Rightarrow> (string \<Rightarrow> string) \<Rightarrow> string list \<Rightarrow>
   (idl_error, 'd event_normalizer) result" where
  "normalizer_from_loaded load resolve_path idl_paths =
    rbind (rmap (\<lambda>path. load (resolve_path path)) idl_paths) (\<lambda>idls.
      Ok \<lparr>en_idls = idls, en_curve_to_mint = (\<lambda>_. None), en_mint_to_creator = (\<lambda>_. None),
          en_seen_buy_mints = {}, en_pending_curve_updates = (\<lambda>_. None)\<rparr>)"

subsection \<open>Decoding\<close>

fun decode_first ::
  "'d normalizer_env \<Rightarrow> loaded_idl list \<Rightarrow> u8 list \<Rightarrow> decoded_instruction option option" where
  "decode_first env [] data = Some None"
| "decode_first env (idl # idls) data =
    (case decode_instruction (nv_fuel env) (nv_codecs env) idl data of
       None \<Rightarrow> None
     | Some (Inr (KnownInstruction decoded)) \<Rightarrow> Some (Some decoded)
     | Some _ \<Rightarrow> decode_first env idls data)"

definition decode_hex_instruction ::
  "'d normalizer_env \<Rightarrow> loaded_idl list \<Rightarrow> transaction_instruction \<Rightarrow> decoded_instruction option option" where
  "decode_hex_instruction env idls instruction =
    (case nv_hex_decode env (ti_data_hex instruction) of
       None \<Rightarrow> Some None | Some data \<Rightarrow> decode_first env idls data)"

definition buy_names :: "string list" where
  "buy_names = [''buy'', ''buy_v2'', ''buy_exact_quote_in_v2'']"

fun any_decodes_buy :: "'d normalizer_env \<Rightarrow> loaded_idl list \<Rightarrow> u8 list \<Rightarrow> bool option" where
  "any_decodes_buy env [] data = Some False"
| "any_decodes_buy env (idl # idls) data =
    (case decode_instruction (nv_fuel env) (nv_codecs env) idl data of
       None \<Rightarrow> None
     | Some (Inr (KnownInstruction decoded)) \<Rightarrow>
         if di_name decoded \<in> set buy_names then Some True else any_decodes_buy env idls data
     | Some _ \<Rightarrow> any_decodes_buy env idls data)"

fun count_decoded_buys ::
  "'d normalizer_env \<Rightarrow> transaction_instruction list \<Rightarrow> loaded_idl list \<Rightarrow> nat option" where
  "count_decoded_buys env [] idls = Some 0"
| "count_decoded_buys env (instruction # instructions) idls =
    Option.bind (case nv_hex_decode env (ti_data_hex instruction) of
        None \<Rightarrow> Some False | Some data \<Rightarrow> any_decodes_buy env idls data)
      (\<lambda>found. map_option (\<lambda>n. if found then Suc n else n) (count_decoded_buys env instructions idls))"

subsection \<open>Reading arguments and accounts\<close>

definition json_decimal :: "'d normalizer_env \<Rightarrow> json \<Rightarrow> ('d::linordered_field) option" where
  "json_decimal env v = (case v of
      JInt n \<Rightarrow> if 0 \<le> n \<and> n < 2 ^ 64 \<or> - (2 ^ 63) \<le> n \<and> n < 2 ^ 63 then Some (of_int n) else None
    | JString raw \<Rightarrow> nv_parse_decimal env raw
    | _ \<Rightarrow> None)"

definition value_decimal ::
  "'d normalizer_env \<Rightarrow> (string \<rightharpoonup> json) \<Rightarrow> string \<Rightarrow> ('d::linordered_field) option" where
  "value_decimal env m key = Option.bind (m key) (json_decimal env)"

fun find_some :: "('a \<Rightarrow> 'b option) \<Rightarrow> 'a list \<Rightarrow> 'b option" where
  "find_some f [] = None"
| "find_some f (x # xs) = (case f x of Some y \<Rightarrow> Some y | None \<Rightarrow> find_some f xs)"

definition value_decimal_alias ::
  "'d normalizer_env \<Rightarrow> (string \<rightharpoonup> json) \<Rightarrow> string list \<Rightarrow> ('d::linordered_field) option" where
  "value_decimal_alias env m aliases = find_some (value_decimal env m) aliases"

definition value_string :: "(string \<rightharpoonup> json) \<Rightarrow> string \<Rightarrow> string option" where
  "value_string m key = (case m key of Some (JString s) \<Rightarrow> Some s | _ \<Rightarrow> None)"

definition account_alias :: "(string \<rightharpoonup> string) \<Rightarrow> string list \<Rightarrow> string option" where
  "account_alias m aliases = find_some m aliases"

definition quote_asset_of :: "(string \<rightharpoonup> json) \<Rightarrow> quote_asset_type" where
  "quote_asset_of args = (case value_string args ''quote_mint'' of
      Some mint \<Rightarrow> if mint = wsol_mint then WrappedSol else Other
    | None \<Rightarrow> quote_asset_type.Unknown)"

definition tx_status :: "bool \<Rightarrow> transaction_status" where
  "tx_status succeeded = (if succeeded then Success else Failed)"

definition safe_price :: "'d::linordered_field \<Rightarrow> 'd \<Rightarrow> 'd" where
  "safe_price quote token = (if token \<le> 0 then 0 else quote / token)"

subsection \<open>What a transaction shows\<close>

definition note_budget ::
  "'d normalizer_env \<Rightarrow> transaction_instruction \<Rightarrow> u32 option \<times> u64 option \<Rightarrow> u32 option \<times> u64 option" where
  "note_budget env instruction budget =
    (if ti_program_id instruction \<noteq> compute_budget_program_id then budget
     else (case nv_hex_decode env (ti_data_hex instruction) of
       None \<Rightarrow> budget
     | Some data \<Rightarrow>
         if data \<noteq> [] \<and> hd data = 2 \<and> 5 \<le> length data
         then (Some (from_le_bytes (take 4 (drop 1 data))), snd budget)
         else if data \<noteq> [] \<and> hd data = 3 \<and> 9 \<le> length data
         then (fst budget, Some (from_le_bytes (take 8 (drop 1 data))))
         else budget))"

definition parse_compute_budget ::
  "'d normalizer_env \<Rightarrow> transaction_instruction list \<Rightarrow> u32 option \<times> u64 option" where
  "parse_compute_budget env instructions = fold (note_budget env) instructions (None, None)"

definition sat_mul :: "'a::len word \<Rightarrow> 'a word \<Rightarrow> 'a word" where
  "sat_mul x y = (if unat x * unat y < 2 ^ LENGTH('a) then x * y else - 1)"

definition priority_fee_of :: "u32 option \<times> u64 option \<Rightarrow> lamports option" where
  "priority_fee_of budget = (case budget of
      (Some limit, Some price) \<Rightarrow> Some (sat_mul (ucast limit) price div 1000000)
    | _ \<Rightarrow> None)"

definition hash_strings :: "'d normalizer_env \<Rightarrow> string list \<Rightarrow> string" where
  "hash_strings env texts = nv_sha256_hex env (concat (map (\<lambda>s. string_bytes s @ [0xff]) texts))"

definition hash_instruction_shape :: "'d normalizer_env \<Rightarrow> transaction_instruction list \<Rightarrow> string" where
  "hash_instruction_shape env instructions = nv_sha256_hex env (concat (map (\<lambda>i.
     string_bytes (ti_program_id i) @ [0xfe] @
     string_bytes (show_nat (length (ti_accounts i))) @ [0xfd] @
     string_bytes (show_nat (length (ti_data_hex i))) @ [0xfc]) instructions))"

definition bundle_like_evidence :: "transaction_update \<Rightarrow> u32 option \<times> u64 option \<Rightarrow> string option" where
  "bundle_like_evidence update budget =
    (let evidence =
       (if tu_transaction_index update \<noteq> None then [''transaction_index_observed''] else []) @
       (if 0 < unwrap_or 0 (snd budget) then [''priority_fee_bid_observed''] else []) @
       (if tu_compute_units_consumed update \<noteq> None then [''compute_units_observed''] else []) in
     if evidence = [] then None else Some (join ''|'' evidence))"

definition observed_source_prefix :: "event_source \<Rightarrow> string" where
  "observed_source_prefix source = (case source of
      DeshredTentative \<Rightarrow> ''deshred'' | ShredTentative \<Rightarrow> ''shred'' | _ \<Rightarrow> ''geyser'')"

definition observed_transaction ::
  "'d normalizer_env \<Rightarrow> 'd event_meta \<Rightarrow> transaction_update \<Rightarrow> u32 option \<times> u64 option \<Rightarrow> 'd normalized_event" where
  "observed_transaction env meta update budget =
    \<lparr>ne_meta = meta, ne_payload = ObservedTransaction
      \<lparr>ot_signature_hint = Some (tu_signature update), ot_slot_hint = Some (tu_slot update),
       ot_entry_index = Some 0, ot_tx_position_estimate = tu_transaction_index update,
       ot_signer = (case tu_account_keys update of [] \<Rightarrow> None | key # _ \<Rightarrow> Some key),
       ot_program_ids = map ti_program_id (tu_instructions update),
       ot_account_count = of_nat (length (tu_account_keys update)),
       ot_instruction_count = of_nat (length (tu_instructions update)),
       ot_account_list_hash = Some (hash_strings env (tu_account_keys update)),
       ot_instruction_shape_hash = Some (hash_instruction_shape env (tu_instructions update)),
       ot_compute_unit_limit = fst budget, ot_compute_unit_price = snd budget,
       ot_estimated_priority_fee_lamports = priority_fee_of budget,
       ot_tx_fee_lamports = Some (tu_fee_lamports update),
       ot_compute_units_consumed = tu_compute_units_consumed update,
       ot_pre_sol_balances_lamports = tu_pre_balances update,
       ot_post_sol_balances_lamports = tu_post_balances update,
       ot_failed_transaction = (\<not> tu_succeeded update), ot_error_code = tu_error_code update,
       ot_bundle_like_evidence = bundle_like_evidence update budget,
       ot_raw_packet_hash = observed_source_prefix (em_source meta) @ '':'' @ tu_signature update,
       ot_first_seen_by_shred_ns =
         (if em_canonicality meta = Tentative then em_observed_at_monotonic_ns meta else 0),
       ot_decode_confidence = em_decode_confidence meta\<rparr>\<rparr>"

subsection \<open>Balances\<close>

definition token_amount :: "'d normalizer_env \<Rightarrow> transaction_token_balance \<Rightarrow> 'd::linordered_field" where
  "token_amount env balance = unwrap_or 0 (nv_parse_decimal env (tb_amount balance))"

definition total_token_balance ::
  "'d normalizer_env \<Rightarrow> transaction_token_balance list \<Rightarrow> string \<Rightarrow> string option \<Rightarrow> 'd::linordered_field" where
  "total_token_balance env balances mint owner = fold (\<lambda>b acc. acc + token_amount env b)
     (filter (\<lambda>b. tb_mint b = mint \<and>
        (case owner of None \<Rightarrow> True | Some candidate \<Rightarrow> tb_owner b = Some candidate)) balances) 0"

definition estimate_token_delta ::
  "'d normalizer_env \<Rightarrow> transaction_token_balance list \<Rightarrow> transaction_token_balance list \<Rightarrow> string \<Rightarrow>
   string option \<Rightarrow> ('d::linordered_field) option" where
  "estimate_token_delta env before after mint owner =
    Some (total_token_balance env after mint owner - total_token_balance env before mint owner)"

fun position :: "'a \<Rightarrow> 'a list \<Rightarrow> nat option" where
  "position x [] = None"
| "position x (y # ys) = (if x = y then Some 0 else map_option Suc (position x ys))"

definition nth_or_zero :: "u64 list \<Rightarrow> nat \<Rightarrow> u64" where
  "nth_or_zero xs i = (if i < length xs then xs ! i else 0)"

definition estimate_lamport_gain :: "transaction_update \<Rightarrow> string \<Rightarrow> ('d::linordered_field) option" where
  "estimate_lamport_gain update account = map_option (\<lambda>index.
     decimal_from (sat_sub (nth_or_zero (tu_post_balances update) index) (nth_or_zero (tu_pre_balances update) index)))
     (position account (tu_account_keys update))"

definition estimate_lamport_spend :: "transaction_update \<Rightarrow> string \<Rightarrow> ('d::linordered_field) option" where
  "estimate_lamport_spend update account = map_option (\<lambda>index.
     decimal_from (sat_sub
       (sat_sub (nth_or_zero (tu_pre_balances update) index) (nth_or_zero (tu_post_balances update) index))
       (tu_fee_lamports update)))
     (position account (tu_account_keys update))"

definition account_key_at :: "string list \<Rightarrow> u32 \<Rightarrow> string" where
  "account_key_at account_keys index =
    (if unat index < length account_keys then account_keys ! unat index
     else ''account_'' @ show_nat (unat index))"

record 'd pre_token_balance =
  pt_owner :: "string option"
  pt_token_account :: string
  pt_amount_raw :: 'd
  pt_account_index :: u32
  pt_decimals :: u32

type_synonym balance_key = "string \<times> string"

definition balance_key_of :: "transaction_update \<Rightarrow> transaction_token_balance \<Rightarrow> balance_key" where
  "balance_key_of update b = (tb_mint b, account_key_at (tu_account_keys update) (tb_account_index b))"

definition note_pre_balance ::
  "'d normalizer_env \<Rightarrow> transaction_update \<Rightarrow> transaction_token_balance \<Rightarrow>
   (balance_key \<times> 'd pre_token_balance) list \<Rightarrow> (balance_key \<times> ('d::linordered_field) pre_token_balance) list" where
  "note_pre_balance env update b = AList.update (balance_key_of update b)
     \<lparr>pt_owner = tb_owner b, pt_token_account = snd (balance_key_of update b), pt_amount_raw = token_amount env b,
      pt_account_index = tb_account_index b, pt_decimals = tb_decimals b\<rparr>"

text \<open>\<open>u8::try_from\<close>.\<close>

definition decimals_of :: "u32 \<Rightarrow> u8 option" where
  "decimals_of n = (if unat n < 256 then Some (ucast n) else None)"

definition holder_event ::
  "'d event_meta \<Rightarrow> transaction_update \<Rightarrow> string \<Rightarrow> string \<Rightarrow> string \<Rightarrow> u8 option \<Rightarrow> 'd option \<Rightarrow> 'd \<Rightarrow> 'd \<Rightarrow> string \<Rightarrow>
   ('d::linordered_field) normalized_event" where
  "holder_event meta update mint owner token_account decimals old new_balance delta reason =
    \<lparr>ne_meta = meta\<lparr>em_account_pubkey := Some token_account\<rparr>, ne_payload = HolderBalanceUpdate
      \<lparr>hb_mint = mint, hb_owner_wallet = owner, hb_token_account = token_account, hb_token_decimals = decimals,
       hb_old_balance = old, hb_new_balance = new_balance, hb_delta = delta,
       hb_caused_by_signature = Some (tu_signature update), hb_update_reason = reason, hb_confidence = 1\<rparr>\<rparr>"

definition owner_label :: "u32 \<Rightarrow> string" where
  "owner_label index = ''owner_'' @ show_nat (unat index)"

fun post_balance_events ::
  "'d normalizer_env \<Rightarrow> 'd event_meta \<Rightarrow> transaction_update \<Rightarrow> transaction_token_balance list \<Rightarrow>
   (balance_key \<times> 'd pre_token_balance) list \<Rightarrow>
   ('d::linordered_field) normalized_event list \<times> (balance_key \<times> 'd pre_token_balance) list" where
  "post_balance_events env meta update [] pre = ([], pre)"
| "post_balance_events env meta update (b # bs) pre =
    (let key = balance_key_of update b;
         previous = map_of pre key;
         owner = unwrap_or (owner_label (tb_account_index b))
           (first_some (tb_owner b) (Option.bind previous pt_owner));
         old = map_option pt_amount_raw previous;
         new_balance = token_amount env b;
         rest = post_balance_events env meta update bs (AList.delete key pre)
     in (holder_event meta update (tb_mint b) owner (snd key) (decimals_of (tb_decimals b)) old new_balance
           (new_balance - unwrap_or 0 old) ''geyser_token_balance'' # fst rest, snd rest))"

definition closed_balance_event ::
  "'d event_meta \<Rightarrow> transaction_update \<Rightarrow> balance_key \<times> 'd pre_token_balance \<Rightarrow> ('d::linordered_field) normalized_event" where
  "closed_balance_event meta update entry =
    (let previous = snd entry in
     holder_event meta update (fst (fst entry)) (unwrap_or (owner_label (pt_account_index previous)) (pt_owner previous))
       (pt_token_account previous) (decimals_of (pt_decimals previous)) (Some (pt_amount_raw previous)) 0
       (- pt_amount_raw previous) ''geyser_token_balance_closed_or_zeroed'')"

definition holder_balance_events ::
  "'d normalizer_env \<Rightarrow> 'd event_meta \<Rightarrow> transaction_update \<Rightarrow> ('d::linordered_field) normalized_event list" where
  "holder_balance_events env meta update =
    (case post_balance_events env meta update (tu_post_token_balances update)
        (fold (note_pre_balance env update) (tu_pre_token_balances update) []) of
       (events, pre) \<Rightarrow> events @ map (closed_balance_event meta update) pre)"

definition funding_event_from_transaction ::
  "'d event_meta \<Rightarrow> transaction_update \<Rightarrow> ('d::linordered_field) normalized_event option" where
  "funding_event_from_transaction meta update =
    Option.bind (find (\<lambda>i. ti_program_id i = system_program_id) (tu_instructions update)) (\<lambda>instruction.
      (case ti_accounts instruction of
         funder # wallet # _ \<Rightarrow>
           Option.bind (estimate_lamport_gain update wallet) (\<lambda>amount.
             if amount \<le> 0 then None
             else Some \<lparr>ne_meta = meta, ne_payload = WalletFunding
               \<lparr>wf_wallet = wallet, wf_funder = funder, wf_asset_label = ''SOL'', wf_amount = amount,
                wf_slot = tu_slot update, wf_signature = tu_signature update, wf_relation_to_launch = None,
                wf_near_launch_relation = False,
                wf_funding_graph_edge_id = ''funding:'' @ tu_signature update\<rparr>\<rparr>)
       | _ \<Rightarrow> None))"

subsection \<open>Curve updates\<close>

definition pending_curve_update_from_decoded ::
  "'d normalizer_env \<Rightarrow> 'd event_meta \<Rightarrow> string \<Rightarrow> decoded_account \<Rightarrow> account_update \<Rightarrow>
   ('d::linordered_field) pending_curve_update" where
  "pending_curve_update_from_decoded env meta curve_pubkey decoded update =
    (let fields = da_fields decoded in
     \<lparr>pu_meta = meta, pu_curve_pubkey = curve_pubkey,
      pu_virtual_quote = unwrap_or 0 (value_decimal_alias env fields [''virtual_quote_reserves'', ''virtual_sol_reserves'']),
      pu_virtual_token = unwrap_or 0 (value_decimal env fields ''virtual_token_reserves''),
      pu_real_quote = unwrap_or 0 (value_decimal_alias env fields [''real_quote_reserves'', ''real_sol_reserves'']),
      pu_real_token = unwrap_or 0 (value_decimal env fields ''real_token_reserves''),
      pu_token_total_supply_raw = value_decimal env fields ''token_total_supply'',
      pu_creator = value_string fields ''creator'', pu_quote_mint = value_string fields ''quote_mint'',
      pu_reserve_field_schema =
        (if fields ''virtual_quote_reserves'' \<noteq> None \<or> fields ''real_quote_reserves'' \<noteq> None
         then ''quote_reserves_v2'' else ''legacy_sol_reserves''),
      pu_complete = (case fields ''complete'' of Some (JBool b) \<Rightarrow> b | _ \<Rightarrow> False),
      pu_transaction_signature = au_transaction_signature update, pu_write_version = au_write_version update\<rparr>)"

text \<open>The conversions divide by ten to the power of six, so that their panic is left out with \<open>Option.join\<close>.\<close>

definition bonding_curve_event_from_pending ::
  "'d pending_curve_update \<Rightarrow> string \<Rightarrow> ('d::linordered_field) normalized_event" where
  "bonding_curve_event_from_pending pending mint =
    (let decimals = default_pump_token_decimals;
         per_raw = price_lamports_per_raw_token (pu_virtual_quote pending) (pu_virtual_token pending);
         price = unwrap_or 0 (Option.bind (pump_virtual_reserve_price_sol_per_token (pu_virtual_quote pending)
             (pu_virtual_token pending) decimals) (\<lambda>p. p));
         progress = Option.bind (pump_curve_progress_raw (pu_real_token pending) decimals) (\<lambda>p. p);
         supply = pu_token_total_supply_raw pending;
         confidence = (if per_raw \<noteq> None then 1 else 0)
     in \<lparr>ne_meta = (pu_meta pending)\<lparr>em_account_pubkey := Some (pu_curve_pubkey pending)\<rparr>,
         ne_payload = BondingCurveUpdate
          \<lparr>bc_mint = mint, bc_virtual_quote_reserves = pu_virtual_quote pending,
           bc_virtual_token_reserves = pu_virtual_token pending, bc_real_quote_reserves = pu_real_quote pending,
           bc_real_token_reserves = pu_real_token pending, bc_token_decimals = Some decimals,
           bc_token_total_supply_raw = supply,
           bc_token_total_supply_ui = Option.bind supply (\<lambda>raw. raw_tokens_to_ui raw decimals),
           bc_token_total_supply_source = map_option (\<lambda>_. ''bonding_curve_observed'') supply,
           bc_token_total_supply_confidence = map_option (\<lambda>_. ''observed'') supply,
           bc_quote_mint = pu_quote_mint pending, bc_creator = pu_creator pending,
           bc_reserve_field_schema = Some (pu_reserve_field_schema pending),
           bc_price_lamports_per_raw_token = per_raw, bc_price_sol_per_token = Some price,
           bc_reserve_price_source = Some ''virtual_reserves'', bc_reserve_price_confidence = Some confidence,
           bc_price = price, bc_market_cap_quote_1b = Some (pump_market_cap_quote_1b price),
           bc_market_cap_quote_total_supply =
             Some (pump_market_cap_quote_total_supply price (decimal_from pump_total_supply_ui)),
           bc_market_cap_source = Some ''price_times_curve_economic_supply'',
           bc_market_cap_confidence = Some confidence, bc_market_cap_proxy = None,
           bc_curve_complete_flag = Some (pu_complete pending), bc_curve_progress_pct = progress,
           bc_curve_progress_source = Some ''real_token_reserves_ui_minus_reserved'',
           bc_curve_progress_confidence = map_option (\<lambda>_. 1) progress, bc_curve_completion_pct = progress,
           bc_quote_reserve_delta = None, bc_token_reserve_delta = None,
           bc_update_reason = ''geyser_account_update'', bc_caused_by_signature = pu_transaction_signature pending,
           bc_account_write_version = Some (pu_write_version pending)\<rparr>\<rparr>)"

definition flush_pending_curve_updates ::
  "string \<Rightarrow> string \<Rightarrow> 'd event_normalizer \<Rightarrow> 'd event_normalizer \<times> ('d::linordered_field) normalized_event list" where
  "flush_pending_curve_updates curve_pubkey mint n =
    (n\<lparr>en_pending_curve_updates := (en_pending_curve_updates n)(curve_pubkey := None)\<rparr>,
     map (\<lambda>pending. bonding_curve_event_from_pending pending mint)
       (unwrap_or [] (en_pending_curve_updates n curve_pubkey)))"

text \<open>The updates of a curve whose mint is not known yet wait, once for each IDL that knows the account.\<close>

fun normalize_curve_account ::
  "'d normalizer_env \<Rightarrow> 'd event_meta \<Rightarrow> account_update \<Rightarrow> u8 list \<Rightarrow> loaded_idl list \<Rightarrow> 'd event_normalizer \<Rightarrow>
   ('d event_normalizer \<times> ('d::linordered_field) normalized_event list) option" where
  "normalize_curve_account env meta update bytes [] n = Some (n, [])"
| "normalize_curve_account env meta update bytes (idl # idls) n =
    (case decode_account (nv_fuel env) (nv_codecs env) idl bytes of
       None \<Rightarrow> None
     | Some (Inr (KnownAccount decoded)) \<Rightarrow>
         (let pending = pending_curve_update_from_decoded env meta (au_pubkey update) decoded update;
              waiting = unwrap_or [] (en_pending_curve_updates n (au_pubkey update)) in
          if da_name decoded \<noteq> ''BondingCurve'' then normalize_curve_account env meta update bytes idls n
          else (case en_curve_to_mint n (au_pubkey update) of
              Some mint \<Rightarrow> Some (n, [bonding_curve_event_from_pending pending mint])
            | None \<Rightarrow> normalize_curve_account env meta update bytes idls
                (n\<lparr>en_pending_curve_updates := (en_pending_curve_updates n)(au_pubkey update \<mapsto> waiting @ [pending])\<rparr>)))
     | Some _ \<Rightarrow> normalize_curve_account env meta update bytes idls n)"

definition normalize_account ::
  "'d normalizer_env \<Rightarrow> 'd event_meta \<Rightarrow> account_update \<Rightarrow> 'd event_normalizer \<Rightarrow>
   ('d event_normalizer \<times> ('d::linordered_field) normalized_event list) option" where
  "normalize_account env meta update n =
    (case nv_base64_decode env (au_data_base64 update) of
       None \<Rightarrow> Some (n, [])
     | Some bytes \<Rightarrow> normalize_curve_account env meta update bytes (en_idls n) n)"

subsection \<open>Instructions\<close>

definition debug_option :: "string option \<Rightarrow> string" where
  "debug_option x = (case x of None \<Rightarrow> ''None'' | Some s \<Rightarrow> ''Some('' @ s @ '')'')"

definition launch_fingerprint :: "transaction_update \<Rightarrow> u32 option \<times> u64 option \<Rightarrow> string" where
  "launch_fingerprint update budget =
    ''accounts:'' @ show_nat (length (tu_account_keys update)) @
    ''|ix:'' @ show_nat (length (tu_instructions update)) @
    ''|cu:'' @ debug_option (map_option (\<lambda>w. show_nat (unat w)) (fst budget)) @
    ''|cup:'' @ debug_option (map_option (\<lambda>w. show_nat (unat w)) (snd budget))"

definition instruction_meta :: "'d event_meta \<Rightarrow> transaction_update \<Rightarrow> nat \<Rightarrow> 'd event_meta" where
  "instruction_meta meta update index = meta\<lparr>em_instruction_index := Some (of_nat index),
     em_raw_reference := Some \<lparr>rr_source_id = tu_signature update, rr_cursor = Some (''ix:'' @ show_nat index),
       rr_offset = map_option ucast (tu_transaction_index update)\<rparr>\<rparr>"

definition creation_event ::
  "'d event_meta \<Rightarrow> transaction_update \<Rightarrow> transaction_instruction \<Rightarrow> decoded_instruction \<Rightarrow> (string \<rightharpoonup> string) \<Rightarrow>
   u32 option \<times> u64 option \<Rightarrow> transaction_status \<Rightarrow> string \<Rightarrow> string \<Rightarrow> string \<Rightarrow> nat \<Rightarrow> 'd normalized_event" where
  "creation_event meta update instruction decoded accounts budget status mint creator curve buys =
    \<lparr>ne_meta = meta, ne_payload = TokenCreated
      \<lparr>tc_mint = mint, tc_token_program = SplToken,
       tc_quote_mint = unwrap_or ''quote''
         (first_some (value_string (di_args decoded) ''quote_mint'') (account_alias accounts [''quote_mint''])),
       tc_quote_asset_type = quote_asset_of (di_args decoded), tc_creator_wallet = creator,
       tc_payer = unwrap_or creator (account_alias accounts [''user'', ''creator'']),
       tc_bonding_curve_account = curve,
       tc_associated_bonding_curve_account = account_alias accounts [''associated_bonding_curve'',
         ''associated_base_bonding_curve'', ''associated_quote_bonding_curve''],
       tc_metadata_account = None,
       tc_name = unwrap_or ''unknown'' (value_string (di_args decoded) ''name''),
       tc_symbol = unwrap_or ''UNK'' (value_string (di_args decoded) ''symbol''),
       tc_uri = unwrap_or [] (value_string (di_args decoded) ''uri''),
       tc_create_instruction_variant = di_name decoded,
       tc_initial_virtual_quote_reserves = None, tc_initial_virtual_token_reserves = None,
       tc_initial_real_quote_reserves = None, tc_initial_real_token_reserves = None,
       tc_initial_supply = None, tc_creator_initial_buy = None,
       tc_same_transaction_buys = of_nat buys, tc_same_slot_buys = 0, tc_fee_recipients = [],
       tc_raw_account_list = ti_accounts instruction,
       tc_launch_transaction_fingerprint = Some (launch_fingerprint update budget), tc_status = status\<rparr>\<rparr>"

definition normalize_create ::
  "'d normalizer_env \<Rightarrow> 'd event_meta \<Rightarrow> transaction_update \<Rightarrow> transaction_instruction \<Rightarrow> decoded_instruction \<Rightarrow>
   (string \<rightharpoonup> string) \<Rightarrow> u32 option \<times> u64 option \<Rightarrow> transaction_status \<Rightarrow> 'd event_normalizer \<Rightarrow>
   ('d event_normalizer \<times> ('d::linordered_field) normalized_event list) option" where
  "normalize_create env meta update instruction decoded accounts budget status n =
    (let mint = unwrap_or [] (account_alias accounts [''mint'', ''base_mint'']);
         creator = unwrap_or []
           (first_some (account_alias accounts [''creator'', ''user'']) (value_string (di_args decoded) ''creator''));
         curve = unwrap_or [] (accounts ''bonding_curve'') in
     if mint = [] \<or> creator = [] \<or> curve = [] then Some (n, [])
     else
       (let (n', flushed) =
          (if status \<noteq> Failed
           then flush_pending_curve_updates curve mint
             (n\<lparr>en_curve_to_mint := (en_curve_to_mint n)(curve \<mapsto> mint),
                en_mint_to_creator := (en_mint_to_creator n)(mint \<mapsto> creator)\<rparr>)
           else (n, [])) in
        map_option (\<lambda>buys.
            (n', creation_event meta update instruction decoded accounts budget status mint creator curve buys # flushed))
          (count_decoded_buys env (tu_instructions update) (en_idls n))))"

definition positive_amount :: "('d::linordered_field) option \<Rightarrow> 'd option" where
  "positive_amount x = (case x of Some v \<Rightarrow> if 0 < v then Some v else None | None \<Rightarrow> None)"

definition normalize_buy ::
  "'d normalizer_env \<Rightarrow> 'd event_meta \<Rightarrow> transaction_update \<Rightarrow> decoded_instruction \<Rightarrow> (string \<rightharpoonup> string) \<Rightarrow>
   u32 option \<times> u64 option \<Rightarrow> transaction_status \<Rightarrow> 'd event_normalizer \<Rightarrow>
   'd event_normalizer \<times> ('d::linordered_field) normalized_event list" where
  "normalize_buy env meta update decoded accounts budget status n =
    (case (account_alias accounts [''mint'', ''base_mint''], account_alias accounts [''buyer'', ''user'']) of
       (Some mint, Some buyer) \<Rightarrow>
         (let args = di_args decoded;
              token_out = unwrap_or (unwrap_or 1 (value_decimal_alias env args
                  [''min_token_out'', ''min_tokens_out'', ''amount'']))
                (positive_amount (estimate_token_delta env (tu_pre_token_balances update)
                  (tu_post_token_balances update) mint (Some buyer)));
              quote_in = unwrap_or 0 (first_some (estimate_lamport_spend update buyer)
                (value_decimal_alias env args [''quote_in'', ''spendable_quote_in'', ''max_sol_cost'']))
          in (n\<lparr>en_seen_buy_mints := insert mint (en_seen_buy_mints n)\<rparr>,
              [\<lparr>ne_meta = meta, ne_payload = PumpBuy
                \<lparr>pb_mint = mint, pb_buyer = buyer, pb_payer = buyer, pb_quote_in = quote_in, pb_token_out = token_out,
                 pb_price_before = None, pb_price_after = None, pb_effective_price = safe_price quote_in token_out,
                 pb_slippage_estimate = None, pb_reserves_before = None, pb_reserves_after = None,
                 pb_max_quote_cost = first_some (value_decimal_alias env args
                   [''max_quote_cost'', ''max_sol_cost'', ''spendable_quote_in'', ''quote_in'']) (Some quote_in),
                 pb_compute_unit_limit = fst budget, pb_compute_unit_price = snd budget,
                 pb_estimated_priority_fee_lamports = priority_fee_of budget,
                 pb_estimated_base_fee_lamports = Some (tu_fee_lamports update), pb_estimated_tip_lamports = None,
                 pb_is_creator = (en_mint_to_creator n mint = Some buyer), pb_is_known_cluster_member = False,
                 pb_is_first_buy = (mint \<notin> en_seen_buy_mints n), pb_status = status\<rparr>\<rparr>]))
     | _ \<Rightarrow> (n, []))"

definition normalize_sell ::
  "'d normalizer_env \<Rightarrow> 'd event_meta \<Rightarrow> transaction_update \<Rightarrow> decoded_instruction \<Rightarrow> (string \<rightharpoonup> string) \<Rightarrow>
   u32 option \<times> u64 option \<Rightarrow> transaction_status \<Rightarrow> 'd event_normalizer \<Rightarrow> ('d::linordered_field) normalized_event list" where
  "normalize_sell env meta update decoded accounts budget status n =
    (case (account_alias accounts [''mint'', ''base_mint''], account_alias accounts [''seller'', ''user'']) of
       (Some mint, Some seller) \<Rightarrow>
         (let args = di_args decoded;
              token_in = unwrap_or (unwrap_or 1 (value_decimal_alias env args [''token_in'', ''amount'']))
                (positive_amount (estimate_token_delta env (tu_post_token_balances update)
                  (tu_pre_token_balances update) mint (Some seller)));
              quote_out = unwrap_or
                (unwrap_or 0 (value_decimal_alias env args [''min_quote_out'', ''min_sol_output'']))
                (positive_amount (estimate_lamport_gain update seller))
          in [\<lparr>ne_meta = meta, ne_payload = PumpSell
                \<lparr>ps_mint = mint, ps_seller = seller, ps_quote_out = quote_out, ps_token_in = token_in,
                 ps_price_before = None, ps_price_after = None, ps_effective_price = safe_price quote_out token_in,
                 ps_slippage_estimate = None, ps_reserves_before = None, ps_reserves_after = None,
                 ps_min_quote_output = value_decimal env args ''min_quote_out'',
                 ps_compute_unit_limit = fst budget, ps_compute_unit_price = snd budget,
                 ps_estimated_priority_fee_lamports = priority_fee_of budget,
                 ps_estimated_base_fee_lamports = Some (tu_fee_lamports update), ps_estimated_tip_lamports = None,
                 ps_is_creator = (en_mint_to_creator n mint = Some seller), ps_is_top_holder_pre_sell = False,
                 ps_is_known_cluster_member = False, ps_status = status\<rparr>\<rparr>])
     | _ \<Rightarrow> [])"

text \<open>The names of the layout are zipped with the accounts of the instruction; a later duplicate wins.\<close>

definition named_accounts :: "decoded_instruction \<Rightarrow> transaction_instruction \<Rightarrow> (string \<rightharpoonup> string)" where
  "named_accounts decoded instruction = insert_all (zip (di_accounts decoded) (ti_accounts instruction))"

definition normalize_decoded ::
  "'d normalizer_env \<Rightarrow> 'd event_meta \<Rightarrow> transaction_update \<Rightarrow> u32 option \<times> u64 option \<Rightarrow> transaction_status \<Rightarrow>
   nat \<Rightarrow> transaction_instruction \<Rightarrow> decoded_instruction \<Rightarrow> 'd event_normalizer \<Rightarrow>
   ('d event_normalizer \<times> ('d::linordered_field) normalized_event list) option" where
  "normalize_decoded env meta update budget status index instruction decoded n =
    (let accounts = named_accounts decoded instruction;
         meta = instruction_meta meta update index in
     if di_name decoded \<in> {''create'', ''create_v2''}
     then normalize_create env meta update instruction decoded accounts budget status n
     else if di_name decoded \<in> set buy_names
     then Some (normalize_buy env meta update decoded accounts budget status n)
     else if di_name decoded \<in> {''sell'', ''sell_v2''}
     then Some (n, normalize_sell env meta update decoded accounts budget status n)
     else Some (n, []))"

fun normalize_instructions ::
  "'d normalizer_env \<Rightarrow> 'd event_meta \<Rightarrow> transaction_update \<Rightarrow> u32 option \<times> u64 option \<Rightarrow> transaction_status \<Rightarrow>
   nat \<Rightarrow> transaction_instruction list \<Rightarrow> 'd event_normalizer \<Rightarrow>
   ('d event_normalizer \<times> ('d::linordered_field) normalized_event list) option" where
  "normalize_instructions env meta update budget status index [] n = Some (n, [])"
| "normalize_instructions env meta update budget status index (i # is) n =
    Option.bind (decode_hex_instruction env (en_idls n) i) (\<lambda>decoded.
      Option.bind (case decoded of
          None \<Rightarrow> Some (n, [])
        | Some d \<Rightarrow> normalize_decoded env meta update budget status index i d n) (\<lambda>(n', events).
        map_option (\<lambda>(n'', rest). (n'', events @ rest))
          (normalize_instructions env meta update budget status (Suc index) is n')))"

definition normalize_transaction ::
  "'d normalizer_env \<Rightarrow> 'd event_meta \<Rightarrow> transaction_update \<Rightarrow> 'd event_normalizer \<Rightarrow>
   ('d event_normalizer \<times> ('d::linordered_field) normalized_event list) option" where
  "normalize_transaction env meta update n =
    (let budget = parse_compute_budget env (tu_instructions update);
         status = (if em_canonicality meta = Tentative then transaction_status.Unknown
                   else tx_status (tu_succeeded update)) in
     map_option (\<lambda>(n', events).
         (n', observed_transaction env meta update budget # events @ holder_balance_events env meta update @
              (case funding_event_from_transaction meta update of None \<Rightarrow> [] | Some e \<Rightarrow> [e])))
       (normalize_instructions env meta update budget status 0 (tu_instructions update) n))"

fun normalize_output ::
  "'d normalizer_env \<Rightarrow> 'd ingest_output \<Rightarrow> 'd event_normalizer \<Rightarrow>
   ('d event_normalizer \<times> ('d::linordered_field) normalized_event list) option" where
  "normalize_output env (OutTransaction meta update) n = normalize_transaction env meta update n"
| "normalize_output env (OutAccount meta update) n = normalize_account env meta update n"
| "normalize_output env (OutDataGap meta update) n = Some (n, [\<lparr>ne_meta = meta, ne_payload = DataGapPayload update\<rparr>])"
| "normalize_output env (OutSlot meta update) n = Some (n, [])"
| "normalize_output env (OutBlock meta update) n = Some (n, [])"

end
