(* ===== verification/Normalizer_Properties.thy ===== *)
theory Normalizer_Properties
  imports Event_Normalizer
begin

text \<open>
  What the normalizer does with a stream: the balance changes of a transaction add up, no update of a curve is lost or
  overtaken while it waits for its mint, and exactly the first buy of a mint is marked. The last two are laws of single
  actions that the locale \<open>normalizer_trace\<close> carries to every run.
\<close>

subsection \<open>The balance changes of a transaction\<close>

definition delta_in :: "string \<Rightarrow> ('d::linordered_field) normalized_event \<Rightarrow> 'd" where
  "delta_in mint e = (case ne_payload e of
     HolderBalanceUpdate h \<Rightarrow> if hb_mint h = mint then hb_delta h else 0 | _ \<Rightarrow> 0)"

definition total_delta :: "string \<Rightarrow> ('d::linordered_field) normalized_event list \<Rightarrow> 'd" where
  "total_delta mint events = sum_list (map (delta_in mint) events)"

definition mint_total ::
  "'d normalizer_env \<Rightarrow> string \<Rightarrow> transaction_token_balance list \<Rightarrow> 'd::linordered_field" where
  "mint_total env mint balances = sum_list (map (\<lambda>b. if tb_mint b = mint then token_amount env b else 0) balances)"

definition recorded_total :: "string \<Rightarrow> (balance_key \<times> 'd pre_token_balance) list \<Rightarrow> 'd::linordered_field" where
  "recorded_total mint pre = sum_list (map (\<lambda>(key, p). if fst key = mint then pt_amount_raw p else 0) pre)"

lemma total_delta_simps [simp]:
  "total_delta mint [] = 0"
  "total_delta mint (e # es) = delta_in mint e + total_delta mint es"
  "total_delta mint (es @ es') = total_delta mint es + total_delta mint es'"
  by (simp_all add: total_delta_def)

lemma delta_in_holder_event [simp]:
  "delta_in m (holder_event meta update mint owner account decimals old new delta reason) =
    (if mint = m then delta else 0)"
  by (simp add: delta_in_def holder_event_def)

lemma distinct_keys_delete: "distinct (map fst pre) \<Longrightarrow> distinct (map fst (AList.delete key pre))"
  by (rule distinct_delete)

lemma recorded_total_delete:
  assumes "distinct (map fst pre)"
  shows "recorded_total mint (AList.delete key pre) = recorded_total mint pre -
    (case map_of pre key of None \<Rightarrow> 0 | Some p \<Rightarrow> if fst key = mint then pt_amount_raw p else 0)"
  using assms
proof (induction pre)
  case Nil
  then show ?case by (simp add: recorded_total_def)
next
  case (Cons entry pre)
  obtain k p where entry: "entry = (k, p)" by (cases entry)
  show ?case
  proof (cases "k = key")
    case True
    then have "key \<notin> fst ` set pre" using Cons.prems entry by simp
    then have "AList.delete key pre = pre" "map_of pre key = None"
      by (simp_all add: delete_id map_of_eq_None_iff)
    then show ?thesis using True entry by (simp add: recorded_total_def)
  next
    case False
    then show ?thesis using Cons entry by (simp add: recorded_total_def split: option.split)
  qed
qed

lemma post_events_total:
  assumes "distinct (map fst pre)"
  shows "total_delta mint (fst (post_balance_events env meta update bs pre)) =
      mint_total env mint bs - recorded_total mint pre +
      recorded_total mint (snd (post_balance_events env meta update bs pre)) \<and>
    distinct (map fst (snd (post_balance_events env meta update bs pre)))"
  using assms
proof (induction bs arbitrary: pre)
  case Nil
  then show ?case by (simp add: mint_total_def)
next
  case (Cons b bs)
  let ?key = "balance_key_of update b"
  note IH = Cons.IH [OF distinct_keys_delete [OF Cons.prems], of ?key]
  have "fst ?key = tb_mint b" by (simp add: balance_key_of_def)
  then show ?case using IH
    by (simp add: Let_def recorded_total_delete [OF Cons.prems] mint_total_def unwrap_or_def split: option.split)
qed

lemma closed_events_total: "total_delta mint (map (closed_balance_event meta update) pre) = - recorded_total mint pre"
  by (induction pre) (auto simp: recorded_total_def closed_balance_event_def Let_def)

lemma update_new_key: "key \<notin> fst ` set xs \<Longrightarrow> AList.update key v xs = xs @ [(key, v)]"
  by (induction xs) auto

lemma pre_balances_recorded:
  assumes "distinct (map (balance_key_of update) bs)" "distinct (map fst acc)"
    "set (map (balance_key_of update) bs) \<inter> fst ` set acc = {}"
  shows "recorded_total mint (fold (note_pre_balance env update) bs acc) =
      recorded_total mint acc + mint_total env mint bs \<and>
    distinct (map fst (fold (note_pre_balance env update) bs acc))"
  using assms
proof (induction bs arbitrary: acc)
  case Nil
  then show ?case by (simp add: mint_total_def)
next
  case (Cons b bs)
  have new: "balance_key_of update b \<notin> fst ` set acc" using Cons.prems(3) by auto
  have key: "fst (balance_key_of update b) = tb_mint b" by (simp add: balance_key_of_def)
  let ?acc = "note_pre_balance env update b acc"
  have step: "?acc = acc @ [(balance_key_of update b, \<lparr>pt_owner = tb_owner b,
      pt_token_account = snd (balance_key_of update b), pt_amount_raw = token_amount env b,
      pt_account_index = tb_account_index b, pt_decimals = tb_decimals b\<rparr>)]"
    unfolding note_pre_balance_def by (rule update_new_key [OF new])
  have "recorded_total mint (fold (note_pre_balance env update) bs ?acc) =
      recorded_total mint ?acc + mint_total env mint bs \<and>
    distinct (map fst (fold (note_pre_balance env update) bs ?acc))"
    using Cons.prems new by (intro Cons.IH) (auto simp: step)
  then show ?case using key by (simp add: step recorded_total_def mint_total_def)
qed

text \<open>
  C35. The balance changes that a transaction reports for a mint add up to the difference of its total balances before
  and after, whatever accounts were opened, closed or listed twice afterwards.
\<close>

theorem token_deltas_balance:
  assumes "distinct (map (balance_key_of update) (tu_pre_token_balances update))"
  shows "total_delta mint (holder_balance_events env meta update) =
    mint_total env mint (tu_post_token_balances update) - mint_total env mint (tu_pre_token_balances update)"
proof -
  let ?pre = "fold (note_pre_balance env update) (tu_pre_token_balances update) []"
  have pre: "recorded_total mint ?pre = mint_total env mint (tu_pre_token_balances update)" "distinct (map fst ?pre)"
    using pre_balances_recorded [OF assms, of "[]" mint env] by (simp_all add: recorded_total_def)
  show ?thesis
    using post_events_total [OF pre(2), of mint env meta update "tu_post_token_balances update"] pre(1)
    by (simp add: holder_balance_events_def case_prod_beta closed_events_total)
qed

subsection \<open>Runs\<close>

fun normalize_run ::
  "'d normalizer_env \<Rightarrow> 'd ingest_output list \<Rightarrow> 'd event_normalizer \<Rightarrow>
   ('d event_normalizer \<times> ('d::linordered_field) normalized_event list) option" where
  "normalize_run env [] n = Some (n, [])"
| "normalize_run env (output # outputs) n =
    Option.bind (normalize_output env output n) (\<lambda>(n', events).
      map_option (\<lambda>(n'', rest). (n'', events @ rest)) (normalize_run env outputs n'))"

fun is_silent_output :: "'d ingest_output \<Rightarrow> bool" where
  "is_silent_output (OutAccount _ _) = False"
| "is_silent_output (OutDataGap _ _) = False"
| "is_silent_output _ = True"

fun plain_payload :: "'d event_payload \<Rightarrow> bool" where
  "plain_payload (BondingCurveUpdate _) = False"
| "plain_payload (PumpBuy _) = False"
| "plain_payload (DataGapPayload _) = False"
| "plain_payload _ = True"

definition plain_event :: "'d normalized_event \<Rightarrow> bool" where
  "plain_event e = plain_payload (ne_payload e)"

text \<open>
  A law relates the outputs that arrive, the state before, the events and the state after. When the single actions
  keep it and it composes, every run keeps it.
\<close>

locale normalizer_trace =
  fixes env :: "('d::linordered_field) normalizer_env"
    and law :: "'d ingest_output list \<Rightarrow> 'd event_normalizer \<Rightarrow> 'd normalized_event list \<Rightarrow> 'd event_normalizer \<Rightarrow> bool"
  assumes plain: "list_all plain_event events \<Longrightarrow> law [] n events n"
    and compose: "law os n es n' \<Longrightarrow> law os' n' es' n'' \<Longrightarrow> law (os @ os') n (es @ es') n''"
    and silent: "law [] n es n' \<Longrightarrow> is_silent_output arrived \<Longrightarrow> law [arrived] n es n'"
    and gap: "law [OutDataGap meta g] n [\<lparr>ne_meta = meta, ne_payload = DataGapPayload g\<rparr>] n"
    and create: "normalize_create env meta update instruction decoded accounts budget status n = Some (n', es) \<Longrightarrow>
      law [] n es n'"
    and buy: "normalize_buy env meta update decoded accounts budget status n = (n', es) \<Longrightarrow> law [] n es n'"
    and account: "normalize_account env meta account_update n = Some (n', es) \<Longrightarrow>
      law [OutAccount meta account_update] n es n'"
begin

lemma decoded_law:
  assumes "normalize_decoded env meta update budget status index instruction decoded n = Some (n', es)"
  shows "law [] n es n'"
proof -
  have sells: "list_all plain_event (normalize_sell env m update decoded accounts budget status n)" for m accounts
    by (simp add: normalize_sell_def plain_event_def Let_def split: option.split)
  show ?thesis
    using assms create buy plain [OF sells] plain [of "[]"]
    by (auto simp: normalize_decoded_def Let_def split: if_splits)
qed

lemma instructions_law:
  "normalize_instructions env meta update budget status index is n = Some (n', es) \<Longrightarrow> law [] n es n'"
proof (induction "is" arbitrary: index n es)
  case Nil
  then show ?case by (simp add: plain)
next
  case (Cons i "is")
  from Cons.prems obtain decoded n1 es1 es2 where
    head: "(case decoded of None \<Rightarrow> Some (n, [])
      | Some d \<Rightarrow> normalize_decoded env meta update budget status index i d n) = Some (n1, es1)"
    and tail: "normalize_instructions env meta update budget status (Suc index) is n1 = Some (n', es2)"
    and es: "es = es1 @ es2"
    by (auto simp: bind_eq_Some_conv)
  have "law [] n es1 n1"
    using head decoded_law plain [of "[]"] by (auto split: option.splits)
  from compose [OF this Cons.IH [OF tail]] es show ?case by simp
qed

lemma transaction_law:
  assumes "normalize_transaction env meta update n = Some (n', es)"
  shows "law [] n es n'"
proof -
  let ?budget = "parse_compute_budget env (tu_instructions update)"
  from assms obtain events status where
    run: "normalize_instructions env meta update ?budget status 0 (tu_instructions update) n = Some (n', events)"
    and es: "es = [observed_transaction env meta update ?budget] @ events @ holder_balance_events env meta update @
      (case funding_event_from_transaction meta update of None \<Rightarrow> [] | Some e \<Rightarrow> [e])"
    by (auto simp: normalize_transaction_def Let_def)
  have post: "list_all plain_event (fst (post_balance_events env meta update bs pre))" for bs pre
    by (induction bs arbitrary: pre) (simp_all add: Let_def plain_event_def holder_event_def)
  have holders: "list_all plain_event (holder_balance_events env meta update)"
    using post by (auto simp: holder_balance_events_def case_prod_beta list_all_iff closed_balance_event_def Let_def
        plain_event_def holder_event_def)
  have "plain_event e" if "funding_event_from_transaction meta update = Some e" for e
    using that unfolding funding_event_from_transaction_def
    by (elim bind_eq_Some_conv [THEN iffD1, elim_format] exE conjE)
      (auto simp: plain_event_def bind_eq_Some_conv split: list.splits if_splits)
  then have funding: "list_all plain_event (case funding_event_from_transaction meta update of None \<Rightarrow> [] | Some e \<Rightarrow> [e])"
    by (simp split: option.split)
  have observed: "list_all plain_event [observed_transaction env meta update ?budget]"
    by (simp add: observed_transaction_def plain_event_def)
  have rest: "list_all plain_event (holder_balance_events env meta update @
      (case funding_event_from_transaction meta update of None \<Rightarrow> [] | Some e \<Rightarrow> [e]))"
    using holders funding by simp
  show ?thesis
    using compose [OF plain [OF observed, of n] compose [OF instructions_law [OF run] plain [OF rest]]] by (simp add: es)
qed

lemma output_law: "normalize_output env arrived n = Some (n', es) \<Longrightarrow> law [arrived] n es n'"
  by (cases arrived)
    (auto intro: account transaction_law gap silent [OF plain] silent [OF transaction_law])

lemma run_law: "normalize_run env outputs n = Some (n', es) \<Longrightarrow> law outputs n es n'"
proof (induction outputs arbitrary: n es)
  case Nil
  then show ?case by (simp add: plain)
next
  case (Cons arrived arriving)
  then obtain n1 es1 es2 where "normalize_output env arrived n = Some (n1, es1)"
    "normalize_run env arriving n1 = Some (n', es2)" "es = es1 @ es2"
    by (auto simp: bind_eq_Some_conv)
  then show ?case using compose [OF output_law Cons.IH] by fastforce
qed

end

subsection \<open>The updates of a curve\<close>

definition waiting_updates :: "'d event_normalizer \<Rightarrow> string \<Rightarrow> 'd pending_curve_update list" where
  "waiting_updates n curve = unwrap_or [] (en_pending_curve_updates n curve)"

definition curve_reading ::
  "'d normalizer_env \<Rightarrow> loaded_idl \<Rightarrow> 'd event_meta \<Rightarrow> account_update \<Rightarrow> ('d::linordered_field) pending_curve_update list" where
  "curve_reading env idl meta update =
    (case nv_base64_decode env (au_data_base64 update) of
       None \<Rightarrow> []
     | Some bytes \<Rightarrow>
        (case decode_account (nv_fuel env) (nv_codecs env) idl bytes of
           Some (Inr (KnownAccount decoded)) \<Rightarrow>
             if da_name decoded = ''BondingCurve''
             then [pending_curve_update_from_decoded env meta (au_pubkey update) decoded update] else []
         | _ \<Rightarrow> []))"

text \<open>The updates of a curve that arrive, and the curve events that leave, in their order.\<close>

fun arrivals ::
  "'d normalizer_env \<Rightarrow> loaded_idl \<Rightarrow> string \<Rightarrow> 'd ingest_output list \<Rightarrow> ('d::linordered_field) pending_curve_update list" where
  "arrivals env idl curve [] = []"
| "arrivals env idl curve (OutAccount meta update # arriving) =
    (if au_pubkey update = curve then curve_reading env idl meta update else []) @ arrivals env idl curve arriving"
| "arrivals env idl curve (_ # arriving) = arrivals env idl curve arriving"

definition is_curve_event :: "string \<Rightarrow> 'd normalized_event \<Rightarrow> bool" where
  "is_curve_event curve e \<longleftrightarrow> em_account_pubkey (ne_meta e) = Some curve \<and>
    (case ne_payload e of BondingCurveUpdate _ \<Rightarrow> True | _ \<Rightarrow> False)"

definition curve_events :: "string \<Rightarrow> 'd normalized_event list \<Rightarrow> 'd normalized_event list" where
  "curve_events curve events = filter (is_curve_event curve) events"

definition shows_update :: "('d::linordered_field) normalized_event \<Rightarrow> 'd pending_curve_update \<Rightarrow> bool" where
  "shows_update e pending \<longleftrightarrow> (\<exists>mint. e = bonding_curve_event_from_pending pending mint)"

definition waiting_ok :: "'d event_normalizer \<Rightarrow> bool" where
  "waiting_ok n \<longleftrightarrow> (\<forall>curve. en_curve_to_mint n curve \<noteq> None \<longrightarrow> waiting_updates n curve = []) \<and>
    (\<forall>curve. list_all (\<lambda>pending. pu_curve_pubkey pending = curve) (waiting_updates n curve))"

lemma arrivals_append [simp]:
  "arrivals env idl curve (os @ os') = arrivals env idl curve os @ arrivals env idl curve os'"
  by (induction env idl curve os rule: arrivals.induct) auto

lemma curve_events_append [simp]: "curve_events curve (es @ es') = curve_events curve es @ curve_events curve es'"
  by (simp add: curve_events_def)

lemma curve_events_plain: "list_all plain_event events \<Longrightarrow> curve_events curve events = []"
  by (induction events) (auto simp: curve_events_def is_curve_event_def plain_event_def split: event_payload.splits)

lemma is_curve_event_pending [simp]:
  "is_curve_event curve (bonding_curve_event_from_pending pending mint) \<longleftrightarrow> pu_curve_pubkey pending = curve"
  by (simp add: is_curve_event_def bonding_curve_event_from_pending_def Let_def)

lemma pending_curve_pubkey [simp]:
  "pu_curve_pubkey (pending_curve_update_from_decoded env meta curve decoded update) = curve"
  by (simp add: pending_curve_update_from_decoded_def Let_def)

definition curve_law ::
  "'d normalizer_env \<Rightarrow> loaded_idl \<Rightarrow> string \<Rightarrow> 'd ingest_output list \<Rightarrow> 'd event_normalizer \<Rightarrow>
   ('d::linordered_field) normalized_event list \<Rightarrow> 'd event_normalizer \<Rightarrow> bool" where
  "curve_law env idl curve os n es n' \<longleftrightarrow> (en_idls n = [idl] \<and> waiting_ok n \<longrightarrow>
    en_idls n' = [idl] \<and> waiting_ok n' \<and>
    (\<exists>published. waiting_updates n curve @ arrivals env idl curve os = published @ waiting_updates n' curve \<and>
      list_all2 shows_update (curve_events curve es) published))"

lemma flushed_events:
  assumes "list_all (\<lambda>pending. pu_curve_pubkey pending = c) xs"
  shows "list_all2 shows_update (curve_events curve (map (\<lambda>p. bonding_curve_event_from_pending p mint) xs))
    (if c = curve then xs else [])"
  using assms by (induction xs) (auto simp: curve_events_def shows_update_def)

lemma create_curve_law:
  assumes "normalize_create env meta update instruction decoded accounts budget status n = Some (n', es)"
  shows "curve_law env idl curve [] n es n'"
proof -
  have quiet: "curve_events curve [creation_event m update instruction decoded accounts budget status mint creator c buys] = []"
    for m mint creator c buys by (rule curve_events_plain) (simp add: creation_event_def plain_event_def)
  have first: "curve_events curve (creation_event m update instruction decoded accounts budget status mint creator c buys # rest) =
      curve_events curve rest" for m mint creator c buys rest
    using quiet [of m mint creator c buys] by (simp add: curve_events_def split: if_splits)
  consider "n' = n" "es = []"
    | m mint creator c buys where "n' = n"
      "es = [creation_event m update instruction decoded accounts budget status mint creator c buys]"
    | m mint creator c buys where
      "n' = n\<lparr>en_curve_to_mint := (en_curve_to_mint n)(c \<mapsto> mint),
        en_mint_to_creator := (en_mint_to_creator n)(mint \<mapsto> creator),
        en_pending_curve_updates := (en_pending_curve_updates n)(c := None)\<rparr>"
      "es = creation_event m update instruction decoded accounts budget status mint creator c buys #
        map (\<lambda>p. bonding_curve_event_from_pending p mint) (waiting_updates n c)"
    using assms by (auto simp: normalize_create_def flush_pending_curve_updates_def waiting_updates_def Let_def
        split: if_splits)
  then show ?thesis
  proof cases
    case 1
    then show ?thesis by (simp add: curve_law_def curve_events_def)
  next
    case 2
    then show ?thesis by (simp add: curve_law_def quiet)
  next
    case 3
    show ?thesis unfolding curve_law_def
    proof (intro impI conjI)
      assume ok: "en_idls n = [idl] \<and> waiting_ok n"
      then show "en_idls n' = [idl]" "waiting_ok n'"
        using 3(1) by (auto simp: waiting_ok_def waiting_updates_def unwrap_or_def)
      have c: "list_all (\<lambda>p. pu_curve_pubkey p = c) (waiting_updates n c)" using ok by (simp add: waiting_ok_def)
      show "\<exists>published. waiting_updates n curve @ arrivals env idl curve [] = published @ waiting_updates n' curve \<and>
          list_all2 shows_update (curve_events curve es) published"
        using flushed_events [OF c, of curve mint] 3
        by (intro exI [of _ "if c = curve then waiting_updates n curve else []"])
          (auto simp: first waiting_updates_def unwrap_or_def)
    qed
  qed
qed

lemma buy_keeps:
  assumes "normalize_buy env meta update decoded accounts budget status n = (n', es)"
  shows "en_idls n' = en_idls n \<and> en_curve_to_mint n' = en_curve_to_mint n \<and>
    en_pending_curve_updates n' = en_pending_curve_updates n \<and> curve_events curve es = []"
  using assms by (auto simp: normalize_buy_def Let_def curve_events_def is_curve_event_def split: option.splits)

lemma account_curve_law:
  assumes "normalize_account env meta update n = Some (n', es)"
  shows "curve_law env idl curve [OutAccount meta update] n es n'"
  unfolding curve_law_def
proof
  assume ok: "en_idls n = [idl] \<and> waiting_ok n"
  let ?goal = "en_idls n' = [idl] \<and> waiting_ok n' \<and> (\<exists>published.
      waiting_updates n curve @ arrivals env idl curve [OutAccount meta update] = published @ waiting_updates n' curve \<and>
      list_all2 shows_update (curve_events curve es) published)"
  let ?c = "au_pubkey update"
  consider "n' = n" "es = []" "curve_reading env idl meta update = []"
    | pending mint where "curve_reading env idl meta update = [pending]" "pu_curve_pubkey pending = ?c"
      "en_curve_to_mint n ?c = Some mint" "n' = n" "es = [bonding_curve_event_from_pending pending mint]"
    | pending where "curve_reading env idl meta update = [pending]" "pu_curve_pubkey pending = ?c"
      "en_curve_to_mint n ?c = None" "es = []"
      "n' = n\<lparr>en_pending_curve_updates := (en_pending_curve_updates n)(?c \<mapsto> waiting_updates n ?c @ [pending])\<rparr>"
    using assms ok by (auto simp: normalize_account_def curve_reading_def waiting_updates_def Let_def
        split: option.splits sum.splits account_decode.splits if_splits)
  then show ?goal
  proof cases
    case 1
    then show ?thesis using ok by (simp add: curve_events_def)
  next
    case 2
    then have "waiting_updates n ?c = []" using ok by (simp add: waiting_ok_def)
    then show ?thesis using 2 ok
      by (intro conjI exI [of _ "if ?c = curve then [pending] else []"]) (auto simp: curve_events_def shows_update_def)
  next
    case 3
    have "waiting_ok n'"
      using 3 ok by (auto simp: waiting_ok_def waiting_updates_def unwrap_or_def)
    then show ?thesis using 3 ok
      by (intro conjI exI [of _ "[]"]) (auto simp: curve_events_def waiting_updates_def unwrap_or_def)
  qed
qed

interpretation curves: normalizer_trace env "curve_law env idl curve" for env idl curve
proof
  show "curve_law env idl curve [] n es n" if "list_all plain_event es" for es n
    using that by (simp add: curve_law_def curve_events_plain)
  show "curve_law env idl curve (os @ os') n (es @ es') n''"
    if "curve_law env idl curve os n es n'" "curve_law env idl curve os' n' es' n''" for os n es n' os' es' n''
    unfolding curve_law_def
  proof
    assume "en_idls n = [idl] \<and> waiting_ok n"
    with that obtain p p' where "en_idls n'' = [idl]" "waiting_ok n''"
      "waiting_updates n curve @ arrivals env idl curve os = p @ waiting_updates n' curve"
      "list_all2 shows_update (curve_events curve es) p"
      "waiting_updates n' curve @ arrivals env idl curve os' = p' @ waiting_updates n'' curve"
      "list_all2 shows_update (curve_events curve es') p'"
      by (auto simp: curve_law_def)
    then show "en_idls n'' = [idl] \<and> waiting_ok n'' \<and> (\<exists>published.
        waiting_updates n curve @ arrivals env idl curve (os @ os') = published @ waiting_updates n'' curve \<and>
        list_all2 shows_update (curve_events curve (es @ es')) published)"
      by (intro conjI exI [of _ "p @ p'"]) (simp_all add: list_all2_appendI, metis append_assoc)
  qed
  show "curve_law env idl curve [arrived] n es n'"
    if "curve_law env idl curve [] n es n'" "is_silent_output arrived" for arrived n es n'
    using that by (cases arrived) (simp_all add: curve_law_def)
  show "curve_law env idl curve [OutDataGap meta g] n [\<lparr>ne_meta = meta, ne_payload = DataGapPayload g\<rparr>] n" for meta g n
    by (simp add: curve_law_def curve_events_def is_curve_event_def)
  show "curve_law env idl curve [] n es n'"
    if "normalize_buy env meta update decoded accounts budget status n = (n', es)"
    for meta update decoded accounts budget status n n' es
    using buy_keeps [OF that] by (simp add: curve_law_def waiting_ok_def waiting_updates_def)
qed (rule create_curve_law account_curve_law, assumption)+

definition fresh_normalizer :: "loaded_idl list \<Rightarrow> 'd event_normalizer" where
  "fresh_normalizer idls = \<lparr>en_idls = idls, en_curve_to_mint = (\<lambda>_. None), en_mint_to_creator = (\<lambda>_. None),
     en_seen_buy_mints = {}, en_pending_curve_updates = (\<lambda>_. None)\<rparr>"


subsection \<open>First buys\<close>

definition first_marks :: "string \<Rightarrow> 'd normalized_event list \<Rightarrow> bool list" where
  "first_marks mint events = List.map_filter (\<lambda>e. case ne_payload e of
     PumpBuy b \<Rightarrow> if pb_mint b = mint then Some (pb_is_first_buy b) else None | _ \<Rightarrow> None) events"

fun marks_from :: "bool \<Rightarrow> nat \<Rightarrow> bool list" where
  "marks_from seen 0 = []"
| "marks_from seen (Suc k) = (\<not> seen) # replicate k False"

lemma length_marks_from [simp]: "length (marks_from seen k) = k"
  by (cases k) simp_all

lemma marks_from_append: "marks_from seen i @ marks_from (seen \<or> 0 < i) j = marks_from seen (i + j)"
  by (cases i; cases j) (auto simp flip: replicate_Suc replicate_add)

definition buy_law ::
  "string \<Rightarrow> 'd ingest_output list \<Rightarrow> 'd event_normalizer \<Rightarrow> ('d::linordered_field) normalized_event list \<Rightarrow>
   'd event_normalizer \<Rightarrow> bool" where
  "buy_law mint os n es n' \<longleftrightarrow>
    first_marks mint es = marks_from (mint \<in> en_seen_buy_mints n) (length (first_marks mint es)) \<and>
    (mint \<in> en_seen_buy_mints n' \<longleftrightarrow> mint \<in> en_seen_buy_mints n \<or> first_marks mint es \<noteq> [])"

lemma first_marks_append [simp]: "first_marks mint (es @ es') = first_marks mint es @ first_marks mint es'"
  by (simp add: first_marks_def map_filter_def)

lemma first_marks_simps [simp]:
  "first_marks mint [] = []"
  "first_marks mint (e # es) = (case ne_payload e of
     PumpBuy b \<Rightarrow> if pb_mint b = mint then [pb_is_first_buy b] else [] | _ \<Rightarrow> []) @ first_marks mint es"
  by (simp_all add: first_marks_def map_filter_def split: event_payload.split)

lemma no_marks: "list_all (\<lambda>e. case ne_payload e of PumpBuy _ \<Rightarrow> False | _ \<Rightarrow> True) es \<Longrightarrow> first_marks mint es = []"
  by (induction es) (auto split: event_payload.splits)

lemma curve_event_no_marks [simp]: "first_marks mint (map (\<lambda>p. bonding_curve_event_from_pending p m) ps) = []"
  by (rule no_marks) (simp add: list_all_iff bonding_curve_event_from_pending_def Let_def)

lemma buy_event_cases:
  assumes "normalize_buy env meta update decoded accounts budget status n = (n', es)"
  obtains "n' = n" "es = []"
    | m b where "n' = n\<lparr>en_seen_buy_mints := insert (pb_mint b) (en_seen_buy_mints n)\<rparr>"
      "es = [\<lparr>ne_meta = m, ne_payload = PumpBuy b\<rparr>]" "pb_is_first_buy b \<longleftrightarrow> pb_mint b \<notin> en_seen_buy_mints n"
  using assms by (force simp: normalize_buy_def Let_def split: option.splits)

interpretation buys: normalizer_trace env "buy_law mint" for env mint
proof
  show "buy_law mint [] n es n" if "list_all plain_event es" for es n
  proof -
    have "first_marks mint es = []"
      using that by (intro no_marks) (auto simp: plain_event_def list_all_iff split: event_payload.splits)
    then show ?thesis by (simp add: buy_law_def)
  qed
  show "buy_law mint (os @ os') n (es @ es') n''"
    if "buy_law mint os n es n'" "buy_law mint os' n' es' n''" for os n es n' os' es' n''
    using that marks_from_append [of "mint \<in> en_seen_buy_mints n" "length (first_marks mint es)" "length (first_marks mint es')"]
    by (auto simp: buy_law_def)
  show "buy_law mint [] n es n'"
    if "normalize_create env meta update instruction decoded accounts budget status n = Some (n', es)"
    for meta update instruction decoded accounts budget status n n' es
    using that by (auto simp: normalize_create_def flush_pending_curve_updates_def Let_def buy_law_def
        creation_event_def split: if_splits)
  show "buy_law mint [] n es n'"
    if "normalize_buy env meta update decoded accounts budget status n = (n', es)"
    for meta update decoded accounts budget status n n' es
    using that by (rule buy_event_cases) (auto simp: buy_law_def)
  show "buy_law mint [OutAccount meta update] n es n'" if "normalize_account env meta update n = Some (n', es)"
    for meta update n n' es
  proof -
    have "en_seen_buy_mints m' = en_seen_buy_mints m \<and> first_marks mint es = []"
      if "normalize_curve_account env meta update bytes idls m = Some (m', es)" for bytes idls m m' es
      using that
    proof (induction idls arbitrary: m)
      case (Cons idl idls)
      then show ?case
        by (auto simp: Let_def bonding_curve_event_from_pending_def
            split: option.splits sum.splits account_decode.splits if_splits)
    qed simp
    then show ?thesis using that by (auto simp: normalize_account_def buy_law_def split: option.splits)
  qed
qed (simp_all add: buy_law_def)

text \<open>Exactly the first buy event of a mint is marked, also when its transaction failed.\<close>

theorem first_buys_exact:
  assumes "normalize_run env outputs (fresh_normalizer idls) = Some (n, events)"
  shows "first_marks mint events = marks_from False (length (first_marks mint events))"
  using buys.run_law [OF assms, of mint] by (simp add: buy_law_def fresh_normalizer_def)

subsection \<open>Data gaps\<close>

definition gap_payloads :: "'d normalized_event list \<Rightarrow> data_gap_event list" where
  "gap_payloads events = List.map_filter (\<lambda>e. case ne_payload e of DataGapPayload p \<Rightarrow> Some p | _ \<Rightarrow> None) events"

fun output_gaps :: "'d ingest_output list \<Rightarrow> data_gap_event list" where
  "output_gaps [] = []"
| "output_gaps (OutDataGap meta g # arriving) = g # output_gaps arriving"
| "output_gaps (_ # arriving) = output_gaps arriving"

lemma output_gaps_append [simp]: "output_gaps (os @ os') = output_gaps os @ output_gaps os'"
  by (induction os rule: output_gaps.induct) auto

lemma gap_payloads_simps [simp]:
  "gap_payloads [] = []"
  "gap_payloads (e # es) = (case ne_payload e of DataGapPayload p \<Rightarrow> [p] | _ \<Rightarrow> []) @ gap_payloads es"
  "gap_payloads (es @ es') = gap_payloads es @ gap_payloads es'"
  by (simp_all add: gap_payloads_def map_filter_def split: event_payload.split)

lemma no_gap_payloads: "list_all (\<lambda>e. case ne_payload e of DataGapPayload _ \<Rightarrow> False | _ \<Rightarrow> True) es \<Longrightarrow> gap_payloads es = []"
  by (induction es) (auto split: event_payload.splits)

lemma curve_event_no_gaps [simp]: "gap_payloads (map (\<lambda>p. bonding_curve_event_from_pending p m) ps) = []"
  by (rule no_gap_payloads) (simp add: list_all_iff bonding_curve_event_from_pending_def Let_def)

definition gap_law ::
  "'d ingest_output list \<Rightarrow> 'd event_normalizer \<Rightarrow> ('d::linordered_field) normalized_event list \<Rightarrow> 'd event_normalizer \<Rightarrow> bool" where
  "gap_law os n es n' \<longleftrightarrow> gap_payloads es = output_gaps os"

interpretation gaps: normalizer_trace env gap_law for env
proof
  show "gap_law [] n es n" if "list_all plain_event es" for es n
    unfolding gap_law_def output_gaps.simps
    using that by (intro no_gap_payloads) (auto simp: plain_event_def list_all_iff split: event_payload.splits)
  show "gap_law [arrived] n es n'" if "gap_law [] n es n'" "is_silent_output arrived" for arrived n es n'
    using that by (cases arrived) (simp_all add: gap_law_def)
  show "gap_law [] n es n'"
    if "normalize_create env meta update instruction decoded accounts budget status n = Some (n', es)"
    for meta update instruction decoded accounts budget status n n' es
    using that by (auto simp: normalize_create_def flush_pending_curve_updates_def Let_def gap_law_def
        creation_event_def split: if_splits)
  show "gap_law [] n es n'"
    if "normalize_buy env meta update decoded accounts budget status n = (n', es)"
    for meta update decoded accounts budget status n n' es
    using that by (rule buy_event_cases) (auto simp: gap_law_def)
  show "gap_law [OutAccount meta update] n es n'" if "normalize_account env meta update n = Some (n', es)"
    for meta update n n' es
  proof -
    have "gap_payloads es = []"
      if "normalize_curve_account env meta update bytes idls m = Some (m', es)" for bytes idls m m' es
      using that
    proof (induction idls arbitrary: m)
      case (Cons idl idls)
      then show ?case
        by (auto simp: Let_def bonding_curve_event_from_pending_def
            split: option.splits sum.splits account_decode.splits if_splits)
    qed simp
    then show ?thesis using that by (auto simp: normalize_account_def gap_law_def split: option.splits)
  qed
qed (simp_all add: gap_law_def)

text \<open>The data gaps pass through in their order, and no other event is one.\<close>

lemma normalized_gaps:
  assumes "normalize_run env outputs n = Some (n', events)"
  shows "gap_payloads events = output_gaps outputs"
  using gaps.run_law [OF assms] by (simp add: gap_law_def)

subsection \<open>An example\<close>

definition example_hash :: "u8 list" where "example_hash = replicate 8 1"

definition example_idl :: loaded_idl where
  "example_idl = \<lparr>idl_path = ''pump.json'', idl_hash = [],
     idl_doc = \<lparr>doc_address = None, doc_name = ''pump'', doc_version = None, doc_metadata = None,
       doc_instructions = [], doc_accounts = [], doc_types = []\<rparr>,
     instruction_map = [example_hash \<mapsto>
       \<lparr>li_name = ''create'', li_accounts = [''mint'', ''user'', ''bonding_curve''], li_args = []\<rparr>],
     account_map = [example_hash \<mapsto> \<lparr>la_name = ''BondingCurve'', la_fields = []\<rparr>], idl_types = (\<lambda>_. None)\<rparr>"

text \<open>The codecs read every text as the discriminator and every number as one.\<close>

definition example_normalizer_env :: "rat normalizer_env" where
  "example_normalizer_env = \<lparr>nv_fuel = 1,
     nv_codecs = \<lparr>sha256 = (\<lambda>_. []), hex_encode = (\<lambda>_. []), bs58_encode = (\<lambda>_. [])\<rparr>,
     nv_hex_decode = (\<lambda>_. Some example_hash), nv_base64_decode = (\<lambda>_. Some example_hash),
     nv_parse_decimal = (\<lambda>_. Some 1), nv_sha256_hex = (\<lambda>_. [])\<rparr>"

definition example_balance :: "u32 \<Rightarrow> transaction_token_balance" where
  "example_balance index = \<lparr>tb_account_index = index, tb_mint = ''mint'', tb_owner = None, tb_program_id = None,
     tb_amount = ''1'', tb_decimals = 6\<rparr>"

definition example_transaction :: transaction_update where
  "example_transaction = \<lparr>tu_slot = 2, tu_signature = ''sig'', tu_transaction_index = None, tu_succeeded = True,
     tu_error_code = None, tu_account_keys = [''mint'', ''user'', ''curve''],
     tu_instructions = [\<lparr>ti_program_id = ''pump'', ti_accounts = [''mint'', ''user'', ''curve''], ti_data_hex = []\<rparr>],
     tu_inner_instructions = [], tu_pre_balances = [], tu_post_balances = [],
     tu_pre_token_balances = [example_balance 0, example_balance 1], tu_post_token_balances = [example_balance 1],
     tu_loaded_writable_addresses = [], tu_loaded_readonly_addresses = [], tu_compute_units_consumed = None,
     tu_fee_lamports = 5000\<rparr>"

definition example_account :: account_update where
  "example_account = \<lparr>au_slot = 1, au_pubkey = ''curve'', au_owner = ''pump'', au_lamports = 0, au_executable = False,
     au_write_version = 1, au_data_base64 = [], au_transaction_signature = None\<rparr>"

definition example_meta :: "u64 \<Rightarrow> rat event_meta" where
  "example_meta slot = new_event_meta 0 1 GeyserProcessed canonicality.Processed slot"

definition example_outputs :: "rat ingest_output list" where
  "example_outputs = [OutAccount (example_meta 1) example_account, OutTransaction (example_meta 2) example_transaction]"

lemma example_decodes:
  "decode_instruction (nv_fuel example_normalizer_env) (nv_codecs example_normalizer_env) example_idl example_hash =
    Some (Ok (KnownInstruction \<lparr>di_name = ''create'', di_accounts = [''mint'', ''user'', ''bonding_curve''],
      di_args = (\<lambda>_. None)\<rparr>))"
  "decode_account (nv_fuel example_normalizer_env) (nv_codecs example_normalizer_env) example_idl example_hash =
    Some (Ok (KnownAccount \<lparr>da_name = ''BondingCurve'', da_fields = (\<lambda>_. None)\<rparr>))"
  by (simp_all add: decode_instruction_def decode_account_def example_idl_def example_hash_def decode_body_def
      new_cursor_def expect_eof_def)

lemma example_codecs [simp]:
  "nv_hex_decode example_normalizer_env s = Some example_hash"
  "nv_base64_decode example_normalizer_env s = Some example_hash"
  by (simp_all add: example_normalizer_env_def)

lemma example_runs:
  "normalize_run example_normalizer_env example_outputs (fresh_normalizer [example_idl]) \<noteq> None"
proof -
  have update: "\<exists>n'. normalize_account example_normalizer_env meta example_account (fresh_normalizer [example_idl]) =
      Some (n', []) \<and> en_idls n' = [example_idl]" for meta
    by (simp add: normalize_account_def fresh_normalizer_def example_decodes Let_def)
  have buys: "count_decoded_buys example_normalizer_env [i] [example_idl] = Some 0" for i
    by (simp add: example_decodes buy_names_def)
  have creation: "normalize_create example_normalizer_env meta example_transaction i decoded accounts budget status n \<noteq> None"
    if "en_idls n = [example_idl]" for meta i decoded accounts budget status n
    using that buys by (simp add: normalize_create_def flush_pending_curve_updates_def Let_def example_transaction_def)
  have transaction: "normalize_transaction example_normalizer_env meta example_transaction n \<noteq> None"
    if "en_idls n = [example_idl]" for meta n
    using that creation [OF that]
    by (simp add: normalize_transaction_def Let_def decode_hex_instruction_def example_decodes normalize_decoded_def
        example_transaction_def case_prod_beta bind_eq_None_conv split: option.split)
  obtain n' where "normalize_account example_normalizer_env (example_meta 1) example_account
      (fresh_normalizer [example_idl]) = Some (n', [])" "en_idls n' = [example_idl]"
    using update by blast
  with transaction [of n' "example_meta 2"] show ?thesis by (auto simp: example_outputs_def)
qed

theorem token_deltas_balance_witness:
  "total_delta ''mint'' (holder_balance_events example_normalizer_env (example_meta 2) example_transaction) = - 1"
proof -
  have "distinct (map (balance_key_of example_transaction) (tu_pre_token_balances example_transaction))"
    by (simp add: example_transaction_def example_balance_def balance_key_of_def account_key_at_def)
  from token_deltas_balance [OF this, of "''mint''" example_normalizer_env "example_meta 2"] show ?thesis
    by (simp add: example_transaction_def example_balance_def mint_total_def token_amount_def
        example_normalizer_env_def unwrap_or_def)
qed


end
