(* ===== verification/Live_Source.thy ===== *)
theory Live_Source
  imports Normalizer_Properties Runtime_Safety
begin

text \<open>
  The two live sources of \<open>crates/runtime/src/live_source.rs\<close>: they connect, read updates, normalize them and send the
  events, and after a failure report a gap, wait and connect again. What the connector answers is a script: a list of
  connections, each refused or a list of updates and failures. A run leaves a trace of events and waits.
\<close>

subsection \<open>Endpoints and credentials\<close>

text \<open>\<open>env_var\<close> reads a variable of the environment.\<close>

definition set_variable :: "(string \<Rightarrow> string option) \<Rightarrow> string \<Rightarrow> string option" where
  "set_variable env_var name = (case env_var name of
     Some text \<Rightarrow> if is_blank text then None else Some text | None \<Rightarrow> None)"

definition resolved_endpoint ::
  "(string \<Rightarrow> string option) \<Rightarrow> string \<Rightarrow> string \<Rightarrow> string \<Rightarrow> (string, string) result" where
  "resolved_endpoint env_var endpoint endpoint_env complaint =
    (if \<not> is_blank endpoint then Ok endpoint
     else (case if is_blank endpoint_env then None else set_variable env_var endpoint_env of
         Some text \<Rightarrow> Ok text
       | None \<Rightarrow> Err ((if is_blank endpoint_env then ''GEYSER_ENDPOINT'' else endpoint_env) @ complaint)))"

definition resolved_geyser_endpoint :: "(string \<Rightarrow> string option) \<Rightarrow> 'f geyser_config \<Rightarrow> (string, string) result" where
  "resolved_geyser_endpoint env_var config = resolved_endpoint env_var (gy_endpoint config) (gy_endpoint_env config)
     '' is required for real live-data paper; use --mock-live for mocked live tests''"

definition resolved_deshred_endpoint :: "(string \<Rightarrow> string option) \<Rightarrow> deshred_config \<Rightarrow> (string, string) result" where
  "resolved_deshred_endpoint env_var config = resolved_endpoint env_var (ds_endpoint config) (ds_endpoint_env config)
     '' is required for deshred live-data paper; use --mock-deshred or leave ingest.deshred.enabled=false''"

definition metadata_key :: "string \<Rightarrow> string" where
  "metadata_key key = (if is_blank key then ''x-token'' else key)"

definition resolved_geyser_metadata ::
  "(string \<Rightarrow> string option) \<Rightarrow> 'f geyser_config \<Rightarrow> (string, (string \<times> string) option) result" where
  "resolved_geyser_metadata env_var config =
    (let env_name = (if \<not> is_blank (gy_auth_metadata_value_env config) then gy_auth_metadata_value_env config
                     else gy_auth_token_env config) in
     if is_blank env_name then Ok None
     else (case set_variable env_var env_name of
         Some text \<Rightarrow> Ok (Some (metadata_key (gy_auth_metadata_key config), text))
       | None \<Rightarrow> if gy_auth_required config
           then Err (env_name @ '' is required for real live-data paper geyser auth'') else Ok None))"

definition resolved_deshred_metadata ::
  "(string \<Rightarrow> string option) \<Rightarrow> deshred_config \<Rightarrow> (string, (string \<times> string) option) result" where
  "resolved_deshred_metadata env_var config =
    (if is_blank (ds_auth_token_env config)
     then if ds_auth_required config
       then Err ''deshred auth is required but no auth_token_env is configured'' else Ok None
     else (case set_variable env_var (ds_auth_token_env config) of
         Some text \<Rightarrow> Ok (Some (metadata_key (ds_auth_metadata_key config), text))
       | None \<Rightarrow> if ds_auth_required config
           then Err (ds_auth_token_env config @ '' is required for deshred auth'') else Ok None))"

definition geyser_endpoint_configured :: "(string \<Rightarrow> string option) \<Rightarrow> 'f geyser_config \<Rightarrow> bool" where
  "geyser_endpoint_configured env_var config \<longleftrightarrow> \<not> is_blank (gy_endpoint config) \<or>
    \<not> is_blank (gy_endpoint_env config) \<and> set_variable env_var (gy_endpoint_env config) \<noteq> None"

definition geyser_auth_configured :: "(string \<Rightarrow> string option) \<Rightarrow> 'f geyser_config \<Rightarrow> bool" where
  "geyser_auth_configured env_var config \<longleftrightarrow> \<not> gy_auth_required config \<or>
    \<not> is_blank (gy_auth_token_env config) \<and> set_variable env_var (gy_auth_token_env config) \<noteq> None"

subsection \<open>Gaps and waits\<close>

definition source_gap_event_for_source ::
  "event_id \<Rightarrow> instant \<Rightarrow> u64 \<Rightarrow> event_source \<Rightarrow> u64 \<Rightarrow> bool \<Rightarrow> string \<Rightarrow> ('d::linordered_field) normalized_event" where
  "source_gap_event_for_source fresh now now_ns source slot recovered action =
    \<lparr>ne_meta = (new_event_meta fresh 1 source canonicality.Processed slot)
       \<lparr>em_received_at_wall_time := now, em_observed_at_monotonic_ns := now_ns\<rparr>,
     ne_payload = DataGapPayload
      \<lparr>dg_gap_type = ReconnectGap, dg_source = source, dg_start_slot = slot, dg_end_slot = Some slot,
       dg_affected_tokens = [], dg_severity = (if recovered then gap_severity.Low else gap_severity.High),
       dg_trade_allowed = recovered, dg_recovery_action = action\<rparr>\<rparr>"

definition source_gap_event ::
  "event_id \<Rightarrow> instant \<Rightarrow> u64 \<Rightarrow> u64 \<Rightarrow> bool \<Rightarrow> string \<Rightarrow> ('d::linordered_field) normalized_event" where
  "source_gap_event fresh now now_ns = source_gap_event_for_source fresh now now_ns GeyserProcessed"

definition next_backoff_ms :: "'f geyser_config \<Rightarrow> usize \<Rightarrow> u64" where
  "next_backoff_ms config attempt =
    (let waits = gy_reconnect_backoff_ms config; i = unat (sat_sub attempt 1) in
     min (if i < length waits then waits ! i else if waits = [] then 1000 else last waits)
       (max (gy_max_reconnect_backoff_ms config) 1))"

definition deshred_backoff_ms :: "deshred_config \<Rightarrow> usize \<Rightarrow> u64" where
  "deshred_backoff_ms config attempts =
    min (sat_mul (ds_reconnect_backoff_ms config) (max attempts 1)) (max (ds_max_reconnect_backoff_ms config) 1)"

subsection \<open>The Geyser source\<close>

datatype 'd source_step = Sent "'d normalized_event" | Slept u64

text \<open>
  \<open>NotReturned\<close> is a decoding that does not return, \<open>Waiting\<close> a source that still reads or connects when the script ends.
\<close>

datatype source_outcome = Finished | GaveUp string | Waiting | NotReturned

text \<open>A failure comes with the identifier and the clock of the gap event and the text of the status.\<close>

datatype stream_item =
    UpdateItem fresh_ids "geyser_envelope option"
  | StatusItem event_id instant u64 string

text \<open>A connection comes with the identifier and the clock of its recovery event; the flag tells whether the stream ends.\<close>

datatype connection =
    Refused string
  | Connected event_id instant u64 "stream_item list" bool

record ('d, 'f) source_state =
  lv_ingest :: "'f geyser_service"
  lv_normalizer :: "'d event_normalizer"
  lv_attempts :: usize
  lv_gap_sent :: bool

record ('d, 'f) source_params =
  sp_normalizer_env :: "'d normalizer_env"
  sp_ingest_params :: "'d ingest_params"
  sp_config :: "'f geyser_config"

definition max_attempts :: "'f geyser_config \<Rightarrow> usize" where
  "max_attempts config = max (ucast (unwrap_or 10 (gy_max_reconnect_attempts config))) 1"

definition last_slot :: "('d, 'f) source_state \<Rightarrow> u64" where
  "last_slot st = unwrap_or 0 (shl_last_slot_seen (gs_health (lv_ingest st)))"

definition closed_message :: "usize \<Rightarrow> string \<Rightarrow> string" where
  "closed_message attempts status =
    ''geyser stream closed after '' @ show_nat (unat attempts) @ '' reconnect attempts: '' @ status"

text \<open>The stream is read until it fails (\<open>None\<close>), ends, or stops the source.\<close>

fun read_stream ::
  "('d, 'f) source_params \<Rightarrow> stream_item list \<Rightarrow> bool \<Rightarrow> ('d, 'f) source_state \<Rightarrow>
   ('d::linordered_field) source_step list \<times> ('d, 'f) source_state \<times> source_outcome option" where
  "read_stream P [] ends st =
    ([], st, if \<not> ends then Some Waiting else if lv_gap_sent st then None else Some Finished)"
| "read_stream P (UpdateItem ids received # items) ends st =
    (let (ingest, outputs) = (case received of
         None \<Rightarrow> (lv_ingest st, [])
       | Some e \<Rightarrow> process_envelope (sp_ingest_params P) ids (lv_ingest st) e) in
     case normalize_run (sp_normalizer_env P) outputs (lv_normalizer st) of
       None \<Rightarrow> ([], st, Some NotReturned)
     | Some (normalizer, events) \<Rightarrow>
         (case read_stream P items ends (st\<lparr>lv_ingest := ingest, lv_normalizer := normalizer\<rparr>) of
            (trace, st', stopped) \<Rightarrow> (map Sent events @ trace, st', stopped)))"
| "read_stream P (StatusItem fresh now now_ns status # items) ends st =
    (let st1 = st\<lparr>lv_ingest := note_disconnect (lv_ingest st), lv_gap_sent := True,
                  lv_attempts := sat_add (lv_attempts st) 1\<rparr>;
         gap = Sent (source_gap_event fresh now now_ns (last_slot st1) False ''reconnect_stream_gap'')
     in if max_attempts (sp_config P) \<le> lv_attempts st1
        then ([gap], st1, Some (GaveUp (closed_message (lv_attempts st1) status)))
        else ([gap, Slept (next_backoff_ms (sp_config P) (lv_attempts st1))], st1, None))"

fun run_connections ::
  "('d, 'f) source_params \<Rightarrow> connection list \<Rightarrow> ('d, 'f) source_state \<Rightarrow>
   ('d::linordered_field) source_step list \<times> source_outcome" where
  "run_connections P [] st = ([], Waiting)"
| "run_connections P (Refused error # connections) st =
    (let attempts = sat_add (lv_attempts st) 1 in
     if max_attempts (sp_config P) \<le> attempts then ([], GaveUp error)
     else (case run_connections P connections (st\<lparr>lv_attempts := attempts\<rparr>) of
       (trace, outcome) \<Rightarrow> (Slept (next_backoff_ms (sp_config P) attempts) # trace, outcome)))"
| "run_connections P (Connected fresh now now_ns items ends # connections) st =
    (let recovery = (if lv_gap_sent st
           then [Sent (source_gap_event fresh now now_ns (last_slot st) True ''recover_stream_resumed'')] else []) in
     case read_stream P items ends (st\<lparr>lv_gap_sent := False, lv_attempts := 0\<rparr>) of
       (trace, st', stopped) \<Rightarrow>
         (case stopped of
            Some outcome \<Rightarrow> (recovery @ trace, outcome)
          | None \<Rightarrow> (case run_connections P connections st' of
              (later, outcome) \<Rightarrow> (recovery @ trace @ later, outcome))))"

definition source_start :: "'f geyser_config \<Rightarrow> 'd event_normalizer \<Rightarrow> ('d, 'f) source_state" where
  "source_start config normalizer = \<lparr>lv_ingest = new_geyser_service config, lv_normalizer = normalizer,
     lv_attempts = 0, lv_gap_sent = False\<rparr>"

definition sent_events :: "'d source_step list \<Rightarrow> 'd normalized_event list" where
  "sent_events trace = concat (map (\<lambda>s. case s of Sent e \<Rightarrow> [e] | Slept _ \<Rightarrow> []) trace)"

text \<open>The source ends quietly when the receiver goes away, here when it has \<open>room\<close> for so many events.\<close>

fun cut_trace :: "nat \<Rightarrow> 'd source_step list \<Rightarrow> 'd source_step list option" where
  "cut_trace room [] = None"
| "cut_trace room (Slept ms # trace) = map_option (\<lambda>t. Slept ms # t) (cut_trace room trace)"
| "cut_trace 0 (Sent e # trace) = Some []"
| "cut_trace (Suc room) (Sent e # trace) = map_option (\<lambda>t. Sent e # t) (cut_trace room trace)"

definition run_geyser_source ::
  "(string \<Rightarrow> string option) \<Rightarrow> 'd normalizer_env \<Rightarrow> 'd ingest_params \<Rightarrow> 'f geyser_config \<Rightarrow> 'd event_normalizer \<Rightarrow>
   connection list \<Rightarrow> nat option \<Rightarrow> ('d::linordered_field) source_step list \<times> source_outcome" where
  "run_geyser_source env_var env ip config normalizer connections room =
    (case resolved_geyser_endpoint env_var config of
       Inl error \<Rightarrow> ([], GaveUp error)
     | Inr endpoint \<Rightarrow>
         (let resolved = config\<lparr>gy_endpoint := endpoint\<rparr>;
              run = run_connections \<lparr>sp_normalizer_env = env, sp_ingest_params = ip, sp_config = resolved\<rparr> connections
                (source_start resolved normalizer)
          in (case Option.bind room (\<lambda>n. cut_trace n (fst run)) of
              None \<Rightarrow> run | Some trace \<Rightarrow> (trace, Finished))))"

subsection \<open>The deshred source\<close>

text \<open>The range of shreds of a transaction and its conversion, which belongs to the protocol library.\<close>

record deshred_transaction =
  dt_shreds :: "(u32 \<times> u32) option"
  dt_update :: "transaction_update option"

record deshred_update =
  du_created_at :: "instant option"
  du_transaction :: "deshred_transaction option"

record deshred_filter =
  df_vote :: "bool option"
  df_account_include :: "string list"
  df_account_exclude :: "string list"
  df_account_required :: "string list"

definition build_deshred_request :: "deshred_config \<Rightarrow> string list \<Rightarrow> string \<rightharpoonup> deshred_filter" where
  "build_deshred_request config pump_program_ids =
    (if ds_subscribe_transactions config
     then [''pump_programs'' \<mapsto> \<lparr>df_vote = Some False,
        df_account_include = (if ds_program_filters_from_pump_ids config then pump_program_ids else []),
        df_account_exclude = [], df_account_required = []\<rparr>]
     else (\<lambda>_. None))"

definition meta_for_deshred_tx ::
  "event_id \<Rightarrow> instant \<Rightarrow> deshred_update \<Rightarrow> transaction_update \<Rightarrow> u64 \<Rightarrow> ('d::linordered_field) event_meta" where
  "meta_for_deshred_tx fresh now update tx observed_ns =
    (let range = unwrap_or (0, 0) (Option.bind (du_transaction update) dt_shreds) in
     (new_event_meta fresh 1 DeshredTentative Tentative (tu_slot tx))
       \<lparr>em_signature := Some (tu_signature tx), em_transaction_index := tu_transaction_index tx,
        em_received_at_wall_time := unwrap_or now (du_created_at update),
        em_observed_at_monotonic_ns := observed_ns, em_decode_confidence := decimal 90 2,
        em_raw_reference := Some \<lparr>rr_source_id = ''deshred'',
          rr_cursor = Some (case du_transaction update of
              Some _ \<Rightarrow> show_nat (unat (fst range)) @ '':'' @ show_nat (unat (snd range)) | None \<Rightarrow> ''deshred''),
          rr_offset = map_option (\<lambda>r. ucast (fst r)) (Option.bind (du_transaction update) dt_shreds)\<rparr>\<rparr>)"

definition normalized_events_from_deshred_update ::
  "'d normalizer_env \<Rightarrow> event_id \<Rightarrow> instant \<Rightarrow> u64 \<Rightarrow> deshred_update \<Rightarrow> 'd event_normalizer \<Rightarrow>
   ('d event_normalizer \<times> ('d::linordered_field) normalized_event list) option" where
  "normalized_events_from_deshred_update env fresh now observed_ns update n =
    (case Option.bind (du_transaction update) dt_update of
       None \<Rightarrow> Some (n, [])
     | Some tx \<Rightarrow> normalize_transaction env (meta_for_deshred_tx fresh now update tx observed_ns) tx n)"

text \<open>The flags tell whether the status is \<open>Unimplemented\<close>.\<close>

datatype deshred_item =
    DeshredItem event_id instant u64 deshred_update
  | DeshredStatus event_id instant u64 bool string

datatype deshred_connection =
    DeshredRefused bool string
  | DeshredConnected event_id instant u64 "deshred_item list" bool

record 'd deshred_state =
  dv_normalizer :: "'d event_normalizer"
  dv_attempts :: usize
  dv_gap_sent :: bool

definition deshred_must_work :: "deshred_config \<Rightarrow> bool" where
  "deshred_must_work config \<longleftrightarrow> ds_required config \<or> ds_fail_if_unsupported config"

definition max_deshred_attempts :: "deshred_config \<Rightarrow> usize" where
  "max_deshred_attempts config = ucast (max (ds_max_reconnect_attempts config) 1)"

definition deshred_gap ::
  "event_id \<Rightarrow> instant \<Rightarrow> u64 \<Rightarrow> bool \<Rightarrow> string \<Rightarrow> ('d::linordered_field) source_step" where
  "deshred_gap fresh now now_ns recovered action =
    Sent (source_gap_event_for_source fresh now now_ns DeshredTentative 0 recovered action)"

fun read_deshred ::
  "'d normalizer_env \<Rightarrow> deshred_config \<Rightarrow> deshred_item list \<Rightarrow> bool \<Rightarrow> 'd deshred_state \<Rightarrow>
   ('d::linordered_field) source_step list \<times> 'd deshred_state \<times> source_outcome option" where
  "read_deshred env config [] ends st =
    ([], st, if \<not> ends then Some Waiting else if dv_gap_sent st then None else Some Finished)"
| "read_deshred env config (DeshredItem fresh now now_ns update # items) ends st =
    (case normalized_events_from_deshred_update env fresh now now_ns update (dv_normalizer st) of
       None \<Rightarrow> ([], st, Some NotReturned)
     | Some (normalizer, events) \<Rightarrow>
         (case read_deshred env config items ends (st\<lparr>dv_normalizer := normalizer\<rparr>) of
            (trace, st', stopped) \<Rightarrow> (map Sent events @ trace, st', stopped)))"
| "read_deshred env config (DeshredStatus fresh now now_ns unimplemented status # items) ends st =
    (if unimplemented
     then ([], st, Some (if deshred_must_work config
       then GaveUp ''provider returned unimplemented for SubscribeDeshred'' else Finished))
     else
       (let st1 = st\<lparr>dv_gap_sent := True, dv_attempts := sat_add (dv_attempts st) 1\<rparr>;
            gap = deshred_gap fresh now now_ns False ''reconnect_deshred_stream_gap''
        in if max_deshred_attempts config \<le> dv_attempts st1
           then ([gap], st1, Some (GaveUp (''deshred stream closed after '' @ show_nat (unat (dv_attempts st1)) @
             '' reconnect attempts: '' @ status)))
           else ([gap, Slept (deshred_backoff_ms config (dv_attempts st1))], st1, None)))"

fun run_deshred_connections ::
  "'d normalizer_env \<Rightarrow> deshred_config \<Rightarrow> deshred_connection list \<Rightarrow> 'd deshred_state \<Rightarrow>
   ('d::linordered_field) source_step list \<times> source_outcome" where
  "run_deshred_connections env config [] st = ([], Waiting)"
| "run_deshred_connections env config (DeshredRefused unimplemented error # connections) st =
    (let attempts = sat_add (dv_attempts st) 1 in
     if unimplemented \<and> \<not> deshred_must_work config then ([], Finished)
     else if max_deshred_attempts config \<le> attempts then ([], GaveUp error)
     else (case run_deshred_connections env config connections (st\<lparr>dv_attempts := attempts\<rparr>) of
       (trace, outcome) \<Rightarrow> (Slept (deshred_backoff_ms config attempts) # trace, outcome)))"
| "run_deshred_connections env config (DeshredConnected fresh now now_ns items ends # connections) st =
    (let recovery = (if dv_gap_sent st
           then [deshred_gap fresh now now_ns True ''recover_deshred_stream_resumed''] else []) in
     case read_deshred env config items ends (st\<lparr>dv_gap_sent := False, dv_attempts := 0\<rparr>) of
       (trace, st', stopped) \<Rightarrow>
         (case stopped of
            Some outcome \<Rightarrow> (recovery @ trace, outcome)
          | None \<Rightarrow> (case run_deshred_connections env config connections st' of
              (later, outcome) \<Rightarrow> (recovery @ trace @ later, outcome))))"

definition run_deshred_source ::
  "'d normalizer_env \<Rightarrow> deshred_config \<Rightarrow> 'd event_normalizer \<Rightarrow> deshred_connection list \<Rightarrow> nat option \<Rightarrow>
   ('d::linordered_field) source_step list \<times> source_outcome" where
  "run_deshred_source env config normalizer connections room =
    (let run = run_deshred_connections env config connections
           \<lparr>dv_normalizer = normalizer, dv_attempts = 0, dv_gap_sent = False\<rparr> in
     case Option.bind room (\<lambda>n. cut_trace n (fst run)) of
       None \<Rightarrow> run | Some trace \<Rightarrow> (trace, Finished))"

end
