(* ===== verification/Live_Source_Properties.thy ===== *)
theory Live_Source_Properties
  imports Live_Source
begin

text \<open>
  What the Geyser source makes of failures: which gaps it leaves open, when it gives up, and when it never does.
\<close>

subsection \<open>The gaps that are open\<close>

text \<open>What \<open>update_data_gap_state\<close> of the supervisor makes of the events of a source.\<close>

definition gaps_of :: "string \<Rightarrow> data_gap_event list \<Rightarrow> scoped_data_gap list" where
  "gaps_of run_id payloads = fold (\<lambda>p. fold note_gap (scoped_gaps_from_event p run_id None)) payloads []"

definition open_reports :: "data_gap_event list \<Rightarrow> data_gap_event list" where
  "open_reports payloads = fold (\<lambda>p reports. if gap_recovery p then [] else reports @ [p]) payloads []"

text \<open>A gap of the Geyser stream as a whole.\<close>

definition stream_wide :: "data_gap_event \<Rightarrow> bool" where
  "stream_wide p \<longleftrightarrow> dg_source p = GeyserProcessed \<and> dg_affected_tokens p = [] \<and>
    \<not> contains_text ''enter_data_gap_mode'' (dg_recovery_action p)"

lemma stream_wide_scoped:
  "stream_wide p \<Longrightarrow> scoped_gaps_from_event p run_id None = [scoped_gap p run_id None ScopeSource None]"
  by (simp add: stream_wide_def scoped_gaps_from_event_def gap_scope_def)

lemma stream_wide_same:
  "stream_wide p \<Longrightarrow> stream_wide q \<Longrightarrow>
    same_gap (scoped_gap p run_id None ScopeSource None) (scoped_gap q run_id None ScopeSource None)"
  by (simp add: stream_wide_def same_gap_def scoped_gap_def)

lemma gaps_of_reports:
  assumes "list_all stream_wide payloads"
  shows "gaps_of run_id payloads = map (\<lambda>p. scoped_gap p run_id None ScopeSource None) (open_reports payloads)"
proof -
  have "fold (\<lambda>p. fold note_gap (scoped_gaps_from_event p run_id None)) payloads
      (map (\<lambda>p. scoped_gap p run_id None ScopeSource None) reports) =
    map (\<lambda>p. scoped_gap p run_id None ScopeSource None)
      (fold (\<lambda>p reports. if gap_recovery p then [] else reports @ [p]) payloads reports)"
    if "list_all stream_wide reports" for reports
    using assms that
  proof (induction payloads arbitrary: reports)
    case Nil
    then show ?case by simp
  next
    case (Cons p payloads)
    let ?f = "\<lambda>p. scoped_gap p run_id None ScopeSource None"
    have wide: "stream_wide p" "list_all stream_wide payloads" using Cons.prems by simp_all
    have active: "rg_active (?f p) \<longleftrightarrow> \<not> gap_recovery p" by (simp add: scoped_gap_def)
    have none: "filter (\<lambda>g. \<not> same_gap g (?f p)) (map ?f reports) = []"
      using Cons.prems(2) stream_wide_same [OF _ wide(1)] by (auto simp: filter_empty_conv list_all_iff)
    have "note_gap (?f p) (map ?f reports) = map ?f (if gap_recovery p then [] else reports @ [p])"
      using active none by (simp add: note_gap_def)
    then show ?case using Cons.IH [OF wide(2), of "if gap_recovery p then [] else reports @ [p]"] Cons.prems(2) wide(1)
      by (simp add: stream_wide_scoped)
  qed
  from this [of "[]"] show ?thesis by (simp add: gaps_of_def open_reports_def)
qed

lemma blocks_iff_reports:
  assumes "list_all (\<lambda>p. gap_recovery p \<or> \<not> dg_trade_allowed p) payloads" "list_all stream_wide payloads"
  shows "global_block (gaps_of run_id payloads) \<longleftrightarrow> open_reports payloads \<noteq> []"
proof -
  have "list_all (\<lambda>p. \<not> gap_recovery p) (fold (\<lambda>p reports. if gap_recovery p then [] else reports @ [p]) payloads reports)"
    if "list_all (\<lambda>p. \<not> gap_recovery p) reports" for reports
    using that by (induction payloads arbitrary: reports) simp_all
  then have "list_all (\<lambda>p. \<not> gap_recovery p) (open_reports payloads)" by (simp add: open_reports_def)
  then show ?thesis
    unfolding gaps_of_reports [OF assms(2)] global_block_def
    by (cases "open_reports payloads") (auto simp: list_ex_iff list_all_iff scoped_gap_def gap_recovery_def)
qed

subsection \<open>The gaps that a source reports\<close>

definition ingest_gap :: "data_gap_event \<Rightarrow> bool" where
  "ingest_gap p \<longleftrightarrow> dg_source p = GeyserProcessed \<and> dg_affected_tokens p = [] \<and> \<not> dg_trade_allowed p \<and>
    dg_recovery_action p \<in> {recovery_pause, recovery_reconnect}"

lemma ingest_gap_facts:
  assumes "ingest_gap p"
  shows "stream_wide p" "\<not> gap_recovery p"
proof -
  have "\<not> contains_text ''enter_data_gap_mode'' recovery_pause" "\<not> contains_text ''enter_data_gap_mode'' recovery_reconnect"
    "\<not> contains_text ''recover'' recovery_pause" "\<not> contains_text ''recover'' recovery_reconnect"
    "\<not> contains_text ''resume'' recovery_pause" "\<not> contains_text ''resume'' recovery_reconnect"
    by (simp_all add: recovery_pause_def recovery_reconnect_def)
  then show "stream_wide p" "\<not> gap_recovery p"
    using assms by (auto simp: ingest_gap_def stream_wide_def gap_recovery_def)
qed

lemma process_envelope_gaps: "list_all ingest_gap (output_gaps (snd (process_envelope ip ids s e)))"
proof -
  have "ingest_gap g" if "detect_gap s slot parent = Some g" for s :: "'b geyser_service" and slot parent g
    using that by (auto simp: detect_gap_def slot_gap_def reconnect_gap_def ingest_gap_def Let_def
        split: option.splits if_splits)
  then show ?thesis
    by (auto simp: process_envelope_def process_slot_def process_transaction_def process_account_def Let_def
        split: geyser_message.split prod.split option.split)
qed

fun is_update :: "stream_item \<Rightarrow> bool" where
  "is_update (UpdateItem _ _) = True"
| "is_update (StatusItem _ _ _ _) = False"

lemma sent_events_simps [simp]:
  "sent_events [] = []"
  "sent_events (Sent e # trace) = e # sent_events trace"
  "sent_events (Slept ms # trace) = sent_events trace"
  "sent_events (trace @ trace') = sent_events trace @ sent_events trace'"
  "sent_events (map Sent events) = events"
  by (simp_all add: sent_events_def o_def)

lemma read_updates_gaps:
  assumes "list_all is_update items" "read_stream P items ends st = (trace, st', stopped)"
  shows "list_all ingest_gap (gap_payloads (sent_events trace)) \<and> lv_gap_sent st' = lv_gap_sent st"
  using assms
proof (induction P items ends st arbitrary: trace st' stopped rule: read_stream.induct)
  case (2 P ids received items ends st)
  obtain ingest outputs where outputs: "(case received of None \<Rightarrow> (lv_ingest st, [])
      | Some e \<Rightarrow> process_envelope (sp_ingest_params P) ids (lv_ingest st) e) = (ingest, outputs)" by fastforce
  then have quiet: "list_all ingest_gap (output_gaps outputs)"
    using process_envelope_gaps [of "sp_ingest_params P" ids "lv_ingest st"]
    by (cases received) (auto, metis snd_conv)
  show ?case
  proof (cases "normalize_run (sp_normalizer_env P) outputs (lv_normalizer st)")
    case None
    then show ?thesis using 2(3) outputs by simp
  next
    case (Some result)
    obtain n events where result: "result = (n, events)" by (cases result)
    obtain t u x where rest: "read_stream P items ends (st\<lparr>lv_ingest := ingest, lv_normalizer := n\<rparr>) = (t, u, x)"
      by (cases "read_stream P items ends (st\<lparr>lv_ingest := ingest, lv_normalizer := n\<rparr>)") auto
    have "gap_payloads events = output_gaps outputs" using Some result by (simp add: normalized_gaps)
    moreover have "trace = map Sent events @ t" "st' = u" using 2(3) outputs Some result rest by simp_all
    ultimately show ?thesis
      using 2(1) [OF outputs [symmetric] refl Some [unfolded result] refl _ rest] 2(2) quiet by simp
  qed
qed auto


subsection \<open>Giving up\<close>

lemma unat_counted: "m < 2 ^ 64 \<Longrightarrow> unat (of_nat m :: usize) = m"
  by (simp add: unsigned_of_nat take_bit_nat_eq_self)

lemma counted_once:
  assumes "Suc m < 2 ^ 64"
  shows "sat_add (of_nat m :: usize) 1 = of_nat (Suc m)"
proof -
  have "unat (of_nat m :: usize) + unat (1 :: usize) < 2 ^ LENGTH(64)"
    using assms unat_counted [of m] by simp
  then show ?thesis unfolding sat_add_def by (simp only: if_True of_nat_Suc add.commute)
qed

text \<open>Refused connections are counted; the source gives up with the one that reaches the limit.\<close>

lemma gives_up_after_refusals:
  assumes "k \<le> 2 ^ 32" "lv_attempts st = of_nat m" "m + k \<le> 2 ^ 32" "m < unat (max_attempts (sp_config P))"
  shows "snd (run_connections P (replicate k (Refused error)) st) =
    (if unat (max_attempts (sp_config P)) \<le> m + k then GaveUp error else Waiting)"
  using assms
proof (induction k arbitrary: st m)
  case 0
  then show ?case by simp
next
  case (Suc k)
  have small: "Suc m < 2 ^ 64" using Suc.prems(3) by simp
  have next_attempts: "sat_add (lv_attempts st) 1 = of_nat (Suc m)" "unat (of_nat (Suc m) :: usize) = Suc m"
    unfolding Suc.prems(2) by (rule counted_once [OF small] unat_counted [OF small])+
  have reached: "max_attempts (sp_config P) \<le> of_nat (Suc m) \<longleftrightarrow> unat (max_attempts (sp_config P)) \<le> Suc m"
    using next_attempts(2) by (simp add: word_le_nat_alt)
  show ?case
  proof (cases "unat (max_attempts (sp_config P)) \<le> Suc m")
    case True
    then show ?thesis using reached next_attempts by simp
  next
    case False
    have "snd (run_connections P (replicate k (Refused error)) (st\<lparr>lv_attempts := of_nat (Suc m)\<rparr>)) =
        (if unat (max_attempts (sp_config P)) \<le> Suc m + k then GaveUp error else Waiting)"
      using Suc.prems False by (intro Suc.IH) simp_all
    then show ?thesis using False reached next_attempts by (simp add: case_prod_beta Let_def)
  qed
qed

text \<open>
  A connection that is accepted and breaks at once resets the count: the source then connects again and again, waiting
  the shortest time in between, whatever the limit on the attempts is.
\<close>

lemma flapping_never_gives_up:
  assumes "1 < max_attempts (sp_config P)"
  shows "snd (run_connections P (replicate k (Connected fresh now now_ns [StatusItem fresh' now' now_ns' status] ends)) st) = Waiting"
proof (induction k arbitrary: st)
  case 0
  then show ?case by simp
next
  case (Suc k)
  have "\<not> max_attempts (sp_config P) \<le> sat_add 0 1" using assms by simp
  then show ?case using Suc.IH by (simp add: case_prod_beta Let_def)
qed

text \<open>A stream that ends without an error ends the source, and no gap says so.\<close>

lemma clean_end_is_silent:
  assumes "lv_gap_sent st = False"
  shows "run_connections P (Connected fresh now now_ns [] True # connections) st = ([], Finished)"
  using assms by simp

subsection \<open>An example\<close>

definition slot_envelope :: "u64 \<Rightarrow> geyser_envelope" where
  "slot_envelope slot = \<lparr>ge_received_at = 0, ge_observed_at_monotonic_ns = 0, ge_source_latency_ms = None,
     ge_message = MsgSlot \<lparr>su_slot = slot, su_parent = None, su_status = SlotProcessed, su_block_time = None\<rparr>\<rparr>"

definition example_source :: "(rat, rat) source_params" where
  "example_source = \<lparr>sp_normalizer_env = example_normalizer_env,
     sp_ingest_params = \<lparr>ip_dec_one = 1, ip_parse_pubkey = Some\<rparr>, sp_config = example_geyser\<rparr>"

definition example_items :: "stream_item list" where
  "example_items = [UpdateItem (0, 1) (Some (slot_envelope 5)), UpdateItem (2, 3) (Some (slot_envelope 500))]"


end
