(* ===== verification/Material_Hunter.thy ===== *)
theory Material_Hunter
  imports Event_Normalizer
begin

text \<open>
  The router of the material hunter of \<open>crates/runtime/src/live_source.rs\<close>: how an update is classified, when it is
  skipped, when an active mint has too many of them, to which worker it goes, in which order a worker serves
  its batch, and what a relay accepts. Durations and instants are nanoseconds; the counters of the reports are left out.
  The updates are those of the protocol library, with the fields that the code reads.
\<close>

definition pump_program_id :: string where
  "pump_program_id = ''6EF8rrecthR5Dkzon8Nwu78hRvfCKubJ14M5uBEwF6P''"

definition spl_token_program_id :: string where
  "spl_token_program_id = ''TokenkegQfeZyiNwAJbNbGKPFXCWuBvf9Ss623VQ5DA''"

definition token_2022_program_id :: string where
  "token_2022_program_id = ''TokenzQdBNbLqP5VEhdkAS6EPq9sJqzQdbqT6qhHV4''"

subsection \<open>Updates of the wire\<close>

record wire_balance =
  wb_account_index :: u32
  wb_mint :: string

record wire_meta =
  wm_pre_token_balances :: "wire_balance list"
  wm_post_token_balances :: "wire_balance list"

record wire_instruction =
  wi_program_id_index :: u32
  wi_data :: "u8 list"

record wire_message =
  ws_account_keys :: "u8 list list"
  ws_instructions :: "wire_instruction list"

record wire_transaction =
  wt_signatures :: "u8 list list"
  wt_message :: "wire_message option"

record wire_transaction_info =
  wx_signature :: "u8 list"
  wx_transaction :: "wire_transaction option"
  wx_meta :: "wire_meta option"

record wire_account =
  wa_pubkey :: "u8 list"
  wa_owner :: "u8 list"
  wa_data :: "u8 list"

datatype wire_update =
    WireSlot
  | WirePing
  | WirePong
  | WireTransaction u64 "wire_transaction_info option"
  | WireTransactionStatus u64 "u8 list"
  | WireAccount u64 "wire_account option"
  | WireBlock u64
  | WireBlockMeta u64
  | WireEntry u64
  | WireNothing

subsection \<open>Classes and lanes\<close>

datatype (plugins only: code size) material_update_class =
    SlotLiveness
  | PumpTokenCreated
  | TransactionTokenCreated
  | BondingCurveVaultChange
  | PumpTradeActiveMint
  | PumpTradeUntrackedMint
  | PumpTradeUnknownMint
  | PumpTradeTombstonedMint
  | TransactionActiveMint
  | TransactionActiveAccount
  | TransactionMappingHintOnly
  | TransactionUntrackedPump
  | TransactionAccountPinnedUnknown
  | TransactionTombstonedMint
  | TransactionDuplicateSignature
  | TokenAccountChangeActiveMint
  | TokenAccountChangeUntracked
  | HolderOwnerChange
  | CreatorFundingHint
  | MalformedOrUnknown
  | OtherUntracked

fun class_name :: "material_update_class \<Rightarrow> string" where
  "class_name SlotLiveness = ''slot_or_liveness_reader_side''"
| "class_name PumpTokenCreated = ''pump_token_created''"
| "class_name TransactionTokenCreated = ''transaction_token_created''"
| "class_name BondingCurveVaultChange = ''bonding_curve_vault_change''"
| "class_name PumpTradeActiveMint = ''pump_trade_active_mint''"
| "class_name PumpTradeUntrackedMint = ''pump_trade_untracked_mint''"
| "class_name PumpTradeUnknownMint = ''pump_trade_unknown_mint''"
| "class_name PumpTradeTombstonedMint = ''pump_trade_tombstoned_mint''"
| "class_name TransactionActiveMint = ''transaction_active_mint''"
| "class_name TransactionActiveAccount = ''transaction_active_account''"
| "class_name TransactionMappingHintOnly = ''transaction_mapping_hint_only''"
| "class_name TransactionUntrackedPump = ''transaction_untracked_pump''"
| "class_name TransactionAccountPinnedUnknown = ''transaction_account_pinned_unknown''"
| "class_name TransactionTombstonedMint = ''transaction_tombstoned_mint''"
| "class_name TransactionDuplicateSignature = ''transaction_duplicate_signature''"
| "class_name TokenAccountChangeActiveMint = ''token_account_update_active_mint''"
| "class_name TokenAccountChangeUntracked = ''token_account_update_untracked''"
| "class_name HolderOwnerChange = ''holder_owner_change''"
| "class_name CreatorFundingHint = ''creator_funding_hint''"
| "class_name MalformedOrUnknown = ''malformed_or_unknown''"
| "class_name OtherUntracked = ''other_untracked''"

definition legacy_names :: "(string \<times> material_update_class) list" where
  "legacy_names = [(''slot_or_liveness_reader_side'', SlotLiveness), (''pump_token_created'', PumpTokenCreated),
    (''transaction_token_created'', TransactionTokenCreated), (''bonding_curve_vault_change'', BondingCurveVaultChange),
    (''pump_trade_active_mint'', PumpTradeActiveMint), (''pump_trade_untracked_mint'', PumpTradeUntrackedMint),
    (''pump_trade_unknown_mint'', PumpTradeUnknownMint), (''pump_trade_tombstoned_mint'', PumpTradeTombstonedMint),
    (''transaction_active_mint'', TransactionActiveMint), (''transaction_active_account'', TransactionActiveAccount),
    (''transaction_mapping_hint_only'', TransactionMappingHintOnly),
    (''transaction_untracked_pump'', TransactionUntrackedPump),
    (''transaction_account_pinned_unknown'', TransactionAccountPinnedUnknown),
    (''transaction_tombstoned_mint'', TransactionTombstonedMint),
    (''transaction_duplicate_signature'', TransactionDuplicateSignature),
    (''token_account_update_active_mint'', TokenAccountChangeActiveMint),
    (''token_account_update_untracked'', TokenAccountChangeUntracked), (''owner_account_update'', HolderOwnerChange),
    (''holder_owner_change'', HolderOwnerChange), (''creator_funding_hint'', CreatorFundingHint),
    (''pump_instruction_malformed'', MalformedOrUnknown), (''transaction_malformed_or_unknown'', MalformedOrUnknown),
    (''unknown_worker_relevant'', MalformedOrUnknown)]"

definition from_legacy_name :: "string \<Rightarrow> material_update_class" where
  "from_legacy_name name = unwrap_or OtherUntracked (map_of legacy_names name)"

datatype processing_lane =
    CriticalLaunch
  | Mapping
  | VaultDelta
  | TradeDelta
  | HolderDelta
  | ActiveMintGate
  | CheapCounter
  | DeferredFeature
  | ArtifactEvent

fun lane_name :: "processing_lane \<Rightarrow> string" where
  "lane_name CriticalLaunch = ''critical_launch''"
| "lane_name Mapping = ''mapping''"
| "lane_name VaultDelta = ''vault_delta''"
| "lane_name TradeDelta = ''trade_delta''"
| "lane_name HolderDelta = ''holder_delta''"
| "lane_name ActiveMintGate = ''active_mint_gate''"
| "lane_name CheapCounter = ''cheap_counter''"
| "lane_name DeferredFeature = ''deferred_feature''"
| "lane_name ArtifactEvent = ''artifact_event''"

datatype material_update_relevance = Critical | ActiveTracked | MappingOnly | CheapSkip | UnknownRelevance

text \<open>The last four flags: process deeply, create an attempt, update the holders, mark as dirty.\<close>

definition dispatch_for_class ::
  "material_update_class \<Rightarrow> processing_lane \<times> material_update_relevance \<times> bool \<times> bool \<times> bool \<times> bool" where
  "dispatch_for_class c = (case c of
      PumpTokenCreated \<Rightarrow> (CriticalLaunch, Critical, True, True, False, True)
    | TransactionTokenCreated \<Rightarrow> (CriticalLaunch, Critical, True, True, False, True)
    | TransactionMappingHintOnly \<Rightarrow> (Mapping, MappingOnly, False, False, False, False)
    | CreatorFundingHint \<Rightarrow> (Mapping, MappingOnly, False, False, False, False)
    | BondingCurveVaultChange \<Rightarrow> (VaultDelta, ActiveTracked, True, False, False, True)
    | PumpTradeActiveMint \<Rightarrow> (TradeDelta, ActiveTracked, True, False, False, True)
    | TransactionActiveMint \<Rightarrow> (TradeDelta, ActiveTracked, True, False, False, True)
    | TransactionActiveAccount \<Rightarrow> (HolderDelta, ActiveTracked, True, False, True, True)
    | TokenAccountChangeActiveMint \<Rightarrow> (HolderDelta, ActiveTracked, True, False, True, True)
    | HolderOwnerChange \<Rightarrow> (HolderDelta, ActiveTracked, True, False, True, True)
    | PumpTradeUnknownMint \<Rightarrow> (CheapCounter, UnknownRelevance, False, False, False, False)
    | MalformedOrUnknown \<Rightarrow> (CheapCounter, UnknownRelevance, False, False, False, False)
    | _ \<Rightarrow> (CheapCounter, CheapSkip, False, False, False, False))"

record fast_classified_update =
  fc_update_class :: material_update_class
  fc_processing_lane :: processing_lane
  fc_routing_key :: "string option"
  fc_mint :: "string option"
  fc_account :: "string option"
  fc_signature :: "string option"
  fc_relevance :: material_update_relevance
  fc_should_deep_process :: bool
  fc_should_create_attempt :: bool
  fc_should_update_holder_state :: bool
  fc_should_mark_dirty :: bool

definition fast_classify ::
  "material_update_class \<Rightarrow> string option \<Rightarrow> string option \<Rightarrow> string option \<Rightarrow> string option \<Rightarrow>
   fast_classified_update" where
  "fast_classify c routing_key mint account signature =
    (case dispatch_for_class c of (lane, relevance, deep, attempt, holders, dirty) \<Rightarrow>
      \<lparr>fc_update_class = c, fc_processing_lane = lane, fc_routing_key = routing_key, fc_mint = mint,
       fc_account = account, fc_signature = signature, fc_relevance = relevance, fc_should_deep_process = deep,
       fc_should_create_attempt = attempt, fc_should_update_holder_state = holders, fc_should_mark_dirty = dirty\<rparr>)"

subsection \<open>Reading an update\<close>

fun wire_info :: "wire_update \<Rightarrow> wire_transaction_info option" where
  "wire_info (WireTransaction slot info) = info"
| "wire_info _ = None"

definition info_message :: "wire_transaction_info \<Rightarrow> wire_message option" where
  "info_message info = Option.bind (wx_transaction info) wt_message"

text \<open>The balances after the transaction and then those before it.\<close>

definition info_balances :: "wire_transaction_info \<Rightarrow> wire_balance list" where
  "info_balances info = (case wx_meta info of
     None \<Rightarrow> [] | Some meta \<Rightarrow> wm_post_token_balances meta @ wm_pre_token_balances meta)"

definition balance_mints :: "wire_transaction_info \<Rightarrow> string list" where
  "balance_mints info = map (\<lambda>b. trim (wb_mint b)) (filter (\<lambda>b. \<not> is_blank (wb_mint b)) (info_balances info))"

definition first_of :: "'a list \<Rightarrow> 'a option" where
  "first_of xs = (case xs of [] \<Rightarrow> None | x # _ \<Rightarrow> Some x)"

definition transaction_mint_hint :: "wire_update \<Rightarrow> string option" where
  "transaction_mint_hint update = Option.bind (wire_info update) (\<lambda>info. first_of (balance_mints info))"

definition transaction_signature_hint :: "codecs \<Rightarrow> wire_update \<Rightarrow> string option" where
  "transaction_signature_hint K update = Option.bind (wire_info update) (\<lambda>info.
     if wx_signature info \<noteq> [] then Some (bs58_encode K (wx_signature info))
     else Option.bind (wx_transaction info) (\<lambda>t. Option.bind (first_of (wt_signatures t)) (\<lambda>s.
       if s \<noteq> [] then Some (bs58_encode K s) else None)))"

definition transaction_account_hint :: "codecs \<Rightarrow> wire_update \<Rightarrow> string option" where
  "transaction_account_hint K update = Option.bind (wire_info update) (\<lambda>info.
     Option.bind (info_message info) (\<lambda>m. map_option (bs58_encode K) (first_of (ws_account_keys m))))"

definition transaction_account_keys :: "wire_update \<Rightarrow> u8 list list" where
  "transaction_account_keys update = unwrap_or []
     (map_option ws_account_keys (Option.bind (wire_info update) info_message))"

definition has_pump_program :: "codecs \<Rightarrow> wire_update \<Rightarrow> bool" where
  "has_pump_program K update \<longleftrightarrow>
    list_ex (\<lambda>key. bs58_encode K key = pump_program_id) (transaction_account_keys update)"

definition pump_discriminator_name :: "codecs \<Rightarrow> u8 list \<Rightarrow> string option" where
  "pump_discriminator_name K data =
    (let is = (\<lambda>name. take 8 data = anchor_discriminator K ''global'' name) in
     if length data < 8 then None
     else if is ''create'' then Some ''create''
     else if is ''create_v2'' then Some ''create_v2''
     else if is ''buy'' \<or> is ''buy_v2'' \<or> is ''buy_exact_quote_in_v2'' then Some ''buy''
     else if is ''sell'' \<or> is ''sell_v2'' then Some ''sell''
     else Some ''other'')"

definition key_at :: "'a list \<Rightarrow> u32 \<Rightarrow> 'a option" where
  "key_at xs index = (if unat index < length xs then Some (xs ! unat index) else None)"

definition runs_pump :: "codecs \<Rightarrow> wire_message \<Rightarrow> wire_instruction \<Rightarrow> bool" where
  "runs_pump K m i \<longleftrightarrow> map_option (bs58_encode K) (key_at (ws_account_keys m) (wi_program_id_index i)) = Some pump_program_id"

definition has_pump_create :: "codecs \<Rightarrow> wire_update \<Rightarrow> bool" where
  "has_pump_create K update = (case Option.bind (wire_info update) info_message of
      None \<Rightarrow> False
    | Some m \<Rightarrow> list_ex (\<lambda>i. runs_pump K m i \<and>
        pump_discriminator_name K (wi_data i) \<in> {Some ''create'', Some ''create_v2''}) (ws_instructions m))"

definition update_class_of :: "codecs \<Rightarrow> wire_update \<Rightarrow> material_update_class" where
  "update_class_of K update = (case update of
      WireSlot \<Rightarrow> SlotLiveness
    | WirePing \<Rightarrow> SlotLiveness
    | WirePong \<Rightarrow> SlotLiveness
    | WireTransaction slot info \<Rightarrow>
        if has_pump_program K update then PumpTradeUnknownMint
        else if unwrap_or [] (map_option info_balances info) \<noteq> [] then TransactionMappingHintOnly
        else OtherUntracked
    | WireTransactionStatus slot signature \<Rightarrow> OtherUntracked
    | WireAccount slot account \<Rightarrow>
        (case account of
           None \<Rightarrow> OtherUntracked
         | Some a \<Rightarrow>
             if wa_data a = [] then OtherUntracked
             else if bs58_encode K (wa_owner a) \<in> {spl_token_program_id, token_2022_program_id}
             then TokenAccountChangeUntracked else HolderOwnerChange)
    | _ \<Rightarrow> MalformedOrUnknown)"

definition update_needs_worker :: "codecs \<Rightarrow> wire_update \<Rightarrow> bool" where
  "update_needs_worker K update \<longleftrightarrow> update_class_of K update \<notin> {SlotLiveness, OtherUntracked}"

subsection \<open>Prefilters\<close>

datatype prefilter_decision =
    DeepProcess
  | SkipUntracked
  | SkipTombstoned
  | SkipUnknownMint
  | SkipMalformed
  | SkipOther
  | SkipMappingHintOnly
  | SkipUntrackedPump
  | SkipAccountPinnedUnknown
  | SkipDuplicateSignature

record prefilter =
  pr_class :: material_update_class
  pr_update_class :: string
  pr_decision :: prefilter_decision
  pr_mint :: "string option"
  pr_account :: "string option"
  pr_signature :: "string option"

definition new_prefilter ::
  "material_update_class \<Rightarrow> prefilter_decision \<Rightarrow> string option \<Rightarrow> string option \<Rightarrow> string option \<Rightarrow> prefilter" where
  "new_prefilter c decision mint account signature =
    \<lparr>pr_class = c, pr_update_class = class_name c, pr_decision = decision, pr_mint = mint, pr_account = account,
     pr_signature = signature\<rparr>"

definition named_prefilter ::
  "material_update_class \<Rightarrow> string \<Rightarrow> prefilter_decision \<Rightarrow> string option \<Rightarrow> string option \<Rightarrow> string option \<Rightarrow>
   prefilter" where
  "named_prefilter c name decision mint account signature =
    (new_prefilter c decision mint account signature)\<lparr>pr_update_class := name\<rparr>"

text \<open>What the instructions show: the pump program, something malformed, a creation, a trade.\<close>

definition note_instruction ::
  "codecs \<Rightarrow> wire_message \<Rightarrow> wire_instruction \<Rightarrow> bool \<times> bool \<times> bool \<times> bool \<Rightarrow> bool \<times> bool \<times> bool \<times> bool" where
  "note_instruction K m i known = (case known of (pump, malformed, creation, trade) \<Rightarrow>
     if key_at (ws_account_keys m) (wi_program_id_index i) = None then (pump, True, creation, trade)
     else if \<not> runs_pump K m i then known
     else (case pump_discriminator_name K (wi_data i) of
         None \<Rightarrow> (True, True, creation, trade)
       | Some name \<Rightarrow>
           if name \<in> {''create'', ''create_v2''} then (True, malformed, True, trade)
           else if name \<in> {''buy'', ''sell''} then (True, malformed, creation, True)
           else (True, malformed, creation, trade)))"

definition prefilter_pump_instruction ::
  "codecs \<Rightarrow> wire_update \<Rightarrow> string set \<Rightarrow> string set \<Rightarrow> prefilter option" where
  "prefilter_pump_instruction K update active tombstoned =
    Option.bind (Option.bind (wire_info update) info_message) (\<lambda>m.
      let mint = transaction_mint_hint update; account = transaction_account_hint K update;
          row = (\<lambda>c decision. Some (new_prefilter c decision mint account None)) in
      case fold (note_instruction K m) (ws_instructions m) (False, False, False, False) of
        (pump, malformed, creation, trade) \<Rightarrow>
          if \<not> pump then None
          else if creation then row PumpTokenCreated DeepProcess
          else if trade
          then (case mint of
              None \<Rightarrow> row PumpTradeUnknownMint SkipUnknownMint
            | Some value \<Rightarrow>
                if value \<in> tombstoned then row PumpTradeTombstonedMint SkipTombstoned
                else if value \<in> active then row PumpTradeActiveMint DeepProcess
                else row PumpTradeUntrackedMint SkipUntracked)
          else if malformed
          then Some (named_prefilter MalformedOrUnknown ''pump_instruction_malformed'' SkipMalformed mint account None)
          else Some (named_prefilter OtherUntracked ''pump_instruction_other'' SkipOther mint account None))"

definition prefilter_transaction_update ::
  "codecs \<Rightarrow> wire_update \<Rightarrow> string set \<Rightarrow> string set \<Rightarrow> (u8 list \<rightharpoonup> string) \<Rightarrow> (u8 list \<rightharpoonup> usize) \<Rightarrow> bool \<Rightarrow>
   prefilter option" where
  "prefilter_transaction_update K update active tombstoned token_account_to_mint pins duplicate =
    (case update of
       WireTransaction slot info \<Rightarrow>
        (let signature = transaction_signature_hint K update;
             mint = transaction_mint_hint update; account = transaction_account_hint K update;
             row = (\<lambda>c decision mint account. Some (new_prefilter c decision mint account signature));
             malformed = Some (named_prefilter MalformedOrUnknown ''transaction_malformed_or_unknown'' SkipMalformed
               None None signature);
             account_keys = transaction_account_keys update in
         if duplicate then row TransactionDuplicateSignature SkipDuplicateSignature mint account
         else (case info of
             None \<Rightarrow> malformed
           | Some i \<Rightarrow>
               if account_keys = [] \<and> wx_meta i = None then malformed
               else if has_pump_create K update then row TransactionTokenCreated DeepProcess mint account
               else
                 (let balances = balance_mints i;
                      mapped = List.map_filter token_account_to_mint account_keys in
                  case find (\<lambda>m. m \<in> active) (balances @ mapped) of
                    Some m \<Rightarrow> row (if m \<in> set balances then TransactionActiveMint else TransactionActiveAccount) DeepProcess
                      (Some m) (first_some (map_option (bs58_encode K)
                        (find (\<lambda>key. token_account_to_mint key = Some m) account_keys)) account)
                  | None \<Rightarrow>
                      (case find (\<lambda>m. m \<in> tombstoned) (balances @ mapped) of
                         Some m \<Rightarrow> row TransactionTombstonedMint SkipTombstoned (Some m) account
                       | None \<Rightarrow>
                           if list_ex (\<lambda>key. pins key \<noteq> None) account_keys
                           then row TransactionAccountPinnedUnknown SkipAccountPinnedUnknown mint account
                           else if has_pump_program K update
                           then row TransactionUntrackedPump SkipUntrackedPump mint account
                           else if balances \<noteq> [] \<or> mapped \<noteq> []
                           then row TransactionMappingHintOnly SkipMappingHintOnly mint account
                           else Some (named_prefilter OtherUntracked ''transaction_other_untracked'' SkipOther
                             mint account signature)))))
     | _ \<Rightarrow> None)"

subsection \<open>Signatures\<close>

fun evict_signatures :: "nat \<Rightarrow> string set \<Rightarrow> string list \<Rightarrow> string set \<times> string list" where
  "evict_signatures capacity known [] = (known, [])"
| "evict_signatures capacity known (old # lru) =
    (if max capacity 1 < card known then evict_signatures capacity (known - {old}) lru else (known, old # lru))"

definition signature_seen_or_insert ::
  "string set \<times> string list \<Rightarrow> string \<Rightarrow> nat \<Rightarrow> (string set \<times> string list) \<times> bool" where
  "signature_seen_or_insert recent signature capacity =
    (if is_blank signature then (recent, False)
     else if signature \<in> fst recent then (recent, True)
     else (evict_signatures capacity (insert signature (fst recent)) (snd recent @ [signature]), False))"

subsection \<open>Partitions\<close>

definition partition_hash :: "codecs \<Rightarrow> u8 list \<Rightarrow> u64" where
  "partition_hash K bytes = from_le_bytes (take 8 (sha256 K bytes))"

definition partition_for_key :: "codecs \<Rightarrow> u8 list \<Rightarrow> usize \<Rightarrow> usize" where
  "partition_for_key K key partitions = (if partitions \<le> 1 then 0 else partition_hash K key mod partitions)"

definition le_bytes8 :: "u64 \<Rightarrow> u8 list" where
  "le_bytes8 w = map (\<lambda>i. ucast (drop_bit (8 * i) w)) [0..<8]"

definition slot_route :: "u64 \<Rightarrow> u8 list \<times> bool \<times> string" where
  "slot_route slot = (le_bytes8 slot, True, ''slot:'' @ show_nat (unat slot))"

definition keyed_route :: "codecs \<Rightarrow> string \<Rightarrow> u8 list \<Rightarrow> u8 list \<times> bool \<times> string" where
  "keyed_route K label key = (key, False, label @ bs58_encode K key)"

definition transaction_route :: "codecs \<Rightarrow> u64 \<Rightarrow> wire_transaction_info option \<Rightarrow> u8 list \<times> bool \<times> string" where
  "transaction_route K slot info = (case info of
      None \<Rightarrow> slot_route slot
    | Some i \<Rightarrow>
        (case find (\<lambda>b. \<not> is_blank (wb_mint b)) (info_balances i) of
           Some b \<Rightarrow> (string_bytes (wb_mint b), False, ''mint:'' @ wb_mint b)
         | None \<Rightarrow>
             (case Option.bind (info_message i) (\<lambda>m. first_of (ws_account_keys m)) of
                Some key \<Rightarrow> keyed_route K ''account:'' key
              | None \<Rightarrow>
                  (case Option.bind (wx_transaction i) (\<lambda>t. first_of (wt_signatures t)) of
                     Some signature \<Rightarrow> keyed_route K ''signature:'' signature
                   | None \<Rightarrow> if wx_signature i \<noteq> [] then keyed_route K ''signature:'' (wx_signature i)
                       else slot_route slot))))"

definition partition_key :: "codecs \<Rightarrow> wire_update \<Rightarrow> u8 list \<times> bool \<times> string" where
  "partition_key K update = (case update of
      WireTransaction slot info \<Rightarrow> transaction_route K slot info
    | WireTransactionStatus slot signature \<Rightarrow>
        if signature \<noteq> [] then keyed_route K ''signature:'' signature else slot_route slot
    | WireAccount slot account \<Rightarrow>
        (case account of
           None \<Rightarrow> slot_route slot
         | Some a \<Rightarrow>
             if wa_pubkey a \<noteq> [] then keyed_route K ''account:'' (wa_pubkey a)
             else if wa_owner a \<noteq> [] then keyed_route K ''owner:'' (wa_owner a) else slot_route slot)
    | WireBlock slot \<Rightarrow> slot_route slot
    | WireBlockMeta slot \<Rightarrow> slot_route slot
    | WireEntry slot \<Rightarrow> slot_route slot
    | _ \<Rightarrow> (string_bytes ''material-hunter-fallback'', True, ''fallback:unknown''))"

definition partition_for_update :: "codecs \<Rightarrow> wire_update \<Rightarrow> usize \<Rightarrow> usize \<times> bool \<times> string" where
  "partition_for_update K update partitions = (case partition_key K update of
     (key, fallback, label) \<Rightarrow> (partition_for_key K key partitions, fallback, label))"

definition token_account_mint_mappings :: "wire_update \<Rightarrow> (u8 list \<times> string) list" where
  "token_account_mint_mappings update = (case wire_info update of
      None \<Rightarrow> []
    | Some info \<Rightarrow> List.map_filter (\<lambda>b.
        if is_blank (wb_mint b) then None
        else (case key_at (transaction_account_keys update) (wb_account_index b) of
            Some key \<Rightarrow> if key = [] then None else Some (key, wb_mint b) | None \<Rightarrow> None)) (info_balances info))"

definition route_account ::
  "codecs \<Rightarrow> wire_update \<Rightarrow> u8 list \<Rightarrow> usize \<Rightarrow> (u8 list \<rightharpoonup> string) \<Rightarrow> (u8 list \<rightharpoonup> usize) \<Rightarrow>
   (u8 list \<rightharpoonup> usize) \<times> usize \<times> bool \<times> string" where
  "route_account K update pubkey partitions token_account_to_mint pins =
    (case pins pubkey of
       Some worker \<Rightarrow> (pins, worker, False, ''account_pinned:'' @ bs58_encode K pubkey)
     | None \<Rightarrow>
         (case token_account_to_mint pubkey of
            Some mint \<Rightarrow>
              (let worker = partition_for_key K (string_bytes mint) partitions in
               (pins(pubkey \<mapsto> worker), worker, False, ''mint:'' @ mint))
          | None \<Rightarrow>
              (case partition_for_update K update partitions of
                 (worker, fallback, label) \<Rightarrow> (pins(pubkey \<mapsto> worker), worker, fallback, label))))"

definition partition_with_account_map ::
  "codecs \<Rightarrow> wire_update \<Rightarrow> usize \<Rightarrow> (u8 list \<rightharpoonup> string) \<Rightarrow> (u8 list \<rightharpoonup> usize) \<Rightarrow>
   (u8 list \<rightharpoonup> usize) \<times> usize \<times> bool \<times> string" where
  "partition_with_account_map K update partitions token_account_to_mint pins =
    (case update of
       WireAccount slot (Some a) \<Rightarrow>
         if wa_pubkey a \<noteq> [] then route_account K update (wa_pubkey a) partitions token_account_to_mint pins
         else (pins, partition_for_update K update partitions)
     | _ \<Rightarrow> (pins, partition_for_update K update partitions))"

subsection \<open>Pressure of an active mint\<close>

record 'f pressure_config =
  pc_max_queued_updates_per_mint :: u64
  pc_max_updates_per_second :: u64
  pc_max_deep_updates_per_checkpoint :: u64
  pc_noisy_degrade_enabled :: bool
  pc_noisy_degrade_reason :: string
  pc_coalesce_window :: duration
  pc_delta_flush_interval :: duration
  pc_soft_queue_threshold_ratio :: 'f

definition from_millis :: "u64 \<Rightarrow> duration" where
  "from_millis ms = uint ms * 1000000"

text \<open>\<open>low\<close> and \<open>high\<close> are the bounds 0.01 and 0.99 of the ratio.\<close>

definition pressure_config_from_geyser :: "'f \<Rightarrow> 'f \<Rightarrow> ('f::linorder) geyser_config \<Rightarrow> 'f pressure_config" where
  "pressure_config_from_geyser low high c =
    \<lparr>pc_max_queued_updates_per_mint = max (gy_material_hunter_active_mint_max_queued_updates_per_mint c) 1,
     pc_max_updates_per_second = max (gy_material_hunter_active_mint_max_updates_per_second c) 1,
     pc_max_deep_updates_per_checkpoint = max (gy_material_hunter_active_mint_max_deep_updates_per_checkpoint c) 1,
     pc_noisy_degrade_enabled = gy_material_hunter_active_mint_noisy_degrade_enabled c,
     pc_noisy_degrade_reason = gy_material_hunter_active_mint_noisy_degrade_reason c,
     pc_coalesce_window = from_millis (max (gy_material_hunter_active_mint_coalesce_window_ms c) 1),
     pc_delta_flush_interval = from_millis (max (gy_material_hunter_active_mint_delta_flush_interval_ms c) 1),
     pc_soft_queue_threshold_ratio =
       min (max (gy_material_hunter_partition_soft_queue_threshold_ratio c) low) high\<rparr>"

record pressure_entry =
  pe_window_started_at :: "instant option"
  pe_window_update_count :: u64
  pe_deep_updates_since_checkpoint :: u64
  pe_coalesced_updates_since_flush :: u64
  pe_last_deep_process_at :: "instant option"
  pe_last_delta_flush_at :: "instant option"
  pe_degraded :: bool

definition default_pressure_entry :: pressure_entry where
  "default_pressure_entry = \<lparr>pe_window_started_at = None, pe_window_update_count = 0,
     pe_deep_updates_since_checkpoint = 0, pe_coalesced_updates_since_flush = 0, pe_last_deep_process_at = None,
     pe_last_delta_flush_at = None, pe_degraded = False\<rparr>"

type_synonym pressure_state = "string \<rightharpoonup> pressure_entry"

datatype pressure_decision = DeepProcessUpdate | Coalesce | Degrade string bool

definition since :: "instant \<Rightarrow> instant \<Rightarrow> duration" where
  "since earlier now = max 0 (now - earlier)"

definition next_window :: "instant \<Rightarrow> pressure_entry \<Rightarrow> pressure_entry" where
  "next_window now e =
    (let started = unwrap_or now (pe_window_started_at e);
         e = e\<lparr>pe_window_started_at := Some started\<rparr>;
         e = (if duration_seconds 1 \<le> since started now
              then e\<lparr>pe_window_started_at := Some now, pe_window_update_count := 0\<rparr> else e)
     in e\<lparr>pe_window_update_count := sat_add (pe_window_update_count e) 1\<rparr>)"

definition soft_depth :: "u64 \<Rightarrow> 'f::floor_ceiling \<Rightarrow> u64" where
  "soft_depth capacity share = word_of_int (min (max \<lceil>of_nat (unat capacity) * share\<rceil> 0) (2 ^ 64 - 1))"

definition passed :: "instant option \<Rightarrow> instant \<Rightarrow> duration \<Rightarrow> bool" where
  "passed earlier now gap_length \<longleftrightarrow> (case earlier of None \<Rightarrow> True | Some t \<Rightarrow> gap_length \<le> since t now)"

definition decide_entry ::
  "('f::floor_ceiling) pressure_config \<Rightarrow> instant \<Rightarrow> u64 \<Rightarrow> u64 \<Rightarrow> pressure_entry \<Rightarrow>
   pressure_entry \<times> pressure_decision" where
  "decide_entry cfg now depth capacity e0 =
    (if pe_degraded e0 then (e0, Coalesce)
     else
       (let e = next_window now e0;
            mint_pressure = (pc_max_queued_updates_per_mint cfg \<le>
              sat_add (pe_window_update_count e) (pe_coalesced_updates_since_flush e));
            queue_pressure = (0 < capacity \<and>
              max (soft_depth capacity (pc_soft_queue_threshold_ratio cfg)) 1 \<le> depth \<and>
              max (pc_max_updates_per_second cfg div 4) 1 \<le> pe_window_update_count e);
            budget_exceeded = (pc_max_updates_per_second cfg < pe_window_update_count e \<or>
              pc_max_deep_updates_per_checkpoint cfg \<le> pe_deep_updates_since_checkpoint e)
        in if pc_noisy_degrade_enabled cfg \<and> (mint_pressure \<or> queue_pressure \<or> budget_exceeded)
           then (e\<lparr>pe_degraded := True\<rparr>, Degrade
             (if budget_exceeded then ''active_mint_processing_budget_exceeded'' else pc_noisy_degrade_reason cfg)
             (mint_pressure \<or> queue_pressure))
           else if passed (pe_last_delta_flush_at e) now (pc_delta_flush_interval cfg) \<or>
             passed (pe_last_deep_process_at e) now (pc_coalesce_window cfg)
           then (e\<lparr>pe_last_deep_process_at := Some now, pe_last_delta_flush_at := Some now,
                   pe_deep_updates_since_checkpoint := sat_add (pe_deep_updates_since_checkpoint e) 1,
                   pe_coalesced_updates_since_flush := 0\<rparr>, DeepProcessUpdate)
           else (e\<lparr>pe_coalesced_updates_since_flush := sat_add (pe_coalesced_updates_since_flush e) 1\<rparr>, Coalesce)))"

definition active_mint_pressure_decision ::
  "('f::floor_ceiling) pressure_config \<Rightarrow> string \<Rightarrow> instant \<Rightarrow> u64 \<Rightarrow> u64 \<Rightarrow> pressure_state \<Rightarrow>
   pressure_state \<times> pressure_decision" where
  "active_mint_pressure_decision cfg mint now depth capacity st =
    (case decide_entry cfg now depth capacity (unwrap_or default_pressure_entry (st mint)) of
       (e, decision) \<Rightarrow> (st(mint \<mapsto> e), decision))"

end
