(* ===== verification/Material_Router.thy ===== *)
theory Material_Router
  imports Material_Hunter "HOL-Library.List_Lexorder" "HOL-Library.Char_ord"
begin

text \<open>
  The router and the workers of the material hunter (\<open>crates/runtime/src/live_source.rs\<close>): the mints it tracks,
  the step that skips, holds back or sends an update to a worker, the order in which a worker serves its batch, and the
  frames of a relay. What the environment decides is an argument: the time, how full the queue of a worker is,
  and whether it takes the update. The statistics of the summaries are left out.
\<close>

subsection \<open>Tracked mints\<close>

record state_hint =
  sh_active_mints :: "string list"
  sh_tombstoned_mints :: "string list"
  sh_inactive_mints :: "string list"

definition default_state_hint :: state_hint where
  "default_state_hint = \<lparr>sh_active_mints = [], sh_tombstoned_mints = [], sh_inactive_mints = []\<rparr>"

definition hint_is_empty :: "state_hint \<Rightarrow> bool" where
  "hint_is_empty h \<longleftrightarrow> sh_active_mints h = [] \<and> sh_tombstoned_mints h = [] \<and> sh_inactive_mints h = []"

datatype stream_action = Continue | ContinueWithStateHint state_hint | Stop

definition is_stop :: "stream_action \<Rightarrow> bool" where
  "is_stop action \<longleftrightarrow> action = Stop"

fun action_state_hint :: "stream_action \<Rightarrow> state_hint option" where
  "action_state_hint (ContinueWithStateHint h) = Some h"
| "action_state_hint Continue = None"
| "action_state_hint Stop = None"

record relevance_state =
  re_active_mints :: "string set"
  re_tombstoned_mints :: "string set"

definition track_mint :: "string \<Rightarrow> relevance_state \<Rightarrow> relevance_state" where
  "track_mint mint s = s\<lparr>re_tombstoned_mints := re_tombstoned_mints s - {mint},
     re_active_mints := insert mint (re_active_mints s)\<rparr>"

definition untrack_mint :: "string \<Rightarrow> relevance_state \<Rightarrow> relevance_state" where
  "untrack_mint mint s = s\<lparr>re_active_mints := re_active_mints s - {mint}\<rparr>"

definition bury_mint :: "string \<Rightarrow> relevance_state \<Rightarrow> relevance_state" where
  "bury_mint mint s = s\<lparr>re_active_mints := re_active_mints s - {mint},
     re_tombstoned_mints := insert mint (re_tombstoned_mints s)\<rparr>"

definition apply_state_hint :: "state_hint \<Rightarrow> relevance_state \<Rightarrow> relevance_state" where
  "apply_state_hint h s = fold bury_mint (sh_tombstoned_mints h)
     (fold untrack_mint (sh_inactive_mints h) (fold track_mint (sh_active_mints h) s))"

subsection \<open>Routing an update\<close>

record partition_update =
  mp_update :: wire_update
  mp_read_at :: instant
  mp_sequence :: u64
  mp_update_class :: string
  mp_classification :: fast_classified_update
  mp_route_key_label :: string
  mp_transaction_signature :: "string option"
  mp_transaction_mint :: "string option"
  mp_transaction_account :: "string option"

record router_state =
  ro_relevance :: relevance_state
  ro_token_account_to_mint :: "u8 list \<rightharpoonup> string"
  ro_account_pins :: "u8 list \<rightharpoonup> usize"
  ro_signatures :: "string set \<times> string list"
  ro_pressure :: pressure_state
  ro_received :: u64

definition new_router_state :: "relevance_state \<Rightarrow> router_state" where
  "new_router_state relevance = \<lparr>ro_relevance = relevance, ro_token_account_to_mint = Map.empty,
     ro_account_pins = Map.empty, ro_signatures = ({}, []), ro_pressure = Map.empty, ro_received = 0\<rparr>"

datatype send_result = SendOk | SendFull | SendClosed

record router_moment =
  rm_now :: instant
  rm_depth :: "usize \<Rightarrow> u64"
  rm_sent :: "usize \<Rightarrow> send_result"

record 'f router_params =
  rp_codecs :: codecs
  rp_pressure :: "'f pressure_config"
  rp_worker_partitions :: usize
  rp_queue_capacity :: u64

datatype route_outcome =
    SkippedUpdate prefilter
  | HeldBack pressure_decision
  | Routed usize partition_update
  | QueueFull usize partition_update
  | ReceiverClosed usize
  | NoPartition usize

fun goes_on :: "route_outcome \<Rightarrow> bool" where
  "goes_on (QueueFull w u) \<longleftrightarrow> False"
| "goes_on (ReceiverClosed w) \<longleftrightarrow> False"
| "goes_on (NoPartition w) \<longleftrightarrow> False"
| "goes_on _ \<longleftrightarrow> True"

definition learn_mappings :: "wire_update \<Rightarrow> (u8 list \<rightharpoonup> string) \<Rightarrow> (u8 list \<rightharpoonup> string)" where
  "learn_mappings update m0 =
    fold (\<lambda>(account, mint) m. if m account = None then m(account \<mapsto> mint) else m) (token_account_mint_mappings update) m0"

definition or_else :: "'a option \<Rightarrow> 'a option \<Rightarrow> 'a option" where
  "or_else x y = (case x of None \<Rightarrow> y | Some v \<Rightarrow> Some v)"

fun strip_label :: "string \<Rightarrow> string \<Rightarrow> string option" where
  "strip_label [] s = Some s"
| "strip_label (p # ps) [] = None"
| "strip_label (p # ps) (c # cs) = (if p = c then strip_label ps cs else None)"

definition worker_classification ::
  "material_update_class \<Rightarrow> string \<Rightarrow> string option \<Rightarrow> string option \<Rightarrow> string option \<Rightarrow> fast_classified_update" where
  "worker_classification c label mint account signature =
    fast_classify c (Some label) (or_else mint (strip_label ''mint:'' label))
      (or_else account (strip_label ''account:'' label)) signature"

text \<open>The mint whose pressure decides, for an update of an active mint.\<close>

definition mint_for_pressure ::
  "material_update_class \<Rightarrow> string option \<Rightarrow> string option \<Rightarrow> string option" where
  "mint_for_pressure c pump_mint hint_mint =
    (if c = PumpTradeActiveMint then pump_mint
     else if c = TransactionActiveMint \<or> c = TransactionActiveAccount then hint_mint else None)"

definition send_to_worker :: "router_moment \<Rightarrow> usize \<Rightarrow> partition_update \<Rightarrow> route_outcome" where
  "send_to_worker moment worker u = (case rm_sent moment worker of
      SendOk \<Rightarrow> Routed worker u | SendFull \<Rightarrow> QueueFull worker u | SendClosed \<Rightarrow> ReceiverClosed worker)"

record update_hints =
  uh_signature :: "string option"
  uh_mint :: "string option"
  uh_account :: "string option"
  uh_pump_mint :: "string option"
  uh_pump_account :: "string option"

definition partition_update_of ::
  "wire_update \<Rightarrow> instant \<Rightarrow> u64 \<Rightarrow> material_update_class \<Rightarrow> update_hints \<Rightarrow> string \<Rightarrow> partition_update" where
  "partition_update_of update read_at sequence c h label =
    \<lparr>mp_update = update, mp_read_at = read_at, mp_sequence = sequence, mp_update_class = class_name c,
     mp_classification = worker_classification c label (or_else (uh_mint h) (uh_pump_mint h))
       (or_else (uh_account h) (uh_pump_account h)) (uh_signature h),
     mp_route_key_label = label, mp_transaction_signature = uh_signature h, mp_transaction_mint = uh_mint h,
     mp_transaction_account = uh_account h\<rparr>"

definition degrade_hint :: "string \<Rightarrow> state_hint" where
  "degrade_hint mint = default_state_hint\<lparr>sh_inactive_mints := [mint], sh_tombstoned_mints := [mint]\<rparr>"

definition dispatch_update ::
  "('f::floor_ceiling) router_params \<Rightarrow> router_moment \<Rightarrow> wire_update \<Rightarrow> instant \<Rightarrow> material_update_class \<Rightarrow>
   update_hints \<Rightarrow> router_state \<Rightarrow> router_state \<times> route_outcome" where
  "dispatch_update P moment update read_at c h st =
    (case partition_with_account_map (rp_codecs P) update (rp_worker_partitions P) (ro_token_account_to_mint st)
       (ro_account_pins st) of (pins, worker, fallback, label) \<Rightarrow>
      let st = st\<lparr>ro_account_pins := pins, ro_received := sat_add (ro_received st) 1\<rparr>;
          sending = send_to_worker moment worker (partition_update_of update read_at (ro_received st) c h label)
      in if \<not> worker < rp_worker_partitions P then (st, NoPartition worker)
         else (case mint_for_pressure c (uh_pump_mint h) (uh_mint h) of
             None \<Rightarrow> (st, sending)
           | Some mint \<Rightarrow>
               (case active_mint_pressure_decision (rp_pressure P) mint (rm_now moment) (rm_depth moment worker)
                   (rp_queue_capacity P) (ro_pressure st) of
                  (pressure, DeepProcessUpdate) \<Rightarrow> (st\<lparr>ro_pressure := pressure\<rparr>, sending)
                | (pressure, Coalesce) \<Rightarrow> (st\<lparr>ro_pressure := pressure\<rparr>, HeldBack Coalesce)
                | (pressure, Degrade reason queue_pressure) \<Rightarrow>
                    (st\<lparr>ro_pressure := pressure,
                        ro_relevance := apply_state_hint (degrade_hint mint) (ro_relevance st)\<rparr>,
                     HeldBack (Degrade reason queue_pressure)))))"

definition track_created :: "prefilter \<Rightarrow> relevance_state \<Rightarrow> relevance_state" where
  "track_created p s = (if pr_class p = PumpTokenCreated then (case pr_mint p of
       None \<Rightarrow> s | Some mint \<Rightarrow> apply_state_hint (default_state_hint\<lparr>sh_active_mints := [mint]\<rparr>) s) else s)"

definition own_hints :: "codecs \<Rightarrow> wire_update \<Rightarrow> update_hints" where
  "own_hints K update =
    \<lparr>uh_signature = transaction_signature_hint K update, uh_mint = transaction_mint_hint update,
     uh_account = transaction_account_hint K update, uh_pump_mint = None, uh_pump_account = None\<rparr>"

definition route_fresh_update ::
  "('f::floor_ceiling) router_params \<Rightarrow> router_moment \<Rightarrow> wire_update \<Rightarrow> instant \<Rightarrow> router_state \<Rightarrow>
   router_state \<times> route_outcome" where
  "route_fresh_update P moment update read_at st =
    (let K = rp_codecs P; active = re_active_mints (ro_relevance st);
         tombstoned = re_tombstoned_mints (ro_relevance st); hints = own_hints K update in
     case prefilter_pump_instruction K update active tombstoned of
       Some p \<Rightarrow>
         (let st = st\<lparr>ro_relevance := track_created p (ro_relevance st)\<rparr> in
          if pr_decision p \<noteq> DeepProcess then (st, SkippedUpdate p)
          else dispatch_update P moment update read_at (pr_class p)
            (hints\<lparr>uh_pump_mint := pr_mint p, uh_pump_account := pr_account p\<rparr>) st)
     | None \<Rightarrow>
         (case prefilter_transaction_update K update active tombstoned (ro_token_account_to_mint st)
            (ro_account_pins st) False of
            Some p \<Rightarrow>
              if pr_decision p \<noteq> DeepProcess then (st, SkippedUpdate p)
              else dispatch_update P moment update read_at (pr_class p)
                (hints\<lparr>uh_signature := pr_signature p, uh_mint := pr_mint p, uh_account := pr_account p\<rparr>) st
          | None \<Rightarrow> dispatch_update P moment update read_at (update_class_of K update) hints st))"

definition note_transaction :: "codecs \<Rightarrow> wire_update \<Rightarrow> router_state \<Rightarrow> router_state \<times> bool" where
  "note_transaction K update st = (case transaction_signature_hint K update of
      None \<Rightarrow> (st, False)
    | Some signature \<Rightarrow> (case signature_seen_or_insert (ro_signatures st) signature 4096 of
        (recent, duplicate) \<Rightarrow> (st\<lparr>ro_signatures := recent\<rparr>, duplicate)))"

definition route_update ::
  "('f::floor_ceiling) router_params \<Rightarrow> router_moment \<Rightarrow> wire_update \<Rightarrow> instant \<Rightarrow> router_state \<Rightarrow>
   router_state \<times> route_outcome" where
  "route_update P moment update read_at st =
    (let K = rp_codecs P;
         st = st\<lparr>ro_token_account_to_mint := learn_mappings update (ro_token_account_to_mint st)\<rparr> in
     case note_transaction K update st of (st, duplicate) \<Rightarrow>
       if duplicate then
         (case prefilter_transaction_update K update (re_active_mints (ro_relevance st))
            (re_tombstoned_mints (ro_relevance st)) (ro_token_account_to_mint st) (ro_account_pins st) True of
            Some p \<Rightarrow> (st, SkippedUpdate p)
          | None \<Rightarrow> route_fresh_update P moment update read_at st)
       else route_fresh_update P moment update read_at st)"

datatype 's reader_message = ReadUpdate wire_update instant | ReadStreamError 's | ReadStreamClosed

datatype 's router_end = ReaderGone | RouterBroke | RouterStreamError 's | RouterStreamClosed

text \<open>The hints of the main loop arrive between the updates: the state is taken after \<open>hints\<close>.\<close>

fun run_router ::
  "('f::floor_ceiling) router_params \<Rightarrow> (router_moment \<times> state_hint \<times> 's reader_message) list \<Rightarrow> router_state \<Rightarrow>
   router_state \<times> route_outcome list \<times> 's router_end" where
  "run_router P [] st = (st, [], ReaderGone)"
| "run_router P ((moment, hint, message) # rest) st =
    (let st = st\<lparr>ro_relevance := apply_state_hint hint (ro_relevance st)\<rparr> in
     case message of
       ReadStreamError status \<Rightarrow> (st, [], RouterStreamError status)
     | ReadStreamClosed \<Rightarrow> (st, [], RouterStreamClosed)
     | ReadUpdate update read_at \<Rightarrow>
         (case route_update P moment update read_at st of (st, out) \<Rightarrow>
            if goes_on out then
              (case run_router P rest st of (st, outs, stop) \<Rightarrow> (st, out # outs, stop))
            else (st, [out], RouterBroke)))"

subsection \<open>The order of a batch\<close>

text \<open>The queues by label, in the order of the labels, each in the order of arrival.\<close>

definition queues_by_label :: "('a \<Rightarrow> string) \<Rightarrow> 'a list \<Rightarrow> 'a list list" where
  "queues_by_label label batch =
    map (\<lambda>k. filter (\<lambda>item. label item = k) batch) (sort (remdups (map label batch)))"

definition rotate_queues :: "'a list list \<Rightarrow> 'a list \<times> 'a list list" where
  "rotate_queues queues = (List.map_filter first_of queues, map tl queues)"

lemma rotation_shortens:
  assumes "list_ex (\<lambda>q. q \<noteq> []) queues"
  shows "sum_list (map length (map tl queues)) < sum_list (map length queues)"
proof -
  obtain q where q: "q \<in> set queues" "q \<noteq> []" using assms by (auto simp: list_ex_iff)
  obtain xs ys where split: "queues = xs @ q # ys" using q(1) by (meson split_list)
  have le: "sum_list (map length (map tl zs)) \<le> sum_list (map length zs)" for zs :: "'a list list"
    by (induction zs) auto
  have "length (tl q) < length q" using q(2) by (cases q) auto
  then show ?thesis using le [of xs] le [of ys] by (simp add: split)
qed

function serve_queues :: "'a list list \<Rightarrow> u64 \<Rightarrow> 'a list \<times> u64" where
  "serve_queues queues turns =
    (if list_ex (\<lambda>q. q \<noteq> []) queues then
       (case rotate_queues queues of (moved, rest) \<Rightarrow>
          case serve_queues rest (if 1 < length moved then sat_add turns 1 else turns) of
            (scheduled, served) \<Rightarrow> (moved @ scheduled, served))
     else ([], turns))"
  by pat_completeness auto

termination
  by (relation "measure (\<lambda>(queues, _). sum_list (map length queues))")
    (auto simp: rotate_queues_def rotation_shortens simp del: map_map)

declare serve_queues.simps [simp del]

definition limit_hits :: "nat \<Rightarrow> 'a list list \<Rightarrow> nat" where
  "limit_hits max_per_key queues = length (filter (\<lambda>q. max max_per_key 1 < length q) queues)"

definition fair_schedule :: "('a \<Rightarrow> string) \<Rightarrow> 'a list \<Rightarrow> nat \<Rightarrow> 'a list \<times> u64 \<times> u64" where
  "fair_schedule label batch max_per_key =
    (if length batch \<le> 1 then (batch, 0, 0)
     else
       (let queues = queues_by_label label batch in
        case serve_queues queues 0 of (scheduled, turns) \<Rightarrow>
          (scheduled, turns, of_nat (limit_hits max_per_key queues))))"

end
