(* ===== verification/Material_Properties.thy ===== *)
theory Material_Properties
  imports Material_Router
begin

text \<open>
  What the router of the material hunter keeps to: the queue of a batch is served in rounds, an active mint
  has only so many updates processed deeply, a transaction is not routed twice, and an account keeps its worker.
\<close>

subsection \<open>A batch is served in rounds\<close>

definition serving_round :: "'a list list \<Rightarrow> nat \<Rightarrow> 'a list" where
  "serving_round queues r = concat (map (\<lambda>q. if r < length q then [q ! r] else []) queues)"

lemma first_of_round: "List.map_filter first_of queues = serving_round queues 0"
  by (induction queues) (auto simp: serving_round_def map_filter_simps first_of_def hd_conv_nth split: list.splits)

lemma later_rounds: "serving_round (map tl queues) = (\<lambda>r. serving_round queues (Suc r))"
proof -
  have "(if r < length (tl q) then [tl q ! r] else []) = (if Suc r < length q then [q ! Suc r] else [])"
    for q :: "'a list" and r
    by (cases q) auto
  then show ?thesis by (intro ext) (simp only: serving_round_def map_map o_def)
qed

lemma serve_queues_rounds:
  "list_all (\<lambda>q. length q \<le> n) queues \<Longrightarrow>
     fst (serve_queues queues turns) = concat (map (serving_round queues) [0..<n])"
proof (induction n arbitrary: queues turns)
  case 0
  then have "\<not> list_ex (\<lambda>q. q \<noteq> []) queues" by (simp add: list_all_iff list_ex_iff)
  then show ?case by (simp add: serve_queues.simps)
next
  case (Suc n)
  have rounds: "concat (map (serving_round queues) [0..<Suc n]) =
      serving_round queues 0 @ concat (map (serving_round (map tl queues)) [0..<n])"
    by (simp add: upt_conv_Cons map_Suc_upt [symmetric] o_def later_rounds del: upt_Suc)
  show ?case
  proof (cases "list_ex (\<lambda>q. q \<noteq> []) queues")
    case True
    have "list_all (\<lambda>q. length q \<le> n) (map tl queues)" using Suc.prems by (auto simp: list_all_iff)
    from Suc.IH [OF this] show ?thesis
      unfolding rounds by (subst serve_queues.simps) (simp add: True rotate_queues_def first_of_round case_prod_beta)
  next
    case False
    then have "serving_round queues r = []" for r by (auto simp: list_ex_iff serving_round_def)
    then show ?thesis using False by (simp add: serve_queues.simps)
  qed
qed

lemma queue_in_rounds:
  "concat (map (\<lambda>r. if r < length xs then [xs ! r] else []) [0..<n]) = take n xs"
proof (induction n)
  case (Suc n)
  then show ?case by (cases "n < length xs") (simp_all add: take_Suc_conv_app_nth)
qed simp

lemma filter_round:
  assumes "distinct ks"
  shows "filter (\<lambda>item. label item = k) (serving_round (map (\<lambda>k. filter (\<lambda>item. label item = k) batch) ks) r) =
    (let q = filter (\<lambda>item. label item = k) batch in if k \<in> set ks \<and> r < length q then [q ! r] else [])"
  using assms
proof (induction ks)
  case (Cons k' ks)
  let ?q = "\<lambda>k. filter (\<lambda>item. label item = k) batch"
  have "label (?q k' ! r) = k'" if "r < length (?q k')" using nth_mem [OF that] by simp
  then show ?case using Cons by (auto simp: serving_round_def Let_def)
qed (simp add: serving_round_def)

lemma order_kept:
  "filter (\<lambda>item. label item = k) (concat (map (serving_round (queues_by_label label batch)) [0..<length batch])) =
     filter (\<lambda>item. label item = k) batch"
proof -
  let ?q = "filter (\<lambda>item. label item = k) batch"
  have "filter (\<lambda>item. label item = k) (serving_round (queues_by_label label batch) r) =
      (if r < length ?q then [?q ! r] else [])" for r
  proof -
    have "k \<in> label ` set batch" if "r < length ?q" using nth_mem [OF that] by force
    then show ?thesis unfolding queues_by_label_def by (subst filter_round) (auto simp: Let_def)
  qed
  then have "filter (\<lambda>item. label item = k) (concat (map (serving_round (queues_by_label label batch)) [0..<n])) =
      take n ?q" for n
    unfolding filter_concat map_map o_def by (simp only: queue_in_rounds)
  then show ?thesis by (simp add: length_filter_le)
qed

text \<open>C22. A worker serves its batch in rounds over the labels in their order, the oldest update of each label that
  has one left in each round, so a noisy label delays another by one update per round; no update is lost or
  doubled, and the updates of a label keep their order.\<close>

theorem batch_served_in_rounds:
  "fst (fair_schedule label batch limit) =
     concat (map (serving_round (queues_by_label label batch)) [0..<length batch]) \<and>
   (\<forall>k. filter (\<lambda>item. label item = k) (fst (fair_schedule label batch limit)) = filter (\<lambda>item. label item = k) batch)"
proof -
  have short: "list_all (\<lambda>q. length q \<le> length batch) (queues_by_label label batch)"
    by (simp add: list_all_iff queues_by_label_def length_filter_le)
  have "fst (fair_schedule label batch limit) =
      concat (map (serving_round (queues_by_label label batch)) [0..<length batch])"
  proof (cases "length batch \<le> 1")
    case True
    then consider "batch = []" | x where "batch = [x]" by (cases batch) auto
    then show ?thesis
      by cases (simp_all add: fair_schedule_def queues_by_label_def serving_round_def)
  next
    case False
    then show ?thesis using serve_queues_rounds [OF short] by (simp add: fair_schedule_def Let_def case_prod_beta)
  qed
  then show ?thesis by (simp add: order_kept)
qed

subsection \<open>An active mint has its budget\<close>

definition deep_updates :: "string \<Rightarrow> router_state \<Rightarrow> nat" where
  "deep_updates mint st = unat (pe_deep_updates_since_checkpoint (unwrap_or default_pressure_entry (ro_pressure st mint)))"

definition deep_trade :: "string \<Rightarrow> route_outcome \<Rightarrow> bool" where
  "deep_trade mint out = (case out of
      Routed worker u \<Rightarrow> mp_transaction_mint u = Some mint \<and>
        fc_update_class (mp_classification u) \<in> {PumpTradeActiveMint, TransactionActiveMint, TransactionActiveAccount}
    | _ \<Rightarrow> False)"

lemma next_window_deep [simp]:
  "pe_deep_updates_since_checkpoint (next_window now e) = pe_deep_updates_since_checkpoint e"
  by (simp add: next_window_def Let_def)

lemma decided_deep:
  assumes "decide_entry cfg now depth capacity e = (e', decision)" "pc_noisy_degrade_enabled cfg"
  shows "unat (pe_deep_updates_since_checkpoint e') =
      unat (pe_deep_updates_since_checkpoint e) + (if decision = DeepProcessUpdate then 1 else 0) \<and>
    (decision = DeepProcessUpdate \<longrightarrow>
       unat (pe_deep_updates_since_checkpoint e') \<le> unat (pc_max_deep_updates_per_checkpoint cfg))"
proof (cases "decision = DeepProcessUpdate")
  case True
  let ?deep = "pe_deep_updates_since_checkpoint e"
  have below: "\<not> pc_max_deep_updates_per_checkpoint cfg \<le> ?deep" and
    e': "pe_deep_updates_since_checkpoint e' = sat_add ?deep 1"
    using assms True by (auto simp: decide_entry_def Let_def split: if_splits)
  have "unat ?deep < unat (pc_max_deep_updates_per_checkpoint cfg)" using below by (simp add: word_le_nat_alt)
  moreover have "unat (pc_max_deep_updates_per_checkpoint cfg) < 2 ^ 64"
    using unsigned_less [of "pc_max_deep_updates_per_checkpoint cfg"] by simp
  ultimately show ?thesis by (simp add: True e' width_simps)
next
  case False
  then have "pe_deep_updates_since_checkpoint e' = pe_deep_updates_since_checkpoint e"
    using assms by (auto simp: decide_entry_def Let_def split: if_splits)
  then show ?thesis using False by simp
qed

lemma pressed_deep:
  assumes "active_mint_pressure_decision cfg mint now depth capacity pressure = (pressure', decision)"
    and "pc_noisy_degrade_enabled cfg" and "ro_pressure st = pressure" "ro_pressure st' = pressure'"
  shows "deep_updates m st' = deep_updates m st + (if m = mint \<and> decision = DeepProcessUpdate then 1 else 0) \<and>
    deep_updates m st' \<le> max (deep_updates m st) (unat (pc_max_deep_updates_per_checkpoint cfg))"
proof -
  obtain e' where step: "decide_entry cfg now depth capacity (unwrap_or default_pressure_entry (pressure mint)) = (e', decision)"
    and pressure': "pressure' = pressure(mint \<mapsto> e')"
    using assms(1) by (auto simp: active_mint_pressure_decision_def split: prod.splits)
  from decided_deep [OF step assms(2)] show ?thesis by (auto simp: deep_updates_def assms(3,4) pressure' unwrap_or_def split: if_splits)
qed

definition hints_fit :: "material_update_class \<Rightarrow> update_hints \<Rightarrow> bool" where
  "hints_fit c h \<longleftrightarrow> c \<noteq> PumpTradeActiveMint \<or> uh_pump_mint h = uh_mint h"

lemma sent_deep_trade:
  assumes "deep_trade m (send_to_worker moment worker (partition_update_of update read_at sequence c h label))"
    and "hints_fit c h"
  shows "mint_for_pressure c (uh_pump_mint h) (uh_mint h) = Some m"
  using assms
  by (auto simp: deep_trade_def send_to_worker_def partition_update_of_def worker_classification_def fast_classify_def
      mint_for_pressure_def hints_fit_def split: send_result.splits prod.splits)

lemma deep_trade_simps [simp]:
  "\<not> deep_trade m (HeldBack d)" "\<not> deep_trade m (SkippedUpdate p)" "\<not> deep_trade m (NoPartition w)"
  by (simp_all add: deep_trade_def)

definition keeps_budget :: "'f pressure_config \<Rightarrow> string \<Rightarrow> router_state \<Rightarrow> router_state \<times> route_outcome \<Rightarrow> bool" where
  "keeps_budget cfg m st res \<longleftrightarrow>
    deep_updates m st + (if deep_trade m (snd res) then 1 else 0) \<le> deep_updates m (fst res) \<and>
    deep_updates m (fst res) \<le> max (deep_updates m st) (unat (pc_max_deep_updates_per_checkpoint cfg))"

lemma keeps_budget_silent:
  "ro_pressure st' = ro_pressure st \<Longrightarrow> \<not> deep_trade m out \<Longrightarrow> keeps_budget cfg m st (st', out)"
  by (simp add: keeps_budget_def deep_updates_def)

lemma dispatch_keeps_budget:
  assumes "pc_noisy_degrade_enabled (rp_pressure P)" "hints_fit c h"
  shows "keeps_budget (rp_pressure P) m st (dispatch_update P moment update read_at c h st)"
proof -
  obtain pins worker fallback label where route: "partition_with_account_map (rp_codecs P) update (rp_worker_partitions P)
      (ro_token_account_to_mint st) (ro_account_pins st) = (pins, worker, fallback, label)"
    by (metis prod_cases4)
  define st1 where "st1 = st\<lparr>ro_account_pins := pins, ro_received := sat_add (ro_received st) 1\<rparr>"
  have st1 [simp]: "ro_pressure st1 = ro_pressure st" by (simp add: st1_def)
  let ?sending = "send_to_worker moment worker (partition_update_of update read_at (ro_received st1) c h label)"
  note unfolded = dispatch_update_def route prod.case Let_def st1_def [symmetric]
  show ?thesis
  proof (cases "worker < rp_worker_partitions P")
    case False
    then show ?thesis unfolding unfolded by (simp add: keeps_budget_silent)
  next
    case placed: True
    show ?thesis
    proof (cases "mint_for_pressure c (uh_pump_mint h) (uh_mint h)")
      case None
      then have "\<not> deep_trade m ?sending" using sent_deep_trade [OF _ assms(2)] by fastforce
      then show ?thesis unfolding unfolded by (simp add: placed None keeps_budget_silent)
    next
      case (Some mint)
      obtain pressure decision where step: "active_mint_pressure_decision (rp_pressure P) mint (rm_now moment)
          (rm_depth moment worker) (rp_queue_capacity P) (ro_pressure st) = (pressure, decision)" by fastforce
      note bound = pressed_deep [OF step assms(1) refl, of "st1\<lparr>ro_pressure := pressure\<rparr>" m, simplified]
      have "m = mint" if "deep_trade m ?sending" using sent_deep_trade [OF that assms(2)] Some by simp
      then show ?thesis unfolding unfolded using bound
        by (cases decision) (auto simp: placed Some step keeps_budget_def deep_updates_def)
    qed
  qed
qed

lemma pump_prefilter_mint:
  assumes "prefilter_pump_instruction K update active tombstoned = Some p"
  shows "pr_mint p = transaction_mint_hint update"
proof -
  obtain m where m: "Option.bind (wire_info update) info_message = Some m"
    using assms by (auto simp: prefilter_pump_instruction_def bind_eq_Some_conv)
  obtain pump malformed creation trade where flags:
    "fold (note_instruction K m) (ws_instructions m) (False, False, False, False) = (pump, malformed, creation, trade)"
    by (metis prod_cases4)
  show ?thesis using assms
    by (simp add: prefilter_pump_instruction_def m flags Let_def new_prefilter_def named_prefilter_def
        split: if_splits option.splits) auto
qed

lemma transaction_prefilter_facts:
  assumes "prefilter_transaction_update K update active tombstoned mapping pins duplicate = Some p"
  shows "pr_signature p = transaction_signature_hint K update" "pr_class p \<noteq> PumpTradeActiveMint"
proof -
  obtain slot info where update: "update = WireTransaction slot info"
    using assms by (auto simp: prefilter_transaction_update_def split: wire_update.splits)
  have "pr_signature p = transaction_signature_hint K update \<and> pr_class p \<noteq> PumpTradeActiveMint"
  proof (cases duplicate)
    case True
    then show ?thesis using assms by (auto simp: prefilter_transaction_update_def update Let_def new_prefilter_def)
  next
    case False
    show ?thesis
    proof (cases info)
      case None
      then show ?thesis using assms False
        by (auto simp: prefilter_transaction_update_def update Let_def new_prefilter_def named_prefilter_def)
    next
      case (Some i)
      define balances where "balances = balance_mints i"
      define mapped where "mapped = List.map_filter mapping (transaction_account_keys (WireTransaction slot (Some i)))"
      note unfolded = prefilter_transaction_update_def update wire_update.case Let_def Some option.case False if_False
        balances_def [symmetric] mapped_def [symmetric]
      show ?thesis using assms unfolding unfolded
        by (cases "find (\<lambda>m. m \<in> active) (balances @ mapped)"; cases "find (\<lambda>m. m \<in> tombstoned) (balances @ mapped)")
          (simp_all add: new_prefilter_def named_prefilter_def split: if_splits, auto)
    qed
  qed
  then show "pr_signature p = transaction_signature_hint K update" "pr_class p \<noteq> PumpTradeActiveMint" by auto
qed

lemma update_class_not_active: "update_class_of K update \<noteq> PumpTradeActiveMint"
  by (auto simp: update_class_of_def split: wire_update.splits option.splits)

text \<open>How a fresh update ends: skipped, or handed on with hints that fit its class.\<close>

lemma route_fresh_cases:
  obtains (skipped) st' p where "route_fresh_update P moment update read_at st = (st', SkippedUpdate p)"
      "ro_pressure st' = ro_pressure st" "ro_signatures st' = ro_signatures st"
  | (dispatched) st' c h where "route_fresh_update P moment update read_at st = dispatch_update P moment update read_at c h st'"
      "ro_pressure st' = ro_pressure st" "ro_signatures st' = ro_signatures st" "hints_fit c h"
      "uh_signature h = transaction_signature_hint (rp_codecs P) update"
proof -
  let ?active = "re_active_mints (ro_relevance st)" and ?tombstoned = "re_tombstoned_mints (ro_relevance st)"
  let ?hints = "own_hints (rp_codecs P) update"
  note unfolded = route_fresh_update_def Let_def
  show ?thesis
  proof (cases "prefilter_pump_instruction (rp_codecs P) update ?active ?tombstoned")
    case (Some p)
    note mint = pump_prefilter_mint [OF Some]
    show ?thesis
    proof (cases "pr_decision p = DeepProcess")
      case True
      show ?thesis
        by (rule dispatched [of "pr_class p" "?hints\<lparr>uh_pump_mint := pr_mint p, uh_pump_account := pr_account p\<rparr>"
            "st\<lparr>ro_relevance := track_created p (ro_relevance st)\<rparr>"])
          (simp_all add: unfolded Some True hints_fit_def own_hints_def mint)
    next
      case False
      show ?thesis by (rule skipped [of "st\<lparr>ro_relevance := track_created p (ro_relevance st)\<rparr>" p])
          (simp_all add: unfolded Some False)
    qed
  next
    case None
    note pump = None
    show ?thesis
    proof (cases "prefilter_transaction_update (rp_codecs P) update ?active ?tombstoned
        (ro_token_account_to_mint st) (ro_account_pins st) False")
      case None
      show ?thesis by (rule dispatched [of "update_class_of (rp_codecs P) update" ?hints st])
          (simp_all add: unfolded pump None hints_fit_def own_hints_def update_class_not_active)
    next
      case (Some p)
      note facts = transaction_prefilter_facts [OF Some]
      show ?thesis
      proof (cases "pr_decision p = DeepProcess")
        case True
        show ?thesis
          by (rule dispatched [of "pr_class p"
              "?hints\<lparr>uh_signature := pr_signature p, uh_mint := pr_mint p, uh_account := pr_account p\<rparr>" st])
            (simp_all add: unfolded pump Some True hints_fit_def facts)
      next
        case False
        show ?thesis by (rule skipped [of st p]) (simp_all add: unfolded pump Some False)
      qed
    qed
  qed
qed

lemma route_fresh_keeps_budget:
  assumes "pc_noisy_degrade_enabled (rp_pressure P)"
  shows "keeps_budget (rp_pressure P) m st (route_fresh_update P moment update read_at st)"
proof (rule route_fresh_cases [of P moment update read_at st])
  fix st' p assume "route_fresh_update P moment update read_at st = (st', SkippedUpdate p)"
    "ro_pressure st' = ro_pressure st"
  then show ?thesis by (simp add: keeps_budget_silent)
next
  fix st' c h assume step: "route_fresh_update P moment update read_at st = dispatch_update P moment update read_at c h st'"
    and same: "ro_pressure st' = ro_pressure st" and fit: "hints_fit c h"
  show ?thesis using dispatch_keeps_budget [OF assms fit, of m st' moment update read_at] same
    by (simp add: step keeps_budget_def deep_updates_def)
qed

lemma note_transaction_pressure: "note_transaction K update st = (st', duplicate) \<Longrightarrow> ro_pressure st' = ro_pressure st"
  by (auto simp: note_transaction_def split: option.splits prod.splits)

lemma route_keeps_budget:
  assumes "pc_noisy_degrade_enabled (rp_pressure P)"
  shows "keeps_budget (rp_pressure P) m st (route_update P moment update read_at st)"
proof -
  let ?learned = "st\<lparr>ro_token_account_to_mint := learn_mappings update (ro_token_account_to_mint st)\<rparr>"
  obtain st' duplicate where noted: "note_transaction (rp_codecs P) update ?learned = (st', duplicate)" by fastforce
  have same: "ro_pressure st' = ro_pressure st" using note_transaction_pressure [OF noted] by simp
  have fresh: "keeps_budget (rp_pressure P) m st (route_fresh_update P moment update read_at st')"
    using route_fresh_keeps_budget [OF assms, of m st' moment update read_at] same
    by (simp add: keeps_budget_def deep_updates_def)
  show ?thesis using same fresh by (simp add: route_update_def noted Let_def keeps_budget_silent split: option.split)
qed

lemma run_keeps_budget:
  assumes "pc_noisy_degrade_enabled (rp_pressure P)"
  shows "deep_updates m st + length (filter (deep_trade m) (fst (snd (run_router P messages st))))
      \<le> max (deep_updates m st) (unat (pc_max_deep_updates_per_checkpoint (rp_pressure P)))"
proof (induction messages arbitrary: st)
  case (Cons entry messages)
  obtain moment hint message where entry: "entry = (moment, hint, message)" by (metis prod_cases3)
  define st1 where "st1 = st\<lparr>ro_relevance := apply_state_hint hint (ro_relevance st)\<rparr>"
  have deep1: "deep_updates m st1 = deep_updates m st" by (simp add: st1_def deep_updates_def)
  show ?case
  proof (cases message)
    case (ReadUpdate update read_at)
    obtain st2 out where step: "route_update P moment update read_at st1 = (st2, out)" by fastforce
    have "keeps_budget (rp_pressure P) m st1 (st2, out)"
      using route_keeps_budget [OF assms, of m st1 moment update read_at] step by simp
    then show ?thesis using Cons.IH [of st2]
      by (auto simp: entry ReadUpdate Let_def st1_def [symmetric] step keeps_budget_def deep1 split: prod.splits)
  qed (simp_all add: entry Let_def)
qed simp

text \<open>C7. Whatever the stream sends, the hints of the hunter say and the queues do, the router hands the workers at most
  the configured number of trades of an active mint for deep processing while noisy mints are degraded.\<close>

theorem active_mint_has_its_budget:
  assumes "pc_noisy_degrade_enabled (rp_pressure P)"
  shows "length (filter (deep_trade m) (fst (snd (run_router P messages (new_router_state relevance)))))
    \<le> unat (pc_max_deep_updates_per_checkpoint (rp_pressure P))"
  using run_keeps_budget [OF assms, of m "new_router_state relevance" messages]
  by (simp add: new_router_state_def deep_updates_def default_pressure_entry_def unwrap_or_def)

text \<open>A small run: three trades of one mint that may have one deep update.\<close>

lemma sat_add_code [code]: "sat_add x y = (let s = x + y in if s < x then - 1 else s)" for x y :: "'a::len word"
proof (cases "unat x + unat y < 2 ^ LENGTH('a)")
  case True
  then have "unat (x + y) = unat x + unat y" by (simp add: unat_word_ariths)
  then show ?thesis using True by (simp add: sat_add_def Let_def word_less_nat_alt)
next
  case False
  have bounds: "unat x < 2 ^ LENGTH('a)" "unat y < 2 ^ LENGTH('a)" by (rule unsigned_less)+
  then have "unat x + unat y - 2 ^ LENGTH('a) < 2 ^ LENGTH('a)" by linarith
  then have "unat (x + y) = unat x + unat y - 2 ^ LENGTH('a)"
    using False by (simp add: unat_word_ariths le_mod_geq)
  moreover have "unat x + unat y - 2 ^ LENGTH('a) < unat x" using bounds False by linarith
  ultimately have "x + y < x" by (simp add: word_less_nat_alt)
  then show ?thesis using False by (simp add: sat_add_def Let_def)
qed

definition busy_codecs :: codecs where
  "busy_codecs = \<lparr>sha256 = (\<lambda>bytes. bytes), hex_encode = (\<lambda>bytes. []),
     bs58_encode = (\<lambda>bytes. if bytes = [1] then pump_program_id else map (\<lambda>b. char_of (unat b)) bytes)\<rparr>"

definition busy_params :: "rat router_params" where
  "busy_params = \<lparr>rp_codecs = busy_codecs,
     rp_pressure = \<lparr>pc_max_queued_updates_per_mint = 5, pc_max_updates_per_second = 100,
       pc_max_deep_updates_per_checkpoint = 1, pc_noisy_degrade_enabled = True, pc_noisy_degrade_reason = ''noisy'',
       pc_coalesce_window = 10, pc_delta_flush_interval = 10, pc_soft_queue_threshold_ratio = 1 / 2\<rparr>,
     rp_worker_partitions = 1, rp_queue_capacity = 8\<rparr>"

definition busy_trade :: "u8 \<Rightarrow> wire_update" where
  "busy_trade n = WireTransaction 7 (Some \<lparr>wx_signature = [n],
     wx_transaction = Some \<lparr>wt_signatures = [[n]], wt_message = Some \<lparr>ws_account_keys = [[1]], ws_instructions = []\<rparr>\<rparr>,
     wx_meta = Some \<lparr>wm_pre_token_balances = [],
       wm_post_token_balances = [\<lparr>wb_account_index = 0, wb_mint = ''M''\<rparr>]\<rparr>\<rparr>)"

definition busy_messages :: "(router_moment \<times> state_hint \<times> string reader_message) list" where
  "busy_messages = map (\<lambda>n. (\<lparr>rm_now = 20 * int n, rm_depth = (\<lambda>w. 0), rm_sent = (\<lambda>w. SendOk)\<rparr>, default_state_hint,
     ReadUpdate (busy_trade (of_nat n + 2)) 0)) [0..<3]"

definition busy_outcomes :: "route_outcome list" where
  "busy_outcomes = fst (snd (run_router busy_params busy_messages
     (new_router_state \<lparr>re_active_mints = {''M''}, re_tombstoned_mints = {}\<rparr>)))"

lemma busy_run: "length (filter (deep_trade ''M'') busy_outcomes) = 1"
  by code_simp

lemma active_mint_has_its_budget_witness:
  "length (filter (deep_trade ''M'') busy_outcomes) \<le> 1 \<and> length (filter (deep_trade ''M'') busy_outcomes) = 1"
  using active_mint_has_its_budget [of busy_params "''M''" busy_messages "\<lparr>re_active_mints = {''M''}, re_tombstoned_mints = {}\<rparr>"]
  by (simp add: busy_run busy_outcomes_def [symmetric])

subsection \<open>A transaction is routed once\<close>

definition routed_signature :: "route_outcome \<Rightarrow> string option" where
  "routed_signature out = (case out of
      Routed worker u \<Rightarrow> (case mp_transaction_signature u of
          None \<Rightarrow> None | Some signature \<Rightarrow> if is_blank signature then None else Some signature)
    | _ \<Rightarrow> None)"

lemma dispatched_signature:
  assumes "dispatch_update P moment update read_at c h st = (st', out)"
  shows "ro_signatures st' = ro_signatures st" "routed_signature out \<in> {None, uh_signature h}"
proof -
  obtain pins worker fallback label where route: "partition_with_account_map (rp_codecs P) update (rp_worker_partitions P)
      (ro_token_account_to_mint st) (ro_account_pins st) = (pins, worker, fallback, label)"
    by (metis prod_cases4)
  have sent: "routed_signature (send_to_worker moment worker (partition_update_of update read_at sequence c h label))
      \<in> {None, uh_signature h}" for sequence
    by (auto simp: routed_signature_def send_to_worker_def partition_update_of_def split: send_result.splits option.splits)
  show "ro_signatures st' = ro_signatures st" "routed_signature out \<in> {None, uh_signature h}"
    using assms sent
    by (auto simp: dispatch_update_def route Let_def routed_signature_def
        split: if_splits option.splits pressure_decision.splits prod.splits)
qed

definition windowed :: "nat \<Rightarrow> router_state \<Rightarrow> bool" where
  "windowed n st \<longleftrightarrow> finite (fst (ro_signatures st)) \<and> card (fst (ro_signatures st)) \<le> n"

lemma nothing_evicted: "card known \<le> capacity \<Longrightarrow> fst (evict_signatures capacity known lru) = known"
  by (cases lru) auto

lemma noted_signature:
  assumes "note_transaction K update st = (st', duplicate)" "windowed n st" "n < 4096"
  shows "windowed (Suc n) st'" "fst (ro_signatures st) \<subseteq> fst (ro_signatures st')"
    "transaction_signature_hint K update = Some signature \<Longrightarrow> \<not> is_blank signature \<Longrightarrow>
       duplicate = (signature \<in> fst (ro_signatures st)) \<and> signature \<in> fst (ro_signatures st')"
    "transaction_signature_hint K update = None \<Longrightarrow> \<not> duplicate"
proof -
  have card: "card (insert s (fst (ro_signatures st))) \<le> Suc n" for s
    using assms(2) by (simp add: windowed_def card_insert_if)
  have kept: "fst (evict_signatures 4096 (insert s (fst (ro_signatures st))) lru) = insert s (fst (ro_signatures st))"
    for s lru
    by (rule nothing_evicted) (use card [of s] assms(3) in simp)
  show "windowed (Suc n) st'" "fst (ro_signatures st) \<subseteq> fst (ro_signatures st')"
    "transaction_signature_hint K update = Some signature \<Longrightarrow> \<not> is_blank signature \<Longrightarrow>
       duplicate = (signature \<in> fst (ro_signatures st)) \<and> signature \<in> fst (ro_signatures st')"
    "transaction_signature_hint K update = None \<Longrightarrow> \<not> duplicate"
    using assms card kept
    by (auto simp: note_transaction_def signature_seen_or_insert_def windowed_def split: option.splits if_splits prod.splits)
qed

lemma duplicate_skipped:
  assumes "transaction_signature_hint K update = Some signature"
  obtains p where "prefilter_transaction_update K update active tombstoned mapping pins True = Some p"
  using assms by (cases update) (auto simp: transaction_signature_hint_def prefilter_transaction_update_def Let_def)

lemma routed_once:
  assumes "route_update P moment update read_at st = (st', out)" "windowed n st" "n < 4096"
  shows "windowed (Suc n) st'" "fst (ro_signatures st) \<subseteq> fst (ro_signatures st')"
    "routed_signature out = Some s \<Longrightarrow> s \<notin> fst (ro_signatures st) \<and> s \<in> fst (ro_signatures st')"
proof -
  let ?K = "rp_codecs P"
  define st1 where "st1 = st\<lparr>ro_token_account_to_mint := learn_mappings update (ro_token_account_to_mint st)\<rparr>"
  have same1: "ro_signatures st1 = ro_signatures st" by (simp add: st1_def)
  obtain st2 duplicate where noted: "note_transaction ?K update st1 = (st2, duplicate)" by fastforce
  have window1: "windowed n st1" using assms(2) by (simp add: windowed_def same1)
  note facts = noted_signature [OF noted window1 assms(3), unfolded same1]
  have fresh: "ro_signatures st' = ro_signatures st2 \<and> routed_signature out \<in> {None, transaction_signature_hint ?K update}"
    if "route_fresh_update P moment update read_at st2 = (st', out)"
  proof (rule route_fresh_cases [of P moment update read_at st2])
    fix st3 p assume "route_fresh_update P moment update read_at st2 = (st3, SkippedUpdate p)" "ro_signatures st3 = ro_signatures st2"
    then show ?thesis using that by (simp add: routed_signature_def)
  next
    fix st3 c h assume "route_fresh_update P moment update read_at st2 = dispatch_update P moment update read_at c h st3"
      "ro_signatures st3 = ro_signatures st2" "uh_signature h = transaction_signature_hint ?K update"
    then show ?thesis using that dispatched_signature [of P moment update read_at c h st3 st' out] by simp
  qed
  have step: "(if duplicate then
      (case prefilter_transaction_update ?K update (re_active_mints (ro_relevance st2))
          (re_tombstoned_mints (ro_relevance st2)) (ro_token_account_to_mint st2) (ro_account_pins st2) True of
         Some p \<Rightarrow> (st2, SkippedUpdate p) | None \<Rightarrow> route_fresh_update P moment update read_at st2)
      else route_fresh_update P moment update read_at st2) = (st', out)"
    using assms(1) by (simp add: route_update_def Let_def st1_def [symmetric] noted)
  have result: "ro_signatures st' = ro_signatures st2 \<and>
      routed_signature out \<in> (if duplicate then {None} else {None, transaction_signature_hint ?K update})"
  proof (cases duplicate)
    case True
    then obtain s where "transaction_signature_hint ?K update = Some s" using facts(4) by (cases "transaction_signature_hint ?K update") auto
    then obtain p where "prefilter_transaction_update ?K update (re_active_mints (ro_relevance st2))
        (re_tombstoned_mints (ro_relevance st2)) (ro_token_account_to_mint st2) (ro_account_pins st2) True = Some p"
      by (rule duplicate_skipped)
    then show ?thesis using step True by (auto simp: routed_signature_def)
  next
    case False
    then show ?thesis using step fresh by simp
  qed
  show "windowed (Suc n) st'" "fst (ro_signatures st) \<subseteq> fst (ro_signatures st')"
    using result facts(1,2) by (simp_all add: windowed_def)
  assume routed: "routed_signature out = Some s"
  then have hint: "transaction_signature_hint ?K update = Some s" "\<not> duplicate" using result by (auto split: if_splits)
  have "\<not> is_blank s" using routed by (auto simp: routed_signature_def split: route_outcome.splits option.splits if_splits)
  then show "s \<notin> fst (ro_signatures st) \<and> s \<in> fst (ro_signatures st')" using facts(3) [OF hint(1)] hint(2) result by simp
qed

lemma run_routes_once:
  assumes "n + length messages \<le> 4096" "windowed n st"
  shows "distinct (List.map_filter routed_signature (fst (snd (run_router P messages st)))) \<and>
    set (List.map_filter routed_signature (fst (snd (run_router P messages st)))) \<inter> fst (ro_signatures st) = {}"
  using assms
proof (induction messages arbitrary: st n)
  case (Cons entry messages)
  obtain moment hint message where entry: "entry = (moment, hint, message)" by (metis prod_cases3)
  define st1 where "st1 = st\<lparr>ro_relevance := apply_state_hint hint (ro_relevance st)\<rparr>"
  have same1: "ro_signatures st1 = ro_signatures st" by (simp add: st1_def)
  have window1: "windowed n st1" using Cons.prems by (simp add: windowed_def same1)
  show ?case
  proof (cases message)
    case (ReadUpdate update read_at)
    obtain st2 out where step: "route_update P moment update read_at st1 = (st2, out)" by fastforce
    have "n < 4096" using Cons.prems by simp
    note facts = routed_once [OF step window1 this, unfolded same1]
    have "Suc n + length messages \<le> 4096" using Cons.prems by simp
    note rest = Cons.IH [OF this facts(1)]
    show ?thesis using rest facts(2) facts(3)
      by (cases "routed_signature out")
        (auto simp: entry ReadUpdate Let_def st1_def [symmetric] step map_filter_simps split: prod.splits)
  qed (simp_all add: entry Let_def map_filter_simps)
qed (simp add: map_filter_simps)

text \<open>Of the first 4096 updates of a stream no transaction reaches the workers twice, however often the provider
  repeats it.\<close>

theorem transactions_routed_once:
  assumes "length messages \<le> 4096"
  shows "distinct (List.map_filter routed_signature (fst (snd (run_router P messages (new_router_state relevance)))))"
  using run_routes_once [of 0 messages "new_router_state relevance" P] assms
  by (simp add: windowed_def new_router_state_def)

lemma transactions_routed_once_witness:
  "distinct (List.map_filter routed_signature busy_outcomes) \<and> length busy_messages \<le> 4096"
  using transactions_routed_once [of busy_messages busy_params "\<lparr>re_active_mints = {''M''}, re_tombstoned_mints = {}\<rparr>"]
  by (simp add: busy_outcomes_def busy_messages_def)

end
