(* ===== verification/Relay_Frames.thy ===== *)
theory Relay_Frames
  imports Idl
begin

text \<open>
  The frames of a relay between a provider and the material hunter (\<open>crates/runtime/src/live_source.rs\<close>): how they are
  built, which sequence of frames the receiver accepts, and which controls block it.
\<close>

datatype relay_source_kind = RelayGeyser | RelaySreds | RelayOther

datatype relay_control_kind =
    RelayStarted
  | RelayHeartbeat
  | RelayUpstreamConnected
  | RelayUpstreamReconnectStarted
  | RelayUpstreamReconnected
  | RelayUpstreamReconnectExhausted
  | RelayUpstreamBlocker
  | RelayReceiverBackpressure
  | RelayReceiverUnavailable
  | RelayStopped
  | RelaySequenceGap
  | RelayShutdown

record relay_frame =
  rf_schema_version :: string
  rf_relay_session_id :: string
  rf_stream_id :: string
  rf_provider :: string
  rf_source_kind :: relay_source_kind
  rf_subscription_fingerprint :: string
  rf_sequence :: u64
  rf_received_at_unix_nanos :: u128
  rf_slot :: "u64 option"
  rf_commitment :: "string option"
  rf_payload_codec :: string
  rf_payload_compressed :: bool
  rf_payload_hash :: string
  rf_payload_len :: usize
  rf_payload_bytes :: "u8 list"
  rf_control_kind :: "relay_control_kind option"
  rf_relay_error :: "string option"
  rf_blocker_class :: "string option"
  rf_provider_status :: "string option"
  rf_provider_error_code :: "string option"
  rf_provider_error_message :: "string option"
  rf_upstream_reconnect_attempt :: "u64 option"
  rf_will_reconnect :: "bool option"

definition relay_payload_sha256 :: "codecs \<Rightarrow> u8 list \<Rightarrow> string" where
  "relay_payload_sha256 K payload = hex_encode K (sha256 K payload)"

definition frame_data ::
  "codecs \<Rightarrow> string \<Rightarrow> string \<Rightarrow> string \<Rightarrow> string \<Rightarrow> u64 \<Rightarrow> u128 \<Rightarrow> u64 option \<Rightarrow> string \<Rightarrow> u8 list \<Rightarrow>
   relay_frame" where
  "frame_data K session stream provider fingerprint sequence received_at slot codec bytes =
    \<lparr>rf_schema_version = ''phase107g.relay_frame.v1'', rf_relay_session_id = session, rf_stream_id = stream,
     rf_provider = provider, rf_source_kind = RelayGeyser, rf_subscription_fingerprint = fingerprint,
     rf_sequence = sequence, rf_received_at_unix_nanos = received_at, rf_slot = slot, rf_commitment = None,
     rf_payload_codec = codec, rf_payload_compressed = False, rf_payload_hash = relay_payload_sha256 K bytes,
     rf_payload_len = of_nat (length bytes), rf_payload_bytes = bytes, rf_control_kind = None, rf_relay_error = None,
     rf_blocker_class = None, rf_provider_status = None, rf_provider_error_code = None,
     rf_provider_error_message = None, rf_upstream_reconnect_attempt = None, rf_will_reconnect = None\<rparr>"

definition frame_control ::
  "codecs \<Rightarrow> string \<Rightarrow> string \<Rightarrow> string \<Rightarrow> string \<Rightarrow> u64 \<Rightarrow> u128 \<Rightarrow> relay_control_kind \<Rightarrow> string option \<Rightarrow>
   relay_frame" where
  "frame_control K session stream provider fingerprint sequence received_at control error =
    \<lparr>rf_schema_version = ''phase107g.relay_frame.v1'', rf_relay_session_id = session, rf_stream_id = stream,
     rf_provider = provider, rf_source_kind = RelayGeyser, rf_subscription_fingerprint = fingerprint,
     rf_sequence = sequence, rf_received_at_unix_nanos = received_at, rf_slot = None, rf_commitment = None,
     rf_payload_codec = ''control_json'', rf_payload_compressed = False,
     rf_payload_hash = relay_payload_sha256 K [], rf_payload_len = 0, rf_payload_bytes = [],
     rf_control_kind = Some control, rf_relay_error = error,
     rf_blocker_class = None, rf_provider_status = None, rf_provider_error_code = None,
     rf_provider_error_message = None, rf_upstream_reconnect_attempt = None, rf_will_reconnect = None\<rparr>"

definition with_upstream_blocker_metadata ::
  "string \<Rightarrow> string \<Rightarrow> string option \<Rightarrow> string option \<Rightarrow> u64 \<Rightarrow> bool \<Rightarrow> relay_frame \<Rightarrow> relay_frame" where
  "with_upstream_blocker_metadata blocker status code message attempt will_reconnect frame =
    frame\<lparr>rf_blocker_class := Some blocker, rf_provider_status := Some status, rf_provider_error_code := code,
      rf_provider_error_message := message, rf_upstream_reconnect_attempt := Some attempt,
      rf_will_reconnect := Some will_reconnect\<rparr>"

definition verify_payload_hash :: "codecs \<Rightarrow> relay_frame \<Rightarrow> bool" where
  "verify_payload_hash K frame \<longleftrightarrow> rf_payload_len frame = of_nat (length (rf_payload_bytes frame)) \<and>
    rf_payload_hash frame = relay_payload_sha256 K (rf_payload_bytes frame)"

type_synonym sequence_verifier = "string \<rightharpoonup> u64"

datatype relay_error = PayloadHashMismatch | FirstSequenceGap string u64 | SequenceGap string u64 u64

definition relay_error_text :: "relay_error \<Rightarrow> string" where
  "relay_error_text e = (case e of
      PayloadHashMismatch \<Rightarrow> ''relay_payload_hash_mismatch''
    | FirstSequenceGap stream sequence \<Rightarrow> ''relay_sequence_gap:'' @ stream @ '':'' @ show_nat (unat sequence)
    | SequenceGap stream last_sequence sequence \<Rightarrow> ''relay_sequence_gap:'' @ stream @ '':'' @ show_nat (unat last_sequence) @
        ''>'' @ show_nat (unat sequence))"

definition observe_frame :: "codecs \<Rightarrow> relay_frame \<Rightarrow> sequence_verifier \<Rightarrow> sequence_verifier \<times> relay_error option" where
  "observe_frame K frame v =
    (let stream = rf_stream_id frame; sequence = rf_sequence frame in
     if \<not> verify_payload_hash K frame then (v, Some PayloadHashMismatch)
     else (case v stream of
         None \<Rightarrow> if sequence \<noteq> 1 then (v, Some (FirstSequenceGap stream sequence)) else (v(stream \<mapsto> sequence), None)
       | Some last_sequence \<Rightarrow>
           if sequence \<noteq> sat_add last_sequence 1 then (v, Some (SequenceGap stream last_sequence sequence))
           else (v(stream \<mapsto> sequence), None)))"

definition relay_control_to_material_blocker :: "relay_control_kind \<Rightarrow> string option" where
  "relay_control_to_material_blocker control = (case control of
      RelayReceiverBackpressure \<Rightarrow> Some ''relay_downstream_backpressure''
    | RelayReceiverUnavailable \<Rightarrow> Some ''relay_receiver_unavailable''
    | RelaySequenceGap \<Rightarrow> Some ''relay_sequence_gap''
    | RelayUpstreamBlocker \<Rightarrow> Some ''relay_upstream_blocker''
    | RelayUpstreamReconnectExhausted \<Rightarrow> Some ''provider_reconnect_exhausted''
    | _ \<Rightarrow> None)"

subsection \<open>What the receiver accepts\<close>

fun observe_frames :: "codecs \<Rightarrow> relay_frame list \<Rightarrow> sequence_verifier \<Rightarrow> sequence_verifier \<times> relay_error option list" where
  "observe_frames K [] v = (v, [])"
| "observe_frames K (frame # frames) v =
    (case observe_frame K frame v of (v, e) \<Rightarrow>
       case observe_frames K frames v of (v, es) \<Rightarrow> (v, e # es))"

definition stream_sequences :: "string \<Rightarrow> relay_frame list \<Rightarrow> u64 list" where
  "stream_sequences stream frames = map rf_sequence (filter (\<lambda>f. rf_stream_id f = stream) frames)"

fun counts_up :: "u64 option \<Rightarrow> u64 list \<Rightarrow> bool" where
  "counts_up v [] \<longleftrightarrow> True"
| "counts_up v (s # ss) \<longleftrightarrow> s = (case v of None \<Rightarrow> 1 | Some n \<Rightarrow> sat_add n 1) \<and> counts_up (Some s) ss"

lemma observe_frame_ok:
  "observe_frame K frame v = (v', None) \<longleftrightarrow> verify_payload_hash K frame \<and>
     rf_sequence frame = (case v (rf_stream_id frame) of None \<Rightarrow> 1 | Some n \<Rightarrow> sat_add n 1) \<and>
     v' = v(rf_stream_id frame \<mapsto> rf_sequence frame)"
  by (auto simp: observe_frame_def Let_def split: option.splits if_splits)

lemma observe_frame_rejects:
  "observe_frame K frame v = (v', Some e) \<Longrightarrow> v' = v"
  by (auto simp: observe_frame_def Let_def split: option.splits if_splits)

text \<open>All frames pass exactly if each is intact and the sequences of each stream count up from where it stands.\<close>

lemma counts_up_step:
  "(\<forall>stream. counts_up (v stream) (stream_sequences stream (frame # frames))) \<longleftrightarrow>
     rf_sequence frame = (case v (rf_stream_id frame) of None \<Rightarrow> 1 | Some n \<Rightarrow> sat_add n 1) \<and>
     (\<forall>stream. counts_up ((v(rf_stream_id frame \<mapsto> rf_sequence frame)) stream) (stream_sequences stream frames))"
  by (auto simp: stream_sequences_def)

lemma relay_accepts_exactly:
  "list_all (\<lambda>e. e = None) (snd (observe_frames K frames v)) \<longleftrightarrow>
     list_all (verify_payload_hash K) frames \<and> (\<forall>stream. counts_up (v stream) (stream_sequences stream frames))"
proof (induction frames arbitrary: v)
  case Nil
  then show ?case by (simp add: stream_sequences_def)
next
  case (Cons frame frames)
  obtain v' e where step: "observe_frame K frame v = (v', e)" by fastforce
  show ?case
  proof (cases e)
    case None
    let ?next = "v(rf_stream_id frame \<mapsto> rf_sequence frame)"
    have ok: "verify_payload_hash K frame"
      "rf_sequence frame = (case v (rf_stream_id frame) of None \<Rightarrow> 1 | Some n \<Rightarrow> sat_add n 1)" "v' = ?next"
      using step None by (simp_all only: observe_frame_ok)
    have "list_all (\<lambda>e. e = None) (snd (observe_frames K (frame # frames) v)) \<longleftrightarrow>
        list_all (\<lambda>e. e = None) (snd (observe_frames K frames ?next))"
      using step None ok(3) by (simp add: case_prod_beta)
    then show ?thesis unfolding Cons.IH counts_up_step using ok(1,2) by simp
  next
    case (Some err)
    have "\<not> (verify_payload_hash K frame \<and>
      rf_sequence frame = (case v (rf_stream_id frame) of None \<Rightarrow> 1 | Some n \<Rightarrow> sat_add n 1))"
      using step Some observe_frame_ok [of K frame v] by auto
    then show ?thesis using step Some by (auto simp: counts_up_step case_prod_beta)
  qed
qed

text \<open>What the relay sends intact is received intact.\<close>

lemma built_frames_verify:
  "verify_payload_hash K (frame_data K session stream provider fp sequence at slot codec bytes)"
  "verify_payload_hash K (frame_control K session stream provider fp sequence at control err)"
  "verify_payload_hash K (with_upstream_blocker_metadata b st c m n w frame) = verify_payload_hash K frame"
  by (simp_all add: verify_payload_hash_def frame_data_def frame_control_def with_upstream_blocker_metadata_def)

text \<open>The saturated counter accepts its last number for ever.\<close>

lemma last_sequence_repeats:
  assumes "verify_payload_hash K frame" "rf_sequence frame = - 1"
  shows "observe_frame K frame (v(rf_stream_id frame \<mapsto> - 1)) = (v(rf_stream_id frame \<mapsto> - 1), None)"
  using assms by (simp add: observe_frame_ok sat_add_def)

end
