(* ===== verification/Storage.thy ===== *)
theory Storage
  imports Runtime_Safety Executor Curve_State "HOL-Library.List_Lexorder" "HOL-Library.Char_ord" "HOL-Library.Product_Lexorder"
    "HOL-Library.Option_ord"
begin

text \<open>
  The storage engine (\<open>crates/storage/src/lib.rs\<close>): which run is the latest, what the log of events says of a run, the
  order of a replay, the fields of an export, and the chunks of feature snapshots. The logs are the lists of the
  records that were appended to them; the JSON of a record, the file system and the checksums are left out.
\<close>

subsection \<open>Runs\<close>

datatype run_status = Running | Completed | Failed | Interrupted

datatype run_kind =
    StandardFixtureSuite
  | ShredExitFixtureSuite
  | FixtureScenario
  | PaperReplay
  | MockedLivePaper
  | MockedLivePaperEarlyIntent
  | MockedLivePaperDeshred
  | RealLivePaper
  | RealLivePaperDeshred
  | Backtest
  | ShredExitBacktest
  | DeshredSmoke
  | MultisourceEarlyIntentSuite
  | Report
  | Export
  | ReplayEquivalence
  | CalibrationUpdate
  | UnknownRun

datatype run_role = SourceRun | DerivedRun | AnalysisRun | ReportRun | ExportRun | UnknownRole

definition run_kind_role :: "run_kind \<Rightarrow> run_role" where
  "run_kind_role k =
    (if k \<in> {StandardFixtureSuite, ShredExitFixtureSuite, FixtureScenario, MockedLivePaper, MockedLivePaperEarlyIntent,
        MockedLivePaperDeshred, RealLivePaper, RealLivePaperDeshred, MultisourceEarlyIntentSuite} then SourceRun
     else if k \<in> {PaperReplay, Backtest, ShredExitBacktest} then DerivedRun
     else if k \<in> {ReplayEquivalence, CalibrationUpdate, DeshredSmoke} then AnalysisRun
     else if k = Report then ReportRun else if k = Export then ExportRun else UnknownRole)"

definition is_default_latest_candidate :: "run_kind \<Rightarrow> bool" where
  "is_default_latest_candidate k \<longleftrightarrow> run_kind_role k \<in> {SourceRun, DerivedRun, UnknownRole}"

definition is_source_run :: "run_kind \<Rightarrow> bool" where
  "is_source_run k \<longleftrightarrow> run_kind_role k = SourceRun"

definition is_mocked_live :: "run_kind \<Rightarrow> bool" where
  "is_mocked_live k \<longleftrightarrow> k \<in> {MockedLivePaper, MockedLivePaperEarlyIntent, MockedLivePaperDeshred}"

definition is_live_paper :: "run_kind \<Rightarrow> bool" where
  "is_live_paper k \<longleftrightarrow> is_mocked_live k \<or> k \<in> {RealLivePaper, RealLivePaperDeshred}"

definition is_paper_run :: "run_kind \<Rightarrow> bool" where
  "is_paper_run k \<longleftrightarrow> k = PaperReplay \<or> is_live_paper k"

definition is_backtest_run :: "run_kind \<Rightarrow> bool" where
  "is_backtest_run k \<longleftrightarrow> k \<in> {Backtest, ShredExitBacktest}"

record 'd run_metadata =
  mt_run_id :: string
  mt_parent_run_id :: "string option"
  mt_source_run_id :: "string option"
  mt_scenario_id :: "string option"
  mt_mode :: string
  mt_run_kind :: run_kind
  mt_run_role :: run_role
  mt_created_at_wall_time :: instant
  mt_completed_at_wall_time :: "instant option"
  mt_config_hash :: string
  mt_idl_hash :: string
  mt_event_count :: u64
  mt_decision_count :: u64
  mt_fill_count :: u64
  mt_paper_pnl :: 'd
  mt_contains_tentative_sell_events :: bool
  mt_contains_shred_exit_defense_events :: bool
  mt_tentative_sell_count :: u64
  mt_emergency_exit_count :: u64
  mt_saved_loss_total :: 'd
  mt_opportunity_cost_total :: 'd
  mt_false_positive_count :: u64
  mt_decode_mismatch_count :: u64
  mt_reorg_count :: u64
  mt_not_seen_count :: u64
  mt_status :: run_status
  mt_report_dir :: string
  mt_notes :: "string list"
  mt_calibration_snapshot_hash :: "string option"
  mt_calibration_snapshot_path :: "string option"
  mt_post_run_calibration_hash :: "string option"

text \<open>A record of the metadata log: its own scenario and the metadata.\<close>

record 'd stored_run =
  sn_scenario_id :: "string option"
  sn_record :: "'d run_metadata"

definition run_id_of :: "'d stored_run \<Rightarrow> string" where
  "run_id_of r = mt_run_id (sn_record r)"

definition run_wall_clock :: "'d stored_run \<Rightarrow> instant" where
  "run_wall_clock r = unwrap_or (mt_created_at_wall_time (sn_record r)) (mt_completed_at_wall_time (sn_record r))"

definition should_prefer_run_metadata :: "'d stored_run \<Rightarrow> 'd stored_run \<Rightarrow> bool" where
  "should_prefer_run_metadata candidate existing =
    (let candidate_root = (mt_scenario_id (sn_record candidate) = None);
         existing_root = (mt_scenario_id (sn_record existing) = None) in
     if candidate_root \<noteq> existing_root then candidate_root
     else run_wall_clock existing < run_wall_clock candidate \<or>
       run_wall_clock candidate = run_wall_clock existing \<and> run_id_of existing < run_id_of candidate)"

definition fold_metadata :: "'d stored_run \<Rightarrow> (string \<times> 'd stored_run) list \<Rightarrow> (string \<times> 'd stored_run) list" where
  "fold_metadata r folded = (case map_of folded (run_id_of r) of
      Some existing \<Rightarrow> if should_prefer_run_metadata r existing then AList.update (run_id_of r) r folded else folded
    | None \<Rightarrow> AList.update (run_id_of r) r folded)"

definition latest_metadata_per_run :: "'d stored_run list \<Rightarrow> (string \<times> 'd stored_run) list" where
  "latest_metadata_per_run records = fold fold_metadata records []"

subsection \<open>What the logs say of a run\<close>

record 'd run_event_stats =
  rs_event_count :: u64
  rs_contains_tentative_sell_events :: bool
  rs_contains_shred_exit_defense_events :: bool
  rs_tentative_sell_count :: u64
  rs_emergency_exit_count :: u64
  rs_saved_loss_total :: 'd
  rs_opportunity_cost_total :: 'd
  rs_false_positive_count :: u64
  rs_decode_mismatch_count :: u64
  rs_reorg_count :: u64
  rs_not_seen_count :: u64

definition no_run_events :: "('d::zero) run_event_stats" where
  "no_run_events = \<lparr>rs_event_count = 0, rs_contains_tentative_sell_events = False,
     rs_contains_shred_exit_defense_events = False, rs_tentative_sell_count = 0, rs_emergency_exit_count = 0,
     rs_saved_loss_total = 0, rs_opportunity_cost_total = 0, rs_false_positive_count = 0, rs_decode_mismatch_count = 0,
     rs_reorg_count = 0, rs_not_seen_count = 0\<rparr>"

definition count_run_event :: "('d::linordered_field) event_payload \<Rightarrow> 'd run_event_stats \<Rightarrow> 'd run_event_stats" where
  "count_run_event payload st0 =
    (let s = st0\<lparr>rs_event_count := sat_add (rs_event_count st0) 1\<rparr>;
         defense = s\<lparr>rs_contains_shred_exit_defense_events := True\<rparr> in
     case payload of
       TentativeSellIntentDetected e \<Rightarrow> defense\<lparr>rs_contains_tentative_sell_events := True,
         rs_tentative_sell_count := sat_add (rs_tentative_sell_count s) 1\<rparr>
     | TentativeMaliciousSellWarning e \<Rightarrow> defense
     | ShredEmergencyExitArmed e \<Rightarrow> defense
     | ShredEmergencyExitTriggered e \<Rightarrow> defense\<lparr>rs_emergency_exit_count := sat_add (rs_emergency_exit_count s) 1\<rparr>
     | ShredSellIntentResolved e \<Rightarrow>
         (let d = defense\<lparr>rs_saved_loss_total := rs_saved_loss_total s + max (sr_actual_loss_saved_if_exited e) 0,
                rs_false_positive_count := (if sr_false_positive_flag e
                  then sat_add (rs_false_positive_count s) 1 else rs_false_positive_count s)\<rparr> in
          case sr_outcome e of
            NotSeenWithinTtl \<Rightarrow> d\<lparr>rs_not_seen_count := sat_add (rs_not_seen_count s) 1\<rparr>
          | DecodeMismatch \<Rightarrow> d\<lparr>rs_decode_mismatch_count := sat_add (rs_decode_mismatch_count s) 1\<rparr>
          | Reorged \<Rightarrow> d\<lparr>rs_reorg_count := sat_add (rs_reorg_count s) 1\<rparr>
          | _ \<Rightarrow> d)
     | _ \<Rightarrow> s)"

definition count_run_fill :: "('d::linordered_field) fill_event \<Rightarrow> 'd run_event_stats \<Rightarrow> 'd run_event_stats" where
  "count_run_fill f s =
    (let exit = fl_exit_source f \<in> {Some ''ShredEmergencyExit'', Some ''DeshredEmergencyExit''};
         s = (if exit then s\<lparr>rs_contains_shred_exit_defense_events := True,
                rs_emergency_exit_count := sat_add (rs_emergency_exit_count s) 1\<rparr> else s)
     in s\<lparr>rs_opportunity_cost_total := rs_opportunity_cost_total s +
           unwrap_or 0 (fl_opportunity_cost_if_false_positive f)\<rparr>)"

type_synonym 'd run_stats_table = "string \<rightharpoonup> 'd run_event_stats"

definition tally_record :: "('d::linordered_field) stored_record \<Rightarrow> 'd run_stats_table \<Rightarrow> 'd run_stats_table" where
  "tally_record r table = (case st_run_id r of
      None \<Rightarrow> table
    | Some run \<Rightarrow>
        (let s = unwrap_or no_run_events (table run) in
         case st_record r of
           StoredEvent e \<Rightarrow> table(run \<mapsto> count_run_event (ne_payload e) s)
         | StoredFill f \<Rightarrow> table(run \<mapsto> count_run_fill f s)
         | _ \<Rightarrow> table))"

definition is_event_record :: "'d stored_record \<Rightarrow> bool" where
  "is_event_record r = (case st_record r of StoredEvent e \<Rightarrow> True | _ \<Rightarrow> False)"

definition is_fill_record :: "'d stored_record \<Rightarrow> bool" where
  "is_fill_record r = (case st_record r of StoredFill f \<Rightarrow> True | _ \<Rightarrow> False)"

definition is_decision_record :: "'d stored_record \<Rightarrow> bool" where
  "is_decision_record r = (case st_record r of StoredDecision d \<Rightarrow> True | _ \<Rightarrow> False)"

definition derive_run_event_stats ::
  "('d::linordered_field) stored_record list \<Rightarrow> 'd stored_record list \<Rightarrow> 'd run_stats_table" where
  "derive_run_event_stats events fills = fold tally_record fills (fold tally_record events Map.empty)"

subsection \<open>The kind of a run\<close>

definition any_note :: "string list \<Rightarrow> string \<Rightarrow> bool" where
  "any_note notes text \<longleftrightarrow> list_ex (contains_text text) notes"

definition infer_live_kind :: "string list \<Rightarrow> bool \<Rightarrow> run_kind" where
  "infer_live_kind notes tentative_sells =
    (if any_note notes ''mode=mock_geyser'' then
       (if any_note notes ''mock_deshred=true'' then MockedLivePaperDeshred
        else if tentative_sells \<or> any_note notes ''mock_early_intent=true'' then MockedLivePaperEarlyIntent
        else MockedLivePaper)
     else if any_note notes ''with_deshred=true'' \<or> any_note notes ''mode=real_geyser+deshred'' then RealLivePaperDeshred
     else RealLivePaper)"

definition infer_run_kind :: "string \<Rightarrow> string \<Rightarrow> string list \<Rightarrow> bool \<Rightarrow> run_kind" where
  "infer_run_kind run_id mode notes tentative_sells =
    (if starts_with run_id ''fixture-suite-'' then StandardFixtureSuite
     else if starts_with run_id ''shred-exit-suite-'' then ShredExitFixtureSuite
     else if starts_with run_id ''fixture-'' then FixtureScenario
     else if starts_with run_id ''paper-replay-'' then PaperReplay
     else if starts_with run_id ''live-paper-'' then infer_live_kind notes tentative_sells
     else if starts_with run_id ''backtest-shred-exit-'' then ShredExitBacktest
     else if starts_with run_id ''backtest-'' then Backtest
     else if starts_with run_id ''deshred-smoke-'' then DeshredSmoke
     else if starts_with run_id ''multisource-early-intent-suite-'' then MultisourceEarlyIntentSuite
     else if starts_with run_id ''report-'' then Report
     else if starts_with run_id ''replay-equivalence-'' then ReplayEquivalence
     else if starts_with run_id ''export-'' then Export
     else if starts_with run_id ''calibration-update-'' then CalibrationUpdate
     else if to_lowercase mode = ''fixture'' \<and> contains_text ''shred-exit'' run_id then ShredExitFixtureSuite
     else if to_lowercase mode = ''fixture'' \<and> contains_text ''fixture-suite'' run_id then StandardFixtureSuite
     else UnknownRun)"

definition infer_run_role :: "run_kind \<Rightarrow> string \<Rightarrow> run_role" where
  "infer_run_role kind run_id =
    (if kind = UnknownRun \<and> starts_with run_id ''inspect-token-'' then AnalysisRun
     else if kind = UnknownRun \<and> starts_with run_id ''report-'' then ReportRun
     else if kind = UnknownRun \<and> starts_with run_id ''export-'' then ExportRun
     else run_kind_role kind)"

subsection \<open>The list of runs\<close>

definition with_run_stats :: "'d run_event_stats option \<Rightarrow> 'd run_metadata \<Rightarrow> 'd run_metadata" where
  "with_run_stats stats m = (case stats of
      None \<Rightarrow> m
    | Some s \<Rightarrow> m\<lparr>mt_event_count := rs_event_count s,
        mt_contains_tentative_sell_events := rs_contains_tentative_sell_events s,
        mt_contains_shred_exit_defense_events := rs_contains_shred_exit_defense_events s,
        mt_tentative_sell_count := rs_tentative_sell_count s, mt_emergency_exit_count := rs_emergency_exit_count s,
        mt_saved_loss_total := rs_saved_loss_total s, mt_opportunity_cost_total := rs_opportunity_cost_total s,
        mt_false_positive_count := rs_false_positive_count s, mt_decode_mismatch_count := rs_decode_mismatch_count s,
        mt_reorg_count := rs_reorg_count s, mt_not_seen_count := rs_not_seen_count s\<rparr>)"

definition infer_source_run_id :: "'d run_metadata \<Rightarrow> string option" where
  "infer_source_run_id m = (case mt_source_run_id m of
      Some source \<Rightarrow> Some source
    | None \<Rightarrow> (case mt_parent_run_id m of
          Some parent \<Rightarrow> Some parent
        | None \<Rightarrow> (case find_map (strip_prefix ''source_run_id='') (mt_notes m) of
              Some source \<Rightarrow> Some source
            | None \<Rightarrow> if is_source_run (mt_run_kind m) then Some (mt_run_id m) else None)))"

definition listed_run :: "'d run_stats_table \<Rightarrow> 'd stored_run \<Rightarrow> 'd stored_run" where
  "listed_run stats r =
    (let m = with_run_stats (stats (run_id_of r)) ((sn_record r)\<lparr>mt_scenario_id := None\<rparr>);
         m = m\<lparr>mt_run_kind := infer_run_kind (mt_run_id m) (mt_mode m) (mt_notes m)
               (mt_contains_tentative_sell_events m)\<rparr>;
         m = m\<lparr>mt_run_role := infer_run_role (mt_run_kind m) (mt_run_id m)\<rparr>;
         m = m\<lparr>mt_source_run_id := infer_source_run_id m\<rparr>
     in r\<lparr>sn_scenario_id := None, sn_record := m\<rparr>)"

definition run_rank :: "'d stored_run \<Rightarrow> instant \<times> string" where
  "run_rank r = (run_wall_clock r, run_id_of r)"

definition list_runs ::
  "'d stored_run list \<Rightarrow> ('d::linordered_field) stored_record list \<Rightarrow> 'd stored_run list" where
  "list_runs metadata logged =
    (let stats = derive_run_event_stats (filter is_event_record logged) (filter is_fill_record logged);
         runs = map (\<lambda>(run_id, r). listed_run stats r) (latest_metadata_per_run metadata)
     in rev (sort_key run_rank (rev runs)))"

text \<open>\<open>Iterator::max_by\<close> takes the last of the greatest.\<close>

definition max_last :: "('a \<Rightarrow> 'k::linorder) \<Rightarrow> 'a list \<Rightarrow> 'a option" where
  "max_last key xs = fold (\<lambda>x best. case best of
     None \<Rightarrow> Some x | Some y \<Rightarrow> if key y \<le> key x then Some x else Some y) xs None"

definition latest_run_metadata_filtered ::
  "run_kind option \<Rightarrow> bool \<Rightarrow> bool \<Rightarrow> 'd stored_run list \<Rightarrow> 'd stored_run option" where
  "latest_run_metadata_filtered kind require_events require_shred_exit runs =
    (let wanted = filter (\<lambda>r. (case kind of None \<Rightarrow> True | Some k \<Rightarrow> mt_run_kind (sn_record r) = k) \<and>
           (\<not> require_events \<or> 0 < mt_event_count (sn_record r)) \<and>
           (\<not> require_shred_exit \<or> mt_contains_shred_exit_defense_events (sn_record r))) runs
     in case max_last run_rank (filter (\<lambda>r. mt_status (sn_record r) = Completed) wanted) of
          Some r \<Rightarrow> Some r
        | None \<Rightarrow> (case max_last run_rank (filter (\<lambda>r. mt_status (sn_record r) \<noteq> Running) wanted) of
            Some r \<Rightarrow> Some r
          | None \<Rightarrow> max_last run_rank wanted))"

definition latest_completed_run_id_for :: "string set \<Rightarrow> 'd stored_run list \<Rightarrow> string option" where
  "latest_completed_run_id_for run_ids runs =
    (if run_ids = {} then None
     else map_option run_id_of
       (max_last run_rank (filter (\<lambda>r. mt_status (sn_record r) = Completed \<and> run_id_of r \<in> run_ids) runs)))"

definition latest_run_id :: "(instant option \<times> string option) list \<Rightarrow> string option" where
  "latest_run_id rows = map_option snd (max_last id
     (List.map_filter (\<lambda>(clock, run_id). map_option (\<lambda>r. (clock, r)) run_id) rows))"

text \<open>The latest run that has records of some kind: a completed one if any.\<close>

definition latest_record_run_id :: "'d stored_record list \<Rightarrow> 'd stored_run list \<Rightarrow> string option" where
  "latest_record_run_id records runs =
    (case latest_completed_run_id_for (set (List.map_filter st_run_id records)) runs of
       Some run \<Rightarrow> Some run
     | None \<Rightarrow> latest_run_id (map (\<lambda>r. (Some (unwrap_or 0 (st_no_lookahead_timestamp r)), st_run_id r)) records))"

definition latest_normalized_event_run_id ::
  "'d stored_run list \<Rightarrow> ('d::linordered_field) stored_record list \<Rightarrow> string option" where
  "latest_normalized_event_run_id metadata logged =
    latest_record_run_id (filter is_event_record logged) (list_runs metadata logged)"

definition latest_trade_decision_run_id ::
  "'d stored_run list \<Rightarrow> ('d::linordered_field) stored_record list \<Rightarrow> string option" where
  "latest_trade_decision_run_id metadata logged =
    latest_record_run_id (filter is_decision_record logged) (list_runs metadata logged)"

definition latest_fill_run_id ::
  "'d stored_run list \<Rightarrow> ('d::linordered_field) stored_record list \<Rightarrow> string option" where
  "latest_fill_run_id metadata logged = latest_record_run_id (filter is_fill_record logged) (list_runs metadata logged)"

subsection \<open>Replay\<close>

definition in_scope :: "string option \<Rightarrow> string option \<Rightarrow> 'd stored_record \<Rightarrow> bool" where
  "in_scope run_id scenario_id r \<longleftrightarrow> (run_id = None \<or> st_run_id r = run_id) \<and>
    (scenario_id = None \<or> st_scenario_id r = scenario_id)"

definition record_event :: "'d stored_record \<Rightarrow> 'd normalized_event option" where
  "record_event r = (case st_record r of StoredEvent e \<Rightarrow> Some e | _ \<Rightarrow> None)"

definition event_id_key :: "'d stored_record \<Rightarrow> event_id" where
  "event_id_key r = (case record_event r of Some e \<Rightarrow> em_event_id (ne_meta e) | None \<Rightarrow> 0)"

definition slot_key :: "'d stored_record \<Rightarrow> u64" where
  "slot_key r = (case record_event r of Some e \<Rightarrow> em_slot (ne_meta e) | None \<Rightarrow> 0)"

definition replay_source :: "'d stored_record \<Rightarrow> bool" where
  "replay_source r = (case record_event r of Some e \<Rightarrow> is_replay_source_event e | None \<Rightarrow> False)"

definition deterministic_replay ::
  "string option \<Rightarrow> string option \<Rightarrow> 'd stored_record list \<Rightarrow> 'd stored_record list" where
  "deterministic_replay run_id scenario_id logged =
    (let events = filter replay_source (filter (in_scope run_id scenario_id) (filter is_event_record logged)) in
     if list_all (\<lambda>r. st_runtime_sequence_number r \<noteq> None) events
     then sort_key (\<lambda>r. (st_runtime_sequence_number r, event_id_key r)) events
     else sort_key (\<lambda>r. (st_no_lookahead_timestamp r, slot_key r, event_id_key r)) events)"

subsection \<open>Exports\<close>

definition double_quotes :: "string \<Rightarrow> string" where
  "double_quotes s = concat (map (\<lambda>c. if c = CHR 0x22 then [c, c] else [c]) s)"

definition csv_field :: "string \<Rightarrow> string" where
  "csv_field s = (if list_ex (\<lambda>c. c \<in> {CHR 0x2C, CHR 0x22, CHR 0x0A}) s
     then [CHR 0x22] @ double_quotes s @ [CHR 0x22] else s)"

fun join_cells :: "string list \<Rightarrow> string" where
  "join_cells [] = []"
| "join_cells [cell] = cell"
| "join_cells (cell # cells) = cell @ [CHR 0x2C] @ join_cells cells"

definition csv_row :: "string list \<Rightarrow> string" where
  "csv_row cells = join_cells (map csv_field cells)"

definition is_shred_reason_code :: "reason_code \<Rightarrow> bool" where
  "is_shred_reason_code r \<longleftrightarrow> r \<in> {ShredDevSellWarning, ShredTopHolderSellWarning, ShredBundleExitWarning,
     ShredWhaleDumpWarning, ShredSellImpactHigh, ShredSameSlotSellCluster, ShredExitArmed, ShredEmergencyExit,
     ShredFalsePositive, ShredSavedLoss, ShredSignalStale, ShredLowConfidence, DeshredPreExecutionSellWarning,
     EarlyIntentSellWarning}"

definition fill_position_id :: "'d fill_event \<Rightarrow> string" where
  "fill_position_id f = (case fl_entry_decision_id f of
      Some d \<Rightarrow> d | None \<Rightarrow> (case fl_exit_decision_id f of Some d \<Rightarrow> d | None \<Rightarrow> fl_mint f))"

definition fill_time_for_export :: "'d fill_event \<Rightarrow> instant" where
  "fill_time_for_export f = (case fl_confirmation_time f of
      Some t \<Rightarrow> t | None \<Rightarrow> unwrap_or (fl_send_time f) (fl_landing_time f))"

subsection \<open>Chunks of feature snapshots\<close>

definition ends_with :: "string \<Rightarrow> string \<Rightarrow> bool" where
  "ends_with s suffix \<longleftrightarrow> starts_with (rev s) (rev suffix)"

definition is_ignored_artifact_name :: "string \<Rightarrow> bool" where
  "is_ignored_artifact_name name \<longleftrightarrow>
    name \<in> {''.DS_Store'', ''Thumbs.db'', ''.Spotlight-V100'', ''.fseventsd'', ''__MACOSX''} \<or> ends_with name ''~'' \<or>
    ends_with name ''.swp'' \<or> ends_with name ''.swo'' \<or> ends_with name ''.tmp''"

definition is_feature_snapshot_chunk_name :: "string \<Rightarrow> bool" where
  "is_feature_snapshot_chunk_name name \<longleftrightarrow> starts_with name ''feature_snapshots_'' \<and>
    (ends_with name ''.jsonl'' \<or> ends_with name ''.jsonl.zst'')"

definition pad5 :: "nat \<Rightarrow> string" where
  "pad5 n = (let digits = show_nat n in replicate (5 - length digits) CHR 0x30 @ digits)"

definition chunk_name :: "nat \<Rightarrow> string \<Rightarrow> string" where
  "chunk_name index ending = ''feature_snapshots_'' @ pad5 index @ ending"

definition parse_feature_chunk_index :: "string \<Rightarrow> nat option" where
  "parse_feature_chunk_index name = Option.bind (strip_prefix ''feature_snapshots_'' name) (\<lambda>rest.
     if length rest < 5 \<or> \<not> list_all is_digit (take 5 rest) then None else Some (read_nat (take 5 rest)))"

definition next_feature_snapshot_chunk_index :: "string list \<Rightarrow> nat" where
  "next_feature_snapshot_chunk_index names =
    Suc (fold max (List.map_filter parse_feature_chunk_index names) 0)"

text \<open>A directory: the rows of each file, and the writer with its index and the number of its rows.\<close>

record 'r chunk_dir =
  cd_files :: "(string \<times> 'r list) list"
  cd_writer :: "(nat \<times> nat) option"

definition closed_ending :: "bool \<Rightarrow> string" where
  "closed_ending compress = (if compress then ''.jsonl.zst'' else ''.jsonl'')"

definition finalize_chunk :: "bool \<Rightarrow> nat \<Rightarrow> 'r chunk_dir \<Rightarrow> 'r chunk_dir" where
  "finalize_chunk compress index d = (case map_of (cd_files d) (chunk_name index ''.jsonl.open'') of
      None \<Rightarrow> d
    | Some rows \<Rightarrow> d\<lparr>cd_files := AList.update (chunk_name index (closed_ending compress)) rows
        (AList.delete (chunk_name index ''.jsonl.open'') (cd_files d))\<rparr>)"

definition close_full_chunk :: "bool \<Rightarrow> nat \<Rightarrow> 'r chunk_dir \<Rightarrow> 'r chunk_dir" where
  "close_full_chunk compress chunk_rows d = (case cd_writer d of
      Some (index, rows) \<Rightarrow>
        if max chunk_rows 1 \<le> rows then (finalize_chunk compress index d)\<lparr>cd_writer := None\<rparr> else d
    | None \<Rightarrow> d)"

definition open_chunk :: "'r chunk_dir \<Rightarrow> 'r chunk_dir" where
  "open_chunk d = (case cd_writer d of
      Some w \<Rightarrow> d
    | None \<Rightarrow>
        (let index = next_feature_snapshot_chunk_index (map fst (cd_files d)); name = chunk_name index ''.jsonl.open'' in
         d\<lparr>cd_files := AList.update name (unwrap_or [] (map_of (cd_files d) name)) (cd_files d),
           cd_writer := Some (index, 0)\<rparr>))"

definition append_row :: "'r \<Rightarrow> 'r chunk_dir \<Rightarrow> 'r chunk_dir" where
  "append_row row d = (case cd_writer d of
      None \<Rightarrow> d
    | Some (index, rows) \<Rightarrow>
        (let name = chunk_name index ''.jsonl.open'' in
         d\<lparr>cd_files := AList.update name (unwrap_or [] (map_of (cd_files d) name) @ [row]) (cd_files d),
           cd_writer := Some (index, Suc rows)\<rparr>))"

definition write_feature_snapshot_chunked :: "bool \<Rightarrow> nat \<Rightarrow> 'r \<Rightarrow> 'r chunk_dir \<Rightarrow> 'r chunk_dir" where
  "write_feature_snapshot_chunked compress chunk_rows row d =
    append_row row (open_chunk (close_full_chunk compress chunk_rows d))"

definition finalize_feature_snapshot_chunks :: "bool \<Rightarrow> 'r chunk_dir \<Rightarrow> 'r chunk_dir" where
  "finalize_feature_snapshot_chunks compress d = (case cd_writer d of
      None \<Rightarrow> d | Some (index, rows) \<Rightarrow> (finalize_chunk compress index d)\<lparr>cd_writer := None\<rparr>)"

end
