(* ===== verification/Storage_Properties.thy ===== *)
theory Storage_Properties
  imports Storage "HOL-Library.Multiset"
begin

text \<open>
  What the storage engine promises: a replay does not depend on the order of the log, an export can be read back, the
  chunks of feature snapshots hold every row once, and every run is listed once.
\<close>

subsection \<open>Replay\<close>

lemma sort_key_unique:
  assumes "mset xs = mset ys" "distinct (map key xs)"
  shows "sort_key key xs = sort_key key ys"
proof -
  have sets: "set xs = set ys" using assms(1) by (metis set_mset_mset)
  have "map key (sort_key key xs) = sort (map key xs)" "map key (sort_key key ys) = sort (map key xs)"
    using assms(1) by (auto intro!: properties_for_sort [symmetric])
  moreover have "inj_on key (set xs)" using assms(2) by (simp add: distinct_map)
  ultimately show ?thesis by (intro map_inj_on [of key]) (simp_all add: sets)
qed

definition replayed :: "string option \<Rightarrow> string option \<Rightarrow> 'd stored_record \<Rightarrow> bool" where
  "replayed run_id scenario_id r \<longleftrightarrow> is_event_record r \<and> in_scope run_id scenario_id r \<and> replay_source r"

lemma replay_filter:
  "filter replay_source (filter (in_scope run_id scenario_id) (filter is_event_record logged)) =
    filter (replayed run_id scenario_id) logged"
  by (simp add: replayed_def [abs_def] conj_assoc)

lemmas replay_sorted = deterministic_replay_def [unfolded replay_filter Let_def]

lemma replay_members: "set (deterministic_replay run_id scenario_id logged) = {r \<in> set logged. replayed run_id scenario_id r}"
  by (auto simp: replay_sorted)

lemma distinct_second:
  assumes "distinct (map event_id_key rs)"
  shows "distinct (map (\<lambda>r. (f r, event_id_key r)) rs)" "distinct (map (\<lambda>r. (f r, g r, event_id_key r)) rs)"
  using assms by (induction rs) auto

text \<open>C24. A replay depends on the recorded events alone: logs with the same records in any order are replayed alike, as
  long as no two replayed events share an identifier, and the replay of a replay is the replay.\<close>

theorem replay_is_deterministic:
  assumes "mset logged = mset logged'"
    and "distinct (map event_id_key (filter (replayed run_id scenario_id) logged))"
  shows "deterministic_replay run_id scenario_id logged = deterministic_replay run_id scenario_id logged' \<and>
    deterministic_replay run_id scenario_id (deterministic_replay run_id scenario_id logged) =
      deterministic_replay run_id scenario_id logged"
proof -
  have unique: "deterministic_replay run_id scenario_id xs = deterministic_replay run_id scenario_id ys"
    if same: "mset (filter (replayed run_id scenario_id) xs) = mset (filter (replayed run_id scenario_id) ys)"
      and ids: "distinct (map event_id_key (filter (replayed run_id scenario_id) xs))" for xs ys
  proof -
    have sets: "set (filter (replayed run_id scenario_id) xs) = set (filter (replayed run_id scenario_id) ys)"
      using same by (metis set_mset_mset)
    note orders = sort_key_unique [OF same distinct_second(1) [OF ids]] sort_key_unique [OF same distinct_second(2) [OF ids]]
    show ?thesis unfolding replay_sorted list_all_iff sets orders ..
  qed
  have kept: "filter (replayed run_id scenario_id) (deterministic_replay run_id scenario_id logged) =
      deterministic_replay run_id scenario_id logged"
    by (rule filter_True) (simp add: replay_members)
  have "mset (deterministic_replay run_id scenario_id logged) = mset (filter (replayed run_id scenario_id) logged)"
    by (simp add: replay_sorted)
  then have "deterministic_replay run_id scenario_id (deterministic_replay run_id scenario_id logged) =
      deterministic_replay run_id scenario_id logged"
    by (intro unique [OF _ assms(2), symmetric]) (simp only: kept)
  moreover have "deterministic_replay run_id scenario_id logged = deterministic_replay run_id scenario_id logged'"
    by (rule unique [OF _ assms(2)]) (simp only: mset_filter assms(1))
  ultimately show ?thesis by blast
qed

definition example_gap_record :: "event_id \<Rightarrow> u64 option \<Rightarrow> rat stored_record" where
  "example_gap_record event_id sequence =
    (new_stored_record NormalizedEventLog [] [] None [] [] None (StoredEvent
      \<lparr>ne_meta = new_event_meta event_id 1 GeyserProcessed canonicality.Processed 0,
       ne_payload = DataGapPayload \<lparr>dg_gap_type = ReconnectGap, dg_source = GeyserProcessed, dg_start_slot = 0,
         dg_end_slot = None, dg_affected_tokens = [], dg_severity = gap_severity.High, dg_trade_allowed = False,
         dg_recovery_action = []\<rparr>\<rparr>))\<lparr>st_runtime_sequence_number := sequence\<rparr>"

lemma replay_is_deterministic_witness:
  "deterministic_replay None None [example_gap_record 3 (Some 7), example_gap_record 2 (Some 5)] =
    deterministic_replay None None [example_gap_record 2 (Some 5), example_gap_record 3 (Some 7)] \<and>
   deterministic_replay None None (deterministic_replay None None
     [example_gap_record 3 (Some 7), example_gap_record 2 (Some 5)]) =
    deterministic_replay None None [example_gap_record 3 (Some 7), example_gap_record 2 (Some 5)]"
  by (rule replay_is_deterministic) (simp_all add: replayed_def example_gap_record_def new_stored_record_def
      is_event_record_def in_scope_def replay_source_def record_event_def event_id_key_def is_replay_source_event_def
      new_event_meta_def add_mset_commute)

subsection \<open>Exports\<close>

text \<open>A reader of CSV: after a comma, within a plain field, within quotes, after a quote within quotes.\<close>

datatype csv_mode = AtStart | Plain | Quoted | AfterQuote

fun read_cells :: "csv_mode \<Rightarrow> string \<Rightarrow> string \<Rightarrow> string list option" where
  "read_cells AtStart f [] = Some [[]]"
| "read_cells Plain f [] = Some [rev f]"
| "read_cells Quoted f [] = None"
| "read_cells AfterQuote f [] = Some [rev f]"
| "read_cells AtStart f (c # cs) = (if c = CHR 0x22 then read_cells Quoted [] cs
     else if c = CHR 0x2C then map_option ((#) []) (read_cells AtStart [] cs) else read_cells Plain [c] cs)"
| "read_cells Plain f (c # cs) = (if c = CHR 0x2C then map_option ((#) (rev f)) (read_cells AtStart [] cs)
     else read_cells Plain (c # f) cs)"
| "read_cells Quoted f (c # cs) = (if c = CHR 0x22 then read_cells AfterQuote f cs else read_cells Quoted (c # f) cs)"
| "read_cells AfterQuote f (c # cs) = (if c = CHR 0x2C then map_option ((#) (rev f)) (read_cells AtStart [] cs)
     else if c = CHR 0x22 then read_cells Quoted (c # f) cs else None)"

definition read_csv_row :: "string \<Rightarrow> string list option" where
  "read_csv_row row = read_cells AtStart [] row"

lemma read_quoted: "read_cells Quoted f (double_quotes s @ CHR 0x22 # rest) = read_cells AfterQuote (rev s @ f) rest"
  by (induction s arbitrary: f) (auto simp: double_quotes_def)

lemma read_plain:
  "list_all (\<lambda>c. c \<noteq> CHR 0x2C) s \<Longrightarrow> read_cells Plain f (s @ rest) = read_cells Plain (rev s @ f) rest"
  by (induction s arbitrary: f) auto

lemma read_field:
  "read_cells AtStart [] (csv_field s) = Some [s]"
  "read_cells AtStart [] (csv_field s @ CHR 0x2C # rest) = map_option ((#) s) (read_cells AtStart [] rest)"
proof -
  have "read_cells AtStart [] (csv_field s) = Some [s] \<and>
    read_cells AtStart [] (csv_field s @ CHR 0x2C # rest) = map_option ((#) s) (read_cells AtStart [] rest)"
  proof (cases "list_ex (\<lambda>c. c \<in> {CHR 0x2C, CHR 0x22, CHR 0x0A}) s")
    case True
    then have "csv_field s = CHR 0x22 # double_quotes s @ [CHR 0x22]" by (simp only: csv_field_def) simp
    then show ?thesis by (simp add: read_quoted)
  next
    case False
    then have bare: "csv_field s = s" by (simp only: csv_field_def) simp
    show ?thesis
    proof (cases s)
      case (Cons c cs)
      have c: "c \<noteq> CHR 0x22" "c \<noteq> CHR 0x2C" and cs: "list_all (\<lambda>c. c \<noteq> CHR 0x2C) cs"
        using False Cons by (auto simp: list_ex_iff list_all_iff)
      have "read_cells AtStart [] s = read_cells Plain [c] (cs @ [])"
        "read_cells AtStart [] (s @ CHR 0x2C # rest) = read_cells Plain [c] (cs @ CHR 0x2C # rest)"
        using Cons c by simp_all
      then show ?thesis unfolding bare read_plain [OF cs] using Cons by simp
    qed (simp add: csv_field_def)
  qed
  then show "read_cells AtStart [] (csv_field s) = Some [s]"
    "read_cells AtStart [] (csv_field s @ CHR 0x2C # rest) = map_option ((#) s) (read_cells AtStart [] rest)" by auto
qed



subsection \<open>Chunks\<close>

lemma length_show_nat: "n < 10 ^ k \<Longrightarrow> 0 < k \<Longrightarrow> length (show_nat n) \<le> k"
proof (induction k arbitrary: n)
  case (Suc k)
  show ?case
  proof (cases "n < 10")
    case True
    then show ?thesis by (subst show_nat.simps) simp
  next
    case False
    then have "n div 10 < 10 ^ k" "0 < k" using Suc.prems by (cases k; simp; fail)+
    then show ?thesis using Suc.IH [of "n div 10"] False by (subst show_nat.simps) simp
  qed
qed simp

lemma read_zeros: "read_nat (replicate k CHR 0x30 @ s) = read_nat s"
  by (induction k) (simp_all add: read_nat_def digit_val_def)

lemma pad5_facts:
  assumes "n < 100000"
  shows "length (pad5 n) = 5" "list_all is_digit (pad5 n)" "read_nat (pad5 n) = n"
proof -
  have "length (show_nat n) \<le> 5" by (rule length_show_nat) (use assms in simp_all)
  then show "length (pad5 n) = 5" by (simp add: pad5_def Let_def)
  show "list_all is_digit (pad5 n)" using show_nat_digits [of n]
    by (auto simp: pad5_def Let_def list_all_iff is_digit_def)
  show "read_nat (pad5 n) = n" by (simp add: pad5_def Let_def read_zeros)
qed

lemma strip_own_prefix [simp]: "strip_prefix p (p @ s) = Some s"
  by (induction p) simp_all

lemma parse_chunk_name: "n < 100000 \<Longrightarrow> parse_feature_chunk_index (chunk_name n ending) = Some n"
  unfolding parse_feature_chunk_index_def chunk_name_def strip_own_prefix by (simp add: pad5_facts)

lemma chunk_name_inj:
  assumes "m < 100000" "n < 100000"
  shows "chunk_name m e = chunk_name n e' \<longleftrightarrow> m = n \<and> e = e'"
proof
  assume same: "chunk_name m e = chunk_name n e'"
  then have "m = n" using parse_chunk_name [OF assms(1), of e] parse_chunk_name [OF assms(2), of e'] by simp
  then show "m = n \<and> e = e'" using same by (simp add: chunk_name_def)
qed simp

text \<open>The files after a number of rows: the closed chunks and the one that is written.\<close>

definition chunk_slice :: "nat \<Rightarrow> 'r list \<Rightarrow> nat \<Rightarrow> 'r list" where
  "chunk_slice cap rows k = take cap (drop (k * cap) rows)"

definition closed_chunks :: "bool \<Rightarrow> nat \<Rightarrow> nat \<Rightarrow> 'r list \<Rightarrow> (string \<times> 'r list) list" where
  "closed_chunks compress cap n rows =
    map (\<lambda>k. (chunk_name (Suc k) (closed_ending compress), chunk_slice cap rows k)) [0..<n]"

definition written :: "bool \<Rightarrow> nat \<Rightarrow> 'r list \<Rightarrow> 'r chunk_dir \<Rightarrow> bool" where
  "written compress cap rows d \<longleftrightarrow>
    (if rows = [] then cd_files d = [] \<and> cd_writer d = None
     else (let n = (length rows - 1) div cap; open_rows = drop (n * cap) rows in
       cd_files d = closed_chunks compress cap n rows @ [(chunk_name (Suc n) ''.jsonl.open'', open_rows)] \<and>
       cd_writer d = Some (Suc n, length open_rows)))"

lemma closed_names:
  "map_of (closed_chunks compress cap n rows) (chunk_name m ''.jsonl.open'') = None" if "m < 100000" "n < 100000"
proof -
  have other: "chunk_name m ''.jsonl.open'' \<noteq> chunk_name (Suc k) (closed_ending compress)" if "k < n" for k
    using chunk_name_inj [of m "Suc k"] that \<open>m < 100000\<close> \<open>n < 100000\<close> by (simp add: closed_ending_def)
  show ?thesis by (auto simp: closed_chunks_def map_of_eq_None_iff dest!: other)
qed

lemma next_index:
  assumes "n < 99999"
  shows "next_feature_snapshot_chunk_index (map fst (closed_chunks compress cap n rows)) = Suc n"
proof -
  have "List.map_filter parse_feature_chunk_index (map fst (closed_chunks compress cap n rows)) = map Suc [0..<n]"
    using assms by (auto simp: closed_chunks_def map_filter_def parse_chunk_name o_def filter_True)
  moreover have "fold max (map Suc [0..<m]) 0 = m" for m by (induction m) simp_all
  ultimately show ?thesis by (simp add: next_feature_snapshot_chunk_index_def)
qed

lemma slice_append: "Suc k * cap \<le> length rows \<Longrightarrow> chunk_slice cap (rows @ extra) k = chunk_slice cap rows k"
  by (simp add: chunk_slice_def)

lemma closed_append:
  "n * cap \<le> length rows \<Longrightarrow> closed_chunks compress cap n (rows @ extra) = closed_chunks compress cap n rows"
proof -
  assume room: "n * cap \<le> length rows"
  have "Suc k * cap \<le> length rows" if "k < n" for k
    using room mult_le_mono1 [of "Suc k" n cap] that by linarith
  then show ?thesis by (simp add: closed_chunks_def slice_append del: mult_Suc)
qed

lemma closed_Suc:
  "closed_chunks compress cap (Suc n) rows = closed_chunks compress cap n rows @
     [(chunk_name (Suc n) (closed_ending compress), chunk_slice cap rows n)]"
  by (simp add: closed_chunks_def)

lemma update_last: "map_of xs k = None \<Longrightarrow> AList.update k v (xs @ [(k, v')]) = xs @ [(k, v)]"
  by (induction xs) (auto split: if_splits)

lemma update_new: "map_of xs k = None \<Longrightarrow> AList.update k v xs = xs @ [(k, v)]"
  by (induction xs) (auto split: if_splits)

lemma delete_last: "map_of xs k = None \<Longrightarrow> AList.delete k (xs @ [(k, v)]) = xs"
  by (induction xs) (auto split: if_splits)

lemma other_closed_names:
  assumes "n < 99999"
  shows "map_of (closed_chunks compress cap n rows) (chunk_name (Suc n) (closed_ending compress)) = None"
  using assms by (auto simp: closed_chunks_def map_of_eq_None_iff chunk_name_inj)

lemma written_step:
  assumes "written compress cap rows d" "0 < cap" "length rows < 99998 * cap"
  shows "written compress cap (rows @ [row]) (write_feature_snapshot_chunked compress cap row d)"
proof (cases "rows = []")
  case True
  then show ?thesis using assms(1)
    by (simp add: written_def write_feature_snapshot_chunked_def close_full_chunk_def open_chunk_def append_row_def
        next_feature_snapshot_chunk_index_def closed_chunks_def map_filter_simps unwrap_or_def Let_def)
next
  case False
  define n where "n = (length rows - 1) div cap"
  define tail where "tail = drop (n * cap) rows"
  let ?closed = "closed_chunks compress cap n rows" and ?open = "chunk_name (Suc n) ''.jsonl.open''"
  have d: "cd_files d = ?closed @ [(?open, tail)]" "cd_writer d = Some (Suc n, length tail)"
    using assms(1) False by (simp_all add: written_def Let_def n_def tail_def)
  have len: "0 < length rows" using False by simp
  have n_le: "n * cap \<le> length rows - 1" unfolding n_def by (rule div_times_less_eq_dividend)
  have n_gt: "length rows - 1 < Suc n * cap" using dividend_less_div_times [OF assms(2), of "length rows - 1"] by (simp add: n_def)
  have fits: "n * cap \<le> length rows" using n_le by linarith
  have "n < 99998" unfolding n_def using assms(2,3) by (intro less_mult_imp_div_less) linarith
  then have n: "n < 99999" "Suc n < 100000" "n < 100000" by simp_all
  have fresh: "map_of ?closed ?open = None" by (rule closed_names) (use n in simp_all)
  show ?thesis
  proof (cases "cap \<le> length tail")
    case full: True
    then have total: "length rows = Suc n * cap" using n_gt fits len by (simp add: tail_def)
    have div: "(length (rows @ [row]) - 1) div cap = Suc n" using total assms(2) by simp
    have slice: "tail = chunk_slice cap rows n" using total by (simp add: tail_def chunk_slice_def)
    let ?name = "chunk_name (Suc n) (closed_ending compress)"
    have closed: "cd_files (finalize_chunk compress (Suc n) d) = closed_chunks compress cap (Suc n) rows"
      by (simp add: finalize_chunk_def d(1) fresh map_of_append map_add_def delete_last update_new other_closed_names n closed_Suc slice)
    let ?next = "chunk_name (Suc (Suc n)) ''.jsonl.open''"
    have new: "map_of (closed_chunks compress cap (Suc n) rows) ?next = None"
      by (rule closed_names) (use \<open>n < 99998\<close> in simp_all)
    have index: "next_feature_snapshot_chunk_index (map fst (closed_chunks compress cap (Suc n) rows)) = Suc (Suc n)"
      by (rule next_index) (use \<open>n < 99998\<close> in simp)
    have "cd_files (write_feature_snapshot_chunked compress cap row d) =
        closed_chunks compress cap (Suc n) rows @ [(?next, [row])]"
      "cd_writer (write_feature_snapshot_chunked compress cap row d) = Some (Suc (Suc n), 1)"
      using full assms(2)
      by (simp_all add: write_feature_snapshot_chunked_def close_full_chunk_def d(2) open_chunk_def append_row_def Let_def
          closed index new map_add_def update_new update_last unwrap_or_def)
    moreover have "closed_chunks compress cap (Suc n) (rows @ [row]) = closed_chunks compress cap (Suc n) rows"
      by (rule closed_append) (simp add: total)
    ultimately show ?thesis using total assms(2) by (simp add: written_def div Let_def)
  next
    case False
    then have short: "length rows < Suc n * cap" using fits by (simp add: tail_def)
    have div: "length rows div cap = n"
      using short fits by (intro div_nat_eqI) (simp_all add: mult.commute)
    have "cd_files (write_feature_snapshot_chunked compress cap row d) = ?closed @ [(?open, tail @ [row])]"
      "cd_writer (write_feature_snapshot_chunked compress cap row d) = Some (Suc n, Suc (length tail))"
      using False assms(2)
      by (simp_all add: write_feature_snapshot_chunked_def close_full_chunk_def d open_chunk_def append_row_def Let_def
          fresh map_of_append map_add_def update_last unwrap_or_def)
    then show ?thesis using fits by (simp add: written_def div Let_def closed_append tail_def)
  qed
qed

lemma written_fold:
  assumes "0 < cap" "length rows \<le> 99998 * cap"
  shows "written compress cap rows (fold (write_feature_snapshot_chunked compress cap) rows \<lparr>cd_files = [], cd_writer = None\<rparr>)"
  using assms(2)
proof (induction rows rule: rev_induct)
  case (snoc row rows)
  then show ?case by (simp add: written_step [OF _ assms(1)])
qed (simp add: written_def)

lemma slices_concat: "concat (map (chunk_slice cap rows) [0..<n]) = take (n * cap) rows"
proof (induction n)
  case (Suc n)
  then show ?case by (simp add: chunk_slice_def take_add [symmetric] add.commute)
qed simp

text \<open>C25. Written one by one, the rows of a run are in the chunk files once and in order, and no file has extra rows than a
  chunk may have, as long as the chunks can be numbered with five digits.\<close>

theorem chunks_hold_every_row:
  assumes "0 < cap" "length rows \<le> 99998 * cap"
    and "d = fold (write_feature_snapshot_chunked compress cap) rows \<lparr>cd_files = [], cd_writer = None\<rparr>"
  shows "concat (map snd (cd_files d)) = rows \<and> distinct (map fst (cd_files d)) \<and>
    list_all (\<lambda>(name, chunk). length chunk \<le> cap) (cd_files d)"
proof (cases "rows = []")
  case True
  then show ?thesis by (simp add: assms(3))
next
  case False
  define n where "n = (length rows - 1) div cap"
  have files: "cd_files d = closed_chunks compress cap n rows @ [(chunk_name (Suc n) ''.jsonl.open'', drop (n * cap) rows)]"
    using written_fold [OF assms(1,2), of compress] False by (simp add: assms(3) written_def Let_def n_def)
  have "n < 99998" unfolding n_def using assms(1,2) False by (intro less_mult_imp_div_less) (cases rows; simp)
  then have names: "distinct (map fst (closed_chunks compress cap n rows))"
    by (auto simp: closed_chunks_def distinct_map inj_on_def o_def chunk_name_inj)
  have fresh: "map_of (closed_chunks compress cap n rows) (chunk_name (Suc n) ''.jsonl.open'') = None"
    by (rule closed_names) (use \<open>n < 99998\<close> in simp_all)
  have "length rows - 1 < Suc n * cap" using dividend_less_div_times [OF assms(1), of "length rows - 1"] by (simp add: n_def)
  then have last: "length (drop (n * cap) rows) \<le> cap" using False by (cases rows) simp_all
  have "concat (map snd (closed_chunks compress cap n rows)) = take (n * cap) rows"
    by (simp add: closed_chunks_def o_def slices_concat)
  moreover have "list_all (\<lambda>(name, chunk). length chunk \<le> cap) (closed_chunks compress cap n rows)"
    by (simp add: closed_chunks_def list_all_iff chunk_slice_def)
  ultimately show ?thesis using names fresh last
    by (simp add: files map_of_eq_None_iff)
qed

lemma chunks_hold_every_row_witness:
  "concat (map snd (cd_files (fold (write_feature_snapshot_chunked True 2) [1::nat, 2, 3, 4, 5]
     \<lparr>cd_files = [], cd_writer = None\<rparr>))) = [1, 2, 3, 4, 5]"
  using chunks_hold_every_row [of 2 "[1::nat, 2, 3, 4, 5]" _ True, OF _ _ refl] by simp

text \<open>From the hundred thousandth chunk on the index is read from its first five digits, so that the next chunk gets a
  number that is taken, and its file replaces the one that has it.\<close>

lemma sixth_digit_is_lost:
  "parse_feature_chunk_index (chunk_name 100000 ending) = Some 10000"
  "next_feature_snapshot_chunk_index [chunk_name 99999 e, chunk_name 100000 e'] = 100000"
proof -
  have "pad5 100000 = ''100000''" by (simp add: pad5_def Let_def show_nat.simps char_of_def bit_0)
  then show parsed: "parse_feature_chunk_index (chunk_name 100000 ending) = Some 10000" for ending
    unfolding parse_feature_chunk_index_def chunk_name_def strip_own_prefix
    by (simp add: is_digit_def read_nat_def digit_val_def)
  show "next_feature_snapshot_chunk_index [chunk_name 99999 e, chunk_name 100000 e'] = 100000"
    by (simp add: next_feature_snapshot_chunk_index_def map_filter_simps parse_chunk_name parsed)
qed

subsection \<open>Runs\<close>

definition keyed_by_run :: "(string \<times> 'd stored_run) list \<Rightarrow> bool" where
  "keyed_by_run folded \<longleftrightarrow> distinct (map fst folded) \<and> list_all (\<lambda>(run_id, r). run_id_of r = run_id) folded"

lemma list_all_update: "list_all P xs \<Longrightarrow> P (k, v) \<Longrightarrow> list_all P (AList.update k v xs)"
  by (induction xs) auto

lemma fold_metadata_keyed:
  assumes "keyed_by_run folded"
  shows "keyed_by_run (fold_metadata r folded)"
    and "fst ` set (fold_metadata r folded) = insert (run_id_of r) (fst ` set folded)"
proof -
  have update: "keyed_by_run (AList.update (run_id_of r) r folded)"
    "fst ` set (AList.update (run_id_of r) r folded) = insert (run_id_of r) (fst ` set folded)"
    using assms by (simp_all add: keyed_by_run_def distinct_update list_all_update dom_update)
  show "keyed_by_run (fold_metadata r folded)"
    using assms update by (simp add: fold_metadata_def split: option.split)
  show "fst ` set (fold_metadata r folded) = insert (run_id_of r) (fst ` set folded)"
  proof (cases "map_of folded (run_id_of r)")
    case (Some existing)
    then have "run_id_of r \<in> fst ` set folded" by (auto dest: map_of_SomeD intro: rev_image_eqI)
    then show ?thesis using Some update(2) by (simp add: fold_metadata_def insert_absorb)
  qed (use update(2) in \<open>simp add: fold_metadata_def\<close>)
qed

lemma latest_metadata_keyed:
  "keyed_by_run (latest_metadata_per_run records)"
  "fst ` set (latest_metadata_per_run records) = run_id_of ` set records"
proof -
  have "keyed_by_run folded \<Longrightarrow> keyed_by_run (fold fold_metadata records folded) \<and>
      fst ` set (fold fold_metadata records folded) = fst ` set folded \<union> run_id_of ` set records"
    for folded :: "(string \<times> 'a stored_run) list"
    by (induction records arbitrary: folded) (simp_all add: fold_metadata_keyed)
  from this [of "[]"] show "keyed_by_run (latest_metadata_per_run records)"
    "fst ` set (latest_metadata_per_run records) = run_id_of ` set records"
    by (simp_all add: latest_metadata_per_run_def keyed_by_run_def)
qed

lemma listed_run_id [simp]: "run_id_of (listed_run stats r) = run_id_of r"
  by (simp add: listed_run_def run_id_of_def with_run_stats_def Let_def split: option.split)

lemma rev_sorted: "sorted_wrt (\<lambda>x y. key y \<le> key x) (rev (sort_key key xs))"
  for key :: "'a \<Rightarrow> 'k::linorder"
  unfolding sorted_wrt_rev using sorted_sort_key [of key xs] by (simp add: sorted_map)

text \<open>Every run of the metadata log is listed once, the one with the latest clock first.\<close>

theorem runs_listed_once:
  "distinct (map run_id_of (list_runs metadata logged)) \<and>
   run_id_of ` set (list_runs metadata logged) = run_id_of ` set metadata \<and>
   sorted_wrt (\<lambda>a b. run_rank b \<le> run_rank a) (list_runs metadata logged)"
proof -
  define stats where "stats = derive_run_event_stats (filter is_event_record logged) (filter is_fill_record logged)"
  define runs where "runs = map (\<lambda>(run_id, r). listed_run stats r) (latest_metadata_per_run metadata)"
  have listed: "list_runs metadata logged = rev (sort_key run_rank (rev runs))"
    by (simp add: list_runs_def stats_def runs_def)
  note keyed = latest_metadata_keyed [of metadata]
  have "map run_id_of runs = map fst (latest_metadata_per_run metadata)"
    using keyed(1) by (auto simp: runs_def keyed_by_run_def list_all_iff)
  then have "distinct (map run_id_of runs)" "set (map run_id_of runs) = run_id_of ` set metadata"
    using keyed by (simp_all only: keyed_by_run_def set_map)
  moreover have "mset (map run_id_of (list_runs metadata logged)) = mset (map run_id_of runs)"
    by (simp add: listed)
  then have "distinct (map run_id_of (list_runs metadata logged)) = distinct (map run_id_of runs)"
    by (metis mset_eq_imp_distinct_iff)
  ultimately show ?thesis by (simp add: listed rev_sorted)
qed

end
